(* ===== verification/Prelude.thy ===== *)
theory Prelude
  imports Complex_Main "HOL-Library.List_Lexorder" "HOL-Library.Char_ord"
    "HOL-Library.Product_Lexorder"
begin

text \<open>
  Shared vocabulary of the Rusty Fleet development: Rust's saturating and checked integer
  arithmetic, floating-point values as far as the validators look at them, and byte strings (a
  Rust \<^verbatim>\<open>String\<close> is the list of its UTF-8 bytes, so length and order are those of the code) with
  the string operations the code uses: trimming, splitting, joining, lower-casing, the hexadecimal
  checks and decimal printing.
\<close>

named_theorems contract_simps \<open>characterisations of contract validators\<close>
named_theorems hub_defs \<open>definitions of Hub operations unfolded by step proofs\<close>

section \<open>Machine integers\<close>

text \<open>
  \<^verbatim>\<open>u64\<close>, \<^verbatim>\<open>usize\<close> and the smaller unsigned types are natural numbers and \<^verbatim>\<open>i64\<close> is an integer;
  every arithmetic operation the code performs on them is saturating or checked, and its bound
  is written out here.
\<close>

type_synonym u64 = nat
type_synonym usize = nat
type_synonym u8 = nat
type_synonym u16 = nat
type_synonym u32 = nat
type_synonym i64 = int

definition u64_max :: u64 where
  "u64_max = 18446744073709551615"

definition u8_max :: u8 where
  "u8_max = 255"

definition i64_max :: i64 where
  "i64_max = 9223372036854775807"

definition i64_min :: i64 where
  "i64_min = - 9223372036854775808"

definition u64_saturating_add :: "u64 \<Rightarrow> u64 \<Rightarrow> u64" where
  "u64_saturating_add a b = min (a + b) u64_max"

definition u8_saturating_add :: "u8 \<Rightarrow> u8 \<Rightarrow> u8" where
  "u8_saturating_add a b = min (a + b) u8_max"

definition u64_checked_add :: "u64 \<Rightarrow> u64 \<Rightarrow> u64 option" where
  "u64_checked_add a b = (if a + b \<le> u64_max then Some (a + b) else None)"

definition i64_saturating_sub :: "i64 \<Rightarrow> i64 \<Rightarrow> i64" where
  "i64_saturating_sub a b = max i64_min (min i64_max (a - b))"

definition i64_saturating_add :: "i64 \<Rightarrow> i64 \<Rightarrow> i64" where
  "i64_saturating_add a b = max i64_min (min i64_max (a + b))"

text \<open>
  \<^verbatim>\<open>a + b\<close> on \<^verbatim>\<open>i64\<close> as a release build computes it: the result wraps around. (A debug build panics
  when it does not fit.)
\<close>

definition i64_wrapping_add :: "i64 \<Rightarrow> i64 \<Rightarrow> i64" where
  "i64_wrapping_add a b = (a + b + 9223372036854775808) mod 18446744073709551616 - 9223372036854775808"

text \<open>\<^verbatim>\<open>to_le_bytes\<close>: the two's complement representation, least significant byte first.\<close>

fun le_bytes :: "nat \<Rightarrow> nat \<Rightarrow> string" where
  "le_bytes 0 x = []"
| "le_bytes (Suc n) x = char_of (x mod 256) # le_bytes n (x div 256)"

definition u64_to_le_bytes :: "u64 \<Rightarrow> string" where
  "u64_to_le_bytes x = le_bytes 8 x"

definition i64_to_le_bytes :: "i64 \<Rightarrow> string" where
  "i64_to_le_bytes x = le_bytes 8 (nat (x mod 18446744073709551616))"

definition is_i64 :: "int \<Rightarrow> bool" where
  "is_i64 x \<longleftrightarrow> i64_min \<le> x \<and> x \<le> i64_max"

lemma u64_saturating_add_le [simp]: "u64_saturating_add a b \<le> u64_max"
  by (simp add: u64_saturating_add_def)

lemma u64_saturating_add_mono: "a \<le> u64_max \<Longrightarrow> a \<le> u64_saturating_add a b"
  by (simp add: u64_saturating_add_def)

lemma u64_saturating_add_Suc: "a < u64_max \<Longrightarrow> u64_saturating_add a 1 = a + 1"
  by (simp add: u64_saturating_add_def)

lemma u64_checked_add_Some: "u64_checked_add a b = Some c \<longleftrightarrow> c = a + b \<and> a + b \<le> u64_max"
  by (auto simp: u64_checked_add_def)

lemma i64_saturating_sub_exact: "is_i64 (a - b) \<Longrightarrow> i64_saturating_sub a b = a - b"
  by (simp add: i64_saturating_sub_def is_i64_def)

lemma i64_saturating_sub_le_pos: "0 \<le> i64_saturating_sub a b \<longleftrightarrow> b \<le> a"
  by (auto simp: i64_saturating_sub_def i64_min_def i64_max_def)

lemma i64_wrapping_add_exact: "is_i64 (a + b) \<Longrightarrow> i64_wrapping_add a b = a + b"
  by (simp add: i64_wrapping_add_def is_i64_def i64_min_def i64_max_def)

section \<open>Floating point\<close>

text \<open>
  The code only tests \<^verbatim>\<open>f64\<close> values for finiteness and compares them with zero and with each
  other. A finite double is a rational; comparisons with NaN are false.
\<close>

datatype f64 = Finite rat | PosInf | NegInf | NaN

fun f64_is_finite :: "f64 \<Rightarrow> bool" where
  "f64_is_finite (Finite _) = True"
| "f64_is_finite _ = False"

fun f64_less :: "f64 \<Rightarrow> f64 \<Rightarrow> bool" where
  "f64_less NaN _ = False"
| "f64_less _ NaN = False"
| "f64_less (Finite a) (Finite b) = (a < b)"
| "f64_less NegInf b = (b \<noteq> NegInf)"
| "f64_less _ NegInf = False"
| "f64_less PosInf _ = False"
| "f64_less (Finite _) PosInf = True"

definition f64_less_eq :: "f64 \<Rightarrow> f64 \<Rightarrow> bool" where
  "f64_less_eq a b \<longleftrightarrow> a \<noteq> NaN \<and> b \<noteq> NaN \<and> \<not> f64_less b a"

abbreviation f64_zero :: f64 where
  "f64_zero \<equiv> Finite 0"

section \<open>Byte strings\<close>

text \<open>
  \<^verbatim>\<open>value.trim().is_empty()\<close> holds when every character is Unicode white space. The listed byte
  sequences are the UTF-8 encodings of all characters with the White\_Space property.
\<close>

fun is_blank :: "string \<Rightarrow> bool" where
  "is_blank [] = True"
| "is_blank (c # cs) =
     (if of_char c \<in> {9, 10, 11, 12, 13, 32 :: nat} then is_blank cs
      else (case cs of
        [] \<Rightarrow> False
      | d # ds \<Rightarrow>
          if of_char c = (194 :: nat) \<and> of_char d \<in> {133, 160 :: nat} then is_blank ds
          else (case ds of
            [] \<Rightarrow> False
          | e # es \<Rightarrow>
              if (of_char c = (225 :: nat) \<and> of_char d = (154 :: nat) \<and> of_char e = (128 :: nat))
                \<or> (of_char c = (226 :: nat) \<and> of_char d = (128 :: nat)
                     \<and> (of_char e \<le> (138 :: nat) \<and> 128 \<le> (of_char e :: nat)
                        \<or> of_char e \<in> {168, 169, 175 :: nat}))
                \<or> (of_char c = (226 :: nat) \<and> of_char d = (129 :: nat) \<and> of_char e = (159 :: nat))
                \<or> (of_char c = (227 :: nat) \<and> of_char d = (128 :: nat) \<and> of_char e = (128 :: nat))
              then is_blank es else False)))"

declare is_blank.simps(2) [simp del]

text \<open>\<^verbatim>\<open>str::trim\<close>: the same white space removed at both ends.\<close>

fun trim_start :: "string \<Rightarrow> string" where
  "trim_start [] = []"
| "trim_start (c # cs) =
     (if is_blank [c] then trim_start cs
      else (case cs of
        [] \<Rightarrow> [c]
      | d # ds \<Rightarrow>
          if is_blank [c, d] then trim_start ds
          else (case ds of
            [] \<Rightarrow> [c, d]
          | e # es \<Rightarrow> if is_blank [c, d, e] then trim_start es else c # d # e # es)))"

declare trim_start.simps(2) [simp del]

fun trim_end :: "string \<Rightarrow> string" where
  "trim_end [] = []"
| "trim_end (c # cs) = (if is_blank (c # cs) then [] else c # trim_end cs)"

definition trim :: "string \<Rightarrow> string" where
  "trim s = trim_end (trim_start s)"

definition is_ascii :: "char \<Rightarrow> bool" where
  "is_ascii c \<longleftrightarrow> of_char c < (128 :: nat)"

definition is_ascii_digit :: "char \<Rightarrow> bool" where
  "is_ascii_digit c \<longleftrightarrow> (48 :: nat) \<le> of_char c \<and> of_char c \<le> (57 :: nat)"

definition is_ascii_lowercase :: "char \<Rightarrow> bool" where
  "is_ascii_lowercase c \<longleftrightarrow> (97 :: nat) \<le> of_char c \<and> of_char c \<le> (122 :: nat)"

definition is_ascii_uppercase :: "char \<Rightarrow> bool" where
  "is_ascii_uppercase c \<longleftrightarrow> (65 :: nat) \<le> of_char c \<and> of_char c \<le> (90 :: nat)"

definition is_ascii_alphanumeric :: "char \<Rightarrow> bool" where
  "is_ascii_alphanumeric c \<longleftrightarrow> is_ascii_digit c \<or> is_ascii_lowercase c \<or> is_ascii_uppercase c"

definition is_lower_hex :: "char \<Rightarrow> bool" where
  "is_lower_hex c \<longleftrightarrow> is_ascii_digit c \<or> ((97 :: nat) \<le> of_char c \<and> of_char c \<le> (102 :: nat))"

definition is_ascii_hexdigit :: "char \<Rightarrow> bool" where
  "is_ascii_hexdigit c \<longleftrightarrow> is_lower_hex c \<or> ((65 :: nat) \<le> of_char c \<and> of_char c \<le> (70 :: nat))"

lemma lower_hex_iff: "is_ascii_hexdigit v \<and> \<not> is_ascii_uppercase v \<longleftrightarrow> is_lower_hex v"
  by (auto simp: is_ascii_hexdigit_def is_ascii_uppercase_def is_lower_hex_def is_ascii_digit_def)

definition is_sha256 :: "string \<Rightarrow> bool" where
  "is_sha256 s \<longleftrightarrow> length s = 64 \<and> list_all is_lower_hex s"

text \<open>
  \<^verbatim>\<open>str::to_lowercase\<close> maps ASCII letters; on a string with other characters it consults the
  Unicode tables, which are the parameter \<open>uni\<close>.
\<close>

definition ascii_lower :: "char \<Rightarrow> char" where
  "ascii_lower c = (if is_ascii_uppercase c then char_of (of_char c + 32 :: nat) else c)"

definition eq_ignore_ascii_case :: "string \<Rightarrow> string \<Rightarrow> bool" where
  "eq_ignore_ascii_case a b \<longleftrightarrow> map ascii_lower a = map ascii_lower b"

definition to_lowercase :: "(string \<Rightarrow> string) \<Rightarrow> string \<Rightarrow> string" where
  "to_lowercase uni s = (if list_all is_ascii s then map ascii_lower s else uni s)"

fun starts_with :: "string \<Rightarrow> string \<Rightarrow> bool" where
  "starts_with _ [] = True"
| "starts_with [] (_ # _) = False"
| "starts_with (c # cs) (d # ds) = (c = d \<and> starts_with cs ds)"

fun str_contains :: "string \<Rightarrow> string \<Rightarrow> bool" where
  "str_contains [] p = (p = [])"
| "str_contains (c # cs) p = (starts_with (c # cs) p \<or> str_contains cs p)"

fun split_on :: "char \<Rightarrow> string \<Rightarrow> string list" where
  "split_on sep [] = [[]]"
| "split_on sep (c # cs) =
     (if c = sep then [] # split_on sep cs
      else (case split_on sep cs of [] \<Rightarrow> [[c]] | s # ss \<Rightarrow> (c # s) # ss))"

fun join_with :: "string \<Rightarrow> string list \<Rightarrow> string" where
  "join_with sep [] = []"
| "join_with sep [s] = s"
| "join_with sep (s # ss) = s @ sep @ join_with sep ss"

fun show_nat :: "nat \<Rightarrow> string" where
  "show_nat n =
     (if n < 10 then [char_of (48 + n)] else show_nat (n div 10) @ [char_of (48 + n mod 10)])"

declare show_nat.simps [simp del]

lemma starts_with_append: "starts_with s p \<longleftrightarrow> (\<exists>t. s = p @ t)"
  by (induction s p rule: starts_with.induct) auto

lemma str_contains_iff: "str_contains s p \<longleftrightarrow> (\<exists>a b. s = a @ p @ b)"
proof (induction s)
  case Nil
  then show ?case by simp
next
  case (Cons c cs)
  have "(\<exists>a b. c # cs = a @ p @ b) \<longleftrightarrow> (\<exists>b. c # cs = p @ b) \<or> (\<exists>a b. cs = a @ p @ b)"
    (is "?L \<longleftrightarrow> ?R")
  proof
    assume ?L
    then obtain a b where eq: "c # cs = a @ p @ b" by blast
    show ?R
    proof (cases a)
      case Nil
      with eq show ?thesis by auto
    next
      case (Cons x xs)
      with eq show ?thesis by auto
    qed
  next
    assume ?R
    then show ?L
    proof
      assume "\<exists>b. c # cs = p @ b"
      then show ?L by (metis append_Nil)
    next
      assume "\<exists>a b. cs = a @ p @ b"
      then obtain a b where "cs = a @ p @ b" by blast
      then have "c # cs = (c # a) @ p @ b" by simp
      then show ?L by blast
    qed
  qed
  with Cons.IH show ?case by (simp add: starts_with_append)
qed

lemma split_on_nonempty [simp]: "split_on sep s \<noteq> []"
  by (cases s) (auto split: list.splits)

lemma join_split_on: "join_with [sep] (split_on sep s) = s"
proof (induction s)
  case Nil
  then show ?case by simp
next
  case (Cons c cs)
  obtain t ts where t: "split_on sep cs = t # ts"
    by (meson neq_Nil_conv split_on_nonempty)
  with Cons show ?case by (cases ts) auto
qed

lemma show_nat_digits: "list_all is_ascii_digit (show_nat n)"
proof (induction n rule: show_nat.induct)
  case (1 n)
  then show ?case
    by (cases "n < 10") (simp_all add: show_nat.simps [of n] is_ascii_digit_def [abs_def])
qed

end
