(* ===== verification/Ordered_Map.thy ===== *)
theory Ordered_Map
  imports Prelude
begin

text \<open>
  \<^verbatim>\<open>std::collections::BTreeMap\<close>: association lists whose keys are strictly ascending. The type
  carries the ordering invariant, as the Rust type does, and iteration (\<open>entries\<close>, \<open>keys\<close>,
  \<open>values\<close>) is in key order. The locale \<open>ordered_map\<close> is the interface the Hub's stores rely
  on; it is interpreted on this type.
\<close>

section \<open>Strictly sorted association lists\<close>

definition strictly_sorted :: "'k::linorder list \<Rightarrow> bool" where
  "strictly_sorted ks \<longleftrightarrow> sorted_wrt (<) ks"

fun al_insert :: "'k::linorder \<Rightarrow> 'v \<Rightarrow> ('k \<times> 'v) list \<Rightarrow> ('k \<times> 'v) list" where
  "al_insert k v [] = [(k, v)]"
| "al_insert k v ((a, b) # xs) =
     (if k < a then (k, v) # (a, b) # xs
      else if k = a then (k, v) # xs
      else (a, b) # al_insert k v xs)"

fun al_remove :: "'k::linorder \<Rightarrow> ('k \<times> 'v) list \<Rightarrow> ('k \<times> 'v) list" where
  "al_remove k [] = []"
| "al_remove k ((a, b) # xs) = (if k = a then xs else (a, b) # al_remove k xs)"

lemma set_al_insert: "fst ` set (al_insert k v xs) = insert k (fst ` set xs)"
  by (induction k v xs rule: al_insert.induct) auto

lemma set_al_remove_subset: "set (al_remove k xs) \<subseteq> set xs"
  by (induction k xs rule: al_remove.induct) auto

lemma strictly_sorted_al_insert:
  "strictly_sorted (map fst xs) \<Longrightarrow> strictly_sorted (map fst (al_insert k v xs))"
proof (induction k v xs rule: al_insert.induct)
  case (2 k v a b xs)
  have "fst ` set (al_insert k v xs) = insert k (fst ` set xs)"
    by (rule set_al_insert)
  with 2 show ?case
    unfolding strictly_sorted_def by (fastforce intro: less_trans)
qed (simp add: strictly_sorted_def)

lemma strictly_sorted_al_remove:
  "strictly_sorted (map fst xs) \<Longrightarrow> strictly_sorted (map fst (al_remove k xs))"
proof (induction k xs rule: al_remove.induct)
  case (2 k a b xs)
  have "set (al_remove k xs) \<subseteq> set xs"
    by (rule set_al_remove_subset)
  with 2 show ?case
    unfolding strictly_sorted_def by auto
qed simp

lemma map_of_al_insert: "map_of (al_insert k v xs) = (map_of xs)(k \<mapsto> v)"
  by (induction k v xs rule: al_insert.induct) (auto simp: fun_eq_iff)

lemma map_of_al_remove:
  "strictly_sorted (map fst xs) \<Longrightarrow> map_of (al_remove k xs) = (map_of xs)(k := None)"
proof (induction k xs rule: al_remove.induct)
  case (2 k a b xs)
  then show ?case
    by (auto simp: fun_eq_iff strictly_sorted_def map_of_eq_None_iff)
qed simp

lemma strictly_sorted_distinct: "strictly_sorted ks \<Longrightarrow> distinct ks"
  unfolding strictly_sorted_def by (induction ks) auto

lemma sorted_entries_eqI:
  assumes "strictly_sorted (map fst xs)" and "strictly_sorted (map fst ys)"
    and "map_of xs = map_of ys"
  shows "xs = ys"
proof -
  have dx: "distinct (map fst xs)" and dy: "distinct (map fst ys)"
    using assms(1,2) by (auto intro: strictly_sorted_distinct)
  have "set xs = set ys"
    using map_of_inject_set [OF dx dy] assms(3) by simp
  moreover have "sorted_wrt (\<lambda>x y. fst x < fst y) xs" "sorted_wrt (\<lambda>x y. fst x < fst y) ys"
    using assms(1,2) by (simp_all add: strictly_sorted_def sorted_wrt_map)
  ultimately show ?thesis
  proof (induction xs arbitrary: ys)
    case Nil
    then show ?case by simp
  next
    case (Cons x xs)
    then obtain y ys' where ys: "ys = y # ys'" by (cases ys) auto
    have "x = y"
    proof (rule ccontr)
      assume "x \<noteq> y"
      with Cons.prems ys have "x \<in> set ys'" and "y \<in> set xs" by auto
      with Cons.prems ys show False by fastforce
    qed
    moreover have "x \<notin> set xs" "y \<notin> set ys'"
      using Cons.prems ys by fastforce+
    ultimately have "set xs = set ys'"
      using Cons.prems(1) ys by (simp add: insert_ident)
    then have "xs = ys'"
      using Cons.prems ys by (intro Cons.IH) auto
    with \<open>x = y\<close> ys show ?case by simp
  qed
qed

section \<open>The map type\<close>

typedef (overloaded) ('k, 'v) btree_map =
  "{xs :: ('k::linorder \<times> 'v) list. strictly_sorted (map fst xs)}"
  morphisms entries BTreeMap
  by (rule exI [of _ "[]"]) (simp add: strictly_sorted_def)

setup_lifting type_definition_btree_map

lift_definition bt_empty :: "('k::linorder, 'v) btree_map" is "[]"
  by (simp add: strictly_sorted_def)

lift_definition bt_insert :: "'k::linorder \<Rightarrow> 'v \<Rightarrow> ('k, 'v) btree_map \<Rightarrow> ('k, 'v) btree_map"
  is al_insert by (rule strictly_sorted_al_insert)

lift_definition bt_remove :: "'k::linorder \<Rightarrow> ('k, 'v) btree_map \<Rightarrow> ('k, 'v) btree_map"
  is al_remove by (rule strictly_sorted_al_remove)

definition bt_get :: "('k::linorder, 'v) btree_map \<Rightarrow> 'k \<Rightarrow> 'v option" where
  "bt_get m k = map_of (entries m) k"

definition bt_keys :: "('k::linorder, 'v) btree_map \<Rightarrow> 'k list" where
  "bt_keys m = map fst (entries m)"

definition bt_values :: "('k::linorder, 'v) btree_map \<Rightarrow> 'v list" where
  "bt_values m = map snd (entries m)"

definition bt_len :: "('k::linorder, 'v) btree_map \<Rightarrow> nat" where
  "bt_len m = length (entries m)"

definition bt_contains_key :: "('k::linorder, 'v) btree_map \<Rightarrow> 'k \<Rightarrow> bool" where
  "bt_contains_key m k \<longleftrightarrow> bt_get m k \<noteq> None"

text \<open>\<^verbatim>\<open>collect::<BTreeMap<_, _>>()\<close>: later pairs overwrite earlier ones.\<close>

definition bt_from_list :: "('k::linorder \<times> 'v) list \<Rightarrow> ('k, 'v) btree_map" where
  "bt_from_list xs = fold (\<lambda>(k, v) m. bt_insert k v m) xs bt_empty"

lemma entries_bt_empty [simp]: "entries bt_empty = []"
  by (rule bt_empty.rep_eq)

lemma entries_bt_insert [simp]: "entries (bt_insert k v m) = al_insert k v (entries m)"
  by (rule bt_insert.rep_eq)

lemma entries_bt_remove [simp]: "entries (bt_remove k m) = al_remove k (entries m)"
  by (rule bt_remove.rep_eq)

lemma strictly_sorted_entries [simp]: "strictly_sorted (map fst (entries m))"
  using entries [of m] by simp

lemma bt_get_empty [simp]: "bt_get bt_empty k = None"
  by (simp add: bt_get_def)

lemma bt_get_insert [simp]:
  "bt_get (bt_insert k v m) k' = (if k' = k then Some v else bt_get m k')"
  by (simp add: bt_get_def map_of_al_insert)

lemma bt_get_remove [simp]:
  "bt_get (bt_remove k m) k' = (if k' = k then None else bt_get m k')"
  by (simp add: bt_get_def map_of_al_remove)

lemma bt_contains_key_insert [simp]:
  "bt_contains_key (bt_insert k v m) k' \<longleftrightarrow> k' = k \<or> bt_contains_key m k'"
  by (simp add: bt_contains_key_def)

lemma distinct_bt_keys [simp]: "distinct (bt_keys m)"
  unfolding bt_keys_def by (rule strictly_sorted_distinct) simp

lemma bt_get_Some_iff: "bt_get m k = Some v \<longleftrightarrow> (k, v) \<in> set (entries m)"
  using distinct_bt_keys [of m] by (simp add: bt_get_def bt_keys_def)

lemma set_bt_values: "set (bt_values m) = {v. \<exists>k. bt_get m k = Some v}"
  by (force simp: bt_values_def bt_get_Some_iff)

lemma set_bt_keys: "set (bt_keys m) = {k. bt_get m k \<noteq> None}"
proof -
  have "dom (bt_get m) = fst ` set (entries m)"
    by (simp add: bt_get_def [abs_def] dom_map_of_conv_image_fst)
  then show ?thesis
    by (auto simp: bt_keys_def dom_def)
qed

lemma btree_map_eqI: "(\<And>k. bt_get m k = bt_get n k) \<Longrightarrow> m = n"
  by (metis bt_get_def entries_inject ext sorted_entries_eqI strictly_sorted_entries)

lemma bt_insert_same: "bt_get m k = Some v \<Longrightarrow> bt_insert k v m = m"
  by (rule btree_map_eqI) simp

lemma bt_len_empty [simp]: "bt_len bt_empty = 0"
  by (simp add: bt_len_def)

lemma length_al_insert:
  "strictly_sorted (map fst xs) \<Longrightarrow>
   length (al_insert k v xs) = (if k \<in> fst ` set xs then length xs else Suc (length xs))"
proof (induction k v xs rule: al_insert.induct)
  case (2 k v a b xs)
  then have "\<forall>x\<in>set xs. a < fst x"
    by (simp add: strictly_sorted_def)
  then have "k \<notin> fst ` set xs" if "k \<le> a"
    using that by (auto dest: leD)
  with 2 show ?case by (auto simp: strictly_sorted_def)
qed simp

lemma bt_len_insert:
  "bt_len (bt_insert k v m) = (if bt_contains_key m k then bt_len m else Suc (bt_len m))"
proof -
  have "k \<in> fst ` set (entries m) \<longleftrightarrow> bt_contains_key m k"
    using set_bt_keys [of m] by (auto simp: bt_keys_def bt_contains_key_def)
  then show ?thesis
    by (simp add: bt_len_def length_al_insert)
qed

lemma bt_len_remove_le: "bt_len (bt_remove k m) \<le> bt_len m"
proof -
  have "length (al_remove k xs) \<le> length xs" for xs :: "('a \<times> 'b) list"
    by (induction k xs rule: al_remove.induct) auto
  then show ?thesis by (simp add: bt_len_def)
qed

lemma bt_get_fold_insert:
  "bt_get (fold (\<lambda>(k, v) m. bt_insert k v m) xs m) k =
     (case map_of (rev xs) k of None \<Rightarrow> bt_get m k | Some v \<Rightarrow> Some v)"
  by (induction xs arbitrary: m) (auto simp: map_add_def split: option.splits)

lemma bt_get_from_list: "bt_get (bt_from_list xs) k = map_of (rev xs) k"
  by (simp add: bt_from_list_def bt_get_fold_insert split: option.splits)

lemma bt_get_from_list_distinct:
  assumes "distinct (map fst xs)"
  shows "bt_get (bt_from_list xs) k = map_of xs k"
proof -
  have "map_of (rev xs) = map_of xs"
    using assms by (subst map_of_inject_set) (simp_all add: rev_map [symmetric])
  then show ?thesis by (simp add: bt_get_from_list)
qed

instantiation btree_map :: (linorder, type) equal
begin

definition equal_btree_map :: "('a, 'b) btree_map \<Rightarrow> ('a, 'b) btree_map \<Rightarrow> bool" where
  "equal_btree_map m n \<longleftrightarrow> entries m = entries n"

instance
  by standard (simp add: equal_btree_map_def entries_inject)

end

instantiation btree_map :: (linorder, type) size
begin

definition size_btree_map :: "('a, 'b) btree_map \<Rightarrow> nat" where
  "size_btree_map m = bt_len m"

instance ..

end

section \<open>The interface the stores rely on\<close>

locale ordered_map =
  fixes empty :: 'm
    and get :: "'m \<Rightarrow> 'k \<Rightarrow> 'v option"
    and insert_key :: "'k \<Rightarrow> 'v \<Rightarrow> 'm \<Rightarrow> 'm"
    and remove_key :: "'k \<Rightarrow> 'm \<Rightarrow> 'm"
  assumes get_empty: "get empty k = None"
    and get_insert: "get (insert_key k v m) k' = (if k' = k then Some v else get m k')"
    and get_remove: "get (remove_key k m) k' = (if k' = k then None else get m k')"
begin

definition all_entries :: "('k \<Rightarrow> 'v \<Rightarrow> bool) \<Rightarrow> 'm \<Rightarrow> bool" where
  "all_entries P m \<longleftrightarrow> (\<forall>k v. get m k = Some v \<longrightarrow> P k v)"

lemma all_entries_empty: "all_entries P empty"
  by (simp add: all_entries_def get_empty)

lemma all_entries_insert: "all_entries P m \<Longrightarrow> P k v \<Longrightarrow> all_entries P (insert_key k v m)"
  by (simp add: all_entries_def get_insert)

lemma all_entries_remove: "all_entries P m \<Longrightarrow> all_entries P (remove_key k m)"
  by (simp add: all_entries_def get_remove)

lemma all_entriesD: "all_entries P m \<Longrightarrow> get m k = Some v \<Longrightarrow> P k v"
  by (simp add: all_entries_def)

lemma all_entries_mono: "all_entries P m \<Longrightarrow> (\<And>k v. P k v \<Longrightarrow> Q k v) \<Longrightarrow> all_entries Q m"
  by (simp add: all_entries_def)

end

interpretation bt: ordered_map bt_empty bt_get bt_insert bt_remove
  by unfold_locales simp_all

end
