(* ===== verification/Contract.thy ===== *)
theory Contract
  imports Ordered_Map
begin

text \<open>
  crates/fleet-contracts/src/lib.rs: contract violations, the helpers \<open>require_nonempty\<close> and
  \<open>finish\<close>, and the loop shapes the validators share. A validator returns the violations in the
  order the code pushes them; \<open>finish\<close> turns an empty list into success. The second half holds
  the comparator and the stable sort of the standard library.
\<close>

section \<open>Contract violations\<close>

record contract_violation =
  cv_code :: string
  cv_path :: string
  cv_message :: string

definition violation :: "string \<Rightarrow> string \<Rightarrow> string \<Rightarrow> contract_violation" where
  "violation code path message = \<lparr>cv_code = code, cv_path = path, cv_message = message\<rparr>"

type_synonym failures = "contract_violation list"
type_synonym validation = "contract_violation list + unit"

text \<open>\<^verbatim>\<open>if condition { failures.push(ContractViolation::new(code, path, message)) }\<close>\<close>

definition fail_if :: "bool \<Rightarrow> string \<Rightarrow> string \<Rightarrow> string \<Rightarrow> failures" where
  "fail_if condition code path message = (if condition then [violation code path message] else [])"

definition require_nonempty :: "string \<Rightarrow> string \<Rightarrow> failures" where
  "require_nonempty value path =
     fail_if (is_blank value) ''required_text'' path ''value must not be empty''"

definition finish :: "failures \<Rightarrow> validation" where
  "finish failures = (if failures = [] then Inr () else Inl failures)"

text \<open>\<^verbatim>\<open>if let Err(nested) = x.validate() { failures.append(nested) }\<close>, without and with a path prefix.\<close>

definition nested :: "validation \<Rightarrow> failures" where
  "nested r = (case r of Inl fs \<Rightarrow> fs | Inr _ \<Rightarrow> [])"

definition nested_at :: "string \<Rightarrow> validation \<Rightarrow> failures" where
  "nested_at prefix r = map (\<lambda>f. f\<lparr>cv_path := prefix @ cv_path f\<rparr>) (nested r)"

definition valid :: "validation \<Rightarrow> bool" where
  "valid r \<longleftrightarrow> (case r of Inl _ \<Rightarrow> False | Inr _ \<Rightarrow> True)"

text \<open>\<^verbatim>\<open>for (index, x) in xs.iter().enumerate() { failures.extend(...) }\<close>, also with the previous element.\<close>

definition for_each :: "(nat \<Rightarrow> 'a \<Rightarrow> failures) \<Rightarrow> 'a list \<Rightarrow> failures" where
  "for_each f xs = concat (map (\<lambda>(i, x). f i x) (enumerate 0 xs))"

definition for_in :: "('a \<Rightarrow> failures) \<Rightarrow> 'a list \<Rightarrow> failures" where
  "for_in f xs = concat (map f xs)"

text \<open>\<^verbatim>\<open>for (key, value) in &map { ... }\<close>\<close>

definition for_entries ::
  "('k \<Rightarrow> 'v \<Rightarrow> failures) \<Rightarrow> ('k::linorder, 'v) btree_map \<Rightarrow> failures" where
  "for_entries f m = for_in (\<lambda>(k, v). f k v) (entries m)"

definition with_previous :: "'a list \<Rightarrow> ('a option \<times> 'a) list" where
  "with_previous xs = zip (None # map Some xs) xs"

definition not_after_previous :: "'k::linorder option \<Rightarrow> 'k \<Rightarrow> bool" where
  "not_after_previous previous k = (case previous of None \<Rightarrow> False | Some p \<Rightarrow> k \<le> p)"

definition on_some :: "('a \<Rightarrow> failures) \<Rightarrow> 'a option \<Rightarrow> failures" where
  "on_some f x = (case x of None \<Rightarrow> [] | Some y \<Rightarrow> f y)"

definition some_and :: "('a \<Rightarrow> bool) \<Rightarrow> 'a option \<Rightarrow> bool" where
  "some_and p x = (case x of None \<Rightarrow> False | Some y \<Rightarrow> p y)"

definition none_or :: "('a \<Rightarrow> bool) \<Rightarrow> 'a option \<Rightarrow> bool" where
  "none_or p x = (case x of None \<Rightarrow> True | Some y \<Rightarrow> p y)"

text \<open>The size of \<^verbatim>\<open>xs.iter().collect::<BTreeSet<_>>()\<close>.\<close>

definition unique_count :: "'a list \<Rightarrow> nat" where
  "unique_count xs = length (remdups xs)"

lemma fail_if_Nil [simp]: "fail_if c code path message = [] \<longleftrightarrow> \<not> c"
  by (simp add: fail_if_def)

lemma set_fail_if [simp]:
  "set (fail_if c code path message) = (if c then {violation code path message} else {})"
  by (simp add: fail_if_def)

lemma require_nonempty_Nil [simp]: "require_nonempty value path = [] \<longleftrightarrow> \<not> is_blank value"
  by (simp add: require_nonempty_def)

lemma valid_finish [simp]: "valid (finish fs) \<longleftrightarrow> fs = []"
  by (simp add: valid_def finish_def)

lemma nested_finish [simp]: "nested (finish fs) = fs"
  by (simp add: nested_def finish_def)

lemma nested_Nil [simp]: "nested r = [] \<longleftrightarrow> valid r \<or> r = Inl []"
  by (auto simp: nested_def valid_def split: sum.splits)

lemma nested_at_Nil [simp]: "nested_at p r = [] \<longleftrightarrow> nested r = []"
  by (simp add: nested_at_def)

lemma finish_not_Inl_Nil [simp]: "finish fs \<noteq> Inl []"
  by (simp add: finish_def)

lemma finish_eq_Inr [simp]: "finish fs = Inr u \<longleftrightarrow> fs = []"
  by (simp add: finish_def)

lemma valid_iff_Inr: "valid r \<longleftrightarrow> r = Inr ()"
  by (cases r) (simp_all add: valid_def)

lemma for_each_Nil [simp]: "for_each f xs = [] \<longleftrightarrow> (\<forall>i<length xs. f i (xs ! i) = [])"
proof -
  have "for_each f xs = [] \<longleftrightarrow> (\<forall>p\<in>set (enumerate 0 xs). f (fst p) (snd p) = [])"
    by (auto simp: for_each_def split_beta)
  also have "\<dots> \<longleftrightarrow> (\<forall>i<length xs. f i (xs ! i) = [])"
    by (fastforce simp: enumerate_eq_zip set_zip)
  finally show ?thesis .
qed

lemma for_in_Nil [simp]: "for_in f xs = [] \<longleftrightarrow> (\<forall>x\<in>set xs. f x = [])"
  by (simp add: for_in_def)

lemma for_entries_Nil [simp]:
  "for_entries f m = [] \<longleftrightarrow> (\<forall>k v. bt_get m k = Some v \<longrightarrow> f k v = [])"
  by (auto simp: for_entries_def bt_get_Some_iff)

lemma length_with_previous [simp]: "length (with_previous xs) = length xs"
  by (simp add: with_previous_def)

lemma nth_with_previous:
  "i < length xs \<Longrightarrow>
   with_previous xs ! i = (if i = 0 then None else Some (xs ! (i - 1)), xs ! i)"
  by (cases i) (simp_all add: with_previous_def)

lemma ascending_iff:
  fixes f :: "'a \<Rightarrow> 'k::linorder"
  shows "(\<forall>i<length xs. \<not> not_after_previous (map_option f (fst (with_previous xs ! i))) (f (xs ! i)))
     \<longleftrightarrow> strictly_sorted (map f xs)"
proof -
  have "(\<forall>i<length xs. \<not> not_after_previous (map_option f (fst (with_previous xs ! i))) (f (xs ! i)))
     \<longleftrightarrow> (\<forall>i. Suc i < length xs \<longrightarrow> f (xs ! i) < f (xs ! Suc i))"
    (is "?L \<longleftrightarrow> ?R")
  proof
    assume L: ?L
    show ?R
    proof (intro allI impI)
      fix i assume "Suc i < length xs"
      with L show "f (xs ! i) < f (xs ! Suc i)"
        by (auto simp: nth_with_previous not_after_previous_def dest: spec [of _ "Suc i"])
    qed
  next
    assume R: ?R
    show ?L
    proof (intro allI impI)
      fix i assume i: "i < length xs"
      show "\<not> not_after_previous (map_option f (fst (with_previous xs ! i))) (f (xs ! i))"
      proof (cases i)
        case 0
        with i show ?thesis by (simp add: nth_with_previous not_after_previous_def)
      next
        case (Suc j)
        with i R have "f (xs ! j) < f (xs ! i)" by simp
        with i Suc show ?thesis by (simp add: nth_with_previous not_after_previous_def)
      qed
    qed
  qed
  also have "\<dots> \<longleftrightarrow> strictly_sorted (map f xs)"
    by (simp add: strictly_sorted_def sorted_wrt_iff_nth_Suc_transp)
  finally show ?thesis .
qed

lemma on_some_Nil [simp]: "on_some f x = [] \<longleftrightarrow> (\<forall>y. x = Some y \<longrightarrow> f y = [])"
  by (cases x) (simp_all add: on_some_def)

lemma some_and_iff [simp]: "some_and p x \<longleftrightarrow> (\<exists>y. x = Some y \<and> p y)"
  by (cases x) (simp_all add: some_and_def)

lemma none_or_iff [simp]: "none_or p x \<longleftrightarrow> (\<forall>y. x = Some y \<longrightarrow> p y)"
  by (cases x) (simp_all add: none_or_def)

lemma unique_count_eq [simp]: "unique_count xs = length xs \<longleftrightarrow> distinct xs"
  by (simp add: unique_count_def length_remdups_eq remdups_id_iff_distinct)

lemma distinct_by_prefix:
  "distinct (map f xs) \<longleftrightarrow> (\<forall>i<length xs. f (xs ! i) \<notin> set (map f (take i xs)))"
proof (induction xs rule: rev_induct)
  case (snoc x xs)
  then show ?case
    by (auto simp: less_Suc_eq nth_append)
qed simp

section \<open>Comparators and stable sorting\<close>

datatype ordering = Less | Equal | Greater

fun ord_reverse :: "ordering \<Rightarrow> ordering" where
  "ord_reverse Less = Greater"
| "ord_reverse Equal = Equal"
| "ord_reverse Greater = Less"

definition ord_then :: "ordering \<Rightarrow> ordering \<Rightarrow> ordering" where
  "ord_then a b = (if a = Equal then b else a)"

definition cmp :: "'a::linorder \<Rightarrow> 'a \<Rightarrow> ordering" where
  "cmp a b = (if a < b then Less else if a = b then Equal else Greater)"

text \<open>Rust orders \<^verbatim>\<open>None\<close> before every \<^verbatim>\<open>Some\<close>.\<close>

fun cmp_option :: "'a::linorder option \<Rightarrow> 'a option \<Rightarrow> ordering" where
  "cmp_option None None = Equal"
| "cmp_option None (Some _) = Less"
| "cmp_option (Some _) None = Greater"
| "cmp_option (Some a) (Some b) = cmp a b"

text \<open>A comparator that is a total preorder, as \<^verbatim>\<open>sort_by\<close> requires.\<close>

definition total_comparator :: "('a \<Rightarrow> 'a \<Rightarrow> ordering) \<Rightarrow> bool" where
  "total_comparator c \<longleftrightarrow>
     (\<forall>a b. c b a = ord_reverse (c a b)) \<and>
     (\<forall>a b d. c a b \<noteq> Greater \<longrightarrow> c b d \<noteq> Greater \<longrightarrow> c a d \<noteq> Greater)"

text \<open>\<^verbatim>\<open>slice::sort_by\<close> is stable, so for a total preorder its result is the one computed here.\<close>

fun insort_by :: "('a \<Rightarrow> 'a \<Rightarrow> ordering) \<Rightarrow> 'a \<Rightarrow> 'a list \<Rightarrow> 'a list" where
  "insort_by c x [] = [x]"
| "insort_by c x (y # ys) = (if c x y = Greater then y # insort_by c x ys else x # y # ys)"

definition sort_by :: "('a \<Rightarrow> 'a \<Rightarrow> ordering) \<Rightarrow> 'a list \<Rightarrow> 'a list" where
  "sort_by c xs = foldr (insort_by c) xs []"

lemma set_insort_by [simp]: "set (insort_by c x xs) = insert x (set xs)"
  by (induction xs) auto

lemma length_insort_by [simp]: "length (insort_by c x xs) = Suc (length xs)"
  by (induction xs) auto

lemma set_sort_by [simp]: "set (sort_by c xs) = set xs"
  by (induction xs) (simp_all add: sort_by_def)

lemma length_sort_by [simp]: "length (sort_by c xs) = length xs"
  by (induction xs) (simp_all add: sort_by_def)

lemma sort_by_Nil [simp]: "sort_by c [] = []"
  by (simp add: sort_by_def)

lemma sort_by_Cons [simp]: "sort_by c (x # xs) = insort_by c x (sort_by c xs)"
  by (simp add: sort_by_def)

lemma distinct_insort_by: "distinct (insort_by c x xs) \<longleftrightarrow> x \<notin> set xs \<and> distinct xs"
  by (induction xs) auto

lemma distinct_sort_by [simp]: "distinct (sort_by c xs) \<longleftrightarrow> distinct xs"
  by (induction xs) (simp_all add: distinct_insort_by)

lemma ord_reverse_eq [simp]:
  "ord_reverse a = Greater \<longleftrightarrow> a = Less"
  "ord_reverse a = Less \<longleftrightarrow> a = Greater"
  "ord_reverse a = Equal \<longleftrightarrow> a = Equal"
  "ord_reverse (ord_reverse a) = a"
  by (cases a; simp)+

lemma total_comparator_flip: "total_comparator c \<Longrightarrow> c b a = ord_reverse (c a b)"
  unfolding total_comparator_def by blast

lemma total_comparator_trans:
  "total_comparator c \<Longrightarrow> c a b \<noteq> Greater \<Longrightarrow> c b d \<noteq> Greater \<Longrightarrow> c a d \<noteq> Greater"
  unfolding total_comparator_def by blast

lemma total_comparator_Greater: "total_comparator c \<Longrightarrow> c a b = Greater \<longleftrightarrow> c b a = Less"
  using total_comparator_flip [of c b a] by simp

lemma total_comparatorI:
  assumes "\<And>a b. c b a = ord_reverse (c a b)"
    and "\<And>a b d. c a b \<noteq> Greater \<Longrightarrow> c b d \<noteq> Greater \<Longrightarrow> c a d \<noteq> Greater"
  shows "total_comparator c"
  unfolding total_comparator_def using assms by blast

lemma sorted_insort_by:
  assumes "total_comparator c" and "sorted_wrt (\<lambda>a b. c a b \<noteq> Greater) xs"
  shows "sorted_wrt (\<lambda>a b. c a b \<noteq> Greater) (insort_by c x xs)"
  using assms(2)
proof (induction xs)
  case (Cons y ys)
  show ?case
  proof (cases "c x y = Greater")
    case True
    then have "c y x \<noteq> Greater"
      using total_comparator_Greater [OF assms(1), of x y] by simp
    with True Cons show ?thesis by auto
  next
    case False
    with Cons.prems show ?thesis
      by (auto dest: total_comparator_trans [OF assms(1)])
  qed
qed simp

lemma sorted_sort_by:
  "total_comparator c \<Longrightarrow> sorted_wrt (\<lambda>a b. c a b \<noteq> Greater) (sort_by c xs)"
  by (induction xs) (simp_all add: sorted_insort_by)

lemma total_comparator_cmp: "total_comparator (\<lambda>a b. cmp (f a) (f b))"
  by (rule total_comparatorI) (auto simp: cmp_def split: if_splits)

lemma total_comparator_cmp_option: "total_comparator (\<lambda>a b. cmp_option (f a) (f b))"
proof (rule total_comparatorI)
  fix a b
  show "cmp_option (f b) (f a) = ord_reverse (cmp_option (f a) (f b))"
    by (cases "f a"; cases "f b") (auto simp: cmp_def)
next
  fix a b d
  assume "cmp_option (f a) (f b) \<noteq> Greater" "cmp_option (f b) (f d) \<noteq> Greater"
  then show "cmp_option (f a) (f d) \<noteq> Greater"
    by (cases "f a"; cases "f b"; cases "f d") (auto simp: cmp_def split: if_splits)
qed

lemma total_comparator_equal: "total_comparator (\<lambda>_ _. Equal)"
  by (simp add: total_comparator_def)

lemma total_comparator_reverse:
  assumes "total_comparator c"
  shows "total_comparator (\<lambda>a b. ord_reverse (c a b))"
proof (rule total_comparatorI)
  fix a b
  show "ord_reverse (c b a) = ord_reverse (ord_reverse (c a b))"
    using total_comparator_flip [OF assms, of b a] by simp
next
  fix x y z
  assume "ord_reverse (c x y) \<noteq> Greater" "ord_reverse (c y z) \<noteq> Greater"
  then have "c z y \<noteq> Greater" "c y x \<noteq> Greater"
    using total_comparator_Greater [OF assms] by simp_all
  then have "c z x \<noteq> Greater" by (rule total_comparator_trans [OF assms])
  then show "ord_reverse (c x z) \<noteq> Greater"
    using total_comparator_Greater [OF assms, of z x] by simp
qed

lemma total_comparator_then:
  assumes c: "total_comparator c" and d: "total_comparator d"
  shows "total_comparator (\<lambda>a b. ord_then (c a b) (d a b))"
proof (rule total_comparatorI)
  fix a b
  show "ord_then (c b a) (d b a) = ord_reverse (ord_then (c a b) (d a b))"
    unfolding total_comparator_flip [OF c, of b a] total_comparator_flip [OF d, of b a]
    by (simp add: ord_then_def)
next
  fix x y z
  assume xy: "ord_then (c x y) (d x y) \<noteq> Greater" and yz: "ord_then (c y z) (d y z) \<noteq> Greater"
  have cxy: "c x y \<noteq> Greater" and cyz: "c y z \<noteq> Greater"
    using xy yz by (auto simp: ord_then_def split: if_splits)
  then have cxz: "c x z \<noteq> Greater" by (rule total_comparator_trans [OF c])
  show "ord_then (c x z) (d x z) \<noteq> Greater"
  proof (cases "c x z = Equal")
    case True
    then have "c z x = Equal"
      using total_comparator_flip [OF c, of z x] by simp
    then have "c y x \<noteq> Greater" "c z y \<noteq> Greater"
      using total_comparator_trans [OF c cyz, of x] total_comparator_trans [OF c _ cxy, of z]
      by simp_all
    then have "c x y = Equal" "c y z = Equal"
      using cxy cyz total_comparator_Greater [OF c] by (metis ordering.exhaust)+
    with xy yz have "d x y \<noteq> Greater" "d y z \<noteq> Greater"
      by (simp_all add: ord_then_def)
    then have "d x z \<noteq> Greater" by (rule total_comparator_trans [OF d])
    with True show ?thesis by (simp add: ord_then_def)
  next
    case False
    with cxz show ?thesis by (simp add: ord_then_def)
  qed
qed

end
