(* ===== verification/Device_Facts.thy ===== *)
theory Device_Facts
  imports Contract
begin

text \<open>
  crates/fleet-contracts/src/condition.rs and capability.rs: status conditions with their
  staleness rule and capability snapshots with the readiness rule, and the validators of both.
  A \<^verbatim>\<open>serde_json::Value\<close> is opaque to this code (only the number of extension fields is looked
  at), so it is an uninterpreted type.
\<close>

typedecl json_value

type_synonym extensions = "(string, json_value) btree_map"

section \<open>Status conditions (condition.rs)\<close>

datatype condition_family =
  Family_Identity | Family_Freshness | Family_Power | Family_Application | Family_Control
| Family_Privileged | Family_Media | Family_Work | Family_Alert

datatype condition_state =
  Current | InProgress | Busy | Stale | Unknown | Unsupported | Disabled | Unauthorized
| Disconnected | Unavailable | Degraded | Failed | Critical | Restricted

datatype sensitivity = Public | Operator | Sensitivity_Restricted

text \<open>\<^verbatim>\<open>#[derive(PartialOrd, Ord)]\<close> orders the families by declaration.\<close>

fun family_index :: "condition_family \<Rightarrow> nat" where
  "family_index Family_Identity = 0"
| "family_index Family_Freshness = 1"
| "family_index Family_Power = 2"
| "family_index Family_Application = 3"
| "family_index Family_Control = 4"
| "family_index Family_Privileged = 5"
| "family_index Family_Media = 6"
| "family_index Family_Work = 7"
| "family_index Family_Alert = 8"

lemma family_index_inject [simp]: "family_index a = family_index b \<longleftrightarrow> a = b"
  by (cases a; cases b) simp_all

instantiation condition_family :: linorder
begin

definition less_eq_condition_family :: "condition_family \<Rightarrow> condition_family \<Rightarrow> bool" where
  "less_eq_condition_family a b \<longleftrightarrow> family_index a \<le> family_index b"

definition less_condition_family :: "condition_family \<Rightarrow> condition_family \<Rightarrow> bool" where
  "less_condition_family a b \<longleftrightarrow> family_index a < family_index b"

instance
  by standard (auto simp: less_eq_condition_family_def less_condition_family_def)

end

record status_source =
  ss_adapter_id :: string
  ss_owner :: string
  ss_authority_revision :: u64

record status_condition =
  sc_family :: condition_family
  sc_state :: condition_state
  sc_reason :: string
  sc_message :: string
  sc_source_time_ms :: i64
  sc_received_time_ms :: i64
  sc_accepted_revision :: u64
  sc_fresh_until_ms :: i64
  sc_source :: status_source
  sc_sensitivity :: sensitivity
  sc_extensions :: extensions

definition condition_age_ms :: "status_condition \<Rightarrow> i64 \<Rightarrow> i64" where
  "condition_age_ms c now_ms = max (i64_saturating_sub now_ms (sc_received_time_ms c)) 0"

definition is_stale_at :: "status_condition \<Rightarrow> i64 \<Rightarrow> bool" where
  "is_stale_at c now_ms \<longleftrightarrow> now_ms > sc_fresh_until_ms c \<or> sc_state c = Stale"

definition validate_condition :: "status_condition \<Rightarrow> validation" where
  "validate_condition c = finish (
     require_nonempty (sc_reason c) ''reason'' @
     require_nonempty (sc_message c) ''message'' @
     require_nonempty (ss_adapter_id (sc_source c)) ''source.adapter_id'' @
     require_nonempty (ss_owner (sc_source c)) ''source.owner'' @
     fail_if (sc_accepted_revision c = 0 \<or> ss_authority_revision (sc_source c) = 0)
       ''invalid_revision'' ''accepted_revision''
       ''accepted and authority revisions must be greater than zero'' @
     fail_if (sc_fresh_until_ms c < sc_received_time_ms c)
       ''invalid_freshness'' ''fresh_until_ms''
       ''freshness deadline must not precede receive time'' @
     fail_if (bt_len (sc_extensions c) > 32)
       ''condition_too_large'' ''extensions''
       ''status conditions support at most 32 extension fields'')"

lemma valid_condition [contract_simps]:
  "valid (validate_condition c) \<longleftrightarrow>
     \<not> is_blank (sc_reason c) \<and> \<not> is_blank (sc_message c) \<and>
     \<not> is_blank (ss_adapter_id (sc_source c)) \<and> \<not> is_blank (ss_owner (sc_source c)) \<and>
     0 < sc_accepted_revision c \<and> 0 < ss_authority_revision (sc_source c) \<and>
     sc_received_time_ms c \<le> sc_fresh_until_ms c \<and> bt_len (sc_extensions c) \<le> 32"
  by (auto simp: validate_condition_def)

lemma validate_condition_not_Inl_Nil [simp]: "validate_condition c \<noteq> Inl []"
  by (simp add: validate_condition_def)

lemma stale_monotone: "is_stale_at c t \<Longrightarrow> t \<le> t' \<Longrightarrow> is_stale_at c t'"
  by (auto simp: is_stale_at_def)

section \<open>Capabilities (capability.rs)\<close>

datatype support_state = Support_Supported | Support_Unsupported | Support_Unknown
datatype enablement_state = Enablement_Enabled | Enablement_Disabled | Enablement_Unknown
datatype authorization_state =
  Authorization_Authorized | Authorization_Unauthorized | Authorization_Restricted
| Authorization_Unknown
datatype reachability_state =
  Reachability_Reachable | Reachability_Disconnected | Reachability_Unavailable
| Reachability_Unknown
datatype freshness_state = Freshness_Current | Freshness_Stale | Freshness_Unknown

record capability_state =
  cap_capability_id :: string
  cap_support :: support_state
  cap_enablement :: enablement_state
  cap_authorization :: authorization_state
  cap_reachability :: reachability_state
  cap_freshness :: freshness_state
  cap_evidence_revision :: u64
  cap_observed_at_ms :: i64
  cap_fresh_until_ms :: i64
  cap_owner :: string
  cap_reason :: string
  cap_extensions :: extensions

definition is_ready :: "capability_state \<Rightarrow> bool" where
  "is_ready c \<longleftrightarrow>
     cap_support c = Support_Supported \<and>
     cap_enablement c = Enablement_Enabled \<and>
     cap_authorization c = Authorization_Authorized \<and>
     cap_reachability c = Reachability_Reachable \<and>
     cap_freshness c = Freshness_Current"

definition validate_capability :: "capability_state \<Rightarrow> validation" where
  "validate_capability c = finish (
     require_nonempty (cap_capability_id c) ''capability_id'' @
     require_nonempty (cap_owner c) ''owner'' @
     require_nonempty (cap_reason c) ''reason'' @
     fail_if (cap_evidence_revision c = 0)
       ''invalid_revision'' ''evidence_revision''
       ''evidence revision must be greater than zero'' @
     fail_if (cap_fresh_until_ms c < cap_observed_at_ms c)
       ''invalid_freshness'' ''fresh_until_ms''
       ''freshness deadline must not precede observation time'')"

lemma valid_capability [contract_simps]:
  "valid (validate_capability c) \<longleftrightarrow>
     \<not> is_blank (cap_capability_id c) \<and> \<not> is_blank (cap_owner c) \<and> \<not> is_blank (cap_reason c) \<and>
     0 < cap_evidence_revision c \<and> cap_observed_at_ms c \<le> cap_fresh_until_ms c"
  by (auto simp: validate_capability_def)

lemma validate_capability_not_Inl_Nil [simp]: "validate_capability c \<noteq> Inl []"
  by (simp add: validate_capability_def)

record capability_snapshot =
  caps_capabilities :: "(string, capability_state) btree_map"
  caps_extensions :: extensions

definition capability_get :: "capability_snapshot \<Rightarrow> string \<Rightarrow> capability_state option" where
  "capability_get s capability_id = bt_get (caps_capabilities s) capability_id"

definition validate_capabilities :: "capability_snapshot \<Rightarrow> validation" where
  "validate_capabilities s = finish (
     fail_if (bt_len (caps_capabilities s) > 128 \<or> bt_len (caps_extensions s) > 64)
       ''capability_snapshot_too_large'' ''capabilities''
       ''capability snapshots support at most 128 entries and 64 extension fields'' @
     for_entries (\<lambda>key capability.
        fail_if (key \<noteq> cap_capability_id capability)
          ''capability_key_mismatch'' (''capabilities.'' @ key)
          ''map key must equal capability_id'' @
        nested_at (''capabilities.'' @ key @ ''.'') (validate_capability capability))
       (caps_capabilities s))"

lemma valid_capabilities [contract_simps]:
  "valid (validate_capabilities s) \<longleftrightarrow>
     bt_len (caps_capabilities s) \<le> 128 \<and> bt_len (caps_extensions s) \<le> 64 \<and>
     (\<forall>key c. capability_get s key = Some c \<longrightarrow>
        key = cap_capability_id c \<and> valid (validate_capability c))"
  by (auto simp: validate_capabilities_def capability_get_def)

lemma validate_capabilities_not_Inl_Nil [simp]: "validate_capabilities s \<noteq> Inl []"
  by (simp add: validate_capabilities_def)

end
