(* ===== verification/Stream_Contract.thy ===== *)
theory Stream_Contract
  imports Device_Facts
begin

text \<open>
  crates/fleet-contracts/src/stream.rs: the descriptors of a datastream (semantics, native
  descriptor, source selection, epochs, timing, cadence, progress, queues, budget, experiment run
  and recording), the validator of \<^verbatim>\<open>StreamDescriptor\<close> in its parts, and the ranking that picks the
  strongest required progress condition. \<^verbatim>\<open>serde_json::to_vec\<close> is the parameter \<open>json_bytes\<close>: the
  length of the serialised value, \<open>None\<close> when serialisation fails.
\<close>

section \<open>Data\<close>

datatype stream_plane = Plane_Control | Plane_Observation | Plane_Media

record stream_semantic =
  sem_family :: string
  sem_class :: string
  sem_schema_profile :: string
  sem_plane :: stream_plane
  sem_sensitivity :: sensitivity

record native_descriptor =
  nd_kind :: string
  nd_adapter_version :: string
  nd_native_protocol_version :: string
  nd_digest_sha256 :: string
  nd_captured_at_ms :: i64
  nd_document :: "json_value option"
  nd_reference :: "string option"

datatype selection_method =
  SavedRule | ManualPin | OwnerManifestExactMatch | SingleCandidate | PolicyTiebreak
| UnresolvedAmbiguous | NoCandidate

record source_selection =
  sel_query_language :: string
  sel_query :: string
  sel_expected_cardinality :: usize
  sel_candidate_count :: usize
  sel_candidate_descriptor_digests :: "string list"
  sel_chosen_native_instance :: "string option"
  sel_method :: selection_method
  sel_valid_until_ms :: i64
  sel_override_actor :: "string option"
  sel_override_reason :: "string option"

datatype epoch_continuity =
  Epoch_Continuous | Epoch_SourceContinuityProven | Epoch_Discontinuous | Epoch_Unknown

record component_epoch =
  ce_id :: string
  ce_predecessor :: "string option"
  ce_reason :: string
  ce_continuity :: epoch_continuity
  ce_native_instance :: "string option"

record component_epochs =
  ces_source :: component_epoch
  ces_route :: "component_epoch option"
  ces_processing :: "component_epoch option"
  ces_sink :: "component_epoch option"
  ces_path_generation :: string

record timing_domain =
  td_domain_id :: string
  td_domain_kind :: string
  td_units :: string
  td_time_base_numerator :: i64
  td_time_base_denominator :: i64
  td_raw_timestamp_preserved :: bool

record timing_transform =
  tt_transform_id :: string
  tt_from_domain :: string
  tt_to_domain :: string
  tt_method :: string
  tt_offset_ms :: f64
  tt_uncertainty_ms :: f64
  tt_valid_from_ms :: i64
  tt_valid_to_ms :: "i64 option"
  tt_postprocessing :: "string list"

record timing_correlation =
  tc_domains :: "timing_domain list"
  tc_transforms :: "timing_transform list"
  tc_clock_reset_count :: u64
  tc_fixed_latency_ms :: "f64 option"
  tc_fixed_latency_uncertainty_ms :: "f64 option"
  tc_calibration_reference :: "string option"

datatype cadence_mode = Cadence_Regular | Cadence_Irregular | Cadence_EventDriven

record cadence_policy =
  cad_mode :: cadence_mode
  cad_nominal_rate_hz :: "f64 option"
  cad_accepted_rate_min_hz :: "f64 option"
  cad_accepted_rate_max_hz :: "f64 option"
  cad_measurement_window_ms :: u64
  cad_gap_tolerance_ms :: "u64 option"
  cad_no_data_deadline_ms :: "u64 option"
  cad_heartbeat :: "string option"
  cad_sequence_semantics :: string

datatype progress_stage =
  SourceReceipt | Admission | Route | Process | Bytes | CompletePayload | DecodeOrSchema | Sink
| Stage_Recording | Cleanup

fun stage_index :: "progress_stage \<Rightarrow> nat" where
  "stage_index SourceReceipt = 0"
| "stage_index Admission = 1"
| "stage_index Route = 2"
| "stage_index Process = 3"
| "stage_index Bytes = 4"
| "stage_index CompletePayload = 5"
| "stage_index DecodeOrSchema = 6"
| "stage_index Sink = 7"
| "stage_index Stage_Recording = 8"
| "stage_index Cleanup = 9"

lemma stage_index_inject [simp]: "stage_index a = stage_index b \<longleftrightarrow> a = b"
  by (cases a; cases b) simp_all

instantiation progress_stage :: linorder
begin

definition less_eq_progress_stage :: "progress_stage \<Rightarrow> progress_stage \<Rightarrow> bool" where
  "less_eq_progress_stage a b \<longleftrightarrow> stage_index a \<le> stage_index b"

definition less_progress_stage :: "progress_stage \<Rightarrow> progress_stage \<Rightarrow> bool" where
  "less_progress_stage a b \<longleftrightarrow> stage_index a < stage_index b"

instance
  by standard (auto simp: less_eq_progress_stage_def less_progress_stage_def)

end

text \<open>\<^verbatim>\<open>#[derive(Debug)]\<close> prints the variant's name.\<close>

fun stage_debug :: "progress_stage \<Rightarrow> string" where
  "stage_debug SourceReceipt = ''SourceReceipt''"
| "stage_debug Admission = ''Admission''"
| "stage_debug Route = ''Route''"
| "stage_debug Process = ''Process''"
| "stage_debug Bytes = ''Bytes''"
| "stage_debug CompletePayload = ''CompletePayload''"
| "stage_debug DecodeOrSchema = ''DecodeOrSchema''"
| "stage_debug Sink = ''Sink''"
| "stage_debug Stage_Recording = ''Recording''"
| "stage_debug Cleanup = ''Cleanup''"

datatype progress_applicability = Required | Optional | NotApplicable

datatype content_progress_policy =
  Content_Sequence | Content_Timestamp | Content_ChangingIdentity | Content_ExpectedStatic
| Content_SemanticValue | Content_NotApplicable

record progress_stage_evidence =
  pe_applicability :: progress_applicability
  pe_deadline_ms :: "u64 option"
  pe_state :: "condition_state option"
  pe_observed_revision :: "u64 option"
  pe_last_progress_ms :: "i64 option"
  pe_reason :: string

record progress_profile =
  pp_profile_id :: string
  pp_content_progress :: content_progress_policy
  pp_stages :: "(progress_stage, progress_stage_evidence) btree_map"

record queue_limits =
  ql_items :: usize
  ql_bytes :: usize
  ql_duration_ms :: u64

datatype overflow_policy =
  Overflow_Reject | BlockProducer | DropOldest | DropNewest | FailConsumer

record edge_queue_policy =
  eq_edge_id :: string
  eq_producer :: string
  eq_consumer :: string
  eq_limits :: queue_limits
  eq_overflow :: overflow_policy
  eq_producer_may_block :: bool
  eq_retain_codec_configuration :: bool
  eq_restart_requires_keyframe :: bool
  eq_slow_consumer_action :: string

record admission_budget =
  ab_bandwidth_bytes_per_second :: u64
  ab_samples_or_frames_per_second :: f64
  ab_decode_slots :: u32
  ab_queue_bytes :: u64
  ab_queue_duration_ms :: u64
  ab_disk_bytes :: u64
  ab_recorder_slots :: u32
  ab_maximum_clock_uncertainty_ms :: "f64 option"
  ab_priority_class :: string

record experiment_run =
  er_run_id :: string
  er_protocol_id :: string
  er_protocol_version :: string
  er_participant_reference :: "string option"
  er_required_stream_rules :: "string list"
  er_optional_stream_rules :: "string list"
  er_marker_schema :: "string option"
  er_selection_snapshot_id :: string
  er_started_at_ms :: i64
  er_recording_policy_revision :: u64
  er_approved_deviations :: "string list"

datatype recording_artifact_state =
  Rec_Starting | Rec_Writing | Rec_Stalled | Rec_Finalizing | Rec_Complete | Rec_Failed
| Rec_Cleaned

record recording_artifact =
  ra_artifact_id :: string
  ra_format :: string
  ra_state :: recording_artifact_state
  ra_bytes_written :: u64
  ra_last_write_ms :: "i64 option"
  ra_native_metadata_digests :: "string list"
  ra_clock_history_present :: bool
  ra_checksum_sha256 :: "string option"
  ra_encrypted_at_rest :: bool
  ra_retention_until_ms :: "i64 option"
  ra_cleanup_receipt_id :: "string option"
  ra_replay_validation :: "string option"

record stream_descriptor =
  sd_schema :: string
  sd_logical_stream_id :: string
  sd_semantic :: stream_semantic
  sd_native_descriptor :: native_descriptor
  sd_selection :: source_selection
  sd_epochs :: component_epochs
  sd_accepted_authority_revision :: u64
  sd_timing :: timing_correlation
  sd_cadence :: cadence_policy
  sd_progress :: progress_profile
  sd_queues :: "edge_queue_policy list"
  sd_budget :: admission_budget
  sd_experiment_run :: "experiment_run option"
  sd_recording :: "recording_artifact option"
  sd_extensions :: extensions

section \<open>The strongest required progress condition\<close>

fun condition_rank :: "condition_state \<Rightarrow> nat" where
  "condition_rank Current = 0"
| "condition_rank InProgress = 1"
| "condition_rank Busy = 2"
| "condition_rank Unknown = 3"
| "condition_rank Unsupported = 4"
| "condition_rank Disabled = 5"
| "condition_rank Restricted = 6"
| "condition_rank Disconnected = 7"
| "condition_rank Unavailable = 8"
| "condition_rank Stale = 9"
| "condition_rank Degraded = 10"
| "condition_rank Unauthorized = 11"
| "condition_rank Failed = 12"
| "condition_rank Critical = 13"

text \<open>\<^verbatim>\<open>Iterator::max_by_key\<close> returns the last of the maximal elements.\<close>

fun max_by_key :: "('a \<Rightarrow> 'k::linorder) \<Rightarrow> 'a list \<Rightarrow> 'a option" where
  "max_by_key f [] = None"
| "max_by_key f (x # xs) =
     (case max_by_key f xs of
        None \<Rightarrow> Some x
      | Some y \<Rightarrow> if f y < f x then Some x else Some y)"

definition required_conditions :: "progress_profile \<Rightarrow> (progress_stage \<times> condition_state) list" where
  "required_conditions p = List.map_filter (\<lambda>(stage, evidence).
     if pe_applicability evidence = Required
     then map_option (\<lambda>state. (stage, state)) (pe_state evidence) else None)
     (entries (pp_stages p))"

definition strongest_required_condition ::
  "progress_profile \<Rightarrow> (progress_stage \<times> condition_state) option" where
  "strongest_required_condition p = 
     max_by_key (\<lambda>(stage, state). (condition_rank state, stage)) (required_conditions p)"

lemma max_by_key_None [simp]: "max_by_key f xs = None \<longleftrightarrow> xs = []"
  by (cases xs) (auto split: option.splits)

lemma max_by_key_Some:
  "max_by_key f xs = Some x \<Longrightarrow> x \<in> set xs \<and> (\<forall>y\<in>set xs. f y \<le> f x)"
  by (induction xs arbitrary: x) (fastforce split: option.splits if_splits)+

lemma set_required_conditions:
  "(stage, state) \<in> set (required_conditions p) \<longleftrightarrow>
     (\<exists>e. bt_get (pp_stages p) stage = Some e \<and> pe_applicability e = Required \<and> pe_state e = Some state)"
  by (force simp: required_conditions_def List.map_filter_def bt_get_Some_iff split: if_splits)

section \<open>Validation of a stream descriptor\<close>

definition semantic_failures :: "stream_descriptor \<Rightarrow> failures" where
  "semantic_failures d =
     fail_if (sd_schema d \<noteq> ''rusty.fleet.stream_descriptor.v1'')
       ''wrong_schema'' ''schema'' ''expected rusty.fleet.stream_descriptor.v1'' @
     require_nonempty (sd_logical_stream_id d) ''logical_stream_id'' @
     require_nonempty (sem_family (sd_semantic d)) ''semantic.family'' @
     require_nonempty (sem_class (sd_semantic d)) ''semantic.class'' @
     require_nonempty (sem_schema_profile (sd_semantic d)) ''semantic.schema_profile''"

definition native_descriptor_failures ::
  "(json_value \<Rightarrow> nat option) \<Rightarrow> native_descriptor \<Rightarrow> failures" where
  "native_descriptor_failures json_bytes n =
     require_nonempty (nd_kind n) ''native_descriptor.kind'' @
     fail_if (\<not> is_sha256 (nd_digest_sha256 n))
       ''invalid_digest'' ''native_descriptor.digest_sha256''
       ''native descriptor digest must be lowercase SHA-256'' @
     fail_if ((nd_document n \<noteq> None) = (nd_reference n \<noteq> None))
       ''invalid_native_descriptor_storage'' ''native_descriptor''
       ''exactly one native document or role-controlled reference is required'' @
     fail_if (some_and (\<lambda>n. n > 1048576) (Option.bind (nd_document n) json_bytes))
       ''native_descriptor_too_large'' ''native_descriptor.document''
       ''inline native descriptors are limited to 1 MiB''"

definition selection_is_resolved :: "selection_method \<Rightarrow> bool" where
  "selection_is_resolved m \<longleftrightarrow>
     m \<in> {SavedRule, ManualPin, OwnerManifestExactMatch, SingleCandidate, PolicyTiebreak}"

definition selection_failures :: "source_selection \<Rightarrow> failures" where
  "selection_failures s =
     require_nonempty (sel_query_language s) ''selection.query_language'' @
     require_nonempty (sel_query s) ''selection.query'' @
     fail_if (sel_expected_cardinality s = 0 \<or>
              sel_candidate_count s \<noteq> length (sel_candidate_descriptor_digests s))
       ''invalid_selection_cardinality'' ''selection''
       ''expected cardinality must be nonzero and candidate count must match evidence'' @
     fail_if (sel_candidate_count s > 128)
       ''candidate_set_too_large'' ''selection.candidate_count''
       ''source selection retains at most 128 candidates'' @
     fail_if (list_ex (\<lambda>digest. \<not> is_sha256 digest) (sel_candidate_descriptor_digests s))
       ''invalid_digest'' ''selection.candidate_descriptor_digests''
       ''candidate digests must be lowercase SHA-256'' @
     fail_if (selection_is_resolved (sel_method s) \<noteq> (sel_chosen_native_instance s \<noteq> None))
       ''invalid_selection_result'' ''selection.chosen_native_instance''
       ''resolved selection requires one chosen instance and unresolved selection forbids it'' @
     fail_if (sel_method s = ManualPin \<and>
              (sel_override_actor s = None \<or> sel_override_reason s = None))
       ''missing_override_lineage'' ''selection''
       ''manual pin requires actor and reason''"

definition epoch_failures :: "component_epochs \<Rightarrow> failures" where
  "epoch_failures e =
     for_in (\<lambda>(name, epoch). on_some (\<lambda>epoch.
         require_nonempty (ce_id epoch) (''epochs.'' @ name @ ''.id'') @
         require_nonempty (ce_reason epoch) (''epochs.'' @ name @ ''.reason'')) epoch)
       [(''source'', Some (ces_source e)), (''route'', ces_route e),
        (''processing'', ces_processing e), (''sink'', ces_sink e)] @
     require_nonempty (ces_path_generation e) ''epochs.path_generation''"

definition descriptor_limit_failures :: "stream_descriptor \<Rightarrow> failures" where
  "descriptor_limit_failures d =
     fail_if (sd_accepted_authority_revision d = 0)
       ''invalid_revision'' ''accepted_authority_revision''
       ''accepted authority revision must be greater than zero'' @
     fail_if (length (tc_domains (sd_timing d)) > 32 \<or> length (tc_transforms (sd_timing d)) > 128 \<or>
              bt_len (pp_stages (sd_progress d)) > 16 \<or> length (sd_queues d) > 64 \<or>
              bt_len (sd_extensions d) > 64)
       ''stream_descriptor_too_large'' ''stream_descriptor''
       ''stream descriptor collection limits were exceeded''"

definition domain_failures :: "timing_domain list \<Rightarrow> failures" where
  "domain_failures ds =
     for_each (\<lambda>index domain.
       require_nonempty (td_domain_id domain)
         (''timing.domains['' @ show_nat index @ ''].domain_id'') @
       fail_if (td_time_base_denominator domain \<le> 0 \<or> td_time_base_numerator domain \<le> 0)
         ''invalid_time_base'' (''timing.domains['' @ show_nat index @ '']'')
         ''time base values must be positive'') ds @
     fail_if (unique_count (map td_domain_id ds) \<noteq> length ds)
       ''duplicate_time_domain'' ''timing.domains'' ''time-domain IDs must be unique''"

definition transform_invalid :: "timing_domain list \<Rightarrow> timing_transform \<Rightarrow> bool" where
  "transform_invalid ds t \<longleftrightarrow>
     tt_from_domain t \<notin> set (map td_domain_id ds) \<or> tt_to_domain t \<notin> set (map td_domain_id ds) \<or>
     \<not> f64_is_finite (tt_uncertainty_ms t) \<or> f64_less (tt_uncertainty_ms t) f64_zero \<or>
     \<not> f64_is_finite (tt_offset_ms t) \<or>
     some_and (\<lambda>valid_to. valid_to < tt_valid_from_ms t) (tt_valid_to_ms t)"

definition transform_failures :: "timing_domain list \<Rightarrow> timing_transform list \<Rightarrow> failures" where
  "transform_failures ds ts =
     for_each (\<lambda>index transform.
       require_nonempty (tt_transform_id transform)
         (''timing.transforms['' @ show_nat index @ ''].transform_id'') @
       fail_if (transform_invalid ds transform)
         ''invalid_time_transform'' (''timing.transforms['' @ show_nat index @ '']'')
         ''transform domains, finite values, uncertainty, and validity interval must be valid'') ts @
     fail_if (unique_count (map tt_transform_id ts) \<noteq> length ts)
       ''duplicate_time_transform'' ''timing.transforms'' ''timing-transform IDs must be unique''"

definition not_finite_nonnegative :: "f64 \<Rightarrow> bool" where
  "not_finite_nonnegative v \<longleftrightarrow> \<not> f64_is_finite v \<or> f64_less v f64_zero"

definition latency_failures :: "timing_correlation \<Rightarrow> failures" where
  "latency_failures t =
     fail_if ((tc_fixed_latency_ms t \<noteq> None) \<noteq> (tc_fixed_latency_uncertainty_ms t \<noteq> None) \<or>
              tc_fixed_latency_ms t \<noteq> None \<and> tc_calibration_reference t = None)
       ''incomplete_latency_calibration'' ''timing''
       ''fixed latency requires uncertainty and a calibration reference'' @
     fail_if (some_and not_finite_nonnegative (tc_fixed_latency_ms t) \<or>
              some_and not_finite_nonnegative (tc_fixed_latency_uncertainty_ms t))
       ''invalid_latency_calibration'' ''timing''
       ''fixed latency and uncertainty must be finite and nonnegative''"

definition cadence_failures :: "cadence_policy \<Rightarrow> failures" where
  "cadence_failures c =
     fail_if (cad_measurement_window_ms c = 0 \<or>
              cad_mode c = Cadence_Regular \<and> cad_nominal_rate_hz c = None)
       ''invalid_cadence'' ''cadence''
       ''cadence needs a measurement window and regular streams need a nominal rate'' @
     fail_if (some_and (\<lambda>v. \<not> f64_is_finite v \<or> f64_less_eq v f64_zero) (cad_nominal_rate_hz c))
       ''invalid_nominal_rate'' ''cadence.nominal_rate_hz''
       ''nominal cadence must be finite and positive when present'' @
     fail_if (case (cad_accepted_rate_min_hz c, cad_accepted_rate_max_hz c) of
                (Some minimum, Some maximum) \<Rightarrow>
                  \<not> f64_is_finite minimum \<or> \<not> f64_is_finite maximum \<or>
                  f64_less minimum f64_zero \<or> f64_less maximum minimum
              | _ \<Rightarrow> False)
       ''invalid_rate_range'' ''cadence''
       ''accepted cadence bounds must be finite, nonnegative, and ordered'' @
     fail_if (cad_mode c \<noteq> Cadence_Regular \<and> cad_no_data_deadline_ms c = None \<and> cad_heartbeat c \<noteq> None)
       ''heartbeat_without_deadline'' ''cadence''
       ''a heartbeat requires an explicit no-data deadline''"

definition progress_failures :: "progress_profile \<Rightarrow> failures" where
  "progress_failures p =
     require_nonempty (pp_profile_id p) ''progress.profile_id'' @
     for_entries (\<lambda>stage evidence.
       require_nonempty (pe_reason evidence) (''progress.stages.'' @ stage_debug stage @ ''.reason'') @
       fail_if (pe_applicability evidence = Required \<and>
                (pe_deadline_ms evidence = None \<or> pe_state evidence = None \<or>
                 pe_observed_revision evidence = None))
         ''incomplete_required_stage'' (''progress.stages.'' @ stage_debug stage)
         ''required progress stage needs deadline and state'' @
       fail_if (pe_applicability evidence = NotApplicable \<and>
                (pe_deadline_ms evidence \<noteq> None \<or> pe_state evidence \<noteq> None))
         ''invalid_not_applicable_stage'' (''progress.stages.'' @ stage_debug stage)
         ''not-applicable progress stage must not report deadline or state'') (pp_stages p)"

definition queue_failures :: "edge_queue_policy list \<Rightarrow> failures" where
  "queue_failures qs =
     for_each (\<lambda>index queue.
       require_nonempty (eq_edge_id queue) (''queues['' @ show_nat index @ ''].edge_id'') @
       fail_if (ql_items (eq_limits queue) = 0 \<or> ql_bytes (eq_limits queue) = 0 \<or>
                ql_duration_ms (eq_limits queue) = 0)
         ''unbounded_queue'' (''queues['' @ show_nat index @ ''].limits'')
         ''every edge queue requires finite item, byte, and time limits'' @
       require_nonempty (eq_producer queue) (''queues['' @ show_nat index @ ''].producer'') @
       require_nonempty (eq_consumer queue) (''queues['' @ show_nat index @ ''].consumer'') @
       require_nonempty (eq_slow_consumer_action queue)
         (''queues['' @ show_nat index @ ''].slow_consumer_action'') @
       fail_if (eq_overflow queue = BlockProducer \<and> \<not> eq_producer_may_block queue)
         ''unsafe_block_policy'' (''queues['' @ show_nat index @ '']'')
         ''block-producer overflow requires explicit producer blocking support'' @
       fail_if (eq_edge_id queue \<in> set (map eq_edge_id (take index qs)))
         ''duplicate_queue'' (''queues['' @ show_nat index @ ''].edge_id'')
         ''edge queue IDs must be unique'') qs"

definition budget_failures :: "admission_budget \<Rightarrow> failures" where
  "budget_failures b =
     require_nonempty (ab_priority_class b) ''budget.priority_class'' @
     fail_if (ab_queue_bytes b = 0 \<or> ab_queue_duration_ms b = 0)
       ''unbounded_budget'' ''budget''
       ''admission budget must bound queue bytes and duration'' @
     fail_if (\<not> f64_is_finite (ab_samples_or_frames_per_second b) \<or>
              f64_less (ab_samples_or_frames_per_second b) f64_zero \<or>
              some_and not_finite_nonnegative (ab_maximum_clock_uncertainty_ms b))
       ''invalid_admission_budget'' ''budget''
       ''rate and clock-uncertainty budgets must be finite and nonnegative''"

definition recording_failures :: "recording_artifact option \<Rightarrow> experiment_run option \<Rightarrow> failures" where
  "recording_failures recording run =
     on_some (\<lambda>recording.
       require_nonempty (ra_artifact_id recording) ''recording.artifact_id'' @
       require_nonempty (ra_format recording) ''recording.format'' @
       fail_if (some_and (\<lambda>digest. \<not> is_sha256 digest) (ra_checksum_sha256 recording))
         ''invalid_digest'' ''recording.checksum_sha256''
         ''recording checksum must be lowercase SHA-256'' @
       fail_if (length (ra_native_metadata_digests recording) > 128)
         ''recording_metadata_too_large'' ''recording.native_metadata_digests''
         ''recording provenance supports at most 128 native metadata digests'' @
       fail_if (list_ex (\<lambda>digest. \<not> is_sha256 digest) (ra_native_metadata_digests recording))
         ''invalid_digest'' ''recording.native_metadata_digests''
         ''native metadata digests must be lowercase SHA-256'' @
       fail_if (ra_state recording = Rec_Complete \<and> ra_checksum_sha256 recording = None)
         ''complete_recording_without_checksum'' ''recording.checksum_sha256''
         ''complete recordings require a checksum'') recording @
     fail_if (recording \<noteq> None \<and> run = None)
       ''recording_without_run'' ''recording''
       ''scientific recording requires an experiment-run provenance record''"

definition experiment_run_failures :: "experiment_run option \<Rightarrow> failures" where
  "experiment_run_failures run = on_some (\<lambda>run.
     require_nonempty (er_run_id run) ''experiment_run.run_id'' @
     require_nonempty (er_protocol_id run) ''experiment_run.protocol_id'' @
     require_nonempty (er_protocol_version run) ''experiment_run.protocol_version'' @
     require_nonempty (er_selection_snapshot_id run) ''experiment_run.selection_snapshot_id'' @
     fail_if (er_recording_policy_revision run = 0)
       ''invalid_revision'' ''experiment_run.recording_policy_revision''
       ''recording policy revision must be greater than zero'' @
     fail_if (length (er_required_stream_rules run) > 128 \<or>
              length (er_optional_stream_rules run) > 128 \<or>
              length (er_approved_deviations run) > 128)
       ''experiment_run_too_large'' ''experiment_run''
       ''experiment-run rule and deviation collections are limited to 128 entries'') run"

definition validate_stream :: "(json_value \<Rightarrow> nat option) \<Rightarrow> stream_descriptor \<Rightarrow> validation" where
  "validate_stream json_bytes d = finish (
     semantic_failures d @
     native_descriptor_failures json_bytes (sd_native_descriptor d) @
     selection_failures (sd_selection d) @
     epoch_failures (sd_epochs d) @
     descriptor_limit_failures d @
     domain_failures (tc_domains (sd_timing d)) @
     transform_failures (tc_domains (sd_timing d)) (tc_transforms (sd_timing d)) @
     latency_failures (sd_timing d) @
     cadence_failures (sd_cadence d) @
     progress_failures (sd_progress d) @
     queue_failures (sd_queues d) @
     budget_failures (sd_budget d) @
     recording_failures (sd_recording d) (sd_experiment_run d) @
     experiment_run_failures (sd_experiment_run d))"

lemma validate_stream_not_Inl_Nil [simp]: "validate_stream jb d \<noteq> Inl []"
  by (simp add: validate_stream_def)

lemma queue_failures_distinct: "queue_failures qs = [] \<Longrightarrow> distinct (map eq_edge_id qs)"
  unfolding distinct_by_prefix by (simp add: queue_failures_def)

lemma queue_failures_bounded:
  assumes "queue_failures qs = []" and "q \<in> set qs"
  shows "0 < ql_items (eq_limits q) \<and> 0 < ql_bytes (eq_limits q) \<and> 0 < ql_duration_ms (eq_limits q)"
proof -
  obtain i where "i < length qs" "q = qs ! i"
    using assms(2) by (auto simp: in_set_conv_nth)
  with assms(1) show ?thesis by (simp add: queue_failures_def)
qed

lemma transform_failures_domains:
  assumes "transform_failures ds ts = []" and "t \<in> set ts"
  shows "\<not> transform_invalid ds t"
proof -
  obtain i where "i < length ts" "t = ts ! i"
    using assms(2) by (auto simp: in_set_conv_nth)
  with assms(1) show ?thesis by (simp add: transform_failures_def)
qed

end
