(* ===== verification/Observation.thy ===== *)
theory Observation
  imports Stream_Contract
begin

text \<open>
  crates/fleet-contracts/src/identity.rs: the device identity, the provenance-bearing power and
  application facts, and the observation a device (through an adapter) submits to the Hub, with
  their validators. The serialised size of an observation is the parameter \<open>obs_bytes\<close>, that of a
  native stream document \<open>json_bytes\<close>.
\<close>

section \<open>Identity and facts\<close>

record device_identity =
  di_device_id :: string
  di_identity_revision :: u64
  di_display_name :: string
  di_model :: string
  di_hardware_class :: string
  di_tags :: "(string, string) btree_map"
  di_extensions :: extensions

definition validate_identity :: "device_identity \<Rightarrow> validation" where
  "validate_identity d = finish (
     require_nonempty (di_device_id d) ''identity.device_id'' @
     require_nonempty (di_display_name d) ''identity.display_name'' @
     require_nonempty (di_model d) ''identity.model'' @
     require_nonempty (di_hardware_class d) ''identity.hardware_class'' @
     fail_if (di_identity_revision d = 0)
       ''invalid_revision'' ''identity.identity_revision''
       ''identity revision must be greater than zero'' @
     fail_if (list_ex (\<lambda>(key, value). is_blank key \<or> is_blank value) (entries (di_tags d)))
       ''invalid_tag'' ''identity.tags'' ''tag keys and values must not be empty'' @
     fail_if (bt_len (di_tags d) > 128 \<or> bt_len (di_extensions d) > 64)
       ''identity_too_large'' ''identity''
       ''identity supports at most 128 tags and 64 extension fields'')"

datatype kiosk_state = Kiosk_Active | Kiosk_Inactive | Kiosk_Mismatch | Kiosk_Unknown

record fact_provenance =
  fp_owner :: string
  fp_adapter_id :: string
  fp_observed_at_ms :: i64
  fp_fresh_until_ms :: i64

definition validate_provenance :: "fact_provenance \<Rightarrow> validation" where
  "validate_provenance p = finish (
     require_nonempty (fp_owner p) ''owner'' @
     require_nonempty (fp_adapter_id p) ''adapter_id'' @
     fail_if (fp_fresh_until_ms p < fp_observed_at_ms p)
       ''invalid_freshness'' ''fresh_until_ms''
       ''fact freshness must not end before observation time'')"

record power_observation =
  po_battery_percent :: u8
  po_charging :: bool
  po_provenance :: fact_provenance

definition validate_power :: "power_observation \<Rightarrow> validation" where
  "validate_power p = finish (
     fail_if (po_battery_percent p > 100)
       ''invalid_battery'' ''battery_percent''
       ''battery percentage must be between 0 and 100'' @
     nested (validate_provenance (po_provenance p)))"

datatype application_lifecycle =
  App_Foreground | App_Visible | App_Background | App_Stopped | App_Unknown

datatype foreground_state =
  Foreground_Foreground | Foreground_Background | Foreground_Unknown

datatype foreground_authority = SelfReport | ParticipatingApp | PlatformLimited | Authority_Unavailable

record application_observation =
  ao_package_name :: "string option"
  ao_lifecycle :: application_lifecycle
  ao_foreground_state :: foreground_state
  ao_foreground_authority :: foreground_authority
  ao_provenance :: fact_provenance

definition validate_application :: "application_observation \<Rightarrow> validation" where
  "validate_application a = finish (
     fail_if (some_and is_blank (ao_package_name a))
       ''invalid_package'' ''package_name''
       ''application package must be absent or nonempty'' @
     fail_if (ao_foreground_authority a = Authority_Unavailable \<and>
              ao_foreground_state a \<noteq> Foreground_Unknown)
       ''unsupported_foreground_claim'' ''foreground_state''
       ''unavailable foreground authority may report only unknown state'' @
     fail_if (ao_foreground_authority a \<in> {SelfReport, ParticipatingApp} \<and> ao_package_name a = None)
       ''missing_application_identity'' ''package_name''
       ''self-reported and participating-app evidence must name its package'' @
     nested (validate_provenance (ao_provenance a)))"

lemma validate_identity_not_Inl_Nil [simp]: "validate_identity d \<noteq> Inl []"
  by (simp add: validate_identity_def)

lemma validate_provenance_not_Inl_Nil [simp]: "validate_provenance d \<noteq> Inl []"
  by (simp add: validate_provenance_def)

lemma validate_power_not_Inl_Nil [simp]: "validate_power d \<noteq> Inl []"
  by (simp add: validate_power_def)

lemma validate_application_not_Inl_Nil [simp]: "validate_application d \<noteq> Inl []"
  by (simp add: validate_application_def)

lemma valid_identity [contract_simps]:
  "valid (validate_identity d) \<longleftrightarrow>
     \<not> is_blank (di_device_id d) \<and> \<not> is_blank (di_display_name d) \<and> \<not> is_blank (di_model d) \<and>
     \<not> is_blank (di_hardware_class d) \<and> 0 < di_identity_revision d \<and>
     (\<forall>k v. bt_get (di_tags d) k = Some v \<longrightarrow> \<not> is_blank k \<and> \<not> is_blank v) \<and>
     bt_len (di_tags d) \<le> 128 \<and> bt_len (di_extensions d) \<le> 64"
  by (auto simp: validate_identity_def list_ex_iff bt_get_Some_iff)

lemma valid_provenance [contract_simps]:
  "valid (validate_provenance p) \<longleftrightarrow>
     \<not> is_blank (fp_owner p) \<and> \<not> is_blank (fp_adapter_id p) \<and>
     fp_observed_at_ms p \<le> fp_fresh_until_ms p"
  by (auto simp: validate_provenance_def)

lemma valid_power [contract_simps]:
  "valid (validate_power p) \<longleftrightarrow>
     po_battery_percent p \<le> 100 \<and> valid (validate_provenance (po_provenance p))"
  by (auto simp: validate_power_def)

section \<open>Observations\<close>

record device_observation =
  do_schema :: string
  do_identity :: device_identity
  do_source_epoch :: string
  do_source_revision :: u64
  do_source_time_ms :: i64
  do_received_time_ms :: i64
  do_battery_percent :: "u8 option"
  do_charging :: "bool option"
  do_foreground_app :: "string option"
  do_agent :: "application_observation option"
  do_power :: "power_observation option"
  do_application :: "application_observation option"
  do_kiosk_state :: kiosk_state
  do_conditions :: "status_condition list"
  do_capabilities :: capability_snapshot
  do_streams :: "stream_descriptor list"
  do_extensions :: extensions

definition observation_head_failures :: "device_observation \<Rightarrow> failures" where
  "observation_head_failures o' =
     fail_if (do_schema o' \<noteq> ''rusty.fleet.device_observation.v1'')
       ''wrong_schema'' ''schema'' ''expected rusty.fleet.device_observation.v1'' @
     nested (validate_identity (do_identity o')) @
     require_nonempty (do_source_epoch o') ''source_epoch'' @
     fail_if (do_source_revision o' = 0)
       ''invalid_revision'' ''source_revision'' ''source revision must be greater than zero'' @
     fail_if (some_and (\<lambda>percent. percent > 100) (do_battery_percent o'))
       ''invalid_battery'' ''battery_percent'' ''battery percentage must be between 0 and 100''"

definition observation_fact_failures :: "device_observation \<Rightarrow> failures" where
  "observation_fact_failures o' =
     on_some (\<lambda>agent.
       nested_at ''agent.'' (validate_application agent) @
       fail_if (ao_foreground_authority agent \<noteq> SelfReport)
         ''invalid_agent_authority'' ''agent.foreground_authority''
         ''Fleet Agent lifecycle evidence must be self-reported'') (do_agent o') @
     on_some (\<lambda>power.
       nested_at ''power.'' (validate_power power) @
       fail_if (some_and (\<lambda>v. v \<noteq> po_battery_percent power) (do_battery_percent o') \<or>
                some_and (\<lambda>v. v \<noteq> po_charging power) (do_charging o'))
         ''power_projection_mismatch'' ''power''
         ''legacy power fields must agree with the provenance-bearing power fact'') (do_power o') @
     on_some (\<lambda>application.
       nested_at ''application.'' (validate_application application) @
       fail_if (some_and (\<lambda>v. ao_package_name application \<noteq> Some v) (do_foreground_app o'))
         ''application_projection_mismatch'' ''application.package_name''
         ''legacy foreground application must agree with the provenance-bearing application fact'')
       (do_application o')"

definition observation_limit_failures ::
  "(device_observation \<Rightarrow> nat option) \<Rightarrow> device_observation \<Rightarrow> failures" where
  "observation_limit_failures obs_bytes o' =
     fail_if (length (do_conditions o') > 64 \<or> length (do_streams o') > 32 \<or>
              bt_len (caps_capabilities (do_capabilities o')) > 128 \<or> bt_len (do_extensions o') > 64)
       ''observation_too_large'' ''observation'' ''observation collection limits were exceeded'' @
     fail_if (some_and (\<lambda>bytes. bytes > 2 * 1024 * 1024) (obs_bytes o'))
       ''observation_bytes_exceeded'' ''observation''
       ''serialized observation exceeds the 2 MiB contract limit''"

definition validate_observation ::
  "(device_observation \<Rightarrow> nat option) \<Rightarrow> (json_value \<Rightarrow> nat option) \<Rightarrow> device_observation \<Rightarrow> validation"
where
  "validate_observation obs_bytes json_bytes o' = finish (
     observation_head_failures o' @
     observation_fact_failures o' @
     observation_limit_failures obs_bytes o' @
     for_each (\<lambda>index condition.
       nested_at (''conditions['' @ show_nat index @ ''].'') (validate_condition condition))
       (do_conditions o') @
     nested (validate_capabilities (do_capabilities o')) @
     for_each (\<lambda>index stream.
       nested_at (''streams['' @ show_nat index @ ''].'') (validate_stream json_bytes stream))
       (do_streams o'))"

lemma validate_observation_not_Inl_Nil [simp]: "validate_observation ob jb x \<noteq> Inl []"
  by (simp add: validate_observation_def)

lemma valid_observation_head:
  "observation_head_failures o' = [] \<longleftrightarrow>
     do_schema o' = ''rusty.fleet.device_observation.v1'' \<and> valid (validate_identity (do_identity o')) \<and>
     \<not> is_blank (do_source_epoch o') \<and> 0 < do_source_revision o' \<and>
     (\<forall>p. do_battery_percent o' = Some p \<longrightarrow> p \<le> 100)"
  by (auto simp: observation_head_failures_def)

lemma valid_observation_fields:
  assumes "valid (validate_observation ob jb o')"
  shows "valid (validate_identity (do_identity o'))" and "\<not> is_blank (do_source_epoch o')"
    and "0 < do_source_revision o'" and "\<forall>p. do_battery_percent o' = Some p \<longrightarrow> p \<le> 100"
    and "\<forall>c\<in>set (do_conditions o'). valid (validate_condition c)"
    and "valid (validate_capabilities (do_capabilities o'))"
    and "length (do_conditions o') \<le> 64" and "length (do_streams o') \<le> 32"
    and "\<forall>s\<in>set (do_streams o'). valid (validate_stream jb s)"
proof -
  have parts: "observation_head_failures o' = []" "observation_limit_failures ob o' = []"
    "\<forall>i<length (do_conditions o'). valid (validate_condition (do_conditions o' ! i))"
    "\<forall>i<length (do_streams o'). valid (validate_stream jb (do_streams o' ! i))"
    "valid (validate_capabilities (do_capabilities o'))"
    using assms by (simp_all add: validate_observation_def)
  from parts(1) show "valid (validate_identity (do_identity o'))" "\<not> is_blank (do_source_epoch o')"
    "0 < do_source_revision o'" "\<forall>p. do_battery_percent o' = Some p \<longrightarrow> p \<le> 100"
    by (simp_all add: valid_observation_head)
  from parts(2) show "length (do_conditions o') \<le> 64" "length (do_streams o') \<le> 32"
    by (simp_all add: observation_limit_failures_def)
  from parts(3,4) show "\<forall>c\<in>set (do_conditions o'). valid (validate_condition c)"
    "\<forall>s\<in>set (do_streams o'). valid (validate_stream jb s)"
    by (simp_all add: all_set_conv_all_nth)
  from parts(5) show "valid (validate_capabilities (do_capabilities o'))" .
qed

end
