(* ===== verification/Query.thy ===== *)
theory Query
  imports Contract
begin

text \<open>
  crates/fleet-contracts/src/query.rs: query fields, comparisons, values and expressions, the
  validator of a Fleet query with its bounds on shape and value size, and the field/value
  compatibility table.
\<close>

section \<open>Data\<close>

datatype query_field =
  Field_DeviceId | Field_DisplayName | Field_Model | Field_Tag | Field_Freshness
| Field_BatteryPercent | Field_ForegroundApp | Field_KioskState | Field_Capability
| Field_ConditionFamily | Field_ConditionState

datatype comparison =
  Equals | NotEquals | Contains | LessThan | LessThanOrEqual | GreaterThan | GreaterThanOrEqual
| Exists

datatype query_value = Text string | Integer i64 | Boolean bool | TextList "string list"

datatype query_expression =
  Predicate query_field comparison "query_value option" "string option"
| And "query_expression list"
| Or "query_expression list"
| Not query_expression

datatype sort_direction = Ascending | Descending

record sort_key =
  sk_field :: query_field
  sk_direction :: sort_direction
  sk_qualifier :: "string option"

record fleet_query =
  fq_schema :: string
  fq_query_id :: string
  fq_expression :: "query_expression option"
  fq_sort :: "sort_key list"
  fq_offset :: usize
  fq_limit :: usize

section \<open>Values and fields\<close>

fun query_value_is_bounded :: "query_value \<Rightarrow> bool" where
  "query_value_is_bounded (Text value) = (length value \<le> 1024)"
| "query_value_is_bounded (Integer _) = True"
| "query_value_is_bounded (Boolean _) = True"
| "query_value_is_bounded (TextList values) =
     (length values \<le> 10000 \<and> list_all (\<lambda>value. length value \<le> 1024) values)"

definition is_text_value :: "query_value option \<Rightarrow> bool" where
  "is_text_value v = (case v of Some (Text _) \<Rightarrow> True | Some (TextList _) \<Rightarrow> True | _ \<Rightarrow> False)"

definition is_integer_value :: "query_value option \<Rightarrow> bool" where
  "is_integer_value v = (case v of Some (Integer _) \<Rightarrow> True | _ \<Rightarrow> False)"

definition is_boolean_value :: "query_value option \<Rightarrow> bool" where
  "is_boolean_value v = (case v of Some (Boolean _) \<Rightarrow> True | _ \<Rightarrow> False)"

definition predicate_value_is_compatible ::
  "query_field \<Rightarrow> comparison \<Rightarrow> query_value option \<Rightarrow> bool" where
  "predicate_value_is_compatible field comparison value =
     (if comparison = Exists then value = None
      else case field of
        Field_BatteryPercent \<Rightarrow>
          is_integer_value value \<and>
          comparison \<in> {Equals, NotEquals, LessThan, LessThanOrEqual, GreaterThan, GreaterThanOrEqual}
      | Field_Capability \<Rightarrow>
          is_boolean_value value \<and> comparison \<in> {Equals, NotEquals}
      | _ \<Rightarrow>
          is_text_value value \<and> comparison \<in> {Equals, NotEquals, Contains})"

section \<open>Validation\<close>

definition predicate_failures ::
  "query_field \<Rightarrow> comparison \<Rightarrow> query_value option \<Rightarrow> string option \<Rightarrow> string \<Rightarrow> failures" where
  "predicate_failures field comparison value qualifier path =
     fail_if (comparison = Exists \<and> value \<noteq> None)
       ''unexpected_query_value'' path ''exists predicates must not carry a value'' @
     fail_if (comparison \<noteq> Exists \<and> value = None)
       ''missing_query_value'' path ''non-exists predicates require a value'' @
     fail_if (some_and is_blank qualifier)
       ''empty_qualifier'' path ''query qualifier must not be empty'' @
     fail_if (field \<in> {Field_Tag, Field_Capability} \<and> qualifier = None)
       ''missing_qualifier'' path ''tag and capability predicates require a qualifier'' @
     fail_if (field \<notin> {Field_Tag, Field_Capability} \<and> qualifier \<noteq> None)
       ''unexpected_qualifier'' path ''this query field does not accept a qualifier'' @
     fail_if (\<not> predicate_value_is_compatible field comparison value)
       ''incompatible_query_value'' path
       ''query value type or comparison is incompatible with the field'' @
     fail_if (some_and (\<lambda>value. \<not> query_value_is_bounded value) value)
       ''query_value_too_large'' path
       ''query text is limited to 1024 characters and lists to 10000 values''"

fun validate_into :: "query_expression \<Rightarrow> string \<Rightarrow> failures"
and validate_terms :: "query_expression list \<Rightarrow> string \<Rightarrow> nat \<Rightarrow> failures" where
  "validate_into (Predicate field comparison value qualifier) path =
     predicate_failures field comparison value qualifier path"
| "validate_into (And expressions) path =
     fail_if (length expressions < 2)
       ''insufficient_query_terms'' path ''and/or expressions require at least two terms'' @
     validate_terms expressions path 0"
| "validate_into (Or expressions) path =
     fail_if (length expressions < 2)
       ''insufficient_query_terms'' path ''and/or expressions require at least two terms'' @
     validate_terms expressions path 0"
| "validate_into (Not expression) path = validate_into expression (path @ ''.expression'')"
| "validate_terms [] path index = []"
| "validate_terms (e # es) path index =
     validate_into e (path @ ''.expressions['' @ show_nat index @ '']'') @
     validate_terms es path (Suc index)"

fun shape :: "query_expression \<Rightarrow> usize \<Rightarrow> usize \<times> usize"
and shape_terms :: "query_expression list \<Rightarrow> usize \<Rightarrow> usize \<times> usize \<Rightarrow> usize \<times> usize" where
  "shape (Predicate _ _ _ _) depth = (1, depth)"
| "shape (And expressions) depth = shape_terms expressions depth (1, depth)"
| "shape (Or expressions) depth = shape_terms expressions depth (1, depth)"
| "shape (Not expression) depth =
     (let (nodes, maximum_depth) = shape expression (u64_saturating_add depth 1)
      in (u64_saturating_add nodes 1, maximum_depth))"
| "shape_terms [] depth accumulator = accumulator"
| "shape_terms (e # es) depth accumulator =
     (let (nodes, maximum_depth) = shape e (u64_saturating_add depth 1)
      in shape_terms es depth
           (u64_saturating_add (fst accumulator) nodes, max (snd accumulator) maximum_depth))"

definition sort_key_failures :: "nat \<Rightarrow> sort_key \<Rightarrow> failures" where
  "sort_key_failures index key =
     fail_if (some_and is_blank (sk_qualifier key))
       ''empty_qualifier'' (''sort['' @ show_nat index @ ''].qualifier'')
       ''sort qualifier must not be empty'' @
     fail_if (sk_field key = Field_Tag \<and> sk_qualifier key = None)
       ''missing_qualifier'' (''sort['' @ show_nat index @ ''].qualifier'')
       ''tag sorting requires a qualifier'' @
     fail_if (sk_field key \<noteq> Field_Tag \<and> sk_qualifier key \<noteq> None)
       ''unexpected_qualifier'' (''sort['' @ show_nat index @ ''].qualifier'')
       ''only tag sorting accepts a qualifier''"

definition validate_query :: "fleet_query \<Rightarrow> validation" where
  "validate_query q = finish (
     fail_if (fq_schema q \<noteq> ''rusty.fleet.query.v1'')
       ''wrong_schema'' ''schema'' ''expected rusty.fleet.query.v1'' @
     require_nonempty (fq_query_id q) ''query_id'' @
     fail_if (fq_limit q = 0 \<or> fq_limit q > 10000)
       ''invalid_window'' ''limit'' ''query limit must be between 1 and 10000'' @
     on_some (\<lambda>expression.
       validate_into expression ''expression'' @
       (let (nodes, depth) = shape expression 1 in
        fail_if (nodes > 256 \<or> depth > 16)
          ''query_shape_exceeded'' ''expression''
          ''queries support at most 256 nodes and 16 levels'')) (fq_expression q) @
     fail_if (length (fq_sort q) > 8)
       ''too_many_sort_keys'' ''sort'' ''queries support at most eight sort keys'' @
     for_each sort_key_failures (fq_sort q))"

section \<open>What a valid query satisfies\<close>

text \<open>Number of nodes and height of an expression, the quantities \<open>shape\<close> bounds.\<close>

fun expression_nodes :: "query_expression \<Rightarrow> nat"
and terms_nodes :: "query_expression list \<Rightarrow> nat" where
  "expression_nodes (Predicate _ _ _ _) = 1"
| "expression_nodes (And es) = 1 + terms_nodes es"
| "expression_nodes (Or es) = 1 + terms_nodes es"
| "expression_nodes (Not e) = 1 + expression_nodes e"
| "terms_nodes [] = 0"
| "terms_nodes (e # es) = expression_nodes e + terms_nodes es"

fun expression_height :: "query_expression \<Rightarrow> nat"
and terms_height :: "query_expression list \<Rightarrow> nat" where
  "expression_height (Predicate _ _ _ _) = 0"
| "expression_height (And es) = terms_height es"
| "expression_height (Or es) = terms_height es"
| "expression_height (Not e) = 1 + expression_height e"
| "terms_height [] = 0"
| "terms_height (e # es) = max (1 + expression_height e) (terms_height es)"

text \<open>The saturating counters of \<open>shape\<close> are the true counts cut off at \<open>u64_max\<close>.\<close>

definition saturated :: "nat \<Rightarrow> nat" where
  "saturated n = min n u64_max"

lemma saturated_add [simp]: "u64_saturating_add (saturated a) (saturated b) = saturated (a + b)"
  by (auto simp: u64_saturating_add_def saturated_def)

lemma saturated_Suc [simp]: "u64_saturating_add (saturated a) (Suc 0) = saturated (Suc a)"
  by (auto simp: u64_saturating_add_def saturated_def)

lemma saturated_max [simp]: "max (saturated a) (saturated b) = saturated (max a b)"
  by (auto simp: saturated_def)

lemma saturated_1 [simp]: "saturated (Suc 0) = Suc 0"
  by (simp add: saturated_def u64_max_def)

lemma shape_saturated:
  "shape e (saturated d) = (saturated (expression_nodes e), saturated (d + expression_height e))"
  "d \<le> m \<Longrightarrow> shape_terms es (saturated d) (saturated n, saturated m) =
     (saturated (n + terms_nodes es), saturated (max m (d + terms_height es)))"
proof (induction e and es arbitrary: d and d n m rule: expression_nodes_terms_nodes.induct)
  case (1 a b c e d)
  show ?case by (simp add: saturated_1)
next
  case (2 es d)
  show ?case
    using "2.IH" [of d d 1] by (simp add: saturated_1)
next
  case (3 es d)
  show ?case
    using "3.IH" [of d d 1] by (simp add: saturated_1)
next
  case (4 e d)
  show ?case
    using "4.IH" [of "d + 1"] by simp
next
  case (5 d n m)
  then show ?case by (simp add: max_absorb1)
next
  case (6 e es d n m)
  have "shape_terms es (saturated d) (saturated (n + expression_nodes e),
      saturated (max m (d + 1 + expression_height e))) =
    (saturated (n + expression_nodes e + terms_nodes es),
     saturated (max (max m (d + 1 + expression_height e)) (d + terms_height es)))"
    using "6.prems" by (intro "6.IH"(2)) simp
  moreover have "max (max m (d + 1 + expression_height e)) (d + terms_height es) =
      max m (d + max (1 + expression_height e) (terms_height es))"
    by simp
  ultimately show ?case
    using "6.IH"(1) [of "d + 1"] by (simp add: algebra_simps)
qed

lemma shape_from_1:
  "shape e 1 = (saturated (expression_nodes e), saturated (1 + expression_height e))"
  using shape_saturated(1) [of e 1] by simp

text \<open>Every predicate of an expression, and the well-formedness the validator demands of it.\<close>

fun expression_predicates ::
  "query_expression \<Rightarrow> (query_field \<times> comparison \<times> query_value option \<times> string option) list"
and terms_predicates ::
  "query_expression list \<Rightarrow> (query_field \<times> comparison \<times> query_value option \<times> string option) list"
where
  "expression_predicates (Predicate f c v q) = [(f, c, v, q)]"
| "expression_predicates (And es) = terms_predicates es"
| "expression_predicates (Or es) = terms_predicates es"
| "expression_predicates (Not e) = expression_predicates e"
| "terms_predicates [] = []"
| "terms_predicates (e # es) = expression_predicates e @ terms_predicates es"

definition predicate_ok ::
  "query_field \<times> comparison \<times> query_value option \<times> string option \<Rightarrow> bool" where
  "predicate_ok = (\<lambda>(field, comparison, value, qualifier).
     predicate_value_is_compatible field comparison value \<and>
     (field \<in> {Field_Tag, Field_Capability} \<longleftrightarrow> qualifier \<noteq> None) \<and>
     none_or (\<lambda>q. \<not> is_blank q) qualifier \<and> none_or query_value_is_bounded value)"

lemma predicate_failures_Nil:
  "predicate_failures field comparison value qualifier path = [] \<Longrightarrow>
   predicate_ok (field, comparison, value, qualifier)"
  unfolding predicate_failures_def predicate_ok_def by auto

lemma validate_into_predicates:
  "validate_into e path = [] \<Longrightarrow> \<forall>p\<in>set (expression_predicates e). predicate_ok p"
  "validate_terms es path i = [] \<Longrightarrow> \<forall>p\<in>set (terms_predicates es). predicate_ok p"
proof (induction e path and es path i rule: validate_into_validate_terms.induct)
  case (1 f c v q p)
  then show ?case using predicate_failures_Nil by simp
qed auto

lemma valid_query_bounds:
  assumes "valid (validate_query q)"
  shows "0 < fq_limit q" and "fq_limit q \<le> 10000" and "length (fq_sort q) \<le> 8"
    and "\<forall>e. fq_expression q = Some e \<longrightarrow> validate_into e ''expression'' = []"
    and "\<forall>e. fq_expression q = Some e \<longrightarrow> expression_nodes e \<le> 256 \<and> expression_height e < 16"
    and "\<forall>k\<in>set (fq_sort q). (sk_field k = Field_Tag) = (sk_qualifier k \<noteq> None)"
proof -
  have parts: "0 < fq_limit q" "fq_limit q \<le> 10000" "length (fq_sort q) \<le> 8"
    "\<forall>e. fq_expression q = Some e \<longrightarrow> validate_into e ''expression'' = [] \<and>
       \<not> (fst (shape e 1) > 256 \<or> snd (shape e 1) > 16)"
    "\<forall>i<length (fq_sort q). sort_key_failures i (fq_sort q ! i) = []"
    using assms by (simp_all add: validate_query_def split_beta)
  from parts(1-4) show "0 < fq_limit q" "fq_limit q \<le> 10000" "length (fq_sort q) \<le> 8"
    "\<forall>e. fq_expression q = Some e \<longrightarrow> validate_into e ''expression'' = []"
    by simp_all
  from parts(4) show "\<forall>e. fq_expression q = Some e \<longrightarrow> expression_nodes e \<le> 256 \<and> expression_height e < 16"
    using shape_from_1 by (auto simp: saturated_def u64_max_def)
  show "\<forall>k\<in>set (fq_sort q). (sk_field k = Field_Tag) = (sk_qualifier k \<noteq> None)"
  proof
    fix k assume "k \<in> set (fq_sort q)"
    then obtain i where "i < length (fq_sort q)" "k = fq_sort q ! i"
      by (auto simp: in_set_conv_nth)
    with parts(5) show "(sk_field k = Field_Tag) = (sk_qualifier k \<noteq> None)"
      by (auto simp: sort_key_failures_def)
  qed
qed

end
