(* ===== verification/Command.thy ===== *)
theory Command
  imports Device_Facts Query
begin

text \<open>
  crates/fleet-contracts/src/command.rs: the command lifecycle with its transition table, the
  frozen target snapshot and the operation ledger that must stay bound to it.
\<close>

section \<open>The command lifecycle\<close>

datatype command_lifecycle =
  Proposed | Accepted | Rejected | Dispatched | Running | Applied | Lifecycle_Failed | Expired
| CancellationRequested | Cancelled | CleanupPending | Cleaned

definition is_terminal :: "command_lifecycle \<Rightarrow> bool" where
  "is_terminal l \<longleftrightarrow> l \<in> {Rejected, Lifecycle_Failed, Expired, Cancelled, Cleaned}"

fun can_transition_to :: "command_lifecycle \<Rightarrow> command_lifecycle \<Rightarrow> bool" where
  "can_transition_to Proposed next \<longleftrightarrow> next \<in> {Accepted, Rejected, Expired}"
| "can_transition_to Accepted next \<longleftrightarrow>
     next \<in> {Dispatched, CancellationRequested, Expired, Lifecycle_Failed}"
| "can_transition_to Dispatched next \<longleftrightarrow>
     next \<in> {Running, Applied, CancellationRequested, Lifecycle_Failed, Expired}"
| "can_transition_to Running next \<longleftrightarrow>
     next \<in> {Applied, CancellationRequested, Lifecycle_Failed, Expired}"
| "can_transition_to CancellationRequested next \<longleftrightarrow>
     next \<in> {Cancelled, Applied, Lifecycle_Failed, CleanupPending}"
| "can_transition_to Applied next \<longleftrightarrow> next \<in> {CleanupPending, Cleaned}"
| "can_transition_to Lifecycle_Failed next \<longleftrightarrow> next \<in> {CleanupPending, Cleaned}"
| "can_transition_to Cancelled next \<longleftrightarrow> next \<in> {CleanupPending, Cleaned}"
| "can_transition_to Expired next \<longleftrightarrow> next \<in> {CleanupPending, Cleaned}"
| "can_transition_to CleanupPending next \<longleftrightarrow> next \<in> {Cleaned, Lifecycle_Failed}"
| "can_transition_to Rejected next \<longleftrightarrow> False"
| "can_transition_to Cleaned next \<longleftrightarrow> False"

text \<open>Lifecycles a command can pass through, starting from one.\<close>

inductive lifecycle_reaches :: "command_lifecycle \<Rightarrow> command_lifecycle \<Rightarrow> bool" where
  stay: "lifecycle_reaches l l"
| move: "lifecycle_reaches l m \<Longrightarrow> can_transition_to m n \<Longrightarrow> lifecycle_reaches l n"

inductive_cases from_cleaned: "lifecycle_reaches Cleaned l"

text \<open>
  Once work has been dispatched the lifecycle never returns to the phase before it: the phases
  are ordered and no transition leads back.
\<close>

fun lifecycle_phase :: "command_lifecycle \<Rightarrow> nat" where
  "lifecycle_phase Proposed = 0"
| "lifecycle_phase Accepted = 1"
| "lifecycle_phase Dispatched = 2"
| "lifecycle_phase Running = 3"
| "lifecycle_phase CancellationRequested = 4"
| "lifecycle_phase Applied = 5"
| "lifecycle_phase Lifecycle_Failed = 5"
| "lifecycle_phase Expired = 5"
| "lifecycle_phase Cancelled = 5"
| "lifecycle_phase Rejected = 5"
| "lifecycle_phase CleanupPending = 5"
| "lifecycle_phase Cleaned = 6"

lemma transition_phase: "can_transition_to l m \<Longrightarrow> lifecycle_phase l \<le> lifecycle_phase m"
  by (cases l) auto

lemma transition_phase_strict:
  "can_transition_to l m \<Longrightarrow> lifecycle_phase l < 5 \<Longrightarrow> lifecycle_phase l < lifecycle_phase m"
  by (cases l) auto

lemma reaches_phase: "lifecycle_reaches l m \<Longrightarrow> lifecycle_phase l \<le> lifecycle_phase m"
  by (induction rule: lifecycle_reaches.induct) (auto dest: transition_phase)

section \<open>Target snapshots and operation ledgers\<close>

record target_snapshot =
  ts_snapshot_id :: string
  ts_created_at_ms :: i64
  ts_expires_at_ms :: i64
  ts_query :: fleet_query
  ts_result_revision :: u64
  ts_identity_revisions :: "(string, u64) btree_map"
  ts_extensions :: extensions

definition validate_target_snapshot :: "target_snapshot \<Rightarrow> validation" where
  "validate_target_snapshot s = finish (
     require_nonempty (ts_snapshot_id s) ''snapshot_id'' @
     fail_if (ts_expires_at_ms s \<le> ts_created_at_ms s)
       ''invalid_expiry'' ''expires_at_ms'' ''target snapshot expiry must follow creation'' @
     fail_if (ts_result_revision s = 0)
       ''invalid_revision'' ''result_revision'' ''result revision must be greater than zero'' @
     fail_if (list_ex (\<lambda>revision. revision = 0) (bt_values (ts_identity_revisions s)))
       ''invalid_identity_revision'' ''identity_revisions''
       ''all target identity revisions must be greater than zero'' @
     fail_if (list_ex is_blank (bt_keys (ts_identity_revisions s)))
       ''invalid_device_id'' ''identity_revisions'' ''target device IDs must not be empty'' @
     fail_if (bt_len (ts_identity_revisions s) > 10000 \<or> bt_len (ts_extensions s) > 64)
       ''target_snapshot_too_large'' ''identity_revisions''
       ''target snapshots support at most 10000 targets and 64 extension fields'' @
     nested (validate_query (ts_query s)))"

datatype target_eligibility =
  Eligible | Warning | Excluded | RefreshRequired | ChangedSincePreview

record operation_target_result =
  otr_device_id :: string
  otr_identity_revision :: u64
  otr_eligibility :: target_eligibility
  otr_lifecycle :: command_lifecycle
  otr_reason_code :: string
  otr_message :: string
  otr_last_transition_ms :: i64
  otr_receipt_id :: "string option"
  otr_retry_eligible :: bool
  otr_cancel_eligible :: bool
  otr_extensions :: extensions

record operation_ledger =
  ol_schema :: string
  ol_operation_id :: string
  ol_action_id :: string
  ol_created_at_ms :: i64
  ol_target_snapshot :: target_snapshot
  ol_lifecycle :: command_lifecycle
  ol_cleanup_required :: bool
  ol_targets :: "operation_target_result list"
  ol_extensions :: extensions

definition ledger_target_failures ::
  "operation_ledger \<Rightarrow> nat \<Rightarrow> operation_target_result \<Rightarrow> failures" where
  "ledger_target_failures l index target =
     require_nonempty (otr_device_id target) (''targets['' @ show_nat index @ ''].device_id'') @
     require_nonempty (otr_reason_code target) (''targets['' @ show_nat index @ ''].reason_code'') @
     require_nonempty (otr_message target) (''targets['' @ show_nat index @ ''].message'') @
     fail_if (otr_identity_revision target = 0)
       ''invalid_identity_revision'' (''targets['' @ show_nat index @ ''].identity_revision'')
       ''target identity revision must be greater than zero'' @
     fail_if (otr_device_id target \<in> set (map otr_device_id (take index (ol_targets l))))
       ''duplicate_target'' (''targets['' @ show_nat index @ ''].device_id'')
       ''operation target occurs more than once'' @
     fail_if (none_or (\<lambda>revision. revision \<noteq> otr_identity_revision target)
                (bt_get (ts_identity_revisions (ol_target_snapshot l)) (otr_device_id target)))
       ''target_snapshot_binding_mismatch'' (''targets['' @ show_nat index @ '']'')
       ''target identity must match the frozen target snapshot''"

definition validate_operation_ledger :: "operation_ledger \<Rightarrow> validation" where
  "validate_operation_ledger l = finish (
     fail_if (ol_schema l \<noteq> ''rusty.fleet.operation_ledger.v1'')
       ''wrong_schema'' ''schema'' ''expected rusty.fleet.operation_ledger.v1'' @
     require_nonempty (ol_operation_id l) ''operation_id'' @
     require_nonempty (ol_action_id l) ''action_id'' @
     fail_if (length (ol_targets l) > 10000 \<or> bt_len (ol_extensions l) > 64)
       ''operation_ledger_too_large'' ''targets''
       ''operation ledgers support at most 10000 targets and 64 extension fields'' @
     nested (validate_target_snapshot (ol_target_snapshot l)) @
     fail_if (length (ol_targets l) \<noteq> bt_len (ts_identity_revisions (ol_target_snapshot l)))
       ''target_ledger_mismatch'' ''targets''
       ''operation ledger must retain one result for every snapshotted target'' @
     for_each (ledger_target_failures l) (ol_targets l))"

lemma validate_target_snapshot_not_Inl_Nil [simp]: "validate_target_snapshot s \<noteq> Inl []"
  by (simp add: validate_target_snapshot_def)

lemma validate_operation_ledger_not_Inl_Nil [simp]: "validate_operation_ledger s \<noteq> Inl []"
  by (simp add: validate_operation_ledger_def)

lemma valid_ledger_targets:
  assumes "valid (validate_operation_ledger l)"
  shows "distinct (map otr_device_id (ol_targets l))"
    and "\<forall>t\<in>set (ol_targets l).
       bt_get (ts_identity_revisions (ol_target_snapshot l)) (otr_device_id t) = Some (otr_identity_revision t)"
    and "length (ol_targets l) = bt_len (ts_identity_revisions (ol_target_snapshot l))"
proof -
  have len: "length (ol_targets l) = bt_len (ts_identity_revisions (ol_target_snapshot l))"
    and each: "\<forall>i<length (ol_targets l). ledger_target_failures l i (ol_targets l ! i) = []"
    using assms by (simp_all add: validate_operation_ledger_def)
  from len show "length (ol_targets l) = bt_len (ts_identity_revisions (ol_target_snapshot l))" .
  from each show "distinct (map otr_device_id (ol_targets l))"
    by (simp add: distinct_by_prefix ledger_target_failures_def)
  have "\<forall>i<length (ol_targets l).
     bt_get (ts_identity_revisions (ol_target_snapshot l)) (otr_device_id (ol_targets l ! i))
       = Some (otr_identity_revision (ol_targets l ! i))"
    using each by (auto simp: ledger_target_failures_def)
  then show "\<forall>t\<in>set (ol_targets l).
     bt_get (ts_identity_revisions (ol_target_snapshot l)) (otr_device_id t) = Some (otr_identity_revision t)"
    by (simp add: all_set_conv_all_nth)
qed

text \<open>A valid ledger names exactly the snapshotted devices, each once.\<close>

lemma valid_ledger_covers:
  assumes "valid (validate_operation_ledger l)"
  shows "set (map otr_device_id (ol_targets l)) = set (bt_keys (ts_identity_revisions (ol_target_snapshot l)))"
proof (rule card_subset_eq)
  note v = valid_ledger_targets [OF assms]
  show "set (map otr_device_id (ol_targets l)) \<subseteq> set (bt_keys (ts_identity_revisions (ol_target_snapshot l)))"
    using v(2) by (auto simp: set_bt_keys)
  have "card (set (map otr_device_id (ol_targets l))) = length (ol_targets l)"
    using distinct_card [OF v(1)] by simp
  also have "\<dots> = card (set (bt_keys (ts_identity_revisions (ol_target_snapshot l))))"
    using v(3) distinct_card [OF distinct_bt_keys [of "ts_identity_revisions (ol_target_snapshot l)"]] by (simp add: bt_len_def bt_keys_def)
  finally show "card (set (map otr_device_id (ol_targets l))) =
      card (set (bt_keys (ts_identity_revisions (ol_target_snapshot l))))" .
qed simp

end
