(* ===== verification/Projection.thy ===== *)
theory Projection
  imports Observation Command
begin

text \<open>
  crates/fleet-contracts/src/projection.rs: the row, inspector, detail, summary and query-result
  projections the Hub hands out, each with its validator. The saved views of the same file are
  theory \<^verbatim>\<open>Saved_View\<close>.
\<close>

section \<open>Device projections\<close>

datatype projection_freshness = Fresh | Projection_Stale | Offline | Projection_Unknown

record device_row =
  dr_schema :: string
  dr_identity :: device_identity
  dr_source_epoch :: string
  dr_accepted_revision :: u64
  dr_accepted_at_ms :: i64
  dr_age_ms :: i64
  dr_freshness :: projection_freshness
  dr_battery_percent :: "u8 option"
  dr_charging :: "bool option"
  dr_foreground_app :: "string option"
  dr_agent :: "application_observation option"
  dr_power :: "power_observation option"
  dr_application :: "application_observation option"
  dr_kiosk_state :: string
  dr_route :: string
  dr_conditions :: "(condition_family, status_condition) btree_map"
  dr_capabilities :: capability_snapshot
  dr_stream_count :: usize
  dr_active_work_count :: usize
  dr_extensions :: extensions

text \<open>\<^verbatim>\<open>#[derive(Debug)]\<close> prints the variant's name.\<close>

fun family_debug :: "condition_family \<Rightarrow> string" where
  "family_debug Family_Identity = ''Identity''"
| "family_debug Family_Freshness = ''Freshness''"
| "family_debug Family_Power = ''Power''"
| "family_debug Family_Application = ''Application''"
| "family_debug Family_Control = ''Control''"
| "family_debug Family_Privileged = ''Privileged''"
| "family_debug Family_Media = ''Media''"
| "family_debug Family_Work = ''Work''"
| "family_debug Family_Alert = ''Alert''"

definition row_head_failures :: "device_row \<Rightarrow> failures" where
  "row_head_failures r =
     fail_if (dr_schema r \<noteq> ''rusty.fleet.device_row.v1'')
       ''wrong_schema'' ''schema'' ''expected rusty.fleet.device_row.v1'' @
     nested (validate_identity (dr_identity r)) @
     require_nonempty (dr_source_epoch r) ''source_epoch'' @
     fail_if (dr_accepted_revision r = 0 \<or> dr_age_ms r < 0)
       ''invalid_projection_revision_or_age'' ''accepted_revision''
       ''accepted revision must be positive and age must be nonnegative'' @
     fail_if (some_and (\<lambda>percent. percent > 100) (dr_battery_percent r))
       ''invalid_battery'' ''battery_percent'' ''battery percentage must be between 0 and 100'' @
     on_some (\<lambda>agent. nested_at ''agent.'' (validate_application agent)) (dr_agent r) @
     on_some (\<lambda>power. nested_at ''power.'' (validate_power power)) (dr_power r) @
     on_some (\<lambda>application. nested_at ''application.'' (validate_application application))
       (dr_application r)"

definition validate_row :: "device_row \<Rightarrow> validation" where
  "validate_row r = finish (
     row_head_failures r @
     fail_if (bt_len (dr_conditions r) > 16 \<or> bt_len (dr_extensions r) > 64)
       ''row_projection_too_large'' ''conditions''
       ''row projections support bounded condition and extension collections'' @
     require_nonempty (dr_kiosk_state r) ''kiosk_state'' @
     require_nonempty (dr_route r) ''route'' @
     for_entries (\<lambda>family condition.
       fail_if (family \<noteq> sc_family condition)
         ''condition_key_mismatch'' (''conditions.'' @ family_debug family)
         ''condition map key must match the condition family'' @
       nested_at (''conditions.'' @ family_debug family @ ''.'') (validate_condition condition))
       (dr_conditions r) @
     nested (validate_capabilities (dr_capabilities r)))"

record device_inspector =
  dins_schema :: string
  dins_row :: device_row
  dins_attention :: "status_condition list"
  dins_streams :: "stream_descriptor list"
  dins_active_operations :: "operation_ledger list"

definition validate_inspector ::
  "(json_value \<Rightarrow> nat option) \<Rightarrow> device_inspector \<Rightarrow> validation" where
  "validate_inspector json_bytes i = finish (
     fail_if (dins_schema i \<noteq> ''rusty.fleet.device_inspector.v1'')
       ''wrong_schema'' ''schema'' ''expected rusty.fleet.device_inspector.v1'' @
     nested (validate_row (dins_row i)) @
     fail_if (length (dins_attention i) > 64 \<or> length (dins_streams i) > 32 \<or>
              length (dins_active_operations i) > 128)
       ''inspector_projection_too_large'' ''inspector''
       ''inspector collection limits were exceeded'' @
     for_each (\<lambda>index condition.
       nested_at (''attention['' @ show_nat index @ ''].'') (validate_condition condition))
       (dins_attention i) @
     for_each (\<lambda>index stream.
       nested_at (''streams['' @ show_nat index @ ''].'') (validate_stream json_bytes stream))
       (dins_streams i) @
     for_each (\<lambda>index operation.
       nested_at (''active_operations['' @ show_nat index @ ''].'') (validate_operation_ledger operation))
       (dins_active_operations i))"

record device_detail =
  dd_schema :: string
  dd_inspector :: device_inspector
  dd_condition_history :: "status_condition list"
  dd_operation_history :: "operation_ledger list"

definition validate_detail ::
  "(json_value \<Rightarrow> nat option) \<Rightarrow> device_detail \<Rightarrow> validation" where
  "validate_detail json_bytes d = finish (
     fail_if (dd_schema d \<noteq> ''rusty.fleet.device_detail.v1'')
       ''wrong_schema'' ''schema'' ''expected rusty.fleet.device_detail.v1'' @
     nested (validate_inspector json_bytes (dd_inspector d)) @
     fail_if (length (dd_condition_history d) > 128 \<or> length (dd_operation_history d) > 1000)
       ''detail_projection_too_large'' ''detail'' ''detail history limits were exceeded'' @
     for_each (\<lambda>index condition.
       nested_at (''condition_history['' @ show_nat index @ ''].'') (validate_condition condition))
       (dd_condition_history d) @
     for_each (\<lambda>index operation.
       nested_at (''operation_history['' @ show_nat index @ ''].'') (validate_operation_ledger operation))
       (dd_operation_history d))"

record fleet_summary =
  fsum_schema :: string
  fsum_as_of_ms :: i64
  fsum_total :: usize
  fsum_fresh :: usize
  fsum_stale :: usize
  fsum_offline :: usize
  fsum_attention :: usize
  fsum_active_work :: usize

definition validate_summary :: "fleet_summary \<Rightarrow> validation" where
  "validate_summary s = finish (
     fail_if (fsum_schema s \<noteq> ''rusty.fleet.summary.v1'')
       ''wrong_schema'' ''schema'' ''expected rusty.fleet.summary.v1'' @
     fail_if (fsum_fresh s + fsum_stale s + fsum_offline s > fsum_total s \<or>
              fsum_attention s > fsum_total s)
       ''invalid_summary_counts'' ''total''
       ''summary category counts are inconsistent with the total'')"

record fleet_query_result =
  fqr_schema :: string
  fqr_query :: fleet_query
  fqr_result_revision :: u64
  fqr_as_of_ms :: i64
  fqr_total_count :: usize
  fqr_window_offset :: usize
  fqr_window_count :: usize
  fqr_rows :: "device_row list"

definition validate_query_result :: "fleet_query_result \<Rightarrow> validation" where
  "validate_query_result r = finish (
     fail_if (fqr_schema r \<noteq> ''rusty.fleet.query_result.v1'')
       ''wrong_schema'' ''schema'' ''expected rusty.fleet.query_result.v1'' @
     fail_if (fqr_result_revision r = 0)
       ''invalid_revision'' ''result_revision'' ''result revision must be greater than zero'' @
     fail_if (fqr_window_count r \<noteq> length (fqr_rows r) \<or>
              u64_saturating_add (fqr_window_offset r) (fqr_window_count r) > fqr_total_count r)
       ''invalid_window'' ''rows''
       ''query result window metadata does not match returned rows'' @
     nested (validate_query (fqr_query r)))"

lemma validate_row_not_Inl_Nil [simp]: "validate_row r \<noteq> Inl []"
  by (simp add: validate_row_def)

lemma validate_inspector_not_Inl_Nil [simp]: "validate_inspector jb r \<noteq> Inl []"
  by (simp add: validate_inspector_def)

lemma validate_query_not_Inl_Nil [simp]: "validate_query r \<noteq> Inl []"
  by (simp add: validate_query_def)

end
