(* ===== verification/Saved_View.thy ===== *)
theory Saved_View
  imports Projection
begin

text \<open>
  The second half of crates/fleet-contracts/src/projection.rs: saved views, the canonical
  collection, the mutation request and receipt, and the lowercase dotted-ID grammar, which
  checkin.rs also uses.
\<close>

section \<open>Lowercase dotted identifiers\<close>

definition is_identifier_edge :: "char \<Rightarrow> bool" where
  "is_identifier_edge c \<longleftrightarrow> is_ascii_lowercase c \<or> is_ascii_digit c"

definition is_identifier_body :: "char \<Rightarrow> bool" where
  "is_identifier_body c \<longleftrightarrow> is_identifier_edge c \<or> c = CHR ''_'' \<or> c = CHR ''-''"

definition is_dotted_segment :: "string \<Rightarrow> bool" where
  "is_dotted_segment segment \<longleftrightarrow>
     segment \<noteq> [] \<and> is_identifier_edge (hd segment) \<and> is_identifier_edge (last segment) \<and>
     list_all is_identifier_body segment"

definition is_valid_saved_view_id :: "string \<Rightarrow> bool" where
  "is_valid_saved_view_id value \<longleftrightarrow>
     value \<noteq> [] \<and> length value \<le> 128 \<and> list_all is_dotted_segment (split_on CHR ''.'' value)"

lemma edge_not_blank:
  assumes "is_identifier_edge c"
  shows "\<not> is_blank (c # cs)"
proof -
  have "of_char c \<notin> {9, 10, 11, 12, 13, 32, 194, 225, 226, 227 :: nat}"
    using assms by (auto simp: is_identifier_edge_def is_ascii_lowercase_def is_ascii_digit_def)
  then show ?thesis by (auto simp: is_blank.simps split: list.splits)
qed

lemma valid_id_not_blank: "is_valid_saved_view_id value \<Longrightarrow> \<not> is_blank value"
proof (cases "value")
  case Nil
  assume "is_valid_saved_view_id value"
  with Nil show ?thesis by (simp add: is_valid_saved_view_id_def)
next
  case (Cons c cs)
  assume "is_valid_saved_view_id value"
  with Cons have "is_identifier_edge c"
    by (auto simp: is_valid_saved_view_id_def is_dotted_segment_def split: list.splits if_splits)
  with Cons show ?thesis by (simp add: edge_not_blank)
qed

section \<open>Saved views\<close>

record navigation_restoration =
  nr_selected_device_id :: "string option"
  nr_inspector_tab :: "string option"
  nr_scroll_anchor_device_id :: "string option"
  nr_focused_region :: "string option"
  nr_collapsed_groups :: "string list"

record saved_view =
  sv_schema :: string
  sv_view_id :: string
  sv_name :: string
  sv_query :: fleet_query
  sv_columns :: "string list"
  sv_density :: string
  sv_grouping :: "string option"
  sv_restoration :: navigation_restoration
  sv_schema_version :: u32

definition restoration_texts :: "navigation_restoration \<Rightarrow> string list" where
  "restoration_texts r = List.map_filter id
     [nr_selected_device_id r, nr_inspector_tab r, nr_scroll_anchor_device_id r, nr_focused_region r]"

definition saved_view_text_failures :: "saved_view \<Rightarrow> failures" where
  "saved_view_text_failures v =
     fail_if (length (sv_name v) > 256 \<or> length (sv_density v) > 32 \<or>
              some_and (\<lambda>g. length g > 128) (sv_grouping v) \<or>
              list_ex (\<lambda>t. length t > 128) (restoration_texts (sv_restoration v)))
       ''saved_view_text_too_large'' ''saved_view''
       ''saved-view identity, display, grouping, and restoration text is bounded'' @
     fail_if (some_and is_blank (sv_grouping v) \<or>
              list_ex is_blank (restoration_texts (sv_restoration v)))
       ''invalid_saved_view_text'' ''saved_view''
       ''optional saved-view grouping and restoration text must be nonempty when present''"

definition saved_view_item_failures :: "saved_view \<Rightarrow> failures" where
  "saved_view_item_failures v =
     fail_if (length (sv_columns v) > 64 \<or> length (nr_collapsed_groups (sv_restoration v)) > 512)
       ''saved_view_too_large'' ''saved_view''
       ''saved-view column and collapsed-group limits were exceeded'' @
     fail_if (list_ex (\<lambda>t. is_blank t \<or> length t > 128) (sv_columns v) \<or>
              list_ex (\<lambda>t. is_blank t \<or> length t > 128) (nr_collapsed_groups (sv_restoration v)))
       ''invalid_saved_view_item'' ''saved_view''
       ''saved-view columns and collapsed groups must contain bounded nonempty text'' @
     fail_if (unique_count (sv_columns v) \<noteq> length (sv_columns v) \<or>
              unique_count (nr_collapsed_groups (sv_restoration v)) \<noteq>
                length (nr_collapsed_groups (sv_restoration v)))
       ''duplicate_saved_view_item'' ''saved_view''
       ''saved-view columns and collapsed groups must be unique''"

definition validate_saved_view :: "saved_view \<Rightarrow> validation" where
  "validate_saved_view v = finish (
     fail_if (sv_schema v \<noteq> ''rusty.fleet.saved_view.v1'')
       ''wrong_schema'' ''schema'' ''expected rusty.fleet.saved_view.v1'' @
     require_nonempty (sv_view_id v) ''view_id'' @
     require_nonempty (sv_name v) ''name'' @
     require_nonempty (sv_density v) ''density'' @
     fail_if (\<not> is_valid_saved_view_id (sv_view_id v))
       ''invalid_saved_view_id'' ''view_id'' ''saved-view ID must use lowercase dotted-ID grammar'' @
     saved_view_text_failures v @
     saved_view_item_failures v @
     fail_if (sv_density v \<notin> {''compact'', ''standard'', ''comfortable''})
       ''invalid_saved_view_density'' ''density''
       ''saved-view density must be compact, standard, or comfortable'' @
     fail_if (sv_schema_version v = 0)
       ''invalid_schema_version'' ''schema_version'' ''schema version must be greater than zero'' @
     nested_at ''query.'' (validate_query (sv_query v)))"

record saved_view_collection =
  svc_schema :: string
  svc_revision :: u64
  svc_views :: "saved_view list"

definition validate_collection :: "saved_view_collection \<Rightarrow> validation" where
  "validate_collection c = finish (
     fail_if (svc_schema c \<noteq> ''rusty.fleet.saved_view_collection.v1'')
       ''wrong_schema'' ''schema'' ''expected rusty.fleet.saved_view_collection.v1'' @
     fail_if (svc_revision c = 0)
       ''invalid_revision'' ''revision''
       ''saved-view collection revision must be greater than zero'' @
     fail_if (length (svc_views c) > 128)
       ''saved_view_collection_too_large'' ''views''
       ''saved-view collections are limited to 128 entries'' @
     for_each (\<lambda>index (previous, view).
       nested_at (''views['' @ show_nat index @ ''].'') (validate_saved_view view) @
       fail_if (not_after_previous (map_option sv_view_id previous) (sv_view_id view))
         ''saved_views_not_canonical'' ''views''
         ''saved views must be unique and ordered by view_id'')
       (with_previous (svc_views c)))"

record saved_view_mutation_request =
  svr_schema :: string
  svr_expected_revision :: u64
  svr_view :: saved_view

definition validate_mutation_request :: "saved_view_mutation_request \<Rightarrow> validation" where
  "validate_mutation_request r = finish (
     fail_if (svr_schema r \<noteq> ''rusty.fleet.saved_view_mutation_request.v1'')
       ''wrong_schema'' ''schema'' ''expected rusty.fleet.saved_view_mutation_request.v1'' @
     fail_if (svr_expected_revision r = 0)
       ''invalid_revision'' ''expected_revision''
       ''expected saved-view revision must be greater than zero'' @
     nested_at ''view.'' (validate_saved_view (svr_view r)))"

record saved_view_mutation_receipt =
  svm_schema :: string
  svm_view_id :: string
  svm_previous_revision :: u64
  svm_current_revision :: u64
  svm_changed :: bool
  svm_deleted :: bool
  svm_view :: "saved_view option"

definition validate_mutation_receipt :: "saved_view_mutation_receipt \<Rightarrow> validation" where
  "validate_mutation_receipt r = finish (
     fail_if (svm_schema r \<noteq> ''rusty.fleet.saved_view_mutation_receipt.v1'')
       ''wrong_schema'' ''schema'' ''expected rusty.fleet.saved_view_mutation_receipt.v1'' @
     require_nonempty (svm_view_id r) ''view_id'' @
     fail_if (\<not> is_valid_saved_view_id (svm_view_id r) \<or>
              svm_previous_revision r = 0 \<or>
              svm_current_revision r < svm_previous_revision r \<or>
              svm_current_revision r > u64_saturating_add (svm_previous_revision r) 1 \<or>
              svm_changed r \<and> svm_current_revision r = svm_previous_revision r \<or>
              \<not> svm_changed r \<and> svm_current_revision r \<noteq> svm_previous_revision r \<or>
              svm_deleted r \<and> \<not> svm_changed r \<or>
              svm_deleted r \<noteq> (svm_view r = None))
       ''invalid_saved_view_receipt'' ''receipt''
       ''saved-view receipt revision, deletion, or payload state is inconsistent'' @
     on_some (\<lambda>view.
       fail_if (sv_view_id view \<noteq> svm_view_id r)
         ''saved_view_identity_mismatch'' ''view.view_id''
         ''receipt view identity must match view_id'' @
       nested_at ''view.'' (validate_saved_view view)) (svm_view r))"

lemma validate_saved_view_not_Inl_Nil [simp]: "validate_saved_view v \<noteq> Inl []"
  by (simp add: validate_saved_view_def)

lemma valid_saved_view_id:
  "valid (validate_saved_view v) \<Longrightarrow> is_valid_saved_view_id (sv_view_id v)"
  by (simp add: validate_saved_view_def)

lemma valid_mutation_request:
  "valid (validate_mutation_request r) \<longleftrightarrow>
     svr_schema r = ''rusty.fleet.saved_view_mutation_request.v1'' \<and>
     0 < svr_expected_revision r \<and> valid (validate_saved_view (svr_view r))"
  by (simp add: validate_mutation_request_def)

lemma valid_collection:
  "valid (validate_collection c) \<longleftrightarrow>
     svc_schema c = ''rusty.fleet.saved_view_collection.v1'' \<and> 0 < svc_revision c \<and>
     length (svc_views c) \<le> 128 \<and> (\<forall>v\<in>set (svc_views c). valid (validate_saved_view v)) \<and>
     strictly_sorted (map sv_view_id (svc_views c))"
proof -
  let ?vs = "svc_views c"
  let ?each = "\<lambda>i. (\<lambda>(previous, view). valid (validate_saved_view view) \<and>
      \<not> not_after_previous (map_option sv_view_id previous) (sv_view_id view)) (with_previous ?vs ! i)"
  have "(\<forall>i<length ?vs. ?each i) \<longleftrightarrow>
      (\<forall>i<length ?vs. valid (validate_saved_view (?vs ! i))) \<and>
      (\<forall>i<length ?vs. \<not> not_after_previous (map_option sv_view_id (fst (with_previous ?vs ! i))) (sv_view_id (?vs ! i)))"
    by (auto simp: nth_with_previous)
  also have "\<dots> \<longleftrightarrow> (\<forall>v\<in>set ?vs. valid (validate_saved_view v)) \<and> strictly_sorted (map sv_view_id ?vs)"
    by (simp only: ascending_iff all_set_conv_all_nth)
  finally show ?thesis
    by (auto simp: validate_collection_def split_beta)
qed

end
