(* ===== verification/Kiosk_Contract.thy ===== *)
theory Kiosk_Contract
  imports Command
begin

text \<open>
  crates/fleet-contracts/src/kiosk.rs: the contracts of the \<^verbatim>\<open>kiosk.show-controls\<close> operation. The
  preview request, the pinned owner contract, the preflight of a target with its expected reason
  code, the immutable preview, the effective receipt, the per-target ledger with the state table
  of its lifecycle, the derived lifecycle of an operation and the operation's validator.
\<close>

section \<open>Requests\<close>

definition kiosk_show_controls_action_id :: string where
  "kiosk_show_controls_action_id = ''kiosk.show-controls''"

definition kiosk_capability_id :: string where
  "kiosk_capability_id = ''rusty-kiosk.direct-operator''"

definition kiosk_owner :: string where
  "kiosk_owner = ''rusty-kiosk''"

definition kiosk_show_controls_command :: string where
  "kiosk_show_controls_command = ''show-controls''"

definition kiosk_cli_result_schema :: string where
  "kiosk_cli_result_schema = ''rusty.kiosk.cli_result.v1''"

record operation_preview_request =
  opr_schema :: string
  opr_action_id :: string
  opr_targets :: "(string, u64) btree_map"

definition validate_preview_request :: "operation_preview_request \<Rightarrow> validation" where
  "validate_preview_request r = finish (
     fail_if (opr_schema r \<noteq> ''rusty.fleet.operation_preview_request.v1'')
       ''wrong_schema'' ''schema'' ''expected rusty.fleet.operation_preview_request.v1'' @
     fail_if (opr_action_id r \<noteq> kiosk_show_controls_action_id)
       ''wrong_action'' ''action_id'' ''expected kiosk.show-controls'' @
     fail_if (bt_len (opr_targets r) = 0 \<or> bt_len (opr_targets r) > 10000)
       ''invalid_target_count'' ''targets''
       ''operation previews require 1 through 10000 targets'' @
     for_entries (\<lambda>device_id identity_revision.
       fail_if (device_id = [] \<or> length device_id > 256)
         ''invalid_device_id'' ''targets'' ''target device IDs contain 1 through 256 bytes'' @
       fail_if (identity_revision = 0)
         ''invalid_identity_revision'' ''targets''
         ''target identity revisions must be greater than zero'') (opr_targets r))"

record operation_execute_request =
  oer_schema :: string
  oer_operation_id :: string
  oer_preview_id :: string

definition validate_execute_request :: "operation_execute_request \<Rightarrow> validation" where
  "validate_execute_request r = finish (
     fail_if (oer_schema r \<noteq> ''rusty.fleet.operation_execute_request.v1'')
       ''wrong_schema'' ''schema'' ''expected rusty.fleet.operation_execute_request.v1'' @
     for_in (\<lambda>(path, text).
       fail_if (text = [] \<or> length text > 256)
         ''invalid_identifier'' path ''operation and preview IDs contain 1 through 256 bytes'')
       [(''operation_id'', oer_operation_id r), (''preview_id'', oer_preview_id r)])"

section \<open>The pinned owner contract\<close>

record owner_contract =
  oc_owner_repo_id :: string
  oc_owner_contract_schema :: string
  oc_owner_contract_revision :: string
  oc_capability_id :: string
  oc_request_auth :: string
  oc_response_auth :: string
  oc_invoke_method :: string
  oc_invoke_target :: string
  oc_result_method :: string
  oc_result_target :: string
  oc_result_request_id_parameter :: string
  oc_port :: u16
  oc_max_clock_skew_seconds :: u16
  oc_command :: string
  oc_command_value :: "string option"
  oc_owner_result_schema :: string

definition show_controls_v1 :: owner_contract where
  "show_controls_v1 = \<lparr>
     oc_owner_repo_id = kiosk_owner,
     oc_owner_contract_schema = ''rusty.kiosk.direct_operator.v1'',
     oc_owner_contract_revision = ''8954228f9ae67c5995a72569e3c9cdd3758f85c0'',
     oc_capability_id = kiosk_capability_id,
     oc_request_auth = ''hmac-sha256-v1'',
     oc_response_auth = ''hmac-sha256-response-v1'',
     oc_invoke_method = ''POST'',
     oc_invoke_target = ''/v1/kiosk/invoke'',
     oc_result_method = ''GET'',
     oc_result_target = ''/v1/kiosk/result'',
     oc_result_request_id_parameter = ''request_id'',
     oc_port = 39873,
     oc_max_clock_skew_seconds = 90,
     oc_command = kiosk_show_controls_command,
     oc_command_value = None,
     oc_owner_result_schema = kiosk_cli_result_schema\<rparr>"

definition validate_owner_contract :: "owner_contract \<Rightarrow> validation" where
  "validate_owner_contract c = (let expected = show_controls_v1 in finish (
     for_in (\<lambda>(path, actual, required).
       fail_if (actual \<noteq> required) ''owner_contract_mismatch'' path
         ''Kiosk owner contract binding differs from the pinned show-controls surface'')
       [(''owner_repo_id'', oc_owner_repo_id c, oc_owner_repo_id expected),
        (''owner_contract_schema'', oc_owner_contract_schema c, oc_owner_contract_schema expected),
        (''owner_contract_revision'', oc_owner_contract_revision c, oc_owner_contract_revision expected),
        (''capability_id'', oc_capability_id c, oc_capability_id expected),
        (''request_auth'', oc_request_auth c, oc_request_auth expected),
        (''response_auth'', oc_response_auth c, oc_response_auth expected),
        (''invoke_method'', oc_invoke_method c, oc_invoke_method expected),
        (''invoke_target'', oc_invoke_target c, oc_invoke_target expected),
        (''result_method'', oc_result_method c, oc_result_method expected),
        (''result_target'', oc_result_target c, oc_result_target expected),
        (''result_request_id_parameter'', oc_result_request_id_parameter c,
           oc_result_request_id_parameter expected),
        (''command'', oc_command c, oc_command expected),
        (''owner_result_schema'', oc_owner_result_schema c, oc_owner_result_schema expected)] @
     fail_if (oc_command_value c \<noteq> None)
       ''owner_contract_mismatch'' ''command_value''
       ''Kiosk show-controls accepts no command value'' @
     fail_if (oc_port c \<noteq> 39873 \<or> oc_max_clock_skew_seconds c \<noteq> 90)
       ''owner_contract_mismatch'' ''port''
       ''Kiosk owner port and request-expiry window differ from direct operator v1''))"

text \<open>Exactly one binding passes: the pinned one.\<close>

lemma valid_owner_contract [contract_simps]:
  "valid (validate_owner_contract c) \<longleftrightarrow> c = show_controls_v1"
proof -
  have "valid (validate_owner_contract c) \<longleftrightarrow>
    oc_owner_repo_id c = oc_owner_repo_id show_controls_v1 \<and>
    oc_owner_contract_schema c = oc_owner_contract_schema show_controls_v1 \<and>
    oc_owner_contract_revision c = oc_owner_contract_revision show_controls_v1 \<and>
    oc_capability_id c = oc_capability_id show_controls_v1 \<and>
    oc_request_auth c = oc_request_auth show_controls_v1 \<and>
    oc_response_auth c = oc_response_auth show_controls_v1 \<and>
    oc_invoke_method c = oc_invoke_method show_controls_v1 \<and>
    oc_invoke_target c = oc_invoke_target show_controls_v1 \<and>
    oc_result_method c = oc_result_method show_controls_v1 \<and>
    oc_result_target c = oc_result_target show_controls_v1 \<and>
    oc_result_request_id_parameter c = oc_result_request_id_parameter show_controls_v1 \<and>
    oc_command c = oc_command show_controls_v1 \<and>
    oc_owner_result_schema c = oc_owner_result_schema show_controls_v1 \<and>
    oc_command_value c = oc_command_value show_controls_v1 \<and>
    oc_port c = oc_port show_controls_v1 \<and>
    oc_max_clock_skew_seconds c = oc_max_clock_skew_seconds show_controls_v1"
    unfolding validate_owner_contract_def Let_def
    by (simp add: show_controls_v1_def conj_assoc)
  also have "\<dots> \<longleftrightarrow> c = show_controls_v1"
    by (cases c) (auto simp: show_controls_v1_def)
  finally show ?thesis .
qed

section \<open>Preflight\<close>

record kiosk_preflight =
  kp_device_id :: string
  kp_identity_revision :: u64
  kp_capability_id :: string
  kp_capability_evidence_revision :: u64
  kp_capability_owner :: string
  kp_support :: support_state
  kp_enablement :: enablement_state
  kp_authorization :: authorization_state
  kp_reachability :: reachability_state
  kp_freshness :: freshness_state
  kp_observed_at_ms :: i64
  kp_fresh_until_ms :: i64
  kp_evaluated_at_ms :: i64
  kp_eligible :: bool
  kp_reason_code :: string
  kp_message :: string

definition expected_reason_code :: "kiosk_preflight \<Rightarrow> string" where
  "expected_reason_code p =
     (case kp_support p of
        Support_Unsupported \<Rightarrow> ''unsupported''
      | Support_Unknown \<Rightarrow> ''support_unknown''
      | Support_Supported \<Rightarrow> (case kp_enablement p of
          Enablement_Disabled \<Rightarrow> ''disabled''
        | Enablement_Unknown \<Rightarrow> ''enablement_unknown''
        | Enablement_Enabled \<Rightarrow> (case kp_authorization p of
            Authorization_Unauthorized \<Rightarrow> ''unauthorized''
          | Authorization_Restricted \<Rightarrow> ''restricted''
          | Authorization_Unknown \<Rightarrow> ''authorization_unknown''
          | Authorization_Authorized \<Rightarrow> (case kp_reachability p of
              Reachability_Disconnected \<Rightarrow> ''disconnected''
            | Reachability_Unavailable \<Rightarrow> ''unavailable''
            | Reachability_Unknown \<Rightarrow> ''reachability_unknown''
            | Reachability_Reachable \<Rightarrow>
                if kp_freshness p = Freshness_Current \<and> kp_evaluated_at_ms p \<le> kp_fresh_until_ms p
                then ''ready''
                else (case kp_freshness p of
                    Freshness_Unknown \<Rightarrow> ''freshness_unknown''
                  | Freshness_Stale \<Rightarrow> ''stale''
                  | Freshness_Current \<Rightarrow> ''stale'')))))"

definition expected_eligibility :: "kiosk_preflight \<Rightarrow> bool" where
  "expected_eligibility p \<longleftrightarrow> expected_reason_code p = ''ready''"

lemma expected_eligibility_iff:
  "expected_eligibility p \<longleftrightarrow>
     kp_support p = Support_Supported \<and> kp_enablement p = Enablement_Enabled \<and>
     kp_authorization p = Authorization_Authorized \<and> kp_reachability p = Reachability_Reachable \<and>
     kp_freshness p = Freshness_Current \<and> kp_evaluated_at_ms p \<le> kp_fresh_until_ms p"
  by (simp add: expected_eligibility_def expected_reason_code_def split: support_state.split
      enablement_state.split authorization_state.split reachability_state.split freshness_state.split)

lemma expected_reason_code_not_blank [simp]: "\<not> is_blank (expected_reason_code p)"
  by (simp add: expected_reason_code_def is_blank.simps split: support_state.split
      enablement_state.split authorization_state.split reachability_state.split freshness_state.split)

definition validate_preflight :: "kiosk_preflight \<Rightarrow> validation" where
  "validate_preflight p = finish (
     require_nonempty (kp_device_id p) ''device_id'' @
     require_nonempty (kp_reason_code p) ''reason_code'' @
     require_nonempty (kp_message p) ''message'' @
     fail_if (kp_identity_revision p = 0)
       ''invalid_identity_revision'' ''identity_revision''
       ''identity revision must be greater than zero'' @
     fail_if (kp_capability_evidence_revision p = 0)
       ''invalid_capability_revision'' ''capability_evidence_revision''
       ''capability evidence revision must be greater than zero'' @
     fail_if (kp_capability_id p \<noteq> kiosk_capability_id \<or> kp_capability_owner p \<noteq> kiosk_owner)
       ''wrong_capability_owner'' ''capability_id''
       ''show-controls preflight must use the Kiosk-owned direct-operator capability'' @
     fail_if (kp_fresh_until_ms p < kp_observed_at_ms p \<or> kp_evaluated_at_ms p < kp_observed_at_ms p)
       ''invalid_preflight_window'' ''evaluated_at_ms''
       ''preflight evaluation must follow observation and use a coherent freshness window'' @
     fail_if (kp_eligible p \<noteq> expected_eligibility p \<or> kp_reason_code p \<noteq> expected_reason_code p)
       ''preflight_result_mismatch'' ''eligible''
       ''preflight eligibility and reason must match the exact capability facts'')"

lemma valid_preflight [contract_simps]:
  "valid (validate_preflight p) \<longleftrightarrow>
     \<not> is_blank (kp_device_id p) \<and> \<not> is_blank (kp_reason_code p) \<and> \<not> is_blank (kp_message p) \<and>
     0 < kp_identity_revision p \<and> 0 < kp_capability_evidence_revision p \<and>
     kp_capability_id p = kiosk_capability_id \<and> kp_capability_owner p = kiosk_owner \<and>
     kp_observed_at_ms p \<le> kp_fresh_until_ms p \<and> kp_observed_at_ms p \<le> kp_evaluated_at_ms p \<and>
     kp_eligible p = expected_eligibility p \<and> kp_reason_code p = expected_reason_code p"
  by (auto simp: validate_preflight_def)

section \<open>Preview\<close>

record kiosk_preview =
  kv_schema :: string
  kv_preview_id :: string
  kv_operation_id :: string
  kv_action_id :: string
  kv_created_at_ms :: i64
  kv_expires_at_ms :: i64
  kv_fleet_revision :: u64
  kv_owner_contract :: owner_contract
  kv_targets :: "kiosk_preflight list"

definition preview_target_failures ::
  "kiosk_preview \<Rightarrow> nat \<Rightarrow> kiosk_preflight option \<times> kiosk_preflight \<Rightarrow> failures" where
  "preview_target_failures v index = (\<lambda>(previous, target).
     nested_at (''targets['' @ show_nat index @ ''].'') (validate_preflight target) @
     fail_if (kp_evaluated_at_ms target < kv_created_at_ms v \<or>
              kp_evaluated_at_ms target > kv_expires_at_ms v)
       ''preflight_outside_preview'' (''targets['' @ show_nat index @ ''].evaluated_at_ms'')
       ''preflight evaluation must occur inside the immutable preview window'' @
     fail_if (not_after_previous (map_option kp_device_id previous) (kp_device_id target))
       ''noncanonical_targets'' (''targets['' @ show_nat index @ ''].device_id'')
       ''preview targets must be unique and sorted by device_id'')"

definition validate_kiosk_preview :: "kiosk_preview \<Rightarrow> validation" where
  "validate_kiosk_preview v = finish (
     fail_if (kv_schema v \<noteq> ''rusty.fleet.kiosk_show_controls_preview.v1'')
       ''wrong_schema'' ''schema'' ''expected rusty.fleet.kiosk_show_controls_preview.v1'' @
     require_nonempty (kv_preview_id v) ''preview_id'' @
     require_nonempty (kv_operation_id v) ''operation_id'' @
     fail_if (kv_action_id v \<noteq> kiosk_show_controls_action_id)
       ''wrong_action'' ''action_id'' ''expected kiosk.show-controls'' @
     fail_if (kv_expires_at_ms v \<le> kv_created_at_ms v)
       ''invalid_expiry'' ''expires_at_ms'' ''preview expiry must follow creation'' @
     fail_if (kv_fleet_revision v = 0)
       ''invalid_revision'' ''fleet_revision'' ''Fleet revision must be greater than zero'' @
     fail_if (kv_targets v = [] \<or> length (kv_targets v) > 10000)
       ''invalid_target_count'' ''targets''
       ''show-controls previews require 1 through 10000 targets'' @
     nested (validate_owner_contract (kv_owner_contract v)) @
     for_each (preview_target_failures v) (with_previous (kv_targets v)))"

lemma validate_preflight_not_Inl_Nil [simp]: "validate_preflight p \<noteq> Inl []"
  by (simp add: validate_preflight_def)

lemma validate_kiosk_preview_not_Inl_Nil [simp]: "validate_kiosk_preview p \<noteq> Inl []"
  by (simp add: validate_kiosk_preview_def)

lemma validate_owner_contract_not_Inl_Nil [simp]: "validate_owner_contract p \<noteq> Inl []"
  by (simp add: validate_owner_contract_def Let_def)

lemma valid_kiosk_preview [contract_simps]:
  "valid (validate_kiosk_preview v) \<longleftrightarrow>
     kv_schema v = ''rusty.fleet.kiosk_show_controls_preview.v1'' \<and>
     \<not> is_blank (kv_preview_id v) \<and> \<not> is_blank (kv_operation_id v) \<and>
     kv_action_id v = kiosk_show_controls_action_id \<and> kv_created_at_ms v < kv_expires_at_ms v \<and>
     0 < kv_fleet_revision v \<and> kv_targets v \<noteq> [] \<and> length (kv_targets v) \<le> 10000 \<and>
     kv_owner_contract v = show_controls_v1 \<and>
     (\<forall>p\<in>set (kv_targets v). valid (validate_preflight p) \<and>
        kv_created_at_ms v \<le> kp_evaluated_at_ms p \<and> kp_evaluated_at_ms p \<le> kv_expires_at_ms v) \<and>
     strictly_sorted (map kp_device_id (kv_targets v))"
proof -
  let ?ts = "kv_targets v"
  have "(\<forall>i<length ?ts. preview_target_failures v i (with_previous ?ts ! i) = []) \<longleftrightarrow>
      (\<forall>i<length ?ts. valid (validate_preflight (?ts ! i)) \<and>
         kv_created_at_ms v \<le> kp_evaluated_at_ms (?ts ! i) \<and> kp_evaluated_at_ms (?ts ! i) \<le> kv_expires_at_ms v) \<and>
      (\<forall>i<length ?ts. \<not> not_after_previous (map_option kp_device_id (fst (with_previous ?ts ! i))) (kp_device_id (?ts ! i)))"
    by (auto simp: nth_with_previous preview_target_failures_def)
  also have "\<dots> \<longleftrightarrow> (\<forall>p\<in>set ?ts. valid (validate_preflight p) \<and>
        kv_created_at_ms v \<le> kp_evaluated_at_ms p \<and> kp_evaluated_at_ms p \<le> kv_expires_at_ms v) \<and>
      strictly_sorted (map kp_device_id ?ts)"
    by (simp only: ascending_iff all_set_conv_all_nth)
  finally show ?thesis
    by (auto simp: validate_kiosk_preview_def valid_owner_contract)
qed

section \<open>Effective receipts\<close>

datatype retry_disposition = NotEligible | NewOwnerRequestRequired

datatype cancel_disposition =
  CancelableBeforeDispatch | CancellationRequestedBeforeDispatch | CancelledBeforeDispatch
| NotCancelableAfterDispatch | Terminal

record kiosk_receipt =
  kr_schema :: string
  kr_receipt_id :: string
  kr_operation_id :: string
  kr_device_id :: string
  kr_identity_revision :: u64
  kr_owner_contract :: owner_contract
  kr_owner_action_request_id :: string
  kr_owner_result_transport_request_id :: string
  kr_owner_command :: string
  kr_response_status :: u16
  kr_response_content_sha256 :: string
  kr_response_signature :: string
  kr_response_auth_verified :: bool
  kr_owner_result_schema :: string
  kr_owner_accepted :: bool
  kr_owner_completed :: bool
  kr_owner_recorded_at_ms :: i64
  kr_controls_open :: bool
  kr_wrapped_at_ms :: i64

definition is_owner_request_id :: "string \<Rightarrow> bool" where
  "is_owner_request_id value \<longleftrightarrow>
     8 \<le> length value \<and> length value \<le> 64 \<and>
     list_all (\<lambda>c. is_ascii_alphanumeric c \<or> c = CHR ''_'' \<or> c = CHR ''-'') value"

definition is_lower_hex_sha256 :: "string \<Rightarrow> bool" where
  "is_lower_hex_sha256 value \<longleftrightarrow> length value = 64 \<and> list_all is_lower_hex value"

definition validate_kiosk_receipt :: "kiosk_receipt \<Rightarrow> validation" where
  "validate_kiosk_receipt r = finish (
     fail_if (kr_schema r \<noteq> ''rusty.fleet.kiosk_effective_receipt.v1'')
       ''wrong_schema'' ''schema'' ''expected rusty.fleet.kiosk_effective_receipt.v1'' @
     require_nonempty (kr_receipt_id r) ''receipt_id'' @
     require_nonempty (kr_operation_id r) ''operation_id'' @
     require_nonempty (kr_device_id r) ''device_id'' @
     fail_if (kr_identity_revision r = 0)
       ''invalid_identity_revision'' ''identity_revision''
       ''identity revision must be greater than zero'' @
     nested (validate_owner_contract (kr_owner_contract r)) @
     fail_if (\<not> is_owner_request_id (kr_owner_action_request_id r) \<or>
              \<not> is_owner_request_id (kr_owner_result_transport_request_id r))
       ''invalid_owner_request_id'' ''owner_action_request_id''
       ''Kiosk action and signed result-transport request IDs contain 8 through 64 ASCII letters, digits, underscores, or hyphens'' @
     fail_if (kr_owner_action_request_id r = kr_owner_result_transport_request_id r)
       ''owner_request_id_reused'' ''owner_result_transport_request_id''
       ''the stable owner action request ID and signed transport-envelope request ID must be distinct'' @
     fail_if (kr_response_status r \<noteq> 200 \<or>
              \<not> is_lower_hex_sha256 (kr_response_content_sha256 r) \<or>
              \<not> is_lower_hex_sha256 (kr_response_signature r) \<or>
              \<not> kr_response_auth_verified r)
       ''unverified_owner_response'' ''response_auth_verified''
       ''effective Kiosk receipts require a verified signed HTTP 200 response and exact lowercase SHA-256 values'' @
     fail_if (kr_owner_result_schema r \<noteq> kiosk_cli_result_schema \<or>
              kr_owner_command r \<noteq> kiosk_show_controls_command \<or>
              \<not> kr_owner_accepted r \<or> \<not> kr_owner_completed r \<or> \<not> kr_controls_open r)
       ''ineffective_owner_receipt'' ''owner_command''
       ''effective Kiosk receipts require matching accepted, completed show-controls readback with controls_open=true'' @
     fail_if (kr_wrapped_at_ms r < kr_owner_recorded_at_ms r)
       ''invalid_receipt_time'' ''wrapped_at_ms''
       ''Fleet wrapping time must not precede the owner receipt'')"

lemma validate_kiosk_receipt_not_Inl_Nil [simp]: "validate_kiosk_receipt r \<noteq> Inl []"
  by (simp add: validate_kiosk_receipt_def)

text \<open>What a receipt that passes has established.\<close>

lemma valid_kiosk_receipt_effective:
  assumes "valid (validate_kiosk_receipt r)"
  shows "kr_response_status r = 200" and "kr_response_auth_verified r"
    and "kr_owner_accepted r \<and> kr_owner_completed r \<and> kr_controls_open r"
    and "kr_owner_contract r = show_controls_v1"
    and "kr_owner_command r = kiosk_show_controls_command"
    and "kr_owner_action_request_id r \<noteq> kr_owner_result_transport_request_id r"
  using assms by (simp_all add: validate_kiosk_receipt_def valid_owner_contract)

section \<open>The ledger of one target\<close>

record kiosk_target =
  kt_device_id :: string
  kt_identity_revision :: u64
  kt_preflight :: kiosk_preflight
  kt_lifecycle :: command_lifecycle
  kt_dispatched_at_ms :: "i64 option"
  kt_owner_deadline_at_ms :: "i64 option"
  kt_attempt_count :: u8
  kt_owner_request_ids :: "string list"
  kt_owner_request_id :: "string option"
  kt_effective_receipt :: "kiosk_receipt option"
  kt_retry_disposition :: retry_disposition
  kt_cancel_disposition :: cancel_disposition
  kt_reason_code :: string
  kt_message :: string
  kt_last_transition_ms :: i64

definition last_option :: "'a list \<Rightarrow> 'a option" where
  "last_option xs = (if xs = [] then None else Some (last xs))"

definition valid_owner_deadline :: "i64 option \<Rightarrow> i64 option \<Rightarrow> i64 \<Rightarrow> bool" where
  "valid_owner_deadline dispatched deadline preview_expires_at_ms =
     (case (dispatched, deadline) of
        (None, None) \<Rightarrow> True
      | (Some d, Some dl) \<Rightarrow> dl > d \<and> dl \<le> preview_expires_at_ms
      | _ \<Rightarrow> False)"

definition kiosk_target_binding_failures ::
  "u8 \<Rightarrow> i64 \<Rightarrow> i64 \<Rightarrow> kiosk_target \<Rightarrow> failures" where
  "kiosk_target_binding_failures max_attempts preview_created_at_ms preview_expires_at_ms t =
     require_nonempty (kt_device_id t) ''device_id'' @
     require_nonempty (kt_reason_code t) ''reason_code'' @
     require_nonempty (kt_message t) ''message'' @
     nested (validate_preflight (kt_preflight t)) @
     fail_if (kt_device_id t \<noteq> kp_device_id (kt_preflight t) \<or>
              kt_identity_revision t \<noteq> kp_identity_revision (kt_preflight t))
       ''ledger_preflight_mismatch'' ''preflight''
       ''target ledger identity must match its frozen preflight'' @
     fail_if (kt_attempt_count t > max_attempts)
       ''attempt_limit_exceeded'' ''attempt_count''
       ''target attempt count exceeds the operation maximum'' @
     fail_if (some_and (\<lambda>timestamp. timestamp < preview_created_at_ms \<or>
                timestamp > preview_expires_at_ms \<or> timestamp > kt_last_transition_ms t)
                (kt_dispatched_at_ms t))
       ''dispatch_outside_preview'' ''dispatched_at_ms''
       ''owner dispatch must occur inside the immutable preview window and before the latest transition'' @
     fail_if (\<not> valid_owner_deadline (kt_dispatched_at_ms t) (kt_owner_deadline_at_ms t)
                preview_expires_at_ms)
       ''invalid_owner_deadline'' ''owner_deadline_at_ms''
       ''every owner dispatch retains one absolute deadline after dispatch and no later than preview expiry''"

definition kiosk_target_attempt_failures :: "u8 \<Rightarrow> kiosk_target \<Rightarrow> failures" where
  "kiosk_target_attempt_failures max_attempts t =
     fail_if (length (kt_owner_request_ids t) \<noteq> kt_attempt_count t \<or>
              length (kt_owner_request_ids t) > max_attempts)
       ''attempt_history_mismatch'' ''owner_request_ids''
       ''attempt history must contain exactly one owner request ID per attempt'' @
     fail_if (unique_count (kt_owner_request_ids t) \<noteq> length (kt_owner_request_ids t) \<or>
              list_ex (\<lambda>request_id. \<not> is_owner_request_id request_id) (kt_owner_request_ids t))
       ''owner_request_reused'' ''owner_request_ids''
       ''every retry must use one new valid Kiosk owner request ID'' @
     fail_if (some_and (\<lambda>request_id. \<not> is_owner_request_id request_id) (kt_owner_request_id t))
       ''invalid_owner_request_id'' ''owner_request_id''
       ''owner request ID does not satisfy the Kiosk v1 contract'' @
     fail_if (kt_owner_request_id t \<noteq> last_option (kt_owner_request_ids t))
       ''current_attempt_mismatch'' ''owner_request_id''
       ''current owner request ID must equal the final request in attempt history'' @
     fail_if (kt_lifecycle t \<in> {CleanupPending, Cleaned})
       ''cleanup_forbidden'' ''lifecycle''
       ''show-controls has no temporary effect and never enters cleanup''"

text \<open>Conditions the rows of the state table share.\<close>

definition no_attempt :: "kiosk_target \<Rightarrow> bool" where
  "no_attempt t \<longleftrightarrow>
     kt_attempt_count t = 0 \<and> kt_dispatched_at_ms t = None \<and> kt_owner_deadline_at_ms t = None \<and>
     kt_owner_request_id t = None \<and> kt_effective_receipt t = None \<and>
     kt_retry_disposition t = NotEligible"

definition has_attempt :: "kiosk_target \<Rightarrow> bool" where
  "has_attempt t \<longleftrightarrow>
     kt_attempt_count t \<noteq> 0 \<and> kt_dispatched_at_ms t \<noteq> None \<and>
     kt_owner_deadline_at_ms t \<noteq> None \<and> kt_owner_request_id t \<noteq> None"

definition expected_retry :: "u8 \<Rightarrow> u8 \<Rightarrow> retry_disposition" where
  "expected_retry attempt_count max_attempts =
     (if attempt_count < max_attempts then NewOwnerRequestRequired else NotEligible)"

definition kiosk_target_state_failures :: "u8 \<Rightarrow> kiosk_target \<Rightarrow> failures" where
  "kiosk_target_state_failures max_attempts t =
    (case kt_lifecycle t of
       Proposed \<Rightarrow>
         fail_if (\<not> (no_attempt t \<and> kt_cancel_disposition t = CancelableBeforeDispatch))
           ''invalid_pre_dispatch_state'' ''lifecycle''
           ''eligible pre-dispatch targets are cancelable and have no owner request or receipt''
     | Accepted \<Rightarrow>
         fail_if (\<not> (no_attempt t \<and> kt_cancel_disposition t = CancelableBeforeDispatch))
           ''invalid_pre_dispatch_state'' ''lifecycle''
           ''eligible pre-dispatch targets are cancelable and have no owner request or receipt''
     | CancellationRequested \<Rightarrow>
         fail_if (\<not> (no_attempt t \<and> kt_cancel_disposition t = CancellationRequestedBeforeDispatch))
           ''unsafe_cancellation'' ''cancel_disposition''
           ''show-controls cancellation may be requested only before dispatch''
     | Cancelled \<Rightarrow>
         fail_if (\<not> (no_attempt t \<and> kt_cancel_disposition t = CancelledBeforeDispatch))
           ''unsafe_cancellation'' ''cancel_disposition''
           ''cancelled show-controls targets must prove no owner dispatch occurred''
     | Dispatched \<Rightarrow>
         fail_if (\<not> (has_attempt t \<and> kt_effective_receipt t = None \<and>
                     kt_retry_disposition t = NotEligible \<and>
                     kt_cancel_disposition t = NotCancelableAfterDispatch))
           ''invalid_inflight_state'' ''lifecycle''
           ''dispatched show-controls cannot be cancelled or retried while owner readback is pending''
     | Running \<Rightarrow>
         fail_if (\<not> (has_attempt t \<and> kt_effective_receipt t = None \<and>
                     kt_retry_disposition t = NotEligible \<and>
                     kt_cancel_disposition t = NotCancelableAfterDispatch))
           ''invalid_inflight_state'' ''lifecycle''
           ''dispatched show-controls cannot be cancelled or retried while owner readback is pending''
     | Applied \<Rightarrow>
         fail_if (\<not> (has_attempt t \<and> kt_effective_receipt t \<noteq> None \<and>
                     kt_retry_disposition t = NotEligible \<and> kt_cancel_disposition t = Terminal \<and>
                     kt_reason_code t = ''owner_effective_receipt''))
           ''applied_without_effective_receipt'' ''effective_receipt''
           ''applied show-controls requires one matching effective Kiosk owner receipt''
     | Lifecycle_Failed \<Rightarrow>
         fail_if (\<not> (has_attempt t \<and> kt_effective_receipt t = None \<and>
                     kt_retry_disposition t = expected_retry (kt_attempt_count t) max_attempts \<and>
                     kt_cancel_disposition t = Terminal))
           ''unsafe_retry'' ''retry_disposition''
           ''failed or expired targets may retry only below the attempt limit and always require a new owner request ID''
     | Expired \<Rightarrow>
         fail_if (\<not> (has_attempt t \<and> kt_effective_receipt t = None \<and>
                     kt_retry_disposition t = expected_retry (kt_attempt_count t) max_attempts \<and>
                     kt_cancel_disposition t = Terminal))
           ''unsafe_retry'' ''retry_disposition''
           ''failed or expired targets may retry only below the attempt limit and always require a new owner request ID''
     | Rejected \<Rightarrow> [violation ''eligible_target_rejected'' ''lifecycle''
           ''eligible targets cannot use the ineligible rejection state'']
     | CleanupPending \<Rightarrow> []
     | Cleaned \<Rightarrow> [])"

definition kiosk_target_receipt_failures :: "string \<Rightarrow> kiosk_target \<Rightarrow> failures" where
  "kiosk_target_receipt_failures operation_id t = on_some (\<lambda>receipt.
     nested_at ''effective_receipt.'' (validate_kiosk_receipt receipt) @
     fail_if (kr_operation_id receipt \<noteq> operation_id \<or> kr_device_id receipt \<noteq> kt_device_id t \<or>
              kr_identity_revision receipt \<noteq> kt_identity_revision t \<or>
              kt_owner_request_id t \<noteq> Some (kr_owner_action_request_id receipt))
       ''effective_receipt_binding_mismatch'' ''effective_receipt''
       ''effective owner receipt must bind the exact operation, target identity, and current owner request'')
     (kt_effective_receipt t)"

definition validate_for_operation ::
  "string \<Rightarrow> u8 \<Rightarrow> i64 \<Rightarrow> i64 \<Rightarrow> kiosk_target \<Rightarrow> validation" where
  "validate_for_operation operation_id max_attempts preview_created_at_ms preview_expires_at_ms t =
    (let failures =
       kiosk_target_binding_failures max_attempts preview_created_at_ms preview_expires_at_ms t @
       kiosk_target_attempt_failures max_attempts t
     in if \<not> kp_eligible (kt_preflight t) then finish (failures @
          fail_if (\<not> (kt_lifecycle t = Rejected \<and> no_attempt t \<and> kt_cancel_disposition t = Terminal))
            ''ineligible_target_dispatched'' ''lifecycle''
            ''an ineligible target must remain rejected without dispatch, retry, cancellation, or receipt'')
        else finish (failures @
          kiosk_target_state_failures max_attempts t @
          kiosk_target_receipt_failures operation_id t))"

lemma validate_for_operation_not_Inl_Nil [simp]: "validate_for_operation i m c e t \<noteq> Inl []"
  by (simp add: validate_for_operation_def Let_def)

section \<open>Operations\<close>

record kiosk_operation =
  ko_schema :: string
  ko_operation_id :: string
  ko_action_id :: string
  ko_created_at_ms :: i64
  ko_preview :: kiosk_preview
  ko_lifecycle :: command_lifecycle
  ko_max_parallelism :: u16
  ko_max_attempts_per_target :: u8
  ko_cleanup_required :: bool
  ko_targets :: "kiosk_target list"

definition is_inflight :: "kiosk_target \<Rightarrow> bool" where
  "is_inflight t \<longleftrightarrow> kt_lifecycle t \<in> {Dispatched, Running}"

definition derived_lifecycle :: "kiosk_operation \<Rightarrow> command_lifecycle" where
  "derived_lifecycle op =
    (let eligible = filter (\<lambda>t. kp_eligible (kt_preflight t)) (ko_targets op) in
     if eligible = [] then Rejected
     else if list_ex is_inflight eligible then Running
     else if list_ex (\<lambda>t. kt_lifecycle t = CancellationRequested) eligible then CancellationRequested
     else if list_ex (\<lambda>t. kt_lifecycle t = Proposed) eligible then Proposed
     else if list_ex (\<lambda>t. kt_lifecycle t = Accepted) eligible then Accepted
     else if list_all (\<lambda>t. kt_lifecycle t = Applied) eligible then Applied
     else if list_all (\<lambda>t. kt_lifecycle t = Cancelled) eligible then Cancelled
     else if list_all (\<lambda>t. kt_lifecycle t = Expired) eligible then Expired
     else Lifecycle_Failed)"

definition inflight_count :: "kiosk_operation \<Rightarrow> nat" where
  "inflight_count op = length (filter is_inflight (ko_targets op))"

definition preview_targets :: "kiosk_preview \<Rightarrow> (string, kiosk_preflight) btree_map" where
  "preview_targets v = bt_from_list (map (\<lambda>p. (kp_device_id p, p)) (kv_targets v))"

definition kiosk_operation_target_failures ::
  "kiosk_operation \<Rightarrow> nat \<Rightarrow> kiosk_target option \<times> kiosk_target \<Rightarrow> failures" where
  "kiosk_operation_target_failures op index = (\<lambda>(previous, target).
     nested_at (''targets['' @ show_nat index @ ''].'')
       (validate_for_operation (ko_operation_id op) (ko_max_attempts_per_target op)
          (kv_created_at_ms (ko_preview op)) (kv_expires_at_ms (ko_preview op)) target) @
     fail_if (none_or (\<lambda>preview. preview \<noteq> kt_preflight target)
                (bt_get (preview_targets (ko_preview op)) (kt_device_id target)))
       ''preview_target_mismatch'' (''targets['' @ show_nat index @ ''].preflight'')
       ''target ledger must preserve its complete immutable preview preflight'' @
     fail_if (not_after_previous (map_option kt_device_id previous) (kt_device_id target))
       ''noncanonical_targets'' (''targets['' @ show_nat index @ ''].device_id'')
       ''operation targets must remain unique and sorted by device_id'')"

definition kiosk_operation_head_failures :: "kiosk_operation \<Rightarrow> failures" where
  "kiosk_operation_head_failures op =
     fail_if (ko_schema op \<noteq> ''rusty.fleet.kiosk_show_controls_operation.v1'')
       ''wrong_schema'' ''schema'' ''expected rusty.fleet.kiosk_show_controls_operation.v1'' @
     require_nonempty (ko_operation_id op) ''operation_id'' @
     fail_if (ko_action_id op \<noteq> kiosk_show_controls_action_id)
       ''wrong_action'' ''action_id'' ''expected kiosk.show-controls'' @
     fail_if (ko_cleanup_required op)
       ''cleanup_forbidden'' ''cleanup_required''
       ''show-controls creates no temporary effect and requires no cleanup'' @
     fail_if (\<not> (1 \<le> ko_max_parallelism op \<and> ko_max_parallelism op \<le> 64))
       ''invalid_parallelism'' ''max_parallelism''
       ''show-controls dispatch parallelism must be between 1 and 64'' @
     fail_if (\<not> (1 \<le> ko_max_attempts_per_target op \<and> ko_max_attempts_per_target op \<le> 8))
       ''invalid_attempt_limit'' ''max_attempts_per_target''
       ''show-controls permits 1 through 8 explicitly bounded attempts per target'' @
     fail_if (ko_lifecycle op \<in> {CleanupPending, Cleaned})
       ''cleanup_forbidden'' ''lifecycle''
       ''show-controls operation lifecycle never enters cleanup'' @
     nested_at ''preview.'' (validate_kiosk_preview (ko_preview op)) @
     fail_if (kv_operation_id (ko_preview op) \<noteq> ko_operation_id op \<or>
              kv_action_id (ko_preview op) \<noteq> ko_action_id op \<or>
              kv_created_at_ms (ko_preview op) \<noteq> ko_created_at_ms op)
       ''preview_binding_mismatch'' ''preview''
       ''operation must retain the exact preview identity, action, and creation time'' @
     fail_if (length (ko_targets op) \<noteq> length (kv_targets (ko_preview op)))
       ''preview_target_mismatch'' ''targets''
       ''ledger must retain exactly one target for every frozen preview target''"

definition validate_kiosk_operation :: "kiosk_operation \<Rightarrow> validation" where
  "validate_kiosk_operation op = finish (
     kiosk_operation_head_failures op @
     for_each (kiosk_operation_target_failures op) (with_previous (ko_targets op)) @
     fail_if (ko_lifecycle op \<noteq> derived_lifecycle op)
       ''operation_lifecycle_mismatch'' ''lifecycle''
       ''operation lifecycle must be derived from the frozen eligible target ledgers'' @
     fail_if (inflight_count op > ko_max_parallelism op)
       ''operation_parallelism_exceeded'' ''targets''
       ''in-flight target count must not exceed the frozen operation parallelism'')"

lemma validate_kiosk_operation_not_Inl_Nil [simp]: "validate_kiosk_operation op \<noteq> Inl []"
  by (simp add: validate_kiosk_operation_def)

section \<open>What valid ledgers and operations satisfy\<close>

definition kiosk_target_ok :: "string \<Rightarrow> u8 \<Rightarrow> i64 \<Rightarrow> i64 \<Rightarrow> kiosk_target \<Rightarrow> bool" where
  "kiosk_target_ok operation_id max_attempts created expires t \<longleftrightarrow>
     valid (validate_for_operation operation_id max_attempts created expires t)"

lemma kiosk_target_okD:
  assumes "kiosk_target_ok i m c e t"
  shows "kt_attempt_count t \<le> m" and "length (kt_owner_request_ids t) = kt_attempt_count t"
    and "distinct (kt_owner_request_ids t)"
    and "kt_owner_request_id t = last_option (kt_owner_request_ids t)"
    and "kt_lifecycle t \<notin> {CleanupPending, Cleaned}"
    and "valid (validate_preflight (kt_preflight t))"
    and "kt_device_id t = kp_device_id (kt_preflight t)"
    and "kt_identity_revision t = kp_identity_revision (kt_preflight t)"
proof -
  have b: "kiosk_target_binding_failures m c e t = []" and a: "kiosk_target_attempt_failures m t = []"
    using assms by (auto simp: kiosk_target_ok_def validate_for_operation_def Let_def split: if_splits)
  from b show "kt_attempt_count t \<le> m" "valid (validate_preflight (kt_preflight t))"
    "kt_device_id t = kp_device_id (kt_preflight t)"
    "kt_identity_revision t = kp_identity_revision (kt_preflight t)"
    by (simp_all add: kiosk_target_binding_failures_def)
  from a show "length (kt_owner_request_ids t) = kt_attempt_count t"
    "distinct (kt_owner_request_ids t)" "kt_owner_request_id t = last_option (kt_owner_request_ids t)"
    "kt_lifecycle t \<notin> {CleanupPending, Cleaned}"
    by (simp_all add: kiosk_target_attempt_failures_def)
qed

lemma kiosk_target_state:
  assumes "kiosk_target_ok i m c e t" and "kp_eligible (kt_preflight t)"
  shows "kiosk_target_state_failures m t = []" and "kiosk_target_receipt_failures i t = []"
  using assms by (simp_all add: kiosk_target_ok_def validate_for_operation_def Let_def)

lemma kiosk_target_ineligible:
  assumes "kiosk_target_ok i m c e t" and "\<not> kp_eligible (kt_preflight t)"
  shows "kt_lifecycle t = Rejected \<and> no_attempt t"
  using assms by (simp add: kiosk_target_ok_def validate_for_operation_def Let_def)

lemma valid_kiosk_operation [contract_simps]:
  "valid (validate_kiosk_operation op) \<longleftrightarrow>
     kiosk_operation_head_failures op = [] \<and>
     (\<forall>t\<in>set (ko_targets op).
        kiosk_target_ok (ko_operation_id op) (ko_max_attempts_per_target op)
          (kv_created_at_ms (ko_preview op)) (kv_expires_at_ms (ko_preview op)) t \<and>
        bt_get (preview_targets (ko_preview op)) (kt_device_id t) = Some (kt_preflight t)) \<and>
     strictly_sorted (map kt_device_id (ko_targets op)) \<and>
     ko_lifecycle op = derived_lifecycle op \<and> inflight_count op \<le> ko_max_parallelism op"
proof -
  let ?ts = "ko_targets op"
  let ?ok = "kiosk_target_ok (ko_operation_id op) (ko_max_attempts_per_target op)
          (kv_created_at_ms (ko_preview op)) (kv_expires_at_ms (ko_preview op))"
  let ?bound = "\<lambda>t. bt_get (preview_targets (ko_preview op)) (kt_device_id t) = Some (kt_preflight t)"
  have opt: "\<not> (\<forall>y. x = Some y \<longrightarrow> y \<noteq> z) \<longleftrightarrow> x = Some z" for x :: "kiosk_preflight option" and z
    by auto
  have "(\<forall>i<length ?ts. kiosk_operation_target_failures op i (with_previous ?ts ! i) = []) \<longleftrightarrow>
      (\<forall>i<length ?ts. ?ok (?ts ! i) \<and> ?bound (?ts ! i)) \<and>
      (\<forall>i<length ?ts. \<not> not_after_previous (map_option kt_device_id (fst (with_previous ?ts ! i))) (kt_device_id (?ts ! i)))"
    by (auto simp: nth_with_previous kiosk_operation_target_failures_def kiosk_target_ok_def opt)
  also have "\<dots> \<longleftrightarrow> (\<forall>t\<in>set ?ts. ?ok t \<and> ?bound t) \<and> strictly_sorted (map kt_device_id ?ts)"
    by (simp only: ascending_iff all_set_conv_all_nth)
  finally show ?thesis
    by (auto simp: validate_kiosk_operation_def)
qed

lemma kiosk_head_iff:
  "kiosk_operation_head_failures op = [] \<longleftrightarrow>
     ko_schema op = ''rusty.fleet.kiosk_show_controls_operation.v1'' \<and>
     \<not> is_blank (ko_operation_id op) \<and> ko_action_id op = kiosk_show_controls_action_id \<and>
     \<not> ko_cleanup_required op \<and> 1 \<le> ko_max_parallelism op \<and> ko_max_parallelism op \<le> 64 \<and>
     1 \<le> ko_max_attempts_per_target op \<and> ko_max_attempts_per_target op \<le> 8 \<and>
     ko_lifecycle op \<notin> {CleanupPending, Cleaned} \<and> valid (validate_kiosk_preview (ko_preview op)) \<and>
     kv_operation_id (ko_preview op) = ko_operation_id op \<and>
     kv_action_id (ko_preview op) = ko_action_id op \<and>
     kv_created_at_ms (ko_preview op) = ko_created_at_ms op \<and>
     length (ko_targets op) = length (kv_targets (ko_preview op))"
  by (simp add: kiosk_operation_head_failures_def) blast

end
