(* ===== verification/Catalog_Contract.thy ===== *)
theory Catalog_Contract
  imports Projection Kiosk_Contract
begin

text \<open>
  crates/fleet-contracts/src/kiosk_apps.rs and kiosk_production.rs: the catalogs of installed
  applications a headset's Kiosk owner reports, the wrapper Fleet admits them in, the binding to the
  verified encrypted route, and the application search. \<open>sha\<close> is SHA-256 in lower-case hexadecimal,
  \<open>uni\<close> is \<^verbatim>\<open>str::to_lowercase\<close> on strings with characters beyond ASCII.
\<close>

section \<open>Text\<close>

definition push_char :: "char \<Rightarrow> string list \<Rightarrow> string list" where
  "push_char c words = (case words of [] \<Rightarrow> [[c]] | w # ws \<Rightarrow> (c # w) # ws)"

text \<open>The parts of a text between its white-space characters, empty parts included.\<close>

fun split_white :: "string \<Rightarrow> string list" where
  "split_white [] = [[]]"
| "split_white (c # cs) =
     (if is_blank [c] then [] # split_white cs
      else (case cs of
        [] \<Rightarrow> [[c]]
      | d # ds \<Rightarrow>
          if is_blank [c, d] then [] # split_white ds
          else (case ds of
            [] \<Rightarrow> push_char c (split_white cs)
          | e # es \<Rightarrow>
              if is_blank [c, d, e] then [] # split_white es else push_char c (split_white cs))))"

declare split_white.simps(2) [simp del]

definition split_whitespace :: "string \<Rightarrow> string list" where
  "split_whitespace value = filter (\<lambda>w. w \<noteq> []) (split_white value)"

definition normalize_catalog_text :: "(string \<Rightarrow> string) \<Rightarrow> string \<Rightarrow> string" where
  "normalize_catalog_text uni value = to_lowercase uni (join_with '' '' (split_whitespace value))"

definition is_identifier_byte :: "char \<Rightarrow> bool" where
  "is_identifier_byte c \<longleftrightarrow> is_ascii_alphanumeric c \<or> c \<in> {CHR ''.'', CHR ''_'', CHR ''-'', CHR '':''}"

definition is_token_byte :: "char \<Rightarrow> bool" where
  "is_token_byte c \<longleftrightarrow> is_ascii_alphanumeric c \<or> c \<in> {CHR ''_'', CHR ''-''}"

definition is_bounded_identifier :: "string \<Rightarrow> nat \<Rightarrow> bool" where
  "is_bounded_identifier value limit \<longleftrightarrow>
     value \<noteq> [] \<and> length value \<le> limit \<and> list_all is_identifier_byte value"

definition valid_token :: "string \<Rightarrow> nat \<Rightarrow> nat \<Rightarrow> bool" where
  "valid_token value minimum maximum \<longleftrightarrow>
     minimum \<le> length value \<and> length value \<le> maximum \<and> list_all is_identifier_byte value"

definition show_i64 :: "i64 \<Rightarrow> string" where
  "show_i64 x = (if x < 0 then CHR ''-'' # show_nat (nat (- x)) else show_nat (nat x))"

definition show_bool :: "bool \<Rightarrow> string" where
  "show_bool b = (if b then ''true'' else ''false'')"

definition kiosk_owner_catalog_snapshot_schema :: string where
  "kiosk_owner_catalog_snapshot_schema = ''rusty.kiosk.catalog_snapshot.v1''"

definition kiosk_catalog_snapshot_schema :: string where
  "kiosk_catalog_snapshot_schema = ''rusty.fleet.kiosk_catalog_snapshot.v1''"

definition kiosk_catalog_search_semantics :: string where
  "kiosk_catalog_search_semantics = ''rusty.kiosk.catalog_search.v1''"

definition kiosk_catalog_summary_scope :: string where
  "kiosk_catalog_summary_scope = ''kiosk.catalog-summary''"

definition kiosk_catalog_detail_scope :: string where
  "kiosk_catalog_detail_scope = ''kiosk.catalog-detail''"

definition max_catalog_entries :: usize where
  "max_catalog_entries = 500"

definition max_tags_per_entry :: usize where
  "max_tags_per_entry = 64"

definition max_search_matches :: usize where
  "max_search_matches = 128"

section \<open>The owner's catalog\<close>

record owner_signing =
  os_current_signer_sha256 :: "string list"
  os_signing_lineage_sha256 :: "string list"
  os_lineage_verified_by_android :: bool
  os_lineage_digest :: string

record owner_entry =
  oe_catalog_entry_id :: string
  oe_entry_digest :: string
  oe_app_identity :: string
  oe_disambiguator :: string
  oe_label :: string
  oe_package :: "string option"
  oe_tags :: "string list"
  oe_installed :: bool
  oe_launchable :: bool
  oe_source :: string
  oe_signing_evidence :: "owner_signing option"

record owner_catalog =
  ocs_schema :: string
  ocs_owner_epoch :: string
  ocs_catalog_revision :: string
  ocs_snapshot_digest :: string
  ocs_observed_at_ms :: i64
  ocs_fresh_until_ms :: i64
  ocs_tag_revision :: string
  ocs_installed_observation_revision :: string
  ocs_search_semantics :: string
  ocs_complete :: bool
  ocs_truncated :: bool
  ocs_total_candidate_count :: usize
  ocs_permission_limited_count :: usize
  ocs_entries :: "owner_entry list"

text \<open>Each part is hashed with its length before it and a zero byte after both.\<close>

definition owner_digest_input :: "string list \<Rightarrow> string" where
  "owner_digest_input parts =
     concat (map (\<lambda>part. show_nat (length part) @ [char_of (0 :: nat)] @ part @ [char_of (0 :: nat)]) parts)"

definition kiosk_owner_digest :: "(string \<Rightarrow> string) \<Rightarrow> string list \<Rightarrow> string" where
  "kiosk_owner_digest sha parts = sha (owner_digest_input parts)"

definition catalog_revision_parts :: "owner_catalog \<Rightarrow> string list" where
  "catalog_revision_parts s = [''rusty.kiosk.catalog_revision.v1'', ocs_owner_epoch s, ocs_tag_revision s,
     ocs_installed_observation_revision s, join_with ''|'' (map oe_entry_digest (ocs_entries s))]"

definition owner_catalog_revision :: "(string \<Rightarrow> string) \<Rightarrow> owner_catalog \<Rightarrow> string" where
  "owner_catalog_revision sha s = kiosk_owner_digest sha (catalog_revision_parts s)"

definition snapshot_digest_parts :: "owner_catalog \<Rightarrow> string list" where
  "snapshot_digest_parts s = [''rusty.kiosk.catalog_snapshot_digest.v1'', ocs_owner_epoch s, ocs_catalog_revision s,
     show_i64 (ocs_observed_at_ms s), show_i64 (ocs_fresh_until_ms s), show_bool (ocs_complete s),
     show_nat (ocs_total_candidate_count s), show_nat (ocs_permission_limited_count s),
     join_with ''|'' (map oe_entry_digest (ocs_entries s))]"

definition owner_snapshot_digest :: "(string \<Rightarrow> string) \<Rightarrow> owner_catalog \<Rightarrow> string" where
  "owner_snapshot_digest sha s = kiosk_owner_digest sha (snapshot_digest_parts s)"

definition catalog_freshness_invalid :: "i64 \<Rightarrow> i64 \<Rightarrow> bool" where
  "catalog_freshness_invalid observed_at_ms fresh_until_ms \<longleftrightarrow>
     fresh_until_ms < observed_at_ms \<or> i64_saturating_sub fresh_until_ms observed_at_ms > 3600000"

definition catalog_counts_invalid :: "nat \<Rightarrow> usize \<Rightarrow> usize \<Rightarrow> bool \<Rightarrow> bool \<Rightarrow> bool" where
  "catalog_counts_invalid entry_count total_candidate_count permission_limited_count is_complete truncated \<longleftrightarrow>
     entry_count > max_catalog_entries \<or> total_candidate_count < entry_count \<or>
     permission_limited_count > total_candidate_count \<or>
     is_complete \<noteq> (\<not> truncated \<and> permission_limited_count = 0 \<and> total_candidate_count = entry_count)"

definition owner_entry_invalid :: "(string \<Rightarrow> string) \<Rightarrow> owner_entry \<Rightarrow> bool" where
  "owner_entry_invalid uni e \<longleftrightarrow>
     \<not> is_sha256 (oe_catalog_entry_id e) \<or> \<not> is_sha256 (oe_entry_digest e) \<or> \<not> is_sha256 (oe_app_identity e) \<or>
     is_blank (oe_label e) \<or> length (oe_label e) > 160 \<or>
     oe_disambiguator e = [] \<or> length (oe_disambiguator e) > 96 \<or>
     is_blank (oe_source e) \<or> length (oe_source e) > 64 \<or>
     \<not> oe_installed e \<or> \<not> oe_launchable e \<or> length (oe_tags e) > max_tags_per_entry \<or>
     list_ex (\<lambda>tag. tag = [] \<or> length tag > 96 \<or> tag \<noteq> normalize_catalog_text uni tag) (oe_tags e) \<or>
     unique_count (oe_tags e) \<noteq> length (oe_tags e)"

definition signing_invalid :: "owner_signing \<Rightarrow> bool" where
  "signing_invalid s \<longleftrightarrow>
     \<not> is_sha256 (os_lineage_digest s) \<or> os_current_signer_sha256 s = [] \<or>
     list_ex (\<lambda>digest. \<not> is_sha256 digest) (os_current_signer_sha256 s @ os_signing_lineage_sha256 s) \<or>
     os_lineage_verified_by_android s = (os_signing_lineage_sha256 s = [])"

definition at_entry :: "nat \<Rightarrow> string \<Rightarrow> string" where
  "at_entry index field = ''entries['' @ show_nat index @ '']'' @ field"

definition owner_entry_failures :: "(string \<Rightarrow> string) \<Rightarrow> owner_catalog \<Rightarrow> nat \<Rightarrow> owner_entry \<Rightarrow> failures" where
  "owner_entry_failures uni s index e =
     fail_if (owner_entry_invalid uni e)
       ''invalid_owner_catalog_entry'' (at_entry index [])
       ''owner catalog entry identity, display, source, or candidate state is invalid'' @
     fail_if (oe_catalog_entry_id e \<in> set (map oe_catalog_entry_id (take index (ocs_entries s))))
       ''duplicate_catalog_entry'' (at_entry index ''.catalog_entry_id'')
       ''owner catalog entry identifiers must be unique'' @
     fail_if ((oe_package e \<noteq> None) \<noteq> (oe_signing_evidence e \<noteq> None))
       ''catalog_detail_partial'' (at_entry index [])
       ''package and signing evidence must be disclosed together'' @
     fail_if (some_and signing_invalid (oe_signing_evidence e))
       ''invalid_signing_evidence'' (at_entry index ''.signing_evidence'')
       ''Kiosk signing evidence or Android-verified lineage is invalid''"

definition owner_head_failures :: "owner_catalog \<Rightarrow> failures" where
  "owner_head_failures s =
     fail_if (ocs_schema s \<noteq> kiosk_owner_catalog_snapshot_schema)
       ''wrong_schema'' ''schema'' ''expected rusty.kiosk.catalog_snapshot.v1'' @
     fail_if (length (ocs_owner_epoch s) < 16 \<or> length (ocs_owner_epoch s) > 96 \<or>
              \<not> list_all is_token_byte (ocs_owner_epoch s))
       ''invalid_owner_epoch'' ''owner_epoch''
       ''Kiosk owner epoch must use the bounded owner token grammar'' @
     for_in (\<lambda>(path, digest). fail_if (\<not> is_sha256 digest)
         ''invalid_catalog_digest'' path
         ''Kiosk catalog lineage fields must be SHA-256 digests'')
       [(''catalog_revision'', ocs_catalog_revision s), (''snapshot_digest'', ocs_snapshot_digest s),
        (''tag_revision'', ocs_tag_revision s),
        (''installed_observation_revision'', ocs_installed_observation_revision s)] @
     fail_if (ocs_observed_at_ms s \<le> 0 \<or> catalog_freshness_invalid (ocs_observed_at_ms s) (ocs_fresh_until_ms s))
       ''invalid_catalog_freshness'' ''fresh_until_ms''
       ''owner catalog freshness is invalid or exceeds one hour'' @
     fail_if (ocs_search_semantics s \<noteq> kiosk_catalog_search_semantics)
       ''unsupported_search_semantics'' ''search_semantics''
       ''owner catalog search semantics do not match Fleet'' @
     fail_if (catalog_counts_invalid (length (ocs_entries s)) (ocs_total_candidate_count s)
         (ocs_permission_limited_count s) (ocs_complete s) (ocs_truncated s))
       ''invalid_catalog_completeness'' ''complete''
       ''owner catalog completeness, truncation, and counts are inconsistent''"

definition validate_owner_catalog ::
  "(string \<Rightarrow> string) \<Rightarrow> (string \<Rightarrow> string) \<Rightarrow> owner_catalog \<Rightarrow> validation" where
  "validate_owner_catalog sha uni s = finish (
     owner_head_failures s @
     for_each (owner_entry_failures uni s) (ocs_entries s) @
     fail_if (\<not> ocs_truncated s \<and> ocs_catalog_revision s \<noteq> owner_catalog_revision sha s)
       ''catalog_revision_digest_mismatch'' ''catalog_revision''
       ''Kiosk catalog revision does not match its source lineage and entries'' @
     fail_if (ocs_snapshot_digest s \<noteq> owner_snapshot_digest sha s)
       ''snapshot_digest_mismatch'' ''snapshot_digest''
       ''Kiosk snapshot digest does not match the exact bounded owner snapshot'')"

section \<open>The catalog Fleet admits\<close>

record catalog_grants =
  cg_catalog_summary :: bool
  cg_catalog_detail :: bool
  cg_app_launch :: bool

record catalog_authority =
  ca_receipt_sha256 :: string
  ca_grant_revision :: u64
  ca_route_id :: string
  ca_device_id :: string
  ca_identity_revision :: u64
  ca_kiosk_owner_epoch :: string
  ca_issued_at_ms :: i64
  ca_expires_at_ms :: i64
  ca_scopes :: "string list"

record catalog_entry =
  ce_app_identity :: string
  ce_entry_id :: string
  ce_entry_digest :: string
  ce_display_label :: string
  ce_disambiguator :: string
  ce_package_name :: "string option"
  ce_installed :: bool
  ce_launchable :: bool
  ce_tags :: "string list"

record catalog =
  kc_schema :: string
  kc_owner_schema :: string
  kc_raw_owner_sha256 :: string
  kc_operator_authority :: "catalog_authority option"
  kc_device_id :: string
  kc_identity_revision :: u64
  kc_kiosk_owner_epoch :: string
  kc_snapshot_id :: string
  kc_catalog_revision :: string
  kc_snapshot_digest :: string
  kc_observed_at_ms :: i64
  kc_fresh_until_ms :: i64
  kc_search_semantics :: string
  kc_complete :: bool
  kc_truncated :: bool
  kc_total_candidate_count :: usize
  kc_permission_limited_count :: usize
  kc_grants :: catalog_grants
  kc_entries :: "catalog_entry list"

definition catalog_tags_invalid :: "(string \<Rightarrow> string) \<Rightarrow> string list \<Rightarrow> bool" where
  "catalog_tags_invalid uni tags \<longleftrightarrow>
     length tags > max_tags_per_entry \<or>
     list_ex (\<lambda>tag. is_blank tag \<or> length tag > 96 \<or> tag \<noteq> normalize_catalog_text uni tag) tags \<or>
     unique_count tags \<noteq> length tags"

definition validate_catalog_entry :: "(string \<Rightarrow> string) \<Rightarrow> catalog_entry \<Rightarrow> validation" where
  "validate_catalog_entry uni e = finish (
     require_nonempty (ce_app_identity e) ''app_identity'' @
     require_nonempty (ce_entry_id e) ''entry_id'' @
     require_nonempty (ce_display_label e) ''display_label'' @
     require_nonempty (ce_disambiguator e) ''disambiguator'' @
     fail_if (\<not> is_sha256 (ce_entry_digest e))
       ''invalid_entry_digest'' ''entry_digest''
       ''catalog entry digest must be 64 lowercase hexadecimal characters'' @
     fail_if (\<not> is_bounded_identifier (ce_app_identity e) 160 \<or> \<not> is_bounded_identifier (ce_entry_id e) 160)
       ''invalid_catalog_identifier'' ''app_identity''
       ''catalog identities must be bounded portable identifiers'' @
     fail_if (length (ce_display_label e) > 256 \<or> length (ce_disambiguator e) > 96)
       ''catalog_text_too_large'' ''display_label'' ''catalog display text exceeds its bound'' @
     fail_if (some_and (\<lambda>value. value = [] \<or> length value > 256) (ce_package_name e))
       ''invalid_package_name'' ''package_name'' ''package detail must be absent or bounded'' @
     fail_if (catalog_tags_invalid uni (ce_tags e))
       ''invalid_catalog_tags'' ''tags''
       ''catalog tags must be unique, normalized, nonempty, and bounded'' @
     fail_if (\<not> ce_installed e \<or> \<not> ce_launchable e)
       ''non_candidate_catalog_entry'' ''installed''
       ''Fleet snapshots contain only Kiosk-observed installed and launchable entries'')"

definition expected_scopes :: "catalog_grants \<Rightarrow> string list" where
  "expected_scopes g =
     (if cg_catalog_summary g then [kiosk_catalog_summary_scope] else []) @
     (if cg_catalog_detail g then [kiosk_catalog_detail_scope] else [])"

definition catalog_authority_invalid :: "catalog \<Rightarrow> catalog_authority \<Rightarrow> bool" where
  "catalog_authority_invalid s a \<longleftrightarrow>
     \<not> is_sha256 (ca_receipt_sha256 a) \<or> ca_grant_revision a = 0 \<or>
     is_blank (ca_route_id a) \<or> length (ca_route_id a) > 160 \<or>
     ca_device_id a \<noteq> kc_device_id s \<or> ca_identity_revision a \<noteq> kc_identity_revision s \<or>
     ca_kiosk_owner_epoch a \<noteq> kc_kiosk_owner_epoch s \<or>
     ca_issued_at_ms a \<le> 0 \<or> ca_issued_at_ms a > kc_observed_at_ms s \<or>
     ca_expires_at_ms a < kc_observed_at_ms s \<or> ca_expires_at_ms a \<le> ca_issued_at_ms a \<or>
     i64_saturating_sub (ca_expires_at_ms a) (ca_issued_at_ms a) > 3600000 \<or>
     ca_scopes a \<noteq> expected_scopes (kc_grants s)"

definition catalog_grant_failures :: "catalog \<Rightarrow> failures" where
  "catalog_grant_failures s =
     fail_if (\<not> cg_catalog_summary (kc_grants s) \<and> kc_entries s \<noteq> [])
       ''catalog_without_summary_grant'' ''grants.catalog_summary''
       ''catalog bytes require the current catalog-summary grant'' @
     fail_if (\<not> cg_catalog_detail (kc_grants s) \<and> list_ex (\<lambda>e. ce_package_name e \<noteq> None) (kc_entries s))
       ''package_without_detail_grant'' ''entries.package_name''
       ''package detail requires the current catalog-detail grant'' @
     fail_if (cg_catalog_detail (kc_grants s) \<or> cg_app_launch (kc_grants s))
       ''summary_only'' ''grants'' ''Fleet only admits summary catalogue reads'' @
     (case kc_operator_authority s of
        Some a \<Rightarrow> fail_if (catalog_authority_invalid s a)
          ''invalid_catalog_authority_binding'' ''operator_authority''
          ''authenticated catalog authority must bind receipt, route, device, owner epoch, grant revision, scopes, and expiry''
      | None \<Rightarrow> fail_if (cg_catalog_detail (kc_grants s) \<or> cg_app_launch (kc_grants s))
          ''catalog_grant_without_authority_receipt'' ''operator_authority''
          ''detail and app-launch grants require an authenticated operator authority receipt'')"

definition catalog_head_failures :: "catalog \<Rightarrow> failures" where
  "catalog_head_failures s =
     fail_if (kc_schema s \<noteq> kiosk_catalog_snapshot_schema)
       ''wrong_schema'' ''schema'' ''expected rusty.fleet.kiosk_catalog_snapshot.v1'' @
     fail_if (kc_owner_schema s \<noteq> kiosk_owner_catalog_snapshot_schema \<or> \<not> is_sha256 (kc_raw_owner_sha256 s))
       ''invalid_catalog_admission_lineage'' ''raw_owner_sha256''
       ''Fleet catalog wrappers must retain the exact owner schema and raw/admission digests'' @
     require_nonempty (kc_device_id s) ''device_id'' @
     require_nonempty (kc_kiosk_owner_epoch s) ''kiosk_owner_epoch'' @
     fail_if (kc_identity_revision s = 0 \<or> \<not> is_sha256 (kc_catalog_revision s))
       ''invalid_catalog_revision'' ''catalog_revision''
       ''device identity must be positive and catalog revision must be a SHA-256 digest'' @
     fail_if (\<not> is_bounded_identifier (kc_snapshot_id s) 160 \<or>
              \<not> is_bounded_identifier (kc_kiosk_owner_epoch s) 160 \<or> \<not> is_sha256 (kc_snapshot_digest s))
       ''invalid_catalog_lineage'' ''snapshot_id''
       ''snapshot identity, owner epoch, or digest is malformed'' @
     fail_if (kc_observed_at_ms s < 0 \<or> catalog_freshness_invalid (kc_observed_at_ms s) (kc_fresh_until_ms s))
       ''invalid_catalog_freshness'' ''fresh_until_ms''
       ''catalog freshness must be ordered and no longer than one hour'' @
     fail_if (kc_search_semantics s \<noteq> kiosk_catalog_search_semantics)
       ''unsupported_search_semantics'' ''search_semantics''
       ''Fleet supports only the pinned Kiosk catalog search semantics''"

definition validate_catalog :: "(string \<Rightarrow> string) \<Rightarrow> catalog \<Rightarrow> validation" where
  "validate_catalog uni s = finish (
     catalog_head_failures s @
     catalog_grant_failures s @
     fail_if (catalog_counts_invalid (length (kc_entries s)) (kc_total_candidate_count s)
         (kc_permission_limited_count s) (kc_complete s) (kc_truncated s))
       ''catalog_too_large'' ''entries'' ''catalog exceeds the bounded entry count'' @
     for_each (\<lambda>index e.
         nested_at (at_entry index ''.'') (validate_catalog_entry uni e) @
         fail_if (ce_entry_id e \<in> set (map ce_entry_id (take index (kc_entries s))))
           ''duplicate_catalog_entry'' (at_entry index ''.entry_id'')
           ''catalog entry identifiers must be unique within a snapshot'')
       (kc_entries s))"

text \<open>Wrapping an owner's catalog for Fleet.\<close>

definition wrapped_entry :: "owner_entry \<Rightarrow> catalog_entry" where
  "wrapped_entry e = \<lparr>
     ce_app_identity = oe_app_identity e, ce_entry_id = oe_catalog_entry_id e,
     ce_entry_digest = oe_entry_digest e, ce_display_label = oe_label e,
     ce_disambiguator = oe_disambiguator e, ce_package_name = oe_package e,
     ce_installed = oe_installed e, ce_launchable = oe_launchable e, ce_tags = oe_tags e\<rparr>"

definition wrapped_catalog ::
  "owner_catalog \<Rightarrow> string \<Rightarrow> u64 \<Rightarrow> catalog_grants \<Rightarrow> string \<Rightarrow> catalog_authority option \<Rightarrow> catalog" where
  "wrapped_catalog owner device_id identity_revision grants raw_owner_sha256 operator_authority = \<lparr>
     kc_schema = kiosk_catalog_snapshot_schema,
     kc_owner_schema = ocs_schema owner,
     kc_raw_owner_sha256 = raw_owner_sha256,
     kc_operator_authority = operator_authority,
     kc_device_id = device_id,
     kc_identity_revision = identity_revision,
     kc_kiosk_owner_epoch = ocs_owner_epoch owner,
     kc_snapshot_id = ocs_snapshot_digest owner,
     kc_catalog_revision = ocs_catalog_revision owner,
     kc_snapshot_digest = ocs_snapshot_digest owner,
     kc_observed_at_ms = ocs_observed_at_ms owner,
     kc_fresh_until_ms = ocs_fresh_until_ms owner,
     kc_search_semantics = ocs_search_semantics owner,
     kc_complete = ocs_complete owner,
     kc_truncated = ocs_truncated owner,
     kc_total_candidate_count = ocs_total_candidate_count owner,
     kc_permission_limited_count = ocs_permission_limited_count owner,
     kc_grants = grants,
     kc_entries = map wrapped_entry (ocs_entries owner)\<rparr>"

definition bind_kiosk_owner_catalog ::
  "(string \<Rightarrow> string) \<Rightarrow> (string \<Rightarrow> string) \<Rightarrow> owner_catalog \<Rightarrow> string \<Rightarrow> u64 \<Rightarrow> catalog_grants \<Rightarrow> string \<Rightarrow>
   catalog_authority option \<Rightarrow> failures + catalog" where
  "bind_kiosk_owner_catalog sha uni owner device_id identity_revision grants raw_owner_sha256 operator_authority =
    (case validate_owner_catalog sha uni owner of
       Inl failures \<Rightarrow> Inl failures
     | Inr _ \<Rightarrow>
         if list_ex (\<lambda>e. oe_package e \<noteq> None) (ocs_entries owner) \<noteq> cg_catalog_detail grants \<or>
            \<not> cg_catalog_summary grants
         then Inl [violation ''catalog_grant_mismatch'' ''grants''
           ''selected Kiosk catalog route does not match the admitted Fleet grant'']
         else
          (let s = wrapped_catalog owner device_id identity_revision grants raw_owner_sha256 operator_authority
           in case validate_catalog uni s of Inl failures \<Rightarrow> Inl failures | Inr _ \<Rightarrow> Inr s))"

section \<open>Evidence of the encrypted route\<close>

definition kiosk_v2_encrypted_route_id :: string where
  "kiosk_v2_encrypted_route_id = ''kiosk.encrypted.v2''"

definition max_evidence_window_ms :: i64 where
  "max_evidence_window_ms = 30000"

definition kiosk_v2_catalog_admission_schema :: string where
  "kiosk_v2_catalog_admission_schema = ''rusty.fleet.kiosk_v2_catalog_admission.v1''"

record catalog_refresh_request =
  crr_schema :: string
  crr_device_id :: string
  crr_identity_revision :: u64

definition validate_catalog_refresh_request :: "catalog_refresh_request \<Rightarrow> validation" where
  "validate_catalog_refresh_request r = finish (
     fail_if (crr_schema r \<noteq> ''rusty.fleet.kiosk_v2_catalog_refresh_request.v1'')
       ''wrong_schema'' ''schema'' ''expected rusty.fleet.kiosk_v2_catalog_refresh_request.v1'' @
     fail_if (crr_device_id r = [] \<or> length (crr_device_id r) > 256)
       ''invalid_device_id'' ''device_id'' ''catalog refresh requires one bounded exact Fleet device ID'' @
     fail_if (crr_identity_revision r = 0)
       ''invalid_identity_revision'' ''identity_revision''
       ''catalog refresh requires the exact positive Fleet identity revision'')"

record catalog_refresh =
  cr_schema :: string
  cr_admitted :: bool
  cr_device_id :: string
  cr_identity_revision :: u64
  cr_kiosk_owner_epoch :: string
  cr_catalog_revision :: string
  cr_snapshot_digest :: string
  cr_replay_identity_sha256 :: string
  cr_grant_revision :: u64
  cr_entry_count :: usize
  cr_observed_at_ms :: i64
  cr_fresh_until_ms :: i64
  cr_scopes :: "string list"
  cr_fleet_revision :: u64

definition validate_catalog_refresh :: "catalog_refresh \<Rightarrow> validation" where
  "validate_catalog_refresh r = finish (
     fail_if (cr_schema r \<noteq> ''rusty.fleet.kiosk_v2_catalog_refresh_projection.v1'')
       ''wrong_schema'' ''schema'' ''expected rusty.fleet.kiosk_v2_catalog_refresh_projection.v1'' @
     fail_if (\<not> cr_admitted r)
       ''catalog_not_admitted'' ''admitted'' ''a successful refresh projection must report admitted=true'' @
     fail_if (cr_device_id r = [] \<or> length (cr_device_id r) > 256 \<or> cr_identity_revision r = 0 \<or>
              \<not> valid_token (cr_kiosk_owner_epoch r) 16 96 \<or> cr_grant_revision r = 0 \<or>
              cr_entry_count r > 500 \<or> cr_observed_at_ms r \<le> 0 \<or>
              cr_fresh_until_ms r < cr_observed_at_ms r \<or> cr_fleet_revision r = 0)
       ''invalid_catalog_refresh_projection'' ''device_id''
       ''catalog refresh projection must retain bounded current identity and freshness evidence'' @
     for_in (\<lambda>(path, digest). fail_if (\<not> is_sha256 digest)
         ''invalid_catalog_refresh_digest'' path ''catalog refresh digests must be lowercase SHA-256'')
       [(''catalog_revision'', cr_catalog_revision r), (''snapshot_digest'', cr_snapshot_digest r),
        (''replay_identity_sha256'', cr_replay_identity_sha256 r)] @
     fail_if (cr_scopes r \<noteq> [kiosk_catalog_summary_scope])
       ''invalid_catalog_refresh_scopes'' ''scopes''
       ''Fleet's File Manager provider admits summary-only catalog evidence'')"

record catalog_binding =
  cb_schema :: string
  cb_request_id :: string
  cb_response_request_id :: string
  cb_replay_identity :: string
  cb_request_envelope_sha256 :: string
  cb_response_envelope_sha256 :: string
  cb_raw_owner_catalog_sha256 :: string
  cb_owner_grant_receipt_sha256 :: string
  cb_capability_id :: string
  cb_capability_evidence_revision :: u64
  cb_grant_revision :: u64
  cb_route_id :: string
  cb_device_id :: string
  cb_identity_revision :: u64
  cb_kiosk_owner_epoch :: string
  cb_catalog_revision :: string
  cb_snapshot_digest :: string
  cb_issued_at_ms :: i64
  cb_expires_at_ms :: i64
  cb_scopes :: "string list"

definition catalog_binding_failures :: "catalog_binding \<Rightarrow> failures" where
  "catalog_binding_failures b =
     fail_if (cb_schema b \<noteq> kiosk_v2_catalog_admission_schema)
       ''wrong_schema'' ''schema'' ''expected rusty.fleet.kiosk_v2_catalog_admission.v1'' @
     for_in (\<lambda>(path, value). require_nonempty value path)
       [(''request_id'', cb_request_id b), (''response_request_id'', cb_response_request_id b),
        (''replay_identity'', cb_replay_identity b), (''capability_id'', cb_capability_id b),
        (''route_id'', cb_route_id b), (''device_id'', cb_device_id b),
        (''kiosk_owner_epoch'', cb_kiosk_owner_epoch b)] @
     fail_if (\<not> valid_token (cb_request_id b) 8 256 \<or> \<not> valid_token (cb_device_id b) 1 256 \<or>
              \<not> valid_token (cb_kiosk_owner_epoch b) 16 96 \<or>
              \<not> list_all is_token_byte (cb_kiosk_owner_epoch b))
       ''invalid_catalog_binding_identity'' ''request_id''
       ''request, device and owner identity grammar must match the selected read'' @
     fail_if (cb_response_request_id b \<noteq> cb_request_id b)
       ''catalog_response_request_mismatch'' ''response_request_id''
       ''verified Kiosk response must bind the exact catalog request'' @
     for_in (\<lambda>(path, digest). fail_if (\<not> is_sha256 digest)
         ''invalid_kiosk_v2_digest'' path ''Kiosk v2 evidence digests must be lowercase SHA-256'')
       [(''request_envelope_sha256'', cb_request_envelope_sha256 b),
        (''response_envelope_sha256'', cb_response_envelope_sha256 b),
        (''raw_owner_catalog_sha256'', cb_raw_owner_catalog_sha256 b),
        (''owner_grant_receipt_sha256'', cb_owner_grant_receipt_sha256 b),
        (''catalog_revision'', cb_catalog_revision b), (''snapshot_digest'', cb_snapshot_digest b)] @
     fail_if (cb_identity_revision b = 0 \<or> cb_capability_evidence_revision b = 0 \<or> cb_grant_revision b = 0)
       ''invalid_kiosk_v2_revision'' ''grant_revision''
       ''identity, capability, and grant revisions must be positive'' @
     fail_if (cb_issued_at_ms b \<le> 0 \<or> cb_expires_at_ms b \<le> cb_issued_at_ms b \<or>
              i64_saturating_sub (cb_expires_at_ms b) (cb_issued_at_ms b) > max_evidence_window_ms)
       ''invalid_kiosk_v2_freshness'' ''expires_at_ms''
       ''Kiosk v2 catalog evidence must use a positive bounded freshness window'' @
     fail_if (cb_scopes b \<noteq> [kiosk_catalog_summary_scope] \<or> \<not> is_sha256 (cb_replay_identity b))
       ''invalid_summary_binding'' ''scopes'' ''summary scope and exact replay digest required'' @
     fail_if (cb_route_id b \<noteq> kiosk_v2_encrypted_route_id \<or>
              cb_capability_id b \<noteq> kiosk_capability_id)
       ''wrong_kiosk_v2_route'' ''route_id''
       ''production catalog admission requires the exact encrypted Kiosk v2 route''"

definition validate_catalog_binding :: "catalog_binding \<Rightarrow> validation" where
  "validate_catalog_binding b = finish (catalog_binding_failures b)"

record catalog_admission =
  cad_binding :: catalog_binding
  cad_snapshot :: catalog

definition from_authority :: "catalog \<Rightarrow> 'a \<Rightarrow> (catalog_authority \<Rightarrow> 'a) \<Rightarrow> 'a" where
  "from_authority s absent f = (case kc_operator_authority s of None \<Rightarrow> absent | Some a \<Rightarrow> f a)"

definition catalog_binding_mismatch :: "catalog_binding \<Rightarrow> catalog \<Rightarrow> bool" where
  "catalog_binding_mismatch b s \<longleftrightarrow>
     cb_device_id b \<noteq> kc_device_id s \<or> cb_identity_revision b \<noteq> kc_identity_revision s \<or>
     cb_kiosk_owner_epoch b \<noteq> kc_kiosk_owner_epoch s \<or> cb_catalog_revision b \<noteq> kc_catalog_revision s \<or>
     cb_snapshot_digest b \<noteq> kc_snapshot_digest s \<or> cb_raw_owner_catalog_sha256 b \<noteq> kc_raw_owner_sha256 s \<or>
     cb_owner_grant_receipt_sha256 b \<noteq> from_authority s [] ca_receipt_sha256 \<or>
     cb_grant_revision b \<noteq> from_authority s 0 ca_grant_revision \<or>
     cb_route_id b \<noteq> from_authority s [] ca_route_id \<or>
     cb_scopes b \<noteq> from_authority s [] ca_scopes \<or>
     cb_issued_at_ms b \<noteq> from_authority s 0 ca_issued_at_ms \<or>
     cb_expires_at_ms b \<noteq> from_authority s 0 ca_expires_at_ms \<or>
     kc_observed_at_ms s < cb_issued_at_ms b \<or> kc_observed_at_ms s > cb_expires_at_ms b"

definition validate_catalog_admission :: "(string \<Rightarrow> string) \<Rightarrow> catalog_admission \<Rightarrow> validation" where
  "validate_catalog_admission uni a = finish (
     nested (validate_catalog_binding (cad_binding a)) @
     nested (validate_catalog uni (cad_snapshot a)) @
     fail_if (catalog_binding_mismatch (cad_binding a) (cad_snapshot a))
       ''production_catalog_binding_mismatch'' ''binding''
       ''production admission must bind the exact Fleet catalog wrapper and owner grant'')"

section \<open>Searching applications\<close>

record app_search_request =
  asr_schema :: string
  asr_query :: string
  asr_limit :: usize

definition validate_app_search_request :: "app_search_request \<Rightarrow> validation" where
  "validate_app_search_request r = finish (
     fail_if (asr_schema r \<noteq> ''rusty.fleet.kiosk_app_search_request.v1'')
       ''wrong_schema'' ''schema'' ''expected rusty.fleet.kiosk_app_search_request.v1'' @
     fail_if (is_blank (asr_query r) \<or> length (asr_query r) > 256)
       ''invalid_app_query'' ''query'' ''app or tag query must be nonempty and at most 256 bytes'' @
     fail_if (asr_limit r = 0 \<or> asr_limit r > max_search_matches)
       ''invalid_search_limit'' ''limit'' ''app search limit must be between 1 and 128'')"

record app_match =
  am_app_identity :: string
  am_display_label :: string
  am_disambiguator :: string
  am_package_name :: "string option"
  am_matched_tags :: "string list"
  am_current_device_count :: usize
  am_refresh_required_device_count :: usize

record catalog_coverage =
  cov_current :: usize
  cov_stale :: usize
  cov_absent :: usize
  cov_incomplete :: usize
  cov_permission_limited :: usize

record app_search_result =
  asx_schema :: string
  asx_query :: string
  asx_normalized_query :: string
  asx_as_of_ms :: i64
  asx_coverage :: catalog_coverage
  asx_matches :: "app_match list"

record app_candidate =
  ac_app_identity :: string
  ac_display_label :: string
  ac_disambiguator :: string
  ac_package_name :: "string option"
  ac_catalog_snapshot_id :: string
  ac_kiosk_owner_epoch :: string
  ac_catalog_revision :: string
  ac_snapshot_digest :: string
  ac_catalog_entry_id :: string
  ac_entry_digest :: string
  ac_catalog_age_ms :: i64
  ac_catalog_freshness :: projection_freshness
  ac_catalog_complete :: bool
  ac_grant_expires_at_ms :: "i64 option"
  ac_row :: device_row

record app_candidates_result =
  acx_schema :: string
  acx_app_identity :: string
  acx_as_of_ms :: i64
  acx_candidates :: "app_candidate list"

definition catalog_entry_matches :: "(string \<Rightarrow> string) \<Rightarrow> catalog_entry \<Rightarrow> string \<Rightarrow> bool" where
  "catalog_entry_matches uni e normalized_query \<longleftrightarrow>
     ce_app_identity e = normalized_query \<or>
     str_contains (normalize_catalog_text uni (ce_display_label e)) normalized_query \<or>
     some_and (\<lambda>package. str_contains (normalize_catalog_text uni package) normalized_query) (ce_package_name e) \<or>
     list_ex (\<lambda>tag. str_contains tag normalized_query) (ce_tags e)"

end
