(* ===== verification/Package_Contract.thy ===== *)
theory Package_Contract
  imports Device_Facts Command
begin

text \<open>
  crates/fleet-contracts/src/packages.rs up to the operation ledger: the contracts of
  \<^verbatim>\<open>packages.install-release\<close>. Release references, requests, the pinned updater binding, the
  preflight and the immutable preview, the owner invocation, its acknowledgement, progress, claims
  and receipts. The ledger and its archive are in \<open>Package_Ledger\<close>.
\<close>

section \<open>Constants\<close>

definition packages_install_release_action_id :: string where
  "packages_install_release_action_id = ''packages.install-release''"

definition package_updater_capability_id :: string where
  "package_updater_capability_id = ''rusty-quest.package-updater''"

definition package_updater_owner :: string where
  "package_updater_owner = ''rusty-quest''"

definition package_update_manifest_envelope_schema :: string where
  "package_update_manifest_envelope_schema = ''rusty.quest.package_update_manifest_envelope.v1''"

definition package_update_receipt_schema :: string where
  "package_update_receipt_schema = ''rusty.quest.package_update_receipt.v1''"

definition package_install_preview_request_schema :: string where
  "package_install_preview_request_schema = ''rusty.fleet.package_install_release_preview_request.v1''"

definition package_install_execute_request_schema :: string where
  "package_install_execute_request_schema = ''rusty.fleet.package_install_release_execute_request.v1''"

definition package_updater_ack_schema :: string where
  "package_updater_ack_schema = ''rusty.fleet.package_updater_invocation_acknowledgement.v1''"

definition package_updater_progress_schema :: string where
  "package_updater_progress_schema = ''rusty.fleet.package_updater_progress.v1''"

definition package_updater_receipt_submission_schema :: string where
  "package_updater_receipt_submission_schema = ''rusty.fleet.package_updater_receipt_submission.v1''"

definition package_updater_claim_request_schema :: string where
  "package_updater_claim_request_schema = ''rusty.fleet.package_updater_claim_request.v1''"

definition package_updater_claim_schema :: string where
  "package_updater_claim_schema = ''rusty.fleet.package_updater_claim.v1''"

definition package_operation_archive_request_schema :: string where
  "package_operation_archive_request_schema = ''rusty.fleet.package_operation_archive_request.v1''"

definition package_operation_progress_schema :: string where
  "package_operation_progress_schema = ''rusty.fleet.package_install_release_progress.v1''"

definition package_operation_archive_schema :: string where
  "package_operation_archive_schema = ''rusty.fleet.package_install_release_archive.v1''"

definition max_consumed_package_owner_claims :: usize where
  "max_consumed_package_owner_claims = 64"

section \<open>Identifiers and digests\<close>

definition is_release_byte :: "char \<Rightarrow> bool" where
  "is_release_byte c \<longleftrightarrow>
     is_ascii_alphanumeric c \<or> c = CHR ''.'' \<or> c = CHR ''_'' \<or> c = CHR ''-'' \<or> c = CHR ''/''"

definition is_package_id :: "string \<Rightarrow> usize \<Rightarrow> bool" where
  "is_package_id value maximum \<longleftrightarrow>
     value \<noteq> [] \<and> length value \<le> maximum \<and> list_all is_release_byte value"

definition is_package_name :: "string \<Rightarrow> bool" where
  "is_package_name value \<longleftrightarrow>
     3 \<le> length value \<and> length value \<le> 255 \<and> CHR ''.'' \<in> set value \<and>
     list_all (\<lambda>part. part \<noteq> [] \<and> list_all (\<lambda>c. is_ascii_alphanumeric c \<or> c = CHR ''_'') part)
       (split_on (CHR ''.'') value)"

definition is_prefixed_sha256 :: "string \<Rightarrow> bool" where
  "is_prefixed_sha256 value \<longleftrightarrow>
     starts_with value ''sha256:'' \<and> length (drop 7 value) = 64 \<and> list_all is_lower_hex (drop 7 value)"

definition package_id_failures :: "string \<Rightarrow> (string \<times> string) list \<Rightarrow> failures" where
  "package_id_failures message = for_in (\<lambda>(path, text).
     fail_if (\<not> is_package_id text 256) ''invalid_identifier'' path message)"

definition prefixed_sha256_failures :: "string \<Rightarrow> (string \<times> string) list \<Rightarrow> failures" where
  "prefixed_sha256_failures message = for_in (\<lambda>(path, digest).
     fail_if (\<not> is_prefixed_sha256 digest) ''invalid_sha256'' path message)"

section \<open>Releases and requests\<close>

datatype package_release = Manifest_Url string | Release_Id string

text \<open>The part of the URL after \<^verbatim>\<open>https://\<close> must name a host and carry no credentials.\<close>

definition invalid_authority :: "string \<Rightarrow> bool" where
  "invalid_authority authority \<longleftrightarrow>
     authority = [] \<or> starts_with authority ''/'' \<or>
     CHR ''@'' \<in> set (hd (split_on (CHR ''/'') authority))"

definition validate_package_release :: "package_release \<Rightarrow> validation" where
  "validate_package_release r = finish (case r of
     Manifest_Url manifest_url \<Rightarrow>
       fail_if (length manifest_url > 2048 \<or> \<not> starts_with manifest_url ''https://'' \<or>
                CHR ''#'' \<in> set manifest_url \<or> invalid_authority (drop 8 manifest_url))
         ''invalid_manifest_url'' ''manifest_url''
         ''manifest URL must be a bounded HTTPS URL without credentials or a fragment''
   | Release_Id release_id \<Rightarrow>
       fail_if (release_id = [] \<or> length release_id > 256 \<or> \<not> list_all is_release_byte release_id)
         ''invalid_release_id'' ''release_id''
         ''release ID must contain 1 through 256 portable identifier bytes'')"

definition package_target_failures :: "(string, u64) btree_map \<Rightarrow> failures" where
  "package_target_failures targets =
     fail_if (bt_len targets = 0 \<or> bt_len targets > 10000)
       ''invalid_target_count'' ''targets'' ''operation previews require 1 through 10000 targets'' @
     for_entries (\<lambda>device_id identity_revision.
       fail_if (\<not> is_package_id device_id 256 \<or> identity_revision = 0)
         ''invalid_target'' ''targets'' ''target device IDs and identity revisions must be valid'') targets"

record package_preview_request =
  ppr_schema :: string
  ppr_action_id :: string
  ppr_release :: package_release
  ppr_expected_package_name :: string
  ppr_expected_rollout_ring :: string
  ppr_targets :: "(string, u64) btree_map"

definition validate_package_preview_request :: "package_preview_request \<Rightarrow> validation" where
  "validate_package_preview_request r = finish (
     fail_if (ppr_schema r \<noteq> package_install_preview_request_schema)
       ''wrong_schema'' ''schema'' ''expected rusty.fleet.package_install_release_preview_request.v1'' @
     fail_if (ppr_action_id r \<noteq> packages_install_release_action_id)
       ''wrong_action'' ''action_id'' ''expected packages.install-release'' @
     nested (validate_package_release (ppr_release r)) @
     fail_if (\<not> is_package_name (ppr_expected_package_name r))
       ''invalid_package_name'' ''expected_package_name''
       ''expected package name must be a bounded dotted Android package identity'' @
     fail_if (\<not> is_package_id (ppr_expected_rollout_ring r) 128)
       ''invalid_rollout_ring'' ''expected_rollout_ring''
       ''expected rollout ring must be a bounded portable identifier'' @
     package_target_failures (ppr_targets r))"

record package_execute_request =
  pxr_schema :: string
  pxr_operation_id :: string
  pxr_preview_id :: string

definition validate_package_execute_request :: "package_execute_request \<Rightarrow> validation" where
  "validate_package_execute_request r = finish (
     fail_if (pxr_schema r \<noteq> package_install_execute_request_schema)
       ''wrong_schema'' ''schema'' ''expected rusty.fleet.package_install_release_execute_request.v1'' @
     package_id_failures ''operation and preview IDs must be bounded portable identifiers''
       [(''operation_id'', pxr_operation_id r), (''preview_id'', pxr_preview_id r)])"

record package_owner_contract =
  poc_owner_repo_id :: string
  poc_capability_id :: string
  poc_manifest_envelope_schema :: string
  poc_receipt_schema :: string
  poc_install_mode :: string
  poc_application_proof :: string

definition attended_v1 :: package_owner_contract where
  "attended_v1 = \<lparr>
     poc_owner_repo_id = package_updater_owner,
     poc_capability_id = package_updater_capability_id,
     poc_manifest_envelope_schema = package_update_manifest_envelope_schema,
     poc_receipt_schema = package_update_receipt_schema,
     poc_install_mode = ''attended_package_installer'',
     poc_application_proof = ''effective_installed_version_receipt''\<rparr>"

definition validate_package_owner :: "package_owner_contract \<Rightarrow> validation" where
  "validate_package_owner c =
     (if c = attended_v1 then Inr ()
      else Inl [violation ''owner_contract_mismatch'' ''owner_contract''
        ''package updater owner binding differs from the pinned attended updater contract''])"

section \<open>Preflight and preview\<close>

record package_preflight =
  pf_device_id :: string
  pf_identity_revision :: u64
  pf_capability_id :: string
  pf_capability_evidence_revision :: u64
  pf_capability_owner :: string
  pf_support :: support_state
  pf_enablement :: enablement_state
  pf_authorization :: authorization_state
  pf_reachability :: reachability_state
  pf_freshness :: freshness_state
  pf_observed_at_ms :: i64
  pf_fresh_until_ms :: i64
  pf_evaluated_at_ms :: i64
  pf_eligible :: bool
  pf_reason_code :: string
  pf_message :: string

definition package_expected_reason_code :: "package_preflight \<Rightarrow> string" where
  "package_expected_reason_code p = (case pf_support p of
     Support_Unsupported \<Rightarrow> ''unsupported''
   | Support_Unknown \<Rightarrow> ''support_unknown''
   | Support_Supported \<Rightarrow> (case pf_enablement p of
       Enablement_Disabled \<Rightarrow> ''disabled''
     | Enablement_Unknown \<Rightarrow> ''enablement_unknown''
     | Enablement_Enabled \<Rightarrow> (case pf_authorization p of
         Authorization_Unauthorized \<Rightarrow> ''unauthorized''
       | Authorization_Restricted \<Rightarrow> ''restricted''
       | Authorization_Unknown \<Rightarrow> ''authorization_unknown''
       | Authorization_Authorized \<Rightarrow> (case pf_reachability p of
           Reachability_Disconnected \<Rightarrow> ''disconnected''
         | Reachability_Unavailable \<Rightarrow> ''unavailable''
         | Reachability_Unknown \<Rightarrow> ''reachability_unknown''
         | Reachability_Reachable \<Rightarrow>
             if pf_freshness p = Freshness_Current \<and> pf_evaluated_at_ms p \<le> pf_fresh_until_ms p
             then ''ready''
             else if pf_freshness p = Freshness_Unknown then ''freshness_unknown''
             else ''stale''))))"

definition package_expected_eligibility :: "package_preflight \<Rightarrow> bool" where
  "package_expected_eligibility p \<longleftrightarrow> package_expected_reason_code p = ''ready''"

definition validate_package_preflight :: "package_preflight \<Rightarrow> validation" where
  "validate_package_preflight p = finish (
     require_nonempty (pf_device_id p) ''device_id'' @
     require_nonempty (pf_message p) ''message'' @
     fail_if (pf_identity_revision p = 0 \<or> pf_capability_evidence_revision p = 0)
       ''invalid_revision'' ''identity_revision''
       ''identity and capability revisions must be greater than zero'' @
     fail_if (pf_capability_id p \<noteq> package_updater_capability_id \<or>
              pf_capability_owner p \<noteq> package_updater_owner)
       ''wrong_capability_owner'' ''capability_id''
       ''package install preflight must use the Rusty Quest updater capability'' @
     fail_if (pf_fresh_until_ms p < pf_observed_at_ms p \<or> pf_evaluated_at_ms p < pf_observed_at_ms p)
       ''invalid_preflight_window'' ''evaluated_at_ms'' ''preflight timestamps are not coherent'' @
     fail_if (pf_eligible p \<noteq> package_expected_eligibility p \<or>
              pf_reason_code p \<noteq> package_expected_reason_code p)
       ''preflight_result_mismatch'' ''eligible''
       ''eligibility and reason must match the frozen capability facts'')"

text \<open>\<^verbatim>\<open>validate_preflights\<close>: targets strictly sorted by device ID and evaluated inside the window.\<close>

definition package_preflight_failures ::
  "i64 \<Rightarrow> i64 \<Rightarrow> nat \<Rightarrow> package_preflight option \<times> package_preflight \<Rightarrow> failures" where
  "package_preflight_failures created_at_ms expires_at_ms index = (\<lambda>(previous, target).
     nested_at (''targets['' @ show_nat index @ ''].'') (validate_package_preflight target) @
     fail_if (pf_evaluated_at_ms target < created_at_ms \<or> pf_evaluated_at_ms target > expires_at_ms \<or>
              not_after_previous (map_option pf_device_id previous) (pf_device_id target))
       ''noncanonical_preflight'' (''targets['' @ show_nat index @ '']'')
       ''preflights must be sorted, unique, and evaluated inside the preview window'')"

definition package_preflights_failures :: "package_preflight list \<Rightarrow> i64 \<Rightarrow> i64 \<Rightarrow> failures" where
  "package_preflights_failures targets created_at_ms expires_at_ms =
     fail_if (targets = [] \<or> length targets > 10000)
       ''invalid_target_count'' ''targets'' ''package previews require 1 through 10000 targets'' @
     for_each (package_preflight_failures created_at_ms expires_at_ms) (with_previous targets)"

record package_preview =
  pv_schema :: string
  pv_preview_id :: string
  pv_operation_id :: string
  pv_action_id :: string
  pv_created_at_ms :: i64
  pv_expires_at_ms :: i64
  pv_fleet_revision :: u64
  pv_release :: package_release
  pv_expected_package_name :: string
  pv_expected_rollout_ring :: string
  pv_owner_contract :: package_owner_contract
  pv_targets :: "package_preflight list"

definition validate_package_preview :: "package_preview \<Rightarrow> validation" where
  "validate_package_preview v = finish (
     fail_if (pv_schema v \<noteq> ''rusty.fleet.package_install_release_preview.v1'')
       ''wrong_schema'' ''schema'' ''expected rusty.fleet.package_install_release_preview.v1'' @
     fail_if (\<not> is_package_id (pv_preview_id v) 256 \<or> \<not> is_package_id (pv_operation_id v) 256 \<or>
              pv_action_id v \<noteq> packages_install_release_action_id \<or> pv_created_at_ms v < 0 \<or>
              pv_expires_at_ms v \<le> pv_created_at_ms v \<or> pv_fleet_revision v = 0 \<or>
              \<not> is_package_name (pv_expected_package_name v) \<or>
              \<not> is_package_id (pv_expected_rollout_ring v) 128)
       ''invalid_preview_header'' ''preview''
       ''package preview identity, action, time, package, ring, or revision is invalid'' @
     nested (validate_package_release (pv_release v)) @
     nested (validate_package_owner (pv_owner_contract v)) @
     package_preflights_failures (pv_targets v) (pv_created_at_ms v) (pv_expires_at_ms v))"

section \<open>The owner's invocation, acknowledgement and progress\<close>

record package_invocation =
  pi_schema :: string
  pi_operation_id :: string
  pi_preview_id :: string
  pi_device_id :: string
  pi_identity_revision :: u64
  pi_owner_action_request_id :: string
  pi_release :: package_release
  pi_expected_package_name :: string
  pi_expected_rollout_ring :: string
  pi_expires_at_ms :: i64

definition validate_package_invocation :: "package_invocation \<Rightarrow> validation" where
  "validate_package_invocation i = finish (
     fail_if (pi_schema i \<noteq> ''rusty.fleet.package_updater_invocation.v1'')
       ''wrong_schema'' ''schema'' ''expected rusty.fleet.package_updater_invocation.v1'' @
     package_id_failures ''invocation identifiers must be bounded portable identifiers''
       [(''operation_id'', pi_operation_id i), (''preview_id'', pi_preview_id i),
        (''device_id'', pi_device_id i), (''owner_action_request_id'', pi_owner_action_request_id i)] @
     fail_if (pi_identity_revision i = 0 \<or> pi_expires_at_ms i < 0 \<or>
              \<not> is_package_name (pi_expected_package_name i) \<or>
              \<not> is_package_id (pi_expected_rollout_ring i) 128)
       ''invalid_invocation'' ''invocation''
       ''invocation revision, expiry, package, or ring is invalid'' @
     nested (validate_package_release (pi_release i)))"

record package_acknowledgement =
  pa_schema :: string
  pa_operation_id :: string
  pa_device_id :: string
  pa_owner_action_request_id :: string
  pa_accepted :: bool
  pa_code :: string
  pa_acknowledged_at_ms :: i64

definition validate_package_acknowledgement :: "package_acknowledgement \<Rightarrow> validation" where
  "validate_package_acknowledgement a = finish (
     fail_if (pa_schema a \<noteq> package_updater_ack_schema)
       ''wrong_schema'' ''schema''
       ''expected rusty.fleet.package_updater_invocation_acknowledgement.v1'' @
     package_id_failures ''acknowledgement identifiers and code must be bounded portable identifiers''
       [(''operation_id'', pa_operation_id a), (''device_id'', pa_device_id a),
        (''owner_action_request_id'', pa_owner_action_request_id a), (''code'', pa_code a)] @
     fail_if (pa_acknowledged_at_ms a < 0)
       ''invalid_timestamp'' ''acknowledged_at_ms'' ''acknowledgement time must be nonnegative'')"

datatype package_progress_stage =
  Progress_Staged | Progress_AwaitingWearer | Progress_CancellationRequested | Progress_Cancelled
| Progress_RecoveryRequired | Progress_Failed | Progress_Expired

record package_progress =
  pg_schema :: string
  pg_operation_id :: string
  pg_device_id :: string
  pg_owner_action_request_id :: string
  pg_stage :: package_progress_stage
  pg_code :: string
  pg_message :: string
  pg_observed_at_ms :: i64

definition validate_package_progress_for :: "package_progress \<Rightarrow> package_invocation \<Rightarrow> validation" where
  "validate_package_progress_for p i = finish (
     fail_if (pg_schema p \<noteq> package_updater_progress_schema \<or>
              pg_operation_id p \<noteq> pi_operation_id i \<or> pg_device_id p \<noteq> pi_device_id i \<or>
              pg_owner_action_request_id p \<noteq> pi_owner_action_request_id i \<or>
              pg_observed_at_ms p < 0 \<or> pg_observed_at_ms p > pi_expires_at_ms i \<or>
              \<not> is_package_id (pg_code p) 256 \<or> pg_message p = [] \<or> length (pg_message p) > 1024)
       ''package_progress_binding_mismatch'' ''owner_progress''
       ''owner progress must bind the exact invocation, bounded stage, code, message, and observation time'')"

section \<open>Receipts\<close>

datatype package_receipt_stage = ManifestAdmission | InstallCommit

datatype package_receipt_decision = Receipt_Accepted | Receipt_Rejected

record package_checkpoint =
  pc_package_name :: string
  pc_rollout_ring :: string
  pc_sequence :: u64
  pc_version_code :: u64
  pc_signed_manifest_sha256 :: string

record package_update_receipt =
  pu_schema :: string
  pu_stage :: package_receipt_stage
  pu_decision :: package_receipt_decision
  pu_code :: string
  pu_observed_at_ms :: i64
  pu_envelope_sha256 :: "string option"
  pu_signed_manifest_sha256 :: "string option"
  pu_key_id :: "string option"
  pu_manifest_id :: "string option"
  pu_package_name :: "string option"
  pu_rollout_ring :: "string option"
  pu_sequence :: "u64 option"
  pu_version_code :: "u64 option"
  pu_prior_checkpoint :: "package_checkpoint option"
  pu_accepted_checkpoint :: "package_checkpoint option"
  pu_state_changed :: bool

definition proves_installed_version :: "package_update_receipt \<Rightarrow> string \<Rightarrow> string \<Rightarrow> bool" where
  "proves_installed_version r package_name rollout_ring = (case pu_accepted_checkpoint r of
     None \<Rightarrow> False
   | Some c \<Rightarrow>
       pu_schema r = package_update_receipt_schema \<and> pu_stage r = InstallCommit \<and>
       pu_decision r = Receipt_Accepted \<and> pu_package_name r = Some package_name \<and>
       pu_rollout_ring r = Some rollout_ring \<and> pu_sequence r = Some (pc_sequence c) \<and>
       pu_version_code r = Some (pc_version_code c) \<and>
       pu_signed_manifest_sha256 r = Some (pc_signed_manifest_sha256 c) \<and>
       pc_package_name c = package_name \<and> pc_rollout_ring c = rollout_ring \<and>
       pc_sequence c > 0 \<and> pc_version_code c > 0 \<and> is_prefixed_sha256 (pc_signed_manifest_sha256 c))"

definition invalid_checkpoint :: "package_checkpoint \<Rightarrow> bool" where
  "invalid_checkpoint c \<longleftrightarrow>
     \<not> is_package_name (pc_package_name c) \<or> \<not> is_package_id (pc_rollout_ring c) 128 \<or>
     pc_sequence c = 0 \<or> pc_version_code c = 0 \<or> \<not> is_prefixed_sha256 (pc_signed_manifest_sha256 c)"

definition validate_package_update_receipt :: "package_update_receipt \<Rightarrow> validation" where
  "validate_package_update_receipt r = finish (
     fail_if (pu_schema r \<noteq> package_update_receipt_schema)
       ''wrong_schema'' ''schema'' ''expected rusty.quest.package_update_receipt.v1'' @
     fail_if (\<not> is_package_id (pu_code r) 256 \<or> pu_observed_at_ms r < 0)
       ''invalid_receipt_header'' ''receipt'' ''receipt code or observation time is invalid'' @
     for_in (\<lambda>(path, digest).
       fail_if (some_and (\<lambda>value. \<not> is_prefixed_sha256 value) digest) ''invalid_sha256'' path
         ''digest must use sha256: followed by lowercase hex'')
       [(''envelope_sha256'', pu_envelope_sha256 r),
        (''signed_manifest_sha256'', pu_signed_manifest_sha256 r)] @
     fail_if (some_and invalid_checkpoint (pu_accepted_checkpoint r))
       ''invalid_checkpoint'' ''accepted_checkpoint'' ''accepted checkpoint is invalid'' @
     fail_if (pu_decision r = Receipt_Rejected \<and>
              (pu_accepted_checkpoint r \<noteq> None \<or> pu_state_changed r))
       ''rejected_state_change'' ''state_changed''
       ''a rejected owner receipt cannot advance updater state'')"

record package_effective_receipt =
  pe_schema :: string
  pe_operation_id :: string
  pe_device_id :: string
  pe_identity_revision :: u64
  pe_owner_action_request_id :: string
  pe_updater_receipt :: package_update_receipt
  pe_wrapped_at_ms :: i64

definition validate_package_receipt_for ::
  "package_effective_receipt \<Rightarrow> package_invocation \<Rightarrow> validation" where
  "validate_package_receipt_for r i = finish (
     fail_if (pe_schema r \<noteq> ''rusty.fleet.package_updater_effective_receipt.v1'' \<or>
              pe_operation_id r \<noteq> pi_operation_id i \<or> pe_device_id r \<noteq> pi_device_id i \<or>
              pe_identity_revision r \<noteq> pi_identity_revision i \<or>
              pe_owner_action_request_id r \<noteq> pi_owner_action_request_id i \<or>
              pe_wrapped_at_ms r < 0 \<or> pe_wrapped_at_ms r > pi_expires_at_ms i)
       ''effective_receipt_binding_mismatch'' ''effective_receipt''
       ''effective receipt must bind the exact invocation and its deadline'' @
     nested (validate_package_update_receipt (pe_updater_receipt r)) @
     fail_if (\<not> proves_installed_version (pe_updater_receipt r)
                (pi_expected_package_name i) (pi_expected_rollout_ring i))
       ''installed_version_not_proven'' ''updater_receipt''
       ''only an accepted install_commit checkpoint for the expected package and ring proves application'')"

record package_receipt_submission =
  prs_schema :: string
  prs_effective_receipt :: package_effective_receipt

definition validate_package_receipt_submission :: "package_receipt_submission \<Rightarrow> validation" where
  "validate_package_receipt_submission s =
     (if prs_schema s = package_updater_receipt_submission_schema then Inr ()
      else Inl [violation ''wrong_schema'' ''schema''
        ''expected rusty.fleet.package_updater_receipt_submission.v1''])"

section \<open>Claims\<close>

record package_claim_request =
  pcr_schema :: string
  pcr_owner_id :: string
  pcr_request_id :: string
  pcr_operation_id :: string
  pcr_device_id :: string
  pcr_expected_invocation_sha256 :: string

definition validate_package_claim_request :: "package_claim_request \<Rightarrow> validation" where
  "validate_package_claim_request r = finish (
     fail_if (pcr_schema r \<noteq> package_updater_claim_request_schema)
       ''wrong_schema'' ''schema'' ''expected rusty.fleet.package_updater_claim_request.v1'' @
     package_id_failures ''owner claim identifiers must be bounded portable identifiers''
       [(''owner_id'', pcr_owner_id r), (''request_id'', pcr_request_id r),
        (''operation_id'', pcr_operation_id r), (''device_id'', pcr_device_id r)] @
     fail_if (\<not> is_prefixed_sha256 (pcr_expected_invocation_sha256 r))
       ''invalid_sha256'' ''expected_invocation_sha256''
       ''expected invocation digest must use sha256: followed by lowercase hex'')"

record package_claim =
  pk_schema :: string
  pk_claim_id :: string
  pk_owner_id :: string
  pk_request_id :: string
  pk_claimed_at_ms :: i64
  pk_expires_at_ms :: i64
  pk_invocation_sha256 :: string
  pk_release_sha256 :: string
  pk_target_sha256 :: string
  pk_invocation :: package_invocation

record package_claim_identity =
  pci_claim_id :: string
  pci_request_id :: string

definition validate_package_claim :: "package_claim \<Rightarrow> validation" where
  "validate_package_claim c = finish (
     fail_if (pk_schema c \<noteq> package_updater_claim_schema \<or> pk_claimed_at_ms c < 0 \<or>
              pk_expires_at_ms c \<le> pk_claimed_at_ms c \<or>
              pk_expires_at_ms c > pi_expires_at_ms (pk_invocation c))
       ''invalid_claim'' ''claim'' ''owner claim schema or bounded lifetime is invalid'' @
     package_id_failures ''claim identifiers must be bounded portable identifiers''
       [(''claim_id'', pk_claim_id c), (''owner_id'', pk_owner_id c),
        (''request_id'', pk_request_id c)] @
     prefixed_sha256_failures ''claim digests must use sha256: followed by lowercase hex''
       [(''invocation_sha256'', pk_invocation_sha256 c), (''release_sha256'', pk_release_sha256 c),
        (''target_sha256'', pk_target_sha256 c)] @
     nested (validate_package_invocation (pk_invocation c)))"

end
