(* ===== verification/Package_Ledger.thy ===== *)
theory Package_Ledger
  imports Package_Contract
begin

text \<open>
  The package part of crates/fleet-contracts/src/packages.rs that is the operation: the ledger of
  its targets, the lifecycle derived from them, the count projection, the archive, and the
  validator of each. \<open>encode\<close> is the canonical JSON text of an operation (\<^verbatim>\<open>serde_jcs\<close>), \<open>sha\<close> the
  hexadecimal SHA-256 of a byte string.
\<close>

section \<open>The ledger\<close>

datatype package_stage =
  PreflightRejected | PreviewReady | Stage_Approved | DispatchReady | OwnerAcknowledged | Stage_Staged
| AwaitingWearer | Stage_CancellationRequested | Stage_Cancelled | Stage_Applied | Stage_Failed
| Stage_Expired | RecoveryRequired

record package_target =
  pt_device_id :: string
  pt_identity_revision :: u64
  pt_preflight :: package_preflight
  pt_lifecycle :: command_lifecycle
  pt_stage :: package_stage
  pt_invocation :: "package_invocation option"
  pt_owner_claim :: "package_claim option"
  pt_prior_owner_claims :: "package_claim list"
  pt_consumed :: "package_claim_identity list"
  pt_acknowledgement :: "package_acknowledgement option"
  pt_owner_progress :: "package_progress option"
  pt_effective_receipt :: "package_effective_receipt option"
  pt_reason_code :: string
  pt_message :: string
  pt_last_transition_ms :: i64

record package_operation =
  po_schema :: string
  po_operation_id :: string
  po_action_id :: string
  po_created_at_ms :: i64
  po_preview :: package_preview
  po_lifecycle :: command_lifecycle
  po_max_parallelism :: u16
  po_cleanup_required :: bool
  po_targets :: "package_target list"

fun progress_stage_to_install_stage :: "package_progress_stage \<Rightarrow> package_stage" where
  "progress_stage_to_install_stage Progress_Staged = Stage_Staged"
| "progress_stage_to_install_stage Progress_AwaitingWearer = AwaitingWearer"
| "progress_stage_to_install_stage Progress_CancellationRequested = Stage_CancellationRequested"
| "progress_stage_to_install_stage Progress_Cancelled = Stage_Cancelled"
| "progress_stage_to_install_stage Progress_RecoveryRequired = RecoveryRequired"
| "progress_stage_to_install_stage Progress_Failed = Stage_Failed"
| "progress_stage_to_install_stage Progress_Expired = Stage_Expired"

fun progress_stage_to_lifecycle :: "package_progress_stage \<Rightarrow> command_lifecycle" where
  "progress_stage_to_lifecycle Progress_Staged = Running"
| "progress_stage_to_lifecycle Progress_AwaitingWearer = Running"
| "progress_stage_to_lifecycle Progress_RecoveryRequired = Running"
| "progress_stage_to_lifecycle Progress_CancellationRequested = CancellationRequested"
| "progress_stage_to_lifecycle Progress_Cancelled = Cancelled"
| "progress_stage_to_lifecycle Progress_Failed = Lifecycle_Failed"
| "progress_stage_to_lifecycle Progress_Expired = Expired"

definition package_derived_lifecycle :: "package_operation \<Rightarrow> command_lifecycle" where
  "package_derived_lifecycle op =
    (let eligible = map pt_lifecycle (filter (\<lambda>t. pf_eligible (pt_preflight t)) (po_targets op))
     in if eligible = [] then Rejected
        else if list_ex (\<lambda>l. l = Running) eligible then Running
        else if list_ex (\<lambda>l. l = Dispatched) eligible then Dispatched
        else if list_ex (\<lambda>l. l = Proposed) eligible then Proposed
        else if list_ex (\<lambda>l. l = Accepted) eligible then Accepted
        else if list_all (\<lambda>l. l = Applied) eligible then Applied
        else if list_all (\<lambda>l. l = Expired) eligible then Expired
        else Lifecycle_Failed)"

definition is_terminal_target :: "package_target \<Rightarrow> bool" where
  "is_terminal_target t \<longleftrightarrow>
     pt_lifecycle t \<in> {Rejected, Applied, Lifecycle_Failed, Expired, Cancelled}"

definition package_is_terminal :: "package_operation \<Rightarrow> bool" where
  "package_is_terminal op \<longleftrightarrow> list_all is_terminal_target (po_targets op)"

definition operation_sha256 ::
  "(package_operation \<Rightarrow> string) \<Rightarrow> (string \<Rightarrow> string) \<Rightarrow> package_operation \<Rightarrow> string" where
  "operation_sha256 encode sha op = ''sha256:'' @ sha (encode op)"

text \<open>A target that holds one of the bounded delivery slots.\<close>

definition occupies_slot :: "package_target \<Rightarrow> bool" where
  "occupies_slot t \<longleftrightarrow>
     pt_lifecycle t \<in> {Dispatched, Running} \<or> pt_lifecycle t = Accepted \<and> pt_owner_claim t \<noteq> None"

section \<open>The count projection\<close>

datatype package_retention = Retention_Active | Retention_Archived

record package_counts =
  pp_schema :: string
  pp_operation_id :: string
  pp_operation_sha256 :: string
  pp_lifecycle :: command_lifecycle
  pp_retention :: package_retention
  pp_archived_at_ms :: "i64 option"
  pp_created_at_ms :: i64
  pp_last_transition_ms :: i64
  pp_total_targets :: u32
  pp_eligible_targets :: u32
  pp_excluded_targets :: u32
  pp_preview_ready :: u32
  pp_approved :: u32
  pp_dispatch_ready :: u32
  pp_claimed :: u32
  pp_owner_acknowledged :: u32
  pp_staged :: u32
  pp_awaiting_wearer :: u32
  pp_cancellation_requested :: u32
  pp_recovery_required :: u32
  pp_applied :: u32
  pp_failed :: u32
  pp_expired :: u32
  pp_cancelled :: u32
  pp_retained_owner_claims :: u32
  pp_max_parallelism :: u16
  pp_terminal_targets :: u32
  pp_terminal :: bool
  pp_archive_eligible :: bool

text \<open>\<^verbatim>\<open>.count() as u32\<close>: the cast keeps the low 32 bits.\<close>

definition count32 :: "(package_target \<Rightarrow> bool) \<Rightarrow> package_operation \<Rightarrow> u32" where
  "count32 p op = length (filter p (po_targets op)) mod 2 ^ 32"

abbreviation count_stage :: "package_stage \<Rightarrow> package_operation \<Rightarrow> u32" where
  "count_stage stage \<equiv> count32 (\<lambda>t. pt_stage t = stage)"

definition package_last_transition_ms :: "package_operation \<Rightarrow> i64" where
  "package_last_transition_ms op = (case po_targets op of
     [] \<Rightarrow> po_created_at_ms op
   | t # ts \<Rightarrow> foldl (\<lambda>m u. max m (pt_last_transition_ms u)) (pt_last_transition_ms t) ts)"

text \<open>The subtraction of the eligible from all targets is of \<^verbatim>\<open>u32\<close> values and wraps around in release builds.\<close>

definition package_progress_of ::
  "(package_operation \<Rightarrow> string) \<Rightarrow> (string \<Rightarrow> string) \<Rightarrow> package_operation \<Rightarrow> package_retention \<Rightarrow> i64 option \<Rightarrow>
   package_counts" where
  "package_progress_of encode sha op retention archived_at_ms =
    (let eligible_targets = count32 (\<lambda>t. pf_eligible (pt_preflight t)) op;
         total = count32 (\<lambda>_. True) op
     in \<lparr>pp_schema = package_operation_progress_schema,
         pp_operation_id = po_operation_id op,
         pp_operation_sha256 = operation_sha256 encode sha op,
         pp_lifecycle = po_lifecycle op,
         pp_retention = retention,
         pp_archived_at_ms = archived_at_ms,
         pp_created_at_ms = po_created_at_ms op,
         pp_last_transition_ms = package_last_transition_ms op,
         pp_total_targets = total,
         pp_eligible_targets = eligible_targets,
         pp_excluded_targets = (total + 2 ^ 32 - eligible_targets) mod 2 ^ 32,
         pp_preview_ready = count_stage PreviewReady op,
         pp_approved = count_stage Stage_Approved op,
         pp_dispatch_ready = count32 (\<lambda>t. pt_stage t = DispatchReady \<and> pt_owner_claim t = None) op,
         pp_claimed = count32 (\<lambda>t. pt_lifecycle t = Accepted \<and> pt_owner_claim t \<noteq> None) op,
         pp_owner_acknowledged = count_stage OwnerAcknowledged op,
         pp_staged = count_stage Stage_Staged op,
         pp_awaiting_wearer = count_stage AwaitingWearer op,
         pp_cancellation_requested = count_stage Stage_CancellationRequested op,
         pp_recovery_required = count_stage RecoveryRequired op,
         pp_applied = count_stage Stage_Applied op,
         pp_failed = count_stage Stage_Failed op,
         pp_expired = count_stage Stage_Expired op,
         pp_cancelled = count_stage Stage_Cancelled op,
         pp_retained_owner_claims = count32 occupies_slot op,
         pp_max_parallelism = po_max_parallelism op,
         pp_terminal_targets = count32 is_terminal_target op,
         pp_terminal = package_is_terminal op,
         pp_archive_eligible = (package_is_terminal op \<and> retention = Retention_Active)\<rparr>)"

definition validate_package_counts_for ::
  "(package_operation \<Rightarrow> string) \<Rightarrow> (string \<Rightarrow> string) \<Rightarrow> package_counts \<Rightarrow> package_operation \<Rightarrow> validation" where
  "validate_package_counts_for encode sha c op =
    (if c = package_progress_of encode sha op (pp_retention c) (pp_archived_at_ms c) \<and>
        (pp_retention c \<noteq> Retention_Archived \<or>
         some_and (\<lambda>time. time \<ge> pp_last_transition_ms c) (pp_archived_at_ms c))
     then Inr ()
     else Inl [violation ''package_progress_projection_mismatch'' ''progress''
       ''package progress must be the exact count projection over the immutable operation''])"

section \<open>Archives\<close>

record package_archive_request =
  par_schema :: string
  par_operation_id :: string
  par_expected_operation_sha256 :: string

definition validate_package_archive_request :: "package_archive_request \<Rightarrow> validation" where
  "validate_package_archive_request r = finish (
     fail_if (par_schema r \<noteq> package_operation_archive_request_schema \<or>
              \<not> is_package_id (par_operation_id r) 256 \<or>
              \<not> is_prefixed_sha256 (par_expected_operation_sha256 r))
       ''invalid_package_archive_request'' ''archive_request''
       ''archive request must bind one portable operation ID and exact operation SHA-256'')"

record package_archive =
  pz_schema :: string
  pz_operation_id :: string
  pz_operation_sha256 :: string
  pz_archived_at_ms :: i64
  pz_progress :: package_counts
  pz_operation :: package_operation

definition validate_package_archive ::
  "(package_operation \<Rightarrow> string) \<Rightarrow> (string \<Rightarrow> string) \<Rightarrow> package_archive \<Rightarrow> validation" where
  "validate_package_archive encode sha a = finish (
     fail_if (pz_schema a \<noteq> package_operation_archive_schema \<or>
              pz_operation_id a \<noteq> po_operation_id (pz_operation a) \<or>
              pz_operation_sha256 a \<noteq> operation_sha256 encode sha (pz_operation a) \<or>
              pz_archived_at_ms a < 0 \<or> \<not> package_is_terminal (pz_operation a) \<or>
              pp_retention (pz_progress a) \<noteq> Retention_Archived \<or>
              pp_archived_at_ms (pz_progress a) \<noteq> Some (pz_archived_at_ms a) \<or>
              \<not> valid (validate_package_counts_for encode sha (pz_progress a) (pz_operation a)))
       ''invalid_package_operation_archive'' ''archive''
       ''archive must retain one exact terminal operation and its archived progress projection'')"

section \<open>The operation's contract\<close>

definition at_target :: "nat \<Rightarrow> string \<Rightarrow> string" where
  "at_target index field = ''targets['' @ show_nat index @ '']'' @ field"

text \<open>What an owner invocation must repeat of the operation it serves.\<close>

definition package_invocation_mismatch :: "package_operation \<Rightarrow> package_target \<Rightarrow> package_invocation \<Rightarrow> bool" where
  "package_invocation_mismatch op t i \<longleftrightarrow>
     \<not> valid (validate_package_invocation i) \<or> pi_operation_id i \<noteq> po_operation_id op \<or>
     pi_preview_id i \<noteq> pv_preview_id (po_preview op) \<or> pi_device_id i \<noteq> pt_device_id t \<or>
     pi_identity_revision i \<noteq> pt_identity_revision t \<or> pi_release i \<noteq> pv_release (po_preview op) \<or>
     pi_expected_package_name i \<noteq> pv_expected_package_name (po_preview op) \<or>
     pi_expected_rollout_ring i \<noteq> pv_expected_rollout_ring (po_preview op)"

definition claim_unbound :: "package_target \<Rightarrow> package_claim \<Rightarrow> bool" where
  "claim_unbound t c \<longleftrightarrow> \<not> valid (validate_package_claim c) \<or> pt_invocation t \<noteq> Some (pk_invocation c)"

definition acknowledged_by :: "package_invocation \<Rightarrow> package_acknowledgement \<Rightarrow> bool" where
  "acknowledged_by i a \<longleftrightarrow>
     valid (validate_package_acknowledgement a) \<and> pa_accepted a \<and>
     pa_operation_id a = pi_operation_id i \<and> pa_device_id a = pi_device_id i \<and>
     pa_owner_action_request_id a = pi_owner_action_request_id i"

definition no_owner_evidence :: "package_target \<Rightarrow> bool" where
  "no_owner_evidence t \<longleftrightarrow>
     pt_invocation t = None \<and> pt_owner_claim t = None \<and> pt_acknowledgement t = None \<and>
     pt_owner_progress t = None \<and> pt_effective_receipt t = None"

text \<open>The replay authority: every consumed claim and request identifier, each of them once.\<close>

definition consumed_identities_valid :: "package_claim_identity list \<Rightarrow> bool" where
  "consumed_identities_valid ids \<longleftrightarrow>
     length ids \<le> max_consumed_package_owner_claims \<and>
     list_all (\<lambda>identity. is_package_id (pci_claim_id identity) 256 \<and>
       is_package_id (pci_request_id identity) 256) ids \<and>
     list_all (\<lambda>(k, identity). list_all (\<lambda>prior.
         pci_claim_id prior \<noteq> pci_claim_id identity \<and> pci_request_id prior \<noteq> pci_request_id identity)
       (take k ids)) (enumerate 0 ids)"

definition claim_consumed :: "package_target \<Rightarrow> package_claim \<Rightarrow> bool" where
  "claim_consumed t c \<longleftrightarrow> list_ex (\<lambda>identity.
     pci_claim_id identity = pk_claim_id c \<and> pci_request_id identity = pk_request_id c) (pt_consumed t)"

definition package_claims_failures :: "nat \<Rightarrow> package_target \<Rightarrow> failures" where
  "package_claims_failures index t =
     fail_if (length (pt_prior_owner_claims t) > 16 \<or> list_ex (claim_unbound t) (pt_prior_owner_claims t))
       ''invalid_prior_owner_claims'' (at_target index ''.prior_owner_claims'')
       ''prior claim evidence must be bounded and bind the exact immutable invocation'' @
     fail_if (\<not> consumed_identities_valid (pt_consumed t) \<or>
              list_ex (\<lambda>c. \<not> claim_consumed t c) (pt_prior_owner_claims t) \<or>
              some_and (\<lambda>c. \<not> claim_consumed t c) (pt_owner_claim t))
       ''invalid_consumed_owner_claim_identities'' (at_target index ''.consumed_owner_claim_identities'')
       ''durable replay authority must retain every unique consumed claim and request identity''"

definition package_proposed_failures :: "nat \<Rightarrow> package_target \<Rightarrow> failures" where
  "package_proposed_failures index t =
     fail_if (pt_stage t \<noteq> PreviewReady \<or> \<not> no_owner_evidence t)
       ''invalid_pre_dispatch_state'' (at_target index [])
       ''pre-dispatch target cannot contain owner evidence''"

definition package_accepted_failures :: "package_operation \<Rightarrow> nat \<Rightarrow> package_target \<Rightarrow> failures" where
  "package_accepted_failures op index t =
    (let valid_stage = (case pt_stage t of
           Stage_Approved \<Rightarrow> pt_invocation t = None
         | DispatchReady \<Rightarrow> pt_invocation t \<noteq> None
         | _ \<Rightarrow> False)
     in fail_if (\<not> valid_stage \<or> pt_acknowledgement t \<noteq> None \<or> pt_owner_progress t \<noteq> None \<or>
                 pt_effective_receipt t \<noteq> None)
          ''invalid_accepted_state'' (at_target index [])
          ''accepted target must be approved or hold one not-yet-delivered invocation'' @
        fail_if (some_and (claim_unbound t) (pt_owner_claim t))
          ''owner_claim_binding_mismatch'' (at_target index ''.owner_claim'')
          ''owner claim must bind the exact immutable invocation'' @
        fail_if (some_and (package_invocation_mismatch op t) (pt_invocation t))
          ''invocation_binding_mismatch'' (at_target index ''.invocation'')
          ''prepared owner invocation must bind the exact frozen operation'')"

definition package_dispatched_failures :: "package_operation \<Rightarrow> nat \<Rightarrow> package_target \<Rightarrow> failures" where
  "package_dispatched_failures op index t =
     fail_if (pt_stage t \<noteq> OwnerAcknowledged)
       ''invalid_inflight_stage'' (at_target index ''.stage'')
       ''dispatched package work requires an authenticated owner acknowledgement'' @
     (case pt_invocation t of
        None \<Rightarrow> [violation ''missing_invocation'' (at_target index ''.invocation'')
          ''dispatched target requires the exact owner invocation'']
      | Some i \<Rightarrow>
          fail_if (package_invocation_mismatch op t i \<or> pt_effective_receipt t \<noteq> None \<or>
                   pt_owner_progress t \<noteq> None)
            ''invocation_binding_mismatch'' (at_target index ''.invocation'')
            ''owner invocation must bind the exact frozen operation'' @
          fail_if (\<not> some_and (acknowledged_by i) (pt_acknowledgement t))
            ''dispatched_without_owner_acknowledgement'' (at_target index ''.invocation_acknowledgement'')
            ''dispatched lifecycle requires a bound accepted owner acknowledgement'')"

definition package_running_failures :: "package_operation \<Rightarrow> nat \<Rightarrow> package_target \<Rightarrow> failures" where
  "package_running_failures op index t =
     fail_if (pt_stage t \<notin> {Stage_Staged, AwaitingWearer, Stage_CancellationRequested, RecoveryRequired})
       ''invalid_running_stage'' (at_target index ''.stage'')
       ''running package work requires a later authenticated owner stage'' @
     (case pt_invocation t of
        None \<Rightarrow> [violation ''missing_invocation'' (at_target index ''.invocation'')
          ''running target requires the exact owner invocation'']
      | Some i \<Rightarrow>
          fail_if (package_invocation_mismatch op t i \<or> pt_effective_receipt t \<noteq> None \<or>
                   none_or (\<lambda>p. \<not> valid (validate_package_progress_for p i) \<or>
                       progress_stage_to_install_stage (pg_stage p) \<noteq> pt_stage t) (pt_owner_progress t) \<or>
                   none_or (\<lambda>a. \<not> acknowledged_by i a) (pt_acknowledgement t))
            ''running_owner_evidence_mismatch'' (at_target index [])
            ''running package work requires exact invocation and authenticated owner acknowledgement evidence'')"

definition package_applied_failures :: "nat \<Rightarrow> package_target \<Rightarrow> failures" where
  "package_applied_failures index t =
     fail_if (pt_stage t \<noteq> Stage_Applied)
       ''invalid_applied_stage'' (at_target index ''.stage'')
       ''applied lifecycle requires the applied package stage'' @
     (case (pt_invocation t, pt_effective_receipt t) of
        (Some i, Some r) \<Rightarrow>
          fail_if (\<not> valid (validate_package_receipt_for r i))
            ''applied_without_effective_receipt'' (at_target index ''.effective_receipt'')
            ''applied target requires an effective installed-version receipt'' @
          fail_if (some_and (\<lambda>p. \<not> valid (validate_package_progress_for p i)) (pt_owner_progress t))
            ''invalid_retained_owner_progress'' (at_target index ''.owner_progress'')
            ''applied target may retain only progress bound to the exact invocation''
      | _ \<Rightarrow> [violation ''applied_without_effective_receipt'' (at_target index ''.effective_receipt'')
          ''applied target requires invocation and installed-version receipt''])"

definition package_ended_failures :: "nat \<Rightarrow> package_target \<Rightarrow> failures" where
  "package_ended_failures index t =
    (let expected_stage = (if pt_lifecycle t = Expired then Stage_Expired else Stage_Failed)
     in fail_if (pt_stage t \<noteq> expected_stage \<or> pt_invocation t = None \<or> pt_effective_receipt t \<noteq> None)
          ''invalid_terminal_failure'' (at_target index [])
          ''failed or expired target retains an invocation and no effective receipt'' @
        (case (pt_invocation t, pt_owner_progress t) of
           (Some i, Some p) \<Rightarrow>
             fail_if (\<not> valid (validate_package_progress_for p i) \<or>
                      progress_stage_to_install_stage (pg_stage p) \<noteq> pt_stage t)
               ''terminal_owner_progress_mismatch'' (at_target index ''.owner_progress'')
               ''terminal owner progress must bind the exact invocation and terminal stage''
         | _ \<Rightarrow> []))"

text \<open>\<open>stage\<close> and \<open>progress_stage\<close> are the stage of the target and of the progress that put it there.\<close>

definition cancellation_invalid :: "package_stage \<Rightarrow> package_progress_stage \<Rightarrow> package_target \<Rightarrow> bool" where
  "cancellation_invalid stage progress_stage t \<longleftrightarrow>
     pt_stage t \<noteq> stage \<or> pt_invocation t = None \<or> pt_effective_receipt t \<noteq> None \<or>
     none_or (\<lambda>p. none_or (\<lambda>i. \<not> valid (validate_package_progress_for p i) \<or> pg_stage p \<noteq> progress_stage)
       (pt_invocation t)) (pt_owner_progress t)"

definition package_lifecycle_failures :: "package_operation \<Rightarrow> nat \<Rightarrow> package_target \<Rightarrow> failures" where
  "package_lifecycle_failures op index t = (case pt_lifecycle t of
     Proposed \<Rightarrow> package_proposed_failures index t
   | Accepted \<Rightarrow> package_accepted_failures op index t
   | Dispatched \<Rightarrow> package_dispatched_failures op index t
   | Running \<Rightarrow> package_running_failures op index t
   | Applied \<Rightarrow> package_applied_failures index t
   | Lifecycle_Failed \<Rightarrow> package_ended_failures index t
   | Expired \<Rightarrow> package_ended_failures index t
   | Rejected \<Rightarrow> [violation ''eligible_target_rejected'' (at_target index ''.lifecycle'')
       ''eligible target cannot use preflight rejection'']
   | CancellationRequested \<Rightarrow>
       fail_if (cancellation_invalid Stage_CancellationRequested Progress_CancellationRequested t)
         ''invalid_cancellation_state'' (at_target index [])
         ''cancellation requires a prepared invocation and no application proof''
   | Cancelled \<Rightarrow>
       fail_if (cancellation_invalid Stage_Cancelled Progress_Cancelled t)
         ''invalid_cancelled_state'' (at_target index [])
         ''cancelled package work retains its invocation and no application proof''
   | _ \<Rightarrow> [violation ''unsupported_lifecycle'' (at_target index ''.lifecycle'')
       ''package install v1 has no separate cleanup lifecycle''])"

definition package_frozen_targets :: "package_preview \<Rightarrow> (string, package_preflight) btree_map" where
  "package_frozen_targets v = bt_from_list (map (\<lambda>p. (pf_device_id p, p)) (pv_targets v))"

definition package_frozen_failures :: "package_operation \<Rightarrow> nat \<Rightarrow> package_target \<Rightarrow> failures" where
  "package_frozen_failures op index t =
     fail_if (pt_device_id t \<in> set (map pt_device_id (take index (po_targets op))) \<or>
              none_or (\<lambda>p. p \<noteq> pt_preflight t)
                (bt_get (package_frozen_targets (po_preview op)) (pt_device_id t)) \<or>
              pt_identity_revision t \<noteq> pf_identity_revision (pt_preflight t) \<or>
              pt_last_transition_ms t < po_created_at_ms op \<or>
              \<not> is_package_id (pt_reason_code t) 256 \<or> pt_message t = [])
       ''invalid_target_ledger'' (at_target index [])
       ''target ledger must preserve one frozen preview target and bounded state''"

definition package_excluded_failures :: "nat \<Rightarrow> package_target \<Rightarrow> failures" where
  "package_excluded_failures index t =
     fail_if (pt_lifecycle t \<noteq> Rejected \<or> pt_stage t \<noteq> PreflightRejected \<or> \<not> no_owner_evidence t)
       ''ineligible_target_dispatched'' (at_target index [])
       ''ineligible target must remain rejected without owner evidence''"

definition package_operation_target_failures :: "package_operation \<Rightarrow> nat \<Rightarrow> package_target \<Rightarrow> failures" where
  "package_operation_target_failures op index t =
     package_frozen_failures op index t @
     (if \<not> pf_eligible (pt_preflight t) then package_excluded_failures index t
      else package_claims_failures index t @ package_lifecycle_failures op index t)"

definition package_operation_head_failures :: "package_operation \<Rightarrow> failures" where
  "package_operation_head_failures op =
     fail_if (po_schema op \<noteq> ''rusty.fleet.package_install_release_operation.v1'' \<or>
              \<not> is_package_id (po_operation_id op) 256 \<or>
              po_action_id op \<noteq> packages_install_release_action_id \<or> po_created_at_ms op < 0 \<or>
              \<not> (1 \<le> po_max_parallelism op \<and> po_max_parallelism op \<le> 64) \<or> po_cleanup_required op)
       ''invalid_operation_header'' ''operation''
       ''package operation identity, action, time, parallelism, or cleanup flag is invalid'' @
     nested_at ''preview.'' (validate_package_preview (po_preview op)) @
     fail_if (pv_operation_id (po_preview op) \<noteq> po_operation_id op \<or>
              pv_action_id (po_preview op) \<noteq> po_action_id op \<or>
              pv_created_at_ms (po_preview op) \<noteq> po_created_at_ms op \<or>
              length (po_targets op) \<noteq> length (pv_targets (po_preview op)))
       ''preview_binding_mismatch'' ''preview''
       ''operation must retain its exact preview and target set''"

definition occupied_slots :: "package_operation \<Rightarrow> nat" where
  "occupied_slots op = length (filter occupies_slot (po_targets op))"

definition validate_package_operation :: "package_operation \<Rightarrow> validation" where
  "validate_package_operation op = finish (
     package_operation_head_failures op @
     for_each (package_operation_target_failures op) (po_targets op) @
     fail_if (po_lifecycle op \<noteq> package_derived_lifecycle op)
       ''operation_lifecycle_mismatch'' ''lifecycle''
       ''operation lifecycle must be derived from target ledgers'' @
     fail_if (occupied_slots op > po_max_parallelism op)
       ''operation_parallelism_exceeded'' ''targets''
       ''active owner claims and in-flight targets exceed the frozen parallelism'')"

end
