(* ===== verification/Owner_Contract.thy ===== *)
theory Owner_Contract
  imports Device_Facts
begin

text \<open>
  What crates/fleet-contracts/src/awake.rs and wifi_adb.rs share word for word: portable
  identifiers, lowercase SHA-256 digests, the bounds of a set of exact targets, and the reason code
  a preflight derives from its frozen capability facts.
\<close>

section \<open>Identifiers and digests\<close>

definition is_portable_byte :: "char \<Rightarrow> bool" where
  "is_portable_byte c \<longleftrightarrow>
     is_ascii_alphanumeric c \<or> c = CHR ''.'' \<or> c = CHR ''_'' \<or> c = CHR ''-''"

definition is_portable_id :: "string \<Rightarrow> usize \<Rightarrow> bool" where
  "is_portable_id value maximum \<longleftrightarrow>
     1 \<le> length value \<and> length value \<le> maximum \<and> list_all is_portable_byte value"

definition is_lower_sha256 :: "string \<Rightarrow> bool" where
  "is_lower_sha256 value \<longleftrightarrow>
     length value = 64 \<and> list_all (\<lambda>byte. is_ascii_hexdigit byte \<and> \<not> is_ascii_uppercase byte) value"

definition identifier_failures :: "string \<Rightarrow> (string \<times> string) list \<Rightarrow> failures" where
  "identifier_failures message = for_in (\<lambda>(path, text).
     fail_if (\<not> is_portable_id text 256) ''invalid_identifier'' path message)"

lemma identifier_failures_Nil [simp]:
  "identifier_failures message xs = [] \<longleftrightarrow> (\<forall>(path, text)\<in>set xs. is_portable_id text 256)"
  by (auto simp: identifier_failures_def)

lemma portable_byte_bound: "is_portable_byte c \<Longrightarrow> (45 :: nat) \<le> of_char c"
  by (auto simp: is_portable_byte_def is_ascii_alphanumeric_def is_ascii_digit_def
      is_ascii_lowercase_def is_ascii_uppercase_def)

lemma portable_byte_not_nul: "is_portable_byte c \<Longrightarrow> c \<noteq> char_of (0 :: nat)"
  using portable_byte_bound by fastforce

lemma portable_id_not_nul: "is_portable_id s n \<Longrightarrow> char_of (0 :: nat) \<notin> set s"
  using portable_byte_not_nul by (auto simp: is_portable_id_def list_all_iff)

lemma portable_id_not_blank: "is_portable_id s n \<Longrightarrow> \<not> is_blank s"
proof (cases s)
  case (Cons c cs)
  assume "is_portable_id s n"
  with Cons have "is_portable_byte c" by (simp add: is_portable_id_def)
  then have "of_char c \<in> {45, 46, 95} \<union> {48..57} \<union> {65..90} \<union> {97..122 :: nat}"
    by (auto simp: is_portable_byte_def is_ascii_alphanumeric_def is_ascii_digit_def
        is_ascii_lowercase_def is_ascii_uppercase_def)
  then have "of_char c \<notin> {9, 10, 11, 12, 13, 32 :: nat}" "of_char c < (194 :: nat)" by auto
  with Cons show "\<not> is_blank s" by (auto simp: is_blank.simps(2) split: list.splits)
qed (simp add: is_portable_id_def)

lemma lower_sha256_not_nul: "is_lower_sha256 s \<Longrightarrow> char_of (0 :: nat) \<notin> set s"
  by (auto simp: is_lower_sha256_def list_all_iff is_ascii_hexdigit_def is_lower_hex_def is_ascii_digit_def)

section \<open>Exact targets\<close>

definition exact_target_failures ::
  "string \<Rightarrow> string \<Rightarrow> (string, u64) btree_map \<Rightarrow> failures" where
  "exact_target_failures count_message target_message targets =
     fail_if (bt_len targets = 0 \<or> bt_len targets > 10000)
       ''invalid_target_count'' ''targets'' count_message @
     for_entries (\<lambda>device_id revision.
       fail_if (\<not> is_portable_id device_id 256 \<or> revision = 0)
         ''invalid_target'' ''targets'' target_message) targets"

lemma exact_target_failures_Nil:
  "exact_target_failures c t targets = [] \<longleftrightarrow>
     bt_len targets \<noteq> 0 \<and> bt_len targets \<le> 10000 \<and>
     (\<forall>device_id revision. bt_get targets device_id = Some revision \<longrightarrow>
        is_portable_id device_id 256 \<and> revision \<noteq> 0)"
  by (auto simp: exact_target_failures_def)

section \<open>The reason code of a preflight\<close>

definition readiness_reason ::
  "support_state \<Rightarrow> enablement_state \<Rightarrow> authorization_state \<Rightarrow> reachability_state \<Rightarrow> freshness_state \<Rightarrow>
   i64 \<Rightarrow> i64 \<Rightarrow> string" where
  "readiness_reason support enablement authorization reachability freshness evaluated_at_ms fresh_until_ms =
     (case support of
        Support_Unsupported \<Rightarrow> ''unsupported''
      | Support_Unknown \<Rightarrow> ''support_unknown''
      | Support_Supported \<Rightarrow> (case enablement of
          Enablement_Disabled \<Rightarrow> ''disabled''
        | Enablement_Unknown \<Rightarrow> ''enablement_unknown''
        | Enablement_Enabled \<Rightarrow> (case authorization of
            Authorization_Unauthorized \<Rightarrow> ''unauthorized''
          | Authorization_Restricted \<Rightarrow> ''restricted''
          | Authorization_Unknown \<Rightarrow> ''authorization_unknown''
          | Authorization_Authorized \<Rightarrow> (case reachability of
              Reachability_Disconnected \<Rightarrow> ''disconnected''
            | Reachability_Unavailable \<Rightarrow> ''provider_unavailable''
            | Reachability_Unknown \<Rightarrow> ''reachability_unknown''
            | Reachability_Reachable \<Rightarrow>
                if freshness = Freshness_Current \<and> evaluated_at_ms \<le> fresh_until_ms then ''ready''
                else if freshness = Freshness_Unknown then ''freshness_unknown''
                else ''stale''))))"

lemma readiness_ready_iff:
  "readiness_reason s e a r f t u = ''ready'' \<longleftrightarrow>
     s = Support_Supported \<and> e = Enablement_Enabled \<and> a = Authorization_Authorized \<and>
     r = Reachability_Reachable \<and> f = Freshness_Current \<and> t \<le> u"
  by (simp add: readiness_reason_def split: support_state.split enablement_state.split
      authorization_state.split reachability_state.split freshness_state.split)

end
