(* ===== verification/Awake_Contract.thy ===== *)
theory Awake_Contract
  imports Owner_Contract Command
begin

text \<open>
  crates/fleet-contracts/src/awake.rs: the contracts of \<^verbatim>\<open>quest.awake-control\<close>. Requests with their
  duration and watchdog bounds, the pinned owner binding, the preflight and the immutable preview,
  the owner's invocation, and the receipt whose summary flags must be derived from the power and
  watchdog readbacks it carries.
\<close>

section \<open>Constants and actions\<close>

definition awake_action_id :: string where
  "awake_action_id = ''quest.awake-control''"

definition awake_capability_id :: string where
  "awake_capability_id = ''questionable-file-manager.quest-awake-provider''"

definition awake_owner :: string where
  "awake_owner = ''questionable-file-manager''"

definition awake_provider_contract :: string where
  "awake_provider_contract = ''questionable.file_manager.fleet_awake_provider.v1''"

definition awake_receipt_schema :: string where
  "awake_receipt_schema = ''questionable.file_manager.quest_awake_receipt.v1''"

definition awake_preview_request_schema :: string where
  "awake_preview_request_schema = ''rusty.fleet.quest_awake_preview_request.v1''"

definition awake_execute_request_schema :: string where
  "awake_execute_request_schema = ''rusty.fleet.quest_awake_execute_request.v1''"

definition awake_operation_schema :: string where
  "awake_operation_schema = ''rusty.fleet.quest_awake_operation.v1''"

definition awake_min_duration_ms :: u32 where
  "awake_min_duration_ms = 60000"

definition awake_max_duration_ms :: u32 where
  "awake_max_duration_ms = 28800000"

definition awake_min_watchdog_interval_ms :: u32 where
  "awake_min_watchdog_interval_ms = 1000"

definition awake_max_watchdog_interval_ms :: u32 where
  "awake_max_watchdog_interval_ms = 60000"

datatype awake_action =
  Awake_Status | ApplyBounded | StartWindowsWatchdog | StartDeviceWatchdog | StopWatchdogs | RestoreNormal

fun awake_provider_action :: "awake_action \<Rightarrow> string" where
  "awake_provider_action Awake_Status = ''status''"
| "awake_provider_action ApplyBounded = ''applyBounded''"
| "awake_provider_action StartWindowsWatchdog = ''repairOnce''"
| "awake_provider_action StartDeviceWatchdog = ''startDeviceWatchdog''"
| "awake_provider_action StopWatchdogs = ''stopWatchdogs''"
| "awake_provider_action RestoreNormal = ''restoreNormal''"

definition is_watchdog :: "awake_action \<Rightarrow> bool" where
  "is_watchdog a \<longleftrightarrow> a \<in> {StartWindowsWatchdog, StartDeviceWatchdog}"

definition awake_policy_failures :: "u32 \<Rightarrow> u32 \<Rightarrow> failures" where
  "awake_policy_failures duration_ms watchdog_interval_ms =
     fail_if (\<not> (awake_min_duration_ms \<le> duration_ms \<and> duration_ms \<le> awake_max_duration_ms))
       ''invalid_duration'' ''duration_ms''
       ''Quest awake duration must be between one minute and eight hours'' @
     fail_if (\<not> (awake_min_watchdog_interval_ms \<le> watchdog_interval_ms \<and>
                 watchdog_interval_ms \<le> awake_max_watchdog_interval_ms))
       ''invalid_watchdog_interval'' ''watchdog_interval_ms''
       ''watchdog interval must be between one and sixty seconds''"

section \<open>Requests and owner binding\<close>

record awake_preview_request =
  apr_schema :: string
  apr_action_id :: string
  apr_action :: awake_action
  apr_duration_ms :: u32
  apr_watchdog_interval_ms :: u32
  apr_targets :: "(string, u64) btree_map"

definition validate_awake_preview_request :: "awake_preview_request \<Rightarrow> validation" where
  "validate_awake_preview_request r = finish (
     fail_if (apr_schema r \<noteq> awake_preview_request_schema)
       ''wrong_schema'' ''schema'' ''expected rusty.fleet.quest_awake_preview_request.v1'' @
     fail_if (apr_action_id r \<noteq> awake_action_id)
       ''wrong_action'' ''action_id'' ''expected quest.awake-control'' @
     awake_policy_failures (apr_duration_ms r) (apr_watchdog_interval_ms r) @
     exact_target_failures ''Quest awake request must contain 1 through 10,000 exact targets''
       ''target device IDs must be bounded portable IDs with positive revisions'' (apr_targets r))"

record awake_execute_request =
  axr_schema :: string
  axr_operation_id :: string
  axr_preview_id :: string

definition validate_awake_execute_request :: "awake_execute_request \<Rightarrow> validation" where
  "validate_awake_execute_request r = finish (
     fail_if (axr_schema r \<noteq> awake_execute_request_schema)
       ''wrong_schema'' ''schema'' ''expected rusty.fleet.quest_awake_execute_request.v1'' @
     identifier_failures ''operation and preview IDs must be bounded portable identifiers''
       [(''operation_id'', axr_operation_id r), (''preview_id'', axr_preview_id r)])"

record awake_owner_binding =
  aob_owner_repo_id :: string
  aob_capability_id :: string
  aob_provider_contract :: string
  aob_receipt_schema :: string
  aob_transport :: string
  aob_application_proof :: string

definition awake_file_manager_v1 :: awake_owner_binding where
  "awake_file_manager_v1 = \<lparr>
     aob_owner_repo_id = awake_owner,
     aob_capability_id = awake_capability_id,
     aob_provider_contract = awake_provider_contract,
     aob_receipt_schema = awake_receipt_schema,
     aob_transport = ''pinned_local_subprocess'',
     aob_application_proof = ''fresh_effective_power_and_watchdog_readback''\<rparr>"

definition validate_awake_owner :: "awake_owner_binding \<Rightarrow> validation" where
  "validate_awake_owner owner =
     (if owner = awake_file_manager_v1 then Inr ()
      else Inl [violation ''owner_contract_mismatch'' ''owner''
        ''Quest awake owner differs from the pinned File Manager provider contract''])"

section \<open>Preflight and preview\<close>

record awake_preflight =
  af_device_id :: string
  af_identity_revision :: u64
  af_capability_id :: string
  af_capability_evidence_revision :: u64
  af_capability_owner :: string
  af_support :: support_state
  af_enablement :: enablement_state
  af_authorization :: authorization_state
  af_reachability :: reachability_state
  af_freshness :: freshness_state
  af_observed_at_ms :: i64
  af_fresh_until_ms :: i64
  af_evaluated_at_ms :: i64
  af_eligible :: bool
  af_reason_code :: string
  af_message :: string

definition awake_expected_reason_code :: "awake_preflight \<Rightarrow> string" where
  "awake_expected_reason_code p = readiness_reason (af_support p) (af_enablement p)
     (af_authorization p) (af_reachability p) (af_freshness p) (af_evaluated_at_ms p) (af_fresh_until_ms p)"

definition awake_expected_eligibility :: "awake_preflight \<Rightarrow> bool" where
  "awake_expected_eligibility p \<longleftrightarrow> awake_expected_reason_code p = ''ready''"

definition validate_awake_preflight :: "awake_preflight \<Rightarrow> validation" where
  "validate_awake_preflight p = finish (
     require_nonempty (af_device_id p) ''device_id'' @
     require_nonempty (af_message p) ''message'' @
     fail_if (af_identity_revision p = 0 \<or> af_capability_evidence_revision p = 0)
       ''invalid_revision'' ''identity_revision''
       ''identity and capability revisions must be greater than zero'' @
     fail_if (af_capability_id p \<noteq> awake_capability_id \<or> af_capability_owner p \<noteq> awake_owner)
       ''wrong_capability_owner'' ''capability_id''
       ''Quest awake preflight must use the File Manager owner capability'' @
     fail_if (af_fresh_until_ms p < af_observed_at_ms p \<or> af_evaluated_at_ms p < af_observed_at_ms p)
       ''invalid_preflight_window'' ''evaluated_at_ms'' ''preflight timestamps are not coherent'' @
     fail_if (af_eligible p \<noteq> awake_expected_eligibility p \<or>
              af_reason_code p \<noteq> awake_expected_reason_code p)
       ''preflight_result_mismatch'' ''eligible''
       ''eligibility and reason must match the frozen capability facts'')"

record awake_preview =
  av_schema :: string
  av_preview_id :: string
  av_operation_id :: string
  av_action_id :: string
  av_action :: awake_action
  av_created_at_ms :: i64
  av_expires_at_ms :: i64
  av_fleet_revision :: u64
  av_duration_ms :: u32
  av_watchdog_interval_ms :: u32
  av_watchdog_generation :: string
  av_owner :: awake_owner_binding
  av_targets :: "awake_preflight list"

definition awake_preview_target_failures ::
  "awake_preview \<Rightarrow> nat \<Rightarrow> awake_preflight \<Rightarrow> failures" where
  "awake_preview_target_failures v index target =
     fail_if (af_device_id target \<in> set (map af_device_id (take index (av_targets v))))
       ''duplicate_target'' ''targets'' ''Quest awake preview targets must be unique'' @
     nested (validate_awake_preflight target) @
     fail_if (af_evaluated_at_ms target \<noteq> av_created_at_ms v)
       ''preflight_time_mismatch'' ''targets.evaluated_at_ms''
       ''target preflight must bind the preview time''"

definition validate_awake_preview :: "awake_preview \<Rightarrow> validation" where
  "validate_awake_preview v = finish (
     fail_if (av_schema v \<noteq> ''rusty.fleet.quest_awake_preview.v1'' \<or>
              \<not> is_portable_id (av_preview_id v) 256 \<or> \<not> is_portable_id (av_operation_id v) 256 \<or>
              \<not> is_portable_id (av_watchdog_generation v) 256 \<or>
              av_action_id v \<noteq> awake_action_id \<or> av_created_at_ms v < 0 \<or>
              av_expires_at_ms v \<le> av_created_at_ms v \<or> av_fleet_revision v = 0)
       ''invalid_preview_header'' ''preview''
       ''Quest awake preview identity, action, time, or revision is invalid'' @
     awake_policy_failures (av_duration_ms v) (av_watchdog_interval_ms v) @
     nested (validate_awake_owner (av_owner v)) @
     fail_if (av_targets v = [] \<or> length (av_targets v) > 10000)
       ''invalid_target_count'' ''targets'' ''Quest awake preview must contain 1 through 10,000 targets'' @
     for_each (awake_preview_target_failures v) (av_targets v))"

section \<open>Invocation\<close>

record awake_invocation =
  ai_schema :: string
  ai_request_id :: string
  ai_operation_id :: string
  ai_preview_id :: string
  ai_device_id :: string
  ai_identity_revision :: u64
  ai_action :: awake_action
  ai_duration_ms :: u32
  ai_watchdog_interval_ms :: u32
  ai_watchdog_generation :: string
  ai_issued_at_ms :: i64
  ai_expires_at_ms :: i64

definition validate_awake_invocation :: "awake_invocation \<Rightarrow> validation" where
  "validate_awake_invocation i = finish (
     fail_if (ai_schema i \<noteq> ''rusty.fleet.quest_awake_owner_invocation.v1'' \<or>
              ai_identity_revision i = 0 \<or> ai_issued_at_ms i < 0 \<or>
              ai_expires_at_ms i \<le> ai_issued_at_ms i)
       ''invalid_invocation_header'' ''invocation'' ''Quest awake invocation header is invalid'' @
     identifier_failures ''invocation identifiers must be bounded and portable''
       [(''request_id'', ai_request_id i), (''operation_id'', ai_operation_id i),
        (''preview_id'', ai_preview_id i), (''device_id'', ai_device_id i),
        (''watchdog_generation'', ai_watchdog_generation i)] @
     awake_policy_failures (ai_duration_ms i) (ai_watchdog_interval_ms i))"

section \<open>Readbacks and receipt\<close>

record power_readback =
  apw_wakefulness :: string
  apw_display_state :: string
  apw_stay_on :: bool
  apw_auto_sleep_disabled :: "bool option"
  apw_proximity_state :: string
  apw_proximity_hold_duration_ms :: "u32 option"
  apw_proximity_hold_remaining_ms :: "u32 option"
  apw_captured_at_ms :: i64

record watchdog_readback =
  awd_reported_active :: bool
  awd_fresh :: bool
  awd_generation :: string
  awd_boot_id_sha256 :: string
  awd_interval_ms :: u32
  awd_last_poll_ms :: i64
  awd_proximity_repair_count :: u32
  awd_stay_on_repair_count :: u32
  awd_wake_repair_count :: u32
  awd_last_action :: string
  awd_last_error :: string

record awake_receipt =
  ar_schema :: string
  ar_request_id :: string
  ar_operation_id :: string
  ar_preview_id :: string
  ar_device_id :: string
  ar_identity_revision :: u64
  ar_action :: awake_action
  ar_watchdog_generation :: string
  ar_requested_duration_ms :: u32
  ar_requested_watchdog_interval_ms :: u32
  ar_stay_on_effective :: bool
  ar_proximity_hold_effective :: bool
  ar_wake_effective :: bool
  ar_windows_watchdog_effective :: bool
  ar_device_watchdog_effective :: bool
  ar_settings_restored :: bool
  ar_effective :: bool
  ar_settings_left_unchanged :: bool
  ar_outcome :: string
  ar_repair_count :: u32
  ar_power :: power_readback
  ar_device_watchdog :: watchdog_readback
  ar_evidence_sha256 :: string
  ar_observed_at_ms :: i64

text \<open>The SHA-256 of the empty string, which an active watchdog's boot ID must not be.\<close>

definition empty_sha256 :: string where
  "empty_sha256 = ''e3b0c44298fc1c149afbf4c8996fb92427ae41e4649b934ca495991b7852b855''"

definition readback_failures :: "awake_receipt \<Rightarrow> failures" where
  "readback_failures r =
    (let power = ar_power r; watchdog = ar_device_watchdog r in
     fail_if (ar_observed_at_ms r < 0 \<or> apw_captured_at_ms power < 0 \<or>
              apw_captured_at_ms power > ar_observed_at_ms r \<or>
              ar_observed_at_ms r - apw_captured_at_ms power > 30000 \<or>
              apw_wakefulness power = [] \<or> length (apw_wakefulness power) > 128 \<or>
              apw_display_state power = [] \<or> length (apw_display_state power) > 128 \<or>
              apw_proximity_state power = [] \<or> length (apw_proximity_state power) > 128 \<or>
              length (awd_boot_id_sha256 watchdog) \<noteq> 64 \<or>
              awd_reported_active watchdog \<and> awd_boot_id_sha256 watchdog = empty_sha256 \<or>
              \<not> list_all (\<lambda>byte. is_ascii_hexdigit byte \<and> \<not> is_ascii_uppercase byte)
                   (awd_boot_id_sha256 watchdog) \<or>
              length (awd_generation watchdog) > 256 \<or> length (awd_last_action watchdog) > 256 \<or>
              length (awd_last_error watchdog) > 512 \<or>
              ar_outcome r = [] \<or> length (ar_outcome r) > 256)
       ''invalid_readback'' ''receipt''
       ''power and watchdog readbacks must be bounded, coherent, and freshly captured'')"

definition expected_proximity_hold :: "awake_receipt \<Rightarrow> bool" where
  "expected_proximity_hold r \<longleftrightarrow>
     eq_ignore_ascii_case (trim (apw_proximity_state (ar_power r))) ''CLOSE'' \<and>
     apw_proximity_hold_duration_ms (ar_power r) = Some (ar_requested_duration_ms r) \<and>
     some_and (\<lambda>remaining. remaining > 0) (apw_proximity_hold_remaining_ms (ar_power r))"

definition expected_wake :: "awake_receipt \<Rightarrow> bool" where
  "expected_wake r \<longleftrightarrow>
     eq_ignore_ascii_case (apw_wakefulness (ar_power r)) ''Awake'' \<and>
     (eq_ignore_ascii_case (apw_display_state (ar_power r)) ''ON'' \<or>
      eq_ignore_ascii_case (apw_display_state (ar_power r)) ''ON_SUSPEND'')"

definition watchdog_poll_window_ms :: "awake_receipt \<Rightarrow> i64" where
  "watchdog_poll_window_ms r = max (min i64_max (int (ar_requested_watchdog_interval_ms r) * 3)) 15000"

definition expected_device_watchdog :: "awake_receipt \<Rightarrow> bool" where
  "expected_device_watchdog r \<longleftrightarrow>
    (let watchdog = ar_device_watchdog r in
     awd_reported_active watchdog \<and> awd_fresh watchdog \<and>
     awd_generation watchdog = ar_watchdog_generation r \<and>
     awd_interval_ms watchdog = ar_requested_watchdog_interval_ms r \<and>
     awd_last_poll_ms watchdog > 0 \<and>
     awd_last_poll_ms watchdog \<le> i64_wrapping_add (ar_observed_at_ms r) 30000 \<and>
     ar_observed_at_ms r - awd_last_poll_ms watchdog \<le> watchdog_poll_window_ms r)"

definition expected_settings_restored :: "awake_receipt \<Rightarrow> bool" where
  "expected_settings_restored r \<longleftrightarrow>
     \<not> apw_stay_on (ar_power r) \<and> apw_auto_sleep_disabled (ar_power r) \<noteq> Some True \<and>
     \<not> eq_ignore_ascii_case (trim (apw_proximity_state (ar_power r))) ''CLOSE''"

definition expected_settings_left_unchanged :: "awake_receipt \<Rightarrow> bool" where
  "expected_settings_left_unchanged r \<longleftrightarrow> ar_action r \<in> {Awake_Status, StopWatchdogs}"

definition derived_effective :: "awake_receipt \<Rightarrow> bool" where
  "derived_effective r =
    (let watchdog_absent = (\<not> awd_reported_active (ar_device_watchdog r)) in
     case ar_action r of
       Awake_Status \<Rightarrow>
         apw_captured_at_ms (ar_power r) \<ge> 0 \<and> apw_captured_at_ms (ar_power r) \<le> ar_observed_at_ms r \<and>
         ar_observed_at_ms r - apw_captured_at_ms (ar_power r) \<le> 30000
     | ApplyBounded \<Rightarrow>
         ar_stay_on_effective r \<and> ar_proximity_hold_effective r \<and> ar_wake_effective r \<and>
         \<not> ar_windows_watchdog_effective r \<and> watchdog_absent
     | StartWindowsWatchdog \<Rightarrow>
         ar_stay_on_effective r \<and> ar_proximity_hold_effective r \<and> ar_wake_effective r \<and>
         ar_windows_watchdog_effective r \<and> watchdog_absent
     | StartDeviceWatchdog \<Rightarrow>
         ar_stay_on_effective r \<and> ar_proximity_hold_effective r \<and> ar_wake_effective r \<and>
         \<not> ar_windows_watchdog_effective r \<and> ar_device_watchdog_effective r
     | StopWatchdogs \<Rightarrow>
         \<not> ar_windows_watchdog_effective r \<and> watchdog_absent \<and> ar_settings_left_unchanged r
     | RestoreNormal \<Rightarrow>
         \<not> ar_windows_watchdog_effective r \<and> watchdog_absent \<and> ar_settings_restored r)"

definition validate_awake_receipt :: "awake_receipt \<Rightarrow> validation" where
  "validate_awake_receipt r = finish (
     fail_if (ar_schema r \<noteq> awake_receipt_schema \<or> ar_identity_revision r = 0)
       ''invalid_receipt_header'' ''receipt''
       ''Quest awake owner receipt schema or identity revision is invalid'' @
     identifier_failures ''receipt identifiers must be bounded and portable''
       [(''request_id'', ar_request_id r), (''operation_id'', ar_operation_id r),
        (''preview_id'', ar_preview_id r), (''device_id'', ar_device_id r),
        (''watchdog_generation'', ar_watchdog_generation r)] @
     awake_policy_failures (ar_requested_duration_ms r) (ar_requested_watchdog_interval_ms r) @
     fail_if (\<not> is_lower_sha256 (ar_evidence_sha256 r))
       ''invalid_evidence_digest'' ''evidence_sha256''
       ''receipt evidence digest must be lowercase SHA-256'' @
     readback_failures r @
     fail_if (ar_stay_on_effective r \<noteq> apw_stay_on (ar_power r) \<or>
              ar_proximity_hold_effective r \<noteq> expected_proximity_hold r \<or>
              ar_wake_effective r \<noteq> expected_wake r \<or>
              ar_device_watchdog_effective r \<noteq> expected_device_watchdog r \<or>
              ar_settings_restored r \<noteq> expected_settings_restored r \<or>
              ar_settings_left_unchanged r \<noteq> expected_settings_left_unchanged r)
       ''readback_summary_mismatch'' ''receipt''
       ''summary effects must be derived from the included independent readbacks'' @
     fail_if (ar_effective r \<noteq> derived_effective r)
       ''receipt_effect_mismatch'' ''effective''
       ''effective state must match the independent power, watchdog, and restore readbacks'')"

section \<open>The operation ledger\<close>

record awake_target =
  at_device_id :: string
  at_identity_revision :: u64
  at_preflight :: awake_preflight
  at_lifecycle :: command_lifecycle
  at_invocation :: "awake_invocation option"
  at_receipt :: "awake_receipt option"
  at_failure_code :: "string option"
  at_updated_at_ms :: i64

record awake_operation =
  aop_schema :: string
  aop_operation_id :: string
  aop_action_id :: string
  aop_lifecycle :: command_lifecycle
  aop_preview :: awake_preview
  aop_confirmed_at_ms :: "i64 option"
  aop_targets :: "awake_target list"
  aop_updated_at_ms :: i64

definition awake_invocation_mismatch :: "awake_operation \<Rightarrow> awake_target \<Rightarrow> awake_invocation \<Rightarrow> bool" where
  "awake_invocation_mismatch op t i \<longleftrightarrow>
     \<not> valid (validate_awake_invocation i) \<or> ai_operation_id i \<noteq> aop_operation_id op \<or>
     ai_preview_id i \<noteq> av_preview_id (aop_preview op) \<or> ai_device_id i \<noteq> at_device_id t \<or>
     ai_identity_revision i \<noteq> at_identity_revision t \<or> ai_action i \<noteq> av_action (aop_preview op) \<or>
     av_action (aop_preview op) \<notin> {StopWatchdogs, RestoreNormal} \<and>
       ai_watchdog_generation i \<noteq> av_watchdog_generation (aop_preview op) \<or>
     ai_duration_ms i \<noteq> av_duration_ms (aop_preview op) \<or>
     ai_watchdog_interval_ms i \<noteq> av_watchdog_interval_ms (aop_preview op)"

definition awake_receipt_mismatch :: "awake_operation \<Rightarrow> awake_target \<Rightarrow> awake_receipt \<Rightarrow> bool" where
  "awake_receipt_mismatch op t r \<longleftrightarrow>
     \<not> valid (validate_awake_receipt r) \<or> ar_operation_id r \<noteq> aop_operation_id op \<or>
     ar_preview_id r \<noteq> av_preview_id (aop_preview op) \<or> ar_device_id r \<noteq> at_device_id t \<or>
     ar_identity_revision r \<noteq> at_identity_revision t \<or> ar_action r \<noteq> av_action (aop_preview op) \<or>
     none_or (\<lambda>i. ar_watchdog_generation r \<noteq> ai_watchdog_generation i) (at_invocation t) \<or>
     ar_requested_duration_ms r \<noteq> av_duration_ms (aop_preview op) \<or>
     ar_requested_watchdog_interval_ms r \<noteq> av_watchdog_interval_ms (aop_preview op) \<or>
     none_or (\<lambda>i. ai_request_id i \<noteq> ar_request_id r) (at_invocation t)"

definition awake_bound_target_failures ::
  "awake_operation \<Rightarrow> awake_preflight \<Rightarrow> awake_target \<Rightarrow> failures" where
  "awake_bound_target_failures op preflight t =
     fail_if (at_identity_revision t \<noteq> af_identity_revision preflight \<or> at_preflight t \<noteq> preflight \<or>
              at_updated_at_ms t < av_created_at_ms (aop_preview op))
       ''target_binding_mismatch'' ''targets'' ''operation target differs from the frozen preview'' @
     fail_if (some_and (awake_invocation_mismatch op t) (at_invocation t))
       ''invocation_binding_mismatch'' ''targets.invocation''
       ''owner invocation differs from the frozen operation'' @
     fail_if (some_and (awake_receipt_mismatch op t) (at_receipt t))
       ''receipt_binding_mismatch'' ''targets.receipt''
       ''owner receipt differs from the exact invocation'' @
     fail_if (at_lifecycle t = Applied \<and>
              none_or (\<lambda>r. \<not> ar_effective r \<or> \<not> valid (validate_awake_receipt r)) (at_receipt t))
       ''applied_without_effective_receipt'' ''targets.lifecycle''
       ''an applied Quest awake target requires its exact effective owner receipt''"

definition awake_operation_target_failures :: "awake_operation \<Rightarrow> awake_target \<Rightarrow> failures" where
  "awake_operation_target_failures op t =
     (case find (\<lambda>candidate. af_device_id candidate = at_device_id t) (av_targets (aop_preview op)) of
        None \<Rightarrow> [violation ''unknown_target'' ''targets''
          ''operation ledger target is absent from the preview'']
      | Some preflight \<Rightarrow> awake_bound_target_failures op preflight t)"

definition awake_operation_head_failures :: "awake_operation \<Rightarrow> failures" where
  "awake_operation_head_failures op =
     fail_if (aop_schema op \<noteq> awake_operation_schema \<or>
              aop_operation_id op \<noteq> av_operation_id (aop_preview op) \<or>
              aop_action_id op \<noteq> awake_action_id \<or>
              aop_updated_at_ms op < av_created_at_ms (aop_preview op))
       ''invalid_operation_header'' ''operation''
       ''Quest awake operation identity, action, or time is invalid'' @
     nested (validate_awake_preview (aop_preview op)) @
     fail_if (length (aop_targets op) \<noteq> length (av_targets (aop_preview op)))
       ''target_count_mismatch'' ''targets''
       ''operation ledger must retain every preview target''"

definition validate_awake_operation :: "awake_operation \<Rightarrow> validation" where
  "validate_awake_operation op = finish (
     awake_operation_head_failures op @
     for_in (awake_operation_target_failures op) (aop_targets op))"

end
