(* ===== verification/Wifi_Adb_Contract.thy ===== *)
theory Wifi_Adb_Contract
  imports Owner_Contract Command
begin

text \<open>
  crates/fleet-contracts/src/wifi_adb.rs: the contracts of \<^verbatim>\<open>quest.wifi-adb-control\<close>. Requests, the
  pinned owner binding, the preflight and the immutable preview, the owner's invocation and receipt
  with the effect each action must show, the Termux shell proof with Fleet's admission of it, and
  the operation ledger. The parameter \<open>sha\<close> is the hexadecimal SHA-256 of a byte string (crates
  \<^verbatim>\<open>sha2\<close> and \<^verbatim>\<open>hex\<close>).
\<close>

section \<open>Constants and actions\<close>

definition wifi_action_id :: string where
  "wifi_action_id = ''quest.wifi-adb-control''"

definition wifi_capability_id :: string where
  "wifi_capability_id = ''questionable-file-manager.quest-wifi-adb-provider''"

definition wifi_owner :: string where
  "wifi_owner = ''questionable-file-manager''"

definition wifi_provider_contract :: string where
  "wifi_provider_contract = ''questionable.file_manager.fleet_connectivity_provider.v1''"

definition wifi_receipt_schema :: string where
  "wifi_receipt_schema = ''questionable.file_manager.quest_wifi_adb_receipt.v1''"

definition wifi_preview_request_schema :: string where
  "wifi_preview_request_schema = ''rusty.fleet.quest_wifi_adb_preview_request.v1''"

definition wifi_execute_request_schema :: string where
  "wifi_execute_request_schema = ''rusty.fleet.quest_wifi_adb_execute_request.v1''"

definition wifi_operation_schema :: string where
  "wifi_operation_schema = ''rusty.fleet.quest_wifi_adb_operation.v1''"

definition termux_proof_schema :: string where
  "termux_proof_schema = ''rusty.fleet.quest_wifi_adb_termux_proof.v1''"

definition termux_proof_owner :: string where
  "termux_proof_owner = ''quest-termux-lab''"

definition termux_shell_identity :: string where
  "termux_shell_identity = ''uid=2000(shell)''"

definition termux_admission_schema :: string where
  "termux_admission_schema = ''rusty.fleet.quest_wifi_adb_termux_admission.v1''"

datatype wifi_action =
  Wifi_Status | RequestWirelessAdb | EnableRequestAfterBoot | DisableRequestAfterBoot
| DisableWirelessAdb | EnableClassicTcpipFromUsb

fun wifi_provider_action :: "wifi_action \<Rightarrow> string" where
  "wifi_provider_action Wifi_Status = ''status''"
| "wifi_provider_action RequestWirelessAdb = ''request_wireless_adb''"
| "wifi_provider_action EnableRequestAfterBoot = ''enable_request_after_boot''"
| "wifi_provider_action DisableRequestAfterBoot = ''disable_request_after_boot''"
| "wifi_provider_action DisableWirelessAdb = ''disable_wireless_adb''"
| "wifi_provider_action EnableClassicTcpipFromUsb = ''enable_classic_tcpip_from_usb''"

definition is_classic :: "wifi_action \<Rightarrow> bool" where
  "is_classic a \<longleftrightarrow> a = EnableClassicTcpipFromUsb"

datatype wifi_route_mode = Route_None | ModernTls | ClassicTcpip

datatype wearer_approval =
  Approval_NotApplicable | Approval_Pending | Approval_Accepted | Approval_Rejected | Approval_Unknown

section \<open>Requests and owner binding\<close>

record wifi_preview_request =
  wpr_schema :: string
  wpr_action_id :: string
  wpr_action :: wifi_action
  wpr_targets :: "(string, u64) btree_map"

definition validate_wifi_preview_request :: "wifi_preview_request \<Rightarrow> validation" where
  "validate_wifi_preview_request r = finish (
     fail_if (wpr_schema r \<noteq> wifi_preview_request_schema)
       ''wrong_schema'' ''schema'' ''expected rusty.fleet.quest_wifi_adb_preview_request.v1'' @
     fail_if (wpr_action_id r \<noteq> wifi_action_id)
       ''wrong_action'' ''action_id'' ''expected quest.wifi-adb-control'' @
     exact_target_failures ''request must contain 1 through 10,000 exact targets''
       ''target IDs must be bounded portable identifiers with positive revisions'' (wpr_targets r))"

record wifi_execute_request =
  wxr_schema :: string
  wxr_operation_id :: string
  wxr_preview_id :: string

definition validate_wifi_execute_request :: "wifi_execute_request \<Rightarrow> validation" where
  "validate_wifi_execute_request r = finish (
     fail_if (wxr_schema r \<noteq> wifi_execute_request_schema)
       ''wrong_schema'' ''schema'' ''expected rusty.fleet.quest_wifi_adb_execute_request.v1'' @
     identifier_failures ''operation and preview IDs must be bounded portable identifiers''
       [(''operation_id'', wxr_operation_id r), (''preview_id'', wxr_preview_id r)])"

record wifi_owner_binding =
  wo_owner_repo_id :: string
  wo_capability_id :: string
  wo_provider_contract :: string
  wo_receipt_schema :: string
  wo_transport :: string
  wo_private_target_resolution :: string

definition wifi_file_manager_v1 :: wifi_owner_binding where
  "wifi_file_manager_v1 = \<lparr>
     wo_owner_repo_id = wifi_owner,
     wo_capability_id = wifi_capability_id,
     wo_provider_contract = wifi_provider_contract,
     wo_receipt_schema = wifi_receipt_schema,
     wo_transport = ''pinned_local_subprocess'',
     wo_private_target_resolution = ''provider_owned_credential_profile''\<rparr>"

definition validate_wifi_owner :: "wifi_owner_binding \<Rightarrow> validation" where
  "validate_wifi_owner owner =
     (if owner = wifi_file_manager_v1 then Inr ()
      else Inl [violation ''owner_contract_mismatch'' ''owner''
        ''Quest Wi-Fi ADB owner differs from the pinned File Manager provider''])"

section \<open>Preflight and preview\<close>

record wifi_preflight =
  wf_device_id :: string
  wf_identity_revision :: u64
  wf_capability_id :: string
  wf_capability_evidence_revision :: u64
  wf_capability_owner :: string
  wf_support :: support_state
  wf_enablement :: enablement_state
  wf_authorization :: authorization_state
  wf_reachability :: reachability_state
  wf_freshness :: freshness_state
  wf_observed_at_ms :: i64
  wf_fresh_until_ms :: i64
  wf_evaluated_at_ms :: i64
  wf_eligible :: bool
  wf_reason_code :: string
  wf_message :: string

definition wifi_expected_reason_code :: "wifi_preflight \<Rightarrow> string" where
  "wifi_expected_reason_code p = readiness_reason (wf_support p) (wf_enablement p)
     (wf_authorization p) (wf_reachability p) (wf_freshness p) (wf_evaluated_at_ms p) (wf_fresh_until_ms p)"

definition wifi_expected_eligibility :: "wifi_preflight \<Rightarrow> bool" where
  "wifi_expected_eligibility p \<longleftrightarrow> wifi_expected_reason_code p = ''ready''"

definition validate_wifi_preflight :: "wifi_preflight \<Rightarrow> validation" where
  "validate_wifi_preflight p = finish (
     require_nonempty (wf_device_id p) ''device_id'' @
     require_nonempty (wf_message p) ''message'' @
     fail_if (wf_identity_revision p = 0 \<or> wf_capability_evidence_revision p = 0)
       ''invalid_revision'' ''identity_revision''
       ''identity and capability revisions must be positive'' @
     fail_if (wf_capability_id p \<noteq> wifi_capability_id \<or> wf_capability_owner p \<noteq> wifi_owner)
       ''wrong_capability_owner'' ''capability_id''
       ''Quest Wi-Fi ADB preflight must use File Manager capability evidence'' @
     fail_if (wf_fresh_until_ms p < wf_observed_at_ms p \<or> wf_evaluated_at_ms p < wf_observed_at_ms p)
       ''invalid_preflight_window'' ''evaluated_at_ms'' ''preflight timestamps are not coherent'' @
     fail_if (wf_eligible p \<noteq> wifi_expected_eligibility p \<or>
              wf_reason_code p \<noteq> wifi_expected_reason_code p)
       ''preflight_result_mismatch'' ''eligible''
       ''eligibility and reason must match the frozen capability facts'')"

record wifi_preview =
  wv_schema :: string
  wv_preview_id :: string
  wv_operation_id :: string
  wv_action_id :: string
  wv_action :: wifi_action
  wv_created_at_ms :: i64
  wv_expires_at_ms :: i64
  wv_fleet_revision :: u64
  wv_owner :: wifi_owner_binding
  wv_targets :: "wifi_preflight list"

text \<open>
  The loop over the preview's targets inserts each device ID into a set, so a target is a duplicate
  when its ID occurs before it.
\<close>

definition wifi_preview_target_failures ::
  "wifi_preview \<Rightarrow> nat \<Rightarrow> wifi_preflight \<Rightarrow> failures" where
  "wifi_preview_target_failures v index target =
     fail_if (wf_device_id target \<in> set (map wf_device_id (take index (wv_targets v))))
       ''duplicate_target'' ''targets'' ''preview targets must be unique'' @
     nested (validate_wifi_preflight target) @
     fail_if (wf_evaluated_at_ms target \<noteq> wv_created_at_ms v)
       ''preflight_time_mismatch'' ''targets.evaluated_at_ms''
       ''target preflight must bind the preview time''"

definition validate_wifi_preview :: "wifi_preview \<Rightarrow> validation" where
  "validate_wifi_preview v = finish (
     fail_if (wv_schema v \<noteq> ''rusty.fleet.quest_wifi_adb_preview.v1'' \<or>
              \<not> is_portable_id (wv_preview_id v) 256 \<or> \<not> is_portable_id (wv_operation_id v) 256 \<or>
              wv_action_id v \<noteq> wifi_action_id \<or> wv_created_at_ms v < 0 \<or>
              wv_expires_at_ms v \<le> wv_created_at_ms v \<or> wv_fleet_revision v = 0)
       ''invalid_preview_header'' ''preview''
       ''Quest Wi-Fi ADB preview identity, time, or revision is invalid'' @
     nested (validate_wifi_owner (wv_owner v)) @
     fail_if (wv_targets v = [] \<or> length (wv_targets v) > 10000)
       ''invalid_target_count'' ''targets'' ''preview must contain 1 through 10,000 targets'' @
     for_each (wifi_preview_target_failures v) (wv_targets v))"

section \<open>Invocation and receipt\<close>

record wifi_invocation =
  wi_schema :: string
  wi_request_id :: string
  wi_operation_id :: string
  wi_preview_id :: string
  wi_device_id :: string
  wi_identity_revision :: u64
  wi_action :: wifi_action
  wi_issued_at_ms :: i64
  wi_expires_at_ms :: i64

definition validate_wifi_invocation :: "wifi_invocation \<Rightarrow> validation" where
  "validate_wifi_invocation i = finish (
     fail_if (wi_schema i \<noteq> ''rusty.fleet.quest_wifi_adb_owner_invocation.v1'' \<or>
              wi_identity_revision i = 0 \<or> wi_issued_at_ms i < 0 \<or>
              wi_expires_at_ms i \<le> wi_issued_at_ms i)
       ''invalid_invocation_header'' ''invocation'' ''Quest Wi-Fi ADB invocation header is invalid'' @
     identifier_failures ''invocation identifiers must be bounded and portable''
       [(''request_id'', wi_request_id i), (''operation_id'', wi_operation_id i),
        (''preview_id'', wi_preview_id i), (''device_id'', wi_device_id i)])"

record wifi_receipt =
  wr_schema :: string
  wr_request_id :: string
  wr_operation_id :: string
  wr_preview_id :: string
  wr_device_id :: string
  wr_identity_revision :: u64
  wr_action :: wifi_action
  wr_route_mode :: wifi_route_mode
  wr_request_delivered :: bool
  wr_kiosk_setting_applied :: bool
  wr_request_after_boot_enabled :: "bool option"
  wr_wearer_approval :: wearer_approval
  wr_listener_discovered :: bool
  wr_effect_applied :: bool
  wr_outcome :: string
  wr_evidence_sha256 :: string
  wr_observed_at_ms :: i64

definition derived_effect_applied :: "wifi_receipt \<Rightarrow> bool" where
  "derived_effect_applied r = (case wr_action r of
     Wifi_Status \<Rightarrow> wr_request_delivered r
   | RequestWirelessAdb \<Rightarrow>
       wr_request_delivered r \<and> wr_kiosk_setting_applied r \<and>
       wr_wearer_approval r \<in> {Approval_Pending, Approval_Accepted}
   | EnableRequestAfterBoot \<Rightarrow>
       wr_request_delivered r \<and> wr_kiosk_setting_applied r \<and>
       wr_request_after_boot_enabled r = Some True
   | DisableRequestAfterBoot \<Rightarrow>
       wr_request_delivered r \<and> wr_kiosk_setting_applied r \<and>
       wr_request_after_boot_enabled r = Some False
   | DisableWirelessAdb \<Rightarrow> wr_request_delivered r \<and> wr_kiosk_setting_applied r
   | EnableClassicTcpipFromUsb \<Rightarrow>
       wr_request_delivered r \<and> \<not> wr_kiosk_setting_applied r \<and>
       wr_route_mode r = ClassicTcpip \<and> wr_listener_discovered r)"

definition wifi_route_failures :: "wifi_receipt \<Rightarrow> failures" where
  "wifi_route_failures r =
     (if is_classic (wr_action r)
      then fail_if (wr_route_mode r \<noteq> ClassicTcpip \<or> wr_kiosk_setting_applied r \<or>
                    wr_request_after_boot_enabled r \<noteq> None \<or>
                    wr_wearer_approval r \<noteq> Approval_NotApplicable)
             ''classic_route_conflated'' ''route_mode''
             ''classic USB tcpip must remain independent of Kiosk and modern TLS facts''
      else fail_if (wr_route_mode r = ClassicTcpip)
             ''modern_route_conflated'' ''route_mode''
             ''modern Kiosk request actions cannot claim the classic USB tcpip route'') @
     fail_if (wr_action r = RequestWirelessAdb \<and> wr_route_mode r \<noteq> ModernTls)
       ''request_route_invalid'' ''route_mode''
       ''wireless debugging requests use the modern TLS route''"

definition validate_wifi_receipt :: "wifi_receipt \<Rightarrow> validation" where
  "validate_wifi_receipt r = finish (
     fail_if (wr_schema r \<noteq> wifi_receipt_schema \<or> wr_identity_revision r = 0 \<or> wr_observed_at_ms r < 0)
       ''invalid_receipt_header'' ''receipt'' ''Quest Wi-Fi ADB receipt header is invalid'' @
     identifier_failures ''receipt identifiers must be bounded and portable''
       [(''request_id'', wr_request_id r), (''operation_id'', wr_operation_id r),
        (''preview_id'', wr_preview_id r), (''device_id'', wr_device_id r)] @
     fail_if (\<not> is_lower_sha256 (wr_evidence_sha256 r) \<or> wr_outcome r = [] \<or> length (wr_outcome r) > 256)
       ''invalid_receipt_evidence'' ''receipt''
       ''receipt outcome and evidence digest must be bounded and valid'' @
     wifi_route_failures r @
     fail_if (wr_wearer_approval r = Approval_Accepted)
       ''wearer_approval_not_observable'' ''wearer_approval''
       ''File Manager and Kiosk setting readback cannot assert wearer acceptance'' @
     fail_if (wr_effect_applied r \<noteq> derived_effect_applied r)
       ''effect_summary_mismatch'' ''effect_applied''
       ''effect summary contradicts the independent action facts'')"

section \<open>Termux proof and admission\<close>

record termux_proof =
  tp_schema :: string
  tp_proof_id :: string
  tp_owner_id :: string
  tp_device_id :: string
  tp_identity_revision :: u64
  tp_source_epoch :: string
  tp_source_revision :: u64
  tp_evidence_revision :: u64
  tp_route_mode :: wifi_route_mode
  tp_discovery_mode :: string
  tp_listener_discovered :: bool
  tp_shell_identity :: "string option"
  tp_available :: bool
  tp_evidence_sha256 :: string
  tp_observed_at_ms :: i64
  tp_fresh_until_ms :: i64

definition validate_termux_proof :: "termux_proof \<Rightarrow> validation" where
  "validate_termux_proof p = finish (
     fail_if (tp_schema p \<noteq> termux_proof_schema \<or> tp_owner_id p \<noteq> termux_proof_owner \<or>
              tp_identity_revision p = 0 \<or> tp_source_revision p = 0 \<or> tp_evidence_revision p = 0 \<or>
              tp_observed_at_ms p < 0 \<or> tp_fresh_until_ms p \<le> tp_observed_at_ms p \<or>
              tp_fresh_until_ms p - tp_observed_at_ms p > 60000 \<or>
              \<not> is_lower_sha256 (tp_evidence_sha256 p) \<or> \<not> is_portable_id (tp_source_epoch p) 256 \<or>
              tp_route_mode p \<noteq> ModernTls \<or> tp_discovery_mode p \<notin> {''tls_nsd'', ''tls_mdns''} \<or>
              tp_available p \<noteq>
                (tp_listener_discovered p \<and> tp_shell_identity p = Some termux_shell_identity) \<or>
              \<not> tp_available p \<and> (tp_listener_discovered p \<or> tp_shell_identity p \<noteq> None))
       ''invalid_termux_proof'' ''proof''
       ''proof must bind a discovered route and exact uid=2000(shell) identity'' @
     identifier_failures ''proof identifiers must be bounded and portable''
       [(''proof_id'', tp_proof_id p), (''device_id'', tp_device_id p)])"

record termux_admission =
  ta_schema :: string
  ta_checkin_id :: string
  ta_operation_id :: string
  ta_device_id :: string
  ta_identity_revision :: u64
  ta_source_epoch :: string
  ta_source_revision :: u64
  ta_evidence_revision :: u64
  ta_proof_id :: string
  ta_receipt_request_id :: string
  ta_receipt_evidence_sha256 :: string
  ta_key_id :: string
  ta_key_generation :: u64
  ta_public_key_sha256 :: string
  ta_claims_jcs_sha256 :: string
  ta_signing_message_sha256 :: string
  ta_signature_sha256 :: string
  ta_fleet_accepted_revision :: u64
  ta_enrollment_authority_revision :: u64
  ta_manifold_authority_revision :: u64
  ta_signature_verified :: bool
  ta_canonical_claims_verified :: bool
  ta_enrollment_active :: bool
  ta_accepted_at_ms :: i64
  ta_expires_at_ms :: i64
  ta_lineage_sha256 :: string

definition lineage_texts :: "termux_admission \<Rightarrow> string list" where
  "lineage_texts a =
     [ta_checkin_id a, ta_operation_id a, ta_device_id a, ta_source_epoch a, ta_proof_id a,
      ta_receipt_request_id a, ta_receipt_evidence_sha256 a, ta_key_id a, ta_public_key_sha256 a,
      ta_claims_jcs_sha256 a, ta_signing_message_sha256 a, ta_signature_sha256 a]"

definition lineage_revisions :: "termux_admission \<Rightarrow> u64 list" where
  "lineage_revisions a =
     [ta_identity_revision a, ta_source_revision a, ta_evidence_revision a, ta_key_generation a,
      ta_fleet_accepted_revision a, ta_enrollment_authority_revision a, ta_manifold_authority_revision a]"

definition lineage_message :: "termux_admission \<Rightarrow> string" where
  "lineage_message a =
     ''rusty.fleet.quest-wifi-adb.termux-admission-lineage.v1'' @ [char_of (0 :: nat)] @
     concat (map (\<lambda>text. text @ [char_of (0 :: nat)]) (lineage_texts a)) @
     concat (map u64_to_le_bytes (lineage_revisions a)) @
     i64_to_le_bytes (ta_accepted_at_ms a) @ i64_to_le_bytes (ta_expires_at_ms a)"

definition expected_lineage_sha256 :: "(string \<Rightarrow> string) \<Rightarrow> termux_admission \<Rightarrow> string" where
  "expected_lineage_sha256 sha a = sha (lineage_message a)"

definition validate_termux_admission :: "(string \<Rightarrow> string) \<Rightarrow> termux_admission \<Rightarrow> validation" where
  "validate_termux_admission sha a = finish (
     fail_if (ta_schema a \<noteq> termux_admission_schema \<or> ta_identity_revision a = 0 \<or>
              ta_source_revision a = 0 \<or> ta_evidence_revision a = 0 \<or> ta_key_generation a = 0 \<or>
              ta_fleet_accepted_revision a = 0 \<or> ta_enrollment_authority_revision a = 0 \<or>
              ta_manifold_authority_revision a = 0 \<or> \<not> ta_signature_verified a \<or>
              \<not> ta_canonical_claims_verified a \<or> \<not> ta_enrollment_active a \<or>
              ta_accepted_at_ms a < 0 \<or> ta_expires_at_ms a \<le> ta_accepted_at_ms a \<or>
              ta_expires_at_ms a - ta_accepted_at_ms a > 300000 \<or>
              ta_lineage_sha256 a \<noteq> expected_lineage_sha256 sha a)
       ''invalid_termux_admission'' ''termux_admission''
       ''Fleet admission must retain exact signed, enrolled, canonical lineage'' @
     identifier_failures ''admission identifiers must be bounded and portable''
       [(''checkin_id'', ta_checkin_id a), (''operation_id'', ta_operation_id a),
        (''device_id'', ta_device_id a), (''source_epoch'', ta_source_epoch a),
        (''proof_id'', ta_proof_id a), (''receipt_request_id'', ta_receipt_request_id a),
        (''key_id'', ta_key_id a)] @
     for_in (\<lambda>(path, digest).
       fail_if (\<not> is_lower_sha256 digest) ''invalid_sha256'' path
         ''admission digests must be lowercase SHA-256'')
       [(''receipt_evidence_sha256'', ta_receipt_evidence_sha256 a),
        (''public_key_sha256'', ta_public_key_sha256 a),
        (''claims_jcs_sha256'', ta_claims_jcs_sha256 a),
        (''signing_message_sha256'', ta_signing_message_sha256 a),
        (''signature_sha256'', ta_signature_sha256 a),
        (''lineage_sha256'', ta_lineage_sha256 a)])"

section \<open>The operation ledger\<close>

record wifi_target =
  wt_device_id :: string
  wt_identity_revision :: u64
  wt_preflight :: wifi_preflight
  wt_lifecycle :: command_lifecycle
  wt_invocation :: "wifi_invocation option"
  wt_receipt :: "wifi_receipt option"
  wt_termux_proof :: "termux_proof option"
  wt_termux_admission :: "termux_admission option"
  wt_termux_usable :: bool
  wt_failure_code :: "string option"
  wt_updated_at_ms :: i64

record wifi_operation =
  wop_schema :: string
  wop_operation_id :: string
  wop_action_id :: string
  wop_lifecycle :: command_lifecycle
  wop_preview :: wifi_preview
  wop_confirmed_at_ms :: "i64 option"
  wop_targets :: "wifi_target list"
  wop_updated_at_ms :: i64

definition wifi_invocation_mismatch :: "wifi_operation \<Rightarrow> wifi_target \<Rightarrow> wifi_invocation \<Rightarrow> bool" where
  "wifi_invocation_mismatch op t i \<longleftrightarrow>
     \<not> valid (validate_wifi_invocation i) \<or> wi_operation_id i \<noteq> wop_operation_id op \<or>
     wi_preview_id i \<noteq> wv_preview_id (wop_preview op) \<or> wi_device_id i \<noteq> wt_device_id t \<or>
     wi_identity_revision i \<noteq> wt_identity_revision t \<or> wi_action i \<noteq> wv_action (wop_preview op)"

definition wifi_receipt_mismatch :: "wifi_operation \<Rightarrow> wifi_target \<Rightarrow> wifi_receipt \<Rightarrow> bool" where
  "wifi_receipt_mismatch op t r \<longleftrightarrow>
     \<not> valid (validate_wifi_receipt r) \<or> wr_operation_id r \<noteq> wop_operation_id op \<or>
     wr_preview_id r \<noteq> wv_preview_id (wop_preview op) \<or> wr_device_id r \<noteq> wt_device_id t \<or>
     wr_identity_revision r \<noteq> wt_identity_revision t \<or> wr_action r \<noteq> wv_action (wop_preview op) \<or>
     none_or (\<lambda>i. wi_request_id i \<noteq> wr_request_id r) (wt_invocation t)"

definition termux_proof_mismatch :: "wifi_target \<Rightarrow> termux_proof \<Rightarrow> bool" where
  "termux_proof_mismatch t p \<longleftrightarrow>
     \<not> valid (validate_termux_proof p) \<or> tp_device_id p \<noteq> wt_device_id t \<or>
     tp_identity_revision p \<noteq> wt_identity_revision t \<or>
     none_or (\<lambda>r. wr_route_mode r \<noteq> tp_route_mode p) (wt_receipt t)"

definition termux_admission_mismatch ::
  "(string \<Rightarrow> string) \<Rightarrow> wifi_operation \<Rightarrow> wifi_target \<Rightarrow> termux_admission \<Rightarrow> bool" where
  "termux_admission_mismatch sha op t a \<longleftrightarrow>
     \<not> valid (validate_termux_admission sha a) \<or> ta_operation_id a \<noteq> wop_operation_id op \<or>
     ta_device_id a \<noteq> wt_device_id t \<or> ta_identity_revision a \<noteq> wt_identity_revision t \<or>
     none_or (\<lambda>p. ta_proof_id a \<noteq> tp_proof_id p \<or> ta_source_epoch a \<noteq> tp_source_epoch p \<or>
         ta_source_revision a \<noteq> tp_source_revision p \<or> ta_evidence_revision a \<noteq> tp_evidence_revision p)
       (wt_termux_proof t) \<or>
     none_or (\<lambda>r. ta_receipt_request_id a \<noteq> wr_request_id r \<or>
         ta_receipt_evidence_sha256 a \<noteq> wr_evidence_sha256 r) (wt_receipt t)"

definition wifi_bound_target_failures ::
  "(string \<Rightarrow> string) \<Rightarrow> wifi_operation \<Rightarrow> wifi_preflight \<Rightarrow> wifi_target \<Rightarrow> failures" where
  "wifi_bound_target_failures sha op preflight t =
     fail_if (wt_identity_revision t \<noteq> wf_identity_revision preflight \<or> wt_preflight t \<noteq> preflight \<or>
              wt_updated_at_ms t < wv_created_at_ms (wop_preview op))
       ''target_binding_mismatch'' ''targets'' ''operation target differs from the frozen preview'' @
     fail_if (some_and (wifi_invocation_mismatch op t) (wt_invocation t))
       ''invocation_binding_mismatch'' ''targets.invocation''
       ''owner invocation differs from the frozen operation'' @
     fail_if (some_and (wifi_receipt_mismatch op t) (wt_receipt t))
       ''receipt_binding_mismatch'' ''targets.receipt''
       ''owner receipt differs from the exact invocation'' @
     fail_if (wt_lifecycle t = Applied \<and> none_or (\<lambda>r. \<not> wr_effect_applied r) (wt_receipt t))
       ''applied_without_effective_receipt'' ''targets.lifecycle''
       ''an applied target requires its exact effective owner receipt'' @
     fail_if (some_and (termux_proof_mismatch t) (wt_termux_proof t))
       ''termux_proof_binding_mismatch'' ''targets.termux_proof''
       ''Termux proof differs from the exact operation and provider route'' @
     fail_if (some_and (termux_admission_mismatch sha op t) (wt_termux_admission t))
       ''termux_admission_binding_mismatch'' ''targets.termux_admission''
       ''Fleet admission differs from the exact operation, owner receipt, or proof'' @
     fail_if (wt_termux_usable t \<and>
              (\<not> some_and tp_available (wt_termux_proof t) \<or> wt_termux_admission t = None))
       ''termux_usable_without_proof'' ''targets.termux_usable''
       ''only an admitted exact uid=2000(shell) proof makes Termux usable''"

definition wifi_operation_target_failures ::
  "(string \<Rightarrow> string) \<Rightarrow> wifi_operation \<Rightarrow> wifi_target \<Rightarrow> failures" where
  "wifi_operation_target_failures sha op t =
     (case find (\<lambda>candidate. wf_device_id candidate = wt_device_id t) (wv_targets (wop_preview op)) of
        None \<Rightarrow> [violation ''unknown_target'' ''targets''
          ''ledger target is absent from the immutable preview'']
      | Some preflight \<Rightarrow> wifi_bound_target_failures sha op preflight t)"

definition wifi_operation_head_failures :: "wifi_operation \<Rightarrow> failures" where
  "wifi_operation_head_failures op =
     fail_if (wop_schema op \<noteq> wifi_operation_schema \<or>
              wop_operation_id op \<noteq> wv_operation_id (wop_preview op) \<or>
              wop_action_id op \<noteq> wifi_action_id \<or>
              wop_updated_at_ms op < wv_created_at_ms (wop_preview op))
       ''invalid_operation_header'' ''operation''
       ''Quest Wi-Fi ADB operation identity, action, or time is invalid'' @
     nested (validate_wifi_preview (wop_preview op)) @
     fail_if (length (wop_targets op) \<noteq> length (wv_targets (wop_preview op)))
       ''target_count_mismatch'' ''targets''
       ''operation ledger must retain every preview target''"

definition validate_wifi_operation :: "(string \<Rightarrow> string) \<Rightarrow> wifi_operation \<Rightarrow> validation" where
  "validate_wifi_operation sha op = finish (
     wifi_operation_head_failures op @
     for_in (wifi_operation_target_failures sha op) (wop_targets op))"

end
