(* ===== verification/Hotspot_Contract.thy ===== *)
theory Hotspot_Contract
  imports Owner_Contract Command
begin

text \<open>
  crates/fleet-contracts/src/windows_hotspot.rs: the contracts of \<^verbatim>\<open>host.windows-mobile-hotspot\<close>.
  One host-wide resource, a lease on it per operation, the provider's request and receipt, and the
  operation that binds them to its immutable preview.
\<close>

section \<open>Constants and enumerations\<close>

definition hotspot_action_id :: string where
  "hotspot_action_id = ''host.windows-mobile-hotspot''"

definition hotspot_resource_id :: string where
  "hotspot_resource_id = ''windows.mobile-hotspot''"

definition hotspot_owner :: string where
  "hotspot_owner = ''rusty-hostess''"

definition hotspot_provider_request_schema :: string where
  "hotspot_provider_request_schema = ''rusty.hostess.windows_hotspot.provider_request.v1''"

definition hotspot_provider_receipt_schema :: string where
  "hotspot_provider_receipt_schema = ''rusty.hostess.windows_hotspot.provider_receipt.v1''"

definition hotspot_preview_request_schema :: string where
  "hotspot_preview_request_schema = ''rusty.fleet.windows_hotspot_preview_request.v1''"

definition hotspot_execute_request_schema :: string where
  "hotspot_execute_request_schema = ''rusty.fleet.windows_hotspot_execute_request.v1''"

definition hotspot_operation_schema :: string where
  "hotspot_operation_schema = ''rusty.fleet.windows_hotspot_operation.v1''"

definition hotspot_lease_schema :: string where
  "hotspot_lease_schema = ''rusty.fleet.host_resource_lease.v1''"

datatype hotspot_action = Hotspot_Status | Hotspot_Start | Hotspot_Ensure | Hotspot_Stop

datatype hotspot_ownership = Ownership_None | Ownership_Fleet | Ownership_External

datatype hotspot_result = Result_Verified | Result_Failed | Result_Rejected | Result_Unavailable

section \<open>Requests\<close>

record hotspot_preview_request =
  hpr_schema :: string
  hpr_action_id :: string
  hpr_action :: hotspot_action

definition validate_hotspot_preview_request :: "hotspot_preview_request \<Rightarrow> validation" where
  "validate_hotspot_preview_request r = finish (
     fail_if (hpr_schema r \<noteq> hotspot_preview_request_schema)
       ''wrong_schema'' ''schema'' ''unsupported schema'' @
     fail_if (hpr_action_id r \<noteq> hotspot_action_id)
       ''wrong_action_id'' ''action_id'' ''unsupported action'')"

record hotspot_execute_request =
  hxr_schema :: string
  hxr_operation_id :: string
  hxr_preview_id :: string

definition validate_hotspot_execute_request :: "hotspot_execute_request \<Rightarrow> validation" where
  "validate_hotspot_execute_request r = finish (
     fail_if (hxr_schema r \<noteq> hotspot_execute_request_schema)
       ''wrong_schema'' ''schema'' ''unsupported schema'' @
     require_nonempty (hxr_operation_id r) ''operation_id'' @
     require_nonempty (hxr_preview_id r) ''preview_id'')"

section \<open>Preview and lease\<close>

record hotspot_preflight =
  hpf_provider_ready :: bool
  hpf_lease_available :: bool
  hpf_active :: bool
  hpf_ownership :: hotspot_ownership
  hpf_ownership_generation :: "string option"
  hpf_eligible :: bool
  hpf_reason_code :: string
  hpf_message :: string

record hotspot_preview =
  hpv_schema :: string
  hpv_preview_id :: string
  hpv_operation_id :: string
  hpv_action_id :: string
  hpv_resource_id :: string
  hpv_owner_id :: string
  hpv_action :: hotspot_action
  hpv_created_at_ms :: i64
  hpv_expires_at_ms :: i64
  hpv_fleet_revision :: u64
  hpv_preflight :: hotspot_preflight

record hotspot_lease =
  hls_schema :: string
  hls_lease_id :: string
  hls_resource_id :: string
  hls_holder_operation_id :: string
  hls_generation :: string
  hls_issued_at_ms :: i64
  hls_expires_at_ms :: i64

section \<open>The provider's request and receipt\<close>

record hotspot_provider_request =
  hrq_schema :: string
  hrq_request_id :: string
  hrq_operation_id :: string
  hrq_action :: hotspot_action
  hrq_expires_at_utc :: string
  hrq_timeout_ms :: u32
  hrq_ownership_generation :: "string option"

definition ends_with_Z :: "string \<Rightarrow> bool" where
  "ends_with_Z s \<longleftrightarrow> s \<noteq> [] \<and> last s = CHR ''Z''"

definition hotspot_generation_failures :: "hotspot_provider_request \<Rightarrow> failures" where
  "hotspot_generation_failures r = (case hrq_action r of
     Hotspot_Stop \<Rightarrow>
       fail_if (none_or (\<lambda>g. g = []) (hrq_ownership_generation r))
         ''generation_binding_invalid'' ''ownership_generation''
         ''stop requires the exact Hostess ownership generation''
   | Hotspot_Ensure \<Rightarrow> []
   | _ \<Rightarrow>
       fail_if (hrq_ownership_generation r \<noteq> None)
         ''generation_binding_invalid'' ''ownership_generation''
         ''status and start cannot supply an ownership generation'')"

definition validate_hotspot_provider_request :: "hotspot_provider_request \<Rightarrow> validation" where
  "validate_hotspot_provider_request r = finish (
     fail_if (hrq_schema r \<noteq> hotspot_provider_request_schema)
       ''wrong_schema'' ''schema'' ''unsupported schema'' @
     for_in (\<lambda>(text, path).
       require_nonempty text path @
       fail_if (length text > 128)
         ''identifier_too_long'' path ''Hostess provider identifiers are bounded to 128 bytes'')
       [(hrq_request_id r, ''request_id''), (hrq_operation_id r, ''operation_id''),
        (hrq_expires_at_utc r, ''expires_at_utc'')] @
     fail_if (\<not> ends_with_Z (hrq_expires_at_utc r) \<or>
              \<not> (100 \<le> hrq_timeout_ms r \<and> hrq_timeout_ms r \<le> 120000))
       ''invalid_deadline'' ''expires_at_utc''
       ''provider deadline must be UTC and timeout must be bounded'' @
     hotspot_generation_failures r)"

record hotspot_receipt =
  hrc_schema :: string
  hrc_request_id :: string
  hrc_operation_id :: string
  hrc_action :: hotspot_action
  hrc_outcome :: hotspot_result
  hrc_reason :: string
  hrc_observed_at_utc :: string
  hrc_capability_available :: bool
  hrc_capability :: string
  hrc_operational_state :: string
  hrc_client_count :: u32
  hrc_max_client_count :: u32
  hrc_band :: string
  hrc_source_connectivity :: string
  hrc_ownership_generation :: "string option"

definition validate_hotspot_receipt :: "hotspot_receipt \<Rightarrow> validation" where
  "validate_hotspot_receipt r = finish (
     fail_if (hrc_schema r \<noteq> hotspot_provider_receipt_schema)
       ''wrong_schema'' ''schema'' ''unsupported schema'' @
     for_in (\<lambda>(text, path). require_nonempty text path)
       [(hrc_request_id r, ''request_id''), (hrc_operation_id r, ''operation_id''),
        (hrc_reason r, ''reason''), (hrc_observed_at_utc r, ''observed_at_utc''),
        (hrc_capability r, ''capability''), (hrc_operational_state r, ''operational_state''),
        (hrc_band r, ''band''), (hrc_source_connectivity r, ''source_connectivity'')] @
     fail_if (length (hrc_request_id r) > 128 \<or> length (hrc_operation_id r) > 128)
       ''identifier_too_long'' ''request_id''
       ''Hostess provider identifiers are bounded to 128 bytes'' @
     fail_if (\<not> ends_with_Z (hrc_observed_at_utc r) \<and>
              \<not> str_contains (hrc_observed_at_utc r) ''+00:00'')
       ''invalid_timestamp'' ''observed_at_utc'' ''provider receipt timestamp must be UTC'' @
     fail_if (hrc_client_count r > hrc_max_client_count r \<and> hrc_max_client_count r \<noteq> 0)
       ''invalid_client_count'' ''client_count''
       ''client count cannot exceed the reported maximum'' @
     fail_if (some_and (\<lambda>g. g = []) (hrc_ownership_generation r))
       ''generation_invalid'' ''ownership_generation''
       ''ownership generation must not be empty'')"

section \<open>The operation\<close>

record hotspot_operation =
  ho_schema :: string
  ho_operation_id :: string
  ho_action_id :: string
  ho_lifecycle :: command_lifecycle
  ho_preview :: hotspot_preview
  ho_confirmed_at_ms :: "i64 option"
  ho_lease :: "hotspot_lease option"
  ho_invocation :: "hotspot_provider_request option"
  ho_receipt :: "hotspot_receipt option"
  ho_failure_code :: "string option"
  ho_updated_at_ms :: i64

definition hotspot_lease_mismatch :: "hotspot_operation \<Rightarrow> hotspot_lease \<Rightarrow> bool" where
  "hotspot_lease_mismatch op l \<longleftrightarrow>
     hls_schema l \<noteq> hotspot_lease_schema \<or> hls_resource_id l \<noteq> hotspot_resource_id \<or>
     hls_holder_operation_id l \<noteq> ho_operation_id op \<or> hls_lease_id l = [] \<or> hls_generation l = [] \<or>
     hls_expires_at_ms l \<le> hls_issued_at_ms l \<or> hls_expires_at_ms l \<noteq> hpv_expires_at_ms (ho_preview op)"

definition hotspot_invocation_failures :: "hotspot_operation \<Rightarrow> failures" where
  "hotspot_invocation_failures op = (case ho_invocation op of
     None \<Rightarrow> []
   | Some i \<Rightarrow>
       nested (validate_hotspot_provider_request i) @
       fail_if (hrq_operation_id i \<noteq> ho_operation_id op \<or> hrq_action i \<noteq> hpv_action (ho_preview op))
         ''invocation_binding_mismatch'' ''invocation''
         ''invocation does not bind operation and action'')"

definition hotspot_receipt_failures :: "hotspot_operation \<Rightarrow> failures" where
  "hotspot_receipt_failures op = (case ho_receipt op of
     None \<Rightarrow> []
   | Some r \<Rightarrow>
       nested (validate_hotspot_receipt r) @
       fail_if (hrc_operation_id r \<noteq> ho_operation_id op \<or> hrc_action r \<noteq> hpv_action (ho_preview op) \<or>
                none_or (\<lambda>i. hrq_request_id i \<noteq> hrc_request_id r) (ho_invocation op))
         ''receipt_binding_mismatch'' ''receipt''
         ''receipt does not bind the exact invocation'')"

definition hotspot_binding_failures :: "hotspot_operation \<Rightarrow> failures" where
  "hotspot_binding_failures op =
     fail_if (ho_schema op \<noteq> hotspot_operation_schema)
       ''wrong_schema'' ''schema'' ''unsupported schema'' @
     fail_if (ho_action_id op \<noteq> hotspot_action_id \<or>
              ho_operation_id op \<noteq> hpv_operation_id (ho_preview op) \<or>
              ho_action_id op \<noteq> hpv_action_id (ho_preview op) \<or>
              hpv_resource_id (ho_preview op) \<noteq> hotspot_resource_id \<or>
              hpv_owner_id (ho_preview op) \<noteq> hotspot_owner)
       ''operation_binding_mismatch'' ''operation_id''
       ''operation does not bind its exact immutable preview'' @
     fail_if (hpv_expires_at_ms (ho_preview op) \<le> hpv_created_at_ms (ho_preview op))
       ''invalid_expiry'' ''preview.expires_at_ms'' ''preview expiry must follow creation'' @
     fail_if (hpv_schema (ho_preview op) \<noteq> ''rusty.fleet.windows_hotspot_preview.v1'' \<or>
              hpv_action_id (ho_preview op) \<noteq> hotspot_action_id \<or>
              hpv_resource_id (ho_preview op) \<noteq> hotspot_resource_id \<or>
              hpv_owner_id (ho_preview op) \<noteq> hotspot_owner \<or>
              hpv_fleet_revision (ho_preview op) = 0)
       ''preview_invalid'' ''preview'' ''preview authority and revision are invalid'' @
     fail_if (some_and (hotspot_lease_mismatch op) (ho_lease op))
       ''lease_binding_mismatch'' ''lease''
       ''host lease does not bind the operation, resource, generation, and preview expiry''"

definition validate_hotspot_operation :: "hotspot_operation \<Rightarrow> validation" where
  "validate_hotspot_operation op = finish (
     hotspot_binding_failures op @
     hotspot_invocation_failures op @
     hotspot_receipt_failures op @
     fail_if (ho_lifecycle op \<in> {Accepted, Dispatched} \<and> ho_confirmed_at_ms op = None)
       ''confirmation_missing'' ''confirmed_at_ms''
       ''accepted and dispatched operations require explicit confirmation'' @
     fail_if (ho_lifecycle op = Dispatched \<and> ho_invocation op = None)
       ''invocation_missing'' ''invocation''
       ''dispatched operation requires an exact provider invocation'')"

end
