(* ===== verification/Hub_State.thy ===== *)
theory Hub_State
  imports Saved_View Kiosk_Contract Catalog_Contract Package_Ledger Awake_Contract Wifi_Adb_Contract Hotspot_Contract
begin

text \<open>
  crates/fleet-hub/src/lib.rs, state part: policy, device records, watch events, the Hub's state
  and the acceptance of observations. The state is an extensible record, so that the stores of
  the remaining operation families can be added to it. \<open>FleetHub::new\<close> panics on a bad policy, which
  is \<open>None\<close> here. The parameters \<open>obs_bytes\<close> and \<open>json_bytes\<close> are the serialised lengths
  \<^verbatim>\<open>serde_json\<close> gives.
\<close>

section \<open>State\<close>

record hub_policy =
  hp_stale_after_ms :: i64
  hp_offline_after_ms :: i64
  hp_history_limit_per_device :: usize
  hp_source_epoch_limit_per_device :: usize
  hp_event_limit :: usize

definition default_policy :: hub_policy where
  "default_policy = \<lparr>
     hp_stale_after_ms = 60000,
     hp_offline_after_ms = 300000,
     hp_history_limit_per_device = 128,
     hp_source_epoch_limit_per_device = 128,
     hp_event_limit = 10000\<rparr>"

datatype rejection_reason =
  ContractInvalid | DuplicateRevision | StaleRevision | IdentityRevisionRollback
| IdentityRevisionChangedWithoutRestart | IdentityConflict | SourceEpochChangedWithoutRestart
| SourceEpochReplay | SourceEpochEvidenceLimitExceeded | ReceiveTimeRegression

datatype observation_decision =
  Decision_Accepted (da_result_revision: u64) (da_device_id: string) (da_source_revision: u64)
| Decision_Rejected (dj_result_revision: u64) (dj_device_id: "string option")
    (dj_source_revision: "u64 option") (dj_reason: rejection_reason) (dj_details: "string list")

record watch_event =
  we_schema :: string
  we_event_sequence :: u64
  we_observed_at_ms :: i64
  we_decision :: observation_decision

record hub_error =
  he_code :: string
  he_message :: string

definition hub_error :: "string \<Rightarrow> string \<Rightarrow> hub_error" where
  "hub_error code message = \<lparr>he_code = code, he_message = message\<rparr>"

record device_record =
  rec_observation :: device_observation
  rec_accepted_at_ms :: i64
  rec_accepted_revision :: u64
  rec_condition_history :: "status_condition list"
  rec_seen_source_epochs :: "string list"

text \<open>\<^verbatim>\<open>WindowsHotspotObservedState\<close> of windows_hotspot.rs.\<close>

record hotspot_observed =
  hob_active :: bool
  hob_ownership :: hotspot_ownership
  hob_generation :: "string option"
  hob_observed_at_ms :: i64

text \<open>\<^verbatim>\<open>KioskCatalogRecord\<close> of kiosk_apps.rs. A \<^verbatim>\<open>BTreeSet\<close> is a map to \<open>unit\<close>.\<close>

record catalog_record =
  ckr_snapshot :: catalog
  ckr_received_at_ms :: i64
  ckr_source_epoch :: string
  ckr_production_admission :: "catalog_binding option"

record hub_state =
  fh_policy :: hub_policy
  fh_devices :: "(string, device_record) btree_map"
  fh_result_revision :: u64
  fh_event_sequence :: u64
  fh_events :: "watch_event list"
  fh_saved_view_revision :: u64
  fh_saved_views :: "(string, saved_view) btree_map"
  fh_kiosk_operations :: "(string, kiosk_operation) btree_map"
  fh_package_operations :: "(string, package_operation) btree_map"
  fh_package_archives :: "(string, package_archive) btree_map"
  fh_awake_operations :: "(string, awake_operation) btree_map"
  fh_wifi_adb_operations :: "(string, wifi_operation) btree_map"
  fh_hotspot_operations :: "(string, hotspot_operation) btree_map"
  fh_hotspot_observation :: "hotspot_observed option"
  fh_kiosk_catalogs :: "(string, catalog_record) btree_map"
  fh_catalog_replays :: "(string, unit) btree_map"
  fh_catalog_associations :: "(string, u64 \<times> string \<times> string) btree_map"

type_synonym devices = "(string, device_record) btree_map"

definition policy_ok :: "hub_policy \<Rightarrow> bool" where
  "policy_ok p \<longleftrightarrow>
     hp_stale_after_ms p > 0 \<and> hp_offline_after_ms p > hp_stale_after_ms p \<and>
     hp_history_limit_per_device p > 0 \<and> hp_source_epoch_limit_per_device p > 0 \<and>
     hp_event_limit p > 0"

definition hub_new :: "hub_policy \<Rightarrow> hub_state option" where
  "hub_new policy = (if policy_ok policy then Some \<lparr>
       fh_policy = policy,
       fh_devices = bt_empty,
       fh_result_revision = 1,
       fh_event_sequence = 0,
       fh_events = [],
       fh_saved_view_revision = 1,
       fh_saved_views = bt_empty,
       fh_kiosk_operations = bt_empty,
       fh_package_operations = bt_empty,
       fh_package_archives = bt_empty,
       fh_awake_operations = bt_empty,
       fh_wifi_adb_operations = bt_empty,
       fh_hotspot_operations = bt_empty,
       fh_hotspot_observation = None,
       fh_kiosk_catalogs = bt_empty,
       fh_catalog_replays = bt_empty,
       fh_catalog_associations = bt_empty\<rparr> else None)"

definition device_count :: "'a hub_state_scheme \<Rightarrow> usize" where
  "device_count h = bt_len (fh_devices h)"

definition device_ids :: "'a hub_state_scheme \<Rightarrow> string list" where
  "device_ids h = bt_keys (fh_devices h)"

definition device_source_lineage :: "'a hub_state_scheme \<Rightarrow> string \<Rightarrow> (string \<times> u64 \<times> u64) option" where
  "device_source_lineage h device_id = map_option (\<lambda>r.
     (do_source_epoch (rec_observation r), do_source_revision (rec_observation r),
      di_identity_revision (do_identity (rec_observation r)))) (bt_get (fh_devices h) device_id)"

section \<open>Events\<close>

definition keep_last :: "nat \<Rightarrow> 'a list \<Rightarrow> 'a list" where
  "keep_last limit xs = (if length xs > limit then drop (length xs - limit) xs else xs)"

definition record_event ::
  "i64 \<Rightarrow> observation_decision \<Rightarrow> 'a hub_state_scheme \<Rightarrow> 'a hub_state_scheme" where
  "record_event observed_at_ms decision h =
    (let sequence = u64_saturating_add (fh_event_sequence h) 1;
         event = \<lparr>we_schema = ''rusty.fleet.watch_event.v1'', we_event_sequence = sequence,
                  we_observed_at_ms = observed_at_ms, we_decision = decision\<rparr>
     in h\<lparr>fh_event_sequence := sequence,
          fh_events := keep_last (hp_event_limit (fh_policy h)) (fh_events h @ [event])\<rparr>)"

definition watch :: "'a hub_state_scheme \<Rightarrow> u64 \<Rightarrow> usize \<Rightarrow> watch_event list" where
  "watch h after_sequence limit =
     take (min limit (hp_event_limit (fh_policy h)))
       (filter (\<lambda>event. we_event_sequence event > after_sequence) (fh_events h))"

section \<open>Accepting an observation\<close>

definition nonempty :: "string \<Rightarrow> string option" where
  "nonempty value = (if is_blank value then None else Some value)"

definition identity_conflict :: "device_identity \<Rightarrow> device_identity \<Rightarrow> bool" where
  "identity_conflict new old \<longleftrightarrow>
     di_identity_revision new = di_identity_revision old \<and>
     (di_display_name new \<noteq> di_display_name old \<or> di_model new \<noteq> di_model old \<or>
      di_hardware_class new \<noteq> di_hardware_class old)"

definition lineage_rejection ::
  "hub_policy \<Rightarrow> device_record \<Rightarrow> device_observation \<Rightarrow> rejection_reason option" where
  "lineage_rejection policy existing obs =
    (let old = rec_observation existing;
         new_rev = di_identity_revision (do_identity obs);
         old_rev = di_identity_revision (do_identity old);
         same_epoch = (do_source_epoch obs = do_source_epoch old)
     in if identity_conflict (do_identity obs) (do_identity old) then Some IdentityConflict
        else if new_rev < old_rev then Some IdentityRevisionRollback
        else if new_rev > old_rev \<and> do_source_revision obs \<noteq> 1
          then Some IdentityRevisionChangedWithoutRestart
        else if \<not> same_epoch \<and> do_source_epoch obs \<in> set (rec_seen_source_epochs existing)
          then Some SourceEpochReplay
        else if \<not> same_epoch \<and>
                length (rec_seen_source_epochs existing) \<ge> hp_source_epoch_limit_per_device policy
          then Some SourceEpochEvidenceLimitExceeded
        else if new_rev = old_rev \<and> \<not> same_epoch \<and> do_source_revision obs \<noteq> 1
          then Some SourceEpochChangedWithoutRestart
        else if new_rev = old_rev \<and> same_epoch \<and> do_source_revision obs = do_source_revision old
          then Some DuplicateRevision
        else if new_rev = old_rev \<and> same_epoch \<and> do_source_revision obs < do_source_revision old
          then Some StaleRevision
        else if new_rev = old_rev \<and> same_epoch \<and> do_received_time_ms obs < do_received_time_ms old
          then Some ReceiveTimeRegression
        else None)"

definition violation_text :: "contract_violation \<Rightarrow> string" where
  "violation_text f = cv_code f @ '':'' @ cv_path f @ '':'' @ cv_message f"

definition admit ::
  "'a hub_state_scheme \<Rightarrow> device_observation \<Rightarrow> i64 \<Rightarrow> 'a hub_state_scheme \<times> observation_decision" where
  "admit h obs now_ms =
    (let device_id = di_device_id (do_identity obs);
         revision = u64_saturating_add (fh_result_revision h) 1;
         prior = bt_get (fh_devices h) device_id;
         history = (case prior of None \<Rightarrow> [] | Some r \<Rightarrow> rec_condition_history r) @ do_conditions obs;
         history = keep_last (hp_history_limit_per_device (fh_policy h)) history;
         seen = (case prior of None \<Rightarrow> [] | Some r \<Rightarrow> rec_seen_source_epochs r);
         seen = (if do_source_epoch obs \<in> set seen then seen else seen @ [do_source_epoch obs]);
         new_record = \<lparr>rec_observation = obs, rec_accepted_at_ms = now_ms,
                       rec_accepted_revision = revision, rec_condition_history = history,
                       rec_seen_source_epochs = seen\<rparr>;
         decision = Decision_Accepted revision device_id (do_source_revision obs)
     in (record_event now_ms decision
           (h\<lparr>fh_result_revision := revision,
              fh_devices := bt_insert device_id new_record (fh_devices h)\<rparr>), decision))"

definition accept_observation ::
  "(device_observation \<Rightarrow> nat option) \<Rightarrow> (json_value \<Rightarrow> nat option) \<Rightarrow>
   'a hub_state_scheme \<Rightarrow> device_observation \<Rightarrow> i64 \<Rightarrow> 'a hub_state_scheme \<times> observation_decision" where
  "accept_observation obs_bytes json_bytes h obs now_ms =
    (case validate_observation obs_bytes json_bytes obs of
       Inl failures \<Rightarrow>
         (let decision = Decision_Rejected (fh_result_revision h)
                (nonempty (di_device_id (do_identity obs)))
                (if do_source_revision obs > 0 then Some (do_source_revision obs) else None)
                ContractInvalid (map violation_text failures)
          in (record_event now_ms decision h, decision))
     | Inr _ \<Rightarrow>
         (case Option.bind (bt_get (fh_devices h) (di_device_id (do_identity obs)))
                 (\<lambda>existing. lineage_rejection (fh_policy h) existing obs) of
            Some reason \<Rightarrow>
              (let decision = Decision_Rejected (fh_result_revision h)
                     (Some (di_device_id (do_identity obs))) (Some (do_source_revision obs)) reason []
               in (record_event now_ms decision h, decision))
          | None \<Rightarrow> admit h obs now_ms))"

definition is_accepted :: "observation_decision \<Rightarrow> bool" where
  "is_accepted d \<longleftrightarrow> (case d of Decision_Accepted _ _ _ \<Rightarrow> True | Decision_Rejected _ _ _ _ _ \<Rightarrow> False)"

lemma is_accepted_simps [simp]:
  "is_accepted (Decision_Accepted a b c)"
  "\<not> is_accepted (Decision_Rejected a' b' c' r ds)"
  by (simp_all add: is_accepted_def)

section \<open>Frame facts\<close>

lemma keep_last_length [simp]: "length (keep_last limit xs) \<le> limit"
  by (simp add: keep_last_def)

lemma set_keep_last: "set (keep_last limit xs) \<subseteq> set xs"
  by (auto simp: keep_last_def dest: in_set_dropD)

lemma keep_last_suffix: "\<exists>ys. xs = ys @ keep_last limit xs"
  by (auto simp: keep_last_def intro: exI [of _ "take (length xs - limit) xs"] exI [of _ "[]"])

lemma keep_last_short: "length xs \<le> limit \<Longrightarrow> keep_last limit xs = xs"
  by (simp add: keep_last_def)

lemma last_keep_last: "xs \<noteq> [] \<Longrightarrow> 0 < limit \<Longrightarrow> keep_last limit xs \<noteq> [] \<and> last (keep_last limit xs) = last xs"
  by (auto simp: keep_last_def)

lemma record_event_frame [simp]:
  "fh_policy (record_event t d h) = fh_policy h"
  "fh_devices (record_event t d h) = fh_devices h"
  "fh_result_revision (record_event t d h) = fh_result_revision h"
  "fh_saved_view_revision (record_event t d h) = fh_saved_view_revision h"
  "fh_saved_views (record_event t d h) = fh_saved_views h"
  "fh_kiosk_operations (record_event t d h) = fh_kiosk_operations h"
  "fh_package_operations (record_event t d h) = fh_package_operations h"
  "fh_package_archives (record_event t d h) = fh_package_archives h"
  "fh_awake_operations (record_event t d h) = fh_awake_operations h"
  "fh_wifi_adb_operations (record_event t d h) = fh_wifi_adb_operations h"
  "fh_hotspot_operations (record_event t d h) = fh_hotspot_operations h"
  "fh_hotspot_observation (record_event t d h) = fh_hotspot_observation h"
  "fh_kiosk_catalogs (record_event t d h) = fh_kiosk_catalogs h"
  "fh_catalog_replays (record_event t d h) = fh_catalog_replays h"
  "fh_catalog_associations (record_event t d h) = fh_catalog_associations h"
  "hub_state.more (record_event t d h) = hub_state.more h"
  by (simp_all add: record_event_def Let_def)

lemma admit_frame [simp]:
  "fh_policy (fst (admit h obs t)) = fh_policy h"
  "fh_saved_view_revision (fst (admit h obs t)) = fh_saved_view_revision h"
  "fh_saved_views (fst (admit h obs t)) = fh_saved_views h"
  "fh_kiosk_operations (fst (admit h obs t)) = fh_kiosk_operations h"
  "fh_package_operations (fst (admit h obs t)) = fh_package_operations h"
  "fh_package_archives (fst (admit h obs t)) = fh_package_archives h"
  "fh_awake_operations (fst (admit h obs t)) = fh_awake_operations h"
  "fh_wifi_adb_operations (fst (admit h obs t)) = fh_wifi_adb_operations h"
  "fh_hotspot_operations (fst (admit h obs t)) = fh_hotspot_operations h"
  "fh_hotspot_observation (fst (admit h obs t)) = fh_hotspot_observation h"
  "fh_kiosk_catalogs (fst (admit h obs t)) = fh_kiosk_catalogs h"
  "fh_catalog_replays (fst (admit h obs t)) = fh_catalog_replays h"
  "fh_catalog_associations (fst (admit h obs t)) = fh_catalog_associations h"
  "hub_state.more (fst (admit h obs t)) = hub_state.more h"
  by (simp_all add: admit_def Let_def)

lemma accept_observation_frame [simp]:
  "fh_policy (fst (accept_observation ob jb h obs t)) = fh_policy h"
  "fh_saved_view_revision (fst (accept_observation ob jb h obs t)) = fh_saved_view_revision h"
  "fh_saved_views (fst (accept_observation ob jb h obs t)) = fh_saved_views h"
  "fh_kiosk_operations (fst (accept_observation ob jb h obs t)) = fh_kiosk_operations h"
  "fh_package_operations (fst (accept_observation ob jb h obs t)) = fh_package_operations h"
  "fh_package_archives (fst (accept_observation ob jb h obs t)) = fh_package_archives h"
  "fh_awake_operations (fst (accept_observation ob jb h obs t)) = fh_awake_operations h"
  "fh_wifi_adb_operations (fst (accept_observation ob jb h obs t)) = fh_wifi_adb_operations h"
  "fh_hotspot_operations (fst (accept_observation ob jb h obs t)) = fh_hotspot_operations h"
  "fh_hotspot_observation (fst (accept_observation ob jb h obs t)) = fh_hotspot_observation h"
  "fh_kiosk_catalogs (fst (accept_observation ob jb h obs t)) = fh_kiosk_catalogs h"
  "fh_catalog_replays (fst (accept_observation ob jb h obs t)) = fh_catalog_replays h"
  "fh_catalog_associations (fst (accept_observation ob jb h obs t)) = fh_catalog_associations h"
  "hub_state.more (fst (accept_observation ob jb h obs t)) = hub_state.more h"
  by (simp_all add: accept_observation_def Let_def split: sum.splits option.splits)

text \<open>
  Case analysis on the decision: either the observation is valid, its lineage is in order and it
  is admitted, or it is rejected and only the event log changes.
\<close>

lemma accept_observation_cases:
  obtains (admitted) "valid (validate_observation ob jb obs)"
      "\<forall>r. bt_get (fh_devices h) (di_device_id (do_identity obs)) = Some r \<longrightarrow>
         lineage_rejection (fh_policy h) r obs = None"
      "accept_observation ob jb h obs t = admit h obs t"
      "is_accepted (snd (accept_observation ob jb h obs t))"
  | (rejected) d where "accept_observation ob jb h obs t = (record_event t d h, d)" "\<not> is_accepted d"
proof (cases "validate_observation ob jb obs")
  case (Inl fs)
  then have "\<exists>d. accept_observation ob jb h obs t = (record_event t d h, d) \<and> \<not> is_accepted d"
    by (simp add: accept_observation_def Let_def)
  then show ?thesis using rejected by blast
next
  case (Inr u)
  show ?thesis
  proof (cases "Option.bind (bt_get (fh_devices h) (di_device_id (do_identity obs)))
                 (\<lambda>existing. lineage_rejection (fh_policy h) existing obs)")
    case None
    have "accept_observation ob jb h obs t = admit h obs t"
      using Inr None by (simp add: accept_observation_def)
    moreover have "is_accepted (snd (admit h obs t))"
      by (simp add: admit_def Let_def)
    ultimately show ?thesis
      using Inr None by (intro admitted) (auto simp: valid_def)
  next
    case (Some reason)
    with Inr have "\<exists>d. accept_observation ob jb h obs t = (record_event t d h, d) \<and> \<not> is_accepted d"
      by (simp add: accept_observation_def Let_def)
    then show ?thesis using rejected by blast
  qed
qed

lemma rejected_devices:
  "\<not> is_accepted (snd (accept_observation ob jb h obs t)) \<Longrightarrow>
   fh_devices (fst (accept_observation ob jb h obs t)) = fh_devices h \<and>
   fh_result_revision (fst (accept_observation ob jb h obs t)) = fh_result_revision h"
  by (cases rule: accept_observation_cases [of ob jb obs h t]) auto

end
