(* ===== verification/Hub_Kiosk.thy ===== *)
theory Hub_Kiosk
  imports Hub_State
begin

text \<open>
  crates/fleet-hub/src/kiosk.rs: the Hub's Kiosk show-controls operations. A preview freezes
  targets and capability facts, a confirmation re-checks them, dispatch starts bounded owner
  attempts, a signed receipt applies a target, and attempts fail, expire or are cancelled before
  dispatch. Every operation returns the state with its result; an early return is \<open>Inl\<close>.
\<close>

section \<open>Errors and early returns\<close>

text \<open>The \<^verbatim>\<open>?\<close> operator inside a method that holds the state \<open>s\<close>.\<close>

definition attempt :: "'s \<Rightarrow> 'e + 'a \<Rightarrow> ('a \<Rightarrow> 's \<times> ('e + 'b)) \<Rightarrow> 's \<times> ('e + 'b)" where
  "attempt s r k = (case r of Inl e \<Rightarrow> (s, Inl e) | Inr x \<Rightarrow> k x)"

lemma attempt_simps [simp]:
  "attempt s (Inl e) k = (s, Inl e)"
  "attempt s (Inr x) k = k x"
  by (simp_all add: attempt_def)

definition max_kiosk_operations :: usize where
  "max_kiosk_operations = 1000"

definition contract_error :: "string \<Rightarrow> string \<Rightarrow> failures \<Rightarrow> hub_error" where
  "contract_error code subject failures = hub_error code
     (subject @ '' failed contract validation: '' @
      join_with '','' (map (\<lambda>f. cv_code f @ '':'' @ cv_path f) failures))"

definition validate_operation :: "kiosk_operation \<Rightarrow> hub_error + unit" where
  "validate_operation op = (case validate_kiosk_operation op of
     Inl failures \<Rightarrow> Inl (contract_error ''kiosk_operation_invalid'' ''Kiosk show-controls operation'' failures)
   | Inr u \<Rightarrow> Inr u)"

text \<open>
  The tail every mutating method shares: derive the lifecycle, validate, insert and return the
  updated operation.
\<close>

definition commit_operation ::
  "'a hub_state_scheme \<Rightarrow> string \<Rightarrow> kiosk_operation \<Rightarrow> 'a hub_state_scheme \<times> (hub_error + kiosk_operation)"
where
  "commit_operation h operation_id op =
    (let updated = op\<lparr>ko_lifecycle := derived_lifecycle op\<rparr> in
     attempt h (validate_operation updated) (\<lambda>_.
       (h\<lparr>fh_kiosk_operations := bt_insert operation_id updated (fh_kiosk_operations h)\<rparr>, Inr updated)))"

section \<open>Reading operations\<close>

definition find_kiosk_operation :: "'a hub_state_scheme \<Rightarrow> string \<Rightarrow> hub_error + kiosk_operation" where
  "find_kiosk_operation h operation_id = (case bt_get (fh_kiosk_operations h) operation_id of
     None \<Rightarrow> Inl (hub_error ''kiosk_operation_not_found'' (''unknown Kiosk operation '' @ operation_id))
   | Some op \<Rightarrow> Inr op)"

definition compare_kiosk_operations :: "kiosk_operation \<Rightarrow> kiosk_operation \<Rightarrow> ordering" where
  "compare_kiosk_operations left right =
     ord_then (cmp (ko_created_at_ms left) (ko_created_at_ms right))
       (cmp (ko_operation_id left) (ko_operation_id right))"

definition kiosk_operations :: "'a hub_state_scheme \<Rightarrow> kiosk_operation list" where
  "kiosk_operations h = sort_by compare_kiosk_operations (bt_values (fh_kiosk_operations h))"

definition kiosk_operations_for_device :: "'a hub_state_scheme \<Rightarrow> string \<Rightarrow> kiosk_operation list" where
  "kiosk_operations_for_device h device_id = sort_by compare_kiosk_operations
     (filter (\<lambda>op. list_ex (\<lambda>t. kt_device_id t = device_id) (ko_targets op))
       (bt_values (fh_kiosk_operations h)))"

definition is_kiosk_terminal :: "command_lifecycle \<Rightarrow> bool" where
  "is_kiosk_terminal l \<longleftrightarrow> l \<in> {Rejected, Applied, Lifecycle_Failed, Expired, Cancelled}"

definition active_kiosk_operation_count :: "'a hub_state_scheme \<Rightarrow> string \<Rightarrow> usize" where
  "active_kiosk_operation_count h device_id = length (filter (\<lambda>op.
     \<not> is_kiosk_terminal (ko_lifecycle op) \<and>
     list_ex (\<lambda>t. kt_device_id t = device_id \<and> \<not> is_kiosk_terminal (kt_lifecycle t)) (ko_targets op))
     (bt_values (fh_kiosk_operations h)))"

section \<open>Targets\<close>

definition find_target :: "kiosk_operation \<Rightarrow> string \<Rightarrow> hub_error + kiosk_target" where
  "find_target op device_id = (case find (\<lambda>t. kt_device_id t = device_id) (ko_targets op) of
     None \<Rightarrow> Inl (hub_error ''kiosk_operation_target_not_found''
       (''device '' @ device_id @ '' is not in operation '' @ ko_operation_id op))
   | Some t \<Rightarrow> Inr t)"

text \<open>\<^verbatim>\<open>iter_mut().find(...)\<close>: the first match is changed in place.\<close>

fun update_first :: "('a \<Rightarrow> bool) \<Rightarrow> ('a \<Rightarrow> 'a) \<Rightarrow> 'a list \<Rightarrow> 'a list" where
  "update_first p f [] = []"
| "update_first p f (x # xs) = (if p x then f x # xs else x # update_first p f xs)"

lemma list_all2_update_first:
  assumes "find p xs = Some x" and "\<And>x. R x x" and "R x (f x)"
  shows "list_all2 R xs (update_first p f xs)"
  using assms(1) by (induction xs) (auto simp: assms(2,3) list.rel_refl split: if_splits)

lemma update_first_split:
  "find p xs = Some x \<Longrightarrow> \<exists>as bs. xs = as @ x # bs \<and> update_first p f xs = as @ f x # bs"
proof (induction xs)
  case (Cons y ys)
  show ?case
  proof (cases "p y")
    case True
    with Cons.prems show ?thesis by (intro exI [of _ "[]"] exI [of _ ys]) simp
  next
    case False
    with Cons obtain as bs where "ys = as @ x # bs" "update_first p f ys = as @ f x # bs" by auto
    with False show ?thesis by (intro exI [of _ "y # as"] exI [of _ bs]) simp
  qed
qed simp

definition target_mut ::
  "kiosk_operation \<Rightarrow> string \<Rightarrow> (kiosk_target \<Rightarrow> kiosk_target) \<Rightarrow> hub_error + kiosk_operation" where
  "target_mut op device_id change =
    (if list_ex (\<lambda>t. kt_device_id t = device_id) (ko_targets op)
     then Inr (op\<lparr>ko_targets := update_first (\<lambda>t. kt_device_id t = device_id) change (ko_targets op)\<rparr>)
     else Inl (hub_error ''kiosk_operation_target_not_found''
       (''device '' @ device_id @ '' is not in operation '' @ ko_operation_id op)))"

definition require_preview :: "kiosk_operation \<Rightarrow> string \<Rightarrow> hub_error + unit" where
  "require_preview op preview_id =
    (if kv_preview_id (ko_preview op) \<noteq> preview_id
     then Inl (hub_error ''kiosk_preview_mismatch''
       ''execute request does not bind the operation's immutable preview'')
     else Inr ())"

definition require_monotonic_time :: "kiosk_operation \<Rightarrow> i64 \<Rightarrow> hub_error + unit" where
  "require_monotonic_time op now_ms =
    (if now_ms < ko_created_at_ms op \<or> list_ex (\<lambda>t. now_ms < kt_last_transition_ms t) (ko_targets op)
     then Inl (hub_error ''kiosk_operation_time_regression''
       ''Kiosk operation transition time must not regress'')
     else Inr ())"

section \<open>Preflight\<close>

record capability_facts =
  cf_evidence_revision :: u64
  cf_support :: support_state
  cf_enablement :: enablement_state
  cf_authorization :: authorization_state
  cf_reachability :: reachability_state
  cf_freshness :: freshness_state
  cf_observed_at_ms :: i64
  cf_fresh_until_ms :: i64
  cf_message :: string

definition kiosk_capability_facts :: "device_record \<Rightarrow> capability_facts" where
  "kiosk_capability_facts r =
    (case capability_get (do_capabilities (rec_observation r)) kiosk_capability_id of
       Some c \<Rightarrow>
         (if cap_owner c = kiosk_owner
          then \<lparr>cf_evidence_revision = cap_evidence_revision c, cf_support = cap_support c,
                cf_enablement = cap_enablement c, cf_authorization = cap_authorization c,
                cf_reachability = cap_reachability c, cf_freshness = cap_freshness c,
                cf_observed_at_ms = cap_observed_at_ms c, cf_fresh_until_ms = cap_fresh_until_ms c,
                cf_message = cap_reason c\<rparr>
          else \<lparr>cf_evidence_revision = cap_evidence_revision c, cf_support = Support_Unknown,
                cf_enablement = Enablement_Unknown, cf_authorization = Authorization_Unknown,
                cf_reachability = Reachability_Unknown, cf_freshness = Freshness_Unknown,
                cf_observed_at_ms = cap_observed_at_ms c, cf_fresh_until_ms = cap_fresh_until_ms c,
                cf_message = ''Kiosk capability evidence has the wrong owner''\<rparr>)
     | None \<Rightarrow>
         \<lparr>cf_evidence_revision = do_source_revision (rec_observation r),
          cf_support = Support_Unknown, cf_enablement = Enablement_Unknown,
          cf_authorization = Authorization_Unknown, cf_reachability = Reachability_Unknown,
          cf_freshness = Freshness_Unknown,
          cf_observed_at_ms = do_received_time_ms (rec_observation r),
          cf_fresh_until_ms = do_received_time_ms (rec_observation r),
          cf_message = ''No Kiosk direct-operator capability evidence is present''\<rparr>)"

definition hub_kiosk_preflight :: "hub_policy \<Rightarrow> device_record \<Rightarrow> i64 \<Rightarrow> kiosk_preflight" where
  "hub_kiosk_preflight policy r evaluated_at_ms =
    (let facts = kiosk_capability_facts r;
         age = max (i64_saturating_sub evaluated_at_ms (rec_accepted_at_ms r)) 0;
         preflight = \<lparr>
           kp_device_id = di_device_id (do_identity (rec_observation r)),
           kp_identity_revision = di_identity_revision (do_identity (rec_observation r)),
           kp_capability_id = kiosk_capability_id,
           kp_capability_evidence_revision = cf_evidence_revision facts,
           kp_capability_owner = kiosk_owner,
           kp_support = cf_support facts,
           kp_enablement = cf_enablement facts,
           kp_authorization = cf_authorization facts,
           kp_reachability = (if age > hp_offline_after_ms policy
             then Reachability_Disconnected else cf_reachability facts),
           kp_freshness = (if age > hp_stale_after_ms policy
             then Freshness_Stale else cf_freshness facts),
           kp_observed_at_ms = cf_observed_at_ms facts,
           kp_fresh_until_ms = cf_fresh_until_ms facts,
           kp_evaluated_at_ms = evaluated_at_ms,
           kp_eligible = False,
           kp_reason_code = [],
           kp_message = cf_message facts\<rparr>;
         preflight = preflight\<lparr>kp_eligible := expected_eligibility preflight\<rparr>
     in preflight\<lparr>kp_reason_code := expected_reason_code preflight\<rparr>)"

definition same_frozen_facts :: "kiosk_preflight \<Rightarrow> kiosk_preflight \<Rightarrow> bool" where
  "same_frozen_facts frozen current \<longleftrightarrow>
     kp_device_id frozen = kp_device_id current \<and>
     kp_identity_revision frozen = kp_identity_revision current \<and>
     kp_capability_id frozen = kp_capability_id current \<and>
     kp_capability_evidence_revision frozen = kp_capability_evidence_revision current \<and>
     kp_capability_owner frozen = kp_capability_owner current \<and>
     kp_support frozen = kp_support current \<and>
     kp_enablement frozen = kp_enablement current \<and>
     kp_authorization frozen = kp_authorization current \<and>
     kp_reachability frozen = kp_reachability current \<and>
     kp_freshness frozen = kp_freshness current \<and>
     kp_observed_at_ms frozen = kp_observed_at_ms current \<and>
     kp_fresh_until_ms frozen = kp_fresh_until_ms current \<and>
     kp_message frozen = kp_message current"

definition require_target_current ::
  "'a hub_state_scheme \<Rightarrow> kiosk_target \<Rightarrow> i64 \<Rightarrow> hub_error + unit" where
  "require_target_current h t now_ms = (case bt_get (fh_devices h) (kt_device_id t) of
     None \<Rightarrow> Inl (hub_error ''kiosk_target_not_found''
       (''Kiosk target '' @ kt_device_id t @ '' is no longer in the Fleet directory''))
   | Some r \<Rightarrow>
       if di_identity_revision (do_identity (rec_observation r)) \<noteq> kt_identity_revision t
       then Inl (hub_error ''kiosk_target_identity_changed''
         (''Kiosk target '' @ kt_device_id t @ '' changed identity revision''))
       else
         (let current = hub_kiosk_preflight (fh_policy h) r now_ms in
          if \<not> same_frozen_facts (kt_preflight t) current \<or>
             kp_eligible (kt_preflight t) \<noteq> expected_eligibility current \<or>
             kp_reason_code (kt_preflight t) \<noteq> expected_reason_code current
          then Inl (hub_error ''kiosk_target_changed_since_preview''
            (''Kiosk target '' @ kt_device_id t @ '' capability or freshness facts changed since preview''))
          else Inr ()))"

fun require_targets_current ::
  "'a hub_state_scheme \<Rightarrow> kiosk_target list \<Rightarrow> i64 \<Rightarrow> hub_error + unit" where
  "require_targets_current h [] now_ms = Inr ()"
| "require_targets_current h (t # ts) now_ms = (case require_target_current h t now_ms of
     Inl e \<Rightarrow> Inl e
   | Inr _ \<Rightarrow> require_targets_current h ts now_ms)"

definition require_frozen_targets_current ::
  "'a hub_state_scheme \<Rightarrow> kiosk_operation \<Rightarrow> i64 \<Rightarrow> hub_error + unit" where
  "require_frozen_targets_current h op now_ms = require_targets_current h (ko_targets op) now_ms"

section \<open>Preview\<close>

record kiosk_preview_plan =
  kpp_operation_id :: string
  kpp_preview_id :: string
  kpp_request :: operation_preview_request
  kpp_created_at_ms :: i64
  kpp_expires_at_ms :: i64
  kpp_max_parallelism :: u16
  kpp_max_attempts_per_target :: u8

definition preview_max_lifetime_ms :: i64 where
  "preview_max_lifetime_ms = 90000"

definition validate_preview_plan :: "kiosk_preview_plan \<Rightarrow> hub_error + unit" where
  "validate_preview_plan plan =
    (if is_blank (kpp_operation_id plan) \<or> is_blank (kpp_preview_id plan) \<or>
        length (kpp_operation_id plan) > 256 \<or> length (kpp_preview_id plan) > 256
     then Inl (hub_error ''kiosk_preview_id_invalid''
       ''operation and preview IDs contain 1 through 256 bytes'')
     else case validate_preview_request (kpp_request plan) of
       Inl failures \<Rightarrow> Inl (contract_error ''kiosk_preview_request_invalid''
         ''Kiosk operation preview request'' failures)
     | Inr _ \<Rightarrow>
         if kpp_created_at_ms plan < 0 \<or> kpp_expires_at_ms plan \<le> kpp_created_at_ms plan \<or>
            i64_saturating_sub (kpp_expires_at_ms plan) (kpp_created_at_ms plan) > preview_max_lifetime_ms
         then Inl (hub_error ''kiosk_preview_window_invalid''
           ''Kiosk preview lifetime must be positive and no longer than 90 seconds'')
         else if \<not> (1 \<le> kpp_max_parallelism plan \<and> kpp_max_parallelism plan \<le> 64)
         then Inl (hub_error ''kiosk_parallelism_invalid''
           ''Kiosk operation parallelism must be between 1 and 64'')
         else if \<not> (1 \<le> kpp_max_attempts_per_target plan \<and> kpp_max_attempts_per_target plan \<le> 8)
         then Inl (hub_error ''kiosk_attempt_limit_invalid''
           ''Kiosk operation attempts per target must be between 1 and 8'')
         else Inr ())"

definition plan_matches_operation :: "kiosk_preview_plan \<Rightarrow> kiosk_operation \<Rightarrow> bool" where
  "plan_matches_operation plan op \<longleftrightarrow>
     kpp_operation_id plan = ko_operation_id op \<and>
     kpp_preview_id plan = kv_preview_id (ko_preview op) \<and>
     kpp_created_at_ms plan = ko_created_at_ms op \<and>
     kpp_expires_at_ms plan = kv_expires_at_ms (ko_preview op) \<and>
     kpp_max_parallelism plan = ko_max_parallelism op \<and>
     kpp_max_attempts_per_target plan = ko_max_attempts_per_target op \<and>
     opr_action_id (kpp_request plan) = ko_action_id op \<and>
     opr_targets (kpp_request plan) =
       bt_from_list (map (\<lambda>t. (kp_device_id t, kp_identity_revision t)) (kv_targets (ko_preview op)))"

text \<open>The loop over the requested targets, with its two early returns.\<close>

fun freeze_targets ::
  "'a hub_state_scheme \<Rightarrow> i64 \<Rightarrow> (string \<times> u64) list \<Rightarrow> hub_error + kiosk_preflight list" where
  "freeze_targets h created_at_ms [] = Inr []"
| "freeze_targets h created_at_ms ((device_id, identity_revision) # rest) =
    (case bt_get (fh_devices h) device_id of
       None \<Rightarrow> Inl (hub_error ''kiosk_target_not_found''
         (''unknown Kiosk operation target '' @ device_id))
     | Some r \<Rightarrow>
         if di_identity_revision (do_identity (rec_observation r)) \<noteq> identity_revision
         then Inl (hub_error ''kiosk_target_identity_mismatch''
           (''target '' @ device_id @ '' identity revision changed from requested '' @
            show_nat identity_revision @ '' to '' @
            show_nat (di_identity_revision (do_identity (rec_observation r)))))
         else (case freeze_targets h created_at_ms rest of
             Inl e \<Rightarrow> Inl e
           | Inr ps \<Rightarrow> Inr (hub_kiosk_preflight (fh_policy h) r created_at_ms # ps)))"

definition proposed_target :: "i64 \<Rightarrow> kiosk_preflight \<Rightarrow> kiosk_target" where
  "proposed_target created_at_ms preflight = (let eligible = kp_eligible preflight in \<lparr>
     kt_device_id = kp_device_id preflight,
     kt_identity_revision = kp_identity_revision preflight,
     kt_preflight = preflight,
     kt_lifecycle = (if eligible then Proposed else Rejected),
     kt_dispatched_at_ms = None,
     kt_owner_deadline_at_ms = None,
     kt_attempt_count = 0,
     kt_owner_request_ids = [],
     kt_owner_request_id = None,
     kt_effective_receipt = None,
     kt_retry_disposition = NotEligible,
     kt_cancel_disposition = (if eligible then CancelableBeforeDispatch else Terminal),
     kt_reason_code = (if eligible then ''preview_ready'' else ''preflight_excluded''),
     kt_message = (if eligible then ''Target is ready for explicit confirmation''
       else ''Target was excluded by the frozen preflight''),
     kt_last_transition_ms = created_at_ms\<rparr>)"

definition proposed_operation ::
  "u64 \<Rightarrow> kiosk_preview_plan \<Rightarrow> kiosk_preflight list \<Rightarrow> kiosk_operation" where
  "proposed_operation result_revision plan preflights = \<lparr>
     ko_schema = ''rusty.fleet.kiosk_show_controls_operation.v1'',
     ko_operation_id = kpp_operation_id plan,
     ko_action_id = kiosk_show_controls_action_id,
     ko_created_at_ms = kpp_created_at_ms plan,
     ko_preview = \<lparr>
       kv_schema = ''rusty.fleet.kiosk_show_controls_preview.v1'',
       kv_preview_id = kpp_preview_id plan,
       kv_operation_id = kpp_operation_id plan,
       kv_action_id = kiosk_show_controls_action_id,
       kv_created_at_ms = kpp_created_at_ms plan,
       kv_expires_at_ms = kpp_expires_at_ms plan,
       kv_fleet_revision = result_revision,
       kv_owner_contract = show_controls_v1,
       kv_targets = preflights\<rparr>,
     ko_lifecycle = Proposed,
     ko_max_parallelism = kpp_max_parallelism plan,
     ko_max_attempts_per_target = kpp_max_attempts_per_target plan,
     ko_cleanup_required = False,
     ko_targets = map (proposed_target (kpp_created_at_ms plan)) preflights\<rparr>"

definition preview_kiosk_show_controls ::
  "'a hub_state_scheme \<Rightarrow> kiosk_preview_plan \<Rightarrow> 'a hub_state_scheme \<times> (hub_error + kiosk_operation)"
where
  "preview_kiosk_show_controls h plan =
    attempt h (validate_preview_plan plan) (\<lambda>_.
    case bt_get (fh_kiosk_operations h) (kpp_operation_id plan) of
      Some existing \<Rightarrow>
        if plan_matches_operation plan existing then (h, Inr existing)
        else (h, Inl (hub_error ''kiosk_operation_id_conflict''
          ''operation ID already names a different immutable preview''))
    | None \<Rightarrow>
        attempt h (freeze_targets h (kpp_created_at_ms plan) (entries (opr_targets (kpp_request plan))))
          (\<lambda>preflights.
           let op = proposed_operation (fh_result_revision h) plan preflights;
               op = op\<lparr>ko_lifecycle := derived_lifecycle op\<rparr>
           in attempt h (validate_operation op) (\<lambda>_.
             if bt_len (fh_kiosk_operations h) \<ge> max_kiosk_operations
             then (h, Inl (hub_error ''kiosk_operation_limit_reached''
               (''Fleet Hub retains at most '' @ show_nat max_kiosk_operations @ '' Kiosk operations'')))
             else (h\<lparr>fh_kiosk_operations :=
                 bt_insert (ko_operation_id op) op (fh_kiosk_operations h)\<rparr>, Inr op))))"

section \<open>Confirmation\<close>

definition confirm_target :: "i64 \<Rightarrow> kiosk_target \<Rightarrow> kiosk_target" where
  "confirm_target now_ms t =
    (if kp_eligible (kt_preflight t)
     then t\<lparr>kt_lifecycle := Accepted,
            kt_reason_code := ''operator_confirmed'',
            kt_message := ''Exact preview confirmed for dispatch'',
            kt_last_transition_ms := now_ms\<rparr>
     else t)"

definition confirm_kiosk_show_controls ::
  "'a hub_state_scheme \<Rightarrow> string \<Rightarrow> string \<Rightarrow> i64 \<Rightarrow>
   'a hub_state_scheme \<times> (hub_error + kiosk_operation)" where
  "confirm_kiosk_show_controls h operation_id preview_id now_ms =
    attempt h (find_kiosk_operation h operation_id) (\<lambda>op.
    attempt h (require_preview op preview_id) (\<lambda>_.
    attempt h (require_monotonic_time op now_ms) (\<lambda>_.
    if ko_lifecycle op \<noteq> Proposed then (h, Inr op)
    else if now_ms > kv_expires_at_ms (ko_preview op)
    then (h, Inl (hub_error ''kiosk_preview_expired''
      ''the immutable Kiosk preview expired before confirmation''))
    else attempt h (require_frozen_targets_current h op now_ms) (\<lambda>_.
      commit_operation h operation_id
        (op\<lparr>ko_targets := map (confirm_target now_ms) (ko_targets op)\<rparr>)))))"

definition confirm_kiosk_show_controls_request ::
  "'a hub_state_scheme \<Rightarrow> operation_execute_request \<Rightarrow> i64 \<Rightarrow>
   'a hub_state_scheme \<times> (hub_error + kiosk_operation)" where
  "confirm_kiosk_show_controls_request h request now_ms =
    (case validate_execute_request request of
       Inl failures \<Rightarrow> (h, Inl (contract_error ''kiosk_execute_request_invalid''
         ''Kiosk operation execute request'' failures))
     | Inr _ \<Rightarrow> confirm_kiosk_show_controls h (oer_operation_id request) (oer_preview_id request) now_ms)"

section \<open>Owner attempts\<close>

text \<open>The guards of a new owner attempt, in the order the code tests them.\<close>

definition dispatch_rejection ::
  "kiosk_operation \<Rightarrow> kiosk_target \<Rightarrow> string \<Rightarrow> string \<Rightarrow> i64 \<Rightarrow> hub_error option" where
  "dispatch_rejection op t device_id owner_request_id now_ms =
    (if now_ms > kv_expires_at_ms (ko_preview op)
     then Some (hub_error ''kiosk_preview_expired''
       ''Kiosk owner dispatch cannot begin after preview expiry'')
     else if kt_lifecycle t \<notin> {Accepted, Lifecycle_Failed, Expired}
     then Some (hub_error ''kiosk_dispatch_state_invalid''
       (''target '' @ device_id @ '' is not eligible for a new owner attempt''))
     else if kt_attempt_count t \<ge> ko_max_attempts_per_target op
     then Some (hub_error ''kiosk_attempt_limit_reached''
       (''target '' @ device_id @ '' reached its bounded owner attempt limit''))
     else if owner_request_id \<in> set (kt_owner_request_ids t)
     then Some (hub_error ''kiosk_owner_request_reused''
       ''a retry must use a new Kiosk owner action request ID'')
     else if \<not> is_owner_request_id owner_request_id
     then Some (hub_error ''kiosk_owner_request_invalid''
       ''Kiosk owner action request IDs contain 8 through 64 ASCII letters, digits, underscores, or hyphens'')
     else if inflight_count op \<ge> ko_max_parallelism op
     then Some (hub_error ''kiosk_parallelism_limit_reached''
       ''the operation already has its maximum number of owner attempts in flight'')
     else None)"

definition dispatched_target ::
  "string \<Rightarrow> i64 \<Rightarrow> i64 \<Rightarrow> u8 \<Rightarrow> kiosk_target \<Rightarrow> kiosk_target" where
  "dispatched_target owner_request_id now_ms owner_deadline_at_ms max_attempts t =
    (let count = u8_saturating_add (kt_attempt_count t) 1 in
     t\<lparr>kt_attempt_count := count,
       kt_owner_request_ids := kt_owner_request_ids t @ [owner_request_id],
       kt_owner_request_id := Some owner_request_id,
       kt_dispatched_at_ms := Some now_ms,
       kt_owner_deadline_at_ms := Some owner_deadline_at_ms,
       kt_effective_receipt := None,
       kt_lifecycle := Dispatched,
       kt_retry_disposition := NotEligible,
       kt_cancel_disposition := NotCancelableAfterDispatch,
       kt_reason_code := ''owner_dispatch_started'',
       kt_message := ''Kiosk owner attempt '' @ show_nat count @ '' of '' @ show_nat max_attempts @
         '' was dispatched'',
       kt_last_transition_ms := now_ms\<rparr>)"

definition dispatch_kiosk_show_controls ::
  "'a hub_state_scheme \<Rightarrow> string \<Rightarrow> string \<Rightarrow> string \<Rightarrow> i64 \<Rightarrow>
   'a hub_state_scheme \<times> (hub_error + kiosk_operation)" where
  "dispatch_kiosk_show_controls h operation_id device_id owner_request_id now_ms =
    attempt h (find_kiosk_operation h operation_id) (\<lambda>op.
    attempt h (require_monotonic_time op now_ms) (\<lambda>_.
    attempt h (find_target op device_id) (\<lambda>t.
    if kt_lifecycle t \<in> {Dispatched, Running, Applied} \<and> kt_owner_request_id t = Some owner_request_id
    then (h, Inr op)
    else case dispatch_rejection op t device_id owner_request_id now_ms of
      Some e \<Rightarrow> (h, Inl e)
    | None \<Rightarrow>
        attempt h (require_target_current h t now_ms) (\<lambda>_.
        attempt h (target_mut op device_id
            (dispatched_target owner_request_id now_ms (kv_expires_at_ms (ko_preview op))
               (ko_max_attempts_per_target op)))
          (commit_operation h operation_id)))))"

definition running_target ::
  "command_lifecycle \<Rightarrow> string \<Rightarrow> string \<Rightarrow> i64 \<Rightarrow> kiosk_target \<Rightarrow> kiosk_target" where
  "running_target lifecycle reason_code message now_ms t = t\<lparr>
     kt_lifecycle := lifecycle,
     kt_reason_code := reason_code,
     kt_message := message,
     kt_last_transition_ms := now_ms\<rparr>"

definition transition_inflight ::
  "'a hub_state_scheme \<Rightarrow> string \<Rightarrow> string \<Rightarrow> i64 \<Rightarrow> command_lifecycle \<Rightarrow> string \<Rightarrow> string \<Rightarrow>
   'a hub_state_scheme \<times> (hub_error + kiosk_operation)" where
  "transition_inflight h operation_id device_id now_ms lifecycle reason_code message =
    attempt h (find_kiosk_operation h operation_id) (\<lambda>op.
    attempt h (require_monotonic_time op now_ms) (\<lambda>_.
    attempt h (find_target op device_id) (\<lambda>t.
    if kt_lifecycle t = lifecycle then (h, Inr op)
    else if kt_lifecycle t \<noteq> Dispatched
    then (h, Inl (hub_error ''kiosk_running_state_invalid''
      ''only a dispatched Kiosk target can become running''))
    else attempt h (target_mut op device_id (running_target lifecycle reason_code message now_ms))
      (commit_operation h operation_id))))"

definition mark_kiosk_show_controls_running ::
  "'a hub_state_scheme \<Rightarrow> string \<Rightarrow> string \<Rightarrow> i64 \<Rightarrow>
   'a hub_state_scheme \<times> (hub_error + kiosk_operation)" where
  "mark_kiosk_show_controls_running h operation_id device_id now_ms =
     transition_inflight h operation_id device_id now_ms Running ''owner_result_pending''
       ''Kiosk accepted the request; signed effective readback is pending''"

definition applied_target :: "kiosk_receipt \<Rightarrow> i64 \<Rightarrow> kiosk_target \<Rightarrow> kiosk_target" where
  "applied_target receipt now_ms t = t\<lparr>
     kt_effective_receipt := Some receipt,
     kt_lifecycle := Applied,
     kt_retry_disposition := NotEligible,
     kt_cancel_disposition := Terminal,
     kt_reason_code := ''owner_effective_receipt'',
     kt_message := ''Kiosk signed result confirms accepted, completed, controls-open state'',
     kt_last_transition_ms := now_ms\<rparr>"

definition apply_kiosk_show_controls_receipt ::
  "'a hub_state_scheme \<Rightarrow> kiosk_receipt \<Rightarrow> i64 \<Rightarrow>
   'a hub_state_scheme \<times> (hub_error + kiosk_operation)" where
  "apply_kiosk_show_controls_receipt h receipt now_ms =
    attempt h (find_kiosk_operation h (kr_operation_id receipt)) (\<lambda>op.
    attempt h (require_monotonic_time op now_ms) (\<lambda>_.
    attempt h (find_target op (kr_device_id receipt)) (\<lambda>t.
    if kt_lifecycle t = Applied \<and> kt_effective_receipt t = Some receipt then (h, Inr op)
    else if kt_lifecycle t \<notin> {Dispatched, Running}
    then (h, Inl (hub_error ''kiosk_receipt_state_invalid''
      ''effective Kiosk receipt arrived for a target without an owner attempt in flight''))
    else case validate_kiosk_receipt receipt of
      Inl failures \<Rightarrow>
        (h, Inl (contract_error ''kiosk_receipt_invalid'' ''effective Kiosk receipt'' failures))
    | Inr _ \<Rightarrow>
        if kr_device_id receipt \<noteq> kt_device_id t \<or>
           kr_identity_revision receipt \<noteq> kt_identity_revision t \<or>
           kr_owner_action_request_id receipt \<noteq>
             (case kt_owner_request_id t of None \<Rightarrow> [] | Some request_id \<Rightarrow> request_id)
        then (h, Inl (hub_error ''kiosk_receipt_binding_mismatch''
          ''effective Kiosk receipt does not bind the exact frozen target and owner attempt''))
        else attempt h (target_mut op (kr_device_id receipt) (applied_target receipt now_ms))
          (commit_operation h (kr_operation_id receipt)))))"

definition finished_target ::
  "command_lifecycle \<Rightarrow> string \<Rightarrow> string \<Rightarrow> i64 \<Rightarrow> u8 \<Rightarrow> kiosk_target \<Rightarrow> kiosk_target" where
  "finished_target lifecycle reason_code message now_ms max_attempts t = t\<lparr>
     kt_lifecycle := lifecycle,
     kt_retry_disposition :=
       (if kt_attempt_count t < max_attempts then NewOwnerRequestRequired else NotEligible),
     kt_cancel_disposition := Terminal,
     kt_reason_code := reason_code,
     kt_message := message,
     kt_last_transition_ms := now_ms\<rparr>"

definition finish_owner_attempt ::
  "'a hub_state_scheme \<Rightarrow> string \<Rightarrow> string \<Rightarrow> string \<Rightarrow> string \<Rightarrow> i64 \<Rightarrow> command_lifecycle \<Rightarrow>
   'a hub_state_scheme \<times> (hub_error + kiosk_operation)" where
  "finish_owner_attempt h operation_id device_id reason_code message now_ms lifecycle =
    (if is_blank reason_code \<or> is_blank message
     then (h, Inl (hub_error ''kiosk_terminal_reason_invalid''
       ''failed or expired Kiosk attempts require a reason and message''))
     else
    attempt h (find_kiosk_operation h operation_id) (\<lambda>op.
    attempt h (require_monotonic_time op now_ms) (\<lambda>_.
    attempt h (find_target op device_id) (\<lambda>t.
    if kt_lifecycle t = lifecycle \<and> kt_reason_code t = reason_code \<and> kt_message t = message
    then (h, Inr op)
    else if kt_lifecycle t \<notin> {Dispatched, Running}
    then (h, Inl (hub_error ''kiosk_terminal_state_invalid''
      ''only an in-flight Kiosk owner attempt can fail or expire''))
    else attempt h (target_mut op device_id
        (finished_target lifecycle reason_code message now_ms (ko_max_attempts_per_target op)))
      (commit_operation h operation_id)))))"

definition fail_kiosk_show_controls ::
  "'a hub_state_scheme \<Rightarrow> string \<Rightarrow> string \<Rightarrow> string \<Rightarrow> string \<Rightarrow> i64 \<Rightarrow>
   'a hub_state_scheme \<times> (hub_error + kiosk_operation)" where
  "fail_kiosk_show_controls h operation_id device_id reason_code message now_ms =
     finish_owner_attempt h operation_id device_id reason_code message now_ms Lifecycle_Failed"

definition expire_kiosk_show_controls ::
  "'a hub_state_scheme \<Rightarrow> string \<Rightarrow> string \<Rightarrow> string \<Rightarrow> string \<Rightarrow> i64 \<Rightarrow>
   'a hub_state_scheme \<times> (hub_error + kiosk_operation)" where
  "expire_kiosk_show_controls h operation_id device_id reason_code message now_ms =
     finish_owner_attempt h operation_id device_id reason_code message now_ms Expired"

section \<open>Cancellation before dispatch\<close>

definition cancelling_target :: "i64 \<Rightarrow> kiosk_target \<Rightarrow> kiosk_target" where
  "cancelling_target now_ms t = t\<lparr>
     kt_lifecycle := CancellationRequested,
     kt_cancel_disposition := CancellationRequestedBeforeDispatch,
     kt_reason_code := ''cancellation_requested'',
     kt_message := ''Cancellation requested before owner dispatch'',
     kt_last_transition_ms := now_ms\<rparr>"

definition request_kiosk_show_controls_cancellation ::
  "'a hub_state_scheme \<Rightarrow> string \<Rightarrow> string \<Rightarrow> i64 \<Rightarrow>
   'a hub_state_scheme \<times> (hub_error + kiosk_operation)" where
  "request_kiosk_show_controls_cancellation h operation_id device_id now_ms =
    attempt h (find_kiosk_operation h operation_id) (\<lambda>op.
    attempt h (require_monotonic_time op now_ms) (\<lambda>_.
    attempt h (find_target op device_id) (\<lambda>t.
    if kt_lifecycle t \<in> {CancellationRequested, Cancelled} then (h, Inr op)
    else if kt_lifecycle t \<noteq> Accepted
    then (h, Inl (hub_error ''kiosk_target_not_cancelable''
      ''confirmed show-controls can be cancelled only before owner dispatch''))
    else attempt h (target_mut op device_id (cancelling_target now_ms))
      (commit_operation h operation_id))))"

definition cancelled_target :: "i64 \<Rightarrow> kiosk_target \<Rightarrow> kiosk_target" where
  "cancelled_target now_ms t = t\<lparr>
     kt_lifecycle := Cancelled,
     kt_cancel_disposition := CancelledBeforeDispatch,
     kt_reason_code := ''cancelled_before_dispatch'',
     kt_message := ''Cancelled before any owner request was sent'',
     kt_last_transition_ms := now_ms\<rparr>"

definition complete_kiosk_show_controls_cancellation ::
  "'a hub_state_scheme \<Rightarrow> string \<Rightarrow> string \<Rightarrow> i64 \<Rightarrow>
   'a hub_state_scheme \<times> (hub_error + kiosk_operation)" where
  "complete_kiosk_show_controls_cancellation h operation_id device_id now_ms =
    attempt h (find_kiosk_operation h operation_id) (\<lambda>op.
    attempt h (require_monotonic_time op now_ms) (\<lambda>_.
    attempt h (find_target op device_id) (\<lambda>t.
    if kt_lifecycle t = Cancelled then (h, Inr op)
    else if kt_lifecycle t \<noteq> CancellationRequested
    then (h, Inl (hub_error ''kiosk_cancellation_state_invalid''
      ''target has no pre-dispatch cancellation request to complete''))
    else attempt h (target_mut op device_id (cancelled_target now_ms))
      (commit_operation h operation_id))))"

end
