(* ===== verification/Operation_Store.thy ===== *)
theory Operation_Store
  imports Ordered_Map
begin

text \<open>
  The contract every operation family of the Hub follows: a store of operations by ID, methods
  that either leave the store alone or put one operation that passed its validator, and put it
  under the ID they were given, as a fresh operation or a legal evolution of the one found there. The locale
  states that discipline once; what a client gets from it (the store stays valid, errors change
  nothing, other operations are untouched, every stored operation only evolves) is proved here
  and holds for each family that interprets it.
\<close>

locale operation_store =
  fixes get_op :: "'s \<Rightarrow> string \<Rightarrow> 'op option"
    and put_op :: "string \<Rightarrow> 'op \<Rightarrow> 's \<Rightarrow> 's"
    and id_of :: "'op \<Rightarrow> string"
    and ok :: "'op \<Rightarrow> bool"
    and fresh :: "'op \<Rightarrow> bool"
    and evolves :: "'op \<Rightarrow> 'op \<Rightarrow> bool"
  assumes get_put: "get_op (put_op k x s) k' = (if k' = k then Some x else get_op s k')"
    and evolves_id: "evolves x y \<Longrightarrow> id_of y = id_of x"
    and evolves_refl: "evolves x x"
begin

definition store_ok :: "'s \<Rightarrow> bool" where
  "store_ok s \<longleftrightarrow> (\<forall>k x. get_op s k = Some x \<longrightarrow> ok x \<and> id_of x = k)"

text \<open>The three ways a method may return.\<close>

definition kept :: "'s \<Rightarrow> string \<Rightarrow> 's \<times> ('e + 'op) \<Rightarrow> bool" where
  "kept s k r \<longleftrightarrow> fst r = s \<and> (\<forall>x. snd r = Inr x \<longrightarrow> get_op s k = Some x)"

definition created :: "'s \<Rightarrow> string \<Rightarrow> 's \<times> ('e + 'op) \<Rightarrow> bool" where
  "created s k r \<longleftrightarrow>
     (\<exists>x. get_op s k = None \<and> ok x \<and> fresh x \<and> id_of x = k \<and> r = (put_op k x s, Inr x))"

definition evolved :: "'s \<Rightarrow> string \<Rightarrow> 's \<times> ('e + 'op) \<Rightarrow> bool" where
  "evolved s k r \<longleftrightarrow>
     (\<exists>x y. get_op s k = Some x \<and> evolves x y \<and> ok y \<and> r = (put_op k y s, Inr y))"

definition outcome :: "'s \<Rightarrow> string \<Rightarrow> 's \<times> ('e + 'op) \<Rightarrow> bool" where
  "outcome s k r \<longleftrightarrow> kept s k r \<or> created s k r \<or> evolved s k r"

lemma outcome_error [intro]: "outcome s k (s, Inl e)"
  by (simp add: outcome_def kept_def)

lemma outcome_found: "get_op s k = Some x \<Longrightarrow> outcome s k (s, Inr x)"
  by (simp add: outcome_def kept_def)

lemma outcome_cases:
  assumes "outcome s k r"
  obtains (kept) "fst r = s" "\<And>x. snd r = Inr x \<Longrightarrow> get_op s k = Some x"
  | (created) x where "get_op s k = None" "ok x" "fresh x" "id_of x = k" "r = (put_op k x s, Inr x)"
  | (evolved) x y where "get_op s k = Some x" "evolves x y" "ok y" "r = (put_op k y s, Inr y)"
  using assms unfolding outcome_def kept_def created_def evolved_def by blast

lemma error_changes_nothing: "outcome s k r \<Longrightarrow> snd r = Inl e \<Longrightarrow> fst r = s"
  by (erule outcome_cases) auto

lemma store_ok_put: "store_ok s \<Longrightarrow> ok x \<Longrightarrow> id_of x = k \<Longrightarrow> store_ok (put_op k x s)"
  by (simp add: store_ok_def get_put)

lemma outcome_store_ok: "store_ok s \<Longrightarrow> outcome s k r \<Longrightarrow> store_ok (fst r)"
proof (erule outcome_cases)
  fix x y assume "store_ok s" "get_op s k = Some x" "evolves x y" "ok y" "r = (put_op k y s, Inr y)"
  moreover from this have "id_of y = k" using evolves_id by (simp add: store_ok_def)
  ultimately show "store_ok (fst r)" by (simp add: store_ok_put)
qed (simp_all add: store_ok_put)

lemma outcome_result:
  assumes "store_ok s" and "outcome s k r" and "snd r = Inr x"
  shows "get_op (fst r) k = Some x" and "ok x" and "id_of x = k"
proof -
  from assms(2,3) show *: "get_op (fst r) k = Some x"
    by (cases rule: outcome_cases) (auto simp: get_put)
  have "store_ok (fst r)" using assms(1,2) by (rule outcome_store_ok)
  with * show "ok x" "id_of x = k" by (auto simp: store_ok_def)
qed

lemma outcome_others: "outcome s k r \<Longrightarrow> j \<noteq> k \<Longrightarrow> get_op (fst r) j = get_op s j"
  by (erule outcome_cases) (auto simp: get_put)

lemma outcome_evolves:
  assumes "outcome s k r" and "get_op s j = Some x"
  shows "\<exists>y. get_op (fst r) j = Some y \<and> evolves x y"
  using assms by (cases rule: outcome_cases) (auto simp: get_put evolves_refl)

text \<open>What fresh operations satisfy and evolution keeps holds of every stored operation.\<close>

lemma outcome_invariant:
  assumes "\<And>x. fresh x \<Longrightarrow> I x" and "\<And>x y. evolves x y \<Longrightarrow> I x \<Longrightarrow> I y"
    and "\<And>j x. get_op s j = Some x \<Longrightarrow> I x" and "outcome s k r"
  shows "get_op (fst r) j = Some x \<Longrightarrow> I x"
  using assms(4)
proof (cases rule: outcome_cases)
  case kept
  then show "get_op (fst r) j = Some x \<Longrightarrow> I x" using assms(3) by simp
next
  case (created y)
  then show "get_op (fst r) j = Some x \<Longrightarrow> I x"
    using assms(1,3) by (auto simp: get_put split: if_splits)
next
  case (evolved y z)
  then show "get_op (fst r) j = Some x \<Longrightarrow> I x"
    using assms(2,3) by (auto simp: get_put split: if_splits)
qed

end

text \<open>
  The weaker discipline of the operation families that update their ledger in place and validate it
  afterwards (\<^verbatim>\<open>get_mut\<close>, assignments, \<^verbatim>\<open>validate_operation(operation)?\<close>): an error may leave a
  changed operation behind that its own validator rejects. What still holds of every stored
  operation is \<open>sound\<close>, which fresh operations have and every step keeps whatever the validator
  says. The locale states the discipline, derives what a client gets from it, and is interpreted
  by every such family.
\<close>

locale inplace_store = operation_store get_op put_op id_of ok fresh evolves
  for get_op :: "'s \<Rightarrow> string \<Rightarrow> 'op option"
    and put_op :: "string \<Rightarrow> 'op \<Rightarrow> 's \<Rightarrow> 's"
    and id_of :: "'op \<Rightarrow> string"
    and ok :: "'op \<Rightarrow> bool"
    and fresh :: "'op \<Rightarrow> bool"
    and evolves :: "'op \<Rightarrow> 'op \<Rightarrow> bool" +
  fixes sound :: "'op \<Rightarrow> bool"
  assumes fresh_sound: "ok x \<Longrightarrow> fresh x \<Longrightarrow> sound x"
    and evolves_sound: "evolves x y \<Longrightarrow> sound x \<Longrightarrow> sound y"
begin

definition sound_store :: "'s \<Rightarrow> bool" where
  "sound_store s \<longleftrightarrow> (\<forall>k x. get_op s k = Some x \<longrightarrow> sound x \<and> id_of x = k)"

text \<open>An operation is put back whatever its validator says, and the verdict is the result.\<close>

definition revised :: "'s \<Rightarrow> string \<Rightarrow> 's \<times> ('e + 'op) \<Rightarrow> bool" where
  "revised s k r \<longleftrightarrow>
     (\<exists>x y. get_op s k = Some x \<and> evolves x y \<and> fst r = put_op k y s \<and>
        (if ok y then snd r = Inr y else \<exists>e. snd r = Inl e))"

definition inplace :: "'s \<Rightarrow> string \<Rightarrow> 's \<times> ('e + 'op) \<Rightarrow> bool" where
  "inplace s k r \<longleftrightarrow> kept s k r \<or> created s k r \<or> revised s k r"

lemma inplace_error [intro]: "inplace s k (s, Inl e)"
  by (simp add: inplace_def kept_def)

lemma inplace_found: "get_op s k = Some x \<Longrightarrow> inplace s k (s, Inr x)"
  by (simp add: inplace_def kept_def)

lemma inplace_created:
  "get_op s k = None \<Longrightarrow> ok x \<Longrightarrow> fresh x \<Longrightarrow> id_of x = k \<Longrightarrow> inplace s k (put_op k x s, Inr x)"
  by (simp add: inplace_def created_def)

lemma inplace_revised:
  "get_op s k = Some x \<Longrightarrow> evolves x y \<Longrightarrow> fst r = put_op k y s \<Longrightarrow>
   (if ok y then snd r = Inr y else \<exists>e. snd r = Inl e) \<Longrightarrow> inplace s k r"
  unfolding inplace_def revised_def by blast

lemma inplace_cases:
  assumes "inplace s k r"
  obtains (kept) "fst r = s" "\<And>x. snd r = Inr x \<Longrightarrow> get_op s k = Some x"
  | (created) x where "get_op s k = None" "ok x" "fresh x" "id_of x = k" "r = (put_op k x s, Inr x)"
  | (revised) x y where "get_op s k = Some x" "evolves x y" "ok y" "r = (put_op k y s, Inr y)"
  | (spoiled) x y e where "get_op s k = Some x" "evolves x y" "\<not> ok y" "r = (put_op k y s, Inl e)"
  using assms unfolding inplace_def kept_def created_def revised_def
  by (cases r) (auto split: if_splits)

lemma inplace_sound:
  assumes "sound_store s" and "inplace s k r"
  shows "sound_store (fst r)"
  using assms(2)
proof (cases rule: inplace_cases)
  case kept
  with assms(1) show ?thesis by simp
next
  case (created x)
  with assms(1) fresh_sound show ?thesis by (auto simp: sound_store_def get_put)
next
  case (revised x y)
  then show ?thesis using assms(1) evolves_sound [OF revised(2)] evolves_id [OF revised(2)]
    by (auto simp: sound_store_def get_put)
next
  case (spoiled x y e)
  then show ?thesis using assms(1) evolves_sound [OF spoiled(2)] evolves_id [OF spoiled(2)]
    by (auto simp: sound_store_def get_put)
qed

text \<open>A success that changed the store returned what is stored, and it passes its validator.\<close>

lemma inplace_success:
  assumes "inplace s k r" and "snd r = Inr x"
  shows "get_op (fst r) k = Some x \<and> (fst r = s \<or> ok x)"
  using assms by (cases rule: inplace_cases) (auto simp: get_put)

text \<open>An error changed nothing, or it left behind an operation its validator rejects.\<close>

lemma inplace_failure:
  assumes "inplace s k r" and "snd r = Inl e"
  shows "fst r = s \<or> (\<exists>y. get_op (fst r) k = Some y \<and> \<not> ok y)"
  using assms by (cases rule: inplace_cases) (auto simp: get_put)

lemma inplace_others: "inplace s k r \<Longrightarrow> j \<noteq> k \<Longrightarrow> get_op (fst r) j = get_op s j"
  by (erule inplace_cases) (auto simp: get_put)

lemma inplace_evolves:
  assumes "inplace s k r" and "get_op s j = Some x"
  shows "\<exists>y. get_op (fst r) j = Some y \<and> evolves x y"
  using assms by (cases rule: inplace_cases) (auto simp: get_put evolves_refl)

lemma inplace_new:
  assumes "inplace s k r" and "get_op s j = None" and "get_op (fst r) j = Some y"
  shows "fresh y"
  using assms by (cases rule: inplace_cases) (auto simp: get_put split: if_splits)

end

end
