(* ===== verification/Hub_Acceptance.thy ===== *)
theory Hub_Acceptance
  imports Hub_State
begin

text \<open>
  What the acceptance of observations guarantees: the record invariant that
  \<^verbatim>\<open>FleetHub::restore\<close> demands of a snapshot, the event log's order and bound, and the lineage
  guarantee that no (identity revision, source epoch, source revision) of a device is ever
  accepted twice, over arbitrary later submissions.
\<close>

section \<open>The record invariant\<close>

definition device_record_ok ::
  "(device_observation \<Rightarrow> nat option) \<Rightarrow> (json_value \<Rightarrow> nat option) \<Rightarrow> hub_policy \<Rightarrow> u64 \<Rightarrow>
   string \<Rightarrow> device_record \<Rightarrow> bool" where
  "device_record_ok obs_bytes json_bytes policy result_revision device_id r \<longleftrightarrow>
     di_device_id (do_identity (rec_observation r)) = device_id \<and>
     valid (validate_observation obs_bytes json_bytes (rec_observation r)) \<and>
     0 \<le> rec_accepted_at_ms r \<and> 0 < rec_accepted_revision r \<and>
     rec_accepted_revision r \<le> result_revision \<and>
     length (rec_condition_history r) \<le> hp_history_limit_per_device policy \<and>
     rec_seen_source_epochs r \<noteq> [] \<and>
     length (rec_seen_source_epochs r) \<le> hp_source_epoch_limit_per_device policy \<and>
     do_source_epoch (rec_observation r) \<in> set (rec_seen_source_epochs r) \<and>
     distinct (rec_seen_source_epochs r) \<and>
     (\<forall>c\<in>set (rec_condition_history r). valid (validate_condition c))"

definition devices_ok ::
  "(device_observation \<Rightarrow> nat option) \<Rightarrow> (json_value \<Rightarrow> nat option) \<Rightarrow> 'a hub_state_scheme \<Rightarrow> bool" where
  "devices_ok obs_bytes json_bytes h \<longleftrightarrow>
     bt.all_entries (device_record_ok obs_bytes json_bytes (fh_policy h) (fh_result_revision h)) (fh_devices h)"

definition events_ok :: "'a hub_state_scheme \<Rightarrow> bool" where
  "events_ok h \<longleftrightarrow>
     length (fh_events h) \<le> hp_event_limit (fh_policy h) \<and>
     sorted_wrt (<) (map we_event_sequence (fh_events h)) \<and>
     (\<forall>e\<in>set (fh_events h). we_event_sequence e \<le> fh_event_sequence h \<and>
        we_schema e = ''rusty.fleet.watch_event.v1'')"

lemma device_record_ok_mono:
  "device_record_ok ob jb p v k r \<Longrightarrow> v \<le> v' \<Longrightarrow> device_record_ok ob jb p v' k r"
  by (simp add: device_record_ok_def)

definition admitted_record ::
  "hub_policy \<Rightarrow> u64 \<Rightarrow> device_record option \<Rightarrow> device_observation \<Rightarrow> i64 \<Rightarrow> device_record" where
  "admitted_record policy revision prior obs now_ms = \<lparr>
     rec_observation = obs, rec_accepted_at_ms = now_ms, rec_accepted_revision = revision,
     rec_condition_history = keep_last (hp_history_limit_per_device policy)
       ((case prior of None \<Rightarrow> [] | Some r \<Rightarrow> rec_condition_history r) @ do_conditions obs),
     rec_seen_source_epochs =
       (let seen = (case prior of None \<Rightarrow> [] | Some r \<Rightarrow> rec_seen_source_epochs r)
        in if do_source_epoch obs \<in> set seen then seen else seen @ [do_source_epoch obs])\<rparr>"

lemma admit_devices:
  "fh_devices (fst (admit h obs t)) =
     bt_insert (di_device_id (do_identity obs))
       (admitted_record (fh_policy h) (u64_saturating_add (fh_result_revision h) 1)
          (bt_get (fh_devices h) (di_device_id (do_identity obs))) obs t) (fh_devices h)"
  by (simp add: admit_def admitted_record_def Let_def)

lemma admit_result_revision:
  "fh_result_revision (fst (admit h obs t)) = u64_saturating_add (fh_result_revision h) 1"
  by (simp add: admit_def Let_def)

lemma admitted_record_fields [simp]:
  "rec_observation (admitted_record p v r obs t) = obs"
  "rec_accepted_at_ms (admitted_record p v r obs t) = t"
  "rec_accepted_revision (admitted_record p v r obs t) = v"
  by (simp_all add: admitted_record_def)

lemma lineage_epoch_room:
  "lineage_rejection p r obs = None \<Longrightarrow> do_source_epoch obs \<noteq> do_source_epoch (rec_observation r) \<Longrightarrow>
   do_source_epoch obs \<notin> set (rec_seen_source_epochs r) \<and>
   length (rec_seen_source_epochs r) < hp_source_epoch_limit_per_device p"
  by (auto simp: lineage_rejection_def Let_def split: if_splits)

lemma admitted_record_ok:
  assumes obs: "valid (validate_observation ob jb obs)"
    and prior: "\<forall>r. prior = Some r \<longrightarrow>
      device_record_ok ob jb p w (di_device_id (do_identity obs)) r \<and> lineage_rejection p r obs = None"
    and p: "policy_ok p" and t: "0 \<le> t" and v: "0 < v"
  shows "device_record_ok ob jb p v (di_device_id (do_identity obs)) (admitted_record p v prior obs t)"
proof -
  have conds: "\<forall>c\<in>set (do_conditions obs). valid (validate_condition c)"
    using valid_observation_fields(5) [OF obs] .
  show ?thesis
  proof (cases prior)
    case None
    have "\<forall>c\<in>set (keep_last (hp_history_limit_per_device p) (do_conditions obs)). valid (validate_condition c)"
      using conds set_keep_last [of "hp_history_limit_per_device p" "do_conditions obs"] by blast
    with None p t v obs show ?thesis
      by (simp add: device_record_ok_def admitted_record_def policy_ok_def)
  next
    case (Some r)
    with prior have ok: "device_record_ok ob jb p w (di_device_id (do_identity obs)) r"
      and lin: "lineage_rejection p r obs = None" by auto
    have "\<forall>c\<in>set (keep_last (hp_history_limit_per_device p) (rec_condition_history r @ do_conditions obs)).
        valid (validate_condition c)"
      using conds ok set_keep_last [of "hp_history_limit_per_device p" "rec_condition_history r @ do_conditions obs"]
      by (fastforce simp: device_record_ok_def)
    moreover have "do_source_epoch obs \<notin> set (rec_seen_source_epochs r) \<Longrightarrow>
        length (rec_seen_source_epochs r) < hp_source_epoch_limit_per_device p"
      using ok lineage_epoch_room [OF lin] by (fastforce simp: device_record_ok_def)
    ultimately show ?thesis
      using Some ok obs t v by (auto simp: device_record_ok_def admitted_record_def Let_def)
  qed
qed

lemma admit_devices_ok:
  assumes "devices_ok ob jb h" and "policy_ok (fh_policy h)" and "0 \<le> t"
    and rev: "fh_result_revision h \<le> u64_max"
    and obs: "valid (validate_observation ob jb obs)"
    and lin: "\<forall>r. bt_get (fh_devices h) (di_device_id (do_identity obs)) = Some r \<longrightarrow>
         lineage_rejection (fh_policy h) r obs = None"
  shows "devices_ok ob jb (fst (admit h obs t))"
proof -
  let ?v = "u64_saturating_add (fh_result_revision h) 1"
  have pos: "0 < ?v" by (simp add: u64_saturating_add_def u64_max_def)
  have "bt.all_entries (device_record_ok ob jb (fh_policy h) ?v) (fh_devices h)"
    using assms(1) unfolding devices_ok_def
    by (rule bt.all_entries_mono) (rule device_record_ok_mono [OF _ u64_saturating_add_mono [OF rev]])
  moreover have "device_record_ok ob jb (fh_policy h) ?v (di_device_id (do_identity obs))
      (admitted_record (fh_policy h) ?v (bt_get (fh_devices h) (di_device_id (do_identity obs))) obs t)"
    using assms(1) lin
    by (intro admitted_record_ok [OF obs _ assms(2,3) pos])
      (auto simp: devices_ok_def dest: bt.all_entriesD)
  ultimately show ?thesis
    by (simp add: devices_ok_def admit_devices admit_result_revision bt.all_entries_insert)
qed

lemma record_event_devices_ok [simp]: "devices_ok ob jb (record_event t d h) = devices_ok ob jb h"
  by (simp add: devices_ok_def)

section \<open>The event log\<close>

lemma sorted_wrt_keep_last: "sorted_wrt P (map f xs) \<Longrightarrow> sorted_wrt P (map f (keep_last n xs))"
  using keep_last_suffix [of xs n] by (metis map_append sorted_wrt_append)

lemma record_event_events_ok:
  assumes ok: "events_ok h" and room: "fh_event_sequence h < u64_max"
  shows "events_ok (record_event t d h)"
proof -
  define n where "n = fh_event_sequence h + 1"
  define es where "es = fh_events h @
    [\<lparr>we_schema = ''rusty.fleet.watch_event.v1'', we_event_sequence = n,
      we_observed_at_ms = t, we_decision = d\<rparr>]"
  have ev: "fh_events (record_event t d h) = keep_last (hp_event_limit (fh_policy h)) es"
    and n: "fh_event_sequence (record_event t d h) = n"
    using u64_saturating_add_Suc [OF room] by (simp_all add: record_event_def n_def es_def)
  have "sorted_wrt (<) (map we_event_sequence es)"
    using ok unfolding events_ok_def es_def n_def by (fastforce simp: sorted_wrt_append)
  then have "sorted_wrt (<) (map we_event_sequence (fh_events (record_event t d h)))"
    unfolding ev by (rule sorted_wrt_keep_last)
  moreover have "\<forall>e\<in>set es. we_event_sequence e \<le> n \<and> we_schema e = ''rusty.fleet.watch_event.v1''"
    using ok unfolding events_ok_def es_def n_def by fastforce
  then have "\<forall>e\<in>set (fh_events (record_event t d h)). we_event_sequence e \<le> n \<and>
      we_schema e = ''rusty.fleet.watch_event.v1''"
    unfolding ev using set_keep_last by fastforce
  ultimately show ?thesis
    unfolding events_ok_def n ev record_event_frame by simp
qed

lemma events_ok_cong:
  "fh_policy h' = fh_policy h \<Longrightarrow> fh_events h' = fh_events h \<Longrightarrow>
   fh_event_sequence h' = fh_event_sequence h \<Longrightarrow> events_ok h' = events_ok h"
  by (simp add: events_ok_def)

lemma accept_events_ok:
  assumes "events_ok h" and "fh_event_sequence h < u64_max"
  shows "events_ok (fst (accept_observation ob jb h obs t))"
proof (cases rule: accept_observation_cases [of ob jb obs h t])
  case admitted
  have "events_ok (fst (admit h obs t))"
    unfolding admit_def Let_def fst_conv
    by (rule record_event_events_ok) (use assms in \<open>simp_all add: events_ok_def\<close>)
  with admitted(3) show ?thesis by simp
next
  case (rejected d)
  with assms show ?thesis by (simp add: record_event_events_ok)
qed

lemma accept_devices_ok:
  assumes "devices_ok ob jb h" and "policy_ok (fh_policy h)" and "0 \<le> t"
    and "fh_result_revision h \<le> u64_max"
  shows "devices_ok ob jb (fst (accept_observation ob jb h obs t))"
proof (cases rule: accept_observation_cases [of ob jb obs h t])
  case admitted
  with assms show ?thesis by (simp add: admit_devices_ok)
next
  case (rejected d)
  with assms show ?thesis by simp
qed

text \<open>Every submission, accepted or not, is recorded as the newest event.\<close>

lemma record_event_last:
  assumes "0 < hp_event_limit (fh_policy h)"
  shows "fh_events (record_event t d h) \<noteq> [] \<and> we_decision (last (fh_events (record_event t d h))) = d"
proof -
  obtain e where e: "fh_events (record_event t d h) = keep_last (hp_event_limit (fh_policy h)) (fh_events h @ [e])"
    "we_decision e = d"
    by (simp add: record_event_def Let_def)
  show ?thesis
    using last_keep_last [of "fh_events h @ [e]", OF _ assms] by (simp add: e)
qed

section \<open>Replay\<close>

text \<open>
  \<open>left_behind i e r d\<close>: device record \<open>d\<close> has reached or passed the triple of identity revision
  \<open>i\<close>, source epoch \<open>e\<close> and source revision \<open>r\<close>.
\<close>

definition left_behind :: "u64 \<Rightarrow> string \<Rightarrow> u64 \<Rightarrow> device_record \<Rightarrow> bool" where
  "left_behind i e r d \<longleftrightarrow>
     i \<le> di_identity_revision (do_identity (rec_observation d)) \<and>
     e \<in> set (rec_seen_source_epochs d) \<and>
     (i = di_identity_revision (do_identity (rec_observation d)) \<and>
      e = do_source_epoch (rec_observation d) \<longrightarrow> r \<le> do_source_revision (rec_observation d))"

definition lineage_of :: "device_observation \<Rightarrow> u64 \<times> string \<times> u64" where
  "lineage_of obs = (di_identity_revision (do_identity obs), do_source_epoch obs, do_source_revision obs)"

lemma left_behind_rejected:
  "left_behind i e r d \<Longrightarrow> lineage_of obs = (i, e, r) \<Longrightarrow> lineage_rejection p d obs \<noteq> None"
  by (auto simp: left_behind_def lineage_of_def lineage_rejection_def Let_def)

lemma admitted_left_behind:
  "lineage_of obs = (i, e, r) \<Longrightarrow> left_behind i e r (admitted_record p v prior obs t)"
  by (auto simp: left_behind_def lineage_of_def admitted_record_def Let_def)

lemma lineage_progress:
  assumes "lineage_rejection p d obs = None"
  shows "di_identity_revision (do_identity (rec_observation d)) \<le> di_identity_revision (do_identity obs)"
    and "di_identity_revision (do_identity (rec_observation d)) < di_identity_revision (do_identity obs)
       \<Longrightarrow> do_source_revision obs = 1"
    and "do_source_epoch obs \<noteq> do_source_epoch (rec_observation d)
       \<Longrightarrow> do_source_epoch obs \<notin> set (rec_seen_source_epochs d)"
    and "di_identity_revision (do_identity (rec_observation d)) = di_identity_revision (do_identity obs)
       \<Longrightarrow> do_source_epoch obs \<noteq> do_source_epoch (rec_observation d) \<Longrightarrow> do_source_revision obs = 1"
    and "di_identity_revision (do_identity (rec_observation d)) = di_identity_revision (do_identity obs)
       \<Longrightarrow> do_source_epoch obs = do_source_epoch (rec_observation d)
       \<Longrightarrow> do_source_revision (rec_observation d) < do_source_revision obs \<and>
           do_received_time_ms (rec_observation d) \<le> do_received_time_ms obs"
  using assms by (auto simp: lineage_rejection_def Let_def split: if_splits)

lemma left_behind_admitted:
  assumes "left_behind i e r d" and "lineage_rejection p d obs = None"
  shows "left_behind i e r (admitted_record p' v (Some d) obs t)"
proof -
  note progress = lineage_progress [OF assms(2)]
  have "e \<in> set (rec_seen_source_epochs (admitted_record p' v (Some d) obs t))"
    using assms(1) by (simp add: left_behind_def admitted_record_def Let_def)
  moreover have "i \<le> di_identity_revision (do_identity obs)"
    using assms(1) progress(1) by (simp add: left_behind_def)
  moreover have "r \<le> do_source_revision obs"
    if "i = di_identity_revision (do_identity obs)" "e = do_source_epoch obs"
  proof -
    have same: "di_identity_revision (do_identity (rec_observation d)) = di_identity_revision (do_identity obs)"
      using that(1) assms(1) progress(1) by (simp add: left_behind_def)
    have "do_source_epoch obs = do_source_epoch (rec_observation d)"
      using that(2) assms(1) progress(3) by (auto simp: left_behind_def)
    with same that assms(1) progress(5) show ?thesis by (force simp: left_behind_def)
  qed
  ultimately show ?thesis by (simp add: left_behind_def)
qed

definition hub_left_behind :: "string \<Rightarrow> u64 \<Rightarrow> string \<Rightarrow> u64 \<Rightarrow> devices \<Rightarrow> bool" where
  "hub_left_behind device_id i e r ds \<longleftrightarrow>
     (\<exists>d. bt_get ds device_id = Some d \<and> left_behind i e r d)"

lemma accept_keeps_left_behind:
  assumes "hub_left_behind k i e r (fh_devices h)"
  shows "hub_left_behind k i e r (fh_devices (fst (accept_observation ob jb h obs t)))"
proof (cases rule: accept_observation_cases [of ob jb obs h t])
  case admitted
  from assms obtain d where d: "bt_get (fh_devices h) k = Some d" "left_behind i e r d"
    by (auto simp: hub_left_behind_def)
  show ?thesis
  proof (cases "k = di_device_id (do_identity obs)")
    case True
    with d admitted(2) have "lineage_rejection (fh_policy h) d obs = None" by simp
    with d True admitted(3) show ?thesis
      by (simp add: hub_left_behind_def admit_devices left_behind_admitted)
  next
    case False
    with d admitted(3) show ?thesis
      by (simp add: hub_left_behind_def admit_devices)
  qed
next
  case (rejected d)
  with assms show ?thesis by simp
qed

lemma accept_establishes_left_behind:
  assumes "is_accepted (snd (accept_observation ob jb h obs t))" and "lineage_of obs = (i, e, r)"
  shows "hub_left_behind (di_device_id (do_identity obs)) i e r
     (fh_devices (fst (accept_observation ob jb h obs t)))"
proof (cases rule: accept_observation_cases [of ob jb obs h t])
  case admitted
  with assms(2) show ?thesis
    by (simp add: hub_left_behind_def admit_devices admitted_left_behind)
next
  case (rejected d)
  with assms(1) show ?thesis by simp
qed

lemma left_behind_not_accepted:
  assumes "hub_left_behind (di_device_id (do_identity obs)) i e r (fh_devices h)"
    and "lineage_of obs = (i, e, r)"
  shows "\<not> is_accepted (snd (accept_observation ob jb h obs t))"
proof (cases rule: accept_observation_cases [of ob jb obs h t])
  case admitted
  with assms show ?thesis
    by (auto simp: hub_left_behind_def dest: left_behind_rejected)
next
  case (rejected d)
  then show ?thesis by simp
qed

end
