(* ===== verification/Hub_Kiosk_Facts.thy ===== *)
theory Hub_Kiosk_Facts
  imports Hub_Kiosk Operation_Store Hub_Acceptance
begin

text \<open>
  What the Kiosk operations guarantee: the store discipline of \<^theory_text>\<open>operation_store\<close> for every method,
  the immutability of a preview, the target state machine, and the effective-receipt rule.
\<close>

section \<open>Target evolution\<close>

text \<open>
  The moves of a target's lifecycle. A retry leads from a failed or expired attempt back to
  \<open>Dispatched\<close>.
\<close>

inductive kiosk_move :: "command_lifecycle \<Rightarrow> command_lifecycle \<Rightarrow> bool" where
  stay: "kiosk_move l l"
| confirm: "kiosk_move Proposed Accepted"
| dispatch: "kiosk_move Accepted Dispatched"
| retry: "l \<in> {Lifecycle_Failed, Expired} \<Longrightarrow> kiosk_move l Dispatched"
| run: "kiosk_move Dispatched Running"
| finish: "l \<in> {Dispatched, Running} \<Longrightarrow> m \<in> {Applied, Lifecycle_Failed, Expired} \<Longrightarrow> kiosk_move l m"
| cancel: "kiosk_move Accepted CancellationRequested"
| cancelled: "kiosk_move CancellationRequested Cancelled"

inductive_simps kiosk_move_from [simp]:
  "kiosk_move Proposed l" "kiosk_move Accepted l" "kiosk_move Rejected l" "kiosk_move Applied l"
  "kiosk_move Cancelled l" "kiosk_move CancellationRequested l" "kiosk_move Dispatched l"
  "kiosk_move Running l" "kiosk_move Lifecycle_Failed l" "kiosk_move Expired l"

definition target_evolves :: "kiosk_target \<Rightarrow> kiosk_target \<Rightarrow> bool" where
  "target_evolves t u \<longleftrightarrow>
     kt_device_id u = kt_device_id t \<and> kt_identity_revision u = kt_identity_revision t \<and>
     kt_preflight u = kt_preflight t \<and> kiosk_move (kt_lifecycle t) (kt_lifecycle u) \<and>
     (\<exists>new. kt_owner_request_ids u = kt_owner_request_ids t @ new) \<and>
     kt_last_transition_ms t \<le> kt_last_transition_ms u"

text \<open>A preview is confirmed as a whole: eligible targets leave \<open>Proposed\<close> together.\<close>

definition proposed_together :: "kiosk_operation \<Rightarrow> bool" where
  "proposed_together op \<longleftrightarrow>
     (\<forall>t\<in>set (ko_targets op). kp_eligible (kt_preflight t) \<longrightarrow> kt_lifecycle t = Proposed) \<or>
     (\<forall>t\<in>set (ko_targets op). kt_lifecycle t \<noteq> Proposed)"

definition freshly_proposed :: "kiosk_operation \<Rightarrow> bool" where
  "freshly_proposed op \<longleftrightarrow>
     (\<forall>t\<in>set (ko_targets op). kt_owner_request_ids t = [] \<and>
        kt_lifecycle t = (if kp_eligible (kt_preflight t) then Proposed else Rejected))"

definition operation_evolves :: "kiosk_operation \<Rightarrow> kiosk_operation \<Rightarrow> bool" where
  "operation_evolves op op' \<longleftrightarrow>
     ko_operation_id op' = ko_operation_id op \<and> ko_preview op' = ko_preview op \<and>
     ko_created_at_ms op' = ko_created_at_ms op \<and>
     ko_max_parallelism op' = ko_max_parallelism op \<and>
     ko_max_attempts_per_target op' = ko_max_attempts_per_target op \<and>
     list_all2 target_evolves (ko_targets op) (ko_targets op') \<and>
     (proposed_together op \<longrightarrow> proposed_together op')"

lemma freshly_proposed_together: "freshly_proposed op \<Longrightarrow> proposed_together op"
  by (simp add: freshly_proposed_def proposed_together_def)

lemma proposed_together_update [simp]:
  "proposed_together (op\<lparr>ko_lifecycle := l\<rparr>) = proposed_together op"
  by (simp add: proposed_together_def)

lemma target_evolves_refl [simp]: "target_evolves t t"
  by (simp add: target_evolves_def kiosk_move.stay)

lemma operation_evolves_refl [simp]: "operation_evolves op op"
  by (simp add: operation_evolves_def list.rel_refl)

interpretation ks: operation_store
  "\<lambda>h. bt_get (fh_kiosk_operations h)"
  "\<lambda>k op h. h\<lparr>fh_kiosk_operations := bt_insert k op (fh_kiosk_operations h)\<rparr>"
  ko_operation_id "\<lambda>op. valid (validate_kiosk_operation op)" freshly_proposed operation_evolves
  by unfold_locales (auto simp: operation_evolves_def list.rel_refl)

section \<open>Every method keeps the store discipline\<close>

lemma attempt_outcome:
  "(\<And>x. r = Inr x \<Longrightarrow> ks.outcome h k (f x)) \<Longrightarrow> ks.outcome h k (attempt h r f)"
  by (cases r) auto

lemma if_outcome:
  "(c \<Longrightarrow> ks.outcome h k a) \<Longrightarrow> (\<not> c \<Longrightarrow> ks.outcome h k b) \<Longrightarrow> ks.outcome h k (if c then a else b)"
  by simp

lemmas outcome_intros = attempt_outcome if_outcome ks.outcome_error

lemma find_kiosk_operation_Inr [simp]:
  "find_kiosk_operation h k = Inr op \<longleftrightarrow> bt_get (fh_kiosk_operations h) k = Some op"
  by (simp add: find_kiosk_operation_def split: option.split)

lemma validate_operation_Inr [simp]:
  "validate_operation op = Inr u \<longleftrightarrow> valid (validate_kiosk_operation op)"
  by (cases "validate_kiosk_operation op") (auto simp: validate_operation_def valid_def)

lemma derived_lifecycle_update [simp]: "derived_lifecycle (op\<lparr>ko_lifecycle := l\<rparr>) = derived_lifecycle op"
  by (simp add: derived_lifecycle_def)

lemma commit_outcome:
  assumes "bt_get (fh_kiosk_operations h) k = Some op"
    and "valid (validate_kiosk_operation (op'\<lparr>ko_lifecycle := derived_lifecycle op'\<rparr>)) \<Longrightarrow>
      operation_evolves op op'"
  shows "ks.outcome h k (commit_operation h k op')"
  unfolding commit_operation_def Let_def
proof (rule attempt_outcome)
  fix u assume "validate_operation (op'\<lparr>ko_lifecycle := derived_lifecycle op'\<rparr>) = Inr u"
  moreover from this have "operation_evolves op (op'\<lparr>ko_lifecycle := derived_lifecycle op'\<rparr>)"
    using assms(2) by (simp add: operation_evolves_def)
  ultimately show "ks.outcome h k (h\<lparr>fh_kiosk_operations :=
      bt_insert k (op'\<lparr>ko_lifecycle := derived_lifecycle op'\<rparr>) (fh_kiosk_operations h)\<rparr>,
      Inr (op'\<lparr>ko_lifecycle := derived_lifecycle op'\<rparr>))"
    using assms(1) unfolding ks.outcome_def ks.evolved_def by auto
qed

lemma find_target_Inr:
  "find_target op d = Inr t \<longleftrightarrow> find (\<lambda>t. kt_device_id t = d) (ko_targets op) = Some t"
  by (simp add: find_target_def split: option.split)

lemma list_ex_find: "find p xs = Some x \<Longrightarrow> list_ex p xs"
  by (induction xs) (auto split: if_splits)

text \<open>A change of one target that is past \<open>Proposed\<close>: the shape of every method below.\<close>

lemma proposed_together_update_first:
  assumes "find p (ko_targets op) = Some t" and "kt_preflight (f t) = kt_preflight t"
    and "kt_lifecycle t \<noteq> Proposed" and "kt_lifecycle (f t) \<noteq> Proposed" and "proposed_together op"
  shows "proposed_together (op\<lparr>ko_targets := update_first p f (ko_targets op)\<rparr>)"
proof -
  obtain as bs where "ko_targets op = as @ t # bs" "update_first p f (ko_targets op) = as @ f t # bs"
    using update_first_split [OF assms(1)] by blast
  with assms(2-5) show ?thesis by (auto simp: proposed_together_def)
qed

lemma target_change_outcome:
  assumes "bt_get (fh_kiosk_operations h) k = Some op" and "find_target op d = Inr t"
    and "target_evolves t (f t)" and "kt_lifecycle t \<noteq> Proposed" and "kt_lifecycle (f t) \<noteq> Proposed"
  shows "ks.outcome h k (attempt h (target_mut op d f) (commit_operation h k))"
proof (rule attempt_outcome)
  fix op' assume "target_mut op d f = Inr op'"
  then have "op' = op\<lparr>ko_targets := update_first (\<lambda>t. kt_device_id t = d) f (ko_targets op)\<rparr>"
    by (simp add: target_mut_def split: if_splits)
  then have "operation_evolves op op'"
    using list_all2_update_first [of _ _ t target_evolves f] assms(2-5)
      proposed_together_update_first [of _ op t f]
    by (simp add: operation_evolves_def find_target_Inr target_evolves_def)
  with assms(1) show "ks.outcome h k (commit_operation h k op')" by (rule commit_outcome)
qed

lemma monotonic_time:
  assumes "require_monotonic_time op now = Inr u" and "find_target op d = Inr t"
  shows "kt_last_transition_ms t \<le> now" and "ko_created_at_ms op \<le> now"
proof -
  have "t \<in> set (ko_targets op)"
    using assms(2) by (auto simp: find_target_Inr find_Some_iff)
  with assms(1) show "kt_last_transition_ms t \<le> now" "ko_created_at_ms op \<le> now"
    by (auto simp: require_monotonic_time_def list_ex_iff split: if_splits)
qed

text \<open>The prefix shared by the methods that act on one target.\<close>

lemma targeted_outcome:
  assumes "\<And>op t. bt_get (fh_kiosk_operations h) k = Some op \<Longrightarrow> find_target op d = Inr t \<Longrightarrow>
     kt_last_transition_ms t \<le> now \<Longrightarrow> ks.outcome h k (body op t)"
  shows "ks.outcome h k (attempt h (find_kiosk_operation h k) (\<lambda>op.
     attempt h (require_monotonic_time op now) (\<lambda>_. attempt h (find_target op d) (body op))))"
  by (intro attempt_outcome assms) (auto dest: monotonic_time)

lemma dispatch_rejection_None:
  "dispatch_rejection op t d r now = None \<longleftrightarrow>
     now \<le> kv_expires_at_ms (ko_preview op) \<and>
     kt_lifecycle t \<in> {Accepted, Lifecycle_Failed, Expired} \<and>
     kt_attempt_count t < ko_max_attempts_per_target op \<and>
     r \<notin> set (kt_owner_request_ids t) \<and> is_owner_request_id r \<and>
     inflight_count op < ko_max_parallelism op"
  by (auto simp: dispatch_rejection_def split: if_splits)

lemma dispatch_outcome: "ks.outcome h k (dispatch_kiosk_show_controls h k d r now)"
  unfolding dispatch_kiosk_show_controls_def
proof (rule targeted_outcome)
  fix op t
  assume op: "bt_get (fh_kiosk_operations h) k = Some op" and t: "find_target op d = Inr t"
    and time: "kt_last_transition_ms t \<le> now"
  have "ks.outcome h k (case dispatch_rejection op t d r now of
      None \<Rightarrow> attempt h (require_target_current h t now) (\<lambda>_.
        attempt h (target_mut op d (dispatched_target r now (kv_expires_at_ms (ko_preview op))
          (ko_max_attempts_per_target op))) (commit_operation h k))
    | Some e \<Rightarrow> (h, Inl e))"
  proof (cases "dispatch_rejection op t d r now")
    case None
    then have ev: "target_evolves t (dispatched_target r now e m t)" "kt_lifecycle t \<noteq> Proposed"
      "kt_lifecycle (dispatched_target r now e m t) \<noteq> Proposed" for e m
      using time by (auto simp: dispatch_rejection_None target_evolves_def dispatched_target_def Let_def)
    show ?thesis
      unfolding None option.case
      by (rule attempt_outcome, rule target_change_outcome, rule op, rule t, (rule ev)+)
  qed auto
  with op show "ks.outcome h k (if kt_lifecycle t \<in> {Dispatched, Running, Applied} \<and>
      kt_owner_request_id t = Some r then (h, Inr op)
    else (case dispatch_rejection op t d r now of
      None \<Rightarrow> attempt h (require_target_current h t now) (\<lambda>_.
        attempt h (target_mut op d (dispatched_target r now (kv_expires_at_ms (ko_preview op))
          (ko_max_attempts_per_target op))) (commit_operation h k))
    | Some e \<Rightarrow> (h, Inl e)))"
    by (simp add: ks.outcome_found)
qed

lemma running_outcome: "ks.outcome h k (mark_kiosk_show_controls_running h k d now)"
  unfolding mark_kiosk_show_controls_running_def transition_inflight_def
  by (rule targeted_outcome)
    (auto simp: target_evolves_def running_target_def intro!: target_change_outcome ks.outcome_found)

lemma receipt_outcome:
  "ks.outcome h (kr_operation_id receipt) (apply_kiosk_show_controls_receipt h receipt now)"
  unfolding apply_kiosk_show_controls_receipt_def
  by (rule targeted_outcome)
    (auto simp: target_evolves_def applied_target_def split: sum.split
      intro!: target_change_outcome ks.outcome_found)

lemma finish_outcome:
  assumes "lifecycle \<in> {Lifecycle_Failed, Expired}"
  shows "ks.outcome h k (finish_owner_attempt h k d reason message now lifecycle)"
  unfolding finish_owner_attempt_def
  using assms by (intro if_outcome targeted_outcome)
    (auto simp: target_evolves_def finished_target_def intro!: target_change_outcome ks.outcome_found)

lemma request_cancellation_outcome:
  "ks.outcome h k (request_kiosk_show_controls_cancellation h k d now)"
  unfolding request_kiosk_show_controls_cancellation_def
  by (rule targeted_outcome)
    (auto simp: target_evolves_def cancelling_target_def
      intro!: target_change_outcome ks.outcome_found)

lemma complete_cancellation_outcome:
  "ks.outcome h k (complete_kiosk_show_controls_cancellation h k d now)"
  unfolding complete_kiosk_show_controls_cancellation_def
  by (rule targeted_outcome)
    (auto simp: target_evolves_def cancelled_target_def
      intro!: target_change_outcome ks.outcome_found)

text \<open>
  A confirmation touches every eligible target. That each of them was proposed (or already
  accepted) follows from the validators: of the ledger before and of the one written back.
\<close>

lemma confirmable_target:
  assumes "kiosk_target_ok i m c e t" and "kiosk_target_ok i m c e (confirm_target now t)"
    and "kt_last_transition_ms t \<le> now"
  shows "target_evolves t (confirm_target now t)"
proof (cases "kp_eligible (kt_preflight t)")
  case True
  have "no_attempt t" "kt_cancel_disposition t = CancelableBeforeDispatch"
    using kiosk_target_state(1) [OF assms(2)] True
    by (auto simp: confirm_target_def kiosk_target_state_failures_def no_attempt_def)
  then have "kt_lifecycle t \<in> {Proposed, Accepted}"
    using kiosk_target_state(1) [OF assms(1) True] kiosk_target_okD(5) [OF assms(1)]
    by (auto simp: kiosk_target_state_failures_def no_attempt_def has_attempt_def
        split: command_lifecycle.splits)
  with assms(3) show ?thesis
    by (auto simp: target_evolves_def confirm_target_def)
next
  case False
  then show ?thesis by (simp add: confirm_target_def)
qed

lemma valid_kiosk_operation_targets:
  "valid (validate_kiosk_operation op) \<Longrightarrow> t \<in> set (ko_targets op) \<Longrightarrow>
   kiosk_target_ok (ko_operation_id op) (ko_max_attempts_per_target op)
     (kv_created_at_ms (ko_preview op)) (kv_expires_at_ms (ko_preview op)) t"
  by (simp add: valid_kiosk_operation)

lemma confirm_evolves:
  assumes old: "valid (validate_kiosk_operation op)"
    and new: "valid (validate_kiosk_operation (op\<lparr>ko_targets := map (confirm_target now) (ko_targets op),
      ko_lifecycle := l\<rparr>))"
    and time: "require_monotonic_time op now = Inr u"
  shows "operation_evolves op (op\<lparr>ko_targets := map (confirm_target now) (ko_targets op)\<rparr>)"
proof -
  have "target_evolves t (confirm_target now t)" if "t \<in> set (ko_targets op)" for t
  proof (rule confirmable_target)
    show "kiosk_target_ok (ko_operation_id op) (ko_max_attempts_per_target op)
        (kv_created_at_ms (ko_preview op)) (kv_expires_at_ms (ko_preview op)) t"
      using old that by (rule valid_kiosk_operation_targets)
    show "kiosk_target_ok (ko_operation_id op) (ko_max_attempts_per_target op)
        (kv_created_at_ms (ko_preview op)) (kv_expires_at_ms (ko_preview op)) (confirm_target now t)"
      using valid_kiosk_operation_targets [OF new, of "confirm_target now t"] that by simp
    show "kt_last_transition_ms t \<le> now"
      using time that by (auto simp: require_monotonic_time_def list_ex_iff split: if_splits)
  qed
  moreover have "proposed_together (op\<lparr>ko_targets := map (confirm_target now) (ko_targets op)\<rparr>)"
    if "proposed_together op"
  proof -
    have "\<forall>t\<in>set (ko_targets op). \<not> kp_eligible (kt_preflight t) \<longrightarrow> kt_lifecycle t = Rejected"
      using valid_kiosk_operation_targets [OF old] kiosk_target_ineligible by blast
    with that show ?thesis by (auto simp: proposed_together_def confirm_target_def)
  qed
  ultimately show ?thesis
    by (simp add: operation_evolves_def list.rel_map list.rel_refl_strong)
qed

lemma confirm_outcome:
  assumes "ks.store_ok h"
  shows "ks.outcome h k (confirm_kiosk_show_controls h k p now)"
  unfolding confirm_kiosk_show_controls_def
proof (intro attempt_outcome if_outcome)
  fix op u1 u2 u3
  assume op: "find_kiosk_operation h k = Inr op" and time: "require_monotonic_time op now = Inr u2"
  from op show "ks.outcome h k (h, Inr op)" by (simp add: ks.outcome_found)
  have ok: "valid (validate_kiosk_operation op)"
    using assms op by (simp add: ks.store_ok_def)
  show "ks.outcome h k (commit_operation h k (op\<lparr>ko_targets := map (confirm_target now) (ko_targets op)\<rparr>))"
    by (rule commit_outcome) (use op in simp, rule confirm_evolves [OF ok _ time], simp)
qed auto

lemma confirm_request_outcome:
  "ks.store_ok h \<Longrightarrow>
   ks.outcome h (oer_operation_id request) (confirm_kiosk_show_controls_request h request now)"
  by (auto simp: confirm_kiosk_show_controls_request_def confirm_outcome split: sum.split)

lemma preview_outcome: "ks.outcome h (kpp_operation_id plan) (preview_kiosk_show_controls h plan)"
  unfolding preview_kiosk_show_controls_def
proof (rule attempt_outcome)
  let ?k = "kpp_operation_id plan"
  show "ks.outcome h ?k (case bt_get (fh_kiosk_operations h) ?k of
      None \<Rightarrow> attempt h (freeze_targets h (kpp_created_at_ms plan) (entries (opr_targets (kpp_request plan))))
        (\<lambda>preflights. let op = proposed_operation (fh_result_revision h) plan preflights;
             op = op\<lparr>ko_lifecycle := derived_lifecycle op\<rparr>
         in attempt h (validate_operation op) (\<lambda>_.
             if bt_len (fh_kiosk_operations h) \<ge> max_kiosk_operations
             then (h, Inl (hub_error ''kiosk_operation_limit_reached''
               (''Fleet Hub retains at most '' @ show_nat max_kiosk_operations @ '' Kiosk operations'')))
             else (h\<lparr>fh_kiosk_operations :=
                 bt_insert (ko_operation_id op) op (fh_kiosk_operations h)\<rparr>, Inr op)))
    | Some existing \<Rightarrow> if plan_matches_operation plan existing then (h, Inr existing)
        else (h, Inl (hub_error ''kiosk_operation_id_conflict''
          ''operation ID already names a different immutable preview'')))"
  proof (cases "bt_get (fh_kiosk_operations h) ?k")
    case None
    show ?thesis
      unfolding None option.case Let_def
    proof (intro attempt_outcome if_outcome)
      fix ps u
      let ?op = "proposed_operation (fh_result_revision h) plan ps
        \<lparr>ko_lifecycle := derived_lifecycle (proposed_operation (fh_result_revision h) plan ps)\<rparr>"
      assume "validate_operation ?op = Inr u"
      moreover have "ko_operation_id ?op = ?k" "freshly_proposed ?op"
        by (auto simp: proposed_operation_def freshly_proposed_def proposed_target_def Let_def)
      ultimately show "ks.outcome h ?k (h\<lparr>fh_kiosk_operations :=
          bt_insert (ko_operation_id ?op) ?op (fh_kiosk_operations h)\<rparr>, Inr ?op)"
        using None unfolding ks.outcome_def ks.created_def by auto
    qed auto
  next
    case (Some existing)
    then show ?thesis by (auto simp: ks.outcome_found)
  qed
qed

text \<open>
  The guards of the Kiosk methods are enough: when they pass, the ledger the method writes back
  passes the contract validator, so the method returns the updated operation and never the
  internal error \<^verbatim>\<open>kiosk_operation_invalid\<close>. The one gap is a dispatch at the exact expiry instant.
\<close>

section \<open>Changing one target of a valid operation\<close>

lemma derived_lifecycle_no_cleanup [simp]: "derived_lifecycle op \<notin> {CleanupPending, Cleaned}"
  by (simp add: derived_lifecycle_def Let_def)

text \<open>The operation a method writes back after changing the target of device \<open>d\<close>.\<close>

definition with_target ::
  "kiosk_operation \<Rightarrow> string \<Rightarrow> (kiosk_target \<Rightarrow> kiosk_target) \<Rightarrow> kiosk_operation" where
  "with_target op d f =
    (let op' = op\<lparr>ko_targets := update_first (\<lambda>t. kt_device_id t = d) f (ko_targets op)\<rparr>
     in op'\<lparr>ko_lifecycle := derived_lifecycle op'\<rparr>)"

definition target_ok_in :: "kiosk_operation \<Rightarrow> kiosk_target \<Rightarrow> bool" where
  "target_ok_in op t \<longleftrightarrow> kiosk_target_ok (ko_operation_id op) (ko_max_attempts_per_target op)
     (kv_created_at_ms (ko_preview op)) (kv_expires_at_ms (ko_preview op)) t"

lemma inflight_with_target:
  assumes "find_target op d = Inr t"
  shows "inflight_count (with_target op d f) + (if is_inflight t then 1 else 0) =
     inflight_count op + (if is_inflight (f t) then 1 else 0)"
proof -
  obtain as bs where "ko_targets op = as @ t # bs"
    "update_first (\<lambda>t. kt_device_id t = d) f (ko_targets op) = as @ f t # bs"
    using update_first_split [OF assms [unfolded find_target_Inr]] by blast
  then show ?thesis
    by (simp add: with_target_def Let_def inflight_count_def)
qed

lemma valid_with_target:
  assumes op: "valid (validate_kiosk_operation op)" and t: "find_target op d = Inr t"
    and ok: "target_ok_in op (f t)"
    and keeps: "\<And>u. kt_device_id (f u) = kt_device_id u" "\<And>u. kt_preflight (f u) = kt_preflight u"
    and room: "is_inflight (f t) \<Longrightarrow> is_inflight t \<or> inflight_count op < ko_max_parallelism op"
  shows "valid (validate_kiosk_operation (with_target op d f))"
proof -
  obtain as bs where split: "ko_targets op = as @ t # bs"
    "update_first (\<lambda>t. kt_device_id t = d) f (ko_targets op) = as @ f t # bs"
    using update_first_split [OF t [unfolded find_target_Inr]] by blast
  have new: "ko_targets (with_target op d f) = as @ f t # bs"
    by (simp add: with_target_def Let_def split(2))
  have same: "ko_operation_id (with_target op d f) = ko_operation_id op"
    "ko_preview (with_target op d f) = ko_preview op"
    "ko_max_attempts_per_target (with_target op d f) = ko_max_attempts_per_target op"
    "ko_max_parallelism (with_target op d f) = ko_max_parallelism op"
    "ko_schema (with_target op d f) = ko_schema op" "ko_action_id (with_target op d f) = ko_action_id op"
    "ko_created_at_ms (with_target op d f) = ko_created_at_ms op"
    "ko_cleanup_required (with_target op d f) = ko_cleanup_required op"
    by (simp_all add: with_target_def Let_def)
  note parts = op [unfolded valid_kiosk_operation]
  have lifecycle: "ko_lifecycle (with_target op d f) = derived_lifecycle (with_target op d f)"
    by (simp add: with_target_def Let_def)
  have head: "kiosk_operation_head_failures (with_target op d f) = []"
    using parts derived_lifecycle_no_cleanup [of "with_target op d f"]
    unfolding kiosk_head_iff same lifecycle by (simp add: new split(1))
  have "inflight_count (with_target op d f) \<le> ko_max_parallelism op"
    using inflight_with_target [OF t, of f] room parts by (auto split: if_splits)
  moreover have "map kt_device_id (ko_targets (with_target op d f)) = map kt_device_id (ko_targets op)"
    by (simp add: new split(1) keeps)
  moreover have "bt_get (preview_targets (ko_preview op)) (kt_device_id (f t)) = Some (kt_preflight (f t))"
    using parts by (simp add: split(1) keeps)
  ultimately show ?thesis
    using parts ok head lifecycle unfolding valid_kiosk_operation same new target_ok_in_def split(1)
    by auto
qed

lemma commit_with_target:
  assumes t: "find_target op d = Inr t" and "valid (validate_kiosk_operation (with_target op d f))"
  shows "attempt h (target_mut op d f) (commit_operation h k) =
    (h\<lparr>fh_kiosk_operations := bt_insert k (with_target op d f) (fh_kiosk_operations h)\<rparr>,
     Inr (with_target op d f))"
proof -
  let ?op = "op\<lparr>ko_targets := update_first (\<lambda>t. kt_device_id t = d) f (ko_targets op)\<rparr>"
  have "target_mut op d f = Inr ?op"
    using t by (auto simp: target_mut_def find_target_Inr dest: list_ex_find)
  moreover have "?op\<lparr>ko_lifecycle := derived_lifecycle ?op\<rparr> = with_target op d f"
    by (simp only: with_target_def Let_def)
  moreover have "validate_operation (with_target op d f) = Inr ()"
    using assms(2) by simp
  ultimately show ?thesis
    by (simp only: commit_operation_def Let_def attempt_simps)
qed

text \<open>The target the method asked for is the one the new operation holds.\<close>

lemma find_with_target:
  assumes "find_target op d = Inr t" and "\<And>u. kt_device_id (f u) = kt_device_id u"
  shows "find_target (with_target op d f) d = Inr (f t)"
proof -
  have "find (\<lambda>t. kt_device_id t = d) (update_first (\<lambda>t. kt_device_id t = d) f xs) = Some (f t)"
    if "find (\<lambda>t. kt_device_id t = d) xs = Some t" for xs
    using that by (induction xs) (auto simp: assms(2) split: if_splits)
  with assms(1) show ?thesis
    by (simp add: find_target_Inr with_target_def Let_def)
qed

section \<open>Valid target ledgers, lifecycle by lifecycle\<close>

text \<open>The part of the target validator that does not depend on the lifecycle.\<close>

definition target_frame_ok :: "kiosk_operation \<Rightarrow> kiosk_target \<Rightarrow> bool" where
  "target_frame_ok op t \<longleftrightarrow>
     kiosk_target_binding_failures (ko_max_attempts_per_target op) (kv_created_at_ms (ko_preview op))
       (kv_expires_at_ms (ko_preview op)) t = [] \<and>
     kiosk_target_attempt_failures (ko_max_attempts_per_target op) t = []"

lemma target_frame_iff:
  "target_frame_ok op t \<longleftrightarrow>
     \<not> is_blank (kt_device_id t) \<and> \<not> is_blank (kt_reason_code t) \<and> \<not> is_blank (kt_message t) \<and>
     valid (validate_preflight (kt_preflight t)) \<and> kt_device_id t = kp_device_id (kt_preflight t) \<and>
     kt_identity_revision t = kp_identity_revision (kt_preflight t) \<and>
     kt_attempt_count t \<le> ko_max_attempts_per_target op \<and>
     (\<forall>d. kt_dispatched_at_ms t = Some d \<longrightarrow> kv_created_at_ms (ko_preview op) \<le> d \<and>
        d \<le> kv_expires_at_ms (ko_preview op) \<and> d \<le> kt_last_transition_ms t) \<and>
     valid_owner_deadline (kt_dispatched_at_ms t) (kt_owner_deadline_at_ms t)
       (kv_expires_at_ms (ko_preview op)) \<and>
     length (kt_owner_request_ids t) = kt_attempt_count t \<and> distinct (kt_owner_request_ids t) \<and>
     (\<forall>r\<in>set (kt_owner_request_ids t). is_owner_request_id r) \<and>
     kt_owner_request_id t = last_option (kt_owner_request_ids t) \<and>
     kt_lifecycle t \<notin> {CleanupPending, Cleaned}"
proof -
  have last: "(\<forall>y. last_option xs = Some y \<longrightarrow> P y) \<longleftrightarrow> (xs \<noteq> [] \<longrightarrow> P (last xs))" for xs :: "string list" and P
    by (simp add: last_option_def)
  have unique: "unique_count xs \<noteq> length xs \<longleftrightarrow> \<not> distinct xs" for xs :: "string list"
    by simp
  have "kiosk_target_attempt_failures m t = [] \<longleftrightarrow>
      length (kt_owner_request_ids t) = kt_attempt_count t \<and> length (kt_owner_request_ids t) \<le> m \<and>
      distinct (kt_owner_request_ids t) \<and> (\<forall>r\<in>set (kt_owner_request_ids t). is_owner_request_id r) \<and>
      (\<forall>y. kt_owner_request_id t = Some y \<longrightarrow> is_owner_request_id y) \<and>
      kt_owner_request_id t = last_option (kt_owner_request_ids t) \<and>
      kt_lifecycle t \<notin> {CleanupPending, Cleaned}" for m
    unfolding kiosk_target_attempt_failures_def unique by (auto simp: list_ex_iff not_less)
  then show ?thesis
    unfolding target_frame_ok_def kiosk_target_binding_failures_def
    by (auto simp: not_less last_option_def split: if_splits)
qed

lemma eligible_target_ok:
  "kp_eligible (kt_preflight t) \<Longrightarrow>
   target_ok_in op t \<longleftrightarrow> target_frame_ok op t \<and>
     kiosk_target_state_failures (ko_max_attempts_per_target op) t = [] \<and>
     kiosk_target_receipt_failures (ko_operation_id op) t = []"
  by (auto simp: target_ok_in_def target_frame_ok_def kiosk_target_ok_def validate_for_operation_def Let_def)

lemma not_rejected_eligible:
  "target_ok_in op t \<Longrightarrow> kt_lifecycle t \<noteq> Rejected \<Longrightarrow> kp_eligible (kt_preflight t)"
  unfolding target_ok_in_def using kiosk_target_ineligible by blast

lemma no_receipt_failures [simp]:
  "kt_effective_receipt t = None \<Longrightarrow> kiosk_target_receipt_failures k t = []"
  by (simp add: kiosk_target_receipt_failures_def)

lemma found_target_ok:
  "valid (validate_kiosk_operation op) \<Longrightarrow> find_target op d = Inr t \<Longrightarrow> target_ok_in op t \<and> kt_device_id t = d"
  by (auto simp: target_ok_in_def find_target_Inr find_Some_iff intro: valid_kiosk_operation_targets)

section \<open>Progress of the methods on one target\<close>

text \<open>The state shared by the progress statements: a stored, valid operation at a monotone time.\<close>

definition addressed ::
  "'a hub_state_scheme \<Rightarrow> string \<Rightarrow> string \<Rightarrow> i64 \<Rightarrow> kiosk_operation \<Rightarrow> kiosk_target \<Rightarrow> bool" where
  "addressed h k d now op t \<longleftrightarrow>
     bt_get (fh_kiosk_operations h) k = Some op \<and> valid (validate_kiosk_operation op) \<and>
     require_monotonic_time op now = Inr () \<and> find_target op d = Inr t"

definition stored :: "'a hub_state_scheme \<Rightarrow> string \<Rightarrow> kiosk_operation \<Rightarrow> 'a hub_state_scheme" where
  "stored h k op = h\<lparr>fh_kiosk_operations := bt_insert k op (fh_kiosk_operations h)\<rparr>"

lemma valid_operation_passes [simp]:
  "valid (validate_kiosk_operation op) \<Longrightarrow> validate_operation op = Inr ()"
  by (simp only: validate_operation_Inr)

lemma commit_valid:
  assumes "valid (validate_kiosk_operation (op\<lparr>ko_lifecycle := derived_lifecycle op\<rparr>))"
  shows "commit_operation h k op = (stored h k (op\<lparr>ko_lifecycle := derived_lifecycle op\<rparr>),
     Inr (op\<lparr>ko_lifecycle := derived_lifecycle op\<rparr>))"
proof -
  have "validate_operation (op\<lparr>ko_lifecycle := derived_lifecycle op\<rparr>) = Inr ()"
    using assms by (simp only: validate_operation_Inr)
  then show ?thesis by (simp only: commit_operation_def Let_def attempt_simps stored_def)
qed

lemma addressed_prefix:
  assumes "addressed h k d now op t"
  shows "attempt h (find_kiosk_operation h k) (\<lambda>op.
     attempt h (require_monotonic_time op now) (\<lambda>_. attempt h (find_target op d) (body op))) = body op t"
  using assms by (simp add: addressed_def find_kiosk_operation_def)

lemma addressed_facts:
  assumes "addressed h k d now op t"
  shows "target_ok_in op t" and "kt_device_id t = d" and "kt_last_transition_ms t \<le> now"
    and "ko_created_at_ms op \<le> now" and "kv_created_at_ms (ko_preview op) = ko_created_at_ms op"
  using assms found_target_ok [of op d t] monotonic_time [of op now "()" d t]
  by (auto simp: addressed_def valid_kiosk_operation kiosk_head_iff)

text \<open>
  A change \<open>f\<close> of an eligible target goes through if the changed ledger has a valid frame, state
  and receipt; the result holds the changed target.
\<close>

lemma change_progress:
  assumes a: "addressed h k d now op t" and elig: "kp_eligible (kt_preflight t)"
    and keeps: "\<And>u. kt_device_id (f u) = kt_device_id u" "\<And>u. kt_preflight (f u) = kt_preflight u"
    and ok: "target_frame_ok op (f t)"
      "kiosk_target_state_failures (ko_max_attempts_per_target op) (f t) = []"
      "kiosk_target_receipt_failures (ko_operation_id op) (f t) = []"
    and room: "is_inflight (f t) \<Longrightarrow> is_inflight t \<or> inflight_count op < ko_max_parallelism op"
  shows "\<exists>op'. attempt h (target_mut op d f) (commit_operation h k) = (stored h k op', Inr op') \<and>
     find_target op' d = Inr (f t) \<and> ko_max_attempts_per_target op' = ko_max_attempts_per_target op"
proof (intro exI conjI)
  have op: "valid (validate_kiosk_operation op)" and t: "find_target op d = Inr t"
    using a by (simp_all add: addressed_def)
  have "target_ok_in op (f t)"
    using ok elig by (subst eligible_target_ok) (simp_all add: keeps)
  then show "attempt h (target_mut op d f) (commit_operation h k) =
      (stored h k (with_target op d f), Inr (with_target op d f))"
    unfolding stored_def
    by (intro commit_with_target [OF t] valid_with_target [OF op t] keeps room)
  show "find_target (with_target op d f) d = Inr (f t)"
    using t keeps(1) by (rule find_with_target)
  show "ko_max_attempts_per_target (with_target op d f) = ko_max_attempts_per_target op"
    by (simp add: with_target_def Let_def)
qed

lemma inflight_ok:
  assumes "target_ok_in op t" and "kt_lifecycle t \<in> {Dispatched, Running}"
  shows "has_attempt t" and "kt_effective_receipt t = None" and "kt_retry_disposition t = NotEligible"
    and "kt_cancel_disposition t = NotCancelableAfterDispatch" and "target_frame_ok op t"
    and "kp_eligible (kt_preflight t)"
proof -
  show e: "kp_eligible (kt_preflight t)"
    using assms not_rejected_eligible by auto
  show "has_attempt t" "kt_effective_receipt t = None" "kt_retry_disposition t = NotEligible"
    "kt_cancel_disposition t = NotCancelableAfterDispatch" "target_frame_ok op t"
    using assms eligible_target_ok [OF e, of op] by (auto simp: kiosk_target_state_failures_def)
qed

lemma running_progress:
  assumes a: "addressed h k d now op t" and s: "kt_lifecycle t = Dispatched"
  shows "\<exists>op'. mark_kiosk_show_controls_running h k d now = (stored h k op', Inr op') \<and>
     (\<exists>t'. find_target op' d = Inr t' \<and> kt_lifecycle t' = Running)"
proof -
  let ?f = "running_target Running ''owner_result_pending''
    ''Kiosk accepted the request; signed effective readback is pending'' now"
  note facts = inflight_ok [OF addressed_facts(1) [OF a]] and time = addressed_facts(3) [OF a]
  have "target_frame_ok op (?f t)"
    using facts(5) s time by (fastforce simp: target_frame_iff running_target_def is_blank.simps)
  then have "\<exists>op'. attempt h (target_mut op d ?f) (commit_operation h k) = (stored h k op', Inr op') \<and>
      find_target op' d = Inr (?f t) \<and> ko_max_attempts_per_target op' = ko_max_attempts_per_target op"
    using s facts by (intro change_progress [OF a]) (auto simp: running_target_def is_inflight_def
        kiosk_target_state_failures_def has_attempt_def)
  then show ?thesis
    using s unfolding mark_kiosk_show_controls_running_def transition_inflight_def
      addressed_prefix [OF a] by (auto simp: running_target_def)
qed

lemma receipt_progress:
  assumes a: "addressed h (kr_operation_id r) (kr_device_id r) now op t"
    and s: "kt_lifecycle t \<in> {Dispatched, Running}" and r: "valid (validate_kiosk_receipt r)"
    and binds: "kr_identity_revision r = kt_identity_revision t"
      "kt_owner_request_id t = Some (kr_owner_action_request_id r)"
      "kr_operation_id r = ko_operation_id op"
  shows "\<exists>op'. apply_kiosk_show_controls_receipt h r now = (stored h (kr_operation_id r) op', Inr op') \<and>
     (\<exists>t'. find_target op' (kr_device_id r) = Inr t' \<and> kt_lifecycle t' = Applied \<and>
        kt_effective_receipt t' = Some r)"
proof -
  note facts = inflight_ok [OF addressed_facts(1) [OF a] s] and time = addressed_facts(3) [OF a]
  have dev: "kr_device_id r = kt_device_id t" using addressed_facts(2) [OF a] by simp
  have "target_frame_ok op (applied_target r now t)"
    using facts(5) time by (fastforce simp: target_frame_iff applied_target_def is_blank.simps)
  then have "\<exists>op'. attempt h (target_mut op (kr_device_id r) (applied_target r now))
        (commit_operation h (kr_operation_id r)) = (stored h (kr_operation_id r) op', Inr op') \<and>
      find_target op' (kr_device_id r) = Inr (applied_target r now t) \<and>
      ko_max_attempts_per_target op' = ko_max_attempts_per_target op"
    using facts binds dev r by (intro change_progress [OF a]) (auto simp: applied_target_def
        is_inflight_def kiosk_target_state_failures_def has_attempt_def kiosk_target_receipt_failures_def)
  moreover have "validate_kiosk_receipt r = Inr ()"
    using r by (simp add: valid_iff_Inr)
  ultimately show ?thesis
    using s binds dev unfolding apply_kiosk_show_controls_receipt_def addressed_prefix [OF a]
    by (auto simp: applied_target_def)
qed

lemma finish_progress:
  assumes a: "addressed h k d now op t" and s: "kt_lifecycle t \<in> {Dispatched, Running}"
    and nb: "\<not> is_blank reason" "\<not> is_blank message" and l: "l \<in> {Lifecycle_Failed, Expired}"
  shows "\<exists>op'. finish_owner_attempt h k d reason message now l = (stored h k op', Inr op') \<and>
     (\<exists>t'. find_target op' d = Inr t' \<and> kt_lifecycle t' = l \<and>
        (kt_retry_disposition t' = NewOwnerRequestRequired \<longleftrightarrow>
           kt_attempt_count t' < ko_max_attempts_per_target op'))"
proof -
  let ?f = "finished_target l reason message now (ko_max_attempts_per_target op)"
  note facts = inflight_ok [OF addressed_facts(1) [OF a] s] and time = addressed_facts(3) [OF a]
  have "target_frame_ok op (?f t)"
    using facts(5) time nb l by (fastforce simp: target_frame_iff finished_target_def)
  then have "\<exists>op'. attempt h (target_mut op d ?f) (commit_operation h k) = (stored h k op', Inr op') \<and>
      find_target op' d = Inr (?f t) \<and> ko_max_attempts_per_target op' = ko_max_attempts_per_target op"
    using facts l by (intro change_progress [OF a]) (auto simp: finished_target_def is_inflight_def
        kiosk_target_state_failures_def has_attempt_def expected_retry_def)
  moreover have "kt_lifecycle t \<noteq> l" using s l by auto
  ultimately show ?thesis
    using s nb unfolding finish_owner_attempt_def addressed_prefix [OF a]
    by (auto simp: finished_target_def)
qed

lemma pre_dispatch_ok:
  assumes "target_ok_in op t" and "kt_lifecycle t \<in> {Proposed, Accepted, CancellationRequested}"
  shows "no_attempt t" and "target_frame_ok op t" and "kp_eligible (kt_preflight t)"
    and "kt_lifecycle t \<noteq> CancellationRequested \<Longrightarrow> kt_cancel_disposition t = CancelableBeforeDispatch"
proof -
  show e: "kp_eligible (kt_preflight t)"
    using assms not_rejected_eligible by auto
  show "no_attempt t" "target_frame_ok op t"
    "kt_lifecycle t \<noteq> CancellationRequested \<Longrightarrow> kt_cancel_disposition t = CancelableBeforeDispatch"
    using assms eligible_target_ok [OF e, of op] by (auto simp: kiosk_target_state_failures_def)
qed

lemma cancellation_progress:
  assumes a: "addressed h k d now op t" and s: "kt_lifecycle t = Accepted"
  shows "\<exists>op'. request_kiosk_show_controls_cancellation h k d now = (stored h k op', Inr op') \<and>
     (\<exists>t'. find_target op' d = Inr t' \<and> kt_lifecycle t' = CancellationRequested)"
proof -
  note facts = pre_dispatch_ok [OF addressed_facts(1) [OF a]] and time = addressed_facts(3) [OF a]
  have "target_frame_ok op (cancelling_target now t)"
    using facts(2) time s by (fastforce simp: target_frame_iff cancelling_target_def is_blank.simps)
  then have "\<exists>op'. attempt h (target_mut op d (cancelling_target now)) (commit_operation h k) =
        (stored h k op', Inr op') \<and> find_target op' d = Inr (cancelling_target now t) \<and>
      ko_max_attempts_per_target op' = ko_max_attempts_per_target op"
    using facts s by (intro change_progress [OF a]) (auto simp: cancelling_target_def is_inflight_def
        kiosk_target_state_failures_def no_attempt_def)
  then show ?thesis
    using s unfolding request_kiosk_show_controls_cancellation_def addressed_prefix [OF a]
    by (auto simp: cancelling_target_def)
qed

lemma cancelled_progress:
  assumes a: "addressed h k d now op t" and s: "kt_lifecycle t = CancellationRequested"
  shows "\<exists>op'. complete_kiosk_show_controls_cancellation h k d now = (stored h k op', Inr op') \<and>
     (\<exists>t'. find_target op' d = Inr t' \<and> kt_lifecycle t' = Cancelled)"
proof -
  note facts = pre_dispatch_ok [OF addressed_facts(1) [OF a]] and time = addressed_facts(3) [OF a]
  have "target_frame_ok op (cancelled_target now t)"
    using facts(2) time s by (fastforce simp: target_frame_iff cancelled_target_def is_blank.simps)
  then have "\<exists>op'. attempt h (target_mut op d (cancelled_target now)) (commit_operation h k) =
        (stored h k op', Inr op') \<and> find_target op' d = Inr (cancelled_target now t) \<and>
      ko_max_attempts_per_target op' = ko_max_attempts_per_target op"
    using facts s by (intro change_progress [OF a]) (auto simp: cancelled_target_def is_inflight_def
        kiosk_target_state_failures_def no_attempt_def)
  then show ?thesis
    using s unfolding complete_kiosk_show_controls_cancellation_def addressed_prefix [OF a]
    by (auto simp: cancelled_target_def)
qed

section \<open>Dispatch\<close>

lemma dispatchable_ok:
  assumes "target_ok_in op t" and "kt_lifecycle t \<in> {Accepted, Lifecycle_Failed, Expired}"
  shows "target_frame_ok op t" and "kp_eligible (kt_preflight t)" and "kt_effective_receipt t = None"
proof -
  show e: "kp_eligible (kt_preflight t)"
    using assms not_rejected_eligible by auto
  show "target_frame_ok op t" "kt_effective_receipt t = None"
    using assms eligible_target_ok [OF e, of op]
    by (auto simp: kiosk_target_state_failures_def no_attempt_def)
qed

lemma dispatch_message_not_blank [simp]: "\<not> is_blank (''Kiosk owner attempt '' @ s)"
  by (simp add: is_blank.simps)

lemma dispatch_reduces:
  assumes a: "addressed h k d now op t" and g: "dispatch_rejection op t d r now = None"
    and cur: "require_target_current h t now = Inr ()"
  shows "dispatch_kiosk_show_controls h k d r now =
     attempt h (target_mut op d (dispatched_target r now (kv_expires_at_ms (ko_preview op))
       (ko_max_attempts_per_target op))) (commit_operation h k)"
proof -
  have "kt_lifecycle t \<notin> {Dispatched, Running, Applied}"
    using g by (auto simp: dispatch_rejection_None)
  then show ?thesis
    unfolding dispatch_kiosk_show_controls_def addressed_prefix [OF a] by (simp add: g cur)
qed

lemma dispatch_progress:
  assumes a: "addressed h k d now op t" and g: "dispatch_rejection op t d r now = None"
    and cur: "require_target_current h t now = Inr ()" and before: "now < kv_expires_at_ms (ko_preview op)"
  shows "\<exists>op'. dispatch_kiosk_show_controls h k d r now = (stored h k op', Inr op') \<and>
     (\<exists>t'. find_target op' d = Inr t' \<and> kt_lifecycle t' = Dispatched \<and>
        kt_attempt_count t' = kt_attempt_count t + 1 \<and>
        kt_owner_request_ids t' = kt_owner_request_ids t @ [r])"
proof -
  let ?f = "dispatched_target r now (kv_expires_at_ms (ko_preview op)) (ko_max_attempts_per_target op)"
  note guards = g [unfolded dispatch_rejection_None]
  note facts = dispatchable_ok [OF addressed_facts(1) [OF a]] and time = addressed_facts(3-5) [OF a]
  have "ko_max_attempts_per_target op \<le> 8"
    using a by (simp add: addressed_def valid_kiosk_operation kiosk_head_iff)
  then have count: "u8_saturating_add (kt_attempt_count t) 1 = kt_attempt_count t + 1"
    using guards by (simp add: u8_saturating_add_def u8_max_def)
  have "target_frame_ok op (?f t)"
    using facts(1) guards time before count
    by (auto simp: target_frame_iff dispatched_target_def Let_def last_option_def
        valid_owner_deadline_def is_blank.simps)
  then have "\<exists>op'. attempt h (target_mut op d ?f) (commit_operation h k) = (stored h k op', Inr op') \<and>
      find_target op' d = Inr (?f t) \<and> ko_max_attempts_per_target op' = ko_max_attempts_per_target op"
    using facts guards count by (intro change_progress [OF a]) (auto simp: dispatched_target_def
        Let_def kiosk_target_state_failures_def has_attempt_def)
  then show ?thesis
    unfolding dispatch_reduces [OF a g cur] using count by (auto simp: dispatched_target_def Let_def)
qed

text \<open>
  At the expiry instant itself the guard \<^verbatim>\<open>now_ms > expires_at_ms\<close> passes, but the ledger's owner
  deadline would not follow the dispatch, so the write is refused with an internal error.
\<close>

lemma commit_invalid:
  assumes t: "find_target op d = Inr t" and "\<not> valid (validate_kiosk_operation (with_target op d f))"
  shows "\<exists>m. attempt h (target_mut op d f) (commit_operation h k) =
     (h, Inl (hub_error ''kiosk_operation_invalid'' m))"
proof -
  let ?op = "op\<lparr>ko_targets := update_first (\<lambda>t. kt_device_id t = d) f (ko_targets op)\<rparr>"
  have "target_mut op d f = Inr ?op"
    using t by (auto simp: target_mut_def find_target_Inr dest: list_ex_find)
  moreover have "?op\<lparr>ko_lifecycle := derived_lifecycle ?op\<rparr> = with_target op d f"
    by (simp only: with_target_def Let_def)
  moreover obtain m where "validate_operation (with_target op d f) = Inl (hub_error ''kiosk_operation_invalid'' m)"
    using assms(2)
    by (cases "validate_kiosk_operation (with_target op d f)")
      (auto simp: validate_operation_def valid_def contract_error_def)
  ultimately show ?thesis
    by (simp only: commit_operation_def Let_def attempt_simps) blast
qed

lemma dispatch_at_expiry:
  assumes a: "addressed h k d now op t" and g: "dispatch_rejection op t d r now = None"
    and cur: "require_target_current h t now = Inr ()" and at: "now = kv_expires_at_ms (ko_preview op)"
  shows "\<exists>m. dispatch_kiosk_show_controls h k d r now = (h, Inl (hub_error ''kiosk_operation_invalid'' m))"
proof -
  let ?f = "dispatched_target r now (kv_expires_at_ms (ko_preview op)) (ko_max_attempts_per_target op)"
  have t: "find_target op d = Inr t" using a by (simp add: addressed_def)
  have elig: "kp_eligible (kt_preflight t)"
    using dispatchable_ok(2) [OF addressed_facts(1) [OF a]] g by (simp add: dispatch_rejection_None)
  have same: "ko_preview (with_target op d ?f) = ko_preview op"
    by (simp add: with_target_def Let_def)
  have "\<not> target_ok_in (with_target op d ?f) (?f t)"
    using elig at by (subst eligible_target_ok)
      (simp_all add: dispatched_target_def Let_def target_frame_iff valid_owner_deadline_def same)
  moreover have "find_target (with_target op d ?f) d = Inr (?f t)"
    using t by (rule find_with_target) (simp add: dispatched_target_def Let_def)
  ultimately have "\<not> valid (validate_kiosk_operation (with_target op d ?f))"
    using found_target_ok by blast
  then show ?thesis
    unfolding dispatch_reduces [OF a g cur] by (rule commit_invalid [OF t])
qed

section \<open>Confirmation\<close>

lemma confirm_progress:
  assumes op: "bt_get (fh_kiosk_operations h) k = Some op" "valid (validate_kiosk_operation op)"
    and guards: "kv_preview_id (ko_preview op) = p" "require_monotonic_time op now = Inr ()"
      "ko_lifecycle op = Proposed" "now \<le> kv_expires_at_ms (ko_preview op)"
      "require_frozen_targets_current h op now = Inr ()"
    and fresh: "\<forall>t\<in>set (ko_targets op). kp_eligible (kt_preflight t) \<longrightarrow> kt_lifecycle t = Proposed"
  shows "\<exists>op'. confirm_kiosk_show_controls h k p now = (stored h k op', Inr op') \<and>
     (\<forall>t\<in>set (ko_targets op'). kp_eligible (kt_preflight t) \<longrightarrow> kt_lifecycle t = Accepted)"
proof -
  let ?ts = "map (confirm_target now) (ko_targets op)"
  let ?op = "op\<lparr>ko_targets := ?ts\<rparr>"
  let ?new = "?op\<lparr>ko_lifecycle := derived_lifecycle ?op\<rparr>"
  note parts = op(2) [unfolded valid_kiosk_operation]
  have ok: "target_ok_in op (confirm_target now t)" if t: "t \<in> set (ko_targets op)" for t
  proof (cases "kp_eligible (kt_preflight t)")
    case True
    have old: "target_ok_in op t" using parts t by (simp add: target_ok_in_def)
    have l: "kt_lifecycle t = Proposed" using fresh t True by blast
    note facts = pre_dispatch_ok [OF old]
    have "kt_last_transition_ms t \<le> now"
      using guards(2) t by (auto simp: require_monotonic_time_def list_ex_iff split: if_splits)
    then have "target_frame_ok op (confirm_target now t)"
      using facts(2) l True by (fastforce simp: target_frame_iff confirm_target_def is_blank.simps)
    with facts l True show ?thesis
      by (subst eligible_target_ok)
        (auto simp: confirm_target_def kiosk_target_state_failures_def no_attempt_def)
  next
    case False
    with parts t show ?thesis by (simp add: confirm_target_def target_ok_in_def)
  qed
  have keeps: "kt_device_id (confirm_target now t) = kt_device_id t"
    "kt_preflight (confirm_target now t) = kt_preflight t" for t
    by (simp_all add: confirm_target_def)
  have "\<not> is_inflight (confirm_target now t)" if t: "t \<in> set (ko_targets op)" for t
  proof (cases "kp_eligible (kt_preflight t)")
    case False
    with parts t have "kt_lifecycle t = Rejected" by (blast dest: kiosk_target_ineligible)
    with False show ?thesis by (simp add: confirm_target_def is_inflight_def)
  qed (simp add: confirm_target_def is_inflight_def)
  then have "inflight_count ?new = 0"
    by (simp add: inflight_count_def filter_empty_conv)
  moreover have "kiosk_operation_head_failures ?new = []"
    using parts derived_lifecycle_no_cleanup [of ?op] by (simp add: kiosk_head_iff)
  moreover have "map kt_device_id ?ts = map kt_device_id (ko_targets op)"
    by (simp add: keeps)
  ultimately have "valid (validate_kiosk_operation ?new)"
    using parts ok by (simp add: valid_kiosk_operation keeps target_ok_in_def comp_def)
  then have "commit_operation h k ?op = (stored h k ?new, Inr ?new)"
    by (rule commit_valid)
  then have "confirm_kiosk_show_controls h k p now = (stored h k ?new, Inr ?new)"
    using op(1) guards
    by (simp add: confirm_kiosk_show_controls_def find_kiosk_operation_def require_preview_def)
  then show ?thesis by (auto simp: confirm_target_def)
qed

section \<open>Preview\<close>

lemma freeze_targets_Inr:
  "freeze_targets h c es = Inr ps \<longleftrightarrow>
   list_all2 (\<lambda>(d, v) p. \<exists>r. bt_get (fh_devices h) d = Some r \<and>
      di_identity_revision (do_identity (rec_observation r)) = v \<and>
      p = hub_kiosk_preflight (fh_policy h) r c) es ps"
proof (induction es arbitrary: ps)
  case (Cons e es)
  obtain d v where e: "e = (d, v)" by (cases e)
  show ?case
  proof (cases "bt_get (fh_devices h) d")
    case (Some r)
    show ?thesis
      using Cons.IH Some by (cases "freeze_targets h c es") (auto simp: e list_all2_Cons1)
  qed (simp add: e list_all2_Cons1)
qed auto

lemma expected_reason_code_update [simp]:
  "expected_reason_code (p\<lparr>kp_eligible := b\<rparr>) = expected_reason_code p"
  "expected_reason_code (p\<lparr>kp_reason_code := c\<rparr>) = expected_reason_code p"
  by (simp_all add: expected_reason_code_def cong: support_state.case_cong enablement_state.case_cong
      authorization_state.case_cong reachability_state.case_cong freshness_state.case_cong)

lemma hub_kiosk_preflight_fields:
  "kp_device_id (hub_kiosk_preflight policy r c) = di_device_id (do_identity (rec_observation r))"
  "kp_identity_revision (hub_kiosk_preflight policy r c) = di_identity_revision (do_identity (rec_observation r))"
  "kp_capability_id (hub_kiosk_preflight policy r c) = kiosk_capability_id"
  "kp_capability_owner (hub_kiosk_preflight policy r c) = kiosk_owner"
  "kp_capability_evidence_revision (hub_kiosk_preflight policy r c) =
     cf_evidence_revision (kiosk_capability_facts r)"
  "kp_observed_at_ms (hub_kiosk_preflight policy r c) = cf_observed_at_ms (kiosk_capability_facts r)"
  "kp_fresh_until_ms (hub_kiosk_preflight policy r c) = cf_fresh_until_ms (kiosk_capability_facts r)"
  "kp_message (hub_kiosk_preflight policy r c) = cf_message (kiosk_capability_facts r)"
  "kp_evaluated_at_ms (hub_kiosk_preflight policy r c) = c"
  by (simp_all add: hub_kiosk_preflight_def Let_def)

lemma hub_kiosk_preflight_consistent:
  "kp_reason_code (hub_kiosk_preflight policy r c) = expected_reason_code (hub_kiosk_preflight policy r c)"
  "kp_eligible (hub_kiosk_preflight policy r c) = expected_eligibility (hub_kiosk_preflight policy r c)"
  unfolding hub_kiosk_preflight_def Let_def expected_eligibility_def expected_reason_code_update
  by simp_all

lemma preflight_valid:
  assumes r: "device_record_ok ob jb policy rr d r" and obs: "cf_observed_at_ms (kiosk_capability_facts r) \<le> c"
  shows "valid (validate_preflight (hub_kiosk_preflight policy r c))"
    and "kp_device_id (hub_kiosk_preflight policy r c) = d"
    and "kp_evaluated_at_ms (hub_kiosk_preflight policy r c) = c"
proof -
  have v: "valid (validate_observation ob jb (rec_observation r))"
    and d: "di_device_id (do_identity (rec_observation r)) = d"
    using r by (simp_all add: device_record_ok_def)
  note fields = valid_observation_fields [OF v]
  have facts: "\<not> is_blank (cf_message (kiosk_capability_facts r))"
    "0 < cf_evidence_revision (kiosk_capability_facts r)"
    "cf_observed_at_ms (kiosk_capability_facts r) \<le> cf_fresh_until_ms (kiosk_capability_facts r)"
    using fields(3,6)
    by (auto simp: kiosk_capability_facts_def valid_capabilities valid_capability is_blank.simps
        split: option.split)
  show "valid (validate_preflight (hub_kiosk_preflight policy r c))"
    using facts fields(1) obs
    by (simp add: valid_preflight hub_kiosk_preflight_fields hub_kiosk_preflight_consistent valid_identity)
  show "kp_device_id (hub_kiosk_preflight policy r c) = d"
    "kp_evaluated_at_ms (hub_kiosk_preflight policy r c) = c"
    using d by (simp_all add: hub_kiosk_preflight_fields)
qed

lemma proposed_target_ok:
  assumes "valid (validate_preflight p)" and "kp_evaluated_at_ms p = c"
  shows "target_ok_in op (proposed_target c p)"
proof -
  have "target_frame_ok op (proposed_target c p)"
    using assms by (auto simp: target_frame_iff proposed_target_def Let_def valid_preflight
        valid_owner_deadline_def last_option_def is_blank.simps)
  then show ?thesis
    by (auto simp: target_ok_in_def kiosk_target_ok_def validate_for_operation_def Let_def
        target_frame_ok_def proposed_target_def no_attempt_def kiosk_target_state_failures_def)
qed

text \<open>
  A preview plan that passes, names registered devices by their current identity revision and is
  no older than the evidence it freezes, is accepted while the store has room.
\<close>

definition plan_targets_current :: "'a hub_state_scheme \<Rightarrow> kiosk_preview_plan \<Rightarrow> bool" where
  "plan_targets_current h plan \<longleftrightarrow>
     (\<forall>d v. bt_get (opr_targets (kpp_request plan)) d = Some v \<longrightarrow>
        (\<exists>r. bt_get (fh_devices h) d = Some r \<and>
           di_identity_revision (do_identity (rec_observation r)) = v \<and>
           cf_observed_at_ms (kiosk_capability_facts r) \<le> kpp_created_at_ms plan))"

lemma freeze_current:
  assumes "plan_targets_current h plan" and "devices_ok ob jb h"
  obtains ps where "freeze_targets h (kpp_created_at_ms plan) (entries (opr_targets (kpp_request plan))) = Inr ps"
    and "map kp_device_id ps = bt_keys (opr_targets (kpp_request plan))"
    and "\<forall>p\<in>set ps. valid (validate_preflight p) \<and> kp_evaluated_at_ms p = kpp_created_at_ms plan"
proof -
  let ?es = "entries (opr_targets (kpp_request plan))"
  let ?p = "\<lambda>(d, v). hub_kiosk_preflight (fh_policy h) (the (bt_get (fh_devices h) d)) (kpp_created_at_ms plan)"
  have each: "\<exists>r. bt_get (fh_devices h) (fst e) = Some r \<and>
      di_identity_revision (do_identity (rec_observation r)) = snd e \<and>
      cf_observed_at_ms (kiosk_capability_facts r) \<le> kpp_created_at_ms plan" if "e \<in> set ?es" for e
    using assms(1) that unfolding plan_targets_current_def bt_get_Some_iff [of "opr_targets (kpp_request plan)"]
    by (metis prod.collapse)
  have good: "valid (validate_preflight (?p e)) \<and> kp_device_id (?p e) = fst e \<and>
      kp_evaluated_at_ms (?p e) = kpp_created_at_ms plan" if e: "e \<in> set ?es" for e
  proof -
    obtain r where r: "bt_get (fh_devices h) (fst e) = Some r"
      "cf_observed_at_ms (kiosk_capability_facts r) \<le> kpp_created_at_ms plan"
      using each [OF e] by blast
    have "device_record_ok ob jb (fh_policy h) (fh_result_revision h) (fst e) r"
      using assms(2) r(1) unfolding devices_ok_def by (rule bt.all_entriesD)
    from preflight_valid [OF this r(2)] show ?thesis by (simp add: split_beta r(1))
  qed
  show ?thesis
  proof (rule that)
    show "freeze_targets h (kpp_created_at_ms plan) ?es = Inr (map ?p ?es)"
      unfolding freeze_targets_Inr list.rel_map using each
      by (force simp: split_beta intro: list.rel_refl_strong)
    show "map kp_device_id (map ?p ?es) = bt_keys (opr_targets (kpp_request plan))"
      using good by (simp add: bt_keys_def)
    show "\<forall>p\<in>set (map ?p ?es). valid (validate_preflight p) \<and> kp_evaluated_at_ms p = kpp_created_at_ms plan"
      using good by auto
  qed
qed

lemma preview_targets_lookup:
  assumes "distinct (map kp_device_id (kv_targets v))" and "p \<in> set (kv_targets v)"
  shows "bt_get (preview_targets v) (kp_device_id p) = Some p"
proof -
  have "distinct (map fst (map (\<lambda>p. (kp_device_id p, p)) (kv_targets v)))"
    using assms(1) by (simp add: comp_def)
  then show ?thesis
    unfolding preview_targets_def using assms(2)
    by (simp add: bt_get_from_list_distinct map_of_eq_Some_iff)
qed

lemma map_proposed_ids: "map kt_device_id (map (proposed_target c) ps) = map kp_device_id ps"
  by (simp add: proposed_target_def Let_def)

lemma no_proposed_inflight [simp]: "\<not> is_inflight (proposed_target c p)"
  by (simp add: is_inflight_def proposed_target_def Let_def)

lemma validate_preview_plan_Inr:
  "validate_preview_plan plan = Inr u \<longleftrightarrow>
     \<not> is_blank (kpp_operation_id plan) \<and> \<not> is_blank (kpp_preview_id plan) \<and>
     length (kpp_operation_id plan) \<le> 256 \<and> length (kpp_preview_id plan) \<le> 256 \<and>
     valid (validate_preview_request (kpp_request plan)) \<and> 0 \<le> kpp_created_at_ms plan \<and>
     kpp_created_at_ms plan < kpp_expires_at_ms plan \<and>
     i64_saturating_sub (kpp_expires_at_ms plan) (kpp_created_at_ms plan) \<le> preview_max_lifetime_ms \<and>
     1 \<le> kpp_max_parallelism plan \<and> kpp_max_parallelism plan \<le> 64 \<and>
     1 \<le> kpp_max_attempts_per_target plan \<and> kpp_max_attempts_per_target plan \<le> 8"
  by (auto simp: validate_preview_plan_def valid_def split: sum.split)

lemma proposed_operation_valid:
  assumes plan: "validate_preview_plan plan = Inr ()" and rev: "0 < result_revision"
    and ps: "map kp_device_id ps = bt_keys (opr_targets (kpp_request plan))"
      "\<forall>p\<in>set ps. valid (validate_preflight p) \<and> kp_evaluated_at_ms p = kpp_created_at_ms plan"
    and op: "op = proposed_operation result_revision plan ps"
  shows "valid (validate_kiosk_operation (op\<lparr>ko_lifecycle := derived_lifecycle op\<rparr>))"
proof -
  note facts = plan [unfolded validate_preview_plan_Inr]
  let ?v = "ko_preview op"
  have sorted: "strictly_sorted (map kp_device_id ps)"
    unfolding ps(1) by (simp add: bt_keys_def)
  have "length ps = bt_len (opr_targets (kpp_request plan))"
    using arg_cong [OF ps(1), of length] by (simp add: bt_keys_def bt_len_def)
  then have len: "ps \<noteq> []" "length ps \<le> 10000"
    using facts by (auto simp: validate_preview_request_def)
  have preview: "valid (validate_kiosk_preview ?v)"
    using facts rev sorted len ps(2) by (auto simp: op proposed_operation_def valid_kiosk_preview)
  have head: "kiosk_operation_head_failures (op\<lparr>ko_lifecycle := derived_lifecycle op\<rparr>) = []"
    using facts preview derived_lifecycle_no_cleanup [of op]
    by (auto simp: kiosk_head_iff) (simp_all add: op proposed_operation_def)
  have lookup: "bt_get (preview_targets ?v) (kp_device_id p) = Some p" if "p \<in> set ps" for p
    using sorted that by (intro preview_targets_lookup)
      (simp_all add: op proposed_operation_def strictly_sorted_distinct)
  have each: "target_ok_in op t \<and> bt_get (preview_targets ?v) (kt_device_id t) = Some (kt_preflight t)"
    if "t \<in> set (ko_targets op)" for t
  proof -
    from that obtain p where p: "p \<in> set ps" "t = proposed_target (kpp_created_at_ms plan) p"
      by (auto simp: op proposed_operation_def)
    with ps(2) have "target_ok_in op t" by (simp add: proposed_target_ok)
    with lookup [OF p(1)] p(2) show ?thesis by (simp add: proposed_target_def Let_def)
  qed
  have "map kt_device_id (ko_targets op) = map kp_device_id ps"
    unfolding op proposed_operation_def by (simp add: map_proposed_ids del: map_map)
  moreover have "inflight_count (op\<lparr>ko_lifecycle := derived_lifecycle op\<rparr>) = 0"
    by (simp add: inflight_count_def op proposed_operation_def filter_empty_conv)
  ultimately show ?thesis
    using head sorted each by (simp add: valid_kiosk_operation target_ok_in_def)
qed

lemma preview_progress:
  assumes plan: "validate_preview_plan plan = Inr ()" and "devices_ok ob jb h"
    and "0 < fh_result_revision h" and current: "plan_targets_current h plan"
    and new: "bt_get (fh_kiosk_operations h) (kpp_operation_id plan) = None"
    and room: "bt_len (fh_kiosk_operations h) < max_kiosk_operations"
  shows "\<exists>op. preview_kiosk_show_controls h plan = (stored h (kpp_operation_id plan) op, Inr op) \<and>
     map kt_device_id (ko_targets op) = bt_keys (opr_targets (kpp_request plan)) \<and>
     (\<forall>t\<in>set (ko_targets op). kt_lifecycle t = (if kp_eligible (kt_preflight t) then Proposed else Rejected))"
proof -
  obtain ps where frozen: "freeze_targets h (kpp_created_at_ms plan) (entries (opr_targets (kpp_request plan))) = Inr ps"
    and ps: "map kp_device_id ps = bt_keys (opr_targets (kpp_request plan))"
      "\<forall>p\<in>set ps. valid (validate_preflight p) \<and> kp_evaluated_at_ms p = kpp_created_at_ms plan"
    using freeze_current [OF current assms(2)] by blast
  define op where "op = proposed_operation (fh_result_revision h) plan ps"
  let ?op = "op\<lparr>ko_lifecycle := derived_lifecycle op\<rparr>"
  have "valid (validate_kiosk_operation ?op)"
    by (rule proposed_operation_valid [OF plan assms(3) ps op_def])
  moreover have "ko_operation_id op = kpp_operation_id plan"
    by (simp add: op_def proposed_operation_def)
  ultimately have "preview_kiosk_show_controls h plan = (stored h (kpp_operation_id plan) ?op, Inr ?op)"
    using new room frozen plan unfolding preview_kiosk_show_controls_def stored_def op_def
    by (simp add: Let_def)
  moreover have "map kt_device_id (ko_targets ?op) = bt_keys (opr_targets (kpp_request plan))"
    unfolding op_def proposed_operation_def using ps(1) by (simp add: map_proposed_ids del: map_map)
  moreover have "\<forall>t\<in>set (ko_targets ?op). kt_lifecycle t = (if kp_eligible (kt_preflight t) then Proposed else Rejected)"
    by (auto simp: op_def proposed_operation_def proposed_target_def Let_def)
  ultimately show ?thesis by blast
qed

end
