(* ===== verification/Hub_Saved_Views.thy ===== *)
theory Hub_Saved_Views
  imports Hub_Acceptance
begin

text \<open>
  The saved-view operations of crates/fleet-hub/src/lib.rs: reading the collection, and the
  optimistic insert/replace and delete, guarded by the collection revision. A mutation whose
  arithmetic fails returns before anything is written.
\<close>

section \<open>Operations\<close>

definition max_saved_views :: usize where
  "max_saved_views = 128"

definition saved_views :: "'a hub_state_scheme \<Rightarrow> saved_view_collection" where
  "saved_views h = \<lparr>
     svc_schema = ''rusty.fleet.saved_view_collection.v1'',
     svc_revision = fh_saved_view_revision h,
     svc_views = bt_values (fh_saved_views h)\<rparr>"

definition find_saved_view :: "'a hub_state_scheme \<Rightarrow> string \<Rightarrow> hub_error + saved_view" where
  "find_saved_view h view_id = (case bt_get (fh_saved_views h) view_id of
     None \<Rightarrow> Inl (hub_error ''saved_view_not_found'' (''unknown saved view '' @ view_id))
   | Some v \<Rightarrow> Inr v)"

definition upsert_receipt ::
  "saved_view \<Rightarrow> u64 \<Rightarrow> u64 \<Rightarrow> bool \<Rightarrow> saved_view_mutation_receipt" where
  "upsert_receipt v previous current changed = \<lparr>
     svm_schema = ''rusty.fleet.saved_view_mutation_receipt.v1'',
     svm_view_id = sv_view_id v,
     svm_previous_revision = previous,
     svm_current_revision = current,
     svm_changed = changed,
     svm_deleted = False,
     svm_view = Some v\<rparr>"

definition upsert_saved_view ::
  "'a hub_state_scheme \<Rightarrow> saved_view_mutation_request \<Rightarrow>
   'a hub_state_scheme \<times> (hub_error + saved_view_mutation_receipt)" where
  "upsert_saved_view h request =
    (let v = svr_view request; revision = fh_saved_view_revision h in
     case validate_mutation_request request of
       Inl failures \<Rightarrow>
         (h, Inl (hub_error ''invalid_saved_view'' (join_with '','' (map cv_code failures))))
     | Inr _ \<Rightarrow>
         if svr_expected_revision request \<noteq> revision
         then (h, Inl (hub_error ''saved_view_revision_conflict''
           (''expected saved-view revision '' @ show_nat (svr_expected_revision request) @
            '', current revision is '' @ show_nat revision)))
         else if none_or (\<lambda>existing. existing \<noteq> v) (bt_get (fh_saved_views h) (sv_view_id v))
         then
           if \<not> bt_contains_key (fh_saved_views h) (sv_view_id v) \<and>
              bt_len (fh_saved_views h) \<ge> max_saved_views
           then (h, Inl (hub_error ''saved_view_limit_exceeded''
             ''Fleet Hub supports at most 128 saved views''))
           else (case u64_checked_add revision 1 of
               None \<Rightarrow> (h, Inl (hub_error ''saved_view_revision_exhausted''
                 ''saved-view revision is exhausted''))
             | Some next \<Rightarrow>
                 (h\<lparr>fh_saved_view_revision := next,
                    fh_saved_views := bt_insert (sv_view_id v) v (fh_saved_views h)\<rparr>,
                  Inr (upsert_receipt v revision next True)))
         else (h, Inr (upsert_receipt v revision revision False)))"

definition delete_receipt :: "string \<Rightarrow> u64 \<Rightarrow> u64 \<Rightarrow> saved_view_mutation_receipt" where
  "delete_receipt view_id previous current = \<lparr>
     svm_schema = ''rusty.fleet.saved_view_mutation_receipt.v1'',
     svm_view_id = view_id,
     svm_previous_revision = previous,
     svm_current_revision = current,
     svm_changed = True,
     svm_deleted = True,
     svm_view = None\<rparr>"

definition delete_saved_view ::
  "'a hub_state_scheme \<Rightarrow> string \<Rightarrow> u64 \<Rightarrow>
   'a hub_state_scheme \<times> (hub_error + saved_view_mutation_receipt)" where
  "delete_saved_view h view_id expected_revision =
    (let revision = fh_saved_view_revision h in
     if \<not> is_valid_saved_view_id view_id \<or> expected_revision = 0
     then (h, Inl (hub_error ''invalid_saved_view_delete''
       ''saved-view deletion requires a bounded ID and positive expected revision''))
     else if expected_revision \<noteq> revision
     then (h, Inl (hub_error ''saved_view_revision_conflict''
       (''expected saved-view revision '' @ show_nat expected_revision @
        '', current revision is '' @ show_nat revision)))
     else (case u64_checked_add revision 1 of
         None \<Rightarrow> (h, Inl (hub_error ''saved_view_revision_exhausted''
           ''saved-view revision is exhausted''))
       | Some current \<Rightarrow>
           if bt_get (fh_saved_views h) view_id = None
           then (h, Inl (hub_error ''saved_view_not_found'' (''unknown saved view '' @ view_id)))
           else (h\<lparr>fh_saved_views := bt_remove view_id (fh_saved_views h),
                   fh_saved_view_revision := current\<rparr>,
                 Inr (delete_receipt view_id revision current))))"

section \<open>The collection invariant\<close>

definition saved_views_ok :: "'a hub_state_scheme \<Rightarrow> bool" where
  "saved_views_ok h \<longleftrightarrow>
     0 < fh_saved_view_revision h \<and> bt_len (fh_saved_views h) \<le> max_saved_views \<and>
     bt.all_entries (\<lambda>k v. valid (validate_saved_view v) \<and> sv_view_id v = k) (fh_saved_views h)"

lemma saved_views_ok_collection:
  assumes "saved_views_ok h"
  shows "valid (validate_collection (saved_views h))"
proof -
  have keyed: "sv_view_id (snd e) = fst e \<and> valid (validate_saved_view (snd e))"
    if "e \<in> set (entries (fh_saved_views h))" for e
    using assms that bt_get_Some_iff [of "fh_saved_views h" "fst e" "snd e"]
    by (auto simp: saved_views_ok_def dest: bt.all_entriesD)
  then have "map sv_view_id (bt_values (fh_saved_views h)) = map fst (entries (fh_saved_views h))"
    by (simp add: bt_values_def)
  moreover have "\<forall>v\<in>set (bt_values (fh_saved_views h)). valid (validate_saved_view v)"
    using keyed by (auto simp: bt_values_def)
  ultimately show ?thesis
    using assms by (simp add: valid_collection saved_views_def saved_views_ok_def
        max_saved_views_def bt_values_def bt_len_def del: map_map)
qed

text \<open>The three ways a mutation can end.\<close>

definition with_saved_view :: "'a hub_state_scheme \<Rightarrow> saved_view \<Rightarrow> 'a hub_state_scheme" where
  "with_saved_view h v = h\<lparr>fh_saved_view_revision := fh_saved_view_revision h + 1,
     fh_saved_views := bt_insert (sv_view_id v) v (fh_saved_views h)\<rparr>"

lemma upsert_cases:
  obtains (refused) e where "upsert_saved_view h q = (h, Inl e)"
  | (unchanged) "valid (validate_saved_view (svr_view q))"
      "svr_expected_revision q = fh_saved_view_revision h"
      "bt_get (fh_saved_views h) (sv_view_id (svr_view q)) = Some (svr_view q)"
      "upsert_saved_view h q = (h, Inr (upsert_receipt (svr_view q) (fh_saved_view_revision h)
         (fh_saved_view_revision h) False))"
  | (changed) "valid (validate_saved_view (svr_view q))"
      "svr_expected_revision q = fh_saved_view_revision h" "fh_saved_view_revision h + 1 \<le> u64_max"
      "bt_contains_key (fh_saved_views h) (sv_view_id (svr_view q)) \<or>
         bt_len (fh_saved_views h) < max_saved_views"
      "upsert_saved_view h q = (with_saved_view h (svr_view q), Inr (upsert_receipt (svr_view q)
         (fh_saved_view_revision h) (fh_saved_view_revision h + 1) True))"
proof (cases "validate_mutation_request q")
  case (Inl fs)
  then show ?thesis by (intro refused) (simp add: upsert_saved_view_def Let_def)
next
  case (Inr u)
  then have v: "valid (validate_saved_view (svr_view q))"
    using valid_mutation_request [of q] by (simp add: valid_iff_Inr)
  let ?r = "fh_saved_view_revision h" and ?v = "svr_view q"
  show ?thesis
  proof (cases "svr_expected_revision q = ?r")
    case False
    with Inr show ?thesis by (intro refused) (simp add: upsert_saved_view_def Let_def)
  next
    case rev: True
    show ?thesis
    proof (cases "bt_get (fh_saved_views h) (sv_view_id ?v) = Some ?v")
      case True
      with Inr rev v show ?thesis by (intro unchanged) (simp_all add: upsert_saved_view_def Let_def)
    next
      case False
      show ?thesis
      proof (cases "?r + 1 \<le> u64_max \<and>
          (bt_contains_key (fh_saved_views h) (sv_view_id ?v) \<or> bt_len (fh_saved_views h) < max_saved_views)")
        case True
        with Inr rev v False show ?thesis
          by (intro changed) (auto simp: upsert_saved_view_def Let_def u64_checked_add_def with_saved_view_def)
      next
        case no: False
        with Inr rev False have "\<exists>e. upsert_saved_view h q = (h, Inl e)"
          by (auto simp: upsert_saved_view_def Let_def u64_checked_add_def)
        with refused show ?thesis by blast
      qed
    qed
  qed
qed

lemma delete_cases:
  obtains (refused) e where "delete_saved_view h k x = (h, Inl e)"
  | (removed) "is_valid_saved_view_id k" "x = fh_saved_view_revision h" "0 < x" "x + 1 \<le> u64_max"
      "delete_saved_view h k x =
         (h\<lparr>fh_saved_views := bt_remove k (fh_saved_views h), fh_saved_view_revision := x + 1\<rparr>,
          Inr (delete_receipt k x (x + 1)))"
proof (cases "is_valid_saved_view_id k \<and> 0 < x \<and> x = fh_saved_view_revision h \<and> x + 1 \<le> u64_max \<and>
    bt_get (fh_saved_views h) k \<noteq> None")
  case True
  then show ?thesis
    by (intro removed) (auto simp: delete_saved_view_def Let_def u64_checked_add_def)
next
  case False
  then have "\<exists>e. delete_saved_view h k x = (h, Inl e)"
    by (auto simp: delete_saved_view_def Let_def u64_checked_add_def)
  with refused show ?thesis by blast
qed

lemma upsert_ok:
  assumes "saved_views_ok h"
  shows "saved_views_ok (fst (upsert_saved_view h q))"
proof (cases rule: upsert_cases [of h q])
  case changed
  have "bt_len (bt_insert (sv_view_id (svr_view q)) (svr_view q) (fh_saved_views h)) \<le> max_saved_views"
    using assms changed(4) by (auto simp: bt_len_insert saved_views_ok_def)
  with assms changed show ?thesis
    by (simp add: saved_views_ok_def with_saved_view_def bt.all_entries_insert)
qed (use assms in simp_all)

lemma delete_ok:
  assumes "saved_views_ok h"
  shows "saved_views_ok (fst (delete_saved_view h k x))"
proof (cases rule: delete_cases [of h k x])
  case removed
  with assms bt_len_remove_le [of k "fh_saved_views h"] show ?thesis
    by (simp add: saved_views_ok_def bt.all_entries_remove)
qed (use assms in simp)

section \<open>Receipts and concurrency\<close>

lemma upsert_frame [simp]:
  "fh_policy (fst (upsert_saved_view h q)) = fh_policy h"
  "fh_devices (fst (upsert_saved_view h q)) = fh_devices h"
  "fh_result_revision (fst (upsert_saved_view h q)) = fh_result_revision h"
  "fh_event_sequence (fst (upsert_saved_view h q)) = fh_event_sequence h"
  "fh_events (fst (upsert_saved_view h q)) = fh_events h"
  "fh_kiosk_operations (fst (upsert_saved_view h q)) = fh_kiosk_operations h"
  "fh_awake_operations (fst (upsert_saved_view h q)) = fh_awake_operations h"
  "fh_wifi_adb_operations (fst (upsert_saved_view h q)) = fh_wifi_adb_operations h"
  "fh_hotspot_operations (fst (upsert_saved_view h q)) = fh_hotspot_operations h"
  "fh_hotspot_observation (fst (upsert_saved_view h q)) = fh_hotspot_observation h"
  "fh_package_operations (fst (upsert_saved_view h q)) = fh_package_operations h"
  "fh_package_archives (fst (upsert_saved_view h q)) = fh_package_archives h"
  "fh_kiosk_catalogs (fst (upsert_saved_view h q)) = fh_kiosk_catalogs h"
  "fh_catalog_replays (fst (upsert_saved_view h q)) = fh_catalog_replays h"
  "fh_catalog_associations (fst (upsert_saved_view h q)) = fh_catalog_associations h"
  by (cases rule: upsert_cases [of h q]; simp add: with_saved_view_def)+

lemma delete_frame [simp]:
  "fh_policy (fst (delete_saved_view h k x)) = fh_policy h"
  "fh_devices (fst (delete_saved_view h k x)) = fh_devices h"
  "fh_result_revision (fst (delete_saved_view h k x)) = fh_result_revision h"
  "fh_event_sequence (fst (delete_saved_view h k x)) = fh_event_sequence h"
  "fh_events (fst (delete_saved_view h k x)) = fh_events h"
  "fh_kiosk_operations (fst (delete_saved_view h k x)) = fh_kiosk_operations h"
  "fh_awake_operations (fst (delete_saved_view h k x)) = fh_awake_operations h"
  "fh_wifi_adb_operations (fst (delete_saved_view h k x)) = fh_wifi_adb_operations h"
  "fh_hotspot_operations (fst (delete_saved_view h k x)) = fh_hotspot_operations h"
  "fh_hotspot_observation (fst (delete_saved_view h k x)) = fh_hotspot_observation h"
  "fh_package_operations (fst (delete_saved_view h k x)) = fh_package_operations h"
  "fh_package_archives (fst (delete_saved_view h k x)) = fh_package_archives h"
  "fh_kiosk_catalogs (fst (delete_saved_view h k x)) = fh_kiosk_catalogs h"
  "fh_catalog_replays (fst (delete_saved_view h k x)) = fh_catalog_replays h"
  "fh_catalog_associations (fst (delete_saved_view h k x)) = fh_catalog_associations h"
  by (cases rule: delete_cases [of h k x]; simp)+

lemma upsert_error_keeps: "snd (upsert_saved_view h q) = Inl e \<Longrightarrow> fst (upsert_saved_view h q) = h"
  by (cases rule: upsert_cases [of h q]) auto

lemma delete_error_keeps: "snd (delete_saved_view h k x) = Inl e \<Longrightarrow> fst (delete_saved_view h k x) = h"
  by (cases rule: delete_cases [of h k x]) auto

lemma valid_id_saved_view:
  "valid (validate_saved_view v) \<Longrightarrow> is_valid_saved_view_id (sv_view_id v) \<and> \<not> is_blank (sv_view_id v)"
  using valid_saved_view_id valid_id_not_blank by blast

lemma upsert_receipt_valid:
  assumes "valid (validate_saved_view v)" and "0 < r" and "c = (if changed then r + 1 else r)"
    and "c \<le> u64_max"
  shows "valid (validate_mutation_receipt (upsert_receipt v r c changed))"
  using assms valid_id_saved_view [OF assms(1)]
  by (auto simp: validate_mutation_receipt_def upsert_receipt_def u64_saturating_add_def)

text \<open>
  The receipt the code only \<^verbatim>\<open>debug_assert!\<close>s to be valid is valid, and describes the new state.
\<close>

lemma upsert_receipt_correct:
  assumes res: "snd (upsert_saved_view h q) = Inr receipt"
    and rev: "0 < fh_saved_view_revision h" "fh_saved_view_revision h \<le> u64_max"
  shows "valid (validate_mutation_receipt receipt)"
    and "svm_previous_revision receipt = fh_saved_view_revision h"
    and "svm_current_revision receipt = fh_saved_view_revision (fst (upsert_saved_view h q))"
    and "bt_get (fh_saved_views (fst (upsert_saved_view h q))) (sv_view_id (svr_view q)) = Some (svr_view q)"
    and "svr_expected_revision q = fh_saved_view_revision h"
  using res rev
  by (cases rule: upsert_cases [of h q];
      auto simp: upsert_receipt_def with_saved_view_def intro!: upsert_receipt_valid [unfolded upsert_receipt_def])+

lemma delete_receipt_correct:
  assumes "snd (delete_saved_view h k x) = Inr receipt"
  shows "valid (validate_mutation_receipt receipt)" and "x = fh_saved_view_revision h"
    and "bt_get (fh_saved_views (fst (delete_saved_view h k x))) k = None"
    and "fh_saved_view_revision (fst (delete_saved_view h k x)) = x + 1"
  using assms valid_id_not_blank [of k]
  by (cases rule: delete_cases [of h k x];
      auto simp: validate_mutation_receipt_def delete_receipt_def u64_saturating_add_def)+

text \<open>
  Optimistic concurrency: after one writer has changed the collection, a second writer holding
  the same expected revision is refused.
\<close>

lemma stale_writer_refused:
  assumes "snd (upsert_saved_view h a) = Inr receipt" and "svm_changed receipt"
    and "svr_expected_revision b = svr_expected_revision a"
  shows "\<exists>e. upsert_saved_view (fst (upsert_saved_view h a)) b = (fst (upsert_saved_view h a), Inl e)"
proof -
  have rev: "svr_expected_revision b < fh_saved_view_revision (fst (upsert_saved_view h a))"
    using assms by (cases rule: upsert_cases [of h a]) (auto simp: upsert_receipt_def with_saved_view_def)
  then show ?thesis
    by (cases rule: upsert_cases [of "fst (upsert_saved_view h a)" b]) auto
qed

end
