(* ===== verification/Hub_Owner.thy ===== *)
theory Hub_Owner
  imports Hub_Kiosk
begin

text \<open>
  What crates/fleet-hub/src/awake.rs and wifi_adb.rs share word for word: the capability facts a
  preflight freezes, the lifecycle an operation derives from its eligible targets, and the text of
  a validation error. \<open>provider_ready\<close> says that the local File Manager provider is known to serve
  the device.
\<close>

section \<open>Frozen capability facts\<close>

record owner_facts =
  of_support :: support_state
  of_enablement :: enablement_state
  of_authorization :: authorization_state
  of_reachability :: reachability_state
  of_freshness :: freshness_state
  of_evidence_revision :: u64
  of_observed_at_ms :: i64
  of_fresh_until_ms :: i64
  of_owner :: string

definition owner_capability_facts ::
  "string \<Rightarrow> string \<Rightarrow> device_record \<Rightarrow> i64 \<Rightarrow> bool \<Rightarrow> owner_facts" where
  "owner_capability_facts capability_id owner r evaluated_at_ms provider_ready =
    (case capability_get (do_capabilities (rec_observation r)) capability_id of
       None \<Rightarrow>
         (if provider_ready
          then \<lparr>of_support = Support_Supported, of_enablement = Enablement_Enabled,
                of_authorization = Authorization_Authorized, of_reachability = Reachability_Reachable,
                of_freshness = Freshness_Current, of_evidence_revision = rec_accepted_revision r,
                of_observed_at_ms = evaluated_at_ms,
                of_fresh_until_ms = i64_wrapping_add evaluated_at_ms 60000, of_owner = owner\<rparr>
          else \<lparr>of_support = Support_Unknown, of_enablement = Enablement_Unknown,
                of_authorization = Authorization_Unknown, of_reachability = Reachability_Unknown,
                of_freshness = Freshness_Unknown, of_evidence_revision = 0,
                of_observed_at_ms = evaluated_at_ms, of_fresh_until_ms = evaluated_at_ms,
                of_owner = []\<rparr>)
     | Some c \<Rightarrow>
         \<lparr>of_support = cap_support c, of_enablement = cap_enablement c,
          of_authorization = cap_authorization c, of_reachability = cap_reachability c,
          of_freshness = cap_freshness c, of_evidence_revision = cap_evidence_revision c,
          of_observed_at_ms = cap_observed_at_ms c, of_fresh_until_ms = cap_fresh_until_ms c,
          of_owner = cap_owner c\<rparr>)"

section \<open>The derived lifecycle\<close>

text \<open>\<open>eligible\<close> are the lifecycles of the eligible targets, \<open>confirmed\<close> the confirmation time.\<close>

definition owner_lifecycle :: "command_lifecycle list \<Rightarrow> i64 option \<Rightarrow> command_lifecycle" where
  "owner_lifecycle eligible confirmed =
    (if eligible = [] then Rejected
     else if list_ex (\<lambda>l. l = Lifecycle_Failed) eligible then Lifecycle_Failed
     else if list_all (\<lambda>l. l = Applied) eligible then Applied
     else if list_ex (\<lambda>l. l \<in> {Dispatched, Running}) eligible then Running
     else if confirmed \<noteq> None then Accepted
     else Proposed)"

lemma owner_lifecycle_Proposed:
  "owner_lifecycle ls confirmed = Proposed \<Longrightarrow>
   confirmed = None \<and> ls \<noteq> [] \<and> (\<forall>l\<in>set ls. l \<notin> {Lifecycle_Failed, Dispatched, Running})"
  by (auto simp: owner_lifecycle_def list_ex_iff split: if_splits)

section \<open>Errors\<close>

definition path_code_text :: "failures \<Rightarrow> string" where
  "path_code_text failures = join_with ''; '' (map (\<lambda>f. cv_path f @ '':'' @ cv_code f) failures)"

text \<open>The first element an \<^verbatim>\<open>iter_mut().find\<close> would change.\<close>

lemma find_update_first:
  "find p xs = Some x \<Longrightarrow> p (f x) \<Longrightarrow> find p (update_first p f xs) = Some (f x)"
  by (induction xs) (auto split: if_splits)

lemma find_Some_set: "find p xs = Some x \<Longrightarrow> x \<in> set xs \<and> p x"
  by (induction xs) (auto split: if_splits)

lemma set_update_first:
  "find p xs = Some x \<Longrightarrow> y \<in> set (update_first p f xs) \<Longrightarrow> y = f x \<or> y \<in> set xs"
  by (induction xs) (auto split: if_splits)

lemma map_update_first: "(\<And>x. g (f x) = g x) \<Longrightarrow> map g (update_first p f xs) = map g xs"
  by (induction xs) auto

lemma length_update_first [simp]: "length (update_first p f xs) = length xs"
  by (induction xs) auto

lemma update_first_nth:
  "find p xs = Some x \<Longrightarrow> \<exists>k<length xs. xs ! k = x \<and> update_first p f xs = xs[k := f x]"
proof (induction xs)
  case (Cons y ys)
  show ?case
  proof (cases "p y")
    case True
    with Cons.prems show ?thesis by (intro exI [of _ 0]) simp
  next
    case False
    with Cons obtain k where "k < length ys" "ys ! k = x" "update_first p f ys = ys[k := f x]" by auto
    with False show ?thesis by (intro exI [of _ "Suc k"]) simp
  qed
qed simp

lemma owner_lifecycle_Some:
  "NO_MATCH 0 c \<Longrightarrow> owner_lifecycle ls (Some c) = owner_lifecycle ls (Some 0)"
  by (simp add: owner_lifecycle_def)

end
