(* ===== verification/Hub_Wifi_Adb.thy ===== *)
theory Hub_Wifi_Adb
  imports Hub_Owner
begin

text \<open>
  crates/fleet-hub/src/wifi_adb.rs: the Hub's Quest Wi-Fi ADB operations. A preview freezes the
  targets, a confirmation accepts the eligible ones, an invocation is prepared and dispatched per
  target, and a bound owner receipt applies it. From confirmation on the code changes the stored
  operation in place and validates it afterwards, so \<open>revise_wifi\<close> stores the changed operation
  whatever the validator says.
\<close>

section \<open>The store\<close>

definition max_wifi_adb_operations :: usize where
  "max_wifi_adb_operations = 1000"

definition validate_wifi :: "(string \<Rightarrow> string) \<Rightarrow> wifi_operation \<Rightarrow> hub_error + unit" where
  "validate_wifi sha op = (case validate_wifi_operation sha op of
     Inl failures \<Rightarrow> Inl (hub_error ''wifi_adb_operation_invalid'' (path_code_text failures))
   | Inr u \<Rightarrow> Inr u)"

definition put_wifi :: "string \<Rightarrow> wifi_operation \<Rightarrow> 'a hub_state_scheme \<Rightarrow> 'a hub_state_scheme" where
  "put_wifi k op h = h\<lparr>fh_wifi_adb_operations := bt_insert k op (fh_wifi_adb_operations h)\<rparr>"

definition revise_wifi ::
  "(string \<Rightarrow> string) \<Rightarrow> 'a hub_state_scheme \<Rightarrow> string \<Rightarrow> wifi_operation \<Rightarrow>
   'a hub_state_scheme \<times> (hub_error + wifi_operation)" where
  "revise_wifi sha h k op =
     attempt (put_wifi k op h) (validate_wifi sha op) (\<lambda>_. (put_wifi k op h, Inr op))"

definition quest_wifi_adb_operation :: "'a hub_state_scheme \<Rightarrow> string \<Rightarrow> hub_error + wifi_operation" where
  "quest_wifi_adb_operation h operation_id = (case bt_get (fh_wifi_adb_operations h) operation_id of
     None \<Rightarrow> Inl (hub_error ''wifi_adb_operation_not_found'' ''operation not found'')
   | Some op \<Rightarrow> Inr op)"

definition quest_wifi_adb_operations :: "'a hub_state_scheme \<Rightarrow> wifi_operation list" where
  "quest_wifi_adb_operations h = bt_values (fh_wifi_adb_operations h)"

definition find_wifi_target :: "wifi_operation \<Rightarrow> string \<Rightarrow> hub_error + wifi_target" where
  "find_wifi_target op device_id = (case find (\<lambda>t. wt_device_id t = device_id) (wop_targets op) of
     None \<Rightarrow> Inl (hub_error ''wifi_adb_target_not_found'' ''target is not in operation'')
   | Some t \<Rightarrow> Inr t)"

definition change_wifi_target ::
  "wifi_operation \<Rightarrow> string \<Rightarrow> (wifi_target \<Rightarrow> wifi_target) \<Rightarrow> i64 \<Rightarrow> wifi_operation" where
  "change_wifi_target op device_id change now_ms = op\<lparr>
     wop_targets := update_first (\<lambda>t. wt_device_id t = device_id) change (wop_targets op),
     wop_updated_at_ms := now_ms\<rparr>"

definition derive_wifi_lifecycle :: "wifi_operation \<Rightarrow> command_lifecycle" where
  "derive_wifi_lifecycle op = owner_lifecycle
     (map wt_lifecycle (filter (\<lambda>t. wf_eligible (wt_preflight t)) (wop_targets op)))
     (wop_confirmed_at_ms op)"

definition with_wifi_lifecycle :: "wifi_operation \<Rightarrow> wifi_operation" where
  "with_wifi_lifecycle op = op\<lparr>wop_lifecycle := derive_wifi_lifecycle op\<rparr>"

section \<open>Guards\<close>

definition require_wifi_adb_target_current ::
  "'a hub_state_scheme \<Rightarrow> wifi_operation \<Rightarrow> string \<Rightarrow> i64 \<Rightarrow> hub_error + unit" where
  "require_wifi_adb_target_current h op device_id now_ms =
    (case find_wifi_target op device_id of
       Inl e \<Rightarrow> Inl e
     | Inr t \<Rightarrow> (case bt_get (fh_devices h) device_id of
         None \<Rightarrow> Inl (hub_error ''wifi_adb_target_not_found'' ''target is no longer enrolled'')
       | Some r \<Rightarrow>
           if di_identity_revision (do_identity (rec_observation r)) \<noteq> wt_identity_revision t
           then Inl (hub_error ''wifi_adb_target_identity_changed'' ''target identity changed after preview'')
           else if do_received_time_ms (rec_observation r) > now_ms \<or>
                   do_source_time_ms (rec_observation r) > now_ms
           then Inl (hub_error ''wifi_adb_capability_changed''
             ''target observation is not current at confirmation'')
           else Inr ()))"

fun require_wifi_devices_current ::
  "'a hub_state_scheme \<Rightarrow> wifi_operation \<Rightarrow> string list \<Rightarrow> i64 \<Rightarrow> hub_error + unit" where
  "require_wifi_devices_current h op [] now_ms = Inr ()"
| "require_wifi_devices_current h op (d # ds) now_ms =
    (case require_wifi_adb_target_current h op d now_ms of
       Inl e \<Rightarrow> Inl e
     | Inr _ \<Rightarrow> require_wifi_devices_current h op ds now_ms)"

definition require_wifi_adb_targets_current ::
  "'a hub_state_scheme \<Rightarrow> wifi_operation \<Rightarrow> i64 \<Rightarrow> hub_error + unit" where
  "require_wifi_adb_targets_current h op now_ms = require_wifi_devices_current h op
     (map wt_device_id (filter (\<lambda>t. wf_eligible (wt_preflight t)) (wop_targets op))) now_ms"

section \<open>Preview\<close>

record wifi_preview_plan =
  wpp_operation_id :: string
  wpp_preview_id :: string
  wpp_request :: wifi_preview_request
  wpp_created_at_ms :: i64
  wpp_expires_at_ms :: i64
  wpp_provider_ready_devices :: "string set"

definition wifi_preview_max_lifetime_ms :: i64 where
  "wifi_preview_max_lifetime_ms = 15 * 60 * 1000"

definition wifi_plan_invalid :: "wifi_preview_plan \<Rightarrow> bool" where
  "wifi_plan_invalid plan \<longleftrightarrow>
     \<not> valid (validate_wifi_preview_request (wpp_request plan)) \<or> wpp_created_at_ms plan < 0 \<or>
     wpp_expires_at_ms plan \<le> wpp_created_at_ms plan \<or>
     wpp_expires_at_ms plan - wpp_created_at_ms plan > wifi_preview_max_lifetime_ms \<or>
     wpp_operation_id plan = [] \<or> wpp_preview_id plan = []"

definition wifi_adb_preflight :: "device_record \<Rightarrow> i64 \<Rightarrow> bool \<Rightarrow> wifi_preflight" where
  "wifi_adb_preflight r evaluated_at_ms provider_ready =
    (let facts = owner_capability_facts wifi_capability_id wifi_owner r evaluated_at_ms provider_ready;
         preflight = \<lparr>
           wf_device_id = di_device_id (do_identity (rec_observation r)),
           wf_identity_revision = di_identity_revision (do_identity (rec_observation r)),
           wf_capability_id = wifi_capability_id,
           wf_capability_evidence_revision = of_evidence_revision facts,
           wf_capability_owner = of_owner facts,
           wf_support = of_support facts,
           wf_enablement = of_enablement facts,
           wf_authorization = of_authorization facts,
           wf_reachability = of_reachability facts,
           wf_freshness = of_freshness facts,
           wf_observed_at_ms = of_observed_at_ms facts,
           wf_fresh_until_ms = of_fresh_until_ms facts,
           wf_evaluated_at_ms = evaluated_at_ms,
           wf_eligible = False,
           wf_reason_code = [],
           wf_message = []\<rparr>;
         preflight = preflight\<lparr>wf_reason_code := wifi_expected_reason_code preflight\<rparr>;
         preflight = preflight\<lparr>wf_eligible := wifi_expected_eligibility preflight\<rparr>
     in preflight\<lparr>wf_message :=
          if wf_eligible preflight then ''File Manager Quest Wi-Fi ADB provider is current and ready''
          else ''Quest Wi-Fi ADB target is not eligible: '' @ wf_reason_code preflight\<rparr>)"

fun freeze_wifi_targets ::
  "'a hub_state_scheme \<Rightarrow> wifi_preview_plan \<Rightarrow> (string \<times> u64) list \<Rightarrow> hub_error + wifi_preflight list" where
  "freeze_wifi_targets h plan [] = Inr []"
| "freeze_wifi_targets h plan ((device_id, identity_revision) # rest) =
    (case bt_get (fh_devices h) device_id of
       None \<Rightarrow> Inl (hub_error ''wifi_adb_target_not_found''
         (''unknown Quest Wi-Fi ADB target '' @ device_id))
     | Some r \<Rightarrow>
         if di_identity_revision (do_identity (rec_observation r)) \<noteq> identity_revision
         then Inl (hub_error ''wifi_adb_target_identity_mismatch''
           (''target '' @ device_id @ '' identity revision differs from the request''))
         else (case freeze_wifi_targets h plan rest of
             Inl e \<Rightarrow> Inl e
           | Inr ps \<Rightarrow> Inr (wifi_adb_preflight r (wpp_created_at_ms plan)
               (device_id \<in> wpp_provider_ready_devices plan) # ps)))"

definition proposed_wifi_target :: "i64 \<Rightarrow> wifi_preflight \<Rightarrow> wifi_target" where
  "proposed_wifi_target created_at_ms p = \<lparr>
     wt_device_id = wf_device_id p,
     wt_identity_revision = wf_identity_revision p,
     wt_preflight = p,
     wt_lifecycle = (if wf_eligible p then Proposed else Rejected),
     wt_invocation = None,
     wt_receipt = None,
     wt_termux_proof = None,
     wt_termux_admission = None,
     wt_termux_usable = False,
     wt_failure_code = None,
     wt_updated_at_ms = created_at_ms\<rparr>"

definition proposed_wifi_operation ::
  "u64 \<Rightarrow> wifi_preview_plan \<Rightarrow> wifi_preflight list \<Rightarrow> wifi_operation" where
  "proposed_wifi_operation fleet_revision plan preflights =
    (let preview = \<lparr>
           wv_schema = ''rusty.fleet.quest_wifi_adb_preview.v1'',
           wv_preview_id = wpp_preview_id plan,
           wv_operation_id = wpp_operation_id plan,
           wv_action_id = wifi_action_id,
           wv_action = wpr_action (wpp_request plan),
           wv_created_at_ms = wpp_created_at_ms plan,
           wv_expires_at_ms = wpp_expires_at_ms plan,
           wv_fleet_revision = fleet_revision,
           wv_owner = wifi_file_manager_v1,
           wv_targets = preflights\<rparr>
     in \<lparr>wop_schema = wifi_operation_schema,
         wop_operation_id = wpp_operation_id plan,
         wop_action_id = wifi_action_id,
         wop_lifecycle = Proposed,
         wop_preview = preview,
         wop_confirmed_at_ms = None,
         wop_targets = map (proposed_wifi_target (wpp_created_at_ms plan)) preflights,
         wop_updated_at_ms = wpp_created_at_ms plan\<rparr>)"

definition preview_quest_wifi_adb ::
  "(string \<Rightarrow> string) \<Rightarrow> 'a hub_state_scheme \<Rightarrow> wifi_preview_plan \<Rightarrow>
   'a hub_state_scheme \<times> (hub_error + wifi_operation)" where
  "preview_quest_wifi_adb sha h plan =
    (if wifi_plan_invalid plan
     then (h, Inl (hub_error ''wifi_adb_preview_plan_invalid''
       ''Quest Wi-Fi ADB preview plan is invalid or exceeds its bounded lifetime''))
     else case bt_get (fh_wifi_adb_operations h) (wpp_operation_id plan) of
       Some existing \<Rightarrow>
         (if wv_preview_id (wop_preview existing) = wpp_preview_id plan \<and>
             wv_action (wop_preview existing) = wpr_action (wpp_request plan)
          then (h, Inr existing)
          else (h, Inl (hub_error ''wifi_adb_operation_id_conflict''
            ''operation ID names a different immutable Quest Wi-Fi ADB preview'')))
     | None \<Rightarrow>
         attempt h (freeze_wifi_targets h plan (entries (wpr_targets (wpp_request plan)))) (\<lambda>preflights.
         let op = proposed_wifi_operation (fh_result_revision h) plan preflights in
         attempt h (validate_wifi sha op) (\<lambda>_.
         if bt_len (fh_wifi_adb_operations h) \<ge> max_wifi_adb_operations
         then (h, Inl (hub_error ''wifi_adb_operation_limit_reached''
           (''Fleet Hub retains at most '' @ show_nat max_wifi_adb_operations @
            '' Quest Wi-Fi ADB operations'')))
         else (put_wifi (wpp_operation_id plan) op h, Inr op))))"

section \<open>Confirmation and dispatch\<close>

definition confirm_wifi_target :: "i64 \<Rightarrow> wifi_target \<Rightarrow> wifi_target" where
  "confirm_wifi_target now_ms t =
    (if wf_eligible (wt_preflight t)
     then t\<lparr>wt_lifecycle := Accepted, wt_updated_at_ms := now_ms\<rparr> else t)"

definition confirmed_wifi_operation :: "i64 \<Rightarrow> wifi_operation \<Rightarrow> wifi_operation" where
  "confirmed_wifi_operation now_ms op = with_wifi_lifecycle (op\<lparr>
     wop_confirmed_at_ms := Some now_ms,
     wop_updated_at_ms := now_ms,
     wop_targets := map (confirm_wifi_target now_ms) (wop_targets op)\<rparr>)"

definition confirm_quest_wifi_adb ::
  "(string \<Rightarrow> string) \<Rightarrow> 'a hub_state_scheme \<Rightarrow> string \<Rightarrow> string \<Rightarrow> i64 \<Rightarrow>
   'a hub_state_scheme \<times> (hub_error + wifi_operation)" where
  "confirm_quest_wifi_adb sha h operation_id preview_id now_ms =
    attempt h (quest_wifi_adb_operation h operation_id) (\<lambda>op.
    if wv_preview_id (wop_preview op) \<noteq> preview_id
    then (h, Inl (hub_error ''wifi_adb_preview_conflict''
      ''execute request does not bind the immutable Quest Wi-Fi ADB preview''))
    else if wop_lifecycle op \<noteq> Proposed then (h, Inr op)
    else if now_ms > wv_expires_at_ms (wop_preview op)
    then (h, Inl (hub_error ''wifi_adb_preview_expired''
      ''Quest Wi-Fi ADB preview expired before confirmation''))
    else attempt h (require_wifi_adb_targets_current h op now_ms) (\<lambda>_.
      revise_wifi sha h operation_id (confirmed_wifi_operation now_ms op)))"

definition prepared_invocation ::
  "wifi_operation \<Rightarrow> string \<Rightarrow> i64 \<Rightarrow> wifi_target \<Rightarrow> wifi_invocation" where
  "prepared_invocation op request_id now_ms t = \<lparr>
     wi_schema = ''rusty.fleet.quest_wifi_adb_owner_invocation.v1'',
     wi_request_id = request_id,
     wi_operation_id = wop_operation_id op,
     wi_preview_id = wv_preview_id (wop_preview op),
     wi_device_id = wt_device_id t,
     wi_identity_revision = wt_identity_revision t,
     wi_action = wv_action (wop_preview op),
     wi_issued_at_ms = now_ms,
     wi_expires_at_ms = wv_expires_at_ms (wop_preview op)\<rparr>"

definition prepared_wifi_target :: "wifi_operation \<Rightarrow> string \<Rightarrow> i64 \<Rightarrow> wifi_target \<Rightarrow> wifi_target" where
  "prepared_wifi_target op request_id now_ms t = t\<lparr>
     wt_invocation := Some (prepared_invocation op request_id now_ms t),
     wt_updated_at_ms := now_ms\<rparr>"

definition prepare_quest_wifi_adb_invocation ::
  "(string \<Rightarrow> string) \<Rightarrow> 'a hub_state_scheme \<Rightarrow> string \<Rightarrow> string \<Rightarrow> string \<Rightarrow> i64 \<Rightarrow>
   'a hub_state_scheme \<times> (hub_error + wifi_operation)" where
  "prepare_quest_wifi_adb_invocation sha h operation_id device_id request_id now_ms =
    attempt h (quest_wifi_adb_operation h operation_id) (\<lambda>op.
    if now_ms > wv_expires_at_ms (wop_preview op)
    then (h, Inl (hub_error ''wifi_adb_preview_expired''
      ''Quest Wi-Fi ADB dispatch cannot begin after preview expiry''))
    else attempt h (require_wifi_adb_target_current h op device_id now_ms) (\<lambda>_.
    attempt h (find_wifi_target op device_id) (\<lambda>t.
    if wt_lifecycle t \<noteq> Accepted
    then (h, Inl (hub_error ''wifi_adb_dispatch_state_invalid''
      ''only a confirmed Quest Wi-Fi ADB target can prepare an invocation''))
    else revise_wifi sha h operation_id
      (change_wifi_target op device_id (prepared_wifi_target op request_id now_ms) now_ms))))"

definition dispatched_wifi_target :: "i64 \<Rightarrow> wifi_target \<Rightarrow> wifi_target" where
  "dispatched_wifi_target now_ms t = t\<lparr>wt_lifecycle := Dispatched, wt_updated_at_ms := now_ms\<rparr>"

definition mark_quest_wifi_adb_dispatched ::
  "(string \<Rightarrow> string) \<Rightarrow> 'a hub_state_scheme \<Rightarrow> string \<Rightarrow> string \<Rightarrow> i64 \<Rightarrow>
   'a hub_state_scheme \<times> (hub_error + wifi_operation)" where
  "mark_quest_wifi_adb_dispatched sha h operation_id device_id now_ms =
    attempt h (quest_wifi_adb_operation h operation_id) (\<lambda>op.
    attempt h (find_wifi_target op device_id) (\<lambda>t.
    if wt_lifecycle t \<noteq> Accepted \<or> wt_invocation t = None
    then (h, Inl (hub_error ''wifi_adb_dispatch_state_invalid'' ''target has no accepted exact invocation''))
    else revise_wifi sha h operation_id
      (with_wifi_lifecycle (change_wifi_target op device_id (dispatched_wifi_target now_ms) now_ms))))"

section \<open>Receipts and failures\<close>

definition wifi_receipt_unbound :: "wifi_receipt \<Rightarrow> wifi_invocation \<Rightarrow> bool" where
  "wifi_receipt_unbound r i \<longleftrightarrow>
     wr_request_id r \<noteq> wi_request_id i \<or> wr_preview_id r \<noteq> wi_preview_id i \<or>
     wr_identity_revision r \<noteq> wi_identity_revision i \<or> wr_action r \<noteq> wi_action i \<or>
     wr_observed_at_ms r < wi_issued_at_ms i \<or> wr_observed_at_ms r > wi_expires_at_ms i"

definition received_wifi_target :: "wifi_receipt \<Rightarrow> i64 \<Rightarrow> wifi_target \<Rightarrow> wifi_target" where
  "received_wifi_target r now_ms t = t\<lparr>
     wt_lifecycle := (if wr_effect_applied r then Applied else Running),
     wt_termux_proof := None,
     wt_termux_usable := False,
     wt_receipt := Some r,
     wt_failure_code := None,
     wt_updated_at_ms := now_ms\<rparr>"

definition apply_quest_wifi_adb_receipt ::
  "(string \<Rightarrow> string) \<Rightarrow> 'a hub_state_scheme \<Rightarrow> wifi_receipt \<Rightarrow> i64 \<Rightarrow>
   'a hub_state_scheme \<times> (hub_error + wifi_operation)" where
  "apply_quest_wifi_adb_receipt sha h r now_ms =
    (if \<not> valid (validate_wifi_receipt r) \<or> wr_observed_at_ms r > i64_wrapping_add now_ms 30000
     then (h, Inl (hub_error ''wifi_adb_receipt_invalid''
       ''Quest Wi-Fi ADB owner receipt is invalid or future-dated''))
     else
    attempt h (quest_wifi_adb_operation h (wr_operation_id r)) (\<lambda>op.
    attempt h (find_wifi_target op (wr_device_id r)) (\<lambda>t.
    case wt_invocation t of
      None \<Rightarrow> (h, Inl (hub_error ''wifi_adb_invocation_missing''
        ''owner receipt cannot be admitted before the exact invocation''))
    | Some i \<Rightarrow>
        if wifi_receipt_unbound r i
        then (h, Inl (hub_error ''wifi_adb_receipt_binding_mismatch''
          ''receipt does not bind the exact owner invocation''))
        else if wt_lifecycle t \<notin> {Dispatched, Running, Applied}
        then (h, Inl (hub_error ''wifi_adb_receipt_state_invalid''
          ''receipt is not admissible in the target lifecycle''))
        else revise_wifi sha h (wr_operation_id r)
          (with_wifi_lifecycle
            (change_wifi_target op (wr_device_id r) (received_wifi_target r now_ms) now_ms)))))"

definition failed_wifi_target :: "string \<Rightarrow> i64 \<Rightarrow> wifi_target \<Rightarrow> wifi_target" where
  "failed_wifi_target code now_ms t = t\<lparr>
     wt_lifecycle := Lifecycle_Failed,
     wt_failure_code := Some code,
     wt_updated_at_ms := now_ms\<rparr>"

definition fail_quest_wifi_adb_target ::
  "(string \<Rightarrow> string) \<Rightarrow> 'a hub_state_scheme \<Rightarrow> string \<Rightarrow> string \<Rightarrow> string \<Rightarrow> i64 \<Rightarrow>
   'a hub_state_scheme \<times> (hub_error + wifi_operation)" where
  "fail_quest_wifi_adb_target sha h operation_id device_id code now_ms =
    attempt h (quest_wifi_adb_operation h operation_id) (\<lambda>op.
    attempt h (find_wifi_target op device_id) (\<lambda>t.
    if code = [] \<or> length code > 256
    then (h, Inl (hub_error ''wifi_adb_failure_code_invalid'' ''failure code must be bounded''))
    else revise_wifi sha h operation_id
      (with_wifi_lifecycle (change_wifi_target op device_id (failed_wifi_target code now_ms) now_ms))))"

end
