(* ===== verification/Owner_Ledger.thy ===== *)
theory Owner_Ledger
  imports Hub_Owner
begin

text \<open>
  The abstract ledger the owner-bound operations (awake.rs, wifi_adb.rs) promise to keep: targets
  with a lifecycle, at most one owner invocation and at most one receipt each, and the five steps
  that change them. \<open>bound i r\<close> says that receipt \<open>r\<close> answers invocation \<open>i\<close>, \<open>effective r\<close> that it shows
  the effect. What every reachable ledger satisfies is proved here once; the detailed operations of
  both families refine these steps.
\<close>

record ('i, 'r) ledger_target =
  lt_device_id :: string
  lt_eligible :: bool
  lt_lifecycle :: command_lifecycle
  lt_invocation :: "'i option"
  lt_receipt :: "'r option"

record ('i, 'r) ledger =
  lg_confirmed :: bool
  lg_lifecycle :: command_lifecycle
  lg_targets :: "('i, 'r) ledger_target list"

definition eligible_lifecycles :: "('i, 'r) ledger \<Rightarrow> command_lifecycle list" where
  "eligible_lifecycles l = map lt_lifecycle (filter lt_eligible (lg_targets l))"

definition settle :: "('i, 'r) ledger \<Rightarrow> ('i, 'r) ledger" where
  "settle l = l\<lparr>lg_lifecycle :=
     owner_lifecycle (eligible_lifecycles l) (if lg_confirmed l then Some 0 else None)\<rparr>"

section \<open>Steps\<close>

definition accept_eligible :: "('i, 'r) ledger_target \<Rightarrow> ('i, 'r) ledger_target" where
  "accept_eligible t = (if lt_eligible t then t\<lparr>lt_lifecycle := Accepted\<rparr> else t)"

inductive target_step ::
  "('i \<Rightarrow> 'r \<Rightarrow> bool) \<Rightarrow> ('r \<Rightarrow> bool) \<Rightarrow> ('i, 'r) ledger_target \<Rightarrow> ('i, 'r) ledger_target \<Rightarrow> bool"
  for bound effective where
  dispatch: "lt_lifecycle t = Accepted \<Longrightarrow> lt_invocation t \<noteq> None \<Longrightarrow>
     target_step bound effective t (t\<lparr>lt_lifecycle := Dispatched\<rparr>)"
| receive: "lt_invocation t = Some i \<Longrightarrow> bound i r \<Longrightarrow> lt_lifecycle t \<in> {Dispatched, Running, Applied} \<Longrightarrow>
     target_step bound effective t
       (t\<lparr>lt_lifecycle := (if effective r then Applied else Running), lt_receipt := Some r\<rparr>)"
| fail: "target_step bound effective t (t\<lparr>lt_lifecycle := Lifecycle_Failed\<rparr>)"

inductive_cases target_stepE: "target_step bound effective t u"

inductive ledger_step ::
  "('i \<Rightarrow> 'r \<Rightarrow> bool) \<Rightarrow> ('r \<Rightarrow> bool) \<Rightarrow> ('i, 'r) ledger \<Rightarrow> ('i, 'r) ledger \<Rightarrow> bool"
  for bound effective where
  confirm: "lg_lifecycle l = Proposed \<Longrightarrow> ledger_step bound effective l
     (settle (l\<lparr>lg_confirmed := True, lg_targets := map accept_eligible (lg_targets l)\<rparr>))"
| prepare: "k < length (lg_targets l) \<Longrightarrow> t = lg_targets l ! k \<Longrightarrow> lt_lifecycle t = Accepted \<Longrightarrow>
     ledger_step bound effective l
       (l\<lparr>lg_targets := (lg_targets l)[k := t\<lparr>lt_invocation := Some i\<rparr>]\<rparr>)"
| target: "k < length (lg_targets l) \<Longrightarrow> t = lg_targets l ! k \<Longrightarrow> target_step bound effective t u \<Longrightarrow>
     ledger_step bound effective l (settle (l\<lparr>lg_targets := (lg_targets l)[k := u]\<rparr>))"

inductive_cases ledger_stepE: "ledger_step bound effective l m"

text \<open>A ledger starts with its eligible targets proposed and the others rejected.\<close>

definition ledger_initial :: "('i, 'r) ledger \<Rightarrow> bool" where
  "ledger_initial l \<longleftrightarrow>
     \<not> lg_confirmed l \<and> lg_lifecycle l = Proposed \<and>
     (\<forall>t\<in>set (lg_targets l). lt_invocation t = None \<and> lt_receipt t = None \<and>
        lt_lifecycle t = (if lt_eligible t then Proposed else Rejected))"

text \<open>The abstract machine of one operation ID: nothing yet, or a ledger.\<close>

inductive ledger_moves ::
  "('i \<Rightarrow> 'r \<Rightarrow> bool) \<Rightarrow> ('r \<Rightarrow> bool) \<Rightarrow> ('i, 'r) ledger option \<Rightarrow> ('i, 'r) ledger option \<Rightarrow> bool"
  for bound effective where
  stutter: "ledger_moves bound effective l l"
| start: "ledger_initial l \<Longrightarrow> ledger_moves bound effective None (Some l)"
| step: "ledger_step bound effective l m \<Longrightarrow> ledger_moves bound effective (Some l) (Some m)"

section \<open>The invariant\<close>

definition target_sound ::
  "('i \<Rightarrow> 'r \<Rightarrow> bool) \<Rightarrow> ('r \<Rightarrow> bool) \<Rightarrow> ('i, 'r) ledger_target \<Rightarrow> bool" where
  "target_sound bound effective t \<longleftrightarrow>
     (\<not> lt_eligible t \<longrightarrow> lt_lifecycle t \<in> {Rejected, Lifecycle_Failed} \<and> lt_invocation t = None) \<and>
     (lt_eligible t \<longrightarrow>
        lt_lifecycle t \<in> {Proposed, Accepted, Dispatched, Running, Applied, Lifecycle_Failed}) \<and>
     (lt_lifecycle t = Proposed \<longrightarrow> lt_invocation t = None) \<and>
     (lt_lifecycle t \<in> {Dispatched, Running, Applied} \<longrightarrow> lt_invocation t \<noteq> None) \<and>
     (lt_lifecycle t = Accepted \<longrightarrow> lt_receipt t = None) \<and>
     (\<forall>r. lt_receipt t = Some r \<longrightarrow> (\<exists>i. lt_invocation t = Some i \<and> bound i r)) \<and>
     (lt_lifecycle t = Applied \<longrightarrow> (\<exists>r. lt_receipt t = Some r \<and> effective r))"

definition ledger_sound :: "('i \<Rightarrow> 'r \<Rightarrow> bool) \<Rightarrow> ('r \<Rightarrow> bool) \<Rightarrow> ('i, 'r) ledger \<Rightarrow> bool" where
  "ledger_sound bound effective l \<longleftrightarrow>
     (\<forall>t\<in>set (lg_targets l). target_sound bound effective t) \<and>
     (\<not> lg_confirmed l \<longrightarrow> set (eligible_lifecycles l) \<subseteq> {Proposed, Lifecycle_Failed}) \<and>
     (lg_lifecycle l = Proposed \<longrightarrow> set (eligible_lifecycles l) \<subseteq> {Proposed})"

lemma set_eligible_lifecycles:
  "set (eligible_lifecycles l) = lt_lifecycle ` {t \<in> set (lg_targets l). lt_eligible t}"
  by (auto simp: eligible_lifecycles_def)

lemma settle_fields [simp]:
  "lg_targets (settle l) = lg_targets l" "lg_confirmed (settle l) = lg_confirmed l"
  "eligible_lifecycles (settle l) = eligible_lifecycles l"
  by (simp_all add: settle_def eligible_lifecycles_def)

text \<open>Recomputing the lifecycle never reports \<open>Proposed\<close> for a ledger with anything beyond it.\<close>

lemma settle_sound:
  assumes "\<forall>t\<in>set (lg_targets l). target_sound bound effective t"
    and "\<not> lg_confirmed l \<longrightarrow> set (eligible_lifecycles l) \<subseteq> {Proposed, Lifecycle_Failed}"
  shows "ledger_sound bound effective (settle l)"
proof -
  have "set (eligible_lifecycles l) \<subseteq> {Proposed}" if "lg_lifecycle (settle l) = Proposed"
    using owner_lifecycle_Proposed [of "eligible_lifecycles l"] that assms(2)
    by (auto simp: settle_def split: if_splits)
  with assms show ?thesis by (simp add: ledger_sound_def)
qed

lemma target_step_sound:
  assumes "target_step bound effective t u" and "target_sound bound effective t"
  shows "target_sound bound effective u"
  using assms(1)
proof (cases rule: target_step.cases)
  case dispatch
  with assms(2) show ?thesis by (cases "lt_eligible t") (simp_all add: target_sound_def)
next
  case (receive i r)
  with assms(2) show ?thesis
    by (cases "lt_eligible t"; cases "effective r") (simp_all add: target_sound_def)
next
  case fail
  have "\<forall>r. lt_receipt t = Some r \<longrightarrow> (\<exists>i. lt_invocation t = Some i \<and> bound i r)"
    using assms(2) unfolding target_sound_def by blast
  with assms(2) show ?thesis unfolding fail
    by (cases "lt_eligible t"; cases "lt_receipt t") (simp_all add: target_sound_def)
qed

text \<open>Before confirmation the only step of an eligible target is a failure.\<close>

lemma target_step_unconfirmed:
  assumes "target_step bound effective t u" and "target_sound bound effective t"
    and "lt_lifecycle t \<in> {Proposed, Lifecycle_Failed} \<or> \<not> lt_eligible t"
  shows "lt_lifecycle u = Lifecycle_Failed"
  using assms(1)
proof (cases rule: target_step.cases)
  case dispatch
  with assms(2,3) show ?thesis by (cases "lt_eligible t") (simp_all add: target_sound_def)
next
  case (receive i r)
  with assms(2,3) show ?thesis by (cases "lt_eligible t") (auto simp: target_sound_def)
next
  case fail
  then show ?thesis by simp
qed

lemma ledger_step_sound:
  assumes "ledger_step bound effective l m" and sound: "ledger_sound bound effective l"
  shows "ledger_sound bound effective m"
  using assms(1)
proof (cases rule: ledger_step.cases)
  case confirm
  have eligible: "lt_lifecycle t = Proposed" if "t \<in> set (lg_targets l)" "lt_eligible t" for t
    using sound confirm(2) that by (auto simp: ledger_sound_def set_eligible_lifecycles)
  have "target_sound bound effective (accept_eligible t)" if t: "t \<in> set (lg_targets l)" for t
  proof (cases "lt_eligible t")
    case True
    have "target_sound bound effective t" using sound t by (simp add: ledger_sound_def)
    with eligible [OF t True] have "lt_invocation t = None" "lt_receipt t = None"
      by (auto simp: target_sound_def)
    with True show ?thesis by (simp add: accept_eligible_def target_sound_def)
  next
    case False
    then show ?thesis using sound t by (simp add: accept_eligible_def ledger_sound_def)
  qed
  then show ?thesis unfolding confirm(1) by (intro settle_sound) auto
next
  case (prepare k t i)
  let ?u = "t\<lparr>lt_invocation := Some i\<rparr>"
  have t: "t \<in> set (lg_targets l)" "target_sound bound effective t"
    using prepare sound by (auto simp: ledger_sound_def)
  have "target_sound bound effective ?u" using t(2) prepare(4) by (auto simp: target_sound_def)
  then have "\<forall>x\<in>set (lg_targets m). target_sound bound effective x"
    using sound set_update_subset_insert [of "lg_targets l" k ?u]
    unfolding prepare(1) by (auto simp: ledger_sound_def)
  moreover have "eligible_lifecycles m = eligible_lifecycles l"
  proof -
    have "map (\<lambda>t. (lt_eligible t, lt_lifecycle t)) (lg_targets m) =
        map (\<lambda>t. (lt_eligible t, lt_lifecycle t)) (lg_targets l)"
      using prepare by (simp add: map_update list_update_same_conv)
    moreover have "eligible_lifecycles x = map snd (filter fst (map (\<lambda>t. (lt_eligible t, lt_lifecycle t)) (lg_targets x)))"
      for x :: "('a, 'b) ledger"
      by (simp add: eligible_lifecycles_def filter_map o_def)
    ultimately show ?thesis by simp
  qed
  moreover have "lg_confirmed m = lg_confirmed l" "lg_lifecycle m = lg_lifecycle l"
    by (simp_all add: prepare(1))
  ultimately show ?thesis using sound by (simp add: ledger_sound_def)
next
  case (target k t u)
  have t: "t \<in> set (lg_targets l)" "target_sound bound effective t"
    using target sound by (auto simp: ledger_sound_def)
  have u: "target_sound bound effective u" using target_step_sound [OF target(4) t(2)] .
  let ?l = "l\<lparr>lg_targets := (lg_targets l)[k := u]\<rparr>"
  have members: "x = u \<or> x \<in> set (lg_targets l)" if "x \<in> set (lg_targets ?l)" for x
    using that set_update_subset_insert [of "lg_targets l" k u] by auto
  show ?thesis unfolding target(1)
  proof (rule settle_sound)
    show "\<forall>x\<in>set (lg_targets ?l). target_sound bound effective x"
      using members u sound by (auto simp: ledger_sound_def)
    show "\<not> lg_confirmed ?l \<longrightarrow> set (eligible_lifecycles ?l) \<subseteq> {Proposed, Lifecycle_Failed}"
    proof
      assume "\<not> lg_confirmed ?l"
      then have old: "lt_lifecycle x \<in> {Proposed, Lifecycle_Failed}"
        if "x \<in> set (lg_targets l)" "lt_eligible x" for x
        using sound that by (auto simp: ledger_sound_def set_eligible_lifecycles)
      have "lt_lifecycle u = Lifecycle_Failed"
        using target_step_unconfirmed [OF target(4) t(2)] old [OF t(1)] by blast
      moreover have "lt_lifecycle x \<in> {Proposed, Lifecycle_Failed}"
        if x: "x \<in> set (lg_targets ?l)" "lt_eligible x" for x
      proof (cases "x = u")
        case True
        then show ?thesis using calculation by simp
      next
        case False
        then show ?thesis using members [OF x(1)] old x(2) by blast
      qed
      ultimately show "set (eligible_lifecycles ?l) \<subseteq> {Proposed, Lifecycle_Failed}"
        unfolding set_eligible_lifecycles by blast
    qed
  qed
qed

section \<open>Histories\<close>

text \<open>
  Over any steps a target keeps its device and eligibility; a failed target stays failed, and a
  target that was dispatched never returns to a state before dispatch.
\<close>

definition target_onward :: "('i, 'r) ledger_target \<Rightarrow> ('i, 'r) ledger_target \<Rightarrow> bool" where
  "target_onward t u \<longleftrightarrow>
     lt_device_id u = lt_device_id t \<and> lt_eligible u = lt_eligible t \<and>
     (lt_lifecycle t = Lifecycle_Failed \<longrightarrow> lt_lifecycle u = Lifecycle_Failed) \<and>
     (lt_lifecycle t \<in> {Dispatched, Running, Applied, Lifecycle_Failed} \<longrightarrow>
        lt_lifecycle u \<in> {Dispatched, Running, Applied, Lifecycle_Failed} \<and>
        lt_invocation u = lt_invocation t)"

lemma target_onward_refl: "target_onward t t"
  by (simp add: target_onward_def)

lemma target_onward_trans: "target_onward t u \<Longrightarrow> target_onward u v \<Longrightarrow> target_onward t v"
  unfolding target_onward_def by presburger

lemma target_step_onward: "target_step bound effective t u \<Longrightarrow> target_onward t u"
  by (erule target_stepE) (auto simp: target_onward_def)

lemma onward_update:
  "k < length ts \<Longrightarrow> target_onward (ts ! k) u \<Longrightarrow> list_all2 target_onward ts (ts[k := u])"
  by (auto simp: list_all2_conv_all_nth nth_list_update target_onward_refl)

lemma ledger_step_onward:
  assumes "ledger_step bound effective l m" and sound: "ledger_sound bound effective l"
  shows "list_all2 target_onward (lg_targets l) (lg_targets m)"
  using assms(1)
proof (cases rule: ledger_step.cases)
  case confirm
  have "target_onward t (accept_eligible t)" if t: "t \<in> set (lg_targets l)" for t
    using sound confirm(2) t
    by (auto simp: target_onward_def accept_eligible_def ledger_sound_def set_eligible_lifecycles)
  then show ?thesis by (auto simp: confirm(1) list_all2_conv_all_nth)
next
  case (prepare k t i)
  then show ?thesis by (auto intro!: onward_update simp: target_onward_def)
next
  case (target k t u)
  with target_step_onward [OF target(4)] show ?thesis by (auto intro!: onward_update)
qed

end
