(* ===== verification/Hub_Wifi_Adb_Facts.thy ===== *)
theory Hub_Wifi_Adb_Facts
  imports Hub_Wifi_Adb Owner_Ledger Operation_Store
begin

text \<open>
  What the Quest Wi-Fi ADB operations guarantee: every method refines a step of the owner ledger,
  and keeps what ties invocations and receipts to the operation they were issued for, whatever the
  validator says afterwards.
\<close>

section \<open>The ledger of an operation\<close>

definition wifi_receipt_answers :: "wifi_invocation \<Rightarrow> wifi_receipt \<Rightarrow> bool" where
  "wifi_receipt_answers i r \<longleftrightarrow> valid (validate_wifi_receipt r) \<and> \<not> wifi_receipt_unbound r i"

definition abs_wifi_target :: "wifi_target \<Rightarrow> (wifi_invocation, wifi_receipt) ledger_target" where
  "abs_wifi_target t = \<lparr>
     lt_device_id = wt_device_id t,
     lt_eligible = wf_eligible (wt_preflight t),
     lt_lifecycle = wt_lifecycle t,
     lt_invocation = wt_invocation t,
     lt_receipt = wt_receipt t\<rparr>"

definition abs_wifi :: "wifi_operation \<Rightarrow> (wifi_invocation, wifi_receipt) ledger" where
  "abs_wifi op = \<lparr>
     lg_confirmed = (wop_confirmed_at_ms op \<noteq> None),
     lg_lifecycle = wop_lifecycle op,
     lg_targets = map abs_wifi_target (wop_targets op)\<rparr>"

abbreviation wifi_step :: "wifi_operation \<Rightarrow> wifi_operation \<Rightarrow> bool" where
  "wifi_step op op' \<equiv>
     ledger_step wifi_receipt_answers wr_effect_applied (abs_wifi op) (abs_wifi op')"

text \<open>What no method changes.\<close>

definition wifi_frame :: "wifi_operation \<Rightarrow>
    string \<times> string \<times> string \<times> wifi_preview \<times> (string \<times> u64 \<times> wifi_preflight) list" where
  "wifi_frame op =
     (wop_schema op, wop_operation_id op, wop_action_id op, wop_preview op,
      map (\<lambda>t. (wt_device_id t, wt_identity_revision t, wt_preflight t)) (wop_targets op))"

definition wifi_target_bound :: "wifi_operation \<Rightarrow> wifi_target \<Rightarrow> bool" where
  "wifi_target_bound op t \<longleftrightarrow>
     (\<forall>i. wt_invocation t = Some i \<longrightarrow>
        wi_operation_id i = wop_operation_id op \<and> wi_preview_id i = wv_preview_id (wop_preview op) \<and>
        wi_device_id i = wt_device_id t \<and> wi_identity_revision i = wt_identity_revision t \<and>
        wi_action i = wv_action (wop_preview op) \<and>
        wi_expires_at_ms i = wv_expires_at_ms (wop_preview op)) \<and>
     (\<forall>r. wt_receipt t = Some r \<longrightarrow>
        wr_operation_id r = wop_operation_id op \<and> wr_device_id r = wt_device_id t) \<and>
     wt_termux_proof t = None \<and> wt_termux_admission t = None \<and> \<not> wt_termux_usable t"

definition wifi_targets_bound :: "wifi_operation \<Rightarrow> bool" where
  "wifi_targets_bound op \<longleftrightarrow> (\<forall>t\<in>set (wop_targets op). wifi_target_bound op t)"

definition wifi_evolves :: "wifi_operation \<Rightarrow> wifi_operation \<Rightarrow> bool" where
  "wifi_evolves op op' \<longleftrightarrow> op' = op \<or>
     wifi_frame op' = wifi_frame op \<and> wifi_step op op' \<and>
     (wifi_targets_bound op \<longrightarrow> wifi_targets_bound op')"

text \<open>Every target keeps a preflight of the immutable preview, which passed its contract when it was made.\<close>

definition wifi_preview_bound :: "wifi_operation \<Rightarrow> bool" where
  "wifi_preview_bound op \<longleftrightarrow> valid (validate_wifi_preview (wop_preview op)) \<and>
     wt_preflight ` set (wop_targets op) \<subseteq> set (wv_targets (wop_preview op))"

definition wifi_sound :: "wifi_operation \<Rightarrow> bool" where
  "wifi_sound op \<longleftrightarrow>
     ledger_sound wifi_receipt_answers wr_effect_applied (abs_wifi op) \<and> wifi_targets_bound op \<and>
     wifi_preview_bound op"

definition freshly_proposed_wifi :: "wifi_operation \<Rightarrow> bool" where
  "freshly_proposed_wifi op \<longleftrightarrow>
     wop_lifecycle op = Proposed \<and> wop_confirmed_at_ms op = None \<and>
     (\<forall>t\<in>set (wop_targets op).
        wt_lifecycle t = (if wf_eligible (wt_preflight t) then Proposed else Rejected) \<and>
        wt_invocation t = None \<and> wt_receipt t = None \<and> wt_termux_proof t = None \<and>
        wt_termux_admission t = None \<and> \<not> wt_termux_usable t)"

lemma abs_wifi_target_simps [simp]:
  "lt_device_id (abs_wifi_target t) = wt_device_id t"
  "lt_eligible (abs_wifi_target t) = wf_eligible (wt_preflight t)"
  "lt_lifecycle (abs_wifi_target t) = wt_lifecycle t"
  "lt_invocation (abs_wifi_target t) = wt_invocation t"
  "lt_receipt (abs_wifi_target t) = wt_receipt t"
  by (simp_all add: abs_wifi_target_def)

lemma abs_wifi_simps [simp]:
  "lg_confirmed (abs_wifi op) = (wop_confirmed_at_ms op \<noteq> None)"
  "lg_lifecycle (abs_wifi op) = wop_lifecycle op"
  "lg_targets (abs_wifi op) = map abs_wifi_target (wop_targets op)"
  by (simp_all add: abs_wifi_def)

lemma abs_with_wifi_lifecycle: "abs_wifi (with_wifi_lifecycle op) = settle (abs_wifi op)"
  by (cases "wop_confirmed_at_ms op")
    (simp_all add: abs_wifi_def with_wifi_lifecycle_def derive_wifi_lifecycle_def settle_def
      eligible_lifecycles_def filter_map o_def owner_lifecycle_Some)

lemma wifi_valid_preview_bound:
  assumes "valid (validate_wifi_operation sha op)"
  shows "wifi_preview_bound op"
proof -
  have "validate_wifi_preview (wop_preview op) \<noteq> Inl []"
    by (simp add: validate_wifi_preview_def)
  then have "valid (validate_wifi_preview (wop_preview op))"
    using assms by (simp add: validate_wifi_operation_def wifi_operation_head_failures_def)
  moreover have "wt_preflight t \<in> set (wv_targets (wop_preview op))" if "t \<in> set (wop_targets op)" for t
  proof -
    have "wifi_operation_target_failures sha op t = []"
      using assms that by (simp add: validate_wifi_operation_def)
    then obtain p where "find (\<lambda>c. wf_device_id c = wt_device_id t) (wv_targets (wop_preview op)) = Some p"
      "wt_preflight t = p"
      by (auto simp: wifi_operation_target_failures_def wifi_bound_target_failures_def split: option.splits)
    then show ?thesis using find_Some_set by fastforce
  qed
  ultimately show ?thesis by (auto simp: wifi_preview_bound_def)
qed

lemma wifi_frame_preview_bound:
  assumes "wifi_frame op' = wifi_frame op" and "wifi_preview_bound op"
  shows "wifi_preview_bound op'"
proof -
  have "map ((\<lambda>(d, i, p). p) \<circ> (\<lambda>t. (wt_device_id t, wt_identity_revision t, wt_preflight t))) (wop_targets op') =
      map ((\<lambda>(d, i, p). p) \<circ> (\<lambda>t. (wt_device_id t, wt_identity_revision t, wt_preflight t))) (wop_targets op)"
    using assms(1) by (simp only: wifi_frame_def prod.inject map_map [symmetric])
  then have "wt_preflight ` set (wop_targets op') = wt_preflight ` set (wop_targets op)"
    by (simp add: o_def) (metis list.set_map)
  with assms show ?thesis by (simp add: wifi_preview_bound_def wifi_frame_def)
qed

lemma wifi_fresh_sound:
  "valid (validate_wifi_operation sha op) \<Longrightarrow> freshly_proposed_wifi op \<Longrightarrow> wifi_sound op"
  using wifi_valid_preview_bound
  by (auto simp: wifi_sound_def ledger_sound_def target_sound_def freshly_proposed_wifi_def
      set_eligible_lifecycles wifi_targets_bound_def wifi_target_bound_def)

interpretation wa: inplace_store
  "\<lambda>h. bt_get (fh_wifi_adb_operations h)" put_wifi wop_operation_id
  "\<lambda>op. valid (validate_wifi_operation sha op)" freshly_proposed_wifi wifi_evolves wifi_sound
  for sha
proof unfold_locales
  show "wop_operation_id y = wop_operation_id x" if "wifi_evolves x y" for x y
    using that by (auto simp: wifi_evolves_def wifi_frame_def)
  show "wifi_sound y" if "wifi_evolves x y" "wifi_sound x" for x y
    using that ledger_step_sound wifi_frame_preview_bound by (auto simp: wifi_evolves_def wifi_sound_def)
qed (simp_all add: put_wifi_def wifi_evolves_def wifi_fresh_sound)

section \<open>Changing one target\<close>

lemma find_wifi_target_Inr [simp]:
  "find_wifi_target op d = Inr t \<longleftrightarrow> find (\<lambda>t. wt_device_id t = d) (wop_targets op) = Some t"
  by (simp add: find_wifi_target_def split: option.split)

lemma quest_wifi_adb_operation_Inr [simp]:
  "quest_wifi_adb_operation h k = Inr op \<longleftrightarrow> bt_get (fh_wifi_adb_operations h) k = Some op"
  by (simp add: quest_wifi_adb_operation_def split: option.split)

definition wifi_change_bound :: "wifi_operation \<Rightarrow> (wifi_target \<Rightarrow> wifi_target) \<Rightarrow> bool" where
  "wifi_change_bound op f \<longleftrightarrow>
     (\<forall>t. wt_device_id (f t) = wt_device_id t \<and> wt_identity_revision (f t) = wt_identity_revision t \<and>
          wt_preflight (f t) = wt_preflight t)"

lemma wifi_frame_lifecycle [simp]: "wifi_frame (with_wifi_lifecycle op) = wifi_frame op"
  by (simp add: wifi_frame_def with_wifi_lifecycle_def)

lemma wifi_bound_lifecycle [simp]: "wifi_targets_bound (with_wifi_lifecycle op) = wifi_targets_bound op"
  by (simp add: wifi_targets_bound_def wifi_target_bound_def with_wifi_lifecycle_def)

lemma wifi_frame_change:
  "wifi_change_bound op f \<Longrightarrow> wifi_frame (change_wifi_target op d f now) = wifi_frame op"
  by (simp add: wifi_frame_def change_wifi_target_def wifi_change_bound_def map_update_first)

lemma abs_wifi_change:
  assumes "find (\<lambda>t. wt_device_id t = d) (wop_targets op) = Some t"
  obtains k where "k < length (wop_targets op)" "wop_targets op ! k = t"
    "abs_wifi (change_wifi_target op d f now) =
       (abs_wifi op)\<lparr>lg_targets := (lg_targets (abs_wifi op))[k := abs_wifi_target (f t)]\<rparr>"
proof -
  from update_first_nth [OF assms] obtain k where "k < length (wop_targets op)"
    "wop_targets op ! k = t"
    "update_first (\<lambda>t. wt_device_id t = d) f (wop_targets op) = (wop_targets op)[k := f t]" by blast
  then show thesis by (intro that [of k]) (simp_all add: abs_wifi_def change_wifi_target_def map_update)
qed

lemma wifi_bound_change:
  assumes "find (\<lambda>t. wt_device_id t = d) (wop_targets op) = Some t"
    and "wifi_target_bound op t \<longrightarrow> wifi_target_bound op (f t)" and "wifi_targets_bound op"
  shows "wifi_targets_bound (change_wifi_target op d f now)"
proof -
  have "wifi_target_bound op t" using find_Some_set [OF assms(1)] assms(3) by (simp add: wifi_targets_bound_def)
  then have "wifi_target_bound op u" if "u \<in> set (update_first (\<lambda>t. wt_device_id t = d) f (wop_targets op))" for u
    using set_update_first [OF assms(1) that] assms(2,3) by (auto simp: wifi_targets_bound_def)
  then show ?thesis by (simp add: wifi_targets_bound_def wifi_target_bound_def change_wifi_target_def)
qed

text \<open>A target step, settled or not, evolves the operation.\<close>

lemma wifi_evolves_target:
  assumes found: "find (\<lambda>t. wt_device_id t = d) (wop_targets op) = Some t"
    and "wifi_change_bound op f" and "wifi_target_bound op t \<Longrightarrow> wifi_target_bound op (f t)"
    and step: "target_step wifi_receipt_answers wr_effect_applied (abs_wifi_target t) (abs_wifi_target (f t))"
  shows "wifi_evolves op (with_wifi_lifecycle (change_wifi_target op d f now))"
proof -
  obtain k where "k < length (wop_targets op)" "wop_targets op ! k = t"
    "abs_wifi (change_wifi_target op d f now) =
       (abs_wifi op)\<lparr>lg_targets := (lg_targets (abs_wifi op))[k := abs_wifi_target (f t)]\<rparr>"
    using abs_wifi_change [OF found] .
  then have "wifi_step op (with_wifi_lifecycle (change_wifi_target op d f now))"
    unfolding abs_with_wifi_lifecycle
    using ledger_step.target [of k "abs_wifi op" "abs_wifi_target t", OF _ _ step] by simp
  with wifi_frame_change [OF assms(2)] wifi_bound_change [OF found] assms(3)
  show ?thesis by (simp add: wifi_evolves_def)
qed

lemma wifi_evolves_prepare:
  assumes found: "find (\<lambda>t. wt_device_id t = d) (wop_targets op) = Some t"
    and "wt_lifecycle t = Accepted"
  shows "wifi_evolves op (change_wifi_target op d (prepared_wifi_target op request_id now) now')"
proof -
  let ?f = "prepared_wifi_target op request_id now"
  have bound: "wifi_target_bound op (?f t)" if "wifi_target_bound op t"
    using that by (simp add: wifi_target_bound_def prepared_wifi_target_def prepared_invocation_def)
  obtain k where k: "k < length (wop_targets op)" "wop_targets op ! k = t"
    "abs_wifi (change_wifi_target op d ?f now') =
       (abs_wifi op)\<lparr>lg_targets := (lg_targets (abs_wifi op))[k := abs_wifi_target (?f t)]\<rparr>"
    using abs_wifi_change [OF found] .
  have "abs_wifi_target (?f t) =
      (abs_wifi_target t)\<lparr>lt_invocation := Some (prepared_invocation op request_id now t)\<rparr>"
    by (simp add: abs_wifi_target_def prepared_wifi_target_def)
  with k assms(2) have "wifi_step op (change_wifi_target op d ?f now')"
    using ledger_step.prepare [of k "abs_wifi op" "abs_wifi_target t"] by simp
  moreover have "wifi_change_bound op ?f" by (simp add: wifi_change_bound_def prepared_wifi_target_def)
  ultimately show ?thesis
    using wifi_frame_change wifi_bound_change [OF found] bound by (simp add: wifi_evolves_def)
qed

lemma wifi_evolves_confirm:
  assumes "wop_lifecycle op = Proposed"
  shows "wifi_evolves op (confirmed_wifi_operation now op)"
proof -
  have "abs_wifi_target (confirm_wifi_target now t) = accept_eligible (abs_wifi_target t)" for t
    by (simp add: abs_wifi_target_def confirm_wifi_target_def accept_eligible_def)
  then have "abs_wifi (confirmed_wifi_operation now op) = settle
      ((abs_wifi op)\<lparr>lg_confirmed := True, lg_targets := map accept_eligible (lg_targets (abs_wifi op))\<rparr>)"
    unfolding confirmed_wifi_operation_def abs_with_wifi_lifecycle
    by (simp add: abs_wifi_def o_def)
  with assms have "wifi_step op (confirmed_wifi_operation now op)"
    using ledger_step.confirm [of "abs_wifi op"] by (simp add: o_def)
  moreover have "wifi_frame (confirmed_wifi_operation now op) = wifi_frame op"
    by (simp add: wifi_frame_def confirmed_wifi_operation_def with_wifi_lifecycle_def confirm_wifi_target_def)
  moreover have "wifi_targets_bound (confirmed_wifi_operation now op)" if "wifi_targets_bound op"
    using that by (auto simp: wifi_targets_bound_def wifi_target_bound_def confirmed_wifi_operation_def
        with_wifi_lifecycle_def confirm_wifi_target_def)
  ultimately show ?thesis by (simp add: wifi_evolves_def)
qed

section \<open>Every method keeps the store discipline\<close>

lemma wifi_attempt:
  "(\<And>x. r = Inr x \<Longrightarrow> wa.inplace sha h k (f x)) \<Longrightarrow> wa.inplace sha h k (attempt h r f)"
  by (cases r) auto

lemma wifi_if:
  "(c \<Longrightarrow> wa.inplace sha h k a) \<Longrightarrow> (\<not> c \<Longrightarrow> wa.inplace sha h k b) \<Longrightarrow>
   wa.inplace sha h k (if c then a else b)"
  by simp

lemmas wifi_intros = wifi_attempt wifi_if wa.inplace_error

lemma validate_wifi_Inr [simp]:
  "validate_wifi sha op = Inr u \<longleftrightarrow> valid (validate_wifi_operation sha op)"
  by (cases "validate_wifi_operation sha op") (auto simp: validate_wifi_def valid_def)

lemma revise_wifi_inplace:
  assumes "bt_get (fh_wifi_adb_operations h) k = Some op" and "wifi_evolves op op'"
  shows "wa.inplace sha h k (revise_wifi sha h k op')"
proof (rule wa.inplace_revised [OF assms])
  show "fst (revise_wifi sha h k op') = put_wifi k op' h"
    by (cases "validate_wifi_operation sha op'") (simp_all add: revise_wifi_def validate_wifi_def)
  show "if valid (validate_wifi_operation sha op') then snd (revise_wifi sha h k op') = Inr op'
    else \<exists>e. snd (revise_wifi sha h k op') = Inl e"
    by (cases "validate_wifi_operation sha op'") (simp_all add: revise_wifi_def validate_wifi_def valid_def)
qed

lemma wifi_preview_inplace:
  "wa.inplace sha h (wpp_operation_id plan) (preview_quest_wifi_adb sha h plan)"
proof (cases "bt_get (fh_wifi_adb_operations h) (wpp_operation_id plan)")
  case None
  let ?op = "\<lambda>ps. proposed_wifi_operation (fh_result_revision h) plan ps"
  have "wa.inplace sha h (wpp_operation_id plan) (put_wifi (wpp_operation_id plan) (?op ps) h, Inr (?op ps))"
    if "valid (validate_wifi_operation sha (?op ps))" for ps
  proof (rule wa.inplace_created [OF None that])
    show "freshly_proposed_wifi (?op ps)"
      by (simp add: freshly_proposed_wifi_def proposed_wifi_operation_def Let_def proposed_wifi_target_def)
    show "wop_operation_id (?op ps) = wpp_operation_id plan"
      by (simp add: proposed_wifi_operation_def Let_def)
  qed
  with None show ?thesis
    unfolding preview_quest_wifi_adb_def Let_def by (auto intro!: wifi_intros)
next
  case (Some existing)
  then show ?thesis
    unfolding preview_quest_wifi_adb_def by (auto intro: wa.inplace_found)
qed

lemma wifi_confirm_inplace:
  "wa.inplace sha h k (confirm_quest_wifi_adb sha h k preview_id now)"
  unfolding confirm_quest_wifi_adb_def
  by (auto intro!: wifi_intros wa.inplace_found revise_wifi_inplace wifi_evolves_confirm)

lemma wifi_prepare_inplace:
  "wa.inplace sha h k (prepare_quest_wifi_adb_invocation sha h k d request_id now)"
  unfolding prepare_quest_wifi_adb_invocation_def
  by (auto intro!: wifi_intros revise_wifi_inplace wifi_evolves_prepare)

lemma wifi_dispatch_inplace:
  "wa.inplace sha h k (mark_quest_wifi_adb_dispatched sha h k d now)"
proof -
  have "wifi_evolves op (with_wifi_lifecycle (change_wifi_target op d (dispatched_wifi_target now) now))"
    if "find (\<lambda>t. wt_device_id t = d) (wop_targets op) = Some t"
      "wt_lifecycle t = Accepted" "wt_invocation t \<noteq> None" for op t
  proof (rule wifi_evolves_target [OF that(1)])
    show "target_step wifi_receipt_answers wr_effect_applied (abs_wifi_target t)
        (abs_wifi_target (dispatched_wifi_target now t))"
      using target_step.dispatch [of "abs_wifi_target t"] that
      by (simp add: abs_wifi_target_def dispatched_wifi_target_def)
  qed (simp_all add: wifi_change_bound_def dispatched_wifi_target_def wifi_target_bound_def)
  then show ?thesis unfolding mark_quest_wifi_adb_dispatched_def
    by (auto intro!: wifi_intros intro: revise_wifi_inplace)
qed

lemma wifi_receipt_evolves:
  assumes "find (\<lambda>t. wt_device_id t = wr_device_id r) (wop_targets op) = Some t"
    and "valid (validate_wifi_receipt r)" and "wr_operation_id r = wop_operation_id op"
    and "wt_invocation t = Some i" and "\<not> wifi_receipt_unbound r i"
    and "wt_lifecycle t \<in> {Dispatched, Running, Applied}"
  shows "wifi_evolves op (with_wifi_lifecycle
           (change_wifi_target op (wr_device_id r) (received_wifi_target r now) now))"
proof (rule wifi_evolves_target [OF assms(1)])
  show "target_step wifi_receipt_answers wr_effect_applied (abs_wifi_target t)
      (abs_wifi_target (received_wifi_target r now t))"
    using target_step.receive [of "abs_wifi_target t" i wifi_receipt_answers r wr_effect_applied] assms
    by (simp add: abs_wifi_target_def received_wifi_target_def wifi_receipt_answers_def)
  show "wifi_target_bound op (received_wifi_target r now t)" if "wifi_target_bound op t"
    using that assms(3) find_Some_set [OF assms(1)]
    by (simp add: wifi_target_bound_def received_wifi_target_def)
qed (simp add: wifi_change_bound_def received_wifi_target_def)

lemma wifi_receipt_inplace:
  assumes "wa.sound_store h"
  shows "wa.inplace sha h (wr_operation_id r) (apply_quest_wifi_adb_receipt sha h r now)"
proof -
  have "wop_operation_id op = wr_operation_id r"
    if "bt_get (fh_wifi_adb_operations h) (wr_operation_id r) = Some op" for op
    using assms that by (simp add: wa.sound_store_def)
  then show ?thesis unfolding apply_quest_wifi_adb_receipt_def
    by (auto intro!: wifi_intros revise_wifi_inplace wifi_receipt_evolves split: option.split)
qed

lemma wifi_fail_inplace:
  "wa.inplace sha h k (fail_quest_wifi_adb_target sha h k d code now)"
proof -
  have "wifi_evolves op (with_wifi_lifecycle (change_wifi_target op d (failed_wifi_target code now) now))"
    if "find (\<lambda>t. wt_device_id t = d) (wop_targets op) = Some t" for op t
  proof (rule wifi_evolves_target [OF that])
    show "target_step wifi_receipt_answers wr_effect_applied (abs_wifi_target t)
        (abs_wifi_target (failed_wifi_target code now t))"
      using target_step.fail [of wifi_receipt_answers wr_effect_applied "abs_wifi_target t"]
      by (simp add: abs_wifi_target_def failed_wifi_target_def)
  qed (simp_all add: wifi_change_bound_def failed_wifi_target_def wifi_target_bound_def)
  then show ?thesis unfolding fail_quest_wifi_adb_target_def
    by (auto intro!: wifi_intros intro: revise_wifi_inplace)
qed

end
