(* ===== verification/Hub_Awake.thy ===== *)
theory Hub_Awake
  imports Hub_Owner
begin

text \<open>
  crates/fleet-hub/src/awake.rs: the Hub's Quest awake operations. A preview freezes the
  targets, a confirmation accepts the eligible ones, an invocation is prepared and dispatched per
  target, and a bound owner receipt applies it. From confirmation on the code changes the stored
  operation in place and validates it afterwards, so \<open>revise_awake\<close> stores the changed operation
  whatever the validator says.
\<close>

section \<open>The store\<close>

definition max_awake_operations :: usize where
  "max_awake_operations = 1000"

definition validate_awake :: "awake_operation \<Rightarrow> hub_error + unit" where
  "validate_awake op = (case validate_awake_operation op of
     Inl failures \<Rightarrow> Inl (hub_error ''awake_operation_contract_invalid'' (path_code_text failures))
   | Inr u \<Rightarrow> Inr u)"

definition put_awake :: "string \<Rightarrow> awake_operation \<Rightarrow> 'a hub_state_scheme \<Rightarrow> 'a hub_state_scheme" where
  "put_awake k op h = h\<lparr>fh_awake_operations := bt_insert k op (fh_awake_operations h)\<rparr>"

definition revise_awake ::
  "'a hub_state_scheme \<Rightarrow> string \<Rightarrow> awake_operation \<Rightarrow>
   'a hub_state_scheme \<times> (hub_error + awake_operation)" where
  "revise_awake h k op =
     attempt (put_awake k op h) (validate_awake op) (\<lambda>_. (put_awake k op h, Inr op))"

definition quest_awake_operation :: "'a hub_state_scheme \<Rightarrow> string \<Rightarrow> hub_error + awake_operation" where
  "quest_awake_operation h operation_id = (case bt_get (fh_awake_operations h) operation_id of
     None \<Rightarrow> Inl (hub_error ''awake_operation_not_found'' ''operation not found'')
   | Some op \<Rightarrow> Inr op)"

definition quest_awake_operations :: "'a hub_state_scheme \<Rightarrow> awake_operation list" where
  "quest_awake_operations h = bt_values (fh_awake_operations h)"

definition find_awake_target :: "awake_operation \<Rightarrow> string \<Rightarrow> hub_error + awake_target" where
  "find_awake_target op device_id = (case find (\<lambda>t. at_device_id t = device_id) (aop_targets op) of
     None \<Rightarrow> Inl (hub_error ''awake_target_not_found'' ''target is not in operation'')
   | Some t \<Rightarrow> Inr t)"

definition change_awake_target ::
  "awake_operation \<Rightarrow> string \<Rightarrow> (awake_target \<Rightarrow> awake_target) \<Rightarrow> i64 \<Rightarrow> awake_operation" where
  "change_awake_target op device_id change now_ms = op\<lparr>
     aop_targets := update_first (\<lambda>t. at_device_id t = device_id) change (aop_targets op),
     aop_updated_at_ms := now_ms\<rparr>"

definition derive_awake_lifecycle :: "awake_operation \<Rightarrow> command_lifecycle" where
  "derive_awake_lifecycle op = owner_lifecycle
     (map at_lifecycle (filter (\<lambda>t. af_eligible (at_preflight t)) (aop_targets op)))
     (aop_confirmed_at_ms op)"

definition with_awake_lifecycle :: "awake_operation \<Rightarrow> awake_operation" where
  "with_awake_lifecycle op = op\<lparr>aop_lifecycle := derive_awake_lifecycle op\<rparr>"

section \<open>Guards\<close>

definition require_awake_target_current ::
  "'a hub_state_scheme \<Rightarrow> awake_operation \<Rightarrow> string \<Rightarrow> i64 \<Rightarrow> hub_error + unit" where
  "require_awake_target_current h op device_id now_ms =
    (case find_awake_target op device_id of
       Inl e \<Rightarrow> Inl e
     | Inr t \<Rightarrow> (case bt_get (fh_devices h) device_id of
         None \<Rightarrow> Inl (hub_error ''awake_target_not_found'' ''target is no longer enrolled'')
       | Some r \<Rightarrow>
           if di_identity_revision (do_identity (rec_observation r)) \<noteq> at_identity_revision t
           then Inl (hub_error ''awake_target_identity_changed'' ''target identity changed after preview'')
           else if do_received_time_ms (rec_observation r) > now_ms \<or>
                   do_source_time_ms (rec_observation r) > now_ms
           then Inl (hub_error ''awake_capability_changed''
             ''Quest awake target observation is not current at confirmation'')
           else Inr ()))"

fun require_awake_devices_current ::
  "'a hub_state_scheme \<Rightarrow> awake_operation \<Rightarrow> string list \<Rightarrow> i64 \<Rightarrow> hub_error + unit" where
  "require_awake_devices_current h op [] now_ms = Inr ()"
| "require_awake_devices_current h op (d # ds) now_ms =
    (case require_awake_target_current h op d now_ms of
       Inl e \<Rightarrow> Inl e
     | Inr _ \<Rightarrow> require_awake_devices_current h op ds now_ms)"

definition require_awake_targets_current ::
  "'a hub_state_scheme \<Rightarrow> awake_operation \<Rightarrow> i64 \<Rightarrow> hub_error + unit" where
  "require_awake_targets_current h op now_ms = require_awake_devices_current h op
     (map at_device_id (filter (\<lambda>t. af_eligible (at_preflight t)) (aop_targets op))) now_ms"

section \<open>Preview\<close>

record awake_preview_plan =
  app_operation_id :: string
  app_preview_id :: string
  app_watchdog_generation :: string
  app_request :: awake_preview_request
  app_created_at_ms :: i64
  app_expires_at_ms :: i64
  app_provider_ready_devices :: "string set"

definition awake_preview_max_lifetime_ms :: i64 where
  "awake_preview_max_lifetime_ms = 15 * 60 * 1000"

definition awake_plan_invalid :: "awake_preview_plan \<Rightarrow> bool" where
  "awake_plan_invalid plan \<longleftrightarrow>
     \<not> valid (validate_awake_preview_request (app_request plan)) \<or> app_created_at_ms plan < 0 \<or>
     app_expires_at_ms plan \<le> app_created_at_ms plan \<or>
     app_expires_at_ms plan - app_created_at_ms plan > awake_preview_max_lifetime_ms \<or>
     app_operation_id plan = [] \<or> app_preview_id plan = [] \<or> app_watchdog_generation plan = []"

definition awake_preflight_of :: "device_record \<Rightarrow> i64 \<Rightarrow> bool \<Rightarrow> awake_preflight" where
  "awake_preflight_of r evaluated_at_ms provider_ready =
    (let facts = owner_capability_facts awake_capability_id awake_owner r evaluated_at_ms provider_ready;
         preflight = \<lparr>
           af_device_id = di_device_id (do_identity (rec_observation r)),
           af_identity_revision = di_identity_revision (do_identity (rec_observation r)),
           af_capability_id = awake_capability_id,
           af_capability_evidence_revision = of_evidence_revision facts,
           af_capability_owner = of_owner facts,
           af_support = of_support facts,
           af_enablement = of_enablement facts,
           af_authorization = of_authorization facts,
           af_reachability = of_reachability facts,
           af_freshness = of_freshness facts,
           af_observed_at_ms = of_observed_at_ms facts,
           af_fresh_until_ms = of_fresh_until_ms facts,
           af_evaluated_at_ms = evaluated_at_ms,
           af_eligible = False,
           af_reason_code = [],
           af_message = []\<rparr>;
         preflight = preflight\<lparr>af_reason_code := awake_expected_reason_code preflight\<rparr>;
         preflight = preflight\<lparr>af_eligible := awake_expected_eligibility preflight\<rparr>
     in preflight\<lparr>af_message :=
          if af_eligible preflight then ''File Manager Quest awake provider is current and ready''
          else ''Quest awake target is not eligible: '' @ af_reason_code preflight\<rparr>)"

fun freeze_awake_targets ::
  "'a hub_state_scheme \<Rightarrow> awake_preview_plan \<Rightarrow> (string \<times> u64) list \<Rightarrow> hub_error + awake_preflight list" where
  "freeze_awake_targets h plan [] = Inr []"
| "freeze_awake_targets h plan ((device_id, identity_revision) # rest) =
    (case bt_get (fh_devices h) device_id of
       None \<Rightarrow> Inl (hub_error ''awake_target_not_found''
         (''unknown Quest awake target '' @ device_id))
     | Some r \<Rightarrow>
         if di_identity_revision (do_identity (rec_observation r)) \<noteq> identity_revision
         then Inl (hub_error ''awake_target_identity_mismatch''
           (''target '' @ device_id @ '' identity revision differs from the request''))
         else (case freeze_awake_targets h plan rest of
             Inl e \<Rightarrow> Inl e
           | Inr ps \<Rightarrow> Inr (awake_preflight_of r (app_created_at_ms plan)
               (device_id \<in> app_provider_ready_devices plan) # ps)))"

definition proposed_awake_target :: "i64 \<Rightarrow> awake_preflight \<Rightarrow> awake_target" where
  "proposed_awake_target created_at_ms p = \<lparr>
     at_device_id = af_device_id p,
     at_identity_revision = af_identity_revision p,
     at_preflight = p,
     at_lifecycle = (if af_eligible p then Proposed else Rejected),
     at_invocation = None,
     at_receipt = None,
     at_failure_code = None,
     at_updated_at_ms = created_at_ms\<rparr>"

definition proposed_awake_operation ::
  "u64 \<Rightarrow> awake_preview_plan \<Rightarrow> awake_preflight list \<Rightarrow> awake_operation" where
  "proposed_awake_operation fleet_revision plan preflights =
    (let preview = \<lparr>
           av_schema = ''rusty.fleet.quest_awake_preview.v1'',
           av_preview_id = app_preview_id plan,
           av_operation_id = app_operation_id plan,
           av_action_id = awake_action_id,
           av_action = apr_action (app_request plan),
           av_created_at_ms = app_created_at_ms plan,
           av_expires_at_ms = app_expires_at_ms plan,
           av_fleet_revision = fleet_revision,
           av_duration_ms = apr_duration_ms (app_request plan),
           av_watchdog_interval_ms = apr_watchdog_interval_ms (app_request plan),
           av_watchdog_generation = app_watchdog_generation plan,
           av_owner = awake_file_manager_v1,
           av_targets = preflights\<rparr>
     in \<lparr>aop_schema = awake_operation_schema,
         aop_operation_id = app_operation_id plan,
         aop_action_id = awake_action_id,
         aop_lifecycle = Proposed,
         aop_preview = preview,
         aop_confirmed_at_ms = None,
         aop_targets = map (proposed_awake_target (app_created_at_ms plan)) preflights,
         aop_updated_at_ms = app_created_at_ms plan\<rparr>)"

definition preview_quest_awake ::
  "'a hub_state_scheme \<Rightarrow> awake_preview_plan \<Rightarrow>
   'a hub_state_scheme \<times> (hub_error + awake_operation)" where
  "preview_quest_awake h plan =
    (if awake_plan_invalid plan
     then (h, Inl (hub_error ''awake_preview_plan_invalid''
       ''Quest awake preview plan is invalid or exceeds its bounded lifetime''))
     else case bt_get (fh_awake_operations h) (app_operation_id plan) of
       Some existing \<Rightarrow>
         (if av_preview_id (aop_preview existing) = app_preview_id plan \<and>
             av_action (aop_preview existing) = apr_action (app_request plan) \<and>
             av_duration_ms (aop_preview existing) = apr_duration_ms (app_request plan) \<and>
             av_watchdog_interval_ms (aop_preview existing) = apr_watchdog_interval_ms (app_request plan)
          then (h, Inr existing)
          else (h, Inl (hub_error ''awake_operation_id_conflict''
            ''operation ID already names a different immutable Quest awake preview'')))
     | None \<Rightarrow>
         attempt h (freeze_awake_targets h plan (entries (apr_targets (app_request plan)))) (\<lambda>preflights.
         let op = proposed_awake_operation (fh_result_revision h) plan preflights in
         attempt h (validate_awake op) (\<lambda>_.
         if bt_len (fh_awake_operations h) \<ge> max_awake_operations
         then (h, Inl (hub_error ''awake_operation_limit_reached''
           (''Fleet Hub retains at most '' @ show_nat max_awake_operations @
            '' Quest awake operations'')))
         else (put_awake (app_operation_id plan) op h, Inr op))))"

section \<open>Confirmation and dispatch\<close>

definition confirm_awake_target :: "i64 \<Rightarrow> awake_target \<Rightarrow> awake_target" where
  "confirm_awake_target now_ms t =
    (if af_eligible (at_preflight t)
     then t\<lparr>at_lifecycle := Accepted, at_updated_at_ms := now_ms\<rparr> else t)"

definition confirmed_awake_operation :: "i64 \<Rightarrow> awake_operation \<Rightarrow> awake_operation" where
  "confirmed_awake_operation now_ms op = with_awake_lifecycle (op\<lparr>
     aop_confirmed_at_ms := Some now_ms,
     aop_updated_at_ms := now_ms,
     aop_targets := map (confirm_awake_target now_ms) (aop_targets op)\<rparr>)"

definition confirm_quest_awake ::
  "'a hub_state_scheme \<Rightarrow> string \<Rightarrow> string \<Rightarrow> i64 \<Rightarrow>
   'a hub_state_scheme \<times> (hub_error + awake_operation)" where
  "confirm_quest_awake h operation_id preview_id now_ms =
    attempt h (quest_awake_operation h operation_id) (\<lambda>op.
    if av_preview_id (aop_preview op) \<noteq> preview_id
    then (h, Inl (hub_error ''awake_preview_conflict''
      ''execute request does not bind the immutable Quest awake preview''))
    else if aop_lifecycle op \<noteq> Proposed then (h, Inr op)
    else if now_ms > av_expires_at_ms (aop_preview op)
    then (h, Inl (hub_error ''awake_preview_expired''
      ''Quest awake preview expired before confirmation''))
    else attempt h (require_awake_targets_current h op now_ms) (\<lambda>_.
      revise_awake h operation_id (confirmed_awake_operation now_ms op)))"

text \<open>
  Stop and restore bind the device watchdog the provider observed, if any; every other action binds
  the generation of the preview and refuses an observed one.
\<close>

definition invocation_watchdog_generation :: "awake_operation \<Rightarrow> string option \<Rightarrow> hub_error + string" where
  "invocation_watchdog_generation op expected =
    (if av_action (aop_preview op) \<in> {StopWatchdogs, RestoreNormal}
     then Inr (case expected of None \<Rightarrow> ''no-known-device-watchdog'' | Some generation \<Rightarrow> generation)
     else if expected \<noteq> None
     then Inl (hub_error ''awake_watchdog_generation_override_invalid''
       ''only stop or restore may bind an observed device-watchdog generation'')
     else Inr (av_watchdog_generation (aop_preview op)))"

definition prepared_awake_invocation ::
  "awake_operation \<Rightarrow> string \<Rightarrow> string \<Rightarrow> i64 \<Rightarrow> awake_target \<Rightarrow> awake_invocation" where
  "prepared_awake_invocation op request_id watchdog_generation now_ms t = \<lparr>
     ai_schema = ''rusty.fleet.quest_awake_owner_invocation.v1'',
     ai_request_id = request_id,
     ai_operation_id = aop_operation_id op,
     ai_preview_id = av_preview_id (aop_preview op),
     ai_device_id = at_device_id t,
     ai_identity_revision = at_identity_revision t,
     ai_action = av_action (aop_preview op),
     ai_duration_ms = av_duration_ms (aop_preview op),
     ai_watchdog_interval_ms = av_watchdog_interval_ms (aop_preview op),
     ai_watchdog_generation = watchdog_generation,
     ai_issued_at_ms = now_ms,
     ai_expires_at_ms = (if av_action (aop_preview op) = StartWindowsWatchdog then i64_max
       else av_expires_at_ms (aop_preview op))\<rparr>"

definition prepared_awake_target ::
  "awake_operation \<Rightarrow> string \<Rightarrow> string \<Rightarrow> i64 \<Rightarrow> awake_target \<Rightarrow> awake_target" where
  "prepared_awake_target op request_id watchdog_generation now_ms t = t\<lparr>
     at_invocation := Some (prepared_awake_invocation op request_id watchdog_generation now_ms t),
     at_updated_at_ms := now_ms\<rparr>"

definition prepare_quest_awake_invocation_with_watchdog_generation ::
  "'a hub_state_scheme \<Rightarrow> string \<Rightarrow> string \<Rightarrow> string \<Rightarrow> string option \<Rightarrow> i64 \<Rightarrow>
   'a hub_state_scheme \<times> (hub_error + awake_operation)" where
  "prepare_quest_awake_invocation_with_watchdog_generation h operation_id device_id request_id expected now_ms =
    attempt h (quest_awake_operation h operation_id) (\<lambda>op.
    if now_ms > av_expires_at_ms (aop_preview op)
    then (h, Inl (hub_error ''awake_preview_expired''
      ''Quest awake dispatch cannot begin after preview expiry''))
    else attempt h (require_awake_target_current h op device_id now_ms) (\<lambda>_.
    attempt h (find_awake_target op device_id) (\<lambda>t.
    if at_lifecycle t \<noteq> Accepted
    then (h, Inl (hub_error ''awake_dispatch_state_invalid''
      ''only a confirmed Quest awake target can prepare an owner invocation''))
    else attempt h (invocation_watchdog_generation op expected) (\<lambda>generation.
      revise_awake h operation_id
        (change_awake_target op device_id (prepared_awake_target op request_id generation now_ms) now_ms)))))"

definition prepare_quest_awake_invocation ::
  "'a hub_state_scheme \<Rightarrow> string \<Rightarrow> string \<Rightarrow> string \<Rightarrow> i64 \<Rightarrow>
   'a hub_state_scheme \<times> (hub_error + awake_operation)" where
  "prepare_quest_awake_invocation h operation_id device_id request_id now_ms =
     prepare_quest_awake_invocation_with_watchdog_generation h operation_id device_id request_id None now_ms"

definition dispatched_awake_target :: "i64 \<Rightarrow> awake_target \<Rightarrow> awake_target" where
  "dispatched_awake_target now_ms t = t\<lparr>at_lifecycle := Dispatched, at_updated_at_ms := now_ms\<rparr>"

definition mark_quest_awake_dispatched ::
  "'a hub_state_scheme \<Rightarrow> string \<Rightarrow> string \<Rightarrow> i64 \<Rightarrow>
   'a hub_state_scheme \<times> (hub_error + awake_operation)" where
  "mark_quest_awake_dispatched h operation_id device_id now_ms =
    attempt h (quest_awake_operation h operation_id) (\<lambda>op.
    attempt h (find_awake_target op device_id) (\<lambda>t.
    if at_lifecycle t \<noteq> Accepted \<or> at_invocation t = None
    then (h, Inl (hub_error ''awake_dispatch_state_invalid'' ''Quest awake target has no accepted exact invocation''))
    else revise_awake h operation_id
      (with_awake_lifecycle (change_awake_target op device_id (dispatched_awake_target now_ms) now_ms))))"

section \<open>Receipts and failures\<close>

definition awake_receipt_unbound :: "awake_receipt \<Rightarrow> awake_invocation \<Rightarrow> bool" where
  "awake_receipt_unbound r i \<longleftrightarrow>
     ar_request_id r \<noteq> ai_request_id i \<or> ar_preview_id r \<noteq> ai_preview_id i \<or>
     ar_identity_revision r \<noteq> ai_identity_revision i \<or> ar_action r \<noteq> ai_action i \<or>
     ar_watchdog_generation r \<noteq> ai_watchdog_generation i \<or>
     ar_requested_duration_ms r \<noteq> ai_duration_ms i \<or>
     ar_requested_watchdog_interval_ms r \<noteq> ai_watchdog_interval_ms i \<or>
     ar_observed_at_ms r < ai_issued_at_ms i \<or> ar_observed_at_ms r > ai_expires_at_ms i"

definition received_awake_target :: "awake_receipt \<Rightarrow> i64 \<Rightarrow> awake_target \<Rightarrow> awake_target" where
  "received_awake_target r now_ms t = t\<lparr>
     at_lifecycle := (if ar_effective r then Applied else Running),
     at_receipt := Some r,
     at_failure_code := None,
     at_updated_at_ms := now_ms\<rparr>"

definition apply_quest_awake_receipt ::
  "'a hub_state_scheme \<Rightarrow> awake_receipt \<Rightarrow> i64 \<Rightarrow>
   'a hub_state_scheme \<times> (hub_error + awake_operation)" where
  "apply_quest_awake_receipt h r now_ms =
    (if \<not> valid (validate_awake_receipt r) \<or> ar_observed_at_ms r > i64_wrapping_add now_ms 30000
     then (h, Inl (hub_error ''awake_receipt_invalid''
       ''Quest awake owner receipt is invalid or future-dated''))
     else
    attempt h (quest_awake_operation h (ar_operation_id r)) (\<lambda>op.
    attempt h (find_awake_target op (ar_device_id r)) (\<lambda>t.
    case at_invocation t of
      None \<Rightarrow> (h, Inl (hub_error ''awake_invocation_missing''
        ''owner receipt cannot be admitted before exact invocation''))
    | Some i \<Rightarrow>
        if awake_receipt_unbound r i
        then (h, Inl (hub_error ''awake_receipt_binding_mismatch''
          ''Quest awake receipt does not bind the exact owner invocation''))
        else if at_lifecycle t \<notin> {Dispatched, Running, Applied}
        then (h, Inl (hub_error ''awake_receipt_state_invalid''
          ''Quest awake receipt is not admissible in the target lifecycle''))
        else revise_awake h (ar_operation_id r)
          (with_awake_lifecycle
            (change_awake_target op (ar_device_id r) (received_awake_target r now_ms) now_ms)))))"

definition failed_awake_target :: "string \<Rightarrow> i64 \<Rightarrow> awake_target \<Rightarrow> awake_target" where
  "failed_awake_target code now_ms t = t\<lparr>
     at_lifecycle := Lifecycle_Failed,
     at_failure_code := Some code,
     at_updated_at_ms := now_ms\<rparr>"

definition fail_quest_awake_target ::
  "'a hub_state_scheme \<Rightarrow> string \<Rightarrow> string \<Rightarrow> string \<Rightarrow> i64 \<Rightarrow>
   'a hub_state_scheme \<times> (hub_error + awake_operation)" where
  "fail_quest_awake_target h operation_id device_id code now_ms =
    attempt h (quest_awake_operation h operation_id) (\<lambda>op.
    attempt h (find_awake_target op device_id) (\<lambda>t.
    if code = [] \<or> length code > 256
    then (h, Inl (hub_error ''awake_failure_code_invalid'' ''Quest awake failure code must be bounded''))
    else revise_awake h operation_id
      (with_awake_lifecycle (change_awake_target op device_id (failed_awake_target code now_ms) now_ms))))"

end
