(* ===== verification/Hub_Awake_Facts.thy ===== *)
theory Hub_Awake_Facts
  imports Hub_Awake Owner_Ledger Operation_Store
begin

text \<open>
  What the Quest awake operations guarantee: every method refines a step of the owner ledger,
  and keeps what ties invocations and receipts to the operation they were issued for, whatever the
  validator says afterwards.
\<close>

section \<open>The ledger of an operation\<close>

definition awake_receipt_answers :: "awake_invocation \<Rightarrow> awake_receipt \<Rightarrow> bool" where
  "awake_receipt_answers i r \<longleftrightarrow> valid (validate_awake_receipt r) \<and> \<not> awake_receipt_unbound r i"

definition abs_awake_target :: "awake_target \<Rightarrow> (awake_invocation, awake_receipt) ledger_target" where
  "abs_awake_target t = \<lparr>
     lt_device_id = at_device_id t,
     lt_eligible = af_eligible (at_preflight t),
     lt_lifecycle = at_lifecycle t,
     lt_invocation = at_invocation t,
     lt_receipt = at_receipt t\<rparr>"

definition abs_awake :: "awake_operation \<Rightarrow> (awake_invocation, awake_receipt) ledger" where
  "abs_awake op = \<lparr>
     lg_confirmed = (aop_confirmed_at_ms op \<noteq> None),
     lg_lifecycle = aop_lifecycle op,
     lg_targets = map abs_awake_target (aop_targets op)\<rparr>"

abbreviation awake_step :: "awake_operation \<Rightarrow> awake_operation \<Rightarrow> bool" where
  "awake_step op op' \<equiv>
     ledger_step awake_receipt_answers ar_effective (abs_awake op) (abs_awake op')"

text \<open>What no method changes.\<close>

definition awake_frame :: "awake_operation \<Rightarrow>
    string \<times> string \<times> string \<times> awake_preview \<times> (string \<times> u64 \<times> awake_preflight) list" where
  "awake_frame op =
     (aop_schema op, aop_operation_id op, aop_action_id op, aop_preview op,
      map (\<lambda>t. (at_device_id t, at_identity_revision t, at_preflight t)) (aop_targets op))"

definition awake_target_bound :: "awake_operation \<Rightarrow> awake_target \<Rightarrow> bool" where
  "awake_target_bound op t \<longleftrightarrow>
     (\<forall>i. at_invocation t = Some i \<longrightarrow>
        ai_operation_id i = aop_operation_id op \<and> ai_preview_id i = av_preview_id (aop_preview op) \<and>
        ai_device_id i = at_device_id t \<and> ai_identity_revision i = at_identity_revision t \<and>
        ai_action i = av_action (aop_preview op) \<and>
        ai_duration_ms i = av_duration_ms (aop_preview op) \<and>
        ai_watchdog_interval_ms i = av_watchdog_interval_ms (aop_preview op) \<and>
        (av_action (aop_preview op) \<notin> {StopWatchdogs, RestoreNormal} \<longrightarrow>
           ai_watchdog_generation i = av_watchdog_generation (aop_preview op))) \<and>
     (\<forall>r. at_receipt t = Some r \<longrightarrow>
        ar_operation_id r = aop_operation_id op \<and> ar_device_id r = at_device_id t)"

definition awake_targets_bound :: "awake_operation \<Rightarrow> bool" where
  "awake_targets_bound op \<longleftrightarrow> (\<forall>t\<in>set (aop_targets op). awake_target_bound op t)"

definition awake_evolves :: "awake_operation \<Rightarrow> awake_operation \<Rightarrow> bool" where
  "awake_evolves op op' \<longleftrightarrow> op' = op \<or>
     awake_frame op' = awake_frame op \<and> awake_step op op' \<and>
     (awake_targets_bound op \<longrightarrow> awake_targets_bound op')"

text \<open>Every target keeps a preflight of the immutable preview, which passed its contract when it was made.\<close>

definition awake_preview_bound :: "awake_operation \<Rightarrow> bool" where
  "awake_preview_bound op \<longleftrightarrow> valid (validate_awake_preview (aop_preview op)) \<and>
     at_preflight ` set (aop_targets op) \<subseteq> set (av_targets (aop_preview op))"

definition awake_sound :: "awake_operation \<Rightarrow> bool" where
  "awake_sound op \<longleftrightarrow>
     ledger_sound awake_receipt_answers ar_effective (abs_awake op) \<and> awake_targets_bound op \<and>
     awake_preview_bound op"

definition freshly_proposed_awake :: "awake_operation \<Rightarrow> bool" where
  "freshly_proposed_awake op \<longleftrightarrow>
     aop_lifecycle op = Proposed \<and> aop_confirmed_at_ms op = None \<and>
     (\<forall>t\<in>set (aop_targets op).
        at_lifecycle t = (if af_eligible (at_preflight t) then Proposed else Rejected) \<and>
        at_invocation t = None \<and> at_receipt t = None)"

lemma abs_awake_target_simps [simp]:
  "lt_device_id (abs_awake_target t) = at_device_id t"
  "lt_eligible (abs_awake_target t) = af_eligible (at_preflight t)"
  "lt_lifecycle (abs_awake_target t) = at_lifecycle t"
  "lt_invocation (abs_awake_target t) = at_invocation t"
  "lt_receipt (abs_awake_target t) = at_receipt t"
  by (simp_all add: abs_awake_target_def)

lemma abs_awake_simps [simp]:
  "lg_confirmed (abs_awake op) = (aop_confirmed_at_ms op \<noteq> None)"
  "lg_lifecycle (abs_awake op) = aop_lifecycle op"
  "lg_targets (abs_awake op) = map abs_awake_target (aop_targets op)"
  by (simp_all add: abs_awake_def)

lemma abs_with_awake_lifecycle: "abs_awake (with_awake_lifecycle op) = settle (abs_awake op)"
  by (cases "aop_confirmed_at_ms op")
    (simp_all add: abs_awake_def with_awake_lifecycle_def derive_awake_lifecycle_def settle_def
      eligible_lifecycles_def filter_map o_def owner_lifecycle_Some)

lemma awake_valid_preview_bound:
  assumes "valid (validate_awake_operation op)"
  shows "awake_preview_bound op"
proof -
  have "validate_awake_preview (aop_preview op) \<noteq> Inl []"
    by (simp add: validate_awake_preview_def)
  then have "valid (validate_awake_preview (aop_preview op))"
    using assms by (simp add: validate_awake_operation_def awake_operation_head_failures_def)
  moreover have "at_preflight t \<in> set (av_targets (aop_preview op))" if "t \<in> set (aop_targets op)" for t
  proof -
    have "awake_operation_target_failures op t = []"
      using assms that by (simp add: validate_awake_operation_def)
    then obtain p where "find (\<lambda>c. af_device_id c = at_device_id t) (av_targets (aop_preview op)) = Some p"
      "at_preflight t = p"
      by (auto simp: awake_operation_target_failures_def awake_bound_target_failures_def split: option.splits)
    then show ?thesis using find_Some_set by fastforce
  qed
  ultimately show ?thesis by (auto simp: awake_preview_bound_def)
qed

lemma awake_frame_preview_bound:
  assumes "awake_frame op' = awake_frame op" and "awake_preview_bound op"
  shows "awake_preview_bound op'"
proof -
  have "map ((\<lambda>(d, i, p). p) \<circ> (\<lambda>t. (at_device_id t, at_identity_revision t, at_preflight t))) (aop_targets op') =
      map ((\<lambda>(d, i, p). p) \<circ> (\<lambda>t. (at_device_id t, at_identity_revision t, at_preflight t))) (aop_targets op)"
    using assms(1) by (simp only: awake_frame_def prod.inject map_map [symmetric])
  then have "at_preflight ` set (aop_targets op') = at_preflight ` set (aop_targets op)"
    by (simp add: o_def) (metis list.set_map)
  with assms show ?thesis by (simp add: awake_preview_bound_def awake_frame_def)
qed

lemma awake_fresh_sound:
  "valid (validate_awake_operation op) \<Longrightarrow> freshly_proposed_awake op \<Longrightarrow> awake_sound op"
  using awake_valid_preview_bound
  by (auto simp: awake_sound_def ledger_sound_def target_sound_def freshly_proposed_awake_def
      set_eligible_lifecycles awake_targets_bound_def awake_target_bound_def)

interpretation aw: inplace_store
  "\<lambda>h. bt_get (fh_awake_operations h)" put_awake aop_operation_id
  "\<lambda>op. valid (validate_awake_operation op)" freshly_proposed_awake awake_evolves awake_sound
proof unfold_locales
  show "aop_operation_id y = aop_operation_id x" if "awake_evolves x y" for x y
    using that by (auto simp: awake_evolves_def awake_frame_def)
  show "awake_sound y" if "awake_evolves x y" "awake_sound x" for x y
    using that ledger_step_sound awake_frame_preview_bound by (auto simp: awake_evolves_def awake_sound_def)
qed (simp_all add: put_awake_def awake_evolves_def awake_fresh_sound)

section \<open>Changing one target\<close>

lemma find_awake_target_Inr [simp]:
  "find_awake_target op d = Inr t \<longleftrightarrow> find (\<lambda>t. at_device_id t = d) (aop_targets op) = Some t"
  by (simp add: find_awake_target_def split: option.split)

lemma quest_awake_operation_Inr [simp]:
  "quest_awake_operation h k = Inr op \<longleftrightarrow> bt_get (fh_awake_operations h) k = Some op"
  by (simp add: quest_awake_operation_def split: option.split)

definition awake_change_bound :: "awake_operation \<Rightarrow> (awake_target \<Rightarrow> awake_target) \<Rightarrow> bool" where
  "awake_change_bound op f \<longleftrightarrow>
     (\<forall>t. at_device_id (f t) = at_device_id t \<and> at_identity_revision (f t) = at_identity_revision t \<and>
          at_preflight (f t) = at_preflight t)"

lemma awake_frame_lifecycle [simp]: "awake_frame (with_awake_lifecycle op) = awake_frame op"
  by (simp add: awake_frame_def with_awake_lifecycle_def)

lemma awake_bound_lifecycle [simp]: "awake_targets_bound (with_awake_lifecycle op) = awake_targets_bound op"
  by (simp add: awake_targets_bound_def awake_target_bound_def with_awake_lifecycle_def)

lemma awake_frame_change:
  "awake_change_bound op f \<Longrightarrow> awake_frame (change_awake_target op d f now) = awake_frame op"
  by (simp add: awake_frame_def change_awake_target_def awake_change_bound_def map_update_first)

lemma abs_awake_change:
  assumes "find (\<lambda>t. at_device_id t = d) (aop_targets op) = Some t"
  obtains k where "k < length (aop_targets op)" "aop_targets op ! k = t"
    "abs_awake (change_awake_target op d f now) =
       (abs_awake op)\<lparr>lg_targets := (lg_targets (abs_awake op))[k := abs_awake_target (f t)]\<rparr>"
proof -
  from update_first_nth [OF assms] obtain k where "k < length (aop_targets op)"
    "aop_targets op ! k = t"
    "update_first (\<lambda>t. at_device_id t = d) f (aop_targets op) = (aop_targets op)[k := f t]" by blast
  then show thesis by (intro that [of k]) (simp_all add: abs_awake_def change_awake_target_def map_update)
qed

lemma awake_bound_change:
  assumes "find (\<lambda>t. at_device_id t = d) (aop_targets op) = Some t"
    and "awake_target_bound op t \<longrightarrow> awake_target_bound op (f t)" and "awake_targets_bound op"
  shows "awake_targets_bound (change_awake_target op d f now)"
proof -
  have "awake_target_bound op t" using find_Some_set [OF assms(1)] assms(3) by (simp add: awake_targets_bound_def)
  then have "awake_target_bound op u" if "u \<in> set (update_first (\<lambda>t. at_device_id t = d) f (aop_targets op))" for u
    using set_update_first [OF assms(1) that] assms(2,3) by (auto simp: awake_targets_bound_def)
  then show ?thesis by (simp add: awake_targets_bound_def awake_target_bound_def change_awake_target_def)
qed

text \<open>A target step, settled or not, evolves the operation.\<close>

lemma awake_evolves_target:
  assumes found: "find (\<lambda>t. at_device_id t = d) (aop_targets op) = Some t"
    and "awake_change_bound op f" and "awake_target_bound op t \<Longrightarrow> awake_target_bound op (f t)"
    and step: "target_step awake_receipt_answers ar_effective (abs_awake_target t) (abs_awake_target (f t))"
  shows "awake_evolves op (with_awake_lifecycle (change_awake_target op d f now))"
proof -
  obtain k where "k < length (aop_targets op)" "aop_targets op ! k = t"
    "abs_awake (change_awake_target op d f now) =
       (abs_awake op)\<lparr>lg_targets := (lg_targets (abs_awake op))[k := abs_awake_target (f t)]\<rparr>"
    using abs_awake_change [OF found] .
  then have "awake_step op (with_awake_lifecycle (change_awake_target op d f now))"
    unfolding abs_with_awake_lifecycle
    using ledger_step.target [of k "abs_awake op" "abs_awake_target t", OF _ _ step] by simp
  with awake_frame_change [OF assms(2)] awake_bound_change [OF found] assms(3)
  show ?thesis by (simp add: awake_evolves_def)
qed

lemma awake_evolves_prepare:
  assumes found: "find (\<lambda>t. at_device_id t = d) (aop_targets op) = Some t"
    and "at_lifecycle t = Accepted"
    and generation: "av_action (aop_preview op) \<notin> {StopWatchdogs, RestoreNormal} \<Longrightarrow>
      generation = av_watchdog_generation (aop_preview op)"
  shows "awake_evolves op (change_awake_target op d (prepared_awake_target op request_id generation now) now')"
proof -
  let ?f = "prepared_awake_target op request_id generation now"
  have bound: "awake_target_bound op (?f t)" if "awake_target_bound op t"
    using that generation by (simp add: awake_target_bound_def prepared_awake_target_def prepared_awake_invocation_def)
  obtain k where k: "k < length (aop_targets op)" "aop_targets op ! k = t"
    "abs_awake (change_awake_target op d ?f now') =
       (abs_awake op)\<lparr>lg_targets := (lg_targets (abs_awake op))[k := abs_awake_target (?f t)]\<rparr>"
    using abs_awake_change [OF found] .
  have "abs_awake_target (?f t) =
      (abs_awake_target t)\<lparr>lt_invocation := Some (prepared_awake_invocation op request_id generation now t)\<rparr>"
    by (simp add: abs_awake_target_def prepared_awake_target_def)
  with k assms(2) have "awake_step op (change_awake_target op d ?f now')"
    using ledger_step.prepare [of k "abs_awake op" "abs_awake_target t"] by simp
  moreover have "awake_change_bound op ?f" by (simp add: awake_change_bound_def prepared_awake_target_def)
  ultimately show ?thesis
    using awake_frame_change awake_bound_change [OF found] bound by (simp add: awake_evolves_def)
qed

lemma awake_evolves_confirm:
  assumes "aop_lifecycle op = Proposed"
  shows "awake_evolves op (confirmed_awake_operation now op)"
proof -
  have "abs_awake_target (confirm_awake_target now t) = accept_eligible (abs_awake_target t)" for t
    by (simp add: abs_awake_target_def confirm_awake_target_def accept_eligible_def)
  then have "abs_awake (confirmed_awake_operation now op) = settle
      ((abs_awake op)\<lparr>lg_confirmed := True, lg_targets := map accept_eligible (lg_targets (abs_awake op))\<rparr>)"
    unfolding confirmed_awake_operation_def abs_with_awake_lifecycle
    by (simp add: abs_awake_def o_def)
  with assms have "awake_step op (confirmed_awake_operation now op)"
    using ledger_step.confirm [of "abs_awake op"] by (simp add: o_def)
  moreover have "awake_frame (confirmed_awake_operation now op) = awake_frame op"
    by (simp add: awake_frame_def confirmed_awake_operation_def with_awake_lifecycle_def confirm_awake_target_def)
  moreover have "awake_targets_bound (confirmed_awake_operation now op)" if "awake_targets_bound op"
    using that by (auto simp: awake_targets_bound_def awake_target_bound_def confirmed_awake_operation_def
        with_awake_lifecycle_def confirm_awake_target_def)
  ultimately show ?thesis by (simp add: awake_evolves_def)
qed

section \<open>Every method keeps the store discipline\<close>

lemma awake_attempt:
  "(\<And>x. r = Inr x \<Longrightarrow> aw.inplace h k (f x)) \<Longrightarrow> aw.inplace h k (attempt h r f)"
  by (cases r) auto

lemma awake_if:
  "(c \<Longrightarrow> aw.inplace h k a) \<Longrightarrow> (\<not> c \<Longrightarrow> aw.inplace h k b) \<Longrightarrow>
   aw.inplace h k (if c then a else b)"
  by simp

lemmas awake_intros = awake_attempt awake_if aw.inplace_error

lemma validate_awake_Inr [simp]:
  "validate_awake op = Inr u \<longleftrightarrow> valid (validate_awake_operation op)"
  by (cases "validate_awake_operation op") (auto simp: validate_awake_def valid_def)

lemma revise_awake_inplace:
  assumes "bt_get (fh_awake_operations h) k = Some op" and "awake_evolves op op'"
  shows "aw.inplace h k (revise_awake h k op')"
proof (rule aw.inplace_revised [OF assms])
  show "fst (revise_awake h k op') = put_awake k op' h"
    by (cases "validate_awake_operation op'") (simp_all add: revise_awake_def validate_awake_def)
  show "if valid (validate_awake_operation op') then snd (revise_awake h k op') = Inr op'
    else \<exists>e. snd (revise_awake h k op') = Inl e"
    by (cases "validate_awake_operation op'") (simp_all add: revise_awake_def validate_awake_def valid_def)
qed

lemma awake_preview_inplace:
  "aw.inplace h (app_operation_id plan) (preview_quest_awake h plan)"
proof (cases "bt_get (fh_awake_operations h) (app_operation_id plan)")
  case None
  let ?op = "\<lambda>ps. proposed_awake_operation (fh_result_revision h) plan ps"
  have "aw.inplace h (app_operation_id plan) (put_awake (app_operation_id plan) (?op ps) h, Inr (?op ps))"
    if "valid (validate_awake_operation (?op ps))" for ps
  proof (rule aw.inplace_created [OF None that])
    show "freshly_proposed_awake (?op ps)"
      by (simp add: freshly_proposed_awake_def proposed_awake_operation_def Let_def proposed_awake_target_def)
    show "aop_operation_id (?op ps) = app_operation_id plan"
      by (simp add: proposed_awake_operation_def Let_def)
  qed
  with None show ?thesis
    unfolding preview_quest_awake_def Let_def by (auto intro!: awake_intros)
next
  case (Some existing)
  then show ?thesis
    unfolding preview_quest_awake_def by (auto intro: aw.inplace_found)
qed

lemma awake_confirm_inplace:
  "aw.inplace h k (confirm_quest_awake h k preview_id now)"
  unfolding confirm_quest_awake_def
  by (auto intro!: awake_intros aw.inplace_found revise_awake_inplace awake_evolves_confirm)

lemma invocation_watchdog_generation_Inr:
  "invocation_watchdog_generation op expected = Inr generation \<Longrightarrow>
   av_action (aop_preview op) \<notin> {StopWatchdogs, RestoreNormal} \<Longrightarrow>
   generation = av_watchdog_generation (aop_preview op)"
  by (auto simp: invocation_watchdog_generation_def split: if_splits)

lemma awake_prepare_with_inplace:
  "aw.inplace h k
     (prepare_quest_awake_invocation_with_watchdog_generation h k d request_id expected now)"
  unfolding prepare_quest_awake_invocation_with_watchdog_generation_def
  by (auto intro!: awake_intros revise_awake_inplace awake_evolves_prepare
      dest: invocation_watchdog_generation_Inr)

lemma awake_prepare_inplace:
  "aw.inplace h k (prepare_quest_awake_invocation h k d request_id now)"
  unfolding prepare_quest_awake_invocation_def by (rule awake_prepare_with_inplace)

lemma awake_dispatch_inplace:
  "aw.inplace h k (mark_quest_awake_dispatched h k d now)"
proof -
  have "awake_evolves op (with_awake_lifecycle (change_awake_target op d (dispatched_awake_target now) now))"
    if "find (\<lambda>t. at_device_id t = d) (aop_targets op) = Some t"
      "at_lifecycle t = Accepted" "at_invocation t \<noteq> None" for op t
  proof (rule awake_evolves_target [OF that(1)])
    show "target_step awake_receipt_answers ar_effective (abs_awake_target t)
        (abs_awake_target (dispatched_awake_target now t))"
      using target_step.dispatch [of "abs_awake_target t"] that
      by (simp add: abs_awake_target_def dispatched_awake_target_def)
  qed (simp_all add: awake_change_bound_def dispatched_awake_target_def awake_target_bound_def)
  then show ?thesis unfolding mark_quest_awake_dispatched_def
    by (auto intro!: awake_intros intro: revise_awake_inplace)
qed

lemma awake_receipt_evolves:
  assumes "find (\<lambda>t. at_device_id t = ar_device_id r) (aop_targets op) = Some t"
    and "valid (validate_awake_receipt r)" and "ar_operation_id r = aop_operation_id op"
    and "at_invocation t = Some i" and "\<not> awake_receipt_unbound r i"
    and "at_lifecycle t \<in> {Dispatched, Running, Applied}"
  shows "awake_evolves op (with_awake_lifecycle
           (change_awake_target op (ar_device_id r) (received_awake_target r now) now))"
proof (rule awake_evolves_target [OF assms(1)])
  show "target_step awake_receipt_answers ar_effective (abs_awake_target t)
      (abs_awake_target (received_awake_target r now t))"
    using target_step.receive [of "abs_awake_target t" i awake_receipt_answers r ar_effective] assms
    by (simp add: abs_awake_target_def received_awake_target_def awake_receipt_answers_def)
  show "awake_target_bound op (received_awake_target r now t)" if "awake_target_bound op t"
    using that assms(3) find_Some_set [OF assms(1)]
    by (simp add: awake_target_bound_def received_awake_target_def)
qed (simp add: awake_change_bound_def received_awake_target_def)

lemma awake_receipt_inplace:
  assumes "aw.sound_store h"
  shows "aw.inplace h (ar_operation_id r) (apply_quest_awake_receipt h r now)"
proof -
  have "aop_operation_id op = ar_operation_id r"
    if "bt_get (fh_awake_operations h) (ar_operation_id r) = Some op" for op
    using assms that by (simp add: aw.sound_store_def)
  then show ?thesis unfolding apply_quest_awake_receipt_def
    by (auto intro!: awake_intros revise_awake_inplace awake_receipt_evolves split: option.split)
qed

lemma awake_fail_inplace:
  "aw.inplace h k (fail_quest_awake_target h k d code now)"
proof -
  have "awake_evolves op (with_awake_lifecycle (change_awake_target op d (failed_awake_target code now) now))"
    if "find (\<lambda>t. at_device_id t = d) (aop_targets op) = Some t" for op t
  proof (rule awake_evolves_target [OF that])
    show "target_step awake_receipt_answers ar_effective (abs_awake_target t)
        (abs_awake_target (failed_awake_target code now t))"
      using target_step.fail [of awake_receipt_answers ar_effective "abs_awake_target t"]
      by (simp add: abs_awake_target_def failed_awake_target_def)
  qed (simp_all add: awake_change_bound_def failed_awake_target_def awake_target_bound_def)
  then show ?thesis unfolding fail_quest_awake_target_def
    by (auto intro!: awake_intros intro: revise_awake_inplace)
qed

end
