(* ===== verification/Hub_Deadline.thy ===== *)
theory Hub_Deadline
  imports Hub_Kiosk
begin

text \<open>
  \<^verbatim>\<open>unix_ms_to_rfc3339\<close> of crates/fleet-hub/src/windows_hotspot.rs: the UTC text of a deadline, by
  day-of-era arithmetic. It is compared here with the calendar itself, the successor of a date with
  its leap years, and with a reader of the text.
\<close>

section \<open>The conversion\<close>

text \<open>The number of days since 1970-01-01 to year, month and day; all divisions are of non-negative numbers.\<close>

definition civil_of_days :: "i64 \<Rightarrow> i64 \<times> i64 \<times> i64" where
  "civil_of_days days =
    (let z = days + 719468;
         era = z div 146097;
         day_of_era = z - era * 146097;
         year_of_era =
           (day_of_era - day_of_era div 1460 + day_of_era div 36524 - day_of_era div 146096) div 365;
         year = year_of_era + era * 400;
         day_of_year = day_of_era - (365 * year_of_era + year_of_era div 4 - year_of_era div 100);
         month_prime = (5 * day_of_year + 2) div 153;
         day = day_of_year - (153 * month_prime + 2) div 5 + 1;
         month = month_prime + (if month_prime < 10 then 3 else -9)
     in (year + (if month \<le> 2 then 1 else 0), month, day))"

text \<open>\<^verbatim>\<open>{:0width$}\<close> of a non-negative number.\<close>

definition pad_zeros :: "nat \<Rightarrow> i64 \<Rightarrow> string" where
  "pad_zeros width x =
     replicate (width - length (show_nat (nat x))) (CHR ''0'') @ show_nat (nat x)"

definition unix_ms_to_rfc3339 :: "i64 \<Rightarrow> hub_error + string" where
  "unix_ms_to_rfc3339 v =
    (if v < 0
     then Inl (hub_error ''windows_hotspot_deadline_invalid'' ''provider deadline precedes the Unix epoch'')
     else
      (let seconds = v div 1000;
           milliseconds = v mod 1000;
           days = seconds div 86400;
           seconds_in_day = seconds mod 86400;
           (year, month, day) = civil_of_days days;
           hour = seconds_in_day div 3600;
           minute = (seconds_in_day mod 3600) div 60;
           second = seconds_in_day mod 60
       in Inr (pad_zeros 4 year @ ''-'' @ pad_zeros 2 month @ ''-'' @ pad_zeros 2 day @ ''T'' @
               pad_zeros 2 hour @ '':'' @ pad_zeros 2 minute @ '':'' @ pad_zeros 2 second @ ''.'' @
               pad_zeros 3 milliseconds @ ''0000Z'')))"

section \<open>The calendar\<close>

definition leap_year :: "i64 \<Rightarrow> bool" where
  "leap_year y \<longleftrightarrow> y mod 4 = 0 \<and> y mod 100 \<noteq> 0 \<or> y mod 400 = 0"

definition days_in_month :: "i64 \<Rightarrow> i64 \<Rightarrow> i64" where
  "days_in_month y m =
     (if m = 2 then (if leap_year y then 29 else 28)
      else if m \<in> {4, 6, 9, 11} then 30 else 31)"

fun next_date :: "i64 \<times> i64 \<times> i64 \<Rightarrow> i64 \<times> i64 \<times> i64" where
  "next_date (y, m, d) =
     (if d < days_in_month y m then (y, m, d + 1)
      else if m < 12 then (y, m + 1, 1)
      else (y + 1, 1, 1))"

fun date_after :: "nat \<Rightarrow> i64 \<times> i64 \<times> i64" where
  "date_after 0 = (1970, 1, 1)"
| "date_after (Suc n) = next_date (date_after n)"

text \<open>The year of an era and the day of that year (both counted from March) of a day of the era.\<close>

definition year_of_era :: "i64 \<Rightarrow> i64" where
  "year_of_era doe = (doe - doe div 1460 + doe div 36524 - doe div 146096) div 365"

definition year_start :: "i64 \<Rightarrow> i64" where
  "year_start y = 365 * y + y div 4 - y div 100"

lemma year_start_parts:
  assumes "0 \<le> c" "c < 4" "0 \<le> q" "q < 25" "0 \<le> a" "a < 4"
  shows "year_start (100 * c + 4 * q + a) = 36524 * c + 1461 * q + 365 * a"
proof -
  have "(100 * c + 4 * q + a) div 4 = 25 * c + q"
    by (rule int_div_pos_eq [of _ _ _ a]) (use assms in simp_all)
  moreover have "(100 * c + 4 * q + a) div 100 = c"
    by (rule int_div_pos_eq [of _ _ _ "4 * q + a"]) (use assms in simp_all)
  ultimately show ?thesis by (simp add: year_start_def)
qed

lemma div_parts:
  assumes "0 < (k :: int)"
  obtains r where "x = k * (x div k) + r" "0 \<le> r" "r < k"
  using assms that [of "x mod k"] by simp

text \<open>Day \<open>r\<close> of year \<open>y\<close> of an era lies in the era, and the formula finds its year.\<close>

definition year_length :: "i64 \<Rightarrow> i64" where
  "year_length y = (if leap_year (y + 1) then 366 else 365)"

lemma year_parts:
  assumes "0 \<le> y" "y < (400 :: int)"
  obtains c q a where "y = 100 * c + 4 * q + a" "0 \<le> c" "c < 4" "0 \<le> q" "q < 25" "0 \<le> a" "a < 4"
    "leap_year (y + 1) \<longleftrightarrow> a = 3 \<and> (q < 24 \<or> c = 3)"
proof -
  define c k where "c = y div 100" and "k = y mod 100"
  define q a where "q = k div 4" and "a = k mod 4"
  have y: "y = 100 * c + 4 * q + a" by (simp add: c_def k_def q_def a_def)
  have k: "0 \<le> k" "k < 100" by (simp_all add: k_def)
  have c: "0 \<le> c" "c < 4" using assms by (simp_all add: c_def)
  have q: "0 \<le> q" "q < 25" using k by (simp_all add: q_def)
  have a: "0 \<le> a" "a < 4" by (simp_all add: a_def)
  have four: "(y + 1) mod 4 = (a + 1) mod 4"
  proof -
    have "y + 1 = (a + 1) + (25 * c + q) * 4" by (simp add: y)
    then show ?thesis by (simp only: mod_mult_self1)
  qed
  have hundred: "(y + 1) mod 100 = (4 * q + a + 1) mod 100"
  proof -
    have "y + 1 = (4 * q + a + 1) + c * 100" by (simp add: y)
    then show ?thesis by (simp only: mod_mult_self1)
  qed
  have "leap_year (y + 1) \<longleftrightarrow> a = 3 \<and> (q < 24 \<or> c = 3)"
  proof (cases "a = 3")
    case False
    then have "(y + 1) mod 4 \<noteq> 0" unfolding four using a by simp
    moreover from this have "(y + 1) mod 400 \<noteq> 0"
      using mod_mod_cancel [of 4 400 "y + 1"] by auto
    ultimately show ?thesis using False by (simp add: leap_year_def)
  next
    case True
    then have m4: "(y + 1) mod 4 = 0" unfolding four by simp
    show ?thesis
    proof (cases "q = 24")
      case False
      then have "(y + 1) mod 100 \<noteq> 0" unfolding hundred using True q by simp
      with m4 True False q show ?thesis by (simp add: leap_year_def)
    next
      case q24: True
      then have "(y + 1) mod 100 = 0" unfolding hundred using True by simp
      moreover have "c = 0 \<or> c = 1 \<or> c = 2 \<or> c = 3" using c by linarith
      then have "(y + 1) mod 400 = 0 \<longleftrightarrow> c = 3" by (elim disjE) (simp_all add: y True q24)
      ultimately show ?thesis using True q24 by (simp add: leap_year_def)
    qed
  qed
  with y c q a show thesis by (intro that)
qed

lemma year_of_era_start:
  assumes "0 \<le> y" "y < 400" "0 \<le> r" "r < year_length y"
  shows "year_of_era (year_start y + r) = y" and "0 \<le> year_start y + r" and "year_start y + r < 146097"
proof -
  obtain c q a where y: "y = 100 * c + 4 * q + a" and c: "0 \<le> c" "c < 4" and q: "0 \<le> q" "q < 25"
    and a: "0 \<le> a" "a < 4" and leap: "leap_year (y + 1) \<longleftrightarrow> a = 3 \<and> (q < 24 \<or> c = 3)"
    using year_parts [OF assms(1,2)] .
  let ?y = "100 * c + 4 * q + a"
  define s where "s = 1461 * q + 365 * a + r"
  define doe where "doe = year_start y + r"
  have r: "0 \<le> r" "r < 366" using assms(3,4) by (simp_all add: year_length_def split: if_splits)
  have leap_day: "r = 365 \<longrightarrow> a = 3 \<and> (q < 24 \<or> c = 3)"
    using assms(4) leap by (auto simp: year_length_def split: if_splits)
  have doe: "doe = 36524 * c + s" and doe_eq: "doe = 36524 * c + 1461 * q + 365 * a + r"
    using year_start_parts [OF c q a] by (simp_all add: doe_def s_def y)
  have s: "0 \<le> s" "s < 36525" using q a r by (simp_all add: s_def)
  have last_day: "s = 36524 \<longrightarrow> c = 3"
  proof
    assume full: "s = 36524"
    then have q24: "q = 24" using q a r unfolding s_def by linarith
    with full have "r = 365" using a r unfolding s_def by linarith
    with leap_day q24 show "c = 3" by simp
  qed
  have range: "0 \<le> doe" "doe < 146097" unfolding doe using c s last_day by auto
  have "year_of_era doe = ?y"
  proof -
    have last: "doe div 36524 - doe div 146096 = c"
    proof (cases "doe = 146096")
      case True
      then have "c = 3" using doe s c by linarith
      with True show ?thesis by simp
    next
      case False
      then have "s < 36524" using doe last_day s by linarith
      then have "doe div 36524 = c" using int_div_pos_eq [OF doe] s by simp
      moreover have "doe div 146096 = 0" using False range by (intro div_pos_pos_trivial) linarith+
      ultimately show ?thesis by simp
    qed
    have split: "doe = 1460 * (25 * c + q) + (24 * c + q + 365 * a + r)"
      unfolding doe_eq by (simp add: algebra_simps)
    define carry where "carry = (if 24 * c + q + 365 * a + r < 1460 then 0 else 1 :: int)"
    have "doe div 1460 = 25 * c + q + carry"
    proof (cases "24 * c + q + 365 * a + r < 1460")
      case True
      then show ?thesis using int_div_pos_eq [OF split] c q a r by (simp add: carry_def)
    next
      case False
      have "doe = 1460 * (25 * c + q + 1) + (24 * c + q + 365 * a + r - 1460)"
        unfolding doe_eq by (simp add: algebra_simps)
      from int_div_pos_eq [OF this] False c q a r show ?thesis by (simp add: carry_def)
    qed
    moreover have "doe - x + v - w = 365 * ?y + (r - carry)"
      if "x = 25 * c + q + carry" "v - w = c" for x v w
    proof -
      have "v = w + c" using that(2) by simp
      then show ?thesis unfolding that(1) doe_eq by (simp add: algebra_simps)
    qed
    ultimately have "doe - doe div 1460 + doe div 36524 - doe div 146096 = 365 * ?y + (r - carry)"
      using last by blast
    moreover have "0 \<le> r - carry"
      using c q a r by (simp add: carry_def split: if_split)
    moreover have "r - carry < 365" using r leap_day c q by (auto simp: carry_def)
    ultimately show ?thesis unfolding year_of_era_def by (intro int_div_pos_eq)
  qed
  with y range show "year_of_era (year_start y + r) = y" "0 \<le> year_start y + r" "year_start y + r < 146097"
    by (simp_all add: doe_def)
qed

text \<open>The civil date of day \<open>r\<close> of year \<open>y\<close> of an era; \<open>month_start k\<close> is the first day of its month \<open>k\<close>.\<close>

definition month_start :: "i64 \<Rightarrow> i64" where
  "month_start k = (153 * k + 2) div 5"

definition civil_in_era :: "i64 \<Rightarrow> i64 \<Rightarrow> i64 \<Rightarrow> i64 \<times> i64 \<times> i64" where
  "civil_in_era era y r =
    (let k = (5 * r + 2) div 153; m = k + (if k < 10 then 3 else -9)
     in (y + era * 400 + (if m \<le> 2 then 1 else 0), m, r - month_start k + 1))"

lemma civil_of_days_in_era:
  assumes "days + 719468 = 146097 * era + (year_start y + r)"
    and "0 \<le> y" "y < 400" "0 \<le> r" "r < year_length y"
  shows "civil_of_days days = civil_in_era era y r"
proof -
  define doe where "doe = year_start y + r"
  note year = year_of_era_start [OF assms(2-5), folded doe_def]
  have era: "(days + 719468) div 146097 = era"
    by (rule int_div_pos_eq [OF assms(1) [folded doe_def] year(2,3)])
  have doe: "days + 719468 - era * 146097 = doe" using assms(1) by (simp add: doe_def)
  have r: "doe - (365 * y + y div 4 - y div 100) = r" by (simp add: doe_def year_start_def)
  have y: "(doe - doe div 1460 + doe div 36524 - doe div 146096) div 365 = y"
    using year(1) by (simp add: year_of_era_def)
  show ?thesis unfolding civil_of_days_def Let_def era doe y r civil_in_era_def month_start_def by simp
qed

lemma month_of_day:
  assumes "month_start k \<le> r" "r < month_start (k + 1)"
  shows "(5 * r + 2) div 153 = k"
proof (rule int_div_pos_eq [of _ _ _ "5 * r + 2 - 153 * k"])
  obtain e where e: "153 * k + 2 = 5 * month_start k + e" "0 \<le> e" "e < 5"
    using div_parts [of 5 "153 * k + 2"] unfolding month_start_def by auto
  obtain f where f: "153 * (k + 1) + 2 = 5 * month_start (k + 1) + f" "0 \<le> f" "f < 5"
    unfolding month_start_def by (rule div_parts [of 5 "153 * (k + 1) + 2"]) (simp, blast)
  show "0 \<le> 5 * r + 2 - 153 * k" using e assms by linarith
  have "r + 1 \<le> month_start (k + 1)" using assms by simp
  then have "5 * r + 5 \<le> 153 * (k + 1) + 2" using f by linarith
  then show "5 * r + 2 - 153 * k < 153" by simp
qed simp

lemma month_starts:
  "month_start 0 = 0" "month_start 1 = 31" "month_start 2 = 61" "month_start 3 = 92"
  "month_start 4 = 122" "month_start 5 = 153" "month_start 6 = 184" "month_start 7 = 214"
  "month_start 8 = 245" "month_start 9 = 275" "month_start 10 = 306" "month_start 11 = 337"
  "month_start 12 = 367"
  by (simp_all add: month_start_def)

definition months :: "i64 set" where
  "months = {0, 1, 2, 3, 4, 5, 6, 7, 8, 9, 10, 11}"

lemma month_cases:
  assumes "0 \<le> r" "r < 366"
  obtains k where "k \<in> months" "month_start k \<le> r" "r < month_start (k + 1)"
proof -
  have "r < 31 \<or> 31 \<le> r \<and> r < 61 \<or> 61 \<le> r \<and> r < 92 \<or> 92 \<le> r \<and> r < 122 \<or>
      122 \<le> r \<and> r < 153 \<or> 153 \<le> r \<and> r < 184 \<or> 184 \<le> r \<and> r < 214 \<or> 214 \<le> r \<and> r < 245 \<or>
      245 \<le> r \<and> r < 275 \<or> 275 \<le> r \<and> r < 306 \<or> 306 \<le> r \<and> r < 337 \<or> 337 \<le> r"
    by linarith
  then show thesis
    using assms that [of 0] that [of 1] that [of 2] that [of 3] that [of 4] that [of 5] that [of 6]
      that [of 7] that [of 8] that [of 9] that [of 10] that [of 11]
    by (elim disjE) (simp_all add: month_starts months_def)
qed

lemma leap_year_era: "leap_year (x + era * 400) = leap_year x"
proof -
  have "(x + (100 * era) * 4) mod 4 = x mod 4" "(x + (4 * era) * 100) mod 100 = x mod 100"
    "(x + era * 400) mod 400 = x mod 400"
    by (simp_all only: mod_mult_self1)
  then show ?thesis by (simp add: leap_year_def mult_ac)
qed

text \<open>Within a year the successor of a date is the next day's date.\<close>

lemma civil_in_month:
  assumes "k \<in> months" "month_start k \<le> r" "r < month_start (k + 1)"
  shows "civil_in_era era y r =
    (y + era * 400 + (if k < 10 then 0 else 1), k + (if k < 10 then 3 else -9), r - month_start k + 1)"
  using assms(1) unfolding civil_in_era_def Let_def month_of_day [OF assms(2,3)]
  by (auto simp: months_def)

lemma month_length:
  "k \<in> months \<Longrightarrow> k \<noteq> 11 \<Longrightarrow>
   days_in_month z (k + (if k < 10 then 3 else -9)) = month_start (k + 1) - month_start k"
  unfolding months_def by (elim insertE emptyE) (simp_all add: days_in_month_def month_starts)

lemma civil_in_era_next:
  assumes "0 \<le> r" "r + 1 < year_length y"
  shows "civil_in_era era y (r + 1) = next_date (civil_in_era era y r)"
proof -
  have r: "r + 1 < 366" using assms by (simp add: year_length_def split: if_splits)
  obtain k where k: "k \<in> months" "month_start k \<le> r" "r < month_start (k + 1)"
    using month_cases [of r] assms r by auto
  note here = civil_in_month [OF k, of era y]
  show ?thesis
  proof (cases "k = 11")
    case True
    have "days_in_month (y + era * 400 + 1) 2 = year_length y - 337"
      using leap_year_era [of "y + 1" era] by (simp add: days_in_month_def year_length_def add_ac)
    moreover have "civil_in_era era y (r + 1) = (y + era * 400 + 1, 2, r + 1 - 337 + 1)"
      using civil_in_month [of 11 "r + 1" era y] True k r by (simp add: months_def month_starts)
    ultimately show ?thesis using here True assms(2) by (simp add: month_starts)
  next
    case False
    note dim = month_length [OF k(1) False]
    have k': "k + 1 \<in> months" using k(1) False by (auto simp: months_def)
    show ?thesis
    proof (cases "r + 1 < month_start (k + 1)")
      case True
      with civil_in_month [OF k(1) _ True, of era y] k(2) here dim show ?thesis by simp
    next
      case False
      then have "r + 1 = month_start (k + 1)" using k(3) by simp
      moreover have "month_start (k + 1) < month_start (k + 1 + 1)"
        using k' unfolding months_def by (elim insertE emptyE) (simp_all add: month_starts)
      ultimately have "civil_in_era era y (r + 1) =
          (y + era * 400 + (if k + 1 < 10 then 0 else 1), k + 1 + (if k + 1 < 10 then 3 else -9), 1)"
        using civil_in_month [OF k', of "r + 1" era y] by simp
      with here dim \<open>r + 1 = _\<close> k(1) \<open>k \<noteq> 11\<close> show ?thesis by (auto simp: months_def)
    qed
  qed
qed

text \<open>Day by day the conversion follows the calendar, from 1970-01-01 on.\<close>

lemma year_start_next:
  assumes "0 \<le> y" "y < 399"
  shows "year_start (y + 1) = year_start y + year_length y"
proof -
  obtain c q a where y: "y = 100 * c + 4 * q + a" and c: "0 \<le> c" "c < 4" and q: "0 \<le> q" "q < 25"
    and a: "0 \<le> a" "a < 4" and leap: "leap_year (y + 1) \<longleftrightarrow> a = 3 \<and> (q < 24 \<or> c = 3)"
    using year_parts [of y] assms by auto
  note here = year_start_parts [OF c q a, folded y]
  consider "a < 3" | "a = 3" "q < 24" | "a = 3" "q = 24" "c < 3" using assms y a q by linarith
  then show ?thesis
  proof cases
    case 1
    then have "year_start (100 * c + 4 * q + (a + 1)) = 36524 * c + 1461 * q + 365 * (a + 1)"
      using c q a by (intro year_start_parts) simp_all
    with here leap 1 show ?thesis by (simp add: y year_length_def add_ac)
  next
    case 2
    then have "year_start (100 * c + 4 * (q + 1) + 0) = 36524 * c + 1461 * (q + 1) + 365 * 0"
      using c q by (intro year_start_parts) simp_all
    with here leap 2 show ?thesis by (simp add: y year_length_def add_ac)
  next
    case 3
    then have "year_start (100 * (c + 1) + 4 * 0 + 0) = 36524 * (c + 1) + 1461 * 0 + 365 * 0"
      using c by (intro year_start_parts) simp_all
    with here leap 3 show ?thesis by (simp add: y year_length_def add_ac)
  qed
qed

lemma year_end:
  assumes "0 \<le> r" "r + 1 = year_length y"
  shows "next_date (civil_in_era era y r) = (y + era * 400 + 1, 3, 1)"
proof -
  have r: "r = 364 \<or> r = 365" "r = 365 \<longleftrightarrow> leap_year (y + 1)"
    using assms by (auto simp: year_length_def split: if_splits)
  have leap: "leap_year (y + era * 400 + 1) = leap_year (y + 1)"
    using leap_year_era [of "y + 1" era] by (simp add: add_ac)
  have "(5 * r + 2) div 153 = 11"
    using r(1) by (intro month_of_day) (auto simp: month_starts)
  with r leap show ?thesis
    by (auto simp: civil_in_era_def Let_def month_starts days_in_month_def)
qed

lemma date_position:
  "\<exists>era y r. int n + 719468 = 146097 * era + (year_start y + r) \<and> 0 \<le> y \<and> y < 400 \<and> 0 \<le> r \<and>
     r < year_length y \<and> date_after n = civil_in_era era y r"
proof (induction n)
  case 0
  show ?case
    by (intro exI [of _ 4] exI [of _ 369] exI [of _ 306])
      (simp add: year_start_def year_length_def civil_in_era_def month_starts)
next
  case (Suc n)
  then obtain era y r where pos: "int n + 719468 = 146097 * era + (year_start y + r)"
    and y: "0 \<le> y" "y < 400" and r: "0 \<le> r" "r < year_length y"
    and date: "date_after n = civil_in_era era y r" by blast
  have first: "civil_in_era e z 0 = (z + e * 400, 3, 1)" for e z
    by (simp add: civil_in_era_def month_starts)
  have long: "0 < year_length z" for z by (simp add: year_length_def)
  consider "r + 1 < year_length y" | "r + 1 = year_length y" "y < 399" | "r + 1 = year_length y" "y = 399"
    using r(2) y(2) by linarith
  then show ?case
  proof cases
    case 1
    with pos y r date civil_in_era_next [OF r(1) 1, of era] show ?thesis
      by (intro exI [of _ era] exI [of _ y] exI [of _ "r + 1"]) simp
  next
    case 2
    with pos y r date year_end [OF r(1) 2(1), of era] year_start_next [OF y(1) 2(2)] long
    show ?thesis
      by (intro exI [of _ era] exI [of _ "y + 1"] exI [of _ 0]) (simp add: first add_ac)
  next
    case 3
    then have "year_start y + (r + 1) = 146097" by (simp add: year_start_def year_length_def leap_year_def)
    with 3 pos date year_end [OF r(1) 3(1), of era] long
    show ?thesis
      by (intro exI [of _ "era + 1"] exI [of _ 0] exI [of _ 0]) (simp add: first year_start_def)
  qed
qed

lemma civil_of_days_correct: "civil_of_days (int n) = date_after n"
  using date_position [of n] civil_of_days_in_era by metis

section \<open>Reading the text back\<close>

definition read_number :: "string \<Rightarrow> nat" where
  "read_number = foldl (\<lambda>n c. 10 * n + (of_char c - 48)) 0"

definition read_rfc3339 :: "string \<Rightarrow> nat list option" where
  "read_rfc3339 t = (case split_on (CHR ''-'') t of
     [year, month, rest] \<Rightarrow> (case split_on (CHR ''T'') rest of
       [day, clock] \<Rightarrow> (case split_on (CHR '':'') clock of
         [hour, minute, seconds] \<Rightarrow> (case split_on (CHR ''.'') seconds of
           [second, fraction] \<Rightarrow>
             Some (map read_number [year, month, day, hour, minute, second, take 3 fraction])
         | _ \<Rightarrow> None)
       | _ \<Rightarrow> None)
     | _ \<Rightarrow> None)
   | _ \<Rightarrow> None)"

lemma read_number_snoc: "read_number (s @ [c]) = 10 * read_number s + (of_char c - 48)"
  by (simp add: read_number_def)

lemma read_show_nat [simp]: "read_number (show_nat n) = n"
proof (induction n rule: show_nat.induct)
  case (1 n)
  show ?case
  proof (cases "n < 10")
    case True
    then show ?thesis by (simp add: read_number_def show_nat.simps [of n])
  next
    case False
    then show ?thesis
      using 1 by (subst show_nat.simps) (simp add: read_number_snoc)
  qed
qed

lemma read_zeros: "read_number (replicate k (CHR ''0'') @ s) = read_number s"
  by (induction k) (simp_all add: read_number_def)

lemma read_pad_zeros [simp]: "read_number (pad_zeros w x) = nat x"
  by (simp add: pad_zeros_def read_zeros)

lemma pad_zeros_digits: "c \<in> set (pad_zeros w x) \<Longrightarrow> is_ascii_digit c"
  using show_nat_digits [of "nat x"]
  by (auto simp: pad_zeros_def list_all_iff is_ascii_digit_def)

lemma split_on_append: "sep \<notin> set a \<Longrightarrow> split_on sep (a @ sep # b) = a # split_on sep b"
  by (induction a) (auto split: list.splits)

lemma split_on_none: "sep \<notin> set a \<Longrightarrow> split_on sep a = [a]"
  by (induction a) auto

lemma show_nat_small: "n < 1000 \<Longrightarrow> length (show_nat n) \<le> 3"
proof -
  assume n: "n < 1000"
  then have "n div 10 div 10 < 10" by simp
  then show ?thesis
    by (simp add: show_nat.simps [of n] show_nat.simps [of "n div 10"] show_nat.simps [of "n div 10 div 10"])
qed

lemma pad_zeros_length: "0 \<le> x \<Longrightarrow> x < 1000 \<Longrightarrow> length (pad_zeros 3 x) = 3"
  using show_nat_small [of "nat x"] by (simp add: pad_zeros_def)

lemma pad_zeros_no_separator:
  "CHR ''-'' \<notin> set (pad_zeros w x)" "CHR ''T'' \<notin> set (pad_zeros w x)"
  "CHR '':'' \<notin> set (pad_zeros w x)" "CHR ''.'' \<notin> set (pad_zeros w x)"
  using pad_zeros_digits by (force simp: is_ascii_digit_def)+

lemma read_deadline:
  assumes "0 \<le> v" and "civil_of_days (v div 86400000) = (year, month, day)"
  shows "\<exists>t. unix_ms_to_rfc3339 v = Inr t \<and>
     read_rfc3339 t = Some (map nat [year, month, day, v div 3600000 mod 24, v div 60000 mod 60,
       v div 1000 mod 60, v mod 1000])"
proof -
  have days: "v div 1000 div 86400 = v div 86400000" by (simp add: zdiv_zmult2_eq [symmetric])
  have hour: "v div 1000 mod 86400 div 3600 = v div 3600000 mod 24"
    using mod_mult2_eq' [of "v div 1000" 3600 24] by (simp add: zdiv_zmult2_eq [symmetric])
  have minute: "v div 1000 mod 86400 mod 3600 div 60 = v div 60000 mod 60"
    using zmod_zmult2_eq [of 60 "v div 1000" 60]
    by (simp add: mod_mod_cancel zdiv_zmult2_eq [symmetric])
  have second: "v div 1000 mod 86400 mod 60 = v div 1000 mod 60"
    by (simp add: mod_mod_cancel)
  let ?t = "pad_zeros 4 year @ ''-'' @ pad_zeros 2 month @ ''-'' @ pad_zeros 2 day @ ''T'' @
     pad_zeros 2 (v div 3600000 mod 24) @ '':'' @ pad_zeros 2 (v div 60000 mod 60) @ '':'' @
     pad_zeros 2 (v div 1000 mod 60) @ ''.'' @ pad_zeros 3 (v mod 1000) @ ''0000Z''"
  have "unix_ms_to_rfc3339 v = Inr ?t"
    using assms by (simp add: unix_ms_to_rfc3339_def Let_def days hour minute second)
  moreover have "read_rfc3339 ?t = Some (map nat [year, month, day, v div 3600000 mod 24,
      v div 60000 mod 60, v div 1000 mod 60, v mod 1000])"
    using pad_zeros_length [of "v mod 1000"]
    by (simp add: read_rfc3339_def split_on_append split_on_none pad_zeros_no_separator)
  ultimately show ?thesis by blast
qed

end
