(* ===== verification/Hub_Hotspot.thy ===== *)
theory Hub_Hotspot
  imports Hub_Deadline
begin

text \<open>
  crates/fleet-hub/src/windows_hotspot.rs: operations on the one mobile hotspot of the host. An
  operation holds a lease on the resource from its confirmation on; the Hub keeps what the last
  verified receipt showed of the hotspot, and whether Fleet owns it. The methods after the preview
  change the stored operation without validating it again.
\<close>

section \<open>The store\<close>

definition max_hotspot_operations :: usize where
  "max_hotspot_operations = 1000"

definition put_hotspot :: "string \<Rightarrow> hotspot_operation \<Rightarrow> 'a hub_state_scheme \<Rightarrow> 'a hub_state_scheme" where
  "put_hotspot k op h = h\<lparr>fh_hotspot_operations := bt_insert k op (fh_hotspot_operations h)\<rparr>"

definition windows_hotspot_operation :: "'a hub_state_scheme \<Rightarrow> string \<Rightarrow> hub_error + hotspot_operation" where
  "windows_hotspot_operation h operation_id = (case bt_get (fh_hotspot_operations h) operation_id of
     None \<Rightarrow> Inl (hub_error ''windows_hotspot_operation_not_found'' ''Windows hotspot operation not found'')
   | Some op \<Rightarrow> Inr op)"

definition windows_hotspot_operations :: "'a hub_state_scheme \<Rightarrow> hotspot_operation list" where
  "windows_hotspot_operations h = bt_values (fh_hotspot_operations h)"

text \<open>The operations that hold the resource, and the lease they hold it by.\<close>

definition holds_hotspot :: "hotspot_operation \<Rightarrow> bool" where
  "holds_hotspot op \<longleftrightarrow> ho_lifecycle op \<in> {Accepted, Dispatched, Running}"

definition has_active_hotspot_lease :: "'a hub_state_scheme \<Rightarrow> i64 \<Rightarrow> string option \<Rightarrow> bool" where
  "has_active_hotspot_lease h now_ms except \<longleftrightarrow>
     list_ex (\<lambda>op. except \<noteq> Some (ho_operation_id op) \<and> holds_hotspot op \<and>
         some_and (\<lambda>lease. hls_expires_at_ms lease \<ge> now_ms) (ho_lease op))
       (bt_values (fh_hotspot_operations h))"

section \<open>Preview\<close>

record hotspot_preview_plan =
  hpp_operation_id :: string
  hpp_preview_id :: string
  hpp_lease_id :: string
  hpp_generation :: string
  hpp_request :: hotspot_preview_request
  hpp_created_at_ms :: i64
  hpp_expires_at_ms :: i64
  hpp_provider_ready :: bool

definition hotspot_preview_max_lifetime_ms :: i64 where
  "hotspot_preview_max_lifetime_ms = 5 * 60000"

definition hotspot_plan_invalid :: "hotspot_preview_plan \<Rightarrow> bool" where
  "hotspot_plan_invalid plan \<longleftrightarrow>
     \<not> valid (validate_hotspot_preview_request (hpp_request plan)) \<or> hpp_operation_id plan = [] \<or>
     hpp_preview_id plan = [] \<or> hpp_lease_id plan = [] \<or> hpp_generation plan = [] \<or>
     hpp_created_at_ms plan < 0 \<or> hpp_expires_at_ms plan \<le> hpp_created_at_ms plan \<or>
     hpp_expires_at_ms plan - hpp_created_at_ms plan > hotspot_preview_max_lifetime_ms"

definition observed_ownership :: "hotspot_observed option \<Rightarrow> hotspot_ownership" where
  "observed_ownership observed = (case observed of None \<Rightarrow> Ownership_None | Some x \<Rightarrow> hob_ownership x)"

definition observed_generation :: "hotspot_observed option \<Rightarrow> string option" where
  "observed_generation observed = Option.bind observed hob_generation"

definition hotspot_action_eligible :: "hotspot_action \<Rightarrow> hotspot_observed option \<Rightarrow> bool" where
  "hotspot_action_eligible action observed = (case action of
     Hotspot_Status \<Rightarrow> True
   | Hotspot_Stop \<Rightarrow> some_and hob_active observed \<and> observed_ownership observed = Ownership_Fleet \<and>
       observed_generation observed \<noteq> None
   | _ \<Rightarrow> observed_ownership observed \<noteq> Ownership_External)"

definition hotspot_preflight_of ::
  "hotspot_preview_plan \<Rightarrow> bool \<Rightarrow> hotspot_observed option \<Rightarrow> hotspot_preflight" where
  "hotspot_preflight_of plan lease_available observed =
    (let action = hpr_action (hpp_request plan);
         ownership = observed_ownership observed;
         action_eligible = hotspot_action_eligible action observed;
         eligible = (hpp_provider_ready plan \<and> lease_available \<and> action_eligible)
     in \<lparr>hpf_provider_ready = hpp_provider_ready plan,
         hpf_lease_available = lease_available,
         hpf_active = some_and hob_active observed,
         hpf_ownership = ownership,
         hpf_ownership_generation = observed_generation observed,
         hpf_eligible = eligible,
         hpf_reason_code =
           (if \<not> hpp_provider_ready plan then ''provider_unavailable''
            else if \<not> lease_available then ''resource_leased''
            else if ownership = Ownership_External then ''external_hotspot_not_owned''
            else if action = Hotspot_Stop \<and> \<not> action_eligible then ''fleet_ownership_required''
            else ''ready''),
         hpf_message =
           (if eligible then ''Host-scoped hotspot operation is ready for explicit confirmation''
            else ''Host-scoped hotspot operation is not eligible'')\<rparr>)"

definition proposed_hotspot_operation ::
  "u64 \<Rightarrow> hotspot_preview_plan \<Rightarrow> hotspot_preflight \<Rightarrow> hotspot_operation" where
  "proposed_hotspot_operation fleet_revision plan preflight = \<lparr>
     ho_schema = hotspot_operation_schema,
     ho_operation_id = hpp_operation_id plan,
     ho_action_id = hotspot_action_id,
     ho_lifecycle = (if hpf_eligible preflight then Proposed else Rejected),
     ho_preview = \<lparr>
       hpv_schema = ''rusty.fleet.windows_hotspot_preview.v1'',
       hpv_preview_id = hpp_preview_id plan,
       hpv_operation_id = hpp_operation_id plan,
       hpv_action_id = hotspot_action_id,
       hpv_resource_id = hotspot_resource_id,
       hpv_owner_id = hotspot_owner,
       hpv_action = hpr_action (hpp_request plan),
       hpv_created_at_ms = hpp_created_at_ms plan,
       hpv_expires_at_ms = hpp_expires_at_ms plan,
       hpv_fleet_revision = fleet_revision,
       hpv_preflight = preflight\<rparr>,
     ho_confirmed_at_ms = None,
     ho_lease = Some \<lparr>
       hls_schema = hotspot_lease_schema,
       hls_lease_id = hpp_lease_id plan,
       hls_resource_id = hotspot_resource_id,
       hls_holder_operation_id = hpp_operation_id plan,
       hls_generation = hpp_generation plan,
       hls_issued_at_ms = hpp_created_at_ms plan,
       hls_expires_at_ms = hpp_expires_at_ms plan\<rparr>,
     ho_invocation = None,
     ho_receipt = None,
     ho_failure_code = (if hpf_eligible preflight then None else Some (hpf_reason_code preflight)),
     ho_updated_at_ms = hpp_created_at_ms plan\<rparr>"

definition preview_windows_hotspot ::
  "'a hub_state_scheme \<Rightarrow> hotspot_preview_plan \<Rightarrow> 'a hub_state_scheme \<times> (hub_error + hotspot_operation)" where
  "preview_windows_hotspot h plan =
    (if hotspot_plan_invalid plan
     then (h, Inl (hub_error ''windows_hotspot_preview_plan_invalid''
       ''Windows hotspot preview plan is invalid or exceeds five minutes''))
     else case bt_get (fh_hotspot_operations h) (hpp_operation_id plan) of
       Some existing \<Rightarrow>
         (if hpv_preview_id (ho_preview existing) = hpp_preview_id plan \<and>
             hpv_action (ho_preview existing) = hpr_action (hpp_request plan)
          then (h, Inr existing)
          else (h, Inl (hub_error ''windows_hotspot_operation_id_conflict''
            ''operation ID names a different immutable hotspot preview'')))
     | None \<Rightarrow>
         (let lease_available = (\<not> has_active_hotspot_lease h (hpp_created_at_ms plan) None);
              preflight = hotspot_preflight_of plan lease_available (fh_hotspot_observation h);
              op = proposed_hotspot_operation (fh_result_revision h) plan preflight
          in if \<not> valid (validate_hotspot_operation op)
             then (h, Inl (hub_error ''windows_hotspot_operation_invalid'' ''operation invalid''))
             else if bt_len (fh_hotspot_operations h) \<ge> max_hotspot_operations
             then (h, Inl (hub_error ''windows_hotspot_operation_limit_reached''
               ''Windows hotspot operation retention limit reached''))
             else (put_hotspot (hpp_operation_id plan) op h, Inr op)))"

section \<open>Confirmation, expiry and dispatch\<close>

definition expired_hotspot_operation :: "i64 \<Rightarrow> hotspot_operation \<Rightarrow> hotspot_operation" where
  "expired_hotspot_operation now_ms op = op\<lparr>
     ho_lifecycle := Expired,
     ho_failure_code := Some ''lease_expired'',
     ho_updated_at_ms := now_ms\<rparr>"

definition expire_windows_hotspot_operation ::
  "'a hub_state_scheme \<Rightarrow> string \<Rightarrow> i64 \<Rightarrow> 'a hub_state_scheme \<times> (hub_error + unit)" where
  "expire_windows_hotspot_operation h operation_id now_ms =
    (case bt_get (fh_hotspot_operations h) operation_id of
       None \<Rightarrow> (h, Inl (hub_error ''windows_hotspot_operation_not_found'' ''operation not found''))
     | Some op \<Rightarrow> (put_hotspot operation_id (expired_hotspot_operation now_ms op) h, Inr ()))"

definition confirmed_hotspot_operation :: "i64 \<Rightarrow> hotspot_operation \<Rightarrow> hotspot_operation" where
  "confirmed_hotspot_operation now_ms op = op\<lparr>
     ho_lifecycle := Accepted,
     ho_confirmed_at_ms := Some now_ms,
     ho_updated_at_ms := now_ms\<rparr>"

definition confirm_windows_hotspot ::
  "'a hub_state_scheme \<Rightarrow> string \<Rightarrow> string \<Rightarrow> i64 \<Rightarrow>
   'a hub_state_scheme \<times> (hub_error + hotspot_operation)" where
  "confirm_windows_hotspot h operation_id preview_id now_ms =
    attempt h (windows_hotspot_operation h operation_id) (\<lambda>existing.
    if hpv_preview_id (ho_preview existing) \<noteq> preview_id
    then (h, Inl (hub_error ''windows_hotspot_preview_conflict''
      ''execute request does not bind the immutable preview''))
    else if ho_lifecycle existing \<noteq> Proposed then (h, Inr existing)
    else if now_ms > hpv_expires_at_ms (ho_preview existing)
    then (case expire_windows_hotspot_operation h operation_id now_ms of
        (h', Inl e) \<Rightarrow> (h', Inl e)
      | (h', Inr _) \<Rightarrow> (h', Inl (hub_error ''windows_hotspot_preview_expired''
          ''hotspot preview expired before confirmation'')))
    else if has_active_hotspot_lease h now_ms (Some operation_id)
    then (h, Inl (hub_error ''windows_hotspot_resource_leased''
      ''another operation owns the Windows hotspot resource''))
    else
     (let op = confirmed_hotspot_operation now_ms existing
      in (put_hotspot operation_id op h, Inr op)))"

text \<open>The generation the provider is bound to: nothing for start and status, what the Hub observes for ensure and stop.\<close>

definition invocation_generation ::
  "hotspot_operation \<Rightarrow> string option \<Rightarrow> hub_error + string option" where
  "invocation_generation op current = (case hpv_action (ho_preview op) of
     Hotspot_Ensure \<Rightarrow>
       (if current \<noteq> hpf_ownership_generation (hpv_preflight (ho_preview op))
        then Inl (hub_error ''windows_hotspot_generation_changed''
          ''Fleet hotspot generation changed after preview'')
        else Inr current)
   | Hotspot_Stop \<Rightarrow> (case current of
       None \<Rightarrow> Inl (hub_error ''windows_hotspot_ownership_lost''
         ''Fleet ownership disappeared after preview'')
     | Some expected \<Rightarrow>
         if expected \<noteq> (case hpf_ownership_generation (hpv_preflight (ho_preview op)) of
              None \<Rightarrow> [] | Some g \<Rightarrow> g)
         then Inl (hub_error ''windows_hotspot_generation_changed''
           ''Fleet hotspot generation changed after preview'')
         else Inr (Some expected))
   | _ \<Rightarrow> Inr None)"

definition dispatched_hotspot_operation ::
  "i64 \<Rightarrow> hotspot_provider_request \<Rightarrow> hotspot_operation \<Rightarrow> hotspot_operation" where
  "dispatched_hotspot_operation now_ms invocation op = op\<lparr>
     ho_invocation := Some invocation,
     ho_lifecycle := Dispatched,
     ho_updated_at_ms := now_ms\<rparr>"

definition prepare_windows_hotspot_invocation ::
  "'a hub_state_scheme \<Rightarrow> string \<Rightarrow> string \<Rightarrow> i64 \<Rightarrow>
   'a hub_state_scheme \<times> (hub_error + hotspot_operation)" where
  "prepare_windows_hotspot_invocation h operation_id request_id now_ms =
    attempt h (windows_hotspot_operation h operation_id) (\<lambda>existing.
    if ho_lifecycle existing = Dispatched \<and> ho_invocation existing \<noteq> None then (h, Inr existing)
    else if ho_lifecycle existing \<noteq> Accepted \<or> now_ms > hpv_expires_at_ms (ho_preview existing)
    then (h, Inl (hub_error ''windows_hotspot_dispatch_state_invalid''
      ''only an unexpired confirmed operation can dispatch''))
    else if ho_lease existing = None
    then (h, Inl (hub_error ''windows_hotspot_lease_missing'' ''operation has no host lease''))
    else
    attempt h (invocation_generation existing (observed_generation (fh_hotspot_observation h))) (\<lambda>generation.
    attempt h (unix_ms_to_rfc3339 (hpv_expires_at_ms (ho_preview existing))) (\<lambda>deadline.
    let invocation = \<lparr>
          hrq_schema = hotspot_provider_request_schema,
          hrq_request_id = request_id,
          hrq_operation_id = ho_operation_id existing,
          hrq_action = hpv_action (ho_preview existing),
          hrq_expires_at_utc = deadline,
          hrq_timeout_ms = 30000,
          hrq_ownership_generation = generation\<rparr>
    in if \<not> valid (validate_hotspot_provider_request invocation)
       then (h, Inl (hub_error ''windows_hotspot_invocation_invalid'' ''provider invocation invalid''))
       else
        (let op = dispatched_hotspot_operation now_ms invocation existing
         in (put_hotspot operation_id op h, Inr op)))))"

section \<open>Receipts\<close>

text \<open>What a verified receipt must show for its action.\<close>

definition hotspot_semantic_match :: "hotspot_receipt \<Rightarrow> hotspot_provider_request \<Rightarrow> bool" where
  "hotspot_semantic_match r i = (case hrc_action r of
     Hotspot_Status \<Rightarrow> True
   | Hotspot_Stop \<Rightarrow>
       hrc_operational_state r = ''Off'' \<and> hrc_ownership_generation r = None \<and>
       hrq_ownership_generation i \<noteq> None
   | action \<Rightarrow>
       hrc_operational_state r = ''On'' \<and>
       some_and (\<lambda>g. g \<noteq> []) (hrc_ownership_generation r) \<and>
       (action \<noteq> Hotspot_Ensure \<or> hrq_ownership_generation i = None \<or>
        hrc_ownership_generation r = hrq_ownership_generation i))"

definition hotspot_observation ::
  "bool \<Rightarrow> hotspot_ownership \<Rightarrow> string option \<Rightarrow> i64 \<Rightarrow> hotspot_observed option" where
  "hotspot_observation active ownership generation now_ms = Some \<lparr>
     hob_active = active, hob_ownership = ownership, hob_generation = generation,
     hob_observed_at_ms = now_ms\<rparr>"

definition fleet_owned :: "hotspot_observed option \<Rightarrow> bool" where
  "fleet_owned = some_and (\<lambda>x. hob_ownership x = Ownership_Fleet)"

text \<open>The arms of the \<^verbatim>\<open>match\<close>, in order.\<close>

definition observe_hotspot_receipt ::
  "hotspot_observed option \<Rightarrow> hotspot_receipt \<Rightarrow> i64 \<Rightarrow> hotspot_observed option" where
  "observe_hotspot_receipt prior r now_ms =
    (let verified = (hrc_outcome r = Result_Verified);
         action = hrc_action r;
         on = (hrc_operational_state r = ''On'');
         off = (hrc_operational_state r = ''Off'');
         external = hotspot_observation True Ownership_External None now_ms;
         none = hotspot_observation False Ownership_None None now_ms
     in if verified \<and> action \<in> {Hotspot_Start, Hotspot_Ensure} \<and> on
        then hotspot_observation True Ownership_Fleet (hrc_ownership_generation r) now_ms
        else if verified \<and> action = Hotspot_Status \<and> on \<and>
          some_and (\<lambda>x. hob_ownership x = Ownership_Fleet \<and>
            none_or (\<lambda>g. Some g = hob_generation x) (hrc_ownership_generation r)) prior
        then prior
        else if verified \<and> action = Hotspot_Status \<and> on then external
        else if verified \<and> action \<in> {Hotspot_Stop, Hotspot_Status} \<and> off then none
        else if on \<and> hrc_reason r = ''ownership.generation_mismatch'' then external
        else if on \<and> hrc_reason r \<in> {''state.restart_detected'', ''ownership.prior_boot_generation'',
             ''ownership.external_hotspot_on''} then external
        else if off \<and> hrc_reason r \<in> {''state.restart_detected'', ''ownership.prior_boot_generation''}
        then none
        else if on \<and> fleet_owned prior then prior
        else if on then external
        else if hrc_reason r = ''state.restart_detected'' then None
        else prior)"

definition settled_hotspot_operation :: "i64 \<Rightarrow> hotspot_receipt \<Rightarrow> hotspot_operation \<Rightarrow> hotspot_operation" where
  "settled_hotspot_operation now_ms r op = op\<lparr>
     ho_lifecycle := (if hrc_outcome r = Result_Verified then Applied else Lifecycle_Failed),
     ho_failure_code := (if hrc_outcome r \<noteq> Result_Verified then Some (hrc_reason r) else None),
     ho_receipt := Some r,
     ho_updated_at_ms := now_ms\<rparr>"

definition apply_windows_hotspot_receipt ::
  "'a hub_state_scheme \<Rightarrow> hotspot_receipt \<Rightarrow> i64 \<Rightarrow>
   'a hub_state_scheme \<times> (hub_error + hotspot_operation)" where
  "apply_windows_hotspot_receipt h r now_ms =
    (if \<not> valid (validate_hotspot_receipt r)
     then (h, Inl (hub_error ''windows_hotspot_receipt_invalid'' ''provider receipt is invalid''))
     else
    attempt h (windows_hotspot_operation h (hrc_operation_id r)) (\<lambda>existing.
    if ho_lifecycle existing \<noteq> Dispatched \<or> ho_receipt existing \<noteq> None
    then (h, Inl (hub_error ''windows_hotspot_receipt_replay''
      ''only one receipt may settle a dispatched hotspot invocation''))
    else case ho_invocation existing of
      None \<Rightarrow> (h, Inl (hub_error ''windows_hotspot_invocation_missing'' ''operation has no invocation''))
    | Some i \<Rightarrow>
        if hrc_request_id r \<noteq> hrq_request_id i \<or> hrc_action r \<noteq> hrq_action i
        then (h, Inl (hub_error ''windows_hotspot_receipt_binding_mismatch''
          ''receipt does not bind the exact provider invocation''))
        else if hrc_outcome r = Result_Verified \<and> \<not> hotspot_semantic_match r i
        then (h, Inl (hub_error ''windows_hotspot_optimistic_success''
          ''verified receipt contradicts action and ownership readback''))
        else
         (let observed = observe_hotspot_receipt (fh_hotspot_observation h) r now_ms;
              op = settled_hotspot_operation now_ms r existing
          in (put_hotspot (hrc_operation_id r) op (h\<lparr>fh_hotspot_observation := observed\<rparr>), Inr op))))"

section \<open>Failure and recovery\<close>

definition failed_hotspot_operation :: "string \<Rightarrow> i64 \<Rightarrow> hotspot_operation \<Rightarrow> hotspot_operation" where
  "failed_hotspot_operation failure_code now_ms op = op\<lparr>
     ho_lifecycle := Lifecycle_Failed,
     ho_failure_code := Some failure_code,
     ho_updated_at_ms := now_ms\<rparr>"

definition fail_windows_hotspot_operation ::
  "'a hub_state_scheme \<Rightarrow> string \<Rightarrow> string \<Rightarrow> i64 \<Rightarrow>
   'a hub_state_scheme \<times> (hub_error + hotspot_operation)" where
  "fail_windows_hotspot_operation h operation_id failure_code now_ms =
    (case bt_get (fh_hotspot_operations h) operation_id of
       None \<Rightarrow> (h, Inl (hub_error ''windows_hotspot_operation_not_found'' ''operation not found''))
     | Some op \<Rightarrow>
         if \<not> holds_hotspot op
         then (h, Inl (hub_error ''windows_hotspot_failure_state_invalid''
           ''operation is not in a fail-able execution state''))
         else
          (let op' = failed_hotspot_operation failure_code now_ms op
           in (put_hotspot operation_id op' h, Inr op')))"

definition hotspot_recoverable :: "i64 \<Rightarrow> hotspot_operation \<Rightarrow> bool" where
  "hotspot_recoverable now_ms op \<longleftrightarrow>
     ho_lifecycle op \<in> {Proposed, Accepted, Dispatched, Running} \<and>
     hpv_expires_at_ms (ho_preview op) < now_ms"

definition recover_windows_hotspot ::
  "'a hub_state_scheme \<Rightarrow> i64 \<Rightarrow> 'a hub_state_scheme \<times> hotspot_operation list" where
  "recover_windows_hotspot h now_ms =
    (let ids = map fst (filter (\<lambda>(_, op). hotspot_recoverable now_ms op) (entries (fh_hotspot_operations h)));
         h' = foldl (\<lambda>s k. fst (expire_windows_hotspot_operation s k now_ms)) h ids
     in (h', windows_hotspot_operations h'))"

end
