(* ===== verification/Hub_Hotspot_Facts.thy ===== *)
theory Hub_Hotspot_Facts
  imports Hub_Hotspot Operation_Store
begin

text \<open>
  What the hotspot operations guarantee. Every method is a step of the operation it names, so the
  store keeps the discipline of \<^theory_text>\<open>operation_store\<close>; two operations never hold the resource over
  overlapping times; and what the Hub observes of the hotspot shows Fleet as its owner only with a generation.
\<close>

section \<open>Steps of an operation\<close>

definition hotspot_answers :: "hotspot_provider_request \<Rightarrow> hotspot_receipt \<Rightarrow> bool" where
  "hotspot_answers i r \<longleftrightarrow>
     valid (validate_hotspot_receipt r) \<and> hrc_request_id r = hrq_request_id i \<and>
     hrc_action r = hrq_action i \<and> (hrc_outcome r = Result_Verified \<longrightarrow> hotspot_semantic_match r i)"

abbreviation hotspot_expiry :: "hotspot_operation \<Rightarrow> i64" where
  "hotspot_expiry op \<equiv> hpv_expires_at_ms (ho_preview op)"

inductive hotspot_step :: "hotspot_operation \<Rightarrow> hotspot_operation \<Rightarrow> bool" where
  confirm: "ho_lifecycle op = Proposed \<Longrightarrow> t \<le> hotspot_expiry op \<Longrightarrow>
     hotspot_step op (confirmed_hotspot_operation t op)"
| dispatch: "ho_lifecycle op = Accepted \<Longrightarrow> valid (validate_hotspot_provider_request i) \<Longrightarrow>
     hrq_operation_id i = ho_operation_id op \<Longrightarrow> hrq_action i = hpv_action (ho_preview op) \<Longrightarrow>
     hotspot_step op (dispatched_hotspot_operation t i op)"
| settle: "ho_lifecycle op = Dispatched \<Longrightarrow> ho_receipt op = None \<Longrightarrow> ho_invocation op = Some i \<Longrightarrow>
     hotspot_answers i r \<Longrightarrow> hrc_operation_id r = ho_operation_id op \<Longrightarrow>
     hotspot_step op (settled_hotspot_operation t r op)"
| fail: "holds_hotspot op \<Longrightarrow> hotspot_step op (failed_hotspot_operation code t op)"
| expire: "ho_lifecycle op = Proposed \<or> holds_hotspot op \<Longrightarrow>
     hotspot_step op (expired_hotspot_operation t op)"

lemmas hotspot_change_defs = confirmed_hotspot_operation_def dispatched_hotspot_operation_def
  settled_hotspot_operation_def failed_hotspot_operation_def expired_hotspot_operation_def

definition hotspot_evolves :: "hotspot_operation \<Rightarrow> hotspot_operation \<Rightarrow> bool" where
  "hotspot_evolves op op' \<longleftrightarrow> op' = op \<or> hotspot_step op op'"

definition freshly_proposed_hotspot :: "hotspot_operation \<Rightarrow> bool" where
  "freshly_proposed_hotspot op \<longleftrightarrow>
     ho_lifecycle op = (if hpf_eligible (hpv_preflight (ho_preview op)) then Proposed else Rejected) \<and>
     ho_confirmed_at_ms op = None \<and> ho_invocation op = None \<and> ho_receipt op = None \<and>
     ho_lease op \<noteq> None"

text \<open>What holds of every stored operation besides its contract.\<close>

definition hotspot_sound :: "hotspot_operation \<Rightarrow> bool" where
  "hotspot_sound op \<longleftrightarrow>
     ho_lease op \<noteq> None \<and> ho_lifecycle op \<noteq> Running \<and>
     (\<not> hpf_eligible (hpv_preflight (ho_preview op)) \<longrightarrow> ho_lifecycle op = Rejected) \<and>
     (ho_lifecycle op \<in> {Proposed, Rejected} \<longrightarrow> ho_invocation op = None) \<and>
     (ho_lifecycle op = Accepted \<longrightarrow> ho_invocation op = None) \<and>
     (ho_invocation op = None \<longrightarrow> ho_receipt op = None) \<and>
     (holds_hotspot op \<longrightarrow> ho_receipt op = None \<and> (\<exists>c. ho_confirmed_at_ms op = Some c \<and> c \<le> hotspot_expiry op)) \<and>
     (\<forall>r. ho_receipt op = Some r \<longrightarrow> (\<exists>i. ho_invocation op = Some i \<and> hotspot_answers i r)) \<and>
     (ho_lifecycle op = Applied \<longrightarrow> (\<exists>r. ho_receipt op = Some r \<and> hrc_outcome r = Result_Verified))"

lemma hotspot_step_frame:
  "hotspot_step op op' \<Longrightarrow> ho_operation_id op' = ho_operation_id op \<and> ho_preview op' = ho_preview op \<and>
     ho_lease op' = ho_lease op"
  by (induction rule: hotspot_step.induct) (simp_all add: hotspot_change_defs)

lemma hotspot_step_sound:
  assumes "hotspot_step op op'" and "hotspot_sound op"
  shows "hotspot_sound op'"
  using assms(1)
proof (cases rule: hotspot_step.cases)
  case (confirm t)
  with assms(2) show ?thesis by (simp add: hotspot_sound_def holds_hotspot_def hotspot_change_defs)
next
  case (dispatch i t)
  with assms(2) show ?thesis by (auto simp: hotspot_sound_def holds_hotspot_def hotspot_change_defs)
next
  case (settle i r t)
  with assms(2) show ?thesis by (simp add: hotspot_sound_def holds_hotspot_def hotspot_change_defs)
next
  case (fail code t)
  with assms(2) show ?thesis by (auto simp: hotspot_sound_def holds_hotspot_def hotspot_change_defs)
next
  case (expire t)
  with assms(2) show ?thesis by (auto simp: hotspot_sound_def holds_hotspot_def hotspot_change_defs)
qed

text \<open>A step of a valid operation leaves a valid operation: the unvalidated writes are safe.\<close>

lemma hotspot_valid_parts:
  "valid (validate_hotspot_operation op) \<longleftrightarrow>
     hotspot_binding_failures op = [] \<and> hotspot_invocation_failures op = [] \<and>
     hotspot_receipt_failures op = [] \<and>
     (ho_lifecycle op \<in> {Accepted, Dispatched} \<longrightarrow> ho_confirmed_at_ms op \<noteq> None) \<and>
     (ho_lifecycle op = Dispatched \<longrightarrow> ho_invocation op \<noteq> None)"
  by (auto simp: validate_hotspot_operation_def)

lemma hotspot_binding_frame:
  "hotspot_step op op' \<Longrightarrow> hotspot_binding_failures op' = hotspot_binding_failures op"
  by (induction rule: hotspot_step.induct)
    (simp_all add: hotspot_binding_failures_def hotspot_lease_mismatch_def hotspot_change_defs)

lemma hotspot_exchange_frame:
  assumes "ho_operation_id op' = ho_operation_id op" "ho_preview op' = ho_preview op"
    "ho_invocation op' = ho_invocation op"
  shows "hotspot_invocation_failures op' = hotspot_invocation_failures op"
    and "ho_receipt op' = ho_receipt op \<Longrightarrow> hotspot_receipt_failures op' = hotspot_receipt_failures op"
  using assms by (simp_all add: hotspot_invocation_failures_def hotspot_receipt_failures_def
      cong: option.case_cong)

lemma hotspot_step_valid:
  assumes "hotspot_step op op'" and "valid (validate_hotspot_operation op)" and "hotspot_sound op"
  shows "valid (validate_hotspot_operation op')"
  using assms(1)
proof (cases rule: hotspot_step.cases)
  case (settle i r t)
  have "hrq_action i = hpv_action (ho_preview op)"
    using assms(2) settle(4) by (simp add: hotspot_valid_parts hotspot_invocation_failures_def)
  with settle assms(2) show ?thesis
    unfolding hotspot_valid_parts hotspot_binding_frame [OF assms(1)]
    by (simp add: hotspot_invocation_failures_def hotspot_receipt_failures_def hotspot_change_defs
        hotspot_answers_def)
next
  case (dispatch i t)
  then have "holds_hotspot op" by (simp add: holds_hotspot_def)
  with assms(3) have "ho_receipt op = None" "ho_confirmed_at_ms op \<noteq> None" by (auto simp: hotspot_sound_def)
  with dispatch assms(2) show ?thesis
    unfolding hotspot_valid_parts hotspot_binding_frame [OF assms(1)]
    by (simp add: hotspot_invocation_failures_def hotspot_receipt_failures_def hotspot_change_defs)
next
  case (confirm t)
  then show ?thesis
    using assms(2) hotspot_exchange_frame [of "confirmed_hotspot_operation t op" op]
    unfolding hotspot_valid_parts hotspot_binding_frame [OF assms(1)] by (simp add: hotspot_change_defs)
next
  case (fail code t)
  then show ?thesis
    using assms(2) hotspot_exchange_frame [of "failed_hotspot_operation code t op" op]
    unfolding hotspot_valid_parts hotspot_binding_frame [OF assms(1)] by (simp add: hotspot_change_defs)
next
  case (expire t)
  then show ?thesis
    using assms(2) hotspot_exchange_frame [of "expired_hotspot_operation t op" op]
    unfolding hotspot_valid_parts hotspot_binding_frame [OF assms(1)] by (simp add: hotspot_change_defs)
qed

text \<open>The store of the locale is the map of operations; the observation lives beside it.\<close>

definition hotspot_ok :: "hotspot_operation \<Rightarrow> bool" where
  "hotspot_ok op \<longleftrightarrow> valid (validate_hotspot_operation op) \<and> hotspot_sound op"

interpretation hs: operation_store bt_get bt_insert ho_operation_id hotspot_ok
  freshly_proposed_hotspot hotspot_evolves
  by unfold_locales (auto simp: hotspot_evolves_def dest: hotspot_step_frame)

text \<open>The effect of a call on the store; an error may come with one (an expiry found on confirmation).\<close>

definition hotspot_effect :: "(string, hotspot_operation) btree_map \<Rightarrow> string \<Rightarrow>
    (string, hotspot_operation) btree_map \<Rightarrow> bool" where
  "hotspot_effect m k m' \<longleftrightarrow> (\<exists>r :: (string, hotspot_operation) btree_map \<times> (hub_error + hotspot_operation).
     hs.outcome m k r \<and> m' = fst r)"

lemma hotspot_effect_refl: "hotspot_effect m k m"
  unfolding hotspot_effect_def by (rule exI [of _ "(m, Inl (hub_error [] []))"]) (simp add: hs.outcome_error)

lemma hotspot_effect_step:
  assumes "hs.store_ok m" and "bt_get m k = Some x" and "hotspot_step x y"
  shows "hotspot_effect m k (bt_insert k y m)"
proof -
  have "hotspot_ok x" using assms(1,2) by (simp add: hs.store_ok_def)
  then have "hotspot_ok y" using assms(3) hotspot_step_sound hotspot_step_valid by (auto simp: hotspot_ok_def)
  with assms(2,3) have "hs.outcome m k (bt_insert k y m, Inr y)"
    unfolding hs.outcome_def hs.evolved_def by (auto simp: hotspot_evolves_def)
  then show ?thesis unfolding hotspot_effect_def by (intro exI [of _ "(bt_insert k y m, Inr y)"]) simp
qed

lemma hotspot_effect_create:
  assumes "bt_get m k = None" and "valid (validate_hotspot_operation x)"
    and "freshly_proposed_hotspot x" and "ho_operation_id x = k"
  shows "hotspot_effect m k (bt_insert k x m)"
proof -
  have "hotspot_sound x"
    using assms(3) by (auto simp: freshly_proposed_hotspot_def hotspot_sound_def holds_hotspot_def split: if_splits)
  with assms have "hs.outcome m k (bt_insert k x m, Inr x)"
    unfolding hs.outcome_def hs.created_def by (auto simp: hotspot_ok_def)
  then show ?thesis unfolding hotspot_effect_def by (intro exI [of _ "(bt_insert k x m, Inr x)"]) simp
qed

lemma hotspot_effect_ok: "hs.store_ok m \<Longrightarrow> hotspot_effect m k m' \<Longrightarrow> hs.store_ok m'"
  unfolding hotspot_effect_def using hs.outcome_store_ok by blast

lemma hotspot_effect_evolves:
  "hotspot_effect m k m' \<Longrightarrow> bt_get m j = Some x \<Longrightarrow> \<exists>y. bt_get m' j = Some y \<and> hotspot_evolves x y"
  unfolding hotspot_effect_def using hs.outcome_evolves by blast

section \<open>Every method is an effect\<close>

lemma windows_hotspot_operation_Inr [simp]:
  "windows_hotspot_operation h k = Inr op \<longleftrightarrow> bt_get (fh_hotspot_operations h) k = Some op"
  by (simp add: windows_hotspot_operation_def split: option.split)

lemma put_hotspot_operations [simp]:
  "fh_hotspot_operations (put_hotspot k op h) = bt_insert k op (fh_hotspot_operations h)"
  by (simp add: put_hotspot_def)

abbreviation hotspot_method :: "'a hub_state_scheme \<Rightarrow> string \<Rightarrow> 'a hub_state_scheme \<Rightarrow> bool" where
  "hotspot_method h k h' \<equiv> hotspot_effect (fh_hotspot_operations h) k (fh_hotspot_operations h')"

lemma hotspot_attempt:
  "(\<And>x. r = Inr x \<Longrightarrow> hotspot_method h k (fst (f x))) \<Longrightarrow> hotspot_method h k (fst (attempt h r f))"
  by (cases r) (auto simp: hotspot_effect_refl)

lemma hotspot_preview_effect: "hotspot_method h (hpp_operation_id plan) (fst (preview_windows_hotspot h plan))"
proof (cases "bt_get (fh_hotspot_operations h) (hpp_operation_id plan)")
  case None
  let ?op = "proposed_hotspot_operation (fh_result_revision h) plan (hotspot_preflight_of plan
    (\<not> has_active_hotspot_lease h (hpp_created_at_ms plan) None) (fh_hotspot_observation h))"
  have "freshly_proposed_hotspot ?op" "ho_operation_id ?op = hpp_operation_id plan"
    by (simp_all add: freshly_proposed_hotspot_def proposed_hotspot_operation_def)
  with None show ?thesis
    by (auto simp: preview_windows_hotspot_def Let_def hotspot_effect_refl intro: hotspot_effect_create)
next
  case (Some x)
  then show ?thesis by (simp add: preview_windows_hotspot_def hotspot_effect_refl)
qed

lemma hotspot_expire_effect:
  assumes "hs.store_ok (fh_hotspot_operations h)"
    and "\<And>op. bt_get (fh_hotspot_operations h) k = Some op \<Longrightarrow> ho_lifecycle op = Proposed \<or> holds_hotspot op"
  shows "hotspot_method h k (fst (expire_windows_hotspot_operation h k now))"
  using assms by (auto simp: expire_windows_hotspot_operation_def hotspot_effect_refl
      intro: hotspot_effect_step hotspot_step.expire split: option.split)

lemma confirm_expired_fst:
  "fst (case expire_windows_hotspot_operation h k now of
        (h', Inl e) \<Rightarrow> (h', Inl e) | (h', Inr _) \<Rightarrow> (h', Inl e')) =
   fst (expire_windows_hotspot_operation h k now)"
  by (simp split: prod.split sum.split)

lemma hotspot_confirm_effect:
  assumes "hs.store_ok (fh_hotspot_operations h)"
  shows "hotspot_method h k (fst (confirm_windows_hotspot h k preview_id now))"
  unfolding confirm_windows_hotspot_def
proof (rule hotspot_attempt)
  fix op assume "windows_hotspot_operation h k = Inr op"
  then have op: "bt_get (fh_hotspot_operations h) k = Some op" by simp
  have expire: "hotspot_method h k (fst (expire_windows_hotspot_operation h k now))"
    if "ho_lifecycle op = Proposed"
    using op that by (intro hotspot_expire_effect [OF assms]) simp
  have confirm: "hotspot_effect (fh_hotspot_operations h) k
      (bt_insert k (confirmed_hotspot_operation now op) (fh_hotspot_operations h))"
    if "ho_lifecycle op = Proposed" "\<not> hotspot_expiry op < now"
    using that by (intro hotspot_effect_step [OF assms op] hotspot_step.confirm) simp_all
  show "hotspot_method h k (fst (if hpv_preview_id (ho_preview op) \<noteq> preview_id
    then (h, Inl (hub_error ''windows_hotspot_preview_conflict''
      ''execute request does not bind the immutable preview''))
    else if ho_lifecycle op \<noteq> Proposed then (h, Inr op)
    else if now > hotspot_expiry op
    then (case expire_windows_hotspot_operation h k now of
        (h', Inl e) \<Rightarrow> (h', Inl e)
      | (h', Inr _) \<Rightarrow> (h', Inl (hub_error ''windows_hotspot_preview_expired''
          ''hotspot preview expired before confirmation'')))
    else if has_active_hotspot_lease h now (Some k)
    then (h, Inl (hub_error ''windows_hotspot_resource_leased''
      ''another operation owns the Windows hotspot resource''))
    else (let op = confirmed_hotspot_operation now op in (put_hotspot k op h, Inr op))))"
    using expire confirm by (simp add: hotspot_effect_refl confirm_expired_fst Let_def)
qed

lemma hotspot_prepare_effect:
  assumes "hs.store_ok (fh_hotspot_operations h)"
  shows "hotspot_method h k (fst (prepare_windows_hotspot_invocation h k request_id now))"
proof -
  have step: "hotspot_effect (fh_hotspot_operations h) k
      (bt_insert k (dispatched_hotspot_operation now i op) (fh_hotspot_operations h))"
    if "bt_get (fh_hotspot_operations h) k = Some op" "ho_lifecycle op = Accepted"
      "valid (validate_hotspot_provider_request i)" "hrq_operation_id i = ho_operation_id op"
      "hrq_action i = hpv_action (ho_preview op)" for op i
    using that by (intro hotspot_effect_step [OF assms that(1)] hotspot_step.dispatch)
  show ?thesis unfolding prepare_windows_hotspot_invocation_def Let_def
    by (auto intro!: hotspot_attempt step simp: hotspot_effect_refl)
qed

lemma hotspot_receipt_effect:
  assumes ok: "hs.store_ok (fh_hotspot_operations h)"
  shows "hotspot_method h (hrc_operation_id r) (fst (apply_windows_hotspot_receipt h r now))"
proof -
  have step: "hotspot_effect (fh_hotspot_operations h) (hrc_operation_id r)
      (bt_insert (hrc_operation_id r) (settled_hotspot_operation now r op) (fh_hotspot_operations h))"
    if "bt_get (fh_hotspot_operations h) (hrc_operation_id r) = Some op" "ho_lifecycle op = Dispatched"
      "ho_receipt op = None" "ho_invocation op = Some i" "hotspot_answers i r" for op i
  proof (rule hotspot_effect_step [OF ok that(1)])
    have "ho_operation_id op = hrc_operation_id r" using ok that(1) by (simp add: hs.store_ok_def)
    with that show "hotspot_step op (settled_hotspot_operation now r op)" by (simp add: hotspot_step.settle)
  qed
  show ?thesis
    unfolding apply_windows_hotspot_receipt_def Let_def
    by (auto intro!: hotspot_attempt step simp: hotspot_effect_refl hotspot_answers_def put_hotspot_def
        split: option.split)
qed

lemma hotspot_fail_effect:
  assumes "hs.store_ok (fh_hotspot_operations h)"
  shows "hotspot_method h k (fst (fail_windows_hotspot_operation h k code now))"
  using assms by (auto simp: fail_windows_hotspot_operation_def Let_def hotspot_effect_refl
      intro!: hotspot_effect_step hotspot_step.fail split: option.split)

text \<open>Recovery is one expiry after the other.\<close>

lemma expire_all_effects:
  assumes "hs.store_ok (fh_hotspot_operations h)" and "distinct ks"
    and "\<forall>k\<in>set ks. \<forall>op. bt_get (fh_hotspot_operations h) k = Some op \<longrightarrow>
      ho_lifecycle op = Proposed \<or> holds_hotspot op"
  shows "(\<lambda>m m'. \<exists>k. hotspot_effect m k m')\<^sup>*\<^sup>* (fh_hotspot_operations h)
    (fh_hotspot_operations (foldl (\<lambda>s k. fst (expire_windows_hotspot_operation s k now)) h ks))"
  using assms
proof (induction ks arbitrary: h)
  case (Cons k ks)
  let ?h = "fst (expire_windows_hotspot_operation h k now)"
  have step: "hotspot_method h k ?h" using Cons.prems by (intro hotspot_expire_effect) auto
  have "bt_get (fh_hotspot_operations ?h) j = bt_get (fh_hotspot_operations h) j" if "j \<in> set ks" for j
    using that Cons.prems(2) by (auto simp: expire_windows_hotspot_operation_def split: option.split)
  then have rest: "\<forall>j\<in>set ks. \<forall>op. bt_get (fh_hotspot_operations ?h) j = Some op \<longrightarrow>
      ho_lifecycle op = Proposed \<or> holds_hotspot op"
    using Cons.prems(3) by simp
  have "(\<lambda>m m'. \<exists>k. hotspot_effect m k m')\<^sup>*\<^sup>* (fh_hotspot_operations ?h)
      (fh_hotspot_operations (foldl (\<lambda>s k. fst (expire_windows_hotspot_operation s k now)) ?h ks))"
    using Cons.prems(2) hotspot_effect_ok [OF Cons.prems(1) step] rest by (intro Cons.IH) simp_all
  with step show ?case by (auto intro: converse_rtranclp_into_rtranclp)
qed simp

section \<open>Exclusive use of the resource\<close>

text \<open>
  Two operations that hold the resource were confirmed for disjoint times: one of the leases had
  run out when the other operation was confirmed.
\<close>

definition leases_disjoint :: "(string, hotspot_operation) btree_map \<Rightarrow> bool" where
  "leases_disjoint m \<longleftrightarrow>
     (\<forall>j k x y c d. j \<noteq> k \<longrightarrow> bt_get m j = Some x \<longrightarrow> bt_get m k = Some y \<longrightarrow>
        holds_hotspot x \<longrightarrow> holds_hotspot y \<longrightarrow>
        ho_confirmed_at_ms x = Some c \<longrightarrow> ho_confirmed_at_ms y = Some d \<longrightarrow>
        hotspot_expiry x < d \<or> hotspot_expiry y < c)"

definition adds_no_holder :: "hotspot_operation \<Rightarrow> hotspot_operation \<Rightarrow> bool" where
  "adds_no_holder x y \<longleftrightarrow> (holds_hotspot y \<longrightarrow> holds_hotspot x \<and>
     ho_confirmed_at_ms y = ho_confirmed_at_ms x \<and> ho_preview y = ho_preview x)"

lemma leases_disjoint_keep:
  assumes "leases_disjoint m" and "\<forall>x. bt_get m k = Some x \<longrightarrow> adds_no_holder x y"
    and "bt_get m k = None \<longrightarrow> \<not> holds_hotspot y"
  shows "leases_disjoint (bt_insert k y m)"
  unfolding leases_disjoint_def
proof (intro allI impI)
  fix i j a b c d
  assume *: "i \<noteq> j" "bt_get (bt_insert k y m) i = Some a" "bt_get (bt_insert k y m) j = Some b"
    "holds_hotspot a" "holds_hotspot b" "ho_confirmed_at_ms a = Some c" "ho_confirmed_at_ms b = Some d"
  have old: "\<exists>a'. bt_get m i = Some a' \<and> holds_hotspot a' \<and> ho_confirmed_at_ms a' = Some c \<and>
      hotspot_expiry a' = hotspot_expiry a"
    if "bt_get (bt_insert k y m) i = Some a" "holds_hotspot a" "ho_confirmed_at_ms a = Some c" for i a c
    using that assms(2,3) by (cases "bt_get m k") (auto simp: adds_no_holder_def split: if_splits)
  from old [OF *(2,4,6)] old [OF *(3,5,7)] obtain a' b' where
    "bt_get m i = Some a'" "holds_hotspot a'" "ho_confirmed_at_ms a' = Some c" "hotspot_expiry a' = hotspot_expiry a"
    "bt_get m j = Some b'" "holds_hotspot b'" "ho_confirmed_at_ms b' = Some d" "hotspot_expiry b' = hotspot_expiry b"
    by blast
  with assms(1) *(1) show "hotspot_expiry a < d \<or> hotspot_expiry b < c"
    unfolding leases_disjoint_def by metis
qed

lemma leases_disjoint_confirm:
  assumes "leases_disjoint m" and "ho_confirmed_at_ms y = Some now"
    and free: "\<forall>j x. j \<noteq> k \<longrightarrow> bt_get m j = Some x \<longrightarrow> holds_hotspot x \<longrightarrow> hotspot_expiry x < now"
  shows "leases_disjoint (bt_insert k y m)"
  unfolding leases_disjoint_def
proof (intro allI impI)
  fix i j a b c d
  assume *: "i \<noteq> j" "bt_get (bt_insert k y m) i = Some a" "bt_get (bt_insert k y m) j = Some b"
    "holds_hotspot a" "holds_hotspot b" "ho_confirmed_at_ms a = Some c" "ho_confirmed_at_ms b = Some d"
  consider "i = k" | "j = k" "i \<noteq> k" | "i \<noteq> k" "j \<noteq> k" by blast
  then show "hotspot_expiry a < d \<or> hotspot_expiry b < c"
  proof cases
    case 1
    with * assms(2) have "a = y" "c = now" "bt_get m j = Some b" "j \<noteq> k" by auto
    with free * show ?thesis by auto
  next
    case 2
    with * assms(2) have "b = y" "d = now" "bt_get m i = Some a" by auto
    with free * 2 show ?thesis by auto
  next
    case 3
    with * assms(1) show ?thesis unfolding leases_disjoint_def by auto
  qed
qed

lemma no_active_lease:
  assumes "hs.store_ok (fh_hotspot_operations h)" and "\<not> has_active_hotspot_lease h now (Some k)"
    and "bt_get (fh_hotspot_operations h) j = Some x" and "j \<noteq> k" and "holds_hotspot x"
  shows "hotspot_expiry x < now"
proof -
  have x: "hotspot_ok x" "ho_operation_id x = j" using assms(1,3) by (auto simp: hs.store_ok_def)
  then obtain l where l: "ho_lease x = Some l" by (auto simp: hotspot_ok_def hotspot_sound_def)
  have "hotspot_binding_failures x = []" using x(1) by (simp add: hotspot_ok_def hotspot_valid_parts)
  with l have "hls_expires_at_ms l = hotspot_expiry x"
    by (simp add: hotspot_binding_failures_def hotspot_lease_mismatch_def)
  moreover have "x \<in> set (bt_values (fh_hotspot_operations h))"
    using assms(3) by (auto simp: set_bt_values)
  ultimately show ?thesis
    using assms(2,4,5) x(2) l unfolding has_active_hotspot_lease_def by (fastforce simp: list_ex_iff)
qed

lemma adds_no_holder_simps [simp]:
  "holds_hotspot op \<Longrightarrow> adds_no_holder op (dispatched_hotspot_operation now i op)"
  "adds_no_holder op (settled_hotspot_operation now r op)"
  "adds_no_holder op (failed_hotspot_operation code now op)"
  "adds_no_holder op (expired_hotspot_operation now op)"
  by (simp_all add: adds_no_holder_def holds_hotspot_def hotspot_change_defs)

lemma attempt_disjoint:
  "leases_disjoint (fh_hotspot_operations h) \<Longrightarrow>
   (\<And>x. r = Inr x \<Longrightarrow> leases_disjoint (fh_hotspot_operations (fst (f x)))) \<Longrightarrow>
   leases_disjoint (fh_hotspot_operations (fst (attempt h r f)))"
  by (cases r) auto

lemma preview_disjoint:
  assumes "leases_disjoint (fh_hotspot_operations h)"
  shows "leases_disjoint (fh_hotspot_operations (fst (preview_windows_hotspot h plan)))"
  using assms
  by (auto simp: preview_windows_hotspot_def Let_def proposed_hotspot_operation_def holds_hotspot_def
      intro!: leases_disjoint_keep split: option.split)

lemma expire_disjoint:
  assumes "leases_disjoint (fh_hotspot_operations h)"
  shows "leases_disjoint (fh_hotspot_operations (fst (expire_windows_hotspot_operation h k now)))"
  using assms
  by (auto simp: expire_windows_hotspot_operation_def intro!: leases_disjoint_keep split: option.split)

lemma confirm_disjoint:
  assumes ok: "hs.store_ok (fh_hotspot_operations h)" and disjoint: "leases_disjoint (fh_hotspot_operations h)"
  shows "leases_disjoint (fh_hotspot_operations (fst (confirm_windows_hotspot h k preview_id now)))"
proof -
  have confirm: "leases_disjoint (bt_insert k (confirmed_hotspot_operation now op) (fh_hotspot_operations h))"
    if "\<not> has_active_hotspot_lease h now (Some k)" for op
    using no_active_lease [OF ok that]
    by (intro leases_disjoint_confirm [OF disjoint]) (auto simp: confirmed_hotspot_operation_def)
  show ?thesis
    unfolding confirm_windows_hotspot_def
    by (rule attempt_disjoint [OF disjoint])
      (simp add: Let_def confirm_expired_fst expire_disjoint [OF disjoint] disjoint confirm)
qed

lemma prepare_disjoint:
  assumes "leases_disjoint (fh_hotspot_operations h)"
  shows "leases_disjoint (fh_hotspot_operations (fst (prepare_windows_hotspot_invocation h k request_id now)))"
proof -
  have "leases_disjoint (bt_insert k (dispatched_hotspot_operation now i op) (fh_hotspot_operations h))"
    if "bt_get (fh_hotspot_operations h) k = Some op" "ho_lifecycle op = Accepted" for i op
    using that by (intro leases_disjoint_keep [OF assms]) (simp_all add: holds_hotspot_def [of op])
  then show ?thesis unfolding prepare_windows_hotspot_invocation_def Let_def
    by (auto intro!: attempt_disjoint simp: assms)
qed

lemma receipt_disjoint:
  assumes "leases_disjoint (fh_hotspot_operations h)"
  shows "leases_disjoint (fh_hotspot_operations (fst (apply_windows_hotspot_receipt h r now)))"
proof -
  have "leases_disjoint (bt_insert k (settled_hotspot_operation now r op) (fh_hotspot_operations h))"
    if "bt_get (fh_hotspot_operations h) k = Some op" for k op
    using that by (intro leases_disjoint_keep [OF assms]) simp_all
  then show ?thesis unfolding apply_windows_hotspot_receipt_def Let_def
    by (auto intro!: attempt_disjoint simp: assms put_hotspot_def split: option.split)
qed

lemma fail_disjoint:
  assumes "leases_disjoint (fh_hotspot_operations h)"
  shows "leases_disjoint (fh_hotspot_operations (fst (fail_windows_hotspot_operation h k code now)))"
  using assms
  by (auto simp: fail_windows_hotspot_operation_def Let_def intro!: leases_disjoint_keep split: option.split)

lemma expire_all_disjoint:
  "leases_disjoint (fh_hotspot_operations h) \<Longrightarrow> leases_disjoint (fh_hotspot_operations
     (foldl (\<lambda>s k. fst (expire_windows_hotspot_operation s k now)) h ks))"
  by (induction ks arbitrary: h) (simp_all add: expire_disjoint)

section \<open>Ownership\<close>

text \<open>Fleet owns the hotspot only while it is on and under a generation.\<close>

definition observed_ok :: "hotspot_observed option \<Rightarrow> bool" where
  "observed_ok observed \<longleftrightarrow> (\<forall>x. observed = Some x \<longrightarrow> (case hob_ownership x of
     Ownership_Fleet \<Rightarrow> hob_active x \<and> (\<exists>g. hob_generation x = Some g \<and> g \<noteq> [])
   | Ownership_External \<Rightarrow> hob_active x \<and> hob_generation x = None
   | Ownership_None \<Rightarrow> \<not> hob_active x \<and> hob_generation x = None))"

lemma observed_ok_simps [simp]:
  "observed_ok None"
  "observed_ok (hotspot_observation True Ownership_External None now)"
  "observed_ok (hotspot_observation False Ownership_None None now)"
  "observed_ok (hotspot_observation True Ownership_Fleet g now) \<longleftrightarrow> (\<exists>x. g = Some x \<and> x \<noteq> [])"
  by (auto simp: observed_ok_def hotspot_observation_def)

lemma observe_receipt_cases:
  obtains (acquired) "hrc_outcome r = Result_Verified" "hrc_action r \<in> {Hotspot_Start, Hotspot_Ensure}"
      "hrc_operational_state r = ''On''"
      "observe_hotspot_receipt prior r now =
         hotspot_observation True Ownership_Fleet (hrc_ownership_generation r) now"
  | (same) "observe_hotspot_receipt prior r now = prior"
  | (lost) "observe_hotspot_receipt prior r now \<in>
      {None, hotspot_observation True Ownership_External None now, hotspot_observation False Ownership_None None now}"
proof -
  define owned where "owned = (hrc_outcome r = Result_Verified \<and>
    hrc_action r \<in> {Hotspot_Start, Hotspot_Ensure} \<and> hrc_operational_state r = ''On'')"
  show thesis
  proof (cases owned)
    case True
    with acquired show thesis by (simp add: owned_def observe_hotspot_receipt_def Let_def)
  next
    case False
    then have "observe_hotspot_receipt prior r now \<in> {prior, None,
        hotspot_observation True Ownership_External None now, hotspot_observation False Ownership_None None now}"
      unfolding observe_hotspot_receipt_def Let_def owned_def by (simp only: if_False split: if_split) simp
    then show thesis using same lost by blast
  qed
qed

lemma observe_receipt_ok:
  assumes "observed_ok prior" and "hotspot_answers i r"
  shows "observed_ok (observe_hotspot_receipt prior r now)"
proof (cases rule: observe_receipt_cases [of r prior now])
  case acquired
  then have "\<exists>x. hrc_ownership_generation r = Some x \<and> x \<noteq> []"
    using assms(2) by (auto simp: hotspot_answers_def hotspot_semantic_match_def)
  with acquired show ?thesis by simp
qed (use assms(1) in auto)

text \<open>Fleet becomes the owner in one way: a verified start or ensure that found the hotspot on.\<close>

lemma ownership_origin:
  assumes "fleet_owned (observe_hotspot_receipt prior r now)"
  shows "observe_hotspot_receipt prior r now = prior \<or>
    hrc_outcome r = Result_Verified \<and> hrc_action r \<in> {Hotspot_Start, Hotspot_Ensure} \<and>
    hrc_operational_state r = ''On'' \<and>
    observe_hotspot_receipt prior r now =
      hotspot_observation True Ownership_Fleet (hrc_ownership_generation r) now"
  using assms
  by (cases rule: observe_receipt_cases [of r prior now]) (auto simp: fleet_owned_def hotspot_observation_def)

end
