(* ===== verification/Hub_Calls.thy ===== *)
theory Hub_Calls
  imports Hub_Wifi_Adb_Facts Hub_Awake_Facts Hub_Hotspot_Facts
begin

text \<open>
  The calls a client of the Hub can make on the Quest awake, Quest Wi-Fi ADB and Windows hotspot
  operations, what each changes of the Hub's state, and the guarantee of each family for any of
  its calls.
\<close>

section \<open>Quest Wi-Fi ADB\<close>

datatype wifi_call =
  Preview_Wifi wifi_preview_plan
| Confirm_Wifi string string i64
| Prepare_Wifi string string string i64
| Dispatch_Wifi string string i64
| Receive_Wifi wifi_receipt i64
| Fail_Wifi string string string i64

fun run_wifi ::
  "(string \<Rightarrow> string) \<Rightarrow> 'a hub_state_scheme \<Rightarrow> wifi_call \<Rightarrow> 'a hub_state_scheme \<times> (hub_error + wifi_operation)" where
  "run_wifi sha h (Preview_Wifi plan) = preview_quest_wifi_adb sha h plan"
| "run_wifi sha h (Confirm_Wifi k p now) = confirm_quest_wifi_adb sha h k p now"
| "run_wifi sha h (Prepare_Wifi k d q now) = prepare_quest_wifi_adb_invocation sha h k d q now"
| "run_wifi sha h (Dispatch_Wifi k d now) = mark_quest_wifi_adb_dispatched sha h k d now"
| "run_wifi sha h (Receive_Wifi r now) = apply_quest_wifi_adb_receipt sha h r now"
| "run_wifi sha h (Fail_Wifi k d code now) = fail_quest_wifi_adb_target sha h k d code now"

fun wifi_key :: "wifi_call \<Rightarrow> string" where
  "wifi_key (Preview_Wifi plan) = wpp_operation_id plan"
| "wifi_key (Confirm_Wifi k p now) = k"
| "wifi_key (Prepare_Wifi k d q now) = k"
| "wifi_key (Dispatch_Wifi k d now) = k"
| "wifi_key (Receive_Wifi r now) = wr_operation_id r"
| "wifi_key (Fail_Wifi k d code now) = k"

lemma run_wifi_inplace: "wa.sound_store h \<Longrightarrow> wa.inplace sha h (wifi_key c) (run_wifi sha h c)"
  by (cases c) (simp_all add: wifi_preview_inplace wifi_confirm_inplace wifi_prepare_inplace
      wifi_dispatch_inplace wifi_receipt_inplace wifi_fail_inplace)

lemma run_wifi_frame:
  assumes "wa.sound_store h"
  obtains m where "fst (run_wifi sha h c) = h\<lparr>fh_wifi_adb_operations := m\<rparr>"
  using run_wifi_inplace [OF assms, of sha c]
  by (cases rule: wa.inplace_cases) (auto simp: put_wifi_def intro: that [of "fh_wifi_adb_operations h"] that)

section \<open>Quest awake\<close>

datatype awake_call =
  Preview_Awake awake_preview_plan
| Confirm_Awake string string i64
| Prepare_Awake string string string "string option" i64
| Dispatch_Awake string string i64
| Receive_Awake awake_receipt i64
| Fail_Awake string string string i64

fun run_awake ::
  "'a hub_state_scheme \<Rightarrow> awake_call \<Rightarrow> 'a hub_state_scheme \<times> (hub_error + awake_operation)" where
  "run_awake h (Preview_Awake plan) = preview_quest_awake h plan"
| "run_awake h (Confirm_Awake k p now) = confirm_quest_awake h k p now"
| "run_awake h (Prepare_Awake k d q expected now) =
     prepare_quest_awake_invocation_with_watchdog_generation h k d q expected now"
| "run_awake h (Dispatch_Awake k d now) = mark_quest_awake_dispatched h k d now"
| "run_awake h (Receive_Awake r now) = apply_quest_awake_receipt h r now"
| "run_awake h (Fail_Awake k d code now) = fail_quest_awake_target h k d code now"

fun awake_key :: "awake_call \<Rightarrow> string" where
  "awake_key (Preview_Awake plan) = app_operation_id plan"
| "awake_key (Confirm_Awake k p now) = k"
| "awake_key (Prepare_Awake k d q expected now) = k"
| "awake_key (Dispatch_Awake k d now) = k"
| "awake_key (Receive_Awake r now) = ar_operation_id r"
| "awake_key (Fail_Awake k d code now) = k"

lemma run_awake_inplace: "aw.sound_store h \<Longrightarrow> aw.inplace h (awake_key c) (run_awake h c)"
  by (cases c) (simp_all add: awake_preview_inplace awake_confirm_inplace awake_prepare_with_inplace
      awake_dispatch_inplace awake_receipt_inplace awake_fail_inplace)

lemma run_awake_frame:
  assumes "aw.sound_store h"
  obtains m where "fst (run_awake h c) = h\<lparr>fh_awake_operations := m\<rparr>"
  using run_awake_inplace [OF assms, of c]
  by (cases rule: aw.inplace_cases) (auto simp: put_awake_def intro: that [of "fh_awake_operations h"] that)

section \<open>Windows hotspot\<close>

datatype hotspot_call =
  Preview_Hotspot hotspot_preview_plan
| Confirm_Hotspot string string i64
| Prepare_Hotspot string string i64
| Receive_Hotspot hotspot_receipt i64
| Fail_Hotspot string string i64
| Recover_Hotspot i64

fun run_hotspot :: "'a hub_state_scheme \<Rightarrow> hotspot_call \<Rightarrow> 'a hub_state_scheme" where
  "run_hotspot h (Preview_Hotspot plan) = fst (preview_windows_hotspot h plan)"
| "run_hotspot h (Confirm_Hotspot k p now) = fst (confirm_windows_hotspot h k p now)"
| "run_hotspot h (Prepare_Hotspot k q now) = fst (prepare_windows_hotspot_invocation h k q now)"
| "run_hotspot h (Receive_Hotspot r now) = fst (apply_windows_hotspot_receipt h r now)"
| "run_hotspot h (Fail_Hotspot k code now) = fst (fail_windows_hotspot_operation h k code now)"
| "run_hotspot h (Recover_Hotspot now) = fst (recover_windows_hotspot h now)"

definition hotspot_store_ok :: "'a hub_state_scheme \<Rightarrow> bool" where
  "hotspot_store_ok h \<longleftrightarrow>
     hs.store_ok (fh_hotspot_operations h) \<and> leases_disjoint (fh_hotspot_operations h) \<and>
     observed_ok (fh_hotspot_observation h)"

abbreviation hotspot_effects ::
  "(string, hotspot_operation) btree_map \<Rightarrow> (string, hotspot_operation) btree_map \<Rightarrow> bool" where
  "hotspot_effects \<equiv> (\<lambda>m m'. \<exists>k. hotspot_effect m k m')\<^sup>*\<^sup>*"

lemma recovery_effects:
  assumes "hs.store_ok (fh_hotspot_operations h)"
  shows "hotspot_effects (fh_hotspot_operations h) (fh_hotspot_operations (fst (recover_windows_hotspot h now)))"
  unfolding recover_windows_hotspot_def Let_def fst_conv
proof (rule expire_all_effects [OF assms])
  let ?m = "fh_hotspot_operations h"
  show "distinct (map fst (filter (\<lambda>(_, op). hotspot_recoverable now op) (entries ?m)))"
    using distinct_bt_keys [of ?m] by (simp add: bt_keys_def distinct_map_filter)
  show "\<forall>k\<in>set (map fst (filter (\<lambda>(_, op). hotspot_recoverable now op) (entries ?m))).
      \<forall>op. bt_get ?m k = Some op \<longrightarrow> ho_lifecycle op = Proposed \<or> holds_hotspot op"
    by (auto simp: bt_get_Some_iff [symmetric] hotspot_recoverable_def holds_hotspot_def)
qed

lemma run_hotspot_effects:
  assumes "hs.store_ok (fh_hotspot_operations h)"
  shows "hotspot_effects (fh_hotspot_operations h) (fh_hotspot_operations (run_hotspot h c))"
  using assms recovery_effects [OF assms]
  by (cases c)
    (auto intro!: r_into_rtranclp intro: hotspot_preview_effect hotspot_confirm_effect hotspot_prepare_effect
      hotspot_receipt_effect hotspot_fail_effect)

lemma hotspot_effects_ok: "hotspot_effects m m' \<Longrightarrow> hs.store_ok m \<Longrightarrow> hs.store_ok m'"
  by (induction rule: rtranclp_induct) (auto intro: hotspot_effect_ok)

lemma hotspot_effects_evolve:
  "hotspot_effects m m' \<Longrightarrow> bt_get m j = Some x \<Longrightarrow> \<exists>y. bt_get m' j = Some y \<and> hotspot_evolves\<^sup>*\<^sup>* x y"
proof (induction rule: rtranclp_induct)
  case (step m' m'')
  then obtain y where y: "bt_get m' j = Some y" "hotspot_evolves\<^sup>*\<^sup>* x y" by blast
  from step.hyps(2) obtain k where "hotspot_effect m' k m''" by blast
  from hotspot_effect_evolves [OF this y(1)] y(2) show ?case by (meson rtranclp.rtrancl_into_rtrancl)
qed auto

text \<open>Only a receipt changes the observation, and only after it answered the invocation.\<close>

lemma attempt_observation:
  "P (fh_hotspot_observation h) \<Longrightarrow> (\<And>x. r = Inr x \<Longrightarrow> P (fh_hotspot_observation (fst (f x)))) \<Longrightarrow>
   P (fh_hotspot_observation (fst (attempt h r f)))"
  by (cases r) auto

lemma expire_rest:
  "fh_hotspot_observation (fst (expire_windows_hotspot_operation h k now)) = fh_hotspot_observation h"
  by (simp add: expire_windows_hotspot_operation_def put_hotspot_def split: option.split)

lemma receipt_observation:
  assumes "observed_ok (fh_hotspot_observation h)"
  shows "observed_ok (fh_hotspot_observation (fst (apply_windows_hotspot_receipt h r now)))"
proof -
  have "observed_ok (observe_hotspot_receipt (fh_hotspot_observation h) r now)"
    if "valid (validate_hotspot_receipt r)" "hrc_request_id r = hrq_request_id i" "hrc_action r = hrq_action i"
      "hrc_outcome r = Result_Verified \<longrightarrow> hotspot_semantic_match r i" for i
    using that by (intro observe_receipt_ok [OF assms, of i]) (simp add: hotspot_answers_def)
  then show ?thesis
    unfolding apply_windows_hotspot_receipt_def Let_def
    using assms by (auto intro!: attempt_observation [where P = observed_ok] simp: put_hotspot_def split: option.split)
qed

lemma other_observation:
  "fh_hotspot_observation (fst (preview_windows_hotspot h plan)) = fh_hotspot_observation h"
  "fh_hotspot_observation (fst (confirm_windows_hotspot h k p now)) = fh_hotspot_observation h"
  "fh_hotspot_observation (fst (prepare_windows_hotspot_invocation h k q now)) = fh_hotspot_observation h"
  "fh_hotspot_observation (fst (fail_windows_hotspot_operation h k code now)) = fh_hotspot_observation h"
  "fh_hotspot_observation (fst (recover_windows_hotspot h now)) = fh_hotspot_observation h"
proof -
  show "fh_hotspot_observation (fst (preview_windows_hotspot h plan)) = fh_hotspot_observation h"
    by (simp add: preview_windows_hotspot_def Let_def put_hotspot_def split: option.split)
  show "fh_hotspot_observation (fst (confirm_windows_hotspot h k p now)) = fh_hotspot_observation h"
    unfolding confirm_windows_hotspot_def
    by (rule attempt_observation) (simp_all add: Let_def confirm_expired_fst expire_rest put_hotspot_def)
  show "fh_hotspot_observation (fst (prepare_windows_hotspot_invocation h k q now)) = fh_hotspot_observation h"
    unfolding prepare_windows_hotspot_invocation_def
    by (auto intro!: attempt_observation [where P = "\<lambda>x. x = fh_hotspot_observation h"] simp: Let_def put_hotspot_def)
  show "fh_hotspot_observation (fst (fail_windows_hotspot_operation h k code now)) = fh_hotspot_observation h"
    by (simp add: fail_windows_hotspot_operation_def Let_def put_hotspot_def split: option.split)
  have "fh_hotspot_observation (foldl (\<lambda>s k. fst (expire_windows_hotspot_operation s k now)) h ks) =
      fh_hotspot_observation h" for ks
    by (induction ks arbitrary: h) (simp_all add: expire_rest)
  then show "fh_hotspot_observation (fst (recover_windows_hotspot h now)) = fh_hotspot_observation h"
    by (simp add: recover_windows_hotspot_def Let_def)
qed

lemma run_hotspot_ok:
  assumes "hotspot_store_ok h"
  shows "hotspot_store_ok (run_hotspot h c)"
proof -
  from assms have ok: "hs.store_ok (fh_hotspot_operations h)" and disjoint: "leases_disjoint (fh_hotspot_operations h)"
    and observed: "observed_ok (fh_hotspot_observation h)"
    by (simp_all add: hotspot_store_ok_def)
  have "leases_disjoint (fh_hotspot_operations (run_hotspot h c))"
    using disjoint
    by (cases c) (simp_all add: preview_disjoint confirm_disjoint [OF ok] prepare_disjoint receipt_disjoint
        fail_disjoint recover_windows_hotspot_def Let_def expire_all_disjoint)
  moreover have "observed_ok (fh_hotspot_observation (run_hotspot h c))"
    using observed by (cases c) (simp_all add: other_observation receipt_observation)
  ultimately show ?thesis
    using hotspot_effects_ok [OF run_hotspot_effects [OF ok] ok, of c] by (simp add: hotspot_store_ok_def)
qed

text \<open>Everything else of the Hub is untouched.\<close>

definition beside_hotspot :: "'a hub_state_scheme \<Rightarrow> 'a hub_state_scheme" where
  "beside_hotspot h = h\<lparr>fh_hotspot_operations := bt_empty, fh_hotspot_observation := None\<rparr>"

lemma beside_put [simp]:
  "beside_hotspot (put_hotspot k op h) = beside_hotspot h"
  "beside_hotspot (h\<lparr>fh_hotspot_observation := x\<rparr>) = beside_hotspot h"
  by (simp_all add: beside_hotspot_def put_hotspot_def)

lemma attempt_beside:
  "(\<And>x. r = Inr x \<Longrightarrow> beside_hotspot (fst (f x)) = beside_hotspot h) \<Longrightarrow>
   beside_hotspot (fst (attempt h r f)) = beside_hotspot h"
  by (cases r) auto

lemma expire_beside [simp]:
  "beside_hotspot (fst (expire_windows_hotspot_operation h k now)) = beside_hotspot h"
  by (simp add: expire_windows_hotspot_operation_def split: option.split)

lemma run_hotspot_beside: "beside_hotspot (run_hotspot h c) = beside_hotspot h"
proof (cases c)
  case (Preview_Hotspot plan)
  then show ?thesis by (simp add: preview_windows_hotspot_def Let_def split: option.split)
next
  case (Confirm_Hotspot k p now)
  have "beside_hotspot (fst (confirm_windows_hotspot h k p now)) = beside_hotspot h"
    unfolding confirm_windows_hotspot_def
    by (rule attempt_beside) (simp add: Let_def confirm_expired_fst)
  with Confirm_Hotspot show ?thesis by simp
next
  case (Prepare_Hotspot k q now)
  have "beside_hotspot (fst (prepare_windows_hotspot_invocation h k q now)) = beside_hotspot h"
    unfolding prepare_windows_hotspot_invocation_def by (auto intro!: attempt_beside simp: Let_def)
  with Prepare_Hotspot show ?thesis by simp
next
  case (Receive_Hotspot r now)
  have "beside_hotspot (fst (apply_windows_hotspot_receipt h r now)) = beside_hotspot h"
    unfolding apply_windows_hotspot_receipt_def
    by (auto intro!: attempt_beside simp: Let_def split: option.split)
  with Receive_Hotspot show ?thesis by simp
next
  case (Fail_Hotspot k code now)
  then show ?thesis by (simp add: fail_windows_hotspot_operation_def Let_def split: option.split)
next
  case (Recover_Hotspot now)
  have "beside_hotspot (foldl (\<lambda>s k. fst (expire_windows_hotspot_operation s k now)) h ks) = beside_hotspot h"
    for ks by (induction ks arbitrary: h) simp_all
  with Recover_Hotspot show ?thesis by (simp add: recover_windows_hotspot_def Let_def)
qed

lemma run_hotspot_frame:
  obtains m observed where "run_hotspot h c = h\<lparr>fh_hotspot_operations := m, fh_hotspot_observation := observed\<rparr>"
proof
  let ?h = "run_hotspot h c"
  have "?h = (beside_hotspot ?h)\<lparr>fh_hotspot_operations := fh_hotspot_operations ?h,
      fh_hotspot_observation := fh_hotspot_observation ?h\<rparr>"
    by (simp add: beside_hotspot_def)
  then show "?h = h\<lparr>fh_hotspot_operations := fh_hotspot_operations ?h,
      fh_hotspot_observation := fh_hotspot_observation ?h\<rparr>"
    unfolding run_hotspot_beside by (simp add: beside_hotspot_def)
qed

end
