(* ===== verification/Hub_Packages.thy ===== *)
theory Hub_Packages
  imports Hub_Owner
begin

text \<open>
  crates/fleet-hub/src/packages.rs: the Hub's package operations. A preview freezes the targets, a
  confirmation accepts the eligible ones, an updater invocation is prepared per target, an updater
  claims it for a bounded time, and acknowledgement, progress and the installed-version receipt
  follow; finished operations are archived. All methods after the preview change the stored
  operation in place and validate it afterwards, so \<open>revise_package\<close> stores the changed operation
  whatever the validator says. A method that may panic (\<^verbatim>\<open>expect\<close>) returns \<open>None\<close> for the panic.
\<close>

section \<open>The stores\<close>

definition max_package_operations :: usize where
  "max_package_operations = 1000"

definition max_archived_package_operations :: usize where
  "max_archived_package_operations = 10000"

definition code_path_text :: "failures \<Rightarrow> string" where
  "code_path_text failures = join_with '','' (map (\<lambda>f. cv_code f @ '':'' @ cv_path f) failures)"

definition validate_package :: "package_operation \<Rightarrow> hub_error + unit" where
  "validate_package op = (case validate_package_operation op of
     Inl failures \<Rightarrow> Inl (hub_error ''package_operation_invalid''
       (''package operation failed validation: '' @ code_path_text failures))
   | Inr u \<Rightarrow> Inr u)"

definition put_package :: "string \<Rightarrow> package_operation \<Rightarrow> 'a hub_state_scheme \<Rightarrow> 'a hub_state_scheme" where
  "put_package k op h = h\<lparr>fh_package_operations := bt_insert k op (fh_package_operations h)\<rparr>"

definition revise_package ::
  "'a hub_state_scheme \<Rightarrow> string \<Rightarrow> package_operation \<Rightarrow> 'a hub_state_scheme \<times> (hub_error + package_operation)" where
  "revise_package h k op =
     attempt (put_package k op h) (validate_package op) (\<lambda>_. (put_package k op h, Inr op))"

text \<open>Lookup falls back to the archive; what the methods change must still be active.\<close>

definition package_operation :: "'a hub_state_scheme \<Rightarrow> string \<Rightarrow> hub_error + package_operation" where
  "package_operation h operation_id = (case bt_get (fh_package_operations h) operation_id of
     Some op \<Rightarrow> Inr op
   | None \<Rightarrow> (case bt_get (fh_package_archives h) operation_id of
       Some a \<Rightarrow> Inr (pz_operation a)
     | None \<Rightarrow> Inl (hub_error ''package_operation_not_found'' ''package operation was not found'')))"

definition active_package :: "'a hub_state_scheme \<Rightarrow> string \<Rightarrow> string \<Rightarrow> hub_error + package_operation" where
  "active_package h operation_id message = (case bt_get (fh_package_operations h) operation_id of
     None \<Rightarrow> Inl (hub_error ''package_operation_not_found'' message)
   | Some op \<Rightarrow> Inr op)"

definition compare_package_operations :: "package_operation \<Rightarrow> package_operation \<Rightarrow> ordering" where
  "compare_package_operations left right =
     ord_then (cmp (po_created_at_ms left) (po_created_at_ms right))
       (cmp (po_operation_id left) (po_operation_id right))"

definition package_operations :: "'a hub_state_scheme \<Rightarrow> package_operation list" where
  "package_operations h = sort_by compare_package_operations (bt_values (fh_package_operations h))"

definition compare_package_archives :: "package_archive \<Rightarrow> package_archive \<Rightarrow> ordering" where
  "compare_package_archives left right =
     ord_then (cmp (pz_archived_at_ms left) (pz_archived_at_ms right))
       (cmp (pz_operation_id left) (pz_operation_id right))"

definition package_operation_archives :: "'a hub_state_scheme \<Rightarrow> package_archive list" where
  "package_operation_archives h = sort_by compare_package_archives (bt_values (fh_package_archives h))"

definition package_operation_progress ::
  "(package_operation \<Rightarrow> string) \<Rightarrow> (string \<Rightarrow> string) \<Rightarrow> 'a hub_state_scheme \<Rightarrow> string \<Rightarrow>
   hub_error + package_counts" where
  "package_operation_progress encode sha h operation_id =
    (case bt_get (fh_package_operations h) operation_id of
       Some op \<Rightarrow> Inr (package_progress_of encode sha op Retention_Active None)
     | None \<Rightarrow> (case bt_get (fh_package_archives h) operation_id of
         Some a \<Rightarrow> Inr (pz_progress a)
       | None \<Rightarrow> Inl (hub_error ''package_operation_not_found'' ''package operation was not found'')))"

definition find_package_target :: "package_operation \<Rightarrow> string \<Rightarrow> string \<Rightarrow> hub_error + package_target" where
  "find_package_target op device_id message =
    (case find (\<lambda>t. pt_device_id t = device_id) (po_targets op) of
       None \<Rightarrow> Inl (hub_error ''package_target_not_found'' message)
     | Some t \<Rightarrow> Inr t)"

definition change_package_target ::
  "package_operation \<Rightarrow> string \<Rightarrow> (package_target \<Rightarrow> package_target) \<Rightarrow> package_operation" where
  "change_package_target op device_id change = op\<lparr>
     po_targets := update_first (\<lambda>t. pt_device_id t = device_id) change (po_targets op)\<rparr>"

definition with_package_lifecycle :: "package_operation \<Rightarrow> package_operation" where
  "with_package_lifecycle op = op\<lparr>po_lifecycle := package_derived_lifecycle op\<rparr>"

section \<open>Preflight and guards\<close>

definition package_capability_facts :: "device_record \<Rightarrow> capability_facts" where
  "package_capability_facts r =
    (case capability_get (do_capabilities (rec_observation r)) package_updater_capability_id of
       Some c \<Rightarrow>
         (if cap_owner c = package_updater_owner
          then \<lparr>cf_evidence_revision = cap_evidence_revision c, cf_support = cap_support c,
                cf_enablement = cap_enablement c, cf_authorization = cap_authorization c,
                cf_reachability = cap_reachability c, cf_freshness = cap_freshness c,
                cf_observed_at_ms = cap_observed_at_ms c, cf_fresh_until_ms = cap_fresh_until_ms c,
                cf_message = cap_reason c\<rparr>
          else \<lparr>cf_evidence_revision = cap_evidence_revision c, cf_support = Support_Unknown,
                cf_enablement = Enablement_Unknown, cf_authorization = Authorization_Unknown,
                cf_reachability = Reachability_Unknown, cf_freshness = Freshness_Unknown,
                cf_observed_at_ms = cap_observed_at_ms c, cf_fresh_until_ms = cap_fresh_until_ms c,
                cf_message = ''Package updater capability evidence has the wrong owner''\<rparr>)
     | None \<Rightarrow>
         \<lparr>cf_evidence_revision = do_source_revision (rec_observation r),
          cf_support = Support_Unknown, cf_enablement = Enablement_Unknown,
          cf_authorization = Authorization_Unknown, cf_reachability = Reachability_Unknown,
          cf_freshness = Freshness_Unknown,
          cf_observed_at_ms = do_received_time_ms (rec_observation r),
          cf_fresh_until_ms = do_received_time_ms (rec_observation r),
          cf_message = ''No Rusty Quest package-updater capability evidence is present''\<rparr>)"

definition package_updater_preflight :: "hub_policy \<Rightarrow> device_record \<Rightarrow> i64 \<Rightarrow> package_preflight" where
  "package_updater_preflight policy r evaluated_at_ms =
    (let facts = package_capability_facts r;
         age = max (i64_saturating_sub evaluated_at_ms (rec_accepted_at_ms r)) 0;
         preflight = \<lparr>
           pf_device_id = di_device_id (do_identity (rec_observation r)),
           pf_identity_revision = di_identity_revision (do_identity (rec_observation r)),
           pf_capability_id = package_updater_capability_id,
           pf_capability_evidence_revision = cf_evidence_revision facts,
           pf_capability_owner = package_updater_owner,
           pf_support = cf_support facts,
           pf_enablement = cf_enablement facts,
           pf_authorization = cf_authorization facts,
           pf_reachability = (if age > hp_offline_after_ms policy
             then Reachability_Disconnected else cf_reachability facts),
           pf_freshness = (if age > hp_stale_after_ms policy
             then Freshness_Stale else cf_freshness facts),
           pf_observed_at_ms = cf_observed_at_ms facts,
           pf_fresh_until_ms = cf_fresh_until_ms facts,
           pf_evaluated_at_ms = evaluated_at_ms,
           pf_eligible = False,
           pf_reason_code = [],
           pf_message = cf_message facts\<rparr>;
         preflight = preflight\<lparr>pf_eligible := package_expected_eligibility preflight\<rparr>
     in preflight\<lparr>pf_reason_code := package_expected_reason_code preflight\<rparr>)"

definition same_package_frozen_facts :: "package_preflight \<Rightarrow> package_preflight \<Rightarrow> bool" where
  "same_package_frozen_facts frozen current \<longleftrightarrow>
     pf_device_id frozen = pf_device_id current \<and>
     pf_identity_revision frozen = pf_identity_revision current \<and>
     pf_capability_id frozen = pf_capability_id current \<and>
     pf_capability_evidence_revision frozen = pf_capability_evidence_revision current \<and>
     pf_capability_owner frozen = pf_capability_owner current \<and>
     pf_support frozen = pf_support current \<and>
     pf_enablement frozen = pf_enablement current \<and>
     pf_authorization frozen = pf_authorization current \<and>
     pf_reachability frozen = pf_reachability current \<and>
     pf_freshness frozen = pf_freshness current \<and>
     pf_observed_at_ms frozen = pf_observed_at_ms current \<and>
     pf_fresh_until_ms frozen = pf_fresh_until_ms current \<and>
     pf_message frozen = pf_message current \<and>
     pf_eligible frozen = package_expected_eligibility current \<and>
     pf_reason_code frozen = package_expected_reason_code current"

definition require_package_target_current ::
  "'a hub_state_scheme \<Rightarrow> package_operation \<Rightarrow> string \<Rightarrow> i64 \<Rightarrow> hub_error + unit" where
  "require_package_target_current h op device_id now_ms =
    (case find_package_target op device_id ''target is not in operation'' of
       Inl e \<Rightarrow> Inl e
     | Inr t \<Rightarrow> (case bt_get (fh_devices h) device_id of
         None \<Rightarrow> Inl (hub_error ''package_target_not_found''
           ''package target is no longer in the Fleet directory'')
       | Some r \<Rightarrow>
           if di_identity_revision (do_identity (rec_observation r)) \<noteq> pt_identity_revision t
           then Inl (hub_error ''package_target_identity_changed''
             ''package target identity changed after preview'')
           else if \<not> same_package_frozen_facts (pt_preflight t)
                     (package_updater_preflight (fh_policy h) r now_ms)
           then Inl (hub_error ''package_target_changed_since_preview''
             ''package updater capability or freshness changed after preview'')
           else Inr ()))"

fun require_package_devices_current ::
  "'a hub_state_scheme \<Rightarrow> package_operation \<Rightarrow> string list \<Rightarrow> i64 \<Rightarrow> hub_error + unit" where
  "require_package_devices_current h op [] now_ms = Inr ()"
| "require_package_devices_current h op (d # ds) now_ms =
    (case require_package_target_current h op d now_ms of
       Inl e \<Rightarrow> Inl e
     | Inr _ \<Rightarrow> require_package_devices_current h op ds now_ms)"

definition require_package_targets_current ::
  "'a hub_state_scheme \<Rightarrow> package_operation \<Rightarrow> i64 \<Rightarrow> hub_error + unit" where
  "require_package_targets_current h op now_ms = require_package_devices_current h op
     (map pt_device_id (filter (\<lambda>t. pf_eligible (pt_preflight t)) (po_targets op))) now_ms"

section \<open>Preview\<close>

record package_preview_plan =
  ppl_operation_id :: string
  ppl_preview_id :: string
  ppl_request :: package_preview_request
  ppl_created_at_ms :: i64
  ppl_expires_at_ms :: i64
  ppl_max_parallelism :: u16

definition package_preview_max_lifetime_ms :: i64 where
  "package_preview_max_lifetime_ms = 15 * 60 * 1000"

definition validate_package_preview_plan :: "package_preview_plan \<Rightarrow> hub_error + unit" where
  "validate_package_preview_plan plan =
    (if ppl_operation_id plan = [] \<or> length (ppl_operation_id plan) > 256 \<or>
        ppl_preview_id plan = [] \<or> length (ppl_preview_id plan) > 256 \<or>
        \<not> valid (validate_package_preview_request (ppl_request plan)) \<or>
        ppl_created_at_ms plan < 0 \<or> ppl_expires_at_ms plan \<le> ppl_created_at_ms plan \<or>
        i64_saturating_sub (ppl_expires_at_ms plan) (ppl_created_at_ms plan) > package_preview_max_lifetime_ms \<or>
        \<not> (1 \<le> ppl_max_parallelism plan \<and> ppl_max_parallelism plan \<le> 64)
     then Inl (hub_error ''package_preview_plan_invalid''
       ''package preview plan is invalid or exceeds its bounded lifetime'')
     else Inr ())"

definition package_plan_matches :: "package_preview_plan \<Rightarrow> package_operation \<Rightarrow> bool" where
  "package_plan_matches plan op \<longleftrightarrow>
     ppl_operation_id plan = po_operation_id op \<and>
     ppl_preview_id plan = pv_preview_id (po_preview op) \<and>
     ppl_created_at_ms plan = po_created_at_ms op \<and>
     ppl_expires_at_ms plan = pv_expires_at_ms (po_preview op) \<and>
     ppl_max_parallelism plan = po_max_parallelism op \<and>
     ppr_release (ppl_request plan) = pv_release (po_preview op) \<and>
     ppr_expected_package_name (ppl_request plan) = pv_expected_package_name (po_preview op) \<and>
     ppr_expected_rollout_ring (ppl_request plan) = pv_expected_rollout_ring (po_preview op) \<and>
     ppr_targets (ppl_request plan) =
       bt_from_list (map (\<lambda>p. (pf_device_id p, pf_identity_revision p)) (pv_targets (po_preview op)))"

fun freeze_package_targets ::
  "'a hub_state_scheme \<Rightarrow> i64 \<Rightarrow> (string \<times> u64) list \<Rightarrow> hub_error + package_preflight list" where
  "freeze_package_targets h created_at_ms [] = Inr []"
| "freeze_package_targets h created_at_ms ((device_id, identity_revision) # rest) =
    (case bt_get (fh_devices h) device_id of
       None \<Rightarrow> Inl (hub_error ''package_target_not_found''
         (''unknown package operation target '' @ device_id))
     | Some r \<Rightarrow>
         if di_identity_revision (do_identity (rec_observation r)) \<noteq> identity_revision
         then Inl (hub_error ''package_target_identity_mismatch''
           (''target '' @ device_id @ '' identity revision differs from the request''))
         else (case freeze_package_targets h created_at_ms rest of
             Inl e \<Rightarrow> Inl e
           | Inr ps \<Rightarrow> Inr (package_updater_preflight (fh_policy h) r created_at_ms # ps)))"

definition proposed_package_target :: "i64 \<Rightarrow> package_preflight \<Rightarrow> package_target" where
  "proposed_package_target created_at_ms p = \<lparr>
     pt_device_id = pf_device_id p,
     pt_identity_revision = pf_identity_revision p,
     pt_preflight = p,
     pt_lifecycle = (if pf_eligible p then Proposed else Rejected),
     pt_stage = (if pf_eligible p then PreviewReady else PreflightRejected),
     pt_invocation = None,
     pt_owner_claim = None,
     pt_prior_owner_claims = [],
     pt_consumed = [],
     pt_acknowledgement = None,
     pt_owner_progress = None,
     pt_effective_receipt = None,
     pt_reason_code = (if pf_eligible p then ''preview_ready'' else ''preflight_excluded''),
     pt_message = (if pf_eligible p then ''Target is ready for explicit confirmation''
       else ''Target was excluded by the frozen updater preflight''),
     pt_last_transition_ms = created_at_ms\<rparr>"

definition proposed_package_operation ::
  "u64 \<Rightarrow> package_preview_plan \<Rightarrow> package_preflight list \<Rightarrow> package_operation" where
  "proposed_package_operation fleet_revision plan preflights =
    (let preview = \<lparr>
           pv_schema = ''rusty.fleet.package_install_release_preview.v1'',
           pv_preview_id = ppl_preview_id plan,
           pv_operation_id = ppl_operation_id plan,
           pv_action_id = packages_install_release_action_id,
           pv_created_at_ms = ppl_created_at_ms plan,
           pv_expires_at_ms = ppl_expires_at_ms plan,
           pv_fleet_revision = fleet_revision,
           pv_release = ppr_release (ppl_request plan),
           pv_expected_package_name = ppr_expected_package_name (ppl_request plan),
           pv_expected_rollout_ring = ppr_expected_rollout_ring (ppl_request plan),
           pv_owner_contract = attended_v1,
           pv_targets = preflights\<rparr>
     in with_package_lifecycle \<lparr>
         po_schema = ''rusty.fleet.package_install_release_operation.v1'',
         po_operation_id = ppl_operation_id plan,
         po_action_id = packages_install_release_action_id,
         po_created_at_ms = ppl_created_at_ms plan,
         po_preview = preview,
         po_lifecycle = Proposed,
         po_max_parallelism = ppl_max_parallelism plan,
         po_cleanup_required = False,
         po_targets = map (proposed_package_target (ppl_created_at_ms plan)) preflights\<rparr>)"

definition preview_package_install_release ::
  "'a hub_state_scheme \<Rightarrow> package_preview_plan \<Rightarrow> 'a hub_state_scheme \<times> (hub_error + package_operation)" where
  "preview_package_install_release h plan =
    attempt h (validate_package_preview_plan plan) (\<lambda>_.
    case bt_get (fh_package_operations h) (ppl_operation_id plan) of
      Some existing \<Rightarrow>
        (if package_plan_matches plan existing then (h, Inr existing)
         else (h, Inl (hub_error ''package_operation_id_conflict''
           ''operation ID already names a different immutable package preview'')))
    | None \<Rightarrow> (case bt_get (fh_package_archives h) (ppl_operation_id plan) of
        Some existing \<Rightarrow>
          (if package_plan_matches plan (pz_operation existing) then (h, Inr (pz_operation existing))
           else (h, Inl (hub_error ''package_operation_id_conflict''
             ''operation ID already names a different archived package operation'')))
      | None \<Rightarrow>
          attempt h (freeze_package_targets h (ppl_created_at_ms plan)
            (entries (ppr_targets (ppl_request plan)))) (\<lambda>preflights.
          let op = proposed_package_operation (fh_result_revision h) plan preflights in
          attempt h (validate_package op) (\<lambda>_.
          if bt_len (fh_package_operations h) \<ge> max_package_operations
          then (h, Inl (hub_error ''package_operation_limit_reached''
            (''Fleet Hub retains at most '' @ show_nat max_package_operations @ '' package operations'')))
          else (put_package (ppl_operation_id plan) op h, Inr op)))))"

section \<open>Confirmation and preparation\<close>

definition require_package_preview :: "package_operation \<Rightarrow> string \<Rightarrow> hub_error + unit" where
  "require_package_preview op preview_id =
    (if pv_preview_id (po_preview op) = preview_id then Inr ()
     else Inl (hub_error ''package_preview_mismatch''
       ''execute request does not bind the immutable package preview''))"

definition confirm_package_target :: "i64 \<Rightarrow> package_target \<Rightarrow> package_target" where
  "confirm_package_target now_ms t =
    (if pf_eligible (pt_preflight t)
     then t\<lparr>pt_lifecycle := Accepted, pt_stage := Stage_Approved,
            pt_reason_code := ''operator_confirmed'',
            pt_message := ''Exact package preview confirmed for dispatch'',
            pt_last_transition_ms := now_ms\<rparr>
     else t)"

definition confirmed_package_operation :: "i64 \<Rightarrow> package_operation \<Rightarrow> package_operation" where
  "confirmed_package_operation now_ms op =
     with_package_lifecycle (op\<lparr>po_targets := map (confirm_package_target now_ms) (po_targets op)\<rparr>)"

definition confirm_package_install_release ::
  "'a hub_state_scheme \<Rightarrow> string \<Rightarrow> string \<Rightarrow> i64 \<Rightarrow>
   ('a hub_state_scheme \<times> (hub_error + package_operation)) option" where
  "confirm_package_install_release h operation_id preview_id now_ms =
    (case package_operation h operation_id of
       Inl e \<Rightarrow> Some (h, Inl e)
     | Inr existing \<Rightarrow> (case require_package_preview existing preview_id of
         Inl e \<Rightarrow> Some (h, Inl e)
       | Inr _ \<Rightarrow>
           if po_lifecycle existing \<noteq> Proposed then Some (h, Inr existing)
           else if now_ms > pv_expires_at_ms (po_preview existing)
           then Some (h, Inl (hub_error ''package_preview_expired''
             ''immutable package preview expired before confirmation''))
           else (case require_package_targets_current h existing now_ms of
               Inl e \<Rightarrow> Some (h, Inl e)
             | Inr _ \<Rightarrow> (case bt_get (fh_package_operations h) operation_id of
                 None \<Rightarrow> None
               | Some op \<Rightarrow> Some (revise_package h operation_id (confirmed_package_operation now_ms op))))))"

definition prepared_package_invocation ::
  "package_operation \<Rightarrow> string \<Rightarrow> package_target \<Rightarrow> package_invocation" where
  "prepared_package_invocation op owner_action_request_id t = \<lparr>
     pi_schema = ''rusty.fleet.package_updater_invocation.v1'',
     pi_operation_id = po_operation_id op,
     pi_preview_id = pv_preview_id (po_preview op),
     pi_device_id = pt_device_id t,
     pi_identity_revision = pt_identity_revision t,
     pi_owner_action_request_id = owner_action_request_id,
     pi_release = pv_release (po_preview op),
     pi_expected_package_name = pv_expected_package_name (po_preview op),
     pi_expected_rollout_ring = pv_expected_rollout_ring (po_preview op),
     pi_expires_at_ms = pv_expires_at_ms (po_preview op)\<rparr>"

definition prepared_package_target ::
  "package_operation \<Rightarrow> string \<Rightarrow> i64 \<Rightarrow> package_target \<Rightarrow> package_target" where
  "prepared_package_target op owner_action_request_id now_ms t = t\<lparr>
     pt_invocation := Some (prepared_package_invocation op owner_action_request_id t),
     pt_lifecycle := Accepted,
     pt_stage := DispatchReady,
     pt_reason_code := ''owner_dispatch_ready'',
     pt_message := ''Exact updater invocation is ready for delivery; application remains unproven'',
     pt_last_transition_ms := now_ms\<rparr>"

definition prepare_package_install_release_invocation ::
  "'a hub_state_scheme \<Rightarrow> string \<Rightarrow> string \<Rightarrow> string \<Rightarrow> i64 \<Rightarrow>
   ('a hub_state_scheme \<times> (hub_error + package_operation)) option" where
  "prepare_package_install_release_invocation h operation_id device_id owner_action_request_id now_ms =
    (case package_operation h operation_id of
       Inl e \<Rightarrow> Some (h, Inl e)
     | Inr existing \<Rightarrow>
         if now_ms > pv_expires_at_ms (po_preview existing)
         then Some (h, Inl (hub_error ''package_preview_expired''
           ''package updater dispatch cannot begin after preview expiry''))
         else (case require_package_target_current h existing device_id now_ms of
             Inl e \<Rightarrow> Some (h, Inl e)
           | Inr _ \<Rightarrow> (case bt_get (fh_package_operations h) operation_id of
               None \<Rightarrow> None
             | Some op \<Rightarrow> Some (
                 attempt h (find_package_target op device_id ''target is not in operation'') (\<lambda>t.
                 if pt_lifecycle t \<noteq> Accepted \<or> pt_stage t \<noteq> Stage_Approved
                 then (h, Inl (hub_error ''package_dispatch_state_invalid''
                   ''only a confirmed package target can prepare an owner invocation''))
                 else revise_package h operation_id (with_package_lifecycle (change_package_target op device_id
                   (prepared_package_target op owner_action_request_id now_ms))))))))"

section \<open>Claims\<close>

fun find_map :: "('a \<Rightarrow> 'b option) \<Rightarrow> 'a list \<Rightarrow> 'b option" where
  "find_map f [] = None"
| "find_map f (x # xs) = (case f x of None \<Rightarrow> find_map f xs | Some y \<Rightarrow> Some y)"

definition occupied_at :: "i64 \<Rightarrow> package_target \<Rightarrow> bool" where
  "occupied_at now_ms t \<longleftrightarrow>
     pt_lifecycle t \<in> {Dispatched, Running} \<or>
     pt_lifecycle t = Accepted \<and> some_and (\<lambda>c. pk_expires_at_ms c > now_ms) (pt_owner_claim t)"

definition offerable_invocation :: "i64 \<Rightarrow> package_target \<Rightarrow> package_invocation option" where
  "offerable_invocation now_ms t = (case pt_invocation t of
     None \<Rightarrow> None
   | Some i \<Rightarrow>
       if pt_lifecycle t = Accepted \<and> pt_stage t = DispatchReady \<and>
          none_or (\<lambda>c. pk_expires_at_ms c \<le> now_ms) (pt_owner_claim t) \<and>
          length (pt_consumed t) < max_consumed_package_owner_claims \<and> pi_expires_at_ms i > now_ms
       then Some i else None)"

definition select_package_updater_offer :: "'a hub_state_scheme \<Rightarrow> i64 \<Rightarrow> package_invocation option" where
  "select_package_updater_offer h now_ms = find_map (\<lambda>op.
     if length (filter (occupied_at now_ms) (po_targets op)) \<ge> po_max_parallelism op then None
     else find_map (offerable_invocation now_ms) (po_targets op)) (bt_values (fh_package_operations h))"

definition claim_replayed :: "'a hub_state_scheme \<Rightarrow> package_claim \<Rightarrow> bool" where
  "claim_replayed h c \<longleftrightarrow> list_ex (\<lambda>op. list_ex (\<lambda>t. list_ex (\<lambda>existing.
       pci_claim_id existing = pk_claim_id c \<or> pci_request_id existing = pk_request_id c)
     (pt_consumed t)) (po_targets op)) (bt_values (fh_package_operations h))"

definition claim_active :: "i64 \<Rightarrow> package_target \<Rightarrow> bool" where
  "claim_active now_ms t \<longleftrightarrow> some_and (\<lambda>existing.
     pk_expires_at_ms existing > now_ms \<and>
     pt_lifecycle t \<notin> {Applied, Lifecycle_Failed, Cancelled, Expired}) (pt_owner_claim t)"

definition claimed_package_target :: "package_claim \<Rightarrow> i64 \<Rightarrow> package_target \<Rightarrow> package_target" where
  "claimed_package_target c now_ms t = t\<lparr>
     pt_consumed := pt_consumed t @
       [\<lparr>pci_claim_id = pk_claim_id c, pci_request_id = pk_request_id c\<rparr>],
     pt_owner_claim := Some c,
     pt_reason_code := ''owner_delivery_offered'',
     pt_message :=
       ''Authenticated updater owner claimed the exact invocation; transport remains unacknowledged'',
     pt_last_transition_ms := now_ms\<rparr>"

definition offer_package_updater_claim ::
  "'a hub_state_scheme \<Rightarrow> package_claim \<Rightarrow> i64 \<Rightarrow> 'a hub_state_scheme \<times> (hub_error + package_operation)" where
  "offer_package_updater_claim h c now_ms =
    (if \<not> valid (validate_package_claim c) \<or> now_ms < pk_claimed_at_ms c \<or> now_ms \<ge> pk_expires_at_ms c
     then (h, Inl (hub_error ''package_owner_claim_invalid''
       ''owner claim is invalid or outside its bounded lifetime''))
     else if claim_replayed h c
     then (h, Inl (hub_error ''package_owner_claim_replay''
       ''owner claim or request identifier was already consumed''))
     else attempt h (active_package h (pi_operation_id (pk_invocation c)) ''operation not found'') (\<lambda>op.
       if length (filter (claim_active now_ms) (po_targets op)) \<ge> po_max_parallelism op
       then (h, Inl (hub_error ''package_owner_scheduler_saturated''
         ''bounded package delivery scheduler has no free claim slot''))
       else attempt h (find_package_target op (pi_device_id (pk_invocation c)) ''target not found'') (\<lambda>t.
         if pt_lifecycle t \<noteq> Accepted \<or> pt_stage t \<noteq> DispatchReady \<or>
            pt_invocation t \<noteq> Some (pk_invocation c) \<or> pt_owner_claim t \<noteq> None
         then (h, Inl (hub_error ''package_owner_claim_state_invalid''
           ''only one unclaimed dispatch-ready invocation can be offered''))
         else if length (pt_consumed t) \<ge> max_consumed_package_owner_claims
         then (h, Inl (hub_error ''package_owner_replay_authority_exhausted''
           ''bounded durable replay authority is exhausted for this target''))
         else revise_package h (pi_operation_id (pk_invocation c))
           (change_package_target op (pi_device_id (pk_invocation c)) (claimed_package_target c now_ms)))))"

definition claim_lapsed :: "i64 \<Rightarrow> package_target \<Rightarrow> bool" where
  "claim_lapsed now_ms t \<longleftrightarrow>
     pt_lifecycle t = Accepted \<and> pt_stage t = DispatchReady \<and>
     some_and (\<lambda>c. pk_expires_at_ms c \<le> now_ms) (pt_owner_claim t)"

definition retained_claims :: "package_target \<Rightarrow> package_claim list" where
  "retained_claims t =
    (case pt_owner_claim t of
       None \<Rightarrow> pt_prior_owner_claims t
     | Some c \<Rightarrow>
         (if length (pt_prior_owner_claims t) \<ge> 16 then tl (pt_prior_owner_claims t)
          else pt_prior_owner_claims t) @ [c])"

definition released_package_target :: "i64 \<Rightarrow> package_target \<Rightarrow> package_target" where
  "released_package_target now_ms t =
    (let t = t\<lparr>pt_owner_claim := None, pt_prior_owner_claims := retained_claims t,
               pt_last_transition_ms := now_ms\<rparr>
     in if length (pt_consumed t) \<ge> max_consumed_package_owner_claims
        then t\<lparr>pt_lifecycle := Lifecycle_Failed, pt_stage := Stage_Failed,
               pt_reason_code := ''owner_replay_authority_exhausted'',
               pt_message := ''Bounded durable replay authority is exhausted; target failed closed''\<rparr>
        else t\<lparr>pt_lifecycle := Accepted, pt_stage := DispatchReady,
               pt_reason_code := ''owner_claim_expired'',
               pt_message := ''Prior owner claim expired unacknowledged; a fresh exact request may retry''\<rparr>)"

definition swept_package_operation :: "i64 \<Rightarrow> package_operation \<Rightarrow> package_operation" where
  "swept_package_operation now_ms op = with_package_lifecycle (op\<lparr>
     po_targets := map (\<lambda>t. if claim_lapsed now_ms t then released_package_target now_ms t else t)
       (po_targets op)\<rparr>)"

fun sweep_package_claims ::
  "'a hub_state_scheme \<Rightarrow> (string \<times> package_operation) list \<Rightarrow> i64 \<Rightarrow> usize \<Rightarrow>
   'a hub_state_scheme \<times> (hub_error + usize)" where
  "sweep_package_claims h [] now_ms expired = (h, Inr expired)"
| "sweep_package_claims h ((k, op) # rest) now_ms expired =
    (let swept = swept_package_operation now_ms op;
         h' = put_package k swept h
     in attempt h' (validate_package swept) (\<lambda>_. sweep_package_claims h' rest now_ms
          (expired + length (filter (claim_lapsed now_ms) (po_targets op)))))"

definition expire_package_updater_claims ::
  "'a hub_state_scheme \<Rightarrow> i64 \<Rightarrow> 'a hub_state_scheme \<times> (hub_error + usize)" where
  "expire_package_updater_claims h now_ms =
     sweep_package_claims h (entries (fh_package_operations h)) now_ms 0"

section \<open>Acknowledgement, progress and receipt\<close>

definition package_invocation_of :: "package_target \<Rightarrow> hub_error + package_invocation" where
  "package_invocation_of t = (case pt_invocation t of
     None \<Rightarrow> Inl (hub_error ''package_invocation_missing'' ''target has no dispatched updater invocation'')
   | Some i \<Rightarrow> Inr i)"

definition acknowledged_package_target :: "package_acknowledgement \<Rightarrow> i64 \<Rightarrow> package_target \<Rightarrow> package_target" where
  "acknowledged_package_target a now_ms t = t\<lparr>
     pt_acknowledgement := Some a,
     pt_lifecycle := (if pa_accepted a then Dispatched else Lifecycle_Failed),
     pt_stage := (if pa_accepted a then OwnerAcknowledged else Stage_Failed),
     pt_reason_code := (if pa_accepted a then ''owner_invocation_acknowledged''
       else ''owner_invocation_rejected''),
     pt_message := (if pa_accepted a
       then ''Updater acknowledged invocation; installed-version proof is still pending''
       else ''Updater rejected the invocation''),
     pt_last_transition_ms := now_ms\<rparr>"

definition admit_authenticated_package_updater_acknowledgement ::
  "'a hub_state_scheme \<Rightarrow> package_acknowledgement \<Rightarrow> i64 \<Rightarrow>
   'a hub_state_scheme \<times> (hub_error + package_operation)" where
  "admit_authenticated_package_updater_acknowledgement h a now_ms =
    attempt h (active_package h (pa_operation_id a) ''package operation was not found'') (\<lambda>op.
    attempt h (find_package_target op (pa_device_id a) ''target is not in operation'') (\<lambda>t.
    attempt h (package_invocation_of t) (\<lambda>i.
    if \<not> valid (validate_package_acknowledgement a) \<or> pa_operation_id a \<noteq> pi_operation_id i \<or>
       pa_device_id a \<noteq> pi_device_id i \<or>
       pa_owner_action_request_id a \<noteq> pi_owner_action_request_id i \<or>
       pa_acknowledged_at_ms a > now_ms \<or> now_ms > pi_expires_at_ms i
    then (h, Inl (hub_error ''package_acknowledgement_invalid''
      ''updater acknowledgement is invalid, stale, or not bound to the invocation''))
    else if pt_lifecycle t \<noteq> Accepted \<or> pt_stage t \<noteq> DispatchReady
    then (h, Inl (hub_error ''package_acknowledgement_state_invalid''
      ''only a dispatched target accepts one updater acknowledgement''))
    else revise_package h (pa_operation_id a) (with_package_lifecycle
      (change_package_target op (pa_device_id a) (acknowledged_package_target a now_ms))))))"

definition applied_package_target :: "package_effective_receipt \<Rightarrow> i64 \<Rightarrow> package_target \<Rightarrow> package_target" where
  "applied_package_target r now_ms t = t\<lparr>
     pt_effective_receipt := Some r,
     pt_lifecycle := Applied,
     pt_stage := Stage_Applied,
     pt_reason_code := ''owner_effective_installed_version'',
     pt_message := ''Updater install_commit receipt proves the effective installed package version'',
     pt_last_transition_ms := now_ms\<rparr>"

definition admit_authenticated_package_updater_receipt ::
  "'a hub_state_scheme \<Rightarrow> package_effective_receipt \<Rightarrow> i64 \<Rightarrow>
   'a hub_state_scheme \<times> (hub_error + package_operation)" where
  "admit_authenticated_package_updater_receipt h r now_ms =
    attempt h (active_package h (pe_operation_id r) ''package operation was not found'') (\<lambda>op.
    attempt h (find_package_target op (pe_device_id r) ''target is not in operation'') (\<lambda>t.
    attempt h (package_invocation_of t) (\<lambda>i.
    if pt_lifecycle t \<notin> {Dispatched, Running, CancellationRequested}
    then (h, Inl (hub_error ''package_receipt_state_invalid''
      ''only an in-flight package target accepts an effective receipt''))
    else if now_ms > pi_expires_at_ms i \<or> \<not> valid (validate_package_receipt_for r i)
    then (h, Inl (hub_error ''package_effective_receipt_invalid''
      ''owner receipt does not prove the exact installed package version''))
    else revise_package h (pe_operation_id r) (with_package_lifecycle
      (change_package_target op (pe_device_id r) (applied_package_target r now_ms))))))"

fun package_progress_transition_allowed :: "package_stage \<Rightarrow> package_progress_stage \<Rightarrow> bool" where
  "package_progress_transition_allowed OwnerAcknowledged next \<longleftrightarrow> next \<in> {Progress_Staged,
     Progress_AwaitingWearer, Progress_RecoveryRequired, Progress_Failed, Progress_Expired}"
| "package_progress_transition_allowed Stage_Staged next \<longleftrightarrow> next \<in> {Progress_AwaitingWearer,
     Progress_CancellationRequested, Progress_RecoveryRequired, Progress_Failed, Progress_Expired}"
| "package_progress_transition_allowed AwaitingWearer next \<longleftrightarrow> next \<in> {Progress_CancellationRequested,
     Progress_RecoveryRequired, Progress_Failed, Progress_Expired}"
| "package_progress_transition_allowed RecoveryRequired next \<longleftrightarrow> next \<in> {Progress_Staged,
     Progress_AwaitingWearer, Progress_CancellationRequested, Progress_Failed, Progress_Expired}"
| "package_progress_transition_allowed Stage_CancellationRequested next \<longleftrightarrow> next \<in> {Progress_Cancelled,
     Progress_RecoveryRequired, Progress_Failed, Progress_Expired}"
| "package_progress_transition_allowed _ next \<longleftrightarrow> False"

definition progress_unacknowledged :: "package_progress \<Rightarrow> package_acknowledgement option \<Rightarrow> bool" where
  "progress_unacknowledged p acknowledgement \<longleftrightarrow> none_or (\<lambda>a.
     \<not> pa_accepted a \<or> pa_operation_id a \<noteq> pg_operation_id p \<or> pa_device_id a \<noteq> pg_device_id p \<or>
     pa_owner_action_request_id a \<noteq> pg_owner_action_request_id p \<or>
     pa_acknowledged_at_ms a > pg_observed_at_ms p) acknowledgement"

definition progressed_package_target :: "package_progress \<Rightarrow> i64 \<Rightarrow> package_target \<Rightarrow> package_target" where
  "progressed_package_target p now_ms t = t\<lparr>
     pt_stage := progress_stage_to_install_stage (pg_stage p),
     pt_lifecycle := progress_stage_to_lifecycle (pg_stage p),
     pt_reason_code := pg_code p,
     pt_message := pg_message p,
     pt_owner_progress := Some p,
     pt_last_transition_ms := now_ms\<rparr>"

definition admit_authenticated_package_updater_progress ::
  "'a hub_state_scheme \<Rightarrow> package_progress \<Rightarrow> i64 \<Rightarrow>
   'a hub_state_scheme \<times> (hub_error + package_operation)" where
  "admit_authenticated_package_updater_progress h p now_ms =
    attempt h (active_package h (pg_operation_id p) ''package operation was not found or is archived'') (\<lambda>op.
    attempt h (find_package_target op (pg_device_id p) ''target is not in operation'') (\<lambda>t.
    attempt h (package_invocation_of t) (\<lambda>i.
    if \<not> valid (validate_package_progress_for p i) \<or> pg_observed_at_ms p > now_ms \<or>
       progress_unacknowledged p (pt_acknowledgement t)
    then (h, Inl (hub_error ''package_progress_invalid''
      ''owner progress is stale, future-dated, or not bound to an accepted acknowledgement''))
    else if pt_owner_progress t = Some p then (h, Inr op)
    else if some_and (\<lambda>prior. pg_observed_at_ms prior \<ge> pg_observed_at_ms p) (pt_owner_progress t) \<or>
            \<not> package_progress_transition_allowed (pt_stage t) (pg_stage p)
    then (h, Inl (hub_error ''package_progress_transition_invalid''
      ''owner progress must advance monotonically from the retained package stage''))
    else revise_package h (pg_operation_id p) (with_package_lifecycle
      (change_package_target op (pg_device_id p) (progressed_package_target p now_ms))))))"

section \<open>Archiving\<close>

definition archive_of ::
  "(package_operation \<Rightarrow> string) \<Rightarrow> (string \<Rightarrow> string) \<Rightarrow> package_operation \<Rightarrow> i64 \<Rightarrow> package_archive" where
  "archive_of encode sha op now_ms = \<lparr>
     pz_schema = package_operation_archive_schema,
     pz_operation_id = po_operation_id op,
     pz_operation_sha256 = operation_sha256 encode sha op,
     pz_archived_at_ms = now_ms,
     pz_progress = package_progress_of encode sha op Retention_Archived (Some now_ms),
     pz_operation = op\<rparr>"

definition archive_package_operation ::
  "(package_operation \<Rightarrow> string) \<Rightarrow> (string \<Rightarrow> string) \<Rightarrow> 'a hub_state_scheme \<Rightarrow> package_archive_request \<Rightarrow> i64 \<Rightarrow>
   'a hub_state_scheme \<times> (hub_error + package_archive)" where
  "archive_package_operation encode sha h request now_ms =
    (if \<not> valid (validate_package_archive_request request) \<or> now_ms < 0
     then (h, Inl (hub_error ''package_archive_request_invalid'' ''package archive request is invalid''))
     else case bt_get (fh_package_archives h) (par_operation_id request) of
       Some existing \<Rightarrow>
         (if pz_operation_sha256 existing = par_expected_operation_sha256 request then (h, Inr existing)
          else (h, Inl (hub_error ''package_archive_operation_changed''
            ''archived package operation does not match the expected SHA-256'')))
     | None \<Rightarrow>
         attempt h (active_package h (par_operation_id request) ''package operation was not found'') (\<lambda>op.
         if \<not> package_is_terminal op
         then (h, Inl (hub_error ''package_operation_not_terminal''
           ''only an operation with every target terminal can be archived''))
         else if operation_sha256 encode sha op \<noteq> par_expected_operation_sha256 request
         then (h, Inl (hub_error ''package_archive_operation_changed''
           ''package operation changed after the archive proposal''))
         else if bt_len (fh_package_archives h) \<ge> max_archived_package_operations
         then (h, Inl (hub_error ''package_archive_limit_reached''
           (''Fleet Hub retains at most '' @ show_nat max_archived_package_operations @
            '' archived package operations'')))
         else if now_ms < package_last_transition_ms op
         then (h, Inl (hub_error ''package_archive_time_invalid''
           ''archive time cannot precede the terminal operation''))
         else
          (let archive = archive_of encode sha op now_ms in
           if \<not> valid (validate_package_archive encode sha archive)
           then (h, Inl (hub_error ''package_archive_invalid''
             ''constructed package archive failed contract validation''))
           else (h\<lparr>fh_package_operations := bt_remove (par_operation_id request) (fh_package_operations h),
                   fh_package_archives :=
                     bt_insert (par_operation_id request) archive (fh_package_archives h)\<rparr>,
                 Inr archive))))"

end
