(* ===== verification/Hub_Packages_Facts.thy ===== *)
theory Hub_Packages_Facts
  imports Package_Ledger Hub_Packages
begin

text \<open>
  The Hub's package methods against the state machine of a stored operation: what each change does to
  a target that is kept, what each method does to the stored operation, and the invariant of the
  two stores, in which every claim is consumed once.
\<close>

text \<open>
  The package operation as a state machine. \<open>package_kept\<close> is what holds of every operation the Hub
  stores, whether or not its last change passed the validator: the frozen preview, the row of facts
  that belongs to each target's lifecycle and stage, the derived lifecycle. \<open>package_valid_iff\<close> says
  what the contract asks beyond that. \<open>package_onward\<close> is how a target may change over time.
\<close>

section \<open>What is frozen\<close>

definition package_identity :: "package_target \<Rightarrow> string \<times> u64 \<times> package_preflight" where
  "package_identity t = (pt_device_id t, pt_identity_revision t, pt_preflight t)"

definition package_frame :: "package_operation \<Rightarrow> package_operation \<times> (string \<times> u64 \<times> package_preflight) list" where
  "package_frame op =
     (op\<lparr>po_lifecycle := Proposed, po_targets := []\<rparr>, map package_identity (po_targets op))"

definition frozen_identity :: "package_operation \<Rightarrow> nat \<Rightarrow> package_target \<Rightarrow> bool" where
  "frozen_identity op index t \<longleftrightarrow>
     pt_device_id t \<notin> set (map pt_device_id (take index (po_targets op))) \<and>
     bt_get (package_frozen_targets (po_preview op)) (pt_device_id t) = Some (pt_preflight t) \<and>
     pt_identity_revision t = pf_identity_revision (pt_preflight t)"

definition package_frozen :: "package_operation \<Rightarrow> bool" where
  "package_frozen op \<longleftrightarrow>
     package_operation_head_failures op = [] \<and>
     (\<forall>index<length (po_targets op). frozen_identity op index (po_targets op ! index))"

lemma package_frame_fields:
  assumes "package_frame op' = package_frame op"
  shows "po_schema op' = po_schema op" "po_operation_id op' = po_operation_id op"
    "po_action_id op' = po_action_id op" "po_created_at_ms op' = po_created_at_ms op"
    "po_preview op' = po_preview op" "po_max_parallelism op' = po_max_parallelism op"
    "po_cleanup_required op' = po_cleanup_required op"
    "length (po_targets op') = length (po_targets op)"
    "map package_identity (po_targets op') = map package_identity (po_targets op)"
  using assms by (cases op; cases op'; simp add: package_frame_def; metis length_map)+

lemma package_frame_nth:
  assumes "package_frame op' = package_frame op" and "k < length (po_targets op)"
  shows "package_identity (po_targets op' ! k) = package_identity (po_targets op ! k)"
  using package_frame_fields(8,9) [OF assms(1)] assms(2) by (metis nth_map)

lemma package_frame_frozen:
  assumes "package_frame op' = package_frame op"
  shows "package_frozen op' = package_frozen op"
proof -
  note f = package_frame_fields [OF assms]
  have "map (fst \<circ> package_identity) (po_targets op') = map (fst \<circ> package_identity) (po_targets op)"
    using f(9) by (metis map_map)
  then have devices: "map pt_device_id (po_targets op') = map pt_device_id (po_targets op)"
    by (simp add: o_def package_identity_def)
  have "package_operation_head_failures op' = package_operation_head_failures op"
    by (simp add: package_operation_head_failures_def f)
  moreover have "frozen_identity op' k (po_targets op' ! k) = frozen_identity op k (po_targets op ! k)"
    if "k < length (po_targets op)" for k
  proof -
    have "set (map pt_device_id (take k (po_targets op'))) = set (map pt_device_id (take k (po_targets op)))"
      by (simp only: devices take_map [symmetric])
    with package_frame_nth [OF assms that] f(5) show ?thesis
      by (simp add: frozen_identity_def package_identity_def)
  qed
  ultimately show ?thesis by (simp add: package_frozen_def f(8))
qed

section \<open>What is kept of a target\<close>

definition package_bound :: "package_operation \<Rightarrow> package_target \<Rightarrow> package_invocation \<Rightarrow> bool" where
  "package_bound op t i \<longleftrightarrow>
     pi_schema i = ''rusty.fleet.package_updater_invocation.v1'' \<and>
     pi_operation_id i = po_operation_id op \<and> pi_preview_id i = pv_preview_id (po_preview op) \<and>
     pi_device_id i = pt_device_id t \<and> pi_identity_revision i = pt_identity_revision t \<and>
     pi_release i = pv_release (po_preview op) \<and>
     pi_expected_package_name i = pv_expected_package_name (po_preview op) \<and>
     pi_expected_rollout_ring i = pv_expected_rollout_ring (po_preview op) \<and>
     pi_expires_at_ms i = pv_expires_at_ms (po_preview op)"

fun stage_of_lifecycle :: "command_lifecycle \<Rightarrow> package_stage \<Rightarrow> bool" where
  "stage_of_lifecycle Proposed s \<longleftrightarrow> s = PreviewReady"
| "stage_of_lifecycle Accepted s \<longleftrightarrow> s \<in> {Stage_Approved, DispatchReady}"
| "stage_of_lifecycle Dispatched s \<longleftrightarrow> s = OwnerAcknowledged"
| "stage_of_lifecycle Running s \<longleftrightarrow> s \<in> {Stage_Staged, AwaitingWearer, RecoveryRequired}"
| "stage_of_lifecycle Applied s \<longleftrightarrow> s = Stage_Applied"
| "stage_of_lifecycle Lifecycle_Failed s \<longleftrightarrow> s = Stage_Failed"
| "stage_of_lifecycle Expired s \<longleftrightarrow> s = Stage_Expired"
| "stage_of_lifecycle CancellationRequested s \<longleftrightarrow> s = Stage_CancellationRequested"
| "stage_of_lifecycle Cancelled s \<longleftrightarrow> s = Stage_Cancelled"
| "stage_of_lifecycle _ s \<longleftrightarrow> False"

definition acknowledgement_bound :: "package_invocation \<Rightarrow> package_acknowledgement \<Rightarrow> bool" where
  "acknowledgement_bound i a \<longleftrightarrow>
     valid (validate_package_acknowledgement a) \<and> pa_operation_id a = pi_operation_id i \<and>
     pa_device_id a = pi_device_id i \<and> pa_owner_action_request_id a = pi_owner_action_request_id i"

text \<open>The evidence an eligible target has in each lifecycle.\<close>

definition package_row :: "package_operation \<Rightarrow> package_target \<Rightarrow> bool" where
  "package_row op t \<longleftrightarrow>
     stage_of_lifecycle (pt_lifecycle t) (pt_stage t) \<and>
     (pt_invocation t = None \<longleftrightarrow> pt_stage t \<in> {PreviewReady, Stage_Approved}) \<and>
     (\<forall>i. pt_invocation t = Some i \<longrightarrow> package_bound op t i) \<and>
     (\<forall>a. pt_acknowledgement t = Some a \<longrightarrow> (\<exists>i. pt_invocation t = Some i \<and> acknowledgement_bound i a)) \<and>
     (\<forall>p. pt_owner_progress t = Some p \<longrightarrow>
        (\<exists>i. pt_invocation t = Some i \<and> valid (validate_package_progress_for p i))) \<and>
     (pt_lifecycle t \<in> {Proposed, Accepted} \<longrightarrow> pt_acknowledgement t = None) \<and>
     (pt_lifecycle t \<in> {Dispatched, Running, CancellationRequested, Applied, Expired, Cancelled} \<longrightarrow>
        some_and pa_accepted (pt_acknowledgement t)) \<and>
     (pt_lifecycle t \<in> {Proposed, Accepted, Dispatched} \<longrightarrow> pt_owner_progress t = None) \<and>
     (pt_lifecycle t \<in> {Running, CancellationRequested, Expired, Cancelled} \<longrightarrow> pt_owner_progress t \<noteq> None) \<and>
     (pt_lifecycle t \<noteq> Applied \<longrightarrow> (\<forall>p. pt_owner_progress t = Some p \<longrightarrow>
        progress_stage_to_install_stage (pg_stage p) = pt_stage t)) \<and>
     (if pt_lifecycle t = Applied
      then \<exists>i r. pt_invocation t = Some i \<and> pt_effective_receipt t = Some r \<and>
        valid (validate_package_receipt_for r i)
      else pt_effective_receipt t = None)"

definition package_claims_kept :: "package_target \<Rightarrow> bool" where
  "package_claims_kept t \<longleftrightarrow>
     package_claims_failures 0 t = [] \<and> (\<forall>c. pt_owner_claim t = Some c \<longrightarrow> \<not> claim_unbound t c)"

definition package_target_kept :: "package_operation \<Rightarrow> package_target \<Rightarrow> bool" where
  "package_target_kept op t \<longleftrightarrow>
     is_package_id (pt_reason_code t) 256 \<and> pt_message t \<noteq> [] \<and>
     (if pf_eligible (pt_preflight t) then package_row op t \<and> package_claims_kept t
      else package_excluded_failures 0 t = [] \<and> pt_consumed t = [])"

definition package_together :: "package_target list \<Rightarrow> bool" where
  "package_together ts \<longleftrightarrow> (\<forall>t\<in>set ts. \<forall>u\<in>set ts.
     pf_eligible (pt_preflight t) \<longrightarrow> pf_eligible (pt_preflight u) \<longrightarrow>
     pt_lifecycle t = Proposed \<longrightarrow> pt_lifecycle u = Proposed)"

definition package_kept :: "package_operation \<Rightarrow> bool" where
  "package_kept op \<longleftrightarrow>
     package_frozen op \<and> po_lifecycle op = package_derived_lifecycle op \<and>
     package_together (po_targets op) \<and>
     (\<forall>t\<in>set (po_targets op). package_target_kept op t)"

lemma package_frame_target_kept:
  "package_frame op' = package_frame op \<Longrightarrow> package_target_kept op' t = package_target_kept op t"
  using package_frame_fields [of op' op]
  by (simp add: package_target_kept_def package_row_def package_bound_def)

section \<open>When a kept operation passes its contract\<close>

lemma package_id_failures_Nil [simp]:
  "package_id_failures message xs = [] \<longleftrightarrow> (\<forall>(path, text)\<in>set xs. is_package_id text 256)"
  by (auto simp: package_id_failures_def)

lemma prefixed_sha256_failures_Nil [simp]:
  "prefixed_sha256_failures message xs = [] \<longleftrightarrow> (\<forall>(path, digest)\<in>set xs. is_prefixed_sha256 digest)"
  by (auto simp: prefixed_sha256_failures_def)

lemma nested_at_Nil_valid: "nested_at p r = [] \<Longrightarrow> r \<noteq> Inl [] \<Longrightarrow> valid r"
  by simp

lemma package_preview_not_Inl_Nil [simp]: "validate_package_preview v \<noteq> Inl []"
  by (simp add: validate_package_preview_def)

lemma package_release_not_Inl_Nil [simp]: "validate_package_release r \<noteq> Inl []"
  by (simp add: validate_package_release_def)

lemma package_head_facts:
  assumes "package_operation_head_failures op = []"
  shows "is_package_id (po_operation_id op) 256" "valid (validate_package_preview (po_preview op))"
    "pv_operation_id (po_preview op) = po_operation_id op"
    "pv_created_at_ms (po_preview op) = po_created_at_ms op" "0 \<le> po_created_at_ms op"
    "1 \<le> po_max_parallelism op"
  using assms by (simp_all add: package_operation_head_failures_def)

lemma package_preview_facts:
  assumes "valid (validate_package_preview v)"
  shows "is_package_id (pv_preview_id v) 256" "0 \<le> pv_expires_at_ms v"
    "is_package_name (pv_expected_package_name v)" "is_package_id (pv_expected_rollout_ring v) 128"
    "valid (validate_package_release (pv_release v))" "pv_created_at_ms v < pv_expires_at_ms v"
    "pv_fleet_revision v \<noteq> 0"
  using assms by (auto simp: validate_package_preview_def)

lemma package_preview_preflight:
  assumes "valid (validate_package_preview v)" and "p \<in> set (pv_targets v)"
  shows "valid (validate_package_preflight p)"
proof -
  obtain k where k: "k < length (pv_targets v)" "p = pv_targets v ! k"
    using assms(2) by (auto simp: in_set_conv_nth)
  have "package_preflights_failures (pv_targets v) (pv_created_at_ms v) (pv_expires_at_ms v) = []"
    using assms(1) by (simp add: validate_package_preview_def)
  with k have "nested_at (''targets['' @ show_nat k @ ''].'') (validate_package_preflight p) = []"
    by (auto simp: package_preflights_failures_def package_preflight_failures_def nth_with_previous)
  then show ?thesis by (simp add: validate_package_preflight_def)
qed

lemma frozen_preflight:
  assumes "package_frozen op" and "t \<in> set (po_targets op)"
  shows "pt_preflight t \<in> set (pv_targets (po_preview op))"
    and "pt_identity_revision t = pf_identity_revision (pt_preflight t)"
    and "valid (validate_package_preflight (pt_preflight t))"
proof -
  from assms have bound: "bt_get (package_frozen_targets (po_preview op)) (pt_device_id t) = Some (pt_preflight t)"
    and rev: "pt_identity_revision t = pf_identity_revision (pt_preflight t)"
    by (auto simp: package_frozen_def frozen_identity_def in_set_conv_nth)
  have "(pt_device_id t, pt_preflight t) \<in> set (map (\<lambda>p. (pf_device_id p, p)) (pv_targets (po_preview op)))"
    using bound by (auto simp: package_frozen_targets_def bt_get_from_list dest!: map_of_SomeD)
  then show member: "pt_preflight t \<in> set (pv_targets (po_preview op))" by auto
  show "pt_identity_revision t = pf_identity_revision (pt_preflight t)" by (fact rev)
  have "valid (validate_package_preview (po_preview op))"
    using assms(1) package_head_facts(2) by (simp add: package_frozen_def)
  from package_preview_preflight [OF this member]
  show "valid (validate_package_preflight (pt_preflight t))" .
qed

lemma bound_mismatch:
  assumes "package_bound op t i"
  shows "package_invocation_mismatch op t i \<longleftrightarrow> \<not> valid (validate_package_invocation i)"
  using assms by (auto simp: package_bound_def package_invocation_mismatch_def)

text \<open>An acknowledged invocation is valid: the acknowledgement repeats its identifiers.\<close>

lemma acknowledged_valid:
  assumes frozen: "package_frozen op" and t: "t \<in> set (po_targets op)" and bound: "package_bound op t i"
    and ack: "acknowledgement_bound i a"
  shows "valid (validate_package_invocation i)"
proof -
  have "package_operation_head_failures op = []" using frozen by (simp add: package_frozen_def)
  note head = package_head_facts [OF this]
  note preview = package_preview_facts [OF head(2)]
  have "pt_identity_revision t \<noteq> 0"
    using frozen_preflight(2,3) [OF frozen t] by (simp add: validate_package_preflight_def)
  with head preview bound ack show ?thesis
    by (auto simp: package_bound_def acknowledgement_bound_def validate_package_acknowledgement_def
        validate_package_invocation_def valid_iff_Inr)
qed

lemma package_rowD:
  assumes "package_row op t"
  shows "stage_of_lifecycle (pt_lifecycle t) (pt_stage t)"
    and "pt_invocation t = None \<longleftrightarrow> pt_stage t \<in> {PreviewReady, Stage_Approved}"
    and "pt_invocation t = Some i \<Longrightarrow> package_bound op t i"
    and "pt_acknowledgement t = Some a \<Longrightarrow> \<exists>i. pt_invocation t = Some i \<and> acknowledgement_bound i a"
    and "pt_owner_progress t = Some p \<Longrightarrow>
       \<exists>i. pt_invocation t = Some i \<and> valid (validate_package_progress_for p i)"
    and "pt_lifecycle t \<in> {Proposed, Accepted} \<Longrightarrow> pt_acknowledgement t = None"
    and "pt_lifecycle t \<in> {Dispatched, Running, CancellationRequested, Applied, Expired, Cancelled} \<Longrightarrow>
       some_and pa_accepted (pt_acknowledgement t)"
    and "pt_lifecycle t \<in> {Proposed, Accepted, Dispatched} \<Longrightarrow> pt_owner_progress t = None"
    and "pt_lifecycle t \<in> {Running, CancellationRequested, Expired, Cancelled} \<Longrightarrow> pt_owner_progress t \<noteq> None"
    and "pt_lifecycle t \<noteq> Applied \<Longrightarrow> pt_owner_progress t = Some p \<Longrightarrow>
       progress_stage_to_install_stage (pg_stage p) = pt_stage t"
    and "pt_lifecycle t = Applied \<Longrightarrow> \<exists>i r. pt_invocation t = Some i \<and> pt_effective_receipt t = Some r \<and>
       valid (validate_package_receipt_for r i)"
    and "pt_lifecycle t \<noteq> Applied \<Longrightarrow> pt_effective_receipt t = None"
  using assms unfolding package_row_def by (meson | presburger)+

lemma row_invocation_valid:
  assumes "package_frozen op" and "t \<in> set (po_targets op)" and row: "package_row op t"
    and "pt_invocation t = Some i" and "pt_lifecycle t \<in> {Dispatched, Running, CancellationRequested, Applied, Expired, Cancelled}"
  shows "valid (validate_package_invocation i)"
    and "some_and (acknowledged_by i) (pt_acknowledgement t)"
proof -
  from package_rowD(7) [OF row assms(5)] obtain a where a: "pt_acknowledgement t = Some a" "pa_accepted a"
    by auto
  have bound: "acknowledgement_bound i a" "package_bound op t i"
    using package_rowD(3,4) [OF row] a(1) assms(4) by auto
  from acknowledged_valid [OF assms(1,2) bound(2,1)] show "valid (validate_package_invocation i)" .
  from a bound show "some_and (acknowledged_by i) (pt_acknowledgement t)"
    by (simp add: acknowledged_by_def acknowledgement_bound_def)
qed

lemma progress_stage_inj:
  "progress_stage_to_install_stage p = progress_stage_to_install_stage q \<longleftrightarrow> p = q"
  by (cases p; cases q) simp_all

lemma cancellation_valid:
  assumes "pt_stage t = progress_stage_to_install_stage s" and "pt_effective_receipt t = None"
    and "pt_owner_progress t = Some p" and "pt_invocation t = Some i"
    and "valid (validate_package_progress_for p i)"
    and "progress_stage_to_install_stage (pg_stage p) = pt_stage t"
  shows "\<not> cancellation_invalid (progress_stage_to_install_stage s) s t"
  using assms by (simp add: cancellation_invalid_def progress_stage_inj)

lemma row_lifecycle_failures:
  assumes frozen: "package_frozen op" and t: "t \<in> set (po_targets op)" and row: "package_row op t"
    and claims: "package_claims_kept t"
    and accepted: "\<And>i. pt_lifecycle t = Accepted \<Longrightarrow> pt_invocation t = Some i \<Longrightarrow> valid (validate_package_invocation i)"
  shows "package_lifecycle_failures op index t = []"
proof -
  note inv = row_invocation_valid [OF frozen t row]
  have bound: "package_invocation_mismatch op t i \<longleftrightarrow> \<not> valid (validate_package_invocation i)"
    if "pt_invocation t = Some i" for i
    using bound_mismatch [OF package_rowD(3) [OF row that]] .
  note D = package_rowD [OF row]
  show ?thesis
  proof (cases "pt_lifecycle t")
    case Proposed
    then have "pt_invocation t = None" "pt_stage t = PreviewReady" using D(1,2) by auto
    moreover from this have "pt_owner_claim t = None"
      using claims by (cases "pt_owner_claim t") (simp_all add: package_claims_kept_def claim_unbound_def)
    ultimately show ?thesis using Proposed D(6,8,12)
      by (simp add: package_lifecycle_failures_def package_proposed_failures_def no_owner_evidence_def)
  next
    case Accepted
    then have "pt_stage t = Stage_Approved \<and> pt_invocation t = None \<or> pt_stage t = DispatchReady \<and> pt_invocation t \<noteq> None"
      using D(1,2) by auto
    then show ?thesis using Accepted D(6,8,12) bound accepted claims
      by (auto simp: package_lifecycle_failures_def package_accepted_failures_def package_claims_kept_def)
  next
    case Dispatched
    then obtain i where i: "pt_invocation t = Some i" using D(1,2) by (cases "pt_invocation t") auto
    then show ?thesis using Dispatched D(1,8,12) bound [OF i] inv [OF i]
      by (simp add: package_lifecycle_failures_def package_dispatched_failures_def)
  next
    case Running
    then obtain p where p: "pt_owner_progress t = Some p" using D(9) by auto
    with D(5) obtain i where i: "pt_invocation t = Some i" "valid (validate_package_progress_for p i)" by auto
    show ?thesis using Running D(1,10,12) p i bound [OF i(1)] inv [OF i(1)]
      by (auto simp: package_lifecycle_failures_def package_running_failures_def)
  next
    case Applied
    with D(11) obtain i r where "pt_invocation t = Some i" "pt_effective_receipt t = Some r"
      "valid (validate_package_receipt_for r i)" by auto
    then show ?thesis using Applied D(1,5)
      by (auto simp: package_lifecycle_failures_def package_applied_failures_def)
  next
    case Lifecycle_Failed
    then show ?thesis using D(1,2,5,10,12)
      by (auto simp: package_lifecycle_failures_def package_ended_failures_def split: option.split)
  next
    case Expired
    then show ?thesis using D(1,2,5,10,12)
      by (auto simp: package_lifecycle_failures_def package_ended_failures_def split: option.split)
  next
    case CancellationRequested
    then obtain p where p: "pt_owner_progress t = Some p" using D(9) by auto
    with D(5) obtain i where "pt_invocation t = Some i" "valid (validate_package_progress_for p i)" by auto
    then have "\<not> cancellation_invalid Stage_CancellationRequested Progress_CancellationRequested t"
      using cancellation_valid [of t Progress_CancellationRequested p i] CancellationRequested D(1,10,12) p by simp
    with CancellationRequested show ?thesis by (simp add: package_lifecycle_failures_def)
  next
    case Cancelled
    then obtain p where p: "pt_owner_progress t = Some p" using D(9) by auto
    with D(5) obtain i where "pt_invocation t = Some i" "valid (validate_package_progress_for p i)" by auto
    then have "\<not> cancellation_invalid Stage_Cancelled Progress_Cancelled t"
      using cancellation_valid [of t Progress_Cancelled p i] Cancelled D(1,10,12) p by simp
    with Cancelled show ?thesis by (simp add: package_lifecycle_failures_def)
  qed (use D(1) in simp_all)
qed

definition times_in_order :: "package_operation \<Rightarrow> bool" where
  "times_in_order op \<longleftrightarrow> list_all (\<lambda>t. po_created_at_ms op \<le> pt_last_transition_ms t) (po_targets op)"

definition invocations_valid :: "package_operation \<Rightarrow> bool" where
  "invocations_valid op \<longleftrightarrow> list_all (\<lambda>t. pt_lifecycle t = Accepted \<longrightarrow>
     none_or (\<lambda>i. valid (validate_package_invocation i)) (pt_invocation t)) (po_targets op)"

lemma package_valid_iff:
  assumes kept: "package_kept op"
  shows "valid (validate_package_operation op) \<longleftrightarrow>
     times_in_order op \<and> invocations_valid op \<and> occupied_slots op \<le> po_max_parallelism op"
proof
  assume valid: "valid (validate_package_operation op)"
  have times: "po_created_at_ms op \<le> pt_last_transition_ms t"
    and inv: "pt_lifecycle t = Accepted \<Longrightarrow> pt_invocation t = Some i \<Longrightarrow> valid (validate_package_invocation i)"
    if "t \<in> set (po_targets op)" for t i
  proof -
    from that obtain k where k: "k < length (po_targets op)" "t = po_targets op ! k"
      by (auto simp: in_set_conv_nth)
    have "package_operation_target_failures op k t = []"
      using valid k by (simp add: validate_package_operation_def)
    then have "package_frozen_failures op k t = []"
      and live: "pf_eligible (pt_preflight t) \<Longrightarrow> package_lifecycle_failures op k t = []"
      by (auto simp: package_operation_target_failures_def split: if_splits)
    then show "po_created_at_ms op \<le> pt_last_transition_ms t" by (simp add: package_frozen_failures_def)
    show "valid (validate_package_invocation i)" if acc: "pt_lifecycle t = Accepted" "pt_invocation t = Some i"
    proof -
      have "pf_eligible (pt_preflight t)"
        using kept \<open>t \<in> set (po_targets op)\<close> acc
        by (auto simp: package_kept_def package_target_kept_def package_excluded_failures_def split: if_splits)
      with live acc show ?thesis
        by (simp add: package_lifecycle_failures_def package_accepted_failures_def Let_def
            package_invocation_mismatch_def)
    qed
  qed
  show "times_in_order op \<and> invocations_valid op \<and> occupied_slots op \<le> po_max_parallelism op"
    using times inv valid
    by (auto simp: times_in_order_def invocations_valid_def list_all_iff validate_package_operation_def)
next
  assume ok: "times_in_order op \<and> invocations_valid op \<and> occupied_slots op \<le> po_max_parallelism op"
  have frozen: "package_frozen op" using kept by (simp add: package_kept_def)
  have "package_operation_target_failures op k (po_targets op ! k) = []" if k: "k < length (po_targets op)" for k
  proof -
    let ?t = "po_targets op ! k"
    have t: "?t \<in> set (po_targets op)" using k by simp
    have target: "package_target_kept op ?t" using kept t by (simp add: package_kept_def)
    have "frozen_identity op k ?t" using frozen k by (simp add: package_frozen_def)
    with ok t target have "package_frozen_failures op k ?t = []"
      by (auto simp: package_frozen_failures_def frozen_identity_def package_target_kept_def
          times_in_order_def list_all_iff)
    moreover have "package_lifecycle_failures op k ?t = []" "package_claims_failures k ?t = []"
      if el: "pf_eligible (pt_preflight ?t)"
    proof -
      have row: "package_row op ?t" "package_claims_kept ?t" using target el by (simp_all add: package_target_kept_def)
      show "package_lifecycle_failures op k ?t = []"
        using ok t by (intro row_lifecycle_failures [OF frozen t row])
          (auto simp: invocations_valid_def list_all_iff)
      show "package_claims_failures k ?t = []"
        using row(2) by (simp add: package_claims_kept_def package_claims_failures_def)
    qed
    moreover have "package_excluded_failures k ?t = []" if "\<not> pf_eligible (pt_preflight ?t)"
      using target that by (simp add: package_target_kept_def package_excluded_failures_def)
    ultimately show ?thesis by (simp add: package_operation_target_failures_def)
  qed
  then show "valid (validate_package_operation op)"
    using ok kept frozen by (simp add: validate_package_operation_def package_kept_def package_frozen_def)
qed

section \<open>How targets move\<close>

text \<open>The phases of a target, in the order they are passed.\<close>

fun package_phase :: "command_lifecycle \<Rightarrow> package_stage \<Rightarrow> nat" where
  "package_phase Proposed _ = 0"
| "package_phase Accepted s = (if s = DispatchReady then 2 else 1)"
| "package_phase Dispatched _ = 3"
| "package_phase Running _ = 4"
| "package_phase CancellationRequested _ = 4"
| "package_phase _ _ = 5"

definition package_onward :: "package_target \<Rightarrow> package_target \<Rightarrow> bool" where
  "package_onward t u \<longleftrightarrow>
     package_identity u = package_identity t \<and>
     (is_terminal_target t \<longrightarrow> u = t) \<and>
     package_phase (pt_lifecycle t) (pt_stage t) \<le> package_phase (pt_lifecycle u) (pt_stage u) \<and>
     (\<forall>i. pt_invocation t = Some i \<longrightarrow> pt_invocation u = Some i) \<and>
     (\<forall>a. pt_acknowledgement t = Some a \<longrightarrow> pt_acknowledgement u = Some a) \<and>
     (\<forall>p. pt_owner_progress t = Some p \<longrightarrow> (\<exists>q. pt_owner_progress u = Some q \<and>
        pg_observed_at_ms p \<le> pg_observed_at_ms q)) \<and>
     (\<exists>new. pt_consumed u = pt_consumed t @ new)"

lemma package_onward_refl: "package_onward t t"
  by (simp add: package_onward_def)

lemma package_onward_trans: "package_onward t u \<Longrightarrow> package_onward u v \<Longrightarrow> package_onward t v"
  unfolding package_onward_def
  by (elim conjE exE, intro conjI) (fastforce intro: order_trans)+

definition package_evolves :: "package_operation \<Rightarrow> package_operation \<Rightarrow> bool" where
  "package_evolves op op' \<longleftrightarrow>
     package_frame op' = package_frame op \<and>
     (package_kept op \<longrightarrow> package_kept op' \<and> list_all2 package_onward (po_targets op) (po_targets op'))"

lemma package_evolves_refl: "package_evolves op op"
  by (simp add: package_evolves_def package_onward_refl list.rel_refl)

lemma package_evolves_trans: "package_evolves x y \<Longrightarrow> package_evolves y z \<Longrightarrow> package_evolves x z"
proof -
  assume xy: "package_evolves x y" and yz: "package_evolves y z"
  have "list_all2 package_onward (po_targets x) (po_targets z)" if "package_kept x"
  proof (rule list_all2_trans)
    show "package_onward a c" if "package_onward a b" "package_onward b c" for a b c
      using that by (rule package_onward_trans)
    show "list_all2 package_onward (po_targets x) (po_targets y)" "list_all2 package_onward (po_targets y) (po_targets z)"
      using xy yz that by (simp_all add: package_evolves_def)
  qed
  with xy yz show ?thesis by (simp add: package_evolves_def)
qed

lemma package_evolves_id: "package_evolves x y \<Longrightarrow> po_operation_id y = po_operation_id x"
  using package_frame_fields(2) [of y x] by (simp add: package_evolves_def)

text \<open>A terminal operation no longer changes.\<close>

lemma terminal_package_stays:
  assumes "package_evolves x y" and "package_kept x" and "package_is_terminal x"
  shows "y = x"
proof -
  from assms have "list_all2 package_onward (po_targets x) (po_targets y)" "package_kept y"
    and frame: "package_frame y = package_frame x"
    by (simp_all add: package_evolves_def)
  then have targets: "po_targets y = po_targets x"
    using assms(3) by (auto simp: list_all2_conv_all_nth package_onward_def package_is_terminal_def
        list_all_length intro!: nth_equalityI)
  have "po_lifecycle y = po_lifecycle x"
    using \<open>package_kept y\<close> assms(2) by (simp add: package_kept_def package_derived_lifecycle_def targets)
  with targets package_frame_fields [OF frame] show ?thesis
    using frame by (cases x; cases y) (simp add: package_frame_def)
qed

text \<open>A change of the targets that keeps each of them, with the lifecycle derived again.\<close>

lemma package_evolves_targets:
  assumes step: "list_all2 (\<lambda>t u. package_identity u = package_identity t \<and>
      (package_kept op \<longrightarrow> package_target_kept op u \<and> package_onward t u)) (po_targets op) ts"
    and l: "l = package_derived_lifecycle (op\<lparr>po_targets := ts\<rparr>)"
    and together: "package_kept op \<Longrightarrow> package_together ts"
  shows "package_evolves op (op\<lparr>po_targets := ts, po_lifecycle := l\<rparr>)"
proof -
  let ?op = "op\<lparr>po_targets := ts, po_lifecycle := l\<rparr>"
  have "map package_identity ts = map package_identity (po_targets op)"
    using step by (auto simp: list_all2_conv_all_nth intro: nth_equalityI)
  then have frame: "package_frame ?op = package_frame op" by (simp add: package_frame_def)
  have "package_target_kept ?op u" if "package_kept op" "u \<in> set ts" for u
  proof -
    have "package_target_kept op u"
      using step that by (auto simp: list_all2_conv_all_nth in_set_conv_nth)
    then show ?thesis using package_frame_target_kept [OF frame] by simp
  qed
  moreover have "package_derived_lifecycle ?op = l"
    by (simp add: l package_derived_lifecycle_def)
  ultimately have "package_kept ?op" if "package_kept op"
    using that package_frame_frozen [OF frame] together by (simp add: package_kept_def)
  moreover have "list_all2 package_onward (po_targets op) ts" if "package_kept op"
    using step that by (auto elim: list_all2_mono)
  ultimately show ?thesis by (simp add: package_evolves_def frame)
qed

lemma derived_lifecycle_cong:
  assumes "map (\<lambda>t. (pf_eligible (pt_preflight t), pt_lifecycle t)) (po_targets op') =
     map (\<lambda>t. (pf_eligible (pt_preflight t), pt_lifecycle t)) (po_targets op)"
  shows "package_derived_lifecycle op' = package_derived_lifecycle op"
proof -
  have lifecycles: "map pt_lifecycle (filter (\<lambda>t. pf_eligible (pt_preflight t)) ts) =
      map snd (filter fst (map (\<lambda>t. (pf_eligible (pt_preflight t), pt_lifecycle t)) ts))"
    for ts :: "package_target list"
    by (simp add: filter_map o_def)
  have "map pt_lifecycle (filter (\<lambda>t. pf_eligible (pt_preflight t)) (po_targets op')) =
      map pt_lifecycle (filter (\<lambda>t. pf_eligible (pt_preflight t)) (po_targets op))"
    unfolding lifecycles assms by (rule refl)
  then show ?thesis by (simp only: package_derived_lifecycle_def)
qed

section \<open>Fresh operations\<close>

definition freshly_proposed_package :: "package_operation \<Rightarrow> bool" where
  "freshly_proposed_package op \<longleftrightarrow>
     po_lifecycle op = package_derived_lifecycle op \<and>
     (\<forall>t\<in>set (po_targets op). no_owner_evidence t \<and> pt_prior_owner_claims t = [] \<and> pt_consumed t = [] \<and>
        (if pf_eligible (pt_preflight t) then pt_lifecycle t = Proposed \<and> pt_stage t = PreviewReady
         else pt_lifecycle t = Rejected \<and> pt_stage t = PreflightRejected))"

lemma no_evidenceD:
  assumes "no_owner_evidence t"
  shows "pt_invocation t = None" "pt_owner_claim t = None" "pt_acknowledgement t = None"
    "pt_owner_progress t = None" "pt_effective_receipt t = None"
  using assms by (simp_all add: no_owner_evidence_def)

lemma fresh_package_kept:
  assumes valid: "valid (validate_package_operation op)" and fresh: "freshly_proposed_package op"
  shows "package_kept op"
proof -
  have frozen_failures: "package_frozen_failures op k (po_targets op ! k) = []" if "k < length (po_targets op)" for k
    using valid that by (simp add: validate_package_operation_def package_operation_target_failures_def)
  have "frozen_identity op k (po_targets op ! k)" if "k < length (po_targets op)" for k
    using frozen_failures [OF that]
    by (cases "bt_get (package_frozen_targets (po_preview op)) (pt_device_id (po_targets op ! k))")
      (simp_all add: frozen_identity_def package_frozen_failures_def)
  then have "package_frozen op"
    using valid by (simp add: package_frozen_def validate_package_operation_def)
  moreover have "package_target_kept op t" if t: "t \<in> set (po_targets op)" for t
  proof -
    obtain k where k: "k < length (po_targets op)" "t = po_targets op ! k" using t by (auto simp: in_set_conv_nth)
    have "is_package_id (pt_reason_code t) 256" "pt_message t \<noteq> []"
      using frozen_failures [OF k(1)] by (simp_all add: k(2) package_frozen_failures_def)
    moreover have none: "no_owner_evidence t" "pt_prior_owner_claims t = []" "pt_consumed t = []"
      using fresh t by (simp_all add: freshly_proposed_package_def)
    moreover have "package_row op t \<and> package_claims_kept t" if "pf_eligible (pt_preflight t)"
    proof -
      have "pt_lifecycle t = Proposed" "pt_stage t = PreviewReady"
        using fresh t that by (simp_all add: freshly_proposed_package_def)
      with none no_evidenceD [OF none(1)] show ?thesis
        by (simp add: package_row_def package_claims_kept_def package_claims_failures_def
            consumed_identities_valid_def)
    qed
    moreover have "package_excluded_failures 0 t = []" if "\<not> pf_eligible (pt_preflight t)"
      using fresh t that none by (simp add: freshly_proposed_package_def package_excluded_failures_def)
    ultimately show ?thesis by (simp add: package_target_kept_def)
  qed
  moreover have "package_together (po_targets op)"
    using fresh by (auto simp: package_together_def freshly_proposed_package_def split: if_splits)
  ultimately show ?thesis using fresh by (simp add: package_kept_def freshly_proposed_package_def)
qed

section \<open>Changes of one target\<close>

lemma package_target_keptD:
  assumes "package_target_kept op t"
  shows "is_package_id (pt_reason_code t) 256" "pt_message t \<noteq> []"
    "pf_eligible (pt_preflight t) \<Longrightarrow> package_row op t"
    "pf_eligible (pt_preflight t) \<Longrightarrow> package_claims_kept t"
    "\<not> pf_eligible (pt_preflight t) \<Longrightarrow> pt_lifecycle t = Rejected \<and> pt_stage t = PreflightRejected \<and>
       no_owner_evidence t \<and> pt_consumed t = []"
  using assms by (auto simp: package_target_kept_def package_excluded_failures_def split: if_splits)

lemma package_claims_keptD:
  assumes "package_claims_kept t"
  shows "length (pt_prior_owner_claims t) \<le> 16"
    "\<And>c. c \<in> set (pt_prior_owner_claims t) \<Longrightarrow> \<not> claim_unbound t c \<and> claim_consumed t c"
    "consumed_identities_valid (pt_consumed t)"
    "\<And>c. pt_owner_claim t = Some c \<Longrightarrow> \<not> claim_unbound t c \<and> claim_consumed t c"
  using assms by (auto simp: package_claims_kept_def package_claims_failures_def list_ex_iff)

lemma package_claims_keptI:
  assumes "length (pt_prior_owner_claims t) \<le> 16"
    and "\<And>c. c \<in> set (pt_prior_owner_claims t) \<Longrightarrow> \<not> claim_unbound t c \<and> claim_consumed t c"
    and "consumed_identities_valid (pt_consumed t)"
    and "\<And>c. pt_owner_claim t = Some c \<Longrightarrow> \<not> claim_unbound t c \<and> claim_consumed t c"
  shows "package_claims_kept t"
  using assms by (auto simp: package_claims_kept_def package_claims_failures_def list_ex_iff)

text \<open>Claims are untouched by a change of the other fields.\<close>

lemma package_claims_kept_cong:
  assumes "package_claims_kept t" and "pt_invocation u = pt_invocation t"
    and "pt_owner_claim u = pt_owner_claim t" and "pt_prior_owner_claims u = pt_prior_owner_claims t"
    and "pt_consumed u = pt_consumed t"
  shows "package_claims_kept u"
proof -
  have "claim_unbound u = claim_unbound t" "claim_consumed u = claim_consumed t"
    using assms(2,5) by (simp_all add: fun_eq_iff claim_unbound_def claim_consumed_def)
  with assms show ?thesis by (simp add: package_claims_kept_def package_claims_failures_def)
qed

lemma is_package_id_literal:
  "is_package_id ''operator_confirmed'' 256" "is_package_id ''owner_dispatch_ready'' 256"
  "is_package_id ''owner_delivery_offered'' 256" "is_package_id ''owner_replay_authority_exhausted'' 256"
  "is_package_id ''owner_claim_expired'' 256" "is_package_id ''owner_invocation_acknowledged'' 256"
  "is_package_id ''owner_invocation_rejected'' 256" "is_package_id ''owner_effective_installed_version'' 256"
  by (simp_all add: is_package_id_def is_release_byte_def is_ascii_alphanumeric_def is_ascii_digit_def
      is_ascii_lowercase_def is_ascii_uppercase_def)

definition package_step :: "package_operation \<Rightarrow> package_target \<Rightarrow> package_target \<Rightarrow> bool" where
  "package_step op t u \<longleftrightarrow>
     package_identity u = package_identity t \<and>
     (package_target_kept op t \<longrightarrow> package_target_kept op u \<and> package_onward t u)"

lemma package_step_refl: "package_step op t t"
  by (simp add: package_step_def package_onward_refl)

lemma eligible_when:
  assumes "package_target_kept op t" and "pt_lifecycle t \<noteq> Rejected"
  shows "pf_eligible (pt_preflight t)" "package_row op t" "package_claims_kept t"
proof -
  show "pf_eligible (pt_preflight t)" using package_target_keptD(5) [OF assms(1)] assms(2) by blast
  with package_target_keptD(3,4) [OF assms(1)] show "package_row op t" "package_claims_kept t" by simp_all
qed

lemma confirm_package_step:
  assumes "pf_eligible (pt_preflight t) \<Longrightarrow> pt_lifecycle t = Proposed"
  shows "package_step op t (confirm_package_target now t)"
proof (cases "pf_eligible (pt_preflight t)")
  case True
  let ?u = "confirm_package_target now t"
  have u: "?u = t\<lparr>pt_lifecycle := Accepted, pt_stage := Stage_Approved,
      pt_reason_code := ''operator_confirmed'', pt_message := ''Exact package preview confirmed for dispatch'',
      pt_last_transition_ms := now\<rparr>"
    using True by (simp add: confirm_package_target_def)
  have "package_target_kept op ?u \<and> package_onward t ?u" if kept: "package_target_kept op t"
  proof -
    have row: "package_row op t" and claims: "package_claims_kept t"
      using package_target_keptD(3,4) [OF kept True] .
    note D = package_rowD [OF row]
    have none: "pt_invocation t = None" "pt_acknowledgement t = None" "pt_owner_progress t = None"
      "pt_effective_receipt t = None"
      using D(1,2,6,8,12) assms [OF True] by auto
    have "package_row op ?u" by (simp add: u package_row_def none)
    moreover have "package_claims_kept ?u" by (rule package_claims_kept_cong [OF claims]) (simp_all add: u)
    ultimately show ?thesis using True assms [OF True]
      by (simp add: package_target_kept_def u is_package_id_literal package_onward_def package_identity_def
          is_terminal_target_def none)
  qed
  then show ?thesis by (simp add: package_step_def package_identity_def u)
qed (simp add: confirm_package_target_def package_step_refl)

lemma prepared_bound: "package_bound op t (prepared_package_invocation op q t)"
  by (simp add: package_bound_def prepared_package_invocation_def)

lemma prepare_package_step:
  assumes "pt_lifecycle t = Accepted" and "pt_stage t = Stage_Approved"
  shows "package_step op t (prepared_package_target op q now t)"
proof -
  let ?u = "prepared_package_target op q now t"
  have "package_target_kept op ?u \<and> package_onward t ?u" if kept: "package_target_kept op t"
  proof -
    note el = eligible_when [OF kept, unfolded assms(1), simplified]
    note D = package_rowD [OF el(2)] and C = package_claims_keptD [OF el(3)]
    have none: "pt_invocation t = None" "pt_acknowledgement t = None" "pt_owner_progress t = None"
      "pt_effective_receipt t = None"
      using D(2,6,8,12) assms by auto
    have "package_bound op ?u (prepared_package_invocation op q t)"
      using prepared_bound [of op t q] by (simp add: package_bound_def prepared_package_target_def)
    then have "package_row op ?u" by (simp add: prepared_package_target_def package_row_def none)
    moreover have "pt_owner_claim t = None" "pt_prior_owner_claims t = []"
    proof -
      show "pt_owner_claim t = None" using C(4) none(1) by (cases "pt_owner_claim t") (auto simp: claim_unbound_def)
      show "pt_prior_owner_claims t = []"
        using C(2) none(1) by (cases "pt_prior_owner_claims t") (auto simp: claim_unbound_def)
    qed
    then have "package_claims_kept ?u"
      using C(3) by (intro package_claims_keptI) (simp_all add: prepared_package_target_def)
    ultimately show ?thesis using el(1) assms
      by (simp add: package_target_kept_def prepared_package_target_def is_package_id_literal package_onward_def
          package_identity_def is_terminal_target_def none)
  qed
  then show ?thesis by (simp add: package_step_def package_identity_def prepared_package_target_def)
qed

lemma consumed_identities_valid_iff:
  "consumed_identities_valid ids \<longleftrightarrow>
     length ids \<le> max_consumed_package_owner_claims \<and>
     (\<forall>e\<in>set ids. is_package_id (pci_claim_id e) 256 \<and> is_package_id (pci_request_id e) 256) \<and>
     distinct (map pci_claim_id ids) \<and> distinct (map pci_request_id ids)"
proof -
  have "list_all (\<lambda>(k, e). list_all (\<lambda>prior. pci_claim_id prior \<noteq> pci_claim_id e \<and>
        pci_request_id prior \<noteq> pci_request_id e) (take k ids)) (enumerate 0 ids) \<longleftrightarrow>
      (\<forall>k<length ids. \<forall>prior\<in>set (take k ids). pci_claim_id prior \<noteq> pci_claim_id (ids ! k) \<and>
        pci_request_id prior \<noteq> pci_request_id (ids ! k))"
    by (fastforce simp: list_all_iff enumerate_eq_zip set_zip)
  moreover have "\<dots> \<longleftrightarrow> distinct (map pci_claim_id ids) \<and> distinct (map pci_request_id ids)"
    unfolding distinct_by_prefix by (auto simp: image_iff) metis+
  ultimately show ?thesis by (auto simp: consumed_identities_valid_def list_all_iff)
qed

lemma claimed_package_step:
  assumes "pt_lifecycle t = Accepted" and "pt_stage t = DispatchReady" and "pt_invocation t = Some (pk_invocation c)"
    and "valid (validate_package_claim c)" and "length (pt_consumed t) < max_consumed_package_owner_claims"
    and new: "\<And>e. e \<in> set (pt_consumed t) \<Longrightarrow>
      pci_claim_id e \<noteq> pk_claim_id c \<and> pci_request_id e \<noteq> pk_request_id c"
  shows "package_step op t (claimed_package_target c now t)"
proof -
  let ?u = "claimed_package_target c now t"
  have ids: "is_package_id (pk_claim_id c) 256" "is_package_id (pk_request_id c) 256"
    using assms(4) by (simp_all add: validate_package_claim_def)
  have "package_target_kept op ?u \<and> package_onward t ?u" if kept: "package_target_kept op t"
  proof -
    note el = eligible_when [OF kept, unfolded assms(1), simplified]
    note D = package_rowD [OF el(2)] and C = package_claims_keptD [OF el(3)]
    have none: "pt_acknowledgement t = None" "pt_owner_progress t = None" "pt_effective_receipt t = None"
      using D(6,8,12) assms by auto
    have "package_row op ?u"
      using D(3) assms none by (simp add: package_row_def claimed_package_target_def package_bound_def)
    moreover have "package_claims_kept ?u"
    proof (rule package_claims_keptI)
      show "consumed_identities_valid (pt_consumed ?u)"
      proof -
        have "pk_claim_id c \<notin> set (map pci_claim_id (pt_consumed t))"
          "pk_request_id c \<notin> set (map pci_request_id (pt_consumed t))"
          using new by force+
        with C(3) ids assms(5) show ?thesis
          by (simp add: consumed_identities_valid_iff claimed_package_target_def)
      qed
      show "\<not> claim_unbound ?u d \<and> claim_consumed ?u d" if "d \<in> set (pt_prior_owner_claims ?u)" for d
        using C(2) [of d] that
        by (auto simp: claimed_package_target_def claim_unbound_def claim_consumed_def)
      show "\<not> claim_unbound ?u d \<and> claim_consumed ?u d" if "pt_owner_claim ?u = Some d" for d
        using that assms(3,4)
        by (auto simp: claimed_package_target_def claim_unbound_def claim_consumed_def)
    qed (use C(1) in \<open>simp add: claimed_package_target_def\<close>)
    ultimately show ?thesis using el(1) assms none
      by (simp add: package_target_kept_def claimed_package_target_def is_package_id_literal package_onward_def
          package_identity_def is_terminal_target_def)
  qed
  then show ?thesis by (simp add: package_step_def package_identity_def claimed_package_target_def)
qed

lemma released_package_step:
  assumes "claim_lapsed now t"
  shows "package_step op t (released_package_target now t)"
proof -
  let ?u = "released_package_target now t"
  obtain c where c: "pt_owner_claim t = Some c" and t: "pt_lifecycle t = Accepted" "pt_stage t = DispatchReady"
    using assms by (auto simp: claim_lapsed_def)
  have "package_target_kept op ?u \<and> package_onward t ?u" if kept: "package_target_kept op t"
  proof -
    note el = eligible_when [OF kept, unfolded t, simplified]
    note D = package_rowD [OF el(2)] and C = package_claims_keptD [OF el(3)]
    have none: "pt_acknowledgement t = None" "pt_owner_progress t = None" "pt_effective_receipt t = None"
      using D(6,8,12) t by auto
    have inv: "pt_invocation t \<noteq> None" using D(2) t by simp
    have "package_row op ?u"
      using D(3) t none inv by (simp add: package_row_def released_package_target_def Let_def package_bound_def)
    moreover have "package_claims_kept ?u"
    proof (rule package_claims_keptI)
      have same: "pt_invocation ?u = pt_invocation t" "pt_consumed ?u = pt_consumed t" "pt_owner_claim ?u = None"
        "pt_prior_owner_claims ?u = retained_claims t"
        by (simp_all add: released_package_target_def Let_def)
      show "length (pt_prior_owner_claims ?u) \<le> 16" using C(1) c by (simp add: same retained_claims_def)
      show "consumed_identities_valid (pt_consumed ?u)" using C(3) by (simp add: same)
      show "\<not> claim_unbound ?u d \<and> claim_consumed ?u d" if "d \<in> set (pt_prior_owner_claims ?u)" for d
      proof -
        have "d = c \<or> d \<in> set (pt_prior_owner_claims t)"
          using that c by (auto simp: same retained_claims_def split: if_splits dest: list.set_sel(2) [rotated])
        with C(2) [of d] C(4) [OF c] show ?thesis
          by (auto simp: claim_unbound_def claim_consumed_def same)
      qed
      show "\<not> claim_unbound ?u d \<and> claim_consumed ?u d" if "pt_owner_claim ?u = Some d" for d
        using that by (simp add: same)
    qed
    ultimately show ?thesis using el(1) t none
      by (simp add: package_target_kept_def released_package_target_def Let_def is_package_id_literal
          package_onward_def package_identity_def is_terminal_target_def)
  qed
  then show ?thesis by (simp add: package_step_def package_identity_def released_package_target_def Let_def)
qed

lemma acknowledged_package_step:
  assumes "pt_lifecycle t = Accepted" and "pt_stage t = DispatchReady" and "pt_invocation t = Some i"
    and "acknowledgement_bound i a"
  shows "package_step op t (acknowledged_package_target a now t)"
proof -
  let ?u = "acknowledged_package_target a now t"
  have "package_target_kept op ?u \<and> package_onward t ?u" if kept: "package_target_kept op t"
  proof -
    note el = eligible_when [OF kept, unfolded assms(1), simplified]
    note D = package_rowD [OF el(2)]
    have none: "pt_acknowledgement t = None" "pt_owner_progress t = None" "pt_effective_receipt t = None"
      using D(6,8,12) assms by auto
    have "package_row op ?u"
      using D(3) assms none
      by (simp add: package_row_def acknowledged_package_target_def package_bound_def)
    moreover have "package_claims_kept ?u"
      by (rule package_claims_kept_cong [OF el(3)]) (simp_all add: acknowledged_package_target_def)
    ultimately show ?thesis using el(1) assms none
      by (simp add: package_target_kept_def acknowledged_package_target_def is_package_id_literal
          package_onward_def package_identity_def is_terminal_target_def)
  qed
  then show ?thesis by (simp add: package_step_def package_identity_def acknowledged_package_target_def)
qed

lemma applied_package_step:
  assumes "pt_lifecycle t \<in> {Dispatched, Running, CancellationRequested}" and "pt_invocation t = Some i"
    and "valid (validate_package_receipt_for r i)"
  shows "package_step op t (applied_package_target r now t)"
proof -
  let ?u = "applied_package_target r now t"
  have "package_target_kept op ?u \<and> package_onward t ?u" if kept: "package_target_kept op t"
  proof -
    have "pt_lifecycle t \<noteq> Rejected" using assms(1) by auto
    note el = eligible_when [OF kept this]
    note D = package_rowD [OF el(2)]
    have ack: "some_and pa_accepted (pt_acknowledgement t)" using D(7) assms(1) by auto
    have "package_row op ?u"
      using D(3,4,5) assms(2,3) ack
      by (simp add: package_row_def applied_package_target_def package_bound_def)
    moreover have "package_claims_kept ?u"
      by (rule package_claims_kept_cong [OF el(3)]) (simp_all add: applied_package_target_def)
    moreover have "package_phase (pt_lifecycle t) (pt_stage t) \<le> 5" "\<not> is_terminal_target t"
      using assms(1) by (auto simp: is_terminal_target_def)
    ultimately show ?thesis using el(1)
      by (simp add: package_target_kept_def applied_package_target_def is_package_id_literal
          package_onward_def package_identity_def)
  qed
  then show ?thesis by (simp add: package_step_def package_identity_def applied_package_target_def)
qed

lemma stage_after_progress:
  "stage_of_lifecycle (progress_stage_to_lifecycle s) (progress_stage_to_install_stage s)"
  by (cases s) simp_all

lemma progress_lifecycles:
  "progress_stage_to_lifecycle s \<in> {Running, CancellationRequested, Cancelled, Lifecycle_Failed, Expired}"
  "progress_stage_to_install_stage s \<notin> {PreviewReady, Stage_Approved}"
  by (cases s; simp)+

lemma progress_from:
  assumes "package_progress_transition_allowed s p" and "stage_of_lifecycle l s"
  shows "l \<in> {Dispatched, Running, CancellationRequested}"
  using assms by (cases s; cases l) auto

lemma progressed_package_step:
  assumes "pt_invocation t = Some i" and progress: "valid (validate_package_progress_for p i)"
    and ack: "\<not> progress_unacknowledged p (pt_acknowledgement t)"
    and later: "\<And>q. pt_owner_progress t = Some q \<Longrightarrow> pg_observed_at_ms q < pg_observed_at_ms p"
    and allowed: "package_progress_transition_allowed (pt_stage t) (pg_stage p)"
  shows "package_step op t (progressed_package_target p now t)"
proof -
  let ?u = "progressed_package_target p now t"
  have "package_target_kept op ?u \<and> package_onward t ?u" if kept: "package_target_kept op t"
  proof -
    have "pt_lifecycle t \<noteq> Rejected"
    proof
      assume "pt_lifecycle t = Rejected"
      with package_target_keptD(3,5) [OF kept] package_rowD(1) [of op t] have "pt_stage t = PreflightRejected" by auto
      with allowed show False by simp
    qed
    note el = eligible_when [OF kept this]
    note D = package_rowD [OF el(2)]
    have source: "pt_lifecycle t \<in> {Dispatched, Running, CancellationRequested}"
      by (rule progress_from [OF allowed D(1)])
    have accepted: "some_and pa_accepted (pt_acknowledgement t)" using D(7) source by auto
    have "pt_lifecycle t \<noteq> Applied" using source by auto
    then have "pt_effective_receipt t = None" by (rule D(12))
    then have "package_row op ?u"
      using D(3,4) assms(1) progress accepted stage_after_progress [of "pg_stage p"] progress_lifecycles [of "pg_stage p"]
      by (auto simp: package_row_def progressed_package_target_def package_bound_def)
    moreover have "package_claims_kept ?u"
      by (rule package_claims_kept_cong [OF el(3)]) (simp_all add: progressed_package_target_def)
    moreover have "package_phase (pt_lifecycle t) (pt_stage t) \<le> 4" "\<not> is_terminal_target t"
      using source by (auto simp: is_terminal_target_def)
    moreover have "4 \<le> package_phase (progress_stage_to_lifecycle (pg_stage p)) (progress_stage_to_install_stage (pg_stage p))"
      by (cases "pg_stage p") simp_all
    moreover have "is_package_id (pg_code p) 256" "pg_message p \<noteq> []"
      using progress by (simp_all add: validate_package_progress_for_def)
    ultimately show ?thesis using el(1) later
      by (fastforce simp: package_target_kept_def progressed_package_target_def package_onward_def
          package_identity_def)
  qed
  then show ?thesis by (simp add: package_step_def package_identity_def progressed_package_target_def)
qed

section \<open>Changes of an operation\<close>

lemma onward_not_proposed: "package_onward t u \<Longrightarrow> pt_lifecycle t \<noteq> Proposed \<Longrightarrow> pt_lifecycle u \<noteq> Proposed"
  by (cases "pt_lifecycle t") (auto simp: package_onward_def split: if_splits)

lemma package_kept_together:
  assumes "package_kept op" and "t \<in> set (po_targets op)" and "u \<in> set (po_targets op)"
    and "pf_eligible (pt_preflight t)" and "pt_lifecycle t = Proposed" and "pf_eligible (pt_preflight u)"
  shows "pt_lifecycle u = Proposed"
proof -
  have "package_together (po_targets op)" using assms(1) unfolding package_kept_def by blast
  with assms(2-) show ?thesis unfolding package_together_def by blast
qed

lemma package_evolves_steps:
  assumes steps: "list_all2 (\<lambda>t u. package_step op t u \<and> (u = t \<or> pt_lifecycle t \<noteq> Proposed)) (po_targets op) ts"
  shows "package_evolves op (with_package_lifecycle (op\<lparr>po_targets := ts\<rparr>))"
proof -
  have kept: "package_target_kept op (ts ! k) \<and> package_onward (po_targets op ! k) (ts ! k)"
    if "package_kept op" "k < length ts" for k
    using steps that by (auto simp: list_all2_conv_all_nth package_step_def package_kept_def)
  have "package_evolves op (op\<lparr>po_targets := ts, po_lifecycle := package_derived_lifecycle (op\<lparr>po_targets := ts\<rparr>)\<rparr>)"
  proof (rule package_evolves_targets)
    show "list_all2 (\<lambda>t u. package_identity u = package_identity t \<and>
        (package_kept op \<longrightarrow> package_target_kept op u \<and> package_onward t u)) (po_targets op) ts"
      using steps kept by (auto simp: list_all2_conv_all_nth package_step_def)
    show "package_together ts" if "package_kept op"
    proof -
      have same: "(pt_lifecycle (ts ! k) = Proposed) = (pt_lifecycle (po_targets op ! k) = Proposed)"
        "pt_preflight (ts ! k) = pt_preflight (po_targets op ! k)" if k: "k < length ts" for k
        using steps kept [OF \<open>package_kept op\<close> k] onward_not_proposed [of "po_targets op ! k" "ts ! k"] k
        by (auto simp: list_all2_conv_all_nth package_step_def package_identity_def)
      have len: "length ts = length (po_targets op)" using steps by (simp add: list_all2_lengthD)
      show ?thesis unfolding package_together_def
      proof (intro ballI impI)
        fix t u
        assume mem: "t \<in> set ts" "u \<in> set ts"
          and t: "pf_eligible (pt_preflight t)" "pt_lifecycle t = Proposed" and u: "pf_eligible (pt_preflight u)"
        then obtain k j where k: "k < length ts" "t = ts ! k" and j: "j < length ts" "u = ts ! j"
          by (auto simp: in_set_conv_nth)
        have in_op: "po_targets op ! k \<in> set (po_targets op)" "po_targets op ! j \<in> set (po_targets op)"
          using k j len by simp_all
        have "pt_lifecycle (po_targets op ! j) = Proposed"
        proof (rule package_kept_together [OF that in_op])
          show "pf_eligible (pt_preflight (po_targets op ! k))" "pt_lifecycle (po_targets op ! k) = Proposed"
            using t same [OF k(1)] unfolding k(2) by simp_all
          show "pf_eligible (pt_preflight (po_targets op ! j))" using u same(2) [OF j(1)] unfolding j(2) by simp
        qed
        then show "pt_lifecycle u = Proposed" using same(1) [OF j(1)] j(2) by simp
      qed
    qed
  qed simp
  then show ?thesis by (simp add: with_package_lifecycle_def)
qed

lemma package_evolves_change:
  assumes "find (\<lambda>t. pt_device_id t = d) (po_targets op) = Some t" and "package_step op t (f t)"
    and "pt_lifecycle t \<noteq> Proposed"
  shows "package_evolves op (with_package_lifecycle (change_package_target op d f))"
  unfolding change_package_target_def
  by (rule package_evolves_steps, rule list_all2_update_first [OF assms(1)])
    (use assms(2,3) in \<open>simp_all add: package_step_refl\<close>)

text \<open>A claim changes no lifecycle, so the stored lifecycle is still the derived one.\<close>

lemma package_evolves_claim:
  assumes found: "find (\<lambda>t. pt_device_id t = d) (po_targets op) = Some t"
    and step: "package_step op t (claimed_package_target c now t)" and "pt_lifecycle t = Accepted"
  shows "package_evolves op (change_package_target op d (claimed_package_target c now))"
proof (cases "package_kept op")
  case True
  let ?op = "change_package_target op d (claimed_package_target c now)"
  have "package_derived_lifecycle ?op = package_derived_lifecycle op"
    by (rule derived_lifecycle_cong)
      (simp add: change_package_target_def map_update_first claimed_package_target_def)
  with True have "po_lifecycle ?op = package_derived_lifecycle ?op"
    by (simp add: package_kept_def change_package_target_def)
  then have "with_package_lifecycle ?op = ?op" by (simp add: with_package_lifecycle_def)
  with package_evolves_change [where f = "claimed_package_target c now", OF found step] assms(3) show ?thesis by simp
next
  case False
  have "package_frame (change_package_target op d (claimed_package_target c now)) = package_frame op"
    by (simp add: package_frame_def change_package_target_def map_update_first package_identity_def
        claimed_package_target_def)
  with False show ?thesis by (simp add: package_evolves_def)
qed

lemma package_evolves_confirm:
  assumes "po_lifecycle op = Proposed"
  shows "package_evolves op (confirmed_package_operation now op)"
proof -
  let ?ts = "map (confirm_package_target now) (po_targets op)"
  have frame: "package_identity (confirm_package_target now t) = package_identity t" for t
    by (simp add: confirm_package_target_def package_identity_def)
  have eligible: "pt_lifecycle t = Proposed"
    if kept: "package_kept op" and t: "t \<in> set (po_targets op)" "pf_eligible (pt_preflight t)" for t
  proof -
    have "package_derived_lifecycle op = Proposed" using kept assms by (simp add: package_kept_def)
    then obtain u where "u \<in> set (po_targets op)" "pf_eligible (pt_preflight u)" "pt_lifecycle u = Proposed"
      by (auto simp: package_derived_lifecycle_def Let_def list_ex_iff split: if_splits)
    with kept t show ?thesis using package_kept_together by blast
  qed
  have "package_evolves op (op\<lparr>po_targets := ?ts,
      po_lifecycle := package_derived_lifecycle (op\<lparr>po_targets := ?ts\<rparr>)\<rparr>)"
  proof (rule package_evolves_targets)
    have "package_target_kept op (confirm_package_target now t) \<and> package_onward t (confirm_package_target now t)"
      if "package_kept op" "t \<in> set (po_targets op)" for t
      using confirm_package_step [of t op now] eligible [OF that] that
      by (auto simp: package_step_def package_kept_def)
    then show "list_all2 (\<lambda>t u. package_identity u = package_identity t \<and>
        (package_kept op \<longrightarrow> package_target_kept op u \<and> package_onward t u)) (po_targets op) ?ts"
      by (auto simp: list_all2_conv_all_nth frame)
    show "package_together ?ts"
      by (auto simp: package_together_def confirm_package_target_def split: if_splits)
  qed simp
  then show ?thesis by (simp add: confirmed_package_operation_def with_package_lifecycle_def)
qed

lemma package_evolves_swept: "package_evolves op (swept_package_operation now op)"
proof -
  have "package_step op t (if claim_lapsed now t then released_package_target now t else t)" for t
    by (simp add: released_package_step package_step_refl)
  moreover have "pt_lifecycle t \<noteq> Proposed" if "claim_lapsed now t" for t
    using that by (simp add: claim_lapsed_def)
  ultimately show ?thesis unfolding swept_package_operation_def
    by (intro package_evolves_steps) (auto simp: list_all2_conv_all_nth)
qed

section \<open>What each method does\<close>

text \<open>\<open>consumption op\<close> is the replay authority of an operation, target by target.\<close>

definition consumption :: "package_operation \<Rightarrow> package_claim_identity list list" where
  "consumption op = map pt_consumed (po_targets op)"

definition package_method ::
  "'a hub_state_scheme \<Rightarrow> string \<Rightarrow> 'a hub_state_scheme \<times> (hub_error + package_operation) \<Rightarrow> bool" where
  "package_method h k r \<longleftrightarrow>
     fst r = h \<and> (\<forall>x. snd r = Inr x \<longrightarrow> package_operation h k = Inr x) \<or>
     (\<exists>x y. bt_get (fh_package_operations h) k = Some x \<and> package_evolves x y \<and>
        consumption y = consumption x \<and> r = revise_package h k y)"

lemma package_method_error [intro]: "package_method h k (h, Inl e)"
  by (simp add: package_method_def)

lemma package_method_found: "package_operation h k = Inr x \<Longrightarrow> package_method h k (h, Inr x)"
  by (simp add: package_method_def)

lemma package_method_revise:
  "bt_get (fh_package_operations h) k = Some x \<Longrightarrow> package_evolves x y \<Longrightarrow> consumption y = consumption x \<Longrightarrow>
   package_method h k (revise_package h k y)"
  unfolding package_method_def by blast

lemma package_method_attempt:
  "(\<And>x. r = Inr x \<Longrightarrow> package_method h k (f x)) \<Longrightarrow> package_method h k (attempt h r f)"
  by (cases r) auto

lemma package_method_if:
  "(c \<Longrightarrow> package_method h k a) \<Longrightarrow> (\<not> c \<Longrightarrow> package_method h k b) \<Longrightarrow> package_method h k (if c then a else b)"
  by simp

lemmas package_method_intros = package_method_attempt package_method_if package_method_error

lemma active_package_Inr [simp]:
  "active_package h k m = Inr op \<longleftrightarrow> bt_get (fh_package_operations h) k = Some op"
  by (simp add: active_package_def split: option.split)

lemma find_package_target_Inr [simp]:
  "find_package_target op d m = Inr t \<longleftrightarrow> find (\<lambda>t. pt_device_id t = d) (po_targets op) = Some t"
  by (simp add: find_package_target_def split: option.split)

lemma package_invocation_of_Inr [simp]: "package_invocation_of t = Inr i \<longleftrightarrow> pt_invocation t = Some i"
  by (simp add: package_invocation_of_def split: option.split)

lemma active_package_operation:
  "bt_get (fh_package_operations h) k = Some op \<Longrightarrow> package_operation h k = Inr op"
  by (simp add: package_operation_def)

lemma consumption_lifecycle [simp]: "consumption (with_package_lifecycle op) = consumption op"
  by (simp add: consumption_def with_package_lifecycle_def)

lemma consumption_change:
  "(\<And>t. pt_consumed (f t) = pt_consumed t) \<Longrightarrow> consumption (change_package_target op d f) = consumption op"
  by (simp add: consumption_def change_package_target_def map_update_first)

lemma confirm_package_method:
  assumes "confirm_package_install_release h k preview_id now = Some r"
  shows "package_method h k r"
proof -
  have "package_method h k (revise_package h k (confirmed_package_operation now op))"
    if "bt_get (fh_package_operations h) k = Some op" "po_lifecycle op = Proposed" for op
  proof (rule package_method_revise [OF that(1) package_evolves_confirm [OF that(2)]])
    show "consumption (confirmed_package_operation now op) = consumption op"
      by (simp add: consumption_def confirmed_package_operation_def with_package_lifecycle_def
          confirm_package_target_def)
  qed
  with assms show ?thesis unfolding confirm_package_install_release_def
    by (auto intro: package_method_found dest: active_package_operation split: sum.splits if_splits option.splits)
qed

lemma prepare_package_method:
  assumes "prepare_package_install_release_invocation h k d q now = Some r"
  shows "package_method h k r"
proof -
  have "package_method h k (revise_package h k (with_package_lifecycle (change_package_target op d
      (prepared_package_target op q now))))"
    if "bt_get (fh_package_operations h) k = Some op" "find (\<lambda>t. pt_device_id t = d) (po_targets op) = Some t"
      "pt_lifecycle t = Accepted" "pt_stage t = Stage_Approved" for op t
  proof (rule package_method_revise [OF that(1) package_evolves_change [OF that(2)]])
    show "package_step op t (prepared_package_target op q now t)" using that(3,4) by (rule prepare_package_step)
  qed (use that(3) in \<open>simp_all add: consumption_change prepared_package_target_def\<close>)
  then have "package_method h k (attempt h (find_package_target op d ''target is not in operation'') (\<lambda>t.
       if pt_lifecycle t \<noteq> Accepted \<or> pt_stage t \<noteq> Stage_Approved
       then (h, Inl (hub_error ''package_dispatch_state_invalid''
         ''only a confirmed package target can prepare an owner invocation''))
       else revise_package h k (with_package_lifecycle (change_package_target op d
         (prepared_package_target op q now)))))" if "bt_get (fh_package_operations h) k = Some op" for op
    using that by (auto intro!: package_method_intros)
  with assms show ?thesis unfolding prepare_package_install_release_invocation_def
    by (auto split: sum.splits if_splits option.splits)
qed

lemma acknowledgement_package_method:
  "package_method h (pa_operation_id a) (admit_authenticated_package_updater_acknowledgement h a now)"
proof -
  have "package_method h (pa_operation_id a) (revise_package h (pa_operation_id a) (with_package_lifecycle
      (change_package_target op (pa_device_id a) (acknowledged_package_target a now))))"
    if "bt_get (fh_package_operations h) (pa_operation_id a) = Some op"
      "find (\<lambda>t. pt_device_id t = pa_device_id a) (po_targets op) = Some t"
      "pt_lifecycle t = Accepted" "pt_stage t = DispatchReady" "pt_invocation t = Some i"
      "acknowledgement_bound i a" for op t i
  proof (rule package_method_revise [OF that(1) package_evolves_change [OF that(2)]])
    show "package_step op t (acknowledged_package_target a now t)" using that(3-6) by (rule acknowledged_package_step)
  qed (use that(3) in \<open>simp_all add: consumption_change acknowledged_package_target_def\<close>)
  then show ?thesis unfolding admit_authenticated_package_updater_acknowledgement_def
    by (auto intro!: package_method_intros simp: acknowledgement_bound_def)
qed

lemma receipt_package_method:
  "package_method h (pe_operation_id r) (admit_authenticated_package_updater_receipt h r now)"
proof -
  have "package_method h (pe_operation_id r) (revise_package h (pe_operation_id r) (with_package_lifecycle
      (change_package_target op (pe_device_id r) (applied_package_target r now))))"
    if "bt_get (fh_package_operations h) (pe_operation_id r) = Some op"
      "find (\<lambda>t. pt_device_id t = pe_device_id r) (po_targets op) = Some t"
      "pt_lifecycle t \<in> {Dispatched, Running, CancellationRequested}" "pt_invocation t = Some i"
      "valid (validate_package_receipt_for r i)" for op t i
  proof (rule package_method_revise [OF that(1) package_evolves_change [OF that(2)]])
    show "package_step op t (applied_package_target r now t)" using that(3-5) by (rule applied_package_step)
  qed (use that(3) in \<open>auto simp: consumption_change applied_package_target_def\<close>)
  then show ?thesis unfolding admit_authenticated_package_updater_receipt_def
    by (auto intro!: package_method_intros)
qed

lemma progress_package_method:
  "package_method h (pg_operation_id p) (admit_authenticated_package_updater_progress h p now)"
proof -
  have "package_method h (pg_operation_id p) (revise_package h (pg_operation_id p) (with_package_lifecycle
      (change_package_target op (pg_device_id p) (progressed_package_target p now))))"
    if "bt_get (fh_package_operations h) (pg_operation_id p) = Some op"
      "find (\<lambda>t. pt_device_id t = pg_device_id p) (po_targets op) = Some t"
      "pt_invocation t = Some i" "valid (validate_package_progress_for p i)"
      "\<not> progress_unacknowledged p (pt_acknowledgement t)"
      "\<not> some_and (\<lambda>q. pg_observed_at_ms q \<ge> pg_observed_at_ms p) (pt_owner_progress t)"
      "package_progress_transition_allowed (pt_stage t) (pg_stage p)" for op t i
  proof (rule package_method_revise [OF that(1)])
    have "package_step op t (progressed_package_target p now t)"
      using that(6) by (intro progressed_package_step [OF that(3,4,5) _ that(7)]) auto
    then show "package_evolves op (with_package_lifecycle (change_package_target op (pg_device_id p)
        (progressed_package_target p now)))"
    proof (cases "pt_lifecycle t = Proposed \<and> package_kept op")
      case True
      then have "package_target_kept op t" using find_Some_set [OF that(2)] by (simp add: package_kept_def)
      moreover from this have "pf_eligible (pt_preflight t)" "package_row op t"
        using eligible_when [of op t] True by simp_all
      ultimately have "pt_stage t = PreviewReady" using package_rowD(1) [of op t] True by simp
      with that(7) show ?thesis by simp
    next
      case False
      show ?thesis
      proof (cases "package_kept op")
        case True
        with False show ?thesis
          using \<open>package_step op t (progressed_package_target p now t)\<close>
          by (intro package_evolves_change [OF that(2)]) simp_all
      next
        case False
        have "package_frame (with_package_lifecycle (change_package_target op (pg_device_id p)
            (progressed_package_target p now))) = package_frame op"
          by (simp add: package_frame_def with_package_lifecycle_def change_package_target_def map_update_first
              package_identity_def progressed_package_target_def)
        with False show ?thesis by (simp add: package_evolves_def)
      qed
    qed
  qed (simp add: consumption_change progressed_package_target_def)
  then show ?thesis unfolding admit_authenticated_package_updater_progress_def
    by (auto intro!: package_method_intros package_method_found active_package_operation)
qed

end
