(* ===== verification/Package_Effects.thy ===== *)
theory Package_Effects
  imports Hub_Packages_Facts
begin

text \<open>
  The two package stores, active operations and archives, as one state machine. \<open>package_effect\<close> is
  what one method may do to them, \<open>package_stores_ok\<close> what always holds of them; every call of a
  client is a sequence of effects and touches nothing else of the Hub.
\<close>

section \<open>Effects on the stores\<close>

type_synonym package_stores =
  "(string, package_operation) btree_map \<times> (string, package_archive) btree_map"

definition package_stores :: "'a hub_state_scheme \<Rightarrow> package_stores" where
  "package_stores h = (fh_package_operations h, fh_package_archives h)"

definition spent :: "package_operation \<Rightarrow> package_claim_identity list" where
  "spent op = concat (consumption op)"

definition all_spent :: "(string, package_operation) btree_map \<Rightarrow> package_claim_identity list" where
  "all_spent ops = concat (map spent (bt_values ops))"

definition unspent :: "(string, package_operation) btree_map \<Rightarrow> package_claim_identity \<Rightarrow> bool" where
  "unspent ops e \<longleftrightarrow> pci_claim_id e \<notin> set (map pci_claim_id (all_spent ops)) \<and>
     pci_request_id e \<notin> set (map pci_request_id (all_spent ops))"

text \<open>\<open>revision\<close> is the Hub's result revision, which a preview records.\<close>

inductive package_effect ::
  "(package_operation \<Rightarrow> string) \<Rightarrow> (string \<Rightarrow> string) \<Rightarrow> u64 \<Rightarrow> package_stores \<Rightarrow> package_stores \<Rightarrow> bool"
  for encode :: "package_operation \<Rightarrow> string" and sha :: "string \<Rightarrow> string" and revision :: u64
where
  proposes: "bt_get ops k = None \<Longrightarrow> bt_get arcs k = None \<Longrightarrow> bt_len ops < max_package_operations \<Longrightarrow>
    valid (validate_package_operation op) \<Longrightarrow> freshly_proposed_package op \<Longrightarrow> po_operation_id op = k \<Longrightarrow>
    pv_fleet_revision (po_preview op) = revision \<Longrightarrow>
    package_effect encode sha revision (ops, arcs) (bt_insert k op ops, arcs)"
| revises: "bt_get ops k = Some x \<Longrightarrow> package_evolves x y \<Longrightarrow> consumption y = consumption x \<Longrightarrow>
    package_effect encode sha revision (ops, arcs) (bt_insert k y ops, arcs)"
| claims: "bt_get ops k = Some x \<Longrightarrow> package_evolves x y \<Longrightarrow> unspent ops e \<Longrightarrow>
    consumption y = us @ (es @ [e]) # vs \<Longrightarrow> consumption x = us @ es # vs \<Longrightarrow>
    package_effect encode sha revision (ops, arcs) (bt_insert k y ops, arcs)"
| archives: "bt_get ops k = Some x \<Longrightarrow> bt_get arcs k = None \<Longrightarrow> package_is_terminal x \<Longrightarrow>
    bt_len arcs < max_archived_package_operations \<Longrightarrow>
    valid (validate_package_archive encode sha a) \<Longrightarrow> pz_operation a = x \<Longrightarrow>
    package_effect encode sha revision (ops, arcs) (bt_remove k ops, bt_insert k a arcs)"

inductive_cases package_effectE: "package_effect encode sha revision s s'"

abbreviation package_effects ::
  "(package_operation \<Rightarrow> string) \<Rightarrow> (string \<Rightarrow> string) \<Rightarrow> u64 \<Rightarrow> package_stores \<Rightarrow> package_stores \<Rightarrow> bool" where
  "package_effects encode sha revision \<equiv> (package_effect encode sha revision)\<^sup>*\<^sup>*"

section \<open>The invariant\<close>

definition singly_spent :: "package_claim_identity list \<Rightarrow> bool" where
  "singly_spent es \<longleftrightarrow> distinct (map pci_claim_id es) \<and> distinct (map pci_request_id es)"

definition package_stores_ok ::
  "(package_operation \<Rightarrow> string) \<Rightarrow> (string \<Rightarrow> string) \<Rightarrow> u64 \<Rightarrow> package_stores \<Rightarrow> bool" where
  "package_stores_ok encode sha revision s \<longleftrightarrow> (case s of (ops, arcs) \<Rightarrow>
     (\<forall>k x. bt_get ops k = Some x \<longrightarrow> package_kept x \<and> po_operation_id x = k \<and> bt_get arcs k = None \<and>
        pv_fleet_revision (po_preview x) \<le> revision) \<and>
     (\<forall>k a. bt_get arcs k = Some a \<longrightarrow> package_kept (pz_operation a) \<and> po_operation_id (pz_operation a) = k \<and>
        valid (validate_package_archive encode sha a) \<and>
        pv_fleet_revision (po_preview (pz_operation a)) \<le> revision) \<and>
     bt_len ops \<le> max_package_operations \<and> bt_len arcs \<le> max_archived_package_operations \<and>
     singly_spent (all_spent ops))"

text \<open>How replacing, adding and removing an operation changes what is spent.\<close>

lemma al_insert_split:
  assumes "strictly_sorted (map fst xs)" and "map_of xs k = Some x"
  obtains as bs where "xs = as @ (k, x) # bs" "al_insert k y xs = as @ (k, y) # bs" "al_remove k xs = as @ bs"
proof -
  have "\<exists>as bs. xs = as @ (k, x) # bs \<and> al_insert k y xs = as @ (k, y) # bs \<and> al_remove k xs = as @ bs"
    using assms
  proof (induction xs)
    case (Cons z xs)
    obtain a b where z: "z = (a, b)" by (cases z)
    show ?case
    proof (cases "a = k")
      case True
      with Cons.prems z show ?thesis by (intro exI [of _ "[]"] exI [of _ xs]) auto
    next
      case False
      then have found: "map_of xs k = Some x" using Cons.prems(2) z by simp
      from map_of_SomeD [OF this] have "a < k" using Cons.prems(1) z by (auto simp: strictly_sorted_def)
      from Cons.IH [OF _ found] Cons.prems(1) obtain as bs
        where "xs = as @ (k, x) # bs" "al_insert k y xs = as @ (k, y) # bs" "al_remove k xs = as @ bs"
        by (auto simp: strictly_sorted_def)
      with False \<open>a < k\<close> z show ?thesis by (intro exI [of _ "z # as"] exI [of _ bs]) auto
    qed
  qed simp
  with that show thesis by blast
qed

lemma bt_values_split:
  assumes "bt_get m k = Some x"
  obtains as bs where "bt_values m = as @ x # bs" "bt_values (bt_insert k y m) = as @ y # bs"
    "bt_values (bt_remove k m) = as @ bs"
proof -
  obtain as bs where "entries m = as @ (k, x) # bs" "al_insert k y (entries m) = as @ (k, y) # bs"
    "al_remove k (entries m) = as @ bs"
    by (rule al_insert_split [OF strictly_sorted_entries assms [unfolded bt_get_def], where y = y])
  then show thesis
    by (intro that [of "map snd as" "map snd bs"]) (simp_all add: bt_values_def)
qed

lemma bt_values_fresh:
  assumes "bt_get m k = None"
  obtains as bs where "bt_values m = as @ bs" "bt_values (bt_insert k y m) = as @ y # bs"
proof -
  from assms have "bt_remove k (bt_insert k y m) = m"
    by (intro btree_map_eqI) simp
  moreover obtain as bs where "bt_values (bt_insert k y m) = as @ y # bs"
    "bt_values (bt_remove k (bt_insert k y m)) = as @ bs"
    by (rule bt_values_split [of "bt_insert k y m" k y y]) simp_all
  ultimately show thesis by (intro that [of as bs]) simp_all
qed

lemma all_spent_replace:
  assumes "bt_get ops k = Some x" and "consumption y = consumption x"
  shows "all_spent (bt_insert k y ops) = all_spent ops"
  by (rule bt_values_split [OF assms(1), of y]) (simp add: all_spent_def spent_def assms(2))

lemma all_spent_claim:
  assumes "bt_get ops k = Some x" and "consumption y = us @ (es @ [e]) # vs" and "consumption x = us @ es # vs"
  obtains as bs where "all_spent ops = as @ bs" "all_spent (bt_insert k y ops) = as @ e # bs"
proof (rule bt_values_split [OF assms(1), of y])
  fix as bs
  assume "bt_values ops = as @ x # bs" "bt_values (bt_insert k y ops) = as @ y # bs"
  then show thesis
    by (intro that [of "concat (map spent as) @ concat us @ es" "concat vs @ concat (map spent bs)"])
      (simp_all add: all_spent_def spent_def assms(2,3))
qed

lemma all_spent_fresh:
  assumes "bt_get ops k = None" and "spent y = []"
  shows "all_spent (bt_insert k y ops) = all_spent ops"
  by (rule bt_values_fresh [OF assms(1), of y]) (simp add: all_spent_def assms(2))

lemma all_spent_remove:
  assumes "bt_get ops k = Some x"
  obtains as bs where "all_spent ops = as @ spent x @ bs" "all_spent (bt_remove k ops) = as @ bs"
  by (rule bt_values_split [OF assms, of x]) (auto simp: all_spent_def intro: that)

lemma singly_spent_insert:
  "singly_spent (as @ bs) \<Longrightarrow> pci_claim_id e \<notin> set (map pci_claim_id (as @ bs)) \<Longrightarrow>
   pci_request_id e \<notin> set (map pci_request_id (as @ bs)) \<Longrightarrow> singly_spent (as @ e # bs)"
  by (auto simp: singly_spent_def)

lemma singly_spent_drop: "singly_spent (as @ cs @ bs) \<Longrightarrow> singly_spent (as @ bs)"
  by (auto simp: singly_spent_def)

lemma fresh_package_spent: "freshly_proposed_package op \<Longrightarrow> spent op = []"
  by (simp add: freshly_proposed_package_def spent_def consumption_def)

lemma evolves_revision: "package_evolves x y \<Longrightarrow> po_preview y = po_preview x"
  using package_frame_fields(5) [of y x] by (simp add: package_evolves_def)

lemma archive_operation_id:
  "valid (validate_package_archive encode sha a) \<Longrightarrow>
   pz_operation_id a = po_operation_id (pz_operation a) \<and> package_is_terminal (pz_operation a)"
  by (simp add: validate_package_archive_def)

lemma package_effect_ok:
  assumes "package_effect encode sha revision s s'" and "package_stores_ok encode sha revision s"
  shows "package_stores_ok encode sha revision s'"
  using assms
proof (cases rule: package_effect.cases)
  case (proposes ops k arcs op)
  then have "package_kept op" using fresh_package_kept by blast
  moreover have "all_spent (bt_insert k op ops) = all_spent ops"
    using proposes by (intro all_spent_fresh fresh_package_spent) simp_all
  ultimately show ?thesis
    using assms(2) proposes by (simp add: package_stores_ok_def bt_len_insert)
next
  case (revises ops k x y arcs)
  have "bt_len (bt_insert k y ops) = bt_len ops"
    using revises by (simp add: bt_len_insert bt_contains_key_def)
  moreover have "package_kept y" "po_operation_id y = k" "bt_get arcs k = None"
    "pv_fleet_revision (po_preview y) \<le> revision"
    using assms(2) revises package_evolves_id [OF revises(4)] evolves_revision [OF revises(4)]
    by (auto simp: package_stores_ok_def package_evolves_def)
  ultimately show ?thesis
    using assms(2) revises all_spent_replace [OF revises(3,5)] by (simp add: package_stores_ok_def)
next
  case (claims ops k x y e us es vs arcs)
  have "bt_len (bt_insert k y ops) = bt_len ops"
    using claims by (simp add: bt_len_insert bt_contains_key_def)
  moreover have "package_kept y" "po_operation_id y = k" "bt_get arcs k = None"
    "pv_fleet_revision (po_preview y) \<le> revision"
    using assms(2) claims package_evolves_id [OF claims(4)] evolves_revision [OF claims(4)]
    by (auto simp: package_stores_ok_def package_evolves_def)
  moreover obtain as bs where "all_spent ops = as @ bs" "all_spent (bt_insert k y ops) = as @ e # bs"
    by (rule all_spent_claim [OF claims(3,6,7)])
  then have "singly_spent (all_spent (bt_insert k y ops))"
    using assms(2) claims by (simp add: package_stores_ok_def unspent_def singly_spent_insert)
  ultimately show ?thesis using assms(2) claims by (simp add: package_stores_ok_def)
next
  case (archives ops k x arcs a)
  obtain as bs where "all_spent ops = as @ spent x @ bs" "all_spent (bt_remove k ops) = as @ bs"
    by (rule all_spent_remove [OF archives(3)])
  then have "singly_spent (all_spent (bt_remove k ops))"
    using assms(2) archives singly_spent_drop [of as "spent x" bs] by (simp add: package_stores_ok_def)
  moreover have "bt_len (bt_remove k ops) \<le> max_package_operations"
    using assms(2) archives bt_len_remove_le [of k ops] by (simp add: package_stores_ok_def)
  ultimately show ?thesis using assms(2) archives by (auto simp: package_stores_ok_def bt_len_insert)
qed

lemma package_effects_ok:
  "package_effects encode sha revision s s' \<Longrightarrow> package_stores_ok encode sha revision s \<Longrightarrow>
   package_stores_ok encode sha revision s'"
  by (induction rule: rtranclp_induct) (auto intro: package_effect_ok)

section \<open>Every method is a sequence of effects\<close>

definition package_change ::
  "(package_operation \<Rightarrow> string) \<Rightarrow> (string \<Rightarrow> string) \<Rightarrow> 'a hub_state_scheme \<Rightarrow> 'a hub_state_scheme \<Rightarrow> bool" where
  "package_change encode sha h h' \<longleftrightarrow>
     package_effects encode sha (fh_result_revision h) (package_stores h) (package_stores h') \<and>
     (\<exists>ops arcs. h' = h\<lparr>fh_package_operations := ops, fh_package_archives := arcs\<rparr>)"

lemma package_change_refl [simp]: "package_change encode sha h h"
proof -
  have "h = h\<lparr>fh_package_operations := fh_package_operations h, fh_package_archives := fh_package_archives h\<rparr>"
    by simp
  then show ?thesis unfolding package_change_def by blast
qed

lemma package_change_attempt:
  "(\<And>x. r = Inr x \<Longrightarrow> package_change encode sha h (fst (f x))) \<Longrightarrow>
   package_change encode sha h (fst (attempt h r f))"
  by (cases r) auto

lemma package_change_put:
  assumes "package_effect encode sha (fh_result_revision h) (package_stores h)
    (bt_insert k y (fh_package_operations h), fh_package_archives h)"
  shows "package_change encode sha h (put_package k y h)"
  using assms unfolding package_change_def
  by (auto simp: put_package_def package_stores_def intro!: exI [of _ "fh_package_archives h"])

lemma revise_package_fst [simp]: "fst (revise_package h k y) = put_package k y h"
  by (cases "validate_package y") (simp_all add: revise_package_def)

lemma package_method_change:
  assumes "package_method h k r"
  shows "package_change encode sha h (fst r)"
proof -
  have "package_change encode sha h (put_package k y h)"
    if "bt_get (fh_package_operations h) k = Some x" "package_evolves x y" "consumption y = consumption x" for x y
    using that by (intro package_change_put) (auto simp: package_stores_def intro: package_effect.revises)
  with assms show ?thesis by (auto simp: package_method_def)
qed

lemma proposed_package_fresh: "freshly_proposed_package (proposed_package_operation v plan ps)"
  by (auto simp: freshly_proposed_package_def proposed_package_operation_def with_package_lifecycle_def Let_def
      proposed_package_target_def no_owner_evidence_def package_derived_lifecycle_def)

lemma preview_package_change: "package_change encode sha h (fst (preview_package_install_release h plan))"
proof -
  have "package_change encode sha h (put_package (ppl_operation_id plan) op h)"
    if "bt_get (fh_package_operations h) (ppl_operation_id plan) = None"
      "bt_get (fh_package_archives h) (ppl_operation_id plan) = None"
      "op = proposed_package_operation (fh_result_revision h) plan ps" "validate_package op = Inr u"
      "bt_len (fh_package_operations h) < max_package_operations" for op ps u
  proof (intro package_change_put, unfold package_stores_def, rule package_effect.proposes)
    show "valid (validate_package_operation op)"
      using that(4) by (auto simp: validate_package_def valid_def split: sum.splits)
    show "freshly_proposed_package op" using that(3) by (simp add: proposed_package_fresh)
    show "po_operation_id op = ppl_operation_id plan" "pv_fleet_revision (po_preview op) = fh_result_revision h"
      using that(3) by (simp_all add: proposed_package_operation_def with_package_lifecycle_def Let_def)
  qed (use that in simp_all)
  then show ?thesis unfolding preview_package_install_release_def
    by (auto intro!: package_change_attempt simp: Let_def split: option.split)
qed

lemma not_replayed_unspent:
  assumes "\<not> claim_replayed h c"
  shows "unspent (fh_package_operations h) \<lparr>pci_claim_id = pk_claim_id c, pci_request_id = pk_request_id c\<rparr>"
  using assms by (fastforce simp: claim_replayed_def unspent_def all_spent_def spent_def consumption_def list_ex_iff)

lemma spent_of_stored:
  assumes "bt_get ops k = Some op" and "t \<in> set (po_targets op)" and "e \<in> set (pt_consumed t)"
  shows "e \<in> set (all_spent ops)"
  using assms by (auto simp: all_spent_def spent_def consumption_def set_bt_values intro!: bexI)

lemma offer_package_change: "package_change encode sha h (fst (offer_package_updater_claim h c now))"
proof -
  let ?k = "pi_operation_id (pk_invocation c)" and ?d = "pi_device_id (pk_invocation c)"
  let ?e = "\<lparr>pci_claim_id = pk_claim_id c, pci_request_id = pk_request_id c\<rparr>"
  have "package_change encode sha h (put_package ?k (change_package_target op ?d (claimed_package_target c now)) h)"
    if new: "\<not> claim_replayed h c" and op: "bt_get (fh_package_operations h) ?k = Some op"
      and t: "find (\<lambda>t. pt_device_id t = ?d) (po_targets op) = Some t"
      and state: "pt_lifecycle t = Accepted" "pt_stage t = DispatchReady" "pt_invocation t = Some (pk_invocation c)"
      and claim: "valid (validate_package_claim c)" "length (pt_consumed t) < max_consumed_package_owner_claims"
    for op t
  proof -
    have unspent: "unspent (fh_package_operations h) ?e" by (rule not_replayed_unspent [OF new])
    have "package_step op t (claimed_package_target c now t)"
    proof (rule claimed_package_step [OF state claim])
      fix e
      assume "e \<in> set (pt_consumed t)"
      then have "e \<in> set (all_spent (fh_package_operations h))"
        by (rule spent_of_stored [OF op find_Some_set [OF t, THEN conjunct1]])
      with unspent show "pci_claim_id e \<noteq> pk_claim_id c \<and> pci_request_id e \<noteq> pk_request_id c"
        by (simp add: unspent_def) (metis image_eqI)
    qed
    then have evolves: "package_evolves op (change_package_target op ?d (claimed_package_target c now))"
      using package_evolves_claim [OF t _ state(1)] by blast
    obtain as bs where split: "po_targets op = as @ t # bs"
      "update_first (\<lambda>t. pt_device_id t = ?d) (claimed_package_target c now) (po_targets op) =
       as @ claimed_package_target c now t # bs"
      using update_first_split [OF t] by blast
    show ?thesis
    proof (intro package_change_put, unfold package_stores_def, rule package_effect.claims [OF op evolves unspent])
      show "consumption (change_package_target op ?d (claimed_package_target c now)) =
          map pt_consumed as @ (pt_consumed t @ [?e]) # map pt_consumed bs"
        by (simp add: consumption_def change_package_target_def split(2) claimed_package_target_def)
      show "consumption op = map pt_consumed as @ pt_consumed t # map pt_consumed bs"
        by (simp add: consumption_def split(1))
    qed
  qed
  then show ?thesis unfolding offer_package_updater_claim_def
    by (auto intro!: package_change_attempt)
qed

text \<open>The sweep stops at the first operation whose validation fails; what it wrote stays.\<close>

lemma package_change_trans:
  assumes "package_change encode sha h h'" and "package_change encode sha h' h''"
  shows "package_change encode sha h h''"
proof -
  from assms obtain ops arcs ops' arcs' where
    eq: "h' = h\<lparr>fh_package_operations := ops, fh_package_archives := arcs\<rparr>"
    "h'' = h'\<lparr>fh_package_operations := ops', fh_package_archives := arcs'\<rparr>"
    by (auto simp: package_change_def)
  then have "h'' = h\<lparr>fh_package_operations := ops', fh_package_archives := arcs'\<rparr>"
    "fh_result_revision h' = fh_result_revision h" by simp_all
  with assms show ?thesis unfolding package_change_def by (metis rtranclp_trans)
qed

lemma swept_consumption [simp]: "consumption (swept_package_operation now op) = consumption op"
  by (simp add: consumption_def swept_package_operation_def with_package_lifecycle_def released_package_target_def Let_def)

lemma swept_change:
  assumes "bt_get (fh_package_operations h) k = Some op"
  shows "package_change encode sha h (put_package k (swept_package_operation now op) h)"
proof (intro package_change_put, unfold package_stores_def, rule package_effect.revises)
  show "bt_get (fh_package_operations h) k = Some op" by fact
  show "package_evolves op (swept_package_operation now op)" by (rule package_evolves_swept)
qed simp

lemma sweep_package_change:
  assumes "distinct (map fst rest)" and "\<forall>(k, op)\<in>set rest. bt_get (fh_package_operations h) k = Some op"
  shows "package_change encode sha h (fst (sweep_package_claims h rest now n))"
  using assms
proof (induction h rest now n rule: sweep_package_claims.induct)
  case (2 h k op rest now n)
  let ?h = "put_package k (swept_package_operation now op) h"
  have step: "package_change encode sha h ?h" using 2(3) by (intro swept_change) simp
  have "\<forall>(j, op')\<in>set rest. bt_get (fh_package_operations ?h) j = Some op'"
    using 2(2,3) by (auto simp: put_package_def rev_image_eqI dest!: bspec)
  then have "package_change encode sha ?h (fst (sweep_package_claims ?h rest now
      (n + length (filter (claim_lapsed now) (po_targets op)))))"
    using 2(1) [OF refl refl] 2(2) by simp
  with step show ?case
    by (cases "validate_package (swept_package_operation now op)")
      (auto simp: Let_def intro: package_change_trans)
qed simp

lemma expire_package_change: "package_change encode sha h (fst (expire_package_updater_claims h now))"
  unfolding expire_package_updater_claims_def
proof (rule sweep_package_change)
  show "distinct (map fst (entries (fh_package_operations h)))"
    using distinct_bt_keys [of "fh_package_operations h"] by (simp add: bt_keys_def)
qed (auto simp: bt_get_Some_iff)

lemma archive_package_change:
  "package_change encode sha h (fst (archive_package_operation encode sha h request now))"
proof -
  let ?k = "par_operation_id request"
  have "package_change encode sha h (h\<lparr>fh_package_operations := bt_remove ?k (fh_package_operations h),
      fh_package_archives := bt_insert ?k (archive_of encode sha op now) (fh_package_archives h)\<rparr>)"
    if "bt_get (fh_package_archives h) ?k = None" "bt_get (fh_package_operations h) ?k = Some op"
      "package_is_terminal op" "bt_len (fh_package_archives h) < max_archived_package_operations"
      "valid (validate_package_archive encode sha (archive_of encode sha op now))" for op
  proof -
    have "package_effect encode sha (fh_result_revision h) (package_stores h)
      (bt_remove ?k (fh_package_operations h), bt_insert ?k (archive_of encode sha op now) (fh_package_archives h))"
      unfolding package_stores_def using that
      by (intro package_effect.archives) (simp_all add: archive_of_def)
    then show ?thesis unfolding package_change_def by (auto simp: package_stores_def)
  qed
  then show ?thesis unfolding archive_package_operation_def
    by (auto intro!: package_change_attempt simp: Let_def split: option.split)
qed

section \<open>Calls\<close>

datatype package_call =
  Preview_Package package_preview_plan
| Confirm_Package string string i64
| Prepare_Package string string string i64
| Offer_Package package_claim i64
| Expire_Packages i64
| Acknowledge_Package package_acknowledgement i64
| Progress_Package package_progress i64
| Receive_Package package_effective_receipt i64
| Archive_Package package_archive_request i64

text \<open>A call that panics has written nothing yet.\<close>

definition unless_panic :: "'s \<Rightarrow> ('s \<times> 'r) option \<Rightarrow> 's" where
  "unless_panic h r = (case r of None \<Rightarrow> h | Some (h', _) \<Rightarrow> h')"

fun run_package ::
  "(package_operation \<Rightarrow> string) \<Rightarrow> (string \<Rightarrow> string) \<Rightarrow> 'a hub_state_scheme \<Rightarrow> package_call \<Rightarrow>
   'a hub_state_scheme" where
  "run_package encode sha h (Preview_Package plan) = fst (preview_package_install_release h plan)"
| "run_package encode sha h (Confirm_Package k p now) = unless_panic h (confirm_package_install_release h k p now)"
| "run_package encode sha h (Prepare_Package k d q now) =
     unless_panic h (prepare_package_install_release_invocation h k d q now)"
| "run_package encode sha h (Offer_Package c now) = fst (offer_package_updater_claim h c now)"
| "run_package encode sha h (Expire_Packages now) = fst (expire_package_updater_claims h now)"
| "run_package encode sha h (Acknowledge_Package a now) =
     fst (admit_authenticated_package_updater_acknowledgement h a now)"
| "run_package encode sha h (Progress_Package p now) =
     fst (admit_authenticated_package_updater_progress h p now)"
| "run_package encode sha h (Receive_Package r now) =
     fst (admit_authenticated_package_updater_receipt h r now)"
| "run_package encode sha h (Archive_Package request now) =
     fst (archive_package_operation encode sha h request now)"

lemma unless_panic_change:
  "(\<And>r. m = Some r \<Longrightarrow> package_method h k r) \<Longrightarrow> package_change encode sha h (unless_panic h m)"
proof (cases m)
  case (Some r)
  assume "\<And>r. m = Some r \<Longrightarrow> package_method h k r"
  from package_method_change [OF this [OF Some]] Some show ?thesis by (cases r) (simp add: unless_panic_def)
qed (simp add: unless_panic_def)

lemma run_package_change: "package_change encode sha h (run_package encode sha h call)"
proof (cases call)
  case (Confirm_Package k p now)
  show ?thesis unfolding Confirm_Package run_package.simps
    by (rule unless_panic_change) (rule confirm_package_method)
next
  case (Prepare_Package k d q now)
  show ?thesis unfolding Prepare_Package run_package.simps
    by (rule unless_panic_change) (rule prepare_package_method)
qed (simp_all add: preview_package_change offer_package_change expire_package_change archive_package_change
    package_method_change [OF acknowledgement_package_method] package_method_change [OF progress_package_method]
    package_method_change [OF receipt_package_method])

lemma run_package_frame:
  obtains ops arcs where
    "run_package encode sha h call = h\<lparr>fh_package_operations := ops, fh_package_archives := arcs\<rparr>"
  using run_package_change [of encode sha h call] unfolding package_change_def by blast

lemma run_package_rest [simp]:
  "fh_policy (run_package encode sha h call) = fh_policy h"
  "fh_devices (run_package encode sha h call) = fh_devices h"
  "fh_result_revision (run_package encode sha h call) = fh_result_revision h"
  "fh_event_sequence (run_package encode sha h call) = fh_event_sequence h"
  "fh_events (run_package encode sha h call) = fh_events h"
  "fh_saved_view_revision (run_package encode sha h call) = fh_saved_view_revision h"
  "fh_saved_views (run_package encode sha h call) = fh_saved_views h"
  "fh_kiosk_operations (run_package encode sha h call) = fh_kiosk_operations h"
  "fh_awake_operations (run_package encode sha h call) = fh_awake_operations h"
  "fh_wifi_adb_operations (run_package encode sha h call) = fh_wifi_adb_operations h"
  "fh_hotspot_operations (run_package encode sha h call) = fh_hotspot_operations h"
  "fh_hotspot_observation (run_package encode sha h call) = fh_hotspot_observation h"
  "fh_kiosk_catalogs (run_package encode sha h call) = fh_kiosk_catalogs h"
  "fh_catalog_replays (run_package encode sha h call) = fh_catalog_replays h"
  "fh_catalog_associations (run_package encode sha h call) = fh_catalog_associations h"
  by (rule run_package_frame [of encode sha h call]; simp)+

lemma run_package_ok:
  assumes "package_stores_ok encode sha (fh_result_revision h) (package_stores h)"
  shows "package_stores_ok encode sha (fh_result_revision h) (package_stores (run_package encode sha h call))"
  using run_package_change [of encode sha h call] assms unfolding package_change_def
  by (blast intro: package_effects_ok)

lemma package_stores_ok_mono:
  "package_stores_ok encode sha v s \<Longrightarrow> v \<le> w \<Longrightarrow> package_stores_ok encode sha w s"
  unfolding package_stores_ok_def by (cases s) (fastforce intro: order_trans)

end
