(* ===== verification/Hub_Query.thy ===== *)
theory Hub_Query
  imports Hub_Kiosk
begin

text \<open>
  The read side of crates/fleet-hub/src/lib.rs: the row a device record projects to, the
  evaluation of query expressions over rows, the comparator that sorts them, and the list,
  inspect, detail and summary projections. \<open>uni\<close> is \<^verbatim>\<open>str::to_lowercase\<close> on strings with
  characters outside ASCII.
\<close>

section \<open>Rows\<close>

fun kiosk_text :: "kiosk_state \<Rightarrow> string" where
  "kiosk_text Kiosk_Active = ''active''"
| "kiosk_text Kiosk_Inactive = ''inactive''"
| "kiosk_text Kiosk_Mismatch = ''mismatch''"
| "kiosk_text Kiosk_Unknown = ''unknown''"

definition route_text :: "device_observation \<Rightarrow> projection_freshness \<Rightarrow> string" where
  "route_text obs freshness =
    (if freshness = Offline then ''offline''
     else case find (\<lambda>c. sc_family c = Family_Freshness) (do_conditions obs) of
       None \<Rightarrow> ''unknown''
     | Some c \<Rightarrow> sc_reason c)"

definition project_condition :: "i64 \<Rightarrow> status_condition \<Rightarrow> status_condition" where
  "project_condition now_ms c =
    (if is_stale_at c now_ms \<and> sc_state c \<notin> {Failed, Critical, Restricted}
     then c\<lparr>sc_state := Stale\<rparr> else c)"

definition supersedes :: "status_condition \<Rightarrow> status_condition \<Rightarrow> bool" where
  "supersedes c prior \<longleftrightarrow>
     (sc_accepted_revision c, sc_received_time_ms c) >
     (sc_accepted_revision prior, sc_received_time_ms prior)"

definition newest_step ::
  "i64 \<Rightarrow> status_condition \<Rightarrow> (condition_family, status_condition) btree_map \<Rightarrow>
   (condition_family, status_condition) btree_map" where
  "newest_step now_ms condition newest =
    (let projected = project_condition now_ms condition in
     if none_or (\<lambda>prior. supersedes projected prior) (bt_get newest (sc_family projected))
     then bt_insert (sc_family projected) projected newest
     else newest)"

definition newest_conditions ::
  "status_condition list \<Rightarrow> i64 \<Rightarrow> (condition_family, status_condition) btree_map" where
  "newest_conditions conditions now_ms = fold (newest_step now_ms) conditions bt_empty"

definition row_freshness :: "hub_policy \<Rightarrow> i64 \<Rightarrow> projection_freshness" where
  "row_freshness policy age_ms =
    (if age_ms > hp_offline_after_ms policy then Offline
     else if age_ms > hp_stale_after_ms policy then Projection_Stale
     else Fresh)"

definition hub_row :: "'a hub_state_scheme \<Rightarrow> device_record \<Rightarrow> i64 \<Rightarrow> device_row" where
  "hub_row h r now_ms =
    (let age_ms = max (i64_saturating_sub now_ms (rec_accepted_at_ms r)) 0;
         freshness = row_freshness (fh_policy h) age_ms;
         obs = rec_observation r
     in \<lparr>dr_schema = ''rusty.fleet.device_row.v1'',
         dr_identity = do_identity obs,
         dr_source_epoch = do_source_epoch obs,
         dr_accepted_revision = rec_accepted_revision r,
         dr_accepted_at_ms = rec_accepted_at_ms r,
         dr_age_ms = age_ms,
         dr_freshness = freshness,
         dr_battery_percent = do_battery_percent obs,
         dr_charging = do_charging obs,
         dr_foreground_app = do_foreground_app obs,
         dr_agent = do_agent obs,
         dr_power = do_power obs,
         dr_application = do_application obs,
         dr_kiosk_state = kiosk_text (do_kiosk_state obs),
         dr_route = route_text obs freshness,
         dr_conditions = newest_conditions (do_conditions obs) now_ms,
         dr_capabilities = do_capabilities obs,
         dr_stream_count = length (do_streams obs),
         dr_active_work_count = active_kiosk_operation_count h (di_device_id (do_identity obs)),
         dr_extensions = bt_empty\<rparr>)"

section \<open>Query evaluation\<close>

fun compare_ordering :: "ordering \<Rightarrow> comparison \<Rightarrow> bool \<Rightarrow> bool" where
  "compare_ordering ord Equals c = (ord = Equal)"
| "compare_ordering ord NotEquals c = (ord \<noteq> Equal)"
| "compare_ordering ord Contains c = c"
| "compare_ordering ord LessThan c = (ord = Less)"
| "compare_ordering ord LessThanOrEqual c = (ord \<noteq> Greater)"
| "compare_ordering ord GreaterThan c = (ord = Greater)"
| "compare_ordering ord GreaterThanOrEqual c = (ord \<noteq> Less)"
| "compare_ordering ord Exists c = True"

definition compare_text ::
  "(string \<Rightarrow> string) \<Rightarrow> string \<Rightarrow> comparison \<Rightarrow> query_value option \<Rightarrow> bool" where
  "compare_text uni actual comparison v =
    (if comparison = Exists then actual \<noteq> []
     else (let actual = to_lowercase uni actual in case v of
         Some (Text expected) \<Rightarrow>
           compare_ordering (cmp actual (to_lowercase uni expected)) comparison
             (str_contains actual (to_lowercase uni expected))
       | Some (TextList expected) \<Rightarrow>
           (let equal = list_ex (\<lambda>item. actual = to_lowercase uni item) expected in
            comparison = Equals \<and> equal \<or> comparison = NotEquals \<and> \<not> equal)
       | _ \<Rightarrow> False))"

definition compare_optional_integer :: "i64 option \<Rightarrow> comparison \<Rightarrow> query_value option \<Rightarrow> bool" where
  "compare_optional_integer actual comparison v =
    (if comparison = Exists then actual \<noteq> None
     else case (actual, v) of
       (Some a, Some (Integer expected)) \<Rightarrow> compare_ordering (cmp a expected) comparison False
     | _ \<Rightarrow> False)"

definition compare_bool :: "bool \<Rightarrow> comparison \<Rightarrow> query_value option \<Rightarrow> bool" where
  "compare_bool actual comparison v = (case v of
     Some (Boolean expected) \<Rightarrow>
       comparison = Equals \<and> actual = expected \<or> comparison = NotEquals \<and> actual \<noteq> expected
   | _ \<Rightarrow> False)"

fun freshness_text :: "projection_freshness \<Rightarrow> string" where
  "freshness_text Fresh = ''fresh''"
| "freshness_text Projection_Stale = ''stale''"
| "freshness_text Offline = ''offline''"
| "freshness_text Projection_Unknown = ''unknown''"

fun family_text :: "condition_family \<Rightarrow> string" where
  "family_text Family_Identity = ''identity''"
| "family_text Family_Freshness = ''freshness''"
| "family_text Family_Power = ''power''"
| "family_text Family_Application = ''application''"
| "family_text Family_Control = ''control''"
| "family_text Family_Privileged = ''privileged''"
| "family_text Family_Media = ''media''"
| "family_text Family_Work = ''work''"
| "family_text Family_Alert = ''alert''"

definition condition_values :: "device_row \<Rightarrow> string list" where
  "condition_values row = map family_text (bt_keys (dr_conditions row))"

fun condition_state_text :: "condition_state \<Rightarrow> string" where
  "condition_state_text Current = ''current''"
| "condition_state_text InProgress = ''in_progress''"
| "condition_state_text Busy = ''busy''"
| "condition_state_text Stale = ''stale''"
| "condition_state_text Unknown = ''unknown''"
| "condition_state_text Unsupported = ''unsupported''"
| "condition_state_text Disabled = ''disabled''"
| "condition_state_text Unauthorized = ''unauthorized''"
| "condition_state_text Disconnected = ''disconnected''"
| "condition_state_text Unavailable = ''unavailable''"
| "condition_state_text Degraded = ''degraded''"
| "condition_state_text Failed = ''failed''"
| "condition_state_text Critical = ''critical''"
| "condition_state_text Restricted = ''restricted''"

definition evaluate_predicate ::
  "(string \<Rightarrow> string) \<Rightarrow> query_field \<Rightarrow> comparison \<Rightarrow> query_value option \<Rightarrow> string option \<Rightarrow>
   device_row \<Rightarrow> bool" where
  "evaluate_predicate uni field comparison v qualifier row =
    (let compare = (\<lambda>actual. compare_text uni actual comparison v);
         identity = dr_identity row
     in case field of
       Field_DeviceId \<Rightarrow> compare (di_device_id identity)
     | Field_DisplayName \<Rightarrow> compare (di_display_name identity)
     | Field_Model \<Rightarrow> compare (di_model identity)
     | Field_Tag \<Rightarrow>
         some_and compare (Option.bind qualifier (bt_get (di_tags identity)))
     | Field_Freshness \<Rightarrow> compare (freshness_text (dr_freshness row))
     | Field_BatteryPercent \<Rightarrow>
         compare_optional_integer (map_option int (dr_battery_percent row)) comparison v
     | Field_ForegroundApp \<Rightarrow> some_and compare (dr_foreground_app row)
     | Field_KioskState \<Rightarrow> compare (dr_kiosk_state row)
     | Field_Capability \<Rightarrow>
         some_and (\<lambda>capability.
           if comparison = Exists then True else compare_bool (is_ready capability) comparison v)
           (Option.bind qualifier (capability_get (dr_capabilities row)))
     | Field_ConditionFamily \<Rightarrow> list_ex compare (condition_values row)
     | Field_ConditionState \<Rightarrow>
         list_ex compare
           (map (\<lambda>c. condition_state_text (sc_state c)) (bt_values (dr_conditions row))))"

fun evaluate :: "(string \<Rightarrow> string) \<Rightarrow> query_expression \<Rightarrow> device_row \<Rightarrow> bool" where
  "evaluate uni (Predicate field comparison v qualifier) row =
     evaluate_predicate uni field comparison v qualifier row"
| "evaluate uni (And expressions) row = list_all (\<lambda>e. evaluate uni e row) expressions"
| "evaluate uni (Or expressions) row = list_ex (\<lambda>e. evaluate uni e row) expressions"
| "evaluate uni (Not expression) row = (\<not> evaluate uni expression row)"

section \<open>Sorting\<close>

fun freshness_rank :: "projection_freshness \<Rightarrow> u8" where
  "freshness_rank Fresh = 0"
| "freshness_rank Projection_Stale = 1"
| "freshness_rank Offline = 2"
| "freshness_rank Projection_Unknown = 3"

definition compare_field :: "query_field \<Rightarrow> string option \<Rightarrow> device_row \<Rightarrow> device_row \<Rightarrow> ordering" where
  "compare_field field qualifier left right = (case field of
     Field_DeviceId \<Rightarrow> cmp (di_device_id (dr_identity left)) (di_device_id (dr_identity right))
   | Field_DisplayName \<Rightarrow> cmp (di_display_name (dr_identity left)) (di_display_name (dr_identity right))
   | Field_Model \<Rightarrow> cmp (di_model (dr_identity left)) (di_model (dr_identity right))
   | Field_Freshness \<Rightarrow> cmp (freshness_rank (dr_freshness left)) (freshness_rank (dr_freshness right))
   | Field_BatteryPercent \<Rightarrow> cmp_option (dr_battery_percent left) (dr_battery_percent right)
   | Field_ForegroundApp \<Rightarrow> cmp_option (dr_foreground_app left) (dr_foreground_app right)
   | Field_KioskState \<Rightarrow> cmp (dr_kiosk_state left) (dr_kiosk_state right)
   | Field_Tag \<Rightarrow> (case qualifier of
         Some q \<Rightarrow> cmp_option (bt_get (di_tags (dr_identity left)) q) (bt_get (di_tags (dr_identity right)) q)
       | None \<Rightarrow> Equal)
   | _ \<Rightarrow> Equal)"

definition compare_key :: "sort_key \<Rightarrow> device_row \<Rightarrow> device_row \<Rightarrow> ordering" where
  "compare_key key left right =
    (let ord = compare_field (sk_field key) (sk_qualifier key) left right in
     case sk_direction key of Ascending \<Rightarrow> ord | Descending \<Rightarrow> ord_reverse ord)"

fun compare_keys :: "sort_key list \<Rightarrow> device_row \<Rightarrow> device_row \<Rightarrow> ordering" where
  "compare_keys [] left right =
     ord_then (cmp (di_display_name (dr_identity left)) (di_display_name (dr_identity right)))
       (cmp (di_device_id (dr_identity left)) (di_device_id (dr_identity right)))"
| "compare_keys (key # keys) left right =
    (let ord = compare_key key left right in
     if ord \<noteq> Equal then ord else compare_keys keys left right)"

definition compare_rows :: "fleet_query \<Rightarrow> device_row \<Rightarrow> device_row \<Rightarrow> ordering" where
  "compare_rows query left right = compare_keys (fq_sort query) left right"

section \<open>The read API\<close>

definition hub_list ::
  "(string \<Rightarrow> string) \<Rightarrow> 'a hub_state_scheme \<Rightarrow> fleet_query \<Rightarrow> i64 \<Rightarrow> hub_error + fleet_query_result" where
  "hub_list uni h query now_ms = (case validate_query query of
     Inl failures \<Rightarrow> Inl (hub_error ''invalid_query'' (join_with '','' (map cv_code failures)))
   | Inr _ \<Rightarrow>
       (let rows = filter (\<lambda>row. none_or (\<lambda>e. evaluate uni e row) (fq_expression query))
              (map (\<lambda>r. hub_row h r now_ms) (bt_values (fh_devices h)));
            rows = sort_by (compare_rows query) rows;
            total_count = length rows;
            offset = min (fq_offset query) total_count;
            end' = min (u64_saturating_add offset (fq_limit query)) total_count;
            rows = take (end' - offset) (drop offset rows)
        in Inr \<lparr>fqr_schema = ''rusty.fleet.query_result.v1'',
                fqr_query = query,
                fqr_result_revision = fh_result_revision h,
                fqr_as_of_ms = now_ms,
                fqr_total_count = total_count,
                fqr_window_offset = offset,
                fqr_window_count = length rows,
                fqr_rows = rows\<rparr>))"

definition needs_attention :: "i64 \<Rightarrow> status_condition \<Rightarrow> bool" where
  "needs_attention now_ms c \<longleftrightarrow> is_stale_at c now_ms \<or> sc_state c \<in> {Degraded, Failed, Critical}"

definition find_device :: "'a hub_state_scheme \<Rightarrow> string \<Rightarrow> hub_error + device_record" where
  "find_device h device_id = (case bt_get (fh_devices h) device_id of
     None \<Rightarrow> Inl (hub_error ''device_not_found'' (''unknown device '' @ device_id))
   | Some r \<Rightarrow> Inr r)"

definition inspector_of :: "'a hub_state_scheme \<Rightarrow> device_record \<Rightarrow> i64 \<Rightarrow> device_inspector" where
  "inspector_of h r now_ms =
    (let row = hub_row h r now_ms in
     \<lparr>dins_schema = ''rusty.fleet.device_inspector.v1'',
      dins_row = row,
      dins_attention = filter (needs_attention now_ms) (bt_values (dr_conditions row)),
      dins_streams = do_streams (rec_observation r),
      dins_active_operations = []\<rparr>)"

definition hub_inspect :: "'a hub_state_scheme \<Rightarrow> string \<Rightarrow> i64 \<Rightarrow> hub_error + device_inspector" where
  "hub_inspect h device_id now_ms =
    (case find_device h device_id of Inl e \<Rightarrow> Inl e | Inr r \<Rightarrow> Inr (inspector_of h r now_ms))"

definition hub_detail :: "'a hub_state_scheme \<Rightarrow> string \<Rightarrow> i64 \<Rightarrow> hub_error + device_detail" where
  "hub_detail h device_id now_ms = (case find_device h device_id of
     Inl e \<Rightarrow> Inl e
   | Inr r \<Rightarrow> (case hub_inspect h device_id now_ms of
       Inl e \<Rightarrow> Inl e
     | Inr inspector \<Rightarrow> Inr
         \<lparr>dd_schema = ''rusty.fleet.device_detail.v1'',
          dd_inspector = inspector,
          dd_condition_history = rec_condition_history r,
          dd_operation_history = []\<rparr>))"

definition count_rows :: "(device_row \<Rightarrow> bool) \<Rightarrow> device_row list \<Rightarrow> usize" where
  "count_rows p rows = length (filter p rows)"

definition hub_summary :: "'a hub_state_scheme \<Rightarrow> i64 \<Rightarrow> fleet_summary" where
  "hub_summary h now_ms =
    (let rows = map (\<lambda>r. hub_row h r now_ms) (bt_values (fh_devices h)) in
     \<lparr>fsum_schema = ''rusty.fleet.summary.v1'',
      fsum_as_of_ms = now_ms,
      fsum_total = length rows,
      fsum_fresh = count_rows (\<lambda>row. dr_freshness row = Fresh) rows,
      fsum_stale = count_rows (\<lambda>row. dr_freshness row = Projection_Stale) rows,
      fsum_offline = count_rows (\<lambda>row. dr_freshness row = Offline) rows,
      fsum_attention =
        count_rows (\<lambda>row. list_ex (needs_attention now_ms) (bt_values (dr_conditions row))) rows,
      fsum_active_work = sum_list (map dr_active_work_count rows)\<rparr>)"

end
