(* ===== verification/Hub_Catalogs.thy ===== *)
theory Hub_Catalogs
  imports Hub_Query Hub_Owner
begin

text \<open>
  crates/fleet-hub/src/kiosk_apps.rs: the catalogs of installed applications the Hub keeps per
  headset, their admission over the verified route, and the two reads over them. Admission works on
  a clone of the Hub that replaces it only when every step succeeded, so an error changes nothing.
\<close>

section \<open>Admission\<close>

definition max_kiosk_catalogs :: usize where
  "max_kiosk_catalogs = 1000"

definition max_kiosk_catalog_replay_identities :: usize where
  "max_kiosk_catalog_replay_identities = 10000"

definition catalog_regression :: "catalog \<Rightarrow> i64 \<Rightarrow> catalog_record \<Rightarrow> hub_error option" where
  "catalog_regression s received_at_ms existing =
    (if received_at_ms < ckr_received_at_ms existing
     then Some (hub_error ''kiosk_catalog_receive_time_regression'' ''catalog receive time cannot regress'')
     else if kc_observed_at_ms s \<le> kc_observed_at_ms (ckr_snapshot existing)
     then Some (hub_error ''kiosk_catalog_observation_regression''
       ''catalog owner observation time must increase'')
     else None)"

definition accept_kiosk_catalog_internal ::
  "(string \<Rightarrow> string) \<Rightarrow> 'a hub_state_scheme \<Rightarrow> catalog \<Rightarrow> i64 \<Rightarrow> 'a hub_state_scheme \<times> (hub_error + unit)" where
  "accept_kiosk_catalog_internal uni h s received_at_ms =
    (case validate_catalog uni s of
       Inl failures \<Rightarrow> (h, Inl (hub_error ''kiosk_catalog_invalid'' (path_code_text failures)))
     | Inr _ \<Rightarrow>
         if received_at_ms < kc_observed_at_ms s
         then (h, Inl (hub_error ''kiosk_catalog_receive_time_invalid''
           ''catalog receive time cannot precede its owner observation''))
         else case bt_get (fh_devices h) (kc_device_id s) of
           None \<Rightarrow> (h, Inl (hub_error ''kiosk_catalog_device_unknown''
             ''catalog device is not enrolled in Fleet''))
         | Some device \<Rightarrow>
             if di_identity_revision (do_identity (rec_observation device)) \<noteq> kc_identity_revision s
             then (h, Inl (hub_error ''kiosk_catalog_identity_mismatch''
               ''catalog does not bind the current Fleet identity revision''))
             else case Option.bind (bt_get (fh_kiosk_catalogs h) (kc_device_id s))
                 (catalog_regression s received_at_ms) of
               Some e \<Rightarrow> (h, Inl e)
             | None \<Rightarrow>
                 if \<not> bt_contains_key (fh_kiosk_catalogs h) (kc_device_id s) \<and>
                    bt_len (fh_kiosk_catalogs h) \<ge> max_kiosk_catalogs
                 then (h, Inl (hub_error ''kiosk_catalog_full'' ''catalogue observation capacity reached''))
                 else (h\<lparr>fh_kiosk_catalogs := bt_insert (kc_device_id s) \<lparr>
                            ckr_snapshot = s, ckr_received_at_ms = received_at_ms,
                            ckr_source_epoch = do_source_epoch (rec_observation device),
                            ckr_production_admission = None\<rparr> (fh_kiosk_catalogs h),
                          fh_result_revision := u64_saturating_add (fh_result_revision h) 1\<rparr>, Inr ()))"

definition catalog_admission_expired :: "catalog_admission \<Rightarrow> i64 \<Rightarrow> bool" where
  "catalog_admission_expired a received_at_ms \<longleftrightarrow>
     received_at_ms < cb_issued_at_ms (cad_binding a) \<or> received_at_ms > cb_expires_at_ms (cad_binding a) \<or>
     received_at_ms < kc_observed_at_ms (cad_snapshot a) \<or> received_at_ms > kc_fresh_until_ms (cad_snapshot a)"

definition catalog_capability_mismatch :: "catalog_binding \<Rightarrow> i64 \<Rightarrow> capability_state \<Rightarrow> bool" where
  "catalog_capability_mismatch b received_at_ms c \<longleftrightarrow>
     cap_owner c \<noteq> ''rusty-kiosk'' \<or> \<not> is_ready c \<or>
     cap_evidence_revision c \<noteq> cb_capability_evidence_revision b \<or> received_at_ms > cap_fresh_until_ms c"

definition retain_production_binding ::
  "'a hub_state_scheme \<Rightarrow> catalog_binding \<Rightarrow> string \<Rightarrow> 'a hub_state_scheme \<times> (hub_error + unit)" where
  "retain_production_binding h b device_id = (case bt_get (fh_kiosk_catalogs h) device_id of
     None \<Rightarrow> (h, Inl (hub_error ''kiosk_production_catalog_internal''
       ''production catalog was not retained after validation''))
   | Some r \<Rightarrow> (h\<lparr>fh_kiosk_catalogs :=
         bt_insert device_id (r\<lparr>ckr_production_admission := Some b\<rparr>) (fh_kiosk_catalogs h),
       fh_catalog_replays := bt_insert (cb_replay_identity b) () (fh_catalog_replays h)\<rparr>, Inr ()))"

text \<open>\<open>self.clone()\<close>, changed and put back on success.\<close>

definition on_clone :: "'s \<Rightarrow> 's \<times> ('e + unit) \<Rightarrow> ('s \<Rightarrow> 's \<times> ('e + unit)) \<Rightarrow> 's \<times> ('e + unit)" where
  "on_clone h r f = (case snd r of Inl e \<Rightarrow> (h, Inl e)
     | Inr _ \<Rightarrow> (case snd (f (fst r)) of Inl e \<Rightarrow> (h, Inl e) | Inr _ \<Rightarrow> (fst (f (fst r)), Inr ())))"

definition accept_production_kiosk_catalog ::
  "(string \<Rightarrow> string) \<Rightarrow> 'a hub_state_scheme \<Rightarrow> catalog_admission \<Rightarrow> i64 \<Rightarrow>
   'a hub_state_scheme \<times> (hub_error + unit)" where
  "accept_production_kiosk_catalog uni h a received_at_ms =
    (case validate_catalog_admission uni a of
       Inl failures \<Rightarrow> (h, Inl (hub_error ''kiosk_production_catalog_invalid'' (path_code_text failures)))
     | Inr _ \<Rightarrow>
         if catalog_admission_expired a received_at_ms
         then (h, Inl (hub_error ''kiosk_production_catalog_expired''
           ''production catalog admission is outside its exact verified freshness window''))
         else if bt_contains_key (fh_catalog_replays h) (cb_replay_identity (cad_binding a))
         then (h, Inl (hub_error ''kiosk_production_catalog_replay''
           ''production Kiosk catalog replay identity was already consumed''))
         else if bt_len (fh_catalog_replays h) \<ge> max_kiosk_catalog_replay_identities
         then (h, Inl (hub_error ''kiosk_production_catalog_replay_evidence_full''
           ''production Kiosk catalog replay evidence reached its durable bound''))
         else case bt_get (fh_devices h) (kc_device_id (cad_snapshot a)) of
           None \<Rightarrow> (h, Inl (hub_error ''kiosk_catalog_device_unknown''
             ''production catalog device is not enrolled in Fleet''))
         | Some device \<Rightarrow>
             (case capability_get (do_capabilities (rec_observation device)) (cb_capability_id (cad_binding a)) of
                None \<Rightarrow> (h, Inl (hub_error ''kiosk_production_capability_absent''
                  ''production catalog lacks current Kiosk capability evidence''))
              | Some c \<Rightarrow>
                  if catalog_capability_mismatch (cad_binding a) received_at_ms c
                  then (h, Inl (hub_error ''kiosk_production_capability_mismatch''
                    ''production catalog does not bind current ready Kiosk capability evidence''))
                  else on_clone h (accept_kiosk_catalog_internal uni h (cad_snapshot a) received_at_ms)
                    (\<lambda>candidate. retain_production_binding candidate (cad_binding a)
                       (kc_device_id (cad_snapshot a)))))"

definition catalog_association :: "catalog_admission \<Rightarrow> string \<Rightarrow> u64 \<times> string \<times> string" where
  "catalog_association a profile_id =
     (kc_identity_revision (cad_snapshot a), profile_id, kc_kiosk_owner_epoch (cad_snapshot a))"

definition kiosk_catalog_association :: "'a hub_state_scheme \<Rightarrow> string \<Rightarrow> (u64 \<times> string \<times> string) option" where
  "kiosk_catalog_association h device_id = bt_get (fh_catalog_associations h) device_id"

definition accept_profiled_kiosk_catalog ::
  "(string \<Rightarrow> string) \<Rightarrow> 'a hub_state_scheme \<Rightarrow> catalog_admission \<Rightarrow> string \<Rightarrow> i64 \<Rightarrow>
   'a hub_state_scheme \<times> (hub_error + unit)" where
  "accept_profiled_kiosk_catalog uni h a profile_id received_at_ms =
    (let device_id = kc_device_id (cad_snapshot a); association = catalog_association a profile_id in
     if some_and (\<lambda>old. old \<noteq> association) (bt_get (fh_catalog_associations h) device_id)
     then (h, Inl (hub_error ''kiosk_catalog_setup_required''
       ''stored identity, profile or owner association differs; explicit setup required''))
     else if \<not> valid_token profile_id 8 128 \<or>
        \<not> bt_contains_key (fh_catalog_associations h) device_id \<and>
        bt_len (fh_catalog_associations h) \<ge> max_kiosk_catalogs
     then (h, Inl (hub_error ''kiosk_catalog_setup_invalid'' ''profile association is invalid or full''))
     else on_clone h (accept_production_kiosk_catalog uni h a received_at_ms)
       (\<lambda>candidate. (candidate\<lparr>fh_catalog_associations :=
          bt_insert device_id association (fh_catalog_associations candidate)\<rparr>, Inr ())))"

section \<open>Search\<close>

definition catalog_current :: "device_record \<Rightarrow> catalog_record \<Rightarrow> bool" where
  "catalog_current device r \<longleftrightarrow>
     kc_identity_revision (ckr_snapshot r) = di_identity_revision (do_identity (rec_observation device)) \<and>
     ckr_source_epoch r = do_source_epoch (rec_observation device)"

definition new_match :: "catalog_entry \<Rightarrow> string \<Rightarrow> app_match" where
  "new_match e query = \<lparr>
     am_app_identity = ce_app_identity e, am_display_label = ce_display_label e,
     am_disambiguator = ce_disambiguator e, am_package_name = ce_package_name e,
     am_matched_tags = filter (\<lambda>tag. str_contains tag query) (ce_tags e),
     am_current_device_count = 0, am_refresh_required_device_count = 0\<rparr>"

definition add_tag :: "string \<Rightarrow> string list \<Rightarrow> string list" where
  "add_tag tag tags = (if tag \<in> set tags then tags else tags @ [tag])"

definition merge_entry :: "catalog_entry \<Rightarrow> string \<Rightarrow> app_match \<Rightarrow> app_match" where
  "merge_entry e query m = m\<lparr>
     am_package_name := (if am_package_name m = None then ce_package_name e else am_package_name m),
     am_matched_tags := sort_by cmp (fold add_tag (filter (\<lambda>tag. str_contains tag query) (ce_tags e))
       (am_matched_tags m)),
     am_current_device_count := am_current_device_count m + 1\<rparr>"

type_synonym app_matches = "(string, app_match) btree_map"

definition match_entry :: "string \<Rightarrow> catalog_entry \<Rightarrow> app_matches \<Rightarrow> app_matches" where
  "match_entry query e matches =
    (let item = (case bt_get matches (ce_app_identity e) of None \<Rightarrow> new_match e query | Some m \<Rightarrow> m)
     in bt_insert (ce_app_identity e) (merge_entry e query item) matches)"

definition search_catalog ::
  "(string \<Rightarrow> string) \<Rightarrow> string \<Rightarrow> i64 \<Rightarrow> catalog \<Rightarrow> catalog_coverage \<times> app_matches \<Rightarrow>
   catalog_coverage \<times> app_matches" where
  "search_catalog uni query now_ms s acc = (case acc of (coverage, matches) \<Rightarrow>
    if \<not> cg_catalog_summary (kc_grants s) \<or> kc_permission_limited_count s > 0
    then (coverage\<lparr>cov_permission_limited := cov_permission_limited coverage + 1\<rparr>, matches)
    else if \<not> kc_complete s
    then (coverage\<lparr>cov_incomplete := cov_incomplete coverage + 1\<rparr>, matches)
    else if now_ms > kc_fresh_until_ms s
    then (coverage\<lparr>cov_stale := cov_stale coverage + 1\<rparr>, matches)
    else (coverage\<lparr>cov_current := cov_current coverage + 1\<rparr>,
      fold (match_entry query) (filter (\<lambda>e. catalog_entry_matches uni e query) (kc_entries s)) matches))"

definition search_device ::
  "(string \<Rightarrow> string) \<Rightarrow> 'a hub_state_scheme \<Rightarrow> string \<Rightarrow> i64 \<Rightarrow> string \<times> device_record \<Rightarrow>
   catalog_coverage \<times> app_matches \<Rightarrow> catalog_coverage \<times> app_matches" where
  "search_device uni h query now_ms device acc =
    (case bt_get (fh_kiosk_catalogs h) (fst device) of
       None \<Rightarrow> (fst acc\<lparr>cov_absent := cov_absent (fst acc) + 1\<rparr>, snd acc)
     | Some r \<Rightarrow>
         if \<not> catalog_current (snd device) r
         then (fst acc\<lparr>cov_absent := cov_absent (fst acc) + 1\<rparr>, snd acc)
         else search_catalog uni query now_ms (ckr_snapshot r) acc)"

definition no_coverage :: catalog_coverage where
  "no_coverage = \<lparr>cov_current = 0, cov_stale = 0, cov_absent = 0, cov_incomplete = 0,
     cov_permission_limited = 0\<rparr>"

definition compare_matches :: "(string \<Rightarrow> string) \<Rightarrow> app_match \<Rightarrow> app_match \<Rightarrow> ordering" where
  "compare_matches uni left right =
     ord_then (cmp (to_lowercase uni (am_display_label left)) (to_lowercase uni (am_display_label right)))
       (cmp (am_app_identity left) (am_app_identity right))"

definition kiosk_app_search ::
  "(string \<Rightarrow> string) \<Rightarrow> 'a hub_state_scheme \<Rightarrow> app_search_request \<Rightarrow> i64 \<Rightarrow> hub_error + app_search_result" where
  "kiosk_app_search uni h request now_ms = (case validate_app_search_request request of
     Inl failures \<Rightarrow> Inl (hub_error ''kiosk_app_query_invalid'' (join_with '','' (map cv_code failures)))
   | Inr _ \<Rightarrow>
      (let query = normalize_catalog_text uni (asr_query request);
           found = fold (search_device uni h query now_ms) (entries (fh_devices h)) (no_coverage, bt_empty)
       in Inr \<lparr>
         asx_schema = ''rusty.fleet.kiosk_app_search_result.v1'',
         asx_query = asr_query request,
         asx_normalized_query = query,
         asx_as_of_ms = now_ms,
         asx_coverage = fst found,
         asx_matches = take (asr_limit request) (sort_by (compare_matches uni) (bt_values (snd found)))\<rparr>))"

section \<open>Candidates\<close>

definition app_candidate_of ::
  "'a hub_state_scheme \<Rightarrow> catalog_record \<Rightarrow> catalog_entry \<Rightarrow> device_record \<Rightarrow> i64 \<Rightarrow> app_candidate" where
  "app_candidate_of h r e device now_ms = \<lparr>
     ac_app_identity = ce_app_identity e,
     ac_display_label = ce_display_label e,
     ac_disambiguator = ce_disambiguator e,
     ac_package_name = ce_package_name e,
     ac_catalog_snapshot_id = kc_snapshot_id (ckr_snapshot r),
     ac_kiosk_owner_epoch = kc_kiosk_owner_epoch (ckr_snapshot r),
     ac_catalog_revision = kc_catalog_revision (ckr_snapshot r),
     ac_snapshot_digest = kc_snapshot_digest (ckr_snapshot r),
     ac_catalog_entry_id = ce_entry_id e,
     ac_entry_digest = ce_entry_digest e,
     ac_catalog_age_ms = max (i64_saturating_sub now_ms (kc_observed_at_ms (ckr_snapshot r))) 0,
     ac_catalog_freshness = (if now_ms \<le> kc_fresh_until_ms (ckr_snapshot r) then Fresh else Projection_Stale),
     ac_catalog_complete = kc_complete (ckr_snapshot r),
     ac_grant_expires_at_ms = map_option cb_expires_at_ms (ckr_production_admission r),
     ac_row = hub_row h device now_ms\<rparr>"

definition candidate_in ::
  "'a hub_state_scheme \<Rightarrow> string \<Rightarrow> i64 \<Rightarrow> string \<times> catalog_record \<Rightarrow> app_candidate list" where
  "candidate_in h app_identity now_ms kept =
    (case find (\<lambda>e. ce_app_identity e = app_identity) (kc_entries (ckr_snapshot (snd kept))) of
       None \<Rightarrow> []
     | Some e \<Rightarrow> (case bt_get (fh_devices h) (fst kept) of
         None \<Rightarrow> []
       | Some device \<Rightarrow>
           if catalog_current device (snd kept) then [app_candidate_of h (snd kept) e device now_ms] else []))"

definition compare_candidates :: "app_candidate \<Rightarrow> app_candidate \<Rightarrow> ordering" where
  "compare_candidates left right =
     ord_then (cmp (di_display_name (dr_identity (ac_row left))) (di_display_name (dr_identity (ac_row right))))
       (cmp (di_device_id (dr_identity (ac_row left))) (di_device_id (dr_identity (ac_row right))))"

definition kiosk_app_candidates ::
  "'a hub_state_scheme \<Rightarrow> string \<Rightarrow> i64 \<Rightarrow> hub_error + app_candidates_result" where
  "kiosk_app_candidates h app_identity now_ms =
    (if app_identity = [] \<or> length app_identity > 160
     then Inl (hub_error ''kiosk_app_identity_invalid'' ''exact Kiosk app identity is required'')
     else Inr \<lparr>
       acx_schema = ''rusty.fleet.kiosk_app_candidates_result.v1'',
       acx_app_identity = app_identity,
       acx_as_of_ms = now_ms,
       acx_candidates = sort_by compare_candidates
         (concat (map (candidate_in h app_identity now_ms) (entries (fh_kiosk_catalogs h))))\<rparr>)"

end
