(* ===== verification/Hub_Catalog_Facts.thy ===== *)
theory Hub_Catalog_Facts
  imports Hub_Catalogs Hub_Acceptance
begin

text \<open>
  The admission of a catalog seen as one step of the Hub, and what always holds of the catalogs, the
  consumed replay identities and the associations the Hub keeps.
\<close>

lemma bt_insert_insert [simp]: "bt_insert k x (bt_insert k y m) = bt_insert k x m"
  by (rule btree_map_eqI) simp

definition admitted_catalog :: "catalog_admission \<Rightarrow> i64 \<Rightarrow> device_record \<Rightarrow> catalog_record" where
  "admitted_catalog a received_at_ms device = \<lparr>
     ckr_snapshot = cad_snapshot a, ckr_received_at_ms = received_at_ms,
     ckr_source_epoch = do_source_epoch (rec_observation device),
     ckr_production_admission = Some (cad_binding a)\<rparr>"

definition admitted_hub ::
  "'a hub_state_scheme \<Rightarrow> catalog_admission \<Rightarrow> string \<Rightarrow> i64 \<Rightarrow> device_record \<Rightarrow> 'a hub_state_scheme" where
  "admitted_hub h a profile_id received_at_ms device = h\<lparr>
     fh_kiosk_catalogs := bt_insert (kc_device_id (cad_snapshot a)) (admitted_catalog a received_at_ms device)
       (fh_kiosk_catalogs h),
     fh_catalog_replays := bt_insert (cb_replay_identity (cad_binding a)) () (fh_catalog_replays h),
     fh_catalog_associations := bt_insert (kc_device_id (cad_snapshot a)) (catalog_association a profile_id)
       (fh_catalog_associations h),
     fh_result_revision := u64_saturating_add (fh_result_revision h) 1\<rparr>"

text \<open>What an admission that is accepted has passed.\<close>

definition catalog_admissible ::
  "(string \<Rightarrow> string) \<Rightarrow> 'a hub_state_scheme \<Rightarrow> catalog_admission \<Rightarrow> string \<Rightarrow> i64 \<Rightarrow> device_record \<Rightarrow> bool" where
  "catalog_admissible uni h a profile_id received_at_ms device \<longleftrightarrow>
     (let d = kc_device_id (cad_snapshot a) in
      none_or (\<lambda>old. old = catalog_association a profile_id) (bt_get (fh_catalog_associations h) d) \<and>
      valid_token profile_id 8 128 \<and>
      (bt_contains_key (fh_catalog_associations h) d \<or> bt_len (fh_catalog_associations h) < max_kiosk_catalogs) \<and>
      valid (validate_catalog_admission uni a) \<and> \<not> catalog_admission_expired a received_at_ms \<and>
      \<not> bt_contains_key (fh_catalog_replays h) (cb_replay_identity (cad_binding a)) \<and>
      bt_len (fh_catalog_replays h) < max_kiosk_catalog_replay_identities \<and>
      bt_get (fh_devices h) d = Some device \<and>
      di_identity_revision (do_identity (rec_observation device)) = kc_identity_revision (cad_snapshot a) \<and>
      (\<exists>c. capability_get (do_capabilities (rec_observation device)) kiosk_capability_id = Some c \<and>
         \<not> catalog_capability_mismatch (cad_binding a) received_at_ms c) \<and>
      none_or (\<lambda>r. ckr_received_at_ms r \<le> received_at_ms \<and>
          kc_observed_at_ms (ckr_snapshot r) < kc_observed_at_ms (cad_snapshot a))
        (bt_get (fh_kiosk_catalogs h) d) \<and>
      (bt_contains_key (fh_kiosk_catalogs h) d \<or> bt_len (fh_kiosk_catalogs h) < max_kiosk_catalogs))"

lemma admission_valid_parts:
  assumes "valid (validate_catalog_admission uni a)"
  shows "valid (validate_catalog uni (cad_snapshot a))" "catalog_binding_failures (cad_binding a) = []"
    "\<not> catalog_binding_mismatch (cad_binding a) (cad_snapshot a)"
    "cb_capability_id (cad_binding a) = kiosk_capability_id"
proof -
  show "valid (validate_catalog uni (cad_snapshot a))" "catalog_binding_failures (cad_binding a) = []"
    "\<not> catalog_binding_mismatch (cad_binding a) (cad_snapshot a)"
    using assms by (simp_all add: validate_catalog_admission_def validate_catalog_binding_def validate_catalog_def)
  then show "cb_capability_id (cad_binding a) = kiosk_capability_id"
    by (simp add: catalog_binding_failures_def)
qed

lemma no_regression:
  "Option.bind m (catalog_regression s t) = None \<longleftrightarrow>
   none_or (\<lambda>r. ckr_received_at_ms r \<le> t \<and> kc_observed_at_ms (ckr_snapshot r) < kc_observed_at_ms s) m"
  by (cases m) (auto simp: catalog_regression_def)

lemma internal_accepts_iff:
  "snd (accept_kiosk_catalog_internal uni h s t) = Inr u \<longleftrightarrow>
     valid (validate_catalog uni s) \<and> kc_observed_at_ms s \<le> t \<and>
     (\<exists>device. bt_get (fh_devices h) (kc_device_id s) = Some device \<and>
        di_identity_revision (do_identity (rec_observation device)) = kc_identity_revision s \<and>
        none_or (\<lambda>r. ckr_received_at_ms r \<le> t \<and> kc_observed_at_ms (ckr_snapshot r) < kc_observed_at_ms s)
          (bt_get (fh_kiosk_catalogs h) (kc_device_id s)) \<and>
        (bt_contains_key (fh_kiosk_catalogs h) (kc_device_id s) \<or>
         bt_len (fh_kiosk_catalogs h) < max_kiosk_catalogs))"
proof (cases "bt_get (fh_devices h) (kc_device_id s)")
  case None
  then show ?thesis by (simp add: accept_kiosk_catalog_internal_def split: sum.split)
next
  case (Some device)
  show ?thesis
    by (cases "Option.bind (bt_get (fh_kiosk_catalogs h) (kc_device_id s)) (catalog_regression s t)")
      (auto simp: accept_kiosk_catalog_internal_def Some valid_def not_le no_regression [symmetric]
        simp del: none_or_iff split: sum.split)
qed

lemma internal_accepts_hub:
  assumes "snd (accept_kiosk_catalog_internal uni h s t) = Inr u"
    and "bt_get (fh_devices h) (kc_device_id s) = Some device"
  shows "fst (accept_kiosk_catalog_internal uni h s t) =
     h\<lparr>fh_kiosk_catalogs := bt_insert (kc_device_id s) \<lparr>ckr_snapshot = s, ckr_received_at_ms = t,
          ckr_source_epoch = do_source_epoch (rec_observation device),
          ckr_production_admission = None\<rparr> (fh_kiosk_catalogs h),
       fh_result_revision := u64_saturating_add (fh_result_revision h) 1\<rparr>"
  using assms unfolding accept_kiosk_catalog_internal_def
  by (auto split: sum.splits option.splits if_splits)

text \<open>An admission is accepted exactly when it is admissible, and otherwise nothing changes.\<close>

lemma profiled_accepts_iff:
  "snd (accept_profiled_kiosk_catalog uni h a profile_id t) = Inr u \<longleftrightarrow>
   (\<exists>device. catalog_admissible uni h a profile_id t device)"
proof
  assume accepted: "snd (accept_profiled_kiosk_catalog uni h a profile_id t) = Inr u"
  then have profile: "none_or (\<lambda>old. old = catalog_association a profile_id)
      (bt_get (fh_catalog_associations h) (kc_device_id (cad_snapshot a)))" "valid_token profile_id 8 128"
    "bt_contains_key (fh_catalog_associations h) (kc_device_id (cad_snapshot a)) \<or>
     bt_len (fh_catalog_associations h) < max_kiosk_catalogs"
    and production: "\<exists>u. snd (accept_production_kiosk_catalog uni h a t) = Inr u"
    by (auto simp: accept_profiled_kiosk_catalog_def Let_def on_clone_def split: if_splits sum.splits)
  from production obtain device where valid: "valid (validate_catalog_admission uni a)"
    and facts: "\<not> catalog_admission_expired a t"
      "\<not> bt_contains_key (fh_catalog_replays h) (cb_replay_identity (cad_binding a))"
      "bt_len (fh_catalog_replays h) < max_kiosk_catalog_replay_identities"
      "bt_get (fh_devices h) (kc_device_id (cad_snapshot a)) = Some device"
      "\<exists>c. capability_get (do_capabilities (rec_observation device)) (cb_capability_id (cad_binding a)) = Some c \<and>
         \<not> catalog_capability_mismatch (cad_binding a) t c"
    and internal: "\<exists>u. snd (accept_kiosk_catalog_internal uni h (cad_snapshot a) t) = Inr u"
    by (auto simp: accept_production_kiosk_catalog_def on_clone_def valid_def not_le
        split: if_splits sum.splits option.splits)
  from internal facts(4) show "\<exists>device. catalog_admissible uni h a profile_id t device"
    unfolding internal_accepts_iff catalog_admissible_def Let_def
    using profile facts(1-3,5) valid admission_valid_parts(4) [OF valid] by auto
next
  assume "\<exists>device. catalog_admissible uni h a profile_id t device"
  then obtain device where ok: "catalog_admissible uni h a profile_id t device" ..
  note facts = ok [unfolded catalog_admissible_def Let_def]
  have valid: "valid (validate_catalog_admission uni a)" using facts by blast
  have device: "bt_get (fh_devices h) (kc_device_id (cad_snapshot a)) = Some device" using facts by blast
  have internal: "snd (accept_kiosk_catalog_internal uni h (cad_snapshot a) t) = Inr ()"
    unfolding internal_accepts_iff using facts admission_valid_parts(1) [OF valid]
    by (auto simp: catalog_admission_expired_def)
  have "snd (accept_production_kiosk_catalog uni h a t) = Inr ()"
    using facts valid internal admission_valid_parts(4) [OF valid]
    by (auto simp: accept_production_kiosk_catalog_def valid_iff_Inr on_clone_def
        internal_accepts_hub [OF internal device] retain_production_binding_def)
  then show "snd (accept_profiled_kiosk_catalog uni h a profile_id t) = Inr u"
    using facts by (auto simp: accept_profiled_kiosk_catalog_def Let_def on_clone_def)
qed

lemma on_clone_error: "snd (on_clone h r f) = Inl e \<Longrightarrow> fst (on_clone h r f) = h"
  by (auto simp: on_clone_def split: sum.splits)

lemma profiled_rejects:
  assumes "\<And>device. \<not> catalog_admissible uni h a profile_id t device"
  shows "\<exists>e. accept_profiled_kiosk_catalog uni h a profile_id t = (h, Inl e)"
proof -
  have "\<exists>e. snd (accept_profiled_kiosk_catalog uni h a profile_id t) = Inl e"
    using assms profiled_accepts_iff [of uni h a profile_id t]
    by (cases "snd (accept_profiled_kiosk_catalog uni h a profile_id t)") auto
  moreover have "fst (accept_profiled_kiosk_catalog uni h a profile_id t) = h"
    if "snd (accept_profiled_kiosk_catalog uni h a profile_id t) = Inl e" for e
    using that unfolding accept_profiled_kiosk_catalog_def Let_def
    by (auto split: if_splits intro: on_clone_error)
  ultimately show ?thesis by (metis prod.collapse)
qed

lemma profiled_accepts:
  assumes ok: "catalog_admissible uni h a profile_id t device"
  shows "accept_profiled_kiosk_catalog uni h a profile_id t = (admitted_hub h a profile_id t device, Inr ())"
proof -
  note facts = ok [unfolded catalog_admissible_def Let_def]
  have valid: "valid (validate_catalog_admission uni a)" using facts by blast
  have device: "bt_get (fh_devices h) (kc_device_id (cad_snapshot a)) = Some device" using facts by blast
  have internal: "snd (accept_kiosk_catalog_internal uni h (cad_snapshot a) t) = Inr ()"
    unfolding internal_accepts_iff using facts admission_valid_parts(1) [OF valid]
    by (auto simp: catalog_admission_expired_def)
  have "accept_production_kiosk_catalog uni h a t =
      ((admitted_hub h a profile_id t device)\<lparr>fh_catalog_associations := fh_catalog_associations h\<rparr>, Inr ())"
    using facts valid internal admission_valid_parts(4) [OF valid]
    by (auto simp: accept_production_kiosk_catalog_def valid_iff_Inr on_clone_def admitted_catalog_def
        internal_accepts_hub [OF internal device] retain_production_binding_def admitted_hub_def)
  with facts show ?thesis
    by (auto simp: accept_profiled_kiosk_catalog_def Let_def on_clone_def admitted_hub_def)
qed

lemma profiled_cases:
  obtains (rejected) e where "accept_profiled_kiosk_catalog uni h a profile_id t = (h, Inl e)"
  | (accepted) device where "catalog_admissible uni h a profile_id t device"
      "accept_profiled_kiosk_catalog uni h a profile_id t = (admitted_hub h a profile_id t device, Inr ())"
proof (cases "\<exists>device. catalog_admissible uni h a profile_id t device")
  case True
  then show thesis using accepted profiled_accepts by blast
next
  case False
  then show thesis using rejected profiled_rejects [of uni h a profile_id t] by blast
qed

section \<open>The invariant\<close>

definition association_ok :: "u64 \<times> string \<times> string \<Rightarrow> bool" where
  "association_ok x \<longleftrightarrow> (case x of (revision, profile, owner) \<Rightarrow>
     revision \<noteq> 0 \<and> valid_token profile 8 128 \<and>
     16 \<le> length owner \<and> length owner \<le> 96 \<and> list_all is_token_byte owner)"

definition catalog_record_ok ::
  "(string \<Rightarrow> string) \<Rightarrow> (string, unit) btree_map \<Rightarrow> (string, u64 \<times> string \<times> string) btree_map \<Rightarrow> string \<Rightarrow>
   catalog_record \<Rightarrow> bool" where
  "catalog_record_ok uni replays associations d r \<longleftrightarrow>
     kc_device_id (ckr_snapshot r) = d \<and> ckr_source_epoch r \<noteq> [] \<and>
     (\<exists>b profile. ckr_production_admission r = Some b \<and>
        valid (validate_catalog_admission uni \<lparr>cad_binding = b, cad_snapshot = ckr_snapshot r\<rparr>) \<and>
        \<not> catalog_admission_expired \<lparr>cad_binding = b, cad_snapshot = ckr_snapshot r\<rparr> (ckr_received_at_ms r) \<and>
        bt_contains_key replays (cb_replay_identity b) \<and>
        bt_get associations d =
          Some (kc_identity_revision (ckr_snapshot r), profile, kc_kiosk_owner_epoch (ckr_snapshot r)))"

definition catalogs_ok :: "(string \<Rightarrow> string) \<Rightarrow> 'a hub_state_scheme \<Rightarrow> bool" where
  "catalogs_ok uni h \<longleftrightarrow>
     bt_len (fh_kiosk_catalogs h) \<le> max_kiosk_catalogs \<and>
     bt_len (fh_catalog_associations h) \<le> max_kiosk_catalogs \<and>
     bt_len (fh_catalog_replays h) \<le> max_kiosk_catalog_replay_identities \<and>
     (\<forall>id. bt_contains_key (fh_catalog_replays h) id \<longrightarrow> is_sha256 id) \<and>
     (\<forall>d x. bt_get (fh_catalog_associations h) d = Some x \<longrightarrow>
        bt_contains_key (fh_devices h) d \<and> association_ok x) \<and>
     (\<forall>d r. bt_get (fh_kiosk_catalogs h) d = Some r \<longrightarrow>
        catalog_record_ok uni (fh_catalog_replays h) (fh_catalog_associations h) d r)"

lemma catalogs_ok_cong:
  "fh_kiosk_catalogs h' = fh_kiosk_catalogs h \<Longrightarrow> fh_catalog_replays h' = fh_catalog_replays h \<Longrightarrow>
   fh_catalog_associations h' = fh_catalog_associations h \<Longrightarrow>
   (\<And>d. bt_contains_key (fh_devices h) d \<Longrightarrow> bt_contains_key (fh_devices h') d) \<Longrightarrow>
   catalogs_ok uni h \<Longrightarrow> catalogs_ok uni h'"
  by (simp add: catalogs_ok_def)

lemma valid_owner_epoch:
  assumes "valid (validate_catalog_admission uni a)"
  shows "16 \<le> length (kc_kiosk_owner_epoch (cad_snapshot a))" "length (kc_kiosk_owner_epoch (cad_snapshot a)) \<le> 96"
    "list_all is_token_byte (kc_kiosk_owner_epoch (cad_snapshot a))"
    "kc_identity_revision (cad_snapshot a) \<noteq> 0" "is_sha256 (cb_replay_identity (cad_binding a))"
proof -
  have "kc_kiosk_owner_epoch (cad_snapshot a) = cb_kiosk_owner_epoch (cad_binding a)"
    "kc_identity_revision (cad_snapshot a) = cb_identity_revision (cad_binding a)"
    using admission_valid_parts(3) [OF assms] by (simp_all add: catalog_binding_mismatch_def)
  then show "16 \<le> length (kc_kiosk_owner_epoch (cad_snapshot a))"
    "length (kc_kiosk_owner_epoch (cad_snapshot a)) \<le> 96"
    "list_all is_token_byte (kc_kiosk_owner_epoch (cad_snapshot a))"
    "kc_identity_revision (cad_snapshot a) \<noteq> 0" "is_sha256 (cb_replay_identity (cad_binding a))"
    using admission_valid_parts(2) [OF assms] by (simp_all add: catalog_binding_failures_def valid_token_def)
qed

lemma admitted_catalogs_ok:
  assumes ok: "catalogs_ok uni h" and adm: "catalog_admissible uni h a profile_id t device"
    and epoch: "do_source_epoch (rec_observation device) \<noteq> []"
  shows "catalogs_ok uni (admitted_hub h a profile_id t device)"
proof -
  let ?h = "admitted_hub h a profile_id t device" and ?d = "kc_device_id (cad_snapshot a)"
  note facts = adm [unfolded catalog_admissible_def Let_def]
  have valid: "valid (validate_catalog_admission uni a)" using facts by blast
  note owner = valid_owner_epoch [OF valid]
  have "bt_len (fh_kiosk_catalogs ?h) \<le> max_kiosk_catalogs" "bt_len (fh_catalog_associations ?h) \<le> max_kiosk_catalogs"
    "bt_len (fh_catalog_replays ?h) \<le> max_kiosk_catalog_replay_identities"
    using ok facts by (auto simp: catalogs_ok_def admitted_hub_def bt_len_insert)
  moreover have "is_sha256 id" if "bt_contains_key (fh_catalog_replays ?h) id" for id
    using that ok owner(5) by (auto simp: catalogs_ok_def admitted_hub_def)
  moreover have "bt_contains_key (fh_devices ?h) d \<and> association_ok x"
    if x: "bt_get (fh_catalog_associations ?h) d = Some x" for d x
  proof (cases "d = ?d")
    case True
    have "valid_token profile_id 8 128" "bt_contains_key (fh_devices h) ?d"
      using facts by (simp_all add: bt_contains_key_def)
    moreover have "x = catalog_association a profile_id" using x True by (simp add: admitted_hub_def)
    ultimately show ?thesis
      using True owner by (simp add: association_ok_def catalog_association_def admitted_hub_def)
  next
    case False
    with x ok show ?thesis by (cases x) (simp add: catalogs_ok_def admitted_hub_def)
  qed
  moreover have "catalog_record_ok uni (fh_catalog_replays ?h) (fh_catalog_associations ?h) d r"
    if "bt_get (fh_kiosk_catalogs ?h) d = Some r" for d r
  proof (cases "d = ?d")
    case True
    with that have "r = admitted_catalog a t device" by (simp add: admitted_hub_def)
    moreover have "valid (validate_catalog_admission uni
        \<lparr>cad_binding = cad_binding a, cad_snapshot = cad_snapshot a\<rparr>)"
      using valid by (cases a) simp
    ultimately show ?thesis using True facts epoch valid
      by (simp add: catalog_record_ok_def admitted_catalog_def admitted_hub_def catalog_association_def
          catalog_admission_expired_def)
  next
    case False
    with that have "catalog_record_ok uni (fh_catalog_replays h) (fh_catalog_associations h) d r"
      using ok by (simp add: catalogs_ok_def admitted_hub_def)
    with False show ?thesis by (auto simp: catalog_record_ok_def admitted_hub_def)
  qed
  ultimately show ?thesis by (simp add: catalogs_ok_def)
qed

lemma profiled_catalogs_ok:
  assumes "catalogs_ok uni h" and "devices_ok ob jb h"
  shows "catalogs_ok uni (fst (accept_profiled_kiosk_catalog uni h a profile_id t))"
proof (cases rule: profiled_cases [of uni h a profile_id t])
  case (rejected e)
  with assms(1) show ?thesis by simp
next
  case (accepted device)
  have "bt_get (fh_devices h) (kc_device_id (cad_snapshot a)) = Some device"
    using accepted(1) by (simp add: catalog_admissible_def Let_def)
  then have "valid (validate_observation ob jb (rec_observation device))"
    using assms(2) by (auto simp: devices_ok_def device_record_ok_def dest: bt.all_entriesD)
  then have "do_source_epoch (rec_observation device) \<noteq> []"
    by (auto simp: validate_observation_def observation_head_failures_def)
  with admitted_catalogs_ok [OF assms(1) accepted(1)] accepted(2) show ?thesis by simp
qed

text \<open>An observation keeps every enrolled device.\<close>

lemma accept_keeps_enrolled:
  "bt_contains_key (fh_devices h) d \<Longrightarrow> bt_contains_key (fh_devices (fst (accept_observation ob jb h obs t))) d"
proof (cases rule: accept_observation_cases [of ob jb obs h t])
  case admitted
  moreover assume "bt_contains_key (fh_devices h) d"
  ultimately show ?thesis by (simp add: admit_def Let_def)
qed simp

lemma profiled_frame:
  obtains cats replays assocs v where
    "fst (accept_profiled_kiosk_catalog uni h a profile_id t) =
       h\<lparr>fh_kiosk_catalogs := cats, fh_catalog_replays := replays, fh_catalog_associations := assocs,
         fh_result_revision := v\<rparr>"
    "v = fh_result_revision h \<or> v = u64_saturating_add (fh_result_revision h) 1"
proof (cases rule: profiled_cases [of uni h a profile_id t])
  case (rejected e)
  then show thesis by (intro that [where cats = "fh_kiosk_catalogs h" and replays = "fh_catalog_replays h" and
      assocs = "fh_catalog_associations h" and v = "fh_result_revision h"]) simp_all
next
  case (accepted device)
  show thesis
    by (rule that, unfold accepted(2) admitted_hub_def fst_conv, rule refl) simp
qed

lemma profiled_rest [simp]:
  "fh_policy (fst (accept_profiled_kiosk_catalog uni h a profile_id t)) = fh_policy h"
  "fh_devices (fst (accept_profiled_kiosk_catalog uni h a profile_id t)) = fh_devices h"
  "fh_event_sequence (fst (accept_profiled_kiosk_catalog uni h a profile_id t)) = fh_event_sequence h"
  "fh_events (fst (accept_profiled_kiosk_catalog uni h a profile_id t)) = fh_events h"
  "fh_saved_view_revision (fst (accept_profiled_kiosk_catalog uni h a profile_id t)) = fh_saved_view_revision h"
  "fh_saved_views (fst (accept_profiled_kiosk_catalog uni h a profile_id t)) = fh_saved_views h"
  "fh_kiosk_operations (fst (accept_profiled_kiosk_catalog uni h a profile_id t)) = fh_kiosk_operations h"
  "fh_package_operations (fst (accept_profiled_kiosk_catalog uni h a profile_id t)) = fh_package_operations h"
  "fh_package_archives (fst (accept_profiled_kiosk_catalog uni h a profile_id t)) = fh_package_archives h"
  "fh_awake_operations (fst (accept_profiled_kiosk_catalog uni h a profile_id t)) = fh_awake_operations h"
  "fh_wifi_adb_operations (fst (accept_profiled_kiosk_catalog uni h a profile_id t)) = fh_wifi_adb_operations h"
  "fh_hotspot_operations (fst (accept_profiled_kiosk_catalog uni h a profile_id t)) = fh_hotspot_operations h"
  "fh_hotspot_observation (fst (accept_profiled_kiosk_catalog uni h a profile_id t)) = fh_hotspot_observation h"
  by (rule profiled_frame [of uni h a profile_id t]; simp)+

end
