(* ===== verification/Hub_Runs.thy ===== *)
theory Hub_Runs
  imports Hub_Kiosk_Facts Hub_Saved_Views Hub_Calls Package_Effects Hub_Catalog_Facts
begin

text \<open>
  The Hub as a state machine: commands, runs, and the invariant every reachable Hub satisfies.
  A run starts from \<open>hub_new\<close>; observations arrive in any order and interleave freely with
  saved-view mutations, catalog admissions and the methods of the five operation families.
\<close>

section \<open>Commands and runs\<close>

datatype hub_command =
  Observe device_observation i64
| Preview_Kiosk kiosk_preview_plan
| Confirm_Kiosk operation_execute_request i64
| Dispatch_Kiosk string string string i64
| Mark_Kiosk_Running string string i64
| Apply_Kiosk_Receipt kiosk_receipt i64
| Fail_Kiosk string string string string i64
| Expire_Kiosk string string string string i64
| Request_Kiosk_Cancellation string string i64
| Complete_Kiosk_Cancellation string string i64
| Upsert_View saved_view_mutation_request
| Delete_View string u64
| Call_Wifi wifi_call
| Call_Awake awake_call
| Call_Hotspot hotspot_call
| Call_Package package_call
| Admit_Catalog catalog_admission string i64

text \<open>
  What the commands use of other crates: the canonical JSON of a package operation (\<^verbatim>\<open>serde_jcs\<close>) and
  the Unicode part of \<^verbatim>\<open>str::to_lowercase\<close>.
\<close>

record hub_codec =
  hcd_package_json :: "package_operation \<Rightarrow> string"
  hcd_lowercase :: "string \<Rightarrow> string"

fun run_command ::
  "(device_observation \<Rightarrow> nat option) \<Rightarrow> (json_value \<Rightarrow> nat option) \<Rightarrow> (string \<Rightarrow> string) \<Rightarrow> hub_codec \<Rightarrow>
   'a hub_state_scheme \<Rightarrow> hub_command \<Rightarrow> 'a hub_state_scheme" where
  "run_command ob jb sha enc h (Observe obs now) = fst (accept_observation ob jb h obs now)"
| "run_command ob jb sha enc h (Preview_Kiosk plan) = fst (preview_kiosk_show_controls h plan)"
| "run_command ob jb sha enc h (Confirm_Kiosk request now) = fst (confirm_kiosk_show_controls_request h request now)"
| "run_command ob jb sha enc h (Dispatch_Kiosk k d r now) = fst (dispatch_kiosk_show_controls h k d r now)"
| "run_command ob jb sha enc h (Mark_Kiosk_Running k d now) = fst (mark_kiosk_show_controls_running h k d now)"
| "run_command ob jb sha enc h (Apply_Kiosk_Receipt r now) = fst (apply_kiosk_show_controls_receipt h r now)"
| "run_command ob jb sha enc h (Fail_Kiosk k d reason message now) =
     fst (fail_kiosk_show_controls h k d reason message now)"
| "run_command ob jb sha enc h (Expire_Kiosk k d reason message now) =
     fst (expire_kiosk_show_controls h k d reason message now)"
| "run_command ob jb sha enc h (Request_Kiosk_Cancellation k d now) =
     fst (request_kiosk_show_controls_cancellation h k d now)"
| "run_command ob jb sha enc h (Complete_Kiosk_Cancellation k d now) =
     fst (complete_kiosk_show_controls_cancellation h k d now)"
| "run_command ob jb sha enc h (Upsert_View request) = fst (upsert_saved_view h request)"
| "run_command ob jb sha enc h (Delete_View view_id expected) = fst (delete_saved_view h view_id expected)"
| "run_command ob jb sha enc h (Call_Wifi call) = fst (run_wifi sha h call)"
| "run_command ob jb sha enc h (Call_Awake call) = fst (run_awake h call)"
| "run_command ob jb sha enc h (Call_Hotspot call) = run_hotspot h call"
| "run_command ob jb sha enc h (Call_Package call) = run_package (hcd_package_json enc) sha h call"
| "run_command ob jb sha enc h (Admit_Catalog a profile_id now) =
     fst (accept_profiled_kiosk_catalog (hcd_lowercase enc) h a profile_id now)"

definition run_commands ::
  "(device_observation \<Rightarrow> nat option) \<Rightarrow> (json_value \<Rightarrow> nat option) \<Rightarrow> (string \<Rightarrow> string) \<Rightarrow> hub_codec \<Rightarrow>
   'a hub_state_scheme \<Rightarrow> hub_command list \<Rightarrow> 'a hub_state_scheme" where
  "run_commands ob jb sha enc = foldl (run_command ob jb sha enc)"

text \<open>
  What the invariant needs of a command: an observation is accepted at a time not before the
  epoch, while the event sequence has room (it saturates at \<^verbatim>\<open>u64::MAX\<close>).
\<close>

definition admissible :: "'a hub_state_scheme \<Rightarrow> hub_command \<Rightarrow> bool" where
  "admissible h c \<longleftrightarrow> (case c of
     Observe obs now \<Rightarrow> 0 \<le> now \<and> fh_event_sequence h < u64_max
   | _ \<Rightarrow> True)"

inductive reachable ::
  "(device_observation \<Rightarrow> nat option) \<Rightarrow> (json_value \<Rightarrow> nat option) \<Rightarrow> (string \<Rightarrow> string) \<Rightarrow> hub_codec \<Rightarrow> hub_policy \<Rightarrow>
   hub_state \<Rightarrow> bool"
  for ob jb sha enc policy where
  start: "hub_new policy = Some h \<Longrightarrow> reachable ob jb sha enc policy h"
| step: "reachable ob jb sha enc policy h \<Longrightarrow> admissible h c \<Longrightarrow> reachable ob jb sha enc policy (run_command ob jb sha enc h c)"

section \<open>Kiosk commands and the store\<close>

definition command_key :: "hub_command \<Rightarrow> string" where
  "command_key c = (case c of
     Preview_Kiosk plan \<Rightarrow> kpp_operation_id plan
   | Confirm_Kiosk request now \<Rightarrow> oer_operation_id request
   | Dispatch_Kiosk k d r now \<Rightarrow> k
   | Mark_Kiosk_Running k d now \<Rightarrow> k
   | Apply_Kiosk_Receipt r now \<Rightarrow> kr_operation_id r
   | Fail_Kiosk k d reason message now \<Rightarrow> k
   | Expire_Kiosk k d reason message now \<Rightarrow> k
   | Request_Kiosk_Cancellation k d now \<Rightarrow> k
   | Complete_Kiosk_Cancellation k d now \<Rightarrow> k
   | _ \<Rightarrow> [])"

definition kiosk_effect ::
  "(device_observation \<Rightarrow> nat option) \<Rightarrow> (json_value \<Rightarrow> nat option) \<Rightarrow> (string \<Rightarrow> string) \<Rightarrow> hub_codec \<Rightarrow>
   'a hub_state_scheme \<Rightarrow> hub_command \<Rightarrow> bool" where
  "kiosk_effect ob jb sha enc h c \<longleftrightarrow> (\<exists>r :: 'a hub_state_scheme \<times> (hub_error + kiosk_operation).
     ks.outcome h (command_key c) r \<and> run_command ob jb sha enc h c = fst r)"

lemma kiosk_effectI:
  fixes r :: "'a hub_state_scheme \<times> (hub_error + kiosk_operation)"
  assumes "ks.outcome h k r" and "command_key c = k" and "run_command ob jb sha enc h c = fst r"
  shows "kiosk_effect ob jb sha enc h c"
  unfolding kiosk_effect_def using assms by blast

text \<open>Seen from the Kiosk store, every Kiosk command is a method outcome.\<close>

definition is_kiosk_command :: "hub_command \<Rightarrow> bool" where
  "is_kiosk_command c \<longleftrightarrow> (case c of
     Observe _ _ \<Rightarrow> False | Upsert_View _ \<Rightarrow> False | Delete_View _ _ \<Rightarrow> False
   | Call_Wifi _ \<Rightarrow> False | Call_Awake _ \<Rightarrow> False | Call_Hotspot _ \<Rightarrow> False
   | Call_Package _ \<Rightarrow> False | Admit_Catalog _ _ _ \<Rightarrow> False | _ \<Rightarrow> True)"

lemma kiosk_command_effect:
  assumes "ks.store_ok h" and "is_kiosk_command c"
  shows "kiosk_effect ob jb sha enc h c"
proof (cases c)
  case (Preview_Kiosk plan)
  then show ?thesis
    by (intro kiosk_effectI [OF preview_outcome [of h plan]]) (simp_all add: command_key_def)
next
  case (Confirm_Kiosk request now)
  then show ?thesis
    by (intro kiosk_effectI [OF confirm_request_outcome [OF assms(1), of request now]])
      (simp_all add: command_key_def)
next
  case (Dispatch_Kiosk k d r now)
  then show ?thesis
    by (intro kiosk_effectI [OF dispatch_outcome [of h k d r now]]) (simp_all add: command_key_def)
next
  case (Mark_Kiosk_Running k d now)
  then show ?thesis
    by (intro kiosk_effectI [OF running_outcome [of h k d now]]) (simp_all add: command_key_def)
next
  case (Apply_Kiosk_Receipt r now)
  then show ?thesis
    by (intro kiosk_effectI [OF receipt_outcome [of h r now]]) (simp_all add: command_key_def)
next
  case (Fail_Kiosk k d reason message now)
  then show ?thesis
    by (intro kiosk_effectI [OF finish_outcome [of Lifecycle_Failed h k d reason message now]])
      (simp_all add: command_key_def fail_kiosk_show_controls_def)
next
  case (Expire_Kiosk k d reason message now)
  then show ?thesis
    by (intro kiosk_effectI [OF finish_outcome [of Expired h k d reason message now]])
      (simp_all add: command_key_def expire_kiosk_show_controls_def)
next
  case (Request_Kiosk_Cancellation k d now)
  then show ?thesis
    by (intro kiosk_effectI [OF request_cancellation_outcome [of h k d now]])
      (simp_all add: command_key_def)
next
  case (Complete_Kiosk_Cancellation k d now)
  then show ?thesis
    by (intro kiosk_effectI [OF complete_cancellation_outcome [of h k d now]])
      (simp_all add: command_key_def)
qed (use assms(2) in \<open>simp_all add: is_kiosk_command_def\<close>)

text \<open>The stores of the families with one map each. The package stores come with \<open>hub_ok\<close>.\<close>

definition stores_ok :: "'a hub_state_scheme \<Rightarrow> bool" where
  "stores_ok h \<longleftrightarrow> ks.store_ok h \<and> wa.sound_store h \<and> aw.sound_store h \<and> hotspot_store_ok h"

lemma stores_okD:
  assumes "stores_ok h"
  shows "ks.store_ok h" "wa.sound_store h" "aw.sound_store h" "hotspot_store_ok h"
  using assms by (simp_all add: stores_ok_def)

lemma stores_ok_cong:
  "fh_kiosk_operations h' = fh_kiosk_operations h \<Longrightarrow> fh_wifi_adb_operations h' = fh_wifi_adb_operations h \<Longrightarrow>
   fh_awake_operations h' = fh_awake_operations h \<Longrightarrow> fh_hotspot_operations h' = fh_hotspot_operations h \<Longrightarrow>
   fh_hotspot_observation h' = fh_hotspot_observation h \<Longrightarrow> stores_ok h' = stores_ok h"
  by (simp add: stores_ok_def ks.store_ok_def wa.sound_store_def aw.sound_store_def hotspot_store_ok_def)

text \<open>What a call on another family's operations leaves alone.\<close>

definition is_owner_call :: "hub_command \<Rightarrow> bool" where
  "is_owner_call c \<longleftrightarrow> (case c of Call_Wifi _ \<Rightarrow> True | Call_Awake _ \<Rightarrow> True | Call_Hotspot _ \<Rightarrow> True | _ \<Rightarrow> False)"

lemma owner_call_frame:
  assumes "stores_ok h" and "is_owner_call c"
  shows "fh_policy (run_command ob jb sha enc h c) = fh_policy h"
    and "fh_devices (run_command ob jb sha enc h c) = fh_devices h"
    and "fh_result_revision (run_command ob jb sha enc h c) = fh_result_revision h"
    and "fh_events (run_command ob jb sha enc h c) = fh_events h"
    and "fh_event_sequence (run_command ob jb sha enc h c) = fh_event_sequence h"
    and "fh_saved_views (run_command ob jb sha enc h c) = fh_saved_views h"
    and "fh_saved_view_revision (run_command ob jb sha enc h c) = fh_saved_view_revision h"
    and "fh_kiosk_operations (run_command ob jb sha enc h c) = fh_kiosk_operations h"
    and "package_stores (run_command ob jb sha enc h c) = package_stores h"
    and "fh_kiosk_catalogs (run_command ob jb sha enc h c) = fh_kiosk_catalogs h"
    and "fh_catalog_replays (run_command ob jb sha enc h c) = fh_catalog_replays h"
    and "fh_catalog_associations (run_command ob jb sha enc h c) = fh_catalog_associations h"
proof -
  obtain m n l x where "run_command ob jb sha enc h c = h\<lparr>fh_wifi_adb_operations := m,
      fh_awake_operations := n, fh_hotspot_operations := l, fh_hotspot_observation := x\<rparr>"
  proof (cases c)
    case (Call_Wifi call)
    obtain m where "fst (run_wifi sha h call) = h\<lparr>fh_wifi_adb_operations := m\<rparr>"
      using run_wifi_frame [OF stores_okD(2) [OF assms(1)]] .
    with Call_Wifi show thesis
      by (intro that [where m = m and n = "fh_awake_operations h" and l = "fh_hotspot_operations h" and
        x = "fh_hotspot_observation h"]) simp
  next
    case (Call_Awake call)
    obtain m where "fst (run_awake h call) = h\<lparr>fh_awake_operations := m\<rparr>"
      using run_awake_frame [OF stores_okD(3) [OF assms(1)]] .
    with Call_Awake show thesis
      by (intro that [where m = "fh_wifi_adb_operations h" and n = m and l = "fh_hotspot_operations h" and
        x = "fh_hotspot_observation h"]) simp
  next
    case (Call_Hotspot call)
    obtain m x where "run_hotspot h call = h\<lparr>fh_hotspot_operations := m, fh_hotspot_observation := x\<rparr>"
      using run_hotspot_frame .
    with Call_Hotspot show thesis
      by (intro that [where m = "fh_wifi_adb_operations h" and n = "fh_awake_operations h" and l = m and x = x]) simp
  qed (use assms(2) in \<open>simp_all add: is_owner_call_def\<close>)
  then show "fh_policy (run_command ob jb sha enc h c) = fh_policy h"
    "fh_devices (run_command ob jb sha enc h c) = fh_devices h"
    "fh_result_revision (run_command ob jb sha enc h c) = fh_result_revision h"
    "fh_events (run_command ob jb sha enc h c) = fh_events h"
    "fh_event_sequence (run_command ob jb sha enc h c) = fh_event_sequence h"
    "fh_saved_views (run_command ob jb sha enc h c) = fh_saved_views h"
    "fh_saved_view_revision (run_command ob jb sha enc h c) = fh_saved_view_revision h"
    "fh_kiosk_operations (run_command ob jb sha enc h c) = fh_kiosk_operations h"
    "package_stores (run_command ob jb sha enc h c) = package_stores h"
    "fh_kiosk_catalogs (run_command ob jb sha enc h c) = fh_kiosk_catalogs h"
    "fh_catalog_replays (run_command ob jb sha enc h c) = fh_catalog_replays h"
    "fh_catalog_associations (run_command ob jb sha enc h c) = fh_catalog_associations h"
    by (simp_all add: package_stores_def)
qed

lemma owner_call_stores:
  assumes "stores_ok h" and "is_owner_call c"
  shows "stores_ok (run_command ob jb sha enc h c)"
proof (cases c)
  case (Call_Wifi call)
  obtain m where m: "fst (run_wifi sha h call) = h\<lparr>fh_wifi_adb_operations := m\<rparr>"
    using run_wifi_frame [OF stores_okD(2) [OF assms(1)]] .
  have "wa.sound_store (fst (run_wifi sha h call))"
    using stores_okD(2) [OF assms(1)]
    by (intro wa.inplace_sound [OF _ run_wifi_inplace [of h sha call]])
  with assms(1) show ?thesis unfolding Call_Wifi run_command.simps m
    by (simp add: stores_ok_def ks.store_ok_def aw.sound_store_def hotspot_store_ok_def)
next
  case (Call_Awake call)
  obtain m where m: "fst (run_awake h call) = h\<lparr>fh_awake_operations := m\<rparr>"
    using run_awake_frame [OF stores_okD(3) [OF assms(1)]] .
  have "aw.sound_store (fst (run_awake h call))"
    using stores_okD(3) [OF assms(1)]
    by (intro aw.inplace_sound [OF _ run_awake_inplace [of h call]])
  with assms(1) show ?thesis unfolding Call_Awake run_command.simps m
    by (simp add: stores_ok_def ks.store_ok_def wa.sound_store_def hotspot_store_ok_def)
next
  case (Call_Hotspot call)
  obtain m x where m: "run_hotspot h call = h\<lparr>fh_hotspot_operations := m, fh_hotspot_observation := x\<rparr>"
    using run_hotspot_frame .
  have "hotspot_store_ok (run_hotspot h call)" using stores_okD(4) [OF assms(1)] by (rule run_hotspot_ok)
  with assms(1) show ?thesis unfolding Call_Hotspot run_command.simps m
    by (simp add: stores_ok_def ks.store_ok_def wa.sound_store_def aw.sound_store_def)
qed (use assms(2) in \<open>simp_all add: is_owner_call_def\<close>)

lemma plain_command_frame:
  assumes "\<not> is_kiosk_command c" "\<not> is_owner_call c"
  shows "fh_kiosk_operations (run_command ob jb sha enc h c) = fh_kiosk_operations h"
    and "fh_wifi_adb_operations (run_command ob jb sha enc h c) = fh_wifi_adb_operations h"
    and "fh_awake_operations (run_command ob jb sha enc h c) = fh_awake_operations h"
    and "fh_hotspot_operations (run_command ob jb sha enc h c) = fh_hotspot_operations h"
    and "fh_hotspot_observation (run_command ob jb sha enc h c) = fh_hotspot_observation h"
  using assms by (cases c; simp add: is_kiosk_command_def is_owner_call_def)+

lemma other_command_frame:
  "stores_ok h \<Longrightarrow> \<not> is_kiosk_command c \<Longrightarrow>
   fh_kiosk_operations (run_command ob jb sha enc h c) = fh_kiosk_operations h"
  by (cases "is_owner_call c") (simp_all add: owner_call_frame(8) plain_command_frame(1))

lemma run_kiosk_frame:
  assumes "ks.outcome h k r"
  shows "fh_policy (fst r) = fh_policy h" and "fh_devices (fst r) = fh_devices h"
    and "fh_result_revision (fst r) = fh_result_revision h" and "fh_events (fst r) = fh_events h"
    and "fh_event_sequence (fst r) = fh_event_sequence h" and "fh_saved_views (fst r) = fh_saved_views h"
    and "fh_saved_view_revision (fst r) = fh_saved_view_revision h"
    and "fh_wifi_adb_operations (fst r) = fh_wifi_adb_operations h"
    and "fh_awake_operations (fst r) = fh_awake_operations h"
    and "fh_hotspot_operations (fst r) = fh_hotspot_operations h"
    and "fh_hotspot_observation (fst r) = fh_hotspot_observation h"
    and "package_stores (fst r) = package_stores h"
    and "fh_kiosk_catalogs (fst r) = fh_kiosk_catalogs h"
    and "fh_catalog_replays (fst r) = fh_catalog_replays h"
    and "fh_catalog_associations (fst r) = fh_catalog_associations h"
  using assms by (cases rule: ks.outcome_cases; simp add: package_stores_def)+

lemma kiosk_effect_stores:
  assumes "stores_ok h" and "kiosk_effect ob jb sha enc h c"
  shows "stores_ok (run_command ob jb sha enc h c)"
proof -
  from assms(2) obtain r :: "'a hub_state_scheme \<times> (hub_error + kiosk_operation)"
    where r: "ks.outcome h (command_key c) r" and h': "run_command ob jb sha enc h c = fst r"
    by (auto simp: kiosk_effect_def)
  have "ks.store_ok (fst r)" using stores_okD(1) [OF assms(1)] r by (rule ks.outcome_store_ok)
  with stores_okD [OF assms(1)] show ?thesis
    by (simp add: h' stores_ok_def wa.sound_store_def aw.sound_store_def hotspot_store_ok_def
        run_kiosk_frame [OF r])
qed

lemma run_command_stores:
  assumes "stores_ok h"
  shows "stores_ok (run_command ob jb sha enc h c)"
proof (cases "is_kiosk_command c")
  case True
  with assms show ?thesis by (intro kiosk_effect_stores kiosk_command_effect stores_okD)
next
  case False
  show ?thesis
  proof (cases "is_owner_call c")
    case True
    with assms show ?thesis by (rule owner_call_stores)
  next
    case owner: False
    show ?thesis
      using assms stores_ok_cong [OF plain_command_frame [OF False owner, of ob jb sha enc h]] by simp
  qed
qed

section \<open>The invariant\<close>

definition hub_ok ::
  "(device_observation \<Rightarrow> nat option) \<Rightarrow> (json_value \<Rightarrow> nat option) \<Rightarrow> (string \<Rightarrow> string) \<Rightarrow> hub_codec \<Rightarrow>
   'a hub_state_scheme \<Rightarrow> bool" where
  "hub_ok ob jb sha enc h \<longleftrightarrow>
     policy_ok (fh_policy h) \<and> 0 < fh_result_revision h \<and> fh_result_revision h \<le> u64_max \<and>
     devices_ok ob jb h \<and> events_ok h \<and> saved_views_ok h \<and> fh_saved_view_revision h \<le> u64_max \<and>
     stores_ok h \<and>
     (\<forall>k op. bt_get (fh_kiosk_operations h) k = Some op \<longrightarrow> proposed_together op) \<and>
     package_stores_ok (hcd_package_json enc) sha (fh_result_revision h) (package_stores h) \<and>
     catalogs_ok (hcd_lowercase enc) h"

lemma hub_okD:
  assumes "hub_ok ob jb sha enc h"
  shows "policy_ok (fh_policy h)" "0 < fh_result_revision h" "fh_result_revision h \<le> u64_max"
    "devices_ok ob jb h" "events_ok h" "saved_views_ok h" "fh_saved_view_revision h \<le> u64_max"
    "stores_ok h" "\<And>k op. bt_get (fh_kiosk_operations h) k = Some op \<Longrightarrow> proposed_together op"
    "package_stores_ok (hcd_package_json enc) sha (fh_result_revision h) (package_stores h)"
    "catalogs_ok (hcd_lowercase enc) h"
  using assms by (simp_all add: hub_ok_def)

lemma hub_new_ok: "hub_new policy = Some h \<Longrightarrow> hub_ok ob jb sha enc h"
  by (auto simp: hub_new_def hub_ok_def devices_ok_def events_ok_def saved_views_ok_def
      package_stores_ok_def package_stores_def all_spent_def singly_spent_def bt_values_def catalogs_ok_def
      bt_contains_key_def max_saved_views_def stores_ok_def ks.store_ok_def wa.sound_store_def aw.sound_store_def
      hotspot_store_ok_def hs.store_ok_def leases_disjoint_def bt.all_entries_empty u64_max_def split: if_splits)

lemma saved_views_ok_cong:
  "fh_saved_views h' = fh_saved_views h \<Longrightarrow> fh_saved_view_revision h' = fh_saved_view_revision h \<Longrightarrow>
   saved_views_ok h' = saved_views_ok h"
  by (simp add: saved_views_ok_def)

lemma devices_ok_cong:
  "fh_devices h' = fh_devices h \<Longrightarrow> fh_policy h' = fh_policy h \<Longrightarrow>
   fh_result_revision h' = fh_result_revision h \<Longrightarrow> devices_ok ob jb h' = devices_ok ob jb h"
  by (simp add: devices_ok_def)

lemma devices_ok_mono:
  "fh_devices h' = fh_devices h \<Longrightarrow> fh_policy h' = fh_policy h \<Longrightarrow>
   fh_result_revision h \<le> fh_result_revision h' \<Longrightarrow> devices_ok ob jb h \<Longrightarrow> devices_ok ob jb h'"
  unfolding devices_ok_def by (auto elim!: bt.all_entries_mono intro: device_record_ok_mono)

lemma accept_revision_mono:
  assumes "fh_result_revision h \<le> u64_max"
  shows "fh_result_revision h \<le> fh_result_revision (fst (accept_observation ob jb h obs t))"
proof (cases rule: accept_observation_cases [of ob jb obs h t])
  case admitted
  with assms show ?thesis by (simp add: admit_result_revision u64_saturating_add_mono)
qed simp

lemma profiled_revision:
  "fh_result_revision (fst (accept_profiled_kiosk_catalog uni h a profile_id t)) \<in>
     {fh_result_revision h, u64_saturating_add (fh_result_revision h) 1}"
  by (rule profiled_frame [of uni h a profile_id t]) auto

lemma catalogs_ok_frame:
  "fh_kiosk_catalogs h' = fh_kiosk_catalogs h \<Longrightarrow> fh_catalog_replays h' = fh_catalog_replays h \<Longrightarrow>
   fh_catalog_associations h' = fh_catalog_associations h \<Longrightarrow> fh_devices h' = fh_devices h \<Longrightarrow>
   catalogs_ok uni h' = catalogs_ok uni h"
  by (simp add: catalogs_ok_def)

lemma accept_result_revision:
  assumes "0 < fh_result_revision h" and "fh_result_revision h \<le> u64_max"
  shows "0 < fh_result_revision (fst (accept_observation ob jb h obs t)) \<and>
     fh_result_revision (fst (accept_observation ob jb h obs t)) \<le> u64_max"
proof (cases rule: accept_observation_cases [of ob jb obs h t])
  case admitted
  with assms show ?thesis by (simp add: admit_result_revision u64_saturating_add_def)
qed (use assms in simp)

lemma upsert_revision_bound:
  "fh_saved_view_revision h \<le> u64_max \<Longrightarrow> fh_saved_view_revision (fst (upsert_saved_view h q)) \<le> u64_max"
  by (cases rule: upsert_cases [of h q]) (auto simp: with_saved_view_def)

lemma delete_revision_bound:
  "fh_saved_view_revision h \<le> u64_max \<Longrightarrow> fh_saved_view_revision (fst (delete_saved_view h k x)) \<le> u64_max"
  by (cases rule: delete_cases [of h k x]) auto

lemma kiosk_effect_ok:
  assumes ok: "hub_ok ob jb sha enc h" and "kiosk_effect ob jb sha enc h c"
  shows "hub_ok ob jb sha enc (run_command ob jb sha enc h c)"
proof -
  from assms(2) obtain r :: "'a hub_state_scheme \<times> (hub_error + kiosk_operation)"
    where r: "ks.outcome h (command_key c) r" and h': "run_command ob jb sha enc h c = fst r"
    by (auto simp: kiosk_effect_def)
  note frame = run_kiosk_frame [OF r]
  have "proposed_together op" if "bt_get (fh_kiosk_operations (fst r)) k = Some op" for k op
    by (rule ks.outcome_invariant [OF _ _ _ r that])
      (auto simp: freshly_proposed_together operation_evolves_def hub_okD(9) [OF ok])
  moreover have "stores_ok (fst r)"
    using kiosk_effect_stores [OF hub_okD(8) [OF ok] assms(2)] by (simp only: h')
  ultimately show ?thesis
    using ok frame devices_ok_cong [OF frame(2,1,3)] events_ok_cong [OF frame(1,4,5)]
      saved_views_ok_cong [OF frame(6,7)] catalogs_ok_frame [OF frame(13-15,2)]
    unfolding h' hub_ok_def by auto
qed

lemma owner_call_ok:
  assumes ok: "hub_ok ob jb sha enc h" and call: "is_owner_call c"
  shows "hub_ok ob jb sha enc (run_command ob jb sha enc h c)"
proof -
  note frame = owner_call_frame [OF hub_okD(8) [OF ok] call]
  show ?thesis
    using ok devices_ok_cong [OF frame(2,1,3)] events_ok_cong [OF frame(1,4,5)]
      saved_views_ok_cong [OF frame(6,7)] catalogs_ok_frame [OF frame(10-12,2)]
      owner_call_stores [OF hub_okD(8) [OF ok] call]
    unfolding hub_ok_def frame by auto
qed

lemma run_command_ok:
  assumes ok: "hub_ok ob jb sha enc h" and adm: "admissible h c"
  shows "hub_ok ob jb sha enc (run_command ob jb sha enc h c)"
proof (cases "is_kiosk_command c \<or> is_owner_call c")
  case True
  then show ?thesis
    using kiosk_effect_ok [OF ok kiosk_command_effect [OF stores_okD(1) [OF hub_okD(8) [OF ok]]]]
      owner_call_ok [OF ok] by blast
next
  case False
  note facts = hub_okD [OF ok]
  have stores: "stores_ok (run_command ob jb sha enc h c)" by (rule run_command_stores [OF facts(8)])
  show ?thesis
  proof (cases c)
    case (Observe obs now)
    let ?h' = "fst (accept_observation ob jb h obs now)"
    have "0 \<le> now" "fh_event_sequence h < u64_max"
      using adm Observe by (simp_all add: admissible_def)
    then have "devices_ok ob jb ?h'" "events_ok ?h'"
      using facts by (simp_all add: accept_devices_ok accept_events_ok)
    moreover have "saved_views_ok ?h'" "stores_ok ?h'"
      using facts saved_views_ok_cong [of ?h' h] stores Observe by simp_all
    moreover have "package_stores ?h' = package_stores h" by (simp add: package_stores_def)
    moreover have "catalogs_ok (hcd_lowercase enc) ?h'"
      using facts(11) by (rule catalogs_ok_cong [rotated 4]) (simp_all add: accept_keeps_enrolled)
    ultimately show ?thesis
      using facts accept_result_revision [of h ob jb obs now] accept_revision_mono [OF facts(3), of ob jb obs now]
      by (auto simp: hub_ok_def Observe intro: package_stores_ok_mono)
  next
    case (Upsert_View q)
    let ?h' = "fst (upsert_saved_view h q)"
    have "devices_ok ob jb ?h'" "events_ok ?h'" "stores_ok ?h'" "catalogs_ok (hcd_lowercase enc) ?h'"
      using facts devices_ok_cong [of ?h' h] events_ok_cong [of ?h' h] catalogs_ok_frame [of ?h' h] stores
        Upsert_View by simp_all
    with facts show ?thesis
      by (auto simp: hub_ok_def Upsert_View upsert_ok upsert_revision_bound package_stores_def)
  next
    case (Delete_View k x)
    let ?h' = "fst (delete_saved_view h k x)"
    have "devices_ok ob jb ?h'" "events_ok ?h'" "stores_ok ?h'" "catalogs_ok (hcd_lowercase enc) ?h'"
      using facts devices_ok_cong [of ?h' h] events_ok_cong [of ?h' h] catalogs_ok_frame [of ?h' h] stores
        Delete_View by simp_all
    with facts show ?thesis
      by (auto simp: hub_ok_def Delete_View delete_ok delete_revision_bound package_stores_def)
  next
    case (Call_Package call)
    let ?h' = "run_package (hcd_package_json enc) sha h call"
    have "devices_ok ob jb ?h'" "events_ok ?h'" "stores_ok ?h'" "saved_views_ok ?h'"
      "catalogs_ok (hcd_lowercase enc) ?h'"
      using facts devices_ok_cong [of ?h' h] events_ok_cong [of ?h' h] catalogs_ok_frame [of ?h' h] stores
        saved_views_ok_cong [of ?h' h] Call_Package by simp_all
    with facts run_package_ok [OF facts(10)] show ?thesis
      by (auto simp: hub_ok_def Call_Package)
  next
    case (Admit_Catalog a profile_id now)
    let ?h' = "fst (accept_profiled_kiosk_catalog (hcd_lowercase enc) h a profile_id now)"
    have revision: "fh_result_revision h \<le> fh_result_revision ?h'" "fh_result_revision ?h' \<le> u64_max"
      using profiled_revision [of "hcd_lowercase enc" h a profile_id now] facts(3)
      by (auto simp: u64_saturating_add_mono)
    have "devices_ok ob jb ?h'" using facts(4) revision(1) by (simp add: devices_ok_mono)
    moreover have "events_ok ?h'" "stores_ok ?h'" "saved_views_ok ?h'"
      using facts events_ok_cong [of ?h' h] stores saved_views_ok_cong [of ?h' h] Admit_Catalog by simp_all
    moreover have "catalogs_ok (hcd_lowercase enc) ?h'" by (rule profiled_catalogs_ok [OF facts(11,4)])
    moreover have "package_stores ?h' = package_stores h" by (simp add: package_stores_def)
    ultimately show ?thesis
      using facts revision by (auto simp: hub_ok_def Admit_Catalog intro: package_stores_ok_mono)
  qed (use False in \<open>simp_all add: is_kiosk_command_def is_owner_call_def\<close>)
qed

lemma reachable_ok: "reachable ob jb sha enc policy h \<Longrightarrow> hub_ok ob jb sha enc h"
  by (induction rule: reachable.induct) (auto intro: hub_new_ok run_command_ok)

section \<open>Histories of Kiosk operations\<close>

lemma run_command_evolves:
  assumes ok: "stores_ok h" and x: "bt_get (fh_kiosk_operations h) k = Some x"
  shows "\<exists>y. bt_get (fh_kiosk_operations (run_command ob jb sha enc h c)) k = Some y \<and> operation_evolves x y"
proof (cases "is_kiosk_command c")
  case True
  then obtain r :: "'a hub_state_scheme \<times> (hub_error + kiosk_operation)"
    where "ks.outcome h (command_key c) r" "run_command ob jb sha enc h c = fst r"
    using kiosk_command_effect [OF stores_okD(1) [OF ok] True, of ob jb sha enc] by (auto simp: kiosk_effect_def)
  with ks.outcome_evolves [OF _ x] show ?thesis by simp
next
  case False
  with x show ?thesis by (simp add: other_command_frame [OF ok])
qed

lemma run_commands_evolve:
  assumes "stores_ok h" and "bt_get (fh_kiosk_operations h) k = Some x"
  shows "\<exists>y. bt_get (fh_kiosk_operations (run_commands ob jb sha enc h cs)) k = Some y \<and> operation_evolves\<^sup>*\<^sup>* x y"
  using assms
proof (induction cs arbitrary: h x)
  case Nil
  then show ?case by (auto simp: run_commands_def)
next
  case (Cons c cs)
  obtain y where y: "bt_get (fh_kiosk_operations (run_command ob jb sha enc h c)) k = Some y" "operation_evolves x y"
    using run_command_evolves [OF Cons.prems] by blast
  from Cons.IH [OF run_command_stores [OF Cons.prems(1)] y(1)]
  obtain z where "bt_get (fh_kiosk_operations (run_commands ob jb sha enc h (c # cs))) k = Some z"
    "operation_evolves\<^sup>*\<^sup>* y z"
    by (auto simp: run_commands_def)
  with y(2) show ?case by (meson converse_rtranclp_into_rtranclp)
qed

definition target_history :: "kiosk_target \<Rightarrow> kiosk_target \<Rightarrow> bool" where
  "target_history t u \<longleftrightarrow>
     kt_device_id u = kt_device_id t \<and> kt_identity_revision u = kt_identity_revision t \<and>
     kt_preflight u = kt_preflight t \<and> kiosk_move\<^sup>*\<^sup>* (kt_lifecycle t) (kt_lifecycle u) \<and>
     (\<exists>new. kt_owner_request_ids u = kt_owner_request_ids t @ new) \<and>
     kt_last_transition_ms t \<le> kt_last_transition_ms u"

definition operation_history :: "kiosk_operation \<Rightarrow> kiosk_operation \<Rightarrow> bool" where
  "operation_history op op' \<longleftrightarrow>
     ko_operation_id op' = ko_operation_id op \<and> ko_preview op' = ko_preview op \<and>
     ko_max_parallelism op' = ko_max_parallelism op \<and>
     ko_max_attempts_per_target op' = ko_max_attempts_per_target op \<and>
     list_all2 target_history (ko_targets op) (ko_targets op')"

lemma target_history_step: "target_history t u \<Longrightarrow> target_evolves u v \<Longrightarrow> target_history t v"
  by (auto simp: target_history_def target_evolves_def)

lemma evolves_history: "operation_evolves\<^sup>*\<^sup>* x y \<Longrightarrow> operation_history x y"
proof (induction rule: rtranclp_induct)
  case base
  show ?case by (simp add: operation_history_def target_history_def list.rel_refl)
next
  case (step y z)
  have "list_all2 target_history (ko_targets x) (ko_targets z)"
    using step.IH step.hyps(2) target_history_step
    by (auto simp: operation_history_def operation_evolves_def intro: list_all2_trans)
  with step show ?case by (simp add: operation_history_def operation_evolves_def)
qed

text \<open>Applied, rejected and cancelled targets are settled.\<close>

lemma settled_lifecycle:
  "kiosk_move\<^sup>*\<^sup>* l m \<Longrightarrow> l \<in> {Applied, Rejected, Cancelled} \<Longrightarrow> m = l"
  by (induction rule: rtranclp_induct) auto

text \<open>An attempt, once started, is never undone: the lifecycle does not return before dispatch.\<close>

lemma no_way_back:
  "kiosk_move\<^sup>*\<^sup>* l m \<Longrightarrow> l \<in> {Dispatched, Running, Applied, Lifecycle_Failed, Expired} \<Longrightarrow>
   m \<in> {Dispatched, Running, Applied, Lifecycle_Failed, Expired}"
  by (induction rule: rtranclp_induct) auto

section \<open>Replay over runs\<close>

lemma run_command_left_behind:
  assumes ok: "stores_ok h" and "hub_left_behind k i e r (fh_devices h)"
  shows "hub_left_behind k i e r (fh_devices (run_command ob jb sha enc h c))"
proof (cases "is_kiosk_command c")
  case True
  then obtain r' :: "'a hub_state_scheme \<times> (hub_error + kiosk_operation)"
    where "ks.outcome h (command_key c) r'" "run_command ob jb sha enc h c = fst r'"
    using kiosk_command_effect [OF stores_okD(1) [OF ok] True, of ob jb sha enc] by (auto simp: kiosk_effect_def)
  with assms(2) run_kiosk_frame(2) show ?thesis by fastforce
next
  case False
  show ?thesis
  proof (cases "is_owner_call c")
    case True
    with assms(2) show ?thesis by (simp add: owner_call_frame(2) [OF ok])
  next
    case owner: False
    with False assms(2) show ?thesis
      by (cases c) (simp_all add: is_kiosk_command_def is_owner_call_def accept_keeps_left_behind)
  qed
qed

lemma run_commands_left_behind:
  "stores_ok h \<Longrightarrow> hub_left_behind k i e r (fh_devices h) \<Longrightarrow>
   hub_left_behind k i e r (fh_devices (run_commands ob jb sha enc h cs))"
proof (induction cs arbitrary: h)
  case (Cons c cs)
  then show ?case
    using Cons.IH [OF run_command_stores run_command_left_behind] by (simp add: run_commands_def)
qed (simp add: run_commands_def)

lemma no_replay:
  assumes ok: "stores_ok h" and acc: "is_accepted (snd (accept_observation ob jb h obs t))"
    and same: "lineage_of obs' = lineage_of obs"
      "di_device_id (do_identity obs') = di_device_id (do_identity obs)"
  shows "\<not> is_accepted (snd (accept_observation ob jb
     (run_commands ob jb sha enc (fst (accept_observation ob jb h obs t)) cs) obs' t'))"
proof -
  obtain i e r where l: "lineage_of obs = (i, e, r)" by (cases "lineage_of obs")
  have "stores_ok (fst (accept_observation ob jb h obs t))"
    using stores_ok_cong [of "fst (accept_observation ob jb h obs t)" h] ok by simp
  with accept_establishes_left_behind [OF acc l]
  have "hub_left_behind (di_device_id (do_identity obs')) i e r
      (fh_devices (run_commands ob jb sha enc (fst (accept_observation ob jb h obs t)) cs))"
    unfolding same(2) by (rule run_commands_left_behind [rotated])
  then show ?thesis
    using same(1) l by (intro left_behind_not_accepted) simp_all
qed

end
