(* ===== verification/Hub_List_Facts.thy ===== *)
theory Hub_List_Facts
  imports Hub_Query Hub_Acceptance
begin

text \<open>
  The row comparator is a total order, a query result is the requested window of the sorted
  matching rows, consecutive windows join up, and the summary's counts partition the fleet.
\<close>

text \<open>
  Facts about the read side: what \<open>newest_conditions\<close> keeps, that rows and projections satisfy
  their contracts.
\<close>

section \<open>The newest condition of each family\<close>

abbreviation condition_stamp :: "status_condition \<Rightarrow> u64 \<times> i64" where
  "condition_stamp c \<equiv> (sc_accepted_revision c, sc_received_time_ms c)"

lemma project_condition_fields [simp]:
  "sc_family (project_condition t c) = sc_family c"
  "sc_accepted_revision (project_condition t c) = sc_accepted_revision c"
  "sc_received_time_ms (project_condition t c) = sc_received_time_ms c"
  "sc_reason (project_condition t c) = sc_reason c"
  by (simp_all add: project_condition_def)

lemma project_condition_valid [simp]:
  "valid (validate_condition (project_condition t c)) = valid (validate_condition c)"
  by (simp add: valid_condition project_condition_def)

definition newest_of :: "i64 \<Rightarrow> status_condition list \<Rightarrow> condition_family \<Rightarrow> status_condition option \<Rightarrow> bool"
where
  "newest_of t cs f x \<longleftrightarrow> (case x of
     None \<Rightarrow> \<forall>c\<in>set cs. sc_family c \<noteq> f
   | Some c \<Rightarrow> \<exists>c'\<in>set cs. c = project_condition t c' \<and> sc_family c' = f \<and>
       (\<forall>d\<in>set cs. sc_family d = f \<longrightarrow> condition_stamp d \<le> condition_stamp c'))"

lemma newest_conditions_snoc:
  "newest_conditions (cs @ [c]) t = newest_step t c (newest_conditions cs t)"
  by (simp add: newest_conditions_def)

lemma newest_conditions_correct: "newest_of t cs f (bt_get (newest_conditions cs t) f)"
proof (induction cs rule: rev_induct)
  case Nil
  then show ?case by (simp add: newest_of_def newest_conditions_def)
next
  case (snoc c cs)
  let ?m = "newest_conditions cs t"
  show ?case
  proof (cases "sc_family c = f")
    case False
    then have "bt_get (newest_step t c ?m) f = bt_get ?m f"
      by (simp add: newest_step_def Let_def)
    with snoc False show ?thesis
      by (auto simp: newest_conditions_snoc newest_of_def simp del: less_prod_simp less_eq_prod_simp
          split: option.splits)
  next
    case True
    show ?thesis
    proof (cases "bt_get ?m f")
      case None
      with snoc True show ?thesis
        by (auto simp: newest_conditions_snoc newest_of_def newest_step_def Let_def
              simp del: less_prod_simp less_eq_prod_simp)
    next
      case (Some p)
      with snoc obtain p' where p': "p' \<in> set cs" "p = project_condition t p'" "sc_family p' = f"
        "\<forall>d\<in>set cs. sc_family d = f \<longrightarrow> condition_stamp d \<le> condition_stamp p'"
        by (auto simp: newest_of_def)
      show ?thesis
      proof (cases "supersedes (project_condition t c) p")
        case True
        then have "condition_stamp p' < condition_stamp c"
          by (simp add: supersedes_def p'(2) del: less_prod_simp)
        with p'(4) have "\<forall>d\<in>set cs. sc_family d = f \<longrightarrow> condition_stamp d \<le> condition_stamp c"
          by (blast intro: order.trans less_imp_le)
        with True Some \<open>sc_family c = f\<close> show ?thesis
          by (simp add: newest_conditions_snoc newest_of_def newest_step_def Let_def
              del: less_prod_simp less_eq_prod_simp)
      next
        case False
        then have "\<not> condition_stamp p' < condition_stamp c"
          by (simp add: supersedes_def p'(2) del: less_prod_simp)
        then have "condition_stamp c \<le> condition_stamp p'"
          by (rule leI)
        with p' False Some \<open>sc_family c = f\<close> show ?thesis
          by (auto simp: newest_conditions_snoc newest_of_def newest_step_def Let_def
              simp del: less_prod_simp less_eq_prod_simp)
      qed
    qed
  qed
qed

lemma newest_conditions_Some:
  assumes "bt_get (newest_conditions cs t) f = Some c"
  obtains c' where "c' \<in> set cs" "c = project_condition t c'" "sc_family c' = f"
    "\<And>d. d \<in> set cs \<Longrightarrow> sc_family d = f \<Longrightarrow> condition_stamp d \<le> condition_stamp c'"
proof -
  have "newest_of t cs f (Some c)"
    using newest_conditions_correct [of t cs f] assms by simp
  then have "\<exists>c'\<in>set cs. c = project_condition t c' \<and> sc_family c' = f \<and>
      (\<forall>d\<in>set cs. sc_family d = f \<longrightarrow> condition_stamp d \<le> condition_stamp c')"
    by (simp only: newest_of_def option.case)
  then obtain c' where "c' \<in> set cs" "c = project_condition t c'" "sc_family c' = f"
    "\<forall>d\<in>set cs. sc_family d = f \<longrightarrow> condition_stamp d \<le> condition_stamp c'"
    by (elim bexE conjE)
  then show ?thesis by (intro that) (assumption+, blast)
qed

lemma bt_len_families: "bt_len (m :: (condition_family, 'v) btree_map) \<le> 9"
proof -
  have "family_index ` set (bt_keys m) \<subseteq> {..<9}"
  proof
    fix i assume "i \<in> family_index ` set (bt_keys m)"
    then obtain f where "i = family_index f" by blast
    then show "i \<in> {..<9}" by (cases f) simp_all
  qed
  then have "card (family_index ` set (bt_keys m)) \<le> 9"
    using card_mono [of "{..<9::nat}"] by simp
  moreover have "card (family_index ` set (bt_keys m)) = card (set (bt_keys m))"
    by (intro card_image inj_onI) simp
  moreover have "card (set (bt_keys m)) = bt_len m"
    using distinct_card [OF distinct_bt_keys [of m]] by (simp add: bt_keys_def bt_len_def)
  ultimately show ?thesis by simp
qed

section \<open>Rows are valid\<close>

lemma kiosk_text_not_blank [simp]: "\<not> is_blank (kiosk_text s)"
  by (cases s) (simp_all add: is_blank.simps)

lemma route_text_not_blank:
  assumes "\<forall>c\<in>set (do_conditions obs). valid (validate_condition c)"
  shows "\<not> is_blank (route_text obs fr)"
proof (cases "find (\<lambda>c. sc_family c = Family_Freshness) (do_conditions obs)")
  case None
  then show ?thesis by (simp add: route_text_def is_blank.simps)
next
  case (Some c)
  then have "c \<in> set (do_conditions obs)" by (auto simp: find_Some_iff)
  with assms have "\<not> is_blank (sc_reason c)" by (simp add: valid_condition)
  with Some show ?thesis by (simp add: route_text_def is_blank.simps)
qed

lemma valid_observation_facts:
  assumes "valid (validate_observation ob jb obs)"
  shows "\<forall>a. do_agent obs = Some a \<longrightarrow> valid (validate_application a)"
    and "\<forall>p. do_power obs = Some p \<longrightarrow> valid (validate_power p)"
    and "\<forall>a. do_application obs = Some a \<longrightarrow> valid (validate_application a)"
  using assms by (simp_all add: validate_observation_def observation_fact_failures_def)

lemma hub_row_valid:
  assumes r: "device_record_ok ob jb p rr d r"
  shows "valid (validate_row (hub_row h r t))"
proof -
  let ?obs = "rec_observation r" and ?row = "hub_row h r t"
  have v: "valid (validate_observation ob jb ?obs)" and pos: "0 < rec_accepted_revision r"
    using r by (simp_all add: device_record_ok_def)
  note fields = valid_observation_fields [OF v] and facts = valid_observation_facts [OF v]
  have "row_head_failures ?row = []"
    using fields(1-4) facts pos
    by (auto simp: row_head_failures_def hub_row_def Let_def not_less)
  moreover have "\<forall>f c. bt_get (dr_conditions ?row) f = Some c \<longrightarrow> f = sc_family c \<and> valid (validate_condition c)"
    using fields(5) by (auto simp: hub_row_def Let_def elim!: newest_conditions_Some)
  moreover have "\<not> is_blank (dr_route ?row)"
    using route_text_not_blank [OF fields(5)] by (simp add: hub_row_def Let_def)
  moreover have "bt_len (dr_conditions ?row) \<le> 16"
    using bt_len_families [of "dr_conditions ?row"] by simp
  moreover have "dr_extensions ?row = bt_empty" "valid (validate_capabilities (dr_capabilities ?row))"
    "\<not> is_blank (dr_kiosk_state ?row)"
    using fields(6) by (simp_all add: hub_row_def Let_def)
  ultimately show ?thesis
    by (simp add: validate_row_def)
qed

lemma hub_row_identity [simp]: "dr_identity (hub_row h r t) = do_identity (rec_observation r)"
  by (simp add: hub_row_def Let_def)

lemma row_conditions_valid:
  assumes "device_record_ok ob jb p rr d r" and "c \<in> set (bt_values (dr_conditions (hub_row h r t)))"
  shows "valid (validate_condition c)"
proof -
  obtain f where f: "bt_get (newest_conditions (do_conditions (rec_observation r)) t) f = Some c"
    using assms(2) by (auto simp: set_bt_values hub_row_def Let_def)
  have "\<forall>c\<in>set (do_conditions (rec_observation r)). valid (validate_condition c)"
    using assms(1) valid_observation_fields(5) by (auto simp: device_record_ok_def)
  with f show ?thesis by (auto elim!: newest_conditions_Some)
qed

lemma inspector_valid:
  assumes r: "device_record_ok ob jb p rr d r"
  shows "valid (validate_inspector jb (inspector_of h r t))"
proof -
  let ?row = "hub_row h r t"
  have v: "valid (validate_observation ob jb (rec_observation r))"
    using r by (simp add: device_record_ok_def)
  have "length (filter (needs_attention t) (bt_values (dr_conditions ?row))) \<le> bt_len (dr_conditions ?row)"
    using length_filter_le [of "needs_attention t" "bt_values (dr_conditions ?row)"]
    by (simp add: bt_len_def bt_values_def)
  then have "length (filter (needs_attention t) (bt_values (dr_conditions ?row))) \<le> 64"
    using bt_len_families [of "dr_conditions ?row"] by linarith
  moreover have "\<forall>c\<in>set (filter (needs_attention t) (bt_values (dr_conditions ?row))). valid (validate_condition c)"
    using row_conditions_valid [OF r, of _ h t] by simp
  then have "\<forall>i<length (filter (needs_attention t) (bt_values (dr_conditions ?row))).
      valid (validate_condition (filter (needs_attention t) (bt_values (dr_conditions ?row)) ! i))"
    by (simp only: all_set_conv_all_nth)
  moreover have "\<forall>i<length (do_streams (rec_observation r)). valid (validate_stream jb (do_streams (rec_observation r) ! i))"
    using valid_observation_fields(9) [OF v] by (simp only: all_set_conv_all_nth)
  moreover note hub_row_valid [OF r, of h t] valid_observation_fields(8) [OF v]
  ultimately show ?thesis
    by (simp add: validate_inspector_def inspector_of_def Let_def)
qed

lemma detail_valid:
  assumes d: "devices_ok ob jb h" and limit: "hp_history_limit_per_device (fh_policy h) \<le> 128"
    and res: "hub_detail h device_id t = Inr dd"
  shows "valid (validate_detail jb dd)" and "dins_row (dd_inspector dd) = hub_row h (the (bt_get (fh_devices h) device_id)) t"
proof -
  obtain r where r: "bt_get (fh_devices h) device_id = Some r"
    "dd = \<lparr>dd_schema = ''rusty.fleet.device_detail.v1'', dd_inspector = inspector_of h r t,
       dd_condition_history = rec_condition_history r, dd_operation_history = []\<rparr>"
    using res by (auto simp: hub_detail_def hub_inspect_def find_device_def split: option.splits)
  have ok: "device_record_ok ob jb (fh_policy h) (fh_result_revision h) device_id r"
    using d r(1) unfolding devices_ok_def by (rule bt.all_entriesD)
  have "validate_inspector jb (inspector_of h r t) \<noteq> Inl []"
    by (simp add: validate_inspector_def)
  with ok limit inspector_valid [OF ok, of h t] show "valid (validate_detail jb dd)"
    by (simp add: r(2) validate_detail_def device_record_ok_def all_set_conv_all_nth)
  show "dins_row (dd_inspector dd) = hub_row h (the (bt_get (fh_devices h) device_id)) t"
    by (simp add: r inspector_of_def Let_def)
qed

section \<open>The comparator\<close>

lemma total_compare_field: "total_comparator (compare_field f q)"
  by (cases f; cases q)
    (simp_all add: compare_field_def [abs_def] total_comparator_cmp total_comparator_cmp_option
      total_comparator_equal)

lemma total_compare_key: "total_comparator (compare_key k)"
  by (cases "sk_direction k")
    (simp_all add: compare_key_def [abs_def] Let_def total_compare_field total_comparator_reverse)

lemma compare_keys_Cons_then:
  "compare_keys (k # ks) = (\<lambda>a b. ord_then (compare_key k a b) (compare_keys ks a b))"
  by (simp add: fun_eq_iff ord_then_def Let_def)

lemma total_compare_keys: "total_comparator (compare_keys ks)"
proof (induction ks)
  case Nil
  have "compare_keys [] = (\<lambda>left right.
     ord_then (cmp (di_display_name (dr_identity left)) (di_display_name (dr_identity right)))
       (cmp (di_device_id (dr_identity left)) (di_device_id (dr_identity right))))"
    by (simp add: fun_eq_iff)
  then show ?case
    by (simp only: total_comparator_then [OF total_comparator_cmp total_comparator_cmp])
next
  case (Cons k ks)
  then show ?case
    unfolding compare_keys_Cons_then by (intro total_comparator_then total_compare_key)
qed

lemma total_compare_rows: "total_comparator (compare_rows q)"
  using total_compare_keys [of "fq_sort q"] by (simp add: compare_rows_def [abs_def])

lemma compare_keys_Equal:
  "compare_keys ks a b = Equal \<Longrightarrow> di_device_id (dr_identity a) = di_device_id (dr_identity b)"
  by (induction ks) (auto simp: ord_then_def cmp_def Let_def split: if_splits)

section \<open>Query results\<close>

definition fleet_rows :: "'a hub_state_scheme \<Rightarrow> i64 \<Rightarrow> device_row list" where
  "fleet_rows h t = map (\<lambda>r. hub_row h r t) (bt_values (fh_devices h))"

definition sorted_matches ::
  "(string \<Rightarrow> string) \<Rightarrow> 'a hub_state_scheme \<Rightarrow> fleet_query \<Rightarrow> i64 \<Rightarrow> device_row list" where
  "sorted_matches uni h q t = sort_by (compare_rows q)
     (filter (\<lambda>row. none_or (\<lambda>e. evaluate uni e row) (fq_expression q)) (fleet_rows h t))"

lemma length_fleet_rows: "length (fleet_rows h t) = bt_len (fh_devices h)"
  by (simp add: fleet_rows_def bt_values_def bt_len_def)

lemma set_sorted_matches:
  "set (sorted_matches uni h q t) =
     {row\<in>set (fleet_rows h t). \<forall>e. fq_expression q = Some e \<longrightarrow> evaluate uni e row}"
  by (auto simp: sorted_matches_def)

lemma length_sorted_matches: "length (sorted_matches uni h q t) \<le> bt_len (fh_devices h)"
  by (simp add: sorted_matches_def length_fleet_rows [symmetric, of h t])

lemma window_take:
  assumes "length xs \<le> u64_max"
  shows "take (min (u64_saturating_add (min o' (length xs)) l) (length xs) - min o' (length xs))
     (drop (min o' (length xs)) xs) = take l (drop o' xs)"
proof (cases "o' \<le> length xs")
  case True
  have "min (u64_saturating_add o' l) (length xs) - o' = min l (length xs - o')"
    using assms True by (auto simp: u64_saturating_add_def)
  moreover have "take (min l (length xs - o')) (drop o' xs) = take l (drop o' xs)"
    by (simp add: min_def)
  ultimately show ?thesis using True by (simp add: min_absorb1)
qed simp

lemma window_metadata:
  "ys = take n (drop a xs) \<Longrightarrow> a \<le> length xs \<Longrightarrow> u64_saturating_add a (length ys) \<le> length xs"
  by (simp add: u64_saturating_add_def)

lemma hub_list_window:
  assumes q: "valid (validate_query q)" and size: "bt_len (fh_devices h) \<le> u64_max"
  shows "\<exists>r. hub_list uni h q t = Inr r \<and>
     fqr_rows r = take (fq_limit q) (drop (fq_offset q) (sorted_matches uni h q t)) \<and>
     fqr_total_count r = length (sorted_matches uni h q t) \<and>
     (0 < fh_result_revision h \<longrightarrow> valid (validate_query_result r))"
proof -
  define xs where "xs = sorted_matches uni h q t"
  define a where "a = min (fq_offset q) (length xs)"
  define n where "n = min (u64_saturating_add a (fq_limit q)) (length xs) - a"
  define ys where "ys = take n (drop a xs)"
  have len: "length xs \<le> u64_max"
    using length_sorted_matches [of uni h q t] size by (simp add: xs_def)
  have ys: "ys = take (fq_limit q) (drop (fq_offset q) xs)"
    unfolding ys_def n_def a_def by (rule window_take [OF len])
  have meta: "u64_saturating_add a (length ys) \<le> length xs"
    by (rule window_metadata [OF ys_def]) (simp add: a_def)
  have list: "hub_list uni h q t = Inr \<lparr>fqr_schema = ''rusty.fleet.query_result.v1'', fqr_query = q,
      fqr_result_revision = fh_result_revision h, fqr_as_of_ms = t, fqr_total_count = length xs,
      fqr_window_offset = a, fqr_window_count = length ys, fqr_rows = ys\<rparr>"
    using q unfolding hub_list_def Let_def ys_def n_def a_def xs_def sorted_matches_def fleet_rows_def
    by (simp only: valid_iff_Inr sum.case)
  show ?thesis
    unfolding list xs_def [symmetric]
    using q meta ys by (simp add: validate_query_result_def not_less)
qed

lemma list_rows_distinct:
  assumes "devices_ok ob jb h"
  shows "distinct (map (\<lambda>row. di_device_id (dr_identity row)) (fleet_rows h t))"
proof -
  have "di_device_id (do_identity (rec_observation (snd e))) = fst e" if "e \<in> set (entries (fh_devices h))" for e
  proof -
    have "bt_get (fh_devices h) (fst e) = Some (snd e)"
      using that by (simp add: bt_get_Some_iff)
    with assms have "device_record_ok ob jb (fh_policy h) (fh_result_revision h) (fst e) (snd e)"
      unfolding devices_ok_def by (blast intro: bt.all_entriesD)
    then show ?thesis by (simp add: device_record_ok_def)
  qed
  then have "map (\<lambda>row. di_device_id (dr_identity row)) (fleet_rows h t) = bt_keys (fh_devices h)"
    by (simp add: fleet_rows_def bt_values_def bt_keys_def)
  then show ?thesis by simp
qed

lemma sorted_wrt_strengthen:
  "sorted_wrt P xs \<Longrightarrow> distinct xs \<Longrightarrow>
   (\<And>a b. a \<in> set xs \<Longrightarrow> b \<in> set xs \<Longrightarrow> a \<noteq> b \<Longrightarrow> P a b \<Longrightarrow> Q a b) \<Longrightarrow> sorted_wrt Q xs"
  by (induction xs) auto

lemma sorted_wrt_irrefl_distinct: "sorted_wrt P xs \<Longrightarrow> (\<And>a. \<not> P a a) \<Longrightarrow> distinct xs"
  by (induction xs) auto

text \<open>The order of the result is strict: no two rows compare equal.\<close>

lemma sorted_matches_strict:
  assumes "devices_ok ob jb h"
  shows "sorted_wrt (\<lambda>a b. compare_rows q a b = Less) (sorted_matches uni h q t)"
proof -
  let ?id = "\<lambda>row. di_device_id (dr_identity row)"
  let ?xs = "filter (\<lambda>row. none_or (\<lambda>e. evaluate uni e row) (fq_expression q)) (fleet_rows h t)"
  have d: "distinct (map ?id (fleet_rows h t))" by (rule list_rows_distinct [OF assms])
  then have "distinct (map ?id ?xs)" by (rule distinct_map_filter)
  then have inj: "inj_on ?id (set (sorted_matches uni h q t))" and dist: "distinct (sorted_matches uni h q t)"
    unfolding sorted_matches_def by (simp_all only: distinct_map set_sort_by distinct_sort_by)
  have "sorted_wrt (\<lambda>a b. compare_rows q a b \<noteq> Greater) (sorted_matches uni h q t)"
    unfolding sorted_matches_def by (rule sorted_sort_by [OF total_compare_rows])
  then show ?thesis
  proof (rule sorted_wrt_strengthen [OF _ dist])
    fix a b
    assume "a \<in> set (sorted_matches uni h q t)" "b \<in> set (sorted_matches uni h q t)" "a \<noteq> b"
      and le: "compare_rows q a b \<noteq> Greater"
    then have "compare_rows q a b \<noteq> Equal"
      using inj compare_keys_Equal [of "fq_sort q" a b] by (auto simp: compare_rows_def inj_on_def)
    with le show "compare_rows q a b = Less" by (cases "compare_rows q a b") simp_all
  qed
qed

text \<open>Windows that follow each other join up to one window of both lengths.\<close>

lemma sorted_matches_window [simp]:
  "sorted_matches uni h (q\<lparr>fq_offset := a, fq_limit := b\<rparr>) t = sorted_matches uni h q t"
  by (simp add: sorted_matches_def compare_rows_def [abs_def])

lemma windows_join:
  assumes "valid (validate_query (q\<lparr>fq_offset := a, fq_limit := m\<rparr>))"
    and "valid (validate_query (q\<lparr>fq_offset := a + m, fq_limit := n\<rparr>))"
    and "valid (validate_query (q\<lparr>fq_offset := a, fq_limit := m + n\<rparr>))"
    and "bt_len (fh_devices h) \<le> u64_max"
  shows "\<exists>r1 r2 r. hub_list uni h (q\<lparr>fq_offset := a, fq_limit := m\<rparr>) t = Inr r1 \<and>
     hub_list uni h (q\<lparr>fq_offset := a + m, fq_limit := n\<rparr>) t = Inr r2 \<and>
     hub_list uni h (q\<lparr>fq_offset := a, fq_limit := m + n\<rparr>) t = Inr r \<and>
     fqr_rows r1 @ fqr_rows r2 = fqr_rows r"
proof -
  let ?xs = "sorted_matches uni h q t"
  have "take m (drop a ?xs) @ take n (drop (a + m) ?xs) = take (m + n) (drop a ?xs)"
    by (simp add: take_add add.commute)
  moreover obtain r1 where "hub_list uni h (q\<lparr>fq_offset := a, fq_limit := m\<rparr>) t = Inr r1"
      "fqr_rows r1 = take m (drop a ?xs)"
    using hub_list_window [OF assms(1,4), of uni t] by auto
  moreover obtain r2 where "hub_list uni h (q\<lparr>fq_offset := a + m, fq_limit := n\<rparr>) t = Inr r2"
      "fqr_rows r2 = take n (drop (a + m) ?xs)"
    using hub_list_window [OF assms(2,4), of uni t] by auto
  moreover obtain r where "hub_list uni h (q\<lparr>fq_offset := a, fq_limit := m + n\<rparr>) t = Inr r"
      "fqr_rows r = take (m + n) (drop a ?xs)"
    using hub_list_window [OF assms(3,4), of uni t] by auto
  ultimately show ?thesis by auto
qed

section \<open>Summary\<close>

lemma hub_row_not_unknown: "dr_freshness (hub_row h r t) \<noteq> Projection_Unknown"
  by (simp add: hub_row_def Let_def row_freshness_def)

lemma freshness_partition:
  "(\<forall>row\<in>set rows. dr_freshness row \<noteq> Projection_Unknown) \<Longrightarrow>
   count_rows (\<lambda>row. dr_freshness row = Fresh) rows + count_rows (\<lambda>row. dr_freshness row = Projection_Stale) rows +
     count_rows (\<lambda>row. dr_freshness row = Offline) rows = length rows"
proof (induction rows)
  case (Cons row rows)
  then show ?case by (cases "dr_freshness row") (auto simp: count_rows_def)
qed (simp add: count_rows_def)

lemma summary_counts:
  "fsum_fresh (hub_summary h t) + fsum_stale (hub_summary h t) + fsum_offline (hub_summary h t) =
     fsum_total (hub_summary h t)"
  "fsum_total (hub_summary h t) = bt_len (fh_devices h)"
  "valid (validate_summary (hub_summary h t))"
proof -
  let ?rows = "fleet_rows h t"
  have "\<forall>row\<in>set ?rows. dr_freshness row \<noteq> Projection_Unknown"
    by (auto simp: fleet_rows_def hub_row_not_unknown)
  then show *: "fsum_fresh (hub_summary h t) + fsum_stale (hub_summary h t) + fsum_offline (hub_summary h t) =
     fsum_total (hub_summary h t)"
    using freshness_partition [of ?rows] by (simp add: hub_summary_def Let_def fleet_rows_def)
  show "fsum_total (hub_summary h t) = bt_len (fh_devices h)"
    using length_fleet_rows [of h t] by (simp add: hub_summary_def Let_def fleet_rows_def)
  have "fsum_attention (hub_summary h t) \<le> fsum_total (hub_summary h t)"
    using length_filter_le [of _ ?rows] by (simp add: hub_summary_def Let_def count_rows_def fleet_rows_def)
  with * show "valid (validate_summary (hub_summary h t))"
    by (simp add: validate_summary_def not_less) (simp add: hub_summary_def Let_def)
qed

text \<open>A device counts as needing attention exactly when its inspector lists a condition.\<close>

lemma summary_attention:
  "fsum_attention (hub_summary h t) =
     length (filter (\<lambda>r. dins_attention (inspector_of h r t) \<noteq> []) (bt_values (fh_devices h)))"
  by (simp add: hub_summary_def Let_def count_rows_def inspector_of_def filter_map comp_def
      filter_empty_conv list_ex_iff)

section \<open>Comparison laws\<close>

text \<open>On a field every row has, \<open>NotEquals\<close> is the complement of \<open>Equals\<close>.\<close>

lemma text_complement:
  "is_text_value v \<Longrightarrow> compare_text uni a NotEquals v \<longleftrightarrow> \<not> compare_text uni a Equals v"
  by (auto simp: is_text_value_def compare_text_def Let_def split: option.splits query_value.splits)

lemma predicate_complement:
  assumes "predicate_ok (field, Equals, v, qualifier)"
    and "field \<in> {Field_DeviceId, Field_DisplayName, Field_Model, Field_Freshness, Field_KioskState}"
  shows "evaluate uni (Predicate field NotEquals v qualifier) row \<longleftrightarrow>
     \<not> evaluate uni (Predicate field Equals v qualifier) row"
proof -
  have "is_text_value v"
    using assms by (auto simp: predicate_ok_def predicate_value_is_compatible_def)
  with assms(2) show ?thesis
    by (auto simp: evaluate_predicate_def Let_def text_complement)
qed

end
