(* ===== verification/Checkin.thy ===== *)
theory Checkin
  imports Saved_View
begin

text \<open>
  crates/fleet-contracts/src/checkin.rs: the claims of a signed Fleet check-in, the envelope, and
  the bytes a signature covers. \<^verbatim>\<open>serde_json\<close> and \<^verbatim>\<open>serde_jcs\<close> are parameters: \<open>checkin_bytes\<close> is the
  serialised length, \<open>is_object\<close> tells a JSON object, \<open>jcs\<close> is the canonical encoding (\<open>None\<close> when
  it fails).
\<close>

definition max_checkin_ttl_ms :: i64 where
  "max_checkin_ttl_ms = 300000"

definition max_checkin_bytes :: usize where
  "max_checkin_bytes = 256 * 1024"

definition max_identifier_bytes :: usize where
  "max_identifier_bytes = 128"

text \<open>The domain separator ends in a NUL byte.\<close>

definition checkin_signature_domain :: string where
  "checkin_signature_domain = ''rusty.fleet.signed_checkin.v1'' @ [char_of (0 :: nat)]"

definition checkin_signature_algorithm :: string where
  "checkin_signature_algorithm = ''ed25519-jcs''"

definition require_dotted_id :: "string \<Rightarrow> string \<Rightarrow> failures" where
  "require_dotted_id value path =
     require_nonempty value path @
     fail_if (length value > max_identifier_bytes \<or>
              list_ex (\<lambda>segment. segment = [] \<or> \<not> is_identifier_edge (hd segment) \<or>
                 \<not> is_identifier_edge (last segment) \<or> \<not> list_all is_identifier_body segment)
                (split_on CHR ''.'' value))
       ''invalid_dotted_id'' path
       ''identifier must be at most 128 bytes and use lowercase dotted-id grammar''"

record checkin_claims =
  cc_schema :: string
  cc_checkin_id :: string
  cc_issued_at_ms :: i64
  cc_expires_at_ms :: i64
  cc_manifold_peer_status_proposal :: json_value
  cc_observation :: device_observation
  cc_extensions :: extensions

definition fact_window_failures :: "checkin_claims \<Rightarrow> failures" where
  "fact_window_failures c =
     for_in (\<lambda>(path, provenance).
       fail_if (some_and (\<lambda>p. fp_observed_at_ms p \<noteq> do_source_time_ms (cc_observation c) \<or>
                              fp_fresh_until_ms p \<noteq> cc_expires_at_ms c) provenance)
         ''fact_window_mismatch'' path
         ''M1 fact time must match source time and check-in expiry'')
       [(''observation.agent.provenance'', map_option ao_provenance (do_agent (cc_observation c))),
        (''observation.power.provenance'', map_option po_provenance (do_power (cc_observation c))),
        (''observation.application.provenance'',
           map_option ao_provenance (do_application (cc_observation c)))]"

definition checkin_window_failures :: "checkin_claims \<Rightarrow> failures" where
  "checkin_window_failures c =
     fail_if (cc_issued_at_ms c < 0 \<or> cc_expires_at_ms c \<le> cc_issued_at_ms c \<or>
              i64_saturating_sub (cc_expires_at_ms c) (cc_issued_at_ms c) > max_checkin_ttl_ms)
       ''invalid_checkin_window'' ''expires_at_ms''
       ''check-in window must be positive and no longer than five minutes''"

record checkin_codec =
  codec_observation_bytes :: "device_observation \<Rightarrow> nat option"
  codec_json_bytes :: "json_value \<Rightarrow> nat option"
  codec_checkin_bytes :: "checkin_claims \<Rightarrow> nat option"
  codec_is_object :: "json_value \<Rightarrow> bool"
  codec_jcs :: "checkin_claims \<Rightarrow> string option"

definition validate_claims :: "checkin_codec \<Rightarrow> checkin_claims \<Rightarrow> validation" where
  "validate_claims codec c = finish (
     fail_if (cc_schema c \<noteq> ''rusty.fleet.checkin_claims.v1'')
       ''wrong_schema'' ''schema'' ''expected rusty.fleet.checkin_claims.v1'' @
     require_dotted_id (cc_checkin_id c) ''checkin_id'' @
     checkin_window_failures c @
     fail_if (\<not> codec_is_object codec (cc_manifold_peer_status_proposal c))
       ''invalid_manifold_proposal'' ''manifold_peer_status_proposal''
       ''Manifold peer-status proposal must be a JSON object'' @
     fail_if (do_source_time_ms (cc_observation c) \<noteq> cc_issued_at_ms c)
       ''source_issue_mismatch'' ''observation.source_time_ms''
       ''M1 check-in source time must equal its signed issue time'' @
     fail_if (do_received_time_ms (cc_observation c) \<noteq> 0)
       ''untrusted_receive_time'' ''observation.received_time_ms''
       ''signed check-ins must leave received time zero for the Hub ingress adapter'' @
     fact_window_failures c @
     nested_at ''observation.''
       (validate_observation (codec_observation_bytes codec) (codec_json_bytes codec) (cc_observation c)) @
     fail_if (bt_len (cc_extensions c) > 16)
       ''checkin_extensions_exceeded'' ''extensions''
       ''check-in supports at most 16 extension fields'' @
     fail_if (some_and (\<lambda>bytes. bytes > max_checkin_bytes) (codec_checkin_bytes codec c))
       ''checkin_bytes_exceeded'' ''checkin''
       ''serialized check-in exceeds the 256 KiB low-rate limit'')"

record signed_checkin =
  sgc_schema :: string
  sgc_key_id :: string
  sgc_algorithm :: string
  sgc_signature_hex :: string
  sgc_claims :: checkin_claims

definition validate_signed_checkin :: "checkin_codec \<Rightarrow> signed_checkin \<Rightarrow> validation" where
  "validate_signed_checkin codec s = finish (
     fail_if (sgc_schema s \<noteq> ''rusty.fleet.signed_checkin.v1'')
       ''wrong_schema'' ''schema'' ''expected rusty.fleet.signed_checkin.v1'' @
     require_dotted_id (sgc_key_id s) ''key_id'' @
     fail_if (sgc_algorithm s \<noteq> checkin_signature_algorithm)
       ''unsupported_signature'' ''algorithm''
       ''M1 supports only Ed25519 signatures over RFC 8785/JCS claims'' @
     fail_if (length (sgc_signature_hex s) \<noteq> 128 \<or>
              \<not> list_all (\<lambda>v. is_ascii_hexdigit v \<and> \<not> is_ascii_uppercase v) (sgc_signature_hex s))
       ''invalid_signature_encoding'' ''signature_hex''
       ''signature must be 64 bytes encoded as lowercase hexadecimal'' @
     nested (validate_claims codec (sgc_claims s)))"

definition signing_bytes :: "checkin_codec \<Rightarrow> checkin_claims \<Rightarrow> string option" where
  "signing_bytes codec c =
     map_option (\<lambda>canonical. checkin_signature_domain @ canonical) (codec_jcs codec c)"

lemma validate_claims_not_Inl_Nil [simp]: "validate_claims codec c \<noteq> Inl []"
  by (simp add: validate_claims_def)

lemma require_dotted_id_Nil:
  "require_dotted_id value path = [] \<longleftrightarrow>
     \<not> is_blank value \<and> length value \<le> 128 \<and> list_all is_dotted_segment (split_on CHR ''.'' value)"
  by (auto simp: require_dotted_id_def max_identifier_bytes_def is_dotted_segment_def list_ex_iff
      list_all_iff)

text \<open>A checked identifier of a check-in satisfies the saved-view grammar as well.\<close>

lemma require_dotted_id_iff_saved_view_id:
  "require_dotted_id value path = [] \<longleftrightarrow> is_valid_saved_view_id value"
proof
  assume "require_dotted_id value path = []"
  then show "is_valid_saved_view_id value"
    by (auto simp: require_dotted_id_Nil is_valid_saved_view_id_def)
next
  assume v: "is_valid_saved_view_id value"
  then have "\<not> is_blank value" by (rule valid_id_not_blank)
  with v show "require_dotted_id value path = []"
    by (auto simp: require_dotted_id_Nil is_valid_saved_view_id_def)
qed

lemma valid_claims_window:
  assumes "valid (validate_claims codec c)"
  shows "0 \<le> cc_issued_at_ms c" and "cc_issued_at_ms c < cc_expires_at_ms c"
    and "cc_expires_at_ms c - cc_issued_at_ms c \<le> max_checkin_ttl_ms"
    and "do_source_time_ms (cc_observation c) = cc_issued_at_ms c"
    and "do_received_time_ms (cc_observation c) = 0"
    and "valid (validate_observation (codec_observation_bytes codec) (codec_json_bytes codec) (cc_observation c))"
proof -
  have w: "checkin_window_failures c = []"
    and eqs: "do_source_time_ms (cc_observation c) = cc_issued_at_ms c"
      "do_received_time_ms (cc_observation c) = 0"
    and obs: "valid (validate_observation (codec_observation_bytes codec) (codec_json_bytes codec) (cc_observation c))"
    using assms by (simp_all add: validate_claims_def)
  from eqs show "do_source_time_ms (cc_observation c) = cc_issued_at_ms c"
    "do_received_time_ms (cc_observation c) = 0" .
  from obs show "valid (validate_observation (codec_observation_bytes codec) (codec_json_bytes codec) (cc_observation c))" .
  from w show "0 \<le> cc_issued_at_ms c" "cc_issued_at_ms c < cc_expires_at_ms c"
    by (simp_all add: checkin_window_failures_def)
  from w show "cc_expires_at_ms c - cc_issued_at_ms c \<le> max_checkin_ttl_ms"
    by (auto simp: checkin_window_failures_def i64_saturating_sub_def max_checkin_ttl_ms_def
        i64_max_def i64_min_def)
qed

lemma valid_claims_facts:
  assumes "valid (validate_claims codec c)"
    and "p \<in> set_option (map_option ao_provenance (do_agent (cc_observation c))) \<union>
             set_option (map_option po_provenance (do_power (cc_observation c))) \<union>
             set_option (map_option ao_provenance (do_application (cc_observation c)))"
  shows "fp_observed_at_ms p = cc_issued_at_ms c \<and> fp_fresh_until_ms p = cc_expires_at_ms c"
proof -
  have "fact_window_failures c = []"
    using assms(1) by (simp add: validate_claims_def)
  with assms(2) show ?thesis
    using valid_claims_window(4) [OF assms(1)] by (auto simp: fact_window_failures_def)
qed

end
