(* ===== verification/Samples.thy ===== *)
theory Samples
  imports Hub_Runs Hub_List_Facts Checkin
begin

text \<open>
  Concrete inputs the properties are instantiated at: one registered headset with a ready Kiosk
  capability, and a Hub taken through preview, confirmation, dispatch and receipt.
\<close>

definition no_bytes :: "'a \<Rightarrow> nat option" where
  "no_bytes _ = None"

definition no_sha :: "string \<Rightarrow> string" where
  "no_sha _ = []"

definition no_codec :: hub_codec where
  "no_codec = \<lparr>hcd_package_json = (\<lambda>_. []), hcd_lowercase = (\<lambda>s. s)\<rparr>"

definition sample_identity :: "string \<Rightarrow> u64 \<Rightarrow> device_identity" where
  "sample_identity device_id revision = \<lparr>
     di_device_id = device_id,
     di_identity_revision = revision,
     di_display_name = ''Headset'',
     di_model = ''Quest 3'',
     di_hardware_class = ''headset'',
     di_tags = bt_insert ''room'' ''lab'' bt_empty,
     di_extensions = bt_empty\<rparr>"

definition sample_source :: status_source where
  "sample_source = \<lparr>ss_adapter_id = ''agent'', ss_owner = ''fleet'', ss_authority_revision = 1\<rparr>"

definition sample_condition :: "condition_family \<Rightarrow> condition_state \<Rightarrow> u64 \<Rightarrow> status_condition" where
  "sample_condition family state revision = \<lparr>
     sc_family = family, sc_state = state, sc_reason = ''lan'', sc_message = ''ok'',
     sc_source_time_ms = 900, sc_received_time_ms = 900, sc_accepted_revision = revision,
     sc_fresh_until_ms = 9000, sc_source = sample_source, sc_sensitivity = Public,
     sc_extensions = bt_empty\<rparr>"

definition sample_capability :: capability_state where
  "sample_capability = \<lparr>
     cap_capability_id = kiosk_capability_id,
     cap_support = Support_Supported, cap_enablement = Enablement_Enabled,
     cap_authorization = Authorization_Authorized, cap_reachability = Reachability_Reachable,
     cap_freshness = Freshness_Current, cap_evidence_revision = 1,
     cap_observed_at_ms = 900, cap_fresh_until_ms = 9000,
     cap_owner = kiosk_owner, cap_reason = ''ready'', cap_extensions = bt_empty\<rparr>"

definition sample_observation :: "string \<Rightarrow> u64 \<Rightarrow> string \<Rightarrow> u64 \<Rightarrow> device_observation" where
  "sample_observation device_id identity_revision epoch revision = \<lparr>
     do_schema = ''rusty.fleet.device_observation.v1'',
     do_identity = sample_identity device_id identity_revision,
     do_source_epoch = epoch,
     do_source_revision = revision,
     do_source_time_ms = 900,
     do_received_time_ms = 900,
     do_battery_percent = Some 80,
     do_charging = Some True,
     do_foreground_app = None,
     do_agent = None,
     do_power = None,
     do_application = None,
     do_kiosk_state = Kiosk_Active,
     do_conditions = [sample_condition Family_Freshness Current 1, sample_condition Family_Alert Degraded 1],
     do_capabilities = \<lparr>caps_capabilities = bt_insert kiosk_capability_id sample_capability bt_empty,
       caps_extensions = bt_empty\<rparr>,
     do_streams = [],
     do_extensions = bt_empty\<rparr>"

definition hub0 :: hub_state where
  "hub0 = the (hub_new default_policy)"

definition hub1 :: hub_state where
  "hub1 = run_command no_bytes no_bytes no_sha no_codec hub0 (Observe (sample_observation ''hmd-1'' 1 ''boot-1'' 1) 1000)"

definition sample_plan :: kiosk_preview_plan where
  "sample_plan = \<lparr>
     kpp_operation_id = ''op-1'',
     kpp_preview_id = ''preview-1'',
     kpp_request = \<lparr>opr_schema = ''rusty.fleet.operation_preview_request.v1'',
       opr_action_id = kiosk_show_controls_action_id,
       opr_targets = bt_insert ''hmd-1'' 1 bt_empty\<rparr>,
     kpp_created_at_ms = 1100,
     kpp_expires_at_ms = 5000,
     kpp_max_parallelism = 1,
     kpp_max_attempts_per_target = 2\<rparr>"

lemma hub0_new: "hub_new default_policy = Some hub0"
  by (simp add: hub0_def hub_new_def policy_ok_def default_policy_def)

lemmas sample_defs = sample_observation_def sample_identity_def sample_condition_def
  sample_source_def sample_capability_def kiosk_capability_id_def kiosk_owner_def no_bytes_def

lemma sample_identity_valid: "valid (validate_identity (sample_identity ''hmd-1'' 1))"
  by (simp add: valid_identity sample_identity_def is_blank.simps bt_len_insert bt_contains_key_def)

lemma sample_condition_valid: "0 < v \<Longrightarrow> valid (validate_condition (sample_condition f s v))"
  by (simp add: valid_condition sample_condition_def sample_source_def is_blank.simps)

lemma sample_capability_valid: "valid (validate_capability sample_capability)"
  by (simp add: valid_capability sample_capability_def kiosk_capability_id_def kiosk_owner_def is_blank.simps)

lemma sample_observation_valid:
  assumes "0 < v" and "e \<in> {''boot-1'', ''boot-2''}"
  shows "valid (validate_observation no_bytes no_bytes (sample_observation ''hmd-1'' 1 e v))"
proof -
  let ?o = "sample_observation ''hmd-1'' 1 e v"
  have "\<not> is_blank e"
    using assms(2) by (auto simp: is_blank.simps)
  then have "observation_head_failures ?o = []"
    using assms(1) sample_identity_valid by (simp add: valid_observation_head sample_observation_def)
  moreover have "observation_fact_failures ?o = []" "observation_limit_failures no_bytes ?o = []"
    by (simp_all add: observation_fact_failures_def observation_limit_failures_def
        sample_observation_def no_bytes_def on_some_def bt_len_insert bt_contains_key_def)
  moreover have "valid (validate_capabilities (do_capabilities ?o))"
    using sample_capability_valid
    by (simp add: valid_capabilities sample_observation_def capability_get_def bt_len_insert
        bt_contains_key_def) (simp add: sample_capability_def)
  moreover have "\<forall>i<length (do_conditions ?o). valid (validate_condition (do_conditions ?o ! i))"
    by (simp add: sample_observation_def sample_condition_valid less_Suc_eq)
  moreover have "do_streams ?o = []" by (simp add: sample_observation_def)
  ultimately show ?thesis by (simp add: validate_observation_def)
qed

lemma hub0_fields [simp]:
  "fh_policy hub0 = default_policy" "fh_devices hub0 = bt_empty" "fh_result_revision hub0 = 1"
  "fh_event_sequence hub0 = 0" "fh_events hub0 = []" "fh_saved_view_revision hub0 = 1"
  "fh_saved_views hub0 = bt_empty" "fh_kiosk_operations hub0 = bt_empty"
  by (simp_all add: hub0_def hub_new_def policy_ok_def default_policy_def)

lemma hub0_accepts:
  "accept_observation no_bytes no_bytes hub0 (sample_observation ''hmd-1'' 1 ''boot-1'' 1) 1000 =
   admit hub0 (sample_observation ''hmd-1'' 1 ''boot-1'' 1) 1000"
  using sample_observation_valid [of 1 "''boot-1''"]
  by (simp add: accept_observation_def valid_iff_Inr)

lemma hub1_eq: "hub1 = fst (admit hub0 (sample_observation ''hmd-1'' 1 ''boot-1'' 1) 1000)"
  by (simp only: hub1_def run_command.simps hub0_accepts)

lemma hub1_reachable: "reachable no_bytes no_bytes no_sha no_codec default_policy hub1"
  unfolding hub1_def
  by (intro reachable.step reachable.start hub0_new) (simp add: admissible_def u64_max_def)

section \<open>A Kiosk operation through its life\<close>

definition sample_preflight :: kiosk_preflight where
  "sample_preflight = \<lparr>
     kp_device_id = ''hmd-1'', kp_identity_revision = 1, kp_capability_id = kiosk_capability_id,
     kp_capability_evidence_revision = 1, kp_capability_owner = kiosk_owner,
     kp_support = Support_Supported, kp_enablement = Enablement_Enabled,
     kp_authorization = Authorization_Authorized, kp_reachability = Reachability_Reachable,
     kp_freshness = Freshness_Current, kp_observed_at_ms = 900, kp_fresh_until_ms = 9000,
     kp_evaluated_at_ms = 1100, kp_eligible = True, kp_reason_code = ''ready'', kp_message = ''ready''\<rparr>"

definition sample_op :: "kiosk_target \<Rightarrow> kiosk_operation" where
  "sample_op t = (let op = (proposed_operation 2 sample_plan [sample_preflight])\<lparr>ko_targets := [t]\<rparr>
     in op\<lparr>ko_lifecycle := derived_lifecycle op\<rparr>)"

definition sample_receipt :: kiosk_receipt where
  "sample_receipt = \<lparr>
     kr_schema = ''rusty.fleet.kiosk_effective_receipt.v1'', kr_receipt_id = ''receipt-1'',
     kr_operation_id = ''op-1'', kr_device_id = ''hmd-1'', kr_identity_revision = 1,
     kr_owner_contract = show_controls_v1, kr_owner_action_request_id = ''request-1'',
     kr_owner_result_transport_request_id = ''transport-1'',
     kr_owner_command = kiosk_show_controls_command, kr_response_status = 200,
     kr_response_content_sha256 = replicate 64 CHR ''a'', kr_response_signature = replicate 64 CHR ''b'',
     kr_response_auth_verified = True, kr_owner_result_schema = kiosk_cli_result_schema,
     kr_owner_accepted = True, kr_owner_completed = True, kr_owner_recorded_at_ms = 1350,
     kr_controls_open = True, kr_wrapped_at_ms = 1360\<rparr>"

definition target1 :: kiosk_target where
  "target1 = proposed_target 1100 sample_preflight"

definition target2 :: kiosk_target where
  "target2 = confirm_target 1200 target1"

definition target3 :: kiosk_target where
  "target3 = dispatched_target ''request-1'' 1300 5000 2 target2"

definition target4 :: kiosk_target where
  "target4 = applied_target sample_receipt 1400 target3"

definition hub_with :: "kiosk_operation \<Rightarrow> hub_state" where
  "hub_with op = stored hub1 ''op-1'' op"

lemma request_id_ok: "is_owner_request_id ''request-1''"
  by (simp add: is_owner_request_id_def is_ascii_alphanumeric_def is_ascii_digit_def
      is_ascii_lowercase_def is_ascii_uppercase_def)

lemma sample_receipt_valid: "valid (validate_kiosk_receipt sample_receipt)"
  by (simp add: validate_kiosk_receipt_def sample_receipt_def valid_owner_contract is_owner_request_id_def
      is_ascii_alphanumeric_def is_ascii_digit_def is_ascii_lowercase_def is_ascii_uppercase_def
      is_lower_hex_sha256_def is_lower_hex_def is_blank.simps list_all_iff)

lemma sample_preflight_ready:
  "hub_kiosk_preflight default_policy r c = sample_preflight\<lparr>kp_evaluated_at_ms := c\<rparr>"
  if "rec_observation r = sample_observation ''hmd-1'' 1 e v" "rec_accepted_at_ms r = 1000" "1000 \<le> c" "c \<le> 9000"
  using that by (simp add: hub_kiosk_preflight_def Let_def kiosk_capability_facts_def capability_get_def
      sample_observation_def sample_capability_def sample_identity_def sample_preflight_def default_policy_def
      expected_eligibility_def expected_reason_code_def i64_saturating_sub_def i64_min_def i64_max_def)

lemma sample_preflight_valid: "valid (validate_preflight sample_preflight)"
  by (simp add: valid_preflight sample_preflight_def expected_eligibility_def expected_reason_code_def
      is_blank.simps)

lemma sample_plan_valid: "validate_preview_plan sample_plan = Inr ()"
  by (simp add: validate_preview_plan_Inr sample_plan_def validate_preview_request_def is_blank.simps
      bt_len_insert bt_contains_key_def i64_saturating_sub_def i64_min_def i64_max_def preview_max_lifetime_ms_def)

lemma sample_op_proposed:
  "(proposed_operation 2 sample_plan [sample_preflight])
     \<lparr>ko_lifecycle := derived_lifecycle (proposed_operation 2 sample_plan [sample_preflight])\<rparr> = sample_op target1"
  by (simp add: sample_op_def Let_def target1_def proposed_operation_def sample_plan_def derived_lifecycle_def)

lemma sample_op1_valid: "valid (validate_kiosk_operation (sample_op target1))"
  unfolding sample_op_proposed [symmetric]
  by (rule proposed_operation_valid [OF sample_plan_valid _ _ _ refl])
    (simp_all add: sample_preflight_valid, simp_all add: sample_preflight_def sample_plan_def bt_keys_def)

lemma sample_op_fields [simp]:
  "ko_operation_id (sample_op t) = ''op-1''" "ko_created_at_ms (sample_op t) = 1100"
  "ko_max_parallelism (sample_op t) = 1" "ko_max_attempts_per_target (sample_op t) = 2"
  "ko_targets (sample_op t) = [t]" "kv_created_at_ms (ko_preview (sample_op t)) = 1100"
  "kv_expires_at_ms (ko_preview (sample_op t)) = 5000" "kv_preview_id (ko_preview (sample_op t)) = ''preview-1''"
  by (simp_all add: sample_op_def Let_def proposed_operation_def sample_plan_def)

lemma sample_op_lifecycle [simp]: "ko_lifecycle (sample_op t) = derived_lifecycle (sample_op t)"
  by (simp add: sample_op_def Let_def)

lemma sample_op_frame:
  "ko_preview (sample_op t) = ko_preview (sample_op u)" "ko_schema (sample_op t) = ko_schema (sample_op u)"
  "ko_action_id (sample_op t) = ko_action_id (sample_op u)"
  "ko_cleanup_required (sample_op t) = ko_cleanup_required (sample_op u)"
  by (simp_all add: sample_op_def Let_def proposed_operation_def)

lemma target_fields [simp]:
  "kt_device_id target1 = ''hmd-1''" "kt_preflight target1 = sample_preflight"
  "kp_eligible sample_preflight" "kp_device_id sample_preflight = ''hmd-1''"
  by (simp_all add: target1_def proposed_target_def Let_def sample_preflight_def)

text \<open>Replacing the target keeps the sample operation valid if the new ledger is valid.\<close>

lemma sample_op_valid:
  assumes "kt_device_id t = ''hmd-1''" and "kt_preflight t = sample_preflight"
    and ok: "target_ok_in (sample_op t) t"
  shows "valid (validate_kiosk_operation (sample_op t))"
proof -
  note one = sample_op1_valid [unfolded valid_kiosk_operation kiosk_head_iff]
  have "kiosk_operation_head_failures (sample_op t) = []"
    using one derived_lifecycle_no_cleanup [of "sample_op t"] sample_op_frame [of t target1]
    unfolding kiosk_head_iff by auto
  moreover have "bt_get (preview_targets (ko_preview (sample_op t))) ''hmd-1'' = Some sample_preflight"
    using one sample_op_frame(1) [of t target1] by simp
  ultimately show ?thesis
    using ok assms(1,2) by (simp add: valid_kiosk_operation target_ok_in_def strictly_sorted_def inflight_count_def)
qed

lemma target_ok_cong: "target_ok_in (sample_op t) u = target_ok_in (sample_op v) u"
  by (simp add: target_ok_in_def)

lemma sample_find [simp]: "kt_device_id t = ''hmd-1'' \<Longrightarrow> find_target (sample_op t) ''hmd-1'' = Inr t"
  by (simp add: find_target_Inr)

lemma target2_facts [simp]:
  "kt_device_id target2 = ''hmd-1''" "kt_preflight target2 = sample_preflight"
  "kt_lifecycle target2 = Accepted" "kt_owner_request_ids target2 = []" "kt_attempt_count target2 = 0"
  "kt_last_transition_ms target2 = 1200" "kt_identity_revision target2 = 1"
  by (simp_all add: target2_def confirm_target_def) (simp_all add: target1_def proposed_target_def Let_def sample_preflight_def)

lemma target3_facts [simp]:
  "kt_device_id target3 = ''hmd-1''" "kt_preflight target3 = sample_preflight"
  "kt_lifecycle target3 = Dispatched" "kt_owner_request_ids target3 = [''request-1'']"
  "kt_attempt_count target3 = 1" "kt_last_transition_ms target3 = 1300" "kt_identity_revision target3 = 1"
  "kt_owner_request_id target3 = Some ''request-1''"
  by (simp_all add: target3_def dispatched_target_def Let_def u8_saturating_add_def u8_max_def)

lemma target4_facts [simp]:
  "kt_device_id target4 = ''hmd-1''" "kt_preflight target4 = sample_preflight"
  "kt_lifecycle target4 = Applied" "kt_effective_receipt target4 = Some sample_receipt"
  "kt_last_transition_ms target4 = 1400"
  by (simp_all add: target4_def applied_target_def)

lemma target2_ok: "target_ok_in (sample_op u) target2"
  using sample_preflight_valid
  by (subst eligible_target_ok)
    (simp_all add: target_frame_iff kiosk_target_state_failures_def no_attempt_def,
     simp_all add: target2_def confirm_target_def target1_def proposed_target_def Let_def
       valid_owner_deadline_def last_option_def is_blank.simps sample_preflight_def)

lemma target3_ok: "target_ok_in (sample_op u) target3"
  using target2_ok [of u] request_id_ok
  by (subst eligible_target_ok, simp, subst (asm) eligible_target_ok, simp)
    (simp add: target_frame_iff kiosk_target_state_failures_def has_attempt_def;
     simp add: target3_def dispatched_target_def Let_def valid_owner_deadline_def last_option_def
       is_blank.simps u8_saturating_add_def u8_max_def)

lemma target4_ok: "target_ok_in (sample_op u) target4"
proof -
  have e: "kp_eligible (kt_preflight target3)" "kp_eligible (kt_preflight target4)" by simp_all
  have "target_frame_ok (sample_op u) target3" "has_attempt target3"
    using target3_ok [of u] by (simp_all add: eligible_target_ok [OF e(1)] kiosk_target_state_failures_def)
  then have "target_frame_ok (sample_op u) target4" "has_attempt target4"
    by (fastforce simp: target_frame_iff target4_def applied_target_def is_blank.simps,
      simp add: has_attempt_def target4_def applied_target_def)
  moreover have "kiosk_target_receipt_failures ''op-1'' target4 = []"
    using sample_receipt_valid by (simp add: kiosk_target_receipt_failures_def)
      (simp add: sample_receipt_def target4_def applied_target_def)
  ultimately show ?thesis
    by (simp add: eligible_target_ok [OF e(2)] kiosk_target_state_failures_def)
      (simp add: target4_def applied_target_def)
qed

lemma sample_ops_valid:
  "valid (validate_kiosk_operation (sample_op target2))"
  "valid (validate_kiosk_operation (sample_op target3))"
  "valid (validate_kiosk_operation (sample_op target4))"
  by (simp_all add: sample_op_valid target2_ok target3_ok target4_ok)

section \<open>The run that produces it\<close>

definition sample_record :: device_record where
  "sample_record = admitted_record default_policy 2 None (sample_observation ''hmd-1'' 1 ''boot-1'' 1) 1000"

lemma sample_record_identity [simp]:
  "di_identity_revision (do_identity (sample_observation d i e v)) = i"
  "di_device_id (do_identity (sample_observation d i e v)) = d"
  "do_source_epoch (sample_observation d i e v) = e" "do_source_revision (sample_observation d i e v) = v"
  by (simp_all add: sample_observation_def sample_identity_def)

lemma hub1_fields [simp]:
  "fh_policy hub1 = default_policy" "fh_devices hub1 = bt_insert ''hmd-1'' sample_record bt_empty"
  "fh_result_revision hub1 = 2" "fh_kiosk_operations hub1 = bt_empty"
  "fh_saved_views hub1 = bt_empty" "fh_saved_view_revision hub1 = 1"
  unfolding hub1_eq
  by (simp_all add: admit_devices admit_result_revision sample_record_def u64_saturating_add_def
      u64_max_def numeral_2_eq_2)

lemma sample_record_fields [simp]:
  "rec_observation sample_record = sample_observation ''hmd-1'' 1 ''boot-1'' 1"
  "rec_accepted_at_ms sample_record = 1000"
  by (simp_all add: sample_record_def)

lemma hub_with_fields [simp]:
  "fh_policy (hub_with op) = default_policy" "fh_devices (hub_with op) = fh_devices hub1"
  "fh_kiosk_operations (hub_with op) = bt_insert ''op-1'' op bt_empty"
  by (simp_all add: hub_with_def stored_def)

lemma bt_insert_twice [simp]: "bt_insert k v (bt_insert k u m) = bt_insert k v m"
  by (rule btree_map_eqI) simp

lemma stored_hub_with [simp]: "stored (hub_with a) ''op-1'' b = hub_with b"
  by (simp add: hub_with_def stored_def)

lemma preflight_of_sample:
  "1000 \<le> c \<Longrightarrow> c \<le> 9000 \<Longrightarrow>
   hub_kiosk_preflight default_policy sample_record c = sample_preflight\<lparr>kp_evaluated_at_ms := c\<rparr>"
  by (rule sample_preflight_ready) simp_all

lemma sample_previews: "preview_kiosk_show_controls hub1 sample_plan = (hub_with (sample_op target1), Inr (sample_op target1))"
proof -
  have frozen: "freeze_targets hub1 (kpp_created_at_ms sample_plan) (entries (opr_targets (kpp_request sample_plan))) =
      Inr [sample_preflight]"
    using preflight_of_sample [of 1100] by (simp add: sample_plan_def sample_preflight_def)
  have key: "kpp_operation_id sample_plan = ''op-1''" by (simp add: sample_plan_def)
  show ?thesis
    using sample_op1_valid key
    by (simp add: preview_kiosk_show_controls_def sample_plan_valid frozen Let_def sample_op_proposed
        max_kiosk_operations_def hub_with_def stored_def)
      (simp add: proposed_operation_def)
qed

lemma sample_addressed:
  assumes "valid (validate_kiosk_operation (sample_op t))" and "kt_device_id t = ''hmd-1''"
    and "kt_last_transition_ms t \<le> now" and "1100 \<le> now"
  shows "addressed (hub_with (sample_op t)) ''op-1'' ''hmd-1'' now (sample_op t) t"
  using assms by (simp add: addressed_def require_monotonic_time_def)

lemma sample_current:
  assumes "kt_device_id t = ''hmd-1''" and "kt_preflight t = sample_preflight" and "kt_identity_revision t = 1"
    and "1000 \<le> now" and "now \<le> 9000"
  shows "require_target_current (hub_with op) t now = Inr ()"
  using assms by (simp add: require_target_current_def preflight_of_sample same_frozen_facts_def Let_def)
    (simp add: sample_preflight_def expected_eligibility_def expected_reason_code_def)

lemma with_target_sample [simp]:
  "kt_device_id t = ''hmd-1'' \<Longrightarrow> with_target (sample_op t) ''hmd-1'' f = sample_op (f t)"
  by (simp add: with_target_def sample_op_def Let_def derived_lifecycle_def)

lemma sample_commit:
  assumes "valid (validate_kiosk_operation (sample_op (f t)))" and "kt_device_id t = ''hmd-1''"
  shows "attempt (hub_with (sample_op t)) (target_mut (sample_op t) ''hmd-1'' f)
       (commit_operation (hub_with (sample_op t)) ''op-1'') = (hub_with (sample_op (f t)), Inr (sample_op (f t)))"
  using commit_with_target [of "sample_op t" "''hmd-1''" t f "hub_with (sample_op t)" "''op-1''"] assms
  by (simp add: hub_with_def stored_def)

lemma target1_facts [simp]:
  "kt_lifecycle target1 = Proposed" "kt_identity_revision target1 = 1" "kt_last_transition_ms target1 = 1100"
  by (simp_all add: target1_def proposed_target_def Let_def) (simp_all add: sample_preflight_def)

lemma sample_confirms:
  "confirm_kiosk_show_controls (hub_with (sample_op target1)) ''op-1'' ''preview-1'' 1200 =
     (hub_with (sample_op target2), Inr (sample_op target2))"
proof -
  let ?h = "hub_with (sample_op target1)"
  let ?new = "(sample_op target1)\<lparr>ko_targets := map (confirm_target 1200) (ko_targets (sample_op target1))\<rparr>"
  have new: "?new\<lparr>ko_lifecycle := derived_lifecycle ?new\<rparr> = sample_op target2"
    by (simp add: sample_op_def Let_def derived_lifecycle_def target2_def)
  have "commit_operation ?h ''op-1'' ?new = (stored ?h ''op-1'' (sample_op target2), Inr (sample_op target2))"
    using commit_valid [of ?new ?h "''op-1''"] sample_ops_valid(1) unfolding new by blast
  moreover have "require_monotonic_time (sample_op target1) 1200 = Inr ()"
    by (simp add: require_monotonic_time_def)
  moreover have "ko_lifecycle (sample_op target1) = Proposed"
    by (simp add: derived_lifecycle_def is_inflight_def)
  moreover have "require_frozen_targets_current ?h (sample_op target1) 1200 = Inr ()"
    by (simp add: require_frozen_targets_current_def sample_current)
  ultimately show ?thesis
    by (simp add: confirm_kiosk_show_controls_def find_kiosk_operation_def require_preview_def)
qed

lemma sample_dispatches:
  "dispatch_kiosk_show_controls (hub_with (sample_op target2)) ''op-1'' ''hmd-1'' ''request-1'' 1300 =
     (hub_with (sample_op target3), Inr (sample_op target3))"
proof -
  have a: "addressed (hub_with (sample_op target2)) ''op-1'' ''hmd-1'' 1300 (sample_op target2) target2"
    by (rule sample_addressed) (simp_all add: sample_ops_valid)
  have g: "dispatch_rejection (sample_op target2) target2 ''hmd-1'' ''request-1'' 1300 = None"
    using request_id_ok by (simp add: dispatch_rejection_None inflight_count_def is_inflight_def)
  show ?thesis
    unfolding dispatch_reduces [OF a g sample_current [of target2 1300], simplified]
    using sample_commit [of "dispatched_target ''request-1'' 1300 5000 2" target2] sample_ops_valid(2)
    by (simp add: target3_def)
qed

lemma sample_applies:
  "apply_kiosk_show_controls_receipt (hub_with (sample_op target3)) sample_receipt 1400 =
     (hub_with (sample_op target4), Inr (sample_op target4))"
proof -
  have ids: "kr_operation_id sample_receipt = ''op-1''" "kr_device_id sample_receipt = ''hmd-1''"
    "kr_identity_revision sample_receipt = 1" "kr_owner_action_request_id sample_receipt = ''request-1''"
    by (simp_all add: sample_receipt_def)
  have a: "addressed (hub_with (sample_op target3)) ''op-1'' ''hmd-1'' 1400 (sample_op target3) target3"
    by (rule sample_addressed) (simp_all add: sample_ops_valid)
  have "validate_kiosk_receipt sample_receipt = Inr ()"
    using sample_receipt_valid by (simp add: valid_iff_Inr)
  then show ?thesis
    using sample_commit [of "applied_target sample_receipt 1400" target3] sample_ops_valid(3)
    unfolding apply_kiosk_show_controls_receipt_def ids addressed_prefix [OF a]
    by (simp add: ids target4_def [symmetric])
qed

definition sample_run :: "hub_command list" where
  "sample_run = [
     Preview_Kiosk sample_plan,
     Confirm_Kiosk \<lparr>oer_schema = ''rusty.fleet.operation_execute_request.v1'',
       oer_operation_id = ''op-1'', oer_preview_id = ''preview-1''\<rparr> 1200,
     Dispatch_Kiosk ''op-1'' ''hmd-1'' ''request-1'' 1300,
     Apply_Kiosk_Receipt sample_receipt 1400]"

lemma sample_run_result: "run_commands no_bytes no_bytes no_sha no_codec hub1 sample_run = hub_with (sample_op target4)"
  by (simp add: run_commands_def sample_run_def sample_previews sample_confirms sample_dispatches
      sample_applies confirm_kiosk_show_controls_request_def validate_execute_request_def finish_def)

lemma run_reachable:
  "reachable ob jb sha enc policy h \<Longrightarrow> (\<forall>c\<in>set cs. is_kiosk_command c) \<Longrightarrow>
   reachable ob jb sha enc policy (run_commands ob jb sha enc h cs)"
proof (induction cs arbitrary: h)
  case (Cons c cs)
  have "admissible h c"
    using Cons.prems(2) by (auto simp: admissible_def is_kiosk_command_def split: hub_command.splits)
  with Cons show ?case by (simp add: run_commands_def reachable.step)
qed (simp add: run_commands_def)

lemma hub4_reachable: "reachable no_bytes no_bytes no_sha no_codec default_policy (hub_with (sample_op target4))"
  unfolding sample_run_result [symmetric]
  by (rule run_reachable [OF hub1_reachable]) (simp add: sample_run_def is_kiosk_command_def)

text \<open>The claims of a check-in that pass their contract.\<close>

definition sample_codec :: checkin_codec where
  "sample_codec = \<lparr>codec_observation_bytes = no_bytes, codec_json_bytes = no_bytes,
     codec_checkin_bytes = no_bytes, codec_is_object = (\<lambda>_. True), codec_jcs = (\<lambda>_. None)\<rparr>"

definition sample_power :: power_observation where
  "sample_power = \<lparr>po_battery_percent = 80, po_charging = True, po_provenance =
     \<lparr>fp_owner = ''fleet'', fp_adapter_id = ''agent'', fp_observed_at_ms = 900, fp_fresh_until_ms = 60900\<rparr>\<rparr>"

definition sample_claims :: "json_value \<Rightarrow> checkin_claims" where
  "sample_claims proposal = \<lparr>
     cc_schema = ''rusty.fleet.checkin_claims.v1'', cc_checkin_id = ''agent.checkin-1'',
     cc_issued_at_ms = 900, cc_expires_at_ms = 60900, cc_manifold_peer_status_proposal = proposal,
     cc_observation = (sample_observation ''hmd-1'' 1 ''boot-1'' 1)
       \<lparr>do_received_time_ms := 0, do_power := Some sample_power\<rparr>,
     cc_extensions = bt_empty\<rparr>"

lemma sample_claims_observation:
  "valid (validate_observation no_bytes no_bytes (cc_observation (sample_claims proposal)))"
proof -
  let ?o = "sample_observation ''hmd-1'' 1 ''boot-1'' 1"
  let ?o' = "?o\<lparr>do_received_time_ms := 0, do_power := Some sample_power\<rparr>"
  have old: "valid (validate_observation no_bytes no_bytes ?o)"
    by (rule sample_observation_valid) simp_all
  have "observation_head_failures ?o' = []"
    using old by (simp add: validate_observation_def valid_observation_head)
  moreover have "observation_fact_failures ?o' = []" "observation_limit_failures no_bytes ?o' = []"
    by (simp_all add: observation_fact_failures_def observation_limit_failures_def sample_observation_def
        no_bytes_def bt_len_insert bt_contains_key_def valid_power valid_provenance sample_power_def is_blank.simps)
  ultimately show ?thesis
    using old by (simp add: validate_observation_def sample_claims_def)
qed

lemma sample_claims_valid: "valid (validate_claims sample_codec (sample_claims proposal))"
proof -
  have "require_dotted_id ''agent.checkin-1'' ''checkin_id'' = []"
    by (simp add: require_dotted_id_iff_saved_view_id is_valid_saved_view_id_def is_dotted_segment_def
        is_identifier_edge_def is_identifier_body_def is_ascii_lowercase_def is_ascii_digit_def)
  moreover have "checkin_window_failures (sample_claims proposal) = []"
    by (simp add: checkin_window_failures_def sample_claims_def i64_saturating_sub_def i64_min_def
        i64_max_def max_checkin_ttl_ms_def)
  moreover have "fact_window_failures (sample_claims proposal) = []"
    by (simp add: fact_window_failures_def sample_claims_def sample_observation_def sample_power_def)
  ultimately show ?thesis
    using sample_claims_observation [of proposal]
    by (simp add: validate_claims_def sample_codec_def no_bytes_def [abs_def])
      (simp add: sample_claims_def sample_observation_def)
qed

end
