(* ===== verification/Query_Claims.thy ===== *)
theory Query_Claims
  imports Samples
begin

text \<open>
  Properties of the Hub's read side: rows, conditions, projections, queries, paging and the summary.
\<close>

section \<open>Projections\<close>

text \<open>The condition a row shows for a family is the family's newest one, by accepted revision and then
  receive time, with its state replaced by \<open>Stale\<close> once its freshness has passed unless it is
  failed, critical or restricted; a family appears exactly when the device reported it.\<close>

theorem row_shows_newest_condition:
  assumes "row = hub_row h r now"
  shows "(bt_get (dr_conditions row) f = None \<longleftrightarrow>
       (\<forall>c\<in>set (do_conditions (rec_observation r)). sc_family c \<noteq> f)) \<and>
     (\<forall>c. bt_get (dr_conditions row) f = Some c \<longrightarrow>
       (\<exists>c'\<in>set (do_conditions (rec_observation r)). sc_family c' = f \<and>
          c = (if is_stale_at c' now \<and> sc_state c' \<notin> {Failed, Critical, Restricted}
               then c'\<lparr>sc_state := Stale\<rparr> else c') \<and>
          (\<forall>d\<in>set (do_conditions (rec_observation r)). sc_family d = f \<longrightarrow>
             (sc_accepted_revision d, sc_received_time_ms d) \<le>
             (sc_accepted_revision c', sc_received_time_ms c'))))"
proof -
  have row: "dr_conditions row = newest_conditions (do_conditions (rec_observation r)) now"
    unfolding assms by (simp add: hub_row_def Let_def)
  have "newest_of now (do_conditions (rec_observation r)) f (bt_get (dr_conditions row) f)"
    unfolding row by (rule newest_conditions_correct)
  then show ?thesis
    by (cases "bt_get (dr_conditions row) f")
      (auto simp: newest_of_def project_condition_def simp del: less_eq_prod_simp)
qed

lemma row_shows_newest_condition_witness:
  "bt_get (dr_conditions (hub_row hub1 sample_record 9500)) Family_Work = None"
  using row_shows_newest_condition [OF refl, of hub1 sample_record 9500 Family_Work]
  by (simp add: sample_observation_def sample_condition_def)

text \<open>C38: In a reachable Hub whose history limit is within the contract's 128, every device projection the Hub
  hands out passes its own contract: the row, the inspector and the detail.\<close>

theorem projections_valid:
  assumes "reachable ob jb sha enc policy h" and "bt_get (fh_devices h) device_id = Some r"
    and "hp_history_limit_per_device (fh_policy h) \<le> 128"
  shows "valid (validate_row (hub_row h r now)) \<and>
     (\<exists>i d. hub_inspect h device_id now = Inr i \<and> valid (validate_inspector jb i) \<and>
        hub_detail h device_id now = Inr d \<and> valid (validate_detail jb d) \<and> dd_inspector d = i)"
proof -
  have ok: "devices_ok ob jb h" by (rule hub_okD(4) [OF reachable_ok [OF assms(1)]])
  then have rec: "device_record_ok ob jb (fh_policy h) (fh_result_revision h) device_id r"
    using assms(2) unfolding devices_ok_def by (rule bt.all_entriesD)
  have i: "hub_inspect h device_id now = Inr (inspector_of h r now)"
    by (simp add: hub_inspect_def find_device_def assms(2))
  obtain d where d: "hub_detail h device_id now = Inr d" "dd_inspector d = inspector_of h r now"
    by (simp add: hub_detail_def find_device_def assms(2) i)
  show ?thesis
    using hub_row_valid [OF rec] inspector_valid [OF rec] detail_valid(1) [OF ok assms(3) d(1)] i d by blast
qed

lemma projections_valid_witness: "valid (validate_row (hub_row hub1 sample_record 2000))"
  using projections_valid [OF hub1_reachable, of "''hmd-1''" sample_record 2000]
  by (simp add: default_policy_def)

text \<open>The summary partitions the fleet: every device is fresh, stale or offline, the total is the number of
  registered devices, a device counts as needing attention exactly when its inspector lists a
  condition, and the summary passes its contract.\<close>

theorem summary_partitions_fleet:
  "fsum_fresh (hub_summary h now) + fsum_stale (hub_summary h now) + fsum_offline (hub_summary h now) =
     fsum_total (hub_summary h now) \<and>
   fsum_total (hub_summary h now) = device_count h \<and>
   fsum_attention (hub_summary h now) =
     length (filter (\<lambda>r. dins_attention (inspector_of h r now) \<noteq> []) (bt_values (fh_devices h))) \<and>
   valid (validate_summary (hub_summary h now))"
  using summary_counts [of h now] summary_attention [of h now] by (simp add: device_count_def)

section \<open>Queries\<close>

text \<open>C39: The result of a valid query is the requested window of the matching rows: of the rows of all
  registered devices that satisfy the expression, in strictly ascending order of the query's
  comparator (ties are broken by display name and device ID, so the order is total), the
  \<open>limit\<close> rows after \<open>offset\<close>; the total is the number of matches.\<close>

theorem query_result_correct:
  assumes "reachable ob jb sha enc policy h" and "valid (validate_query q)"
    and "bt_len (fh_devices h) \<le> u64_max"
  shows "\<exists>r matches. hub_list uni h q now = Inr r \<and> valid (validate_query_result r) \<and>
     set matches = {row. (\<exists>d\<in>set (bt_values (fh_devices h)). row = hub_row h d now) \<and>
        (\<forall>e. fq_expression q = Some e \<longrightarrow> evaluate uni e row)} \<and>
     distinct matches \<and> sorted_wrt (\<lambda>a b. compare_rows q a b = Less) matches \<and>
     fqr_total_count r = length matches \<and>
     fqr_rows r = take (fq_limit q) (drop (fq_offset q) matches)"
proof -
  note ok = hub_okD [OF reachable_ok [OF assms(1)]]
  let ?m = "sorted_matches uni h q now"
  obtain r where r: "hub_list uni h q now = Inr r" "valid (validate_query_result r)"
    "fqr_total_count r = length ?m" "fqr_rows r = take (fq_limit q) (drop (fq_offset q) ?m)"
    using hub_list_window [OF assms(2,3), of uni now] ok(2) by blast
  have sorted: "sorted_wrt (\<lambda>a b. compare_rows q a b = Less) ?m"
    by (rule sorted_matches_strict [OF ok(4)])
  have "compare_rows q a a \<noteq> Less" for a
    using total_comparator_flip [OF total_compare_rows, of q a a] by (cases "compare_rows q a a") auto
  then have "distinct ?m"
    by (rule sorted_wrt_irrefl_distinct [OF sorted])
  moreover have "set ?m = {row. (\<exists>d\<in>set (bt_values (fh_devices h)). row = hub_row h d now) \<and>
      (\<forall>e. fq_expression q = Some e \<longrightarrow> evaluate uni e row)}"
    unfolding set_sorted_matches by (auto simp: fleet_rows_def)
  ultimately show ?thesis using r sorted by blast
qed

definition sample_query :: "usize \<Rightarrow> usize \<Rightarrow> fleet_query" where
  "sample_query offset limit = \<lparr>
     fq_schema = ''rusty.fleet.query.v1'',
     fq_query_id = ''q'',
     fq_expression = Some (And [Predicate Field_Model Contains (Some (Text ''quest'')) None,
       Predicate Field_BatteryPercent GreaterThan (Some (Integer 20)) None]),
     fq_sort = [\<lparr>sk_field = Field_BatteryPercent, sk_direction = Descending, sk_qualifier = None\<rparr>],
     fq_offset = offset,
     fq_limit = limit\<rparr>"

lemma sample_query_valid:
  assumes "0 < limit" and "limit \<le> 10000"
  shows "valid (validate_query (sample_query offset limit))"
  using assms
  by (simp add: validate_query_def sample_query_def predicate_failures_def sort_key_failures_def
      predicate_value_is_compatible_def is_text_value_def is_integer_value_def is_blank.simps
      u64_saturating_add_def u64_max_def)

lemma hub1_len: "bt_len (fh_devices hub1) \<le> u64_max"
  by (simp add: bt_len_insert bt_contains_key_def u64_max_def)

lemma query_result_correct_witness:
  "\<exists>r. hub_list id hub1 (sample_query 0 10) 2000 = Inr r \<and> valid (validate_query_result r)"
  using query_result_correct [OF hub1_reachable sample_query_valid hub1_len, of 10 id 0 2000] by auto

text \<open>Windows that follow each other join up: paging through a query with any page sizes yields the rows of
  one larger window, without gaps or repetitions.\<close>

theorem pages_join:
  assumes "valid (validate_query (q\<lparr>fq_offset := a, fq_limit := m\<rparr>))"
    and "valid (validate_query (q\<lparr>fq_offset := a + m, fq_limit := n\<rparr>))"
    and "valid (validate_query (q\<lparr>fq_offset := a, fq_limit := m + n\<rparr>))"
    and "bt_len (fh_devices h) \<le> u64_max"
  shows "\<exists>r1 r2 r. hub_list uni h (q\<lparr>fq_offset := a, fq_limit := m\<rparr>) now = Inr r1 \<and>
     hub_list uni h (q\<lparr>fq_offset := a + m, fq_limit := n\<rparr>) now = Inr r2 \<and>
     hub_list uni h (q\<lparr>fq_offset := a, fq_limit := m + n\<rparr>) now = Inr r \<and>
     fqr_rows r1 @ fqr_rows r2 = fqr_rows r"
  using assms by (rule windows_join)

lemma sample_query_window:
  "(sample_query a m)\<lparr>fq_offset := b, fq_limit := n\<rparr> = sample_query b n"
  by (simp add: sample_query_def)

lemma pages_join_witness:
  "\<exists>r1 r2 r. hub_list id hub1 (sample_query 0 1) 2000 = Inr r1 \<and>
     hub_list id hub1 (sample_query 1 2) 2000 = Inr r2 \<and> hub_list id hub1 (sample_query 0 3) 2000 = Inr r \<and>
     fqr_rows r1 @ fqr_rows r2 = fqr_rows r"
  using pages_join [where q = "sample_query 0 1" and a = 0 and m = 1 and n = 2 and h = hub1 and uni = id and now = 2000, unfolded sample_query_window]
    sample_query_valid hub1_len by (simp add: numeral_eq_Suc)

text \<open>The row comparator of every query is a total preorder (what \<^verbatim>\<open>sort_by\<close> requires), and rows it
  considers equal belong to the same device.\<close>

theorem compare_rows_total:
  "total_comparator (compare_rows q) \<and>
   (compare_rows q a b = Equal \<longrightarrow> di_device_id (dr_identity a) = di_device_id (dr_identity b))"
  using total_compare_rows compare_keys_Equal by (auto simp: compare_rows_def)

lemma compare_rows_total_witness:
  "compare_rows (sample_query 0 1) (hub_row hub1 sample_record 2000) (hub_row hub1 sample_record 3000) = Equal \<and>
   total_comparator (compare_rows (sample_query 0 1))"
  using compare_rows_total [of "sample_query 0 1" "hub_row hub1 sample_record 2000" "hub_row hub1 sample_record 3000"]
  by (simp add: compare_rows_def sample_query_def compare_key_def compare_field_def ord_then_def cmp_def Let_def)
    (simp add: hub_row_def Let_def sample_observation_def cmp_def)

text \<open>On a field every row has, a valid \<open>NotEquals\<close> predicate selects exactly the rows the \<open>Equals\<close>
  predicate with the same value rejects, for a single text as for a list.\<close>

theorem not_equals_complements_equals:
  assumes "validate_into (Predicate field Equals v qualifier) path = []"
    and "field \<in> {Field_DeviceId, Field_DisplayName, Field_Model, Field_Freshness, Field_KioskState}"
  shows "evaluate uni (Predicate field NotEquals v qualifier) row \<longleftrightarrow>
     \<not> evaluate uni (Predicate field Equals v qualifier) row"
proof (rule predicate_complement [OF _ assms(2)])
  show "predicate_ok (field, Equals, v, qualifier)"
    using validate_into_predicates(1) [OF assms(1)] by simp
qed

lemma not_equals_complements_equals_witness:
  "evaluate id (Predicate Field_Model NotEquals (Some (Text ''Pico'')) None) (hub_row hub1 sample_record 2000) \<longleftrightarrow>
   \<not> evaluate id (Predicate Field_Model Equals (Some (Text ''Pico'')) None) (hub_row hub1 sample_record 2000)"
  by (rule not_equals_complements_equals [where path = "''expression''"])
    (simp_all add: predicate_failures_def predicate_value_is_compatible_def is_text_value_def)

text \<open>A query that passes its contract is bounded: its window holds 1 to 10000 rows, it has at most eight sort
  keys, its expression at most 256 nodes and fewer than 16 levels below the root, and each of its
  predicates compares the field with a value of the field's type.\<close>

theorem valid_query_bounded:
  assumes "valid (validate_query q)"
  shows "0 < fq_limit q \<and> fq_limit q \<le> 10000 \<and> length (fq_sort q) \<le> 8 \<and>
     (\<forall>e. fq_expression q = Some e \<longrightarrow> expression_nodes e \<le> 256 \<and> expression_height e < 16 \<and>
        (\<forall>(field, comparison, v, qualifier)\<in>set (expression_predicates e).
           predicate_value_is_compatible field comparison v \<and>
           (field \<in> {Field_Tag, Field_Capability} \<longleftrightarrow> qualifier \<noteq> None) \<and>
           none_or query_value_is_bounded v))"
proof -
  note b = valid_query_bounds [OF assms]
  have "predicate_ok p" if "fq_expression q = Some e" "p \<in> set (expression_predicates e)" for e p
    using b(4) validate_into_predicates(1) that by blast
  with b show ?thesis by (fastforce simp: predicate_ok_def)
qed

lemma valid_query_bounded_witness:
  "expression_nodes (the (fq_expression (sample_query 0 10))) \<le> 256"
  using valid_query_bounded [OF sample_query_valid, of 10 0] by (simp add: sample_query_def)

end
