(* ===== verification/Contract_Claims.thy ===== *)
theory Contract_Claims
  imports Query_Claims Samples
begin

text \<open>
  Properties of the saved-view operations and of the contracts themselves: saved views, stream
  descriptors, check-ins, operation ledgers, the command lifecycle and the pinned owner contract.
\<close>

section \<open>Saved views\<close>

text \<open>A saved-view upsert that succeeds was made against the current revision and leaves exactly the
  requested view stored under its ID; the receipt passes its contract (the code only asserts this
  in debug builds) and names the revisions before and after.\<close>

theorem upsert_receipt_truthful:
  assumes "reachable ob jb sha enc policy h" and "snd (upsert_saved_view h q) = Inr receipt"
  shows "valid (validate_mutation_receipt receipt) \<and>
     svr_expected_revision q = fh_saved_view_revision h \<and>
     svm_previous_revision receipt = fh_saved_view_revision h \<and>
     svm_current_revision receipt = fh_saved_view_revision (fst (upsert_saved_view h q)) \<and>
     bt_get (fh_saved_views (fst (upsert_saved_view h q))) (sv_view_id (svr_view q)) = Some (svr_view q) \<and>
     valid (validate_collection (saved_views (fst (upsert_saved_view h q))))"
proof -
  note ok = hub_okD [OF reachable_ok [OF assms(1)]]
  have "0 < fh_saved_view_revision h" using ok(6) by (simp add: saved_views_ok_def)
  from upsert_receipt_correct [OF assms(2) this ok(7)] saved_views_ok_collection [OF upsert_ok [OF ok(6)]]
  show ?thesis by simp
qed

definition sample_view :: "string \<Rightarrow> saved_view" where
  "sample_view name = \<lparr>
     sv_schema = ''rusty.fleet.saved_view.v1'', sv_view_id = ''lab.low-battery'', sv_name = name,
     sv_query = sample_query 0 10, sv_columns = [''model''], sv_density = ''compact'', sv_grouping = None,
     sv_restoration = \<lparr>nr_selected_device_id = None, nr_inspector_tab = None,
       nr_scroll_anchor_device_id = None, nr_focused_region = None, nr_collapsed_groups = []\<rparr>,
     sv_schema_version = 1\<rparr>"

definition sample_request :: "string \<Rightarrow> u64 \<Rightarrow> saved_view_mutation_request" where
  "sample_request name expected = \<lparr>
     svr_schema = ''rusty.fleet.saved_view_mutation_request.v1'',
     svr_expected_revision = expected, svr_view = sample_view name\<rparr>"

lemma sample_view_valid:
  assumes "name \<in> {''Low'', ''Low battery''}"
  shows "valid (validate_saved_view (sample_view name))"
proof -
  have "\<not> is_blank name" "length name \<le> 256"
    using assms by (auto simp: is_blank.simps)
  moreover have "is_valid_saved_view_id ''lab.low-battery''"
    by (simp add: is_valid_saved_view_id_def is_dotted_segment_def is_identifier_edge_def
        is_identifier_body_def is_ascii_lowercase_def is_ascii_digit_def)
  moreover have "saved_view_text_failures (sample_view name) = []" "saved_view_item_failures (sample_view name) = []"
    using calculation by (simp_all add: saved_view_text_failures_def saved_view_item_failures_def sample_view_def
        restoration_texts_def List.map_filter_def is_blank.simps unique_count_def)
  ultimately show ?thesis
    using sample_query_valid [of 10 0]
    by (simp add: validate_saved_view_def) (simp add: sample_view_def is_blank.simps)
qed

lemma sample_request_valid:
  "name \<in> {''Low'', ''Low battery''} \<Longrightarrow> 0 < n \<Longrightarrow> valid (validate_mutation_request (sample_request name n))"
  using sample_view_valid [of name] by (simp add: valid_mutation_request sample_request_def)

lemma sample_upsert:
  "upsert_saved_view hub1 (sample_request ''Low'' (Suc 0)) =
     (with_saved_view hub1 (sample_view ''Low''), Inr (upsert_receipt (sample_view ''Low'') (Suc 0) 2 True))"
  using sample_request_valid [of "''Low''" 1]
  by (simp add: upsert_saved_view_def Let_def valid_iff_Inr u64_checked_add_def u64_max_def
      with_saved_view_def max_saved_views_def numeral_2_eq_2)
    (simp add: sample_request_def)

lemma upsert_receipt_truthful_witness:
  "valid (validate_mutation_receipt (upsert_receipt (sample_view ''Low'') 1 2 True))"
  using upsert_receipt_truthful [OF hub1_reachable, of "sample_request ''Low'' 1"] by (simp add: sample_upsert)

text \<open>Optimistic concurrency: once one writer has changed the collection, a second writer that read the
  same revision is refused and changes nothing.\<close>

theorem second_writer_refused:
  assumes "snd (upsert_saved_view h a) = Inr receipt" and "svm_changed receipt"
    and "svr_expected_revision b = svr_expected_revision a"
  shows "\<exists>e. upsert_saved_view (fst (upsert_saved_view h a)) b = (fst (upsert_saved_view h a), Inl e)"
  using assms by (rule stale_writer_refused)

lemma second_writer_refused_witness:
  "\<exists>e. upsert_saved_view (with_saved_view hub1 (sample_view ''Low'')) (sample_request ''Low battery'' 1) =
     (with_saved_view hub1 (sample_view ''Low''), Inl e)"
proof -
  have "svr_expected_revision (sample_request ''Low battery'' 1) = svr_expected_revision (sample_request ''Low'' 1)"
    by (simp add: sample_request_def)
  from second_writer_refused [OF _ _ this, of hub1 "upsert_receipt (sample_view ''Low'') 1 2 True"] show ?thesis
    by (simp add: sample_upsert upsert_receipt_def)
qed

text \<open>A saved-view deletion that succeeds was made against the current revision, removes exactly that view,
  advances the revision by one and returns a receipt that passes its contract; one that fails
  changes nothing.\<close>

theorem delete_correct:
  "(\<forall>e. snd (delete_saved_view h k x) = Inl e \<longrightarrow> fst (delete_saved_view h k x) = h) \<and>
   (\<forall>receipt. snd (delete_saved_view h k x) = Inr receipt \<longrightarrow>
     valid (validate_mutation_receipt receipt) \<and> x = fh_saved_view_revision h \<and>
     fh_saved_view_revision (fst (delete_saved_view h k x)) = x + 1 \<and>
     (\<forall>j. bt_get (fh_saved_views (fst (delete_saved_view h k x))) j =
        (if j = k then None else bt_get (fh_saved_views h) j)))"
proof (intro conjI allI impI)
  show "\<And>e. snd (delete_saved_view h k x) = Inl e \<Longrightarrow> fst (delete_saved_view h k x) = h"
    by (rule delete_error_keeps)
  fix receipt assume res: "snd (delete_saved_view h k x) = Inr receipt"
  show "valid (validate_mutation_receipt receipt)" "x = fh_saved_view_revision h"
    "fh_saved_view_revision (fst (delete_saved_view h k x)) = x + 1"
    using delete_receipt_correct [OF res] by simp_all
  show "bt_get (fh_saved_views (fst (delete_saved_view h k x))) j =
      (if j = k then None else bt_get (fh_saved_views h) j)" for j
    using res by (cases rule: delete_cases [of h k x]) auto
qed

lemma delete_correct_witness:
  "bt_get (fh_saved_views (fst (delete_saved_view (with_saved_view hub1 (sample_view ''Low'')) ''lab.low-battery'' 2)))
     ''lab.low-battery'' = None"
proof -
  have "is_valid_saved_view_id ''lab.low-battery''"
    using valid_saved_view_id [OF sample_view_valid [of "''Low''"]] by (simp add: sample_view_def)
  then have "snd (delete_saved_view (with_saved_view hub1 (sample_view ''Low'')) ''lab.low-battery'' 2) =
      Inr (delete_receipt ''lab.low-battery'' 2 3)"
    by (simp add: delete_saved_view_def Let_def with_saved_view_def u64_checked_add_def u64_max_def)
      (simp add: sample_view_def numeral_eq_Suc)
  with delete_correct [of "with_saved_view hub1 (sample_view ''Low'')" "''lab.low-battery''" 2] show ?thesis by simp
qed

section \<open>Check-ins\<close>

text \<open>The two hand-written grammars agree: an identifier passes the check-in's dotted-ID check exactly when
  it is a valid saved-view ID.\<close>

theorem dotted_grammars_agree:
  "require_dotted_id v path = [] \<longleftrightarrow> is_valid_saved_view_id v"
  by (rule require_dotted_id_iff_saved_view_id)

text \<open>A check-in whose claims pass is short-lived and cannot vouch beyond itself: it lives at most five
  minutes, its observation is stamped with the signed issue time and no receive time, and every
  fact in it was observed at the issue time and is fresh exactly until the check-in expires.\<close>

theorem checkin_claims_bounded:
  assumes "valid (validate_claims codec c)"
  shows "0 \<le> cc_issued_at_ms c \<and> cc_issued_at_ms c < cc_expires_at_ms c \<and>
     cc_expires_at_ms c - cc_issued_at_ms c \<le> 300000 \<and>
     do_source_time_ms (cc_observation c) = cc_issued_at_ms c \<and>
     do_received_time_ms (cc_observation c) = 0 \<and>
     (\<forall>p \<in> set_option (map_option ao_provenance (do_agent (cc_observation c))) \<union>
           set_option (map_option po_provenance (do_power (cc_observation c))) \<union>
           set_option (map_option ao_provenance (do_application (cc_observation c))).
        fp_observed_at_ms p = cc_issued_at_ms c \<and> fp_fresh_until_ms p = cc_expires_at_ms c)"
  using valid_claims_window [OF assms] valid_claims_facts [OF assms]
  by (simp add: max_checkin_ttl_ms_def)

lemma checkin_claims_bounded_witness:
  "\<forall>proposal. cc_expires_at_ms (sample_claims proposal) - cc_issued_at_ms (sample_claims proposal) \<le> 300000"
  using checkin_claims_bounded [OF sample_claims_valid] by simp

section \<open>Streams\<close>

text \<open>The strongest required condition of a progress profile is one its required stages report, none
  reported by a required stage ranks higher (ties go to the later stage), and there is none
  exactly when no required stage reports a state.\<close>

theorem strongest_condition_maximal:
  "(strongest_required_condition p = None \<longleftrightarrow>
     (\<forall>stage e. bt_get (pp_stages p) stage = Some e \<longrightarrow> pe_applicability e = Required \<longrightarrow> pe_state e = None)) \<and>
   (\<forall>stage state. strongest_required_condition p = Some (stage, state) \<longrightarrow>
     (\<exists>e. bt_get (pp_stages p) stage = Some e \<and> pe_applicability e = Required \<and> pe_state e = Some state) \<and>
     (\<forall>stage' e' state'. bt_get (pp_stages p) stage' = Some e' \<longrightarrow> pe_applicability e' = Required \<longrightarrow>
        pe_state e' = Some state' \<longrightarrow>
        condition_rank state' < condition_rank state \<or>
        condition_rank state' = condition_rank state \<and> stage' \<le> stage))"
proof (intro conjI allI impI)
  have "required_conditions p = [] \<longleftrightarrow> (\<forall>stage state. (stage, state) \<notin> set (required_conditions p))"
    by (cases "required_conditions p") auto
  then have "strongest_required_condition p = None \<longleftrightarrow>
     (\<forall>stage e. bt_get (pp_stages p) stage = Some e \<longrightarrow> pe_applicability e = Required \<longrightarrow>
        (\<forall>state. pe_state e \<noteq> Some state))"
    unfolding strongest_required_condition_def max_by_key_None set_required_conditions by meson
  then show "strongest_required_condition p = None \<longleftrightarrow>
     (\<forall>stage e. bt_get (pp_stages p) stage = Some e \<longrightarrow> pe_applicability e = Required \<longrightarrow> pe_state e = None)"
    by simp
next
  fix stage state
  assume "strongest_required_condition p = Some (stage, state)"
  then have max: "(stage, state) \<in> set (required_conditions p) \<and>
      (\<forall>y\<in>set (required_conditions p). (\<lambda>(stage, state). (condition_rank state, stage)) y \<le>
         (\<lambda>(stage, state). (condition_rank state, stage)) (stage, state))"
    unfolding strongest_required_condition_def by (rule max_by_key_Some)
  then show "\<exists>e. bt_get (pp_stages p) stage = Some e \<and> pe_applicability e = Required \<and> pe_state e = Some state"
    by (simp add: set_required_conditions)
  fix stage' e' state'
  assume "bt_get (pp_stages p) stage' = Some e'" "pe_applicability e' = Required" "pe_state e' = Some state'"
  then have "(stage', state') \<in> set (required_conditions p)"
    by (auto simp: set_required_conditions)
  with max show "condition_rank state' < condition_rank state \<or>
      condition_rank state' = condition_rank state \<and> stage' \<le> stage"
    by fastforce
qed

definition sample_evidence :: "condition_state \<Rightarrow> progress_stage_evidence" where
  "sample_evidence state = \<lparr>pe_applicability = Required, pe_deadline_ms = Some 100, pe_state = Some state,
     pe_observed_revision = Some 1, pe_last_progress_ms = None, pe_reason = ''seen''\<rparr>"

definition sample_profile :: progress_profile where
  "sample_profile = \<lparr>pp_profile_id = ''p'', pp_content_progress = Content_Sequence,
     pp_stages = bt_insert Route (sample_evidence Current) (bt_insert Sink (sample_evidence Failed) bt_empty)\<rparr>"

lemma strongest_condition_maximal_witness:
  "\<exists>stage state. strongest_required_condition sample_profile = Some (stage, state) \<and> 12 \<le> condition_rank state"
proof -
  note facts = strongest_condition_maximal [of sample_profile]
  have sink: "bt_get (pp_stages sample_profile) Sink = Some (sample_evidence Failed)"
    by (simp add: sample_profile_def)
  moreover have failed: "pe_applicability (sample_evidence Failed) = Required"
    "pe_state (sample_evidence Failed) = Some Failed"
    by (simp_all add: sample_evidence_def)
  ultimately have "strongest_required_condition sample_profile \<noteq> None"
    using conjunct1 [OF facts] by (metis option.distinct(1))
  then obtain stage state where s: "strongest_required_condition sample_profile = Some (stage, state)" by auto
  with conjunct2 [OF facts] sink failed
  have "condition_rank Failed < condition_rank state \<or> condition_rank Failed = condition_rank state"
    by meson
  with s show ?thesis by auto
qed

text \<open>A stream descriptor that passes its contract has finite, uniquely named edge queues, time transforms
  that connect declared domains with finite values, unique domain IDs, and reports a deadline, a
  state and an observed revision for every required progress stage.\<close>

theorem valid_stream_sound:
  assumes "valid (validate_stream jb d)"
  shows "distinct (map eq_edge_id (sd_queues d)) \<and>
     (\<forall>q\<in>set (sd_queues d). 0 < ql_items (eq_limits q) \<and> 0 < ql_bytes (eq_limits q) \<and>
        0 < ql_duration_ms (eq_limits q)) \<and>
     distinct (map td_domain_id (tc_domains (sd_timing d))) \<and>
     (\<forall>t\<in>set (tc_transforms (sd_timing d)).
        tt_from_domain t \<in> set (map td_domain_id (tc_domains (sd_timing d))) \<and>
        tt_to_domain t \<in> set (map td_domain_id (tc_domains (sd_timing d))) \<and>
        f64_is_finite (tt_offset_ms t) \<and> f64_is_finite (tt_uncertainty_ms t)) \<and>
     (\<forall>stage e. bt_get (pp_stages (sd_progress d)) stage = Some e \<longrightarrow> pe_applicability e = Required \<longrightarrow>
        pe_deadline_ms e \<noteq> None \<and> pe_state e \<noteq> None \<and> pe_observed_revision e \<noteq> None)"
proof -
  have q: "queue_failures (sd_queues d) = []"
    and dom: "domain_failures (tc_domains (sd_timing d)) = []"
    and tr: "transform_failures (tc_domains (sd_timing d)) (tc_transforms (sd_timing d)) = []"
    and pr: "progress_failures (sd_progress d) = []"
    using assms by (simp_all add: validate_stream_def)
  have "distinct (map td_domain_id (tc_domains (sd_timing d)))"
    using dom unique_count_eq [of "map td_domain_id (tc_domains (sd_timing d))"]
    by (simp add: domain_failures_def del: unique_count_eq)
  moreover have "\<forall>stage e. bt_get (pp_stages (sd_progress d)) stage = Some e \<longrightarrow> pe_applicability e = Required \<longrightarrow>
      pe_deadline_ms e \<noteq> None \<and> pe_state e \<noteq> None \<and> pe_observed_revision e \<noteq> None"
    using pr by (auto simp: progress_failures_def)
  moreover have "\<forall>t\<in>set (tc_transforms (sd_timing d)). \<not> transform_invalid (tc_domains (sd_timing d)) t"
    using transform_failures_domains [OF tr] by blast
  ultimately show ?thesis
    using queue_failures_distinct [OF q] queue_failures_bounded [OF q]
    by (auto simp: transform_invalid_def)
qed

definition sample_epoch :: component_epoch where
  "sample_epoch = \<lparr>ce_id = ''e'', ce_predecessor = None, ce_reason = ''boot'', ce_continuity = Epoch_Continuous,
     ce_native_instance = None\<rparr>"

definition sample_queue :: edge_queue_policy where
  "sample_queue = \<lparr>eq_edge_id = ''edge'', eq_producer = ''a'', eq_consumer = ''b'',
     eq_limits = \<lparr>ql_items = 10, ql_bytes = 1000, ql_duration_ms = 100\<rparr>, eq_overflow = DropOldest,
     eq_producer_may_block = False, eq_retain_codec_configuration = False,
     eq_restart_requires_keyframe = False, eq_slow_consumer_action = ''drop''\<rparr>"

definition sample_timing :: timing_correlation where
  "sample_timing = \<lparr>
     tc_domains = [\<lparr>td_domain_id = ''device'', td_domain_kind = ''monotonic'', td_units = ''ns'',
       td_time_base_numerator = 1, td_time_base_denominator = 1000, td_raw_timestamp_preserved = True\<rparr>],
     tc_transforms = [\<lparr>tt_transform_id = ''t'', tt_from_domain = ''device'', tt_to_domain = ''device'',
       tt_method = ''id'', tt_offset_ms = Finite 0, tt_uncertainty_ms = Finite 1, tt_valid_from_ms = 0,
       tt_valid_to_ms = None, tt_postprocessing = []\<rparr>],
     tc_clock_reset_count = 0, tc_fixed_latency_ms = None, tc_fixed_latency_uncertainty_ms = None,
     tc_calibration_reference = None\<rparr>"

definition sample_stream :: stream_descriptor where
  "sample_stream = \<lparr>
     sd_schema = ''rusty.fleet.stream_descriptor.v1'', sd_logical_stream_id = ''imu'',
     sd_semantic = \<lparr>sem_family = ''motion'', sem_class = ''imu'', sem_schema_profile = ''v1'',
       sem_plane = Plane_Observation, sem_sensitivity = Public\<rparr>,
     sd_native_descriptor = \<lparr>nd_kind = ''lsl'', nd_adapter_version = ''1'', nd_native_protocol_version = ''1'',
       nd_digest_sha256 = replicate 64 CHR ''a'', nd_captured_at_ms = 0, nd_document = None,
       nd_reference = Some ''ref''\<rparr>,
     sd_selection = \<lparr>sel_query_language = ''lsl'', sel_query = ''type=imu'', sel_expected_cardinality = 1,
       sel_candidate_count = 0, sel_candidate_descriptor_digests = [], sel_chosen_native_instance = None,
       sel_method = NoCandidate, sel_valid_until_ms = 0, sel_override_actor = None, sel_override_reason = None\<rparr>,
     sd_epochs = \<lparr>ces_source = sample_epoch, ces_route = None, ces_processing = None, ces_sink = None,
       ces_path_generation = ''g''\<rparr>,
     sd_accepted_authority_revision = 1,
     sd_timing = sample_timing,
     sd_cadence = \<lparr>cad_mode = Cadence_Irregular, cad_nominal_rate_hz = None, cad_accepted_rate_min_hz = None,
       cad_accepted_rate_max_hz = None, cad_measurement_window_ms = 1000, cad_gap_tolerance_ms = None,
       cad_no_data_deadline_ms = None, cad_heartbeat = None, cad_sequence_semantics = ''none''\<rparr>,
     sd_progress = sample_profile,
     sd_queues = [sample_queue],
     sd_budget = \<lparr>ab_bandwidth_bytes_per_second = 0, ab_samples_or_frames_per_second = Finite 100,
       ab_decode_slots = 0, ab_queue_bytes = 1, ab_queue_duration_ms = 1, ab_disk_bytes = 0,
       ab_recorder_slots = 0, ab_maximum_clock_uncertainty_ms = None, ab_priority_class = ''low''\<rparr>,
     sd_experiment_run = None, sd_recording = None, sd_extensions = bt_empty\<rparr>"

lemma sample_progress_ok: "progress_failures sample_profile = []"
  by (simp add: progress_failures_def sample_profile_def sample_evidence_def is_blank.simps)

lemma sample_timing_ok:
  "domain_failures (tc_domains sample_timing) = []"
  "transform_failures (tc_domains sample_timing) (tc_transforms sample_timing) = []"
  "latency_failures sample_timing = []"
  by (simp_all add: domain_failures_def transform_failures_def latency_failures_def sample_timing_def
      unique_count_def transform_invalid_def is_blank.simps)

lemma sample_queue_ok: "queue_failures [sample_queue] = []"
  by (simp add: queue_failures_def sample_queue_def is_blank.simps)

lemma sample_stream_valid: "valid (validate_stream no_bytes sample_stream)"
proof -
  have "semantic_failures sample_stream = []" "selection_failures (sd_selection sample_stream) = []"
    "epoch_failures (sd_epochs sample_stream) = []" "cadence_failures (sd_cadence sample_stream) = []"
    "budget_failures (sd_budget sample_stream) = []"
    "native_descriptor_failures no_bytes (sd_native_descriptor sample_stream) = []"
    by (simp_all add: sample_stream_def semantic_failures_def selection_failures_def epoch_failures_def
        cadence_failures_def budget_failures_def native_descriptor_failures_def is_sha256_def
        is_lower_hex_def is_ascii_digit_def list_all_iff selection_is_resolved_def sample_epoch_def
        is_blank.simps)
  moreover have "descriptor_limit_failures sample_stream = []"
    by (simp add: descriptor_limit_failures_def sample_stream_def sample_timing_def sample_profile_def
        bt_len_insert bt_contains_key_def)
  ultimately show ?thesis
    using sample_progress_ok sample_timing_ok sample_queue_ok
    by (simp add: validate_stream_def) (simp add: sample_stream_def recording_failures_def
        experiment_run_failures_def)
qed

lemma valid_stream_sound_witness: "0 < ql_items (eq_limits sample_queue)"
  using valid_stream_sound [OF sample_stream_valid] by (simp add: sample_stream_def)

section \<open>Operation ledgers and lifecycles\<close>

text \<open>An operation ledger that passes its contract reports on exactly the devices of its frozen target
  snapshot, each once and under the snapshotted identity revision.\<close>

theorem ledger_covers_snapshot:
  assumes "valid (validate_operation_ledger l)"
  shows "distinct (map otr_device_id (ol_targets l)) \<and>
     set (map otr_device_id (ol_targets l)) = set (bt_keys (ts_identity_revisions (ol_target_snapshot l))) \<and>
     (\<forall>t\<in>set (ol_targets l). bt_get (ts_identity_revisions (ol_target_snapshot l)) (otr_device_id t) =
        Some (otr_identity_revision t))"
  using valid_ledger_targets [OF assms] valid_ledger_covers [OF assms] by simp

definition sample_ledger :: operation_ledger where
  "sample_ledger = \<lparr>
     ol_schema = ''rusty.fleet.operation_ledger.v1'', ol_operation_id = ''op'', ol_action_id = ''act'',
     ol_created_at_ms = 0,
     ol_target_snapshot = \<lparr>ts_snapshot_id = ''s'', ts_created_at_ms = 0, ts_expires_at_ms = 1,
       ts_query = sample_query 0 10, ts_result_revision = 1,
       ts_identity_revisions = bt_insert ''hmd-1'' 3 bt_empty, ts_extensions = bt_empty\<rparr>,
     ol_lifecycle = Proposed, ol_cleanup_required = False,
     ol_targets = [\<lparr>otr_device_id = ''hmd-1'', otr_identity_revision = 3, otr_eligibility = Eligible,
       otr_lifecycle = Proposed, otr_reason_code = ''r'', otr_message = ''m'', otr_last_transition_ms = 0,
       otr_receipt_id = None, otr_retry_eligible = False, otr_cancel_eligible = True,
       otr_extensions = bt_empty\<rparr>],
     ol_extensions = bt_empty\<rparr>"

lemma sample_ledger_valid: "valid (validate_operation_ledger sample_ledger)"
  using sample_query_valid [of 10 0]
  by (simp add: validate_operation_ledger_def sample_ledger_def validate_target_snapshot_def
      ledger_target_failures_def bt_len_insert bt_contains_key_def bt_values_def bt_keys_def is_blank.simps)

lemma ledger_covers_snapshot_witness:
  "set (map otr_device_id (ol_targets sample_ledger)) =
     set (bt_keys (ts_identity_revisions (ol_target_snapshot sample_ledger)))"
  using ledger_covers_snapshot [OF sample_ledger_valid] by simp

text \<open>The command lifecycle only moves forward: along any path of allowed transitions the phase (proposed,
  accepted, dispatched, running, cancelling, decided, cleaned) never decreases, strictly increases
  up to a decision, and nothing follows \<open>Rejected\<close> or \<open>Cleaned\<close>.\<close>

theorem lifecycle_moves_forward:
  assumes "lifecycle_reaches l m"
  shows "lifecycle_phase l \<le> lifecycle_phase m \<and>
     (l \<in> {Rejected, Cleaned} \<longrightarrow> m = l) \<and>
     (lifecycle_phase l < 5 \<longrightarrow> lifecycle_phase m = lifecycle_phase l \<longrightarrow> m = l)"
proof -
  have "l \<in> {Rejected, Cleaned} \<longrightarrow> m = l"
    using assms by (induction rule: lifecycle_reaches.induct) auto
  moreover have "lifecycle_phase l < 5 \<longrightarrow> lifecycle_phase m = lifecycle_phase l \<longrightarrow> m = l"
    using assms
  proof (induction rule: lifecycle_reaches.induct)
    case (move l m n)
    show ?case
    proof (intro impI)
      assume l: "lifecycle_phase l < 5" and eq: "lifecycle_phase n = lifecycle_phase l"
      have "lifecycle_phase l \<le> lifecycle_phase m" "lifecycle_phase m \<le> lifecycle_phase n"
        using reaches_phase [OF move.hyps(1)] transition_phase [OF move.hyps(2)] by simp_all
      then have "lifecycle_phase m < lifecycle_phase n"
        using l eq transition_phase_strict [OF move.hyps(2)] by linarith
      with eq \<open>lifecycle_phase l \<le> lifecycle_phase m\<close> show "n = l" by simp
    qed
  qed simp
  ultimately show ?thesis using reaches_phase [OF assms] by simp
qed

lemma lifecycle_moves_forward_witness:
  "lifecycle_phase Accepted \<le> lifecycle_phase Applied"
proof -
  have "lifecycle_reaches Accepted Applied"
    by (rule lifecycle_reaches.move [where m = Dispatched], rule lifecycle_reaches.move [where m = Accepted],
        rule lifecycle_reaches.stay) simp_all
  from lifecycle_moves_forward [OF this] show ?thesis by simp
qed

text \<open>The Kiosk owner contract is pinned: the field-by-field comparison of the validator accepts exactly
  one binding, \<open>show_controls_v1\<close>, so no field is left unchecked.\<close>

theorem owner_contract_pinned:
  "valid (validate_owner_contract c) \<longleftrightarrow> c = show_controls_v1"
  by (rule valid_owner_contract)

end
