(* ===== verification/Kiosk_Claims.thy ===== *)
theory Kiosk_Claims
  imports Samples
begin

text \<open>
  Properties of the Kiosk show-controls operations: what reachable ledgers look like, how they
  evolve, and exactly when each method succeeds.
\<close>

section \<open>Reachable ledgers\<close>

lemma reachable_kiosk_target:
  assumes "reachable ob jb sha enc policy h" and "bt_get (fh_kiosk_operations h) k = Some op"
    and "t \<in> set (ko_targets op)"
  shows "valid (validate_kiosk_operation op)" and "ko_operation_id op = k" and "target_ok_in op t"
proof -
  show ok: "valid (validate_kiosk_operation op)" "ko_operation_id op = k"
    using stores_okD(1) [OF hub_okD(8) [OF reachable_ok [OF assms(1)]]] assms(2) by (auto simp: ks.store_ok_def)
  show "target_ok_in op t"
    using ok(1) assms(3) by (auto simp: target_ok_in_def intro: valid_kiosk_operation_targets)
qed

lemma hub4_target:
  "bt_get (fh_kiosk_operations (hub_with (sample_op target4))) ''op-1'' = Some (sample_op target4)"
  "target4 \<in> set (ko_targets (sample_op target4))"
  by simp_all

text \<open>C21: In a reachable Hub a target is \<open>Applied\<close> only with an effective receipt: a verified signed HTTP 200
  response of the pinned owner contract that reports the command accepted, completed and the
  controls open, bound to this operation, this device identity and the current owner request.\<close>

theorem applied_only_with_receipt:
  assumes "reachable ob jb sha enc policy h" and "bt_get (fh_kiosk_operations h) k = Some op"
    and "t \<in> set (ko_targets op)" and "kt_lifecycle t = Applied"
  shows "\<exists>r. kt_effective_receipt t = Some r \<and> kr_response_auth_verified r \<and> kr_response_status r = 200 \<and>
     kr_owner_accepted r \<and> kr_owner_completed r \<and> kr_controls_open r \<and>
     kr_owner_contract r = show_controls_v1 \<and> kr_operation_id r = k \<and>
     kr_device_id r = kt_device_id t \<and> kr_identity_revision r = kt_identity_revision t \<and>
     kt_owner_request_id t = Some (kr_owner_action_request_id r)"
proof -
  note reach = reachable_kiosk_target [OF assms(1-3)]
  have e: "kp_eligible (kt_preflight t)"
    using not_rejected_eligible [OF reach(3)] assms(4) by simp
  have "kt_effective_receipt t \<noteq> None" "kiosk_target_receipt_failures k t = []"
    using reach(2,3) assms(4) by (auto simp: eligible_target_ok [OF e] kiosk_target_state_failures_def)
  then obtain r where r: "kt_effective_receipt t = Some r" "valid (validate_kiosk_receipt r)"
    "kr_operation_id r = k" "kr_device_id r = kt_device_id t"
    "kr_identity_revision r = kt_identity_revision t"
    "kt_owner_request_id t = Some (kr_owner_action_request_id r)"
    by (auto simp: kiosk_target_receipt_failures_def)
  then show ?thesis using valid_kiosk_receipt_effective [OF r(2)] by auto
qed

lemma applied_only_with_receipt_witness:
  "kr_response_auth_verified sample_receipt \<and> kr_operation_id sample_receipt = ''op-1''"
  using applied_only_with_receipt [OF hub4_reachable hub4_target target4_facts(3)] by auto

text \<open>In a reachable Hub a target that was ineligible at the frozen preview is \<open>Rejected\<close>: it has no owner
  request, no dispatch and no receipt; and only a target that proved ready (supported, enabled,
  authorized, reachable, current and not past its freshness deadline) is ever anything else.\<close>

theorem only_ready_targets_dispatched:
  assumes "reachable ob jb sha enc policy h" and "bt_get (fh_kiosk_operations h) k = Some op"
    and "t \<in> set (ko_targets op)"
  shows "if kp_eligible (kt_preflight t)
     then kp_support (kt_preflight t) = Support_Supported \<and> kp_enablement (kt_preflight t) = Enablement_Enabled \<and>
       kp_authorization (kt_preflight t) = Authorization_Authorized \<and>
       kp_reachability (kt_preflight t) = Reachability_Reachable \<and>
       kp_freshness (kt_preflight t) = Freshness_Current \<and>
       kp_evaluated_at_ms (kt_preflight t) \<le> kp_fresh_until_ms (kt_preflight t) \<and> kt_lifecycle t \<noteq> Rejected
     else kt_lifecycle t = Rejected \<and> kt_owner_request_ids t = [] \<and> kt_dispatched_at_ms t = None \<and>
       kt_effective_receipt t = None"
proof (cases "kp_eligible (kt_preflight t)")
  case True
  note reach = reachable_kiosk_target [OF assms]
  have "expected_eligibility (kt_preflight t)" "kt_lifecycle t \<noteq> Rejected"
    using reach(3) True
    by (auto simp: eligible_target_ok target_frame_iff valid_preflight kiosk_target_state_failures_def)
  with True show ?thesis by (simp add: expected_eligibility_iff)
next
  case False
  note ok = reachable_kiosk_target(3) [OF assms, unfolded target_ok_in_def]
  from kiosk_target_ineligible [OF ok False] kiosk_target_okD(2) [OF ok] False show ?thesis
    by (simp add: no_attempt_def)
qed

lemma only_ready_targets_dispatched_witness:
  "kp_support sample_preflight = Support_Supported \<and> kt_lifecycle target4 \<noteq> Rejected"
  using only_ready_targets_dispatched [OF hub4_reachable hub4_target] by simp

text \<open>In a reachable Hub an operation never has more owner attempts in flight than its frozen parallelism
  (at most 64), and a target never has more attempts than the frozen limit (at most 8), each with
  its own distinct owner request ID, the last one being the current request.\<close>

theorem attempts_bounded:
  assumes "reachable ob jb sha enc policy h" and "bt_get (fh_kiosk_operations h) k = Some op"
    and "t \<in> set (ko_targets op)"
  shows "inflight_count op \<le> ko_max_parallelism op \<and> ko_max_parallelism op \<le> 64 \<and>
     length (kt_owner_request_ids t) = kt_attempt_count t \<and>
     kt_attempt_count t \<le> ko_max_attempts_per_target op \<and> ko_max_attempts_per_target op \<le> 8 \<and>
     distinct (kt_owner_request_ids t) \<and> kt_owner_request_id t = last_option (kt_owner_request_ids t)"
  using reachable_kiosk_target(1) [OF assms]
    kiosk_target_okD(1-4) [OF reachable_kiosk_target(3) [OF assms, unfolded target_ok_in_def]]
  by (simp add: valid_kiosk_operation kiosk_head_iff)

lemma attempts_bounded_witness:
  "inflight_count (sample_op target4) \<le> 1 \<and> length (kt_owner_request_ids target4) = kt_attempt_count target4"
  using attempts_bounded [OF hub4_reachable hub4_target] by simp

text \<open>A cancelled target proves that no owner request was ever sent for it, and a target with a
  cancellation in progress has none either.\<close>

theorem cancelled_before_dispatch:
  assumes "reachable ob jb sha enc policy h" and "bt_get (fh_kiosk_operations h) k = Some op"
    and "t \<in> set (ko_targets op)" and "kt_lifecycle t \<in> {CancellationRequested, Cancelled}"
  shows "kt_owner_request_ids t = [] \<and> kt_dispatched_at_ms t = None \<and> kt_effective_receipt t = None"
proof -
  note reach = reachable_kiosk_target(3) [OF assms(1-3)]
  have e: "kp_eligible (kt_preflight t)"
    using not_rejected_eligible [OF reach] assms(4) by auto
  have "no_attempt t" "length (kt_owner_request_ids t) = kt_attempt_count t"
    using reach assms(4) by (auto simp: eligible_target_ok [OF e] kiosk_target_state_failures_def target_frame_iff)
  then show ?thesis by (simp add: no_attempt_def)
qed

definition cancelling_run :: "hub_command list" where
  "cancelling_run = take 2 sample_run @ [Request_Kiosk_Cancellation ''op-1'' ''hmd-1'' 1300]"

lemma cancelling_target_ok: "target_ok_in (sample_op u) (cancelling_target 1300 target2)"
proof -
  note facts = pre_dispatch_ok [OF target2_ok [of u], simplified]
  have "target_frame_ok (sample_op u) (cancelling_target 1300 target2)"
    using facts(2) by (fastforce simp: target_frame_iff cancelling_target_def is_blank.simps)
  with facts(1) show ?thesis
    by (subst eligible_target_ok)
      (simp_all add: cancelling_target_def kiosk_target_state_failures_def no_attempt_def)
qed

lemma cancelling_run_result:
  "run_commands no_bytes no_bytes no_sha no_codec hub1 cancelling_run = hub_with (sample_op (cancelling_target 1300 target2))"
proof -
  have a: "addressed (hub_with (sample_op target2)) ''op-1'' ''hmd-1'' 1300 (sample_op target2) target2"
    by (rule sample_addressed) (simp_all add: sample_ops_valid)
  have v: "valid (validate_kiosk_operation (sample_op (cancelling_target 1300 target2)))"
    by (rule sample_op_valid) (simp_all add: cancelling_target_ok, simp_all add: cancelling_target_def)
  have "fst (request_kiosk_show_controls_cancellation (hub_with (sample_op target2)) ''op-1'' ''hmd-1'' 1300) =
      hub_with (sample_op (cancelling_target 1300 target2))"
    using sample_commit [of "cancelling_target 1300" target2] v
    unfolding request_kiosk_show_controls_cancellation_def addressed_prefix [OF a] by simp
  then show ?thesis
    by (simp add: run_commands_def cancelling_run_def sample_run_def sample_previews sample_confirms
        confirm_kiosk_show_controls_request_def validate_execute_request_def finish_def)
qed

lemma cancelled_before_dispatch_witness:
  "kt_owner_request_ids (cancelling_target 1300 target2) = []"
proof -
  have r: "reachable no_bytes no_bytes no_sha no_codec default_policy (hub_with (sample_op (cancelling_target 1300 target2)))"
    unfolding cancelling_run_result [symmetric]
    by (rule run_reachable [OF hub1_reachable]) (simp add: cancelling_run_def sample_run_def is_kiosk_command_def)
  have "kt_lifecycle (cancelling_target 1300 target2) \<in> {CancellationRequested, Cancelled}"
    by (simp add: cancelling_target_def)
  from cancelled_before_dispatch [OF r _ _ this, of "''op-1''" "sample_op (cancelling_target 1300 target2)"]
  show ?thesis by simp
qed

section \<open>Evolution\<close>

text \<open>Over any further commands an operation of a reachable Hub keeps its ID, its immutable preview and
  its limits; each target keeps its identity and preflight, only moves along the lifecycle moves,
  and only appends owner request IDs. Applied, rejected and cancelled targets stay so, and a
  target that was dispatched never returns to a state before dispatch.\<close>

theorem operations_only_evolve:
  assumes "reachable ob jb sha enc policy h" and "bt_get (fh_kiosk_operations h) k = Some op"
  shows "\<exists>op'. bt_get (fh_kiosk_operations (run_commands ob jb sha enc h cs)) k = Some op' \<and>
     ko_preview op' = ko_preview op \<and> ko_max_parallelism op' = ko_max_parallelism op \<and>
     ko_max_attempts_per_target op' = ko_max_attempts_per_target op \<and>
     list_all2 (\<lambda>t u. kt_device_id u = kt_device_id t \<and> kt_preflight u = kt_preflight t \<and>
       kiosk_move\<^sup>*\<^sup>* (kt_lifecycle t) (kt_lifecycle u) \<and>
       take (length (kt_owner_request_ids t)) (kt_owner_request_ids u) = kt_owner_request_ids t \<and>
       (kt_lifecycle t \<in> {Applied, Rejected, Cancelled} \<longrightarrow> kt_lifecycle u = kt_lifecycle t) \<and>
       (kt_lifecycle t \<in> {Dispatched, Running, Applied, Lifecycle_Failed, Expired} \<longrightarrow>
          kt_lifecycle u \<in> {Dispatched, Running, Applied, Lifecycle_Failed, Expired}))
       (ko_targets op) (ko_targets op')"
proof -
  obtain op' where op': "bt_get (fh_kiosk_operations (run_commands ob jb sha enc h cs)) k = Some op'"
    "operation_evolves\<^sup>*\<^sup>* op op'"
    using run_commands_evolve [OF hub_okD(8) [OF reachable_ok [OF assms(1)]] assms(2)] by blast
  have hist: "operation_history op op'" by (rule evolves_history [OF op'(2)])
  show ?thesis
  proof (intro exI conjI)
    show "list_all2 (\<lambda>t u. kt_device_id u = kt_device_id t \<and> kt_preflight u = kt_preflight t \<and>
       kiosk_move\<^sup>*\<^sup>* (kt_lifecycle t) (kt_lifecycle u) \<and>
       take (length (kt_owner_request_ids t)) (kt_owner_request_ids u) = kt_owner_request_ids t \<and>
       (kt_lifecycle t \<in> {Applied, Rejected, Cancelled} \<longrightarrow> kt_lifecycle u = kt_lifecycle t) \<and>
       (kt_lifecycle t \<in> {Dispatched, Running, Applied, Lifecycle_Failed, Expired} \<longrightarrow>
          kt_lifecycle u \<in> {Dispatched, Running, Applied, Lifecycle_Failed, Expired}))
       (ko_targets op) (ko_targets op')"
      using hist unfolding operation_history_def
      by (auto simp: target_history_def dest: settled_lifecycle no_way_back elim!: list.rel_mono_strong)
  qed (use op'(1) hist in \<open>simp_all add: operation_history_def\<close>)
qed

lemma hub2_reachable: "reachable no_bytes no_bytes no_sha no_codec default_policy (hub_with (sample_op target1))"
proof -
  have "hub_with (sample_op target1) = run_commands no_bytes no_bytes no_sha no_codec hub1 [Preview_Kiosk sample_plan]"
    by (simp add: run_commands_def sample_previews)
  then show ?thesis
    using run_reachable [OF hub1_reachable, of "[Preview_Kiosk sample_plan]"] by (simp add: is_kiosk_command_def)
qed

lemma operations_only_evolve_witness:
  "\<exists>op'. bt_get (fh_kiosk_operations (run_commands no_bytes no_bytes no_sha no_codec (hub_with (sample_op target1)) (tl sample_run))) ''op-1'' = Some op' \<and>
     ko_preview op' = ko_preview (sample_op target1)"
  using operations_only_evolve [OF hub2_reachable, of "''op-1''" "sample_op target1" "tl sample_run"] by auto

section \<open>When the methods succeed\<close>

text \<open>Dispatch of a target that has no attempt in flight succeeds exactly when the preview has not
  reached its expiry, the target is accepted or its last attempt failed or expired, attempts
  and parallelism are below their limits, the owner request ID is well-formed and new, and the
  device still presents the frozen identity and capability facts. It then is \<open>Dispatched\<close> with one
  more attempt under the new request ID.\<close>

theorem dispatch_succeeds_iff:
  assumes "addressed h k d now op t" and "kt_lifecycle t \<notin> {Dispatched, Running, Applied}"
  shows "((\<exists>op'. snd (dispatch_kiosk_show_controls h k d r now) = Inr op') \<longleftrightarrow>
       now < kv_expires_at_ms (ko_preview op) \<and> kt_lifecycle t \<in> {Accepted, Lifecycle_Failed, Expired} \<and>
       kt_attempt_count t < ko_max_attempts_per_target op \<and> r \<notin> set (kt_owner_request_ids t) \<and>
       is_owner_request_id r \<and> inflight_count op < ko_max_parallelism op \<and>
       require_target_current h t now = Inr ()) \<and>
     (\<forall>op'. snd (dispatch_kiosk_show_controls h k d r now) = Inr op' \<longrightarrow>
       fst (dispatch_kiosk_show_controls h k d r now) = stored h k op' \<and>
       (\<exists>t'. find_target op' d = Inr t' \<and> kt_lifecycle t' = Dispatched \<and>
          kt_attempt_count t' = kt_attempt_count t + 1 \<and>
          kt_owner_request_ids t' = kt_owner_request_ids t @ [r]))"
proof -
  let ?res = "dispatch_kiosk_show_controls h k d r now"
  have failed: "\<exists>e. snd ?res = Inl e"
    if bad: "dispatch_rejection op t d r now \<noteq> None \<or> require_target_current h t now \<noteq> Inr () \<or>
      now = kv_expires_at_ms (ko_preview op)"
  proof (cases "dispatch_rejection op t d r now")
    case (Some e)
    with assms show ?thesis
      unfolding dispatch_kiosk_show_controls_def addressed_prefix [OF assms(1)] by simp
  next
    case None
    show ?thesis
    proof (cases "require_target_current h t now")
      case (Inl e)
      with assms None show ?thesis
        unfolding dispatch_kiosk_show_controls_def addressed_prefix [OF assms(1)] by simp
    next
      case (Inr u)
      with bad None have "now = kv_expires_at_ms (ko_preview op)" by auto
      with dispatch_at_expiry [OF assms(1) None] Inr show ?thesis by auto
    qed
  qed
  show ?thesis
  proof (cases "dispatch_rejection op t d r now = None \<and> require_target_current h t now = Inr () \<and>
      now < kv_expires_at_ms (ko_preview op)")
    case True
    with dispatch_progress [OF assms(1)] show ?thesis by (fastforce simp: dispatch_rejection_None)
  next
    case False
    then have "dispatch_rejection op t d r now \<noteq> None \<or> require_target_current h t now \<noteq> Inr () \<or>
      now = kv_expires_at_ms (ko_preview op)"
      by (auto simp: dispatch_rejection_None)
    then obtain e where e: "snd ?res = Inl e" using failed by blast
    have "\<not> (now < kv_expires_at_ms (ko_preview op) \<and> kt_lifecycle t \<in> {Accepted, Lifecycle_Failed, Expired} \<and>
       kt_attempt_count t < ko_max_attempts_per_target op \<and> r \<notin> set (kt_owner_request_ids t) \<and>
       is_owner_request_id r \<and> inflight_count op < ko_max_parallelism op \<and>
       require_target_current h t now = Inr ())"
      using False by (auto simp: dispatch_rejection_None)
    then show ?thesis unfolding e by blast
  qed
qed

lemma sample2_addressed:
  "addressed (hub_with (sample_op target2)) ''op-1'' ''hmd-1'' 1300 (sample_op target2) target2"
  by (rule sample_addressed) (simp_all add: sample_ops_valid)

lemma dispatch_succeeds_iff_witness:
  "(\<exists>op'. snd (dispatch_kiosk_show_controls (hub_with (sample_op target2)) ''op-1'' ''hmd-1'' ''request-1'' 1300) = Inr op') \<and>
   \<not> (\<exists>op'. snd (dispatch_kiosk_show_controls (hub_with (sample_op target2)) ''op-1'' ''hmd-1'' ''bad'' 1300) = Inr op')"
proof -
  have bad: "\<not> is_owner_request_id ''bad''" by (simp add: is_owner_request_id_def)
  show ?thesis
    using dispatch_succeeds_iff [OF sample2_addressed, of "''request-1''"]
      dispatch_succeeds_iff [OF sample2_addressed, of "''bad''"] request_id_ok bad
    by (simp add: sample_current inflight_count_def is_inflight_def)
qed

text \<open>A target with an attempt in flight is applied by a receipt exactly when the receipt passes its
  contract and names the target's frozen identity revision and its current owner request; the
  target then is \<open>Applied\<close> with that receipt.\<close>

theorem receipt_applies_iff:
  assumes "addressed h (kr_operation_id r) (kr_device_id r) now op t"
    and "kt_lifecycle t \<in> {Dispatched, Running}" and "ko_operation_id op = kr_operation_id r"
  shows "((\<exists>op'. snd (apply_kiosk_show_controls_receipt h r now) = Inr op') \<longleftrightarrow>
       valid (validate_kiosk_receipt r) \<and> kr_identity_revision r = kt_identity_revision t \<and>
       kt_owner_request_id t = Some (kr_owner_action_request_id r)) \<and>
     (\<forall>op'. snd (apply_kiosk_show_controls_receipt h r now) = Inr op' \<longrightarrow>
       (\<exists>t'. find_target op' (kr_device_id r) = Inr t' \<and> kt_lifecycle t' = Applied \<and>
          kt_effective_receipt t' = Some r))"
proof (cases "valid (validate_kiosk_receipt r) \<and> kr_identity_revision r = kt_identity_revision t \<and>
    kt_owner_request_id t = Some (kr_owner_action_request_id r)")
  case True
  with receipt_progress [OF assms(1,2)] assms(3) show ?thesis by fastforce
next
  case False
  have attempt: "kt_owner_request_id t \<noteq> None"
    using inflight_ok(1) [OF addressed_facts(1) [OF assms(1)] assms(2)] by (simp add: has_attempt_def)
  have "\<exists>e. snd (apply_kiosk_show_controls_receipt h r now) = Inl e"
  proof (cases "validate_kiosk_receipt r")
    case (Inl fs)
    with assms(2) show ?thesis
      unfolding apply_kiosk_show_controls_receipt_def addressed_prefix [OF assms(1)] by auto
  next
    case (Inr u)
    with False attempt assms(2) show ?thesis
      unfolding apply_kiosk_show_controls_receipt_def addressed_prefix [OF assms(1)]
      by (auto simp: valid_def)
  qed
  with False show ?thesis by auto
qed

lemma receipt_applies_iff_witness:
  "\<exists>op'. snd (apply_kiosk_show_controls_receipt (hub_with (sample_op target3)) sample_receipt 1400) = Inr op'"
proof -
  have ids: "kr_operation_id sample_receipt = ''op-1''" "kr_device_id sample_receipt = ''hmd-1''"
    "kr_identity_revision sample_receipt = 1" "kr_owner_action_request_id sample_receipt = ''request-1''"
    by (simp_all add: sample_receipt_def)
  have a: "addressed (hub_with (sample_op target3)) (kr_operation_id sample_receipt)
      (kr_device_id sample_receipt) 1400 (sample_op target3) target3"
    unfolding ids by (rule sample_addressed) (simp_all add: sample_ops_valid)
  show ?thesis
    using receipt_applies_iff [OF a] sample_receipt_valid by (simp add: ids)
qed

text \<open>C22: Confirmation is all or nothing. In a reachable Hub a proposed operation is confirmed exactly when
  the request names its preview, time has not regressed, the preview has not expired and every
  target, eligible or not, still presents its frozen facts; every eligible target is then
  \<open>Accepted\<close>. In particular the ledger written back always passes its contract.\<close>

theorem confirm_succeeds_iff:
  assumes "reachable ob jb sha enc policy h" and "bt_get (fh_kiosk_operations h) k = Some op"
    and "ko_lifecycle op = Proposed"
  shows "((\<exists>op'. snd (confirm_kiosk_show_controls h k p now) = Inr op') \<longleftrightarrow>
       kv_preview_id (ko_preview op) = p \<and> require_monotonic_time op now = Inr () \<and>
       now \<le> kv_expires_at_ms (ko_preview op) \<and> require_frozen_targets_current h op now = Inr ()) \<and>
     (\<forall>op'. snd (confirm_kiosk_show_controls h k p now) = Inr op' \<longrightarrow>
       (\<forall>t\<in>set (ko_targets op'). kp_eligible (kt_preflight t) \<longrightarrow> kt_lifecycle t = Accepted))"
proof -
  note ok = hub_okD [OF reachable_ok [OF assms(1)]]
  have v: "valid (validate_kiosk_operation op)"
    using stores_okD(1) [OF ok(8)] assms(2) by (simp add: ks.store_ok_def)
  have "\<exists>t\<in>set (ko_targets op). kt_lifecycle t = Proposed"
    using v assms(3) by (auto simp: valid_kiosk_operation derived_lifecycle_def Let_def list_ex_iff split: if_splits)
  with ok(9) [OF assms(2)]
  have fresh: "\<forall>t\<in>set (ko_targets op). kp_eligible (kt_preflight t) \<longrightarrow> kt_lifecycle t = Proposed"
    by (auto simp: proposed_together_def)
  show ?thesis
  proof (cases "kv_preview_id (ko_preview op) = p \<and> require_monotonic_time op now = Inr () \<and>
       now \<le> kv_expires_at_ms (ko_preview op) \<and> require_frozen_targets_current h op now = Inr ()")
    case True
    with confirm_progress [OF assms(2) v _ _ assms(3) _ _ fresh, of p now] show ?thesis by fastforce
  next
    case False
    then have "\<exists>e. snd (confirm_kiosk_show_controls h k p now) = Inl e"
      using assms(2,3)
      by (cases "require_monotonic_time op now"; cases "require_frozen_targets_current h op now")
        (auto simp: confirm_kiosk_show_controls_def find_kiosk_operation_def require_preview_def)
    with False show ?thesis by auto
  qed
qed

lemma confirm_succeeds_iff_witness:
  "(\<exists>op'. snd (confirm_kiosk_show_controls (hub_with (sample_op target1)) ''op-1'' ''preview-1'' 1200) = Inr op') \<and>
   \<not> (\<exists>op'. snd (confirm_kiosk_show_controls (hub_with (sample_op target1)) ''op-1'' ''preview-2'' 1200) = Inr op')"
proof -
  have l: "ko_lifecycle (sample_op target1) = Proposed"
    by (simp add: derived_lifecycle_def is_inflight_def)
  have g: "require_monotonic_time (sample_op target1) 1200 = Inr ()"
    "require_frozen_targets_current (hub_with (sample_op target1)) (sample_op target1) 1200 = Inr ()"
    by (simp_all add: require_monotonic_time_def require_frozen_targets_current_def sample_current)
  show ?thesis
    using confirm_succeeds_iff [OF hub2_reachable _ l, of "''op-1''" "''preview-1''" 1200]
      confirm_succeeds_iff [OF hub2_reachable _ l, of "''op-1''" "''preview-2''" 1200] g
    by simp
qed

text \<open>In a reachable Hub a preview plan that passes its checks, has a new operation ID, names registered
  devices by their current identity revisions and is no older than the evidence it freezes is
  accepted while the store has room: the new operation has exactly the requested targets, in
  order, each proposed if its facts are ready and rejected otherwise.\<close>

theorem preview_accepted:
  assumes "reachable ob jb sha enc policy h" and "validate_preview_plan plan = Inr ()"
    and "plan_targets_current h plan"
    and "bt_get (fh_kiosk_operations h) (kpp_operation_id plan) = None"
    and "bt_len (fh_kiosk_operations h) < max_kiosk_operations"
  shows "\<exists>op. preview_kiosk_show_controls h plan = (stored h (kpp_operation_id plan) op, Inr op) \<and>
     map kt_device_id (ko_targets op) = bt_keys (opr_targets (kpp_request plan)) \<and>
     (\<forall>t\<in>set (ko_targets op).
        kt_lifecycle t = (if expected_eligibility (kt_preflight t) then Proposed else Rejected))"
proof -
  note ok = hub_okD [OF reachable_ok [OF assms(1)]]
  obtain op where op: "preview_kiosk_show_controls h plan = (stored h (kpp_operation_id plan) op, Inr op)"
    "map kt_device_id (ko_targets op) = bt_keys (opr_targets (kpp_request plan))"
    "\<forall>t\<in>set (ko_targets op). kt_lifecycle t = (if kp_eligible (kt_preflight t) then Proposed else Rejected)"
    using preview_progress [OF assms(2) ok(4,2) assms(3-5)] by blast
  have "valid (validate_kiosk_operation op)"
    using ks.outcome_result(2) [OF stores_okD(1) [OF ok(8)] preview_outcome, of plan op] op(1) by simp
  then have "kp_eligible (kt_preflight t) = expected_eligibility (kt_preflight t)"
    if "t \<in> set (ko_targets op)" for t
    using kiosk_target_okD(6) [OF valid_kiosk_operation_targets [OF _ that]] by (simp add: valid_preflight)
  with op show ?thesis by auto
qed

lemma preview_accepted_witness:
  "\<exists>op. preview_kiosk_show_controls hub1 sample_plan = (stored hub1 ''op-1'' op, Inr op) \<and>
     map kt_device_id (ko_targets op) = [''hmd-1'']"
proof -
  have "plan_targets_current hub1 sample_plan"
    by (simp add: plan_targets_current_def sample_plan_def kiosk_capability_facts_def capability_get_def)
      (simp add: sample_observation_def sample_capability_def)
  from preview_accepted [OF hub1_reachable sample_plan_valid this]
  show ?thesis by (auto simp: sample_plan_def max_kiosk_operations_def bt_keys_def)
qed

text \<open>C36: In a reachable Hub, a Kiosk method that returns an error leaves the Hub exactly as it was, and one that succeeds changes
  nothing but the Kiosk operation it returns: that operation passes its contract and is stored under its ID,
  every other Kiosk operation is kept, and so is all the rest of the Hub, its devices, events, saved views,
  catalogs and the operations of the other owners.\<close>

theorem kiosk_method_effect:
  assumes "reachable ob jb sha enc policy h"
    and "r \<in> {preview_kiosk_show_controls h plan, confirm_kiosk_show_controls h k p now,
         confirm_kiosk_show_controls_request h request now,
         dispatch_kiosk_show_controls h k d request_id now, mark_kiosk_show_controls_running h k d now,
         apply_kiosk_show_controls_receipt h receipt now, fail_kiosk_show_controls h k d reason message now,
         expire_kiosk_show_controls h k d reason message now,
         request_kiosk_show_controls_cancellation h k d now,
         complete_kiosk_show_controls_cancellation h k d now}"
  shows "(\<forall>e. snd r = Inl e \<longrightarrow> fst r = h) \<and> fst r = h\<lparr>fh_kiosk_operations := fh_kiosk_operations (fst r)\<rparr> \<and>
     (\<forall>op. snd r = Inr op \<longrightarrow> valid (validate_kiosk_operation op) \<and>
        bt_get (fh_kiosk_operations (fst r)) (ko_operation_id op) = Some op \<and>
        (\<forall>j. j \<noteq> ko_operation_id op \<longrightarrow>
           bt_get (fh_kiosk_operations (fst r)) j = bt_get (fh_kiosk_operations h) j))"
proof -
  have ok: "ks.store_ok h" by (rule stores_okD(1) [OF hub_okD(8) [OF reachable_ok [OF assms(1)]]])
  have "\<exists>key. ks.outcome h key r"
    using assms(2) preview_outcome [of h plan] confirm_outcome [OF ok, of k p now]
      confirm_request_outcome [OF ok, of request now]
      dispatch_outcome [of h k d request_id now] running_outcome [of h k d now]
      receipt_outcome [of h receipt now] finish_outcome [of Lifecycle_Failed h k d reason message now]
      finish_outcome [of Expired h k d reason message now] request_cancellation_outcome [of h k d now]
      complete_cancellation_outcome [of h k d now]
    by (elim insertE emptyE) (auto simp: fail_kiosk_show_controls_def expire_kiosk_show_controls_def)
  then obtain key where out: "ks.outcome h key r" ..
  have "fst r = h\<lparr>fh_kiosk_operations := fh_kiosk_operations (fst r)\<rparr>"
    using out by (cases rule: ks.outcome_cases) simp_all
  then show ?thesis
    using ks.error_changes_nothing [OF out] ks.outcome_result [OF ok out]
      ks.outcome_others [OF out] by auto
qed

lemma only_operations: "h' = h\<lparr>fh_kiosk_operations := ops\<rparr> \<Longrightarrow> fh_devices h' = fh_devices h"
  by simp

lemma kiosk_method_effect_witness:
  "fh_devices (fst (fail_kiosk_show_controls (hub_with (sample_op target4)) ''op-1'' ''hmd-1'' ''r'' ''m'' 1500)) =
     fh_devices (hub_with (sample_op target4))"
  using kiosk_method_effect [OF hub4_reachable,
      of "fail_kiosk_show_controls (hub_with (sample_op target4)) ''op-1'' ''hmd-1'' ''r'' ''m'' 1500"
         sample_plan "''op-1''" "''preview-1''" 1500 "\<lparr>oer_schema = ''rusty.fleet.operation_execute_request.v1'', oer_operation_id = ''op-1'',
           oer_preview_id = ''preview-1''\<rparr>" "''hmd-1''" "''request-2''" sample_receipt
         "''r''" "''m''", THEN conjunct2, THEN conjunct1]
  by (intro only_operations) simp

text \<open>At the expiry instant itself the dispatch guard \<^verbatim>\<open>now_ms > expires_at_ms\<close> passes, but the ledger that
  would be written back has an owner deadline equal to its dispatch time, so the method fails
  with the internal error \<^verbatim>\<open>kiosk_operation_invalid\<close> instead of \<^verbatim>\<open>kiosk_preview_expired\<close>.\<close>

theorem dispatch_at_expiry_instant:
  assumes "addressed h k d now op t" and "dispatch_rejection op t d r now = None"
    and "require_target_current h t now = Inr ()" and "now = kv_expires_at_ms (ko_preview op)"
  shows "\<exists>m. dispatch_kiosk_show_controls h k d r now =
     (h, Inl (hub_error ''kiosk_operation_invalid'' m))"
  using assms by (rule dispatch_at_expiry)

lemma dispatch_at_expiry_instant_witness:
  "\<exists>m. dispatch_kiosk_show_controls (hub_with (sample_op target2)) ''op-1'' ''hmd-1'' ''request-1'' 5000 =
     (hub_with (sample_op target2), Inl (hub_error ''kiosk_operation_invalid'' m))"
proof (rule dispatch_at_expiry_instant)
  show "addressed (hub_with (sample_op target2)) ''op-1'' ''hmd-1'' 5000 (sample_op target2) target2"
    by (rule sample_addressed) (simp_all add: sample_ops_valid)
  show "dispatch_rejection (sample_op target2) target2 ''hmd-1'' ''request-1'' 5000 = None"
    using request_id_ok by (simp add: dispatch_rejection_None inflight_count_def is_inflight_def)
qed (simp_all add: sample_current)

text \<open>A retry leaves the transition table of \<^verbatim>\<open>CommandLifecycle::can_transition_to\<close>: dispatch moves a target
  whose last attempt failed or expired (both terminal there) back to \<open>Dispatched\<close>.\<close>

theorem retry_outside_lifecycle_table:
  assumes "addressed h k d now op t" and "kt_lifecycle t \<in> {Lifecycle_Failed, Expired}"
    and "dispatch_rejection op t d r now = None" and "require_target_current h t now = Inr ()"
    and "now < kv_expires_at_ms (ko_preview op)"
  shows "\<exists>op' t'. dispatch_kiosk_show_controls h k d r now = (stored h k op', Inr op') \<and>
     find_target op' d = Inr t' \<and> kt_lifecycle t' = Dispatched \<and>
     is_terminal (kt_lifecycle t) \<and> \<not> can_transition_to (kt_lifecycle t) (kt_lifecycle t')"
  using dispatch_progress [OF assms(1,3-5)] assms(2) by (auto simp: is_terminal_def)

definition failed_target :: kiosk_target where
  "failed_target = finished_target Lifecycle_Failed ''timeout'' ''no answer'' 1400 2 target3"

lemma failed_target_facts [simp]:
  "kt_device_id failed_target = ''hmd-1''" "kt_preflight failed_target = sample_preflight"
  "kt_lifecycle failed_target = Lifecycle_Failed" "kt_last_transition_ms failed_target = 1400"
  "kt_identity_revision failed_target = 1" "kt_attempt_count failed_target = 1"
  "kt_owner_request_ids failed_target = [''request-1'']"
  by (simp_all add: failed_target_def finished_target_def)

lemma failed_target_ok: "target_ok_in (sample_op u) failed_target"
proof -
  note facts = inflight_ok [OF target3_ok [of u], simplified]
  have "target_frame_ok (sample_op u) failed_target"
    using facts(5) by (fastforce simp: target_frame_iff failed_target_def finished_target_def is_blank.simps)
  with facts(1,2) show ?thesis
    by (subst eligible_target_ok)
      (simp_all add: failed_target_def finished_target_def kiosk_target_state_failures_def
        has_attempt_def expected_retry_def)
qed

lemma retry_outside_lifecycle_table_witness:
  "\<exists>op' t'. dispatch_kiosk_show_controls (hub_with (sample_op failed_target)) ''op-1'' ''hmd-1'' ''request-2'' 1500 =
       (hub_with op', Inr op') \<and>
     find_target op' ''hmd-1'' = Inr t' \<and> kt_lifecycle t' = Dispatched \<and>
     \<not> can_transition_to Lifecycle_Failed Dispatched"
proof -
  have v: "valid (validate_kiosk_operation (sample_op failed_target))"
    by (rule sample_op_valid) (simp_all add: failed_target_ok)
  have a: "addressed (hub_with (sample_op failed_target)) ''op-1'' ''hmd-1'' 1500 (sample_op failed_target) failed_target"
    by (rule sample_addressed) (simp_all add: v)
  have id: "is_owner_request_id ''request-2''"
    by (simp add: is_owner_request_id_def is_ascii_alphanumeric_def is_ascii_digit_def
        is_ascii_lowercase_def is_ascii_uppercase_def)
  have g: "dispatch_rejection (sample_op failed_target) failed_target ''hmd-1'' ''request-2'' 1500 = None"
    using id by (simp add: dispatch_rejection_None inflight_count_def is_inflight_def)
  show ?thesis
    using retry_outside_lifecycle_table [OF a _ g sample_current] by auto
qed

end
