(* ===== verification/Hub_Claims.thy ===== *)
theory Hub_Claims
  imports Samples
begin

text \<open>
  Properties of the Hub as a state machine over arbitrary runs of its methods, each with a witness that
  applies it at the concrete run of theory \<^verbatim>\<open>Samples\<close>.
\<close>

section \<open>Observations\<close>

text \<open>C1: An accepted observation is never accepted again: after any further commands (observations
  in any order, Kiosk methods, saved-view mutations), a submission for the same device with the
  same identity revision, source epoch and source revision is rejected.\<close>

theorem observation_never_replayed:
  assumes "reachable ob jb sha enc policy h"
    and "is_accepted (snd (accept_observation ob jb h obs t))"
    and "lineage_of obs' = lineage_of obs"
    and "di_device_id (do_identity obs') = di_device_id (do_identity obs)"
  shows "\<not> is_accepted (snd (accept_observation ob jb
     (run_commands ob jb sha enc (fst (accept_observation ob jb h obs t)) cs) obs' t'))"
  using hub_okD(8) [OF reachable_ok [OF assms(1)]] assms(2-4) by (rule no_replay)

lemma hub0_accepted:
  "is_accepted (snd (accept_observation no_bytes no_bytes hub0 (sample_observation ''hmd-1'' 1 ''boot-1'' 1) 1000))"
  by (simp only: hub0_accepts) (simp add: admit_def Let_def)

lemma observation_never_replayed_witness:
  "\<not> is_accepted (snd (accept_observation no_bytes no_bytes
     (run_commands no_bytes no_bytes no_sha no_codec
        (fst (accept_observation no_bytes no_bytes hub0 (sample_observation ''hmd-1'' 1 ''boot-1'' 1) 1000))
        (sample_run @ [Observe (sample_observation ''hmd-1'' 1 ''boot-2'' 1) 2000]))
     (sample_observation ''hmd-1'' 1 ''boot-1'' 1) 3000))"
  by (rule observation_never_replayed [OF reachable.start [OF hub0_new] hub0_accepted refl refl])

text \<open>C2: Every reachable Hub is sound in these parts: it holds valid device records under their own IDs, a
  bounded and strictly ordered event log, a valid saved-view collection, a nonzero result revision, and only
  contract-valid Kiosk and hotspot operations, each stored under its ID. Reachable are the Hubs that any calls
  lead to which accept observations only at times not before the epoch and while the event sequence has room.
  The claim does not cover the package, awake and Wi-Fi ADB operations, nor that the snapshot of the Hub can be
  restored, which takes more.\<close>

theorem reachable_hub_sound:
  assumes "reachable ob jb sha enc policy h"
  shows "devices_ok ob jb h \<and> events_ok h \<and> valid (validate_collection (saved_views h)) \<and>
     0 < fh_result_revision h \<and>
     (\<forall>k op. bt_get (fh_kiosk_operations h) k = Some op \<longrightarrow>
        valid (validate_kiosk_operation op) \<and> ko_operation_id op = k) \<and>
     (\<forall>k op. bt_get (fh_hotspot_operations h) k = Some op \<longrightarrow>
        valid (validate_hotspot_operation op) \<and> ho_operation_id op = k)"
proof -
  note ok = hub_okD [OF reachable_ok [OF assms]]
  have "ks.store_ok h" "hs.store_ok (fh_hotspot_operations h)"
    using stores_okD [OF ok(8)] by (simp_all add: hotspot_store_ok_def)
  with ok saved_views_ok_collection show ?thesis
    by (auto simp: ks.store_ok_def hs.store_ok_def hotspot_ok_def)
qed

lemma reachable_hub_sound_witness:
  "devices_ok no_bytes no_bytes (hub_with (sample_op target4)) \<and> events_ok (hub_with (sample_op target4)) \<and>
   valid (validate_kiosk_operation (sample_op target4))"
  using reachable_hub_sound [OF hub4_reachable] by simp

text \<open>C20: An observation that is accepted moves its device's lineage forward: the identity revision never
  rolls back, a new identity or epoch restarts at source revision 1, an epoch that was left is
  never re-entered, and within an epoch the source revision strictly increases while the receive
  time does not regress.\<close>

theorem accepted_lineage_progress:
  assumes "is_accepted (snd (accept_observation ob jb h obs t))"
    and "bt_get (fh_devices h) (di_device_id (do_identity obs)) = Some d"
    and "old = rec_observation d"
  shows "di_identity_revision (do_identity old) \<le> di_identity_revision (do_identity obs) \<and>
     (di_identity_revision (do_identity old) < di_identity_revision (do_identity obs) \<longrightarrow>
        do_source_revision obs = 1) \<and>
     (do_source_epoch obs \<noteq> do_source_epoch old \<longrightarrow>
        do_source_epoch obs \<notin> set (rec_seen_source_epochs d)) \<and>
     (di_identity_revision (do_identity old) = di_identity_revision (do_identity obs) \<longrightarrow>
        (if do_source_epoch obs = do_source_epoch old
         then do_source_revision old < do_source_revision obs \<and>
              do_received_time_ms old \<le> do_received_time_ms obs
         else do_source_revision obs = 1))"
proof -
  have "lineage_rejection (fh_policy h) d obs = None"
    using assms(1,2) by (cases rule: accept_observation_cases [of ob jb obs h t]) auto
  note progress = lineage_progress [OF this]
  show ?thesis unfolding assms(3) using progress by simp
qed

lemma hub1_accepts_next:
  "accept_observation no_bytes no_bytes hub1 (sample_observation ''hmd-1'' 1 ''boot-2'' 1) 2000 =
   admit hub1 (sample_observation ''hmd-1'' 1 ''boot-2'' 1) 2000"
proof -
  have "lineage_rejection default_policy sample_record (sample_observation ''hmd-1'' 1 ''boot-2'' 1) = None"
    by (simp add: lineage_rejection_def Let_def identity_conflict_def)
      (simp add: sample_record_def admitted_record_def default_policy_def sample_observation_def)
  then show ?thesis
    using sample_observation_valid [of 1 "''boot-2''"]
    by (simp add: accept_observation_def valid_iff_Inr)
qed

lemma accepted_lineage_progress_witness:
  "do_source_epoch (sample_observation ''hmd-1'' 1 ''boot-2'' 1) \<notin> set (rec_seen_source_epochs sample_record)"
proof -
  have "is_accepted (snd (accept_observation no_bytes no_bytes hub1 (sample_observation ''hmd-1'' 1 ''boot-2'' 1) 2000))"
    unfolding hub1_accepts_next by (simp add: admit_def Let_def)
  from accepted_lineage_progress [OF this _ refl, of sample_record] show ?thesis by simp
qed

text \<open>A rejected observation changes no device record, revision, view or operation; whatever the
  decision, the submission is recorded as the newest event of the log.\<close>

theorem decision_recorded:
  assumes "policy_ok (fh_policy h)"
  shows "we_decision (last (fh_events (fst (accept_observation ob jb h obs t)))) =
       snd (accept_observation ob jb h obs t) \<and>
     (\<not> is_accepted (snd (accept_observation ob jb h obs t)) \<longrightarrow>
        fh_devices (fst (accept_observation ob jb h obs t)) = fh_devices h \<and>
        fh_result_revision (fst (accept_observation ob jb h obs t)) = fh_result_revision h \<and>
        fh_saved_views (fst (accept_observation ob jb h obs t)) = fh_saved_views h \<and>
        fh_kiosk_operations (fst (accept_observation ob jb h obs t)) = fh_kiosk_operations h \<and>
        fh_awake_operations (fst (accept_observation ob jb h obs t)) = fh_awake_operations h \<and>
        fh_wifi_adb_operations (fst (accept_observation ob jb h obs t)) = fh_wifi_adb_operations h \<and>
        fh_hotspot_operations (fst (accept_observation ob jb h obs t)) = fh_hotspot_operations h)"
proof -
  have limit: "0 < hp_event_limit (fh_policy h)" using assms by (simp add: policy_ok_def)
  have "we_decision (last (fh_events (fst (accept_observation ob jb h obs t)))) =
       snd (accept_observation ob jb h obs t)"
  proof (cases rule: accept_observation_cases [of ob jb obs h t])
    case admitted
    show ?thesis unfolding admitted(3) admit_def Let_def fst_conv snd_conv
      by (rule record_event_last [THEN conjunct2]) (simp add: limit)
  next
    case (rejected d)
    then show ?thesis using record_event_last [OF limit] by simp
  qed
  then show ?thesis using rejected_devices [of ob jb h obs t] by simp
qed

lemma decision_recorded_witness:
  "we_decision (last (fh_events (fst (accept_observation no_bytes no_bytes hub1
     (sample_observation ''hmd-1'' 1 ''boot-1'' 1) 2000)))) =
   snd (accept_observation no_bytes no_bytes hub1 (sample_observation ''hmd-1'' 1 ''boot-1'' 1) 2000)"
  using decision_recorded [of hub1 no_bytes no_bytes] by (simp add: policy_ok_def default_policy_def)

text \<open>A watch from a reachable Hub returns, in strictly increasing sequence order, only events after
  the given sequence, no more than the requested limit, and with a sufficient limit all of them.\<close>

theorem watch_correct:
  assumes "reachable ob jb sha enc policy h"
  shows "sorted_wrt (<) (map we_event_sequence (watch h after limit)) \<and>
     length (watch h after limit) \<le> limit \<and>
     set (watch h after limit) \<subseteq> {e\<in>set (fh_events h). after < we_event_sequence e} \<and>
     (length (fh_events h) \<le> limit \<longrightarrow>
        set (watch h after limit) = {e\<in>set (fh_events h). after < we_event_sequence e})"
proof -
  let ?es = "filter (\<lambda>event. we_event_sequence event > after) (fh_events h)"
  have ok: "sorted_wrt (<) (map we_event_sequence (fh_events h))"
    "length (fh_events h) \<le> hp_event_limit (fh_policy h)"
    using hub_okD(5) [OF reachable_ok [OF assms]] by (simp_all add: events_ok_def)
  have "sorted_wrt (<) (map we_event_sequence ?es)"
    using ok(1) by (simp add: sorted_wrt_map sorted_wrt_filter)
  then have "sorted_wrt (<) (map we_event_sequence (watch h after limit))"
    by (simp add: watch_def sorted_wrt_take take_map [symmetric])
  moreover have "set (watch h after limit) \<subseteq> set ?es"
    unfolding watch_def by (rule set_take_subset)
  moreover have "watch h after limit = ?es" if "length (fh_events h) \<le> limit"
    using that ok(2) by (simp add: watch_def order_trans [OF length_filter_le])
  ultimately show ?thesis by (auto simp: watch_def)
qed

lemma watch_correct_witness:
  "sorted_wrt (<) (map we_event_sequence (watch hub1 0 5)) \<and> length (watch hub1 0 5) \<le> 5"
  using watch_correct [OF hub1_reachable, of 0 5] by simp

end
