(* ===== verification/Hub_Restore.thy ===== *)
theory Hub_Restore
  imports Hub_Runs
begin

text \<open>
  Snapshot and restore of crates/fleet-hub/src/lib.rs: what a Hub persists, the checks a snapshot
  must pass to be loaded again, and which reachable Hubs can load their own snapshot.
\<close>

section \<open>Snapshots\<close>

record hub_snapshot =
  snap_schema :: string
  snap_policy :: hub_policy
  snap_devices :: devices
  snap_result_revision :: u64
  snap_event_sequence :: u64
  snap_events :: "watch_event list"
  snap_saved_view_revision :: u64
  snap_saved_views :: "(string, saved_view) btree_map"
  snap_kiosk_operations :: "(string, kiosk_operation) btree_map"
  snap_package_operations :: "(string, package_operation) btree_map"
  snap_package_archives :: "(string, package_archive) btree_map"
  snap_awake_operations :: "(string, awake_operation) btree_map"
  snap_wifi_adb_operations :: "(string, wifi_operation) btree_map"
  snap_hotspot_operations :: "(string, hotspot_operation) btree_map"
  snap_hotspot_observation :: "hotspot_observed option"
  snap_kiosk_catalogs :: "(string, catalog_record) btree_map"
  snap_catalog_replays :: "(string, unit) btree_map"
  snap_catalog_associations :: "(string, u64 \<times> string \<times> string) btree_map"

definition snapshot :: "hub_state \<Rightarrow> hub_snapshot" where
  "snapshot h = \<lparr>
     snap_schema = ''rusty.fleet.hub_snapshot.v1'',
     snap_policy = fh_policy h,
     snap_devices = fh_devices h,
     snap_result_revision = fh_result_revision h,
     snap_event_sequence = fh_event_sequence h,
     snap_events = fh_events h,
     snap_saved_view_revision = fh_saved_view_revision h,
     snap_saved_views = fh_saved_views h,
     snap_kiosk_operations = fh_kiosk_operations h,
     snap_package_operations = fh_package_operations h,
     snap_package_archives = fh_package_archives h,
     snap_awake_operations = fh_awake_operations h,
     snap_wifi_adb_operations = fh_wifi_adb_operations h,
     snap_hotspot_operations = fh_hotspot_operations h,
     snap_hotspot_observation = fh_hotspot_observation h,
     snap_kiosk_catalogs = fh_kiosk_catalogs h,
     snap_catalog_replays = fh_catalog_replays h,
     snap_catalog_associations = fh_catalog_associations h\<rparr>"

section \<open>Checks\<close>

definition any_entry :: "('k::linorder \<Rightarrow> 'v \<Rightarrow> bool) \<Rightarrow> ('k, 'v) btree_map \<Rightarrow> bool" where
  "any_entry p m \<longleftrightarrow> list_ex (\<lambda>(k, v). p k v) (entries m)"

definition snapshot_limits_invalid :: "hub_policy \<Rightarrow> hub_snapshot \<Rightarrow> bool" where
  "snapshot_limits_invalid policy s \<longleftrightarrow>
     snap_result_revision s = 0 \<or> length (snap_events s) > hp_event_limit policy \<or>
     snap_events s \<noteq> [] \<and> we_event_sequence (last (snap_events s)) > snap_event_sequence s"

definition snapshot_events_invalid :: "hub_snapshot \<Rightarrow> bool" where
  "snapshot_events_invalid s \<longleftrightarrow>
     list_ex (\<lambda>(a, b). we_event_sequence a \<ge> we_event_sequence b \<or>
         we_schema a \<noteq> ''rusty.fleet.watch_event.v1'')
       (zip (snap_events s) (tl (snap_events s))) \<or>
     snap_events s \<noteq> [] \<and> we_schema (last (snap_events s)) \<noteq> ''rusty.fleet.watch_event.v1''"

definition snapshot_device_invalid ::
  "(device_observation \<Rightarrow> nat option) \<Rightarrow> (json_value \<Rightarrow> nat option) \<Rightarrow> hub_policy \<Rightarrow> u64 \<Rightarrow>
   string \<Rightarrow> device_record \<Rightarrow> bool" where
  "snapshot_device_invalid ob jb policy result_revision device_id r \<longleftrightarrow>
     di_device_id (do_identity (rec_observation r)) \<noteq> device_id \<or>
     \<not> valid (validate_observation ob jb (rec_observation r)) \<or>
     rec_accepted_at_ms r < 0 \<or> rec_accepted_revision r = 0 \<or>
     rec_accepted_revision r > result_revision \<or>
     length (rec_condition_history r) > hp_history_limit_per_device policy \<or>
     rec_seen_source_epochs r = [] \<or>
     length (rec_seen_source_epochs r) > hp_source_epoch_limit_per_device policy \<or>
     do_source_epoch (rec_observation r) \<notin> set (rec_seen_source_epochs r) \<or>
     unique_count (rec_seen_source_epochs r) \<noteq> length (rec_seen_source_epochs r) \<or>
     list_ex (\<lambda>c. \<not> valid (validate_condition c)) (rec_condition_history r)"

fun invalid_device_id ::
  "(string \<Rightarrow> device_record \<Rightarrow> bool) \<Rightarrow> (string \<times> device_record) list \<Rightarrow> string option" where
  "invalid_device_id p [] = None"
| "invalid_device_id p ((k, r) # rest) = (if p k r then Some k else invalid_device_id p rest)"

definition snapshot_association_invalid :: "devices \<Rightarrow> string \<Rightarrow> u64 \<times> string \<times> string \<Rightarrow> bool" where
  "snapshot_association_invalid ds device x \<longleftrightarrow> (case x of (revision, profile, owner) \<Rightarrow>
     \<not> bt_contains_key ds device \<or> revision = 0 \<or>
     \<not> (8 \<le> length profile \<and> length profile \<le> 128) \<or> \<not> list_all is_identifier_byte profile \<or>
     \<not> (16 \<le> length owner \<and> length owner \<le> 96) \<or> \<not> list_all is_token_byte owner)"

definition snapshot_admission_invalid ::
  "(string \<Rightarrow> string) \<Rightarrow> hub_snapshot \<Rightarrow> string \<Rightarrow> catalog_record \<Rightarrow> catalog_binding \<Rightarrow> bool" where
  "snapshot_admission_invalid uni s device r binding \<longleftrightarrow>
     ckr_received_at_ms r < cb_issued_at_ms binding \<or> ckr_received_at_ms r > cb_expires_at_ms binding \<or>
     ckr_received_at_ms r > kc_fresh_until_ms (ckr_snapshot r) \<or>
     \<not> bt_contains_key (snap_catalog_replays s) (cb_replay_identity binding) \<or>
     none_or (\<lambda>(revision, profile, owner). revision \<noteq> kc_identity_revision (ckr_snapshot r) \<or>
         owner \<noteq> kc_kiosk_owner_epoch (ckr_snapshot r)) (bt_get (snap_catalog_associations s) device) \<or>
     \<not> valid (validate_catalog_admission uni \<lparr>cad_binding = binding, cad_snapshot = ckr_snapshot r\<rparr>)"

definition snapshot_catalog_invalid ::
  "(string \<Rightarrow> string) \<Rightarrow> hub_snapshot \<Rightarrow> string \<Rightarrow> catalog_record \<Rightarrow> bool" where
  "snapshot_catalog_invalid uni s device r \<longleftrightarrow>
     device \<noteq> kc_device_id (ckr_snapshot r) \<or> ckr_source_epoch r = [] \<or>
     \<not> valid (validate_catalog uni (ckr_snapshot r)) \<or>
     ckr_received_at_ms r < kc_observed_at_ms (ckr_snapshot r) \<or>
     none_or (snapshot_admission_invalid uni s device r) (ckr_production_admission r)"

definition snapshot_catalogs_invalid :: "(string \<Rightarrow> string) \<Rightarrow> hub_snapshot \<Rightarrow> bool" where
  "snapshot_catalogs_invalid uni s \<longleftrightarrow>
     bt_len (snap_kiosk_catalogs s) > max_kiosk_catalogs \<or>
     bt_len (snap_catalog_associations s) > max_kiosk_catalogs \<or>
     bt_len (snap_catalog_replays s) > max_kiosk_catalog_replay_identities \<or>
     list_ex (\<lambda>id. length id \<noteq> 64 \<or> \<not> list_all is_lower_hex id) (bt_keys (snap_catalog_replays s)) \<or>
     any_entry (snapshot_association_invalid (snap_devices s)) (snap_catalog_associations s) \<or>
     any_entry (snapshot_catalog_invalid uni s) (snap_kiosk_catalogs s)"

definition snapshot_saved_views_invalid :: "hub_snapshot \<Rightarrow> bool" where
  "snapshot_saved_views_invalid s \<longleftrightarrow>
     \<not> valid (validate_collection \<lparr>
         svc_schema = ''rusty.fleet.saved_view_collection.v1'',
         svc_revision = snap_saved_view_revision s,
         svc_views = bt_values (snap_saved_views s)\<rparr>) \<or>
     bt_len (snap_saved_views s) > max_saved_views \<or>
     any_entry (\<lambda>view_id view. sv_view_id view \<noteq> view_id) (snap_saved_views s)"

definition kiosk_target_unbound :: "devices \<Rightarrow> kiosk_target \<Rightarrow> bool" where
  "kiosk_target_unbound ds t \<longleftrightarrow>
     kt_lifecycle t \<notin> {Rejected, Applied, Lifecycle_Failed, Expired, Cancelled} \<and>
     none_or (\<lambda>r. di_identity_revision (do_identity (rec_observation r)) \<noteq> kt_identity_revision t)
       (bt_get ds (kt_device_id t))"

definition snapshot_kiosk_invalid :: "hub_snapshot \<Rightarrow> bool" where
  "snapshot_kiosk_invalid s \<longleftrightarrow>
     bt_len (snap_kiosk_operations s) > max_kiosk_operations \<or>
     any_entry (\<lambda>k op. k \<noteq> ko_operation_id op \<or> \<not> valid (validate_kiosk_operation op) \<or>
         kv_fleet_revision (ko_preview op) > snap_result_revision s \<or>
         list_ex (kiosk_target_unbound (snap_devices s)) (ko_targets op))
       (snap_kiosk_operations s)"

definition snapshot_packages_invalid :: "hub_snapshot \<Rightarrow> bool" where
  "snapshot_packages_invalid s \<longleftrightarrow>
     bt_len (snap_package_operations s) > max_package_operations \<or>
     any_entry (\<lambda>k op. k \<noteq> po_operation_id op \<or> \<not> valid (validate_package_operation op) \<or>
         pv_fleet_revision (po_preview op) > snap_result_revision s) (snap_package_operations s)"

definition snapshot_archives_invalid ::
  "(package_operation \<Rightarrow> string) \<Rightarrow> (string \<Rightarrow> string) \<Rightarrow> hub_snapshot \<Rightarrow> bool" where
  "snapshot_archives_invalid encode sha s \<longleftrightarrow>
     bt_len (snap_package_archives s) > max_archived_package_operations \<or>
     any_entry (\<lambda>k a. k \<noteq> pz_operation_id a \<or> \<not> valid (validate_package_archive encode sha a) \<or>
         pv_fleet_revision (po_preview (pz_operation a)) > snap_result_revision s \<or>
         bt_contains_key (snap_package_operations s) k) (snap_package_archives s)"

definition snapshot_awake_invalid :: "hub_snapshot \<Rightarrow> bool" where
  "snapshot_awake_invalid s \<longleftrightarrow>
     bt_len (snap_awake_operations s) > max_awake_operations \<or>
     any_entry (\<lambda>k op. k \<noteq> aop_operation_id op \<or> \<not> valid (validate_awake_operation op) \<or>
         av_fleet_revision (aop_preview op) > snap_result_revision s) (snap_awake_operations s)"

definition snapshot_wifi_invalid :: "(string \<Rightarrow> string) \<Rightarrow> hub_snapshot \<Rightarrow> bool" where
  "snapshot_wifi_invalid sha s \<longleftrightarrow>
     bt_len (snap_wifi_adb_operations s) > max_wifi_adb_operations \<or>
     any_entry (\<lambda>k op. k \<noteq> wop_operation_id op \<or> \<not> valid (validate_wifi_operation sha op) \<or>
         wv_fleet_revision (wop_preview op) > snap_result_revision s) (snap_wifi_adb_operations s)"

definition snapshot_hotspot_invalid :: "hub_snapshot \<Rightarrow> bool" where
  "snapshot_hotspot_invalid s \<longleftrightarrow>
     bt_len (snap_hotspot_operations s) > max_hotspot_operations \<or>
     any_entry (\<lambda>k op. k \<noteq> ho_operation_id op \<or> \<not> valid (validate_hotspot_operation op) \<or>
         hpv_fleet_revision (ho_preview op) > snap_result_revision s) (snap_hotspot_operations s) \<or>
     length (filter holds_hotspot (bt_values (snap_hotspot_operations s))) > 1"

section \<open>Restore\<close>

definition restored_hub :: "hub_policy \<Rightarrow> hub_snapshot \<Rightarrow> hub_state" where
  "restored_hub policy s = \<lparr>
     fh_policy = policy,
     fh_devices = snap_devices s,
     fh_result_revision = snap_result_revision s,
     fh_event_sequence = snap_event_sequence s,
     fh_events = snap_events s,
     fh_saved_view_revision = snap_saved_view_revision s,
     fh_saved_views = snap_saved_views s,
     fh_kiosk_operations = snap_kiosk_operations s,
     fh_package_operations = snap_package_operations s,
     fh_package_archives = snap_package_archives s,
     fh_awake_operations = snap_awake_operations s,
     fh_wifi_adb_operations = snap_wifi_adb_operations s,
     fh_hotspot_operations = snap_hotspot_operations s,
     fh_hotspot_observation = snap_hotspot_observation s,
     fh_kiosk_catalogs = snap_kiosk_catalogs s,
     fh_catalog_replays = snap_catalog_replays s,
     fh_catalog_associations = snap_catalog_associations s\<rparr>"

definition restore_operations ::
  "(string \<Rightarrow> string) \<Rightarrow> hub_codec \<Rightarrow> hub_policy \<Rightarrow> hub_snapshot \<Rightarrow> hub_error + hub_state" where
  "restore_operations sha enc policy s =
    (if snapshot_kiosk_invalid s
     then Inl (hub_error ''snapshot_kiosk_operations_invalid''
       ''Fleet Hub snapshot Kiosk operations are invalid or exceed their limit'')
     else if snapshot_packages_invalid s
     then Inl (hub_error ''snapshot_package_operations_invalid''
       ''Fleet Hub snapshot package operations are invalid or exceed their limit'')
     else if snapshot_archives_invalid (hcd_package_json enc) sha s
     then Inl (hub_error ''snapshot_package_archives_invalid''
       ''Fleet Hub snapshot package archives are invalid, overlap active operations, or exceed their limit'')
     else if snapshot_awake_invalid s
     then Inl (hub_error ''snapshot_awake_operations_invalid''
       ''Fleet Hub snapshot Quest awake operations are invalid or exceed their limit'')
     else if snapshot_wifi_invalid sha s
     then Inl (hub_error ''snapshot_wifi_adb_operations_invalid''
       ''Fleet Hub snapshot Quest Wi-Fi ADB operations are invalid or exceed their limit'')
     else if snapshot_hotspot_invalid s
     then Inl (hub_error ''snapshot_windows_hotspot_operations_invalid''
       ''Fleet Hub snapshot Windows hotspot state is invalid'')
     else Inr (restored_hub policy s))"

definition restore ::
  "(device_observation \<Rightarrow> nat option) \<Rightarrow> (json_value \<Rightarrow> nat option) \<Rightarrow> (string \<Rightarrow> string) \<Rightarrow> hub_codec \<Rightarrow>
   hub_policy \<Rightarrow> hub_snapshot \<Rightarrow> hub_error + hub_state" where
  "restore ob jb sha enc policy s =
    (if snap_schema s \<noteq> ''rusty.fleet.hub_snapshot.v1''
     then Inl (hub_error ''snapshot_schema_invalid'' ''Fleet Hub snapshot schema is not supported'')
     else if snap_policy s \<noteq> policy
     then Inl (hub_error ''snapshot_policy_mismatch''
       ''Fleet Hub snapshot policy does not match current configuration'')
     else if snapshot_limits_invalid policy s
     then Inl (hub_error ''snapshot_limits_invalid''
       ''Fleet Hub snapshot revisions or event limits are invalid'')
     else if snapshot_events_invalid s
     then Inl (hub_error ''snapshot_events_invalid''
       ''Fleet Hub snapshot events are not strictly ordered'')
     else case invalid_device_id (snapshot_device_invalid ob jb policy (snap_result_revision s))
         (entries (snap_devices s)) of
       Some device_id \<Rightarrow> Inl (hub_error ''snapshot_device_invalid''
         (''Fleet Hub snapshot record is invalid for '' @ device_id))
     | None \<Rightarrow>
         if snapshot_catalogs_invalid (hcd_lowercase enc) s
         then Inl (hub_error ''snapshot_catalog_invalid'' ''catalogue or replay state is invalid'')
         else if snapshot_saved_views_invalid s
         then Inl (hub_error ''snapshot_saved_views_invalid''
           ''Fleet Hub snapshot saved views are invalid or exceed their limit'')
         else restore_operations sha enc policy s)"

section \<open>Bounds of the operation stores\<close>

definition store_bounds :: "usize \<Rightarrow> ('op \<Rightarrow> u64) \<Rightarrow> u64 \<Rightarrow> (string, 'op) btree_map \<Rightarrow> bool" where
  "store_bounds limit revision_of revision m \<longleftrightarrow>
     bt_len m \<le> limit \<and> (\<forall>k x. bt_get m k = Some x \<longrightarrow> revision_of x \<le> revision)"

lemma store_bounds_replace:
  "store_bounds n f v m \<Longrightarrow> bt_get m k = Some x \<Longrightarrow> f y = f x \<Longrightarrow> store_bounds n f v (bt_insert k y m)"
  by (auto simp: store_bounds_def bt_len_insert bt_contains_key_def)

lemma store_bounds_create:
  "store_bounds n f v m \<Longrightarrow> bt_len m < n \<Longrightarrow> f y \<le> v \<Longrightarrow> store_bounds n f v (bt_insert k y m)"
  by (auto simp: store_bounds_def bt_len_insert)

lemma store_bounds_mono: "store_bounds n f v m \<Longrightarrow> v \<le> w \<Longrightarrow> store_bounds n f w m"
  unfolding store_bounds_def by (meson le_trans)

abbreviation "kiosk_revision op \<equiv> kv_fleet_revision (ko_preview op)"
abbreviation "awake_revision op \<equiv> av_fleet_revision (aop_preview op)"
abbreviation "wifi_revision op \<equiv> wv_fleet_revision (wop_preview op)"
abbreviation "hotspot_revision op \<equiv> hpv_fleet_revision (ho_preview op)"

definition hub_bounds :: "'a hub_state_scheme \<Rightarrow> bool" where
  "hub_bounds h \<longleftrightarrow>
     store_bounds max_kiosk_operations kiosk_revision (fh_result_revision h) (fh_kiosk_operations h) \<and>
     store_bounds max_awake_operations awake_revision (fh_result_revision h) (fh_awake_operations h) \<and>
     store_bounds max_wifi_adb_operations wifi_revision (fh_result_revision h) (fh_wifi_adb_operations h) \<and>
     store_bounds max_hotspot_operations hotspot_revision (fh_result_revision h) (fh_hotspot_operations h)"

lemma attempt_bounds:
  "P h \<Longrightarrow> (\<And>x. r = Inr x \<Longrightarrow> P (fst (f x))) \<Longrightarrow> P (fst (attempt h r f))"
  by (cases r) auto

lemma wifi_bounds:
  assumes "wa.sound_store h"
    and bounds: "store_bounds max_wifi_adb_operations wifi_revision (fh_result_revision h) (fh_wifi_adb_operations h)"
  shows "store_bounds max_wifi_adb_operations wifi_revision (fh_result_revision h)
    (fh_wifi_adb_operations (fst (run_wifi sha h c)))"
proof (cases "bt_get (fh_wifi_adb_operations h) (wifi_key c)")
  case None
  then have absent: "quest_wifi_adb_operation h (wifi_key c) =
      Inl (hub_error ''wifi_adb_operation_not_found'' ''operation not found'')"
    by (simp add: quest_wifi_adb_operation_def)
  show ?thesis
  proof (cases c)
    case (Preview_Wifi plan)
    have "wifi_revision (proposed_wifi_operation (fh_result_revision h) plan ps) = fh_result_revision h" for ps
      by (simp add: proposed_wifi_operation_def)
    then show ?thesis using None bounds unfolding Preview_Wifi run_wifi.simps preview_quest_wifi_adb_def Let_def
      by (auto simp: put_wifi_def
          intro!: store_bounds_create attempt_bounds [where P = "\<lambda>h'. store_bounds _ _ _ (fh_wifi_adb_operations h')"])
  qed (use absent bounds in \<open>simp_all add: confirm_quest_wifi_adb_def prepare_quest_wifi_adb_invocation_def
      mark_quest_wifi_adb_dispatched_def apply_quest_wifi_adb_receipt_def fail_quest_wifi_adb_target_def\<close>)
next
  case (Some x)
  have same: "wifi_revision y = wifi_revision x" if "wifi_evolves x y" for y
    using that by (auto simp: wifi_evolves_def wifi_frame_def)
  from run_wifi_inplace [OF assms(1), of sha c] show ?thesis
    by (cases rule: wa.inplace_cases)
      (use Some bounds same store_bounds_replace [OF bounds Some] in \<open>auto simp: put_wifi_def\<close>)
qed

lemma awake_bounds:
  assumes "aw.sound_store h"
    and bounds: "store_bounds max_awake_operations awake_revision (fh_result_revision h) (fh_awake_operations h)"
  shows "store_bounds max_awake_operations awake_revision (fh_result_revision h)
    (fh_awake_operations (fst (run_awake h c)))"
proof (cases "bt_get (fh_awake_operations h) (awake_key c)")
  case None
  then have absent: "quest_awake_operation h (awake_key c) =
      Inl (hub_error ''awake_operation_not_found'' ''operation not found'')"
    by (simp add: quest_awake_operation_def)
  show ?thesis
  proof (cases c)
    case (Preview_Awake plan)
    have "awake_revision (proposed_awake_operation (fh_result_revision h) plan ps) = fh_result_revision h" for ps
      by (simp add: proposed_awake_operation_def)
    then show ?thesis using None bounds unfolding Preview_Awake run_awake.simps preview_quest_awake_def Let_def
      by (auto simp: put_awake_def
          intro!: store_bounds_create attempt_bounds [where P = "\<lambda>h'. store_bounds _ _ _ (fh_awake_operations h')"])
  qed (use absent bounds in \<open>simp_all add: confirm_quest_awake_def
      prepare_quest_awake_invocation_with_watchdog_generation_def
      mark_quest_awake_dispatched_def apply_quest_awake_receipt_def fail_quest_awake_target_def\<close>)
next
  case (Some x)
  have same: "awake_revision y = awake_revision x" if "awake_evolves x y" for y
    using that by (auto simp: awake_evolves_def awake_frame_def)
  from run_awake_inplace [OF assms(1), of c] show ?thesis
    by (cases rule: aw.inplace_cases)
      (use Some bounds same store_bounds_replace [OF bounds Some] in \<open>auto simp: put_awake_def\<close>)
qed

lemma kiosk_bounds:
  assumes "ks.store_ok h" and "is_kiosk_command c"
    and bounds: "store_bounds max_kiosk_operations kiosk_revision (fh_result_revision h) (fh_kiosk_operations h)"
  shows "store_bounds max_kiosk_operations kiosk_revision (fh_result_revision h)
    (fh_kiosk_operations (run_command ob jb sha enc h c))"
proof (cases "bt_get (fh_kiosk_operations h) (command_key c)")
  case None
  then have absent: "find_kiosk_operation h (command_key c) \<noteq> Inr x" for x
    by simp
  then obtain e where absent: "find_kiosk_operation h (command_key c) = Inl e"
    by (cases "find_kiosk_operation h (command_key c)") auto
  show ?thesis
  proof (cases c)
    case (Preview_Kiosk plan)
    let ?op = "\<lambda>ps. proposed_operation (fh_result_revision h) plan ps"
    have "kiosk_revision (?op ps) = fh_result_revision h" for ps
      by (simp add: proposed_operation_def)
    then show ?thesis using None bounds
      unfolding Preview_Kiosk run_command.simps preview_kiosk_show_controls_def Let_def
      by (auto simp: command_key_def
          intro!: store_bounds_create attempt_bounds [where P = "\<lambda>h'. store_bounds _ _ _ (fh_kiosk_operations h')"])
  next
    case (Confirm_Kiosk request now)
    with absent bounds show ?thesis
      by (auto simp: command_key_def confirm_kiosk_show_controls_request_def confirm_kiosk_show_controls_def
          split: sum.split)
  qed (use absent bounds assms(2) in \<open>simp_all add: command_key_def is_kiosk_command_def
      dispatch_kiosk_show_controls_def mark_kiosk_show_controls_running_def apply_kiosk_show_controls_receipt_def
      fail_kiosk_show_controls_def expire_kiosk_show_controls_def finish_owner_attempt_def transition_inflight_def
      request_kiosk_show_controls_cancellation_def complete_kiosk_show_controls_cancellation_def\<close>)
next
  case (Some x)
  have same: "kiosk_revision y = kiosk_revision x" if "operation_evolves x y" for y
    using that by (auto simp: operation_evolves_def)
  obtain r :: "'a hub_state_scheme \<times> (hub_error + kiosk_operation)"
    where r: "ks.outcome h (command_key c) r" "run_command ob jb sha enc h c = fst r"
    using kiosk_command_effect [OF assms(1,2), of ob jb sha enc] by (auto simp: kiosk_effect_def)
  from r(1) show ?thesis
  proof (cases rule: ks.outcome_cases)
    case (evolved y z)
    with Some have "store_bounds max_kiosk_operations kiosk_revision (fh_result_revision h)
        (bt_insert (command_key c) z (fh_kiosk_operations h))"
      by (intro store_bounds_replace [OF bounds Some] same) simp
    with evolved show ?thesis by (simp add: r(2))
  qed (use Some bounds r(2) in simp_all)
qed

text \<open>Past the preview, a hotspot method changes an operation only at its key.\<close>

abbreviation hotspot_bounded :: "u64 \<Rightarrow> 'a hub_state_scheme \<Rightarrow> bool" where
  "hotspot_bounded v h \<equiv> store_bounds max_hotspot_operations hotspot_revision v (fh_hotspot_operations h)"

lemma expire_bounds:
  "hotspot_bounded v h \<Longrightarrow> hotspot_bounded v (fst (expire_windows_hotspot_operation h k now))"
  by (auto simp: expire_windows_hotspot_operation_def expired_hotspot_operation_def
      intro: store_bounds_replace split: option.split)

lemma hotspot_bounds:
  assumes "hotspot_bounded (fh_result_revision h) h"
  shows "hotspot_bounded (fh_result_revision h) (run_hotspot h c)"
proof (cases c)
  case (Preview_Hotspot plan)
  with assms show ?thesis
    by (auto simp: preview_windows_hotspot_def Let_def proposed_hotspot_operation_def
        intro!: store_bounds_create split: option.split)
next
  case (Confirm_Hotspot k p now)
  have "hotspot_bounded (fh_result_revision h) (fst (confirm_windows_hotspot h k p now))"
    unfolding confirm_windows_hotspot_def
    by (rule attempt_bounds [where P = "hotspot_bounded (fh_result_revision h)", OF assms])
      (use assms in \<open>auto simp: Let_def confirm_expired_fst expire_bounds confirmed_hotspot_operation_def
        intro: store_bounds_replace\<close>)
  with Confirm_Hotspot show ?thesis by simp
next
  case (Prepare_Hotspot k q now)
  have "store_bounds max_hotspot_operations hotspot_revision (fh_result_revision h)
      (bt_insert k (dispatched_hotspot_operation now i op) (fh_hotspot_operations h))"
    if "bt_get (fh_hotspot_operations h) k = Some op" for i op
    using assms that by (rule store_bounds_replace) (simp add: dispatched_hotspot_operation_def)
  then have "hotspot_bounded (fh_result_revision h) (fst (prepare_windows_hotspot_invocation h k q now))"
    unfolding prepare_windows_hotspot_invocation_def Let_def
    using assms by (auto intro!: attempt_bounds [where P = "hotspot_bounded (fh_result_revision h)"])
  with Prepare_Hotspot show ?thesis by simp
next
  case (Receive_Hotspot r now)
  have "store_bounds max_hotspot_operations hotspot_revision (fh_result_revision h)
      (bt_insert (hrc_operation_id r) (settled_hotspot_operation now r op) (fh_hotspot_operations h))"
    if "bt_get (fh_hotspot_operations h) (hrc_operation_id r) = Some op" for op
    using assms that by (rule store_bounds_replace) (simp add: settled_hotspot_operation_def)
  then have "hotspot_bounded (fh_result_revision h) (fst (apply_windows_hotspot_receipt h r now))"
    unfolding apply_windows_hotspot_receipt_def Let_def
    using assms by (auto intro!: attempt_bounds [where P = "hotspot_bounded (fh_result_revision h)"]
        simp: put_hotspot_def split: option.split)
  with Receive_Hotspot show ?thesis by simp
next
  case (Fail_Hotspot k code now)
  with assms show ?thesis
    by (auto simp: fail_windows_hotspot_operation_def Let_def failed_hotspot_operation_def
        intro: store_bounds_replace split: option.split)
next
  case (Recover_Hotspot now)
  have "hotspot_bounded v h \<Longrightarrow>
      hotspot_bounded v (foldl (\<lambda>s k. fst (expire_windows_hotspot_operation s k now)) h ks)" for ks v
    by (induction ks arbitrary: h) (simp_all add: expire_bounds)
  with Recover_Hotspot assms show ?thesis by (simp add: recover_windows_hotspot_def Let_def)
qed

lemma run_command_revision_mono:
  assumes "hub_ok ob jb sha enc h"
  shows "fh_result_revision h \<le> fh_result_revision (run_command ob jb sha enc h c)"
proof (cases "is_kiosk_command c")
  case True
  obtain r :: "'a hub_state_scheme \<times> (hub_error + kiosk_operation)"
    where "ks.outcome h (command_key c) r" "run_command ob jb sha enc h c = fst r"
    using kiosk_command_effect [OF stores_okD(1) [OF hub_okD(8) [OF assms]] True, of ob jb sha enc]
    by (auto simp: kiosk_effect_def)
  then show ?thesis by (simp add: run_kiosk_frame)
next
  case False
  show ?thesis
  proof (cases "is_owner_call c")
    case True
    then show ?thesis by (simp add: owner_call_frame(3) [OF hub_okD(8) [OF assms]])
  next
    case owner: False
    have "fh_result_revision h \<le> fh_result_revision (fst (accept_profiled_kiosk_catalog uni h a p t))" for uni a p t
      using profiled_revision [of uni h a p t] hub_okD(3) [OF assms] by (auto simp: u64_saturating_add_mono)
    with False owner hub_okD(3) [OF assms] show ?thesis
      by (cases c) (simp_all add: is_kiosk_command_def is_owner_call_def accept_revision_mono)
  qed
qed

lemma run_command_bounds:
  fixes h :: "'a hub_state_scheme"
  assumes ok: "hub_ok ob jb sha enc h" and bounds: "hub_bounds h"
  shows "hub_bounds (run_command ob jb sha enc h c)"
proof -
  let ?h = "run_command ob jb sha enc h c"
  note stores = hub_okD(8) [OF ok]
  note each = bounds [unfolded hub_bounds_def]
  have "store_bounds max_kiosk_operations kiosk_revision (fh_result_revision h) (fh_kiosk_operations ?h)"
    using each kiosk_bounds [OF stores_okD(1) [OF stores]] other_command_frame [OF stores]
    by (cases "is_kiosk_command c") simp_all
  moreover have "store_bounds max_awake_operations awake_revision (fh_result_revision h) (fh_awake_operations ?h) \<and>
      store_bounds max_wifi_adb_operations wifi_revision (fh_result_revision h) (fh_wifi_adb_operations ?h) \<and>
      store_bounds max_hotspot_operations hotspot_revision (fh_result_revision h) (fh_hotspot_operations ?h)"
  proof (cases "is_kiosk_command c")
    case True
    obtain r :: "'a hub_state_scheme \<times> (hub_error + kiosk_operation)"
      where "ks.outcome h (command_key c) r" "run_command ob jb sha enc h c = fst r"
      using kiosk_command_effect [OF stores_okD(1) [OF stores] True, of ob jb sha enc] by (auto simp: kiosk_effect_def)
    with each show ?thesis by (simp add: run_kiosk_frame)
  next
    case False
    show ?thesis
    proof (cases c)
      case (Call_Wifi call)
      obtain m where "fst (run_wifi sha h call) = h\<lparr>fh_wifi_adb_operations := m\<rparr>"
        using run_wifi_frame [OF stores_okD(2) [OF stores]] .
      with Call_Wifi each wifi_bounds [OF stores_okD(2) [OF stores], of sha call] show ?thesis by simp
    next
      case (Call_Awake call)
      obtain m where "fst (run_awake h call) = h\<lparr>fh_awake_operations := m\<rparr>"
        using run_awake_frame [OF stores_okD(3) [OF stores]] .
      with Call_Awake each awake_bounds [OF stores_okD(3) [OF stores], of call] show ?thesis by simp
    next
      case (Call_Hotspot call)
      obtain m x where "run_hotspot h call = h\<lparr>fh_hotspot_operations := m, fh_hotspot_observation := x\<rparr>"
        using run_hotspot_frame .
      with Call_Hotspot each hotspot_bounds [of h call] show ?thesis by simp
    qed (use False each in \<open>simp_all add: is_kiosk_command_def\<close>)
  qed
  ultimately show ?thesis
    unfolding hub_bounds_def
    by (elim conjE) (intro conjI store_bounds_mono [OF _ run_command_revision_mono [OF ok, of c]]; assumption)
qed

lemma reachable_bounds: "reachable ob jb sha enc policy h \<Longrightarrow> hub_bounds h"
proof (induction rule: reachable.induct)
  case (start h)
  then show ?case by (auto simp: hub_new_def hub_bounds_def store_bounds_def bt_len_def split: if_splits)
next
  case (step h c)
  then show ?case using reachable_ok run_command_bounds by blast
qed

lemma run_command_policy:
  assumes "hub_ok ob jb sha enc h"
  shows "fh_policy (run_command ob jb sha enc h c) = fh_policy h"
proof (cases "is_kiosk_command c")
  case True
  obtain r :: "'a hub_state_scheme \<times> (hub_error + kiosk_operation)"
    where "ks.outcome h (command_key c) r" "run_command ob jb sha enc h c = fst r"
    using kiosk_command_effect [OF stores_okD(1) [OF hub_okD(8) [OF assms]] True, of ob jb sha enc]
    by (auto simp: kiosk_effect_def)
  then show ?thesis by (simp add: run_kiosk_frame)
next
  case False
  show ?thesis
  proof (cases "is_owner_call c")
    case True
    then show ?thesis by (simp add: owner_call_frame(1) [OF hub_okD(8) [OF assms]])
  next
    case owner: False
    with False show ?thesis by (cases c) (simp_all add: is_kiosk_command_def is_owner_call_def)
  qed
qed

lemma reachable_policy: "reachable ob jb sha enc policy h \<Longrightarrow> fh_policy h = policy"
proof (induction rule: reachable.induct)
  case (start h)
  then show ?case by (auto simp: hub_new_def split: if_splits)
next
  case (step h c)
  then show ?case using reachable_ok run_command_policy by metis
qed

section \<open>Which Hubs can load their own snapshot\<close>

lemma any_entry_iff: "any_entry p m \<longleftrightarrow> (\<exists>k v. bt_get m k = Some v \<and> p k v)"
  by (auto simp: any_entry_def list_ex_iff bt_get_Some_iff)

lemma adjacent_events:
  "sorted_wrt (<) (map we_event_sequence es) \<Longrightarrow>
   list_all (\<lambda>(a, b). we_event_sequence a < we_event_sequence b) (zip es (tl es))"
proof (induction es)
  case (Cons e es)
  then show ?case by (cases es) auto
qed simp

lemma snapshot_log_ok:
  assumes "hub_ok ob jb sha enc h"
  shows "\<not> snapshot_limits_invalid (fh_policy h) (snapshot h)" and "\<not> snapshot_events_invalid (snapshot h)"
proof -
  note ok = hub_okD [OF assms] and events = hub_okD(5) [OF assms, unfolded events_ok_def]
  have last: "fh_events h \<noteq> [] \<longrightarrow> we_event_sequence (last (fh_events h)) \<le> fh_event_sequence h \<and>
      we_schema (last (fh_events h)) = ''rusty.fleet.watch_event.v1''"
    using events last_in_set by blast
  show "\<not> snapshot_limits_invalid (fh_policy h) (snapshot h)"
    using ok(2) events [THEN conjunct1] last
    by (cases "fh_events h = []") (simp_all add: snapshot_limits_invalid_def snapshot_def)
  have "we_schema e = ''rusty.fleet.watch_event.v1''" if "(e, f) \<in> set (zip (fh_events h) (tl (fh_events h)))" for e f
    using events set_zip_leftD [OF that] by blast
  then show "\<not> snapshot_events_invalid (snapshot h)"
    using adjacent_events [of "fh_events h"] events last
    by (auto simp: snapshot_events_invalid_def snapshot_def list_ex_iff list_all_iff) fastforce
qed

lemma invalid_device_id_None:
  "invalid_device_id p xs = None \<longleftrightarrow> (\<forall>(k, r)\<in>set xs. \<not> p k r)"
  by (induction p xs rule: invalid_device_id.induct) auto

lemma device_invalid_iff:
  "snapshot_device_invalid ob jb policy v k r \<longleftrightarrow> \<not> device_record_ok ob jb policy v k r"
  by (auto simp: snapshot_device_invalid_def device_record_ok_def list_ex_iff)

lemma snapshot_devices_ok:
  assumes "hub_ok ob jb sha enc h"
  shows "invalid_device_id (snapshot_device_invalid ob jb (fh_policy h) (fh_result_revision h)) (entries (fh_devices h)) = None"
  using hub_okD(4) [OF assms]
  by (auto simp: invalid_device_id_None device_invalid_iff devices_ok_def bt_get_Some_iff [symmetric]
      dest: bt.all_entriesD)

lemma snapshot_views_ok:
  assumes "hub_ok ob jb sha enc h"
  shows "\<not> snapshot_saved_views_invalid (snapshot h)"
proof -
  note ok = hub_okD(6) [OF assms]
  have "valid (validate_collection (saved_views h))" using ok by (rule saved_views_ok_collection)
  then show ?thesis
    using ok by (auto simp: snapshot_saved_views_invalid_def snapshot_def saved_views_def any_entry_iff
        saved_views_ok_def dest: bt.all_entriesD)
qed

lemma snapshot_catalogs_ok:
  assumes "hub_ok ob jb sha enc h"
  shows "\<not> snapshot_catalogs_invalid (hcd_lowercase enc) (snapshot h)"
proof -
  note ok = hub_okD(11) [OF assms, unfolded catalogs_ok_def]
  have "\<not> snapshot_association_invalid (fh_devices h) d x" if "bt_get (fh_catalog_associations h) d = Some x" for d x
    using ok that by (cases x) (auto simp: snapshot_association_invalid_def association_ok_def valid_token_def)
  moreover have "\<not> snapshot_catalog_invalid (hcd_lowercase enc) (snapshot h) d r"
    if "bt_get (fh_kiosk_catalogs h) d = Some r" for d r
  proof -
    have "catalog_record_ok (hcd_lowercase enc) (fh_catalog_replays h) (fh_catalog_associations h) d r"
      using ok that by blast
    then show ?thesis
      by (auto simp: snapshot_catalog_invalid_def snapshot_admission_invalid_def snapshot_def catalog_record_ok_def
          catalog_admission_expired_def admission_valid_parts(1) [where a = "catalog_admission.make b s" for b s,
            unfolded catalog_admission.defs, simplified])
  qed
  moreover have "length id = 64 \<and> list_all is_lower_hex id" if "id \<in> set (bt_keys (fh_catalog_replays h))" for id
    using ok that by (auto simp: is_sha256_def set_bt_keys bt_contains_key_def)
  ultimately show ?thesis
    using ok by (auto simp: snapshot_catalogs_invalid_def snapshot_def any_entry_iff list_ex_iff)
qed

text \<open>
  What reachability does not guarantee: that unfinished Kiosk targets still name the identity the
  device presents, that the operations changed in place still pass their validators, and that one
  operation at most is in possession of the hotspot, lapsed leases included.
\<close>

definition restorable :: "(string \<Rightarrow> string) \<Rightarrow> 'a hub_state_scheme \<Rightarrow> bool" where
  "restorable sha h \<longleftrightarrow>
     (\<forall>k op. bt_get (fh_kiosk_operations h) k = Some op \<longrightarrow>
        (\<forall>t\<in>set (ko_targets op). \<not> kiosk_target_unbound (fh_devices h) t)) \<and>
     (\<forall>k op. bt_get (fh_package_operations h) k = Some op \<longrightarrow> valid (validate_package_operation op)) \<and>
     (\<forall>k op. bt_get (fh_awake_operations h) k = Some op \<longrightarrow> valid (validate_awake_operation op)) \<and>
     (\<forall>k op. bt_get (fh_wifi_adb_operations h) k = Some op \<longrightarrow> valid (validate_wifi_operation sha op)) \<and>
     length (filter holds_hotspot (bt_values (fh_hotspot_operations h))) \<le> 1"

lemma restored_snapshot: "restored_hub (fh_policy h) (snapshot h) = h"
  by (simp add: restored_hub_def snapshot_def)

lemma restore_operations_iff:
  assumes "hub_ok ob jb sha enc h" and "hub_bounds h"
  shows "restore_operations sha enc (fh_policy h) (snapshot h) = Inr h \<longleftrightarrow> restorable sha h"
proof -
  note stores = stores_okD [OF hub_okD(8) [OF assms(1)]]
  have kiosk: "snapshot_kiosk_invalid (snapshot h) \<longleftrightarrow>
      (\<exists>k op. bt_get (fh_kiosk_operations h) k = Some op \<and>
        (\<exists>t\<in>set (ko_targets op). kiosk_target_unbound (fh_devices h) t))"
    using stores(1) assms(2)
    by (fastforce simp: snapshot_kiosk_invalid_def snapshot_def any_entry_iff ks.store_ok_def hub_bounds_def
        store_bounds_def list_ex_iff)
  note packages = hub_okD(10) [OF assms(1)]
  have package: "snapshot_packages_invalid (snapshot h) \<longleftrightarrow>
      (\<exists>k op. bt_get (fh_package_operations h) k = Some op \<and> \<not> valid (validate_package_operation op))"
    using packages
    by (fastforce simp: snapshot_packages_invalid_def snapshot_def any_entry_iff package_stores_ok_def
        package_stores_def)
  have archive: "\<not> snapshot_archives_invalid (hcd_package_json enc) sha (snapshot h)"
    using packages archive_operation_id
    by (fastforce simp: snapshot_archives_invalid_def snapshot_def any_entry_iff package_stores_ok_def
        package_stores_def bt_contains_key_def)
  have awake: "snapshot_awake_invalid (snapshot h) \<longleftrightarrow>
      (\<exists>k op. bt_get (fh_awake_operations h) k = Some op \<and> \<not> valid (validate_awake_operation op))"
    using stores(3) assms(2)
    by (fastforce simp: snapshot_awake_invalid_def snapshot_def any_entry_iff aw.sound_store_def hub_bounds_def
        store_bounds_def)
  have wifi: "snapshot_wifi_invalid sha (snapshot h) \<longleftrightarrow>
      (\<exists>k op. bt_get (fh_wifi_adb_operations h) k = Some op \<and> \<not> valid (validate_wifi_operation sha op))"
    using stores(2) assms(2)
    by (fastforce simp: snapshot_wifi_invalid_def snapshot_def any_entry_iff wa.sound_store_def hub_bounds_def
        store_bounds_def)
  have hotspot: "snapshot_hotspot_invalid (snapshot h) \<longleftrightarrow>
      length (filter holds_hotspot (bt_values (fh_hotspot_operations h))) > 1"
    using stores(4) assms(2)
    by (fastforce simp: snapshot_hotspot_invalid_def snapshot_def any_entry_iff hotspot_store_ok_def
        hs.store_ok_def hotspot_ok_def hub_bounds_def store_bounds_def)
  show ?thesis
    unfolding restore_operations_def kiosk package awake wifi hotspot restored_snapshot restorable_def
    by (simp add: archive not_less)
qed

lemma restore_snapshot_iff:
  assumes "reachable ob jb sha enc policy h"
  shows "restore ob jb sha enc policy (snapshot h) = Inr h \<longleftrightarrow> restorable sha h"
proof -
  have policy: "policy = fh_policy h" using reachable_policy [OF assms] by simp
  note ok = reachable_ok [OF assms]
  have "snap_schema (snapshot h) = ''rusty.fleet.hub_snapshot.v1''" "snap_policy (snapshot h) = fh_policy h"
    "snap_result_revision (snapshot h) = fh_result_revision h" "snap_devices (snapshot h) = fh_devices h"
    by (simp_all add: snapshot_def)
  then have "restore ob jb sha enc policy (snapshot h) = restore_operations sha enc (fh_policy h) (snapshot h)"
    using snapshot_log_ok [OF ok] snapshot_devices_ok [OF ok] snapshot_views_ok [OF ok] snapshot_catalogs_ok [OF ok]
    by (simp add: restore_def policy)
  then show ?thesis using restore_operations_iff [OF ok reachable_bounds [OF assms]] by simp
qed

text \<open>A snapshot that loads at all loads as the Hub it was taken from.\<close>

lemma restore_snapshot_only:
  assumes "restore ob jb sha enc policy (snapshot h) = Inr x"
  shows "x = h"
proof -
  have "policy = fh_policy h" "x = restored_hub policy (snapshot h)"
    using assms by (auto simp: restore_def restore_operations_def snapshot_def split: if_splits option.splits)
  then show ?thesis by (simp add: restored_snapshot)
qed

end
