(* ===== verification/Owner_Runs.thy ===== *)
theory Owner_Runs
  imports Hub_Restore Wifi_Adb_Contract
begin

text \<open>
  The Quest Wi-Fi ADB and Quest awake operations over arbitrary commands of the Hub: whatever the
  command, each stored operation moves by at most one step of the owner ledger, and over runs its
  targets only move on.
\<close>

section \<open>A command seen from one family's store\<close>

lemma kiosk_command_other_stores:
  assumes "stores_ok h" and "is_kiosk_command c"
  shows "fh_wifi_adb_operations (run_command ob jb sha enc h c) = fh_wifi_adb_operations h"
    and "fh_awake_operations (run_command ob jb sha enc h c) = fh_awake_operations h"
    and "fh_hotspot_operations (run_command ob jb sha enc h c) = fh_hotspot_operations h"
    and "fh_hotspot_observation (run_command ob jb sha enc h c) = fh_hotspot_observation h"
proof -
  obtain r :: "'a hub_state_scheme \<times> (hub_error + kiosk_operation)"
    where "ks.outcome h (command_key c) r" "run_command ob jb sha enc h c = fst r"
    using kiosk_command_effect [OF stores_okD(1) [OF assms(1)] assms(2), of ob jb sha enc]
    by (auto simp: kiosk_effect_def)
  then show "fh_wifi_adb_operations (run_command ob jb sha enc h c) = fh_wifi_adb_operations h"
    "fh_awake_operations (run_command ob jb sha enc h c) = fh_awake_operations h"
    "fh_hotspot_operations (run_command ob jb sha enc h c) = fh_hotspot_operations h"
    "fh_hotspot_observation (run_command ob jb sha enc h c) = fh_hotspot_observation h"
    by (simp_all add: run_kiosk_frame)
qed

lemma command_wifi_cases:
  assumes "stores_ok h"
  obtains (own) call where "c = Call_Wifi call"
  | (other) "fh_wifi_adb_operations (run_command ob jb sha enc h c) = fh_wifi_adb_operations h"
proof (cases "is_kiosk_command c")
  case True
  with kiosk_command_other_stores(1) [OF assms] other show thesis by blast
next
  case False
  show thesis
  proof (cases c)
    case (Call_Wifi call)
    then show thesis by (rule that(1))
  next
    case (Call_Awake call)
    obtain m where "fst (run_awake h call) = h\<lparr>fh_awake_operations := m\<rparr>"
      using run_awake_frame [OF stores_okD(3) [OF assms]] .
    with Call_Awake show thesis by (intro that(2)) simp
  next
    case (Call_Hotspot call)
    obtain m x where "run_hotspot h call = h\<lparr>fh_hotspot_operations := m, fh_hotspot_observation := x\<rparr>"
      using run_hotspot_frame .
    with Call_Hotspot show thesis by (intro that(2)) simp
  qed (use False in \<open>simp_all add: is_kiosk_command_def that\<close>)
qed

lemma command_awake_cases:
  assumes "stores_ok h"
  obtains (own) call where "c = Call_Awake call"
  | (other) "fh_awake_operations (run_command ob jb sha enc h c) = fh_awake_operations h"
proof (cases "is_kiosk_command c")
  case True
  with kiosk_command_other_stores(2) [OF assms] other show thesis by blast
next
  case False
  show thesis
  proof (cases c)
    case (Call_Awake call)
    then show thesis by (rule that(1))
  next
    case (Call_Wifi call)
    obtain m where "fst (run_wifi sha h call) = h\<lparr>fh_wifi_adb_operations := m\<rparr>"
      using run_wifi_frame [OF stores_okD(2) [OF assms]] .
    with Call_Wifi show thesis by (intro that(2)) simp
  next
    case (Call_Hotspot call)
    obtain m x where "run_hotspot h call = h\<lparr>fh_hotspot_operations := m, fh_hotspot_observation := x\<rparr>"
      using run_hotspot_frame .
    with Call_Hotspot show thesis by (intro that(2)) simp
  qed (use False in \<open>simp_all add: is_kiosk_command_def that\<close>)
qed

lemma command_hotspot_cases:
  assumes "stores_ok h"
  obtains (own) call where "c = Call_Hotspot call"
  | (other) "fh_hotspot_operations (run_command ob jb sha enc h c) = fh_hotspot_operations h"
      "fh_hotspot_observation (run_command ob jb sha enc h c) = fh_hotspot_observation h"
proof (cases "is_kiosk_command c")
  case True
  with kiosk_command_other_stores(3,4) [OF assms] other show thesis by blast
next
  case False
  show thesis
  proof (cases c)
    case (Call_Hotspot call)
    then show thesis by (rule that(1))
  next
    case (Call_Wifi call)
    obtain m where "fst (run_wifi sha h call) = h\<lparr>fh_wifi_adb_operations := m\<rparr>"
      using run_wifi_frame [OF stores_okD(2) [OF assms]] .
    with Call_Wifi show thesis by (intro that(2)) simp_all
  next
    case (Call_Awake call)
    obtain m where "fst (run_awake h call) = h\<lparr>fh_awake_operations := m\<rparr>"
      using run_awake_frame [OF stores_okD(3) [OF assms]] .
    with Call_Awake show thesis by (intro that(2)) simp_all
  qed (use False in \<open>simp_all add: is_kiosk_command_def that\<close>)
qed

section \<open>Every command is a move of every ledger\<close>

lemma wifi_fresh_initial: "freshly_proposed_wifi op \<Longrightarrow> ledger_initial (abs_wifi op)"
  by (auto simp: freshly_proposed_wifi_def ledger_initial_def)

lemma awake_fresh_initial: "freshly_proposed_awake op \<Longrightarrow> ledger_initial (abs_awake op)"
  by (auto simp: freshly_proposed_awake_def ledger_initial_def)

lemma wifi_evolves_moves:
  "wifi_evolves op op' \<Longrightarrow>
   ledger_moves wifi_receipt_answers wr_effect_applied (Some (abs_wifi op)) (Some (abs_wifi op'))"
  by (auto simp: wifi_evolves_def intro: ledger_moves.intros)

lemma awake_evolves_moves:
  "awake_evolves op op' \<Longrightarrow>
   ledger_moves awake_receipt_answers ar_effective (Some (abs_awake op)) (Some (abs_awake op'))"
  by (auto simp: awake_evolves_def intro: ledger_moves.intros)

lemma run_command_wifi_evolves:
  assumes "stores_ok h" and "bt_get (fh_wifi_adb_operations h) k = Some op"
  shows "\<exists>op'. bt_get (fh_wifi_adb_operations (run_command ob jb sha enc h c)) k = Some op' \<and> wifi_evolves op op'"
using assms(1) proof (cases rule: command_wifi_cases [where c = c and ob = ob and jb = jb and sha = sha and enc = enc])
  case (own call)
  show ?thesis unfolding own run_command.simps
    by (rule wa.inplace_evolves [OF run_wifi_inplace [OF stores_okD(2) [OF assms(1)]] assms(2)])
next
  case other
  with assms(2) show ?thesis by (simp add: wifi_evolves_def)
qed

lemma run_command_awake_evolves:
  assumes "stores_ok h" and "bt_get (fh_awake_operations h) k = Some op"
  shows "\<exists>op'. bt_get (fh_awake_operations (run_command ob jb sha enc h c)) k = Some op' \<and> awake_evolves op op'"
using assms(1) proof (cases rule: command_awake_cases [where c = c and ob = ob and jb = jb and sha = sha and enc = enc])
  case (own call)
  show ?thesis unfolding own run_command.simps
    by (rule aw.inplace_evolves [OF run_awake_inplace [OF stores_okD(3) [OF assms(1)]] assms(2)])
next
  case other
  with assms(2) show ?thesis by (simp add: awake_evolves_def)
qed

lemma run_command_wifi_moves:
  assumes "stores_ok h"
  shows "ledger_moves wifi_receipt_answers wr_effect_applied
     (map_option abs_wifi (bt_get (fh_wifi_adb_operations h) k))
     (map_option abs_wifi (bt_get (fh_wifi_adb_operations (run_command ob jb sha enc h c)) k))"
proof (cases "bt_get (fh_wifi_adb_operations h) k")
  case (Some op)
  obtain op' where "bt_get (fh_wifi_adb_operations (run_command ob jb sha enc h c)) k = Some op'" "wifi_evolves op op'"
    using run_command_wifi_evolves [OF assms Some] by blast
  with Some show ?thesis by (simp add: wifi_evolves_moves)
next
  case None
  show ?thesis
  proof (cases "bt_get (fh_wifi_adb_operations (run_command ob jb sha enc h c)) k")
    case None
    with \<open>bt_get (fh_wifi_adb_operations h) k = None\<close> show ?thesis by (simp add: ledger_moves.stutter)
  next
    case (Some op')
    show ?thesis
    using assms proof (cases rule: command_wifi_cases [where c = c and ob = ob and jb = jb and sha = sha and enc = enc])
      case (own call)
      have "freshly_proposed_wifi op'"
        using wa.inplace_new [OF run_wifi_inplace [OF stores_okD(2) [OF assms]] None] Some own by simp
      with None Some show ?thesis by (simp add: ledger_moves.start wifi_fresh_initial)
    qed (use None Some in simp)
  qed
qed

lemma run_command_awake_moves:
  assumes "stores_ok h"
  shows "ledger_moves awake_receipt_answers ar_effective
     (map_option abs_awake (bt_get (fh_awake_operations h) k))
     (map_option abs_awake (bt_get (fh_awake_operations (run_command ob jb sha enc h c)) k))"
proof (cases "bt_get (fh_awake_operations h) k")
  case (Some op)
  obtain op' where "bt_get (fh_awake_operations (run_command ob jb sha enc h c)) k = Some op'" "awake_evolves op op'"
    using run_command_awake_evolves [OF assms Some] by blast
  with Some show ?thesis by (simp add: awake_evolves_moves)
next
  case None
  show ?thesis
  proof (cases "bt_get (fh_awake_operations (run_command ob jb sha enc h c)) k")
    case None
    with \<open>bt_get (fh_awake_operations h) k = None\<close> show ?thesis by (simp add: ledger_moves.stutter)
  next
    case (Some op')
    show ?thesis
    using assms proof (cases rule: command_awake_cases [where c = c and ob = ob and jb = jb and sha = sha and enc = enc])
      case (own call)
      have "freshly_proposed_awake op'"
        using aw.inplace_new [OF run_awake_inplace [OF stores_okD(3) [OF assms]] None] Some own by simp
      with None Some show ?thesis by (simp add: ledger_moves.start awake_fresh_initial)
    qed (use None Some in simp)
  qed
qed

section \<open>Histories\<close>

definition wifi_history :: "wifi_operation \<Rightarrow> wifi_operation \<Rightarrow> bool" where
  "wifi_history op op' \<longleftrightarrow> wifi_frame op' = wifi_frame op \<and>
     list_all2 target_onward (lg_targets (abs_wifi op)) (lg_targets (abs_wifi op'))"

definition awake_history :: "awake_operation \<Rightarrow> awake_operation \<Rightarrow> bool" where
  "awake_history op op' \<longleftrightarrow> awake_frame op' = awake_frame op \<and>
     list_all2 target_onward (lg_targets (abs_awake op)) (lg_targets (abs_awake op'))"

lemma onward_refl: "list_all2 target_onward ts ts"
  by (simp add: list_all2_conv_all_nth target_onward_refl)

lemma onward_trans:
  "list_all2 target_onward ts us \<Longrightarrow> list_all2 target_onward us vs \<Longrightarrow> list_all2 target_onward ts vs"
  by (rule list_all2_trans [OF target_onward_trans])

lemma wifi_evolves_history: "wifi_evolves op op' \<Longrightarrow> wifi_sound op \<Longrightarrow> wifi_history op op'"
  using ledger_step_onward [of wifi_receipt_answers wr_effect_applied "abs_wifi op" "abs_wifi op'"] onward_refl
  by (auto simp: wifi_evolves_def wifi_history_def wifi_sound_def)

lemma awake_evolves_history: "awake_evolves op op' \<Longrightarrow> awake_sound op \<Longrightarrow> awake_history op op'"
  using ledger_step_onward [of awake_receipt_answers ar_effective "abs_awake op" "abs_awake op'"] onward_refl
  by (auto simp: awake_evolves_def awake_history_def awake_sound_def)

lemma run_commands_wifi_history:
  assumes "stores_ok h" and "bt_get (fh_wifi_adb_operations h) k = Some op"
  shows "\<exists>op'. bt_get (fh_wifi_adb_operations (run_commands ob jb sha enc h cs)) k = Some op' \<and> wifi_history op op'"
  using assms
proof (induction cs arbitrary: h op)
  case Nil
  then show ?case by (auto simp: run_commands_def wifi_history_def onward_refl)
next
  case (Cons c cs)
  obtain y where y: "bt_get (fh_wifi_adb_operations (run_command ob jb sha enc h c)) k = Some y" "wifi_evolves op y"
    using run_command_wifi_evolves [OF Cons.prems] by blast
  have "wifi_sound op" using stores_okD(2) [OF Cons.prems(1)] Cons.prems(2) by (auto simp: wa.sound_store_def)
  with y(2) have "wifi_history op y" by (rule wifi_evolves_history)
  with Cons.IH [OF run_command_stores [OF Cons.prems(1)] y(1)] show ?case
    by (auto simp: run_commands_def wifi_history_def intro: onward_trans)
qed

lemma run_commands_awake_history:
  assumes "stores_ok h" and "bt_get (fh_awake_operations h) k = Some op"
  shows "\<exists>op'. bt_get (fh_awake_operations (run_commands ob jb sha enc h cs)) k = Some op' \<and> awake_history op op'"
  using assms
proof (induction cs arbitrary: h op)
  case Nil
  then show ?case by (auto simp: run_commands_def awake_history_def onward_refl)
next
  case (Cons c cs)
  obtain y where y: "bt_get (fh_awake_operations (run_command ob jb sha enc h c)) k = Some y" "awake_evolves op y"
    using run_command_awake_evolves [OF Cons.prems] by blast
  have "awake_sound op" using stores_okD(3) [OF Cons.prems(1)] Cons.prems(2) by (auto simp: aw.sound_store_def)
  with y(2) have "awake_history op y" by (rule awake_evolves_history)
  with Cons.IH [OF run_command_stores [OF Cons.prems(1)] y(1)] show ?case
    by (auto simp: run_commands_def awake_history_def intro: onward_trans)
qed

text \<open>
  The message a Termux admission is digested from determines the fields it covers: its texts hold
  no NUL byte and each is closed by one, and its numbers have a fixed width.
\<close>

section \<open>NUL-terminated texts\<close>

lemma nul_terminated_first:
  "z \<notin> set x \<Longrightarrow> z \<notin> set y \<Longrightarrow> x @ z # r = y @ z # s \<longleftrightarrow> x = y \<and> r = s"
proof (induction x arbitrary: y)
  case Nil
  then show ?case by (cases y) auto
next
  case (Cons c x)
  then show ?case by (cases y) auto
qed

lemma nul_terminated_inj:
  assumes "\<forall>x\<in>set xs. z \<notin> set x" and "\<forall>y\<in>set ys. z \<notin> set y" and "length xs = length ys"
    and "concat (map (\<lambda>t. t @ [z]) xs) @ r = concat (map (\<lambda>t. t @ [z]) ys) @ s"
  shows "xs = ys \<and> r = s"
  using assms(3,1,2,4)
  by (induction xs ys rule: list_induct2) (simp_all add: nul_terminated_first)

section \<open>Little-endian numbers\<close>

lemma length_le_bytes [simp]: "length (le_bytes n x) = n"
  by (induction n x rule: le_bytes.induct) simp_all

lemma le_bytes_mod: "le_bytes n x = le_bytes n y \<Longrightarrow> x mod 256 ^ n = y mod 256 ^ n"
proof (induction n arbitrary: x y)
  case (Suc n)
  from Suc.prems have "(of_char (char_of (x mod 256) :: char) :: nat) = of_char (char_of (y mod 256) :: char)"
    by (simp only: le_bytes.simps list.inject)
  then have "x mod 256 = y mod 256" by (simp only: of_char_of mod_mod_trivial)
  moreover have "x div 256 mod 256 ^ n = y div 256 mod 256 ^ n"
    using Suc.prems by (intro Suc.IH) (simp only: le_bytes.simps list.inject)
  ultimately show ?case by (simp add: mod_mult2_eq)
qed simp

lemma u64_to_le_bytes_inj:
  assumes "u64_to_le_bytes x = u64_to_le_bytes y" and "x \<le> u64_max" and "y \<le> u64_max"
  shows "x = y"
  using le_bytes_mod [of 8 x y] assms by (simp add: u64_to_le_bytes_def u64_max_def)

lemma i64_to_le_bytes_inj:
  assumes "i64_to_le_bytes x = i64_to_le_bytes y" and "is_i64 x" and "is_i64 y"
  shows "x = y"
proof -
  let ?m = "18446744073709551616 :: int"
  have width: "(256 :: nat) ^ 8 = nat ?m" by simp
  have "nat (z mod ?m) < 256 ^ 8" for z :: int
    unfolding width by (rule nat_mono_iff [THEN iffD2]) simp_all
  then have "nat (x mod ?m) = nat (y mod ?m)"
    using le_bytes_mod [OF assms(1) [unfolded i64_to_le_bytes_def]] by (simp only: mod_less)
  then have "x mod ?m = y mod ?m" by (rule eq_nat_nat_iff [THEN iffD1, rotated 2]) simp_all
  then have "(x + 9223372036854775808) mod ?m = (y + 9223372036854775808) mod ?m"
    by (rule mod_add_cong) (rule refl)
  moreover have "0 \<le> z + 9223372036854775808 \<and> z + 9223372036854775808 < ?m" if "is_i64 z" for z
    using that by (simp add: is_i64_def i64_min_def i64_max_def)
  ultimately show ?thesis using assms(2,3) by (simp add: mod_pos_pos_trivial)
qed

lemma fixed_width_inj:
  assumes "\<And>x. length (f x) = n" and "length xs = length ys"
    and "concat (map f xs) @ r = concat (map f ys) @ s"
  shows "map f xs = map f ys \<and> r = s"
  using assms(2,3) by (induction xs ys rule: list_induct2) (simp_all add: assms(1))

section \<open>The message\<close>

definition admission_typed :: "termux_admission \<Rightarrow> bool" where
  "admission_typed a \<longleftrightarrow> (\<forall>v\<in>set (lineage_revisions a). v \<le> u64_max) \<and>
     is_i64 (ta_accepted_at_ms a) \<and> is_i64 (ta_expires_at_ms a)"

lemma lineage_texts_not_nul:
  assumes "valid (validate_termux_admission sha a)"
  shows "\<forall>t\<in>set (lineage_texts a). char_of (0 :: nat) \<notin> set t"
proof -
  have "\<forall>t\<in>{ta_checkin_id a, ta_operation_id a, ta_device_id a, ta_source_epoch a, ta_proof_id a,
      ta_receipt_request_id a, ta_key_id a}. is_portable_id t 256"
    "\<forall>t\<in>{ta_receipt_evidence_sha256 a, ta_public_key_sha256 a, ta_claims_jcs_sha256 a,
      ta_signing_message_sha256 a, ta_signature_sha256 a}. is_lower_sha256 t"
    using assms by (simp_all add: validate_termux_admission_def)
  then show ?thesis
    unfolding lineage_texts_def using portable_id_not_nul lower_sha256_not_nul by fastforce
qed

lemma lineage_message_inj:
  assumes "valid (validate_termux_admission sha a)" and "valid (validate_termux_admission sha b)"
    and "admission_typed a" and "admission_typed b" and "lineage_message a = lineage_message b"
  shows "lineage_texts a = lineage_texts b \<and> lineage_revisions a = lineage_revisions b \<and>
     ta_accepted_at_ms a = ta_accepted_at_ms b \<and> ta_expires_at_ms a = ta_expires_at_ms b"
proof -
  let ?rest = "\<lambda>a. concat (map u64_to_le_bytes (lineage_revisions a)) @
     i64_to_le_bytes (ta_accepted_at_ms a) @ i64_to_le_bytes (ta_expires_at_ms a)"
  have "length (lineage_texts a) = length (lineage_texts b)" by (simp add: lineage_texts_def)
  then have texts: "lineage_texts a = lineage_texts b" and rest: "?rest a = ?rest b"
    using nul_terminated_inj [OF lineage_texts_not_nul [OF assms(1)] lineage_texts_not_nul [OF assms(2)]]
      assms(5) [unfolded lineage_message_def same_append_eq] by blast+
  have "length (lineage_revisions a) = length (lineage_revisions b)" by (simp add: lineage_revisions_def)
  with fixed_width_inj [OF _ this rest] have revisions:
    "map u64_to_le_bytes (lineage_revisions a) = map u64_to_le_bytes (lineage_revisions b)"
    and times: "i64_to_le_bytes (ta_accepted_at_ms a) @ i64_to_le_bytes (ta_expires_at_ms a) =
      i64_to_le_bytes (ta_accepted_at_ms b) @ i64_to_le_bytes (ta_expires_at_ms b)"
    by (simp_all add: u64_to_le_bytes_def)
  have "inj_on u64_to_le_bytes (set (lineage_revisions a) \<union> set (lineage_revisions b))"
    using u64_to_le_bytes_inj assms(3,4) unfolding inj_on_def admission_typed_def by blast
  with revisions have "lineage_revisions a = lineage_revisions b" by (simp add: map_inj_on)
  moreover have "ta_accepted_at_ms a = ta_accepted_at_ms b \<and> ta_expires_at_ms a = ta_expires_at_ms b"
    using times i64_to_le_bytes_inj assms(3,4) by (simp add: i64_to_le_bytes_def admission_typed_def)
  ultimately show ?thesis using texts by simp
qed

end
