(* ===== verification/Owner_Samples.thy ===== *)
theory Owner_Samples
  imports Samples
begin

text \<open>
  Concrete runs of the owner-bound operations on the registered headset of theory
  \<^verbatim>\<open>Samples\<close>: a wireless-debugging request and an awake action from preview to effective receipt.
\<close>

lemma hub1_stores [simp]:
  "fh_wifi_adb_operations hub1 = bt_empty" "fh_awake_operations hub1 = bt_empty"
  "fh_hotspot_operations hub1 = bt_empty" "fh_hotspot_observation hub1 = None"
  "fh_package_operations hub1 = bt_empty" "fh_package_archives hub1 = bt_empty"
  "fh_kiosk_catalogs hub1 = bt_empty" "fh_catalog_replays hub1 = bt_empty"
  "fh_catalog_associations hub1 = bt_empty"
  unfolding hub1_eq hub0_accepts [symmetric]
  by (simp_all add: hub0_def hub_new_def policy_ok_def default_policy_def)

lemma sample_record_revision [simp]: "rec_accepted_revision sample_record = 2"
  by (simp add: sample_record_def admitted_record_def)

lemma no_other_capability:
  "k \<noteq> kiosk_capability_id \<Longrightarrow>
   capability_get (do_capabilities (sample_observation d i e v)) k = None"
  by (simp add: capability_get_def sample_observation_def)

lemma other_capabilities:
  "wifi_capability_id \<noteq> kiosk_capability_id" "awake_capability_id \<noteq> kiosk_capability_id"
  by (simp_all add: wifi_capability_id_def awake_capability_id_def kiosk_capability_id_def)

section \<open>A Wi-Fi ADB operation through its life\<close>

definition wifi_plan :: wifi_preview_plan where
  "wifi_plan = \<lparr>
     wpp_operation_id = ''wifi-1'',
     wpp_preview_id = ''wifi-preview-1'',
     wpp_request = \<lparr>
       wpr_schema = wifi_preview_request_schema,
       wpr_action_id = wifi_action_id,
       wpr_action = RequestWirelessAdb,
       wpr_targets = bt_insert ''hmd-1'' 1 bt_empty\<rparr>,
     wpp_created_at_ms = 1100,
     wpp_expires_at_ms = 5000,
     wpp_provider_ready_devices = {''hmd-1''}\<rparr>"

definition wifi_facts :: wifi_preflight where
  "wifi_facts = \<lparr>
     wf_device_id = ''hmd-1'', wf_identity_revision = 1, wf_capability_id = wifi_capability_id,
     wf_capability_evidence_revision = 2, wf_capability_owner = wifi_owner,
     wf_support = Support_Supported, wf_enablement = Enablement_Enabled,
     wf_authorization = Authorization_Authorized, wf_reachability = Reachability_Reachable,
     wf_freshness = Freshness_Current, wf_observed_at_ms = 1100, wf_fresh_until_ms = 61100,
     wf_evaluated_at_ms = 1100, wf_eligible = True, wf_reason_code = ''ready'',
     wf_message = ''File Manager Quest Wi-Fi ADB provider is current and ready''\<rparr>"

definition wifi_receipt_1 :: wifi_receipt where
  "wifi_receipt_1 = \<lparr>
     wr_schema = wifi_receipt_schema, wr_request_id = ''request-1'', wr_operation_id = ''wifi-1'',
     wr_preview_id = ''wifi-preview-1'', wr_device_id = ''hmd-1'', wr_identity_revision = 1,
     wr_action = RequestWirelessAdb, wr_route_mode = ModernTls, wr_request_delivered = True,
     wr_kiosk_setting_applied = True, wr_request_after_boot_enabled = None,
     wr_wearer_approval = Approval_Pending, wr_listener_discovered = False,
     wr_effect_applied = True, wr_outcome = ''requested'', wr_evidence_sha256 = replicate 64 CHR ''a'',
     wr_observed_at_ms = 1380\<rparr>"

definition wifi_op1 :: wifi_operation where
  "wifi_op1 = proposed_wifi_operation 2 wifi_plan [wifi_facts]"

definition wifi_op2 :: wifi_operation where
  "wifi_op2 = confirmed_wifi_operation 1200 wifi_op1"

definition wifi_op3 :: wifi_operation where
  "wifi_op3 = change_wifi_target wifi_op2 ''hmd-1'' (prepared_wifi_target wifi_op2 ''request-1'' 1300) 1300"

definition wifi_op4 :: wifi_operation where
  "wifi_op4 = with_wifi_lifecycle (change_wifi_target wifi_op3 ''hmd-1'' (dispatched_wifi_target 1350) 1350)"

definition wifi_op5 :: wifi_operation where
  "wifi_op5 = with_wifi_lifecycle (change_wifi_target wifi_op4 ''hmd-1'' (received_wifi_target wifi_receipt_1 1400) 1400)"

definition wifi_hub :: "wifi_operation \<Rightarrow> hub_state" where
  "wifi_hub op = put_wifi ''wifi-1'' op hub1"

lemma wifi_hub_fields [simp]:
  "fh_wifi_adb_operations (wifi_hub op) = bt_insert ''wifi-1'' op bt_empty"
  "fh_devices (wifi_hub op) = bt_insert ''hmd-1'' sample_record bt_empty"
  "put_wifi ''wifi-1'' op' (wifi_hub op) = wifi_hub op'"
  by (simp_all add: wifi_hub_def put_wifi_def)

lemma wifi_ids_portable:
  "is_portable_id ''wifi-1'' 256" "is_portable_id ''wifi-preview-1'' 256" "is_portable_id ''hmd-1'' 256"
  "is_portable_id ''request-1'' 256"
  by (simp_all add: is_portable_id_def is_portable_byte_def is_ascii_alphanumeric_def is_ascii_digit_def
      is_ascii_lowercase_def is_ascii_uppercase_def)

lemma wifi_facts_valid: "valid (validate_wifi_preflight wifi_facts)"
  by (simp add: validate_wifi_preflight_def wifi_facts_def wifi_expected_eligibility_def
      wifi_expected_reason_code_def readiness_reason_def is_blank.simps)

lemma wifi_op1_valid: "valid (validate_wifi_operation sha wifi_op1)"
proof -
  have head: "wifi_operation_head_failures wifi_op1 = []"
    using wifi_facts_valid wifi_ids_portable
    by (simp add: wifi_operation_head_failures_def validate_wifi_preview_def wifi_preview_target_failures_def
        validate_wifi_owner_def wifi_op1_def proposed_wifi_operation_def Let_def wifi_plan_def less_Suc_eq)
      (simp add: wifi_facts_def valid_iff_Inr)
  have "wifi_operation_target_failures sha wifi_op1 (proposed_wifi_target 1100 wifi_facts) = []"
    by (simp add: wifi_operation_target_failures_def wifi_bound_target_failures_def wifi_op1_def
        proposed_wifi_operation_def Let_def wifi_plan_def proposed_wifi_target_def)
  with head show ?thesis
    by (simp add: validate_wifi_operation_def) (simp add: wifi_op1_def proposed_wifi_operation_def Let_def wifi_plan_def)
qed

lemma wifi_previews: "preview_quest_wifi_adb sha hub1 wifi_plan = (wifi_hub wifi_op1, Inr wifi_op1)"
proof -
  have "wifi_adb_preflight sample_record 1100 True = wifi_facts"
    by (simp add: wifi_adb_preflight_def owner_capability_facts_def Let_def no_other_capability other_capabilities
        wifi_facts_def wifi_expected_eligibility_def wifi_expected_reason_code_def readiness_reason_def
        i64_wrapping_add_def)
  then have frozen: "freeze_wifi_targets hub1 wifi_plan (entries (wpr_targets (wpp_request wifi_plan))) = Inr [wifi_facts]"
    by (simp add: wifi_plan_def)
  have plan: "\<not> wifi_plan_invalid wifi_plan"
    using wifi_ids_portable
    by (simp add: wifi_plan_invalid_def wifi_plan_def validate_wifi_preview_request_def exact_target_failures_Nil
        bt_len_insert bt_contains_key_def wifi_preview_max_lifetime_ms_def)
  have "validate_wifi sha wifi_op1 = Inr ()" using wifi_op1_valid by simp
  with frozen plan show ?thesis
    by (simp add: preview_quest_wifi_adb_def wifi_op1_def [symmetric] max_wifi_adb_operations_def
        Let_def wifi_hub_def) (simp add: wifi_plan_def validate_wifi_def valid_iff_Inr)
qed

lemma wifi_revised [simp]: "fst (revise_wifi sha (wifi_hub op) ''wifi-1'' op') = wifi_hub op'"
  by (cases "validate_wifi_operation sha op'") (simp_all add: revise_wifi_def validate_wifi_def)

lemma wifi_op1_fields [simp]:
  "wop_targets wifi_op1 = [proposed_wifi_target 1100 wifi_facts]" "wop_lifecycle wifi_op1 = Proposed"
  "wop_operation_id wifi_op1 = ''wifi-1''" "wv_preview_id (wop_preview wifi_op1) = ''wifi-preview-1''"
  "wv_action (wop_preview wifi_op1) = RequestWirelessAdb" "wv_expires_at_ms (wop_preview wifi_op1) = 5000"
  by (simp_all add: wifi_op1_def proposed_wifi_operation_def Let_def wifi_plan_def)

lemma wifi_frozen_fields [simp]:
  "wt_device_id (proposed_wifi_target c wifi_facts) = ''hmd-1''"
  "wt_identity_revision (proposed_wifi_target c wifi_facts) = 1"
  "wt_preflight (proposed_wifi_target c wifi_facts) = wifi_facts"
  "wt_lifecycle (proposed_wifi_target c wifi_facts) = Proposed"
  "wt_invocation (proposed_wifi_target c wifi_facts) = None"
  "wf_eligible wifi_facts"
  by (simp_all add: proposed_wifi_target_def wifi_facts_def)

lemma wifi_current:
  assumes "find (\<lambda>t. wt_device_id t = ''hmd-1'') (wop_targets op) = Some t" and "wt_identity_revision t = 1"
    and "900 \<le> now"
  shows "require_wifi_adb_target_current (wifi_hub x) op ''hmd-1'' now = Inr ()"
  using assms by (simp add: require_wifi_adb_target_current_def find_wifi_target_def) (simp add: sample_observation_def)

lemma wifi_op2_fields [simp]:
  "wop_targets wifi_op2 = [confirm_wifi_target 1200 (proposed_wifi_target 1100 wifi_facts)]"
  "wop_operation_id wifi_op2 = ''wifi-1''" "wop_preview wifi_op2 = wop_preview wifi_op1"
  by (simp_all add: wifi_op2_def confirmed_wifi_operation_def with_wifi_lifecycle_def)

lemma wifi_confirms:
  "fst (confirm_quest_wifi_adb sha (wifi_hub wifi_op1) ''wifi-1'' ''wifi-preview-1'' 1200) = wifi_hub wifi_op2"
proof -
  have "require_wifi_adb_targets_current (wifi_hub wifi_op1) wifi_op1 1200 = Inr ()"
    using wifi_current [of wifi_op1 _ 1200 wifi_op1] by (simp add: require_wifi_adb_targets_current_def)
  then show ?thesis by (simp add: confirm_quest_wifi_adb_def quest_wifi_adb_operation_def wifi_op2_def)
qed

lemma wifi_op3_fields [simp]:
  "wop_targets wifi_op3 = [prepared_wifi_target wifi_op2 ''request-1'' 1300
     (confirm_wifi_target 1200 (proposed_wifi_target 1100 wifi_facts))]"
  "wop_operation_id wifi_op3 = ''wifi-1''" "wop_preview wifi_op3 = wop_preview wifi_op1"
  by (simp_all add: wifi_op3_def change_wifi_target_def confirm_wifi_target_def)

lemma wifi_prepares:
  "fst (prepare_quest_wifi_adb_invocation sha (wifi_hub wifi_op2) ''wifi-1'' ''hmd-1'' ''request-1'' 1300) =
     wifi_hub wifi_op3"
  using wifi_current [of wifi_op2 _ 1300 wifi_op2]
  by (simp add: prepare_quest_wifi_adb_invocation_def quest_wifi_adb_operation_def find_wifi_target_def
      confirm_wifi_target_def wifi_op3_def)

lemma wifi_op4_fields [simp]:
  "wop_targets wifi_op4 = [dispatched_wifi_target 1350 (prepared_wifi_target wifi_op2 ''request-1'' 1300
     (confirm_wifi_target 1200 (proposed_wifi_target 1100 wifi_facts)))]"
  "wop_operation_id wifi_op4 = ''wifi-1''" "wop_preview wifi_op4 = wop_preview wifi_op1"
  by (simp_all add: wifi_op4_def with_wifi_lifecycle_def change_wifi_target_def confirm_wifi_target_def
      prepared_wifi_target_def)

lemma wifi_dispatches:
  "fst (mark_quest_wifi_adb_dispatched sha (wifi_hub wifi_op3) ''wifi-1'' ''hmd-1'' 1350) = wifi_hub wifi_op4"
  by (simp add: mark_quest_wifi_adb_dispatched_def quest_wifi_adb_operation_def find_wifi_target_def
      confirm_wifi_target_def prepared_wifi_target_def wifi_op4_def)

lemma wifi_receipt_1_valid: "valid (validate_wifi_receipt wifi_receipt_1)"
  using wifi_ids_portable
  by (simp add: validate_wifi_receipt_def wifi_receipt_1_def is_lower_sha256_def list_all_iff is_ascii_hexdigit_def
      is_lower_hex_def is_ascii_uppercase_def is_ascii_digit_def wifi_route_failures_def is_classic_def
      derived_effect_applied_def)

lemma wifi_receives:
  "fst (apply_quest_wifi_adb_receipt sha (wifi_hub wifi_op4) wifi_receipt_1 1400) = wifi_hub wifi_op5"
proof -
  have ids: "wr_operation_id wifi_receipt_1 = ''wifi-1''" "wr_device_id wifi_receipt_1 = ''hmd-1''"
    "wr_observed_at_ms wifi_receipt_1 = 1380" by (simp_all add: wifi_receipt_1_def)
  have "\<not> wifi_receipt_unbound wifi_receipt_1 (prepared_invocation wifi_op2 ''request-1'' 1300
      (confirm_wifi_target 1200 (proposed_wifi_target 1100 wifi_facts)))"
    by (simp add: wifi_receipt_unbound_def prepared_invocation_def confirm_wifi_target_def wifi_receipt_1_def)
  with wifi_receipt_1_valid show ?thesis
    by (simp add: apply_quest_wifi_adb_receipt_def ids quest_wifi_adb_operation_def find_wifi_target_def
        confirm_wifi_target_def prepared_wifi_target_def dispatched_wifi_target_def wifi_op5_def
        i64_wrapping_add_def)
qed

definition wifi_run :: "hub_command list" where
  "wifi_run = map Call_Wifi [Preview_Wifi wifi_plan, Confirm_Wifi ''wifi-1'' ''wifi-preview-1'' 1200,
     Prepare_Wifi ''wifi-1'' ''hmd-1'' ''request-1'' 1300, Dispatch_Wifi ''wifi-1'' ''hmd-1'' 1350,
     Receive_Wifi wifi_receipt_1 1400]"

lemma wifi_run_prefix:
  "run_commands no_bytes no_bytes sha no_codec hub1 (take 2 wifi_run) = wifi_hub wifi_op2"
  "run_commands no_bytes no_bytes sha no_codec hub1 wifi_run = wifi_hub wifi_op5"
  by (simp_all add: run_commands_def wifi_run_def wifi_previews wifi_confirms wifi_prepares wifi_dispatches
      wifi_receives numeral_2_eq_2)

lemma owner_run_reachable:
  "reachable ob jb sha enc policy h \<Longrightarrow> (\<forall>c\<in>set cs. is_owner_call c) \<Longrightarrow>
   reachable ob jb sha enc policy (run_commands ob jb sha enc h cs)"
proof (induction cs arbitrary: h)
  case (Cons c cs)
  have "admissible h c"
    using Cons.prems(2) by (auto simp: admissible_def is_owner_call_def split: hub_command.splits)
  with Cons show ?case by (simp add: run_commands_def reachable.step)
qed (simp add: run_commands_def)

lemma hub1_reachable_any: "reachable no_bytes no_bytes sha no_codec default_policy hub1"
  using reachable.step [OF reachable.start [OF hub0_new], where c = "Observe (sample_observation ''hmd-1'' 1 ''boot-1'' 1) 1000"]
  by (simp add: hub1_def admissible_def u64_max_def)

lemma wifi_hub_reachable:
  "reachable no_bytes no_bytes sha no_codec default_policy (wifi_hub wifi_op2)"
  "reachable no_bytes no_bytes sha no_codec default_policy (wifi_hub wifi_op5)"
  unfolding wifi_run_prefix [of sha, symmetric]
  by (rule owner_run_reachable [OF hub1_reachable_any]; auto simp: wifi_run_def is_owner_call_def dest: in_set_takeD)+

section \<open>An awake operation through its life\<close>

definition awake_plan :: awake_preview_plan where
  "awake_plan = \<lparr>
     app_operation_id = ''awake-1'',
     app_preview_id = ''awake-preview-1'',
     app_watchdog_generation = ''watchdog-1'',
     app_request = \<lparr>
       apr_schema = awake_preview_request_schema,
       apr_action_id = awake_action_id,
       apr_action = StartDeviceWatchdog,
       apr_duration_ms = 60000,
       apr_watchdog_interval_ms = 1000,
       apr_targets = bt_insert ''hmd-1'' 1 bt_empty\<rparr>,
     app_created_at_ms = 1100,
     app_expires_at_ms = 5000,
     app_provider_ready_devices = {''hmd-1''}\<rparr>"

lemmas awake_bounds_defs = awake_min_duration_ms_def awake_max_duration_ms_def
  awake_min_watchdog_interval_ms_def awake_max_watchdog_interval_ms_def

definition awake_facts :: awake_preflight where
  "awake_facts = \<lparr>
     af_device_id = ''hmd-1'', af_identity_revision = 1, af_capability_id = awake_capability_id,
     af_capability_evidence_revision = 2, af_capability_owner = awake_owner,
     af_support = Support_Supported, af_enablement = Enablement_Enabled,
     af_authorization = Authorization_Authorized, af_reachability = Reachability_Reachable,
     af_freshness = Freshness_Current, af_observed_at_ms = 1100, af_fresh_until_ms = 61100,
     af_evaluated_at_ms = 1100, af_eligible = True, af_reason_code = ''ready'',
     af_message = ''File Manager Quest awake provider is current and ready''\<rparr>"

definition awake_receipt_1 :: awake_receipt where
  "awake_receipt_1 = \<lparr>
     ar_schema = awake_receipt_schema, ar_request_id = ''request-2'', ar_operation_id = ''awake-1'',
     ar_preview_id = ''awake-preview-1'', ar_device_id = ''hmd-1'', ar_identity_revision = 1,
     ar_action = StartDeviceWatchdog, ar_watchdog_generation = ''watchdog-1'',
     ar_requested_duration_ms = 60000, ar_requested_watchdog_interval_ms = 1000,
     ar_stay_on_effective = True, ar_proximity_hold_effective = True, ar_wake_effective = True,
     ar_windows_watchdog_effective = False, ar_device_watchdog_effective = True,
     ar_settings_restored = False, ar_effective = True, ar_settings_left_unchanged = False,
     ar_outcome = ''watchdog_active'', ar_repair_count = 0,
     ar_power = \<lparr>apw_wakefulness = ''Awake'', apw_display_state = ''ON'', apw_stay_on = True,
       apw_auto_sleep_disabled = Some True, apw_proximity_state = ''CLOSE'',
       apw_proximity_hold_duration_ms = Some 60000, apw_proximity_hold_remaining_ms = Some 59000,
       apw_captured_at_ms = 1375\<rparr>,
     ar_device_watchdog = \<lparr>awd_reported_active = True, awd_fresh = True, awd_generation = ''watchdog-1'',
       awd_boot_id_sha256 = replicate 64 CHR ''b'', awd_interval_ms = 1000, awd_last_poll_ms = 1370,
       awd_proximity_repair_count = 0, awd_stay_on_repair_count = 0, awd_wake_repair_count = 0,
       awd_last_action = [], awd_last_error = []\<rparr>,
     ar_evidence_sha256 = replicate 64 CHR ''a'', ar_observed_at_ms = 1380\<rparr>"

definition awake_op1 :: awake_operation where
  "awake_op1 = proposed_awake_operation 2 awake_plan [awake_facts]"

definition awake_op2 :: awake_operation where
  "awake_op2 = confirmed_awake_operation 1200 awake_op1"

definition awake_op3 :: awake_operation where
  "awake_op3 = change_awake_target awake_op2 ''hmd-1'' (prepared_awake_target awake_op2 ''request-2'' ''watchdog-1'' 1300) 1300"

definition awake_op4 :: awake_operation where
  "awake_op4 = with_awake_lifecycle (change_awake_target awake_op3 ''hmd-1'' (dispatched_awake_target 1350) 1350)"

definition awake_op5 :: awake_operation where
  "awake_op5 = with_awake_lifecycle (change_awake_target awake_op4 ''hmd-1'' (received_awake_target awake_receipt_1 1400) 1400)"

definition awake_hub :: "awake_operation \<Rightarrow> hub_state" where
  "awake_hub op = put_awake ''awake-1'' op hub1"

lemma awake_hub_fields [simp]:
  "fh_awake_operations (awake_hub op) = bt_insert ''awake-1'' op bt_empty"
  "fh_devices (awake_hub op) = bt_insert ''hmd-1'' sample_record bt_empty"
  "put_awake ''awake-1'' op' (awake_hub op) = awake_hub op'"
  by (simp_all add: awake_hub_def put_awake_def)

lemma awake_ids_portable:
  "is_portable_id ''awake-1'' 256" "is_portable_id ''awake-preview-1'' 256" "is_portable_id ''hmd-1'' 256"
  "is_portable_id ''request-2'' 256" "is_portable_id ''watchdog-1'' 256"
  by (simp_all add: is_portable_id_def is_portable_byte_def is_ascii_alphanumeric_def is_ascii_digit_def
      is_ascii_lowercase_def is_ascii_uppercase_def)

lemma awake_facts_valid: "valid (validate_awake_preflight awake_facts)"
  by (simp add: validate_awake_preflight_def awake_facts_def awake_expected_eligibility_def
      awake_expected_reason_code_def readiness_reason_def is_blank.simps)

lemma awake_op1_valid: "valid (validate_awake_operation awake_op1)"
proof -
  have head: "awake_operation_head_failures awake_op1 = []"
    using awake_facts_valid awake_ids_portable
    by (simp add: awake_operation_head_failures_def validate_awake_preview_def awake_policy_failures_def awake_bounds_defs awake_preview_target_failures_def
        validate_awake_owner_def awake_op1_def proposed_awake_operation_def Let_def awake_plan_def less_Suc_eq)
      (simp add: awake_facts_def valid_iff_Inr)
  have "awake_operation_target_failures awake_op1 (proposed_awake_target 1100 awake_facts) = []"
    by (simp add: awake_operation_target_failures_def awake_bound_target_failures_def awake_op1_def
        proposed_awake_operation_def Let_def awake_plan_def proposed_awake_target_def)
  with head show ?thesis
    by (simp add: validate_awake_operation_def) (simp add: awake_op1_def proposed_awake_operation_def Let_def awake_plan_def)
qed

lemma awake_previews: "preview_quest_awake hub1 awake_plan = (awake_hub awake_op1, Inr awake_op1)"
proof -
  have "awake_preflight_of sample_record 1100 True = awake_facts"
    by (simp add: awake_preflight_of_def owner_capability_facts_def Let_def no_other_capability other_capabilities
        awake_facts_def awake_expected_eligibility_def awake_expected_reason_code_def readiness_reason_def
        i64_wrapping_add_def)
  then have frozen: "freeze_awake_targets hub1 awake_plan (entries (apr_targets (app_request awake_plan))) = Inr [awake_facts]"
    by (simp add: awake_plan_def)
  have plan: "\<not> awake_plan_invalid awake_plan"
    using awake_ids_portable
    by (simp add: awake_plan_invalid_def awake_plan_def validate_awake_preview_request_def awake_policy_failures_def awake_bounds_defs exact_target_failures_Nil
        bt_len_insert bt_contains_key_def awake_preview_max_lifetime_ms_def)
  have "validate_awake awake_op1 = Inr ()" using awake_op1_valid by simp
  with frozen plan show ?thesis
    by (simp add: preview_quest_awake_def awake_op1_def [symmetric] max_awake_operations_def
        Let_def awake_hub_def) (simp add: awake_plan_def validate_awake_def valid_iff_Inr)
qed

lemma awake_revised [simp]: "fst (revise_awake (awake_hub op) ''awake-1'' op') = awake_hub op'"
  by (cases "validate_awake_operation op'") (simp_all add: revise_awake_def validate_awake_def)

lemma awake_op1_fields [simp]:
  "aop_targets awake_op1 = [proposed_awake_target 1100 awake_facts]" "aop_lifecycle awake_op1 = Proposed"
  "aop_operation_id awake_op1 = ''awake-1''" "av_preview_id (aop_preview awake_op1) = ''awake-preview-1''"
  "av_action (aop_preview awake_op1) = StartDeviceWatchdog" "av_watchdog_generation (aop_preview awake_op1) = ''watchdog-1''"
  "av_duration_ms (aop_preview awake_op1) = 60000" "av_watchdog_interval_ms (aop_preview awake_op1) = 1000"
  "av_expires_at_ms (aop_preview awake_op1) = 5000"
  by (simp_all add: awake_op1_def proposed_awake_operation_def Let_def awake_plan_def)

lemma awake_frozen_fields [simp]:
  "at_device_id (proposed_awake_target c awake_facts) = ''hmd-1''"
  "at_identity_revision (proposed_awake_target c awake_facts) = 1"
  "at_preflight (proposed_awake_target c awake_facts) = awake_facts"
  "at_lifecycle (proposed_awake_target c awake_facts) = Proposed"
  "at_invocation (proposed_awake_target c awake_facts) = None"
  "af_eligible awake_facts"
  by (simp_all add: proposed_awake_target_def awake_facts_def)

lemma awake_current:
  assumes "find (\<lambda>t. at_device_id t = ''hmd-1'') (aop_targets op) = Some t" and "at_identity_revision t = 1"
    and "900 \<le> now"
  shows "require_awake_target_current (awake_hub x) op ''hmd-1'' now = Inr ()"
  using assms by (simp add: require_awake_target_current_def find_awake_target_def) (simp add: sample_observation_def)

lemma awake_op2_fields [simp]:
  "aop_targets awake_op2 = [confirm_awake_target 1200 (proposed_awake_target 1100 awake_facts)]"
  "aop_operation_id awake_op2 = ''awake-1''" "aop_preview awake_op2 = aop_preview awake_op1"
  by (simp_all add: awake_op2_def confirmed_awake_operation_def with_awake_lifecycle_def)

lemma awake_confirms:
  "fst (confirm_quest_awake (awake_hub awake_op1) ''awake-1'' ''awake-preview-1'' 1200) = awake_hub awake_op2"
proof -
  have "require_awake_targets_current (awake_hub awake_op1) awake_op1 1200 = Inr ()"
    using awake_current [of awake_op1 _ 1200 awake_op1] by (simp add: require_awake_targets_current_def)
  then show ?thesis by (simp add: confirm_quest_awake_def quest_awake_operation_def awake_op2_def)
qed

lemma awake_op3_fields [simp]:
  "aop_targets awake_op3 = [prepared_awake_target awake_op2 ''request-2'' ''watchdog-1'' 1300
     (confirm_awake_target 1200 (proposed_awake_target 1100 awake_facts))]"
  "aop_operation_id awake_op3 = ''awake-1''" "aop_preview awake_op3 = aop_preview awake_op1"
  by (simp_all add: awake_op3_def change_awake_target_def confirm_awake_target_def)

lemma awake_prepares:
  "fst (prepare_quest_awake_invocation_with_watchdog_generation (awake_hub awake_op2) ''awake-1'' ''hmd-1'' ''request-2'' None 1300) =
     awake_hub awake_op3"
  using awake_current [of awake_op2 _ 1300 awake_op2]
  by (simp add: prepare_quest_awake_invocation_with_watchdog_generation_def invocation_watchdog_generation_def quest_awake_operation_def find_awake_target_def
      confirm_awake_target_def awake_op3_def)

lemma awake_op4_fields [simp]:
  "aop_targets awake_op4 = [dispatched_awake_target 1350 (prepared_awake_target awake_op2 ''request-2'' ''watchdog-1'' 1300
     (confirm_awake_target 1200 (proposed_awake_target 1100 awake_facts)))]"
  "aop_operation_id awake_op4 = ''awake-1''" "aop_preview awake_op4 = aop_preview awake_op1"
  by (simp_all add: awake_op4_def with_awake_lifecycle_def change_awake_target_def confirm_awake_target_def
      prepared_awake_target_def)

lemma awake_dispatches:
  "fst (mark_quest_awake_dispatched (awake_hub awake_op3) ''awake-1'' ''hmd-1'' 1350) = awake_hub awake_op4"
  by (simp add: mark_quest_awake_dispatched_def quest_awake_operation_def find_awake_target_def
      confirm_awake_target_def prepared_awake_target_def awake_op4_def)

lemma awake_readback_facts:
  "replicate 64 CHR ''b'' \<noteq> empty_sha256" "eq_ignore_ascii_case (trim ''CLOSE'') ''CLOSE''"
  "eq_ignore_ascii_case text text"
  by (simp_all add: empty_sha256_def numeral_eq_Suc, code_simp, simp add: eq_ignore_ascii_case_def)

lemma awake_receipt_1_valid: "valid (validate_awake_receipt awake_receipt_1)"
  using awake_ids_portable awake_readback_facts
  by (simp add: validate_awake_receipt_def awake_receipt_1_def is_lower_sha256_def list_all_iff is_ascii_hexdigit_def
      is_lower_hex_def is_ascii_uppercase_def is_ascii_digit_def awake_policy_failures_def awake_bounds_defs
      readback_failures_def expected_proximity_hold_def expected_wake_def
      expected_device_watchdog_def watchdog_poll_window_ms_def expected_settings_restored_def
      expected_settings_left_unchanged_def derived_effective_def Let_def i64_wrapping_add_def i64_max_def)

lemma awake_receives:
  "fst (apply_quest_awake_receipt (awake_hub awake_op4) awake_receipt_1 1400) = awake_hub awake_op5"
proof -
  have ids: "ar_operation_id awake_receipt_1 = ''awake-1''" "ar_device_id awake_receipt_1 = ''hmd-1''"
    "ar_observed_at_ms awake_receipt_1 = 1380" by (simp_all add: awake_receipt_1_def)
  have "\<not> awake_receipt_unbound awake_receipt_1 (prepared_awake_invocation awake_op2 ''request-2'' ''watchdog-1'' 1300
      (confirm_awake_target 1200 (proposed_awake_target 1100 awake_facts)))"
    by (simp add: awake_receipt_unbound_def prepared_awake_invocation_def confirm_awake_target_def awake_receipt_1_def)
  with awake_receipt_1_valid show ?thesis
    by (simp add: apply_quest_awake_receipt_def ids quest_awake_operation_def find_awake_target_def
        confirm_awake_target_def prepared_awake_target_def dispatched_awake_target_def awake_op5_def
        i64_wrapping_add_def)
qed

definition awake_run :: "hub_command list" where
  "awake_run = map Call_Awake [Preview_Awake awake_plan, Confirm_Awake ''awake-1'' ''awake-preview-1'' 1200,
     Prepare_Awake ''awake-1'' ''hmd-1'' ''request-2'' None 1300, Dispatch_Awake ''awake-1'' ''hmd-1'' 1350,
     Receive_Awake awake_receipt_1 1400]"

lemma awake_run_prefix:
  "run_commands no_bytes no_bytes no_sha no_codec hub1 (take 2 awake_run) = awake_hub awake_op2"
  "run_commands no_bytes no_bytes no_sha no_codec hub1 awake_run = awake_hub awake_op5"
  by (simp_all add: run_commands_def awake_run_def awake_previews awake_confirms awake_prepares awake_dispatches
      awake_receives numeral_2_eq_2)

lemma awake_hub_reachable:
  "reachable no_bytes no_bytes no_sha no_codec default_policy (awake_hub awake_op2)"
  "reachable no_bytes no_bytes no_sha no_codec default_policy (awake_hub awake_op5)"
  unfolding awake_run_prefix [symmetric]
  by (rule owner_run_reachable [OF hub1_reachable]; auto simp: awake_run_def is_owner_call_def dest: in_set_takeD)+

end
