(* ===== verification/Owner_Claims.thy ===== *)
theory Owner_Claims
  imports Owner_Runs Owner_Samples
begin

text \<open>
  Properties of the Quest Wi-Fi ADB and Quest awake operations over arbitrary runs of the Hub, the
  guarantees of their receipts, and the digest of a Termux admission.
\<close>

section \<open>Stored operations of a reachable Hub\<close>

lemma reachable_wifi_sound:
  assumes "reachable ob jb sha enc policy h" and "bt_get (fh_wifi_adb_operations h) k = Some op"
  shows "wifi_sound op" and "wop_operation_id op = k"
  using stores_okD(2) [OF hub_okD(8) [OF reachable_ok [OF assms(1)]]] assms(2)
  by (auto simp: wa.sound_store_def)

lemma reachable_awake_sound:
  assumes "reachable ob jb sha enc policy h" and "bt_get (fh_awake_operations h) k = Some op"
  shows "awake_sound op" and "aop_operation_id op = k"
  using stores_okD(3) [OF hub_okD(8) [OF reachable_ok [OF assms(1)]]] assms(2)
  by (auto simp: aw.sound_store_def)

lemma wifi_sound_target:
  assumes "wifi_sound op" and "t \<in> set (wop_targets op)"
  shows "target_sound wifi_receipt_answers wr_effect_applied (abs_wifi_target t)" and "wifi_target_bound op t"
  using assms by (auto simp: wifi_sound_def ledger_sound_def wifi_targets_bound_def)

lemma awake_sound_target:
  assumes "awake_sound op" and "t \<in> set (aop_targets op)"
  shows "target_sound awake_receipt_answers ar_effective (abs_awake_target t)" and "awake_target_bound op t"
  using assms by (auto simp: awake_sound_def ledger_sound_def awake_targets_bound_def)

lemma wifi_eligible_ready:
  assumes "wifi_sound op" and "t \<in> set (wop_targets op)" and "wf_eligible (wt_preflight t)"
  shows "wifi_expected_eligibility (wt_preflight t)"
proof -
  have "valid (validate_wifi_preview (wop_preview op))" "wt_preflight t \<in> set (wv_targets (wop_preview op))"
    using assms(1,2) by (auto simp: wifi_sound_def wifi_preview_bound_def)
  then obtain i where i: "i < length (wv_targets (wop_preview op))" "wv_targets (wop_preview op) ! i = wt_preflight t"
    "wifi_preview_target_failures (wop_preview op) i (wt_preflight t) = []"
    by (auto simp: validate_wifi_preview_def in_set_conv_nth)
  then show ?thesis
    using assms(3) by (auto simp: wifi_preview_target_failures_def validate_wifi_preflight_def)
qed

lemma awake_eligible_ready:
  assumes "awake_sound op" and "t \<in> set (aop_targets op)" and "af_eligible (at_preflight t)"
  shows "awake_expected_eligibility (at_preflight t)"
proof -
  have "valid (validate_awake_preview (aop_preview op))" "at_preflight t \<in> set (av_targets (aop_preview op))"
    using assms(1,2) by (auto simp: awake_sound_def awake_preview_bound_def)
  then obtain i where i: "i < length (av_targets (aop_preview op))" "av_targets (aop_preview op) ! i = at_preflight t"
    "awake_preview_target_failures (aop_preview op) i (at_preflight t) = []"
    by (auto simp: validate_awake_preview_def in_set_conv_nth)
  then show ?thesis
    using assms(3) by (auto simp: awake_preview_target_failures_def validate_awake_preflight_def)
qed

lemma valid_wifi_receipt_effect: "valid (validate_wifi_receipt r) \<Longrightarrow> wr_effect_applied r = derived_effect_applied r"
  by (simp add: validate_wifi_receipt_def)

lemma valid_awake_receipt_effect: "valid (validate_awake_receipt r) \<Longrightarrow> ar_effective r = derived_effective r"
  by (simp add: validate_awake_receipt_def)

section \<open>Applied targets\<close>

text \<open>C16: In a reachable Hub a Wi-Fi ADB target is \<open>Applied\<close> only when it was ready at the frozen preview and
  a contract-valid owner receipt shows the effect its action must have: bound to this operation,
  preview, device, identity revision and action, to the request ID of the target's own invocation,
  and observed between that invocation and the preview's expiry. This holds even of an operation that a
  failed call left behind; and no target of any operation the Hub keeps, applied or not, is marked usable from
  Termux or holds a Termux proof or admission.\<close>

theorem wifi_applied_only_with_receipt:
  assumes "reachable ob jb sha enc policy h" and "bt_get (fh_wifi_adb_operations h) k = Some op"
    and "t \<in> set (wop_targets op)"
  shows "\<not> wt_termux_usable t \<and> wt_termux_proof t = None \<and> wt_termux_admission t = None \<and>
     (wt_lifecycle t = Applied \<longrightarrow> wifi_expected_eligibility (wt_preflight t) \<and>
     (\<exists>i r. wt_invocation t = Some i \<and> wt_receipt t = Some r \<and>
        valid (validate_wifi_receipt r) \<and> derived_effect_applied r \<and>
        wr_operation_id r = k \<and> wr_preview_id r = wv_preview_id (wop_preview op) \<and>
        wr_device_id r = wt_device_id t \<and> wr_identity_revision r = wt_identity_revision t \<and>
        wr_action r = wv_action (wop_preview op) \<and> wr_request_id r = wi_request_id i \<and>
        wi_issued_at_ms i \<le> wr_observed_at_ms r \<and>
        wr_observed_at_ms r \<le> wv_expires_at_ms (wop_preview op)))"
proof (intro conjI impI)
  note sound = reachable_wifi_sound [OF assms(1,2)]
  note target = wifi_sound_target [OF sound(1) assms(3)]
  show "\<not> wt_termux_usable t" "wt_termux_proof t = None" "wt_termux_admission t = None"
    using target(2) by (simp_all add: wifi_target_bound_def)
  assume applied: "wt_lifecycle t = Applied"
  have eligible: "wf_eligible (wt_preflight t)"
    using target(1) applied by (auto simp: target_sound_def)
  show "wifi_expected_eligibility (wt_preflight t)" by (rule wifi_eligible_ready [OF sound(1) assms(3) eligible])
  from target(1) applied obtain i r where ir: "wt_receipt t = Some r" "wr_effect_applied r"
    "wt_invocation t = Some i" "wifi_receipt_answers i r"
    by (auto simp: target_sound_def)
  then show "\<exists>i r. wt_invocation t = Some i \<and> wt_receipt t = Some r \<and>
        valid (validate_wifi_receipt r) \<and> derived_effect_applied r \<and>
        wr_operation_id r = k \<and> wr_preview_id r = wv_preview_id (wop_preview op) \<and>
        wr_device_id r = wt_device_id t \<and> wr_identity_revision r = wt_identity_revision t \<and>
        wr_action r = wv_action (wop_preview op) \<and> wr_request_id r = wi_request_id i \<and>
        wi_issued_at_ms i \<le> wr_observed_at_ms r \<and>
        wr_observed_at_ms r \<le> wv_expires_at_ms (wop_preview op)"
    using target(2) sound(2) valid_wifi_receipt_effect
    by (auto simp: wifi_target_bound_def wifi_receipt_answers_def wifi_receipt_unbound_def not_less)
qed

lemma wifi_sample_applied: "\<exists>t. wop_targets wifi_op5 = [t] \<and> wt_lifecycle t = Applied \<and> wt_preflight t = wifi_facts \<and>
    wt_receipt t = Some wifi_receipt_1"
  by (simp add: wifi_op5_def with_wifi_lifecycle_def change_wifi_target_def dispatched_wifi_target_def
      prepared_wifi_target_def confirm_wifi_target_def received_wifi_target_def) (simp add: wifi_receipt_1_def)

lemma wifi_applied_only_with_receipt_witness:
  "valid (validate_wifi_receipt wifi_receipt_1) \<and> derived_effect_applied wifi_receipt_1 \<and>
   wr_preview_id wifi_receipt_1 = wv_preview_id (wop_preview wifi_op5)"
proof -
  obtain t where "wop_targets wifi_op5 = [t]" "wt_lifecycle t = Applied" "wt_receipt t = Some wifi_receipt_1"
    using wifi_sample_applied by blast
  then show ?thesis
    using wifi_applied_only_with_receipt [OF wifi_hub_reachable(2), of "''wifi-1''" wifi_op5 t] by auto
qed

text \<open>C17: In a reachable Hub a Quest awake target is \<open>Applied\<close> only when it was ready at the frozen preview and
  a contract-valid owner receipt shows its effect, bound to this operation, preview, device, identity
  revision, action and policy and to the request ID and the watchdog generation of the target's own
  invocation; that generation is the preview's, except for the actions that stop watchdogs or restore normal
  behaviour, whose invocation takes the generation the caller names instead.\<close>

theorem awake_applied_only_with_receipt:
  assumes "reachable ob jb sha enc policy h" and "bt_get (fh_awake_operations h) k = Some op"
    and "t \<in> set (aop_targets op)" and "at_lifecycle t = Applied"
  shows "awake_expected_eligibility (at_preflight t) \<and>
     (\<exists>i r. at_invocation t = Some i \<and> at_receipt t = Some r \<and>
        valid (validate_awake_receipt r) \<and> derived_effective r \<and>
        ar_operation_id r = k \<and> ar_preview_id r = av_preview_id (aop_preview op) \<and>
        ar_device_id r = at_device_id t \<and> ar_identity_revision r = at_identity_revision t \<and>
        ar_action r = av_action (aop_preview op) \<and>
        ar_requested_duration_ms r = av_duration_ms (aop_preview op) \<and>
        ar_requested_watchdog_interval_ms r = av_watchdog_interval_ms (aop_preview op) \<and>
        ar_watchdog_generation r = ai_watchdog_generation i \<and>
        (av_action (aop_preview op) \<notin> {StopWatchdogs, RestoreNormal} \<longrightarrow>
           ar_watchdog_generation r = av_watchdog_generation (aop_preview op)) \<and>
        ar_request_id r = ai_request_id i \<and> ai_issued_at_ms i \<le> ar_observed_at_ms r)"
proof -
  note sound = reachable_awake_sound [OF assms(1,2)]
  note target = awake_sound_target [OF sound(1) assms(3)]
  have eligible: "af_eligible (at_preflight t)"
    using target(1) assms(4) by (auto simp: target_sound_def)
  from target(1) assms(4) obtain i r where ir: "at_receipt t = Some r" "ar_effective r"
    "at_invocation t = Some i" "awake_receipt_answers i r"
    by (auto simp: target_sound_def)
  then show ?thesis
    using awake_eligible_ready [OF sound(1) assms(3) eligible] target(2) sound(2) valid_awake_receipt_effect
    by (auto simp: awake_target_bound_def awake_receipt_answers_def awake_receipt_unbound_def not_less)
qed

lemma awake_sample_applied: "\<exists>t. aop_targets awake_op5 = [t] \<and> at_lifecycle t = Applied \<and> at_preflight t = awake_facts \<and>
    at_receipt t = Some awake_receipt_1"
  by (simp add: awake_op5_def with_awake_lifecycle_def change_awake_target_def dispatched_awake_target_def
      prepared_awake_target_def confirm_awake_target_def received_awake_target_def) (simp add: awake_receipt_1_def)

lemma awake_applied_only_with_receipt_witness:
  "valid (validate_awake_receipt awake_receipt_1) \<and> derived_effective awake_receipt_1 \<and>
   ar_watchdog_generation awake_receipt_1 = av_watchdog_generation (aop_preview awake_op5)"
proof -
  obtain t where "aop_targets awake_op5 = [t]" "at_lifecycle t = Applied" "at_receipt t = Some awake_receipt_1"
    using awake_sample_applied by blast
  moreover have "av_action (aop_preview awake_op5) = StartDeviceWatchdog"
    by (simp add: awake_op5_def with_awake_lifecycle_def change_awake_target_def)
  ultimately show ?thesis
    using awake_applied_only_with_receipt [OF awake_hub_reachable(2), of "''awake-1''" awake_op5 t] by auto
qed

text \<open>What an effective awake receipt proves rests on readbacks, not on the owner's word: the power state
  read within the last thirty seconds shows stay-on, the proximity hold of the requested duration and
  an awake display for every action that keeps the device awake; a device watchdog is reported active,
  fresh and under the bound generation and interval; stopping and restoring leave no watchdog
  active, and restoring finds stay-on off.\<close>

theorem awake_effect_from_readbacks:
  assumes "valid (validate_awake_receipt r)" and "ar_effective r"
  shows "apw_captured_at_ms (ar_power r) \<le> ar_observed_at_ms r \<and>
     ar_observed_at_ms r - apw_captured_at_ms (ar_power r) \<le> 30000 \<and>
     (ar_action r \<in> {ApplyBounded, StartWindowsWatchdog, StartDeviceWatchdog} \<longrightarrow>
        apw_stay_on (ar_power r) \<and>
        apw_proximity_hold_duration_ms (ar_power r) = Some (ar_requested_duration_ms r) \<and>
        eq_ignore_ascii_case (apw_wakefulness (ar_power r)) ''Awake'') \<and>
     (ar_action r = StartWindowsWatchdog \<longrightarrow> ar_windows_watchdog_effective r) \<and>
     (ar_action r = StartDeviceWatchdog \<longrightarrow>
        awd_reported_active (ar_device_watchdog r) \<and> awd_fresh (ar_device_watchdog r) \<and>
        awd_generation (ar_device_watchdog r) = ar_watchdog_generation r \<and>
        awd_interval_ms (ar_device_watchdog r) = ar_requested_watchdog_interval_ms r) \<and>
     (ar_action r \<in> {ApplyBounded, StartWindowsWatchdog, StopWatchdogs, RestoreNormal} \<longrightarrow>
        \<not> awd_reported_active (ar_device_watchdog r)) \<and>
     (ar_action r = RestoreNormal \<longrightarrow>
        \<not> apw_stay_on (ar_power r) \<and> apw_auto_sleep_disabled (ar_power r) \<noteq> Some True)"
proof -
  have effect: "derived_effective r" using assms valid_awake_receipt_effect by simp
  have "readback_failures r = []" using assms(1) by (simp add: validate_awake_receipt_def)
  then have window: "apw_captured_at_ms (ar_power r) \<le> ar_observed_at_ms r"
    "ar_observed_at_ms r - apw_captured_at_ms (ar_power r) \<le> 30000"
    by (simp_all add: readback_failures_def Let_def)
  have summary: "ar_stay_on_effective r = apw_stay_on (ar_power r)"
    "ar_proximity_hold_effective r = expected_proximity_hold r" "ar_wake_effective r = expected_wake r"
    "ar_device_watchdog_effective r = expected_device_watchdog r"
    "ar_settings_restored r = expected_settings_restored r"
    using assms(1) by (simp_all add: validate_awake_receipt_def)
  show ?thesis
    using effect window summary
    by (cases "ar_action r") (simp_all add: derived_effective_def Let_def expected_proximity_hold_def
        expected_wake_def expected_device_watchdog_def expected_settings_restored_def)
qed

lemma awake_effect_from_readbacks_witness:
  "awd_fresh (ar_device_watchdog awake_receipt_1) \<and>
   awd_generation (ar_device_watchdog awake_receipt_1) = ar_watchdog_generation awake_receipt_1"
proof -
  have "ar_effective awake_receipt_1" "ar_action awake_receipt_1 = StartDeviceWatchdog"
    by (simp_all add: awake_receipt_1_def)
  with awake_effect_from_readbacks [OF awake_receipt_1_valid] show ?thesis by simp
qed

text \<open>In a reachable Hub a Wi-Fi ADB or awake target that was not eligible at the frozen preview has no owner
  invocation and no receipt: it is rejected, or failed by an explicit failure report, and nothing
  is ever sent to its owner. An eligible one was supported, enabled, authorized, reachable and current.\<close>

theorem ineligible_never_invoked:
  assumes "reachable ob jb sha enc policy h"
  shows "(\<forall>k op t. bt_get (fh_wifi_adb_operations h) k = Some op \<longrightarrow> t \<in> set (wop_targets op) \<longrightarrow>
            (if wf_eligible (wt_preflight t) then wifi_expected_eligibility (wt_preflight t)
             else wt_invocation t = None \<and> wt_receipt t = None \<and>
                  wt_lifecycle t \<in> {Rejected, Lifecycle_Failed})) \<and>
     (\<forall>k op t. bt_get (fh_awake_operations h) k = Some op \<longrightarrow> t \<in> set (aop_targets op) \<longrightarrow>
            (if af_eligible (at_preflight t) then awake_expected_eligibility (at_preflight t)
             else at_invocation t = None \<and> at_receipt t = None \<and>
                  at_lifecycle t \<in> {Rejected, Lifecycle_Failed}))"
proof (intro conjI allI impI)
  fix k op t
  assume op: "bt_get (fh_wifi_adb_operations h) k = Some op" and t: "t \<in> set (wop_targets op)"
  note sound = reachable_wifi_sound(1) [OF assms op]
  show "if wf_eligible (wt_preflight t) then wifi_expected_eligibility (wt_preflight t)
    else wt_invocation t = None \<and> wt_receipt t = None \<and> wt_lifecycle t \<in> {Rejected, Lifecycle_Failed}"
    using wifi_eligible_ready [OF sound t] wifi_sound_target(1) [OF sound t]
    by (cases "wt_receipt t") (auto simp: target_sound_def)
next
  fix k op t
  assume op: "bt_get (fh_awake_operations h) k = Some op" and t: "t \<in> set (aop_targets op)"
  note sound = reachable_awake_sound(1) [OF assms op]
  show "if af_eligible (at_preflight t) then awake_expected_eligibility (at_preflight t)
    else at_invocation t = None \<and> at_receipt t = None \<and> at_lifecycle t \<in> {Rejected, Lifecycle_Failed}"
    using awake_eligible_ready [OF sound t] awake_sound_target(1) [OF sound t]
    by (cases "at_receipt t") (auto simp: target_sound_def)
qed

lemma ineligible_never_invoked_witness: "wifi_expected_eligibility wifi_facts"
proof -
  obtain t where "wop_targets wifi_op5 = [t]" "wt_preflight t = wifi_facts"
    using wifi_sample_applied by blast
  then show ?thesis
    using ineligible_never_invoked [OF wifi_hub_reachable(2), THEN conjunct1, rule_format, of "''wifi-1''" wifi_op5 t]
    by simp
qed

section \<open>Refinement and histories\<close>

text \<open>C10: The Wi-Fi ADB and awake operations refine the owner ledger: seen through the abstraction, every
  command on a reachable Hub leaves each operation ID as it was, starts a ledger with its eligible
  targets proposed, or makes one ledger step (confirm, prepare, or a dispatch, receipt or failure of
  one target) on it. What the preview froze never changes.\<close>

theorem owner_operations_refine_ledger:
  assumes "reachable ob jb sha enc policy h" and "h' = run_command ob jb sha enc h c"
  shows "ledger_moves wifi_receipt_answers wr_effect_applied
       (map_option abs_wifi (bt_get (fh_wifi_adb_operations h) k))
       (map_option abs_wifi (bt_get (fh_wifi_adb_operations h') k)) \<and>
     ledger_moves awake_receipt_answers ar_effective
       (map_option abs_awake (bt_get (fh_awake_operations h) k))
       (map_option abs_awake (bt_get (fh_awake_operations h') k)) \<and>
     (\<forall>op. bt_get (fh_wifi_adb_operations h) k = Some op \<longrightarrow>
        map_option wifi_frame (bt_get (fh_wifi_adb_operations h') k) = Some (wifi_frame op)) \<and>
     (\<forall>op. bt_get (fh_awake_operations h) k = Some op \<longrightarrow>
        map_option awake_frame (bt_get (fh_awake_operations h') k) = Some (awake_frame op))"
proof -
  note stores = hub_okD(8) [OF reachable_ok [OF assms(1)]]
  have "map_option wifi_frame (bt_get (fh_wifi_adb_operations h') k) = Some (wifi_frame op)"
    if "bt_get (fh_wifi_adb_operations h) k = Some op" for op
    using run_command_wifi_evolves [OF stores that, of ob jb sha enc c]
    by (auto simp: assms(2) wifi_evolves_def)
  moreover have "map_option awake_frame (bt_get (fh_awake_operations h') k) = Some (awake_frame op)"
    if "bt_get (fh_awake_operations h) k = Some op" for op
    using run_command_awake_evolves [OF stores that, of ob jb sha enc c]
    by (auto simp: assms(2) awake_evolves_def)
  ultimately show ?thesis
    using run_command_wifi_moves [OF stores] run_command_awake_moves [OF stores] by (simp add: assms(2))
qed

lemma owner_operations_refine_ledger_witness:
  "ledger_moves wifi_receipt_answers wr_effect_applied None (Some (abs_wifi wifi_op1))"
  using owner_operations_refine_ledger [OF hub1_reachable refl, where c = "Call_Wifi (Preview_Wifi wifi_plan)" and
      k = "''wifi-1''", THEN conjunct1]
  by (simp add: wifi_previews)

text \<open>C34: Nothing an owner was asked to do is forgotten. Over any further commands a Wi-Fi ADB or awake
  operation of a reachable Hub keeps its ID, preview and targets in order; a target that was
  dispatched keeps its invocation and never returns to a state before dispatch, and a failed target
  stays failed.\<close>

theorem owner_targets_no_way_back:
  assumes "reachable ob jb sha enc policy h" and "h' = run_commands ob jb sha enc h cs"
  shows "(\<forall>k op. bt_get (fh_wifi_adb_operations h) k = Some op \<longrightarrow>
       (\<exists>op'. bt_get (fh_wifi_adb_operations h') k = Some op' \<and> wifi_frame op' = wifi_frame op \<and>
          list_all2 target_onward (map abs_wifi_target (wop_targets op)) (map abs_wifi_target (wop_targets op')))) \<and>
     (\<forall>k op. bt_get (fh_awake_operations h) k = Some op \<longrightarrow>
       (\<exists>op'. bt_get (fh_awake_operations h') k = Some op' \<and> awake_frame op' = awake_frame op \<and>
          list_all2 target_onward (map abs_awake_target (aop_targets op)) (map abs_awake_target (aop_targets op'))))"
proof -
  note stores = hub_okD(8) [OF reachable_ok [OF assms(1)]]
  show ?thesis
    using run_commands_wifi_history [OF stores] run_commands_awake_history [OF stores]
    by (simp add: assms(2) wifi_history_def awake_history_def)
qed

lemma owner_targets_no_way_back_witness:
  "\<exists>op. bt_get (fh_wifi_adb_operations (run_commands no_bytes no_bytes no_sha no_codec (wifi_hub wifi_op5)
     [Call_Wifi (Fail_Wifi ''wifi-1'' ''hmd-1'' ''lost'' 1500)])) ''wifi-1'' = Some op \<and>
     wifi_frame op = wifi_frame wifi_op5"
  using owner_targets_no_way_back [OF wifi_hub_reachable(2) refl, THEN conjunct1, rule_format, of "''wifi-1''" wifi_op5]
  by auto

section \<open>Results\<close>

lemma wifi_method_effect:
  assumes "wa.sound_store h" and run: "run_wifi sha h call = (h', result)"
  shows "(case result of
       Inr op \<Rightarrow> bt_get (fh_wifi_adb_operations h') (wifi_key call) = Some op \<and>
         (h' = h \<or> valid (validate_wifi_operation sha op))
     | Inl e \<Rightarrow> h' = h \<or> (\<exists>op. bt_get (fh_wifi_adb_operations h') (wifi_key call) = Some op \<and>
         \<not> valid (validate_wifi_operation sha op))) \<and>
     (\<forall>j. j \<noteq> wifi_key call \<longrightarrow> bt_get (fh_wifi_adb_operations h') j = bt_get (fh_wifi_adb_operations h) j) \<and>
     h'\<lparr>fh_wifi_adb_operations := fh_wifi_adb_operations h\<rparr> = h"
proof -
  note r = run_wifi_inplace [OF assms(1), of sha call, unfolded run]
  obtain m where "h' = h\<lparr>fh_wifi_adb_operations := m\<rparr>"
    using run_wifi_frame [OF assms(1), of sha call] run by auto
  then have frame: "h'\<lparr>fh_wifi_adb_operations := fh_wifi_adb_operations h\<rparr> = h" by simp
  show ?thesis
  proof (intro conjI frame allI impI)
    fix j assume "j \<noteq> wifi_key call"
    then show "bt_get (fh_wifi_adb_operations h') j = bt_get (fh_wifi_adb_operations h) j"
      using wa.inplace_others [OF r] by (simp only: fst_conv)
  qed (cases result; use wa.inplace_success [OF r] wa.inplace_failure [OF r] in
    \<open>simp only: fst_conv snd_conv sum.case sum.inject simp_thms\<close>)
qed

lemma awake_method_effect:
  assumes "aw.sound_store h" and run: "run_awake h call = (h', result)"
  shows "(case result of
       Inr op \<Rightarrow> bt_get (fh_awake_operations h') (awake_key call) = Some op \<and>
         (h' = h \<or> valid (validate_awake_operation op))
     | Inl e \<Rightarrow> h' = h \<or> (\<exists>op. bt_get (fh_awake_operations h') (awake_key call) = Some op \<and>
         \<not> valid (validate_awake_operation op))) \<and>
     (\<forall>j. j \<noteq> awake_key call \<longrightarrow> bt_get (fh_awake_operations h') j = bt_get (fh_awake_operations h) j) \<and>
     h'\<lparr>fh_awake_operations := fh_awake_operations h\<rparr> = h"
proof -
  note r = run_awake_inplace [OF assms(1), of call, unfolded run]
  obtain m where "h' = h\<lparr>fh_awake_operations := m\<rparr>"
    using run_awake_frame [OF assms(1), of call] run by auto
  then have frame: "h'\<lparr>fh_awake_operations := fh_awake_operations h\<rparr> = h" by simp
  show ?thesis
  proof (intro conjI frame allI impI)
    fix j assume "j \<noteq> awake_key call"
    then show "bt_get (fh_awake_operations h') j = bt_get (fh_awake_operations h) j"
      using aw.inplace_others [OF r] by (simp only: fst_conv)
  qed (cases result; use aw.inplace_success [OF r] aw.inplace_failure [OF r] in
    \<open>simp only: fst_conv snd_conv sum.case sum.inject simp_thms\<close>)
qed

text \<open>What the result of a Wi-Fi ADB or awake method says of the store. A success returned the stored
  operation, and either nothing changed or it passes its contract; an error changed nothing, or it
  left behind an operation that its own contract rejects. No other operation and nothing
  else of the Hub is touched.\<close>

theorem owner_method_effect:
  assumes "reachable ob jb sha enc policy h"
  shows "(\<forall>call h' result. run_wifi sha h call = (h', result) \<longrightarrow>
       (case result of
          Inr op \<Rightarrow> bt_get (fh_wifi_adb_operations h') (wifi_key call) = Some op \<and>
            (h' = h \<or> valid (validate_wifi_operation sha op))
        | Inl e \<Rightarrow> h' = h \<or> (\<exists>op. bt_get (fh_wifi_adb_operations h') (wifi_key call) = Some op \<and>
            \<not> valid (validate_wifi_operation sha op))) \<and>
       (\<forall>j. j \<noteq> wifi_key call \<longrightarrow> bt_get (fh_wifi_adb_operations h') j = bt_get (fh_wifi_adb_operations h) j) \<and>
       h'\<lparr>fh_wifi_adb_operations := fh_wifi_adb_operations h\<rparr> = h) \<and>
     (\<forall>call h' result. run_awake h call = (h', result) \<longrightarrow>
       (case result of
          Inr op \<Rightarrow> bt_get (fh_awake_operations h') (awake_key call) = Some op \<and>
            (h' = h \<or> valid (validate_awake_operation op))
        | Inl e \<Rightarrow> h' = h \<or> (\<exists>op. bt_get (fh_awake_operations h') (awake_key call) = Some op \<and>
            \<not> valid (validate_awake_operation op))) \<and>
       (\<forall>j. j \<noteq> awake_key call \<longrightarrow> bt_get (fh_awake_operations h') j = bt_get (fh_awake_operations h) j) \<and>
       h'\<lparr>fh_awake_operations := fh_awake_operations h\<rparr> = h)"
  using wifi_method_effect awake_method_effect stores_okD(2,3) [OF hub_okD(8) [OF reachable_ok [OF assms]]]
  by blast

lemma owner_method_effect_witness:
  "\<exists>h' result. run_awake (awake_hub awake_op2) (Fail_Awake ''awake-1'' ''hmd-1'' [] 1300) = (h', result) \<and>
     h'\<lparr>fh_awake_operations := fh_awake_operations (awake_hub awake_op2)\<rparr> = awake_hub awake_op2"
proof -
  obtain h' result where run: "run_awake (awake_hub awake_op2) (Fail_Awake ''awake-1'' ''hmd-1'' [] 1300) = (h', result)"
    by (cases "run_awake (awake_hub awake_op2) (Fail_Awake ''awake-1'' ''hmd-1'' [] 1300)")
  with owner_method_effect [OF awake_hub_reachable(1), THEN conjunct2, rule_format, OF run] show ?thesis by blast
qed

text \<open>An owner invocation prepared at the very instant its preview expires (or under a malformed request
  ID) is refused with \<^verbatim>\<open>wifi_adb_operation_invalid\<close>, but only after it was written into the
  stored operation, which its contract now rejects: from then on no snapshot of the Hub can be restored.\<close>

theorem refused_preparation_spoils_snapshot:
  assumes "reachable ob jb sha enc policy h" and "bt_get (fh_wifi_adb_operations h) k = Some op"
    and "find (\<lambda>t. wt_device_id t = d) (wop_targets op) = Some t" and "wt_lifecycle t = Accepted"
    and "require_wifi_adb_target_current h op d now = Inr ()" and "now \<le> wv_expires_at_ms (wop_preview op)"
    and "now = wv_expires_at_ms (wop_preview op) \<or> \<not> is_portable_id request_id 256"
  shows "\<exists>h' e. prepare_quest_wifi_adb_invocation sha h k d request_id now = (h', Inl e) \<and>
     he_code e = ''wifi_adb_operation_invalid'' \<and> (\<forall>x. restore ob jb sha enc policy (snapshot h') \<noteq> Inr x)"
proof -
  let ?op = "change_wifi_target op d (prepared_wifi_target op request_id now) now"
  let ?t = "prepared_wifi_target op request_id now t"
  let ?h = "put_wifi k ?op h"
  have "wt_device_id t = d" using find_Some_set [OF assms(3)] by simp
  then have member: "?t \<in> set (wop_targets ?op)"
    using find_Some_set [OF find_update_first [OF assms(3), of "prepared_wifi_target op request_id now"]]
    by (simp add: change_wifi_target_def prepared_wifi_target_def)
  have "\<not> valid (validate_wifi_invocation (prepared_invocation op request_id now t))"
    using assms(7) by (auto simp: validate_wifi_invocation_def prepared_invocation_def)
  then have "wifi_operation_target_failures sha ?op ?t \<noteq> []"
    by (simp add: wifi_operation_target_failures_def wifi_bound_target_failures_def wifi_invocation_mismatch_def
        prepared_wifi_target_def split: option.split)
  with member have invalid: "\<not> valid (validate_wifi_operation sha ?op)"
    by (auto simp: validate_wifi_operation_def)
  then obtain failures where "validate_wifi_operation sha ?op = Inl failures"
    by (cases "validate_wifi_operation sha ?op") (auto simp: valid_def)
  then have run: "prepare_quest_wifi_adb_invocation sha h k d request_id now =
      (?h, Inl (hub_error ''wifi_adb_operation_invalid'' (path_code_text failures)))"
    using assms(2-6) by (simp add: prepare_quest_wifi_adb_invocation_def revise_wifi_def validate_wifi_def
        quest_wifi_adb_operation_def find_wifi_target_def)
  then have "?h = run_command ob jb sha enc h (Call_Wifi (Prepare_Wifi k d request_id now))" by simp
  moreover have "admissible h (Call_Wifi (Prepare_Wifi k d request_id now))" by (simp add: admissible_def)
  ultimately have "reachable ob jb sha enc policy ?h" using reachable.step [OF assms(1)] by metis
  moreover have "\<not> restorable sha ?h" using invalid by (auto simp: restorable_def put_wifi_def)
  ultimately have "restore ob jb sha enc policy (snapshot ?h) \<noteq> Inr x" for x
    using restore_snapshot_only restore_snapshot_iff by metis
  moreover have "he_code (hub_error c m) = c" for c m by (simp add: hub_error_def)
  ultimately show ?thesis using run by blast
qed

lemma refused_preparation_spoils_snapshot_witness:
  "\<exists>h' e. prepare_quest_wifi_adb_invocation no_sha (wifi_hub wifi_op2) ''wifi-1'' ''hmd-1'' ''request-1'' 5000 =
     (h', Inl e) \<and> (\<forall>x. restore no_bytes no_bytes no_sha no_codec default_policy (snapshot h') \<noteq> Inr x)"
proof -
  let ?t = "confirm_wifi_target 1200 (proposed_wifi_target 1100 wifi_facts)"
  have "find (\<lambda>t. wt_device_id t = ''hmd-1'') (wop_targets wifi_op2) = Some ?t" "wt_lifecycle ?t = Accepted"
    "require_wifi_adb_target_current (wifi_hub wifi_op2) wifi_op2 ''hmd-1'' 5000 = Inr ()"
    using wifi_current [of wifi_op2 ?t 5000 wifi_op2] by (simp_all add: confirm_wifi_target_def)
  moreover have "bt_get (fh_wifi_adb_operations (wifi_hub wifi_op2)) ''wifi-1'' = Some wifi_op2"
    "5000 \<le> wv_expires_at_ms (wop_preview wifi_op2)" "5000 = wv_expires_at_ms (wop_preview wifi_op2)" by simp_all
  ultimately have "\<exists>h' e. prepare_quest_wifi_adb_invocation no_sha (wifi_hub wifi_op2) ''wifi-1'' ''hmd-1'' ''request-1'' 5000 =
      (h', Inl e) \<and> he_code e = ''wifi_adb_operation_invalid'' \<and>
      (\<forall>x. restore no_bytes no_bytes no_sha no_codec default_policy (snapshot h') \<noteq> Inr x)"
    using refused_preparation_spoils_snapshot [OF wifi_hub_reachable(1)] by blast
  then show ?thesis by blast
qed

section \<open>The digest of an admission\<close>

text \<open>The lineage digest binds what it covers: two valid admissions with the same digest agree on every
  identifier, digest, revision and time of the lineage, unless the two messages actually digested
  are a collision of SHA-256.\<close>

theorem lineage_digest_binds:
  assumes "valid (validate_termux_admission sha a)" and "valid (validate_termux_admission sha b)"
    and "admission_typed a" and "admission_typed b" and "ta_lineage_sha256 a = ta_lineage_sha256 b"
  shows "lineage_texts a = lineage_texts b \<and> lineage_revisions a = lineage_revisions b \<and>
       ta_accepted_at_ms a = ta_accepted_at_ms b \<and> ta_expires_at_ms a = ta_expires_at_ms b \<or>
     lineage_message a \<noteq> lineage_message b \<and> sha (lineage_message a) = sha (lineage_message b)"
proof (cases "lineage_message a = lineage_message b")
  case True
  then show ?thesis using lineage_message_inj [OF assms(1-4)] by simp
next
  case False
  have "sha (lineage_message a) = sha (lineage_message b)"
    using assms(1,2,5) by (simp add: validate_termux_admission_def expected_lineage_sha256_def)
  with False show ?thesis by simp
qed

definition one_sha :: "string \<Rightarrow> string" where
  "one_sha _ = replicate 64 CHR ''a''"

definition sample_admission :: "u64 \<Rightarrow> termux_admission" where
  "sample_admission source_revision = \<lparr>
     ta_schema = termux_admission_schema, ta_checkin_id = ''hmd-1'', ta_operation_id = ''wifi-1'',
     ta_device_id = ''hmd-1'', ta_identity_revision = 1, ta_source_epoch = ''hmd-1'',
     ta_source_revision = source_revision, ta_evidence_revision = 1, ta_proof_id = ''hmd-1'',
     ta_receipt_request_id = ''request-1'', ta_receipt_evidence_sha256 = one_sha [], ta_key_id = ''hmd-1'',
     ta_key_generation = 1, ta_public_key_sha256 = one_sha [], ta_claims_jcs_sha256 = one_sha [],
     ta_signing_message_sha256 = one_sha [], ta_signature_sha256 = one_sha [],
     ta_fleet_accepted_revision = 1, ta_enrollment_authority_revision = 1,
     ta_manifold_authority_revision = 1, ta_signature_verified = True,
     ta_canonical_claims_verified = True, ta_enrollment_active = True, ta_accepted_at_ms = 1000,
     ta_expires_at_ms = 2000, ta_lineage_sha256 = one_sha []\<rparr>"

lemma sample_admission_valid: "0 < v \<Longrightarrow> valid (validate_termux_admission one_sha (sample_admission v))"
proof -
  have "is_lower_sha256 (one_sha [])"
    by (simp add: one_sha_def is_lower_sha256_def list_all_iff is_ascii_hexdigit_def is_lower_hex_def
        is_ascii_uppercase_def is_ascii_digit_def)
  then show "0 < v \<Longrightarrow> ?thesis"
    using wifi_ids_portable
    by (simp add: validate_termux_admission_def sample_admission_def expected_lineage_sha256_def one_sha_def)
qed

lemma sample_admission_typed: "v \<le> 2 \<Longrightarrow> admission_typed (sample_admission v)"
  by (simp add: admission_typed_def lineage_revisions_def sample_admission_def u64_max_def is_i64_def
      i64_min_def i64_max_def)

lemma lineage_digest_binds_witness:
  "lineage_message (sample_admission 1) \<noteq> lineage_message (sample_admission 2)"
proof -
  have digest: "ta_lineage_sha256 (sample_admission 1) = ta_lineage_sha256 (sample_admission 2)"
    by (simp add: sample_admission_def)
  have "lineage_revisions (sample_admission 1) \<noteq> lineage_revisions (sample_admission 2)"
    by (simp add: lineage_revisions_def) (simp add: sample_admission_def)
  with lineage_digest_binds [OF sample_admission_valid sample_admission_valid sample_admission_typed
      sample_admission_typed digest]
  show ?thesis by auto
qed

end
