(* ===== verification/Hotspot_Samples.thy ===== *)
theory Hotspot_Samples
  imports Owner_Samples
begin

text \<open>
  Concrete runs of the hotspot operations: a start from preview to verified receipt and the stop
  of what it started, and a confirmation beside a lapsed lease.
\<close>

definition hotspot_plan :: "string \<Rightarrow> hotspot_action \<Rightarrow> i64 \<Rightarrow> i64 \<Rightarrow> hotspot_preview_plan" where
  "hotspot_plan k action created expires = \<lparr>
     hpp_operation_id = k, hpp_preview_id = ''hotspot-preview'', hpp_lease_id = ''lease'', hpp_generation = ''lease-1'',
     hpp_request = \<lparr>hpr_schema = hotspot_preview_request_schema, hpr_action_id = hotspot_action_id,
       hpr_action = action\<rparr>,
     hpp_created_at_ms = created, hpp_expires_at_ms = expires, hpp_provider_ready = True\<rparr>"

definition proposed_hotspot :: "string \<Rightarrow> hotspot_action \<Rightarrow> i64 \<Rightarrow> i64 \<Rightarrow> hotspot_observed option \<Rightarrow> hotspot_operation" where
  "proposed_hotspot k action created expires observed =
     proposed_hotspot_operation 2 (hotspot_plan k action created expires)
       (hotspot_preflight_of (hotspot_plan k action created expires) True observed)"

definition hotspot_hub :: "(string, hotspot_operation) btree_map \<Rightarrow> hotspot_observed option \<Rightarrow> hub_state" where
  "hotspot_hub m observed = hub1\<lparr>fh_hotspot_operations := m, fh_hotspot_observation := observed\<rparr>"

lemma hotspot_hub_fields [simp]:
  "fh_hotspot_operations (hotspot_hub m observed) = m" "fh_hotspot_observation (hotspot_hub m observed) = observed"
  "fh_result_revision (hotspot_hub m observed) = 2"
  "put_hotspot k op (hotspot_hub m observed) = hotspot_hub (bt_insert k op m) observed"
  "(hotspot_hub m observed)\<lparr>fh_hotspot_observation := observed'\<rparr> = hotspot_hub m observed'"
  by (simp_all add: hotspot_hub_def put_hotspot_def)

lemma hub1_hotspot: "hub1 = hotspot_hub bt_empty None"
proof -
  have "hub1 = hub1\<lparr>fh_hotspot_operations := fh_hotspot_operations hub1,
      fh_hotspot_observation := fh_hotspot_observation hub1\<rparr>" by simp
  then show ?thesis by (simp add: hotspot_hub_def)
qed

lemma hotspot_plan_ok:
  "k \<noteq> [] \<Longrightarrow> 0 \<le> created \<Longrightarrow> created < expires \<Longrightarrow> expires \<le> created + 300000 \<Longrightarrow>
   \<not> hotspot_plan_invalid (hotspot_plan k action created expires)"
  by (simp add: hotspot_plan_invalid_def hotspot_plan_def validate_hotspot_preview_request_def
      hotspot_preview_max_lifetime_ms_def)

lemma hotspot_plan_fields [simp]:
  "hpp_operation_id (hotspot_plan k action created expires) = k"
  "hpp_preview_id (hotspot_plan k action created expires) = ''hotspot-preview''"
  "hpp_created_at_ms (hotspot_plan k action created expires) = created"
  "hpp_expires_at_ms (hotspot_plan k action created expires) = expires"
  "hpp_provider_ready (hotspot_plan k action created expires)"
  "hpr_action (hpp_request (hotspot_plan k action created expires)) = action"
  by (simp_all add: hotspot_plan_def)

lemma proposed_hotspot_fields [simp]:
  "ho_operation_id (proposed_hotspot k action created expires observed) = k"
  "hpv_preview_id (ho_preview (proposed_hotspot k action created expires observed)) = ''hotspot-preview''"
  "hpv_action (ho_preview (proposed_hotspot k action created expires observed)) = action"
  "hpv_expires_at_ms (ho_preview (proposed_hotspot k action created expires observed)) = expires"
  "ho_invocation (proposed_hotspot k action created expires observed) = None"
  "ho_receipt (proposed_hotspot k action created expires observed) = None"
  "ho_lease (proposed_hotspot k action created expires observed) \<noteq> None"
  "hpf_ownership_generation (hpv_preflight (ho_preview (proposed_hotspot k action created expires observed))) =
     observed_generation observed"
  by (simp_all add: proposed_hotspot_def proposed_hotspot_operation_def hotspot_preflight_of_def Let_def)

lemma proposed_hotspot_lifecycle:
  "hotspot_action_eligible action observed \<Longrightarrow>
   ho_lifecycle (proposed_hotspot k action created expires observed) = Proposed"
  by (simp add: proposed_hotspot_def proposed_hotspot_operation_def hotspot_preflight_of_def Let_def)

lemma hotspot_previews:
  assumes "k \<noteq> []" "0 \<le> created" "created < expires" "expires \<le> created + 300000"
    and "bt_get m k = None" and "bt_len m < max_hotspot_operations"
    and "\<not> has_active_hotspot_lease (hotspot_hub m observed) created None"
  shows "preview_windows_hotspot (hotspot_hub m observed) (hotspot_plan k action created expires) =
    (hotspot_hub (bt_insert k (proposed_hotspot k action created expires observed) m) observed,
     Inr (proposed_hotspot k action created expires observed))"
proof -
  have "valid (validate_hotspot_operation (proposed_hotspot k action created expires observed))"
    using hotspot_plan_ok [OF assms(1-4), of action]
    by (simp add: hotspot_valid_parts hotspot_binding_failures_def hotspot_lease_mismatch_def proposed_hotspot_def
        hotspot_invocation_failures_def hotspot_receipt_failures_def proposed_hotspot_operation_def hotspot_plan_invalid_def)
  then show ?thesis
    using assms(5-7) hotspot_plan_ok [OF assms(1-4), of action]
    by (simp add: preview_windows_hotspot_def Let_def proposed_hotspot_def)
qed

section \<open>A start and the stop of what it started\<close>

definition hotspot_start :: hotspot_operation where
  "hotspot_start = proposed_hotspot ''hotspot-1'' Hotspot_Start 1100 5000 None"

definition hotspot_start2 :: hotspot_operation where
  "hotspot_start2 = confirmed_hotspot_operation 1200 hotspot_start"

definition hotspot_invocation :: "string \<Rightarrow> hotspot_action \<Rightarrow> string \<Rightarrow> string option \<Rightarrow> hotspot_provider_request" where
  "hotspot_invocation k action deadline generation = \<lparr>
     hrq_schema = hotspot_provider_request_schema, hrq_request_id = ''request-3'', hrq_operation_id = k,
     hrq_action = action, hrq_expires_at_utc = deadline, hrq_timeout_ms = 30000,
     hrq_ownership_generation = generation\<rparr>"

definition hotspot_start3 :: hotspot_operation where
  "hotspot_start3 = dispatched_hotspot_operation 1300
     (hotspot_invocation ''hotspot-1'' Hotspot_Start ''1970-01-01T00:00:05.0000000Z'' None) hotspot_start2"

definition hotspot_receipt_1 :: hotspot_receipt where
  "hotspot_receipt_1 = \<lparr>
     hrc_schema = hotspot_provider_receipt_schema, hrc_request_id = ''request-3'', hrc_operation_id = ''hotspot-1'',
     hrc_action = Hotspot_Start, hrc_outcome = Result_Verified, hrc_reason = ''started'',
     hrc_observed_at_utc = ''1970-01-01T00:00:01Z'', hrc_capability_available = True, hrc_capability = ''enabled'',
     hrc_operational_state = ''On'', hrc_client_count = 0, hrc_max_client_count = 8, hrc_band = ''auto'',
     hrc_source_connectivity = ''internet'', hrc_ownership_generation = Some ''generation-1''\<rparr>"

definition hotspot_start4 :: hotspot_operation where
  "hotspot_start4 = settled_hotspot_operation 1400 hotspot_receipt_1 hotspot_start3"

definition owned_hotspot :: "hotspot_observed option" where
  "owned_hotspot = hotspot_observation True Ownership_Fleet (Some ''generation-1'') 1400"

definition hotspot_stop :: hotspot_operation where
  "hotspot_stop = proposed_hotspot ''hotspot-2'' Hotspot_Stop 1500 6000 owned_hotspot"

definition hotspot_stop2 :: hotspot_operation where
  "hotspot_stop2 = confirmed_hotspot_operation 1600 hotspot_stop"

definition hotspot_stop3 :: hotspot_operation where
  "hotspot_stop3 = dispatched_hotspot_operation 1700
     (hotspot_invocation ''hotspot-2'' Hotspot_Stop ''1970-01-01T00:00:06.0000000Z'' (Some ''generation-1'')) hotspot_stop2"

definition one_hotspot :: "hotspot_operation \<Rightarrow> (string, hotspot_operation) btree_map" where
  "one_hotspot op = bt_insert ''hotspot-1'' op bt_empty"

lemma one_hotspot_simps [simp]:
  "bt_get (one_hotspot op) k = (if k = ''hotspot-1'' then Some op else None)" "bt_len (one_hotspot op) = Suc 0"
  "bt_insert ''hotspot-1'' op' (one_hotspot op) = one_hotspot op'" "bt_insert ''hotspot-1'' op bt_empty = one_hotspot op"
  by (simp_all add: one_hotspot_def bt_len_insert bt_contains_key_def)

lemma no_lease_none: "\<not> has_active_hotspot_lease (hotspot_hub bt_empty observed) now except"
  by (simp add: has_active_hotspot_lease_def list_ex_iff set_bt_values)

lemma no_lease_one: "\<not> holds_hotspot op \<Longrightarrow> \<not> has_active_hotspot_lease (hotspot_hub (one_hotspot op) observed) now except"
  by (auto simp: has_active_hotspot_lease_def list_ex_iff set_bt_values)

lemma padded_numbers:
  "pad_zeros 4 1970 = ''1970''" "pad_zeros 2 1 = ''01''" "pad_zeros 2 0 = ''00''" "pad_zeros 2 5 = ''05''"
  "pad_zeros 2 6 = ''06''" "pad_zeros 3 0 = ''000''"
  by code_simp+

lemma sample_deadlines:
  "unix_ms_to_rfc3339 5000 = Inr ''1970-01-01T00:00:05.0000000Z''"
  "unix_ms_to_rfc3339 6000 = Inr ''1970-01-01T00:00:06.0000000Z''"
  using civil_of_days_correct [of 0] by (simp_all add: unix_ms_to_rfc3339_def Let_def padded_numbers)

lemma sample_invocations_valid:
  "valid (validate_hotspot_provider_request
     (hotspot_invocation ''hotspot-1'' Hotspot_Start ''1970-01-01T00:00:05.0000000Z'' None))"
  "valid (validate_hotspot_provider_request
     (hotspot_invocation ''hotspot-2'' Hotspot_Stop ''1970-01-01T00:00:06.0000000Z'' (Some ''generation-1'')))"
  by (simp_all add: validate_hotspot_provider_request_def hotspot_invocation_def hotspot_generation_failures_def
      ends_with_Z_def is_blank.simps)

lemma hotspot_start_runs:
  "fst (preview_windows_hotspot hub1 (hotspot_plan ''hotspot-1'' Hotspot_Start 1100 5000)) =
     hotspot_hub (one_hotspot hotspot_start) None"
  "fst (confirm_windows_hotspot (hotspot_hub (one_hotspot hotspot_start) None) ''hotspot-1'' ''hotspot-preview'' 1200) =
     hotspot_hub (one_hotspot hotspot_start2) None"
  "fst (prepare_windows_hotspot_invocation (hotspot_hub (one_hotspot hotspot_start2) None) ''hotspot-1'' ''request-3'' 1300) =
     hotspot_hub (one_hotspot hotspot_start3) None"
  "fst (apply_windows_hotspot_receipt (hotspot_hub (one_hotspot hotspot_start3) None) hotspot_receipt_1 1400) =
     hotspot_hub (one_hotspot hotspot_start4) owned_hotspot"
proof -
  show "fst (preview_windows_hotspot hub1 (hotspot_plan ''hotspot-1'' Hotspot_Start 1100 5000)) =
     hotspot_hub (one_hotspot hotspot_start) None"
    using no_lease_none by (simp add: hub1_hotspot hotspot_previews hotspot_start_def max_hotspot_operations_def)
  have proposed: "ho_lifecycle hotspot_start = Proposed"
    by (simp add: hotspot_start_def proposed_hotspot_lifecycle hotspot_action_eligible_def observed_ownership_def)
  then have free: "\<not> holds_hotspot hotspot_start" by (simp add: holds_hotspot_def)
  show "fst (confirm_windows_hotspot (hotspot_hub (one_hotspot hotspot_start) None) ''hotspot-1'' ''hotspot-preview'' 1200) =
     hotspot_hub (one_hotspot hotspot_start2) None"
    using proposed no_lease_one [OF free]
    by (simp add: confirm_windows_hotspot_def windows_hotspot_operation_def Let_def hotspot_start2_def)
      (simp add: hotspot_start_def)
  have accepted: "ho_lifecycle hotspot_start2 = Accepted" "ho_invocation hotspot_start2 = None"
    "ho_lease hotspot_start2 \<noteq> None" "hpv_action (ho_preview hotspot_start2) = Hotspot_Start"
    "hpv_expires_at_ms (ho_preview hotspot_start2) = 5000" "ho_operation_id hotspot_start2 = ''hotspot-1''"
    by (simp_all add: hotspot_start2_def confirmed_hotspot_operation_def hotspot_start_def)
  show "fst (prepare_windows_hotspot_invocation (hotspot_hub (one_hotspot hotspot_start2) None) ''hotspot-1'' ''request-3'' 1300) =
     hotspot_hub (one_hotspot hotspot_start3) None"
    using accepted sample_invocations_valid(1)
    by (auto simp: prepare_windows_hotspot_invocation_def windows_hotspot_operation_def invocation_generation_def
        sample_deadlines Let_def hotspot_invocation_def hotspot_start3_def)
  have dispatched: "ho_lifecycle hotspot_start3 = Dispatched" "ho_receipt hotspot_start3 = None"
    "ho_invocation hotspot_start3 = Some (hotspot_invocation ''hotspot-1'' Hotspot_Start ''1970-01-01T00:00:05.0000000Z'' None)"
    by (simp_all add: hotspot_start3_def dispatched_hotspot_operation_def hotspot_start2_def
        confirmed_hotspot_operation_def hotspot_start_def)
  have receipt: "valid (validate_hotspot_receipt hotspot_receipt_1)"
    by (simp add: validate_hotspot_receipt_def hotspot_receipt_1_def ends_with_Z_def is_blank.simps)
  have fields: "hrc_operation_id hotspot_receipt_1 = ''hotspot-1''" "hrc_request_id hotspot_receipt_1 = ''request-3''"
    "hrc_action hotspot_receipt_1 = Hotspot_Start" "hrc_outcome hotspot_receipt_1 = Result_Verified"
    "hrc_operational_state hotspot_receipt_1 = ''On''" "hrc_ownership_generation hotspot_receipt_1 = Some ''generation-1''"
    by (simp_all add: hotspot_receipt_1_def)
  show "fst (apply_windows_hotspot_receipt (hotspot_hub (one_hotspot hotspot_start3) None) hotspot_receipt_1 1400) =
     hotspot_hub (one_hotspot hotspot_start4) owned_hotspot"
    using receipt dispatched
    by (simp add: apply_windows_hotspot_receipt_def windows_hotspot_operation_def fields hotspot_invocation_def
        hotspot_semantic_match_def observe_hotspot_receipt_def Let_def hotspot_start4_def owned_hotspot_def)
qed

definition with_stop :: "hotspot_operation \<Rightarrow> (string, hotspot_operation) btree_map" where
  "with_stop op = bt_insert ''hotspot-2'' op (one_hotspot hotspot_start4)"

lemma with_stop_simps [simp]:
  "bt_get (with_stop op) k = (if k = ''hotspot-2'' then Some op else bt_get (one_hotspot hotspot_start4) k)"
  "bt_insert ''hotspot-2'' op' (with_stop op) = with_stop op'"
  "bt_insert ''hotspot-2'' op (one_hotspot hotspot_start4) = with_stop op"
  by (simp_all add: with_stop_def)

lemma start_settled: "ho_lifecycle hotspot_start4 = Applied" "ho_receipt hotspot_start4 = Some hotspot_receipt_1"
  by (simp_all add: hotspot_start4_def settled_hotspot_operation_def hotspot_receipt_1_def)

lemma hotspot_stop_runs:
  "fst (preview_windows_hotspot (hotspot_hub (one_hotspot hotspot_start4) owned_hotspot)
     (hotspot_plan ''hotspot-2'' Hotspot_Stop 1500 6000)) = hotspot_hub (with_stop hotspot_stop) owned_hotspot"
  "fst (confirm_windows_hotspot (hotspot_hub (with_stop hotspot_stop) owned_hotspot) ''hotspot-2'' ''hotspot-preview'' 1600) =
     hotspot_hub (with_stop hotspot_stop2) owned_hotspot"
  "prepare_windows_hotspot_invocation (hotspot_hub (with_stop hotspot_stop2) owned_hotspot) ''hotspot-2'' ''request-3'' 1700 =
     (hotspot_hub (with_stop hotspot_stop3) owned_hotspot, Inr hotspot_stop3)"
  "ho_lifecycle hotspot_stop2 = Accepted" "hpv_action (ho_preview hotspot_stop2) = Hotspot_Stop"
proof -
  have settled: "\<not> holds_hotspot hotspot_start4" by (simp add: holds_hotspot_def start_settled)
  then show "fst (preview_windows_hotspot (hotspot_hub (one_hotspot hotspot_start4) owned_hotspot)
     (hotspot_plan ''hotspot-2'' Hotspot_Stop 1500 6000)) = hotspot_hub (with_stop hotspot_stop) owned_hotspot"
    using no_lease_one [OF settled] by (simp add: hotspot_previews hotspot_stop_def max_hotspot_operations_def)
  have proposed: "ho_lifecycle hotspot_stop = Proposed"
    by (simp add: hotspot_stop_def proposed_hotspot_lifecycle hotspot_action_eligible_def observed_ownership_def
        observed_generation_def owned_hotspot_def hotspot_observation_def)
  have "\<not> has_active_hotspot_lease (hotspot_hub (with_stop hotspot_stop) owned_hotspot) 1600 (Some ''hotspot-2'')"
    using settled proposed by (auto simp: has_active_hotspot_lease_def list_ex_iff set_bt_values holds_hotspot_def
        split: if_splits)
  with proposed show "fst (confirm_windows_hotspot (hotspot_hub (with_stop hotspot_stop) owned_hotspot) ''hotspot-2''
      ''hotspot-preview'' 1600) = hotspot_hub (with_stop hotspot_stop2) owned_hotspot"
    by (simp add: confirm_windows_hotspot_def windows_hotspot_operation_def Let_def hotspot_stop2_def)
      (simp add: hotspot_stop_def)
  show accepted: "ho_lifecycle hotspot_stop2 = Accepted" "hpv_action (ho_preview hotspot_stop2) = Hotspot_Stop"
    by (simp_all add: hotspot_stop2_def confirmed_hotspot_operation_def hotspot_stop_def)
  have fields: "ho_invocation hotspot_stop2 = None" "ho_lease hotspot_stop2 \<noteq> None"
    "hpf_ownership_generation (hpv_preflight (ho_preview hotspot_stop2)) = Some ''generation-1''"
    "hpv_expires_at_ms (ho_preview hotspot_stop2) = 6000" "ho_operation_id hotspot_stop2 = ''hotspot-2''"
    "observed_generation owned_hotspot = Some ''generation-1''"
    by (simp_all add: hotspot_stop2_def confirmed_hotspot_operation_def hotspot_stop_def observed_generation_def
        owned_hotspot_def hotspot_observation_def)
  show "prepare_windows_hotspot_invocation (hotspot_hub (with_stop hotspot_stop2) owned_hotspot) ''hotspot-2'' ''request-3'' 1700 =
     (hotspot_hub (with_stop hotspot_stop3) owned_hotspot, Inr hotspot_stop3)"
    using accepted fields sample_invocations_valid(2)
    by (auto simp: prepare_windows_hotspot_invocation_def windows_hotspot_operation_def invocation_generation_def
        sample_deadlines Let_def hotspot_invocation_def hotspot_stop3_def)
qed

section \<open>A confirmation beside a lapsed lease\<close>

definition late_start :: hotspot_operation where
  "late_start = proposed_hotspot ''hotspot-2'' Hotspot_Start 6000 8000 None"

definition late_start2 :: hotspot_operation where
  "late_start2 = confirmed_hotspot_operation 6100 late_start"

definition two_hotspots :: "hotspot_operation \<Rightarrow> (string, hotspot_operation) btree_map" where
  "two_hotspots op = bt_insert ''hotspot-2'' op (one_hotspot hotspot_start2)"

lemma two_hotspots_simps [simp]:
  "bt_get (two_hotspots op) k = (if k = ''hotspot-2'' then Some op else bt_get (one_hotspot hotspot_start2) k)"
  "bt_insert ''hotspot-2'' op' (two_hotspots op) = two_hotspots op'"
  "bt_insert ''hotspot-2'' op (one_hotspot hotspot_start2) = two_hotspots op"
  by (simp_all add: two_hotspots_def)

lemma start2_fields [simp]:
  "holds_hotspot hotspot_start2" "hpv_expires_at_ms (ho_preview hotspot_start2) = 5000"
  "ho_operation_id hotspot_start2 = ''hotspot-1''" "holds_hotspot late_start2"
  by (simp_all add: holds_hotspot_def hotspot_start2_def late_start2_def confirmed_hotspot_operation_def hotspot_start_def)

lemma start2_lapsed: "5000 < now \<Longrightarrow> ho_lease hotspot_start2 = Some l \<Longrightarrow> hls_expires_at_ms l < now"
  by (auto simp: hotspot_start2_def confirmed_hotspot_operation_def hotspot_start_def proposed_hotspot_def
      proposed_hotspot_operation_def)

lemma late_start_lifecycle: "ho_lifecycle late_start = Proposed"
  by (simp add: late_start_def proposed_hotspot_lifecycle hotspot_action_eligible_def observed_ownership_def)

lemma late_start_runs:
  "fst (preview_windows_hotspot (hotspot_hub (one_hotspot hotspot_start2) None)
     (hotspot_plan ''hotspot-2'' Hotspot_Start 6000 8000)) = hotspot_hub (two_hotspots late_start) None"
  "confirm_windows_hotspot (hotspot_hub (two_hotspots late_start) None) ''hotspot-2'' ''hotspot-preview'' 6100 =
     (hotspot_hub (two_hotspots late_start2) None, Inr late_start2)"
proof -
  have "\<not> has_active_hotspot_lease (hotspot_hub (one_hotspot hotspot_start2) None) 6000 None"
    using start2_lapsed [of 6000] by (auto simp: has_active_hotspot_lease_def list_ex_iff set_bt_values none_or_def
        some_and_def split: if_splits option.splits)
  then show "fst (preview_windows_hotspot (hotspot_hub (one_hotspot hotspot_start2) None)
     (hotspot_plan ''hotspot-2'' Hotspot_Start 6000 8000)) = hotspot_hub (two_hotspots late_start) None"
    by (simp add: hotspot_previews late_start_def max_hotspot_operations_def)
  have "\<not> has_active_hotspot_lease (hotspot_hub (two_hotspots late_start) None) 6100 (Some ''hotspot-2'')"
    using start2_lapsed [of 6100] late_start_lifecycle
    by (auto simp: has_active_hotspot_lease_def list_ex_iff set_bt_values some_and_def holds_hotspot_def
        split: if_splits option.splits)
  then show "confirm_windows_hotspot (hotspot_hub (two_hotspots late_start) None) ''hotspot-2'' ''hotspot-preview'' 6100 =
     (hotspot_hub (two_hotspots late_start2) None, Inr late_start2)"
    using late_start_lifecycle
    by (simp add: confirm_windows_hotspot_def windows_hotspot_operation_def Let_def late_start2_def)
      (simp add: late_start_def)
qed

section \<open>The runs are reachable\<close>

abbreviation sample_reachable :: "hub_state \<Rightarrow> bool" where
  "sample_reachable \<equiv> reachable no_bytes no_bytes no_sha no_codec default_policy"

lemma hotspot_call_reachable: "sample_reachable h \<Longrightarrow> sample_reachable (run_hotspot h call)"
  using reachable.step [of no_bytes no_bytes no_sha no_codec default_policy h "Call_Hotspot call"]
  by (simp add: admissible_def)

lemma start_reachable:
  "sample_reachable (hotspot_hub (one_hotspot hotspot_start2) None)"
  "sample_reachable (hotspot_hub (one_hotspot hotspot_start3) None)"
  "sample_reachable (hotspot_hub (one_hotspot hotspot_start4) owned_hotspot)"
proof -
  note step = hotspot_call_reachable
  have 1: "sample_reachable (hotspot_hub (one_hotspot hotspot_start) None)"
    using step [OF hub1_reachable, of "Preview_Hotspot (hotspot_plan ''hotspot-1'' Hotspot_Start 1100 5000)"]
    by (simp add: hotspot_start_runs)
  show 2: "sample_reachable (hotspot_hub (one_hotspot hotspot_start2) None)"
    using step [OF 1, of "Confirm_Hotspot ''hotspot-1'' ''hotspot-preview'' 1200"] by (simp add: hotspot_start_runs)
  show 3: "sample_reachable (hotspot_hub (one_hotspot hotspot_start3) None)"
    using step [OF 2, of "Prepare_Hotspot ''hotspot-1'' ''request-3'' 1300"] by (simp add: hotspot_start_runs)
  show "sample_reachable (hotspot_hub (one_hotspot hotspot_start4) owned_hotspot)"
    using step [OF 3, of "Receive_Hotspot hotspot_receipt_1 1400"] by (simp add: hotspot_start_runs)
qed

lemma stop_reachable: "sample_reachable (hotspot_hub (with_stop hotspot_stop2) owned_hotspot)"
  using hotspot_call_reachable [OF hotspot_call_reachable [OF start_reachable(3),
      of "Preview_Hotspot (hotspot_plan ''hotspot-2'' Hotspot_Stop 1500 6000)"],
      of "Confirm_Hotspot ''hotspot-2'' ''hotspot-preview'' 1600"]
  by (simp add: hotspot_stop_runs)

lemma late_reachable:
  "sample_reachable (hotspot_hub (two_hotspots late_start) None)"
  "sample_reachable (hotspot_hub (two_hotspots late_start2) None)"
proof -
  show 1: "sample_reachable (hotspot_hub (two_hotspots late_start) None)"
    using hotspot_call_reachable [OF start_reachable(1),
      of "Preview_Hotspot (hotspot_plan ''hotspot-2'' Hotspot_Start 6000 8000)"]
    by (simp add: late_start_runs)
  show "sample_reachable (hotspot_hub (two_hotspots late_start2) None)"
    using hotspot_call_reachable [OF 1, of "Confirm_Hotspot ''hotspot-2'' ''hotspot-preview'' 6100"]
    by (simp add: late_start_runs)
qed

end
