(* ===== verification/Hotspot_Claims.thy ===== *)
theory Hotspot_Claims
  imports Owner_Runs Hotspot_Samples
begin

text \<open>
  Properties of the Windows hotspot operations over arbitrary runs of the Hub: exclusive use of the
  one host resource, receipts, ownership, recovery and the deadline text, and of the snapshots
  a Hub can restore.
\<close>

section \<open>Holders of the resource\<close>

lemma reachable_hotspot:
  assumes "reachable ob jb sha enc policy h"
  shows "hs.store_ok (fh_hotspot_operations h)" and "leases_disjoint (fh_hotspot_operations h)"
    and "observed_ok (fh_hotspot_observation h)"
  using stores_okD(4) [OF hub_okD(8) [OF reachable_ok [OF assms]]] by (simp_all add: hotspot_store_ok_def)

lemma reachable_hotspot_sound:
  assumes "reachable ob jb sha enc policy h" and "bt_get (fh_hotspot_operations h) k = Some op"
  shows "hotspot_sound op" and "valid (validate_hotspot_operation op)" and "ho_operation_id op = k"
  using reachable_hotspot(1) [OF assms(1)] assms(2) by (auto simp: hs.store_ok_def hotspot_ok_def)

text \<open>At most one operation satisfies \<open>p\<close>.\<close>

lemma at_most_one_iff:
  "length (filter p (bt_values m)) \<le> 1 \<longleftrightarrow>
   (\<forall>j k x y. bt_get m j = Some x \<longrightarrow> bt_get m k = Some y \<longrightarrow> p x \<longrightarrow> p y \<longrightarrow> j = k)"
proof -
  let ?es = "filter (p \<circ> snd) (entries m)"
  have keys: "distinct (map fst ?es)"
    using distinct_bt_keys [of m] by (simp add: bt_keys_def distinct_map_filter)
  then have "length ?es = card (fst ` set ?es)" by (metis distinct_card length_map list.set_map)
  moreover have "fst ` set ?es = {k. \<exists>x. bt_get m k = Some x \<and> p x}"
    by (force simp: bt_get_Some_iff)
  moreover have "length (filter p (bt_values m)) = length ?es"
    by (simp add: bt_values_def filter_map)
  moreover have "finite {k. \<exists>x. bt_get m k = Some x \<and> p x}"
    using calculation(2) by (metis List.finite_set finite_imageI)
  ultimately show ?thesis by (auto simp: card_le_Suc0_iff_eq)
qed

text \<open>C19: The hotspot is used by one operation at a time. In a reachable Hub, of any two operations
  that hold it (accepted, dispatched or running) one was confirmed only after the lease of the other had run
  out; so at no time are two of them confirmed and within their leases.\<close>

theorem hotspot_exclusive:
  assumes "reachable ob jb sha enc policy h"
    and "bt_get (fh_hotspot_operations h) j = Some x" and "holds_hotspot x"
    and "bt_get (fh_hotspot_operations h) k = Some y" and "holds_hotspot y" and "j \<noteq> k"
  shows "\<exists>c d. ho_confirmed_at_ms x = Some c \<and> ho_confirmed_at_ms y = Some d \<and>
     c \<le> hpv_expires_at_ms (ho_preview x) \<and> d \<le> hpv_expires_at_ms (ho_preview y) \<and>
     (hpv_expires_at_ms (ho_preview x) < d \<or> hpv_expires_at_ms (ho_preview y) < c)"
proof -
  have "\<exists>c. ho_confirmed_at_ms op = Some c \<and> c \<le> hpv_expires_at_ms (ho_preview op)"
    if "bt_get (fh_hotspot_operations h) i = Some op" "holds_hotspot op" for i op
    using reachable_hotspot_sound(1) [OF assms(1) that(1)] that(2) by (simp add: hotspot_sound_def)
  from this [OF assms(2,3)] this [OF assms(4,5)] obtain c d where
    "ho_confirmed_at_ms x = Some c" "c \<le> hpv_expires_at_ms (ho_preview x)"
    "ho_confirmed_at_ms y = Some d" "d \<le> hpv_expires_at_ms (ho_preview y)" by blast
  with reachable_hotspot(2) [OF assms(1)] assms(2-6) show ?thesis unfolding leases_disjoint_def by blast
qed

lemma hotspot_exclusive_witness:
  "\<exists>c d. ho_confirmed_at_ms hotspot_start2 = Some c \<and> ho_confirmed_at_ms late_start2 = Some d \<and>
     (hpv_expires_at_ms (ho_preview hotspot_start2) < d \<or> hpv_expires_at_ms (ho_preview late_start2) < c)"
  using hotspot_exclusive [OF late_reachable(2), of "''hotspot-1''" hotspot_start2 "''hotspot-2''" late_start2] by auto

text \<open>C31: In a reachable Hub a hotspot operation is \<open>Applied\<close> only when it was eligible at its preview
  and one contract-valid, verified provider receipt answers its own invocation: the same request,
  operation and action, with a readback that shows the effect (on, under a generation, for start and
  ensure; off, and nobody's, for stop).\<close>

theorem hotspot_applied_only_verified:
  assumes "reachable ob jb sha enc policy h" and "bt_get (fh_hotspot_operations h) k = Some op"
    and "ho_lifecycle op = Applied"
  shows "hpf_eligible (hpv_preflight (ho_preview op)) \<and>
     (\<exists>i r. ho_invocation op = Some i \<and> ho_receipt op = Some r \<and>
        valid (validate_hotspot_receipt r) \<and> hrc_outcome r = Result_Verified \<and>
        hrc_operation_id r = k \<and> hrc_request_id r = hrq_request_id i \<and>
        hrc_action r = hpv_action (ho_preview op) \<and>
        (hrc_action r \<in> {Hotspot_Start, Hotspot_Ensure} \<longrightarrow>
           hrc_operational_state r = ''On'' \<and> (\<exists>g. hrc_ownership_generation r = Some g \<and> g \<noteq> [])) \<and>
        (hrc_action r = Hotspot_Stop \<longrightarrow>
           hrc_operational_state r = ''Off'' \<and> hrc_ownership_generation r = None \<and>
           hrq_ownership_generation i \<noteq> None))"
proof -
  note op = reachable_hotspot_sound [OF assms(1,2)]
  obtain r where r: "ho_receipt op = Some r" "hrc_outcome r = Result_Verified"
    using op(1) assms(3) by (auto simp: hotspot_sound_def)
  then obtain i where i: "ho_invocation op = Some i" "hotspot_answers i r"
    using op(1) by (auto simp: hotspot_sound_def)
  have "hotspot_semantic_match r i" using i(2) r(2) by (simp add: hotspot_answers_def)
  then have effect: "hrc_action r \<in> {Hotspot_Start, Hotspot_Ensure} \<longrightarrow>
      hrc_operational_state r = ''On'' \<and> (\<exists>g. hrc_ownership_generation r = Some g \<and> g \<noteq> [])"
    "hrc_action r = Hotspot_Stop \<longrightarrow> hrc_operational_state r = ''Off'' \<and>
      hrc_ownership_generation r = None \<and> hrq_ownership_generation i \<noteq> None"
    by (auto simp: hotspot_semantic_match_def)
  have "hrc_operation_id r = k" "hrc_action r = hpv_action (ho_preview op)"
    using op(2,3) r(1) by (auto simp: hotspot_valid_parts hotspot_receipt_failures_def)
  moreover have "hpf_eligible (hpv_preflight (ho_preview op))"
    using op(1) assms(3) by (auto simp: hotspot_sound_def)
  ultimately show ?thesis using i r effect by (auto simp: hotspot_answers_def)
qed

lemma hotspot_applied_only_verified_witness:
  "hpf_eligible (hpv_preflight (ho_preview hotspot_start4)) \<and> valid (validate_hotspot_receipt hotspot_receipt_1)"
proof -
  from hotspot_applied_only_verified [OF start_reachable(3), of "''hotspot-1''" hotspot_start4]
  show ?thesis by (auto simp: start_settled)
qed

section \<open>Ownership\<close>

text \<open>C32: A stop is bound to what Fleet owns. When the Hub prepares the invocation of a confirmed stop, the
  preview has not expired, the Hub observes the hotspot on and owned by Fleet, and the provider is
  given exactly the generation observed now, which is the one frozen at the preview.\<close>

theorem stop_binds_owned_generation:
  assumes "reachable ob jb sha enc policy h" and "bt_get (fh_hotspot_operations h) k = Some old"
    and "ho_lifecycle old = Accepted" and "hpv_action (ho_preview old) = Hotspot_Stop"
    and "prepare_windows_hotspot_invocation h k request_id now = (h', Inr op)"
  shows "now \<le> hpv_expires_at_ms (ho_preview old) \<and>
     (\<exists>x g i. fh_hotspot_observation h = Some x \<and> hob_active x \<and> hob_ownership x = Ownership_Fleet \<and>
        hob_generation x = Some g \<and> g \<noteq> [] \<and>
        hpf_ownership_generation (hpv_preflight (ho_preview old)) = Some g \<and>
        ho_invocation op = Some i \<and> hrq_request_id i = request_id \<and> hrq_operation_id i = k \<and>
        hrq_ownership_generation i = Some g \<and> ho_lifecycle op = Dispatched)"
proof -
  let ?frozen = "hpf_ownership_generation (hpv_preflight (ho_preview old))"
  have found: "windows_hotspot_operation h k = Inr old" using assms(2) by simp
  have time: "now \<le> hpv_expires_at_ms (ho_preview old)"
    using assms(5) found assms(3) by (auto simp: prepare_windows_hotspot_invocation_def split: if_splits)
  obtain x where x: "fh_hotspot_observation h = Some x" "hob_generation x \<noteq> None"
    using assms(5) found assms(3,4)
    by (cases "fh_hotspot_observation h")
      (auto simp: prepare_windows_hotspot_invocation_def invocation_generation_def observed_generation_def
        split: if_splits option.splits)
  then obtain g where g: "hob_generation x = Some g" by auto
  have owned: "hob_active x" "hob_ownership x = Ownership_Fleet" "g \<noteq> []"
    using reachable_hotspot(3) [OF assms(1)] x(1) g
    by (auto simp: observed_ok_def split: hotspot_ownership.splits)
  have bound: "g = (case ?frozen of None \<Rightarrow> [] | Some f \<Rightarrow> f)"
    using assms(5) found assms(3,4) x(1) g
    by (auto simp: prepare_windows_hotspot_invocation_def invocation_generation_def observed_generation_def
        split: if_splits)
  with owned(3) have frozen: "?frozen = Some g" by (cases ?frozen) auto
  obtain i where "ho_invocation op = Some i" "hrq_request_id i = request_id" "hrq_operation_id i = ho_operation_id old"
    "hrq_ownership_generation i = Some g" "ho_lifecycle op = Dispatched"
    using assms(5) found assms(3,4) x(1) g frozen
    by (cases "unix_ms_to_rfc3339 (hpv_expires_at_ms (ho_preview old))")
      (auto simp: prepare_windows_hotspot_invocation_def invocation_generation_def observed_generation_def
        dispatched_hotspot_operation_def Let_def split: if_splits)
  then show ?thesis
    using time x(1) g owned frozen reachable_hotspot_sound(3) [OF assms(1,2)] by blast
qed

lemma stop_binds_owned_generation_witness:
  "\<exists>i. ho_invocation hotspot_stop3 = Some i \<and> hrq_ownership_generation i = Some ''generation-1''"
proof -
  have "bt_get (fh_hotspot_operations (hotspot_hub (with_stop hotspot_stop2) owned_hotspot)) ''hotspot-2'' =
      Some hotspot_stop2" by simp
  from stop_binds_owned_generation [OF stop_reachable this hotspot_stop_runs(4,5,3)] show ?thesis
    by (auto simp: owned_hotspot_def hotspot_observation_def)
qed

text \<open>Fleet comes to own the hotspot in one way only: a command after which the Hub observes Fleet as
  owner when it did not before is a verified receipt of a start or ensure that found the hotspot on,
  answers a dispatched operation's own invocation, and names the generation the Hub keeps.\<close>

theorem ownership_only_acquired:
  assumes "reachable ob jb sha enc policy h" and "\<not> fleet_owned (fh_hotspot_observation h)"
    and "fleet_owned (fh_hotspot_observation (run_command ob jb sha enc h c))"
  shows "\<exists>r now op i. c = Call_Hotspot (Receive_Hotspot r now) \<and> valid (validate_hotspot_receipt r) \<and>
     hrc_outcome r = Result_Verified \<and> hrc_action r \<in> {Hotspot_Start, Hotspot_Ensure} \<and>
     hrc_operational_state r = ''On'' \<and>
     bt_get (fh_hotspot_operations h) (hrc_operation_id r) = Some op \<and> ho_lifecycle op = Dispatched \<and>
     ho_invocation op = Some i \<and> hrc_request_id r = hrq_request_id i \<and> hrc_action r = hrq_action i \<and>
     fh_hotspot_observation (run_command ob jb sha enc h c) =
       hotspot_observation True Ownership_Fleet (hrc_ownership_generation r) now"
  using hub_okD(8) [OF reachable_ok [OF assms(1)]]
proof (cases rule: command_hotspot_cases [where c = c and ob = ob and jb = jb and sha = sha and enc = enc])
  case (own call)
  show ?thesis
  proof (cases call)
    case (Receive_Hotspot r now)
    let ?seen = "observe_hotspot_receipt (fh_hotspot_observation h) r now"
    have changed: "fh_hotspot_observation (fst (apply_windows_hotspot_receipt h r now)) \<noteq> fh_hotspot_observation h"
      using assms(2,3) own Receive_Hotspot by auto
    then have receipt: "valid (validate_hotspot_receipt r)"
      by (auto simp: apply_windows_hotspot_receipt_def split: if_splits)
    obtain op where op: "bt_get (fh_hotspot_operations h) (hrc_operation_id r) = Some op" "ho_lifecycle op = Dispatched"
      using changed receipt
      by (cases "bt_get (fh_hotspot_operations h) (hrc_operation_id r)")
        (auto simp: apply_windows_hotspot_receipt_def windows_hotspot_operation_def split: if_splits)
    obtain i where i: "ho_invocation op = Some i" "hrc_request_id r = hrq_request_id i" "hrc_action r = hrq_action i"
      "fh_hotspot_observation (fst (apply_windows_hotspot_receipt h r now)) = ?seen"
      using changed receipt op
      by (cases "ho_invocation op")
        (auto simp: apply_windows_hotspot_receipt_def windows_hotspot_operation_def Let_def put_hotspot_def
          split: if_splits)
    then have "fleet_owned ?seen" using assms(3) own Receive_Hotspot by simp
    from ownership_origin [OF this] show ?thesis
      using changed receipt op i own Receive_Hotspot by auto
  qed (use own assms(2,3) in \<open>simp_all add: other_observation\<close>)
next
  case other
  with assms(2,3) show ?thesis by simp
qed

lemma ownership_only_acquired_witness:
  "\<exists>r now. Receive_Hotspot hotspot_receipt_1 1400 = Receive_Hotspot r now \<and> hrc_outcome r = Result_Verified"
proof -
  let ?h = "hotspot_hub (one_hotspot hotspot_start3) None"
  have "\<not> fleet_owned (fh_hotspot_observation ?h)" by (simp add: fleet_owned_def)
  moreover have "fleet_owned (fh_hotspot_observation (run_command no_bytes no_bytes no_sha no_codec ?h
      (Call_Hotspot (Receive_Hotspot hotspot_receipt_1 1400))))"
    by (simp add: hotspot_start_runs fleet_owned_def owned_hotspot_def hotspot_observation_def)
  ultimately show ?thesis using ownership_only_acquired [OF start_reachable(2)] by blast
qed

section \<open>Recovery\<close>

lemma expire_all_get:
  assumes "distinct ks"
  shows "bt_get (fh_hotspot_operations (foldl (\<lambda>s k. fst (expire_windows_hotspot_operation s k now)) h ks)) j =
     (if j \<in> set ks then map_option (expired_hotspot_operation now) (bt_get (fh_hotspot_operations h) j)
      else bt_get (fh_hotspot_operations h) j)"
  using assms
proof (induction ks arbitrary: h)
  case (Cons k ks)
  have "bt_get (fh_hotspot_operations (fst (expire_windows_hotspot_operation h k now))) j =
      (if j = k then map_option (expired_hotspot_operation now) (bt_get (fh_hotspot_operations h) j)
       else bt_get (fh_hotspot_operations h) j)"
    by (simp add: expire_windows_hotspot_operation_def split: option.split)
  with Cons show ?case by auto
qed simp

text \<open>Recovery expires exactly the unfinished operations whose lease has run out.\<close>

lemma recover_get:
  "bt_get (fh_hotspot_operations (run_hotspot h (Recover_Hotspot now))) j =
     map_option (\<lambda>op. if hotspot_recoverable now op then expired_hotspot_operation now op else op)
       (bt_get (fh_hotspot_operations h) j)"
proof -
  let ?ks = "map fst (filter (\<lambda>(_, op). hotspot_recoverable now op) (entries (fh_hotspot_operations h)))"
  have "distinct ?ks"
    using distinct_bt_keys [of "fh_hotspot_operations h"] by (simp add: bt_keys_def distinct_map_filter)
  moreover have "j \<in> set ?ks \<longleftrightarrow> (\<exists>op. bt_get (fh_hotspot_operations h) j = Some op \<and> hotspot_recoverable now op)"
    by (force simp: bt_get_Some_iff)
  ultimately show ?thesis
    by (cases "bt_get (fh_hotspot_operations h) j")
      (simp_all add: recover_windows_hotspot_def Let_def expire_all_get)
qed

lemma recovered_holder:
  assumes "bt_get (fh_hotspot_operations (run_hotspot h (Recover_Hotspot now))) j = Some op" and "holds_hotspot op"
  shows "bt_get (fh_hotspot_operations h) j = Some op" and "now \<le> hotspot_expiry op"
proof -
  obtain old where old: "bt_get (fh_hotspot_operations h) j = Some old"
    "op = (if hotspot_recoverable now old then expired_hotspot_operation now old else old)"
    using assms(1) unfolding recover_get by auto
  with assms(2) show "bt_get (fh_hotspot_operations h) j = Some op" "now \<le> hotspot_expiry op"
    by (auto simp: hotspot_recoverable_def holds_hotspot_def expired_hotspot_operation_def split: if_splits)
qed






text \<open>Confirmation looks only at leases that have not run out. Confirming while another operation still
  holds the hotspot under a lapsed lease succeeds and leaves two holders, a state whose
  own snapshot no restore accepts; recovering first, as the local service does, leaves one.\<close>

theorem confirmation_beside_lapsed_lease:
  assumes "reachable ob jb sha enc policy h" and "bt_get (fh_hotspot_operations h) j = Some x" and "holds_hotspot x"
    and "bt_get (fh_hotspot_operations h) k = Some y" and "ho_lifecycle y = Proposed"
    and "confirm_windows_hotspot h k preview_id now = (h', Inr op)"
  shows "hpv_expires_at_ms (ho_preview x) < now \<and>
     (\<forall>z. restore ob jb sha enc policy (snapshot h') \<noteq> Inr z) \<and>
     length (filter holds_hotspot (bt_values (fh_hotspot_operations
       (fst (confirm_windows_hotspot (run_hotspot h (Recover_Hotspot now)) k preview_id now))))) = 1"
proof -
  have guards: "hpv_preview_id (ho_preview y) = preview_id" "now \<le> hotspot_expiry y"
    "\<not> has_active_hotspot_lease h now (Some k)" "h' = put_hotspot k (confirmed_hotspot_operation now y) h"
    using assms(4-6) by (auto simp: confirm_windows_hotspot_def windows_hotspot_operation_def Let_def
        split: if_splits prod.splits sum.splits)
  have "j \<noteq> k" using assms(2-5) by (auto simp: holds_hotspot_def)
  have lapsed: "hotspot_expiry z < now" if "bt_get (fh_hotspot_operations h) i = Some z" "i \<noteq> k" "holds_hotspot z" for i z
    using no_active_lease [OF reachable_hotspot(1) [OF assms(1)] guards(3) that] .
  have "h' = run_command ob jb sha enc h (Call_Hotspot (Confirm_Hotspot k preview_id now))" using assms(6) by simp
  moreover have "admissible h (Call_Hotspot (Confirm_Hotspot k preview_id now))" by (simp add: admissible_def)
  ultimately have reach: "reachable ob jb sha enc policy h'" using reachable.step [OF assms(1)] by metis
  have "bt_get (fh_hotspot_operations h') j = Some x"
    "bt_get (fh_hotspot_operations h') k = Some (confirmed_hotspot_operation now y)"
    "holds_hotspot (confirmed_hotspot_operation now y)"
    using assms(2) \<open>j \<noteq> k\<close> guards(4) by (simp_all add: holds_hotspot_def confirmed_hotspot_operation_def)
  with assms(3) \<open>j \<noteq> k\<close> have "\<not> length (filter holds_hotspot (bt_values (fh_hotspot_operations h'))) \<le> 1"
    unfolding at_most_one_iff by blast
  then have "restore ob jb sha enc policy (snapshot h') \<noteq> Inr z" for z
    using restore_snapshot_only restore_snapshot_iff [OF reach] by (metis restorable_def)
  moreover have "length (filter holds_hotspot (bt_values (fh_hotspot_operations
      (fst (confirm_windows_hotspot (run_hotspot h (Recover_Hotspot now)) k preview_id now))))) = 1"
  proof -
    let ?h1 = "run_hotspot h (Recover_Hotspot now)"
    let ?h2 = "put_hotspot k (confirmed_hotspot_operation now y) ?h1"
    have others: "\<not> holds_hotspot z" if "bt_get (fh_hotspot_operations ?h1) i = Some z" "i \<noteq> k" for i z
      using recovered_holder [OF that(1)] lapsed that(2) by (metis not_less)
    have y: "bt_get (fh_hotspot_operations ?h1) k = Some y"
      using assms(4) guards(2) by (simp only: recover_get) (simp add: hotspot_recoverable_def)
    have ids: "ho_operation_id z = i" if "bt_get (fh_hotspot_operations ?h1) i = Some z" for i z
      using that reachable_hotspot_sound(3) [OF assms(1)]
      by (auto simp only: recover_get) (auto simp: expired_hotspot_operation_def split: if_splits)
    have "\<not> has_active_hotspot_lease ?h1 now (Some k)"
      unfolding has_active_hotspot_lease_def using others ids by (auto simp: list_ex_iff set_bt_values simp del: run_hotspot.simps)
    with y guards(1,2) assms(5) have confirm: "confirm_windows_hotspot ?h1 k preview_id now =
        (?h2, Inr (confirmed_hotspot_operation now y))"
      by (simp add: confirm_windows_hotspot_def windows_hotspot_operation_def Let_def del: run_hotspot.simps)
    have held: "holds_hotspot (confirmed_hotspot_operation now y)"
      by (simp add: holds_hotspot_def confirmed_hotspot_operation_def)
    have "length (filter holds_hotspot (bt_values (fh_hotspot_operations ?h2))) \<le> 1"
      unfolding at_most_one_iff using others by (auto simp del: run_hotspot.simps split: if_splits)
    moreover have "confirmed_hotspot_operation now y \<in> set (filter holds_hotspot (bt_values (fh_hotspot_operations ?h2)))"
      using held by (auto simp: set_bt_values simp del: run_hotspot.simps)
    then have "0 < length (filter holds_hotspot (bt_values (fh_hotspot_operations ?h2)))"
      by (rule length_pos_if_in_set)
    ultimately show ?thesis unfolding confirm fst_conv by linarith
  qed
  ultimately show ?thesis using lapsed [OF assms(2) \<open>j \<noteq> k\<close> assms(3)] by blast
qed

lemma confirmation_beside_lapsed_lease_witness:
  "\<forall>z. restore no_bytes no_bytes no_sha no_codec default_policy (snapshot (hotspot_hub (two_hotspots late_start2) None)) \<noteq> Inr z"
proof -
  have "bt_get (fh_hotspot_operations (hotspot_hub (two_hotspots late_start) None)) ''hotspot-1'' = Some hotspot_start2"
    "bt_get (fh_hotspot_operations (hotspot_hub (two_hotspots late_start) None)) ''hotspot-2'' = Some late_start"
    by simp_all
  from confirmation_beside_lapsed_lease [OF late_reachable(1) this(1) start2_fields(1) this(2) late_start_lifecycle
      late_start_runs(2)] show ?thesis by blast
qed

section \<open>Round trips\<close>

text \<open>The deadline the provider is given names the instant the preview expires: the text of any time from the
  epoch on reads back as the Gregorian date that many days after 1970-01-01 and the hour, minute,
  second and millisecond of that day.\<close>

theorem deadline_text_reads_back:
  assumes "0 \<le> v" and "date_after (nat (v div 86400000)) = (year, month, day)"
  shows "\<exists>t. unix_ms_to_rfc3339 v = Inr t \<and>
     read_rfc3339 t = Some (map nat [year, month, day, v div 3600000 mod 24, v div 60000 mod 60,
       v div 1000 mod 60, v mod 1000])"
proof -
  have "civil_of_days (v div 86400000) = (year, month, day)"
    using assms civil_of_days_correct [of "nat (v div 86400000)"] by (simp add: pos_imp_zdiv_nonneg_iff)
  then show ?thesis by (rule read_deadline [OF assms(1)])
qed

lemma deadline_text_reads_back_witness:
  "\<exists>t. unix_ms_to_rfc3339 86399999 = Inr t \<and> read_rfc3339 t = Some [1970, 1, 1, 23, 59, 59, 999]"
  using deadline_text_reads_back [of 86399999 1970 1 1] by simp

text \<open>C3: Consider a Hub reached by commands that accept observations only at times not before the epoch and
  while the event sequence has room, which is what \<open>reachable\<close> admits. It restores from its own snapshot to
  exactly itself if and only if every unfinished Kiosk target still names the identity its device
  presents, every active package, awake and Wi-Fi ADB operation passes its contract, and at most one operation
  holds the hotspot; nothing else that such commands do gets in the way.\<close>

theorem snapshot_round_trip:
  assumes "reachable ob jb sha enc policy h"
  shows "restore ob jb sha enc policy (snapshot h) = Inr h \<longleftrightarrow>
     (\<forall>k op. bt_get (fh_kiosk_operations h) k = Some op \<longrightarrow>
        (\<forall>t\<in>set (ko_targets op).
           kt_lifecycle t \<in> {Rejected, Applied, Lifecycle_Failed, Expired, Cancelled} \<or>
           (\<exists>r. bt_get (fh_devices h) (kt_device_id t) = Some r \<and>
              di_identity_revision (do_identity (rec_observation r)) = kt_identity_revision t))) \<and>
     (\<forall>k op. bt_get (fh_package_operations h) k = Some op \<longrightarrow> valid (validate_package_operation op)) \<and>
     (\<forall>k op. bt_get (fh_awake_operations h) k = Some op \<longrightarrow> valid (validate_awake_operation op)) \<and>
     (\<forall>k op. bt_get (fh_wifi_adb_operations h) k = Some op \<longrightarrow> valid (validate_wifi_operation sha op)) \<and>
     (\<forall>j k x y. bt_get (fh_hotspot_operations h) j = Some x \<longrightarrow> bt_get (fh_hotspot_operations h) k = Some y \<longrightarrow>
        holds_hotspot x \<longrightarrow> holds_hotspot y \<longrightarrow> j = k)"
proof -
  have "\<not> kiosk_target_unbound ds t \<longleftrightarrow>
      kt_lifecycle t \<in> {Rejected, Applied, Lifecycle_Failed, Expired, Cancelled} \<or>
      (\<exists>r. bt_get ds (kt_device_id t) = Some r \<and>
         di_identity_revision (do_identity (rec_observation r)) = kt_identity_revision t)" for ds t
    by (cases "bt_get ds (kt_device_id t)") (auto simp: kiosk_target_unbound_def)
  then show ?thesis
    unfolding restore_snapshot_iff [OF assms] restorable_def at_most_one_iff by (simp only:)
qed

lemma snapshot_round_trip_witness:
  "restore no_bytes no_bytes no_sha no_codec default_policy (snapshot (hub_with (sample_op target4))) =
     Inr (hub_with (sample_op target4))"
  using snapshot_round_trip [OF hub4_reachable] by (simp add: hub_with_def stored_def)

end
