(* ===== verification/Package_Runs.thy ===== *)
theory Package_Runs
  imports Hub_Restore
begin

text \<open>
  Package operations over arbitrary commands of the Hub: an operation only evolves, is archived as it
  stands and then never changes, and its consumed claims only grow, up to a bound.
\<close>

section \<open>One effect\<close>

definition looked_up :: "package_stores \<Rightarrow> string \<Rightarrow> package_operation option" where
  "looked_up s k = (case bt_get (fst s) k of Some x \<Rightarrow> Some x | None \<Rightarrow> map_option pz_operation (bt_get (snd s) k))"

lemma package_operation_looked_up: "package_operation h k = Inr x \<longleftrightarrow> looked_up (package_stores h) k = Some x"
  by (auto simp: package_operation_def looked_up_def package_stores_def split: option.split)

lemma effect_archives:
  "package_effect encode sha v s s' \<Longrightarrow> bt_get (snd s) k = Some a \<Longrightarrow> bt_get (snd s') k = Some a"
  by (erule package_effectE) auto

lemma effect_active:
  assumes "package_effect encode sha v s s'" and "bt_get (fst s) k = Some x"
  shows "(\<exists>y. bt_get (fst s') k = Some y \<and> package_evolves x y) \<or>
     bt_get (fst s') k = None \<and> (\<exists>a. bt_get (snd s') k = Some a \<and> pz_operation a = x)"
  using assms by (cases rule: package_effect.cases) (auto intro: package_evolves_refl)

lemma effect_archived:
  assumes "package_effect encode sha v s s'" and "bt_get (fst s) k = None" and "bt_get (snd s) k = Some a"
  shows "bt_get (fst s') k = None"
  using assms by (cases rule: package_effect.cases) auto

lemma effect_looked_up:
  assumes "package_effect encode sha v s s'" and "looked_up s k = Some x"
  shows "\<exists>y. looked_up s' k = Some y \<and> package_evolves x y"
proof (cases "bt_get (fst s) k")
  case (Some z)
  with assms(2) have "bt_get (fst s) k = Some x" by (simp add: looked_up_def)
  from effect_active [OF assms(1) this] show ?thesis
    by (auto simp: looked_up_def intro: package_evolves_refl)
next
  case None
  with assms(2) obtain a where a: "bt_get (snd s) k = Some a" "pz_operation a = x" by (auto simp: looked_up_def)
  with effect_archives [OF assms(1) a(1)] effect_archived [OF assms(1) None a(1)] show ?thesis
    by (auto simp: looked_up_def intro: package_evolves_refl)
qed

lemma effects_looked_up:
  "package_effects encode sha v s s' \<Longrightarrow> looked_up s k = Some x \<Longrightarrow>
   \<exists>y. looked_up s' k = Some y \<and> package_evolves x y"
proof (induction rule: rtranclp_induct)
  case (step s' s'')
  then show ?case using effect_looked_up package_evolves_trans by blast
qed (auto intro: package_evolves_refl)

lemma effects_archives:
  "package_effects encode sha v s s' \<Longrightarrow> bt_get (snd s) k = Some a \<Longrightarrow> bt_get (snd s') k = Some a"
  by (induction rule: rtranclp_induct) (auto intro: effect_archives)

lemma effects_archived:
  "package_effects encode sha v s s' \<Longrightarrow> bt_get (fst s) k = None \<Longrightarrow> bt_get (snd s) k = Some a \<Longrightarrow>
   bt_get (fst s') k = None"
  by (induction rule: rtranclp_induct) (auto intro: effect_archived dest: effects_archives)

section \<open>Commands\<close>

text \<open>What package operations need of the Hub; any command keeps it, whatever the time of an observation.\<close>

definition packages_ok :: "(string \<Rightarrow> string) \<Rightarrow> hub_codec \<Rightarrow> 'a hub_state_scheme \<Rightarrow> bool" where
  "packages_ok sha enc h \<longleftrightarrow> stores_ok h \<and> fh_result_revision h \<le> u64_max \<and>
     package_stores_ok (hcd_package_json enc) sha (fh_result_revision h) (package_stores h)"

lemma hub_packages_ok: "hub_ok ob jb sha enc h \<Longrightarrow> packages_ok sha enc h"
  by (simp add: packages_ok_def hub_ok_def)

lemma reachable_packages: "reachable ob jb sha enc policy h \<Longrightarrow> packages_ok sha enc h"
  by (intro hub_packages_ok reachable_ok)

lemma other_command_package_stores:
  assumes ok: "stores_ok h" and other: "\<And>call. c \<noteq> Call_Package call"
  shows "package_stores (run_command ob jb sha enc h c) = package_stores h"
proof (cases "is_kiosk_command c")
  case True
  then obtain r :: "'a hub_state_scheme \<times> (hub_error + kiosk_operation)"
    where "ks.outcome h (command_key c) r" "run_command ob jb sha enc h c = fst r"
    using kiosk_command_effect [OF stores_okD(1) [OF ok], of c ob jb sha enc]
    by (auto simp: kiosk_effect_def)
  then show ?thesis by (simp add: run_kiosk_frame)
next
  case False
  show ?thesis
  proof (cases "is_owner_call c")
    case True
    then show ?thesis by (rule owner_call_frame(9) [OF ok])
  next
    case owner: False
    with False show ?thesis
      by (cases c) (use other in \<open>simp_all add: is_kiosk_command_def is_owner_call_def package_stores_def\<close>)
  qed
qed

lemma run_command_package_effects:
  assumes ok: "stores_ok h"
  shows "package_effects (hcd_package_json enc) sha (fh_result_revision h) (package_stores h)
     (package_stores (run_command ob jb sha enc h c))"
proof (cases "\<exists>call. c = Call_Package call")
  case True
  then obtain call where "c = Call_Package call" ..
  then show ?thesis
    using run_package_change [of "hcd_package_json enc" sha h call] by (simp add: package_change_def)
next
  case False
  then show ?thesis using other_command_package_stores [OF ok, of c] by simp
qed

lemma run_command_revision:
  assumes "stores_ok h" and "fh_result_revision h \<le> u64_max"
  shows "fh_result_revision h \<le> fh_result_revision (run_command ob jb sha enc h c) \<and>
     fh_result_revision (run_command ob jb sha enc h c) \<le> u64_max"
proof (cases "is_kiosk_command c \<or> is_owner_call c")
  case True
  then have "fh_result_revision (run_command ob jb sha enc h c) = fh_result_revision h"
    using kiosk_command_effect [OF stores_okD(1) [OF assms(1)], of c ob jb sha enc] run_kiosk_frame(3)
      owner_call_frame(3) [OF assms(1)] by (fastforce simp: kiosk_effect_def)
  with assms(2) show ?thesis by simp
next
  case False
  have "fh_result_revision (fst (accept_observation ob jb h obs t)) \<le> u64_max" for obs t
    by (cases rule: accept_observation_cases [of ob jb obs h t])
      (use assms(2) in \<open>simp_all add: admit_result_revision\<close>)
  moreover have "fh_result_revision (fst (accept_profiled_kiosk_catalog uni h a p t)) \<le> u64_max \<and>
      fh_result_revision h \<le> fh_result_revision (fst (accept_profiled_kiosk_catalog uni h a p t))" for uni a p t
    using profiled_revision [of uni h a p t] assms(2) by (auto simp: u64_saturating_add_mono)
  ultimately show ?thesis
    using False assms(2) by (cases c) (simp_all add: is_kiosk_command_def is_owner_call_def accept_revision_mono)
qed

lemma run_command_packages_ok:
  assumes "packages_ok sha enc h"
  shows "packages_ok sha enc (run_command ob jb sha enc h c)"
proof -
  let ?h = "run_command ob jb sha enc h c"
  have stores: "stores_ok h" and bound: "fh_result_revision h \<le> u64_max"
    using assms by (simp_all add: packages_ok_def)
  note revision = run_command_revision [OF stores bound, of ob jb sha enc c]
  have "package_stores_ok (hcd_package_json enc) sha (fh_result_revision h) (package_stores ?h)"
    using package_effects_ok [OF run_command_package_effects [OF stores]] assms by (simp add: packages_ok_def)
  with revision run_command_stores [OF stores] show ?thesis
    by (auto simp: packages_ok_def intro: package_stores_ok_mono)
qed

lemma run_commands_Cons [simp]:
  "run_commands ob jb sha enc h (c # cs) = run_commands ob jb sha enc (run_command ob jb sha enc h c) cs"
  "run_commands ob jb sha enc h [] = h"
  by (simp_all add: run_commands_def)

lemma run_commands_packages_ok: "packages_ok sha enc h \<Longrightarrow> packages_ok sha enc (run_commands ob jb sha enc h cs)"
  by (induction cs arbitrary: h) (simp_all add: run_command_packages_ok)

lemma packages_ok_effects:
  "packages_ok sha enc h \<Longrightarrow> package_effects (hcd_package_json enc) sha (fh_result_revision h) (package_stores h)
     (package_stores (run_command ob jb sha enc h c))"
  by (rule run_command_package_effects) (simp add: packages_ok_def)

lemma run_commands_looked_up:
  assumes "packages_ok sha enc h" and "looked_up (package_stores h) k = Some x"
  shows "\<exists>y. looked_up (package_stores (run_commands ob jb sha enc h cs)) k = Some y \<and> package_evolves x y"
  using assms
proof (induction cs arbitrary: h x)
  case Nil
  then show ?case by (auto intro: package_evolves_refl)
next
  case (Cons c cs)
  obtain y where y: "looked_up (package_stores (run_command ob jb sha enc h c)) k = Some y" "package_evolves x y"
    using effects_looked_up [OF packages_ok_effects [OF Cons.prems(1)] Cons.prems(2)] by blast
  from Cons.IH [OF run_command_packages_ok [OF Cons.prems(1)] y(1)] y(2) show ?case
    by (auto intro: package_evolves_trans)
qed

lemma run_commands_archives:
  assumes "packages_ok sha enc h" and "bt_get (fh_package_archives h) k = Some a"
  shows "bt_get (fh_package_archives (run_commands ob jb sha enc h cs)) k = Some a"
  using assms
proof (induction cs arbitrary: h)
  case (Cons c cs)
  have "bt_get (fh_package_archives (run_command ob jb sha enc h c)) k = Some a"
    using effects_archives [OF packages_ok_effects [OF Cons.prems(1), where c = c], of k a] Cons.prems(2)
    by (simp add: package_stores_def)
  with Cons show ?case by (simp add: run_command_packages_ok)
qed simp

section \<open>Stored operations\<close>

lemma stored_package_kept:
  assumes "packages_ok sha enc h" and "looked_up (package_stores h) k = Some x"
  shows "package_kept x" and "po_operation_id x = k"
  using assms by (auto simp: packages_ok_def package_stores_ok_def looked_up_def package_stores_def split: option.splits)

lemma package_kept_frozen:
  assumes "package_kept op" and "t \<in> set (po_targets op)"
  shows "pt_preflight t \<in> set (pv_targets (po_preview op))" "pt_identity_revision t = pf_identity_revision (pt_preflight t)"
    "package_target_kept op t"
proof -
  from assms(2) obtain k where k: "k < length (po_targets op)" "t = po_targets op ! k" by (auto simp: in_set_conv_nth)
  with assms(1) have "frozen_identity op k t" by (simp add: package_kept_def package_frozen_def)
  then have found: "bt_get (package_frozen_targets (po_preview op)) (pt_device_id t) = Some (pt_preflight t)"
    and "pt_identity_revision t = pf_identity_revision (pt_preflight t)"
    by (simp_all add: frozen_identity_def)
  then show "pt_identity_revision t = pf_identity_revision (pt_preflight t)" by simp
  from found show "pt_preflight t \<in> set (pv_targets (po_preview op))"
    by (auto simp: package_frozen_targets_def bt_get_from_list dest!: map_of_SomeD)
  show "package_target_kept op t" using assms by (simp add: package_kept_def)
qed

lemma package_kept_devices:
  assumes "package_kept op"
  shows "distinct (map pt_device_id (po_targets op))"
  using assms by (auto simp: package_kept_def package_frozen_def frozen_identity_def distinct_by_prefix)

text \<open>Consumed claims: bounded per target, never forgotten while the operation is active.\<close>

lemma kept_spent_bound:
  assumes "package_kept op"
  shows "length (spent op) \<le> 64 * length (po_targets op)"
proof -
  have bound: "length (pt_consumed t) \<le> 64" if "t \<in> set (po_targets op)" for t
  proof -
    from assms that have kept: "package_target_kept op t" by (simp add: package_kept_def)
    show ?thesis
    proof (cases "pf_eligible (pt_preflight t)")
      case True
      with package_target_keptD(4) [OF kept] have "package_claims_kept t" .
      from package_claims_keptD(3) [OF this] show ?thesis
        by (simp add: consumed_identities_valid_def max_consumed_package_owner_claims_def)
    next
      case False
      with package_target_keptD(5) [OF kept] show ?thesis by simp
    qed
  qed
  have "length (concat (map pt_consumed ts)) \<le> 64 * length ts" if "\<forall>t\<in>set ts. length (pt_consumed t) \<le> 64" for ts
    using that by (induction ts) auto
  from this [of "po_targets op"] bound show ?thesis unfolding spent_def consumption_def by blast
qed

lemma evolves_consumed:
  assumes "package_evolves x y" and "package_kept x" and "t \<in> set (po_targets x)" and "e \<in> set (pt_consumed t)"
  shows "\<exists>u\<in>set (po_targets y). e \<in> set (pt_consumed u)"
proof -
  from assms have onward: "list_all2 package_onward (po_targets x) (po_targets y)" by (simp add: package_evolves_def)
  from assms(3) obtain k where k: "k < length (po_targets x)" "t = po_targets x ! k" by (auto simp: in_set_conv_nth)
  with onward have "package_onward t (po_targets y ! k)" "k < length (po_targets y)"
    by (auto simp: list_all2_conv_all_nth)
  with assms(4) show ?thesis by (auto simp: package_onward_def intro!: bexI [of _ "po_targets y ! k"])
qed

lemma evolves_spent_mono:
  assumes "package_evolves x y" and "package_kept x"
  shows "length (spent x) \<le> length (spent y)"
proof -
  have "list_all2 (\<lambda>t u. length (pt_consumed t) \<le> length (pt_consumed u)) (po_targets x) (po_targets y)"
    using assms by (auto simp: package_evolves_def elim!: list_all2_mono) (auto simp: package_onward_def)
  then have "length (concat (map pt_consumed (po_targets x))) \<le> length (concat (map pt_consumed (po_targets y)))"
    by (induction rule: list_all2_induct) auto
  then show ?thesis by (simp add: spent_def consumption_def)
qed

end
