(* ===== verification/Package_Samples.thy ===== *)
theory Package_Samples
  imports Samples Package_Runs
begin

text \<open>
  Concrete runs of package operations on two headsets with the updater capability: one operation from
  preview to the installed-version receipts and its archive, and one whose owner claim lapses.
\<close>

section \<open>Two headsets\<close>

definition zeros_sha :: "string \<Rightarrow> string" where
  "zeros_sha _ = replicate 64 CHR ''0''"

definition updater_capability :: capability_state where
  "updater_capability = sample_capability\<lparr>cap_capability_id := package_updater_capability_id,
     cap_owner := package_updater_owner\<rparr>"

definition package_observation :: "string \<Rightarrow> device_observation" where
  "package_observation d = (sample_observation d 1 ''boot-1'' 1)\<lparr>do_capabilities := \<lparr>
     caps_capabilities = bt_insert package_updater_capability_id updater_capability bt_empty,
     caps_extensions = bt_empty\<rparr>\<rparr>"

definition pkg_record :: "string \<Rightarrow> u64 \<Rightarrow> device_record" where
  "pkg_record d v = admitted_record default_policy v None (package_observation d) 1000"

definition base1 :: hub_state where
  "base1 = run_command no_bytes no_bytes zeros_sha no_codec hub0 (Observe (package_observation ''hmd-1'') 1000)"

definition base2 :: hub_state where
  "base2 = run_command no_bytes no_bytes zeros_sha no_codec base1 (Observe (package_observation ''hmd-2'') 1000)"

lemma updater_capability_valid: "valid (validate_capability updater_capability)"
  by (simp add: valid_capability updater_capability_def sample_capability_def package_updater_capability_id_def
      package_updater_owner_def is_blank.simps)

lemma package_observation_valid:
  assumes "d \<in> {''hmd-1'', ''hmd-2''}"
  shows "valid (validate_observation no_bytes no_bytes (package_observation d))"
proof -
  let ?o = "package_observation d"
  have "valid (validate_identity (sample_identity d 1))"
    using assms by (auto simp: valid_identity sample_identity_def is_blank.simps bt_len_insert bt_contains_key_def)
  then have "observation_head_failures ?o = []"
    by (simp add: valid_observation_head package_observation_def sample_observation_def is_blank.simps)
  moreover have "observation_fact_failures ?o = []" "observation_limit_failures no_bytes ?o = []"
    by (simp_all add: observation_fact_failures_def observation_limit_failures_def package_observation_def
        sample_observation_def no_bytes_def on_some_def bt_len_insert bt_contains_key_def)
  moreover have "valid (validate_capabilities (do_capabilities ?o))"
    using updater_capability_valid
    by (simp add: valid_capabilities package_observation_def capability_get_def bt_len_insert bt_contains_key_def)
      (simp add: updater_capability_def)
  moreover have "\<forall>i<length (do_conditions ?o). valid (validate_condition (do_conditions ?o ! i))"
    by (simp add: package_observation_def sample_observation_def sample_condition_valid less_Suc_eq)
  moreover have "do_streams ?o = []" by (simp add: package_observation_def sample_observation_def)
  ultimately show ?thesis by (simp add: validate_observation_def)
qed

lemma package_observation_fields [simp]:
  "do_identity (package_observation d) = sample_identity d 1" "do_source_epoch (package_observation d) = ''boot-1''"
  "capability_get (do_capabilities (package_observation d)) package_updater_capability_id = Some updater_capability"
  "di_device_id (sample_identity d r) = d" "di_identity_revision (sample_identity d r) = r"
  by (simp_all add: package_observation_def sample_observation_def capability_get_def sample_identity_def)

lemma base1_eq: "base1 = fst (admit hub0 (package_observation ''hmd-1'') 1000)"
  using package_observation_valid [of "''hmd-1''"]
  by (simp add: base1_def accept_observation_def valid_iff_Inr)

lemma base1_fields [simp]:
  "fh_policy base1 = default_policy" "fh_devices base1 = bt_insert ''hmd-1'' (pkg_record ''hmd-1'' 2) bt_empty"
  "fh_result_revision base1 = 2"
  unfolding base1_eq
  by (simp_all add: admit_devices admit_result_revision pkg_record_def u64_saturating_add_def u64_max_def numeral_2_eq_2)

lemma base2_eq: "base2 = fst (admit base1 (package_observation ''hmd-2'') 1000)"
  using package_observation_valid [of "''hmd-2''"]
  by (simp add: base2_def accept_observation_def valid_iff_Inr)

lemma base2_fields [simp]:
  "fh_policy base2 = default_policy"
  "fh_devices base2 = bt_insert ''hmd-2'' (pkg_record ''hmd-2'' 3) (bt_insert ''hmd-1'' (pkg_record ''hmd-1'' 2) bt_empty)"
  "fh_result_revision base2 = 3" "fh_package_operations base2 = bt_empty" "fh_package_archives base2 = bt_empty"
proof -
  show "fh_policy base2 = default_policy"
    "fh_devices base2 = bt_insert ''hmd-2'' (pkg_record ''hmd-2'' 3) (bt_insert ''hmd-1'' (pkg_record ''hmd-1'' 2) bt_empty)"
    "fh_result_revision base2 = 3"
    unfolding base2_eq
    by (simp_all add: admit_devices admit_result_revision pkg_record_def u64_saturating_add_def u64_max_def
        numeral_3_eq_3 numeral_2_eq_2)
  show "fh_package_operations base2 = bt_empty" "fh_package_archives base2 = bt_empty"
    by (simp_all add: base2_eq base1_eq) (simp_all add: hub0_def hub_new_def policy_ok_def default_policy_def)
qed

lemma base2_reachable: "reachable no_bytes no_bytes zeros_sha no_codec default_policy base2"
proof -
  have "admissible base1 (Observe (package_observation ''hmd-2'') 1000)"
    by (simp add: admissible_def base1_eq admit_def Let_def record_event_def u64_max_def u64_saturating_add_def)
  then show ?thesis
    unfolding base2_def base1_def
    by (intro reachable.step reachable.start hub0_new) (simp_all add: admissible_def u64_max_def base1_def)
qed

lemma pkg_record_fields [simp]:
  "rec_observation (pkg_record d v) = package_observation d" "rec_accepted_at_ms (pkg_record d v) = 1000"
  by (simp_all add: pkg_record_def)

section \<open>The operation\<close>

definition package_plan :: package_preview_plan where
  "package_plan = \<lparr>
     ppl_operation_id = ''pkg-1'', ppl_preview_id = ''preview-1'',
     ppl_request = \<lparr>
       ppr_schema = package_install_preview_request_schema,
       ppr_action_id = packages_install_release_action_id,
       ppr_release = Release_Id ''release-1'',
       ppr_expected_package_name = ''org.rusty'',
       ppr_expected_rollout_ring = ''stable'',
       ppr_targets = bt_insert ''hmd-1'' 1 (bt_insert ''hmd-2'' 1 bt_empty)\<rparr>,
     ppl_created_at_ms = 1100, ppl_expires_at_ms = 9000, ppl_max_parallelism = 1\<rparr>"

definition updater_facts :: "string \<Rightarrow> i64 \<Rightarrow> package_preflight" where
  "updater_facts d now = \<lparr>
     pf_device_id = d, pf_identity_revision = 1, pf_capability_id = package_updater_capability_id,
     pf_capability_evidence_revision = 1, pf_capability_owner = package_updater_owner,
     pf_support = Support_Supported, pf_enablement = Enablement_Enabled,
     pf_authorization = Authorization_Authorized, pf_reachability = Reachability_Reachable,
     pf_freshness = Freshness_Current, pf_observed_at_ms = 900, pf_fresh_until_ms = 9000,
     pf_evaluated_at_ms = now, pf_eligible = True, pf_reason_code = ''ready'', pf_message = ''ready''\<rparr>"

lemma updater_preflight:
  "1000 \<le> now \<Longrightarrow> now \<le> 9000 \<Longrightarrow>
   package_updater_preflight default_policy (pkg_record d v) now = updater_facts d now"
  by (simp add: package_updater_preflight_def package_capability_facts_def Let_def updater_capability_def
      sample_capability_def default_policy_def i64_saturating_sub_def i64_min_def i64_max_def updater_facts_def
      package_expected_eligibility_def package_expected_reason_code_def)

definition op_with :: "package_target list \<Rightarrow> package_operation" where
  "op_with ts = with_package_lifecycle ((proposed_package_operation 3 package_plan
     [updater_facts ''hmd-1'' 1100, updater_facts ''hmd-2'' 1100])\<lparr>po_targets := ts\<rparr>)"

definition pkg_hub :: "package_target list \<Rightarrow> hub_state" where
  "pkg_hub ts = put_package ''pkg-1'' (op_with ts) base2"

definition install1 :: "string \<Rightarrow> package_target" where
  "install1 d = proposed_package_target 1100 (updater_facts d 1100)"

definition install2 :: "string \<Rightarrow> package_target" where
  "install2 d = confirm_package_target 1200 (install1 d)"

definition invocation_for :: "string \<Rightarrow> package_invocation" where
  "invocation_for d = \<lparr>
     pi_schema = ''rusty.fleet.package_updater_invocation.v1'', pi_operation_id = ''pkg-1'',
     pi_preview_id = ''preview-1'', pi_device_id = d, pi_identity_revision = 1,
     pi_owner_action_request_id = ''request-1'', pi_release = Release_Id ''release-1'',
     pi_expected_package_name = ''org.rusty'', pi_expected_rollout_ring = ''stable'', pi_expires_at_ms = 9000\<rparr>"

definition install3 :: "string \<Rightarrow> package_target" where
  "install3 d = prepared_package_target (op_with []) ''request-1'' 1300 (install2 d)"

lemma op_with_fields [simp]:
  "po_targets (op_with ts) = ts" "po_operation_id (op_with ts) = ''pkg-1''"
  "po_max_parallelism (op_with ts) = 1" "po_created_at_ms (op_with ts) = 1100"
  "po_lifecycle (op_with ts) = package_derived_lifecycle (op_with ts)"
  "pv_preview_id (po_preview (op_with ts)) = ''preview-1''" "pv_expires_at_ms (po_preview (op_with ts)) = 9000"
  "pv_release (po_preview (op_with ts)) = Release_Id ''release-1''"
  "pv_expected_package_name (po_preview (op_with ts)) = ''org.rusty''"
  "pv_expected_rollout_ring (po_preview (op_with ts)) = ''stable''"
  "(op_with ts)\<lparr>po_targets := us, po_lifecycle := l\<rparr> = (op_with us)\<lparr>po_lifecycle := l\<rparr>"
  by (simp_all add: op_with_def proposed_package_operation_def Let_def with_package_lifecycle_def package_plan_def
      package_derived_lifecycle_def)

lemma op_with_change:
  "with_package_lifecycle ((op_with ts)\<lparr>po_targets := us\<rparr>) = op_with us"
  by (simp add: op_with_def with_package_lifecycle_def package_derived_lifecycle_def)

lemma pkg_hub_fields [simp]:
  "bt_get (fh_package_operations (pkg_hub ts)) k = (if k = ''pkg-1'' then Some (op_with ts) else None)"
  "fh_package_archives (pkg_hub ts) = bt_empty" "fh_devices (pkg_hub ts) = fh_devices base2"
  "fh_policy (pkg_hub ts) = default_policy"
  "put_package ''pkg-1'' (op_with us) (pkg_hub ts) = pkg_hub us"
  "bt_values (fh_package_operations (pkg_hub ts)) = [op_with ts]"
  by (simp_all add: pkg_hub_def put_package_def bt_values_def)


lemmas portable_bytes = is_package_id_def is_package_name_def is_release_byte_def is_ascii_alphanumeric_def
  is_ascii_digit_def is_ascii_lowercase_def is_ascii_uppercase_def

lemma sample_package_ids:
  "is_package_id ''pkg-1'' 256" "is_package_id ''preview-1'' 256" "is_package_id ''hmd-1'' 256"
  "is_package_id ''hmd-2'' 256" "is_package_id ''request-1'' 256" "is_package_id ''stable'' 128"
  "is_package_id ''preview_ready'' 256" "is_package_name ''org.rusty''" "is_package_id ''updater-1'' 256"
  "is_package_id ''claim-1'' 256" "is_package_id ''claim-2'' 256" "is_package_id ''installed'' 256"
  "is_package_id ''accepted'' 256"
  by (simp_all add: portable_bytes)

lemma updater_facts_valid:
  "\<not> is_blank d \<Longrightarrow> valid (validate_package_preflight (updater_facts d 1100))"
  by (simp add: validate_package_preflight_def updater_facts_def package_expected_eligibility_def
      package_expected_reason_code_def is_blank.simps)

lemma sample_release_valid: "valid (validate_package_release (Release_Id ''release-1''))"
  by (simp add: validate_package_release_def portable_bytes)

abbreviation "package_op1 \<equiv> op_with [install1 ''hmd-1'', install1 ''hmd-2'']"

lemma updater_facts_fields [simp]:
  "pf_device_id (updater_facts d now) = d" "pf_eligible (updater_facts d now)"
  "pf_identity_revision (updater_facts d now) = 1" "pf_evaluated_at_ms (updater_facts d now) = now"
  by (simp_all add: updater_facts_def)

lemma install1_fields [simp]:
  "pt_device_id (install1 d) = d" "pt_identity_revision (install1 d) = 1"
  "pt_preflight (install1 d) = updater_facts d 1100" "pt_lifecycle (install1 d) = Proposed"
  "pt_stage (install1 d) = PreviewReady" "pt_invocation (install1 d) = None" "pt_owner_claim (install1 d) = None"
  "pt_prior_owner_claims (install1 d) = []" "pt_consumed (install1 d) = []" "pt_acknowledgement (install1 d) = None"
  "pt_owner_progress (install1 d) = None" "pt_effective_receipt (install1 d) = None"
  "pt_last_transition_ms (install1 d) = 1100" "pt_reason_code (install1 d) = ''preview_ready''" "pt_message (install1 d) \<noteq> []"
  by (simp_all add: install1_def proposed_package_target_def)

lemma op_with_preview [simp]:
  "pv_operation_id (po_preview (op_with ts)) = ''pkg-1''" "pv_created_at_ms (po_preview (op_with ts)) = 1100"
  "pv_action_id (po_preview (op_with ts)) = packages_install_release_action_id"
  "po_action_id (op_with ts) = packages_install_release_action_id"
  "pv_targets (po_preview (op_with ts)) = [updater_facts ''hmd-1'' 1100, updater_facts ''hmd-2'' 1100]"
  "po_schema (op_with ts) = ''rusty.fleet.package_install_release_operation.v1''"
  "\<not> po_cleanup_required (op_with ts)" "pv_fleet_revision (po_preview (op_with ts)) = 3"
  "pv_schema (po_preview (op_with ts)) = ''rusty.fleet.package_install_release_preview.v1''"
  "pv_owner_contract (po_preview (op_with ts)) = attended_v1"
  by (simp_all add: op_with_def proposed_package_operation_def Let_def with_package_lifecycle_def package_plan_def)

lemma package_op1_head:
  assumes "length ts = 2"
  shows "package_operation_head_failures (op_with ts) = []"
proof -
  have "valid (validate_package_preflight (updater_facts d 1100))" if "d \<in> {''hmd-1'', ''hmd-2''}" for d
    using that by (auto intro!: updater_facts_valid simp: is_blank.simps)
  then have "package_preflights_failures (pv_targets (po_preview (op_with ts))) 1100 9000 = []"
    by (simp add: package_preflights_failures_def package_preflight_failures_def for_each_Nil less_Suc_eq
        with_previous_def not_after_previous_def)
  then have "valid (validate_package_preview (po_preview (op_with ts)))"
    using sample_release_valid
    by (simp add: validate_package_preview_def sample_package_ids validate_package_owner_def valid_iff_Inr)
  then show ?thesis
    using assms by (simp add: package_operation_head_failures_def sample_package_ids)
qed

lemma package_op1_valid: "valid (validate_package_operation package_op1)"
proof -
  have "package_operation_target_failures package_op1 k (po_targets package_op1 ! k) = []" if "k < 2" for k
    using that sample_package_ids
    by (cases k) (simp_all add: package_operation_target_failures_def package_frozen_failures_def
        package_claims_failures_def package_lifecycle_failures_def package_proposed_failures_def
        no_owner_evidence_def numeral_2_eq_2 consumed_identities_valid_iff package_frozen_targets_def bt_get_from_list)
  then show ?thesis
    using package_op1_head [of "[install1 ''hmd-1'', install1 ''hmd-2'']"]
    by (simp add: validate_package_operation_def occupied_slots_def occupies_slot_def)
qed

lemma package_previews: "preview_package_install_release base2 package_plan = (pkg_hub [install1 ''hmd-1'', install1 ''hmd-2''], Inr package_op1)"
proof -
  have "validate_package_preview_plan package_plan = Inr ()"
    using sample_package_ids sample_release_valid
    by (simp add: validate_package_preview_plan_def package_plan_def validate_package_preview_request_def
        package_target_failures_def bt_len_insert bt_contains_key_def package_preview_max_lifetime_ms_def
        i64_saturating_sub_def i64_max_def i64_min_def valid_iff_Inr)
  moreover have "freeze_package_targets base2 1100 (entries (ppr_targets (ppl_request package_plan))) =
      Inr [updater_facts ''hmd-1'' 1100, updater_facts ''hmd-2'' 1100]"
    by (simp add: package_plan_def updater_preflight)
  moreover have "proposed_package_operation 3 package_plan [updater_facts ''hmd-1'' 1100, updater_facts ''hmd-2'' 1100] = package_op1"
    by (simp add: op_with_def proposed_package_operation_def Let_def with_package_lifecycle_def install1_def package_plan_def
        package_derived_lifecycle_def)
  moreover have "validate_package package_op1 = Inr ()" using package_op1_valid by (simp add: validate_package_def valid_iff_Inr)
  ultimately show ?thesis
    by (simp add: preview_package_install_release_def package_plan_def [symmetric] Let_def max_package_operations_def pkg_hub_def)
      (simp add: package_plan_def)
qed

section \<open>From confirmation to the archive\<close>

lemma package_current:
  assumes "find (\<lambda>t. pt_device_id t = d) (po_targets op) = Some t" and "pt_preflight t = updater_facts d 1100"
    and "pt_identity_revision t = 1" and "d \<in> {''hmd-1'', ''hmd-2''}" and "1000 \<le> now" "now \<le> 9000"
  shows "require_package_target_current (pkg_hub ts) op d now = Inr ()"
proof -
  have "same_package_frozen_facts (updater_facts d 1100) (updater_facts d now)"
    using assms(6) by (simp add: same_package_frozen_facts_def updater_facts_def package_expected_eligibility_def
        package_expected_reason_code_def)
  with assms show ?thesis
    by (auto simp: require_package_target_current_def find_package_target_def updater_preflight)
qed

lemma package_revised [simp]: "fst (revise_package (pkg_hub ts) ''pkg-1'' (op_with us)) = pkg_hub us"
  by simp

definition sample_claim :: "string \<Rightarrow> string \<Rightarrow> package_claim" where
  "sample_claim d name = \<lparr>
     pk_schema = package_updater_claim_schema, pk_claim_id = name, pk_owner_id = ''updater-1'',
     pk_request_id = name, pk_claimed_at_ms = 1400, pk_expires_at_ms = 2000,
     pk_invocation_sha256 = ''sha256:'' @ replicate 64 CHR ''0'',
     pk_release_sha256 = ''sha256:'' @ replicate 64 CHR ''0'',
     pk_target_sha256 = ''sha256:'' @ replicate 64 CHR ''0'', pk_invocation = invocation_for d\<rparr>"

definition install4 :: "string \<Rightarrow> string \<Rightarrow> package_target" where
  "install4 d name = claimed_package_target (sample_claim d name) 1400 (install3 d)"

definition sample_ack :: "string \<Rightarrow> package_acknowledgement" where
  "sample_ack d = \<lparr>
     pa_schema = package_updater_ack_schema, pa_operation_id = ''pkg-1'', pa_device_id = d,
     pa_owner_action_request_id = ''request-1'', pa_accepted = True, pa_code = ''accepted'',
     pa_acknowledged_at_ms = 1500\<rparr>"

definition install5 :: "string \<Rightarrow> string \<Rightarrow> package_target" where
  "install5 d name = acknowledged_package_target (sample_ack d) 1500 (install4 d name)"

definition sample_checkpoint :: package_checkpoint where
  "sample_checkpoint = \<lparr>pc_package_name = ''org.rusty'', pc_rollout_ring = ''stable'', pc_sequence = 7,
     pc_version_code = 42, pc_signed_manifest_sha256 = ''sha256:'' @ replicate 64 CHR ''a''\<rparr>"

definition sample_package_receipt :: "string \<Rightarrow> package_effective_receipt" where
  "sample_package_receipt d = \<lparr>
     pe_schema = ''rusty.fleet.package_updater_effective_receipt.v1'', pe_operation_id = ''pkg-1'',
     pe_device_id = d, pe_identity_revision = 1, pe_owner_action_request_id = ''request-1'',
     pe_updater_receipt = \<lparr>
       pu_schema = package_update_receipt_schema, pu_stage = InstallCommit, pu_decision = Receipt_Accepted,
       pu_code = ''installed'', pu_observed_at_ms = 1550, pu_envelope_sha256 = None,
       pu_signed_manifest_sha256 = Some (''sha256:'' @ replicate 64 CHR ''a''), pu_key_id = None,
       pu_manifest_id = None, pu_package_name = Some ''org.rusty'', pu_rollout_ring = Some ''stable'',
       pu_sequence = Some 7, pu_version_code = Some 42, pu_prior_checkpoint = None,
       pu_accepted_checkpoint = Some sample_checkpoint, pu_state_changed = True\<rparr>,
     pe_wrapped_at_ms = 1560\<rparr>"

definition install6 :: "string \<Rightarrow> string \<Rightarrow> package_target" where
  "install6 d name = applied_package_target (sample_package_receipt d) 1600 (install5 d name)"

lemma install2_fields [simp]:
  "pt_device_id (install2 d) = d" "pt_identity_revision (install2 d) = 1"
  "pt_preflight (install2 d) = updater_facts d 1100" "pt_lifecycle (install2 d) = Accepted"
  "pt_stage (install2 d) = Stage_Approved" "pt_owner_claim (install2 d) = None" "pt_consumed (install2 d) = []"
  "pt_last_transition_ms (install2 d) = 1200" "pt_invocation (install2 d) = None"
  by (simp_all add: install2_def confirm_package_target_def)

lemma install3_fields [simp]:
  "pt_device_id (install3 d) = d" "pt_identity_revision (install3 d) = 1"
  "pt_preflight (install3 d) = updater_facts d 1100" "pt_lifecycle (install3 d) = Accepted"
  "pt_stage (install3 d) = DispatchReady" "pt_owner_claim (install3 d) = None" "pt_consumed (install3 d) = []"
  "pt_last_transition_ms (install3 d) = 1300" "pt_invocation (install3 d) = Some (invocation_for d)"
  by (simp_all add: install3_def prepared_package_target_def prepared_package_invocation_def invocation_for_def)

lemma install4_fields [simp]:
  "pt_device_id (install4 d n) = d" "pt_identity_revision (install4 d n) = 1"
  "pt_preflight (install4 d n) = updater_facts d 1100" "pt_lifecycle (install4 d n) = Accepted"
  "pt_stage (install4 d n) = DispatchReady" "pt_owner_claim (install4 d n) = Some (sample_claim d n)"
  "pt_consumed (install4 d n) = [\<lparr>pci_claim_id = n, pci_request_id = n\<rparr>]"
  "pt_last_transition_ms (install4 d n) = 1400" "pt_invocation (install4 d n) = Some (invocation_for d)"
  by (simp_all add: install4_def claimed_package_target_def) (simp add: sample_claim_def)

lemma install5_fields [simp]:
  "pt_device_id (install5 d n) = d" "pt_identity_revision (install5 d n) = 1"
  "pt_preflight (install5 d n) = updater_facts d 1100" "pt_lifecycle (install5 d n) = Dispatched"
  "pt_stage (install5 d n) = OwnerAcknowledged" "pt_owner_claim (install5 d n) = Some (sample_claim d n)"
  "pt_consumed (install5 d n) = [\<lparr>pci_claim_id = n, pci_request_id = n\<rparr>]"
  "pt_last_transition_ms (install5 d n) = 1500" "pt_invocation (install5 d n) = Some (invocation_for d)"
  by (simp_all add: install5_def acknowledged_package_target_def) (simp_all add: sample_ack_def)

lemma install6_fields [simp]:
  "pt_device_id (install6 d n) = d" "pt_identity_revision (install6 d n) = 1"
  "pt_preflight (install6 d n) = updater_facts d 1100" "pt_lifecycle (install6 d n) = Applied"
  "pt_stage (install6 d n) = Stage_Applied" "pt_owner_claim (install6 d n) = Some (sample_claim d n)"
  "pt_consumed (install6 d n) = [\<lparr>pci_claim_id = n, pci_request_id = n\<rparr>]"
  "pt_last_transition_ms (install6 d n) = 1600" "pt_invocation (install6 d n) = Some (invocation_for d)"
  "pt_effective_receipt (install6 d n) = Some (sample_package_receipt d)"
  by (simp_all add: install6_def applied_package_target_def)

lemma sample_claim_fields [simp]:
  "pk_claim_id (sample_claim d n) = n" "pk_request_id (sample_claim d n) = n"
  "pk_claimed_at_ms (sample_claim d n) = 1400" "pk_expires_at_ms (sample_claim d n) = 2000"
  "pk_invocation (sample_claim d n) = invocation_for d"
  by (simp_all add: sample_claim_def)

lemma invocation_for_fields [simp]:
  "pi_operation_id (invocation_for d) = ''pkg-1''" "pi_device_id (invocation_for d) = d"
  "pi_owner_action_request_id (invocation_for d) = ''request-1''" "pi_expires_at_ms (invocation_for d) = 9000"
  "pi_identity_revision (invocation_for d) = 1" "pi_expected_package_name (invocation_for d) = ''org.rusty''"
  "pi_expected_rollout_ring (invocation_for d) = ''stable''"
  by (simp_all add: invocation_for_def)

lemma sample_digest_prefixed: "c \<in> {CHR ''0'', CHR ''a''} \<Longrightarrow> is_prefixed_sha256 (''sha256:'' @ replicate 64 c)"
  by (auto simp: is_prefixed_sha256_def is_lower_hex_def is_ascii_digit_def list_all_iff)

lemma sample_invocation_valid:
  "is_package_id d 256 \<Longrightarrow> valid (validate_package_invocation (invocation_for d))"
  using sample_release_valid
  by (simp add: validate_package_invocation_def sample_package_ids) (simp add: invocation_for_def sample_package_ids valid_iff_Inr)

lemma sample_claim_valid:
  "is_package_id d 256 \<Longrightarrow> is_package_id n 256 \<Longrightarrow> valid (validate_package_claim (sample_claim d n))"
  using sample_invocation_valid [of d] sample_digest_prefixed [of "CHR ''0''"]
  by (simp add: validate_package_claim_def) (simp add: sample_claim_def sample_package_ids valid_iff_Inr)

lemma sample_ack_valid: "is_package_id d 256 \<Longrightarrow> valid (validate_package_acknowledgement (sample_ack d))"
  by (simp add: validate_package_acknowledgement_def sample_ack_def sample_package_ids)

lemma package_receipt_valid:
  "valid (validate_package_receipt_for (sample_package_receipt d) (invocation_for d))"
  using sample_digest_prefixed [of "CHR ''a''"]
  by (simp add: validate_package_receipt_for_def sample_package_receipt_def validate_package_update_receipt_def
      proves_installed_version_def sample_checkpoint_def invalid_checkpoint_def sample_package_ids valid_iff_Inr)

lemma confirms:
  "confirm_package_install_release (pkg_hub [install1 ''hmd-1'', install1 ''hmd-2'']) ''pkg-1'' ''preview-1'' 1200 =
   Some (revise_package (pkg_hub [install1 ''hmd-1'', install1 ''hmd-2'']) ''pkg-1''
     (op_with [install2 ''hmd-1'', install2 ''hmd-2'']))"
proof -
  have "require_package_targets_current (pkg_hub [install1 ''hmd-1'', install1 ''hmd-2'']) package_op1 1200 = Inr ()"
    using package_current [of "''hmd-1''" package_op1] package_current [of "''hmd-2''" package_op1]
    by (simp add: require_package_targets_current_def)
  moreover have "confirmed_package_operation 1200 package_op1 = op_with [install2 ''hmd-1'', install2 ''hmd-2'']"
    by (simp add: confirmed_package_operation_def op_with_change install2_def)
  ultimately show ?thesis
    by (simp add: confirm_package_install_release_def package_operation_def require_package_preview_def
        package_derived_lifecycle_def)
qed

text \<open>The target of either headset, with the other one left as it is.\<close>

definition beside :: "string \<Rightarrow> package_target \<Rightarrow> package_target \<Rightarrow> package_target list" where
  "beside d x t = (if d = ''hmd-1'' then [t, x] else [x, t])"

definition other_of :: "string \<Rightarrow> package_target \<Rightarrow> bool" where
  "other_of d x \<longleftrightarrow> d \<in> {''hmd-1'', ''hmd-2''} \<and> pt_device_id x \<in> {''hmd-1'', ''hmd-2''} \<and> pt_device_id x \<noteq> d"

lemma beside_find [simp]:
  "other_of d x \<Longrightarrow> pt_device_id t = d \<Longrightarrow> find (\<lambda>t. pt_device_id t = d) (beside d x t) = Some t"
  by (auto simp: beside_def other_of_def)

lemma beside_change [simp]:
  "other_of d x \<Longrightarrow> pt_device_id t = d \<Longrightarrow>
   with_package_lifecycle (change_package_target (op_with (beside d x t)) d f) = op_with (beside d x (f t))"
  by (auto simp: beside_def other_of_def change_package_target_def op_with_change)

lemma prepares:
  assumes "other_of d x"
  shows "prepare_package_install_release_invocation (pkg_hub (beside d x (install2 d))) ''pkg-1'' d ''request-1'' 1300 =
    Some (revise_package (pkg_hub (beside d x (install2 d))) ''pkg-1'' (op_with (beside d x (install3 d))))"
proof -
  have "prepared_package_target (op_with (beside d x (install2 d))) ''request-1'' 1300 (install2 d) = install3 d"
    by (simp add: install3_def prepared_package_target_def prepared_package_invocation_def)
  moreover have "require_package_target_current (pkg_hub (beside d x (install2 d))) (op_with (beside d x (install2 d))) d 1300 = Inr ()"
    using assms by (intro package_current [where t = "install2 d"]) (simp_all add: other_of_def)
  ultimately show ?thesis
    using assms by (simp add: prepare_package_install_release_invocation_def package_operation_def find_package_target_def)
qed

lemma offers:
  assumes other: "other_of d x" and "\<not> claim_active now x" and "is_package_id n 256" and "1400 \<le> now" "now < 2000"
    and "\<forall>e\<in>set (pt_consumed x). pci_claim_id e \<noteq> n \<and> pci_request_id e \<noteq> n"
  shows "offer_package_updater_claim (pkg_hub (beside d x (install3 d))) (sample_claim d n) now =
    revise_package (pkg_hub (beside d x (install3 d))) ''pkg-1''
      (op_with (beside d x (claimed_package_target (sample_claim d n) now (install3 d))))"
proof -
  have "valid (validate_package_claim (sample_claim d n))"
    using assms sample_package_ids by (intro sample_claim_valid) (auto simp: other_of_def)
  moreover have "\<not> claim_replayed (pkg_hub (beside d x (install3 d))) (sample_claim d n)"
    using assms(6) by (auto simp: claim_replayed_def beside_def list_ex_iff)
  moreover have "length (filter (claim_active now) (beside d x (install3 d))) = 0"
    using assms(2) by (auto simp: beside_def claim_active_def)
  moreover have "change_package_target (op_with (beside d x (install3 d))) d (claimed_package_target (sample_claim d n) now) =
      op_with (beside d x (claimed_package_target (sample_claim d n) now (install3 d)))" (is "?op' = op_with ?ts")
  proof -
    have targets: "po_targets ?op' = ?ts"
      using other by (auto simp: change_package_target_def beside_def other_of_def)
    have "package_derived_lifecycle ?op' = package_derived_lifecycle (op_with (beside d x (install3 d)))"
      unfolding package_derived_lifecycle_def targets by (simp add: beside_def claimed_package_target_def)
    then have "with_package_lifecycle ?op' = ?op'"
      by (simp add: with_package_lifecycle_def change_package_target_def)
    moreover have "with_package_lifecycle ?op' = op_with ?ts" using other by simp
    ultimately show ?thesis by simp
  qed
  ultimately show ?thesis
    using assms by (simp add: offer_package_updater_claim_def active_package_def find_package_target_def
        max_consumed_package_owner_claims_def)
qed

lemma acknowledges:
  assumes "other_of d x"
  shows "admit_authenticated_package_updater_acknowledgement (pkg_hub (beside d x (install4 d n))) (sample_ack d) 1500 =
    revise_package (pkg_hub (beside d x (install4 d n))) ''pkg-1'' (op_with (beside d x (install5 d n)))"
proof -
  have "valid (validate_package_acknowledgement (sample_ack d))"
    using assms sample_package_ids by (intro sample_ack_valid) (auto simp: other_of_def)
  moreover have "pa_operation_id (sample_ack d) = ''pkg-1''" "pa_device_id (sample_ack d) = d"
    "pa_owner_action_request_id (sample_ack d) = ''request-1''" "pa_acknowledged_at_ms (sample_ack d) = 1500"
    by (simp_all add: sample_ack_def)
  ultimately show ?thesis
    using assms by (simp add: admit_authenticated_package_updater_acknowledgement_def active_package_def
        find_package_target_def package_invocation_of_def install5_def)
qed

lemma receives:
  assumes "other_of d x"
  shows "admit_authenticated_package_updater_receipt (pkg_hub (beside d x (install5 d n))) (sample_package_receipt d) 1600 =
    revise_package (pkg_hub (beside d x (install5 d n))) ''pkg-1'' (op_with (beside d x (install6 d n)))"
proof -
  have "pe_operation_id (sample_package_receipt d) = ''pkg-1''" "pe_device_id (sample_package_receipt d) = d"
    by (simp_all add: sample_package_receipt_def)
  with assms package_receipt_valid [of d] show ?thesis
    by (simp add: admit_authenticated_package_updater_receipt_def active_package_def find_package_target_def
        package_invocation_of_def install6_def)
qed

section \<open>Reachable Hubs\<close>

abbreviation sample_command :: "hub_state \<Rightarrow> package_call \<Rightarrow> hub_state" where
  "sample_command h call \<equiv> run_command no_bytes no_bytes zeros_sha no_codec h (Call_Package call)"

abbreviation sample_reachable :: "hub_state \<Rightarrow> bool" where
  "sample_reachable \<equiv> reachable no_bytes no_bytes zeros_sha no_codec default_policy"

lemma sample_step: "sample_reachable h \<Longrightarrow> sample_command h call = h' \<Longrightarrow> sample_reachable h'"
  using reachable.step [of _ _ _ _ _ h "Call_Package call"] by (auto simp: admissible_def)

abbreviation "waiting \<equiv> [install3 ''hmd-1'', install3 ''hmd-2'']"

lemma confirmed_reachable: "sample_reachable (pkg_hub [install2 ''hmd-1'', install2 ''hmd-2''])"
proof -
  have "sample_reachable (pkg_hub [install1 ''hmd-1'', install1 ''hmd-2''])"
    by (rule sample_step [OF base2_reachable, of "Preview_Package package_plan"]) (simp add: package_previews)
  then show ?thesis
    by (rule sample_step [of _ "Confirm_Package ''pkg-1'' ''preview-1'' 1200"])
      (simp add: confirms unless_panic_def split_beta)
qed

lemma prepared_reachable:
  assumes "sample_reachable (pkg_hub (beside d x (install2 d)))" and "other_of d x"
  shows "sample_reachable (pkg_hub (beside d x (install3 d)))"
  by (rule sample_step [OF assms(1), of "Prepare_Package ''pkg-1'' d ''request-1'' 1300"])
    (simp add: prepares [OF assms(2)] unless_panic_def split_beta)

lemma waiting_reachable: "sample_reachable (pkg_hub waiting)"
  using prepared_reachable [of "''hmd-1''" "install2 ''hmd-2''"] prepared_reachable [of "''hmd-2''" "install3 ''hmd-1''"]
    confirmed_reachable by (simp add: beside_def other_of_def)

lemma dispatched_reachable:
  assumes "sample_reachable (pkg_hub (beside d x (install3 d)))" and "other_of d x" and "\<not> claim_active 1400 x"
    and "is_package_id n 256" and "\<forall>e\<in>set (pt_consumed x). pci_claim_id e \<noteq> n \<and> pci_request_id e \<noteq> n"
  shows "sample_reachable (pkg_hub (beside d x (install4 d n)))" "sample_reachable (pkg_hub (beside d x (install5 d n)))"
proof -
  show "sample_reachable (pkg_hub (beside d x (install4 d n)))"
    using offers [of d x 1400 n] assms
    by (intro sample_step [OF assms(1), of "Offer_Package (sample_claim d n) 1400"]) (simp add: install4_def)
  then show "sample_reachable (pkg_hub (beside d x (install5 d n)))"
    by (rule sample_step [of _ "Acknowledge_Package (sample_ack d) 1500"]) (simp add: acknowledges [OF assms(2)])
qed

lemma applied_reachable:
  assumes "sample_reachable (pkg_hub (beside d x (install5 d n)))" and "other_of d x"
  shows "sample_reachable (pkg_hub (beside d x (install6 d n)))"
  by (rule sample_step [OF assms(1), of "Receive_Package (sample_package_receipt d) 1600"])
    (simp add: receives [OF assms(2)])

lemma first_reachable:
  "sample_reachable (pkg_hub [install4 ''hmd-1'' ''claim-1'', install3 ''hmd-2''])"
  "sample_reachable (pkg_hub [install5 ''hmd-1'' ''claim-1'', install3 ''hmd-2''])"
  "sample_reachable (pkg_hub [install6 ''hmd-1'' ''claim-1'', install3 ''hmd-2''])"
proof -
  note dispatched = dispatched_reachable [of "''hmd-1''" "install3 ''hmd-2''" "''claim-1''"]
  from waiting_reachable have start: "sample_reachable (pkg_hub (beside ''hmd-1'' (install3 ''hmd-2'') (install3 ''hmd-1'')))"
    by (simp add: beside_def)
  show "sample_reachable (pkg_hub [install4 ''hmd-1'' ''claim-1'', install3 ''hmd-2''])"
    using dispatched(1) [OF start] sample_package_ids by (simp add: beside_def other_of_def claim_active_def)
  have "sample_reachable (pkg_hub (beside ''hmd-1'' (install3 ''hmd-2'') (install5 ''hmd-1'' ''claim-1'')))"
    using dispatched(2) [OF start] sample_package_ids by (simp add: other_of_def claim_active_def)
  then show "sample_reachable (pkg_hub [install5 ''hmd-1'' ''claim-1'', install3 ''hmd-2''])"
    and "sample_reachable (pkg_hub [install6 ''hmd-1'' ''claim-1'', install3 ''hmd-2''])"
    using applied_reachable [of "''hmd-1''" "install3 ''hmd-2''" "''claim-1''"]
    by (simp_all add: beside_def other_of_def)
qed

abbreviation "installed_targets \<equiv> [install6 ''hmd-1'' ''claim-1'', install6 ''hmd-2'' ''claim-2'']"

lemma installed_reachable: "sample_reachable (pkg_hub installed_targets)"
proof -
  let ?x = "install6 ''hmd-1'' ''claim-1''"
  have other: "other_of ''hmd-2'' ?x" by (simp add: other_of_def)
  have "sample_reachable (pkg_hub (beside ''hmd-2'' ?x (install3 ''hmd-2'')))"
    using first_reachable(3) by (simp add: beside_def)
  from applied_reachable [OF dispatched_reachable(2) [OF this other, of "''claim-2''"] other]
  show ?thesis using sample_package_ids by (simp add: beside_def claim_active_def)
qed

definition sample_archive :: package_archive where
  "sample_archive = archive_of (hcd_package_json no_codec) zeros_sha (op_with installed_targets) 1700"

definition sample_archive_request :: package_archive_request where
  "sample_archive_request = \<lparr>par_schema = package_operation_archive_request_schema,
     par_operation_id = ''pkg-1'', par_expected_operation_sha256 = ''sha256:'' @ replicate 64 CHR ''0''\<rparr>"

definition archived_hub :: hub_state where
  "archived_hub = base2\<lparr>fh_package_archives := bt_insert ''pkg-1'' sample_archive bt_empty\<rparr>"

lemma installed_terminal:
  "package_is_terminal (op_with installed_targets)" "package_last_transition_ms (op_with installed_targets) = 1600"
  "po_lifecycle (op_with installed_targets) = Applied"
  by (simp_all add: package_is_terminal_def is_terminal_target_def package_last_transition_ms_def
      package_derived_lifecycle_def)

lemma sample_archive_valid: "valid (validate_package_archive (hcd_package_json no_codec) zeros_sha sample_archive)"
  using installed_terminal
  by (simp add: validate_package_archive_def sample_archive_def archive_of_def validate_package_counts_for_def
      package_progress_of_def Let_def valid_iff_Inr)

lemma archives_operation:
  "archive_package_operation (hcd_package_json no_codec) zeros_sha (pkg_hub installed_targets) sample_archive_request 1700 =
   (archived_hub, Inr sample_archive)"
proof -
  have "valid (validate_package_archive_request sample_archive_request)"
    using sample_digest_prefixed [of "CHR ''0''"] sample_package_ids
    by (simp add: validate_package_archive_request_def sample_archive_request_def)
  moreover have "par_operation_id sample_archive_request = ''pkg-1''"
    "operation_sha256 (hcd_package_json no_codec) zeros_sha op = par_expected_operation_sha256 sample_archive_request" for op
    by (simp_all add: sample_archive_request_def operation_sha256_def zeros_sha_def)
  moreover have "(pkg_hub installed_targets)\<lparr>
      fh_package_operations := bt_remove ''pkg-1'' (fh_package_operations (pkg_hub installed_targets)),
      fh_package_archives := bt_insert ''pkg-1'' sample_archive (fh_package_archives (pkg_hub installed_targets))\<rparr> = archived_hub"
  proof -
    have "bt_remove ''pkg-1'' (fh_package_operations (pkg_hub installed_targets)) = fh_package_operations base2"
      by (intro btree_map_eqI) simp
    then show ?thesis by (simp add: archived_hub_def pkg_hub_def put_package_def)
  qed
  ultimately show ?thesis
    using installed_terminal sample_archive_valid
    by (simp add: archive_package_operation_def active_package_def Let_def max_archived_package_operations_def
        sample_archive_def [symmetric])
qed

lemma archived_reachable: "sample_reachable archived_hub"
  by (rule sample_step [OF installed_reachable, of "Archive_Package sample_archive_request 1700"])
    (simp add: archives_operation)

lemma archived_hub_fields [simp]:
  "bt_get (fh_package_operations archived_hub) k = None" "fh_policy archived_hub = default_policy"
  "bt_get (fh_package_archives archived_hub) ''pkg-1'' = Some sample_archive"
  "fh_devices archived_hub = fh_devices base2" "pz_operation sample_archive = op_with installed_targets"
  by (simp_all add: archived_hub_def sample_archive_def archive_of_def)

end
