(* ===== verification/Package_Offers.thy ===== *)
theory Package_Offers
  imports Package_Runs
begin

text \<open>
  Delivery of package invocations: when a claim passes the guards of an offer, when the operation it is
  written into is still valid, and what the selection of an offer after a sweep guarantees.
\<close>

section \<open>The guards of an offer\<close>

definition claimable :: "'a hub_state_scheme \<Rightarrow> package_claim \<Rightarrow> i64 \<Rightarrow> package_operation \<Rightarrow> package_target \<Rightarrow> bool" where
  "claimable h c now op t \<longleftrightarrow>
     valid (validate_package_claim c) \<and> pk_claimed_at_ms c \<le> now \<and> now < pk_expires_at_ms c \<and>
     \<not> claim_replayed h c \<and>
     bt_get (fh_package_operations h) (pi_operation_id (pk_invocation c)) = Some op \<and>
     length (filter (claim_active now) (po_targets op)) < po_max_parallelism op \<and>
     find (\<lambda>t. pt_device_id t = pi_device_id (pk_invocation c)) (po_targets op) = Some t \<and>
     pt_lifecycle t = Accepted \<and> pt_stage t = DispatchReady \<and> pt_invocation t = Some (pk_invocation c) \<and>
     pt_owner_claim t = None \<and> length (pt_consumed t) < max_consumed_package_owner_claims"

definition offered :: "package_claim \<Rightarrow> i64 \<Rightarrow> package_operation \<Rightarrow> package_operation" where
  "offered c now op = change_package_target op (pi_device_id (pk_invocation c)) (claimed_package_target c now)"

lemma offer_claimable:
  assumes "claimable h c now op t"
  shows "offer_package_updater_claim h c now = revise_package h (pi_operation_id (pk_invocation c)) (offered c now op)"
  using assms by (simp add: claimable_def offer_package_updater_claim_def active_package_def find_package_target_def
      offered_def)

lemma offer_refused:
  assumes "\<nexists>op t. claimable h c now op t"
  shows "\<exists>e. offer_package_updater_claim h c now = (h, Inl e) \<and> he_code e \<noteq> ''package_operation_invalid''"
  using assms by (auto simp: claimable_def offer_package_updater_claim_def active_package_def find_package_target_def
      hub_error_def split: option.split)

lemma revise_package_cases:
  "valid (validate_package_operation y) \<Longrightarrow> revise_package h k y = (put_package k y h, Inr y)"
  "\<not> valid (validate_package_operation y) \<Longrightarrow> \<exists>e. revise_package h k y = (put_package k y h, Inl e) \<and>
     he_code e = ''package_operation_invalid''"
  by (auto simp: revise_package_def validate_package_def valid_def hub_error_def split: sum.splits)

lemma kept_find:
  assumes "package_kept op" and "t \<in> set (po_targets op)"
  shows "find (\<lambda>u. pt_device_id u = pt_device_id t) (po_targets op) = Some t"
proof -
  have "distinct (map pt_device_id ts) \<Longrightarrow> t \<in> set ts \<Longrightarrow> find (\<lambda>u. pt_device_id u = pt_device_id t) ts = Some t" for ts
    by (induction ts) auto
  with assms package_kept_devices show ?thesis by blast
qed

section \<open>What an offer leaves behind\<close>

lemma offered_split:
  assumes "claimable h c now op t"
  obtains as bs where "po_targets op = as @ t # bs" "po_targets (offered c now op) = as @ claimed_package_target c now t # bs"
proof -
  have "find (\<lambda>t. pt_device_id t = pi_device_id (pk_invocation c)) (po_targets op) = Some t"
    using assms by (simp add: claimable_def)
  from update_first_split [OF this, of "claimed_package_target c now"] show thesis
    using that by (auto simp: offered_def change_package_target_def)
qed

lemma claimable_unspent:
  assumes "claimable h c now op t" and "e \<in> set (pt_consumed t)"
  shows "pci_claim_id e \<noteq> pk_claim_id c \<and> pci_request_id e \<noteq> pk_request_id c"
proof -
  have "op \<in> set (bt_values (fh_package_operations h))" "t \<in> set (po_targets op)"
    using assms(1) find_Some_set by (fastforce simp: claimable_def set_bt_values)+
  with assms show ?thesis by (auto simp: claimable_def claim_replayed_def list_ex_iff)
qed

lemma offered_evolves:
  assumes "claimable h c now op t"
  shows "package_evolves op (offered c now op)"
  unfolding offered_def
proof (rule package_evolves_claim)
  show "find (\<lambda>t. pt_device_id t = pi_device_id (pk_invocation c)) (po_targets op) = Some t"
    and "pt_lifecycle t = Accepted" using assms by (simp_all add: claimable_def)
  show "package_step op t (claimed_package_target c now t)"
    using assms claimable_unspent [OF assms] by (intro claimed_package_step) (simp_all add: claimable_def)
qed

lemma offered_valid_iff:
  assumes "claimable h c now op t" and "package_kept op" and "valid (validate_package_operation op)"
  shows "valid (validate_package_operation (offered c now op)) \<longleftrightarrow>
     po_created_at_ms op \<le> now \<and> occupied_slots op < po_max_parallelism op"
proof -
  obtain as bs where split: "po_targets op = as @ t # bs"
    "po_targets (offered c now op) = as @ claimed_package_target c now t # bs"
    by (rule offered_split [OF assms(1)])
  have fields: "po_created_at_ms (offered c now op) = po_created_at_ms op"
    "po_max_parallelism (offered c now op) = po_max_parallelism op"
    by (simp_all add: offered_def change_package_target_def)
  have t: "pt_lifecycle t = Accepted" "pt_owner_claim t = None" using assms(1) by (simp_all add: claimable_def)
  have kept: "package_kept (offered c now op)"
    using offered_evolves [OF assms(1)] assms(2) by (simp add: package_evolves_def)
  show ?thesis
    using assms(3) t unfolding package_valid_iff [OF kept] package_valid_iff [OF assms(2)]
    by (auto simp: times_in_order_def invocations_valid_def occupied_slots_def split fields occupies_slot_def
        claimed_package_target_def)
qed

section \<open>After a sweep\<close>

lemma swept_not_lapsed: "t \<in> set (po_targets (swept_package_operation now op)) \<Longrightarrow> \<not> claim_lapsed now t"
  by (auto simp: swept_package_operation_def with_package_lifecycle_def claim_lapsed_def released_package_target_def
      Let_def split: if_splits)

lemma sweep_other:
  "k \<notin> set (map fst rest) \<Longrightarrow>
   bt_get (fh_package_operations (fst (sweep_package_claims h rest now n))) k = bt_get (fh_package_operations h) k"
proof (induction h rest now n rule: sweep_package_claims.induct)
  case (2 h j op rest now n)
  then show ?case
    by (cases "validate_package (swept_package_operation now op)") (auto simp: Let_def put_package_def)
qed simp

lemma sweep_entries:
  assumes "snd (sweep_package_claims h rest now n) = Inr m" and "distinct (map fst rest)" and "(k, op) \<in> set rest"
  shows "bt_get (fh_package_operations (fst (sweep_package_claims h rest now n))) k = Some (swept_package_operation now op) \<and>
     valid (validate_package_operation (swept_package_operation now op))"
  using assms
proof (induction h rest now n rule: sweep_package_claims.induct)
  case (2 h j x rest now n)
  then obtain u where v: "validate_package (swept_package_operation now x) = Inr u"
    by (cases "validate_package (swept_package_operation now x)") (auto simp: Let_def)
  then have "valid (validate_package_operation (swept_package_operation now x))"
    by (auto simp: validate_package_def valid_def split: sum.splits)
  with 2 v show ?case by (auto simp: Let_def sweep_other put_package_def)
qed simp

lemma expired_entry:
  assumes "snd (expire_package_updater_claims h now) = Inr n"
    and "bt_get (fh_package_operations (fst (expire_package_updater_claims h now))) k = Some op"
  shows "valid (validate_package_operation op)" "t \<in> set (po_targets op) \<Longrightarrow> \<not> claim_lapsed now t"
    "\<exists>x. bt_get (fh_package_operations h) k = Some x \<and> op = swept_package_operation now x"
proof -
  let ?es = "entries (fh_package_operations h)"
  have distinct: "distinct (map fst ?es)" using distinct_bt_keys [of "fh_package_operations h"] by (simp add: bt_keys_def)
  have "k \<in> set (map fst ?es)"
  proof (rule ccontr)
    assume "k \<notin> set (map fst ?es)"
    then have "bt_get (fh_package_operations h) k = Some op"
      using assms(2) sweep_other by (metis expire_package_updater_claims_def)
    with \<open>k \<notin> set (map fst ?es)\<close> show False by (force simp: bt_get_Some_iff)
  qed
  then obtain x where x: "(k, x) \<in> set ?es" by auto
  from sweep_entries [OF assms(1) [unfolded expire_package_updater_claims_def] distinct x] assms(2)
  have "op = swept_package_operation now x" "valid (validate_package_operation op)"
    by (auto simp: expire_package_updater_claims_def)
  then show "valid (validate_package_operation op)" "t \<in> set (po_targets op) \<Longrightarrow> \<not> claim_lapsed now t"
    "\<exists>x. bt_get (fh_package_operations h) k = Some x \<and> op = swept_package_operation now x"
    using x by (auto simp: swept_not_lapsed bt_get_Some_iff)
qed

section \<open>Selection\<close>

lemma length_filter_mono:
  "(\<And>x. x \<in> set xs \<Longrightarrow> p x \<Longrightarrow> q x) \<Longrightarrow> length (filter p xs) \<le> length (filter q xs)"
  by (induction xs) (auto simp: le_Suc_eq)

lemma find_map_Some:
  "find_map f xs = Some y \<Longrightarrow> \<exists>x\<in>set xs. f x = Some y"
  by (induction f xs rule: find_map.induct) (auto split: option.splits)

text \<open>A target whose owner asked for a cancellation is not counted by the selection but is by the offer.\<close>

definition cancelling :: "i64 \<Rightarrow> package_target \<Rightarrow> bool" where
  "cancelling now t \<longleftrightarrow> pt_lifecycle t = CancellationRequested \<and>
     some_and (\<lambda>c. pk_expires_at_ms c > now) (pt_owner_claim t)"

lemma claim_active_bound:
  assumes "package_kept op" and "\<not> list_ex (cancelling now) (po_targets op)"
  shows "length (filter (claim_active now) (po_targets op)) \<le> length (filter (occupied_at now) (po_targets op))"
proof -
  have "claim_active now t \<Longrightarrow> occupied_at now t" if "t \<in> set (po_targets op)" for t
  proof -
    assume active: "claim_active now t"
    then obtain c where c: "pt_owner_claim t = Some c" "pk_expires_at_ms c > now"
      "pt_lifecycle t \<notin> {Applied, Lifecycle_Failed, Cancelled, Expired}"
      by (auto simp: claim_active_def split: option.splits)
    have kept: "package_target_kept op t" by (rule package_kept_frozen(3) [OF assms(1) that])
    have "\<not> cancelling now t" using assms(2) that by (auto simp: list_ex_iff)
    then have "pt_lifecycle t \<noteq> CancellationRequested" using c by (simp add: cancelling_def)
    moreover have eligible: "pf_eligible (pt_preflight t)"
      using package_target_keptD(5) [OF kept] c(1) by (auto simp: no_owner_evidence_def)
    then have row: "package_row op t" and claims: "package_claims_kept t"
      using package_target_keptD(3,4) [OF kept] by simp_all
    then have "pt_invocation t \<noteq> None"
      using package_claims_keptD(4) [OF claims c(1)] by (auto simp: claim_unbound_def)
    then have "pt_lifecycle t \<noteq> Proposed" "pt_lifecycle t \<notin> {Rejected, CleanupPending, Cleaned}"
      using package_rowD(1,2) [OF row] by auto
    ultimately show "occupied_at now t"
      using c by (cases "pt_lifecycle t") (auto simp: occupied_at_def)
  qed
  then show ?thesis by (rule length_filter_mono)
qed

lemma occupied_after_sweep:
  assumes "package_kept op" and "\<forall>t\<in>set (po_targets op). \<not> claim_lapsed now t"
  shows "length (filter (occupied_at now) (po_targets op)) = occupied_slots op"
proof -
  have "occupied_at now t = occupies_slot t" if t: "t \<in> set (po_targets op)" for t
  proof (cases "pt_lifecycle t = Accepted \<and> pt_owner_claim t \<noteq> None")
    case True
    then obtain c where c: "pt_owner_claim t = Some c" by blast
    have kept: "package_target_kept op t" by (rule package_kept_frozen(3) [OF assms(1) t])
    note eligible = eligible_when [OF kept] 
    have "pt_invocation t \<noteq> None"
      using package_claims_keptD(4) [OF eligible(3) c] True by (auto simp: claim_unbound_def)
    then have "pt_stage t = DispatchReady"
      using package_rowD(1,2) [OF eligible(2)] True by auto
    then show ?thesis using assms(2) t True c by (auto simp: occupied_at_def occupies_slot_def claim_lapsed_def)
  qed (auto simp: occupied_at_def occupies_slot_def split: option.splits)
  then show ?thesis unfolding occupied_slots_def by (intro arg_cong [where f = length] filter_cong) simp_all
qed

lemma select_entry:
  assumes "select_package_updater_offer h now = Some i"
  obtains k op t where "bt_get (fh_package_operations h) k = Some op" "t \<in> set (po_targets op)"
    "length (filter (occupied_at now) (po_targets op)) < po_max_parallelism op"
    "pt_invocation t = Some i" "pt_lifecycle t = Accepted" "pt_stage t = DispatchReady"
    "none_or (\<lambda>c. pk_expires_at_ms c \<le> now) (pt_owner_claim t)"
    "length (pt_consumed t) < max_consumed_package_owner_claims" "now < pi_expires_at_ms i"
proof -
  from find_map_Some [OF assms [unfolded select_package_updater_offer_def]]
  obtain op where op: "op \<in> set (bt_values (fh_package_operations h))"
    "length (filter (occupied_at now) (po_targets op)) < po_max_parallelism op"
    "find_map (offerable_invocation now) (po_targets op) = Some i"
    by (auto split: if_splits)
  from find_map_Some [OF op(3)] obtain t where "t \<in> set (po_targets op)" "offerable_invocation now t = Some i" by blast
  with op that show thesis by (auto simp: set_bt_values offerable_invocation_def split: option.splits if_splits)
qed

section \<open>How often an operation is offered\<close>

definition offers_to :: "'a hub_state_scheme \<Rightarrow> string \<Rightarrow> hub_command \<Rightarrow> nat" where
  "offers_to h k command = (case command of
     Call_Package (Offer_Package c now) \<Rightarrow>
       if pi_operation_id (pk_invocation c) = k \<and> \<not> isl (snd (offer_package_updater_claim h c now)) then 1 else 0
   | _ \<Rightarrow> 0)"

fun offers_made ::
  "(device_observation \<Rightarrow> nat option) \<Rightarrow> (json_value \<Rightarrow> nat option) \<Rightarrow> (string \<Rightarrow> string) \<Rightarrow> hub_codec \<Rightarrow>
   'a hub_state_scheme \<Rightarrow> string \<Rightarrow> hub_command list \<Rightarrow> nat" where
  "offers_made ob jb sha enc h k [] = 0"
| "offers_made ob jb sha enc h k (c # cs) =
     offers_to h k c + offers_made ob jb sha enc (run_command ob jb sha enc h c) k cs"

lemma offered_spent:
  assumes "claimable h c now op t"
  shows "length (spent (offered c now op)) = Suc (length (spent op))"
proof -
  obtain as bs where "po_targets op = as @ t # bs" "po_targets (offered c now op) = as @ claimed_package_target c now t # bs"
    by (rule offered_split [OF assms])
  then show ?thesis by (simp add: spent_def consumption_def claimed_package_target_def)
qed

lemma offer_success:
  assumes "snd (offer_package_updater_claim h c now) = Inr y"
  obtains op t where "claimable h c now op t" "y = offered c now op"
    "offer_package_updater_claim h c now = (put_package (pi_operation_id (pk_invocation c)) y h, Inr y)"
proof -
  obtain op t where claim: "claimable h c now op t"
    using offer_refused [of h c now] assms by fastforce
  note result = offer_claimable [OF claim]
  have "valid (validate_package_operation (offered c now op))"
    using revise_package_cases(2) [of "offered c now op" h "pi_operation_id (pk_invocation c)"] assms result by fastforce
  then have "offer_package_updater_claim h c now =
      (put_package (pi_operation_id (pk_invocation c)) (offered c now op) h, Inr (offered c now op))"
    by (simp add: result revise_package_cases(1))
  with assms that [OF claim] show thesis by simp
qed

lemma offers_to_spent:
  assumes "packages_ok sha enc h" and "looked_up (package_stores h) k = Some x"
  shows "\<exists>y. looked_up (package_stores (run_command ob jb sha enc h c)) k = Some y \<and> package_evolves x y \<and>
     offers_to h k c + length (spent x) \<le> length (spent y)"
proof -
  obtain y where y: "looked_up (package_stores (run_command ob jb sha enc h c)) k = Some y" "package_evolves x y"
    using effects_looked_up [OF packages_ok_effects [OF assms(1)] assms(2)] by blast
  have mono: "length (spent x) \<le> length (spent y)"
    by (rule evolves_spent_mono [OF y(2) stored_package_kept(1) [OF assms]])
  show ?thesis
  proof (cases "offers_to h k c = 0")
    case True
    with y mono show ?thesis by auto
  next
    case False
    then obtain claim now z where c: "c = Call_Package (Offer_Package claim now)"
      "pi_operation_id (pk_invocation claim) = k" "snd (offer_package_updater_claim h claim now) = Inr z"
      by (auto simp: offers_to_def split: hub_command.splits package_call.splits if_splits sum.splits)
        (metis isl_def sum.exhaust_sel)
    from c(3) obtain op t where o: "claimable h claim now op t" "z = offered claim now op"
      "offer_package_updater_claim h claim now = (put_package (pi_operation_id (pk_invocation claim)) z h, Inr z)"
      by (rule offer_success)
    have "bt_get (fh_package_operations h) k = Some op" using o(1) c(2) by (simp add: claimable_def)
    then have "x = op" using assms(2) by (simp add: looked_up_def package_stores_def)
    moreover have "y = z"
      using y(1) c o(3) by (simp add: looked_up_def package_stores_def put_package_def)
    moreover have "offers_to h k c = 1" using False by (auto simp: offers_to_def split: hub_command.splits package_call.splits if_splits)
    ultimately show ?thesis using y offered_spent [OF o(1)] o(2) by auto
  qed
qed

lemma offers_made_spent:
  assumes "packages_ok sha enc h" and "looked_up (package_stores h) k = Some x"
  shows "\<exists>y. looked_up (package_stores (run_commands ob jb sha enc h cs)) k = Some y \<and> package_evolves x y \<and>
     offers_made ob jb sha enc h k cs + length (spent x) \<le> length (spent y)"
  using assms
proof (induction cs arbitrary: h x)
  case Nil
  then show ?case by (auto intro: package_evolves_refl)
next
  case (Cons c cs)
  obtain y where y: "looked_up (package_stores (run_command ob jb sha enc h c)) k = Some y" "package_evolves x y"
    "offers_to h k c + length (spent x) \<le> length (spent y)"
    using offers_to_spent [OF Cons.prems] by blast
  obtain z where "looked_up (package_stores (run_commands ob jb sha enc (run_command ob jb sha enc h c) cs)) k = Some z"
    "package_evolves y z" "offers_made ob jb sha enc (run_command ob jb sha enc h c) k cs + length (spent y) \<le> length (spent z)"
    using Cons.IH [OF run_command_packages_ok [OF Cons.prems(1)] y(1)] by blast
  with y show ?case by (auto intro: package_evolves_trans)
qed

text \<open>
  The two summaries of a package operation: the count projection, whose buckets partition the targets,
  and the derived lifecycle.
\<close>

section \<open>Counts\<close>

abbreviation package_tally :: "(package_target \<Rightarrow> bool) \<Rightarrow> package_operation \<Rightarrow> nat" where
  "package_tally p op \<equiv> length (filter p (po_targets op))"

lemma kept_target_count:
  assumes "package_kept op"
  shows "length (po_targets op) \<le> 10000"
proof -
  have head: "package_operation_head_failures op = []" using assms by (simp add: package_kept_def package_frozen_def)
  then have "length (po_targets op) = length (pv_targets (po_preview op))"
    by (simp add: package_operation_head_failures_def)
  moreover have "length (pv_targets (po_preview op)) \<le> 10000"
    using package_head_facts(2) [OF head] by (simp add: validate_package_preview_def package_preflights_failures_def)
  ultimately show ?thesis by simp
qed

lemma count32_tally: "package_kept op \<Longrightarrow> count32 p op = package_tally p op"
  using kept_target_count [of op] length_filter_le [of p "po_targets op"] by (simp add: count32_def del: length_filter_le)

text \<open>How the stage, the lifecycle and the claim of a target fit together.\<close>

definition classified :: "package_target \<Rightarrow> bool" where
  "classified t \<longleftrightarrow>
     (pt_stage t = PreflightRejected \<longleftrightarrow> \<not> pf_eligible (pt_preflight t)) \<and>
     (pt_stage t = DispatchReady \<and> pt_owner_claim t \<noteq> None \<longleftrightarrow> pt_lifecycle t = Accepted \<and> pt_owner_claim t \<noteq> None) \<and>
     (is_terminal_target t \<longleftrightarrow> pt_stage t \<in> {PreflightRejected, Stage_Applied, Stage_Failed, Stage_Expired, Stage_Cancelled}) \<and>
     (occupies_slot t \<longleftrightarrow> pt_stage t = DispatchReady \<and> pt_owner_claim t \<noteq> None \<or>
        pt_stage t \<in> {OwnerAcknowledged, Stage_Staged, AwaitingWearer, RecoveryRequired})"

lemma kept_classified:
  assumes "package_kept op" and "t \<in> set (po_targets op)"
  shows "classified t"
proof (cases "pf_eligible (pt_preflight t)")
  case False
  have kept: "package_target_kept op t" by (rule package_kept_frozen(3) [OF assms])
  show ?thesis
    using package_target_keptD(5) [OF kept False] False
    by (auto simp: classified_def is_terminal_target_def occupies_slot_def)
next
  case True
  have kept: "package_target_kept op t" by (rule package_kept_frozen(3) [OF assms])
  note row = package_target_keptD(3) [OF kept True] and claims = package_target_keptD(4) [OF kept True]
  have "pt_owner_claim t \<noteq> None \<Longrightarrow> pt_stage t \<noteq> Stage_Approved"
    using package_claims_keptD(4) [OF claims] package_rowD(2) [OF row] by (auto simp: claim_unbound_def)
  then show ?thesis
    using package_rowD(1) [OF row] True
    by (cases "pt_lifecycle t") (auto simp: classified_def is_terminal_target_def occupies_slot_def)
qed

text \<open>The buckets of the projection, target by target.\<close>

lemma tally_stages:
  "length ts =
     length (filter (\<lambda>t. pt_stage t = PreflightRejected) ts) + length (filter (\<lambda>t. pt_stage t = PreviewReady) ts) +
     length (filter (\<lambda>t. pt_stage t = Stage_Approved) ts) +
     length (filter (\<lambda>t. pt_stage t = DispatchReady \<and> pt_owner_claim t = None) ts) +
     length (filter (\<lambda>t. pt_stage t = DispatchReady \<and> pt_owner_claim t \<noteq> None) ts) +
     length (filter (\<lambda>t. pt_stage t = OwnerAcknowledged) ts) + length (filter (\<lambda>t. pt_stage t = Stage_Staged) ts) +
     length (filter (\<lambda>t. pt_stage t = AwaitingWearer) ts) +
     length (filter (\<lambda>t. pt_stage t = Stage_CancellationRequested) ts) +
     length (filter (\<lambda>t. pt_stage t = RecoveryRequired) ts) + length (filter (\<lambda>t. pt_stage t = Stage_Applied) ts) +
     length (filter (\<lambda>t. pt_stage t = Stage_Failed) ts) + length (filter (\<lambda>t. pt_stage t = Stage_Expired) ts) +
     length (filter (\<lambda>t. pt_stage t = Stage_Cancelled) ts)"
proof (induction ts)
  case (Cons t ts)
  then show ?case by (cases "pt_stage t"; cases "pt_owner_claim t") simp_all
qed simp

lemma tally_claimed:
  assumes "\<forall>t\<in>set ts. classified t"
  shows "filter (\<lambda>t. pt_lifecycle t = Accepted \<and> pt_owner_claim t \<noteq> None) ts =
     filter (\<lambda>t. pt_stage t = DispatchReady \<and> pt_owner_claim t \<noteq> None) ts"
  using assms by (intro filter_cong) (auto simp: classified_def)

lemma tally_partition:
  assumes "\<forall>t\<in>set ts. classified t"
  shows "length ts =
     length (filter (\<lambda>t. \<not> pf_eligible (pt_preflight t)) ts) + length (filter (\<lambda>t. pt_stage t = PreviewReady) ts) +
     length (filter (\<lambda>t. pt_stage t = Stage_Approved) ts) +
     length (filter (\<lambda>t. pt_stage t = DispatchReady \<and> pt_owner_claim t = None) ts) +
     length (filter (\<lambda>t. pt_lifecycle t = Accepted \<and> pt_owner_claim t \<noteq> None) ts) +
     length (filter (\<lambda>t. pt_stage t = OwnerAcknowledged) ts) + length (filter (\<lambda>t. pt_stage t = Stage_Staged) ts) +
     length (filter (\<lambda>t. pt_stage t = AwaitingWearer) ts) +
     length (filter (\<lambda>t. pt_stage t = Stage_CancellationRequested) ts) +
     length (filter (\<lambda>t. pt_stage t = RecoveryRequired) ts) + length (filter (\<lambda>t. pt_stage t = Stage_Applied) ts) +
     length (filter (\<lambda>t. pt_stage t = Stage_Failed) ts) + length (filter (\<lambda>t. pt_stage t = Stage_Expired) ts) +
     length (filter (\<lambda>t. pt_stage t = Stage_Cancelled) ts)"
proof -
  have "filter (\<lambda>t. \<not> pf_eligible (pt_preflight t)) ts = filter (\<lambda>t. pt_stage t = PreflightRejected) ts"
    using assms by (intro filter_cong) (auto simp: classified_def)
  then show ?thesis
    unfolding tally_claimed [OF assms] using tally_stages [of ts] by simp
qed

lemma tally_terminal:
  assumes "\<forall>t\<in>set ts. classified t"
  shows "length (filter is_terminal_target ts) =
     length (filter (\<lambda>t. \<not> pf_eligible (pt_preflight t)) ts) + length (filter (\<lambda>t. pt_stage t = Stage_Applied) ts) +
     length (filter (\<lambda>t. pt_stage t = Stage_Failed) ts) + length (filter (\<lambda>t. pt_stage t = Stage_Expired) ts) +
     length (filter (\<lambda>t. pt_stage t = Stage_Cancelled) ts)"
  using assms
proof (induction ts)
  case (Cons t ts)
  then have "classified t" by simp
  with Cons show ?case by (cases "pt_stage t") (simp_all add: classified_def)
qed simp

lemma tally_slots:
  assumes "\<forall>t\<in>set ts. classified t"
  shows "length (filter occupies_slot ts) =
     length (filter (\<lambda>t. pt_lifecycle t = Accepted \<and> pt_owner_claim t \<noteq> None) ts) +
     length (filter (\<lambda>t. pt_stage t = OwnerAcknowledged) ts) + length (filter (\<lambda>t. pt_stage t = Stage_Staged) ts) +
     length (filter (\<lambda>t. pt_stage t = AwaitingWearer) ts) + length (filter (\<lambda>t. pt_stage t = RecoveryRequired) ts)"
proof -
  have "filter occupies_slot ts = filter (\<lambda>t. pt_stage t = DispatchReady \<and> pt_owner_claim t \<noteq> None \<or>
      pt_stage t \<in> {OwnerAcknowledged, Stage_Staged, AwaitingWearer, RecoveryRequired}) ts"
    using assms by (intro filter_cong) (auto simp: classified_def)
  moreover have "length (filter (\<lambda>t. pt_stage t = DispatchReady \<and> pt_owner_claim t \<noteq> None \<or>
      pt_stage t \<in> {OwnerAcknowledged, Stage_Staged, AwaitingWearer, RecoveryRequired}) ts) =
     length (filter (\<lambda>t. pt_stage t = DispatchReady \<and> pt_owner_claim t \<noteq> None) ts) +
     length (filter (\<lambda>t. pt_stage t = OwnerAcknowledged) ts) + length (filter (\<lambda>t. pt_stage t = Stage_Staged) ts) +
     length (filter (\<lambda>t. pt_stage t = AwaitingWearer) ts) + length (filter (\<lambda>t. pt_stage t = RecoveryRequired) ts)"
    by (induction ts) auto
  ultimately show ?thesis using tally_claimed [OF assms] by simp
qed

lemma all_terminal_tally: "length (filter is_terminal_target ts) = length ts \<longleftrightarrow> list_all is_terminal_target ts"
  by (metis filter_True length_filter_less list_all_iff nat_less_le)

section \<open>The derived lifecycle\<close>

definition eligible_lifecycles :: "package_operation \<Rightarrow> command_lifecycle set" where
  "eligible_lifecycles op = pt_lifecycle ` {t \<in> set (po_targets op). pf_eligible (pt_preflight t)}"

lemma derived_cases:
  "package_derived_lifecycle op =
    (let ls = eligible_lifecycles op in
     if ls = {} then Rejected
     else if Running \<in> ls then Running
     else if Dispatched \<in> ls then Dispatched
     else if Proposed \<in> ls then Proposed
     else if Accepted \<in> ls then Accepted
     else if ls \<subseteq> {Applied} then Applied
     else if ls \<subseteq> {Expired} then Expired else Lifecycle_Failed)"
proof -
  let ?ls = "map pt_lifecycle (filter (\<lambda>t. pf_eligible (pt_preflight t)) (po_targets op))"
  have set: "eligible_lifecycles op = set ?ls" by (simp add: eligible_lifecycles_def)
  have ex: "list_ex (\<lambda>l. l = x) ?ls = (x \<in> set ?ls)" for x unfolding list_ex_iff by blast
  have all: "list_all (\<lambda>l. l = x) ?ls = (set ?ls \<subseteq> {x})" for x unfolding list_all_iff by blast
  show ?thesis unfolding package_derived_lifecycle_def Let_def set ex all set_empty by (rule refl)
qed

end
