(* ===== verification/Package_Claims.thy ===== *)
theory Package_Claims
  imports Package_Samples Package_Offers
begin

text \<open>
  Properties of the package operations over reachable Hubs, with their witnesses on the sample run of
  \<^theory_text>\<open>Package_Samples\<close>.
\<close>

section \<open>What an installed package rests on\<close>

lemma found_package_kept:
  assumes "reachable ob jb sha enc policy h" and "package_operation h k = Inr op"
  shows "package_kept op" "po_operation_id op = k"
  using stored_package_kept [OF reachable_packages [OF assms(1)]] assms(2) by (simp_all add: package_operation_looked_up)

text \<open>C4: In a reachable Hub a target of a package operation, active or archived, is Applied only when it
  was eligible in the frozen preview, the updater acknowledged the exact invocation the Hub prepared for it,
  and an effective receipt of that invocation, wrapped before the preview expired, carries the owner's
  accepted install-commit checkpoint for the package name and rollout ring the preview named, with the
  sequence, version and manifest digest of the checkpoint repeated in the receipt.\<close>

theorem package_applied_only_with_receipt:
  assumes "reachable ob jb sha enc policy h" and "package_operation h k = Inr op"
    and "t \<in> set (po_targets op)" and "pt_lifecycle t = Applied"
  shows "\<exists>i a r c. pf_eligible (pt_preflight t) \<and> pt_preflight t \<in> set (pv_targets (po_preview op)) \<and>
     pt_invocation t = Some i \<and> package_bound op t i \<and>
     pt_acknowledgement t = Some a \<and> pa_accepted a \<and> acknowledgement_bound i a \<and>
     pt_effective_receipt t = Some r \<and> pe_operation_id r = k \<and> pe_device_id r = pt_device_id t \<and>
     pe_identity_revision r = pt_identity_revision t \<and>
     pe_owner_action_request_id r = pi_owner_action_request_id i \<and>
     pe_wrapped_at_ms r \<le> pv_expires_at_ms (po_preview op) \<and>
     pu_stage (pe_updater_receipt r) = InstallCommit \<and> pu_decision (pe_updater_receipt r) = Receipt_Accepted \<and>
     pu_accepted_checkpoint (pe_updater_receipt r) = Some c \<and>
     pc_package_name c = pv_expected_package_name (po_preview op) \<and>
     pc_rollout_ring c = pv_expected_rollout_ring (po_preview op) \<and> 0 < pc_version_code c \<and>
     pu_version_code (pe_updater_receipt r) = Some (pc_version_code c) \<and>
     pu_sequence (pe_updater_receipt r) = Some (pc_sequence c) \<and>
     pu_signed_manifest_sha256 (pe_updater_receipt r) = Some (pc_signed_manifest_sha256 c)"
proof -
  note kept = found_package_kept [OF assms(1,2)]
  have target: "package_target_kept op t" by (rule package_kept_frozen(3) [OF kept(1) assms(3)])
  note eligible = eligible_when [OF target, unfolded assms(4)]
  note row = package_rowD [OF eligible(2)]
  obtain i r where ir: "pt_invocation t = Some i" "pt_effective_receipt t = Some r"
    "valid (validate_package_receipt_for r i)"
    using eligible(2) assms(4) by (auto simp: package_row_def)
  obtain a where a: "pt_acknowledgement t = Some a" "pa_accepted a" "acknowledgement_bound i a"
    using eligible(2) assms(4) ir(1) by (auto simp: package_row_def split: option.splits)
  have bound: "package_bound op t i" using eligible(2) ir(1) by (simp add: package_row_def)
  have "proves_installed_version (pe_updater_receipt r) (pi_expected_package_name i) (pi_expected_rollout_ring i)"
    using ir(3) by (simp add: validate_package_receipt_for_def)
  then obtain c where "pu_accepted_checkpoint (pe_updater_receipt r) = Some c"
    "pu_stage (pe_updater_receipt r) = InstallCommit" "pu_decision (pe_updater_receipt r) = Receipt_Accepted"
    "pc_package_name c = pi_expected_package_name i" "pc_rollout_ring c = pi_expected_rollout_ring i"
    "0 < pc_version_code c" "pu_version_code (pe_updater_receipt r) = Some (pc_version_code c)"
    "pu_sequence (pe_updater_receipt r) = Some (pc_sequence c)"
    "pu_signed_manifest_sha256 (pe_updater_receipt r) = Some (pc_signed_manifest_sha256 c)"
    by (auto simp: proves_installed_version_def split: option.splits)
  then show ?thesis
    using ir a bound eligible(1) package_kept_frozen(1) [OF kept(1) assms(3)] kept(2)
    by (simp add: validate_package_receipt_for_def package_bound_def)
qed

lemma package_applied_only_with_receipt_witness:
  "\<exists>c. pu_accepted_checkpoint (pe_updater_receipt (sample_package_receipt ''hmd-2'')) = Some c \<and> pc_package_name c = ''org.rusty''"
  using package_applied_only_with_receipt [OF archived_reachable, of "''pkg-1''" "op_with installed_targets" "install6 ''hmd-2'' ''claim-2''"]
  by (auto simp: package_operation_def)

text \<open>C9: A package operation only moves on. Over any further commands an operation of a reachable Hub stays
  available under its ID, active or archived, with the same preview, creation time and parallelism; each
  target keeps its device and frozen preflight, its prepared invocation and acknowledgement, never goes back
  a phase and never changes once terminal; its consumed claim identities are only added to; an operation
  whose targets are all terminal never changes again. An archive is never changed or removed: it holds the
  terminal operation and its digest.\<close>

theorem package_history_kept:
  assumes "reachable ob jb sha enc policy h" and "package_operation h k = Inr x"
  shows "\<exists>y. package_operation (run_commands ob jb sha enc h cs) k = Inr y \<and>
     po_preview y = po_preview x \<and> po_created_at_ms y = po_created_at_ms x \<and>
     po_max_parallelism y = po_max_parallelism x \<and>
     list_all2 package_onward (po_targets x) (po_targets y) \<and> (package_is_terminal x \<longrightarrow> y = x) \<and>
     (\<forall>a. bt_get (fh_package_archives h) k = Some a \<longrightarrow>
        bt_get (fh_package_archives (run_commands ob jb sha enc h cs)) k = Some a \<and>
        y = pz_operation a \<and> package_is_terminal y \<and>
        pz_operation_sha256 a = operation_sha256 (hcd_package_json enc) sha y)"
proof -
  have ok: "packages_ok sha enc h" by (rule reachable_packages [OF assms(1)])
  have found: "looked_up (package_stores h) k = Some x" using assms(2) by (simp add: package_operation_looked_up)
  obtain y where y: "looked_up (package_stores (run_commands ob jb sha enc h cs)) k = Some y" "package_evolves x y"
    using run_commands_looked_up [OF ok found] by blast
  note kept = stored_package_kept [OF ok found]
  have archived: "bt_get (fh_package_archives (run_commands ob jb sha enc h cs)) k = Some a \<and> y = pz_operation a \<and>
      package_is_terminal y \<and> pz_operation_sha256 a = operation_sha256 (hcd_package_json enc) sha y"
    if a: "bt_get (fh_package_archives h) k = Some a" for a
  proof -
    have "bt_get (fh_package_operations h) k = None \<and> valid (validate_package_archive (hcd_package_json enc) sha a)"
      using ok a by (cases "bt_get (fh_package_operations h) k") (auto simp: packages_ok_def package_stores_ok_def package_stores_def)
    then have "x = pz_operation a" "package_is_terminal x" "pz_operation_sha256 a = operation_sha256 (hcd_package_json enc) sha x"
      using found a by (auto simp: looked_up_def package_stores_def validate_package_archive_def)
    moreover from this(2) have "y = x" by (rule terminal_package_stays [OF y(2) kept(1)])
    ultimately show ?thesis using run_commands_archives [OF ok a] by simp
  qed
  have frame: "package_frame y = package_frame x" and onward: "list_all2 package_onward (po_targets x) (po_targets y)"
    using y(2) kept(1) by (simp_all add: package_evolves_def)
  have "package_operation (run_commands ob jb sha enc h cs) k = Inr y"
    using y(1) by (simp add: package_operation_looked_up)
  then show ?thesis
    using package_frame_fields(4,5,6) [OF frame] onward archived terminal_package_stays [OF y(2) kept(1)] by blast
qed

lemma archived_operation: "package_operation archived_hub ''pkg-1'' = Inr (op_with installed_targets)"
  by (simp add: package_operation_def)

lemma package_history_kept_witness:
  "\<exists>y. package_operation (run_commands no_bytes no_bytes zeros_sha no_codec archived_hub
       [Call_Package (Preview_Package package_plan), Call_Package (Expire_Packages 9999)]) ''pkg-1'' = Inr y \<and>
     po_lifecycle y = Applied"
proof -
  let ?cs = "[Call_Package (Preview_Package package_plan), Call_Package (Expire_Packages 9999)]"
  obtain y where y: "package_operation (run_commands no_bytes no_bytes zeros_sha no_codec archived_hub ?cs) ''pkg-1'' = Inr y"
    "package_is_terminal (op_with installed_targets) \<longrightarrow> y = op_with installed_targets"
    using package_history_kept [OF archived_reachable archived_operation, of ?cs] by blast
  with installed_terminal show ?thesis by (intro exI [of _ y] conjI) simp_all
qed

section \<open>Delivery\<close>

lemma offered_once:
  assumes "reachable ob jb sha enc policy h" and "snd (offer_package_updater_claim h c now) = Inr op"
    and "h' = run_commands ob jb sha enc h (Call_Package (Offer_Package c now) # cs)"
    and "bt_contains_key (fh_package_operations h') (pi_operation_id (pk_invocation c))"
    and "pk_claim_id c' = pk_claim_id c \<or> pk_request_id c' = pk_request_id c"
  shows "singly_spent (all_spent (fh_package_operations h')) \<and>
     (\<exists>e. offer_package_updater_claim h' c' later = (h', Inl e) \<and>
        he_code e \<in> {''package_owner_claim_invalid'', ''package_owner_claim_replay''})"
proof -
  let ?k = "pi_operation_id (pk_invocation c)" and ?e = "\<lparr>pci_claim_id = pk_claim_id c, pci_request_id = pk_request_id c\<rparr>"
  let ?h = "run_command ob jb sha enc h (Call_Package (Offer_Package c now))"
  obtain x t where o: "claimable h c now x t" "op = offered c now x"
    "offer_package_updater_claim h c now = (put_package ?k op h, Inr op)"
    using assms(2) by (rule offer_success)
  obtain as bs where "po_targets op = as @ claimed_package_target c now t # bs"
    using offered_split [OF o(1)] o(2) by metis
  then have spent: "?e \<in> set (pt_consumed (claimed_package_target c now t))" "claimed_package_target c now t \<in> set (po_targets op)"
    by (simp_all add: claimed_package_target_def)
  have ok: "packages_ok sha enc ?h"
    by (intro run_command_packages_ok reachable_packages [OF assms(1)])
  have "looked_up (package_stores ?h) ?k = Some op"
    using o(3) by (simp add: looked_up_def package_stores_def put_package_def)
  then obtain y where y: "looked_up (package_stores h') ?k = Some y" "package_evolves op y"
    using run_commands_looked_up [OF ok, of ?k op ob jb cs] unfolding assms(3) run_commands_Cons by blast
  then have active: "bt_get (fh_package_operations h') ?k = Some y"
    using assms(4) by (auto simp: looked_up_def package_stores_def bt_contains_key_def)
  from stored_package_kept(1) [OF ok \<open>looked_up (package_stores ?h) ?k = Some op\<close>]
  obtain u where u: "u \<in> set (po_targets y)" "?e \<in> set (pt_consumed u)"
    using evolves_consumed [OF y(2) _ spent(2,1)] by blast
  have "claim_replayed h' c'"
    unfolding claim_replayed_def list_ex_iff
    using active u assms(5) by (intro bexI [of _ y] bexI [of _ u] bexI [of _ ?e]) (auto simp: set_bt_values)
  moreover have "packages_ok sha enc h'" using run_commands_packages_ok [OF ok] assms(3) by simp
  ultimately show ?thesis
    by (auto simp: offer_package_updater_claim_def hub_error_def packages_ok_def package_stores_ok_def package_stores_def)
qed

text \<open>C11: Owner claims are single-use. In every reachable Hub no claim ID and no request ID was consumed twice
  by the active operations; and once an offer succeeded in it, an offer with the same claim ID or the same
  request ID, at any time and after any further commands, changes nothing and is refused as invalid or
  replayed for as long as the operation is active, and still no ID is consumed twice.\<close>

theorem package_claims_single_use:
  assumes "reachable ob jb sha enc policy h"
  shows "singly_spent (all_spent (fh_package_operations h)) \<and>
     (\<forall>c now op cs h' c' later. snd (offer_package_updater_claim h c now) = Inr op \<longrightarrow>
        h' = run_commands ob jb sha enc h (Call_Package (Offer_Package c now) # cs) \<longrightarrow>
        bt_contains_key (fh_package_operations h') (pi_operation_id (pk_invocation c)) \<longrightarrow>
        pk_claim_id c' = pk_claim_id c \<or> pk_request_id c' = pk_request_id c \<longrightarrow>
        singly_spent (all_spent (fh_package_operations h')) \<and>
        (\<exists>e. offer_package_updater_claim h' c' later = (h', Inl e) \<and>
           he_code e \<in> {''package_owner_claim_invalid'', ''package_owner_claim_replay''}))"
  using offered_once [OF assms] reachable_packages [OF assms]
  by (auto simp: packages_ok_def package_stores_ok_def package_stores_def)

lemma sample_offer:
  "snd (offer_package_updater_claim (pkg_hub waiting) (sample_claim ''hmd-1'' ''claim-1'') 1400) =
   Inr (op_with [install4 ''hmd-1'' ''claim-1'', install3 ''hmd-2''])"
proof -
  have run: "offer_package_updater_claim (pkg_hub waiting) (sample_claim ''hmd-1'' ''claim-1'') 1400 =
      revise_package (pkg_hub waiting) ''pkg-1'' (op_with [install4 ''hmd-1'' ''claim-1'', install3 ''hmd-2''])"
    using offers [of "''hmd-1''" "install3 ''hmd-2''" 1400 "''claim-1''"] sample_package_ids
    by (simp add: beside_def other_of_def claim_active_def install4_def)
  let ?op = "op_with [install4 ''hmd-1'' ''claim-1'', install3 ''hmd-2'']"
  have "package_kept ?op"
    by (rule found_package_kept(1) [OF first_reachable(1), of "''pkg-1''"]) (simp add: package_operation_def)
  then have "valid (validate_package_operation ?op)"
    using sample_invocation_valid sample_package_ids
    by (simp add: package_valid_iff times_in_order_def invocations_valid_def occupied_slots_def occupies_slot_def)
  then show ?thesis unfolding run by (simp add: revise_package_cases(1))
qed

lemma package_claims_single_use_witness:
  "\<exists>e. snd (offer_package_updater_claim (pkg_hub [install4 ''hmd-1'' ''claim-1'', install3 ''hmd-2''])
     (sample_claim ''hmd-2'' ''claim-1'') 1450) = Inl e"
proof -
  let ?h = "pkg_hub [install4 ''hmd-1'' ''claim-1'', install3 ''hmd-2'']"
  have "?h = run_commands no_bytes no_bytes zeros_sha no_codec (pkg_hub waiting)
      [Call_Package (Offer_Package (sample_claim ''hmd-1'' ''claim-1'') 1400)]"
    using offers [of "''hmd-1''" "install3 ''hmd-2''" 1400 "''claim-1''"] sample_package_ids
    by (simp add: beside_def other_of_def claim_active_def install4_def)
  from package_claims_single_use [OF waiting_reachable, THEN conjunct2, rule_format, OF sample_offer this,
      of "sample_claim ''hmd-2'' ''claim-1''" 1450]
  show ?thesis by (auto simp: bt_contains_key_def)
qed

lemma package_offer_outcome_valid:
  assumes "reachable ob jb sha enc policy h" and "claimable h c now op t"
    and "valid (validate_package_operation op)" and "po_created_at_ms op \<le> now"
    and "occupied_slots op < po_max_parallelism op"
  shows "offer_package_updater_claim h c now =
    (put_package (pi_operation_id (pk_invocation c)) (offered c now op) h, Inr (offered c now op))"
proof -
  have "package_operation h (pi_operation_id (pk_invocation c)) = Inr op"
    using assms(2) by (simp add: package_operation_def claimable_def)
  from offered_valid_iff [OF assms(2) found_package_kept(1) [OF assms(1) this] assms(3)] assms(4,5)
  show ?thesis using offer_claimable [OF assms(2)] by (simp add: revise_package_cases(1))
qed

text \<open>C30: What an offer that passes every guard does. In a reachable Hub, for an operation that satisfies its
  contract and at a time not before its creation, a claim that passes all guards is accepted, and stored as
  the target's owner claim, exactly when fewer targets than the operation's parallelism are in flight or
  claimed, counting claims that have run out. The guard of the offer counts only claims that have not run out:
  beside a full set of slots one of which is held by a lapsed claim the offer is refused with
  \<^verbatim>\<open>package_operation_invalid\<close> after it was written, and no snapshot of the Hub can be restored.\<close>

theorem package_offer_outcome:
  assumes "reachable ob jb sha enc policy h" and "claimable h c now op t"
    and "valid (validate_package_operation op)" and "po_created_at_ms op \<le> now"
  shows "if occupied_slots op < po_max_parallelism op
     then offer_package_updater_claim h c now =
       (put_package (pi_operation_id (pk_invocation c)) (offered c now op) h, Inr (offered c now op)) \<and>
       find (\<lambda>t. pt_device_id t = pi_device_id (pk_invocation c)) (po_targets (offered c now op)) =
         Some (claimed_package_target c now t)
     else \<exists>h' e. offer_package_updater_claim h c now = (h', Inl e) \<and> he_code e = ''package_operation_invalid'' \<and>
       (\<forall>x. restore ob jb sha enc policy (snapshot h') \<noteq> Inr x)"
proof -
  let ?k = "pi_operation_id (pk_invocation c)"
  note guards = assms(2)[unfolded claimable_def]
  have active: "package_operation h ?k = Inr op" using guards by (simp add: package_operation_def)
  note iff = offered_valid_iff [OF assms(2) found_package_kept(1) [OF assms(1) active] assms(3)]
  note run = offer_claimable [OF assms(2)]
  show ?thesis
  proof (cases "occupied_slots op < po_max_parallelism op")
    case True
    have "find (\<lambda>t. pt_device_id t = pi_device_id (pk_invocation c)) (po_targets (offered c now op)) =
        Some (claimed_package_target c now t)"
    proof -
      have "find (\<lambda>t. pt_device_id t = pi_device_id (pk_invocation c)) (po_targets op) = Some t" using guards by simp
      from find_update_first [OF this, of "claimed_package_target c now"] find_Some_set [OF this] show ?thesis
        by (simp add: offered_def change_package_target_def claimed_package_target_def)
    qed
    with package_offer_outcome_valid [OF assms True] True show ?thesis by simp
  next
    case False
    with iff have invalid: "\<not> valid (validate_package_operation (offered c now op))" by simp
    from revise_package_cases(2) [OF this, of h ?k] obtain e where
      e: "offer_package_updater_claim h c now = (put_package ?k (offered c now op) h, Inl e)"
      "he_code e = ''package_operation_invalid''" using run by auto
    let ?h = "put_package ?k (offered c now op) h"
    have "?h = run_command ob jb sha enc h (Call_Package (Offer_Package c now))" using e by simp
    moreover have "admissible h (Call_Package (Offer_Package c now))" by (simp add: admissible_def)
    ultimately have "reachable ob jb sha enc policy ?h" using reachable.step [OF assms(1)] by metis
    moreover have "\<not> restorable sha ?h" using invalid by (auto simp: restorable_def put_package_def)
    ultimately have "restore ob jb sha enc policy (snapshot ?h) \<noteq> Inr x" for x
      using restore_snapshot_only restore_snapshot_iff by metis
    with e False show ?thesis by auto
  qed
qed

lemma sample_dispatched_valid:
  "valid (validate_package_operation (op_with [install5 ''hmd-1'' ''claim-1'', install3 ''hmd-2'']))"
proof -
  have "package_kept (op_with [install5 ''hmd-1'' ''claim-1'', install3 ''hmd-2''])"
    by (rule found_package_kept(1) [OF first_reachable(2), of "''pkg-1''"]) (simp add: package_operation_def)
  then show ?thesis
    using sample_invocation_valid sample_package_ids
    by (simp add: package_valid_iff times_in_order_def invocations_valid_def occupied_slots_def occupies_slot_def)
qed

text \<open>The updater of the first headset acknowledged and is still installing when its claim runs out.\<close>

lemma package_offer_outcome_witness:
  "\<exists>h' e. offer_package_updater_claim (pkg_hub [install5 ''hmd-1'' ''claim-1'', install3 ''hmd-2''])
     ((sample_claim ''hmd-2'' ''claim-2'')\<lparr>pk_claimed_at_ms := 2100, pk_expires_at_ms := 3000\<rparr>) 2100 = (h', Inl e) \<and>
     (\<forall>x. restore no_bytes no_bytes zeros_sha no_codec default_policy (snapshot h') \<noteq> Inr x)"
proof -
  let ?h = "pkg_hub [install5 ''hmd-1'' ''claim-1'', install3 ''hmd-2'']"
  let ?op = "op_with [install5 ''hmd-1'' ''claim-1'', install3 ''hmd-2'']"
  let ?c = "(sample_claim ''hmd-2'' ''claim-2'')\<lparr>pk_claimed_at_ms := 2100, pk_expires_at_ms := 3000\<rparr>"
  have "valid (validate_package_claim ?c)"
    using sample_claim_valid [of "''hmd-2''" "''claim-2''"] sample_package_ids by (simp add: validate_package_claim_def)
  moreover have "length (filter (claim_active 2100) (po_targets ?op)) = 0" by (simp add: claim_active_def)
  ultimately have "claimable ?h ?c 2100 ?op (install3 ''hmd-2'')"
    by (simp add: claimable_def claim_replayed_def max_consumed_package_owner_claims_def)
  from package_offer_outcome [OF first_reachable(2) this sample_dispatched_valid]
  have "\<exists>h' e. offer_package_updater_claim ?h ?c 2100 = (h', Inl e) \<and> he_code e = ''package_operation_invalid'' \<and>
      (\<forall>x. restore no_bytes no_bytes zeros_sha no_codec default_policy (snapshot h') \<noteq> Inr x)"
    by (simp add: occupied_slots_def occupies_slot_def)
  then show ?thesis by blast
qed

text \<open>C29: What the Hub selects can be delivered. In a reachable Hub, after a sweep that succeeded at the same
  time and not before the creation of an operation, the invocation that is selected can be claimed: any valid
  claim of it, current at that time and with identifiers not consumed before, is accepted. The one exception
  is an operation with a target whose owner reported a cancellation request while its claim still runs: the
  selection does not count it, the offer does, and the scheduler may be saturated.\<close>

theorem selected_offer_claimable:
  assumes "reachable ob jb sha enc policy h" and "expire_package_updater_claims h now = (h', Inr n)"
    and "select_package_updater_offer h' now = Some (pk_invocation c)" and "valid (validate_package_claim c)"
    and "pk_claimed_at_ms c \<le> now" and "now < pk_expires_at_ms c" and "\<not> claim_replayed h' c"
    and "\<And>k op. bt_get (fh_package_operations h') k = Some op \<Longrightarrow> po_created_at_ms op \<le> now"
  shows "(\<exists>x. snd (offer_package_updater_claim h' c now) = Inr x) \<or>
     (\<exists>op t e. bt_get (fh_package_operations h') (pi_operation_id (pk_invocation c)) = Some op \<and>
        t \<in> set (po_targets op) \<and> cancelling now t \<and>
        snd (offer_package_updater_claim h' c now) = Inl e \<and> he_code e = ''package_owner_scheduler_saturated'')"
proof -
  have h': "h' = run_command ob jb sha enc h (Call_Package (Expire_Packages now))" using assms(2) by simp
  have reach: "reachable ob jb sha enc policy h'"
    unfolding h' by (rule reachable.step [OF assms(1)]) (simp add: admissible_def)
  obtain k op t where sel: "bt_get (fh_package_operations h') k = Some op" "t \<in> set (po_targets op)"
    "length (filter (occupied_at now) (po_targets op)) < po_max_parallelism op"
    "pt_invocation t = Some (pk_invocation c)" "pt_lifecycle t = Accepted" "pt_stage t = DispatchReady"
    "none_or (\<lambda>c. pk_expires_at_ms c \<le> now) (pt_owner_claim t)"
    "length (pt_consumed t) < max_consumed_package_owner_claims"
    by (rule select_entry [OF assms(3)])
  have found: "package_operation h' k = Inr op" using sel(1) by (simp add: package_operation_def)
  note kept = found_package_kept [OF reach found]
  have entry: "valid (validate_package_operation op)" "\<forall>u\<in>set (po_targets op). \<not> claim_lapsed now u"
    using expired_entry [of h now n k op] assms(2) sel(1) by auto
  have free: "pt_owner_claim t = None"
    using entry(2) sel by (auto simp: claim_lapsed_def split: option.splits)
  have "package_bound op t (pk_invocation c)"
    using package_rowD(3) [OF eligible_when(2) [OF package_kept_frozen(3) [OF kept(1) sel(2)]] sel(4)] sel(5) by simp
  then have ids: "pi_operation_id (pk_invocation c) = k" "pi_device_id (pk_invocation c) = pt_device_id t"
    using kept(2) by (simp_all add: package_bound_def)
  have slots: "occupied_slots op < po_max_parallelism op"
    using occupied_after_sweep [OF kept(1) entry(2)] sel(3) by simp
  note target = kept_find [OF kept(1) sel(2)]
  show ?thesis
  proof (cases "length (filter (claim_active now) (po_targets op)) < po_max_parallelism op")
    case True
    with sel target ids free assms have claim: "claimable h' c now op t" by (simp add: claimable_def)
    with package_offer_outcome_valid [OF reach claim entry(1) assms(8) [OF sel(1)] slots] show ?thesis by simp
  next
    case False
    then have "list_ex (cancelling now) (po_targets op)" using claim_active_bound [OF kept(1), of now] sel(3) by force
    then obtain u where "u \<in> set (po_targets op)" "cancelling now u" by (auto simp: list_ex_iff)
    moreover have "\<exists>e. snd (offer_package_updater_claim h' c now) = Inl e \<and> he_code e = ''package_owner_scheduler_saturated''"
      using False sel(1) ids assms(4-7) by (simp add: offer_package_updater_claim_def active_package_def hub_error_def)
    ultimately show ?thesis using sel(1) ids by blast
  qed
qed

lemma sample_sweep:
  "expire_package_updater_claims (pkg_hub [install4 ''hmd-1'' ''claim-1'', install3 ''hmd-2'']) 2000 =
   (pkg_hub [released_package_target 2000 (install4 ''hmd-1'' ''claim-1''), install3 ''hmd-2''], Inr 1)"
proof -
  let ?op = "op_with [install4 ''hmd-1'' ''claim-1'', install3 ''hmd-2'']"
  let ?t = "released_package_target 2000 (install4 ''hmd-1'' ''claim-1'')"
  have swept: "swept_package_operation 2000 ?op = op_with [?t, install3 ''hmd-2'']"
    by (simp add: swept_package_operation_def op_with_change claim_lapsed_def)
  have "package_kept ?op"
    by (rule found_package_kept(1) [OF first_reachable(1), of "''pkg-1''"]) (simp add: package_operation_def)
  then have "package_kept (op_with [?t, install3 ''hmd-2''])"
    using package_evolves_swept [of ?op 2000] swept by (simp add: package_evolves_def)
  moreover have "pt_lifecycle ?t = Accepted" "pt_owner_claim ?t = None" "pt_last_transition_ms ?t = 2000"
    "pt_invocation ?t = Some (invocation_for ''hmd-1'')"
    by (simp_all add: released_package_target_def Let_def max_consumed_package_owner_claims_def)
  ultimately have "valid (validate_package_operation (op_with [?t, install3 ''hmd-2'']))"
    using sample_invocation_valid sample_package_ids
    by (simp add: package_valid_iff times_in_order_def invocations_valid_def occupied_slots_def occupies_slot_def)
  moreover have "entries (fh_package_operations (pkg_hub ts)) = [(''pkg-1'', op_with ts)]" for ts
    by (simp add: pkg_hub_def put_package_def)
  ultimately show ?thesis
    by (simp add: expire_package_updater_claims_def swept Let_def validate_package_def valid_iff_Inr claim_lapsed_def)
qed

lemma selected_offer_claimable_witness:
  "\<exists>x. snd (offer_package_updater_claim
     (pkg_hub [released_package_target 2000 (install4 ''hmd-1'' ''claim-1''), install3 ''hmd-2''])
     ((sample_claim ''hmd-1'' ''claim-2'')\<lparr>pk_claimed_at_ms := 2000, pk_expires_at_ms := 2500\<rparr>) 2000) = Inr x"
proof -
  let ?t = "released_package_target 2000 (install4 ''hmd-1'' ''claim-1'')"
  let ?h = "pkg_hub [?t, install3 ''hmd-2'']"
  let ?c = "(sample_claim ''hmd-1'' ''claim-2'')\<lparr>pk_claimed_at_ms := 2000, pk_expires_at_ms := 2500\<rparr>"
  have t: "pt_lifecycle ?t = Accepted" "pt_stage ?t = DispatchReady" "pt_owner_claim ?t = None"
    "pt_invocation ?t = Some (invocation_for ''hmd-1'')"
    "pt_consumed ?t = [\<lparr>pci_claim_id = ''claim-1'', pci_request_id = ''claim-1''\<rparr>]"
    by (simp_all add: released_package_target_def Let_def max_consumed_package_owner_claims_def)
  have select: "select_package_updater_offer ?h 2000 = Some (pk_invocation ?c)"
    by (simp add: select_package_updater_offer_def offerable_invocation_def occupied_at_def t
        max_consumed_package_owner_claims_def)
  have "valid (validate_package_claim ?c)"
    using sample_claim_valid [of "''hmd-1''" "''claim-2''"] sample_package_ids by (simp add: validate_package_claim_def)
  moreover have "\<not> claim_replayed ?h ?c" by (simp add: claim_replayed_def t)
  moreover have "\<not> cancelling 2000 ?t" "\<not> cancelling 2000 (install3 ''hmd-2'')"
    by (simp_all add: cancelling_def t)
  moreover have "po_created_at_ms op \<le> 2000" if "bt_get (fh_package_operations ?h) k = Some op" for k op
    using that by (auto split: if_splits)
  ultimately have "(\<exists>x. snd (offer_package_updater_claim ?h ?c 2000) = Inr x) \<or>
     (\<exists>u \<in> {?t, install3 ''hmd-2''}. cancelling 2000 u)"
    using selected_offer_claimable [OF first_reachable(1) sample_sweep select] by fastforce
  with \<open>\<not> cancelling 2000 ?t\<close> \<open>\<not> cancelling 2000 (install3 ''hmd-2'')\<close> show ?thesis by blast
qed

text \<open>C28: Delivery does not go on forever. Over any run of the Hub the number of successful offers of one
  operation is at most 64 for each of its targets; each success consumes one claim identity for good.\<close>

theorem package_offers_bounded:
  assumes "reachable ob jb sha enc policy h" and "package_operation h k = Inr op"
  shows "offers_made ob jb sha enc h k cs + length (spent op) \<le> 64 * length (po_targets op)"
proof -
  have ok: "packages_ok sha enc h" by (rule reachable_packages [OF assms(1)])
  have found: "looked_up (package_stores h) k = Some op" using assms(2) by (simp add: package_operation_looked_up)
  obtain y where y: "package_evolves op y" "offers_made ob jb sha enc h k cs + length (spent op) \<le> length (spent y)"
    using offers_made_spent [OF ok found] by blast
  from y(1) stored_package_kept(1) [OF ok found] have "package_kept y" "length (po_targets y) = length (po_targets op)"
    by (auto simp: package_evolves_def dest: list_all2_lengthD)
  with kept_spent_bound [of y] y(2) show ?thesis by simp
qed

lemma package_offers_bounded_witness:
  "offers_made no_bytes no_bytes zeros_sha no_codec (pkg_hub waiting) ''pkg-1''
     [Call_Package (Offer_Package (sample_claim ''hmd-1'' ''claim-1'') 1400), Call_Package (Expire_Packages 2000)] \<le> 128"
  using package_offers_bounded [OF waiting_reachable, of "''pkg-1''" "op_with waiting"
      "[Call_Package (Offer_Package (sample_claim ''hmd-1'' ''claim-1'') 1400), Call_Package (Expire_Packages 2000)]"]
  by (simp add: package_operation_def)

section \<open>Panics and summaries\<close>

lemma archived_kept:
  assumes "reachable ob jb sha enc policy h" and "bt_get (fh_package_archives h) k = Some a"
  shows "bt_get (fh_package_operations h) k = None" "package_kept (pz_operation a)"
    "valid (validate_package_archive (hcd_package_json enc) sha a)"
  using reachable_packages [OF assms(1)] assms(2)
  by (cases "bt_get (fh_package_operations h) k"; auto simp: packages_ok_def package_stores_ok_def package_stores_def)+

text \<open>C35: Where a package method panics. Both confirmation and preparation look an operation up with the
  fallback to the archive and then expect to find it among the active operations. In a reachable Hub a
  confirmation never panics, because an archived operation is no longer proposed; a preparation panics
  exactly when it names an archived operation whose preview has not expired and whose target still presents
  its frozen facts.\<close>

theorem package_panics_iff:
  assumes "reachable ob jb sha enc policy h"
  shows "confirm_package_install_release h k p now \<noteq> None \<and>
     (prepare_package_install_release_invocation h k d q now = None \<longleftrightarrow>
       (\<exists>a. bt_get (fh_package_archives h) k = Some a \<and> now \<le> pv_expires_at_ms (po_preview (pz_operation a)) \<and>
          require_package_target_current h (pz_operation a) d now = Inr ()))"
proof
  show "confirm_package_install_release h k p now \<noteq> None"
  proof (cases "bt_get (fh_package_operations h) k")
    case None
    have "po_lifecycle (pz_operation a) \<noteq> Proposed" if a: "bt_get (fh_package_archives h) k = Some a" for a
    proof -
      note kept = archived_kept [OF assms a]
      have "package_is_terminal (pz_operation a)" using kept(3) by (simp add: validate_package_archive_def)
      then have "Proposed \<notin> eligible_lifecycles (pz_operation a)"
        by (auto simp: eligible_lifecycles_def package_is_terminal_def list_all_iff is_terminal_target_def)
      moreover have "po_lifecycle (pz_operation a) = package_derived_lifecycle (pz_operation a)"
        using kept(2) by (simp add: package_kept_def)
      ultimately show ?thesis by (simp add: derived_cases Let_def)
    qed
    then show ?thesis
      using None by (auto simp: confirm_package_install_release_def package_operation_def
          split: option.splits sum.splits)
  qed (auto simp: confirm_package_install_release_def package_operation_def split: sum.splits)
  show "prepare_package_install_release_invocation h k d q now = None \<longleftrightarrow>
       (\<exists>a. bt_get (fh_package_archives h) k = Some a \<and> now \<le> pv_expires_at_ms (po_preview (pz_operation a)) \<and>
          require_package_target_current h (pz_operation a) d now = Inr ())"
  proof (cases "bt_get (fh_package_operations h) k")
    case (Some op)
    then have "bt_get (fh_package_archives h) k = None"
      using archived_kept(1) [OF assms] by (cases "bt_get (fh_package_archives h) k") auto
    with Some show ?thesis
      by (auto simp: prepare_package_install_release_invocation_def package_operation_def split: sum.splits)
  next
    case None
    then show ?thesis
      by (auto simp: prepare_package_install_release_invocation_def package_operation_def
          split: option.splits sum.splits)
  qed
qed

lemma package_panics_iff_witness:
  "prepare_package_install_release_invocation archived_hub ''pkg-1'' ''hmd-1'' ''request-1'' 2000 = None"
proof -
  have "require_package_target_current (pkg_hub []) (op_with installed_targets) ''hmd-1'' 2000 = Inr ()"
    by (rule package_current [where t = "install6 ''hmd-1'' ''claim-1''"]) simp_all
  then have "require_package_target_current archived_hub (op_with installed_targets) ''hmd-1'' 2000 = Inr ()"
    unfolding require_package_target_current_def archived_hub_fields pkg_hub_fields .
  with package_panics_iff [OF archived_reachable, of "''pkg-1''" _ 2000 "''hmd-1''" "''request-1''"] show ?thesis by simp
qed

text \<open>The progress projection of an operation counts every target once. In a reachable Hub its total is
  the number of targets of the operation; excluded, preview-ready, approved, dispatch-ready, claimed,
  acknowledged, staged, awaiting, cancelling, recovering, applied, failed, expired and cancelled targets add
  up to it, so do eligible and excluded ones; the excluded, applied, failed, expired and cancelled are the
  terminal ones, and the operation is terminal exactly when they are all; the retained slots are the claimed,
  acknowledged, staged, awaiting and recovering ones.\<close>

theorem package_counts_partition:
  assumes "reachable ob jb sha enc policy h" and "package_operation h k = Inr op"
    and "package_operation_progress (hcd_package_json enc) sha h k = Inr c"
  shows "pp_total_targets c = length (po_targets op) \<and>
     pp_total_targets c = pp_excluded_targets c + pp_preview_ready c + pp_approved c + pp_dispatch_ready c +
       pp_claimed c + pp_owner_acknowledged c + pp_staged c + pp_awaiting_wearer c + pp_cancellation_requested c +
       pp_recovery_required c + pp_applied c + pp_failed c + pp_expired c + pp_cancelled c \<and>
     pp_total_targets c = pp_eligible_targets c + pp_excluded_targets c \<and>
     pp_terminal_targets c = pp_excluded_targets c + pp_applied c + pp_failed c + pp_expired c + pp_cancelled c \<and>
     (pp_terminal c \<longleftrightarrow> pp_terminal_targets c = pp_total_targets c) \<and>
     pp_retained_owner_claims c = pp_claimed c + pp_owner_acknowledged c + pp_staged c + pp_awaiting_wearer c +
       pp_recovery_required c \<and>
     pp_lifecycle c = po_lifecycle op"
proof -
  note kept = found_package_kept(1) [OF assms(1,2)]
  have "\<exists>retention time. c = package_progress_of (hcd_package_json enc) sha op retention time"
  proof (cases "bt_get (fh_package_operations h) k")
    case None
    with assms(2,3) obtain a where a: "bt_get (fh_package_archives h) k = Some a" "op = pz_operation a" "c = pz_progress a"
      by (auto simp: package_operation_def package_operation_progress_def split: option.splits)
    have "valid (validate_package_counts_for (hcd_package_json enc) sha c op)"
      using archived_kept(3) [OF assms(1) a(1)] a by (simp add: validate_package_archive_def)
    then show ?thesis by (auto simp: validate_package_counts_for_def valid_def split: if_splits)
  qed (use assms(2,3) in \<open>auto simp: package_operation_def package_operation_progress_def\<close>)
  then obtain retention time where c: "c = package_progress_of (hcd_package_json enc) sha op retention time" by blast
  have classified: "\<forall>t\<in>set (po_targets op). classified t" using kept_classified [OF kept] by blast
  have small: "length (po_targets op) \<le> 10000" by (rule kept_target_count [OF kept])
  have split: "length (filter (\<lambda>t. pf_eligible (pt_preflight t)) (po_targets op)) +
      length (filter (\<lambda>t. \<not> pf_eligible (pt_preflight t)) (po_targets op)) = length (po_targets op)"
    by (rule sum_length_filter_compl)
  define n where "n = length (filter (\<lambda>t. \<not> pf_eligible (pt_preflight t)) (po_targets op))"
  have "length (po_targets op) + 2 ^ 32 - length (filter (\<lambda>t. pf_eligible (pt_preflight t)) (po_targets op)) = n + 2 ^ 32"
    and "n < 2 ^ 32"
    using split small by (simp_all add: n_def)
  then have excluded: "(length (po_targets op) + 2 ^ 32 - length (filter (\<lambda>t. pf_eligible (pt_preflight t)) (po_targets op)))
      mod 2 ^ 32 = length (filter (\<lambda>t. \<not> pf_eligible (pt_preflight t)) (po_targets op))"
    by (simp only: mod_add_self2 mod_less n_def)
  have all: "filter (\<lambda>_. True) ts = ts" for ts :: "package_target list" by simp
  note counts = package_progress_of_def Let_def package_counts.simps count32_tally [OF kept] excluded all
    package_is_terminal_def all_terminal_tally [symmetric]
  show ?thesis
    unfolding c counts
    by (intro conjI tally_partition tally_terminal tally_slots classified split [symmetric] refl iffI)
qed

lemma package_counts_partition_witness:
  "\<exists>c. package_operation_progress (hcd_package_json no_codec) zeros_sha archived_hub ''pkg-1'' = Inr c \<and>
     pp_total_targets c = 2 \<and> pp_terminal_targets c = pp_total_targets c"
proof -
  obtain c where c: "package_operation_progress (hcd_package_json no_codec) zeros_sha archived_hub ''pkg-1'' = Inr c"
    "c = pz_progress sample_archive"
    by (simp add: package_operation_progress_def)
  have "pp_terminal c"
    using installed_terminal(1) by (simp add: c(2) sample_archive_def archive_of_def package_progress_of_def Let_def)
  with package_counts_partition [OF archived_reachable archived_operation c(1)] c(1) show ?thesis by auto
qed

text \<open>The lifecycle of an operation tells what its targets did. In a reachable Hub an operation is Applied
  exactly when it has eligible targets and all of them are applied, and Rejected exactly when no target was
  eligible. Failed does not mean that it is over: a failed operation is still unfinished exactly when some
  owner reported a cancellation request and no eligible target is before dispatch or in flight.\<close>

theorem package_lifecycle_truthful:
  assumes "reachable ob jb sha enc policy h" and "package_operation h k = Inr op"
  shows "(po_lifecycle op = Applied \<longleftrightarrow> eligible_lifecycles op = {Applied}) \<and>
     (po_lifecycle op = Rejected \<longleftrightarrow> eligible_lifecycles op = {}) \<and>
     (po_lifecycle op = Lifecycle_Failed \<and> \<not> package_is_terminal op \<longleftrightarrow>
        CancellationRequested \<in> eligible_lifecycles op \<and>
        eligible_lifecycles op \<inter> {Proposed, Accepted, Dispatched, Running} = {})"
proof -
  note kept = found_package_kept(1) [OF assms]
  have lifecycle: "po_lifecycle op = package_derived_lifecycle op" using kept by (simp add: package_kept_def)
  have "pt_lifecycle t \<in> {Proposed, Accepted, Dispatched, Running, CancellationRequested, Applied, Lifecycle_Failed, Expired, Cancelled}"
    if t: "t \<in> set (po_targets op)" "pf_eligible (pt_preflight t)" for t
    using package_rowD(1) [OF package_target_keptD(3) [OF package_kept_frozen(3) [OF kept t(1)] t(2)]]
    by (cases "pt_lifecycle t") simp_all
  then have possible: "eligible_lifecycles op \<subseteq>
      {Proposed, Accepted, Dispatched, Running, CancellationRequested, Applied, Lifecycle_Failed, Expired, Cancelled}"
    by (auto simp: eligible_lifecycles_def)
  have "is_terminal_target t \<longleftrightarrow> \<not> pf_eligible (pt_preflight t) \<or>
      pt_lifecycle t \<in> {Rejected, Applied, Lifecycle_Failed, Expired, Cancelled}"
    if t: "t \<in> set (po_targets op)" for t
    using package_target_keptD(5) [OF package_kept_frozen(3) [OF kept t]] by (auto simp: is_terminal_target_def)
  then have terminal: "package_is_terminal op \<longleftrightarrow>
      eligible_lifecycles op \<subseteq> {Rejected, Applied, Lifecycle_Failed, Expired, Cancelled}"
    by (auto simp: package_is_terminal_def list_all_iff eligible_lifecycles_def)
  show ?thesis unfolding lifecycle derived_cases Let_def terminal
    using possible by (cases "eligible_lifecycles op = {}") (simp, auto split: if_splits)
qed

lemma package_lifecycle_truthful_witness:
  "eligible_lifecycles (op_with installed_targets) = {Applied}"
  using package_lifecycle_truthful [OF archived_reachable archived_operation] installed_terminal(3) by simp

end
