(* ===== verification/Catalog_Search.thy ===== *)
theory Catalog_Search
  imports Package_Runs
begin

text \<open>
  The application search against its specification: what is found in the searchable catalogs, identity by
  identity, and how the coverage counts the devices.
\<close>

text \<open>
  Kiosk catalogs over arbitrary commands of the Hub: consumed replay identities and associations stay, and
  the catalog of a headset is only replaced by a later observation.
\<close>

definition catalogs_associated :: "'a hub_state_scheme \<Rightarrow> bool" where
  "catalogs_associated h \<longleftrightarrow> (\<forall>d r. bt_get (fh_kiosk_catalogs h) d = Some r \<longrightarrow>
     (\<exists>profile_id. bt_get (fh_catalog_associations h) d =
        Some (kc_identity_revision (ckr_snapshot r), profile_id, kc_kiosk_owner_epoch (ckr_snapshot r))))"

lemma associated_ok: "catalogs_ok uni h \<Longrightarrow> catalogs_associated h"
  by (auto simp: catalogs_ok_def catalog_record_ok_def catalogs_associated_def)

definition catalogs_onward :: "'a hub_state_scheme \<Rightarrow> 'a hub_state_scheme \<Rightarrow> bool" where
  "catalogs_onward h h' \<longleftrightarrow>
     (catalogs_associated h \<longrightarrow> catalogs_associated h') \<and>
     (\<forall>id. bt_contains_key (fh_catalog_replays h) id \<longrightarrow> bt_contains_key (fh_catalog_replays h') id) \<and>
     (\<forall>d x. bt_get (fh_catalog_associations h) d = Some x \<longrightarrow> bt_get (fh_catalog_associations h') d = Some x) \<and>
     (\<forall>d r. bt_get (fh_kiosk_catalogs h) d = Some r \<longrightarrow>
        (\<exists>r'. bt_get (fh_kiosk_catalogs h') d = Some r' \<and> (r' = r \<or>
           ckr_received_at_ms r \<le> ckr_received_at_ms r' \<and>
           kc_observed_at_ms (ckr_snapshot r) < kc_observed_at_ms (ckr_snapshot r'))))"

lemma catalogs_onward_refl: "catalogs_onward h h"
  by (simp add: catalogs_onward_def)

lemma catalogs_onward_trans: "catalogs_onward h h' \<Longrightarrow> catalogs_onward h' h'' \<Longrightarrow> catalogs_onward h h''"
proof -
  assume 1: "catalogs_onward h h'" and 2: "catalogs_onward h' h''"
  have "\<exists>r''. bt_get (fh_kiosk_catalogs h'') d = Some r'' \<and> (r'' = r \<or>
      ckr_received_at_ms r \<le> ckr_received_at_ms r'' \<and>
      kc_observed_at_ms (ckr_snapshot r) < kc_observed_at_ms (ckr_snapshot r''))"
    if r: "bt_get (fh_kiosk_catalogs h) d = Some r" for d r
  proof -
    from 1 r obtain r' where r': "bt_get (fh_kiosk_catalogs h') d = Some r'" "r' = r \<or>
        ckr_received_at_ms r \<le> ckr_received_at_ms r' \<and>
        kc_observed_at_ms (ckr_snapshot r) < kc_observed_at_ms (ckr_snapshot r')"
      unfolding catalogs_onward_def by blast
    from 2 r'(1) obtain r'' where "bt_get (fh_kiosk_catalogs h'') d = Some r''" "r'' = r' \<or>
        ckr_received_at_ms r' \<le> ckr_received_at_ms r'' \<and>
        kc_observed_at_ms (ckr_snapshot r') < kc_observed_at_ms (ckr_snapshot r'')"
      unfolding catalogs_onward_def by blast
    with r'(2) show ?thesis by auto
  qed
  with 1 2 show ?thesis unfolding catalogs_onward_def by blast
qed

lemma admitted_onward:
  assumes "catalog_admissible uni h a profile_id t device"
  shows "catalogs_onward h (admitted_hub h a profile_id t device)"
proof -
  note facts = assms [unfolded catalog_admissible_def Let_def]
  let ?d = "kc_device_id (cad_snapshot a)"
  have "x = catalog_association a profile_id" if "bt_get (fh_catalog_associations h) ?d = Some x" for x
    using facts that by simp
  moreover have "ckr_received_at_ms r \<le> t \<and> kc_observed_at_ms (ckr_snapshot r) < kc_observed_at_ms (cad_snapshot a)"
    if "bt_get (fh_kiosk_catalogs h) ?d = Some r" for r
    using facts that by simp
  moreover have "catalogs_associated (admitted_hub h a profile_id t device)" if "catalogs_associated h"
    using that unfolding catalogs_associated_def admitted_hub_def
    by (auto simp: admitted_catalog_def catalog_association_def)
  ultimately show ?thesis
    by (auto simp: catalogs_onward_def admitted_hub_def admitted_catalog_def less_imp_le)
qed

lemma profiled_onward: "catalogs_onward h (fst (accept_profiled_kiosk_catalog uni h a profile_id t))"
  by (cases rule: profiled_cases [of uni h a profile_id t]) (auto simp: catalogs_onward_refl admitted_onward)

lemma run_command_catalogs:
  assumes ok: "stores_ok h"
  shows "catalogs_onward h (run_command ob jb sha enc h c)"
proof (cases "\<exists>a profile_id t. c = Admit_Catalog a profile_id t")
  case True
  then show ?thesis using profiled_onward by auto
next
  case False
  let ?h = "run_command ob jb sha enc h c"
  have "fh_kiosk_catalogs ?h = fh_kiosk_catalogs h \<and> fh_catalog_replays ?h = fh_catalog_replays h \<and>
      fh_catalog_associations ?h = fh_catalog_associations h"
  proof (cases "is_kiosk_command c")
    case True
    then obtain r :: "'a hub_state_scheme \<times> (hub_error + kiosk_operation)"
      where "ks.outcome h (command_key c) r" "?h = fst r"
      using kiosk_command_effect [OF stores_okD(1) [OF ok], of c ob jb sha enc] by (auto simp: kiosk_effect_def)
    then show ?thesis by (simp add: run_kiosk_frame)
  next
    case other: False
    show ?thesis
    proof (cases "is_owner_call c")
      case True
      then show ?thesis by (simp add: owner_call_frame(10,11,12) [OF ok])
    next
      case owner: False
      with other False show ?thesis
        by (cases c) (simp_all add: is_kiosk_command_def is_owner_call_def)
    qed
  qed
  then show ?thesis by (auto simp: catalogs_onward_def catalogs_associated_def)
qed

lemma run_commands_catalogs:
  "stores_ok h \<Longrightarrow> catalogs_onward h (run_commands ob jb sha enc h cs)"
proof (induction cs arbitrary: h)
  case (Cons c cs)
  then show ?case
    using run_command_catalogs [OF Cons.prems, of ob jb sha enc c] run_command_stores [OF Cons.prems]
    by (auto intro: catalogs_onward_trans)
qed (simp add: catalogs_onward_refl)

section \<open>Sorting and tags\<close>

lemma insort_by_cmp: "insort_by cmp x xs = insort x xs"
  by (induction xs) (auto simp: cmp_def)

lemma sort_by_cmp: "sort_by cmp xs = sort xs"
  by (induction xs) (simp_all add: insort_by_cmp)

lemma set_add_tags: "set (fold add_tag new tags) = set tags \<union> set new"
  by (induction new arbitrary: tags) (auto simp: add_tag_def)

lemma distinct_add_tags: "distinct tags \<Longrightarrow> distinct (fold add_tag new tags)"
  by (induction new arbitrary: tags) (auto simp: add_tag_def)

lemma sort_unique: "distinct xs \<Longrightarrow> distinct ys \<Longrightarrow> set xs = set ys \<Longrightarrow> sort xs = sort ys"
  by (rule sorted_distinct_set_unique) simp_all

section \<open>The specification\<close>

definition found_tags :: "string \<Rightarrow> catalog_entry list \<Rightarrow> string list" where
  "found_tags query es = sort (remdups (filter (\<lambda>tag. str_contains tag query) (concat (map ce_tags es))))"

text \<open>The match of an identity among the entries found.\<close>

definition match_of :: "string \<Rightarrow> catalog_entry list \<Rightarrow> string \<Rightarrow> app_match" where
  "match_of query found app_identity =
    (let es = filter (\<lambda>e. ce_app_identity e = app_identity) found
     in \<lparr>am_app_identity = app_identity, am_display_label = ce_display_label (hd es),
         am_disambiguator = ce_disambiguator (hd es), am_package_name = find_map ce_package_name es,
         am_matched_tags = found_tags query es, am_current_device_count = length es,
         am_refresh_required_device_count = 0\<rparr>)"

text \<open>The catalog of a device that still belongs to its identity and epoch.\<close>

definition kept_catalog :: "'a hub_state_scheme \<Rightarrow> string \<times> device_record \<Rightarrow> catalog option" where
  "kept_catalog h device = (case bt_get (fh_kiosk_catalogs h) (fst device) of
     None \<Rightarrow> None
   | Some r \<Rightarrow> if catalog_current (snd device) r then Some (ckr_snapshot r) else None)"

definition readable :: "catalog \<Rightarrow> bool" where
  "readable s \<longleftrightarrow> cg_catalog_summary (kc_grants s) \<and> kc_permission_limited_count s = 0"

definition searchable :: "i64 \<Rightarrow> catalog \<Rightarrow> bool" where
  "searchable now s \<longleftrightarrow> readable s \<and> kc_complete s \<and> now \<le> kc_fresh_until_ms s"

definition device_hits ::
  "(string \<Rightarrow> string) \<Rightarrow> 'a hub_state_scheme \<Rightarrow> string \<Rightarrow> i64 \<Rightarrow> string \<times> device_record \<Rightarrow> catalog_entry list" where
  "device_hits uni h query now device = (case kept_catalog h device of
     None \<Rightarrow> []
   | Some s \<Rightarrow> if searchable now s then filter (\<lambda>e. catalog_entry_matches uni e query) (kc_entries s) else [])"

definition search_hits :: "(string \<Rightarrow> string) \<Rightarrow> 'a hub_state_scheme \<Rightarrow> string \<Rightarrow> i64 \<Rightarrow> catalog_entry list" where
  "search_hits uni h query now = concat (map (device_hits uni h query now) (entries (fh_devices h)))"

definition count_catalogs ::
  "'a hub_state_scheme \<Rightarrow> (catalog option \<Rightarrow> bool) \<Rightarrow> (string \<times> device_record) list \<Rightarrow> nat" where
  "count_catalogs h p ds = length (filter (\<lambda>d. p (kept_catalog h d)) ds)"

definition searched_coverage :: "'a hub_state_scheme \<Rightarrow> i64 \<Rightarrow> (string \<times> device_record) list \<Rightarrow> catalog_coverage" where
  "searched_coverage h now ds = \<lparr>
     cov_current = count_catalogs h (some_and (searchable now)) ds,
     cov_stale = count_catalogs h (some_and (\<lambda>s. readable s \<and> kc_complete s \<and> kc_fresh_until_ms s < now)) ds,
     cov_absent = count_catalogs h (\<lambda>s. s = None) ds,
     cov_incomplete = count_catalogs h (some_and (\<lambda>s. readable s \<and> \<not> kc_complete s)) ds,
     cov_permission_limited = count_catalogs h (some_and (\<lambda>s. \<not> readable s)) ds\<rparr>"

section \<open>The fold over the entries found\<close>

lemma find_map_append: "find_map f (xs @ ys) = (case find_map f xs of None \<Rightarrow> find_map f ys | Some z \<Rightarrow> Some z)"
  by (induction f xs rule: find_map.induct) (auto split: option.split)

lemma new_match_merged:
  assumes "distinct (ce_tags e)" and "ce_app_identity e \<notin> ce_app_identity ` set found"
  shows "merge_entry e query (new_match e query) = match_of query (found @ [e]) (ce_app_identity e)"
proof -
  have "filter (\<lambda>x. ce_app_identity x = ce_app_identity e) found = []"
    using assms(2) by (auto simp: filter_empty_conv image_iff)
  moreover have "sort (fold add_tag (filter (\<lambda>tag. str_contains tag query) (ce_tags e))
      (filter (\<lambda>tag. str_contains tag query) (ce_tags e))) = found_tags query [e]"
    using assms(1) unfolding found_tags_def by (intro sort_unique distinct_add_tags) (auto simp: set_add_tags)
  ultimately show ?thesis
    by (simp add: merge_entry_def new_match_def match_of_def Let_def sort_by_cmp split: option.split)
qed

lemma old_match_merged:
  assumes "ce_app_identity e \<in> ce_app_identity ` set found"
  shows "merge_entry e query (match_of query found (ce_app_identity e)) = match_of query (found @ [e]) (ce_app_identity e)"
proof -
  let ?es = "filter (\<lambda>x. ce_app_identity x = ce_app_identity e) found"
  have "?es \<noteq> []" using assms by (auto simp: filter_empty_conv)
  moreover have "sort (fold add_tag (filter (\<lambda>tag. str_contains tag query) (ce_tags e)) (found_tags query ?es)) =
      found_tags query (?es @ [e])"
    unfolding found_tags_def by (intro sort_unique distinct_add_tags) (auto simp: set_add_tags)
  ultimately show ?thesis
    by (simp add: merge_entry_def match_of_def Let_def sort_by_cmp find_map_append split: option.split)
qed

lemma match_of_other:
  "k \<noteq> ce_app_identity e \<Longrightarrow> match_of query (found @ [e]) k = match_of query found k"
  by (simp add: match_of_def)

lemma folded_matches:
  assumes "\<forall>e\<in>set found. distinct (ce_tags e)"
  shows "bt_get (fold (match_entry query) found bt_empty) k =
    (if k \<in> ce_app_identity ` set found then Some (match_of query found k) else None)"
  using assms
proof (induction found arbitrary: k rule: rev_induct)
  case (snoc e found)
  define m where "m = fold (match_entry query) found bt_empty"
  have IH: "bt_get m k = (if k \<in> ce_app_identity ` set found then Some (match_of query found k) else None)" for k
    using snoc unfolding m_def by simp
  have "bt_get (match_entry query e m) k =
      (if k \<in> ce_app_identity ` set (found @ [e]) then Some (match_of query (found @ [e]) k) else None)"
  proof (cases "k = ce_app_identity e")
    case True
    with snoc.prems new_match_merged [of e found query] old_match_merged [of e found query] show ?thesis
      by (cases "ce_app_identity e \<in> ce_app_identity ` set found") (simp_all add: match_entry_def IH)
  next
    case False
    then show ?thesis by (simp add: match_entry_def Let_def IH match_of_other)
  qed
  then show ?case unfolding m_def by simp
qed simp

lemma folded_match_values:
  assumes "\<forall>e\<in>set found. distinct (ce_tags e)"
  shows "bt_values (fold (match_entry query) found bt_empty) =
    map (match_of query found) (sort (remdups (map ce_app_identity found)))"
proof -
  let ?m = "fold (match_entry query) found bt_empty"
  have keys: "bt_keys ?m = sort (remdups (map ce_app_identity found))"
  proof (rule sorted_distinct_set_unique)
    show "sorted (bt_keys ?m)" "distinct (bt_keys ?m)"
      using strictly_sorted_entries [of ?m] distinct_bt_keys [of ?m]
      by (simp_all add: bt_keys_def strictly_sorted_def)
        (metis sorted_wrt_mono_rel less_imp_le)
    show "set (bt_keys ?m) = set (sort (remdups (map ce_app_identity found)))"
      using folded_matches [OF assms, of query] by (auto simp: set_bt_keys bt_contains_key_def split: if_splits)
  qed simp_all
  have "bt_values ?m = map (\<lambda>k. the (bt_get ?m k)) (bt_keys ?m)"
    by (auto simp: bt_values_def bt_keys_def bt_get_Some_iff [symmetric] intro!: map_cong)
  then show ?thesis unfolding keys using folded_matches [OF assms, of query] by auto
qed

section \<open>The fold over the devices\<close>

definition add_coverage :: "catalog_coverage \<Rightarrow> catalog_coverage \<Rightarrow> catalog_coverage" where
  "add_coverage a b = \<lparr>cov_current = cov_current a + cov_current b, cov_stale = cov_stale a + cov_stale b,
     cov_absent = cov_absent a + cov_absent b, cov_incomplete = cov_incomplete a + cov_incomplete b,
     cov_permission_limited = cov_permission_limited a + cov_permission_limited b\<rparr>"

lemma add_no_coverage [simp]: "add_coverage no_coverage c = c"
  by (simp add: add_coverage_def no_coverage_def)

lemma searched_device:
  "search_device uni h query now d (coverage, matches) =
   (add_coverage coverage (searched_coverage h now [d]),
    fold (match_entry query) (device_hits uni h query now d) matches)"
proof (cases "kept_catalog h d")
  case None
  then show ?thesis
    by (auto simp: search_device_def device_hits_def add_coverage_def searched_coverage_def count_catalogs_def
        kept_catalog_def split: option.splits if_splits)
next
  case (Some s)
  then obtain r where "bt_get (fh_kiosk_catalogs h) (fst d) = Some r" "catalog_current (snd d) r" "s = ckr_snapshot r"
    by (auto simp: kept_catalog_def split: option.splits if_splits)
  with Some show ?thesis
    by (auto simp: search_device_def search_catalog_def device_hits_def add_coverage_def searched_coverage_def
        count_catalogs_def searchable_def readable_def)
qed

lemma searched_coverage_Cons:
  "add_coverage (searched_coverage h now [d]) (searched_coverage h now ds) = searched_coverage h now (d # ds)"
  by (cases "kept_catalog h d") (simp_all add: add_coverage_def searched_coverage_def count_catalogs_def)

lemma add_coverage_assoc: "add_coverage (add_coverage a b) c = add_coverage a (add_coverage b c)"
  by (simp add: add_coverage_def)

lemma searched_devices:
  "fold (search_device uni h query now) ds (coverage, matches) =
   (add_coverage coverage (searched_coverage h now ds),
    fold (match_entry query) (concat (map (device_hits uni h query now) ds)) matches)"
proof (induction ds arbitrary: coverage matches)
  case Nil
  then show ?case by (simp add: add_coverage_def searched_coverage_def count_catalogs_def)
next
  case (Cons d ds)
  then show ?case
    by (simp add: searched_device add_coverage_assoc searched_coverage_Cons)
qed

lemma coverage_total:
  "cov_current (searched_coverage h now ds) + cov_stale (searched_coverage h now ds) +
   cov_absent (searched_coverage h now ds) + cov_incomplete (searched_coverage h now ds) +
   cov_permission_limited (searched_coverage h now ds) = length ds"
proof (induction ds)
  case (Cons d ds)
  then show ?case
    by (cases "kept_catalog h d") (auto simp: searched_coverage_def count_catalogs_def searchable_def)
qed (simp add: searched_coverage_def count_catalogs_def)

text \<open>The tags of an entry in a catalog that passes its contract are distinct.\<close>

lemma unique_tags:
  assumes "valid (validate_catalog uni s)" and "e \<in> set (kc_entries s)"
  shows "distinct (ce_tags e)"
proof -
  obtain k where k: "k < length (kc_entries s)" "e = kc_entries s ! k" using assms(2) by (auto simp: in_set_conv_nth)
  have "nested_at (at_entry k ''.'') (validate_catalog_entry uni e) = []"
    using assms(1) k by (simp add: validate_catalog_def)
  then have "valid (validate_catalog_entry uni e)"
    by (rule nested_at_Nil_valid) (simp add: validate_catalog_entry_def)
  then have "unique_count (ce_tags e) = length (ce_tags e)"
    by (simp add: validate_catalog_entry_def catalog_tags_invalid_def)
  then show ?thesis by (simp add: unique_count_def card_distinct)
qed

lemma hits_unique_tags:
  assumes "catalogs_ok uni h" and "e \<in> set (search_hits uni h query now)"
  shows "distinct (ce_tags e)"
proof -
  from assms(2) obtain d s where s: "kept_catalog h d = Some s" "e \<in> set (kc_entries s)"
    by (auto simp: search_hits_def device_hits_def dest: sym [of "Some _"] split: option.splits if_splits)
  then obtain r where "bt_get (fh_kiosk_catalogs h) (fst d) = Some r" "s = ckr_snapshot r"
    by (auto simp: kept_catalog_def split: option.splits if_splits)
  with assms(1) have "catalog_record_ok uni (fh_catalog_replays h) (fh_catalog_associations h) (fst d) r"
    by (simp add: catalogs_ok_def)
  then have "valid (validate_catalog uni (ckr_snapshot r))"
    using admission_valid_parts(1) by (fastforce simp: catalog_record_ok_def)
  with s \<open>s = ckr_snapshot r\<close> show ?thesis using unique_tags by blast
qed

lemma search_result:
  assumes "catalogs_ok uni h" and "kiosk_app_search uni h request now = Inr res"
  shows "asx_coverage res = searched_coverage h now (entries (fh_devices h))"
    and "asx_matches res = take (asr_limit request) (sort_by (compare_matches uni)
      (map (match_of (asx_normalized_query res) (search_hits uni h (asx_normalized_query res) now))
        (sort (remdups (map ce_app_identity (search_hits uni h (asx_normalized_query res) now))))))"
    and "asx_normalized_query res = normalize_catalog_text uni (asr_query request)"
proof -
  let ?q = "normalize_catalog_text uni (asr_query request)"
  have found: "fold (search_device uni h ?q now) (entries (fh_devices h)) (no_coverage, bt_empty) =
      (searched_coverage h now (entries (fh_devices h)), fold (match_entry ?q) (search_hits uni h ?q now) bt_empty)"
    by (simp add: searched_devices search_hits_def)
  note found_values = folded_match_values [of "search_hits uni h ?q now" ?q]
  have tags: "\<forall>e\<in>set (search_hits uni h ?q now). distinct (ce_tags e)" using hits_unique_tags [OF assms(1)] by blast
  show "asx_coverage res = searched_coverage h now (entries (fh_devices h))"
    and "asx_matches res = take (asr_limit request) (sort_by (compare_matches uni)
      (map (match_of (asx_normalized_query res) (search_hits uni h (asx_normalized_query res) now))
        (sort (remdups (map ce_app_identity (search_hits uni h (asx_normalized_query res) now))))))"
    and "asx_normalized_query res = ?q"
    using assms(2) unfolding kiosk_app_search_def Let_def found
    by (auto simp: found_values [OF tags] split: sum.splits)
qed

end
