(* ===== verification/Catalog_Digest.thy ===== *)
theory Catalog_Digest
  imports Catalog_Contract Hub_Deadline
begin

text \<open>
  The digests of an owner's catalog: the input that is hashed determines every part of it, since each part
  is written with its length before it.
\<close>

lemma split_at_first:
  assumes "xs @ z # as = ys @ z # bs" and "z \<notin> set xs" and "z \<notin> set ys"
  shows "xs = ys \<and> as = bs"
  using assms
proof (induction xs arbitrary: ys)
  case Nil
  then show ?case by (cases ys) auto
next
  case (Cons x xs)
  then show ?case by (cases ys) auto
qed

lemma show_nat_no_zero: "char_of (0 :: nat) \<notin> set (show_nat n)"
proof -
  have "\<not> is_ascii_digit (char_of (0 :: nat))" by (simp add: is_ascii_digit_def)
  with show_nat_digits [of n] show ?thesis by (auto simp: list_all_iff)
qed

lemma show_nat_inject: "show_nat m = show_nat n \<longleftrightarrow> m = n"
  using read_show_nat by metis

lemma owner_digest_input_Cons [simp]:
  "owner_digest_input (part # parts) =
   show_nat (length part) @ char_of (0 :: nat) # part @ char_of (0 :: nat) # owner_digest_input parts"
  by (simp add: owner_digest_input_def)

lemma owner_digest_input_inj:
  "owner_digest_input ps = owner_digest_input qs \<Longrightarrow> ps = qs"
proof (induction ps arbitrary: qs)
  case Nil
  then show ?case by (cases qs) (simp_all add: owner_digest_input_def)
next
  case (Cons p ps)
  obtain q qs' where qs: "qs = q # qs'"
    using Cons.prems by (cases qs) (simp_all add: owner_digest_input_def)
  from Cons.prems [unfolded qs owner_digest_input_Cons]
  have "show_nat (length p) = show_nat (length q) \<and>
      p @ char_of (0 :: nat) # owner_digest_input ps = q @ char_of (0 :: nat) # owner_digest_input qs'"
    by (rule split_at_first) (rule show_nat_no_zero)+
  then have "length p = length q"
    and rest: "p @ char_of (0 :: nat) # owner_digest_input ps = q @ char_of (0 :: nat) # owner_digest_input qs'"
    by (simp_all add: show_nat_inject)
  then have "p = q \<and> owner_digest_input ps = owner_digest_input qs'" by simp
  with Cons.IH qs show ?case by blast
qed

lemma show_i64_inj: "0 \<le> x \<Longrightarrow> 0 \<le> y \<Longrightarrow> show_i64 x = show_i64 y \<Longrightarrow> x = y"
  by (simp add: show_i64_def show_nat_inject)

lemma show_bool_inj: "show_bool a = show_bool b \<longleftrightarrow> a = b"
  by (simp add: show_bool_def)

text \<open>The joined digests of the entries: each is 64 hexadecimal digits, so the list can be read back.\<close>

lemma join_with_Cons: "join_with sep (s # ss) = s @ (if ss = [] then [] else sep @ join_with sep ss)"
  by (cases ss) simp_all

lemma joined_digests_inj:
  assumes "join_with ''|'' ds = join_with ''|'' es" and "\<forall>d\<in>set ds \<union> set es. is_sha256 d"
  shows "ds = es"
  using assms
proof (induction ds arbitrary: es)
  case Nil
  then show ?case by (cases es) (auto simp: join_with_Cons is_sha256_def)
next
  case (Cons d ds)
  then obtain e es' where es: "es = e # es'" by (cases es) (auto simp: join_with_Cons is_sha256_def)
  with Cons.prems(2) have "length d = length e" by (simp add: is_sha256_def)
  with Cons.prems(1) have "d = e" and rest: "(if ds = [] then [] else ''|'' @ join_with ''|'' ds) =
      (if es' = [] then [] else ''|'' @ join_with ''|'' es')"
    unfolding es join_with_Cons by simp_all
  then have "(ds = [] \<longleftrightarrow> es' = []) \<and> join_with ''|'' ds = join_with ''|'' es'" by (auto split: if_splits)
  with Cons.IH [of es'] Cons.prems(2) \<open>d = e\<close> es show ?case by auto
qed

text \<open>What a valid owner catalog fixes by its digest.\<close>

lemma valid_owner_catalog:
  assumes "valid (validate_owner_catalog sha uni s)"
  shows "ocs_snapshot_digest s = owner_snapshot_digest sha s" "0 < ocs_observed_at_ms s"
    "ocs_observed_at_ms s \<le> ocs_fresh_until_ms s"
    "\<forall>d\<in>set (map oe_entry_digest (ocs_entries s)). is_sha256 d"
    "\<not> ocs_truncated s \<Longrightarrow> ocs_catalog_revision s = owner_catalog_revision sha s"
proof -
  have parts: "owner_head_failures s = []" "\<forall>k<length (ocs_entries s). owner_entry_failures uni s k (ocs_entries s ! k) = []"
    "ocs_snapshot_digest s = owner_snapshot_digest sha s"
    "\<not> ocs_truncated s \<Longrightarrow> ocs_catalog_revision s = owner_catalog_revision sha s"
    using assms by (auto simp: validate_owner_catalog_def)
  show "ocs_snapshot_digest s = owner_snapshot_digest sha s"
    "\<not> ocs_truncated s \<Longrightarrow> ocs_catalog_revision s = owner_catalog_revision sha s" by (fact parts)+
  show "0 < ocs_observed_at_ms s" "ocs_observed_at_ms s \<le> ocs_fresh_until_ms s"
    using parts(1) by (simp_all add: owner_head_failures_def catalog_freshness_invalid_def)
  show "\<forall>d\<in>set (map oe_entry_digest (ocs_entries s)). is_sha256 d"
    using parts(2) by (auto simp: in_set_conv_nth owner_entry_failures_def owner_entry_invalid_def)
qed

lemma snapshot_parts_inj:
  assumes "snapshot_digest_parts s = snapshot_digest_parts s'"
    and "valid (validate_owner_catalog sha uni s)" and "valid (validate_owner_catalog sha uni s')"
  shows "ocs_owner_epoch s = ocs_owner_epoch s'" "ocs_catalog_revision s = ocs_catalog_revision s'"
    "ocs_observed_at_ms s = ocs_observed_at_ms s'" "ocs_fresh_until_ms s = ocs_fresh_until_ms s'"
    "ocs_complete s = ocs_complete s'" "ocs_total_candidate_count s = ocs_total_candidate_count s'"
    "ocs_permission_limited_count s = ocs_permission_limited_count s'"
    "map oe_entry_digest (ocs_entries s) = map oe_entry_digest (ocs_entries s')"
proof -
  note v = valid_owner_catalog [OF assms(2)] and v' = valid_owner_catalog [OF assms(3)]
  show "ocs_owner_epoch s = ocs_owner_epoch s'" "ocs_catalog_revision s = ocs_catalog_revision s'"
    "ocs_complete s = ocs_complete s'" "ocs_total_candidate_count s = ocs_total_candidate_count s'"
    "ocs_permission_limited_count s = ocs_permission_limited_count s'"
    using assms(1) by (simp_all add: snapshot_digest_parts_def show_bool_inj show_nat_inject)
  show "ocs_observed_at_ms s = ocs_observed_at_ms s'" "ocs_fresh_until_ms s = ocs_fresh_until_ms s'"
    using assms(1) v(2,3) v'(2,3) by (auto simp: snapshot_digest_parts_def intro: show_i64_inj)
  show "map oe_entry_digest (ocs_entries s) = map oe_entry_digest (ocs_entries s')"
    using assms(1) v(4) v'(4) by (intro joined_digests_inj) (auto simp: snapshot_digest_parts_def)
qed

end
