(* ===== verification/Catalog_Samples.thy ===== *)
theory Catalog_Samples
  imports Catalog_Search Catalog_Digest Owner_Samples Package_Samples
begin

text \<open>
  Concrete catalogs the catalog properties are instantiated at: the summary a headset's Kiosk owner reports,
  admitted over the encrypted route to the Hub with one ready headset, and two owner catalogs hashed by a
  function that is constant.
\<close>

lemma zeros_digest [simp]: "is_sha256 (replicate 64 CHR ''0'')"
  by (simp add: is_sha256_def list_all_iff is_lower_hex_def is_ascii_digit_def)

lemma zeros_bytes [simp]: "\<not> is_blank (replicate 64 CHR ''0'')" "list_all is_identifier_byte (replicate 64 CHR ''0'')"
  by (simp add: numeral_eq_Suc is_blank.simps)
    (simp add: list_all_iff is_identifier_byte_def is_ascii_alphanumeric_def is_ascii_digit_def)

abbreviation zeros :: string where
  "zeros \<equiv> replicate 64 CHR ''0''"

definition music_entry :: catalog_entry where
  "music_entry = \<lparr>
     ce_app_identity = ''app-1'', ce_entry_id = ''entry-1'', ce_entry_digest = zeros,
     ce_display_label = ''Music'', ce_disambiguator = ''1'', ce_package_name = None,
     ce_installed = True, ce_launchable = True, ce_tags = [''music'']\<rparr>"

definition summary_authority :: catalog_authority where
  "summary_authority = \<lparr>
     ca_receipt_sha256 = zeros, ca_grant_revision = 1, ca_route_id = kiosk_v2_encrypted_route_id,
     ca_device_id = ''hmd-1'', ca_identity_revision = 1, ca_kiosk_owner_epoch = ''owner-epoch-0001'',
     ca_issued_at_ms = 900, ca_expires_at_ms = 8000, ca_scopes = [kiosk_catalog_summary_scope]\<rparr>"

definition music_catalog :: "i64 \<Rightarrow> catalog" where
  "music_catalog observed_at_ms = \<lparr>
     kc_schema = kiosk_catalog_snapshot_schema, kc_owner_schema = kiosk_owner_catalog_snapshot_schema,
     kc_raw_owner_sha256 = zeros, kc_operator_authority = Some summary_authority, kc_device_id = ''hmd-1'',
     kc_identity_revision = 1, kc_kiosk_owner_epoch = ''owner-epoch-0001'', kc_snapshot_id = zeros,
     kc_catalog_revision = zeros, kc_snapshot_digest = zeros, kc_observed_at_ms = observed_at_ms,
     kc_fresh_until_ms = 5000, kc_search_semantics = kiosk_catalog_search_semantics, kc_complete = True,
     kc_truncated = False, kc_total_candidate_count = 1, kc_permission_limited_count = 0,
     kc_grants = \<lparr>cg_catalog_summary = True, cg_catalog_detail = False, cg_app_launch = False\<rparr>,
     kc_entries = [music_entry]\<rparr>"

definition music_binding :: catalog_binding where
  "music_binding = \<lparr>
     cb_schema = kiosk_v2_catalog_admission_schema, cb_request_id = ''request-1'',
     cb_response_request_id = ''request-1'', cb_replay_identity = zeros, cb_request_envelope_sha256 = zeros,
     cb_response_envelope_sha256 = zeros, cb_raw_owner_catalog_sha256 = zeros,
     cb_owner_grant_receipt_sha256 = zeros, cb_capability_id = kiosk_capability_id,
     cb_capability_evidence_revision = 1, cb_grant_revision = 1, cb_route_id = kiosk_v2_encrypted_route_id,
     cb_device_id = ''hmd-1'', cb_identity_revision = 1, cb_kiosk_owner_epoch = ''owner-epoch-0001'',
     cb_catalog_revision = zeros, cb_snapshot_digest = zeros, cb_issued_at_ms = 900, cb_expires_at_ms = 8000,
     cb_scopes = [kiosk_catalog_summary_scope]\<rparr>"

definition music_admission :: "i64 \<Rightarrow> catalog_admission" where
  "music_admission observed_at_ms = \<lparr>cad_binding = music_binding, cad_snapshot = music_catalog observed_at_ms\<rparr>"

lemma music_fields [simp]:
  "cad_binding (music_admission t) = music_binding" "cad_snapshot (music_admission t) = music_catalog t"
  "cb_replay_identity music_binding = zeros" "kc_device_id (music_catalog t) = ''hmd-1''"
  "kc_observed_at_ms (music_catalog t) = t" "kc_fresh_until_ms (music_catalog t) = 5000"
  "kc_identity_revision (music_catalog t) = 1" "kc_entries (music_catalog t) = [music_entry]"
  "kc_complete (music_catalog t)" "kc_permission_limited_count (music_catalog t) = 0"
  "cg_catalog_summary (kc_grants (music_catalog t))"
  by (simp_all add: music_admission_def music_catalog_def music_binding_def)

lemma music_normal:
  "normalize_catalog_text uni ''music'' = ''music''" "normalize_catalog_text uni ''Music'' = ''music''"
  by (simp_all add: normalize_catalog_text_def split_whitespace_def split_white.simps is_blank.simps push_char_def
      to_lowercase_def ascii_lower_def is_ascii_def is_ascii_uppercase_def char_of_def bit_Suc_0_iff)

lemmas music_bytes = is_token_byte_def is_identifier_byte_def is_ascii_alphanumeric_def is_ascii_digit_def
  is_ascii_lowercase_def is_ascii_uppercase_def

lemma music_entry_valid: "valid (validate_catalog_entry uni music_entry)"
  by (simp add: validate_catalog_entry_def music_entry_def is_blank.simps is_bounded_identifier_def music_bytes
      catalog_tags_invalid_def max_tags_per_entry_def music_normal unique_count_def)

lemma music_catalog_valid:
  assumes "900 \<le> t" "t \<le> 5000"
  shows "valid (validate_catalog uni (music_catalog t))"
proof -
  have "catalog_head_failures (music_catalog t) = []"
    using assms by (simp add: catalog_head_failures_def music_catalog_def is_blank.simps is_bounded_identifier_def
        music_bytes catalog_freshness_invalid_def i64_saturating_sub_def i64_min_def i64_max_def)
  moreover have "\<not> catalog_authority_invalid (music_catalog t) summary_authority"
    using assms by (simp add: catalog_authority_invalid_def music_catalog_def summary_authority_def expected_scopes_def
        kiosk_v2_encrypted_route_id_def is_blank.simps i64_saturating_sub_def i64_min_def i64_max_def)
  then have "catalog_grant_failures (music_catalog t) = []"
    by (simp add: catalog_grant_failures_def) (simp add: music_catalog_def music_entry_def)
  moreover have "\<not> catalog_counts_invalid 1 (kc_total_candidate_count (music_catalog t))
      (kc_permission_limited_count (music_catalog t)) True (kc_truncated (music_catalog t))"
    by (simp add: catalog_counts_invalid_def music_catalog_def max_catalog_entries_def)
  ultimately show ?thesis
    using music_entry_valid [of uni] by (simp add: validate_catalog_def)
qed

lemma music_binding_valid: "catalog_binding_failures music_binding = []"
  by (simp add: catalog_binding_failures_def music_binding_def valid_token_def music_bytes is_blank.simps
      kiosk_capability_id_def kiosk_v2_encrypted_route_id_def i64_saturating_sub_def i64_min_def i64_max_def
      max_evidence_window_ms_def)

lemma music_admission_valid:
  assumes "900 \<le> t" "t \<le> 5000"
  shows "valid (validate_catalog_admission uni (music_admission t))"
proof -
  have "\<not> catalog_binding_mismatch music_binding (music_catalog t)"
    using assms by (simp add: catalog_binding_mismatch_def music_binding_def music_catalog_def from_authority_def
        summary_authority_def)
  then show ?thesis
    using music_catalog_valid [OF assms, of uni] music_binding_valid
    by (simp add: validate_catalog_admission_def validate_catalog_binding_def)
qed

lemma music_admissible:
  "catalog_admissible uni hub1 (music_admission 950) ''profile-1'' 1200 sample_record"
proof -
  have "capability_get (do_capabilities (rec_observation sample_record)) kiosk_capability_id = Some sample_capability"
    by (simp add: sample_record_def sample_observation_def capability_get_def)
  moreover have "\<not> catalog_capability_mismatch music_binding 1200 sample_capability"
    by (simp add: catalog_capability_mismatch_def sample_capability_def kiosk_owner_def is_ready_def music_binding_def)
  moreover have "di_identity_revision (do_identity (rec_observation sample_record)) = 1"
    by (simp add: sample_record_def sample_observation_def sample_identity_def)
  moreover have "\<not> catalog_admission_expired (music_admission 950) 1200"
    by (simp add: catalog_admission_expired_def) (simp add: music_binding_def)
  ultimately show ?thesis
    using music_admission_valid [of 950 uni]
    by (simp add: catalog_admissible_def valid_token_def music_bytes bt_contains_key_def max_kiosk_catalogs_def
        max_kiosk_catalog_replay_identities_def)
qed

definition music_hub :: hub_state where
  "music_hub = admitted_hub hub1 (music_admission 950) ''profile-1'' 1200 sample_record"

lemma music_admitted: "accept_profiled_kiosk_catalog uni hub1 (music_admission 950) ''profile-1'' 1200 = (music_hub, Inr ())"
  unfolding music_hub_def by (rule profiled_accepts [OF music_admissible])

lemma music_reachable: "reachable no_bytes no_bytes no_sha no_codec default_policy music_hub"
proof -
  have "run_command no_bytes no_bytes no_sha no_codec hub1 (Admit_Catalog (music_admission 950) ''profile-1'' 1200) = music_hub"
    using music_admitted [of "hcd_lowercase no_codec"] by simp
  then show ?thesis
    using reachable.step [OF hub1_reachable, of "Admit_Catalog (music_admission 950) ''profile-1'' 1200"]
    by (simp add: admissible_def)
qed

section \<open>Owner catalogs\<close>

text \<open>Two catalogs of one owner that differ in the label of their only entry.\<close>

definition owner_music :: "string \<Rightarrow> owner_catalog" where
  "owner_music label = \<lparr>
     ocs_schema = kiosk_owner_catalog_snapshot_schema, ocs_owner_epoch = ''owner-epoch-0001'',
     ocs_catalog_revision = zeros, ocs_snapshot_digest = zeros, ocs_observed_at_ms = 950,
     ocs_fresh_until_ms = 5000, ocs_tag_revision = zeros, ocs_installed_observation_revision = zeros,
     ocs_search_semantics = kiosk_catalog_search_semantics, ocs_complete = True, ocs_truncated = False,
     ocs_total_candidate_count = 1, ocs_permission_limited_count = 0,
     ocs_entries = [\<lparr>oe_catalog_entry_id = zeros, oe_entry_digest = zeros, oe_app_identity = zeros,
       oe_disambiguator = ''1'', oe_label = label, oe_package = None, oe_tags = [''music''], oe_installed = True,
       oe_launchable = True, oe_source = ''launcher'', oe_signing_evidence = None\<rparr>]\<rparr>"

lemma owner_music_valid:
  assumes "label \<in> {''Music'', ''Bank''}"
  shows "valid (validate_owner_catalog zeros_sha uni (owner_music label))"
proof -
  have "\<not> is_blank label \<and> length label \<le> 160" using assms by (auto simp: is_blank.simps)
  then have "owner_entry_failures uni (owner_music label) 0 (hd (ocs_entries (owner_music label))) = []"
    by (simp add: owner_entry_failures_def owner_music_def owner_entry_invalid_def is_blank.simps
        max_tags_per_entry_def music_normal unique_count_def)
  moreover have "owner_head_failures (owner_music label) = []"
    by (simp add: owner_head_failures_def owner_music_def music_bytes catalog_freshness_invalid_def
        i64_saturating_sub_def i64_min_def i64_max_def catalog_counts_invalid_def max_catalog_entries_def)
  moreover have "ocs_entries (owner_music label) = [hd (ocs_entries (owner_music label))]"
    "ocs_catalog_revision (owner_music label) = zeros" "ocs_snapshot_digest (owner_music label) = zeros"
    by (simp_all add: owner_music_def)
  moreover from calculation have "for_each (owner_entry_failures uni (owner_music label)) (ocs_entries (owner_music label)) = []"
    by (metis One_nat_def for_each_Nil length_Cons less_Suc0 list.size(3) nth_Cons_0)
  ultimately show ?thesis
    by (simp add: validate_owner_catalog_def owner_catalog_revision_def owner_snapshot_digest_def
        kiosk_owner_digest_def zeros_sha_def)
qed

end
