(* ===== verification/Catalog_Claims.thy ===== *)
theory Catalog_Claims
  imports Catalog_Samples
begin

text \<open>
  Properties of the Kiosk application catalogs over reachable Hubs, with their witnesses on the sample
  catalogs of \<^theory_text>\<open>Catalog_Samples\<close>.
\<close>

section \<open>Admission\<close>

text \<open>Admission of a catalog is atomic. Either it is accepted, and then it passed its contract, was
  inside its freshness window, had a replay identity never consumed before, named an enrolled device at its
  current identity revision with ready Kiosk capability evidence of the bound revision, agreed with the stored
  association, was observed later than the kept catalog and fitted every capacity, and the Hub differs only by
  the kept catalog, the consumed replay identity, the association and the result revision; or the Hub is
  unchanged and one of these conditions fails.\<close>

theorem catalog_admission_outcome:
  "case accept_profiled_kiosk_catalog uni h a profile_id t of
     (h', Inr _) \<Rightarrow> \<exists>device. catalog_admissible uni h a profile_id t device \<and>
        h' = admitted_hub h a profile_id t device
   | (h', Inl _) \<Rightarrow> h' = h \<and> (\<nexists>device. catalog_admissible uni h a profile_id t device)"
proof (cases rule: profiled_cases [of uni h a profile_id t])
  case (rejected e)
  moreover have "\<nexists>device. catalog_admissible uni h a profile_id t device"
    using rejected profiled_accepts by (metis Inl_Inr_False prod.inject)
  ultimately show ?thesis by simp
next
  case (accepted device)
  then show ?thesis by auto
qed

lemma kept_catalog_record:
  assumes "reachable ob jb sha enc policy h" and "bt_get (fh_kiosk_catalogs h) d = Some r"
  shows "catalog_record_ok (hcd_lowercase enc) (fh_catalog_replays h) (fh_catalog_associations h) d r"
  using hub_okD(11) [OF reachable_ok [OF assms(1)]] assms(2) by (simp add: catalogs_ok_def)

lemma summary_only:
  assumes "valid (validate_catalog uni s)"
  shows "\<not> cg_catalog_detail (kc_grants s)" "\<not> cg_app_launch (kc_grants s)"
    "\<forall>e\<in>set (kc_entries s). ce_package_name e = None"
proof -
  have "catalog_grant_failures s = []" using assms by (simp add: validate_catalog_def)
  then show "\<not> cg_catalog_detail (kc_grants s)" "\<not> cg_app_launch (kc_grants s)"
    "\<forall>e\<in>set (kc_entries s). ce_package_name e = None"
    by (auto simp: catalog_grant_failures_def list_ex_iff)
qed

text \<open>C24: A reachable Hub keeps a catalog only under authority. Every catalog it holds is filed under the
  device it names and comes with the binding it was admitted by: the exact encrypted route, a response to the
  exact request, the summary scope alone, the digests, device, identity revision, owner epoch and catalog
  revision of the catalog, and an operator authority receipt that repeats the route, receipt digest, grant
  revision, scopes, issue and expiry; it was observed no earlier than the grant was issued and
  received no later than grant and catalog expire; its replay identity is
  consumed, the device's association names its identity revision and owner epoch, and it discloses no package
  name.\<close>

theorem kept_catalog_under_authority:
  assumes "reachable ob jb sha enc policy h" and "bt_get (fh_kiosk_catalogs h) d = Some r"
  shows "\<exists>b auth profile. ckr_production_admission r = Some b \<and> kc_operator_authority (ckr_snapshot r) = Some auth \<and>
     kc_device_id (ckr_snapshot r) = d \<and> cb_device_id b = d \<and> ca_device_id auth = d \<and>
     cb_route_id b = kiosk_v2_encrypted_route_id \<and> ca_route_id auth = kiosk_v2_encrypted_route_id \<and>
     cb_response_request_id b = cb_request_id b \<and>
     cb_scopes b = [kiosk_catalog_summary_scope] \<and> ca_scopes auth = [kiosk_catalog_summary_scope] \<and>
     cb_identity_revision b = kc_identity_revision (ckr_snapshot r) \<and>
     cb_kiosk_owner_epoch b = kc_kiosk_owner_epoch (ckr_snapshot r) \<and>
     cb_catalog_revision b = kc_catalog_revision (ckr_snapshot r) \<and>
     cb_owner_grant_receipt_sha256 b = ca_receipt_sha256 auth \<and> cb_grant_revision b = ca_grant_revision auth \<and>
     cb_snapshot_digest b = kc_snapshot_digest (ckr_snapshot r) \<and>
     cb_raw_owner_catalog_sha256 b = kc_raw_owner_sha256 (ckr_snapshot r) \<and>
     cb_issued_at_ms b = ca_issued_at_ms auth \<and> cb_expires_at_ms b = ca_expires_at_ms auth \<and>
     cb_issued_at_ms b \<le> kc_observed_at_ms (ckr_snapshot r) \<and>
     kc_observed_at_ms (ckr_snapshot r) \<le> ckr_received_at_ms r \<and>
     ckr_received_at_ms r \<le> cb_expires_at_ms b \<and> ckr_received_at_ms r \<le> kc_fresh_until_ms (ckr_snapshot r) \<and>
     bt_contains_key (fh_catalog_replays h) (cb_replay_identity b) \<and>
     kiosk_catalog_association h d =
       Some (kc_identity_revision (ckr_snapshot r), profile, kc_kiosk_owner_epoch (ckr_snapshot r)) \<and>
     (\<forall>e\<in>set (kc_entries (ckr_snapshot r)). ce_package_name e = None)"
proof -
  let ?s = "ckr_snapshot r"
  note kept = kept_catalog_record [OF assms, unfolded catalog_record_ok_def]
  then obtain b profile where b: "ckr_production_admission r = Some b" "kc_device_id ?s = d"
    "valid (validate_catalog_admission (hcd_lowercase enc) \<lparr>cad_binding = b, cad_snapshot = ?s\<rparr>)"
    "\<not> catalog_admission_expired \<lparr>cad_binding = b, cad_snapshot = ?s\<rparr> (ckr_received_at_ms r)"
    "bt_contains_key (fh_catalog_replays h) (cb_replay_identity b)"
    "bt_get (fh_catalog_associations h) d = Some (kc_identity_revision ?s, profile, kc_kiosk_owner_epoch ?s)"
    by blast
  note parts = admission_valid_parts [OF b(3), simplified]
  have binding: "cb_route_id b = kiosk_v2_encrypted_route_id" "cb_response_request_id b = cb_request_id b"
    "cb_scopes b = [kiosk_catalog_summary_scope]"
    using parts(2) by (simp_all add: catalog_binding_failures_def)
  note match = parts(3) [unfolded catalog_binding_mismatch_def de_Morgan_disj not_not]
  obtain auth where auth: "kc_operator_authority ?s = Some auth"
  proof (cases "kc_operator_authority ?s")
    case None
    with match binding(3) show ?thesis by (simp add: from_authority_def)
  qed
  have "\<not> catalog_authority_invalid ?s auth"
    using parts(1) auth by (simp add: validate_catalog_def catalog_grant_failures_def)
  then have "ca_device_id auth = d" using b(2) by (simp add: catalog_authority_invalid_def)
  moreover have "cb_issued_at_ms b \<le> kc_observed_at_ms ?s" using match by simp
  moreover have "kc_observed_at_ms ?s \<le> ckr_received_at_ms r" "ckr_received_at_ms r \<le> cb_expires_at_ms b"
    "ckr_received_at_ms r \<le> kc_fresh_until_ms ?s"
    using b(4) by (simp_all add: catalog_admission_expired_def)
  ultimately show ?thesis
    using b(1,2,5,6) auth binding match summary_only(3) [OF parts(1)]
    by (intro exI [of _ b] exI [of _ auth] exI [of _ profile])
      (simp add: from_authority_def kiosk_catalog_association_def)
qed

definition music_record :: catalog_record where
  "music_record = admitted_catalog (music_admission 950) 1200 sample_record"

lemma music_kept [simp]: "bt_get (fh_kiosk_catalogs music_hub) ''hmd-1'' = Some music_record"
  by (simp add: music_hub_def admitted_hub_def music_record_def)

lemma kept_catalog_under_authority_witness:
  "\<exists>b. ckr_production_admission music_record = Some b \<and> cb_route_id b = kiosk_v2_encrypted_route_id \<and>
     bt_contains_key (fh_catalog_replays music_hub) (cb_replay_identity b)"
  using kept_catalog_under_authority [OF music_reachable music_kept] by blast

text \<open>C18: A catalog response is used once and the owner association is pinned. After an admission that a
  reachable Hub accepted and any further commands, every admission with the same replay identity is refused with the Hub unchanged,
  whatever its contents, profile and time; the device keeps the identity revision, profile and owner epoch it
  was associated with; the admission put the admitted catalog and its binding in place, and the catalog the
  Hub holds afterwards is that record itself or a strictly later observation, received no earlier, under the
  same association.\<close>

theorem catalog_response_used_once:
  assumes "reachable ob jb sha enc policy h"
    and "snd (accept_profiled_kiosk_catalog (hcd_lowercase enc) h a profile_id t) = Inr u"
    and "h' = run_commands ob jb sha enc h (Admit_Catalog a profile_id t # cs)"
    and "cb_replay_identity (cad_binding a') = cb_replay_identity (cad_binding a)"
  shows "(\<exists>e. accept_profiled_kiosk_catalog (hcd_lowercase enc) h' a' profile_id' t' = (h', Inl e)) \<and>
     kiosk_catalog_association h' (kc_device_id (cad_snapshot a)) = Some (catalog_association a profile_id) \<and>
     (\<exists>r0 r. bt_get (fh_kiosk_catalogs (fst (accept_profiled_kiosk_catalog (hcd_lowercase enc) h a profile_id t)))
          (kc_device_id (cad_snapshot a)) = Some r0 \<and>
        ckr_snapshot r0 = cad_snapshot a \<and> ckr_received_at_ms r0 = t \<and>
        ckr_production_admission r0 = Some (cad_binding a) \<and>
        bt_get (fh_kiosk_catalogs h') (kc_device_id (cad_snapshot a)) = Some r \<and>
        (r = r0 \<or> t \<le> ckr_received_at_ms r \<and>
           kc_observed_at_ms (cad_snapshot a) < kc_observed_at_ms (ckr_snapshot r)) \<and>
        kc_identity_revision (ckr_snapshot r) = kc_identity_revision (cad_snapshot a) \<and>
        kc_kiosk_owner_epoch (ckr_snapshot r) = kc_kiosk_owner_epoch (cad_snapshot a))"
proof -
  let ?uni = "hcd_lowercase enc" and ?d = "kc_device_id (cad_snapshot a)"
  let ?h = "run_command ob jb sha enc h (Admit_Catalog a profile_id t)"
  obtain device where device: "catalog_admissible ?uni h a profile_id t device"
    using assms(2) profiled_accepts_iff by blast
  have after: "?h = admitted_hub h a profile_id t device" by (simp add: profiled_accepts [OF device])
  have "stores_ok ?h" using run_command_stores [OF hub_okD(8) [OF reachable_ok [OF assms(1)]]] by blast
  then have onward: "catalogs_onward ?h h'"
    unfolding assms(3) run_commands_Cons by (rule run_commands_catalogs)
  note onward
  moreover have "bt_contains_key (fh_catalog_replays ?h) (cb_replay_identity (cad_binding a))"
    "bt_get (fh_catalog_associations ?h) ?d = Some (catalog_association a profile_id)"
    "bt_get (fh_kiosk_catalogs ?h) ?d = Some (admitted_catalog a t device)"
    unfolding after by (simp_all add: admitted_hub_def)
  ultimately have replay: "bt_contains_key (fh_catalog_replays h') (cb_replay_identity (cad_binding a))"
    and association: "bt_get (fh_catalog_associations h') ?d = Some (catalog_association a profile_id)"
    and kept: "\<exists>r. bt_get (fh_kiosk_catalogs h') ?d = Some r \<and> (r = admitted_catalog a t device \<or>
      t \<le> ckr_received_at_ms r \<and> kc_observed_at_ms (cad_snapshot a) < kc_observed_at_ms (ckr_snapshot r))"
    unfolding catalogs_onward_def by (blast, blast, fastforce simp: admitted_catalog_def)
  from kept obtain r where r: "bt_get (fh_kiosk_catalogs h') ?d = Some r" "r = admitted_catalog a t device \<or>
    t \<le> ckr_received_at_ms r \<and> kc_observed_at_ms (cad_snapshot a) < kc_observed_at_ms (ckr_snapshot r)" by blast
  have first: "bt_get (fh_kiosk_catalogs (fst (accept_profiled_kiosk_catalog ?uni h a profile_id t))) ?d =
      Some (admitted_catalog a t device)"
    using after by (simp add: admitted_hub_def)
  have "catalogs_associated h'"
    using onward associated_ok [OF hub_okD(11) [OF reachable_ok [OF assms(1)]]]
      admitted_onward [OF device] after by (simp add: catalogs_onward_def)
  with r(1) association have same: "kc_identity_revision (ckr_snapshot r) = kc_identity_revision (cad_snapshot a)"
    "kc_kiosk_owner_epoch (ckr_snapshot r) = kc_kiosk_owner_epoch (cad_snapshot a)"
    unfolding catalogs_associated_def by (fastforce simp: catalog_association_def)+
  have "\<nexists>device. catalog_admissible ?uni h' a' profile_id' t' device"
    using replay assms(4) by (simp add: catalog_admissible_def Let_def)
  then have "\<exists>e. accept_profiled_kiosk_catalog ?uni h' a' profile_id' t' = (h', Inl e)"
    using profiled_rejects by blast
  with r association same first show ?thesis
    by (auto simp: kiosk_catalog_association_def admitted_catalog_def)
qed

lemma catalog_response_used_once_witness:
  "\<exists>e. accept_profiled_kiosk_catalog (hcd_lowercase no_codec) (run_commands no_bytes no_bytes no_sha no_codec hub1
       [Admit_Catalog (music_admission 950) ''profile-1'' 1200, Call_Package (Expire_Packages 1300)])
     (music_admission 960) ''profile-2'' 1400 =
   (run_commands no_bytes no_bytes no_sha no_codec hub1
       [Admit_Catalog (music_admission 950) ''profile-1'' 1200, Call_Package (Expire_Packages 1300)], Inl e)"
  using catalog_response_used_once [OF hub1_reachable, of "music_admission 950" "''profile-1''" 1200 "()" _
      "[Call_Package (Expire_Packages 1300)]" "music_admission 960" "''profile-2''" 1400]
  by (simp add: music_admitted)

section \<open>Search\<close>

text \<open>C23: The application search is equivalent to its specification. In a reachable Hub a search that
  answers reports, up to the limit and ordered by label and identity, exactly one match for every application
  identity that occurs among the matching entries of the searchable catalogs, with the label of the first such
  entry, the number of such entries, the first package name and the sorted matching tags; a catalog is
  searchable when its device still has the identity revision and source epoch it was admitted with and it is
  unrestricted, complete and fresh; and the coverage puts every registered device into exactly one class.\<close>

theorem kiosk_app_search_correct:
  assumes "reachable ob jb sha enc policy h" and "kiosk_app_search (hcd_lowercase enc) h request now = Inr res"
    and "found = search_hits (hcd_lowercase enc) h (asx_normalized_query res) now"
  shows "asx_normalized_query res = normalize_catalog_text (hcd_lowercase enc) (asr_query request) \<and>
     asx_matches res = take (asr_limit request) (sort_by (compare_matches (hcd_lowercase enc))
       (map (match_of (asx_normalized_query res) found) (sort (remdups (map ce_app_identity found))))) \<and>
     asx_coverage res = searched_coverage h now (entries (fh_devices h)) \<and>
     cov_current (asx_coverage res) + cov_stale (asx_coverage res) + cov_absent (asx_coverage res) +
       cov_incomplete (asx_coverage res) + cov_permission_limited (asx_coverage res) = bt_len (fh_devices h)"
  using search_result [OF hub_okD(11) [OF reachable_ok [OF assms(1)]] assms(2)] coverage_total [of h now]
  by (simp add: assms(3) bt_len_def)

definition music_search :: app_search_request where
  "music_search = \<lparr>asr_schema = ''rusty.fleet.kiosk_app_search_request.v1'', asr_query = '' MUSIC '', asr_limit = 5\<rparr>"

lemma music_current: "kept_catalog music_hub (''hmd-1'', sample_record) = Some (music_catalog 950)"
  by (simp add: kept_catalog_def music_record_def admitted_catalog_def catalog_current_def)

lemma music_hits: "search_hits uni music_hub ''music'' 2000 = [music_entry]"
proof -
  have "entries (fh_devices music_hub) = [(''hmd-1'', sample_record)]"
    by (simp add: music_hub_def admitted_hub_def)
  moreover have "catalog_entry_matches uni music_entry ''music''"
    by (simp add: catalog_entry_matches_def music_entry_def str_contains.simps)
  ultimately show ?thesis
    by (simp add: search_hits_def device_hits_def music_current searchable_def readable_def)
qed

lemma music_searched: "\<exists>res. kiosk_app_search uni music_hub music_search now = Inr res"
proof -
  have "valid (validate_app_search_request music_search)"
    by (simp add: validate_app_search_request_def music_search_def is_blank.simps max_search_matches_def)
  then show ?thesis by (simp add: kiosk_app_search_def Let_def valid_iff_Inr)
qed

lemma kiosk_app_search_correct_witness:
  "\<exists>res m. kiosk_app_search (hcd_lowercase no_codec) music_hub music_search 2000 = Inr res \<and> asx_matches res = [m] \<and>
     am_app_identity m = ''app-1'' \<and> am_current_device_count m = 1 \<and> am_matched_tags m = [''music'']"
proof -
  obtain res where res: "kiosk_app_search (hcd_lowercase no_codec) music_hub music_search 2000 = Inr res"
    using music_searched by blast
  have query: "normalize_catalog_text (hcd_lowercase no_codec) '' MUSIC '' = ''music''"
    by (simp add: normalize_catalog_text_def split_whitespace_def split_white.simps is_blank.simps push_char_def
      to_lowercase_def ascii_lower_def is_ascii_def is_ascii_uppercase_def char_of_def bit_Suc_0_iff)
  have "asx_matches res = [match_of ''music'' [music_entry] ''app-1'']"
    using kiosk_app_search_correct [OF music_reachable res refl]
    by (simp add: music_search_def query music_hits music_entry_def)
  with res show ?thesis
    by (simp add: match_of_def found_tags_def music_entry_def str_contains.simps)
qed

section \<open>Digests\<close>

text \<open>C40: What the snapshot digest of an owner's catalog binds. Two owner catalogs that pass the contract with
  the same snapshot digest agree on the owner epoch, revision, observation and expiry times, completeness,
  counts and the list of entry digests, unless the digest function collides on their two inputs; and nothing
  else of an entry enters the revision or the snapshot digest, so changed labels, packages or tags under
  unchanged entry digests leave both as they are.\<close>

theorem snapshot_digest_binds:
  assumes "valid (validate_owner_catalog sha uni s)" and "valid (validate_owner_catalog sha uni s')"
    and "ocs_snapshot_digest s = ocs_snapshot_digest s'"
  shows "(ocs_owner_epoch s = ocs_owner_epoch s' \<and> ocs_catalog_revision s = ocs_catalog_revision s' \<and>
      ocs_observed_at_ms s = ocs_observed_at_ms s' \<and> ocs_fresh_until_ms s = ocs_fresh_until_ms s' \<and>
      ocs_complete s = ocs_complete s' \<and> ocs_total_candidate_count s = ocs_total_candidate_count s' \<and>
      ocs_permission_limited_count s = ocs_permission_limited_count s' \<and>
      map oe_entry_digest (ocs_entries s) = map oe_entry_digest (ocs_entries s') \<or>
      owner_digest_input (snapshot_digest_parts s) \<noteq> owner_digest_input (snapshot_digest_parts s') \<and>
      sha (owner_digest_input (snapshot_digest_parts s)) = sha (owner_digest_input (snapshot_digest_parts s'))) \<and>
     (\<forall>es. map oe_entry_digest es = map oe_entry_digest (ocs_entries s) \<longrightarrow>
        owner_snapshot_digest sha (s\<lparr>ocs_entries := es\<rparr>) = ocs_snapshot_digest s \<and>
        owner_catalog_revision sha (s\<lparr>ocs_entries := es\<rparr>) = owner_catalog_revision sha s)"
proof (intro conjI)
  show "(ocs_owner_epoch s = ocs_owner_epoch s' \<and> ocs_catalog_revision s = ocs_catalog_revision s' \<and>
      ocs_observed_at_ms s = ocs_observed_at_ms s' \<and> ocs_fresh_until_ms s = ocs_fresh_until_ms s' \<and>
      ocs_complete s = ocs_complete s' \<and> ocs_total_candidate_count s = ocs_total_candidate_count s' \<and>
      ocs_permission_limited_count s = ocs_permission_limited_count s' \<and>
      map oe_entry_digest (ocs_entries s) = map oe_entry_digest (ocs_entries s')) \<or>
      owner_digest_input (snapshot_digest_parts s) \<noteq> owner_digest_input (snapshot_digest_parts s') \<and>
      sha (owner_digest_input (snapshot_digest_parts s)) = sha (owner_digest_input (snapshot_digest_parts s'))"
  proof (cases "snapshot_digest_parts s = snapshot_digest_parts s'")
    case True
    from snapshot_parts_inj [OF this assms(1,2)] show ?thesis by blast
  next
    case False
    then have "owner_digest_input (snapshot_digest_parts s) \<noteq> owner_digest_input (snapshot_digest_parts s')"
      using owner_digest_input_inj by blast
    then show ?thesis
      using assms(3) valid_owner_catalog(1) [OF assms(1)] valid_owner_catalog(1) [OF assms(2)]
      by (simp add: owner_snapshot_digest_def kiosk_owner_digest_def)
  qed
  show "\<forall>es. map oe_entry_digest es = map oe_entry_digest (ocs_entries s) \<longrightarrow>
      owner_snapshot_digest sha (s\<lparr>ocs_entries := es\<rparr>) = ocs_snapshot_digest s \<and>
      owner_catalog_revision sha (s\<lparr>ocs_entries := es\<rparr>) = owner_catalog_revision sha s"
    unfolding valid_owner_catalog(1) [OF assms(1)]
    by (simp add: owner_snapshot_digest_def owner_catalog_revision_def kiosk_owner_digest_def
        snapshot_digest_parts_def catalog_revision_parts_def)
qed

lemma owner_music_parts: "snapshot_digest_parts (owner_music label) = snapshot_digest_parts (owner_music ''Music'')"
  by (simp add: snapshot_digest_parts_def owner_music_def)

lemma snapshot_digest_binds_witness:
  "map oe_entry_digest (ocs_entries (owner_music ''Music'')) = map oe_entry_digest (ocs_entries (owner_music ''Bank'')) \<and>
   owner_snapshot_digest zeros_sha ((owner_music ''Music'')\<lparr>ocs_entries := ocs_entries (owner_music ''Bank'')\<rparr>) =
     ocs_snapshot_digest (owner_music ''Music'')"
proof -
  have "ocs_snapshot_digest (owner_music ''Music'') = ocs_snapshot_digest (owner_music ''Bank'')"
    by (simp add: owner_music_def)
  from snapshot_digest_binds [OF owner_music_valid owner_music_valid this] show ?thesis
    using owner_music_parts [of "''Bank''"] by simp
qed

end
