(* ===== verification/Kiosk_Signing.thy ===== *)
theory Kiosk_Signing
  imports Catalog_Contract
begin

unbundle bit_operations_syntax

text \<open>
  crates/fleet-kiosk-adapter/src/lib.rs, the signed direct link of the Kiosk owner: endpoints, request IDs,
  HMAC-SHA-256 of the canonical texts of requests and responses, and the check of a signed response before
  its bytes are parsed. SHA-256 and the hexadecimal encoding are crates outside the repository: the record
  \<open>kiosk_crypto\<close> holds them.
\<close>

record kiosk_crypto =
  kx_digest :: "string \<Rightarrow> string"
  kx_hex :: "string \<Rightarrow> string"

text \<open>What the two crates document: digests of 32 bytes, two lower-case hexadecimal digits for each byte.\<close>

definition crypto_ok :: "kiosk_crypto \<Rightarrow> bool" where
  "crypto_ok x \<longleftrightarrow> (\<forall>s. length (kx_digest x s) = 32) \<and> inj (kx_hex x) \<and>
     (\<forall>s. length (kx_hex x s) = 2 * length s \<and> list_all is_lower_hex (kx_hex x s))"

section \<open>Errors\<close>

datatype adapter_error =
  InvalidLimits
| InvalidRequest
| InvalidEndpoint
| InvalidTransportRequestId
| DuplicateTransportRequestId
| DeadlineExceeded
| PollLimitExceeded
| Transport_Failed string
| RedirectRejected
| ResponseTooLarge
| MissingResponseHeader string
| ResponseRequestIdMismatch
| ResponseDigestMismatch
| ResponseSignatureMismatch
| UnexpectedHttpStatus u16
| InvalidJson
| OwnerContractMismatch
| OwnerInvokeMismatch
| OwnerResultMismatch
| OwnerRejected
| EffectiveReceiptInvalid

definition header_request_id :: string where
  "header_request_id = ''x-rusty-request-id''"

definition header_timestamp :: string where
  "header_timestamp = ''x-rusty-timestamp''"

definition header_content_sha256 :: string where
  "header_content_sha256 = ''x-rusty-content-sha256''"

definition header_signature :: string where
  "header_signature = ''x-rusty-signature''"

section \<open>Identifiers and endpoints\<close>

definition is_link_request_id :: "string \<Rightarrow> bool" where
  "is_link_request_id value \<longleftrightarrow> 8 \<le> length value \<and> length value \<le> 64 \<and>
     list_all (\<lambda>c. is_ascii_alphanumeric c \<or> c \<in> {CHR ''_'', CHR ''-''}) value"

definition is_ascii_control :: "char \<Rightarrow> bool" where
  "is_ascii_control c \<longleftrightarrow> of_char c < (32 :: nat) \<or> of_char c = (127 :: nat)"

definition is_ascii_whitespace :: "char \<Rightarrow> bool" where
  "is_ascii_whitespace c \<longleftrightarrow> of_char c \<in> {9, 10, 12, 13, 32 :: nat}"

definition ends_with :: "string \<Rightarrow> string \<Rightarrow> bool" where
  "ends_with s p \<longleftrightarrow> starts_with (rev s) (rev p)"

definition is_host_byte :: "char \<Rightarrow> bool" where
  "is_host_byte c \<longleftrightarrow> is_ascii_alphanumeric c \<or> c \<in> {CHR ''.'', CHR ''-'', CHR '':'', CHR ''['', CHR '']''}"

definition validate_kiosk_endpoint :: "string \<Rightarrow> adapter_error + unit" where
  "validate_kiosk_endpoint endpoint =
    (if length endpoint > 255 \<or> \<not> starts_with endpoint ''http://'' \<or>
        list_ex (\<lambda>c. is_ascii_whitespace c \<or> is_ascii_control c) endpoint
     then Inl InvalidEndpoint
     else
      (let authority = drop (length ''http://'') endpoint;
           expected_port = '':'' @ show_nat (oc_port show_controls_v1)
       in if authority = [] \<or>
             list_ex (\<lambda>c. c \<in> {CHR ''/'', CHR ''?'', CHR ''#'', CHR ''@''}) authority \<or>
             \<not> ends_with authority expected_port
          then Inl InvalidEndpoint
          else
           (let host = take (length authority - length expected_port) authority
            in if host = [] \<or> \<not> list_all is_host_byte host then Inl InvalidEndpoint else Inr ())))"

section \<open>HMAC\<close>

definition xor_byte :: "char \<Rightarrow> char \<Rightarrow> char" where
  "xor_byte a b = char_of ((of_char a :: nat) XOR of_char b)"

definition hmac_block_bytes :: usize where
  "hmac_block_bytes = 64"

definition normalized_key :: "kiosk_crypto \<Rightarrow> string \<Rightarrow> string" where
  "normalized_key x key =
    (let k = (if length key > hmac_block_bytes then kx_digest x key else key)
     in k @ replicate (hmac_block_bytes - length k) (char_of (0 :: nat)))"

definition hmac_sha256 :: "kiosk_crypto \<Rightarrow> string \<Rightarrow> string \<Rightarrow> string" where
  "hmac_sha256 x key message =
    (let inner_key = map (xor_byte (char_of (0x36 :: nat))) (normalized_key x key);
         outer_key = map (xor_byte (char_of (0x5c :: nat))) (normalized_key x key)
     in kx_digest x (outer_key @ kx_digest x (inner_key @ message)))"

definition constant_time_equal :: "string \<Rightarrow> string \<Rightarrow> bool" where
  "constant_time_equal left right \<longleftrightarrow> length left = length right \<and>
     foldl (\<lambda>difference (l, r). difference OR ((of_char l :: nat) XOR of_char r)) (0 :: nat) (zip left right) = 0"

definition sha256_hex :: "kiosk_crypto \<Rightarrow> string \<Rightarrow> string" where
  "sha256_hex x bytes = kx_hex x (kx_digest x bytes)"

definition ascii_upper :: "char \<Rightarrow> char" where
  "ascii_upper c = (if is_ascii_lowercase c then char_of (of_char c - 32 :: nat) else c)"

definition newline :: char where
  "newline = char_of (10 :: nat)"

definition carriage_return :: char where
  "carriage_return = char_of (13 :: nat)"

definition request_canonical :: "string \<Rightarrow> string \<Rightarrow> string \<Rightarrow> i64 \<Rightarrow> string \<Rightarrow> string" where
  "request_canonical method request_target request_id timestamp_seconds content_sha256 =
     map ascii_upper method @ [newline] @ request_target @ [newline] @ request_id @ [newline] @
     show_i64 timestamp_seconds @ [newline] @ content_sha256"

definition sign_request ::
  "kiosk_crypto \<Rightarrow> string \<Rightarrow> string \<Rightarrow> string \<Rightarrow> string \<Rightarrow> i64 \<Rightarrow> string \<Rightarrow> adapter_error + string" where
  "sign_request x pairing_key method request_target request_id timestamp_seconds content_sha256 =
    (if pairing_key = [] \<or> \<not> is_link_request_id request_id \<or> \<not> is_lower_hex_sha256 content_sha256 \<or>
        request_target = [] \<or> list_ex (\<lambda>c. c \<in> {carriage_return, newline}) request_target
     then Inl InvalidRequest
     else Inr (kx_hex x (hmac_sha256 x pairing_key
       (request_canonical method request_target request_id timestamp_seconds content_sha256))))"

definition response_canonical :: "string \<Rightarrow> u16 \<Rightarrow> string \<Rightarrow> string" where
  "response_canonical request_id status content_sha256 =
     ''RESPONSE'' @ [newline] @ request_id @ [newline] @ show_nat status @ [newline] @ content_sha256"

definition sign_response :: "kiosk_crypto \<Rightarrow> string \<Rightarrow> string \<Rightarrow> u16 \<Rightarrow> string \<Rightarrow> adapter_error + string" where
  "sign_response x pairing_key request_id status content_sha256 =
    (if pairing_key = [] \<or> \<not> is_link_request_id request_id \<or> \<not> is_lower_hex_sha256 content_sha256
     then Inl InvalidRequest
     else Inr (kx_hex x (hmac_sha256 x pairing_key (response_canonical request_id status content_sha256))))"

section \<open>Messages\<close>

datatype http_method = Http_Get | Http_Post

fun http_method_text :: "http_method \<Rightarrow> string" where
  "http_method_text Http_Get = ''GET''"
| "http_method_text Http_Post = ''POST''"

datatype redirect_policy = Redirect_Deny

record http_request =
  hq_method :: http_method
  hq_url :: string
  hq_request_target :: string
  hq_headers :: "(string, string) btree_map"
  hq_body :: string
  hq_redirect_policy :: redirect_policy
  hq_maximum_response_bytes :: usize
  hq_timeout_ms :: u64
  hq_deadline_at_ms :: i64

record http_response =
  hr_status :: u16
  hr_headers :: "(string, string) btree_map"
  hr_body :: string
  hr_redirected :: bool
  hr_received_at_ms :: i64

definition header :: "(string, string) btree_map \<Rightarrow> string \<Rightarrow> string option" where
  "header headers expected =
     map_option snd (find (\<lambda>(name, value). eq_ignore_ascii_case name expected) (entries headers))"

definition require_header ::
  "http_response \<Rightarrow> string \<Rightarrow> (string \<Rightarrow> adapter_error + 'a) \<Rightarrow> adapter_error + 'a" where
  "require_header r name f = (case header (hr_headers r) name of
     None \<Rightarrow> Inl (MissingResponseHeader name)
   | Some value \<Rightarrow> f value)"

definition verify_signed_response ::
  "kiosk_crypto \<Rightarrow> string \<Rightarrow> string \<Rightarrow> http_response \<Rightarrow> adapter_error + unit" where
  "verify_signed_response x pairing_key expected_request_id r =
     require_header r header_request_id (\<lambda>response_request_id.
     require_header r header_content_sha256 (\<lambda>declared_sha.
     require_header r header_signature (\<lambda>signature.
       if response_request_id \<noteq> expected_request_id then Inl ResponseRequestIdMismatch
       else
        (let actual_sha = sha256_hex x (hr_body r)
         in if \<not> constant_time_equal declared_sha actual_sha then Inl ResponseDigestMismatch
            else case sign_response x pairing_key expected_request_id (hr_status r) actual_sha of
              Inl e \<Rightarrow> Inl e
            | Inr expected_signature \<Rightarrow>
                if \<not> constant_time_equal signature expected_signature then Inl ResponseSignatureMismatch
                else Inr ()))))"

section \<open>Comparison and verification\<close>

lemma xor_nat_zero: "(a :: nat) XOR b = 0 \<longleftrightarrow> a = b"
proof
  assume "a XOR b = 0"
  then have "bit a n = bit b n" for n
    by (metis bit_0_eq bit_xor_iff bot_apply bot_bool_def)
  then show "a = b" by (simp add: bit_eq_iff)
qed simp

lemma compared_bytes:
  "length left = length right \<Longrightarrow>
   foldl (\<lambda>difference (l, r). difference OR ((of_char l :: nat) XOR of_char r)) d (zip left right) = 0 \<longleftrightarrow>
   d = 0 \<and> left = right"
proof (induction left right arbitrary: d rule: list_induct2)
  case (Cons l ls r rs)
  have "d OR ((of_char l :: nat) XOR of_char r) = 0 \<longleftrightarrow> d = 0 \<and> l = r"
    by (simp add: or_eq_0_iff xor_nat_zero)
  with Cons show ?case by auto
qed simp

lemma constant_time_equal_iff [simp]: "constant_time_equal left right \<longleftrightarrow> left = right"
  using compared_bytes [of left right 0] by (auto simp: constant_time_equal_def)

lemma sha256_hex_lower:
  assumes "crypto_ok x"
  shows "is_lower_hex_sha256 (sha256_hex x s)" "is_lower_hex_sha256 (kx_hex x (hmac_sha256 x key message))"
  using assms by (simp_all add: crypto_ok_def is_lower_hex_sha256_def sha256_hex_def hmac_sha256_def Let_def)

lemma verified_iff:
  assumes "crypto_ok x"
  shows "verify_signed_response x key request_id r = Inr () \<longleftrightarrow>
     header (hr_headers r) header_request_id = Some request_id \<and>
     header (hr_headers r) header_content_sha256 = Some (sha256_hex x (hr_body r)) \<and>
     header (hr_headers r) header_signature =
       Some (kx_hex x (hmac_sha256 x key (response_canonical request_id (hr_status r) (sha256_hex x (hr_body r))))) \<and>
     key \<noteq> [] \<and> is_link_request_id request_id"
  using sha256_hex_lower(1) [OF assms, of "hr_body r"]
  by (auto simp: verify_signed_response_def require_header_def sign_response_def Let_def split: option.splits)

end
