(* ===== verification/Kiosk_Adapter.thy ===== *)
theory Kiosk_Adapter
  imports Kiosk_Signing
begin

text \<open>
  crates/fleet-kiosk-adapter/src/lib.rs: the bounded runs of the adapter over a Kiosk owner. The transport and
  the source of transport request IDs are traits the caller implements: the record \<open>kiosk_link\<close> holds their
  functions over a state of the caller's. A run takes that state and returns its result with the new one. The
  JSON of the owner is read and written by \<^verbatim>\<open>serde_json\<close>: the record \<open>owner_json\<close> holds what it yields.
\<close>

section \<open>Runs\<close>

type_synonym ('s, 'a) run = "'s \<Rightarrow> (adapter_error + 'a) \<times> 's"

definition done_with :: "'a \<Rightarrow> ('s, 'a) run" where
  "done_with a s = (Inr a, s)"

definition fail_with :: "adapter_error \<Rightarrow> ('s, 'a) run" where
  "fail_with e s = (Inl e, s)"

definition run_then :: "('s, 'a) run \<Rightarrow> ('a \<Rightarrow> ('s, 'b) run) \<Rightarrow> ('s, 'b) run" where
  "run_then m f s = (case m s of (Inl e, s') \<Rightarrow> (Inl e, s') | (Inr a, s') \<Rightarrow> f a s')"

definition run_result :: "adapter_error + 'a \<Rightarrow> ('s, 'a) run" where
  "run_result r s = (r, s)"

definition run_option :: "adapter_error \<Rightarrow> 'a option \<Rightarrow> ('s, 'a) run" where
  "run_option e r = (case r of None \<Rightarrow> fail_with e | Some a \<Rightarrow> done_with a)"

definition run_unless :: "bool \<Rightarrow> adapter_error \<Rightarrow> ('s, 'a) run \<Rightarrow> ('s, 'a) run" where
  "run_unless bad e m = (if bad then fail_with e else m)"

record 's kiosk_link =
  kl_now_ms :: "'s \<Rightarrow> i64 \<times> 's"
  kl_wait_until_ms :: "i64 \<Rightarrow> i64 \<Rightarrow> 's \<Rightarrow> (string + unit) \<times> 's"
  kl_send :: "http_request \<Rightarrow> 's \<Rightarrow> (string + http_response) \<times> 's"
  kl_next_transport_request_id :: "'s \<Rightarrow> (string + string) \<times> 's"

definition read_clock :: "'s kiosk_link \<Rightarrow> ('s, i64) run" where
  "read_clock link s = map_prod Inr id (kl_now_ms link s)"

definition transported :: "('s \<Rightarrow> (string + 'a) \<times> 's) \<Rightarrow> ('s, 'a) run" where
  "transported f s = map_prod (map_sum Transport_Failed id) id (f s)"

section \<open>Limits and requests\<close>

definition max_owner_json_bytes :: usize where
  "max_owner_json_bytes = 512 * 1024"

definition max_invoke_body_bytes :: usize where
  "max_invoke_body_bytes = 1024"

record adapter_limits =
  al_maximum_polls :: u16
  al_poll_interval_ms :: u64
  al_operation_deadline_ms :: u64
  al_request_timeout_ms :: u64
  al_maximum_response_bytes :: usize

definition default_adapter_limits :: adapter_limits where
  "default_adapter_limits = \<lparr>al_maximum_polls = 20, al_poll_interval_ms = 250,
     al_operation_deadline_ms = 30000, al_request_timeout_ms = 5000,
     al_maximum_response_bytes = max_owner_json_bytes\<rparr>"

definition validate_adapter_limits :: "adapter_limits \<Rightarrow> adapter_error + unit" where
  "validate_adapter_limits l =
    (if al_maximum_polls l = 0 \<or> al_maximum_polls l > 64 \<or>
        al_poll_interval_ms l = 0 \<or> al_poll_interval_ms l > 5000 \<or>
        al_operation_deadline_ms l = 0 \<or>
        al_operation_deadline_ms l > oc_max_clock_skew_seconds show_controls_v1 * 1000 \<or>
        al_request_timeout_ms l = 0 \<or> al_request_timeout_ms l > al_operation_deadline_ms l \<or>
        al_maximum_response_bytes l = 0 \<or> al_maximum_response_bytes l > max_owner_json_bytes
     then Inl InvalidLimits else Inr ())"

record show_controls_request =
  cq_receipt_id :: string
  cq_operation_id :: string
  cq_device_id :: string
  cq_identity_revision :: u64
  cq_endpoint :: string
  cq_owner_action_request_id :: string

definition validate_show_controls_request :: "show_controls_request \<Rightarrow> adapter_error + unit" where
  "validate_show_controls_request r =
    (if is_blank (cq_receipt_id r) \<or> is_blank (cq_operation_id r) \<or> is_blank (cq_device_id r) \<or>
        cq_identity_revision r = 0 \<or> \<not> is_link_request_id (cq_owner_action_request_id r)
     then Inl InvalidRequest
     else validate_kiosk_endpoint (cq_endpoint r))"

record raw_owner_receipt =
  ro_raw_receipt_sha256 :: string
  ro_raw_receipt :: string
  ro_host_received_at_ms :: i64
  ro_result_transport_request_id :: string

record show_controls_outcome =
  co_effective_receipt :: kiosk_receipt
  co_owner_receipt :: raw_owner_receipt
  co_status_transport_request_id :: string
  co_invoke_transport_request_id :: string
  co_poll_count :: u16

record show_controls_dispatch =
  cd_deadline_at_ms :: i64
  cd_status_transport_request_id :: string
  cd_invoke_transport_request_id :: string

record poll_outcome =
  cp_effective_receipt :: kiosk_receipt
  cp_owner_receipt :: raw_owner_receipt
  cp_poll_count :: u16

section \<open>What the owner answers\<close>

record owner_status =
  os_schema :: string
  os_accepted :: bool

record owner_invoke_response =
  oi_request_id :: string
  oi_accepted :: bool
  oi_completed :: bool

record owner_result =
  ow_schema :: "string option"
  ow_request_id :: string
  ow_command :: "string option"
  ow_accepted :: bool
  ow_completed :: bool
  ow_recorded_at_ms :: "i64 option"
  ow_controls_open :: "bool option"

record owner_json =
  oj_status :: "string \<Rightarrow> owner_status option"
  oj_invoke :: "string \<Rightarrow> string \<Rightarrow> string option"
  oj_invoke_response :: "string \<Rightarrow> owner_invoke_response option"
  oj_result :: "string \<Rightarrow> owner_result option"

section \<open>One signed exchange\<close>

definition next_transport_id :: "'s kiosk_link \<Rightarrow> string \<Rightarrow> string set \<Rightarrow> ('s, string \<times> string set) run" where
  "next_transport_id link owner_action_request_id used =
     run_then (transported (kl_next_transport_request_id link)) (\<lambda>request_id.
     run_unless (\<not> is_link_request_id request_id) InvalidTransportRequestId (
     run_unless (request_id = owner_action_request_id \<or> request_id \<in> used) DuplicateTransportRequestId (
     done_with (request_id, insert request_id used))))"

definition signed_headers :: "string \<Rightarrow> i64 \<Rightarrow> string \<Rightarrow> string \<Rightarrow> (string, string) btree_map" where
  "signed_headers transport_request_id timestamp_seconds content_sha256 signature =
     bt_insert header_signature signature (bt_insert header_content_sha256 content_sha256
       (bt_insert header_timestamp (show_i64 timestamp_seconds)
         (bt_insert header_request_id transport_request_id bt_empty)))"

definition send_signed ::
  "kiosk_crypto \<Rightarrow> adapter_limits \<Rightarrow> 's kiosk_link \<Rightarrow> string \<Rightarrow> string \<Rightarrow> http_method \<Rightarrow> string \<Rightarrow> string \<Rightarrow>
   string \<Rightarrow> i64 \<Rightarrow> ('s, http_response) run" where
  "send_signed x limits link pairing_key endpoint method request_target body transport_request_id deadline_at_ms =
     run_then (read_clock link) (\<lambda>sent_at_ms.
     run_unless (sent_at_ms > deadline_at_ms) DeadlineExceeded (
       let timestamp_seconds = sent_at_ms div 1000; content_sha256 = sha256_hex x body in
     run_then (run_result (sign_request x pairing_key (http_method_text method) request_target
       transport_request_id timestamp_seconds content_sha256)) (\<lambda>signature.
     run_then (transported (kl_send link \<lparr>
         hq_method = method, hq_url = endpoint @ request_target, hq_request_target = request_target,
         hq_headers = signed_headers transport_request_id timestamp_seconds content_sha256 signature,
         hq_body = body, hq_redirect_policy = Redirect_Deny,
         hq_maximum_response_bytes = al_maximum_response_bytes limits,
         hq_timeout_ms = al_request_timeout_ms limits, hq_deadline_at_ms = deadline_at_ms\<rparr>)) (\<lambda>response.
     run_unless (hr_redirected response \<or> 300 \<le> hr_status response \<and> hr_status response < 400)
       RedirectRejected (
     run_unless (hr_received_at_ms response > deadline_at_ms) DeadlineExceeded (
     run_unless (length (hr_body response) > al_maximum_response_bytes limits) ResponseTooLarge (
     run_then (run_result (verify_signed_response x pairing_key transport_request_id response)) (\<lambda>_.
     run_unless (hr_status response \<noteq> 200) (UnexpectedHttpStatus (hr_status response)) (
     done_with response)))))))))"

section \<open>Dispatch\<close>

definition deadline_of :: "adapter_limits \<Rightarrow> i64 \<Rightarrow> adapter_error + i64" where
  "deadline_of limits started_at_ms =
    (if int (al_operation_deadline_ms limits) > i64_max then Inl InvalidLimits
     else if started_at_ms + int (al_operation_deadline_ms limits) > i64_max then Inl InvalidLimits
     else Inr (started_at_ms + int (al_operation_deadline_ms limits)))"

definition status_target :: string where
  "status_target = ''/v1/status''"

definition invoke_target :: string where
  "invoke_target = ''/v1/kiosk/invoke''"

definition result_target :: string where
  "result_target = ''/v1/kiosk/result''"

text \<open>
  Status and invocation, the first half of both \<^verbatim>\<open>execute_show_controls\<close> and \<^verbatim>\<open>invoke_show_controls\<close>: the
  dispatch with the transport request IDs used.
\<close>

definition dispatch_show_controls ::
  "kiosk_crypto \<Rightarrow> owner_json \<Rightarrow> adapter_limits \<Rightarrow> 's kiosk_link \<Rightarrow> show_controls_request \<Rightarrow> string \<Rightarrow>
   ('s, show_controls_dispatch \<times> string set) run" where
  "dispatch_show_controls x json limits link request pairing_key =
     run_then (read_clock link) (\<lambda>started_at_ms.
     run_then (run_result (deadline_of limits started_at_ms)) (\<lambda>deadline_at_ms.
     run_then (next_transport_id link (cq_owner_action_request_id request) {}) (\<lambda>(status_id, used).
     run_then (send_signed x limits link pairing_key (cq_endpoint request) Http_Get status_target []
       status_id deadline_at_ms) (\<lambda>status_response.
     run_then (run_option InvalidJson (oj_status json (hr_body status_response))) (\<lambda>status.
     run_unless (\<not> os_accepted status \<or> os_schema status \<noteq> oc_owner_contract_schema show_controls_v1)
       OwnerContractMismatch (
     run_then (next_transport_id link (cq_owner_action_request_id request) used) (\<lambda>(invoke_id, used).
     run_then (run_option InvalidJson
       (oj_invoke json (cq_owner_action_request_id request) kiosk_show_controls_command)) (\<lambda>invoke_body.
     run_unless (length invoke_body > max_invoke_body_bytes) InvalidRequest (
     run_then (send_signed x limits link pairing_key (cq_endpoint request) Http_Post invoke_target invoke_body
       invoke_id deadline_at_ms) (\<lambda>invoke_response.
     run_then (run_option InvalidJson (oj_invoke_response json (hr_body invoke_response))) (\<lambda>invoke.
     run_unless (\<not> oi_accepted invoke \<or> oi_completed invoke \<or>
         oi_request_id invoke \<noteq> cq_owner_action_request_id request) OwnerInvokeMismatch (
     done_with (\<lparr>cd_deadline_at_ms = deadline_at_ms, cd_status_transport_request_id = status_id,
       cd_invoke_transport_request_id = invoke_id\<rparr>, used)))))))))))))"

definition invoke_show_controls ::
  "kiosk_crypto \<Rightarrow> owner_json \<Rightarrow> adapter_limits \<Rightarrow> 's kiosk_link \<Rightarrow> show_controls_request \<Rightarrow> string \<Rightarrow>
   ('s, show_controls_dispatch) run" where
  "invoke_show_controls x json limits link request pairing_key =
     run_then (run_result (validate_show_controls_request request)) (\<lambda>_.
     run_unless (pairing_key = []) InvalidRequest (
     run_then (dispatch_show_controls x json limits link request pairing_key) (\<lambda>(dispatch, _).
     done_with dispatch)))"

section \<open>Polling\<close>

definition result_request_target :: "show_controls_request \<Rightarrow> string" where
  "result_request_target request =
     result_target @ ''?request_id='' @ cq_owner_action_request_id request"

text \<open>The receipt of a completed result, or why the result is not one.\<close>

definition projected_receipt ::
  "kiosk_crypto \<Rightarrow> show_controls_request \<Rightarrow> string \<Rightarrow> http_response \<Rightarrow> owner_result \<Rightarrow>
   adapter_error + kiosk_receipt" where
  "projected_receipt x request result_transport_id response owner_result =
    (if ow_schema owner_result \<noteq> Some kiosk_cli_result_schema \<or>
        ow_command owner_result \<noteq> Some kiosk_show_controls_command \<or>
        ow_recorded_at_ms owner_result = None \<or> ow_controls_open owner_result \<noteq> Some True
     then Inl OwnerResultMismatch
     else case header (hr_headers response) header_signature of
       None \<Rightarrow> Inl (MissingResponseHeader header_signature)
     | Some response_signature \<Rightarrow>
        (let receipt = \<lparr>
           kr_schema = ''rusty.fleet.kiosk_effective_receipt.v1'',
           kr_receipt_id = cq_receipt_id request,
           kr_operation_id = cq_operation_id request,
           kr_device_id = cq_device_id request,
           kr_identity_revision = cq_identity_revision request,
           kr_owner_contract = show_controls_v1,
           kr_owner_action_request_id = cq_owner_action_request_id request,
           kr_owner_result_transport_request_id = result_transport_id,
           kr_owner_command = kiosk_show_controls_command,
           kr_response_status = hr_status response,
           kr_response_content_sha256 = sha256_hex x (hr_body response),
           kr_response_signature = response_signature,
           kr_response_auth_verified = True,
           kr_owner_result_schema = kiosk_cli_result_schema,
           kr_owner_accepted = ow_accepted owner_result,
           kr_owner_completed = ow_completed owner_result,
           kr_owner_recorded_at_ms = (case ow_recorded_at_ms owner_result of None \<Rightarrow> 0 | Some t \<Rightarrow> t),
           kr_controls_open = True,
           kr_wrapped_at_ms = hr_received_at_ms response\<rparr>
         in if valid (validate_kiosk_receipt receipt) then Inr receipt else Inl EffectiveReceiptInvalid))"

definition next_poll_at :: "adapter_limits \<Rightarrow> i64 \<Rightarrow> adapter_error + i64" where
  "next_poll_at limits received_at_ms =
    (if int (al_poll_interval_ms limits) > i64_max then Inl InvalidLimits
     else if received_at_ms + int (al_poll_interval_ms limits) > i64_max then Inl InvalidLimits
     else Inr (received_at_ms + int (al_poll_interval_ms limits)))"

text \<open>The loop over the polls, of which \<open>n\<close> are left.\<close>

fun poll_results ::
  "kiosk_crypto \<Rightarrow> owner_json \<Rightarrow> adapter_limits \<Rightarrow> 's kiosk_link \<Rightarrow> show_controls_request \<Rightarrow> string \<Rightarrow> i64 \<Rightarrow>
   nat \<Rightarrow> string set \<Rightarrow> i64 \<Rightarrow> ('s, poll_outcome) run" where
  "poll_results x json limits link request pairing_key deadline_at_ms 0 used not_before_ms =
     fail_with PollLimitExceeded"
| "poll_results x json limits link request pairing_key deadline_at_ms (Suc n) used not_before_ms =
     run_then (read_clock link) (\<lambda>now_ms.
     run_unless (now_ms > deadline_at_ms) DeadlineExceeded (
     run_then (transported (kl_wait_until_ms link not_before_ms deadline_at_ms)) (\<lambda>_.
     run_then (read_clock link) (\<lambda>now_ms.
     run_unless (now_ms > deadline_at_ms) DeadlineExceeded (
     run_then (next_transport_id link (cq_owner_action_request_id request) used) (\<lambda>(result_id, used).
     run_then (send_signed x limits link pairing_key (cq_endpoint request) Http_Get
       (result_request_target request) [] result_id deadline_at_ms) (\<lambda>response.
     run_then (run_option InvalidJson (oj_result json (hr_body response))) (\<lambda>owner_result.
     run_unless (ow_request_id owner_result \<noteq> cq_owner_action_request_id request) OwnerResultMismatch (
     run_unless (\<not> ow_accepted owner_result) OwnerRejected (
       if \<not> ow_completed owner_result
       then run_then (run_result (next_poll_at limits (hr_received_at_ms response))) (\<lambda>not_before_ms.
         poll_results x json limits link request pairing_key deadline_at_ms n used not_before_ms)
       else run_then (run_result (projected_receipt x request result_id response owner_result)) (\<lambda>receipt.
         done_with \<lparr>cp_effective_receipt = receipt,
           cp_owner_receipt = \<lparr>
             ro_raw_receipt_sha256 = kr_response_content_sha256 receipt,
             ro_raw_receipt = hr_body response,
             ro_host_received_at_ms = hr_received_at_ms response,
             ro_result_transport_request_id = result_id\<rparr>,
           cp_poll_count = al_maximum_polls limits - n\<rparr>)))))))))))"

definition poll_show_controls_result ::
  "kiosk_crypto \<Rightarrow> owner_json \<Rightarrow> adapter_limits \<Rightarrow> 's kiosk_link \<Rightarrow> show_controls_request \<Rightarrow> string \<Rightarrow> i64 \<Rightarrow>
   ('s, poll_outcome) run" where
  "poll_show_controls_result x json limits link request pairing_key deadline_at_ms =
     run_then (run_result (validate_show_controls_request request)) (\<lambda>_.
     run_unless (pairing_key = []) InvalidRequest (
     run_then (read_clock link) (\<lambda>now_ms.
     run_unless (deadline_at_ms \<le> now_ms \<or> deadline_at_ms - now_ms > i64_max \<or>
         deadline_at_ms - now_ms > int (oc_max_clock_skew_seconds show_controls_v1) * 1000) DeadlineExceeded (
     run_unless (\<not> valid (validate_owner_contract show_controls_v1)) OwnerContractMismatch (
     poll_results x json limits link request pairing_key deadline_at_ms (al_maximum_polls limits) {} now_ms)))))"

definition resume_show_controls_result ::
  "kiosk_crypto \<Rightarrow> owner_json \<Rightarrow> adapter_limits \<Rightarrow> 's kiosk_link \<Rightarrow> show_controls_request \<Rightarrow> string \<Rightarrow> i64 \<Rightarrow>
   ('s, poll_outcome) run" where
  "resume_show_controls_result = poll_show_controls_result"

definition execute_show_controls ::
  "kiosk_crypto \<Rightarrow> owner_json \<Rightarrow> adapter_limits \<Rightarrow> 's kiosk_link \<Rightarrow> show_controls_request \<Rightarrow> string \<Rightarrow>
   ('s, show_controls_outcome) run" where
  "execute_show_controls x json limits link request pairing_key =
     run_then (run_result (validate_show_controls_request request)) (\<lambda>_.
     run_unless (pairing_key = []) InvalidRequest (
     run_unless (\<not> valid (validate_owner_contract show_controls_v1)) OwnerContractMismatch (
     run_then (dispatch_show_controls x json limits link request pairing_key) (\<lambda>(dispatch, used).
     run_then (read_clock link) (\<lambda>now_ms.
     run_then (poll_results x json limits link request pairing_key (cd_deadline_at_ms dispatch)
       (al_maximum_polls limits) used now_ms) (\<lambda>outcome.
     done_with \<lparr>co_effective_receipt = cp_effective_receipt outcome,
       co_owner_receipt = cp_owner_receipt outcome,
       co_status_transport_request_id = cd_status_transport_request_id dispatch,
       co_invoke_transport_request_id = cd_invoke_transport_request_id dispatch,
       co_poll_count = cp_poll_count outcome\<rparr>))))))"

end
