(* ===== verification/Kiosk_Adapter_Facts.thy ===== *)
theory Kiosk_Adapter_Facts
  imports Kiosk_Adapter
begin

text \<open>
  The runs of the adapter: what a run that succeeds has seen, and, over a link that records every request it
  is given, what the adapter sends whether or not it succeeds.
\<close>

named_theorems run_simps "when a run succeeds"
named_theorems logs_intros "what a run sends, construct by construct"

section \<open>Runs that succeed\<close>

lemma run_then_Inr [run_simps]:
  "run_then m f s = (Inr b, s'') \<longleftrightarrow> (\<exists>a s'. m s = (Inr a, s') \<and> f a s' = (Inr b, s''))"
  by (auto simp: run_then_def split: prod.splits sum.splits)

lemma run_unless_Inr [run_simps]: "run_unless bad e m s = (Inr a, s') \<longleftrightarrow> \<not> bad \<and> m s = (Inr a, s')"
  by (simp add: run_unless_def fail_with_def)

lemma done_with_Inr [run_simps]: "done_with x s = (Inr a, s') \<longleftrightarrow> a = x \<and> s' = s"
  by (auto simp: done_with_def)

lemma fail_with_Inr [run_simps]: "fail_with e s = (Inr a, s') \<longleftrightarrow> False"
  by (simp add: fail_with_def)

lemma run_result_Inr [run_simps]: "run_result r s = (Inr a, s') \<longleftrightarrow> r = Inr a \<and> s' = s"
  by (auto simp: run_result_def)

lemma run_option_Inr [run_simps]: "run_option e r s = (Inr a, s') \<longleftrightarrow> r = Some a \<and> s' = s"
  by (cases r) (auto simp: run_option_def done_with_def fail_with_def)

lemma transported_Inr [run_simps]: "transported f s = (Inr a, s') \<longleftrightarrow> f s = (Inr a, s')"
  by (cases "f s"; cases "fst (f s)") (auto simp: transported_def)

text \<open>A request that is signed over its own method, target, transport ID, time and body.\<close>

definition link_id :: "http_request \<Rightarrow> string" where
  "link_id q = the (bt_get (hq_headers q) header_request_id)"

definition signed_request :: "kiosk_crypto \<Rightarrow> string \<Rightarrow> i64 \<Rightarrow> http_request \<Rightarrow> bool" where
  "signed_request x key deadline q \<longleftrightarrow> (\<exists>now signature.
     now \<le> deadline \<and> hq_deadline_at_ms q = deadline \<and> hq_redirect_policy q = Redirect_Deny \<and>
     sign_request x key (http_method_text (hq_method q)) (hq_request_target q) (link_id q) (now div 1000)
       (sha256_hex x (hq_body q)) = Inr signature \<and>
     hq_headers q = signed_headers (link_id q) (now div 1000) (sha256_hex x (hq_body q)) signature)"

lemma header_names_distinct:
  "header_request_id \<noteq> header_timestamp" "header_request_id \<noteq> header_content_sha256"
  "header_request_id \<noteq> header_signature"
  by (simp_all add: header_request_id_def header_timestamp_def header_content_sha256_def header_signature_def)

lemma signed_headers_id [simp]: "bt_get (signed_headers rid t c g) header_request_id = Some rid"
  by (simp add: signed_headers_def header_names_distinct)

lemma sent_signed:
  assumes "send_signed x limits link key endpoint method target body transport_id deadline s = (Inr r, s')"
  obtains q st where "kl_send link q st = (Inr r, s')" "hq_url q = endpoint @ target"
    "hq_method q = method" "signed_request x key deadline q" "link_id q = transport_id"
    "verify_signed_response x key transport_id r = Inr ()" "hr_status r = 200"
    "hr_received_at_ms r \<le> deadline" "\<not> hr_redirected r" "length (hr_body r) \<le> al_maximum_response_bytes limits"
proof -
  obtain now signature st where
    sent: "now \<le> deadline" "sign_request x key (http_method_text method) target transport_id (now div 1000)
        (sha256_hex x body) = Inr signature"
      "kl_send link \<lparr>hq_method = method, hq_url = endpoint @ target, hq_request_target = target,
         hq_headers = signed_headers transport_id (now div 1000) (sha256_hex x body) signature,
         hq_body = body, hq_redirect_policy = Redirect_Deny,
         hq_maximum_response_bytes = al_maximum_response_bytes limits,
         hq_timeout_ms = al_request_timeout_ms limits, hq_deadline_at_ms = deadline\<rparr> st = (Inr r, s')"
      (is "kl_send link ?q st = _")
    and r: "verify_signed_response x key transport_id r = Inr ()" "hr_status r = 200"
      "hr_received_at_ms r \<le> deadline" "\<not> hr_redirected r" "length (hr_body r) \<le> al_maximum_response_bytes limits"
    using assms unfolding send_signed_def Let_def run_simps
    by (elim exE conjE) (rule that; simp add: not_less)
  have "link_id ?q = transport_id" by (simp add: link_id_def)
  moreover have "signed_request x key deadline ?q"
    using sent(1,2) by (auto simp: signed_request_def link_id_def)
  ultimately show thesis using sent(3) r by (intro that [of ?q st]) simp_all
qed

text \<open>
  The exchange a receipt was projected from: the signed request \<open>q\<close> with a transport ID of its own and the
  response it got.
\<close>

definition proven_by ::
  "kiosk_crypto \<Rightarrow> owner_json \<Rightarrow> show_controls_request \<Rightarrow> string \<Rightarrow> i64 \<Rightarrow> kiosk_receipt \<Rightarrow>
   http_request \<Rightarrow> http_response \<Rightarrow> bool" where
  "proven_by x json request key deadline receipt q response \<longleftrightarrow>
     hq_method q = Http_Get \<and> hq_url q = cq_endpoint request @ result_request_target request \<and>
     signed_request x key deadline q \<and> link_id q = kr_owner_result_transport_request_id receipt \<and>
     verify_signed_response x key (link_id q) response = Inr () \<and>
     hr_status response = 200 \<and> \<not> hr_redirected response \<and> hr_received_at_ms response \<le> deadline \<and>
     (\<exists>result. oj_result json (hr_body response) = Some result \<and>
        ow_request_id result = cq_owner_action_request_id request \<and> ow_accepted result \<and> ow_completed result \<and>
        projected_receipt x request (kr_owner_result_transport_request_id receipt) response result = Inr receipt)"

lemma projected_fields:
  assumes "projected_receipt x request result_id response result = Inr receipt"
  shows "valid (validate_kiosk_receipt receipt)" "kr_receipt_id receipt = cq_receipt_id request"
    "kr_operation_id receipt = cq_operation_id request" "kr_device_id receipt = cq_device_id request"
    "kr_identity_revision receipt = cq_identity_revision request"
    "kr_owner_action_request_id receipt = cq_owner_action_request_id request"
    "kr_owner_result_transport_request_id receipt = result_id"
    "kr_response_content_sha256 receipt = sha256_hex x (hr_body response)"
    "kr_wrapped_at_ms receipt = hr_received_at_ms response"
    "ow_recorded_at_ms result = Some (kr_owner_recorded_at_ms receipt)" "ow_controls_open result = Some True"
    "header (hr_headers response) header_signature = Some (kr_response_signature receipt)"
  using assms by (auto simp: projected_receipt_def Let_def split: if_splits option.splits)

lemma next_id_Inr [run_simps]:
  "next_transport_id link action used s = (Inr (rid, used'), s') \<longleftrightarrow>
     kl_next_transport_request_id link s = (Inr rid, s') \<and> is_link_request_id rid \<and> rid \<noteq> action \<and> rid \<notin> used \<and>
     used' = insert rid used"
  by (auto simp: next_transport_id_def run_simps)

lemma polled_receipt:
  "poll_results x json limits link request key deadline n used not_before s = (Inr out, s') \<Longrightarrow>
   \<exists>q st response. kl_send link q st = (Inr response, s') \<and>
     proven_by x json request key deadline (cp_effective_receipt out) q response \<and>
     cp_owner_receipt out = \<lparr>ro_raw_receipt_sha256 = kr_response_content_sha256 (cp_effective_receipt out),
       ro_raw_receipt = hr_body response, ro_host_received_at_ms = hr_received_at_ms response,
       ro_result_transport_request_id = kr_owner_result_transport_request_id (cp_effective_receipt out)\<rparr> \<and>
     (n \<le> al_maximum_polls limits \<longrightarrow> al_maximum_polls limits - n < cp_poll_count out) \<and> cp_poll_count out \<le> al_maximum_polls limits"
proof (induction n arbitrary: used not_before s)
  case 0
  then show ?case by (simp add: fail_with_def)
next
  case (Suc n)
  obtain rid used' response result st1 st2 where
    sent: "send_signed x limits link key (cq_endpoint request) Http_Get (result_request_target request) [] rid
      deadline st1 = (Inr response, st2)" and
    result: "oj_result json (hr_body response) = Some result" "ow_request_id result = cq_owner_action_request_id request"
      "ow_accepted result" and
    rest: "(if \<not> ow_completed result
       then run_then (run_result (next_poll_at limits (hr_received_at_ms response))) (\<lambda>not_before_ms.
         poll_results x json limits link request key deadline n used' not_before_ms)
       else run_then (run_result (projected_receipt x request rid response result)) (\<lambda>receipt.
         done_with \<lparr>cp_effective_receipt = receipt,
           cp_owner_receipt = \<lparr>
             ro_raw_receipt_sha256 = kr_response_content_sha256 receipt,
             ro_raw_receipt = hr_body response,
             ro_host_received_at_ms = hr_received_at_ms response,
             ro_result_transport_request_id = rid\<rparr>,
           cp_poll_count = al_maximum_polls limits - n\<rparr>)) st2 = (Inr out, s')"
    using Suc.prems by (fastforce simp: run_simps)
  show ?case
  proof (cases "ow_completed result")
    case False
    with rest obtain not_before' st3 where
      "poll_results x json limits link request key deadline n used' not_before' st3 = (Inr out, s')"
      by (auto simp: run_simps)
    from Suc.IH [OF this] show ?thesis by fastforce
  next
    case True
    with rest obtain receipt where receipt: "projected_receipt x request rid response result = Inr receipt"
      "out = \<lparr>cp_effective_receipt = receipt, cp_owner_receipt = \<lparr>
         ro_raw_receipt_sha256 = kr_response_content_sha256 receipt, ro_raw_receipt = hr_body response,
         ro_host_received_at_ms = hr_received_at_ms response, ro_result_transport_request_id = rid\<rparr>,
       cp_poll_count = al_maximum_polls limits - n\<rparr>"
      by (auto simp: run_simps)
    obtain q st where q: "kl_send link q st = (Inr response, st2)"
      "hq_url q = cq_endpoint request @ result_request_target request" "hq_method q = Http_Get"
      "signed_request x key deadline q" "link_id q = rid" "verify_signed_response x key rid response = Inr ()" "hr_status response = 200"
      "hr_received_at_ms response \<le> deadline" "\<not> hr_redirected response"
      by (rule sent_signed [OF sent])
    have "proven_by x json request key deadline receipt q response"
      unfolding proven_by_def projected_fields(7) [OF receipt(1)] using q result True receipt(1) by simp
    moreover have "st2 = s'" using rest True by (auto simp: run_simps)
    ultimately show ?thesis using receipt q(1) projected_fields(7) [OF receipt(1)]
      by (intro exI [of _ q] exI [of _ st] exI [of _ response]) auto
  qed
qed

section \<open>What is sent\<close>

definition logged :: "'s kiosk_link \<Rightarrow> (http_request list \<times> 's) kiosk_link" where
  "logged link = \<lparr>
     kl_now_ms = (\<lambda>(log, s). map_prod id (Pair log) (kl_now_ms link s)),
     kl_wait_until_ms = (\<lambda>a b (log, s). map_prod id (Pair log) (kl_wait_until_ms link a b s)),
     kl_send = (\<lambda>q (log, s). map_prod id (Pair (log @ [q])) (kl_send link q s)),
     kl_next_transport_request_id = (\<lambda>(log, s). map_prod id (Pair log) (kl_next_transport_request_id link s))\<rparr>"

text \<open>A link that records every exchange, with the answer.\<close>

definition recorded :: "'s kiosk_link \<Rightarrow> ((http_request \<times> (string + http_response)) list \<times> 's) kiosk_link" where
  "recorded link = \<lparr>
     kl_now_ms = (\<lambda>(log, s). map_prod id (Pair log) (kl_now_ms link s)),
     kl_wait_until_ms = (\<lambda>a b (log, s). map_prod id (Pair log) (kl_wait_until_ms link a b s)),
     kl_send = (\<lambda>q (log, s). case kl_send link q s of (r, s') \<Rightarrow> (r, log @ [(q, r)], s')),
     kl_next_transport_request_id = (\<lambda>(log, s). map_prod id (Pair log) (kl_next_transport_request_id link s))\<rparr>"

text \<open>Recording changes nothing else.\<close>

definition mirrors :: "('s, 'a) run \<Rightarrow> ('l \<times> 's, 'a) run \<Rightarrow> bool" where
  "mirrors m m' \<longleftrightarrow> (\<forall>log s. \<exists>log'. m' (log, s) = (fst (m s), log', snd (m s)))"

named_theorems mirrors_intros "runs that are mirrored, construct by construct"

lemma mirrors_then [mirrors_intros]:
  assumes "mirrors m m'" and "\<And>a. mirrors (f a) (f' a)"
  shows "mirrors (run_then m f) (run_then m' f')"
proof (unfold mirrors_def, intro allI)
  fix log s
  obtain log1 where first: "m' (log, s) = (fst (m s), log1, snd (m s))"
    using assms(1) unfolding mirrors_def by blast
  obtain r s1 where m: "m s = (r, s1)" by fastforce
  show "\<exists>log'. run_then m' f' (log, s) = (fst (run_then m f s), log', snd (run_then m f s))"
  proof (cases r)
    case (Inl e)
    with first m show ?thesis by (simp add: run_then_def)
  next
    case (Inr a)
    obtain log2 where "f' a (log1, s1) = (fst (f a s1), log2, snd (f a s1))"
      using assms(2) unfolding mirrors_def by blast
    with first m Inr show ?thesis by (simp add: run_then_def)
  qed
qed

lemma mirrors_pure [mirrors_intros]:
  "mirrors (done_with a) (done_with a)" "mirrors (fail_with e) (fail_with e)"
  "mirrors (run_result r) (run_result r)" "mirrors (run_option e v) (run_option e v)"
  "mirrors m m' \<Longrightarrow> mirrors (run_unless bad e m) (run_unless bad e m')"
  by (cases v; simp add: mirrors_def done_with_def fail_with_def run_result_def run_option_def run_unless_def)+

lemma mirrors_if [mirrors_intros]: "mirrors m m' \<Longrightarrow> mirrors n n' \<Longrightarrow> mirrors (if b then m else n) (if b then m' else n')"
  by simp

lemma mirrors_split [mirrors_intros]:
  "(\<And>a b. mirrors (f a b) (f' a b)) \<Longrightarrow> mirrors (case p of (a, b) \<Rightarrow> f a b) (case p of (a, b) \<Rightarrow> f' a b)"
  by (cases p) simp

lemma mirrors_link [mirrors_intros]:
  "mirrors (read_clock link) (read_clock (recorded link))"
  "mirrors (transported (kl_wait_until_ms link a b)) (transported (kl_wait_until_ms (recorded link) a b))"
  "mirrors (transported (kl_send link q)) (transported (kl_send (recorded link) q))"
  "mirrors (transported (kl_next_transport_request_id link)) (transported (kl_next_transport_request_id (recorded link)))"
  by (auto simp: mirrors_def read_clock_def transported_def recorded_def map_prod_def split: prod.splits)

lemma mirrors_new_id [mirrors_intros]:
  "mirrors (next_transport_id link action used) (next_transport_id (recorded link) action used)"
  unfolding next_transport_id_def by (intro mirrors_intros)

lemma mirrors_send [mirrors_intros]:
  "mirrors (send_signed x limits link key endpoint method target body rid deadline)
     (send_signed x limits (recorded link) key endpoint method target body rid deadline)"
  unfolding send_signed_def Let_def by (intro mirrors_intros)

lemma mirrors_polls [mirrors_intros]:
  "mirrors (poll_results x json limits link request key deadline n used not_before)
     (poll_results x json limits (recorded link) request key deadline n used not_before)"
proof (induction n arbitrary: used not_before)
  case 0
  show ?case by (simp add: mirrors_pure)
next
  case (Suc n)
  show ?case unfolding poll_results.simps by (intro mirrors_intros Suc.IH)
qed

lemma mirrors_execute:
  "mirrors (execute_show_controls x json limits link request key)
     (execute_show_controls x json limits (recorded link) request key)"
  unfolding execute_show_controls_def dispatch_show_controls_def by (intro mirrors_intros)

definition logs ::
  "(http_request list \<times> 's, 'a) run \<Rightarrow> (adapter_error + 'a \<Rightarrow> http_request list \<Rightarrow> bool) \<Rightarrow> bool" where
  "logs m P \<longleftrightarrow> (\<forall>log s r log' s'. m (log, s) = (r, log', s') \<longrightarrow> (\<exists>new. log' = log @ new \<and> P r new))"

lemma logs_then:
  assumes "logs m Q" and "\<And>e new. Q (Inl e) new \<Longrightarrow> P (Inl e) new"
    and "\<And>a new. Q (Inr a) new \<Longrightarrow> logs (f a) (\<lambda>r new'. P r (new @ new'))"
  shows "logs (run_then m f) P"
proof (unfold logs_def, intro allI impI)
  fix log s r log' s'
  assume run: "run_then m f (log, s) = (r, log', s')"
  obtain q log1 s1 where m: "m (log, s) = (q, log1, s1)" by (metis prod_cases3)
  with assms(1) obtain new where new: "log1 = log @ new" "Q q new" unfolding logs_def by blast
  show "\<exists>new. log' = log @ new \<and> P r new"
  proof (cases q)
    case (Inl e)
    with run m new assms(2) show ?thesis by (auto simp: run_then_def)
  next
    case (Inr a)
    with run m have "f a (log1, s1) = (r, log', s')" by (simp add: run_then_def)
    with assms(3) [of a new] new Inr show ?thesis unfolding logs_def by fastforce
  qed
qed

lemma logs_weaken: "logs m Q \<Longrightarrow> (\<And>r new. Q r new \<Longrightarrow> P r new) \<Longrightarrow> logs m P"
  unfolding logs_def by blast

lemma logs_unless [logs_intros]: "(bad \<Longrightarrow> P (Inl e) []) \<Longrightarrow> (\<not> bad \<Longrightarrow> logs m P) \<Longrightarrow> logs (run_unless bad e m) P"
  by (simp add: logs_def run_unless_def fail_with_def)

lemma logs_done [logs_intros]: "P (Inr a) [] \<Longrightarrow> logs (done_with a) P"
  by (simp add: logs_def done_with_def)

lemma logs_fail [logs_intros]: "P (Inl e) [] \<Longrightarrow> logs (fail_with e) P"
  by (simp add: logs_def fail_with_def)

lemma logs_if [logs_intros]:
  "(b \<Longrightarrow> logs m P) \<Longrightarrow> (\<not> b \<Longrightarrow> logs m' P) \<Longrightarrow> logs (if b then m else m') P"
  by simp

text \<open>The constructs that send nothing.\<close>

lemma logs_result: "logs (run_result r) (\<lambda>r' new. r' = r \<and> new = [])"
  by (simp add: logs_def run_result_def)

lemma logs_option: "logs (run_option e r) (\<lambda>r' new. r' = (case r of None \<Rightarrow> Inl e | Some a \<Rightarrow> Inr a) \<and> new = [])"
  by (cases r) (simp_all add: logs_def run_option_def fail_with_def done_with_def)

lemma logs_clock: "logs (read_clock (logged link)) (\<lambda>r new. new = [])"
  by (auto simp: logs_def read_clock_def logged_def map_prod_def split: prod.splits)

lemma logs_wait: "logs (transported (kl_wait_until_ms (logged link) a b)) (\<lambda>r new. new = [])"
  by (auto simp: logs_def transported_def logged_def map_prod_def split: prod.splits)

lemma logs_new_id:
  "logs (next_transport_id (logged link) action used) (\<lambda>r new. new = [] \<and> (\<forall>rid used'. r = Inr (rid, used') \<longrightarrow>
     is_link_request_id rid \<and> rid \<noteq> action \<and> rid \<notin> used \<and> used' = insert rid used))"
proof -
  have "logs (transported (kl_next_transport_request_id (logged link))) (\<lambda>r new. new = [])"
    by (auto simp: logs_def transported_def logged_def map_prod_def split: prod.splits)
  then show ?thesis
    unfolding next_transport_id_def by (rule logs_then) (auto intro!: logs_intros)
qed

lemma logs_send:
  "logs (send_signed x limits (logged link) key endpoint method target body rid deadline) (\<lambda>r new.
     new = [] \<and> (\<exists>e. r = Inl e) \<or>
     (\<exists>q. new = [q] \<and> signed_request x key deadline q \<and> link_id q = rid \<and> hq_method q = method \<and>
        hq_url q = endpoint @ target \<and> hq_request_target q = target \<and> hq_body q = body))"
  (is "logs _ ?P")
proof -
  have send: "logs (transported (kl_send (logged link) q)) (\<lambda>r new. new = [q])" for q
    by (auto simp: logs_def transported_def logged_def map_prod_def split: prod.splits)
  have sent: "link_id q = rid \<and> signed_request x key deadline q"
    if "hq_headers q = signed_headers rid (now div 1000) (sha256_hex x body) signature" "hq_body q = body"
      "hq_method q = method" "hq_request_target q = target" "hq_deadline_at_ms q = deadline" "now \<le> deadline"
      "sign_request x key (http_method_text method) target rid (now div 1000) (sha256_hex x body) = Inr signature"
      "hq_redirect_policy q = Redirect_Deny" for q now signature
    using that by (auto simp: link_id_def signed_request_def)
  have clocked: "logs (read_clock (logged link)) (\<lambda>r new. new = [] \<and> (\<forall>e. r \<noteq> Inl e))"
    by (auto simp: logs_def read_clock_def logged_def map_prod_def split: prod.splits)
  show ?thesis
    unfolding send_signed_def Let_def
    by (intro logs_then [OF clocked] logs_then [OF logs_result] logs_then [OF send] logs_unless logs_done)
      (auto simp: sent intro: sent [THEN conjunct1] sent [THEN conjunct2])
qed

text \<open>Requests signed for one deadline, with transport IDs of their own.\<close>

definition sent_fresh ::
  "kiosk_crypto \<Rightarrow> string \<Rightarrow> i64 \<Rightarrow> show_controls_request \<Rightarrow> string set \<Rightarrow> http_request list \<Rightarrow> bool" where
  "sent_fresh x key deadline request used new \<longleftrightarrow> distinct (map link_id new) \<and>
     link_id ` set new \<inter> insert (cq_owner_action_request_id request) used = {} \<and>
     (\<forall>q\<in>set new. signed_request x key deadline q)"

lemma sent_fresh_Nil [simp]: "sent_fresh x key deadline request used []"
  by (simp add: sent_fresh_def)

lemma sent_fresh_Cons [simp]:
  "sent_fresh x key deadline request used (q # new) \<longleftrightarrow> signed_request x key deadline q \<and>
     link_id q \<noteq> cq_owner_action_request_id request \<and> link_id q \<notin> used \<and>
     sent_fresh x key deadline request (insert (link_id q) used) new"
  by (auto simp: sent_fresh_def)

lemma sent_fresh_append:
  "sent_fresh x key deadline request used new \<Longrightarrow>
   sent_fresh x key deadline request (used \<union> link_id ` set new) new' \<Longrightarrow>
   sent_fresh x key deadline request used (new @ new')"
  by (induction new arbitrary: used) (auto simp: insert_commute Un_insert_left [symmetric] simp del: Un_insert_left)

abbreviation poll_log ::
  "kiosk_crypto \<Rightarrow> string \<Rightarrow> i64 \<Rightarrow> show_controls_request \<Rightarrow> string set \<Rightarrow> nat \<Rightarrow> http_request list \<Rightarrow> bool" where
  "poll_log x key deadline request used n new \<equiv>
     length new \<le> n \<and> sent_fresh x key deadline request used new \<and> (\<forall>q\<in>set new. hq_method q = Http_Get)"

lemma logs_poll_results:
  "logs (poll_results x json limits (logged link) request key deadline n used not_before)
     (\<lambda>r new. poll_log x key deadline request used n new)"
proof (induction n arbitrary: used not_before)
  case 0
  show ?case by (simp add: logs_def fail_with_def)
next
  case (Suc n)
  show ?case
    by (auto intro!: logs_then [OF logs_clock] logs_then [OF logs_wait] logs_then [OF logs_new_id]
        logs_then [OF logs_send] logs_then [OF logs_option] logs_then [OF logs_result] logs_unless logs_if logs_done Suc.IH)
qed

lemma logs_dispatch:
  "logs (dispatch_show_controls x json limits (logged link) request key)
     (\<lambda>r new. \<exists>deadline. length new \<le> 2 \<and> sent_fresh x key deadline request {} new \<and>
        length (filter (\<lambda>q. hq_method q = Http_Post) new) \<le> 1 \<and>
        (\<forall>dispatch used. r = Inr (dispatch, used) \<longrightarrow>
           used = link_id ` set new \<and> deadline = cd_deadline_at_ms dispatch))"
  unfolding dispatch_show_controls_def
  by (auto intro!: logs_then [OF logs_clock] logs_then [OF logs_wait] logs_then [OF logs_new_id]
      logs_then [OF logs_send] logs_then [OF logs_option] logs_then [OF logs_result] logs_unless logs_done)

text \<open>At most \<open>n\<close> requests for one deadline, at most one of them a POST.\<close>

definition bounded_log :: "kiosk_crypto \<Rightarrow> string \<Rightarrow> show_controls_request \<Rightarrow> nat \<Rightarrow> http_request list \<Rightarrow> bool" where
  "bounded_log x key request n new \<longleftrightarrow> length new \<le> n \<and> (\<exists>deadline. sent_fresh x key deadline request {} new) \<and>
     length (filter (\<lambda>q. hq_method q = Http_Post) new) \<le> 1"

lemma bounded_log_Nil [simp]: "bounded_log x key request n []"
  by (simp add: bounded_log_def)

lemma logs_execute:
  "logs (execute_show_controls x json limits (logged link) request key)
     (\<lambda>r new. bounded_log x key request (2 + al_maximum_polls limits) new)"
proof -
  have polls: "logs (poll_results x json limits (logged link) request key (cd_deadline_at_ms dispatch)
      n (link_id ` set new) now) (\<lambda>r new'. bounded_log x key request (2 + n) (new @ new'))"
    if "length new \<le> 2" "sent_fresh x key (cd_deadline_at_ms dispatch) request {} new"
      "length (filter (\<lambda>q. hq_method q = Http_Post) new) \<le> 1" for dispatch n new now
    unfolding bounded_log_def
    by (rule logs_weaken [OF logs_poll_results])
      (use that in \<open>auto intro!: exI [of _ "cd_deadline_at_ms dispatch"] sent_fresh_append\<close>)
  have dispatched: "logs (dispatch_show_controls x json limits (logged link) request key)
     (\<lambda>r new. bounded_log x key request (2 + al_maximum_polls limits) new \<and>
        (\<forall>dispatch used. r = Inr (dispatch, used) \<longrightarrow> used = link_id ` set new \<and> length new \<le> 2 \<and>
           sent_fresh x key (cd_deadline_at_ms dispatch) request {} new \<and>
           length (filter (\<lambda>q. hq_method q = Http_Post) new) \<le> 1))"
    by (rule logs_weaken [OF logs_dispatch]) (auto simp: bounded_log_def)
  show ?thesis
    unfolding execute_show_controls_def
    by (auto intro!: logs_then [OF logs_clock] logs_then [OF dispatched] logs_then [OF logs_result]
         logs_unless logs_done logs_then [OF polls] split: prod.splits)
qed

lemma logs_resume:
  "logs (poll_show_controls_result x json limits (logged link) request key deadline)
     (\<lambda>r new. poll_log x key deadline request {} (al_maximum_polls limits) new)"
  unfolding poll_show_controls_result_def
  by (auto intro!: logs_then [OF logs_clock] logs_then [OF logs_result] logs_unless logs_poll_results)

end
