(* ===== verification/Kiosk_Link_Claims.thy ===== *)
theory Kiosk_Link_Claims
  imports Kiosk_Adapter_Facts Samples Catalog_Digest
begin

text \<open>
  Properties of the signed link to a Kiosk owner: what a verified answer establishes, what the adapter sends,
  and that what it returns is what the Hub applies.
\<close>

section \<open>Signatures\<close>

definition hmac_inner_text :: "kiosk_crypto \<Rightarrow> string \<Rightarrow> string \<Rightarrow> string" where
  "hmac_inner_text x key message = map (xor_byte (char_of (0x36 :: nat))) (normalized_key x key) @ message"

definition hmac_outer_text :: "kiosk_crypto \<Rightarrow> string \<Rightarrow> string \<Rightarrow> string" where
  "hmac_outer_text x key message = map (xor_byte (char_of (0x5c :: nat))) (normalized_key x key) @
     kx_digest x (hmac_inner_text x key message)"

definition collide :: "kiosk_crypto \<Rightarrow> string \<Rightarrow> string \<Rightarrow> bool" where
  "collide x a b \<longleftrightarrow> a \<noteq> b \<and> kx_digest x a = kx_digest x b"

text \<open>Two messages with one HMAC make one of two named pairs of texts collide.\<close>

definition forged :: "kiosk_crypto \<Rightarrow> string \<Rightarrow> string \<Rightarrow> string \<Rightarrow> bool" where
  "forged x key m n \<longleftrightarrow> collide x (hmac_inner_text x key m) (hmac_inner_text x key n) \<or>
     collide x (hmac_outer_text x key m) (hmac_outer_text x key n)"

lemma hmac_equal:
  assumes "hmac_sha256 x key m = hmac_sha256 x key n" and "m \<noteq> n"
  shows "forged x key m n"
proof -
  have "kx_digest x (hmac_outer_text x key m) = kx_digest x (hmac_outer_text x key n)"
    using assms(1) by (simp add: hmac_sha256_def hmac_outer_text_def hmac_inner_text_def Let_def)
  moreover have "hmac_inner_text x key m \<noteq> hmac_inner_text x key n"
    using assms(2) by (simp add: hmac_inner_text_def)
  ultimately show ?thesis by (auto simp: forged_def collide_def hmac_outer_text_def)
qed

lemma no_newline_digits: "newline \<notin> set (show_nat n)"
proof -
  have "\<not> is_ascii_digit newline" by (simp add: is_ascii_digit_def newline_def)
  with show_nat_digits [of n] show ?thesis by (auto simp: list_all_iff)
qed

lemma no_newline_id: "is_link_request_id i \<Longrightarrow> newline \<notin> set i"
proof -
  have "\<not> is_ascii_alphanumeric newline \<and> newline \<noteq> CHR ''_'' \<and> newline \<noteq> CHR ''-''"
    by (simp add: is_ascii_alphanumeric_def is_ascii_digit_def is_ascii_lowercase_def is_ascii_uppercase_def
        newline_def char_of_def)
  then show "is_link_request_id i \<Longrightarrow> newline \<notin> set i"
    by (auto simp: is_link_request_id_def list_all_iff)
qed

lemma response_canonical_inj:
  assumes "response_canonical i s c = response_canonical j t d"
    and "is_link_request_id i" "is_link_request_id j"
  shows "i = j \<and> s = t \<and> c = d"
proof -
  have "i @ newline # show_nat s @ newline # c = j @ newline # show_nat t @ newline # d"
    using assms(1) by (simp add: response_canonical_def)
  then have "i = j \<and> show_nat s @ newline # c = show_nat t @ newline # d"
    by (rule split_at_first) (use assms(2,3) in \<open>simp_all add: no_newline_id\<close>)
  moreover from this have "show_nat s = show_nat t \<and> c = d"
    by (intro split_at_first [of _ newline]) (simp_all add: no_newline_digits)
  ultimately show ?thesis by (simp add: show_nat_inject)
qed

lemma request_is_no_response:
  "request_canonical (http_method_text verb) target i t c \<noteq> response_canonical j s d"
proof
  assume eq: "request_canonical (http_method_text verb) target i t c = response_canonical j s d"
  have "hd (request_canonical (http_method_text verb) target i t c) \<noteq> CHR ''R''"
    by (cases verb) (simp_all add: request_canonical_def ascii_upper_def is_ascii_lowercase_def)
  with eq show False by (simp add: response_canonical_def)
qed

section \<open>A link with fixed answers\<close>

definition hex_digit :: "nat \<Rightarrow> char" where
  "hex_digit n = char_of (if n < 10 then 48 + n else 87 + n)"

fun sample_hex :: "string \<Rightarrow> string" where
  "sample_hex [] = []"
| "sample_hex (c # cs) = hex_digit (of_char c div 16) # hex_digit (of_char c mod 16) # sample_hex cs"

definition sample_crypto :: kiosk_crypto where
  "sample_crypto = \<lparr>kx_digest = (\<lambda>s. replicate 32 (char_of (0 :: nat))), kx_hex = sample_hex\<rparr>"

lemma hex_digit_inj: "m < 16 \<Longrightarrow> n < 16 \<Longrightarrow> hex_digit m = hex_digit n \<Longrightarrow> m = n"
proof -
  assume m: "m < 16" and n: "n < 16" and eq: "hex_digit m = hex_digit n"
  have code: "(of_char (hex_digit k) :: nat) = (if k < 10 then 48 + k else 87 + k)" if "k < 16" for k :: nat
    using that by (simp add: hex_digit_def)
  from eq have "(if m < 10 then 48 + m else 87 + m) = (if n < 10 then 48 + n else 87 + n)"
    by (metis code m n)
  then show "m = n" using m n by (auto split: if_splits)
qed

lemma hex_digit_lower: "n < 16 \<Longrightarrow> is_lower_hex (hex_digit n)"
proof -
  assume "n < 16"
  then have "n \<in> {0, 1, 2, 3, 4, 5, 6, 7, 8, 9, 10, 11, 12, 13, 14, 15}" by (auto simp: less_Suc_eq numeral_eq_Suc)
  then show ?thesis by (auto simp: is_lower_hex_def hex_digit_def is_ascii_digit_def)
qed

lemma of_char_small: "(of_char c :: nat) < 256"
  by (metis of_char_mod_256 mod_less_divisor zero_less_numeral)

lemma sample_hex_inj: "sample_hex s = sample_hex t \<Longrightarrow> s = t"
proof (induction s arbitrary: t)
  case Nil
  then show ?case by (cases t) auto
next
  case (Cons c s)
  then obtain d t' where t: "t = d # t'" by (cases t) auto
  have parts: "of_char c div 16 = (of_char d :: nat) div 16 \<and> of_char c mod 16 = (of_char d :: nat) mod 16"
    using Cons.prems t of_char_small [of c] of_char_small [of d]
    by (auto intro!: hex_digit_inj simp: less_mult_imp_div_less)
  then have "(of_char c :: nat) = of_char d" by (metis div_mult_mod_eq)
  then show ?case using Cons t by simp
qed

lemma sample_crypto_ok: "crypto_ok sample_crypto"
proof -
  have "length (sample_hex s) = 2 * length s \<and> list_all is_lower_hex (sample_hex s)" for s
    using of_char_small by (induction s) (auto intro!: hex_digit_lower simp: less_mult_imp_div_less)
  then show ?thesis
    by (auto simp: crypto_ok_def sample_crypto_def inj_def dest: sample_hex_inj)
qed

definition sample_seal :: string where
  "sample_seal = sample_hex (replicate 32 (char_of (0 :: nat)))"

lemma sample_seal [simp]:
  "sha256_hex sample_crypto s = sample_seal" "kx_hex sample_crypto (hmac_sha256 sample_crypto key m) = sample_seal"
  "is_lower_hex_sha256 sample_seal"
  using sha256_hex_lower(1) [OF sample_crypto_ok, of s]
  by (simp_all add: sha256_hex_def hmac_sha256_def sample_crypto_def sample_seal_def Let_def)

definition sample_answer :: "string \<Rightarrow> string \<Rightarrow> http_response" where
  "sample_answer request_id body = \<lparr>hr_status = 200,
     hr_headers = bt_insert header_request_id request_id (bt_insert header_content_sha256 sample_seal
       (bt_insert header_signature sample_seal bt_empty)),
     hr_body = body, hr_redirected = False, hr_received_at_ms = 1360\<rparr>"

definition sample_link :: "string list kiosk_link" where
  "sample_link = \<lparr>kl_now_ms = (\<lambda>s. (1340, s)), kl_wait_until_ms = (\<lambda>_ _ s. (Inr (), s)),
     kl_send = (\<lambda>q s. (Inr (sample_answer (link_id q) (hq_request_target q)), s)),
     kl_next_transport_request_id = (\<lambda>s. (Inr (hd s), tl s))\<rparr>"

definition sample_json :: owner_json where
  "sample_json = \<lparr>oj_status = (\<lambda>_. Some \<lparr>os_schema = oc_owner_contract_schema show_controls_v1, os_accepted = True\<rparr>),
     oj_invoke = (\<lambda>_ _. Some ''{}''),
     oj_invoke_response = (\<lambda>_. Some \<lparr>oi_request_id = ''request-1'', oi_accepted = True, oi_completed = False\<rparr>),
     oj_result = (\<lambda>_. Some \<lparr>ow_schema = Some kiosk_cli_result_schema, ow_request_id = ''request-1'',
       ow_command = Some kiosk_show_controls_command, ow_accepted = True, ow_completed = True,
       ow_recorded_at_ms = Some 1350, ow_controls_open = Some True\<rparr>)\<rparr>"

definition sample_request :: show_controls_request where
  "sample_request = \<lparr>cq_receipt_id = ''receipt-1'', cq_operation_id = ''op-1'', cq_device_id = ''hmd-1'',
     cq_identity_revision = 1, cq_endpoint = ''http://10.0.0.5:39873'', cq_owner_action_request_id = ''request-1''\<rparr>"

lemma sample_headers:
  "header (hr_headers (sample_answer rid body)) header_request_id = Some rid"
  "header (hr_headers (sample_answer rid body)) header_content_sha256 = Some sample_seal"
  "header (hr_headers (sample_answer rid body)) header_signature = Some sample_seal"
  by (simp_all add: header_def sample_answer_def header_request_id_def header_content_sha256_def
      header_signature_def eq_ignore_ascii_case_def)

lemma sample_verified:
  assumes "is_link_request_id rid"
  shows "verify_signed_response sample_crypto ''key'' rid (sample_answer rid body) = Inr ()"
  by (simp add: verified_iff [OF sample_crypto_ok] sample_headers assms)

lemma sample_send:
  assumes "is_link_request_id rid" and "target \<noteq> []" and "\<not> list_ex (\<lambda>c. c \<in> {carriage_return, newline}) target"
    and "1360 \<le> deadline" and "length target \<le> max_owner_json_bytes"
  shows "send_signed sample_crypto default_adapter_limits sample_link ''key'' e m target body rid deadline s =
    (Inr (sample_answer rid target), s)"
proof -
  have signed: "sign_request sample_crypto ''key'' (http_method_text m) target rid t sample_seal = Inr sample_seal"
    for t using assms(1-3) by (simp add: sign_request_def)
  have link_id: "link_id q = rid" if "hq_headers q = signed_headers rid t c g" for q t c g
    using that by (simp add: link_id_def)
  have "length (hr_body (sample_answer rid target)) \<le> max_owner_json_bytes" "hr_status (sample_answer rid target) = 200"
    "hr_received_at_ms (sample_answer rid target) = 1360" "\<not> hr_redirected (sample_answer rid target)"
    using assms(5) by (simp_all add: sample_answer_def)
  then show ?thesis
    using assms(4) signed sample_verified [OF assms(1)]
    by (simp add: send_signed_def run_then_def read_clock_def sample_link_def run_result_def run_unless_def
        transported_def link_id done_with_def Let_def default_adapter_limits_def)
qed

lemma sample_ids: "is_link_request_id ''request-1''" "is_link_request_id ''status-1''"
  "is_link_request_id ''invoke-1''" "is_link_request_id ''result-1''"
  by (simp_all add: is_link_request_id_def is_ascii_alphanumeric_def is_ascii_digit_def is_ascii_lowercase_def
      is_ascii_uppercase_def)

lemma shown_port: "show_nat 39873 = ''39873''"
  by (simp add: show_nat.simps char_of_def bit_0)

lemma sample_request_ok: "validate_show_controls_request sample_request = Inr ()"
  using sample_ids(1) shown_port
  by (simp add: validate_show_controls_request_def sample_request_def validate_kiosk_endpoint_def Let_def
      ends_with_def show_controls_v1_def is_ascii_whitespace_def is_ascii_control_def is_host_byte_def
      is_blank.simps is_ascii_alphanumeric_def is_ascii_digit_def is_ascii_lowercase_def is_ascii_uppercase_def)

lemma sample_new_id:
  assumes "is_link_request_id rid" and "rid \<noteq> action" and "rid \<notin> used"
  shows "next_transport_id sample_link action used (rid # s) = (Inr (rid, insert rid used), s)"
  using assms by (simp add: next_transport_id_def run_then_def transported_def sample_link_def run_unless_def
      done_with_def)

lemmas sample_steps = run_then_def run_result_def run_unless_def run_option_def done_with_def

lemma sample_clock: "read_clock sample_link s = (Inr 1340, s)"
  by (simp add: read_clock_def sample_link_def)

lemma sample_targets: "\<not> list_ex (\<lambda>c. c \<in> {carriage_return, newline}) target"
  if "target \<in> {status_target, invoke_target, result_request_target sample_request}"
proof -
  have "carriage_return \<notin> set target \<and> newline \<notin> set target"
    using that by (elim insertE emptyE) (simp_all add: status_target_def invoke_target_def result_request_target_def
      result_target_def sample_request_def carriage_return_def newline_def char_of_def)
  then show ?thesis by (auto simp: list_ex_iff)
qed

lemma sample_dispatch:
  "dispatch_show_controls sample_crypto sample_json default_adapter_limits sample_link sample_request ''key''
     (''status-1'' # ''invoke-1'' # s) =
   (Inr (\<lparr>cd_deadline_at_ms = 31340, cd_status_transport_request_id = ''status-1'',
      cd_invoke_transport_request_id = ''invoke-1''\<rparr>, {''invoke-1'', ''status-1''}), s)"
proof -
  have action: "cq_owner_action_request_id sample_request = ''request-1''"
    by (simp add: sample_request_def)
  have deadline: "deadline_of default_adapter_limits 1340 = Inr 31340"
    by (simp add: deadline_of_def default_adapter_limits_def i64_max_def)
  have targets: "status_target \<noteq> []" "invoke_target \<noteq> []" "length status_target \<le> max_owner_json_bytes"
    "length invoke_target \<le> max_owner_json_bytes"
    by (simp_all add: status_target_def invoke_target_def max_owner_json_bytes_def)
  have sent: "send_signed sample_crypto default_adapter_limits sample_link ''key'' e m target body rid 31340 s =
      (Inr (sample_answer rid target), s)"
    if "target \<in> {status_target, invoke_target}" "is_link_request_id rid" for target e m body rid s
    using that sample_targets [of target] targets by (intro sample_send) auto
  show ?thesis
    unfolding dispatch_show_controls_def action
    by (simp add: sample_steps sample_clock deadline sample_new_id sample_ids sent sample_json_def
        max_invoke_body_bytes_def)
qed

definition sample_outcome_receipt :: kiosk_receipt where
  "sample_outcome_receipt = sample_receipt\<lparr>kr_owner_result_transport_request_id := ''result-1'',
     kr_response_content_sha256 := sample_seal, kr_response_signature := sample_seal\<rparr>"

definition sample_outcome :: show_controls_outcome where
  "sample_outcome = \<lparr>co_effective_receipt = sample_outcome_receipt,
     co_owner_receipt = \<lparr>ro_raw_receipt_sha256 = sample_seal, ro_raw_receipt = result_request_target sample_request,
       ro_host_received_at_ms = 1360, ro_result_transport_request_id = ''result-1''\<rparr>,
     co_status_transport_request_id = ''status-1'', co_invoke_transport_request_id = ''invoke-1'',
     co_poll_count = 1\<rparr>"

lemma sample_outcome_valid: "valid (validate_kiosk_receipt sample_outcome_receipt)"
proof -
  have "is_owner_request_id ''result-1''" "kr_owner_action_request_id sample_receipt = ''request-1''"
    using sample_ids(4) by (simp_all add: is_owner_request_id_def is_link_request_id_def sample_receipt_def)
  with sample_receipt_valid show ?thesis
    by (simp add: validate_kiosk_receipt_def sample_outcome_receipt_def)
qed

lemma sample_projected:
  assumes "oj_result sample_json body = Some result"
  shows "projected_receipt sample_crypto sample_request ''result-1''
    (sample_answer ''result-1'' (result_request_target sample_request)) result = Inr sample_outcome_receipt"
proof -
  have "ow_schema result = Some kiosk_cli_result_schema" "ow_command result = Some kiosk_show_controls_command"
    "ow_recorded_at_ms result = Some 1350" "ow_controls_open result = Some True" "ow_accepted result"
    "ow_completed result"
    using assms by (auto simp: sample_json_def)
  moreover have "hr_received_at_ms (sample_answer rid b) = 1360" "hr_status (sample_answer rid b) = 200" for rid b
    by (simp_all add: sample_answer_def)
  ultimately show ?thesis
    using sample_outcome_valid
    by (simp add: projected_receipt_def sample_headers Let_def sample_outcome_receipt_def sample_receipt_def
        sample_request_def)
qed

lemma sample_execution:
  "execute_show_controls sample_crypto sample_json default_adapter_limits sample_link sample_request ''key''
     [''status-1'', ''invoke-1'', ''result-1''] = (Inr sample_outcome, [])"
proof -
  have result: "\<exists>result. oj_result sample_json body = Some result \<and> ow_request_id result = ''request-1'' \<and>
      ow_accepted result \<and> ow_completed result" for body by (simp add: sample_json_def)
  have polls: "al_maximum_polls default_adapter_limits = Suc 19" by (simp add: default_adapter_limits_def)
  have wait: "transported (kl_wait_until_ms sample_link a b) s = (Inr (), s)" for a b s
    by (simp add: transported_def sample_link_def)
  have action: "cq_owner_action_request_id sample_request = ''request-1''"
    by (simp add: sample_request_def)
  have sent: "send_signed sample_crypto default_adapter_limits sample_link ''key'' e m
      (result_request_target sample_request) body ''result-1'' 31340 s =
      (Inr (sample_answer ''result-1'' (result_request_target sample_request)), s)" for e m body s
    using sample_targets [of "result_request_target sample_request"] sample_ids
    by (intro sample_send)
      (simp_all add: result_request_target_def result_target_def sample_request_def max_owner_json_bytes_def)
  have contract: "valid (validate_owner_contract show_controls_v1)" by (simp add: valid_owner_contract)
  obtain r where r: "oj_result sample_json (hr_body (sample_answer ''result-1'' (result_request_target sample_request))) = Some r"
    "ow_request_id r = ''request-1''" "ow_accepted r" "ow_completed r"
    using result by blast
  have body: "hr_body (sample_answer rid b) = b" "hr_received_at_ms (sample_answer rid b) = 1360" for rid b
    by (simp_all add: sample_answer_def)
  have polled: "poll_results sample_crypto sample_json default_adapter_limits sample_link sample_request ''key'' 31340
      (al_maximum_polls default_adapter_limits) {''invoke-1'', ''status-1''} 1340 [''result-1''] =
    (Inr \<lparr>cp_effective_receipt = sample_outcome_receipt, cp_owner_receipt = co_owner_receipt sample_outcome,
       cp_poll_count = 1\<rparr>, [])"
    unfolding polls poll_results.simps action
    using r sample_projected [OF r(1)]
    by (simp add: sample_steps sample_clock wait sample_new_id sample_ids sent polls body sample_outcome_def)
      (simp add: sample_outcome_receipt_def)
  show ?thesis
    using polled
    by (simp add: execute_show_controls_def sample_steps sample_request_ok contract sample_dispatch sample_clock
        sample_outcome_def)
qed

section \<open>Properties\<close>

lemma dispatch_deadline:
  assumes "dispatch_show_controls x json limits link request key s = (Inr (dispatch, used), s')"
  shows "cd_deadline_at_ms dispatch = fst (kl_now_ms link s) + int (al_operation_deadline_ms limits)"
  using assms
  by (auto simp: dispatch_show_controls_def run_simps read_clock_def deadline_of_def map_prod_def
      split: prod.splits if_splits)

lemma verified_headers:
  assumes "verify_signed_response x key request_id r = Inr ()"
  shows "header (hr_headers r) header_request_id = Some request_id"
    "header (hr_headers r) header_content_sha256 = Some (sha256_hex x (hr_body r))"
    "\<exists>signature. sign_response x key request_id (hr_status r) (sha256_hex x (hr_body r)) = Inr signature \<and>
       header (hr_headers r) header_signature = Some signature"
  using assms
  by (auto simp: verify_signed_response_def require_header_def Let_def split: option.splits if_splits sum.splits)

text \<open>C15: An outcome of \<^verbatim>\<open>execute_show_controls\<close> is proven. Over a link that records every exchange, the last exchange of the
  run is a signed GET for the result of this request and its answer: received no later than the deadline, which
  is the time the run started plus the configured operation deadline, without a redirect, with status 200, the
  transport ID of that very GET, the digest of its own bytes and a signature over both under the pairing key.
  Those bytes read as an accepted and completed result of this action, and the receipt returned is the
  projection of exactly them: it satisfies its contract, is bound to the operation, device, identity revision
  and action of the request, and carries the transport ID and the digest.\<close>

theorem kiosk_outcome_proven:
  assumes "execute_show_controls x json limits (recorded link) request key ([], s) = (Inr out, (trace, s'))"
  shows "(\<exists>before q response. trace = before @ [(q, Inr response)] \<and>
       proven_by x json request key (fst (kl_now_ms link s) + int (al_operation_deadline_ms limits))
         (co_effective_receipt out) q response \<and>
       header (hr_headers response) header_request_id = Some (link_id q) \<and>
       header (hr_headers response) header_content_sha256 = Some (sha256_hex x (hr_body response)) \<and>
       (\<exists>signature. sign_response x key (link_id q) 200 (sha256_hex x (hr_body response)) = Inr signature \<and>
          header (hr_headers response) header_signature = Some signature) \<and>
       ro_raw_receipt (co_owner_receipt out) = hr_body response \<and>
       ro_raw_receipt_sha256 (co_owner_receipt out) = sha256_hex x (hr_body response) \<and>
       kr_response_content_sha256 (co_effective_receipt out) = sha256_hex x (hr_body response)) \<and>
     valid (validate_kiosk_receipt (co_effective_receipt out)) \<and>
     kr_operation_id (co_effective_receipt out) = cq_operation_id request \<and>
       kr_device_id (co_effective_receipt out) = cq_device_id request \<and>
       kr_identity_revision (co_effective_receipt out) = cq_identity_revision request \<and>
       kr_owner_action_request_id (co_effective_receipt out) = cq_owner_action_request_id request \<and>
     1 \<le> co_poll_count out \<and> co_poll_count out \<le> al_maximum_polls limits"
proof -
  let ?deadline = "fst (kl_now_ms link s) + int (al_operation_deadline_ms limits)"
  have clock: "fst (kl_now_ms (recorded link) ([], s)) = fst (kl_now_ms link s)"
    by (simp add: recorded_def)
  obtain dispatch used not_before s0 s1 outcome where
    dispatched: "dispatch_show_controls x json limits (recorded link) request key ([], s) = (Inr (dispatch, used), s0)" and
    polled: "poll_results x json limits (recorded link) request key (cd_deadline_at_ms dispatch)
      (al_maximum_polls limits) used not_before s1 = (Inr outcome, (trace, s'))" and
    out: "co_effective_receipt out = cp_effective_receipt outcome" "co_owner_receipt out = cp_owner_receipt outcome"
      "co_poll_count out = cp_poll_count outcome"
    using assms unfolding execute_show_controls_def by (fastforce simp: run_simps split: prod.splits)
  have deadline: "cd_deadline_at_ms dispatch = ?deadline"
    using dispatch_deadline [OF dispatched] clock by simp
  from polled_receipt [OF polled] obtain q st response where
    sent: "kl_send (recorded link) q st = (Inr response, (trace, s'))" and
    p: "proven_by x json request key ?deadline (co_effective_receipt out) q response" and
    rest: "cp_owner_receipt outcome = \<lparr>ro_raw_receipt_sha256 = kr_response_content_sha256 (co_effective_receipt out),
       ro_raw_receipt = hr_body response, ro_host_received_at_ms = hr_received_at_ms response,
       ro_result_transport_request_id = kr_owner_result_transport_request_id (co_effective_receipt out)\<rparr>"
      "0 < cp_poll_count outcome" "cp_poll_count outcome \<le> al_maximum_polls limits"
    unfolding out deadline by auto
  have logged: "trace = fst st @ [(q, Inr response)]"
    using sent by (cases st) (auto simp: recorded_def split: prod.splits)
  from p obtain result where projected:
    "projected_receipt x request (kr_owner_result_transport_request_id (co_effective_receipt out)) response result =
     Inr (co_effective_receipt out)" and
    verified: "verify_signed_response x key (link_id q) response = Inr ()" "hr_status response = 200"
    unfolding proven_by_def by blast
  note fields = projected_fields [OF projected]
  have "ro_raw_receipt (co_owner_receipt out) = hr_body response \<and>
      ro_raw_receipt_sha256 (co_owner_receipt out) = sha256_hex x (hr_body response) \<and>
      kr_response_content_sha256 (co_effective_receipt out) = sha256_hex x (hr_body response)"
    using rest fields(8) out by simp
  moreover note verified_headers [OF verified(1)]
  moreover have "1 \<le> co_poll_count out \<and> co_poll_count out \<le> al_maximum_polls limits"
    using rest(2,3) out(3) by simp
  ultimately show ?thesis
    using p logged fields(1,3-6) verified(2)
    by (intro conjI exI [of _ "fst st"] exI [of _ q] exI [of _ response]) simp_all
qed

lemma kiosk_outcome_proven_witness:
  "\<exists>trace before q response. execute_show_controls sample_crypto sample_json default_adapter_limits
       (recorded sample_link) sample_request ''key'' ([], [''status-1'', ''invoke-1'', ''result-1'']) =
       (Inr sample_outcome, (trace, [])) \<and> trace = before @ [(q, Inr response)] \<and> link_id q = ''result-1'' \<and>
     hr_received_at_ms response \<le> 31340"
proof -
  obtain trace where run: "execute_show_controls sample_crypto sample_json default_adapter_limits
      (recorded sample_link) sample_request ''key'' ([], [''status-1'', ''invoke-1'', ''result-1'']) =
      (Inr sample_outcome, (trace, []))"
    using mirrors_execute [of sample_crypto sample_json default_adapter_limits sample_link sample_request "''key''"]
      sample_execution unfolding mirrors_def by (metis fst_conv snd_conv)
  have "fst (kl_now_ms sample_link s) + int (al_operation_deadline_ms default_adapter_limits) = 31340" for s
    by (simp add: sample_link_def default_adapter_limits_def)
  moreover have "kr_owner_result_transport_request_id (co_effective_receipt sample_outcome) = ''result-1''"
    by (simp add: sample_outcome_def sample_outcome_receipt_def)
  ultimately show ?thesis
    using kiosk_outcome_proven [OF run] run unfolding proven_by_def by metis
qed

text \<open>C25: What the adapter sends is bounded and fresh, whether it succeeds or not, over any transport: an
  execution makes at most two requests and one for each poll, at most one of them an invocation, each is
  signed for its own verb, target, body and time under one deadline, and no two carry the same transport
  ID or that of the action. Resuming a lost answer sends no invocation: it makes at most one GET for each
  poll.\<close>

theorem kiosk_requests_bounded:
  "logs (execute_show_controls x json limits (logged link) request key)
     (\<lambda>result sent. bounded_log x key request (2 + al_maximum_polls limits) sent) \<and>
   logs (resume_show_controls_result x json limits (logged link) request key deadline)
     (\<lambda>result sent. length sent \<le> al_maximum_polls limits \<and> sent_fresh x key deadline request {} sent \<and>
        (\<forall>q\<in>set sent. hq_method q = Http_Get))"
  unfolding resume_show_controls_result_def using logs_execute logs_resume by blast

lemma kiosk_requests_bounded_witness:
  "length (fst (snd (execute_show_controls sample_crypto sample_json default_adapter_limits (logged sample_link)
     sample_request ''key'' ([], [''status-1'', ''invoke-1'', ''result-1''])))) \<le> 22"
proof -
  obtain r log' s' where run: "execute_show_controls sample_crypto sample_json default_adapter_limits
      (logged sample_link) sample_request ''key'' ([], [''status-1'', ''invoke-1'', ''result-1'']) = (r, log', s')"
    by (metis prod_cases3)
  have "length log' \<le> 2 + al_maximum_polls default_adapter_limits"
    using kiosk_requests_bounded [THEN conjunct1, unfolded logs_def, rule_format, OF run]
    by (simp add: bounded_log_def)
  with run show ?thesis by (simp add: default_adapter_limits_def)
qed

text \<open>A signed response is accepted exactly when its three signed headers are present, name the transport
  ID that was asked, the digest of the bytes received and the HMAC, under the pairing key, of the canonical
  text of that ID, the status and the digest; a response signed by the owner's routine is accepted.\<close>

theorem verified_responses_exactly:
  assumes "crypto_ok x"
  shows "(verify_signed_response x key request_id r = Inr () \<longleftrightarrow>
       header (hr_headers r) header_request_id = Some request_id \<and>
       header (hr_headers r) header_content_sha256 = Some (sha256_hex x (hr_body r)) \<and>
       (\<exists>signature. sign_response x key request_id (hr_status r) (sha256_hex x (hr_body r)) = Inr signature \<and>
          header (hr_headers r) header_signature = Some signature))"
  using sha256_hex_lower(1) [OF assms, of "hr_body r"]
  unfolding verified_iff [OF assms] by (auto simp: sign_response_def)

lemma verified_responses_exactly_witness:
  "verify_signed_response sample_crypto ''key'' ''result-1'' (sample_answer ''result-1'' ''{}'') = Inr ()"
  unfolding verified_responses_exactly [OF sample_crypto_ok]
  by (simp add: sample_headers sign_response_def sample_ids)

text \<open>C26: A signature binds what it signs. Two accepted responses with one signature are the response to the
  same transport ID with the same status and bytes, and the signature of a request is not that of an accepted
  response, unless one of the named pairs of texts is a collision of the hash function.\<close>

theorem response_signatures_bind:
  assumes "crypto_ok x" and "verify_signed_response x key i r = Inr ()"
    and "verify_signed_response x key j q = Inr ()"
    and "header (hr_headers r) header_signature = header (hr_headers q) header_signature"
  shows "(i = j \<and> hr_status r = hr_status q \<and> hr_body r = hr_body q \<or>
      collide x (hr_body r) (hr_body q) \<or>
      forged x key (response_canonical i (hr_status r) (sha256_hex x (hr_body r)))
        (response_canonical j (hr_status q) (sha256_hex x (hr_body q)))) \<and>
    (sign_request x key (http_method_text verb) target k time content = Inr signature \<and>
      header (hr_headers r) header_signature = Some signature \<longrightarrow>
      forged x key (request_canonical (http_method_text verb) target k time content)
        (response_canonical i (hr_status r) (sha256_hex x (hr_body r))))"
    (is "(?same \<or> ?hash \<or> forged x key ?m ?n) \<and> (?signed \<longrightarrow> forged x key ?o ?m)")
proof
  have inj: "inj (kx_hex x)" using assms(1) by (simp add: crypto_ok_def)
  show "?same \<or> ?hash \<or> forged x key ?m ?n"
  proof (cases "?m = ?n")
    case True
    then have "i = j \<and> hr_status r = hr_status q \<and> sha256_hex x (hr_body r) = sha256_hex x (hr_body q)"
      by (rule response_canonical_inj) (use assms(2,3) in \<open>simp_all add: verified_iff [OF assms(1)]\<close>)
    then show ?thesis using inj by (auto simp: collide_def sha256_hex_def inj_eq)
  next
    case False
    have "kx_hex x (hmac_sha256 x key ?m) = kx_hex x (hmac_sha256 x key ?n)"
      using assms(2-4) unfolding verified_iff [OF assms(1)] by simp
    then have "hmac_sha256 x key ?m = hmac_sha256 x key ?n" using inj by (simp add: inj_eq)
    from hmac_equal [OF this False] show ?thesis by blast
  qed
  show "?signed \<longrightarrow> forged x key ?o ?m"
  proof
    assume "?signed"
    then have "kx_hex x (hmac_sha256 x key ?o) = kx_hex x (hmac_sha256 x key ?m)"
      using assms(2) unfolding verified_iff [OF assms(1)] by (auto simp: sign_request_def split: if_splits)
    then have "hmac_sha256 x key ?o = hmac_sha256 x key ?m" using inj by (simp add: inj_eq)
    then show "forged x key ?o ?m" by (rule hmac_equal) (rule request_is_no_response)
  qed
qed

lemma response_signatures_bind_witness:
  "collide sample_crypto ''a'' ''b''"
proof -
  note verified = sample_verified [OF sample_ids(4)]
  have "\<not> forged x key m m" for x key m by (simp add: forged_def collide_def)
  then show ?thesis
    using response_signatures_bind [OF sample_crypto_ok verified [of "''a''"] verified [of "''b''"]]
    by (simp add: sample_headers) (simp add: sample_answer_def)
qed



end
