(* ===== verification/Manifold_State.thy ===== *)
theory Manifold_State
  imports Kiosk_Signing Hub_Restore Checkin
begin

text \<open>
  crates/fleet-manifold-adapter/src/lib.rs: the state of the adapter that admits signed check-ins, the records
  it keeps, its snapshot and the restoration of a session. The Rusty Manifold crates (peer review, the runtime
  host) and the crates for Ed25519, JSON and SHA-256 are outside the repository: the record \<open>manifold_env\<close>
  holds the functions the adapter calls, and of their data the records here keep the fields the adapter reads.
\<close>

section \<open>Retaining entries\<close>

lift_definition bt_retain :: "('k::linorder \<Rightarrow> 'v \<Rightarrow> bool) \<Rightarrow> ('k, 'v) btree_map \<Rightarrow> ('k, 'v) btree_map"
  is "\<lambda>P. filter (\<lambda>(k, v). P k v)"
proof -
  fix P :: "'k \<Rightarrow> 'v \<Rightarrow> bool" and xs :: "('k \<times> 'v) list"
  assume "strictly_sorted (map fst xs)"
  then show "strictly_sorted (map fst (filter (\<lambda>(k, v). P k v) xs))"
    by (induction xs) (auto simp: strictly_sorted_def)
qed

section \<open>Data of the Rusty Manifold crates\<close>

record peer_entry =
  pe_peer_id :: string
  pe_key_fingerprint :: string

record accepted_peers =
  ap_authority_revision :: u64
  ap_peers :: "peer_entry list"
  ap_applied_proposal_ids :: "string list"

record peer_credential =
  pc_key_id :: string
  pc_peer_id :: string
  pc_active :: bool
  pc_valid_from_ms :: u64
  pc_expires_at_ms :: u64
  pc_public_key_hex :: string
  pc_public_key_sha256 :: string
  pc_key_generation :: u64

record peer_enrollment =
  en_authority_revision :: u64
  en_credentials :: "peer_credential list"

record status_proposal =
  sp_identity_peer_id :: string
  sp_status_peer_id :: string
  sp_observed_at_ms :: u64
  sp_expires_at_ms :: u64
  sp_capability_ids :: "string list"
  sp_expected_authority_revision :: u64

record review_case =
  rc_case_id :: string
  rc_current_state :: accepted_peers
  rc_proposal :: status_proposal
  rc_trusted_key_fingerprints :: "string list"
  rc_now_ms :: u64

record peer_decision =
  pd_accepted_state :: "accepted_peers option"

record peer_application =
  pa_applied :: bool

record host_snapshot =
  hs_schema_id :: string
  hs_authority_revision :: u64
  hs_commands :: "string list"
  hs_applied_request_ids :: "string list"

record params_digest =
  pg_params_type_id :: string
  pg_canonical_sha256 :: string
  pg_canonical_size_bytes :: u32

record command_request =
  cmd_request_id :: string
  cmd_expected_authority_revision :: u64
  cmd_requester_id :: string
  cmd_command_id :: string
  cmd_params_digest :: params_digest
  cmd_issued_at_ms :: u64
  cmd_expires_at_ms :: u64

record dispatch_receipt =
  dr_ready :: bool

record application_receipt =
  ar_applied :: bool

record host_migration =
  hm_migrated :: bool
  hm_source_schema_id :: string
  hm_resulting_schema_id :: string

section \<open>Parameters\<close>

text \<open>The members of a capability's extensions that a loopback proof reads.\<close>

record loopback_extensions =
  lx_proof_schema :: string
  lx_state :: string
  lx_route_mode :: string
  lx_discovery_mode :: string
  lx_listener_discovered :: bool
  lx_shell_uid :: string
  lx_owner_evidence_sha256 :: string

datatype typed_params =
  Kiosk_Params string string string u64
| Package_Params string string string u64 package_release string string
| Awake_Params string string string u64 awake_action u32 u32 string
| Wifi_Params string string string u64 wifi_action
| Hotspot_Params string string string string hotspot_action "string option"

record 'h manifold_env =
  me_codec :: checkin_codec
  me_crypto :: kiosk_crypto
  me_hex_decode :: "string \<Rightarrow> string option"
  me_verifying_key :: "string \<Rightarrow> bool"
  me_verify_strict :: "string \<Rightarrow> string \<Rightarrow> string \<Rightarrow> bool"
  me_is_dotted_id :: "string \<Rightarrow> bool"
  me_proposal :: "json_value \<Rightarrow> status_proposal option"
  me_loopback :: "extensions \<Rightarrow> loopback_extensions option"
  me_params_jcs :: "typed_params \<Rightarrow> string option"
  me_review_proposal :: "review_case \<Rightarrow> peer_decision \<times> peer_application"
  me_review_enrollment ::
    "peer_enrollment \<Rightarrow> json_value \<Rightarrow> string list \<Rightarrow> u64 \<Rightarrow> peer_enrollment \<times> json_value"
  me_initial_revision :: u64
  me_empty_enrollment :: peer_enrollment
  me_host_schema :: string
  me_host_legacy :: "string \<Rightarrow> nat option"
  me_host_snapshot :: "'h \<Rightarrow> host_snapshot"
  me_host_from_snapshot :: "host_snapshot \<Rightarrow> 'h option"
  me_host_migrate :: "nat \<Rightarrow> host_snapshot \<Rightarrow> ('h \<times> host_migration) option"
  me_review_command :: "'h \<Rightarrow> command_request \<Rightarrow> u64 \<Rightarrow> dispatch_receipt"
  me_apply_dispatch :: "'h \<Rightarrow> command_request \<Rightarrow> dispatch_receipt \<Rightarrow> u64 \<Rightarrow> 'h \<times> application_receipt"

section \<open>State\<close>

definition max_seen_checkins :: usize where
  "max_seen_checkins = 10000"

datatype proof_consumption = Bound_To_Exact_Owner_Receipt

record admitted_admission =
  aa_key_id :: string
  aa_key_generation :: u64
  aa_public_key_sha256 :: string
  aa_claims_jcs_sha256 :: string
  aa_signing_message_sha256 :: string
  aa_signature_sha256 :: string
  aa_fleet_accepted_revision :: u64
  aa_enrollment_authority_revision :: u64
  aa_manifold_authority_revision :: u64
  aa_bound_operation_id :: string
  aa_bound_receipt_request_id :: string
  aa_bound_receipt_evidence_sha256 :: string
  aa_bound_receipt_updated_at_ms :: i64
  aa_consumption_state :: proof_consumption

record admitted_proof =
  adp_proof :: termux_proof
  adp_checkin_id :: string
  adp_checkin_expires_at_ms :: i64
  adp_accepted_at_ms :: i64
  adp_admission :: "admitted_admission option"

type_synonym admitted_proofs = "(string, admitted_proof) btree_map"

record 'h manifold_adapter =
  ma_enrollment :: peer_enrollment
  ma_accepted_peers :: accepted_peers
  ma_trusted_operator_ids :: "string list"
  ma_seen_checkins :: "(string, i64) btree_map"
  ma_runtime_host :: 'h
  ma_termux_proofs :: admitted_proofs

record manifold_snapshot =
  ms_schema :: string
  ms_accepted_peers :: accepted_peers
  ms_seen_checkins :: "(string, i64) btree_map"
  ms_runtime_host :: "host_snapshot option"
  ms_termux_proofs :: admitted_proofs

definition manifold_snapshot_schema :: string where
  "manifold_snapshot_schema = ''rusty.fleet.manifold_adapter_snapshot.v5''"

definition manifold_snapshot_v1_schema :: string where
  "manifold_snapshot_v1_schema = ''rusty.fleet.manifold_adapter_snapshot.v1''"

definition accepted_peer_ids :: "'h manifold_adapter \<Rightarrow> string list" where
  "accepted_peer_ids a = map pe_peer_id (ap_peers (ma_accepted_peers a))"

definition adapter_snapshot :: "'h manifold_env \<Rightarrow> 'h manifold_adapter \<Rightarrow> manifold_snapshot" where
  "adapter_snapshot env a = \<lparr>
     ms_schema = manifold_snapshot_schema,
     ms_accepted_peers = ma_accepted_peers a,
     ms_seen_checkins = ma_seen_checkins a,
     ms_runtime_host = Some (me_host_snapshot env (ma_runtime_host a)),
     ms_termux_proofs = ma_termux_proofs a\<rparr>"

section \<open>Starting and restoring\<close>

text \<open>
  \<open>me_host_legacy\<close> tells the legacy schemas of the host by their version, and \<open>me_host_migrate\<close> restarts a
  host from the JSON of a snapshot without the members which that version lacks. The texts of the errors of
  these crates are left out of the adapter's own.
\<close>

definition adapter_commands :: "string list" where
  "adapter_commands = [kiosk_show_controls_command, awake_action_id, wifi_action_id,
     packages_install_release_action_id, hotspot_action_id]"

definition initial_host_snapshot :: "'h manifold_env \<Rightarrow> host_snapshot" where
  "initial_host_snapshot env = \<lparr>hs_schema_id = me_host_schema env, hs_authority_revision = me_initial_revision env,
     hs_commands = adapter_commands, hs_applied_request_ids = []\<rparr>"

text \<open>Construction expects the static snapshot to be valid: \<open>None\<close> is its panic.\<close>

definition manifold_new :: "'h manifold_env \<Rightarrow> string list \<Rightarrow> 'h manifold_adapter option" where
  "manifold_new env trusted_operator_ids =
     map_option (\<lambda>host. \<lparr>
       ma_enrollment = me_empty_enrollment env,
       ma_accepted_peers = \<lparr>ap_authority_revision = me_initial_revision env, ap_peers = [], ap_applied_proposal_ids = []\<rparr>,
       ma_trusted_operator_ids = trusted_operator_ids,
       ma_seen_checkins = bt_empty,
       ma_runtime_host = host,
       ma_termux_proofs = bt_empty\<rparr>) (me_host_from_snapshot env (initial_host_snapshot env))"

definition restart_runtime_host :: "'h manifold_env \<Rightarrow> host_snapshot \<Rightarrow> string + 'h" where
  "restart_runtime_host env s =
    (if hs_schema_id s = me_host_schema env
     then (case me_host_from_snapshot env s of
         None \<Rightarrow> Inl ''Fleet runtime authority snapshot is invalid''
       | Some host \<Rightarrow> Inr host)
     else case me_host_legacy env (hs_schema_id s) of
       None \<Rightarrow> Inl (''Fleet runtime authority snapshot schema is not supported: '' @ hs_schema_id s)
     | Some version \<Rightarrow>
        (case me_host_migrate env version s of
           None \<Rightarrow> Inl ''Fleet runtime authority snapshot migration failed''
         | Some (host, migration) \<Rightarrow>
             if \<not> hm_migrated migration \<or> hm_source_schema_id migration \<noteq> hs_schema_id s \<or>
                hm_resulting_schema_id migration \<noteq> me_host_schema env
             then Inl ''Fleet runtime authority snapshot migration evidence is invalid'' else Inr host))"

text \<open>What a restored session keeps of the proofs, and when a proof of a snapshot is invalid.\<close>

definition proof_still_current :: "i64 \<Rightarrow> admitted_proof \<Rightarrow> bool" where
  "proof_still_current now_ms admitted \<longleftrightarrow> adp_checkin_expires_at_ms admitted > now_ms \<and>
     tp_fresh_until_ms (adp_proof admitted) > now_ms \<and> adp_admission admitted \<noteq> None"

definition admission_invalid :: "admitted_admission \<Rightarrow> bool" where
  "admission_invalid a \<longleftrightarrow> aa_key_id a = [] \<or> aa_key_generation a = 0 \<or>
     \<not> is_lower_sha256 (aa_public_key_sha256 a) \<or> \<not> is_lower_sha256 (aa_claims_jcs_sha256 a) \<or>
     \<not> is_lower_sha256 (aa_signing_message_sha256 a) \<or> \<not> is_lower_sha256 (aa_signature_sha256 a) \<or>
     aa_fleet_accepted_revision a = 0 \<or> aa_enrollment_authority_revision a = 0 \<or>
     aa_manifold_authority_revision a = 0 \<or> aa_bound_operation_id a = [] \<or>
     aa_bound_receipt_request_id a = [] \<or> \<not> is_lower_sha256 (aa_bound_receipt_evidence_sha256 a) \<or>
     aa_bound_receipt_updated_at_ms a < 0 \<or> aa_consumption_state a \<noteq> Bound_To_Exact_Owner_Receipt"

definition snapshot_proof_invalid :: "string \<Rightarrow> admitted_proof \<Rightarrow> bool" where
  "snapshot_proof_invalid proof_id admitted \<longleftrightarrow> proof_id \<noteq> tp_proof_id (adp_proof admitted) \<or>
     \<not> valid (validate_termux_proof (adp_proof admitted)) \<or> adp_checkin_id admitted = [] \<or>
     adp_checkin_expires_at_ms admitted \<le> tp_observed_at_ms (adp_proof admitted) \<or>
     adp_accepted_at_ms admitted < 0 \<or> none_or admission_invalid (adp_admission admitted)"

definition strip_prefix :: "string \<Rightarrow> string \<Rightarrow> string option" where
  "strip_prefix p s = (if starts_with s p then Some (drop (length p) s) else None)"

definition credential_matches :: "peer_entry \<Rightarrow> peer_credential \<Rightarrow> bool" where
  "credential_matches peer credential \<longleftrightarrow> pc_peer_id credential = pe_peer_id peer \<and> pc_active credential \<and>
     map_option (\<lambda>digest. ''fingerprint.'' @ digest) (strip_prefix ''sha256:'' (pc_public_key_sha256 credential)) =
       Some (pe_key_fingerprint peer)"

definition restored_host :: "'h manifold_env \<Rightarrow> 'h manifold_adapter \<Rightarrow> host_snapshot option \<Rightarrow> string + 'h" where
  "restored_host env a runtime = (case runtime of
     None \<Rightarrow> Inr (ma_runtime_host a)
   | Some s \<Rightarrow>
      (if hs_authority_revision s = u64_max
       then Inl ''Fleet runtime authority cannot recover at the terminal revision''
       else restart_runtime_host env
         (if hotspot_action_id \<in> set (hs_commands s) then s
          else s\<lparr>hs_commands := hs_commands s @ [hotspot_action_id]\<rparr>)))"

definition manifold_snapshot_schemas :: "string list" where
  "manifold_snapshot_schemas = [manifold_snapshot_v1_schema, ''rusty.fleet.manifold_adapter_snapshot.v2'',
     ''rusty.fleet.manifold_adapter_snapshot.v3'', ''rusty.fleet.manifold_adapter_snapshot.v4'',
     manifold_snapshot_schema]"

definition restore_session ::
  "'h manifold_env \<Rightarrow> 'h manifold_adapter \<Rightarrow> manifold_snapshot \<Rightarrow> i64 \<Rightarrow> string + 'h manifold_adapter" where
  "restore_session env a s now_ms =
    (if ms_schema s \<notin> set manifold_snapshot_schemas
     then Inl ''Fleet Manifold adapter snapshot schema is not supported''
     else if ms_schema s \<noteq> manifold_snapshot_v1_schema \<and> ms_runtime_host s = None
     then Inl ''Fleet Manifold adapter v2 snapshot omitted runtime authority''
     else
      (let proofs = bt_retain (\<lambda>_. proof_still_current now_ms) (ms_termux_proofs s);
           peers = ms_accepted_peers s in
       if bt_len (ms_seen_checkins s) > max_seen_checkins \<or>
          length (ap_applied_proposal_ids peers) > max_seen_checkins \<or> bt_len proofs > max_seen_checkins
       then Inl ''Fleet Manifold adapter snapshot exceeds evidence limits''
       else if list_ex (\<lambda>(proof_id, admitted). snapshot_proof_invalid proof_id admitted) (entries proofs)
       then Inl ''Fleet Manifold adapter snapshot contains invalid Termux proofs''
       else if \<not> distinct (map pe_peer_id (ap_peers peers)) \<or> \<not> distinct (ap_applied_proposal_ids peers)
       then Inl ''Fleet Manifold adapter snapshot contains duplicate authority evidence''
       else case find (\<lambda>peer. \<not> list_ex (credential_matches peer) (en_credentials (ma_enrollment a)))
           (ap_peers peers) of
         Some peer \<Rightarrow> Inl (''accepted peer '' @ pe_peer_id peer @ '' is not bound to a current active enrollment'')
       | None \<Rightarrow>
          (case restored_host env a (ms_runtime_host s) of
             Inl e \<Rightarrow> Inl e
           | Inr host \<Rightarrow> Inr (a\<lparr>ma_accepted_peers := peers,
               ma_seen_checkins := bt_retain (\<lambda>_ expires_at_ms. expires_at_ms > now_ms) (ms_seen_checkins s),
               ma_runtime_host := host, ma_termux_proofs := proofs\<rparr>))))"

definition apply_enrollment ::
  "'h manifold_env \<Rightarrow> 'h manifold_adapter \<Rightarrow> json_value \<Rightarrow> u64 \<Rightarrow> 'h manifold_adapter \<times> json_value" where
  "apply_enrollment env a request now_ms =
    (case me_review_enrollment env (ma_enrollment a) request (ma_trusted_operator_ids a) now_ms of
       (next_enrollment, receipt) \<Rightarrow> (a\<lparr>ma_enrollment := next_enrollment\<rparr>, receipt))"

end
