(* ===== verification/Manifold_Admission.thy ===== *)
theory Manifold_Admission
  imports Manifold_State
begin

text \<open>
  crates/fleet-manifold-adapter/src/lib.rs: the admission of a signed check-in. The envelope is checked against
  its contract, its window, the check-ins already seen, the enrolled credential and the signature; the Hub and
  the peer authority are then advanced together or not at all.
\<close>

section \<open>Signatures\<close>

definition verify_signature :: "'h manifold_env \<Rightarrow> string \<Rightarrow> signed_checkin \<Rightarrow> bool" where
  "verify_signature env public_key_hex signed =
    (case me_hex_decode env public_key_hex of
       None \<Rightarrow> False
     | Some public_key \<Rightarrow>
        (if length public_key \<noteq> 32 \<or> \<not> me_verifying_key env public_key then False
         else case me_hex_decode env (sgc_signature_hex signed) of
           None \<Rightarrow> False
         | Some signature \<Rightarrow>
            (if length signature \<noteq> 64 then False
             else case signing_bytes (me_codec env) (sgc_claims signed) of
               None \<Rightarrow> False
             | Some message \<Rightarrow> me_verify_strict env public_key message signature)))"

section \<open>Termux proofs\<close>

definition termux_capability_id :: string where
  "termux_capability_id = ''capability.quest-termux-loopback-adb-shell''"

definition capability_refused :: "signed_checkin \<Rightarrow> capability_state \<Rightarrow> bool" where
  "capability_refused signed capability \<longleftrightarrow>
    (let claims = sgc_claims signed; source_time_ms = do_source_time_ms (cc_observation claims) in
     cap_capability_id capability \<noteq> termux_capability_id \<or> cap_owner capability \<noteq> termux_proof_owner \<or>
     cap_reason capability \<noteq> ''loopback_tls_shell_uid_2000'' \<or>
     cap_support capability \<noteq> Support_Supported \<or> cap_enablement capability \<noteq> Enablement_Enabled \<or>
     cap_authorization capability \<noteq> Authorization_Authorized \<or>
     cap_reachability capability \<noteq> Reachability_Reachable \<or> cap_freshness capability \<noteq> Freshness_Current \<or>
     cap_evidence_revision capability = 0 \<or> cap_observed_at_ms capability < 0 \<or>
     cap_observed_at_ms capability > cc_issued_at_ms claims \<or> cap_observed_at_ms capability > source_time_ms \<or>
     cap_fresh_until_ms capability \<le> cc_issued_at_ms claims \<or> cap_fresh_until_ms capability \<le> source_time_ms \<or>
     cap_fresh_until_ms capability > cc_expires_at_ms claims \<or>
     cap_fresh_until_ms capability - cap_observed_at_ms capability = 0 \<or>
     cap_fresh_until_ms capability - cap_observed_at_ms capability > 60000)"

definition loopback_refused :: "loopback_extensions \<Rightarrow> bool" where
  "loopback_refused x \<longleftrightarrow> lx_proof_schema x \<noteq> ''rusty.quest.loopback_adb_proof.v1'' \<or>
     lx_state x \<noteq> ''available'' \<or> lx_route_mode x \<noteq> ''modern_tls'' \<or>
     lx_discovery_mode x \<notin> {''tls_nsd'', ''tls_mdns''} \<or> \<not> lx_listener_discovered x \<or>
     lx_shell_uid x \<noteq> ''2000'' \<or> \<not> is_lower_sha256 (lx_owner_evidence_sha256 x)"

definition signed_proof :: "signed_checkin \<Rightarrow> capability_state \<Rightarrow> loopback_extensions \<Rightarrow> string \<Rightarrow> termux_proof" where
  "signed_proof signed capability x claims_digest = (let obs = cc_observation (sgc_claims signed) in \<lparr>
     tp_schema = termux_proof_schema,
     tp_proof_id = ''termux-proof-'' @ take 32 claims_digest,
     tp_owner_id = termux_proof_owner,
     tp_device_id = di_device_id (do_identity obs),
     tp_identity_revision = di_identity_revision (do_identity obs),
     tp_source_epoch = do_source_epoch obs,
     tp_source_revision = do_source_revision obs,
     tp_evidence_revision = cap_evidence_revision capability,
     tp_route_mode = ModernTls,
     tp_discovery_mode = lx_discovery_mode x,
     tp_listener_discovered = True,
     tp_shell_identity = Some termux_shell_identity,
     tp_available = True,
     tp_evidence_sha256 = lx_owner_evidence_sha256 x,
     tp_observed_at_ms = cap_observed_at_ms capability,
     tp_fresh_until_ms = cap_fresh_until_ms capability\<rparr>)"

definition signed_termux_proof_from_capability ::
  "'h manifold_env \<Rightarrow> signed_checkin \<Rightarrow> status_proposal \<Rightarrow> unit + termux_proof option" where
  "signed_termux_proof_from_capability env signed proposal =
    (let capability = capability_get (do_capabilities (cc_observation (sgc_claims signed))) termux_capability_id in
     if (capability \<noteq> None) \<noteq> (termux_capability_id \<in> set (sp_capability_ids proposal)) then Inl ()
     else case capability of
       None \<Rightarrow> Inr None
     | Some capability \<Rightarrow>
        (if capability_refused signed capability then Inl ()
         else case me_loopback env (cap_extensions capability) of
           None \<Rightarrow> Inl ()
         | Some x \<Rightarrow>
            (if loopback_refused x then Inl ()
             else case signing_bytes (me_codec env) (sgc_claims signed) of
               None \<Rightarrow> Inl ()
             | Some bytes \<Rightarrow>
                 Inr (Some (signed_proof signed capability x (sha256_hex (me_crypto env) bytes))))))"

definition validate_signed_termux_proof ::
  "signed_checkin \<Rightarrow> termux_proof \<Rightarrow> i64 \<Rightarrow> admitted_proofs \<Rightarrow> bool" where
  "validate_signed_termux_proof signed proof now_ms existing \<longleftrightarrow>
    (let claims = sgc_claims signed; obs = cc_observation claims in
     \<not> (tp_schema proof \<noteq> termux_proof_schema \<or> \<not> valid (validate_termux_proof proof) \<or>
        tp_device_id proof \<noteq> di_device_id (do_identity obs) \<or>
        tp_identity_revision proof \<noteq> di_identity_revision (do_identity obs) \<or>
        tp_source_epoch proof \<noteq> do_source_epoch obs \<or>
        tp_observed_at_ms proof > cc_issued_at_ms claims \<or> tp_observed_at_ms proof > do_source_time_ms obs \<or>
        cc_issued_at_ms claims \<ge> tp_fresh_until_ms proof \<or> do_source_time_ms obs \<ge> tp_fresh_until_ms proof \<or>
        tp_fresh_until_ms proof > cc_expires_at_ms claims \<or> tp_observed_at_ms proof > now_ms \<or>
        bt_contains_key existing (tp_proof_id proof) \<or> tp_source_revision proof \<noteq> do_source_revision obs \<or>
        list_ex (\<lambda>candidate. tp_device_id (adp_proof candidate) = tp_device_id proof \<and>
          tp_source_epoch (adp_proof candidate) = tp_source_epoch proof \<and>
          tp_source_revision (adp_proof candidate) \<ge> tp_source_revision proof) (bt_values existing)))"

section \<open>The owner receipt a proof is bound to\<close>

record proof_binding =
  pb_operation_id :: string
  pb_receipt_request_id :: string
  pb_receipt_evidence_sha256 :: string
  pb_receipt_updated_at_ms :: i64

definition modern_effect :: "string \<Rightarrow> u64 \<Rightarrow> wifi_target \<Rightarrow> bool" where
  "modern_effect device_id identity_revision t \<longleftrightarrow> wt_device_id t = device_id \<and>
     wt_identity_revision t = identity_revision \<and>
     some_and (\<lambda>r. wr_effect_applied r \<and> wr_route_mode r = ModernTls) (wt_receipt t)"

definition newest_disable :: "wifi_operation list \<Rightarrow> string \<Rightarrow> u64 \<Rightarrow> i64 option" where
  "newest_disable ops device_id identity_revision =
    (let times = concat (map (\<lambda>op. map wt_updated_at_ms (filter (modern_effect device_id identity_revision)
         (wop_targets op))) (filter (\<lambda>op. wv_action (wop_preview op) = DisableWirelessAdb) ops))
     in if times = [] then None else Some (Max (set times)))"

definition binding_of :: "wifi_operation \<Rightarrow> wifi_target \<Rightarrow> wifi_receipt \<Rightarrow> proof_binding" where
  "binding_of op t r = \<lparr>pb_operation_id = wop_operation_id op, pb_receipt_request_id = wr_request_id r,
     pb_receipt_evidence_sha256 = wr_evidence_sha256 r, pb_receipt_updated_at_ms = wt_updated_at_ms t\<rparr>"

definition binding_candidates ::
  "wifi_operation list \<Rightarrow> string \<Rightarrow> u64 \<Rightarrow> i64 \<Rightarrow> proof_binding list" where
  "binding_candidates ops device_id identity_revision admitted_at_ms =
     concat (map (\<lambda>op. List.map_filter (\<lambda>t. case wt_receipt t of
         None \<Rightarrow> None
       | Some r \<Rightarrow>
          (if modern_effect device_id identity_revision t \<and> wt_updated_at_ms t < admitted_at_ms \<and>
              none_or (\<lambda>disabled_at. wt_updated_at_ms t > disabled_at)
                (newest_disable ops device_id identity_revision)
           then Some (binding_of op t r) else None)) (wop_targets op))
       (filter (\<lambda>op. wv_action (wop_preview op) = RequestWirelessAdb) ops))"

definition compare_bindings :: "proof_binding \<Rightarrow> proof_binding \<Rightarrow> ordering" where
  "compare_bindings left right =
     ord_then (cmp (pb_receipt_updated_at_ms right) (pb_receipt_updated_at_ms left))
       (cmp (pb_operation_id left) (pb_operation_id right))"

definition bind_termux_proof_to_exact_owner_receipt ::
  "'a hub_state_scheme \<Rightarrow> string \<Rightarrow> u64 \<Rightarrow> i64 \<Rightarrow> proof_binding option" where
  "bind_termux_proof_to_exact_owner_receipt h device_id identity_revision admitted_at_ms =
    (case sort_by compare_bindings
         (binding_candidates (quest_wifi_adb_operations h) device_id identity_revision admitted_at_ms) of
       [] \<Rightarrow> None
     | [selected] \<Rightarrow> Some selected
     | selected # other # _ \<Rightarrow>
         if pb_receipt_updated_at_ms other = pb_receipt_updated_at_ms selected then None else Some selected)"

section \<open>Receipts\<close>

datatype checkin_rejection =
  Checkin_Contract_Invalid | Stale_Or_Future | Checkin_Replay | Unknown_Or_Inactive_Key | Key_Outside_Validity
| Identity_Mismatch | Authority_Evidence_Mismatch | Signature_Invalid | Manifold_Rejected | Fleet_Rejected
| Evidence_Limit_Exceeded

record checkin_receipt =
  ckr_schema :: string
  ckr_checkin_id :: string
  ckr_accepted :: bool
  ckr_rejection_reason :: "checkin_rejection option"
  ckr_manifold_decision :: "peer_decision option"
  ckr_manifold_application :: "peer_application option"
  ckr_fleet_decision :: "observation_decision option"

definition rejected :: "string \<Rightarrow> checkin_rejection \<Rightarrow> checkin_receipt" where
  "rejected checkin_id reason = \<lparr>ckr_schema = ''rusty.fleet.checkin_receipt.v1'',
     ckr_checkin_id = checkin_id, ckr_accepted = False, ckr_rejection_reason = Some reason,
     ckr_manifold_decision = None, ckr_manifold_application = None, ckr_fleet_decision = None\<rparr>"

section \<open>The checks of the envelope\<close>

text \<open>What the checks that precede the Hub's admission establish.\<close>

record checked_checkin =
  kc_proposal :: status_proposal
  kc_credential :: peer_credential
  kc_termux_proof :: "termux_proof option"
  kc_public_key_sha256 :: string
  kc_canonical_claims :: string
  kc_signing_message :: string
  kc_signature :: string

definition enrolled_credential :: "peer_enrollment \<Rightarrow> signed_checkin \<Rightarrow> status_proposal \<Rightarrow> peer_credential option" where
  "enrolled_credential enrollment signed proposal = find (\<lambda>candidate.
     pc_key_id candidate = sgc_key_id signed \<and> pc_peer_id candidate = sp_identity_peer_id proposal \<and>
     pc_active candidate) (en_credentials enrollment)"

definition proposal_refusal :: "signed_checkin \<Rightarrow> status_proposal \<Rightarrow> checkin_rejection option" where
  "proposal_refusal signed proposal =
    (let claims = sgc_claims signed; obs = cc_observation claims in
     if sp_identity_peer_id proposal \<noteq> di_device_id (do_identity obs) \<or>
        sp_status_peer_id proposal \<noteq> sp_identity_peer_id proposal
     then Some Identity_Mismatch
     else if do_source_time_ms obs < 0 then Some Authority_Evidence_Mismatch
     else if cc_expires_at_ms claims < 0 then Some Authority_Evidence_Mismatch
     else if int (sp_observed_at_ms proposal) \<noteq> do_source_time_ms obs \<or>
        int (sp_expires_at_ms proposal) \<noteq> cc_expires_at_ms claims
     then Some Authority_Evidence_Mismatch else None)"

definition credential_refusal ::
  "'h manifold_env \<Rightarrow> signed_checkin \<Rightarrow> peer_credential \<Rightarrow> i64 \<Rightarrow> checkin_rejection option" where
  "credential_refusal env signed credential now_ms =
    (if now_ms < 0 then Some Stale_Or_Future
     else if int (pc_valid_from_ms credential) > now_ms \<or> int (pc_expires_at_ms credential) \<le> now_ms
     then Some Key_Outside_Validity
     else if \<not> verify_signature env (pc_public_key_hex credential) signed then Some Signature_Invalid
     else None)"

definition checked_evidence ::
  "'h manifold_env \<Rightarrow> signed_checkin \<Rightarrow> status_proposal \<Rightarrow> peer_credential \<Rightarrow> checkin_rejection + checked_checkin" where
  "checked_evidence env signed proposal credential =
    (case signed_termux_proof_from_capability env signed proposal of
       Inl _ \<Rightarrow> Inl Authority_Evidence_Mismatch
     | Inr proof \<Rightarrow>
        (case strip_prefix ''sha256:'' (pc_public_key_sha256 credential) of
           None \<Rightarrow> Inl Checkin_Contract_Invalid
         | Some public_key_sha256 \<Rightarrow>
            (case codec_jcs (me_codec env) (sgc_claims signed) of
               None \<Rightarrow> Inl Checkin_Contract_Invalid
             | Some canonical_claims \<Rightarrow>
                (case signing_bytes (me_codec env) (sgc_claims signed) of
                   None \<Rightarrow> Inl Checkin_Contract_Invalid
                 | Some signing_message \<Rightarrow>
                    (case me_hex_decode env (sgc_signature_hex signed) of
                       None \<Rightarrow> Inl Checkin_Contract_Invalid
                     | Some signature \<Rightarrow>
                        (if \<not> me_is_dotted_id env (''fingerprint.'' @ public_key_sha256) \<or>
                            \<not> me_is_dotted_id env (''case.'' @ cc_checkin_id (sgc_claims signed))
                         then Inl Checkin_Contract_Invalid
                         else Inr \<lparr>kc_proposal = proposal, kc_credential = credential, kc_termux_proof = proof,
                           kc_public_key_sha256 = public_key_sha256, kc_canonical_claims = canonical_claims,
                           kc_signing_message = signing_message, kc_signature = signature\<rparr>))))))"

definition checked_envelope ::
  "'h manifold_env \<Rightarrow> peer_enrollment \<Rightarrow> signed_checkin \<Rightarrow> i64 \<Rightarrow> checkin_rejection + checked_checkin" where
  "checked_envelope env enrollment signed now_ms =
    (case me_proposal env (cc_manifold_peer_status_proposal (sgc_claims signed)) of
       None \<Rightarrow> Inl Checkin_Contract_Invalid
     | Some proposal \<Rightarrow>
        (case proposal_refusal signed proposal of
           Some reason \<Rightarrow> Inl reason
         | None \<Rightarrow>
            (case enrolled_credential enrollment signed proposal of
               None \<Rightarrow> Inl Unknown_Or_Inactive_Key
             | Some credential \<Rightarrow>
                (case credential_refusal env signed credential now_ms of
                   Some reason \<Rightarrow> Inl reason
                 | None \<Rightarrow> checked_evidence env signed proposal credential))))"

section \<open>Admission\<close>

definition local_condition :: "'h manifold_adapter \<Rightarrow> 'a hub_state_scheme \<Rightarrow> signed_checkin \<Rightarrow> i64 \<Rightarrow> status_condition" where
  "local_condition a h signed now_ms = \<lparr>
     sc_family = Family_Freshness, sc_state = Current, sc_reason = ''local_authenticated_checkin'',
     sc_message = ''The local Hub admitted a current signed device check-in.'',
     sc_source_time_ms = do_source_time_ms (cc_observation (sgc_claims signed)),
     sc_received_time_ms = now_ms,
     sc_accepted_revision = u64_saturating_add (fh_result_revision h) 1,
     sc_fresh_until_ms = cc_expires_at_ms (sgc_claims signed),
     sc_source = \<lparr>ss_adapter_id = ''fleet.local-ingress'', ss_owner = ''rusty-manifold'',
       ss_authority_revision = u64_saturating_add (ap_authority_revision (ma_accepted_peers a)) 1\<rparr>,
     sc_sensitivity = Operator, sc_extensions = bt_empty\<rparr>"

definition admitted_observation ::
  "'h manifold_adapter \<Rightarrow> 'a hub_state_scheme \<Rightarrow> signed_checkin \<Rightarrow> i64 \<Rightarrow> device_observation" where
  "admitted_observation a h signed now_ms =
    (let obs = cc_observation (sgc_claims signed)
     in obs\<lparr>do_received_time_ms := now_ms,
       do_conditions := do_conditions obs @ [local_condition a h signed now_ms]\<rparr>)"

definition admission_record ::
  "'h manifold_env \<Rightarrow> 'h manifold_adapter \<Rightarrow> checked_checkin \<Rightarrow> u64 \<Rightarrow> proof_binding \<Rightarrow> admitted_admission" where
  "admission_record env a c fleet_accepted_revision binding = \<lparr>
     aa_key_id = pc_key_id (kc_credential c),
     aa_key_generation = pc_key_generation (kc_credential c),
     aa_public_key_sha256 = kc_public_key_sha256 c,
     aa_claims_jcs_sha256 = sha256_hex (me_crypto env) (kc_canonical_claims c),
     aa_signing_message_sha256 = sha256_hex (me_crypto env) (kc_signing_message c),
     aa_signature_sha256 = sha256_hex (me_crypto env) (kc_signature c),
     aa_fleet_accepted_revision = fleet_accepted_revision,
     aa_enrollment_authority_revision = en_authority_revision (ma_enrollment a),
     aa_manifold_authority_revision = u64_saturating_add (ap_authority_revision (ma_accepted_peers a)) 1,
     aa_bound_operation_id = pb_operation_id binding,
     aa_bound_receipt_request_id = pb_receipt_request_id binding,
     aa_bound_receipt_evidence_sha256 = pb_receipt_evidence_sha256 binding,
     aa_bound_receipt_updated_at_ms = pb_receipt_updated_at_ms binding,
     aa_consumption_state = Bound_To_Exact_Owner_Receipt\<rparr>"

definition candidate_proofs ::
  "'h manifold_env \<Rightarrow> 'h manifold_adapter \<Rightarrow> 'a hub_state_scheme \<Rightarrow> signed_checkin \<Rightarrow> checked_checkin \<Rightarrow> u64 \<Rightarrow> i64 \<Rightarrow>
   checkin_rejection + admitted_proofs" where
  "candidate_proofs env a candidate_hub signed c fleet_accepted_revision now_ms =
    (let current = bt_retain (\<lambda>_ admitted. adp_checkin_expires_at_ms admitted > now_ms \<and>
           tp_fresh_until_ms (adp_proof admitted) > now_ms) (ma_termux_proofs a);
         without = (\<lambda>device_id. bt_retain (\<lambda>_ admitted. tp_device_id (adp_proof admitted) \<noteq> device_id) current) in
     case kc_termux_proof c of
       None \<Rightarrow> Inr (without (di_device_id (do_identity (cc_observation (sgc_claims signed)))))
     | Some proof \<Rightarrow>
        (if \<not> validate_signed_termux_proof signed proof now_ms current then Inl Authority_Evidence_Mismatch
         else case bind_termux_proof_to_exact_owner_receipt candidate_hub (tp_device_id proof)
             (tp_identity_revision proof) now_ms of
           None \<Rightarrow> Inl Authority_Evidence_Mismatch
         | Some binding \<Rightarrow>
            (if bt_len (without (tp_device_id proof)) \<ge> max_seen_checkins then Inl Evidence_Limit_Exceeded
             else Inr (bt_insert (tp_proof_id proof) \<lparr>adp_proof = proof,
               adp_checkin_id = cc_checkin_id (sgc_claims signed),
               adp_checkin_expires_at_ms = cc_expires_at_ms (sgc_claims signed),
               adp_accepted_at_ms = now_ms,
               adp_admission = Some (admission_record env a c fleet_accepted_revision binding)\<rparr>
               (without (tp_device_id proof))))))"

text \<open>The case reviewed by the peer authority: the proposal against its current revision.\<close>

definition peer_review_case :: "'h manifold_adapter \<Rightarrow> signed_checkin \<Rightarrow> checked_checkin \<Rightarrow> i64 \<Rightarrow> review_case" where
  "peer_review_case a signed c now_ms = \<lparr>
     rc_case_id = ''case.'' @ cc_checkin_id (sgc_claims signed),
     rc_current_state = ma_accepted_peers a,
     rc_proposal = (kc_proposal c)\<lparr>sp_expected_authority_revision := ap_authority_revision (ma_accepted_peers a)\<rparr>,
     rc_trusted_key_fingerprints = [''fingerprint.'' @ kc_public_key_sha256 c],
     rc_now_ms = nat now_ms\<rparr>"

definition drained_peers :: "accepted_peers \<Rightarrow> accepted_peers" where
  "drained_peers s = s\<lparr>ap_applied_proposal_ids := keep_last max_seen_checkins (ap_applied_proposal_ids s)\<rparr>"

definition reviewed_admission ::
  "'h manifold_env \<Rightarrow> 'h manifold_adapter \<Rightarrow> 'a hub_state_scheme \<Rightarrow> 'a hub_state_scheme \<Rightarrow> signed_checkin \<Rightarrow>
   checked_checkin \<Rightarrow> observation_decision \<Rightarrow> admitted_proofs \<Rightarrow> i64 \<Rightarrow>
   'h manifold_adapter \<times> 'a hub_state_scheme \<times> checkin_receipt" where
  "reviewed_admission env a hub candidate_hub signed c fleet_decision proofs now_ms =
    (let checkin_id = cc_checkin_id (sgc_claims signed) in
     case me_review_proposal env (peer_review_case a signed c now_ms) of (decision, application) \<Rightarrow>
       if \<not> pa_applied application
       then (a, hub, (rejected checkin_id Manifold_Rejected)
          \<lparr>ckr_manifold_decision := Some decision, ckr_manifold_application := Some application\<rparr>)
       else case pd_accepted_state decision of
         None \<Rightarrow> (a, hub, rejected checkin_id Manifold_Rejected)
       | Some state \<Rightarrow>
          (if ap_authority_revision state \<noteq> u64_saturating_add (ap_authority_revision (ma_accepted_peers a)) 1
           then (a, hub, rejected checkin_id Authority_Evidence_Mismatch)
           else (a\<lparr>ma_accepted_peers := drained_peers state, ma_termux_proofs := proofs,
               ma_seen_checkins := bt_insert checkin_id (cc_expires_at_ms (sgc_claims signed)) (ma_seen_checkins a)\<rparr>,
             candidate_hub,
             \<lparr>ckr_schema = ''rusty.fleet.checkin_receipt.v1'', ckr_checkin_id = checkin_id, ckr_accepted = True,
               ckr_rejection_reason = None, ckr_manifold_decision = Some decision,
               ckr_manifold_application = Some application, ckr_fleet_decision = Some fleet_decision\<rparr>)))"

definition previewed_admission ::
  "'h manifold_env \<Rightarrow> 'h manifold_adapter \<Rightarrow> 'a hub_state_scheme \<Rightarrow> signed_checkin \<Rightarrow> checked_checkin \<Rightarrow> i64 \<Rightarrow>
   'h manifold_adapter \<times> 'a hub_state_scheme \<times> checkin_receipt" where
  "previewed_admission env a hub signed c now_ms =
    (let checkin_id = cc_checkin_id (sgc_claims signed) in
     case accept_observation (codec_observation_bytes (me_codec env)) (codec_json_bytes (me_codec env)) hub
         (admitted_observation a hub signed now_ms) now_ms of
       (candidate_hub, fleet_decision) \<Rightarrow>
        (case fleet_decision of
           Decision_Rejected _ _ _ _ _ \<Rightarrow>
             (a, hub, (rejected checkin_id Fleet_Rejected)\<lparr>ckr_fleet_decision := Some fleet_decision\<rparr>)
         | Decision_Accepted fleet_accepted_revision _ _ \<Rightarrow>
            (case candidate_proofs env a candidate_hub signed c fleet_accepted_revision now_ms of
               Inl reason \<Rightarrow> (a, hub, rejected checkin_id reason)
             | Inr proofs \<Rightarrow>
                 reviewed_admission env a hub candidate_hub signed c fleet_decision proofs now_ms)))"

definition accept_checkin ::
  "'h manifold_env \<Rightarrow> 'h manifold_adapter \<Rightarrow> 'a hub_state_scheme \<Rightarrow> signed_checkin \<Rightarrow> i64 \<Rightarrow>
   'h manifold_adapter \<times> 'a hub_state_scheme \<times> checkin_receipt" where
  "accept_checkin env a hub signed now_ms =
    (let claims = sgc_claims signed; checkin_id = cc_checkin_id claims in
     if \<not> valid (validate_signed_checkin (me_codec env) signed)
     then (a, hub, rejected checkin_id Checkin_Contract_Invalid)
     else if now_ms < cc_issued_at_ms claims \<or> now_ms \<ge> cc_expires_at_ms claims
     then (a, hub, rejected checkin_id Stale_Or_Future)
     else
      (let seen = bt_retain (\<lambda>_ expires_at_ms. expires_at_ms > now_ms) (ma_seen_checkins a);
           a = a\<lparr>ma_seen_checkins := seen\<rparr> in
       if bt_contains_key seen checkin_id then (a, hub, rejected checkin_id Checkin_Replay)
       else if bt_len seen \<ge> max_seen_checkins then (a, hub, rejected checkin_id Evidence_Limit_Exceeded)
       else case checked_envelope env (ma_enrollment a) signed now_ms of
         Inl reason \<Rightarrow> (a, hub, rejected checkin_id reason)
       | Inr c \<Rightarrow> previewed_admission env a hub signed c now_ms))"

end
