(* ===== verification/Manifold_Authority.thy ===== *)
theory Manifold_Authority
  imports Manifold_Admission
begin

text \<open>
  crates/fleet-manifold-adapter/src/lib.rs: the authorization of owner commands by the Manifold runtime host, one
  request per operation, target and owner action, and the projection of admitted Termux proofs onto the Wi-Fi
  ADB operations.
\<close>

section \<open>Request identities\<close>

definition manifold_request_text :: "string \<Rightarrow> string list \<Rightarrow> string" where
  "manifold_request_text domain parts =
     domain @ [char_of (0 :: nat)] @ concat (map (\<lambda>part. part @ [char_of (0 :: nat)]) parts)"

definition kiosk_manifold_request_id :: "kiosk_crypto \<Rightarrow> string \<Rightarrow> string \<Rightarrow> string \<Rightarrow> string" where
  "kiosk_manifold_request_id x operation_id device_id owner_action_request_id =
     ''request.fleet.kiosk.'' @ sha256_hex x (manifold_request_text ''rusty.fleet.kiosk.manifold-request.v1''
       [operation_id, device_id, owner_action_request_id])"

definition package_manifold_request_id :: "kiosk_crypto \<Rightarrow> string \<Rightarrow> string \<Rightarrow> string \<Rightarrow> string" where
  "package_manifold_request_id x operation_id device_id owner_action_request_id =
     ''request.fleet.packages.'' @ sha256_hex x (manifold_request_text ''rusty.fleet.packages.manifold-request.v1''
       [operation_id, device_id, owner_action_request_id])"

definition quest_awake_manifold_request_id :: "kiosk_crypto \<Rightarrow> string \<Rightarrow> string \<Rightarrow> string \<Rightarrow> string" where
  "quest_awake_manifold_request_id x operation_id device_id owner_action_request_id =
     ''request.fleet.quest-awake.'' @ sha256_hex x
       (manifold_request_text ''rusty.fleet.quest-awake.manifold-request.v1''
         [operation_id, device_id, owner_action_request_id])"

definition quest_wifi_adb_manifold_request_id :: "kiosk_crypto \<Rightarrow> string \<Rightarrow> string \<Rightarrow> string \<Rightarrow> string" where
  "quest_wifi_adb_manifold_request_id x operation_id device_id owner_action_request_id =
     ''request.fleet.quest-wifi-adb.'' @ sha256_hex x
       (manifold_request_text ''rusty.fleet.quest-wifi-adb.manifold-request.v1''
         [operation_id, device_id, owner_action_request_id])"

definition windows_hotspot_manifold_request_id :: "kiosk_crypto \<Rightarrow> string \<Rightarrow> string \<Rightarrow> string \<Rightarrow> string" where
  "windows_hotspot_manifold_request_id x operation_id lease_id owner_action_request_id =
     ''request.fleet.windows-hotspot.'' @ sha256_hex x
       (manifold_request_text ''rusty.fleet.windows-hotspot.manifold-request.v1''
         [operation_id, lease_id, owner_action_request_id])"

section \<open>Authorizations\<close>

datatype authority_error =
  Authorization_Invalid | Identity_Unbound | Terminal_Revision | Params_Not_Canonical | Params_Too_Large
| Invalid_Request_Id | Invalid_Requester_Id | Review_Rejected | Application_Rejected

text \<open>The members every authorization has; the lifetime is bounded per command.\<close>

record command_authorization =
  cau_manifold_request_id :: string
  cau_owner_action_request_id :: string
  cau_requester_id :: string
  cau_operation_id :: string
  cau_preview_id :: string
  cau_issued_at_ms :: u64
  cau_expires_at_ms :: u64

record device_authorization = command_authorization +
  cau_device_id :: string
  cau_identity_revision :: u64

record package_authorization = device_authorization +
  cau_release :: package_release
  cau_expected_package_name :: string
  cau_expected_rollout_ring :: string

record awake_authorization = device_authorization +
  cau_awake_action :: awake_action
  cau_duration_ms :: u32
  cau_watchdog_interval_ms :: u32
  cau_watchdog_generation :: string

record wifi_authorization = device_authorization +
  cau_wifi_action :: wifi_action

record hotspot_authorization = command_authorization +
  cau_lease_id :: string
  cau_lease_generation :: string
  cau_hotspot_action :: hotspot_action
  cau_ownership_generation :: "string option"

record authority_receipt =
  aur_request :: command_request
  aur_dispatch :: dispatch_receipt
  aur_application :: application_receipt

definition blank_or_longer :: "string \<Rightarrow> usize \<Rightarrow> bool" where
  "blank_or_longer s limit \<longleftrightarrow> s = [] \<or> length s > limit"

definition window_refused :: "u64 \<Rightarrow> 'a command_authorization_scheme \<Rightarrow> u64 \<Rightarrow> bool" where
  "window_refused lifetime a now_ms \<longleftrightarrow> cau_issued_at_ms a > now_ms \<or> now_ms \<ge> cau_expires_at_ms a \<or>
     cau_expires_at_ms a \<le> cau_issued_at_ms a \<or> cau_expires_at_ms a - cau_issued_at_ms a > lifetime"

definition device_refused :: "'a device_authorization_scheme \<Rightarrow> bool" where
  "device_refused a \<longleftrightarrow> blank_or_longer (cau_operation_id a) 256 \<or> blank_or_longer (cau_preview_id a) 256 \<or>
     blank_or_longer (cau_device_id a) 256 \<or> cau_identity_revision a = 0"

definition command_request_of ::
  "'h manifold_env \<Rightarrow> 'h manifold_adapter \<Rightarrow> 'a command_authorization_scheme \<Rightarrow> string \<Rightarrow> string \<Rightarrow> string \<Rightarrow>
   command_request" where
  "command_request_of env m a command_id params_type_id canonical_params = \<lparr>
     cmd_request_id = cau_manifold_request_id a,
     cmd_expected_authority_revision = hs_authority_revision (me_host_snapshot env (ma_runtime_host m)),
     cmd_requester_id = cau_requester_id a,
     cmd_command_id = command_id,
     cmd_params_digest = \<lparr>pg_params_type_id = params_type_id,
       pg_canonical_sha256 = ''sha256:'' @ sha256_hex (me_crypto env) canonical_params,
       pg_canonical_size_bytes = length canonical_params\<rparr>,
     cmd_issued_at_ms = cau_issued_at_ms a,
     cmd_expires_at_ms = cau_expires_at_ms a\<rparr>"

text \<open>
  From the identity check on, the five methods differ in the request identity, the command, the type and the
  bound of the parameters. A host that refuses to apply a dispatch is kept as it then is.
\<close>

definition dispatch_command ::
  "'h manifold_env \<Rightarrow> 'h manifold_adapter \<Rightarrow> 'a command_authorization_scheme \<Rightarrow> string \<Rightarrow> string \<Rightarrow> string \<Rightarrow>
   typed_params \<Rightarrow> usize \<Rightarrow> u64 \<Rightarrow> 'h manifold_adapter \<times> (authority_error + authority_receipt)" where
  "dispatch_command env m a expected_request_id command_id params_type_id params limit now_ms =
    (if cau_owner_action_request_id a = [] \<or> cau_manifold_request_id a \<noteq> expected_request_id
     then (m, Inl Identity_Unbound)
     else if hs_authority_revision (me_host_snapshot env (ma_runtime_host m)) = u64_max
     then (m, Inl Terminal_Revision)
     else case me_params_jcs env params of
       None \<Rightarrow> (m, Inl Params_Not_Canonical)
     | Some canonical_params \<Rightarrow>
        (if canonical_params = [] \<or> length canonical_params > limit then (m, Inl Params_Too_Large)
         else if \<not> me_is_dotted_id env (cau_manifold_request_id a) then (m, Inl Invalid_Request_Id)
         else if \<not> me_is_dotted_id env (cau_requester_id a) then (m, Inl Invalid_Requester_Id)
         else
          (let request = command_request_of env m a command_id params_type_id canonical_params;
               dispatch = me_review_command env (ma_runtime_host m) request now_ms in
           if \<not> dr_ready dispatch then (m, Inl Review_Rejected)
           else case me_apply_dispatch env (ma_runtime_host m) request dispatch now_ms of
             (host, application) \<Rightarrow>
               (m\<lparr>ma_runtime_host := host\<rparr>,
                if \<not> ar_applied application then Inl Application_Rejected
                else Inr \<lparr>aur_request = request, aur_dispatch = dispatch, aur_application = application\<rparr>))))"

definition max_kiosk_command_lifetime_ms :: u64 where
  "max_kiosk_command_lifetime_ms = 90000"

definition max_package_command_lifetime_ms :: u64 where
  "max_package_command_lifetime_ms = 15 * 60000"

definition max_awake_command_lifetime_ms :: u64 where
  "max_awake_command_lifetime_ms = 15 * 60000"

definition max_wifi_command_lifetime_ms :: u64 where
  "max_wifi_command_lifetime_ms = 15 * 60000"

definition max_hotspot_command_lifetime_ms :: u64 where
  "max_hotspot_command_lifetime_ms = 5 * 60000"

definition authorize_kiosk_show_controls ::
  "'h manifold_env \<Rightarrow> 'h manifold_adapter \<Rightarrow> device_authorization \<Rightarrow> u64 \<Rightarrow>
   'h manifold_adapter \<times> (authority_error + authority_receipt)" where
  "authorize_kiosk_show_controls env m a now_ms =
    (if device_refused a \<or> window_refused max_kiosk_command_lifetime_ms a now_ms
     then (m, Inl Authorization_Invalid)
     else dispatch_command env m a
       (kiosk_manifold_request_id (me_crypto env) (cau_operation_id a) (cau_device_id a)
         (cau_owner_action_request_id a))
       kiosk_show_controls_command ''rusty.fleet.kiosk.show-controls.params.v1''
       (Kiosk_Params (cau_operation_id a) (cau_preview_id a) (cau_device_id a) (cau_identity_revision a))
       4096 now_ms)"

definition authorize_package_install_release ::
  "'h manifold_env \<Rightarrow> 'h manifold_adapter \<Rightarrow> package_authorization \<Rightarrow> u64 \<Rightarrow>
   'h manifold_adapter \<times> (authority_error + authority_receipt)" where
  "authorize_package_install_release env m a now_ms =
    (if device_refused a \<or> blank_or_longer (cau_expected_package_name a) 255 \<or>
        blank_or_longer (cau_expected_rollout_ring a) 128 \<or> \<not> valid (validate_package_release (cau_release a)) \<or>
        window_refused max_package_command_lifetime_ms a now_ms
     then (m, Inl Authorization_Invalid)
     else dispatch_command env m a
       (package_manifold_request_id (me_crypto env) (cau_operation_id a) (cau_device_id a)
         (cau_owner_action_request_id a))
       packages_install_release_action_id ''rusty.fleet.packages.install-release.params.v1''
       (Package_Params (cau_operation_id a) (cau_preview_id a) (cau_device_id a) (cau_identity_revision a)
         (cau_release a) (cau_expected_package_name a) (cau_expected_rollout_ring a))
       8192 now_ms)"

definition authorize_quest_awake ::
  "'h manifold_env \<Rightarrow> 'h manifold_adapter \<Rightarrow> awake_authorization \<Rightarrow> u64 \<Rightarrow>
   'h manifold_adapter \<times> (authority_error + authority_receipt)" where
  "authorize_quest_awake env m a now_ms =
    (if device_refused a \<or> blank_or_longer (cau_watchdog_generation a) 256 \<or>
        \<not> (60000 \<le> cau_duration_ms a \<and> cau_duration_ms a \<le> 28800000) \<or>
        \<not> (1000 \<le> cau_watchdog_interval_ms a \<and> cau_watchdog_interval_ms a \<le> 60000) \<or>
        window_refused max_awake_command_lifetime_ms a now_ms
     then (m, Inl Authorization_Invalid)
     else dispatch_command env m a
       (quest_awake_manifold_request_id (me_crypto env) (cau_operation_id a) (cau_device_id a)
         (cau_owner_action_request_id a))
       awake_action_id ''rusty.fleet.quest.awake-control.params.v1''
       (Awake_Params (cau_operation_id a) (cau_preview_id a) (cau_device_id a) (cau_identity_revision a)
         (cau_awake_action a) (cau_duration_ms a) (cau_watchdog_interval_ms a) (cau_watchdog_generation a))
       8192 now_ms)"

definition authorize_quest_wifi_adb ::
  "'h manifold_env \<Rightarrow> 'h manifold_adapter \<Rightarrow> wifi_authorization \<Rightarrow> u64 \<Rightarrow>
   'h manifold_adapter \<times> (authority_error + authority_receipt)" where
  "authorize_quest_wifi_adb env m a now_ms =
    (if device_refused a \<or> window_refused max_wifi_command_lifetime_ms a now_ms
     then (m, Inl Authorization_Invalid)
     else dispatch_command env m a
       (quest_wifi_adb_manifold_request_id (me_crypto env) (cau_operation_id a) (cau_device_id a)
         (cau_owner_action_request_id a))
       wifi_action_id ''rusty.fleet.quest.wifi-adb-control.params.v1''
       (Wifi_Params (cau_operation_id a) (cau_preview_id a) (cau_device_id a) (cau_identity_revision a)
         (cau_wifi_action a))
       8192 now_ms)"

definition generations_valid :: "hotspot_authorization \<Rightarrow> bool" where
  "generations_valid a = (case cau_hotspot_action a of
     Hotspot_Status \<Rightarrow> cau_ownership_generation a = None
   | Hotspot_Start \<Rightarrow> cau_ownership_generation a = None
   | Hotspot_Ensure \<Rightarrow> none_or (\<lambda>g. g \<noteq> []) (cau_ownership_generation a)
   | Hotspot_Stop \<Rightarrow> some_and (\<lambda>g. g \<noteq> []) (cau_ownership_generation a))"

definition authorize_windows_hotspot ::
  "'h manifold_env \<Rightarrow> 'h manifold_adapter \<Rightarrow> hotspot_authorization \<Rightarrow> u64 \<Rightarrow>
   'h manifold_adapter \<times> (authority_error + authority_receipt)" where
  "authorize_windows_hotspot env m a now_ms =
    (if blank_or_longer (cau_operation_id a) 256 \<or> blank_or_longer (cau_preview_id a) 256 \<or>
        blank_or_longer (cau_lease_id a) 256 \<or> blank_or_longer (cau_lease_generation a) 256 \<or>
        window_refused max_hotspot_command_lifetime_ms a now_ms
     then (m, Inl Authorization_Invalid)
     else if \<not> generations_valid a then (m, Inl Identity_Unbound)
     else dispatch_command env m a
       (windows_hotspot_manifold_request_id (me_crypto env) (cau_operation_id a) (cau_lease_id a)
         (cau_owner_action_request_id a))
       hotspot_action_id ''rusty.fleet.windows-hotspot.params.v1''
       (Hotspot_Params (cau_operation_id a) (cau_preview_id a) (cau_lease_id a) (cau_lease_generation a)
         (cau_hotspot_action a) (cau_ownership_generation a))
       8192 now_ms)"

definition has_applied_kiosk_authorization ::
  "'h manifold_env \<Rightarrow> 'h manifold_adapter \<Rightarrow> string \<Rightarrow> string \<Rightarrow> string \<Rightarrow> bool" where
  "has_applied_kiosk_authorization env m operation_id device_id owner_action_request_id \<longleftrightarrow>
     kiosk_manifold_request_id (me_crypto env) operation_id device_id owner_action_request_id \<in>
       set (hs_applied_request_ids (me_host_snapshot env (ma_runtime_host m)))"

definition has_applied_package_authorization ::
  "'h manifold_env \<Rightarrow> 'h manifold_adapter \<Rightarrow> string \<Rightarrow> string \<Rightarrow> string \<Rightarrow> bool" where
  "has_applied_package_authorization env m operation_id device_id owner_action_request_id \<longleftrightarrow>
     package_manifold_request_id (me_crypto env) operation_id device_id owner_action_request_id \<in>
       set (hs_applied_request_ids (me_host_snapshot env (ma_runtime_host m)))"

section \<open>Projection of admitted proofs\<close>

datatype projection_error = Projection_Hub hub_error | Projection_Invalid "contract_violation list"

text \<open>\<^verbatim>\<open>Iterator::max_by_key\<close> yields the last of the greatest elements.\<close>

definition max_by :: "('a \<Rightarrow> 'a \<Rightarrow> bool) \<Rightarrow> 'a list \<Rightarrow> 'a option" where
  "max_by below xs = foldl (\<lambda>best x. case best of
     None \<Rightarrow> Some x | Some b \<Rightarrow> if below b x then Some x else Some b) None xs"

definition proof_not_after :: "admitted_proof \<Rightarrow> admitted_proof \<Rightarrow> bool" where
  "proof_not_after p q \<longleftrightarrow> tp_source_revision (adp_proof p) < tp_source_revision (adp_proof q) \<or>
     tp_source_revision (adp_proof p) = tp_source_revision (adp_proof q) \<and>
     tp_observed_at_ms (adp_proof p) \<le> tp_observed_at_ms (adp_proof q)"

definition admission_binds :: "string \<Rightarrow> wifi_target \<Rightarrow> wifi_receipt \<Rightarrow> admitted_admission \<Rightarrow> bool" where
  "admission_binds operation_id t r a \<longleftrightarrow> aa_bound_operation_id a = operation_id \<and>
     aa_bound_receipt_request_id a = wr_request_id r \<and>
     aa_bound_receipt_evidence_sha256 a = wr_evidence_sha256 r \<and>
     aa_bound_receipt_updated_at_ms a = wt_updated_at_ms t"

definition proof_applies ::
  "'a hub_state_scheme \<Rightarrow> string \<Rightarrow> wifi_target \<Rightarrow> string \<Rightarrow> admitted_proof \<Rightarrow> bool" where
  "proof_applies h operation_id t row_source_epoch admitted \<longleftrightarrow> (let p = adp_proof admitted in
     tp_device_id p = wt_device_id t \<and> tp_identity_revision p = wt_identity_revision t \<and>
     some_and (\<lambda>a. aa_consumption_state a = Bound_To_Exact_Owner_Receipt \<and>
       aa_bound_operation_id a = operation_id \<and> some_and (\<lambda>r. admission_binds operation_id t r a) (wt_receipt t))
       (adp_admission admitted) \<and>
     tp_source_epoch p = row_source_epoch \<and>
     some_and (\<lambda>(_, source_revision, identity_revision). tp_source_revision p = source_revision \<and>
       tp_identity_revision p = identity_revision) (device_source_lineage h (wt_device_id t)))"

definition projected_admission ::
  "(string \<Rightarrow> string) \<Rightarrow> wifi_target \<Rightarrow> admitted_proof \<Rightarrow> admitted_admission \<Rightarrow> termux_admission" where
  "projected_admission sha t admitted base =
    (let p = adp_proof admitted; admission = \<lparr>
       ta_schema = termux_admission_schema, ta_checkin_id = adp_checkin_id admitted,
       ta_operation_id = aa_bound_operation_id base, ta_device_id = wt_device_id t,
       ta_identity_revision = wt_identity_revision t, ta_source_epoch = tp_source_epoch p,
       ta_source_revision = tp_source_revision p, ta_evidence_revision = tp_evidence_revision p,
       ta_proof_id = tp_proof_id p, ta_receipt_request_id = aa_bound_receipt_request_id base,
       ta_receipt_evidence_sha256 = aa_bound_receipt_evidence_sha256 base,
       ta_key_id = aa_key_id base, ta_key_generation = aa_key_generation base,
       ta_public_key_sha256 = aa_public_key_sha256 base, ta_claims_jcs_sha256 = aa_claims_jcs_sha256 base,
       ta_signing_message_sha256 = aa_signing_message_sha256 base,
       ta_signature_sha256 = aa_signature_sha256 base,
       ta_fleet_accepted_revision = aa_fleet_accepted_revision base,
       ta_enrollment_authority_revision = aa_enrollment_authority_revision base,
       ta_manifold_authority_revision = aa_manifold_authority_revision base,
       ta_signature_verified = True, ta_canonical_claims_verified = True, ta_enrollment_active = True,
       ta_accepted_at_ms = adp_accepted_at_ms admitted, ta_expires_at_ms = adp_checkin_expires_at_ms admitted,
       ta_lineage_sha256 = []\<rparr>
     in admission\<lparr>ta_lineage_sha256 := expected_lineage_sha256 sha admission\<rparr>)"

definition disabled_after_proof :: "'a hub_state_scheme \<Rightarrow> string \<Rightarrow> admitted_proof \<Rightarrow> bool" where
  "disabled_after_proof h device_id admitted \<longleftrightarrow>
     list_ex (\<lambda>candidate. wv_action (wop_preview candidate) = DisableWirelessAdb \<and>
       list_ex (\<lambda>t. wt_device_id t = device_id \<and> some_and (\<lambda>r. wr_effect_applied r \<and>
         wt_updated_at_ms t \<ge> adp_accepted_at_ms admitted) (wt_receipt t)) (wop_targets candidate))
       (quest_wifi_adb_operations h)"

text \<open>A target with the proof that applies to it: the admission, and whether the route is usable.\<close>

definition proven_target ::
  "(string \<Rightarrow> string) \<Rightarrow> 'a hub_state_scheme \<Rightarrow> string \<Rightarrow> wifi_action \<Rightarrow> i64 \<Rightarrow> admitted_proof \<Rightarrow> wifi_target \<Rightarrow>
   wifi_target" where
  "proven_target sha h operation_id action now_ms admitted t =
    (let p = adp_proof admitted;
         admission = (case (adp_admission admitted, wt_receipt t) of
           (Some base, Some _) \<Rightarrow> Some (projected_admission sha t admitted base)
         | _ \<Rightarrow> wt_termux_admission t);
         receipt_matches = some_and (\<lambda>r. wr_effect_applied r \<and> wr_route_mode r = ModernTls \<and>
           some_and (admission_binds operation_id t r) (adp_admission admitted) \<and>
           adp_accepted_at_ms admitted > wt_updated_at_ms t) (wt_receipt t)
     in t\<lparr>wt_termux_proof := Some p, wt_termux_admission := admission,
       wt_termux_usable := (tp_available p \<and> admission \<noteq> None \<and> tp_fresh_until_ms p > now_ms \<and>
         receipt_matches \<and> action \<noteq> DisableWirelessAdb \<and>
         \<not> disabled_after_proof h (wt_device_id t) admitted),
       wt_updated_at_ms := max (wt_updated_at_ms t) (adp_accepted_at_ms admitted)\<rparr>)"

definition applying_proof ::
  "'h manifold_adapter \<Rightarrow> 'a hub_state_scheme \<Rightarrow> string \<Rightarrow> wifi_target \<Rightarrow> string \<Rightarrow> admitted_proof option" where
  "applying_proof m h operation_id t row_source_epoch =
     max_by proof_not_after (filter (proof_applies h operation_id t row_source_epoch)
       (bt_values (ma_termux_proofs m)))"

text \<open>The loop over the targets, which raises the time of the operation to that of each proof it meets.\<close>

fun projected_targets ::
  "(string \<Rightarrow> string) \<Rightarrow> 'h manifold_adapter \<Rightarrow> 'a hub_state_scheme \<Rightarrow> string \<Rightarrow> wifi_action \<Rightarrow> i64 \<Rightarrow> i64 \<Rightarrow>
   wifi_target list \<Rightarrow> hub_error + (wifi_target list \<times> i64)" where
  "projected_targets sha m h operation_id action now_ms updated_at_ms [] = Inr ([], updated_at_ms)"
| "projected_targets sha m h operation_id action now_ms updated_at_ms (t # ts) =
    (case hub_inspect h (wt_device_id t) now_ms of
       Inl e \<Rightarrow> Inl e
     | Inr current \<Rightarrow>
        (let (t', updated') = (case applying_proof m h operation_id t (dr_source_epoch (dins_row current)) of
             None \<Rightarrow> (t, updated_at_ms)
           | Some admitted \<Rightarrow> (proven_target sha h operation_id action now_ms admitted t,
               max updated_at_ms (adp_accepted_at_ms admitted)))
         in case projected_targets sha m h operation_id action now_ms updated' ts of
              Inl e \<Rightarrow> Inl e
            | Inr (ts', final) \<Rightarrow> Inr (t' # ts', final)))"

definition projected_wifi_operation ::
  "(string \<Rightarrow> string) \<Rightarrow> 'h manifold_adapter \<Rightarrow> 'a hub_state_scheme \<Rightarrow> string \<Rightarrow> i64 \<Rightarrow>
   projection_error + wifi_operation" where
  "projected_wifi_operation sha m h operation_id now_ms =
    (case quest_wifi_adb_operation h operation_id of
       Inl e \<Rightarrow> Inl (Projection_Hub e)
     | Inr op \<Rightarrow>
        (case projected_targets sha m h (wop_operation_id op) (wv_action (wop_preview op)) now_ms
            (wop_updated_at_ms op) (wop_targets op) of
           Inl e \<Rightarrow> Inl (Projection_Hub e)
         | Inr (targets, updated_at_ms) \<Rightarrow>
            (let projected = op\<lparr>wop_targets := targets, wop_updated_at_ms := updated_at_ms\<rparr>
             in case validate_wifi_operation sha projected of
                  Inl failures \<Rightarrow> Inl (Projection_Invalid failures)
                | Inr _ \<Rightarrow> Inr projected)))"

fun collect_results :: "('a \<Rightarrow> 'e + 'b) \<Rightarrow> 'a list \<Rightarrow> 'e + 'b list" where
  "collect_results f [] = Inr []"
| "collect_results f (x # xs) = (case f x of
     Inl e \<Rightarrow> Inl e
   | Inr y \<Rightarrow> (case collect_results f xs of Inl e \<Rightarrow> Inl e | Inr ys \<Rightarrow> Inr (y # ys)))"

definition projected_wifi_operations ::
  "(string \<Rightarrow> string) \<Rightarrow> 'h manifold_adapter \<Rightarrow> 'a hub_state_scheme \<Rightarrow> i64 \<Rightarrow>
   projection_error + wifi_operation list" where
  "projected_wifi_operations sha m h now_ms =
     collect_results (\<lambda>op. projected_wifi_operation sha m h (wop_operation_id op) now_ms)
       (quest_wifi_adb_operations h)"

end
