(* ===== verification/Manifold_Runs.thy ===== *)
theory Manifold_Runs
  imports Manifold_Authority
begin

text \<open>
  The adapter and the Hub as one state machine, in the order their callers use them: check-ins, enrollments,
  authorizations, the Hub's commands other than a bare observation, and restarts from the adapter's snapshot.
\<close>

text \<open>
  What an admission does when it succeeds and when it is refused, and the adapter and the Hub as one state
  machine: check-ins, enrollments, authorizations, the Hub's other commands and restarts from a snapshot.
\<close>

section \<open>Retaining\<close>

lemma bt_get_retain [simp]:
  "bt_get (bt_retain P m) k = (case bt_get m k of None \<Rightarrow> None | Some v \<Rightarrow> if P k v then Some v else None)"
proof -
  have "map_of (filter (\<lambda>(k, v). P k v) xs) k =
      (case map_of xs k of None \<Rightarrow> None | Some v \<Rightarrow> if P k v then Some v else None)"
    if "strictly_sorted (map fst xs)" for xs
    using that
  proof (induction xs)
    case (Cons x xs)
    have "k \<notin> fst ` set xs" if "fst x = k"
      using Cons.prems that by (auto simp: strictly_sorted_def)
    with Cons show ?case
      by (cases x) (auto simp: strictly_sorted_def map_of_eq_None_iff split: option.splits)
  qed simp
  from this [OF strictly_sorted_entries [of m]] show ?thesis
    by (simp add: bt_get_def bt_retain.rep_eq)
qed

lemma bt_contains_key_retain [simp]:
  "bt_contains_key (bt_retain P m) k \<longleftrightarrow> (\<exists>v. bt_get m k = Some v \<and> P k v)"
  by (auto simp: bt_contains_key_def split: option.splits)

section \<open>Admissions that succeed\<close>

definition unexpired :: "'h manifold_adapter \<Rightarrow> i64 \<Rightarrow> 'h manifold_adapter" where
  "unexpired a now_ms = a\<lparr>ma_seen_checkins := bt_retain (\<lambda>_ expires_at_ms. expires_at_ms > now_ms) (ma_seen_checkins a)\<rparr>"

lemma rejected_simps [simp]:
  "\<not> ckr_accepted (rejected i r)" "ckr_rejection_reason (rejected i r) = Some r"
  by (simp_all add: rejected_def)

lemma unexpired_simps [simp]:
  "ma_enrollment (unexpired a now) = ma_enrollment a" "ma_accepted_peers (unexpired a now) = ma_accepted_peers a"
  "ma_runtime_host (unexpired a now) = ma_runtime_host a" "ma_termux_proofs (unexpired a now) = ma_termux_proofs a"
  "bt_get (ma_seen_checkins (unexpired a now)) k =
     (case bt_get (ma_seen_checkins a) k of None \<Rightarrow> None | Some e \<Rightarrow> if e > now then Some e else None)"
  by (simp_all add: unexpired_def)

lemma accepted_checkin:
  assumes "accept_checkin env a h signed now = (a', h', receipt)" and "ckr_accepted receipt"
  obtains c rev d srev proofs decision application state where
    "valid (validate_signed_checkin (me_codec env) signed)"
    "cc_issued_at_ms (sgc_claims signed) \<le> now" "now < cc_expires_at_ms (sgc_claims signed)"
    "bt_get (ma_seen_checkins (unexpired a now)) (cc_checkin_id (sgc_claims signed)) = None"
    "bt_len (ma_seen_checkins (unexpired a now)) < max_seen_checkins"
    "checked_envelope env (ma_enrollment a) signed now = Inr c"
    "accept_observation (codec_observation_bytes (me_codec env)) (codec_json_bytes (me_codec env)) h
       (admitted_observation (unexpired a now) h signed now) now = (h', Decision_Accepted rev d srev)"
    "candidate_proofs env (unexpired a now) h' signed c rev now = Inr proofs"
    "me_review_proposal env (peer_review_case (unexpired a now) signed c now) = (decision, application)"
    "pa_applied application" "pd_accepted_state decision = Some state"
    "ap_authority_revision state = u64_saturating_add (ap_authority_revision (ma_accepted_peers a)) 1"
    "a' = (unexpired a now)\<lparr>ma_accepted_peers := drained_peers state, ma_termux_proofs := proofs,
       ma_seen_checkins := bt_insert (cc_checkin_id (sgc_claims signed)) (cc_expires_at_ms (sgc_claims signed))
         (ma_seen_checkins (unexpired a now))\<rparr>"
proof -
  have valid: "valid (validate_signed_checkin (me_codec env) signed)"
    "cc_issued_at_ms (sgc_claims signed) \<le> now" "now < cc_expires_at_ms (sgc_claims signed)"
    "\<not> bt_contains_key (ma_seen_checkins (unexpired a now)) (cc_checkin_id (sgc_claims signed))"
    "bt_len (ma_seen_checkins (unexpired a now)) < max_seen_checkins"
    using assms by (auto simp: accept_checkin_def Let_def unexpired_def split: if_splits)
  then obtain c where c: "checked_envelope env (ma_enrollment a) signed now = Inr c"
    and p: "previewed_admission env (unexpired a now) h signed c now = (a', h', receipt)"
    using assms by (auto simp: accept_checkin_def Let_def unexpired_def split: if_splits sum.splits)
  obtain h2 rev d srev proofs where obs:
    "accept_observation (codec_observation_bytes (me_codec env)) (codec_json_bytes (me_codec env)) h
       (admitted_observation (unexpired a now) h signed now) now = (h2, Decision_Accepted rev d srev)"
    "candidate_proofs env (unexpired a now) h2 signed c rev now = Inr proofs"
    and r: "reviewed_admission env (unexpired a now) h h2 signed c (Decision_Accepted rev d srev) proofs now =
      (a', h', receipt)"
    using p assms(2)
    by (auto simp: previewed_admission_def Let_def split: prod.splits observation_decision.splits sum.splits)
  obtain decision application state where review:
    "me_review_proposal env (peer_review_case (unexpired a now) signed c now) = (decision, application)"
    "pa_applied application" "pd_accepted_state decision = Some state"
    "ap_authority_revision state = u64_saturating_add (ap_authority_revision (ma_accepted_peers a)) 1"
    "h' = h2" "a' = (unexpired a now)\<lparr>ma_accepted_peers := drained_peers state, ma_termux_proofs := proofs,
       ma_seen_checkins := bt_insert (cc_checkin_id (sgc_claims signed)) (cc_expires_at_ms (sgc_claims signed))
         (ma_seen_checkins (unexpired a now))\<rparr>"
    using r assms(2) by (auto simp: reviewed_admission_def Let_def split: prod.splits option.splits if_splits)
  show ?thesis
    by (rule that [OF valid(1-3) _ valid(5) c _ _ review(1-4) review(6)])
      (use valid(4) obs review(5) in \<open>auto simp: bt_contains_key_def\<close>)
qed

section \<open>Admissions that are refused\<close>

lemma refused_checkin:
  assumes "accept_checkin env a h signed now = (a', h', receipt)" and "\<not> ckr_accepted receipt"
  shows "h' = h" and "a' = a \<or> a' = unexpired a now"
proof -
  have review: "x = a1 \<and> y = h1" if "reviewed_admission env a1 h1 h2 signed c d proofs now = (x, y, z)"
      "\<not> ckr_accepted z" for a1 h1 h2 c d proofs x y z
    using that by (auto simp: reviewed_admission_def Let_def split: prod.splits option.splits if_splits)
  have preview: "x = a1 \<and> y = h1" if "previewed_admission env a1 h1 signed c now = (x, y, z)"
      "\<not> ckr_accepted z" for a1 h1 c x y z
    using that
    by (auto simp: previewed_admission_def Let_def split: prod.splits observation_decision.splits sum.splits
        dest: review)
  show "h' = h" "a' = a \<or> a' = unexpired a now"
    using assms
    by (auto simp: accept_checkin_def Let_def unexpired_def split: if_splits sum.splits dest: preview)
qed

section \<open>What the checks of the envelope establish\<close>

lemma checked_envelope_facts:
  assumes "checked_envelope env enrollment signed now = Inr c"
  shows "me_proposal env (cc_manifold_peer_status_proposal (sgc_claims signed)) = Some (kc_proposal c)"
    and "sp_identity_peer_id (kc_proposal c) = di_device_id (do_identity (cc_observation (sgc_claims signed)))"
    and "kc_credential c \<in> set (en_credentials enrollment)"
    and "pc_key_id (kc_credential c) = sgc_key_id signed \<and> pc_peer_id (kc_credential c) = sp_identity_peer_id (kc_proposal c) \<and>
      pc_active (kc_credential c)"
    and "0 \<le> now \<and> int (pc_valid_from_ms (kc_credential c)) \<le> now \<and> now < int (pc_expires_at_ms (kc_credential c))"
    and "verify_signature env (pc_public_key_hex (kc_credential c)) signed"
    and "int (sp_observed_at_ms (kc_proposal c)) = do_source_time_ms (cc_observation (sgc_claims signed))"
    and "int (sp_expires_at_ms (kc_proposal c)) = cc_expires_at_ms (sgc_claims signed)"
    and "signed_termux_proof_from_capability env signed (kc_proposal c) = Inr (kc_termux_proof c)"
proof -
  obtain proposal credential where
    p: "me_proposal env (cc_manifold_peer_status_proposal (sgc_claims signed)) = Some proposal"
      "proposal_refusal signed proposal = None" and
    k: "enrolled_credential enrollment signed proposal = Some credential"
      "credential_refusal env signed credential now = None" and
    e: "checked_evidence env signed proposal credential = Inr c"
    using assms by (auto simp: checked_envelope_def split: option.splits)
  have c: "kc_proposal c = proposal" "kc_credential c = credential"
    "signed_termux_proof_from_capability env signed proposal = Inr (kc_termux_proof c)"
    using e by (auto simp: checked_evidence_def split: sum.splits option.splits if_splits)
  have found: "credential \<in> set (en_credentials enrollment)" "pc_key_id credential = sgc_key_id signed"
    "pc_peer_id credential = sp_identity_peer_id proposal" "pc_active credential"
    using k(1) by (auto simp: enrolled_credential_def find_Some_iff)
  show "me_proposal env (cc_manifold_peer_status_proposal (sgc_claims signed)) = Some (kc_proposal c)"
    "sp_identity_peer_id (kc_proposal c) = di_device_id (do_identity (cc_observation (sgc_claims signed)))"
    "kc_credential c \<in> set (en_credentials enrollment)"
    "pc_key_id (kc_credential c) = sgc_key_id signed \<and> pc_peer_id (kc_credential c) = sp_identity_peer_id (kc_proposal c) \<and>
      pc_active (kc_credential c)"
    "0 \<le> now \<and> int (pc_valid_from_ms (kc_credential c)) \<le> now \<and> now < int (pc_expires_at_ms (kc_credential c))"
    "verify_signature env (pc_public_key_hex (kc_credential c)) signed"
    "int (sp_observed_at_ms (kc_proposal c)) = do_source_time_ms (cc_observation (sgc_claims signed))"
    "int (sp_expires_at_ms (kc_proposal c)) = cc_expires_at_ms (sgc_claims signed)"
    "signed_termux_proof_from_capability env signed (kc_proposal c) = Inr (kc_termux_proof c)"
    using p k(2) c found
    by (auto simp: proposal_refusal_def credential_refusal_def Let_def split: if_splits)
qed

section \<open>Events\<close>

datatype 'h adapter_event =
  Admit signed_checkin i64
| Enroll json_value u64
| Authorize_Kiosk device_authorization u64
| Authorize_Package package_authorization u64
| Authorize_Awake awake_authorization u64
| Authorize_Wifi wifi_authorization u64
| Authorize_Hotspot hotspot_authorization u64
| Restart "'h manifold_adapter" i64
| Hub_Step hub_command

type_synonym 'h hub_pair = "'h manifold_adapter \<times> hub_state"

definition restarted :: "'h manifold_env \<Rightarrow> 'h manifold_adapter \<Rightarrow> 'h manifold_adapter \<Rightarrow> i64 \<Rightarrow> 'h manifold_adapter" where
  "restarted env configured a now_ms = (case restore_session env configured (adapter_snapshot env a) now_ms of
     Inl _ \<Rightarrow> a | Inr a' \<Rightarrow> a')"

fun adapter_step ::
  "'h manifold_env \<Rightarrow> (string \<Rightarrow> string) \<Rightarrow> hub_codec \<Rightarrow> 'h hub_pair \<Rightarrow> 'h adapter_event \<Rightarrow> 'h hub_pair" where
  "adapter_step env sha enc (a, h) (Admit signed now) =
     (case accept_checkin env a h signed now of (a', h', _) \<Rightarrow> (a', h'))"
| "adapter_step env sha enc (a, h) (Enroll request now) = (fst (apply_enrollment env a request now), h)"
| "adapter_step env sha enc (a, h) (Authorize_Kiosk auth now) = (fst (authorize_kiosk_show_controls env a auth now), h)"
| "adapter_step env sha enc (a, h) (Authorize_Package auth now) =
     (fst (authorize_package_install_release env a auth now), h)"
| "adapter_step env sha enc (a, h) (Authorize_Awake auth now) = (fst (authorize_quest_awake env a auth now), h)"
| "adapter_step env sha enc (a, h) (Authorize_Wifi auth now) = (fst (authorize_quest_wifi_adb env a auth now), h)"
| "adapter_step env sha enc (a, h) (Authorize_Hotspot auth now) = (fst (authorize_windows_hotspot env a auth now), h)"
| "adapter_step env sha enc (a, h) (Restart configured now) = (restarted env configured a now, h)"
| "adapter_step env sha enc (a, h) (Hub_Step c) =
     (a, run_command (codec_observation_bytes (me_codec env)) (codec_json_bytes (me_codec env)) sha enc h c)"

definition adapter_run ::
  "'h manifold_env \<Rightarrow> (string \<Rightarrow> string) \<Rightarrow> hub_codec \<Rightarrow> 'h hub_pair \<Rightarrow> 'h adapter_event list \<Rightarrow> 'h hub_pair" where
  "adapter_run env sha enc = foldl (adapter_step env sha enc)"

definition bare_observation :: "'h adapter_event \<Rightarrow> bool" where
  "bare_observation e \<longleftrightarrow> (\<exists>obs t. e = Hub_Step (Observe obs t))"

text \<open>The time at which an event prunes the check-ins seen.\<close>

fun event_time :: "'h adapter_event \<Rightarrow> i64 option" where
  "event_time (Admit _ now) = Some now"
| "event_time (Restart _ now) = Some now"
| "event_time _ = None"

section \<open>Frames\<close>

lemma dispatch_frame:
  "\<exists>host. fst (dispatch_command env m a e c p params l now) = m\<lparr>ma_runtime_host := host\<rparr>"
proof -
  have "\<exists>host. m = m\<lparr>ma_runtime_host := host\<rparr>" by (rule exI [of _ "ma_runtime_host m"]) simp
  then show ?thesis
    by (auto simp: dispatch_command_def Let_def split: option.splits prod.splits)
qed

lemmas authorize_defs = authorize_kiosk_show_controls_def authorize_package_install_release_def
  authorize_quest_awake_def authorize_quest_wifi_adb_def authorize_windows_hotspot_def

lemma same_host: "\<exists>host. m = m\<lparr>ma_runtime_host := host\<rparr>"
  by (rule exI [of _ "ma_runtime_host m"]) simp

lemma authorize_frame:
  "\<exists>host. fst (authorize_kiosk_show_controls env m a1 now) = m\<lparr>ma_runtime_host := host\<rparr>"
  "\<exists>host. fst (authorize_package_install_release env m a2 now) = m\<lparr>ma_runtime_host := host\<rparr>"
  "\<exists>host. fst (authorize_quest_awake env m a3 now) = m\<lparr>ma_runtime_host := host\<rparr>"
  "\<exists>host. fst (authorize_quest_wifi_adb env m a4 now) = m\<lparr>ma_runtime_host := host\<rparr>"
  "\<exists>host. fst (authorize_windows_hotspot env m a5 now) = m\<lparr>ma_runtime_host := host\<rparr>"
  unfolding authorize_defs using dispatch_frame same_host by (auto split: if_splits)

lemma host_only:
  assumes "\<exists>host. m' = m\<lparr>ma_runtime_host := host\<rparr>"
  shows "ma_enrollment m' = ma_enrollment m" "ma_accepted_peers m' = ma_accepted_peers m"
    "ma_seen_checkins m' = ma_seen_checkins m" "ma_termux_proofs m' = ma_termux_proofs m"
  using assms by auto

lemmas authorize_same [simp] = authorize_frame(1) [THEN host_only(1)] authorize_frame(1) [THEN host_only(2)]
  authorize_frame(1) [THEN host_only(3)] authorize_frame(1) [THEN host_only(4)]
  authorize_frame(2) [THEN host_only(1)] authorize_frame(2) [THEN host_only(2)]
  authorize_frame(2) [THEN host_only(3)] authorize_frame(2) [THEN host_only(4)]
  authorize_frame(3) [THEN host_only(1)] authorize_frame(3) [THEN host_only(2)]
  authorize_frame(3) [THEN host_only(3)] authorize_frame(3) [THEN host_only(4)]
  authorize_frame(4) [THEN host_only(1)] authorize_frame(4) [THEN host_only(2)]
  authorize_frame(4) [THEN host_only(3)] authorize_frame(4) [THEN host_only(4)]
  authorize_frame(5) [THEN host_only(1)] authorize_frame(5) [THEN host_only(2)]
  authorize_frame(5) [THEN host_only(3)] authorize_frame(5) [THEN host_only(4)]

lemma apply_enrollment_same [simp]:
  "ma_accepted_peers (fst (apply_enrollment env a request now)) = ma_accepted_peers a"
  "ma_seen_checkins (fst (apply_enrollment env a request now)) = ma_seen_checkins a"
  "ma_termux_proofs (fst (apply_enrollment env a request now)) = ma_termux_proofs a"
  "ma_runtime_host (fst (apply_enrollment env a request now)) = ma_runtime_host a"
  by (simp_all add: apply_enrollment_def split: prod.splits)

text \<open>What an event other than an admission leaves of the adapter.\<close>

lemma restarted_cases:
  obtains (refused) "restarted env configured a now = a"
  | (restored) host where "restarted env configured a now = configured\<lparr>ma_accepted_peers := ma_accepted_peers a,
      ma_seen_checkins := ma_seen_checkins (unexpired a now), ma_runtime_host := host,
      ma_termux_proofs := bt_retain (\<lambda>_. proof_still_current now) (ma_termux_proofs a)\<rparr>"
    "restored_host env configured (Some (me_host_snapshot env (ma_runtime_host a))) = Inr host"
proof (cases "restore_session env configured (adapter_snapshot env a) now")
  case (Inl e)
  then show ?thesis using refused by (simp add: restarted_def)
next
  case (Inr a')
  then obtain host where "restored_host env configured (Some (me_host_snapshot env (ma_runtime_host a))) = Inr host"
    "a' = configured\<lparr>ma_accepted_peers := ma_accepted_peers a, ma_seen_checkins := ma_seen_checkins (unexpired a now),
       ma_runtime_host := host, ma_termux_proofs := bt_retain (\<lambda>_. proof_still_current now) (ma_termux_proofs a)\<rparr>"
    by (auto simp: restore_session_def adapter_snapshot_def Let_def unexpired_def
        split: if_splits option.splits sum.splits)
  with Inr show ?thesis by (intro restored) (simp_all add: restarted_def)
qed

lemma step_peers:
  assumes "\<not> (\<exists>signed now. e = Admit signed now)"
  shows "ma_accepted_peers (fst (adapter_step env sha enc (a, h) e)) = ma_accepted_peers a"
proof (cases e)
  case (Restart configured now)
  show ?thesis unfolding Restart
    by (cases rule: restarted_cases [of env configured a now]) simp_all
qed (use assms in simp_all)

section \<open>Replay\<close>

text \<open>A check-in ID is spent at a time when it is still seen or its window is over.\<close>

definition spent :: "string \<Rightarrow> i64 \<Rightarrow> i64 \<Rightarrow> 'h manifold_adapter \<Rightarrow> bool" where
  "spent checkin_id expires_at_ms now_ms a \<longleftrightarrow>
     bt_get (ma_seen_checkins a) checkin_id = Some expires_at_ms \<or> expires_at_ms \<le> now_ms"

lemma spent_later: "spent i e now a \<Longrightarrow> now \<le> now' \<Longrightarrow> spent i e now' a"
  by (auto simp: spent_def)

lemma spent_unexpired: "spent i e now a \<Longrightarrow> now \<le> now' \<Longrightarrow> spent i e now' (unexpired a now')"
  by (auto simp: spent_def)

lemma accept_spends:
  assumes "accept_checkin env a h signed now = (a', h', receipt)" and "ckr_accepted receipt"
  shows "spent (cc_checkin_id (sgc_claims signed)) (cc_expires_at_ms (sgc_claims signed)) now a'"
  by (rule accepted_checkin [OF assms]) (simp add: spent_def)

lemma spent_refuses:
  assumes "spent (cc_checkin_id (sgc_claims signed)) e now a" and "now \<le> now'" and "now' < e"
    and "accept_checkin env a h signed now' = (a', h', receipt)"
  shows "\<not> ckr_accepted receipt"
proof
  assume "ckr_accepted receipt"
  then show False
    by (rule accepted_checkin [OF assms(4)]) (use assms(1-3) in \<open>auto simp: spent_def\<close>)
qed

lemma accept_keeps_spent:
  assumes "spent i e now a" and "now \<le> now'" and "accept_checkin env a h signed now' = (a', h', receipt)"
  shows "spent i e now' a'"
proof (cases "ckr_accepted receipt")
  case True
  show ?thesis
  proof (rule accepted_checkin [OF assms(3) True])
    fix state proofs
    assume fresh: "bt_get (ma_seen_checkins (unexpired a now')) (cc_checkin_id (sgc_claims signed)) = None"
      and a': "a' = (unexpired a now')\<lparr>ma_accepted_peers := drained_peers state, ma_termux_proofs := proofs,
       ma_seen_checkins := bt_insert (cc_checkin_id (sgc_claims signed)) (cc_expires_at_ms (sgc_claims signed))
         (ma_seen_checkins (unexpired a now'))\<rparr>"
    show ?thesis
      using spent_unexpired [OF assms(1,2)] fresh unfolding a' spent_def by auto
  qed
next
  case False
  with refused_checkin [OF assms(3)] spent_unexpired [OF assms(1,2)] spent_later [OF assms(1,2)]
  show ?thesis by blast
qed

lemma step_keeps_spent:
  assumes "spent i x now (fst s)" and "\<And>t. event_time e = Some t \<Longrightarrow> now \<le> t"
  shows "spent i x (case event_time e of None \<Rightarrow> now | Some t \<Rightarrow> t) (fst (adapter_step env sha enc s e))"
proof -
  obtain a h where s: "s = (a, h)" by fastforce
  have spent: "spent i x now a" using assms(1) s by simp
  have same: "spent i x now a'" if "ma_seen_checkins a' = ma_seen_checkins a" for a'
    using spent that by (simp add: spent_def)
  show ?thesis
  proof (cases e)
    case (Admit signed t)
    then show ?thesis
      using accept_keeps_spent [OF spent] assms(2) s by (auto split: prod.splits)
  next
    case (Restart configured t)
    then have t: "now \<le> t" using assms(2) by simp
    from spent_unexpired [OF spent t] spent_later [OF spent t] show ?thesis
      unfolding Restart s by (cases rule: restarted_cases [of env configured a t]) (simp_all add: spent_def)
  qed (simp_all add: s same)
qed

text \<open>Event times that never fall below a bound and never decrease.\<close>

fun times_from :: "i64 \<Rightarrow> 'h adapter_event list \<Rightarrow> bool" where
  "times_from now [] = True"
| "times_from now (e # es) = (case event_time e of
     None \<Rightarrow> times_from now es
   | Some t \<Rightarrow> now \<le> t \<and> times_from t es)"

fun last_time :: "i64 \<Rightarrow> 'h adapter_event list \<Rightarrow> i64" where
  "last_time now [] = now"
| "last_time now (e # es) = last_time (case event_time e of None \<Rightarrow> now | Some t \<Rightarrow> t) es"

lemma run_keeps_spent:
  "spent i x now (fst s) \<Longrightarrow> times_from now es \<Longrightarrow> spent i x (last_time now es) (fst (adapter_run env sha enc s es))"
proof (induction es arbitrary: now s)
  case (Cons e es)
  have "spent i x (case event_time e of None \<Rightarrow> now | Some t \<Rightarrow> t) (fst (adapter_step env sha enc s e))"
    using Cons.prems by (intro step_keeps_spent) (auto split: option.splits)
  from Cons.IH [OF this] Cons.prems(2) show ?case
    by (auto simp: adapter_run_def split: option.splits)
qed (simp add: adapter_run_def)

section \<open>One authority\<close>

text \<open>
  What the peer crate documents of a review: an applied proposal enters its peer among the accepted ones and
  changes no other.
\<close>

definition review_enters_peer :: "'h manifold_env \<Rightarrow> bool" where
  "review_enters_peer env \<longleftrightarrow> (\<forall>rcase decision application state.
     me_review_proposal env rcase = (decision, application) \<longrightarrow> pa_applied application \<longrightarrow>
     pd_accepted_state decision = Some state \<longrightarrow>
     set (map pe_peer_id (ap_peers state)) = insert (sp_identity_peer_id (rc_proposal rcase))
       (set (map pe_peer_id (ap_peers (rc_current_state rcase)))))"

definition same_authority :: "'h manifold_adapter \<Rightarrow> 'a hub_state_scheme \<Rightarrow> bool" where
  "same_authority a h \<longleftrightarrow> set (device_ids h) = set (accepted_peer_ids a)"

lemma accepted_device_ids:
  assumes "accept_observation ob jb h obs t = (h', Decision_Accepted revision d srev)"
  shows "set (device_ids h') = insert (di_device_id (do_identity obs)) (set (device_ids h))"
proof (cases rule: accept_observation_cases [of ob jb obs h t])
  case admitted
  have keys: "set (bt_keys m) = {k. bt_get m k \<noteq> None}" for m :: devices
    by (simp add: bt_keys_def bt_get_def map_of_eq_None_iff)
  have "h' = fst (admit h obs t)" using assms admitted(3) by simp
  then show ?thesis by (auto simp: device_ids_def keys admit_devices)
qed (use assms in auto)

lemma accept_same_authority:
  assumes "review_enters_peer env" and "same_authority a h"
    and "accept_checkin env a h signed now = (a', h', receipt)"
  shows "same_authority a' h'"
proof (cases "ckr_accepted receipt")
  case True
  show ?thesis
  proof (rule accepted_checkin [OF assms(3) True])
    fix c rev d srev proofs decision application state
    assume c: "checked_envelope env (ma_enrollment a) signed now = Inr c"
      and obs: "accept_observation (codec_observation_bytes (me_codec env)) (codec_json_bytes (me_codec env)) h
        (admitted_observation (unexpired a now) h signed now) now = (h', Decision_Accepted rev d srev)"
      and review: "me_review_proposal env (peer_review_case (unexpired a now) signed c now) = (decision, application)"
        "pa_applied application" "pd_accepted_state decision = Some state"
      and a': "a' = (unexpired a now)\<lparr>ma_accepted_peers := drained_peers state, ma_termux_proofs := proofs,
        ma_seen_checkins := bt_insert (cc_checkin_id (sgc_claims signed)) (cc_expires_at_ms (sgc_claims signed))
          (ma_seen_checkins (unexpired a now))\<rparr>"
    have "set (map pe_peer_id (ap_peers state)) = insert (sp_identity_peer_id (kc_proposal c))
        (set (map pe_peer_id (ap_peers (ma_accepted_peers a))))"
      using assms(1) review unfolding review_enters_peer_def by (fastforce simp: peer_review_case_def)
    with accepted_device_ids [OF obs] checked_envelope_facts(2) [OF c] assms(2) show ?thesis
      by (simp add: same_authority_def a' accepted_peer_ids_def drained_peers_def admitted_observation_def Let_def)
  qed
next
  case False
  with refused_checkin [OF assms(3)] assms(2) show ?thesis
    by (auto simp: same_authority_def accepted_peer_ids_def)
qed

lemma command_devices:
  assumes ok: "stores_ok h" and "\<forall>obs t. c \<noteq> Observe obs t"
  shows "fh_devices (run_command ob jb sha enc h c) = fh_devices h"
proof (cases "is_kiosk_command c")
  case True
  then obtain r' :: "'a hub_state_scheme \<times> (hub_error + kiosk_operation)"
    where "ks.outcome h (command_key c) r'" "run_command ob jb sha enc h c = fst r'"
    using kiosk_command_effect [OF stores_okD(1) [OF ok] True, of ob jb sha enc] by (auto simp: kiosk_effect_def)
  with run_kiosk_frame(2) show ?thesis by fastforce
next
  case False
  show ?thesis
  proof (cases "is_owner_call c")
    case True
    then show ?thesis by (rule owner_call_frame(2) [OF ok])
  next
    case owner: False
    with False assms(2) show ?thesis
      by (cases c) (simp_all add: is_kiosk_command_def is_owner_call_def)
  qed
qed

lemma step_same_authority:
  assumes "review_enters_peer env" and "same_authority (fst s) (snd s)" and "stores_ok (snd s)"
    and "\<not> bare_observation e"
  shows "same_authority (fst (adapter_step env sha enc s e)) (snd (adapter_step env sha enc s e)) \<and>
    stores_ok (snd (adapter_step env sha enc s e))"
proof -
  obtain a h where s: "s = (a, h)" by fastforce
  have other: ?thesis if "\<not> (\<exists>signed t. e = Admit signed t)" "\<not> (\<exists>c. e = Hub_Step c)"
  proof -
    have "ma_accepted_peers (fst (adapter_step env sha enc (a, h) e)) = ma_accepted_peers a"
      by (rule step_peers [OF that(1)])
    moreover have "snd (adapter_step env sha enc (a, h) e) = h"
      using that by (cases e) simp_all
    ultimately show ?thesis using assms(2,3) by (simp add: s same_authority_def accepted_peer_ids_def)
  qed
  show ?thesis
  proof (cases e)
    case (Admit signed t)
    obtain a' h' receipt where acc: "accept_checkin env a h signed t = (a', h', receipt)" by (metis prod_cases3)
    have "stores_ok h'"
    proof (cases "ckr_accepted receipt")
      case True
      show ?thesis
      proof (rule accepted_checkin [OF acc True])
        fix rev d srev
        assume obs: "accept_observation (codec_observation_bytes (me_codec env)) (codec_json_bytes (me_codec env)) h
          (admitted_observation (unexpired a t) h signed t) t = (h', Decision_Accepted rev d srev)"
        have "h' = fst (accept_observation (codec_observation_bytes (me_codec env)) (codec_json_bytes (me_codec env)) h
          (admitted_observation (unexpired a t) h signed t) t)" by (simp add: obs)
        then show ?thesis using stores_ok_cong [of h' h] assms(3) s by simp
      qed
    next
      case False
      with refused_checkin(1) [OF acc] assms(3) s show ?thesis by simp
    qed
    with accept_same_authority [OF assms(1) _ acc] assms(2) s acc Admit show ?thesis by simp
  next
    case (Hub_Step c)
    have "\<forall>obs t. c \<noteq> Observe obs t" using assms(4) Hub_Step by (auto simp: bare_observation_def)
    with assms(2,3) s Hub_Step show ?thesis
      by (simp add: same_authority_def device_ids_def command_devices run_command_stores)
  qed (use other in simp_all)
qed

lemma run_same_authority:
  assumes "review_enters_peer env" and "same_authority (fst s) (snd s)" and "stores_ok (snd s)"
    and "\<not> list_ex bare_observation es"
  shows "same_authority (fst (adapter_run env sha enc s es)) (snd (adapter_run env sha enc s es)) \<and>
    stores_ok (snd (adapter_run env sha enc s es))"
  using assms(2-4)
proof (induction es arbitrary: s)
  case (Cons e es)
  with step_same_authority [OF assms(1) Cons.prems(1,2), of e sha enc] Cons.IH show ?case
    by (simp add: adapter_run_def)
qed (simp add: adapter_run_def)

section \<open>Each request identity is authorized once\<close>

text \<open>
  What the runtime host documents: a request already applied is not ready again, applying one records its
  identity and forgets none, and a snapshot or a migrated one restarts with the identities it holds.
\<close>

definition host_records :: "'h manifold_env \<Rightarrow> bool" where
  "host_records env \<longleftrightarrow> (let applied = (\<lambda>host. set (hs_applied_request_ids (me_host_snapshot env host))) in
     (\<forall>host request now. dr_ready (me_review_command env host request now) \<longrightarrow>
        cmd_request_id request \<notin> applied host) \<and>
     (\<forall>host request dispatch now host' application.
        me_apply_dispatch env host request dispatch now = (host', application) \<longrightarrow>
        applied host \<subseteq> applied host' \<and> (ar_applied application \<longrightarrow> cmd_request_id request \<in> applied host')) \<and>
     (\<forall>s host. me_host_from_snapshot env s = Some host \<longrightarrow> set (hs_applied_request_ids s) \<subseteq> applied host) \<and>
     (\<forall>version s host migration. me_host_migrate env version s = Some (host, migration) \<longrightarrow>
        set (hs_applied_request_ids s) \<subseteq> applied host))"

definition applied_ids :: "'h manifold_env \<Rightarrow> 'h manifold_adapter \<Rightarrow> string set" where
  "applied_ids env a = set (hs_applied_request_ids (me_host_snapshot env (ma_runtime_host a)))"

text \<open>The identity an event authorizes, when it does.\<close>

fun authorized_id :: "'h manifold_env \<Rightarrow> 'h manifold_adapter \<Rightarrow> 'h adapter_event \<Rightarrow> string option" where
  "authorized_id env a (Authorize_Kiosk auth now) = (case snd (authorize_kiosk_show_controls env a auth now) of
     Inl _ \<Rightarrow> None | Inr _ \<Rightarrow> Some (cau_manifold_request_id auth))"
| "authorized_id env a (Authorize_Package auth now) = (case snd (authorize_package_install_release env a auth now) of
     Inl _ \<Rightarrow> None | Inr _ \<Rightarrow> Some (cau_manifold_request_id auth))"
| "authorized_id env a (Authorize_Awake auth now) = (case snd (authorize_quest_awake env a auth now) of
     Inl _ \<Rightarrow> None | Inr _ \<Rightarrow> Some (cau_manifold_request_id auth))"
| "authorized_id env a (Authorize_Wifi auth now) = (case snd (authorize_quest_wifi_adb env a auth now) of
     Inl _ \<Rightarrow> None | Inr _ \<Rightarrow> Some (cau_manifold_request_id auth))"
| "authorized_id env a (Authorize_Hotspot auth now) = (case snd (authorize_windows_hotspot env a auth now) of
     Inl _ \<Rightarrow> None | Inr _ \<Rightarrow> Some (cau_manifold_request_id auth))"
| "authorized_id env a _ = None"

lemma host_recordsD:
  assumes "host_records env"
  shows "dr_ready (me_review_command env host request now) \<Longrightarrow>
      cmd_request_id request \<notin> set (hs_applied_request_ids (me_host_snapshot env host))"
    and "me_apply_dispatch env host request dispatch now = (host', application) \<Longrightarrow>
      set (hs_applied_request_ids (me_host_snapshot env host)) \<subseteq> set (hs_applied_request_ids (me_host_snapshot env host'))"
    and "me_apply_dispatch env host request dispatch now = (host', application) \<Longrightarrow> ar_applied application \<Longrightarrow>
      cmd_request_id request \<in> set (hs_applied_request_ids (me_host_snapshot env host'))"
    and "me_host_from_snapshot env s = Some host \<Longrightarrow>
      set (hs_applied_request_ids s) \<subseteq> set (hs_applied_request_ids (me_host_snapshot env host))"
    and "me_host_migrate env version s = Some (host, migration) \<Longrightarrow>
      set (hs_applied_request_ids s) \<subseteq> set (hs_applied_request_ids (me_host_snapshot env host))"
  using assms unfolding host_records_def Let_def by blast+

lemma dispatch_Inr:
  assumes "dispatch_command env m a e c p params l now = (m', Inr receipt)"
  obtains canonical host application dispatch where
    "dr_ready (me_review_command env (ma_runtime_host m) (command_request_of env m a c p canonical) now)"
    "me_apply_dispatch env (ma_runtime_host m) (command_request_of env m a c p canonical) dispatch now =
      (host, application)" "ar_applied application" "m' = m\<lparr>ma_runtime_host := host\<rparr>"
    "cau_manifold_request_id a = e"
  using assms by (auto simp: dispatch_command_def Let_def split: option.splits prod.splits if_splits)

lemma dispatch_applies:
  assumes "host_records env"
  shows "applied_ids env m \<subseteq> applied_ids env (fst (dispatch_command env m a e c p params l now))"
    and "snd (dispatch_command env m a e c p params l now) = Inr receipt \<Longrightarrow>
      cau_manifold_request_id a \<notin> applied_ids env m \<and>
      cau_manifold_request_id a \<in> applied_ids env (fst (dispatch_command env m a e c p params l now))"
proof -
  show "applied_ids env m \<subseteq> applied_ids env (fst (dispatch_command env m a e c p params l now))"
    unfolding applied_ids_def
    by (auto simp: dispatch_command_def Let_def split: option.splits prod.splits
        dest: host_recordsD(2) [OF assms])
  assume "snd (dispatch_command env m a e c p params l now) = Inr receipt"
  then have "dispatch_command env m a e c p params l now =
      (fst (dispatch_command env m a e c p params l now), Inr receipt)" by (metis prod.collapse)
  then show "cau_manifold_request_id a \<notin> applied_ids env m \<and>
      cau_manifold_request_id a \<in> applied_ids env (fst (dispatch_command env m a e c p params l now))"
  proof (rule dispatch_Inr)
    fix canonical host application dispatch
    assume "dr_ready (me_review_command env (ma_runtime_host m) (command_request_of env m a c p canonical) now)"
      "me_apply_dispatch env (ma_runtime_host m) (command_request_of env m a c p canonical) dispatch now =
        (host, application)" "ar_applied application"
      and m': "fst (dispatch_command env m a e c p params l now) = m\<lparr>ma_runtime_host := host\<rparr>"
    then show ?thesis
      using host_recordsD(1,3) [OF assms] unfolding m' applied_ids_def by (fastforce simp: command_request_of_def)
  qed
qed

lemma authorize_applies:
  assumes "host_records env" and "authorized_id env a e = Some i"
  shows "i \<notin> applied_ids env a \<and> i \<in> applied_ids env (fst (adapter_step env sha enc (a, h) e))"
  using assms(2)
  by (cases e) (auto simp: authorize_defs split: sum.splits if_splits dest: dispatch_applies(2) [OF assms(1)])

lemma restored_host_applied:
  assumes "host_records env" and "restored_host env configured (Some s) = Inr host"
  shows "set (hs_applied_request_ids s) \<subseteq> set (hs_applied_request_ids (me_host_snapshot env host))"
proof -
  have restart: "set (hs_applied_request_ids s') \<subseteq> set (hs_applied_request_ids (me_host_snapshot env host))"
    if "restart_runtime_host env s' = Inr host" for s'
    using that host_recordsD(4,5) [OF assms(1)]
    by (auto simp: restart_runtime_host_def split: if_splits option.splits prod.splits; blast)
  have "\<exists>s'. hs_applied_request_ids s' = hs_applied_request_ids s \<and> restart_runtime_host env s' = Inr host"
    using assms(2)
    by (auto simp: restored_host_def split: if_splits intro: exI [of _ s]
        exI [of _ "s\<lparr>hs_commands := hs_commands s @ [hotspot_action_id]\<rparr>"])
  with restart show ?thesis by metis
qed

lemma step_applied:
  assumes "host_records env"
  shows "applied_ids env (fst s) \<subseteq> applied_ids env (fst (adapter_step env sha enc s e))"
proof -
  obtain a h where s: "s = (a, h)" by fastforce
  show ?thesis
  proof (cases e)
    case (Admit signed t)
    obtain a' h' receipt where acc: "accept_checkin env a h signed t = (a', h', receipt)" by (metis prod_cases3)
    have "ma_runtime_host a' = ma_runtime_host a"
    proof (cases "ckr_accepted receipt")
      case True
      show ?thesis by (rule accepted_checkin [OF acc True]) simp
    next
      case False
      with refused_checkin(2) [OF acc] show ?thesis by auto
    qed
    with acc s Admit show ?thesis by (simp add: applied_ids_def)
  next
    case (Restart configured t)
    show ?thesis unfolding s Restart
    proof (cases rule: restarted_cases [of env configured a t])
      case (restored host)
      with restored_host_applied [OF assms restored(2)] show
        "applied_ids env (fst (a, h)) \<subseteq> applied_ids env (fst (adapter_step env sha enc (a, h) (Restart configured t)))"
        by (simp add: applied_ids_def)
    qed simp
  next
    case (Enroll request t)
    then show ?thesis by (simp add: s applied_ids_def)
  qed (auto simp: s authorize_defs intro: subsetD [OF dispatch_applies(1) [OF assms]])
qed

lemma run_applied:
  "host_records env \<Longrightarrow> applied_ids env (fst s) \<subseteq> applied_ids env (fst (adapter_run env sha enc s es))"
proof (induction es arbitrary: s)
  case (Cons e es)
  have "applied_ids env (fst s) \<subseteq> applied_ids env (fst (adapter_step env sha enc s e))"
    by (rule step_applied [OF Cons.prems])
  also have "\<dots> \<subseteq> applied_ids env (fst (adapter_run env sha enc (adapter_step env sha enc s e) es))"
    by (rule Cons.IH [OF Cons.prems])
  finally show ?case by (simp add: adapter_run_def)
qed (simp add: adapter_run_def)

text \<open>The owner receipt a Termux proof is bound to, and what the projection makes of admitted proofs.\<close>

section \<open>Binding\<close>

lemma length_filter_insort_by: "length (filter P (insort_by c x xs)) = length (filter P (x # xs))"
  by (induction xs) auto

lemma length_filter_sort_by: "length (filter P (sort_by c xs)) = length (filter P xs)"
proof (induction xs)
  case (Cons x xs)
  then show ?case by (simp add: length_filter_insort_by)
qed simp

lemma filter_sort_by_singleton: "filter P (sort_by c xs) = [b] \<longleftrightarrow> filter P xs = [b]"
proof -
  have single: "ys = [b] \<longleftrightarrow> length ys = 1 \<and> set ys = {b}" for ys
    by (cases ys) auto
  have "set (filter P (sort_by c xs)) = set (filter P xs)" by auto
  then show ?thesis by (simp only: single [of "filter P _"] length_filter_sort_by)
qed

lemma compare_bindings_total: "total_comparator compare_bindings"
proof (rule total_comparatorI)
  show "compare_bindings b a = ord_reverse (compare_bindings a b)" for a b
    by (auto simp: compare_bindings_def ord_then_def cmp_def)
  show "compare_bindings a d \<noteq> Greater" if "compare_bindings a b \<noteq> Greater" "compare_bindings b d \<noteq> Greater"
    for a b d
    using that by (auto simp: compare_bindings_def ord_then_def cmp_def split: if_splits)
qed

lemma bound_iff:
  "bind_termux_proof_to_exact_owner_receipt h d i t = Some b \<longleftrightarrow>
   filter (\<lambda>c. pb_receipt_updated_at_ms b \<le> pb_receipt_updated_at_ms c)
     (binding_candidates (quest_wifi_adb_operations h) d i t) = [b]"
proof -
  let ?xs = "sort_by compare_bindings (binding_candidates (quest_wifi_adb_operations h) d i t)"
  have newest: "pb_receipt_updated_at_ms y \<le> pb_receipt_updated_at_ms x" if "compare_bindings x y \<noteq> Greater" for x y
    using that by (auto simp: compare_bindings_def ord_then_def cmp_def split: if_splits)
  have sorted: "sorted_wrt (\<lambda>x y. pb_receipt_updated_at_ms y \<le> pb_receipt_updated_at_ms x) ?xs"
    by (rule sorted_wrt_mono_rel [OF _ sorted_sort_by [OF compare_bindings_total]]) (simp add: newest)
  have later: "filter (\<lambda>c. pb_receipt_updated_at_ms b \<le> pb_receipt_updated_at_ms c) (x # y # ys) = [b] \<longleftrightarrow>
      x = b \<and> pb_receipt_updated_at_ms y < pb_receipt_updated_at_ms b"
    if "sorted_wrt (\<lambda>x y. pb_receipt_updated_at_ms y \<le> pb_receipt_updated_at_ms x) (x # y # ys)" for x y ys
  proof
    assume f: "filter (\<lambda>c. pb_receipt_updated_at_ms b \<le> pb_receipt_updated_at_ms c) (x # y # ys) = [b]"
    then have "b \<in> set (filter (\<lambda>c. pb_receipt_updated_at_ms b \<le> pb_receipt_updated_at_ms c) (x # y # ys))" by simp
    then have "b \<in> set (x # y # ys)" by (simp only: set_filter mem_Collect_eq)
    then have "pb_receipt_updated_at_ms b \<le> pb_receipt_updated_at_ms x" using that by auto
    with f show "x = b \<and> pb_receipt_updated_at_ms y < pb_receipt_updated_at_ms b" by (auto split: if_splits)
  next
    assume "x = b \<and> pb_receipt_updated_at_ms y < pb_receipt_updated_at_ms b"
    moreover from this that have "\<forall>z\<in>set (y # ys). pb_receipt_updated_at_ms z < pb_receipt_updated_at_ms b" by fastforce
    ultimately show "filter (\<lambda>c. pb_receipt_updated_at_ms b \<le> pb_receipt_updated_at_ms c) (x # y # ys) = [b]"
      by (simp add: filter_empty_conv not_le)
  qed
  have "bind_termux_proof_to_exact_owner_receipt h d i t = Some b \<longleftrightarrow>
      filter (\<lambda>c. pb_receipt_updated_at_ms b \<le> pb_receipt_updated_at_ms c) ?xs = [b]"
    using sorted later unfolding bind_termux_proof_to_exact_owner_receipt_def
    by (auto split: list.splits simp del: filter.simps) (auto split: if_splits)
  then show ?thesis by (simp only: filter_sort_by_singleton)
qed

lemma in_map_filter: "y \<in> set (List.map_filter f xs) \<longleftrightarrow> (\<exists>x\<in>set xs. f x = Some y)"
  by (induction xs) (auto simp: map_filter_simps split: option.splits)

lemma binding_candidate:
  "b \<in> set (binding_candidates ops d i t) \<longleftrightarrow> (\<exists>op target r. op \<in> set ops \<and>
     wv_action (wop_preview op) = RequestWirelessAdb \<and> target \<in> set (wop_targets op) \<and>
     wt_receipt target = Some r \<and> modern_effect d i target \<and> wt_updated_at_ms target < t \<and>
     none_or (\<lambda>disabled_at. wt_updated_at_ms target > disabled_at) (newest_disable ops d i) \<and>
     b = binding_of op target r)" (is "_ \<longleftrightarrow> ?found")
proof -
  let ?f = "\<lambda>op target. case wt_receipt target of
         None \<Rightarrow> None
       | Some r \<Rightarrow>
          (if modern_effect d i target \<and> wt_updated_at_ms target < t \<and>
              none_or (\<lambda>disabled_at. wt_updated_at_ms target > disabled_at) (newest_disable ops d i)
           then Some (binding_of op target r) else None)"
  have "b \<in> set (binding_candidates ops d i t) \<longleftrightarrow> (\<exists>op\<in>set ops. wv_action (wop_preview op) = RequestWirelessAdb \<and>
      (\<exists>target\<in>set (wop_targets op). ?f op target = Some b))"
    by (auto simp: binding_candidates_def in_map_filter)
  also have "\<dots> \<longleftrightarrow> ?found"
    by (auto split: option.splits if_splits; metis option.distinct(1) option.inject)
  finally show ?thesis .
qed

lemma none_or_Max:
  "none_or (\<lambda>u. u < x) (if ts = [] then None else Some (Max (set ts))) \<longleftrightarrow> (\<forall>u\<in>set ts. u < x)"
  for x :: "'a :: linorder"
  by (cases ts) (auto simp: none_or_def)

lemma after_newest_disable:
  "none_or (\<lambda>disabled_at. x > disabled_at) (newest_disable ops d i) \<longleftrightarrow>
     (\<forall>op\<in>set ops. wv_action (wop_preview op) = DisableWirelessAdb \<longrightarrow>
        (\<forall>target\<in>set (wop_targets op). modern_effect d i target \<longrightarrow> wt_updated_at_ms target < x))"
  unfolding newest_disable_def Let_def none_or_Max by auto

section \<open>Projection\<close>

lemma max_by_in: "max_by below xs = Some x \<Longrightarrow> x \<in> set xs"
proof -
  have "foldl (\<lambda>best x. case best of None \<Rightarrow> Some x | Some b \<Rightarrow> if below b x then Some x else Some b) b xs = Some x \<Longrightarrow>
      x \<in> set xs \<or> b = Some x" for b
    by (induction xs arbitrary: b) (auto split: option.splits if_splits)
  then show "max_by below xs = Some x \<Longrightarrow> x \<in> set xs" unfolding max_by_def by fastforce
qed

lemma applying_proof_Some:
  "applying_proof m h k t epoch = Some admitted \<Longrightarrow>
   admitted \<in> set (bt_values (ma_termux_proofs m)) \<and> proof_applies h k t epoch admitted"
  unfolding applying_proof_def by (drule max_by_in) simp

lemma projected_target:
  "projected_targets sha m h k action now u ts = Inr (ts', final) \<Longrightarrow> t' \<in> set ts' \<Longrightarrow>
   \<exists>t\<in>set ts. t' = t \<or> (\<exists>admitted row. hub_inspect h (wt_device_id t) now = Inr row \<and>
     admitted \<in> set (bt_values (ma_termux_proofs m)) \<and>
     proof_applies h k t (dr_source_epoch (dins_row row)) admitted \<and>
     t' = proven_target sha h k action now admitted t)"
proof (induction ts arbitrary: u ts' final)
  case (Cons t ts)
  obtain row s u' rest where row: "hub_inspect h (wt_device_id t) now = Inr row" and
    s: "(case applying_proof m h k t (dr_source_epoch (dins_row row)) of None \<Rightarrow> (t, u)
       | Some admitted \<Rightarrow> (proven_target sha h k action now admitted t, max u (adp_accepted_at_ms admitted))) = (s, u')" and
    rest: "projected_targets sha m h k action now u' ts = Inr (rest, final)" "ts' = s # rest"
    using Cons.prems(1) by (auto split: sum.splits prod.splits)
  show ?case
  proof (cases "t' = s")
    case True
    show ?thesis
    proof (cases "applying_proof m h k t (dr_source_epoch (dins_row row))")
      case None
      with s True show ?thesis by simp
    next
      case (Some admitted)
      with s True row applying_proof_Some [OF Some] show ?thesis by auto
    qed
  next
    case False
    with Cons.prems(2) rest(2) have "t' \<in> set rest" by simp
    from Cons.IH [OF rest(1) this] show ?thesis by auto
  qed
qed simp

lemma projected_operation:
  assumes "projected_wifi_operation sha m h k now = Inr op'"
  obtains op where "bt_get (fh_wifi_adb_operations h) k = Some op" "valid (validate_wifi_operation sha op')"
    "wop_preview op' = wop_preview op"
    "\<forall>t'\<in>set (wop_targets op'). \<exists>t\<in>set (wop_targets op). t' = t \<or>
       (\<exists>admitted row. hub_inspect h (wt_device_id t) now = Inr row \<and>
         admitted \<in> set (bt_values (ma_termux_proofs m)) \<and>
         proof_applies h (wop_operation_id op) t (dr_source_epoch (dins_row row)) admitted \<and>
         t' = proven_target sha h (wop_operation_id op) (wv_action (wop_preview op)) now admitted t)"
proof -
  obtain op targets u where op: "bt_get (fh_wifi_adb_operations h) k = Some op" and
    targets: "projected_targets sha m h (wop_operation_id op) (wv_action (wop_preview op)) now (wop_updated_at_ms op)
      (wop_targets op) = Inr (targets, u)" and
    op': "op' = op\<lparr>wop_targets := targets, wop_updated_at_ms := u\<rparr>" "valid (validate_wifi_operation sha op')"
    using assms
    by (auto simp: projected_wifi_operation_def quest_wifi_adb_operation_def Let_def valid_def
        split: sum.splits option.splits prod.splits)
  show ?thesis
    by (rule that [OF op op'(2)]) (use projected_target [OF targets] in \<open>simp_all add: op'(1)\<close>)
qed

end
