(* ===== verification/Manifold_Samples.thy ===== *)
theory Manifold_Samples
  imports Manifold_Runs Samples Kiosk_Link_Claims
begin

text \<open>A peer authority and a runtime host that keep what their crates document, and an admitted check-in.\<close>

definition sample_host_snapshot :: "string list \<Rightarrow> host_snapshot" where
  "sample_host_snapshot ids = \<lparr>hs_schema_id = ''host.v4'', hs_authority_revision = 1,
     hs_commands = adapter_commands, hs_applied_request_ids = ids\<rparr>"

definition sample_review :: "review_case \<Rightarrow> peer_decision \<times> peer_application" where
  "sample_review rcase = (let s = rc_current_state rcase; p = rc_proposal rcase in
     (\<lparr>pd_accepted_state = Some \<lparr>ap_authority_revision = u64_saturating_add (ap_authority_revision s) 1,
         ap_peers = \<lparr>pe_peer_id = sp_identity_peer_id p, pe_key_fingerprint = hd (rc_trusted_key_fingerprints rcase)\<rparr> #
           filter (\<lambda>e. pe_peer_id e \<noteq> sp_identity_peer_id p) (ap_peers s),
         ap_applied_proposal_ids = ap_applied_proposal_ids s\<rparr>\<rparr>, \<lparr>pa_applied = True\<rparr>))"

definition sample_proposal :: status_proposal where
  "sample_proposal = \<lparr>sp_identity_peer_id = ''hmd-1'', sp_status_peer_id = ''hmd-1'', sp_observed_at_ms = 900,
     sp_expires_at_ms = 60900, sp_capability_ids = [], sp_expected_authority_revision = 1\<rparr>"

definition sample_credential :: peer_credential where
  "sample_credential = \<lparr>pc_key_id = ''key.agent'', pc_peer_id = ''hmd-1'', pc_active = True, pc_valid_from_ms = 0,
     pc_expires_at_ms = 100000, pc_public_key_hex = [], pc_public_key_sha256 = ''sha256:'' @ sample_seal,
     pc_key_generation = 1\<rparr>"

definition sample_env :: "string list manifold_env" where
  "sample_env = \<lparr>
     me_codec = sample_codec\<lparr>codec_jcs := (\<lambda>_. Some ''{}'')\<rparr>,
     me_crypto = sample_crypto,
     me_hex_decode = (\<lambda>s. Some (replicate (if s = [] then 32 else 64) (char_of (0 :: nat)))),
     me_verifying_key = (\<lambda>_. True),
     me_verify_strict = (\<lambda>_ _ _. True),
     me_is_dotted_id = (\<lambda>_. True),
     me_proposal = (\<lambda>_. Some sample_proposal),
     me_loopback = (\<lambda>_. None),
     me_params_jcs = (\<lambda>_. Some ''{}''),
     me_review_proposal = sample_review,
     me_review_enrollment = (\<lambda>e request _ _. (e\<lparr>en_credentials := [sample_credential]\<rparr>, request)),
     me_initial_revision = 1,
     me_empty_enrollment = \<lparr>en_authority_revision = 1, en_credentials = []\<rparr>,
     me_host_schema = ''host.v4'',
     me_host_legacy = (\<lambda>_. None),
     me_host_snapshot = sample_host_snapshot,
     me_host_from_snapshot = (\<lambda>s. Some (hs_applied_request_ids s)),
     me_host_migrate = (\<lambda>_ _. None),
     me_review_command = (\<lambda>host request _. \<lparr>dr_ready = cmd_request_id request \<notin> set host\<rparr>),
     me_apply_dispatch = (\<lambda>host request _ _. (cmd_request_id request # host, \<lparr>ar_applied = True\<rparr>))\<rparr>"

lemma sample_env_laws: "review_enters_peer sample_env" "host_records sample_env"
  by (auto simp: review_enters_peer_def host_records_def sample_env_def sample_review_def Let_def
      sample_host_snapshot_def)

definition empty_adapter :: "string list manifold_adapter" where
  "empty_adapter = the (manifold_new sample_env [''operator.local''])"

definition enrolled_adapter :: "string list manifold_adapter" where
  "enrolled_adapter = empty_adapter\<lparr>ma_enrollment := \<lparr>en_authority_revision = 1, en_credentials = [sample_credential]\<rparr>\<rparr>"

definition sample_checkin :: "json_value \<Rightarrow> signed_checkin" where
  "sample_checkin proposal = \<lparr>sgc_schema = ''rusty.fleet.signed_checkin.v1'', sgc_key_id = ''key.agent'',
     sgc_algorithm = checkin_signature_algorithm, sgc_signature_hex = replicate 128 CHR ''0'',
     sgc_claims = sample_claims proposal\<rparr>"

lemma empty_adapter_eq:
  "manifold_new sample_env [''operator.local''] = Some empty_adapter"
  "ma_seen_checkins enrolled_adapter = bt_empty" "ma_termux_proofs enrolled_adapter = bt_empty"
  "ma_accepted_peers enrolled_adapter = \<lparr>ap_authority_revision = 1, ap_peers = [], ap_applied_proposal_ids = []\<rparr>"
  "ma_enrollment enrolled_adapter = \<lparr>en_authority_revision = 1, en_credentials = [sample_credential]\<rparr>"
  "ma_runtime_host enrolled_adapter = []"
  by (simp_all add: empty_adapter_def enrolled_adapter_def manifold_new_def sample_env_def initial_host_snapshot_def)

lemma sample_checkin_valid: "valid (validate_signed_checkin (me_codec sample_env) (sample_checkin proposal))"
proof -
  have "validate_claims (me_codec sample_env) c = validate_claims sample_codec c" for c
    by (simp add: validate_claims_def sample_env_def)
  moreover have "require_dotted_id ''key.agent'' ''key_id'' = []"
    by (simp add: require_dotted_id_iff_saved_view_id is_valid_saved_view_id_def is_dotted_segment_def
        is_identifier_edge_def is_identifier_body_def is_ascii_lowercase_def is_ascii_digit_def)
  ultimately show ?thesis
    using sample_claims_valid [of proposal]
    by (simp add: validate_signed_checkin_def sample_checkin_def is_ascii_hexdigit_def is_lower_hex_def
        is_ascii_digit_def is_ascii_uppercase_def list_all_iff)
qed

definition sample_checked :: checked_checkin where
  "sample_checked = \<lparr>kc_proposal = sample_proposal, kc_credential = sample_credential, kc_termux_proof = None,
     kc_public_key_sha256 = sample_seal, kc_canonical_claims = ''{}'',
     kc_signing_message = checkin_signature_domain @ ''{}'', kc_signature = replicate 64 (char_of (0 :: nat))\<rparr>"

lemma sample_envelope:
  "checked_envelope sample_env (ma_enrollment enrolled_adapter) (sample_checkin proposal) 1000 = Inr sample_checked"
proof -
  have bytes: "signing_bytes (me_codec sample_env) c = Some (checkin_signature_domain @ ''{}'')"
    "codec_jcs (me_codec sample_env) c = Some ''{}''" for c
    by (simp_all add: signing_bytes_def sample_env_def)
  have fields: "cc_observation (sample_claims proposal) = (sample_observation ''hmd-1'' 1 ''boot-1'' 1)
      \<lparr>do_received_time_ms := 0, do_power := Some sample_power\<rparr>" "cc_expires_at_ms (sample_claims proposal) = 60900"
    by (simp_all add: sample_claims_def)
  have observed: "do_source_time_ms (sample_observation d i e v) = 900"
    "do_identity (sample_observation d i e v) = sample_identity d i" "di_device_id (sample_identity d i) = d"
    for d i e v by (simp_all add: sample_observation_def sample_identity_def)
  have "signed_termux_proof_from_capability sample_env (sample_checkin proposal) sample_proposal = Inr None"
    by (simp add: signed_termux_proof_from_capability_def sample_checkin_def fields capability_get_def
        sample_observation_def sample_proposal_def termux_capability_id_def kiosk_capability_id_def Let_def)
  then have "checked_evidence sample_env (sample_checkin proposal) sample_proposal sample_credential = Inr sample_checked"
    unfolding checked_evidence_def bytes
    by (simp add: sample_env_def sample_credential_def sample_checked_def strip_prefix_def sample_checkin_def)
  moreover have "verify_signature sample_env [] (sample_checkin proposal)"
    unfolding verify_signature_def bytes by (simp add: sample_env_def sample_checkin_def)
  then have "credential_refusal sample_env (sample_checkin proposal) sample_credential 1000 = None"
    by (simp add: credential_refusal_def sample_credential_def)
  moreover have "proposal_refusal (sample_checkin proposal) sample_proposal = None"
    by (simp add: proposal_refusal_def Let_def sample_checkin_def fields observed sample_proposal_def)
  moreover have "enrolled_credential (ma_enrollment enrolled_adapter) (sample_checkin proposal) sample_proposal =
      Some sample_credential"
    by (simp add: enrolled_credential_def empty_adapter_eq sample_credential_def sample_checkin_def
        sample_proposal_def)
  moreover have "me_proposal sample_env j = Some sample_proposal" for j by (simp add: sample_env_def)
  ultimately show ?thesis by (simp add: checked_envelope_def)
qed

text \<open>The observation that reaches the Hub.\<close>

lemma sample_admitted_valid:
  "valid (validate_observation no_bytes no_bytes
     (admitted_observation (unexpired enrolled_adapter 1000) hub0 (sample_checkin proposal) 1000))"
proof -
  let ?o = "cc_observation (sample_claims proposal)"
  let ?c = "local_condition (unexpired enrolled_adapter 1000) hub0 (sample_checkin proposal) 1000"
  let ?o' = "?o\<lparr>do_received_time_ms := 1000, do_conditions := do_conditions ?o @ [?c]\<rparr>"
  have old: "valid (validate_observation no_bytes no_bytes ?o)" by (rule sample_claims_observation)
  have condition: "valid (validate_condition ?c)"
    by (simp add: valid_condition local_condition_def is_blank.simps sample_checkin_def sample_claims_def
        u64_saturating_add_def u64_max_def empty_adapter_eq)
  have "observation_head_failures ?o' = []"
    using old by (simp add: validate_observation_def valid_observation_head sample_claims_def)
  moreover have "observation_fact_failures ?o' = []" "observation_limit_failures no_bytes ?o' = []"
    by (simp_all add: observation_fact_failures_def observation_limit_failures_def sample_observation_def
        sample_claims_def no_bytes_def bt_len_insert bt_contains_key_def valid_power valid_provenance
        sample_power_def is_blank.simps)
  ultimately show ?thesis
    using old condition
    by (auto simp: validate_observation_def admitted_observation_def sample_checkin_def Let_def nth_append
        less_Suc_eq)
qed

lemma bt_retain_empty [simp]: "bt_retain P bt_empty = bt_empty"
  by (rule btree_map_eqI) simp

lemma sample_accepts:
  "ckr_accepted (snd (snd (accept_checkin sample_env enrolled_adapter hub0 (sample_checkin proposal) 1000)))"
proof -
  let ?a = "unexpired enrolled_adapter 1000" and ?s = "sample_checkin proposal"
  have codecs: "codec_observation_bytes (me_codec sample_env) = no_bytes" "codec_json_bytes (me_codec sample_env) = no_bytes"
    by (simp_all add: sample_env_def sample_codec_def)
  have same: "enrolled_adapter\<lparr>ma_seen_checkins := bt_empty\<rparr> = ?a"
    by (simp add: unexpired_def empty_adapter_eq)
  have window: "cc_issued_at_ms (sgc_claims ?s) = 900" "cc_expires_at_ms (sgc_claims ?s) = 60900"
    by (simp_all add: sample_checkin_def sample_claims_def)
  have obs: "accept_observation no_bytes no_bytes hub0 (admitted_observation ?a hub0 ?s 1000) 1000 =
      admit hub0 (admitted_observation ?a hub0 ?s 1000) 1000"
    using sample_admitted_valid [of proposal] by (simp add: accept_observation_def valid_iff_Inr)
  have proofs: "\<exists>proofs. candidate_proofs sample_env ?a h ?s sample_checked v 1000 = Inr proofs" for h :: hub_state and v
    by (simp add: candidate_proofs_def sample_checked_def Let_def)
  have reviewed: "ckr_accepted (snd (snd (reviewed_admission sample_env ?a hub0 h ?s sample_checked d proofs 1000)))"
    for h d proofs
    by (simp add: reviewed_admission_def sample_env_def sample_review_def peer_review_case_def Let_def
        empty_adapter_eq)
  obtain h2 v d sv where admitted:
      "admit hub0 (admitted_observation ?a hub0 ?s 1000) 1000 = (h2, Decision_Accepted v d sv)"
    by (simp add: admit_def Let_def)
  obtain proofs where "candidate_proofs sample_env ?a h2 ?s sample_checked v 1000 = Inr proofs"
    using proofs by blast
  then have "ckr_accepted (snd (snd (previewed_admission sample_env ?a hub0 ?s sample_checked 1000)))"
    using reviewed unfolding previewed_admission_def codecs obs admitted by (simp add: Let_def)
  then show ?thesis
    using sample_checkin_valid sample_envelope [of proposal] window
    by (simp add: accept_checkin_def Let_def empty_adapter_eq(2) same bt_contains_key_def max_seen_checkins_def)
qed

end
