(* ===== verification/Manifold_Claims.thy ===== *)
theory Manifold_Claims
  imports Manifold_Runs Manifold_Samples Owner_Samples
begin

text \<open>
  Properties of the check-in admission and of the command authority: what an admitted check-in proves, that it
  is used once, that the Hub and the peer authority stay in step, and what a proof projected onto an operation
  stands on.
\<close>

section \<open>Admission\<close>

text \<open>C5: An admitted check-in is authentic and current: it satisfies its contract, was received within its
  signed window of at most five minutes, names a credential that is enrolled and active for the very device
  it reports on and valid at this time, and carries a signature that verifies under that credential's key over
  the signed claims; the Hub then holds the signed observation with the time of receipt and, after its own
  conditions, exactly one more: the Hub's freshness condition, current until the check-in expires and sourced
  from the peer authority at its next revision.\<close>

theorem admitted_checkin_authentic:
  assumes "accept_checkin env a h signed now = (a', h', receipt)" and "ckr_accepted receipt"
  shows "valid (validate_signed_checkin (me_codec env) signed) \<and>
     cc_issued_at_ms (sgc_claims signed) \<le> now \<and> now < cc_expires_at_ms (sgc_claims signed) \<and>
     cc_expires_at_ms (sgc_claims signed) - cc_issued_at_ms (sgc_claims signed) \<le> 300000 \<and>
     (\<exists>credential\<in>set (en_credentials (ma_enrollment a)). pc_active credential \<and>
        pc_key_id credential = sgc_key_id signed \<and>
        pc_peer_id credential = di_device_id (do_identity (cc_observation (sgc_claims signed))) \<and>
        int (pc_valid_from_ms credential) \<le> now \<and> now < int (pc_expires_at_ms credential) \<and>
        verify_signature env (pc_public_key_hex credential) signed) \<and>
     (\<exists>r. bt_get (fh_devices h') (di_device_id (do_identity (cc_observation (sgc_claims signed)))) = Some r \<and>
        rec_accepted_at_ms r = now \<and>
        rec_observation r = (cc_observation (sgc_claims signed))
           \<lparr>do_received_time_ms := now,
            do_conditions := do_conditions (cc_observation (sgc_claims signed)) @ [\<lparr>
              sc_family = Family_Freshness, sc_state = Current, sc_reason = ''local_authenticated_checkin'',
              sc_message = ''The local Hub admitted a current signed device check-in.'',
              sc_source_time_ms = do_source_time_ms (cc_observation (sgc_claims signed)),
              sc_received_time_ms = now,
              sc_accepted_revision = u64_saturating_add (fh_result_revision h) 1,
              sc_fresh_until_ms = cc_expires_at_ms (sgc_claims signed),
              sc_source = \<lparr>ss_adapter_id = ''fleet.local-ingress'', ss_owner = ''rusty-manifold'',
                ss_authority_revision = u64_saturating_add (ap_authority_revision (ma_accepted_peers a)) 1\<rparr>,
              sc_sensitivity = Operator, sc_extensions = bt_empty\<rparr>]\<rparr>)"
proof (rule accepted_checkin [OF assms])
  fix c v d srev
  assume facts: "valid (validate_signed_checkin (me_codec env) signed)"
      "cc_issued_at_ms (sgc_claims signed) \<le> now" "now < cc_expires_at_ms (sgc_claims signed)"
    and c: "checked_envelope env (ma_enrollment a) signed now = Inr c"
    and obs: "accept_observation (codec_observation_bytes (me_codec env)) (codec_json_bytes (me_codec env)) h
       (admitted_observation (unexpired a now) h signed now) now = (h', Decision_Accepted v d srev)"
  have claims: "valid (validate_claims (me_codec env) (sgc_claims signed))"
    using facts(1) by (simp add: validate_signed_checkin_def)
  let ?o = "admitted_observation (unexpired a now) h signed now"
  have h': "h' = fst (admit h ?o now)"
    using obs by (cases rule: accept_observation_cases [of "codec_observation_bytes (me_codec env)"
        "codec_json_bytes (me_codec env)" ?o h now]) auto
  have device: "di_device_id (do_identity ?o) = di_device_id (do_identity (cc_observation (sgc_claims signed)))"
    by (simp add: admitted_observation_def Let_def)
  have "\<exists>r. bt_get (fh_devices h') (di_device_id (do_identity (cc_observation (sgc_claims signed)))) = Some r \<and>
      rec_accepted_at_ms r = now \<and> rec_observation r = ?o"
    unfolding device [symmetric] by (simp add: h' admit_devices admitted_record_def)
  moreover note admitted_observation_def [of "unexpired a now" h signed now, unfolded Let_def local_condition_def
      unexpired_simps]
  moreover have "\<exists>credential\<in>set (en_credentials (ma_enrollment a)). pc_active credential \<and>
      pc_key_id credential = sgc_key_id signed \<and>
      pc_peer_id credential = di_device_id (do_identity (cc_observation (sgc_claims signed))) \<and>
      int (pc_valid_from_ms credential) \<le> now \<and> now < int (pc_expires_at_ms credential) \<and>
      verify_signature env (pc_public_key_hex credential) signed"
    using checked_envelope_facts(2-6) [OF c] by (intro bexI [of _ "kc_credential c"]) simp_all
  moreover have "cc_expires_at_ms (sgc_claims signed) - cc_issued_at_ms (sgc_claims signed) \<le> 300000"
    using valid_claims_window [OF claims] by (simp add: max_checkin_ttl_ms_def)
  ultimately show ?thesis using facts by simp
qed

lemma sample_admission:
  obtains a' h' receipt where
    "accept_checkin sample_env enrolled_adapter hub0 (sample_checkin proposal) 1000 = (a', h', receipt)"
    "ckr_accepted receipt"
  using sample_accepts [of proposal]
  by (cases "accept_checkin sample_env enrolled_adapter hub0 (sample_checkin proposal) 1000") auto

lemma admitted_checkin_authentic_witness:
  "\<forall>proposal. \<exists>r. bt_get (fh_devices (fst (snd (accept_checkin sample_env enrolled_adapter hub0
     (sample_checkin proposal) 1000)))) ''hmd-1'' = Some r \<and> rec_accepted_at_ms r = 1000"
proof
  fix proposal
  have device: "di_device_id (do_identity (cc_observation (sgc_claims (sample_checkin proposal)))) = ''hmd-1''"
    by (simp add: sample_checkin_def sample_claims_def sample_observation_def sample_identity_def)
  obtain a' h' receipt where run: "accept_checkin sample_env enrolled_adapter hub0 (sample_checkin proposal) 1000 =
      (a', h', receipt)" "ckr_accepted receipt"
    by (rule sample_admission)
  from admitted_checkin_authentic [OF run, unfolded device] run(1)
  show "\<exists>r. bt_get (fh_devices (fst (snd (accept_checkin sample_env enrolled_adapter hub0
      (sample_checkin proposal) 1000)))) ''hmd-1'' = Some r \<and> rec_accepted_at_ms r = 1000"
    by auto
qed

text \<open>C6: No check-in is admitted twice. After a check-in was admitted, whatever other check-ins, enrollments,
  authorizations, Hub commands and restarts from a snapshot follow in order of time, the same envelope is
  refused, and so is any other envelope with its check-in ID until the admitted one has expired.\<close>

theorem checkin_admitted_once:
  assumes "accept_checkin env a h signed now = (a', h', receipt)" and "ckr_accepted receipt"
    and "times_from now es" and "last_time now es \<le> later"
    and "cc_checkin_id (sgc_claims other) = cc_checkin_id (sgc_claims signed)"
    and "other = signed \<or> later < cc_expires_at_ms (sgc_claims signed)"
  shows "\<not> ckr_accepted (snd (snd (accept_checkin env (fst (adapter_run env sha enc (a', h') es))
     (snd (adapter_run env sha enc (a', h') es)) other later)))"
proof
  let ?b = "fst (adapter_run env sha enc (a', h') es)" and ?g = "snd (adapter_run env sha enc (a', h') es)"
  assume accepted: "ckr_accepted (snd (snd (accept_checkin env ?b ?g other later)))"
  obtain b' g' receipt' where run: "accept_checkin env ?b ?g other later = (b', g', receipt')" by (metis prod_cases3)
  have "spent (cc_checkin_id (sgc_claims signed)) (cc_expires_at_ms (sgc_claims signed)) (last_time now es) ?b"
    using accept_spends [OF assms(1,2)] assms(3) by (intro run_keeps_spent) simp_all
  moreover have "later < cc_expires_at_ms (sgc_claims signed)"
    using assms(6) accepted run by (auto elim: accepted_checkin [OF run])
  ultimately have "\<not> ckr_accepted receipt'"
    using spent_refuses [OF _ assms(4) _ run] assms(5) by simp
  with accepted run show False by simp
qed

lemma checkin_admitted_once_witness:
  "\<forall>proposal. \<exists>(a' :: string list manifold_adapter) (h' :: hub_state).
     \<not> ckr_accepted (snd (snd (accept_checkin sample_env a' h' (sample_checkin proposal) 2000)))"
proof
  fix proposal
  obtain a' h' receipt where run: "accept_checkin sample_env enrolled_adapter hub0 (sample_checkin proposal) 1000 =
      (a', h', receipt)" "ckr_accepted receipt"
    by (rule sample_admission)
  show "\<exists>(a' :: string list manifold_adapter) (h' :: hub_state). \<not> ckr_accepted (snd (snd (accept_checkin sample_env a' h' (sample_checkin proposal) 2000)))"
    using checkin_admitted_once [OF run, of "[Restart enrolled_adapter 1500]" 2000 "sample_checkin proposal"]
    by (auto simp del: adapter_step.simps)
qed

text \<open>C37: An admission is all or nothing. A refused check-in leaves the Hub as it was, and the adapter as it
  was but for check-ins whose time had passed; an admitted one advances the peer authority by exactly one
  revision and enters the check-in among those seen.\<close>

theorem admission_all_or_nothing:
  assumes "accept_checkin env a h signed now = (a', h', receipt)"
  shows "(if ckr_accepted receipt
     then ap_authority_revision (ma_accepted_peers a') =
         u64_saturating_add (ap_authority_revision (ma_accepted_peers a)) 1 \<and>
       bt_get (ma_seen_checkins a') (cc_checkin_id (sgc_claims signed)) = Some (cc_expires_at_ms (sgc_claims signed)) \<and>
       ma_enrollment a' = ma_enrollment a \<and> ma_runtime_host a' = ma_runtime_host a
     else h' = h \<and> (a' = a \<or> a' = unexpired a now))"
proof (cases "ckr_accepted receipt")
  case True
  have "ap_authority_revision (ma_accepted_peers a') =
      u64_saturating_add (ap_authority_revision (ma_accepted_peers a)) 1 \<and>
    bt_get (ma_seen_checkins a') (cc_checkin_id (sgc_claims signed)) = Some (cc_expires_at_ms (sgc_claims signed)) \<and>
    ma_enrollment a' = ma_enrollment a \<and> ma_runtime_host a' = ma_runtime_host a"
    by (rule accepted_checkin [OF assms True]) (simp add: drained_peers_def)
  with True show ?thesis by simp
next
  case False
  with refused_checkin [OF assms False] show ?thesis by simp
qed

lemma admission_all_or_nothing_witness:
  "\<forall>proposal. fst (snd (accept_checkin sample_env empty_adapter hub0 (sample_checkin proposal) 100)) = hub0"
proof
  fix proposal
  obtain a' h' receipt where run: "accept_checkin sample_env empty_adapter hub0 (sample_checkin proposal) 100 =
      (a', h', receipt)" by (metis prod_cases3)
  then have "\<not> ckr_accepted receipt"
    by (auto simp: accept_checkin_def sample_checkin_def sample_claims_def Let_def split: if_splits)
  with admission_all_or_nothing [OF run] run
  show "fst (snd (accept_checkin sample_env empty_adapter hub0 (sample_checkin proposal) 100)) = hub0" by simp
qed

text \<open>C13: The Hub and the peer authority agree: from agreement on, after any run of check-ins, enrollments,
  authorizations, restarts and Hub commands other than a bare observation, the devices of the Hub are exactly
  the accepted peers, which is what the service demands before it persists the two.\<close>

theorem hub_and_authority_agree:
  assumes "review_enters_peer env" and "set (device_ids h) = set (accepted_peer_ids a)" and "stores_ok h"
    and "\<not> list_ex bare_observation es"
  shows "set (device_ids (snd (adapter_run env sha enc (a, h) es))) =
     set (accepted_peer_ids (fst (adapter_run env sha enc (a, h) es)))"
  using run_same_authority [OF assms(1), of "(a, h)" es sha enc] assms(2-4) by (simp add: same_authority_def)

lemma hub0_stores: "stores_ok hub0"
  using hub_okD(8) [OF reachable_ok [OF reachable.start [OF hub0_new]]] .

lemma hub_and_authority_agree_witness:
  "\<forall>proposal. set (device_ids (snd (adapter_run sample_env no_sha no_codec (enrolled_adapter, hub0)
       [Admit (sample_checkin proposal) 1000]))) =
     set (accepted_peer_ids (fst (adapter_run sample_env no_sha no_codec (enrolled_adapter, hub0)
       [Admit (sample_checkin proposal) 1000])))"
  using hub_and_authority_agree [OF sample_env_laws(1), of hub0 enrolled_adapter] hub0_stores
  by (simp add: accepted_peer_ids_def empty_adapter_eq device_ids_def bt_keys_def bare_observation_def)

section \<open>Authority\<close>

text \<open>C7: The authority of a request is used once: an identity that was authorized is not authorized again
  after any run, restarts of the host from its snapshot included, whatever the kind of the command.\<close>

theorem authority_used_once:
  assumes "host_records env" and "authorized_id env a e = Some i"
    and "(b, g) = adapter_run env sha enc (adapter_step env sha enc (a, h) e) es"
  shows "authorized_id env b e' \<noteq> Some i"
proof
  assume again: "authorized_id env b e' = Some i"
  have "i \<in> applied_ids env (fst (adapter_step env sha enc (a, h) e))"
    using authorize_applies [OF assms(1,2)] by blast
  then have "i \<in> applied_ids env b"
    using run_applied [OF assms(1), of "adapter_step env sha enc (a, h) e" sha enc es] assms(3) by (metis fst_conv subsetD)
  with authorize_applies [OF assms(1) again] show False by blast
qed

definition sample_authorization :: device_authorization where
  "sample_authorization = \<lparr>
     cau_manifold_request_id = kiosk_manifold_request_id sample_crypto ''op-1'' ''hmd-1'' ''request-1'',
     cau_owner_action_request_id = ''request-1'', cau_requester_id = ''operator.local'',
     cau_operation_id = ''op-1'', cau_preview_id = ''preview-1'', cau_issued_at_ms = 1200,
     cau_expires_at_ms = 5000, cau_device_id = ''hmd-1'', cau_identity_revision = 1\<rparr>"

lemma sample_authorized:
  "authorized_id sample_env enrolled_adapter (Authorize_Kiosk sample_authorization 1300) =
     Some (cau_manifold_request_id sample_authorization)"
proof -
  have "\<not> device_refused sample_authorization \<and> \<not> window_refused max_kiosk_command_lifetime_ms sample_authorization 1300"
    by (simp add: device_refused_def window_refused_def blank_or_longer_def sample_authorization_def
        max_kiosk_command_lifetime_ms_def)
  then show ?thesis
    by (simp add: authorize_kiosk_show_controls_def dispatch_command_def sample_authorization_def
        command_request_of_def sample_env_def sample_host_snapshot_def u64_max_def empty_adapter_eq Let_def)
qed

lemma authority_used_once_witness:
  "authorized_id sample_env (fst (adapter_run sample_env no_sha no_codec (adapter_step sample_env no_sha no_codec
      (enrolled_adapter, hub0) (Authorize_Kiosk sample_authorization 1300)) []))
    (Authorize_Kiosk sample_authorization 1400) \<noteq> Some (cau_manifold_request_id sample_authorization)"
  by (rule authority_used_once [OF sample_env_laws(2) sample_authorized]) (rule prod.collapse)

lemma nul_text_inj:
  assumes "length ps = length qs" and "\<forall>p\<in>set ps \<union> set qs. char_of (0 :: nat) \<notin> set p"
    and "concat (map (\<lambda>p. p @ [char_of (0 :: nat)]) ps) = concat (map (\<lambda>p. p @ [char_of (0 :: nat)]) qs)"
  shows "ps = qs"
  using assms
proof (induction ps qs rule: list_induct2)
  case (Cons p ps q qs)
  have "p @ char_of (0 :: nat) # concat (map (\<lambda>p. p @ [char_of (0 :: nat)]) ps) =
      q @ char_of (0 :: nat) # concat (map (\<lambda>p. p @ [char_of (0 :: nat)]) qs)"
    using Cons.prems(2) by simp
  then have "p = q \<and> concat (map (\<lambda>p. p @ [char_of (0 :: nat)]) ps) = concat (map (\<lambda>p. p @ [char_of (0 :: nat)]) qs)"
    by (rule split_at_first) (use Cons.prems(1) in auto)
  with Cons show ?case by auto
qed simp

text \<open>A request identity names what it authorizes. Two Kiosk, or two package, authorizations with one
  Manifold identity are for the same operation, device and owner action, when these contain no NUL byte,
  unless two named texts collide under the hash; and no Kiosk identity is a package identity.\<close>

theorem request_identities_bind:
  assumes "crypto_ok x" and "\<forall>p\<in>{k, d, r, k', d', r'}. char_of (0 :: nat) \<notin> set p"
  shows "(kiosk_manifold_request_id x k d r = kiosk_manifold_request_id x k' d' r' \<longrightarrow> k = k' \<and> d = d' \<and> r = r' \<or>
       collide x (manifold_request_text ''rusty.fleet.kiosk.manifold-request.v1'' [k, d, r])
         (manifold_request_text ''rusty.fleet.kiosk.manifold-request.v1'' [k', d', r'])) \<and>
     (package_manifold_request_id x k d r = package_manifold_request_id x k' d' r' \<longrightarrow> k = k' \<and> d = d' \<and> r = r' \<or>
       collide x (manifold_request_text ''rusty.fleet.packages.manifold-request.v1'' [k, d, r])
         (manifold_request_text ''rusty.fleet.packages.manifold-request.v1'' [k', d', r'])) \<and>
     kiosk_manifold_request_id x k d r \<noteq> package_manifold_request_id x k' d' r'"
proof -
  have inj: "k = k' \<and> d = d' \<and> r = r'"
    if "manifold_request_text domain [k, d, r] = manifold_request_text domain [k', d', r']" for domain
    using nul_text_inj [of "[k, d, r]" "[k', d', r']"] that assms(2) by (auto simp: manifold_request_text_def)
  have hash: "a = b \<or> collide x a b" if "sha256_hex x a = sha256_hex x b" for a b
    using that assms(1) by (auto simp: crypto_ok_def sha256_hex_def collide_def inj_eq)
  show ?thesis
    using inj hash unfolding kiosk_manifold_request_id_def package_manifold_request_id_def by auto
qed

lemma request_identities_bind_witness:
  "kiosk_manifold_request_id sample_crypto ''op-1'' ''hmd-1'' ''request-1'' \<noteq>
   package_manifold_request_id sample_crypto ''op-1'' ''hmd-1'' ''request-1''"
  using request_identities_bind [OF sample_crypto_ok, of "''op-1''" "''hmd-1''" "''request-1''" "''op-1''" "''hmd-1''"
      "''request-1''"] by (simp add: char_of_def)

section \<open>Restarts\<close>

text \<open>C14: A restart restores the authority and no more. When an adapter reloads its own snapshot, over a runtime
  host that applies a request identity once and keeps it over its own restart (\<open>host_records\<close>), the accepted
  peers are the same and each is bound to an active credential of the current configuration; every request
  identity applied before is still applied, so no authorization of any of the five owners succeeds again under
  one of them, and the Kiosk and package authorizations are still reported; and of the check-ins seen and the
  proofs admitted exactly those that are still current remain.\<close>

theorem restart_restores_authority:
  assumes "host_records env"
    and "restore_session env configured (adapter_snapshot env a) now = Inr a'"
  shows "ma_accepted_peers a' = ma_accepted_peers a \<and> ma_enrollment a' = ma_enrollment configured \<and>
     (\<forall>peer\<in>set (ap_peers (ma_accepted_peers a)).
        \<exists>credential\<in>set (en_credentials (ma_enrollment configured)). credential_matches peer credential) \<and>
     applied_ids env a \<subseteq> applied_ids env a' \<and>
     (\<forall>e i. authorized_id env a' e = Some i \<longrightarrow> i \<notin> applied_ids env a) \<and>
     (\<forall>k d r. (has_applied_kiosk_authorization env a k d r \<longrightarrow> has_applied_kiosk_authorization env a' k d r) \<and>
        (has_applied_package_authorization env a k d r \<longrightarrow> has_applied_package_authorization env a' k d r)) \<and>
     (\<forall>i. bt_get (ma_seen_checkins a') i = bt_get (ma_seen_checkins (unexpired a now)) i) \<and>
     (\<forall>i. bt_get (ma_termux_proofs a') i = (case bt_get (ma_termux_proofs a) i of None \<Rightarrow> None
        | Some p \<Rightarrow> if proof_still_current now p then Some p else None))"
proof -
  obtain host where host: "restored_host env configured (Some (me_host_snapshot env (ma_runtime_host a))) = Inr host"
    and a': "a' = configured\<lparr>ma_accepted_peers := ma_accepted_peers a,
      ma_seen_checkins := ma_seen_checkins (unexpired a now), ma_runtime_host := host,
      ma_termux_proofs := bt_retain (\<lambda>_. proof_still_current now) (ma_termux_proofs a)\<rparr>"
    and peers: "find (\<lambda>peer. \<not> list_ex (credential_matches peer) (en_credentials (ma_enrollment configured)))
      (ap_peers (ma_accepted_peers a)) = None"
    using assms(2) by (auto simp: restore_session_def adapter_snapshot_def Let_def unexpired_def
        split: if_splits option.splits sum.splits)
  have "set (hs_applied_request_ids (me_host_snapshot env (ma_runtime_host a))) \<subseteq>
      set (hs_applied_request_ids (me_host_snapshot env host))"
    by (rule restored_host_applied [OF assms(1) host])
  then have applied: "applied_ids env a \<subseteq> applied_ids env a'" by (simp add: applied_ids_def a')
  then have once: "\<forall>e i. authorized_id env a' e = Some i \<longrightarrow> i \<notin> applied_ids env a"
    using authorize_applies [OF assms(1), of a'] by blast
  from applied have "\<forall>k d r. (has_applied_kiosk_authorization env a k d r \<longrightarrow> has_applied_kiosk_authorization env a' k d r) \<and>
      (has_applied_package_authorization env a k d r \<longrightarrow> has_applied_package_authorization env a' k d r)"
    by (auto simp: applied_ids_def has_applied_kiosk_authorization_def has_applied_package_authorization_def)
  with peers applied once show ?thesis
    by (auto simp: a' find_None_iff list_ex_iff)
qed

lemma restart_restores_authority_witness:
  "\<exists>a'. restore_session sample_env enrolled_adapter (adapter_snapshot sample_env enrolled_adapter) 1000 = Inr a' \<and>
     ma_accepted_peers a' = ma_accepted_peers enrolled_adapter"
proof -
  obtain a' where "restore_session sample_env enrolled_adapter (adapter_snapshot sample_env enrolled_adapter) 1000 = Inr a'"
    by (simp add: restore_session_def adapter_snapshot_def manifold_snapshot_schemas_def empty_adapter_eq
        max_seen_checkins_def restored_host_def restart_runtime_host_def sample_env_def sample_host_snapshot_def
        u64_max_def adapter_commands_def Let_def)
  with restart_restores_authority [OF sample_env_laws(2) this] show ?thesis by blast
qed

section \<open>Termux proofs\<close>

text \<open>C27: A signed Termux proof is bound to one owner receipt: the binding chosen is the only modern-TLS request
  receipt of the device and identity revision, applied before the check-in's receipt and after every such
  disable receipt, that no other is as new as; when the newest is not unique nothing is bound.\<close>

theorem proof_bound_to_unique_newest:
  "bind_termux_proof_to_exact_owner_receipt h d i t = Some b \<longleftrightarrow>
   filter (\<lambda>c. pb_receipt_updated_at_ms b \<le> pb_receipt_updated_at_ms c)
     (binding_candidates (quest_wifi_adb_operations h) d i t) = [b] \<and>
   (\<exists>op\<in>set (quest_wifi_adb_operations h). \<exists>target\<in>set (wop_targets op). \<exists>r.
      wv_action (wop_preview op) = RequestWirelessAdb \<and> wt_receipt target = Some r \<and>
      wt_device_id target = d \<and> wt_identity_revision target = i \<and>
      wr_effect_applied r \<and> wr_route_mode r = ModernTls \<and> wt_updated_at_ms target < t \<and>
      b = binding_of op target r \<and>
      (\<forall>op'\<in>set (quest_wifi_adb_operations h). wv_action (wop_preview op') = DisableWirelessAdb \<longrightarrow>
         (\<forall>u\<in>set (wop_targets op'). modern_effect d i u \<longrightarrow> wt_updated_at_ms u < wt_updated_at_ms target)))"
    (is "?bound \<longleftrightarrow> ?only \<and> ?from")
proof -
  have "?from" if "?only"
  proof -
    have "b \<in> set (filter (\<lambda>c. pb_receipt_updated_at_ms b \<le> pb_receipt_updated_at_ms c)
        (binding_candidates (quest_wifi_adb_operations h) d i t))"
      unfolding that by simp
    then have "b \<in> set (binding_candidates (quest_wifi_adb_operations h) d i t)" by simp
    then obtain op target r where found: "op \<in> set (quest_wifi_adb_operations h)"
      "wv_action (wop_preview op) = RequestWirelessAdb" "target \<in> set (wop_targets op)"
      "wt_receipt target = Some r" "modern_effect d i target" "wt_updated_at_ms target < t"
      "none_or (\<lambda>disabled_at. wt_updated_at_ms target > disabled_at) (newest_disable (quest_wifi_adb_operations h) d i)"
      "b = binding_of op target r"
      unfolding binding_candidate by blast
    have "wt_device_id target = d \<and> wt_identity_revision target = i \<and> wr_effect_applied r \<and> wr_route_mode r = ModernTls"
      using found(4,5) by (simp add: modern_effect_def)
    then show ?thesis using found(1-4,6,8) found(7) [unfolded after_newest_disable] by blast
  qed
  then show ?thesis unfolding bound_iff by blast
qed

lemma proof_bound_to_unique_newest_witness:
  "bind_termux_proof_to_exact_owner_receipt hub0 ''hmd-1'' 1 1000 = None"
proof -
  have "quest_wifi_adb_operations hub0 = []"
    by (simp add: quest_wifi_adb_operations_def hub0_def hub_new_def policy_ok_def default_policy_def bt_values_def)
  then show ?thesis
    using proof_bound_to_unique_newest [of hub0 "''hmd-1''" 1 1000, THEN iffD1]
    by (cases "bind_termux_proof_to_exact_owner_receipt hub0 ''hmd-1'' 1 1000") simp_all
qed

text \<open>C12: A Wi-Fi ADB route is reported usable from Termux only on proof. In what the adapter projects from a
  reachable Hub, a usable target of a valid operation stands on an owner receipt whose effect was applied over
  modern TLS and on an admitted proof, still fresh, of the device's current source revision, epoch and
  identity, bound to exactly this operation and receipt and admitted strictly after it; the operation does not
  disable the route, and no later receipt disabled it.\<close>

theorem termux_usable_only_on_proof:
  assumes "reachable ob jb sha enc policy h" and "projected_wifi_operation sha m h k now = Inr op'"
    and "t' \<in> set (wop_targets op')" and "wt_termux_usable t'"
  shows "valid (validate_wifi_operation sha op') \<and> wv_action (wop_preview op') \<noteq> DisableWirelessAdb \<and>
     (\<exists>op t r admitted. bt_get (fh_wifi_adb_operations h) k = Some op \<and> t \<in> set (wop_targets op) \<and>
        wt_device_id t' = wt_device_id t \<and> wt_receipt t = Some r \<and> wr_effect_applied r \<and>
        wr_route_mode r = ModernTls \<and> admitted \<in> set (bt_values (ma_termux_proofs m)) \<and>
        wt_termux_proof t' = Some (adp_proof admitted) \<and> tp_available (adp_proof admitted) \<and>
        tp_fresh_until_ms (adp_proof admitted) > now \<and> tp_device_id (adp_proof admitted) = wt_device_id t \<and>
        some_and (\<lambda>(epoch, revision, identity). tp_source_epoch (adp_proof admitted) = epoch \<and>
          tp_source_revision (adp_proof admitted) = revision \<and> tp_identity_revision (adp_proof admitted) = identity)
          (device_source_lineage h (wt_device_id t)) \<and>
        some_and (admission_binds k t r) (adp_admission admitted) \<and>
        adp_accepted_at_ms admitted > wt_updated_at_ms t \<and>
        \<not> disabled_after_proof h (wt_device_id t) admitted)"
proof -
  obtain op where op: "bt_get (fh_wifi_adb_operations h) k = Some op" "valid (validate_wifi_operation sha op')"
    "wop_preview op' = wop_preview op" and
    from_op: "\<forall>t'\<in>set (wop_targets op'). \<exists>t\<in>set (wop_targets op). t' = t \<or>
       (\<exists>admitted row. hub_inspect h (wt_device_id t) now = Inr row \<and>
         admitted \<in> set (bt_values (ma_termux_proofs m)) \<and>
         proof_applies h (wop_operation_id op) t (dr_source_epoch (dins_row row)) admitted \<and>
         t' = proven_target sha h (wop_operation_id op) (wv_action (wop_preview op)) now admitted t)"
    by (rule projected_operation [OF assms(2)])
  have sound: "wifi_sound op" "wop_operation_id op = k"
    using stores_okD(2) [OF hub_okD(8) [OF reachable_ok [OF assms(1)]]] op(1) by (auto simp: wa.sound_store_def)
  obtain t where t: "t \<in> set (wop_targets op)" "t' = t \<or> (\<exists>admitted row. hub_inspect h (wt_device_id t) now = Inr row \<and>
      admitted \<in> set (bt_values (ma_termux_proofs m)) \<and>
      proof_applies h k t (dr_source_epoch (dins_row row)) admitted \<and>
      t' = proven_target sha h k (wv_action (wop_preview op)) now admitted t)"
    using from_op assms(3) sound(2) by blast
  have "\<not> wt_termux_usable t"
    using sound(1) t(1) by (simp add: wifi_sound_def wifi_targets_bound_def wifi_target_bound_def)
  with t(2) assms(4) obtain admitted row where shown: "hub_inspect h (wt_device_id t) now = Inr row"
    "admitted \<in> set (bt_values (ma_termux_proofs m))"
    "proof_applies h k t (dr_source_epoch (dins_row row)) admitted"
    "t' = proven_target sha h k (wv_action (wop_preview op)) now admitted t" by blast
  have row: "device_source_lineage h (wt_device_id t) = Some (e, v, i) \<Longrightarrow> e = dr_source_epoch (dins_row row)" for e v i
    using shown(1) by (auto simp: device_source_lineage_def hub_inspect_def find_device_def inspector_of_def
        hub_row_def Let_def split: option.splits sum.splits)
  from assms(4) [unfolded shown(4)] obtain r where r: "wt_receipt t = Some r" "wr_effect_applied r"
    "wr_route_mode r = ModernTls" "some_and (admission_binds k t r) (adp_admission admitted)"
    "adp_accepted_at_ms admitted > wt_updated_at_ms t" and
    u: "tp_available (adp_proof admitted)" "tp_fresh_until_ms (adp_proof admitted) > now"
    "wv_action (wop_preview op) \<noteq> DisableWirelessAdb" "\<not> disabled_after_proof h (wt_device_id t) admitted"
    by (auto simp: proven_target_def Let_def some_and_def split: option.splits)
  have fields: "wt_device_id t' = wt_device_id t" "wt_termux_proof t' = Some (adp_proof admitted)"
    by (simp_all add: shown(4) proven_target_def Let_def)
  have lineage: "tp_device_id (adp_proof admitted) = wt_device_id t"
    "some_and (\<lambda>(epoch, revision, identity). tp_source_epoch (adp_proof admitted) = epoch \<and>
      tp_source_revision (adp_proof admitted) = revision \<and> tp_identity_revision (adp_proof admitted) = identity)
      (device_source_lineage h (wt_device_id t))"
    using shown(3) row by (auto simp: proof_applies_def Let_def some_and_def split: option.splits)
  show ?thesis
    using op t(1) shown(2) r u fields lineage by (intro conjI exI [of _ op] exI [of _ t] exI [of _ r] exI [of _ admitted]) simp_all
qed

definition sample_termux_proof :: termux_proof where
  "sample_termux_proof = \<lparr>tp_schema = termux_proof_schema, tp_proof_id = ''termux-proof-1'',
     tp_owner_id = termux_proof_owner, tp_device_id = ''hmd-1'', tp_identity_revision = 1,
     tp_source_epoch = ''boot-1'', tp_source_revision = 1, tp_evidence_revision = 1, tp_route_mode = ModernTls,
     tp_discovery_mode = ''tls_nsd'', tp_listener_discovered = True, tp_shell_identity = Some termux_shell_identity,
     tp_available = True, tp_evidence_sha256 = sample_seal, tp_observed_at_ms = 1450, tp_fresh_until_ms = 50000\<rparr>"

definition sample_admitted_proof :: admitted_proof where
  "sample_admitted_proof = \<lparr>adp_proof = sample_termux_proof, adp_checkin_id = ''agent.checkin-2'',
     adp_checkin_expires_at_ms = 60900, adp_accepted_at_ms = 1500,
     adp_admission = Some \<lparr>aa_key_id = ''key.agent'', aa_key_generation = 1, aa_public_key_sha256 = sample_seal,
       aa_claims_jcs_sha256 = sample_seal, aa_signing_message_sha256 = sample_seal,
       aa_signature_sha256 = sample_seal, aa_fleet_accepted_revision = 3, aa_enrollment_authority_revision = 1,
       aa_manifold_authority_revision = 2, aa_bound_operation_id = ''wifi-1'',
       aa_bound_receipt_request_id = ''request-1'', aa_bound_receipt_evidence_sha256 = replicate 64 CHR ''a'',
       aa_bound_receipt_updated_at_ms = 1400, aa_consumption_state = Bound_To_Exact_Owner_Receipt\<rparr>\<rparr>"

definition proof_adapter :: "string list manifold_adapter" where
  "proof_adapter = enrolled_adapter\<lparr>ma_termux_proofs := bt_insert ''termux-proof-1'' sample_admitted_proof bt_empty\<rparr>"

definition wifi_target5 :: wifi_target where
  "wifi_target5 = hd (wop_targets wifi_op5)"

lemma wifi_target5_fields:
  "wop_targets wifi_op5 = [wifi_target5]" "wt_device_id wifi_target5 = ''hmd-1''" "wt_identity_revision wifi_target5 = 1"
  "wt_receipt wifi_target5 = Some wifi_receipt_1" "wt_updated_at_ms wifi_target5 = 1400"
  "wop_operation_id wifi_op5 = ''wifi-1''" "wop_preview wifi_op5 = wop_preview wifi_op1"
  by (simp_all add: wifi_target5_def wifi_op5_def with_wifi_lifecycle_def change_wifi_target_def
      received_wifi_target_def dispatched_wifi_target_def prepared_wifi_target_def confirm_wifi_target_def Let_def
      wifi_receipt_1_def)

lemma wifi_target5_call:
  "wt_invocation wifi_target5 = Some (prepared_invocation wifi_op2 ''request-1'' 1300
     (confirm_wifi_target 1200 (proposed_wifi_target 1100 wifi_facts)))"
  "wop_schema wifi_op5 = wifi_operation_schema" "wop_action_id wifi_op5 = wop_action_id wifi_op1"
  by (simp_all add: wifi_target5_def wifi_op5_def with_wifi_lifecycle_def change_wifi_target_def wifi_op4_def wifi_op3_def
      wifi_op2_def confirmed_wifi_operation_def wifi_op1_def proposed_wifi_operation_def Let_def
      received_wifi_target_def dispatched_wifi_target_def prepared_wifi_target_def confirm_wifi_target_def
      proposed_wifi_target_def wifi_facts_def)

lemma sample_projects:
  "projected_targets sha proof_adapter (wifi_hub wifi_op5) ''wifi-1'' RequestWirelessAdb 1600 u [wifi_target5] =
     Inr ([proven_target sha (wifi_hub wifi_op5) ''wifi-1'' RequestWirelessAdb 1600 sample_admitted_proof wifi_target5],
       max u 1500)"
proof -
  have inspect: "hub_inspect (wifi_hub wifi_op5) ''hmd-1'' 1600 = Inr (inspector_of (wifi_hub wifi_op5) sample_record 1600)"
    by (simp add: hub_inspect_def find_device_def)
  have epoch: "dr_source_epoch (dins_row (inspector_of (wifi_hub wifi_op5) sample_record 1600)) = ''boot-1''"
    by (simp add: inspector_of_def hub_row_def Let_def sample_observation_def)
  have "device_source_lineage (wifi_hub wifi_op5) ''hmd-1'' = Some (''boot-1'', 1, 1)"
    by (simp add: device_source_lineage_def sample_observation_def sample_identity_def)
  then have "proof_applies (wifi_hub wifi_op5) ''wifi-1'' wifi_target5 ''boot-1'' sample_admitted_proof"
    by (simp add: proof_applies_def wifi_target5_fields Let_def some_and_def admission_binds_def
      sample_admitted_proof_def sample_termux_proof_def wifi_receipt_1_def)
  then have "applying_proof proof_adapter (wifi_hub wifi_op5) ''wifi-1'' wifi_target5 ''boot-1'' =
      Some sample_admitted_proof"
    by (simp add: applying_proof_def max_by_def proof_adapter_def bt_values_def)
  with inspect epoch show ?thesis
    by (simp add: wifi_target5_fields sample_admitted_proof_def)
qed

lemma seal_lower: "is_lower_sha256 sample_seal"
  using sample_seal(3) by (simp add: is_lower_sha256_def is_lower_hex_sha256_def lower_hex_iff)

lemma sample_ids_portable:
  "is_portable_id ''termux-proof-1'' 256" "is_portable_id ''agent.checkin-2'' 256" "is_portable_id ''boot-1'' 256"
  "is_portable_id ''request-1'' 256" "is_portable_id ''key.agent'' 256"
  by (simp_all add: is_portable_id_def is_portable_byte_def is_ascii_alphanumeric_def is_ascii_digit_def
      is_ascii_lowercase_def is_ascii_uppercase_def)

lemma sample_termux_proof_valid: "valid (validate_termux_proof sample_termux_proof)"
  using seal_lower sample_ids_portable wifi_ids_portable
  by (simp add: validate_termux_proof_def sample_termux_proof_def)

lemma sample_admission_fields:
  fixes sha :: "string \<Rightarrow> string"
  assumes "adp_admission sample_admitted_proof = Some base"
  defines "a \<equiv> projected_admission sha wifi_target5 sample_admitted_proof base"
  shows "ta_operation_id a = ''wifi-1''" "ta_device_id a = ''hmd-1''" "ta_identity_revision a = 1"
    "ta_proof_id a = tp_proof_id sample_termux_proof" "ta_source_epoch a = tp_source_epoch sample_termux_proof"
    "ta_source_revision a = tp_source_revision sample_termux_proof"
    "ta_evidence_revision a = tp_evidence_revision sample_termux_proof"
    "ta_receipt_request_id a = wr_request_id wifi_receipt_1"
    "ta_receipt_evidence_sha256 a = wr_evidence_sha256 wifi_receipt_1"
  using assms(1) by (auto simp: a_def projected_admission_def Let_def wifi_target5_fields sample_admitted_proof_def
    sample_termux_proof_def wifi_receipt_1_def)

lemma sample_projection_valid:
  "valid (validate_wifi_operation (\<lambda>_. sample_seal) (wifi_op5
     \<lparr>wop_targets := [proven_target (\<lambda>_. sample_seal) (wifi_hub wifi_op5) ''wifi-1'' RequestWirelessAdb 1600
        sample_admitted_proof wifi_target5], wop_updated_at_ms := 1500\<rparr>))"
    (is "valid (validate_wifi_operation ?sha ?op)")
proof -
  let ?t = "proven_target ?sha (wifi_hub wifi_op5) ''wifi-1'' RequestWirelessAdb 1600 sample_admitted_proof wifi_target5"
  obtain base where base: "adp_admission sample_admitted_proof = Some base" by (simp add: sample_admitted_proof_def)
  let ?a = "projected_admission ?sha wifi_target5 sample_admitted_proof base"
  have target: "wt_device_id ?t = ''hmd-1''" "wt_identity_revision ?t = 1" "wt_receipt ?t = Some wifi_receipt_1"
    "wt_preflight ?t = wifi_facts" "wt_lifecycle ?t = Applied" "wt_termux_proof ?t = Some sample_termux_proof"
    "wt_termux_admission ?t = Some ?a" "wt_updated_at_ms ?t = 1500" "wt_invocation ?t = wt_invocation wifi_target5"
    using base by (simp_all add: proven_target_def Let_def wifi_target5_fields sample_admitted_proof_def)
      (simp_all add: wifi_target5_def wifi_op5_def with_wifi_lifecycle_def change_wifi_target_def
        received_wifi_target_def dispatched_wifi_target_def prepared_wifi_target_def confirm_wifi_target_def
        Let_def wifi_receipt_1_def)
  have preview: "wv_targets (wop_preview wifi_op1) = [wifi_facts]" "wv_created_at_ms (wop_preview wifi_op1) = 1100"
    "wv_preview_id (wop_preview wifi_op1) = ''wifi-preview-1''" "wf_device_id wifi_facts = ''hmd-1''"
    "wf_identity_revision wifi_facts = 1"
    by (simp_all add: wifi_op1_def proposed_wifi_operation_def Let_def wifi_plan_def wifi_facts_def)
  have op: "wop_preview ?op = wop_preview wifi_op1" "wop_operation_id ?op = ''wifi-1''"
    by (simp_all add: wifi_target5_fields)
  have invocation: "\<not> some_and (wifi_invocation_mismatch ?op ?t) (wt_invocation ?t)"
    "\<not> none_or (\<lambda>i. wi_request_id i \<noteq> ''request-1'') (wt_invocation ?t)"
    using wifi_ids_portable unfolding target(9)
    by (simp_all add: wifi_invocation_mismatch_def op preview target wifi_target5_call confirm_wifi_target_def
      validate_wifi_invocation_def prepared_invocation_def)
  have receipt: "\<not> wifi_receipt_mismatch ?op ?t wifi_receipt_1"
    using wifi_receipt_1_valid invocation(2) by (simp add: wifi_receipt_mismatch_def op preview target) (simp add: wifi_receipt_1_def)
  have proof_ok: "\<not> termux_proof_mismatch ?t sample_termux_proof"
    using sample_termux_proof_valid by (simp add: termux_proof_mismatch_def target) (simp add: sample_termux_proof_def wifi_receipt_1_def)
  have "valid (validate_termux_admission ?sha ?a)"
    using base seal_lower sample_ids_portable wifi_ids_portable
    by (auto simp: validate_termux_admission_def projected_admission_def Let_def wifi_target5_fields
      expected_lineage_sha256_def sample_admitted_proof_def sample_termux_proof_def
      is_lower_sha256_def is_lower_hex_def is_ascii_digit_def list_all_iff is_ascii_hexdigit_def is_ascii_uppercase_def)
  then have admission: "\<not> termux_admission_mismatch ?sha ?op ?t ?a"
    using base sample_admission_fields [OF base, of ?sha]
    by (simp add: termux_admission_mismatch_def op target)
  have applied: "wr_effect_applied wifi_receipt_1" "tp_available sample_termux_proof"
    by (simp_all add: wifi_receipt_1_def sample_termux_proof_def)
  have bound: "wifi_operation_target_failures ?sha ?op ?t = []"
    using invocation(1) receipt proof_ok admission applied
    by (simp add: wifi_operation_target_failures_def wifi_bound_target_failures_def op preview target)
  have "wifi_operation_head_failures wifi_op1 = []"
    using wifi_op1_valid by (simp add: validate_wifi_operation_def)
  then have "wifi_operation_head_failures ?op = []"
    by (auto simp: wifi_operation_head_failures_def preview wifi_target5_fields wifi_target5_call)
  with bound show ?thesis by (simp add: validate_wifi_operation_def)
qed

lemma termux_usable_only_on_proof_witness:
  "\<exists>op'. projected_wifi_operation (\<lambda>_. sample_seal) proof_adapter (wifi_hub wifi_op5) ''wifi-1'' 1600 = Inr op' \<and>
     wv_action (wop_preview op') \<noteq> DisableWirelessAdb"
proof -
  let ?sha = "\<lambda>_ :: string. sample_seal"
  let ?t = "proven_target ?sha (wifi_hub wifi_op5) ''wifi-1'' RequestWirelessAdb 1600 sample_admitted_proof wifi_target5"
  let ?op = "wifi_op5\<lparr>wop_targets := [?t], wop_updated_at_ms := 1500\<rparr>"
  have "wop_updated_at_ms wifi_op5 = 1400" "wt_updated_at_ms wifi_target5 = 1400"
    by (simp_all add: wifi_target5_fields wifi_op5_def change_wifi_target_def with_wifi_lifecycle_def)
  then have run: "projected_wifi_operation ?sha proof_adapter (wifi_hub wifi_op5) ''wifi-1'' 1600 = Inr ?op"
    using sample_projection_valid
    by (auto simp: projected_wifi_operation_def quest_wifi_adb_operation_def wifi_target5_fields sample_projects
      Let_def valid_iff_Inr simp del: projected_targets.simps)
  have "\<not> disabled_after_proof (wifi_hub wifi_op5) ''hmd-1'' sample_admitted_proof"
    by (simp add: disabled_after_proof_def quest_wifi_adb_operations_def bt_values_def wifi_target5_fields)
  then have usable: "wt_termux_usable ?t"
    by (simp add: proven_target_def Let_def wifi_target5_fields some_and_def admission_binds_def
      sample_admitted_proof_def) (simp add: sample_termux_proof_def wifi_receipt_1_def)
  show ?thesis
    using run termux_usable_only_on_proof [OF wifi_hub_reachable(2) run, of ?t] usable by auto
qed

end
