(* ===== verification/Spec2Isabelle.thy ===== *)
theory Spec2Isabelle
  imports Contract_Claims Kiosk_Claims Query_Claims Hub_Claims Owner_Claims Hotspot_Claims
    Package_Claims Catalog_Claims Kiosk_Link_Claims Manifold_Claims
begin

text \<open>
  Rusty Fleet: the Fleet contracts, the Fleet Hub, and the adapters to Kiosk owners and to Manifold.

  The program. A Fleet Hub keeps the directory of a fleet of headsets. Adapters submit a
  \<^verbatim>\<open>DeviceObservation\<close> per device; the Hub validates it, checks its lineage (identity revision,
  source epoch, source revision) and records it. Operators read the fleet through rows, filtered
  and sorted windows, inspector, detail and summary; keep saved views under optimistic revision
  control; search the catalogs of installed applications the headsets report; and run guarded
  operations on devices: \<^verbatim>\<open>kiosk.show-controls\<close>, package install/release, Quest awake, Quest Wi-Fi
  ADB and the Windows hotspot. In each a preview freezes targets and their facts, a confirmation
  re-checks them, bounded owner attempts are dispatched, and only a bound and verified receipt of
  the owner applies a target. Package operations are delivered by claims the updater of a headset
  takes, and are archived when they are over. The crate
  \<^verbatim>\<open>fleet-contracts\<close> defines the data and a validator for each type, the crate \<^verbatim>\<open>fleet-hub\<close> the
  state and its methods. Around the Hub, \<^verbatim>\<open>fleet-kiosk-adapter\<close> carries a dispatched show-controls
  attempt to the owner over signed HTTP and brings back its receipt, and \<^verbatim>\<open>fleet-manifold-adapter\<close>
  admits signed check-ins of enrolled devices into the Hub and obtains the authority of the Manifold
  runtime host for each command before it is dispatched.

  Foundations.
  \<^item> \<^theory_text>\<open>Prelude\<close>: Rust integers as bounded numbers with their saturating and checked operations,
    strings as the lists of their UTF-8 bytes, floating-point values as far as validators look.
  \<^item> \<^theory_text>\<open>Ordered_Map\<close>: \<^verbatim>\<open>BTreeMap\<close> as a type of strictly sorted association lists; locale
    \<^theory_text>\<open>ordered_map\<close> is the interface, interpreted on the type.
  \<^item> \<^theory_text>\<open>Contract\<close>: \<^verbatim>\<open>ContractViolation\<close>, the helpers every validator uses, comparators (locale
    \<^theory_text>\<open>total_comparator\<close>) and the stable sort.
  \<^item> \<^theory_text>\<open>Operation_Store\<close>: locale \<^theory_text>\<open>operation_store\<close>, the discipline of an operation family that
    validates before it stores; interpreted on the Kiosk operations in \<^theory_text>\<open>Hub_Kiosk_Facts\<close>.
    It also holds locale \<^theory_text>\<open>inplace\<close>, the weaker discipline of a family that changes its
    operation in place and validates afterwards; interpreted on the Wi-Fi ADB and awake operations.

  Contracts (crates/fleet-contracts/src). Each record keeps the fields of the Rust struct, each
  validator the checks in their order with codes, paths and messages; a validator that returns
  \<^verbatim>\<open>Err(violations)\<close> is \<open>Inl violations\<close>.
  \<^item> \<^theory_text>\<open>Device_Facts\<close>: condition.rs, capability.rs. \<^theory_text>\<open>Stream_Contract\<close>: stream.rs.
    \<^theory_text>\<open>Observation\<close>: identity.rs. \<^theory_text>\<open>Query\<close>: query.rs. \<^theory_text>\<open>Command\<close>: command.rs.
    \<^theory_text>\<open>Projection\<close> and \<^theory_text>\<open>Saved_View\<close>: projection.rs. \<^theory_text>\<open>Checkin\<close>: checkin.rs.
    \<^theory_text>\<open>Kiosk_Contract\<close>: kiosk.rs. \<^theory_text>\<open>Owner_Contract\<close>: what awake.rs and wifi_adb.rs share.
    \<^theory_text>\<open>Awake_Contract\<close>: awake.rs. \<^theory_text>\<open>Wifi_Adb_Contract\<close>: wifi_adb.rs with the Termux proof and its
    lineage digest. \<^theory_text>\<open>Hotspot_Contract\<close>: windows_hotspot.rs. \<^theory_text>\<open>Package_Contract\<close> and
    \<^theory_text>\<open>Package_Ledger\<close>: packages.rs, the messages and the operation with its lifecycle rows, progress
    and archive. \<^theory_text>\<open>Catalog_Contract\<close>: kiosk_apps.rs and kiosk_production.rs.

  The Hub (crates/fleet-hub/src).
  \<^item> \<^theory_text>\<open>Hub_State\<close>: lib.rs, the state \<open>hub_state\<close> of \<^verbatim>\<open>FleetHub\<close> and \<^verbatim>\<open>accept_observation\<close> with
    its event log. \<open>fh_devices\<close>, \<open>fh_saved_views\<close> and the \<open>fh_..._operations\<close> are the maps of the
    struct; a method that takes \<^verbatim>\<open>&mut self\<close> returns the new state with its result.
  \<^item> \<^theory_text>\<open>Hub_Query\<close>: lib.rs, rows, query evaluation, sorting and the read API.
  \<^item> \<^theory_text>\<open>Hub_Saved_Views\<close>: lib.rs, the saved-view methods.
  \<^item> \<^theory_text>\<open>Hub_Kiosk\<close>: kiosk.rs, every method of the show-controls operation.
  \<^item> \<^theory_text>\<open>Hub_Owner\<close>: what awake.rs and wifi_adb.rs share. \<^theory_text>\<open>Hub_Awake\<close>: awake.rs.
    \<^theory_text>\<open>Hub_Wifi_Adb\<close>: wifi_adb.rs. \<^theory_text>\<open>Hub_Hotspot\<close>: windows_hotspot.rs, with the text of its
    deadlines in \<^theory_text>\<open>Hub_Deadline\<close>. Every method of the three families.
  \<^item> \<^theory_text>\<open>Hub_Packages\<close>: packages.rs, every method. Two of them can panic: their result is an
    \<open>option\<close>, \<open>None\<close> for the panic.
  \<^item> \<^theory_text>\<open>Hub_Catalogs\<close>: kiosk_apps.rs, admission, search and candidates.
  \<^item> \<^theory_text>\<open>Hub_Restore\<close>: lib.rs, \<^verbatim>\<open>snapshot\<close> and \<^verbatim>\<open>restore\<close> with the checks of every store.

  The adapters.
  \<^item> \<^theory_text>\<open>Kiosk_Signing\<close>: crates/fleet-kiosk-adapter/src/lib.rs, endpoints, canonical texts, HMAC,
    signing and verification. \<^theory_text>\<open>Kiosk_Adapter\<close>: the same file, the runs over a transport. A run is a
    function from the state of the caller's transport to a result and its new state; polling is
    recursion over the polls the limits allow, so it needs no fuel.
  \<^item> \<^theory_text>\<open>Manifold_State\<close>: crates/fleet-manifold-adapter/src/lib.rs, the adapter with its snapshot,
    restoration and enrollment. \<^theory_text>\<open>Manifold_Admission\<close>: the same file, \<^verbatim>\<open>accept\<close> with the signed
    Termux proof and its binding to an owner receipt. \<^theory_text>\<open>Manifold_Authority\<close>: the same file, request
    identities, the five command authorizations, and the projection of Wi-Fi ADB operations.

  Lemma groups.
  \<^item> \<^theory_text>\<open>Hub_Acceptance\<close>: the invariant of device records and of the event log, and the lineage
    argument that an epoch that was left cannot be entered again.
  \<^item> \<^theory_text>\<open>Hub_Kiosk_Facts\<close>: the target state machine \<open>kiosk_move\<close>, and that every method keeps or
    puts one valid operation that evolves the stored one. Also, when the guards of
    a method pass, the ledger it writes back passes its validator.
  \<^item> \<^theory_text>\<open>Owner_Ledger\<close>: the abstract specification of an owner operation, a ledger of target states
    with one step per method. \<^theory_text>\<open>Hub_Wifi_Adb_Facts\<close> and \<^theory_text>\<open>Hub_Awake_Facts\<close> prove that the methods
    of both families are steps of it under \<open>abs_wifi\<close> and \<open>abs_awake\<close>; \<^theory_text>\<open>Hub_Calls\<close> and
    \<^theory_text>\<open>Owner_Runs\<close> carry this over single calls and over runs.
  \<^item> \<^theory_text>\<open>Hub_Hotspot_Facts\<close>: the life of a hotspot operation and of the observed ownership.
    \<^theory_text>\<open>Hub_Deadline\<close>: the days-to-civil-date algorithm against a calendar that counts day by day.
    \<^theory_text>\<open>Owner_Runs\<close> also shows that the digest input determines the admission's lineage.
  \<^item> \<^theory_text>\<open>Hub_Packages_Facts\<close>: the invariant \<open>package_kept\<close> of a stored package operation, which holds also
    of one left invalid in place, and the relation \<open>package_evolves\<close> every method keeps.
    \<^theory_text>\<open>Hub_Packages_Facts\<close> and \<^theory_text>\<open>Package_Effects\<close> show it method by method, with what happens to
    consumed claim identities; \<^theory_text>\<open>Package_Runs\<close> over runs of the Hub. \<^theory_text>\<open>Package_Offers\<close>: which
    claims are accepted, the selection and the sweep. Also, the tallies of the progress
    projection.
  \<^item> \<^theory_text>\<open>Hub_Catalog_Facts\<close>: an admission as one step, and the invariant of catalogs, replay identities
    and associations; \<^theory_text>\<open>Catalog_Search\<close>: the same over runs, and the search folds against their
    specification. \<^theory_text>\<open>Catalog_Digest\<close>: the length-prefixed digest input is injective.
  \<^item> \<^theory_text>\<open>Hub_List_Facts\<close>: newest conditions, validity of projections, the
    comparator as a total order, windows and pages, the summary's partition.
  \<^item> \<^theory_text>\<open>Hub_Runs\<close>: the Hub as a state machine. \<open>hub_command\<close> is one call of a method,
    \<open>run_commands\<close> a sequence of any calls in any order. \<open>reachable\<close> are the states that sequences
    of \<open>admissible\<close> calls lead to from \<open>hub_new\<close>, \<open>hub_ok\<close> the invariant all of them satisfy. Every
    call is admissible except \<^verbatim>\<open>accept_observation\<close> at a negative \<^verbatim>\<open>now_ms\<close> or when the event
    sequence is at \<^verbatim>\<open>u64::MAX\<close>: the code accepts an observation then too, but leaves the invariant (a
    record whose time \<^verbatim>\<open>restore\<close> refuses, an event number used twice). So each property of reachable
    Hubs is one of Hubs that accepted observations only at times not before the epoch and whose event
    log did not run out of numbers.
  \<^item> \<^theory_text>\<open>Kiosk_Adapter_Facts\<close>: what a run of the Kiosk adapter sends, over a transport that logs its
    requests, and over one that records each request with its answer (\<open>recorded\<close>): the exchange a
    receipt was projected from (\<open>proven_by\<close>). \<^theory_text>\<open>Manifold_Runs\<close>: one admission, and runs of check-ins, enrollments,
    authorizations, Hub commands and restarts (\<open>adapter_event\<close>, \<open>adapter_run\<close>) with what they keep.
    Also, the binding of a proof and the projection of operations.
  \<^item> \<^theory_text>\<open>Samples\<close>, \<^theory_text>\<open>Manifold_Samples\<close>, \<^theory_text>\<open>Owner_Samples\<close>, \<^theory_text>\<open>Hotspot_Samples\<close>, \<^theory_text>\<open>Package_Samples\<close>, \<^theory_text>\<open>Catalog_Samples\<close>:
    concrete Hubs taken through preview, confirmation, dispatch and receipt of each family (and the
    archive of a package operation), and admitted catalogs.
  \<^item> \<^theory_text>\<open>Hub_Claims\<close>, \<^theory_text>\<open>Kiosk_Claims\<close>, \<^theory_text>\<open>Query_Claims\<close>, \<^theory_text>\<open>Contract_Claims\<close>, \<^theory_text>\<open>Owner_Claims\<close>,
    \<^theory_text>\<open>Hotspot_Claims\<close>, \<^theory_text>\<open>Package_Claims\<close>, \<^theory_text>\<open>Catalog_Claims\<close>, \<^theory_text>\<open>Kiosk_Link_Claims\<close>,
    \<^theory_text>\<open>Manifold_Claims\<close>: the properties C1 to C40, each with a
    witness at concrete inputs, and further theorems of the same form without a number.

  Parameters. \<open>obs_bytes\<close>, \<open>json_bytes\<close> and the record \<open>checkin_codec\<close> stand for \<^verbatim>\<open>serde_json\<close> and
  \<^verbatim>\<open>serde_jcs\<close>: serialised lengths (\<open>None\<close> when serialisation fails), the test for a JSON object
  and the canonical encoding. The record \<open>hub_codec\<close> holds the encoding of a package operation that
  is hashed for its archive, and the lower-casing the catalogs use. \<open>uni\<close> stands for the Unicode part of \<^verbatim>\<open>str::to_lowercase\<close>,
  \<open>sha\<close> for SHA-256 in lower-case hexadecimal. No property assumes anything about them.
  The adapters add three records: \<open>kiosk_crypto\<close> (SHA-256 and hexadecimal), \<open>kiosk_link\<close> with
  \<open>owner_json\<close> (the caller's transport, clock and IDs, and what the owner's JSON reads as) and
  \<open>manifold_env\<close> (the rusty-manifold crates, Ed25519 and the encodings). Three laws about them are
  named hypotheses of the properties that need them: \<open>crypto_ok\<close> (a digest has 32 bytes and its
  hexadecimal text is lower-case and determines it), \<open>review_enters_peer\<close> (an applied review enters
  the proposed peer into the accepted ones and removes none) and \<open>host_records\<close> (the runtime host
  applies a request identity once and keeps it over a restart). The samples satisfy all three.

  Bounds. Revisions and sequence numbers saturate or are checked at \<^verbatim>\<open>u64::MAX\<close> as in the code;
  properties that need room say so (a strictly ordered event log needs fewer than \<^verbatim>\<open>u64::MAX\<close>
  events). There is no fuel: every definition is structurally recursive.

  Not modelled. The local Hub service, the command-line tools, the other adapters that talk to
  device owners, onboarding, the provider catalog and the simulator.
\<close>

end
